(* ===== verification/Prelude.thy ===== *)
theory Prelude
  imports Main "HOL-Library.AList"
begin

text \<open>
  What the components share: identifiers and instants, the error classes of
  \<^verbatim>\<open>libs/shared/src/errors/base.error.ts\<close>, the outcome of a request handler, and the database
  tables. A table is an association list from primary keys to rows, in the order a scan returns
  them; theorems quantify over it, so they hold for every scan order. The operations are the
  queries the services issue: lookup by primary key, \<^verbatim>\<open>findFirst\<close> with a condition,
  \<^verbatim>\<open>update\<close>, \<^verbatim>\<open>updateMany\<close>, \<^verbatim>\<open>create\<close> and \<^verbatim>\<open>delete\<close>. The locale
  \<open>table_store\<close> states the laws the services rely on and is interpreted on these operations;
  the locale \<open>status_machine\<close> turns one-step facts about a status column into facts about runs.
\<close>

named_theorems handler_defs "definitions of request handlers, for unfolding in proofs about them"

section \<open>Identifiers, instants, errors\<close>

type_synonym id = string

text \<open>Milliseconds since the epoch, the time value of a \<^verbatim>\<open>Date\<close>.\<close>

type_synonym instant = int

datatype app_error =
    NotFoundError string
  | ValidationError string
  | BadRequestError string
  | ConflictError string
  | ForbiddenError string
  | UnauthorizedError string
  | InternalError string
  | DatabaseError string
  | RuntimeError string
  | GoneError string

fun statusCode :: "app_error \<Rightarrow> int" where
  "statusCode (NotFoundError m) = 404"
| "statusCode (ValidationError m) = 422"
| "statusCode (BadRequestError m) = 400"
| "statusCode (ConflictError m) = 409"
| "statusCode (ForbiddenError m) = 403"
| "statusCode (UnauthorizedError m) = 401"
| "statusCode (InternalError m) = 500"
| "statusCode (DatabaseError m) = 500"
| "statusCode (RuntimeError m) = 500"
| "statusCode (GoneError m) = 410"

text \<open>
  The exceptions of the framework with the same statuses are the same values; \<open>GoneError\<close> is the
  framework's \<^verbatim>\<open>GoneException\<close>.

  A handler returns its result or the error it throws, with the state it leaves: what was written
  before a throw stays written unless the writes were in a transaction.
\<close>

type_synonym ('s, 'a) outcome = "(app_error + 'a) \<times> 's"

definition transaction :: "('s \<Rightarrow> ('s, 'a) outcome) \<Rightarrow> 's \<Rightarrow> ('s, 'a) outcome" where
  "transaction f s = (case f s of (Inl e, _) \<Rightarrow> (Inl e, s) | (Inr x, t) \<Rightarrow> (Inr x, t))"

lemma transaction_error: "fst (transaction f s) = Inl e \<Longrightarrow> snd (transaction f s) = s"
  by (auto simp: transaction_def split: prod.splits sum.splits)

lemma transaction_Inr: "transaction f s = (Inr x, t) \<longleftrightarrow> f s = (Inr x, t)"
  by (auto simp: transaction_def split: prod.splits sum.splits)

definition is_error :: "(app_error + 'a) \<Rightarrow> bool" where
  "is_error r = (case r of Inl e \<Rightarrow> True | Inr x \<Rightarrow> False)"

lemma is_error_simps [simp]: "is_error (Inl e)" "\<not> is_error (Inr x)"
  by (simp_all add: is_error_def)

section \<open>Fields of request bodies\<close>

text \<open>An optional and nullable field: one that is left out keeps the column.\<close>

datatype 'a field = Undef | Null | Val 'a

fun patch_field :: "'a field \<Rightarrow> 'a option \<Rightarrow> 'a option" where
  "patch_field Undef old = old"
| "patch_field Null old = None"
| "patch_field (Val x) old = Some x"

section \<open>Lists\<close>

lemma list_find_Some: "List.find P xs = Some x \<Longrightarrow> x \<in> set xs \<and> P x"
  by (auto simp: find_Some_iff)

text \<open>\<^verbatim>\<open>[...new Set(xs)]\<close>.\<close>

definition first_occurrences :: "'a list \<Rightarrow> 'a list" where
  "first_occurrences xs = rev (remdups (rev xs))"

lemma set_first_occurrences [simp]: "set (first_occurrences xs) = set xs"
  by (simp add: first_occurrences_def)

lemma distinct_first_occurrences [simp]: "distinct (first_occurrences xs)"
  by (simp add: first_occurrences_def)

text \<open>What every call of a run keeps holds at its end.\<close>

lemma fold_keeps: "P s \<Longrightarrow> (\<And>c s. P s \<Longrightarrow> P (step c s)) \<Longrightarrow> P (fold step calls s)"
  by (induction calls arbitrary: s) simp_all

section \<open>Tables\<close>

type_synonym 'r table = "(id \<times> 'r) list"

definition tbl_get :: "id \<Rightarrow> 'r table \<Rightarrow> 'r option" where
  "tbl_get i t = map_of t i"

text \<open>\<^verbatim>\<open>findFirst\<close> with the primary key and further conditions on the row.\<close>

definition tbl_get_where :: "id \<Rightarrow> ('r \<Rightarrow> bool) \<Rightarrow> 'r table \<Rightarrow> 'r option" where
  "tbl_get_where i P t = (case tbl_get i t of None \<Rightarrow> None | Some r \<Rightarrow> if P r then Some r else None)"

definition tbl_find :: "(id \<Rightarrow> 'r \<Rightarrow> bool) \<Rightarrow> 'r table \<Rightarrow> (id \<times> 'r) option" where
  "tbl_find P t = List.find (\<lambda>(i, r). P i r) t"

definition tbl_all :: "(id \<Rightarrow> 'r \<Rightarrow> bool) \<Rightarrow> 'r table \<Rightarrow> (id \<times> 'r) list" where
  "tbl_all P t = filter (\<lambda>(i, r). P i r) t"

definition tbl_count :: "(id \<Rightarrow> 'r \<Rightarrow> bool) \<Rightarrow> 'r table \<Rightarrow> nat" where
  "tbl_count P t = length (tbl_all P t)"

definition tbl_update :: "id \<Rightarrow> ('r \<Rightarrow> 'r) \<Rightarrow> 'r table \<Rightarrow> 'r table" where
  "tbl_update i f t = map (\<lambda>(j, r). (j, if j = i then f r else r)) t"

definition tbl_update_many :: "(id \<Rightarrow> 'r \<Rightarrow> bool) \<Rightarrow> ('r \<Rightarrow> 'r) \<Rightarrow> 'r table \<Rightarrow> 'r table" where
  "tbl_update_many P f t = map (\<lambda>(j, r). (j, if P j r then f r else r)) t"

definition tbl_insert :: "id \<Rightarrow> 'r \<Rightarrow> 'r table \<Rightarrow> 'r table" where
  "tbl_insert i r t = t @ [(i, r)]"

definition tbl_delete_many :: "(id \<Rightarrow> 'r \<Rightarrow> bool) \<Rightarrow> 'r table \<Rightarrow> 'r table" where
  "tbl_delete_many P t = filter (\<lambda>(i, r). \<not> P i r) t"

definition tbl_ids :: "'r table \<Rightarrow> id list" where
  "tbl_ids t = map fst t"

definition fresh :: "id \<Rightarrow> 'r table \<Rightarrow> bool" where
  "fresh i t = (i \<notin> set (tbl_ids t))"

text \<open>
  A loop of \<^verbatim>\<open>create\<close> calls in a transaction; \<open>ids\<close> are the identifiers the rows draw, and
  the loop fails when one of them is taken.
\<close>

fun insert_all :: "id list \<Rightarrow> 'r list \<Rightarrow> 'r table \<Rightarrow> 'r table option" where
  "insert_all ids [] t = Some t"
| "insert_all [] (r # rs) t = None"
| "insert_all (i # ids) (r # rs) t = (if fresh i t then insert_all ids rs (tbl_insert i r t) else None)"

locale table_store =
  fixes get :: "id \<Rightarrow> 't \<Rightarrow> 'r option"
    and update :: "id \<Rightarrow> ('r \<Rightarrow> 'r) \<Rightarrow> 't \<Rightarrow> 't"
    and update_many :: "(id \<Rightarrow> 'r \<Rightarrow> bool) \<Rightarrow> ('r \<Rightarrow> 'r) \<Rightarrow> 't \<Rightarrow> 't"
    and insert :: "id \<Rightarrow> 'r \<Rightarrow> 't \<Rightarrow> 't"
    and delete_many :: "(id \<Rightarrow> 'r \<Rightarrow> bool) \<Rightarrow> 't \<Rightarrow> 't"
  assumes get_update: "get j (update i f t) = (if j = i then map_option f (get i t) else get j t)"
    and get_update_many:
      "get j (update_many P f t) = map_option (\<lambda>r. if P j r then f r else r) (get j t)"
    and get_insert: "get j t \<noteq> None \<Longrightarrow> get j (insert i r t) = get j t"
    and get_insert_new: "get i t = None \<Longrightarrow> get j (insert i r t) = (if j = i then Some r else get j t)"
    and get_delete_kept: "get j t = Some r \<Longrightarrow> \<not> P j r \<Longrightarrow> get j (delete_many P t) = Some r"
begin

lemma get_update_same: "get i t = Some r \<Longrightarrow> get i (update i f t) = Some (f r)"
  by (simp add: get_update)

lemma get_update_other: "j \<noteq> i \<Longrightarrow> get j (update i f t) = get j t"
  by (simp add: get_update)

lemma update_keeps_keys: "get j (update i f t) = None \<longleftrightarrow> get j t = None"
  by (simp add: get_update)

text \<open>A predicate that the changed row keeps holds of every row after the update.\<close>

lemma update_invariant:
  assumes "\<And>j r. get j t = Some r \<Longrightarrow> Q j r" and "\<And>r. get i t = Some r \<Longrightarrow> Q i (f r)"
  shows "get j (update i f t) = Some r \<Longrightarrow> Q j r"
  using assms by (auto simp: get_update split: if_splits)

lemma update_many_invariant:
  assumes "\<And>j r. get j t = Some r \<Longrightarrow> Q j r" and "\<And>j r. get j t = Some r \<Longrightarrow> P j r \<Longrightarrow> Q j (f r)"
  shows "get j (update_many P f t) = Some r \<Longrightarrow> Q j r"
  using assms by (auto simp: get_update_many split: if_splits)

text \<open>Updating a row and updating it back is the identity on it.\<close>

lemma update_update_same: "get i t = Some r \<Longrightarrow> g (f r) = r \<Longrightarrow> get i (update i g (update i f t)) = Some r"
  by (simp add: get_update)

end

lemma map_of_map_row:
  "map_of (map (\<lambda>(j, r). (j, f j r)) t) k = map_option (f k) (map_of t k)"
  by (induction t) auto

lemma tbl_get_insert:
  "tbl_get j (tbl_insert i r t) = (case tbl_get j t of None \<Rightarrow> if j = i then Some r else None | Some x \<Rightarrow> Some x)"
  by (auto simp: tbl_get_def tbl_insert_def map_add_def split: option.splits)

lemma tbl_get_delete:
  "tbl_get j t = Some r \<Longrightarrow> \<not> P j r \<Longrightarrow> tbl_get j (tbl_delete_many P t) = Some r"
  by (induction t) (auto simp: tbl_get_def tbl_delete_many_def split: if_splits)

interpretation tbl: table_store tbl_get tbl_update tbl_update_many tbl_insert tbl_delete_many
proof unfold_locales
  show "tbl_get j (tbl_update i f t) = (if j = i then map_option f (tbl_get i t) else tbl_get j t)"
    for i j f and t :: "'r table"
    by (cases "j = i") (simp_all add: tbl_get_def tbl_update_def
        map_of_map_row[of "\<lambda>j r. if j = i then f r else r"] option.map_ident)
  show "tbl_get j (tbl_update_many P f t) = map_option (\<lambda>r. if P j r then f r else r) (tbl_get j t)"
    for j P f and t :: "'r table"
    by (simp add: tbl_get_def tbl_update_many_def map_of_map_row[of "\<lambda>j r. if P j r then f r else r"])
qed (auto simp: tbl_get_insert tbl_get_delete split: option.splits)

lemmas tbl_laws [simp] = tbl.get_update tbl.get_update_many

lemma tbl_get_where_Some [simp]: "tbl_get_where i P t = Some r \<longleftrightarrow> tbl_get i t = Some r \<and> P r"
  by (auto simp: tbl_get_where_def split: option.splits)

lemma tbl_get_where_None: "tbl_get_where i P t = None \<longleftrightarrow> (\<forall>r. tbl_get i t = Some r \<longrightarrow> \<not> P r)"
  by (auto simp: tbl_get_where_def split: option.splits)

lemma tbl_find_Some: "tbl_find P t = Some (i, r) \<Longrightarrow> (i, r) \<in> set t \<and> P i r"
  by (auto simp: tbl_find_def find_Some_iff dest: nth_mem)

lemma tbl_find_None: "tbl_find P t = None \<longleftrightarrow> (\<forall>(i, r) \<in> set t. \<not> P i r)"
  by (auto simp: tbl_find_def find_None_iff)

lemma fresh_get: "fresh i t \<longleftrightarrow> tbl_get i t = None"
  by (simp add: fresh_def tbl_ids_def tbl_get_def map_of_eq_None_iff)

lemma tbl_count_zero: "tbl_count P t = 0 \<longleftrightarrow> (\<forall>(i, r) \<in> set t. \<not> P i r)"
  by (auto simp: tbl_count_def tbl_all_def filter_empty_conv)

lemma tbl_find_append: "tbl_find P (t @ u) = (case tbl_find P t of None \<Rightarrow> tbl_find P u | Some x \<Rightarrow> Some x)"
  by (induction t) (auto simp: tbl_find_def)

lemma tbl_find_single: "tbl_find P [(i, r)] = (if P i r then Some (i, r) else None)"
  by (simp add: tbl_find_def)

lemma tbl_update_append: "tbl_update i f (t @ u) = tbl_update i f t @ tbl_update i f u"
  by (simp add: tbl_update_def)

lemma tbl_update_fresh: "fresh i t \<Longrightarrow> tbl_update i f t = t"
  by (induction t) (auto simp: tbl_update_def fresh_def tbl_ids_def)

lemma tbl_ids_update_many [simp]: "tbl_ids (tbl_update_many P f t) = tbl_ids t"
  by (induction t) (auto simp: tbl_ids_def tbl_update_many_def)

lemma tbl_ids_update [simp]: "tbl_ids (tbl_update i f t) = tbl_ids t"
  by (induction t) (auto simp: tbl_ids_def tbl_update_def)

lemma tbl_ids_insert [simp]: "tbl_ids (tbl_insert i r t) = tbl_ids t @ [i]"
  by (simp add: tbl_ids_def tbl_insert_def)

lemma tbl_all_append: "tbl_all P (t @ u) = tbl_all P t @ tbl_all P u"
  by (simp add: tbl_all_def)

lemma tbl_ids_delete_many: "distinct (tbl_ids t) \<Longrightarrow> distinct (tbl_ids (tbl_delete_many P t))"
  by (induction t) (auto simp: tbl_ids_def tbl_delete_many_def)

lemma insert_all_Some:
  assumes "insert_all ids rs t = Some u"
  shows "u = t @ zip ids rs \<and> length rs \<le> length ids \<and> (distinct (tbl_ids t) \<longrightarrow> distinct (tbl_ids u))"
  using assms
proof (induction ids rs t rule: insert_all.induct)
  case (3 i ids r rs t)
  then have i: "fresh i t" and "insert_all ids rs (tbl_insert i r t) = Some u" by (auto split: if_splits)
  with 3 have u: "u = tbl_insert i r t @ zip ids rs" "length rs \<le> length ids" and
    d: "distinct (tbl_ids (tbl_insert i r t)) \<longrightarrow> distinct (tbl_ids u)" by blast+
  moreover have "distinct (tbl_ids t) \<Longrightarrow> distinct (tbl_ids (tbl_insert i r t))" using i by (simp add: tbl_insert_def fresh_def tbl_ids_def)
  ultimately have "distinct (tbl_ids t) \<longrightarrow> distinct (tbl_ids u)" using d by blast
  then show ?case using u by (simp add: tbl_insert_def)
qed auto

lemma set_tbl_update: "x \<in> set (tbl_update i f t) \<longleftrightarrow> (\<exists>j r. (j, r) \<in> set t \<and> x = (j, if j = i then f r else r))"
  unfolding tbl_update_def by (simp only: set_map image_iff Bex_def split_paired_Ex prod.case)

lemma set_tbl_update_many: "x \<in> set (tbl_update_many P f t) \<longleftrightarrow> (\<exists>j r. (j, r) \<in> set t \<and> x = (j, if P j r then f r else r))"
  unfolding tbl_update_many_def by (simp only: set_map image_iff Bex_def split_paired_Ex prod.case)

lemma tbl_get_mem: "tbl_get i t = Some r \<Longrightarrow> (i, r) \<in> set t"
  by (simp add: tbl_get_def map_of_SomeD)

section \<open>Status columns\<close>

text \<open>
  Every stateful service has a row with a status and handlers that may move it. The interface says
  that no handler moves the status of an existing row other than along an edge of \<open>edge\<close>;
  \<open>run\<close> is any sequence of handler calls.
\<close>

locale status_machine =
  fixes status_of :: "'s \<Rightarrow> id \<Rightarrow> 'st option"
    and step :: "'e \<Rightarrow> 's \<Rightarrow> 's"
    and edge :: "'st \<Rightarrow> 'st \<Rightarrow> bool"
  assumes step_edge:
    "status_of s i = Some a \<Longrightarrow> \<exists>b. status_of (step e s) i = Some b \<and> (b = a \<or> edge a b)"
begin

lemma run_edges:
  "status_of s i = Some a \<Longrightarrow> \<exists>b. status_of (fold step es s) i = Some b \<and> edge\<^sup>*\<^sup>* a b"
proof (induction es arbitrary: s a)
  case (Cons e es)
  from step_edge[OF Cons.prems, of e] obtain b
    where b: "status_of (step e s) i = Some b" "b = a \<or> edge a b" by blast
  from Cons.IH[OF b(1)] obtain c where c: "status_of (fold step es (step e s)) i = Some c" "edge\<^sup>*\<^sup>* b c"
    by blast
  from b(2) c(2) have "edge\<^sup>*\<^sup>* a c" by (auto intro: converse_rtranclp_into_rtranclp)
  then show ?case using c(1) by auto
qed auto

lemma terminal_stays:
  assumes "\<And>b. \<not> edge a b" and "status_of s i = Some a"
  shows "status_of (fold step es s) i = Some a"
proof -
  from run_edges[OF assms(2)] obtain b where b: "status_of (fold step es s) i = Some b" "edge\<^sup>*\<^sup>* a b"
    by blast
  from b(2) assms(1) have "b = a" by (auto elim: converse_rtranclpE)
  then show ?thesis using b(1) by simp
qed

text \<open>A set of statuses closed under the edges is never left.\<close>

lemma closed_stays:
  assumes "\<And>b c. b \<in> A \<Longrightarrow> edge b c \<Longrightarrow> c \<in> A" and "status_of s i = Some a" and "a \<in> A"
  shows "\<exists>b \<in> A. status_of (fold step es s) i = Some b"
proof -
  from run_edges[OF assms(2)] obtain b where b: "status_of (fold step es s) i = Some b" "edge\<^sup>*\<^sup>* a b"
    by blast
  from b(2) have "b \<in> A" using assms(1,3) by (induction rule: rtranclp_induct) auto
  then show ?thesis using b(1) by blast
qed

text \<open>A status that only one edge enters is reached through the source of that edge.\<close>

lemma reached_through:
  assumes "\<And>b. edge b c \<Longrightarrow> b = d" and "status_of s i = Some a" and "a \<noteq> c"
    and "status_of (fold step es s) i = Some c"
  shows "edge\<^sup>*\<^sup>* a d"
proof -
  from run_edges[OF assms(2), of es] assms(4) have "edge\<^sup>*\<^sup>* a c" by auto
  then show ?thesis using assms(1,3) by (auto elim: rtranclp.cases)
qed

text \<open>And the run passes through the source of that edge.\<close>

lemma visited_before:
  assumes "\<And>b. edge b c \<Longrightarrow> b = d" and "status_of s i = Some a" and "a \<noteq> c"
  shows "status_of (fold step es s) i = Some c \<Longrightarrow>
    \<exists>es1 es2. es = es1 @ es2 \<and> status_of (fold step es1 s) i = Some d"
proof (induction es rule: rev_induct)
  case (snoc e es)
  obtain b where b: "status_of (fold step es s) i = Some b" using run_edges[OF assms(2)] by blast
  from step_edge[OF b, of e] snoc.prems have "c = b \<or> edge b c" by auto
  then show ?case
  proof
    assume "c = b"
    then obtain es1 es2 where "es = es1 @ es2" "status_of (fold step es1 s) i = Some d"
      using snoc.IH b by blast
    then show ?thesis by (intro exI[of _ es1] exI[of _ "es2 @ [e]"]) simp
  next
    assume "edge b c"
    then show ?thesis using assms(1) b by blast
  qed
qed (use assms in auto)

end

end
