(* ===== verification/JsNumber.thy ===== *)
theory JsNumber
  imports Prelude Complex_Main
begin

text \<open>
  The \<^verbatim>\<open>number\<close> type of the language: IEEE 754 double precision, written over the rationals.
  \<open>fl\<close> rounds a rational to the nearest double (ties to even, 53 significant bits, subnormals
  below \<open>2 powi (- 1022)\<close>), \<open>to_num\<close> adds the overflow to the infinities, and the arithmetic
  operators and the \<^verbatim>\<open>Math\<close> functions the services call are built from them. The sign of zero
  is not represented: the only operation that could see it is a division by zero, and a zero
  divisor is taken to be positive.
  The lemmas show that rounding is monotone, idempotent, exact on 53-bit significands and within
  half a unit in the last place, and the locale \<open>rounding\<close> states what the payroll code relies on.
\<close>

section \<open>Rounding a rational to the nearest double\<close>

fun bit_len :: "nat \<Rightarrow> nat" where
  "bit_len n = (if n = 0 then 0 else Suc (bit_len (n div 2)))"

declare bit_len.simps [simp del]

definition ilog2 :: "rat \<Rightarrow> int" where
  "ilog2 q =
     (let (a, b) = quotient_of q;
          k = int (bit_len (nat a)) - int (bit_len (nat b))
      in if 2 powi k \<le> q then k else k - 1)"

definition round_even :: "rat \<Rightarrow> int" where
  "round_even x =
     (let n = \<lfloor>x\<rfloor>; r = x - of_int n
      in if r < 1 / 2 then n
         else if 1 / 2 < r then n + 1
         else if even n then n else n + 1)"

definition ulp_exp :: "rat \<Rightarrow> int" where
  "ulp_exp q = max (- 1074) (ilog2 \<bar>q\<bar> - 52)"

definition fl :: "rat \<Rightarrow> rat" where
  "fl q = (if q = 0 then 0
           else of_int (round_even (q / 2 powi ulp_exp q)) * 2 powi ulp_exp q)"

lemma bit_len_bounds:
  "0 < n \<Longrightarrow> 0 < bit_len n \<and> 2 ^ (bit_len n - 1) \<le> n \<and> n < 2 ^ bit_len n"
proof (induction n rule: bit_len.induct)
  case (1 n)
  show ?case
  proof (cases "n = 1")
    case True
    then show ?thesis by (simp add: bit_len.simps)
  next
    case False
    with 1 have IH: "0 < bit_len (n div 2)" "2 ^ (bit_len (n div 2) - 1) \<le> n div 2"
      "n div 2 < 2 ^ bit_len (n div 2)" by auto
    have eq: "bit_len n = Suc (bit_len (n div 2))"
      using "1.prems" by (simp add: bit_len.simps [of n])
    obtain j where j: "bit_len (n div 2) = Suc j" using IH(1) by (cases "bit_len (n div 2)") auto
    show ?thesis using IH unfolding eq j by auto
  qed
qed

lemma ilog2_bounds:
  assumes "0 < q"
  shows "2 powi ilog2 q \<le> q" and "q < 2 powi (ilog2 q + 1)"
proof -
  obtain a b where ab: "quotient_of q = (a, b)" by (cases "quotient_of q")
  have bpos: "0 < b" using ab by (rule quotient_of_denom_pos)
  have q: "q = of_int a / of_int b" using ab by (rule quotient_of_div)
  have apos: "0 < a" using assms bpos unfolding q by (simp add: zero_less_divide_iff)
  let ?k = "int (bit_len (nat a)) - int (bit_len (nat b))"
  define la where "la = bit_len (nat a)"
  define lb where "lb = bit_len (nat b)"
  have A: "0 < la" "2 ^ (la - 1) \<le> nat a" "nat a < 2 ^ la"
    using bit_len_bounds [of "nat a"] apos by (auto simp: la_def)
  have B: "0 < lb" "2 ^ (lb - 1) \<le> nat b" "nat b < 2 ^ lb"
    using bit_len_bounds [of "nat b"] bpos by (auto simp: lb_def)
  have a1: "(2::int) ^ (la - 1) \<le> a" "a < 2 ^ la"
    using A apos by (metis nat_le_iff of_nat_numeral of_nat_power zle_int nat_0_le order_less_imp_le)
      (use A(3) apos in \<open>simp add: nat_less_iff\<close>)
  have b1: "(2::int) ^ (lb - 1) \<le> b" "b < 2 ^ lb"
    using B bpos by (metis nat_le_iff of_nat_numeral of_nat_power zle_int nat_0_le order_less_imp_le)
      (use B(3) bpos in \<open>simp add: nat_less_iff\<close>)
  have ra: "(2::rat) ^ (la - 1) \<le> of_int a" "of_int a < (2::rat) ^ la"
    using a1 by (metis of_int_le_iff of_int_numeral of_int_power)
      (metis a1(2) of_int_less_iff of_int_numeral of_int_power)
  have rb: "(2::rat) ^ (lb - 1) \<le> of_int b" "of_int b < (2::rat) ^ lb"
    using b1 by (metis of_int_le_iff of_int_numeral of_int_power)
      (metis b1(2) of_int_less_iff of_int_numeral of_int_power)
  have low: "(2::rat) powi (?k - 1) \<le> q"
  proof -
    have e: "int la - int lb - 1 = int (la - 1) - int lb" using A(1) by simp
    have "(2::rat) powi (?k - 1) = 2 ^ (la - 1) / 2 ^ lb"
      unfolding la_def[symmetric] lb_def[symmetric] e by (simp add: power_int_diff)
    also have "\<dots> \<le> q" unfolding q
      using ra rb apos bpos by (intro frac_le) (auto intro: less_imp_le)
    finally show ?thesis .
  qed
  have high: "q < (2::rat) powi (?k + 1)"
  proof -
    have e: "int la - int lb + 1 = int la - int (lb - 1)" using B(1) by simp
    have "q < 2 ^ la / 2 ^ (lb - 1)" unfolding q
      using ra rb apos bpos by (intro frac_less) (auto intro: less_imp_le)
    also have "\<dots> = (2::rat) powi (?k + 1)"
      unfolding la_def[symmetric] lb_def[symmetric] e by (simp add: power_int_diff)
    finally show ?thesis .
  qed
  show "2 powi ilog2 q \<le> q" "q < 2 powi (ilog2 q + 1)"
    using low high by (auto simp: ilog2_def ab Let_def)
qed

lemma ilog2_less:
  assumes "0 < q" and "q < 2 powi n"
  shows "ilog2 q < n"
proof (rule ccontr)
  assume "\<not> ilog2 q < n"
  then have "(2::rat) powi n \<le> 2 powi ilog2 q" by (intro power_int_increasing) auto
  with ilog2_bounds(1)[OF assms(1)] assms(2) show False by simp
qed

lemma ilog2_mono:
  assumes "0 < x" and "x \<le> y"
  shows "ilog2 x \<le> ilog2 y"
proof -
  have "x < 2 powi (ilog2 y + 1)" using ilog2_bounds(2)[of y] assms by simp
  from ilog2_less[OF assms(1) this] show ?thesis by simp
qed

subsection \<open>Round half to even\<close>

lemma round_even_of_int [simp]: "round_even (of_int n) = n"
  by (simp add: round_even_def)

lemma round_even_error: "\<bar>of_int (round_even x) - x\<bar> \<le> 1 / 2"
  using of_int_floor_le[of x] floor_correct[of x]
  by (auto simp: round_even_def Let_def abs_le_iff)

lemma round_even_bounds: "\<lfloor>x\<rfloor> \<le> round_even x" "round_even x \<le> \<lfloor>x\<rfloor> + 1"
  by (auto simp: round_even_def Let_def)

lemma round_even_mono:
  assumes "x \<le> y"
  shows "round_even x \<le> round_even y"
proof (cases "\<lfloor>x\<rfloor> = \<lfloor>y\<rfloor>")
  case True
  then show ?thesis using assms by (auto simp: round_even_def Let_def)
next
  case False
  with floor_mono[OF assms] have "\<lfloor>x\<rfloor> + 1 \<le> \<lfloor>y\<rfloor>" by simp
  then show ?thesis using round_even_bounds(2)[of x] round_even_bounds(1)[of y] by linarith
qed

lemma round_even_minus: "round_even (- x) = - round_even x"
proof (cases "x = of_int \<lfloor>x\<rfloor>")
  case True
  then show ?thesis by (metis of_int_minus round_even_of_int)
next
  case False
  then have f: "\<lfloor>- x\<rfloor> = - \<lfloor>x\<rfloor> - 1"
    by (smt (verit, best) ceiling_def ceiling_altdef)
  show ?thesis unfolding round_even_def Let_def f by auto
qed

lemma round_even_le_int: "x \<le> of_int n \<Longrightarrow> round_even x \<le> n"
  using round_even_mono[of x "of_int n"] by simp

lemma round_even_ge_int: "of_int n \<le> x \<Longrightarrow> n \<le> round_even x"
  using round_even_mono[of "of_int n" x] by simp


subsection \<open>Rounding to 53 significant bits\<close>

lemma fl_zero [simp]: "fl 0 = 0"
  by (simp add: fl_def)

lemma fl_minus: "fl (- q) = - fl q"
  by (simp add: fl_def ulp_exp_def round_even_minus)

lemma ulp_exp_minus [simp]: "ulp_exp (- q) = ulp_exp q"
  by (simp add: ulp_exp_def)

lemma pow2_pos [simp]: "0 < (2::rat) powi n"
  by (simp add: zero_less_power_int)

lemma pow2_nat: "0 \<le> n \<Longrightarrow> (2::rat) powi n = of_int (2 ^ nat n)"
  by (simp add: power_int_def)

lemma pow2_mono: "m \<le> n \<Longrightarrow> (2::rat) powi m \<le> 2 powi n"
  by (intro power_int_increasing) auto

lemma pow2_diff: "(2::rat) powi (m - n) = 2 powi m / 2 powi n"
  by (simp add: power_int_diff)

lemma fl_nonneg: "0 \<le> q \<Longrightarrow> 0 \<le> fl q"
  using round_even_ge_int[of 0 "q / 2 powi ulp_exp q"]
  by (auto simp: fl_def intro!: mult_nonneg_nonneg less_imp_le[OF pow2_pos])

text \<open>A number whose significand fits in 53 bits is its own rounding.\<close>

lemma fl_exact_less:
  assumes "\<bar>m\<bar> < 2 ^ 53" and "- 1074 \<le> e"
  shows "fl (of_int m * 2 powi e) = of_int m * 2 powi e"
proof (cases "m = 0")
  case False
  let ?q = "of_int m * (2::rat) powi e"
  have q0: "?q \<noteq> 0" using False pow2_pos[of e] by auto
  have "(of_int \<bar>m\<bar> :: rat) < of_int (2 ^ 53)" using assms(1) by (simp only: of_int_less_iff)
  then have "of_int \<bar>m\<bar> * (2::rat) powi e < 2 powi 53 * 2 powi e"
    using pow2_pos[of e] by (intro mult_strict_right_mono) auto
  then have "\<bar>?q\<bar> < 2 powi (e + 53)"
    by (simp add: abs_mult power_int_add)
  then have "ilog2 \<bar>?q\<bar> < e + 53" using ilog2_less q0 by force
  then have u: "ulp_exp ?q \<le> e" using assms(2) by (simp add: ulp_exp_def)
  have "?q / 2 powi ulp_exp ?q = of_int m * 2 powi (e - ulp_exp ?q)"
    by (simp add: pow2_diff)
  also have "\<dots> = of_int (m * 2 ^ nat (e - ulp_exp ?q))"
    using u by (simp add: pow2_nat)
  finally have "round_even (?q / 2 powi ulp_exp ?q) = m * 2 ^ nat (e - ulp_exp ?q)"
    by (simp only: round_even_of_int)
  then have "fl ?q = of_int (m * 2 ^ nat (e - ulp_exp ?q)) * 2 powi ulp_exp ?q"
    using q0 by (simp only: fl_def if_False)
  also have "\<dots> = of_int m * (2 powi (e - ulp_exp ?q) * 2 powi ulp_exp ?q)"
    using u by (simp add: pow2_nat)
  also have "\<dots> = ?q" by (simp add: power_int_add[symmetric])
  finally show ?thesis .
qed simp

lemma fl_exact:
  assumes "\<bar>m\<bar> \<le> 2 ^ 53" and "- 1074 \<le> e"
  shows "fl (of_int m * 2 powi e) = of_int m * 2 powi e"
proof (cases "\<bar>m\<bar> < 2 ^ 53")
  case False
  with assms(1) have m: "\<bar>m\<bar> = 2 ^ 53" by simp
  then have "m = 2 ^ 53 \<or> m = - (2 ^ 53)" by linarith
  then have "\<exists>m'. m = 2 * m' \<and> \<bar>m'\<bar> < 2 ^ 53"
    by (elim disjE) (rule exI[of _ "2 ^ 52"], simp, rule exI[of _ "- (2 ^ 52)"], simp)
  then obtain m' where m': "m = 2 * m'" "\<bar>m'\<bar> < 2 ^ 53" by blast
  have "of_int m * (2::rat) powi e = of_int m' * 2 powi (e + 1)"
    by (simp add: m' power_int_add)
  then show ?thesis using fl_exact_less[OF m'(2), of "e + 1"] assms(2) by simp
qed (use assms fl_exact_less in auto)

lemma fl_of_int: "\<bar>n\<bar> \<le> 2 ^ 53 \<Longrightarrow> fl (of_int n) = of_int n"
  using fl_exact[of n 0] by simp

lemma fl_pow2: "- 1074 \<le> e \<Longrightarrow> fl (2 powi e) = 2 powi e"
  using fl_exact[of 1 e] by simp

lemma fl_error: "\<bar>fl q - q\<bar> \<le> 2 powi ulp_exp q / 2"
proof (cases "q = 0")
  case False
  let ?u = "(2::rat) powi ulp_exp q"
  have "fl q - q = (of_int (round_even (q / ?u)) - q / ?u) * ?u"
    using False by (simp add: fl_def left_diff_distrib)
  then have "\<bar>fl q - q\<bar> = \<bar>of_int (round_even (q / ?u)) - q / ?u\<bar> * ?u"
    by (simp add: abs_mult)
  also have "\<dots> \<le> 1 / 2 * ?u"
    using round_even_error by (intro mult_right_mono) auto
  finally show ?thesis by simp
qed simp

lemma fl_abs_error:
  assumes "\<bar>q\<bar> < 2 powi n" and "- 1021 \<le> n"
  shows "\<bar>fl q - q\<bar> \<le> 2 powi (n - 54)"
proof (cases "q = 0")
  case False
  then have "ilog2 \<bar>q\<bar> < n" using ilog2_less[of "\<bar>q\<bar>" n] assms(1) by simp
  then have "ulp_exp q \<le> n - 53" using assms(2) by (simp add: ulp_exp_def)
  then have "(2::rat) powi ulp_exp q \<le> 2 powi (n - 53)" by (rule pow2_mono)
  moreover have "(2::rat) powi (n - 53) = 2 * 2 powi (n - 54)"
    by (simp add: power_int_add[of 2 1 "n - 54", symmetric, simplified])
  ultimately show ?thesis using fl_error[of q] by linarith
qed simp


lemma fl_significand:
  assumes "q \<noteq> 0"
  shows "\<bar>round_even (q / 2 powi ulp_exp q)\<bar> \<le> 2 ^ 53"
proof -
  let ?u = "ulp_exp q"
  have "\<bar>q\<bar> < 2 powi (ilog2 \<bar>q\<bar> + 1)" using assms ilog2_bounds(2)[of "\<bar>q\<bar>"] by simp
  also have "\<dots> \<le> 2 powi (53 + ?u)" by (intro pow2_mono) (simp add: ulp_exp_def)
  also have "\<dots> = 2 powi 53 * 2 powi ?u" by (simp add: power_int_add)
  finally have "\<bar>q / 2 powi ?u\<bar> < 2 ^ 53"
    by (simp add: abs_divide pos_divide_less_eq)
  then have "q / 2 powi ?u \<le> of_int (2 ^ 53)" "of_int (- (2 ^ 53)) \<le> q / 2 powi ?u"
    unfolding abs_less_iff of_int_minus of_int_power of_int_numeral by linarith+
  from round_even_le_int[OF this(1)] round_even_ge_int[OF this(2)] show ?thesis by linarith
qed

lemma fl_idem [simp]: "fl (fl q) = fl q"
proof (cases "q = 0")
  case False
  then show ?thesis
    using fl_exact[OF fl_significand[OF False], of "ulp_exp q"] by (simp add: fl_def[of q] ulp_exp_def)
qed simp

lemma fl_ge_pow2:
  assumes "2 powi n \<le> q" and "- 1074 \<le> n"
  shows "2 powi n \<le> fl q"
proof -
  have q: "0 < q" using assms(1) pow2_pos[of n] by linarith
  have n: "n \<le> ilog2 q"
    using pow2_mono[of "ilog2 q + 1" n] ilog2_bounds(2)[OF q] assms(1) by linarith
  show ?thesis
  proof (cases "ilog2 q - 52 \<le> - 1074")
    case True
    then have u: "ulp_exp q = - 1074" using q by (simp add: ulp_exp_def)
    have A: "of_int (2 ^ nat (n + 1074)) = (2::rat) powi (n - ulp_exp q)"
      using assms(2) by (simp add: u pow2_nat)
    also have "\<dots> \<le> q / 2 powi ulp_exp q"
      using assms(1) by (simp add: pow2_diff divide_right_mono)
    finally have "2 ^ nat (n + 1074) \<le> round_even (q / 2 powi ulp_exp q)"
      by (rule round_even_ge_int)
    then have "of_int (2 ^ nat (n + 1074)) * 2 powi ulp_exp q \<le> fl q"
      using q by (simp only: fl_def) (simp add: mult_right_mono flip: of_int_le_iff)
    moreover have "of_int (2 ^ nat (n + 1074)) * (2::rat) powi ulp_exp q = 2 powi n"
      unfolding A by (simp add: power_int_add[symmetric])
    ultimately show ?thesis by simp
  next
    case False
    then have u: "ulp_exp q = ilog2 q - 52" using q by (simp add: ulp_exp_def)
    have "of_int (2 ^ 52) = (2::rat) powi (ilog2 q - ulp_exp q)"
      by (simp add: u pow2_nat)
    also have "\<dots> \<le> q / 2 powi ulp_exp q"
      using ilog2_bounds(1)[OF q] by (simp add: pow2_diff divide_right_mono)
    finally have "2 ^ 52 \<le> round_even (q / 2 powi ulp_exp q)" by (rule round_even_ge_int)
    then have "of_int (2 ^ 52) * 2 powi ulp_exp q \<le> fl q"
      using q by (simp only: fl_def) (simp add: mult_right_mono flip: of_int_le_iff)
    moreover have "of_int (2 ^ 52) * (2::rat) powi ulp_exp q = 2 powi ilog2 q"
      by (simp add: u pow2_diff)
    ultimately show ?thesis using pow2_mono[OF n] by linarith
  qed
qed


lemma fl_le_pow2:
  assumes "0 < q" and "q \<le> 2 powi n" and "ulp_exp q \<le> n"
  shows "fl q \<le> 2 powi n"
proof -
  have "q / 2 powi ulp_exp q \<le> 2 powi (n - ulp_exp q)"
    using assms(2) by (simp add: pow2_diff divide_right_mono)
  also have "\<dots> = of_int (2 ^ nat (n - ulp_exp q))" using assms(3) by (simp add: pow2_nat)
  finally have "round_even (q / 2 powi ulp_exp q) \<le> 2 ^ nat (n - ulp_exp q)"
    by (rule round_even_le_int)
  then have "of_int (round_even (q / 2 powi ulp_exp q)) \<le> (2::rat) powi (n - ulp_exp q)"
    using assms(3) by (simp add: pow2_nat flip: of_int_le_iff)
  then have "fl q \<le> 2 powi (n - ulp_exp q) * 2 powi ulp_exp q"
    using assms(1) by (simp add: fl_def mult_right_mono)
  also have "\<dots> = 2 powi n" by (simp add: power_int_add[symmetric])
  finally show ?thesis .
qed

lemma fl_mono_pos:
  assumes "0 < x" and "x \<le> y"
  shows "fl x \<le> fl y"
proof (cases "ulp_exp x = ulp_exp y")
  case True
  have "round_even (x / 2 powi ulp_exp x) \<le> round_even (y / 2 powi ulp_exp x)"
    using assms(2) by (intro round_even_mono divide_right_mono) auto
  then show ?thesis using assms True by (simp add: fl_def mult_right_mono)
next
  case False
  have "ilog2 x \<le> ilog2 y" using assms by (rule ilog2_mono)
  with False assms have u: "ulp_exp y = ilog2 y - 52" "ulp_exp x < ulp_exp y" "ilog2 x < ilog2 y"
    by (auto simp: ulp_exp_def)
  have "x < 2 powi (ilog2 x + 1)" using assms(1) by (rule ilog2_bounds)
  also have "\<dots> \<le> 2 powi ilog2 y" using u(3) by (intro pow2_mono) simp
  finally have "fl x \<le> 2 powi ilog2 y" using u assms(1) by (intro fl_le_pow2) auto
  also have "\<dots> \<le> fl y"
    using ilog2_bounds(1)[of y] assms u by (intro fl_ge_pow2) (auto simp: ulp_exp_def)
  finally show ?thesis .
qed

lemma fl_mono: "x \<le> y \<Longrightarrow> fl x \<le> fl y"
proof -
  assume xy: "x \<le> y"
  consider "0 < x" | "x \<le> 0" "0 \<le> y" | "y < 0" by linarith
  then show ?thesis
  proof cases
    case 1
    then show ?thesis using xy by (rule fl_mono_pos)
  next
    case 2
    then show ?thesis using fl_nonneg[of "- x"] fl_nonneg[of y] by (simp add: fl_minus)
  next
    case 3
    then show ?thesis using xy fl_mono_pos[of "- y" "- x"] by (simp add: fl_minus)
  qed
qed

lemma fl_le_dbl: "x \<le> d \<Longrightarrow> fl d = d \<Longrightarrow> fl x \<le> d"
  using fl_mono[of x d] by simp

lemma fl_ge_dbl: "d \<le> x \<Longrightarrow> fl d = d \<Longrightarrow> d \<le> fl x"
  using fl_mono[of d x] by simp


subsection \<open>What the clients rely on\<close>

locale rounding =
  fixes rnd :: "rat \<Rightarrow> rat"
  assumes rnd_mono: "x \<le> y \<Longrightarrow> rnd x \<le> rnd y"
    and rnd_idem: "rnd (rnd x) = rnd x"
    and rnd_zero: "rnd 0 = 0"
begin

lemma rnd_le: "x \<le> d \<Longrightarrow> rnd d = d \<Longrightarrow> rnd x \<le> d"
  using rnd_mono[of x d] by simp

lemma rnd_ge: "d \<le> x \<Longrightarrow> rnd d = d \<Longrightarrow> d \<le> rnd x"
  using rnd_mono[of d x] by simp

lemma rnd_nonneg: "0 \<le> x \<Longrightarrow> 0 \<le> rnd x"
  using rnd_ge[of 0 x] rnd_zero by simp

lemma rnd_diff_le: "0 \<le> b \<Longrightarrow> rnd a = a \<Longrightarrow> rnd (a - b) \<le> a"
  by (rule rnd_le) auto

end

interpretation fl_rounding: rounding fl
  by unfold_locales (auto intro: fl_mono)

section \<open>Numbers and their operators\<close>

datatype jsnum = Fin rat | PInf | NInf | NaN

text \<open>The first power of two past the largest double.\<close>

definition overflow_bound :: rat where
  "overflow_bound = 2 ^ 1024"

definition to_num :: "rat \<Rightarrow> jsnum" where
  "to_num q =
     (let r = fl q
      in if overflow_bound \<le> r then PInf else if r \<le> - overflow_bound then NInf else Fin r)"

fun js_add :: "jsnum \<Rightarrow> jsnum \<Rightarrow> jsnum" where
  "js_add NaN b = NaN"
| "js_add a NaN = NaN"
| "js_add PInf NInf = NaN"
| "js_add NInf PInf = NaN"
| "js_add PInf b = PInf"
| "js_add a PInf = PInf"
| "js_add NInf b = NInf"
| "js_add a NInf = NInf"
| "js_add (Fin a) (Fin b) = to_num (a + b)"

fun js_neg :: "jsnum \<Rightarrow> jsnum" where
  "js_neg NaN = NaN"
| "js_neg PInf = NInf"
| "js_neg NInf = PInf"
| "js_neg (Fin a) = Fin (- a)"

definition js_sub :: "jsnum \<Rightarrow> jsnum \<Rightarrow> jsnum" where
  "js_sub a b = js_add a (js_neg b)"

fun inf_of_sign :: "rat \<Rightarrow> jsnum" where
  "inf_of_sign s = (if 0 < s then PInf else if s < 0 then NInf else NaN)"

fun js_mul :: "jsnum \<Rightarrow> jsnum \<Rightarrow> jsnum" where
  "js_mul NaN b = NaN"
| "js_mul a NaN = NaN"
| "js_mul (Fin a) (Fin b) = to_num (a * b)"
| "js_mul (Fin a) PInf = inf_of_sign a"
| "js_mul (Fin a) NInf = inf_of_sign (- a)"
| "js_mul PInf (Fin b) = inf_of_sign b"
| "js_mul NInf (Fin b) = inf_of_sign (- b)"
| "js_mul PInf PInf = PInf"
| "js_mul NInf NInf = PInf"
| "js_mul a b = NInf"

fun js_div :: "jsnum \<Rightarrow> jsnum \<Rightarrow> jsnum" where
  "js_div NaN b = NaN"
| "js_div a NaN = NaN"
| "js_div (Fin a) (Fin b) = (if b = 0 then inf_of_sign a else to_num (a / b))"
| "js_div (Fin a) b = Fin 0"
| "js_div PInf (Fin b) = (if 0 \<le> b then PInf else NInf)"
| "js_div NInf (Fin b) = (if 0 \<le> b then NInf else PInf)"
| "js_div a b = NaN"

fun js_lt :: "jsnum \<Rightarrow> jsnum \<Rightarrow> bool" where
  "js_lt NaN b = False"
| "js_lt a NaN = False"
| "js_lt (Fin a) (Fin b) = (a < b)"
| "js_lt NInf b = (b \<noteq> NInf)"
| "js_lt a PInf = (a \<noteq> PInf)"
| "js_lt a b = False"

definition js_le :: "jsnum \<Rightarrow> jsnum \<Rightarrow> bool" where
  "js_le a b = (a \<noteq> NaN \<and> b \<noteq> NaN \<and> (js_lt a b \<or> a = b))"

definition js_max :: "jsnum \<Rightarrow> jsnum \<Rightarrow> jsnum" where
  "js_max a b = (if a = NaN \<or> b = NaN then NaN else if js_lt a b then b else a)"

definition js_min :: "jsnum \<Rightarrow> jsnum \<Rightarrow> jsnum" where
  "js_min a b = (if a = NaN \<or> b = NaN then NaN else if js_lt b a then b else a)"

text \<open>\<^verbatim>\<open>Math.round\<close> rounds halves towards plus infinity; its results are exact.\<close>

fun js_round :: "jsnum \<Rightarrow> jsnum" where
  "js_round (Fin a) = Fin (of_int \<lfloor>a + 1 / 2\<rfloor>)"
| "js_round a = a"

fun js_floor :: "jsnum \<Rightarrow> jsnum" where
  "js_floor (Fin a) = Fin (of_int \<lfloor>a\<rfloor>)"
| "js_floor a = a"

fun js_ceil :: "jsnum \<Rightarrow> jsnum" where
  "js_ceil (Fin a) = Fin (of_int \<lceil>a\<rceil>)"
| "js_ceil a = a"

fun js_is_finite :: "jsnum \<Rightarrow> bool" where
  "js_is_finite (Fin a) = True"
| "js_is_finite a = False"

text \<open>A number is falsy in a condition when it is zero or \<^verbatim>\<open>NaN\<close>.\<close>

definition js_truthy :: "jsnum \<Rightarrow> bool" where
  "js_truthy a = (a \<noteq> NaN \<and> a \<noteq> Fin 0)"

definition js_or :: "jsnum \<Rightarrow> jsnum \<Rightarrow> jsnum" where
  "js_or a b = (if js_truthy a then a else b)"

abbreviation num_of_nat :: "nat \<Rightarrow> jsnum" where
  "num_of_nat n \<equiv> Fin (of_nat n)"

abbreviation num_of_int :: "int \<Rightarrow> jsnum" where
  "num_of_int n \<equiv> Fin (of_int n)"

subsection \<open>Doubles are closed under the operators\<close>

fun is_double :: "jsnum \<Rightarrow> bool" where
  "is_double (Fin a) = (fl a = a \<and> \<bar>a\<bar> < overflow_bound)"
| "is_double a = True"

lemma overflow_bound_pos [simp]: "0 < overflow_bound"
  by (simp add: overflow_bound_def)

lemma is_double_to_num [simp]: "is_double (to_num q)"
  by (auto simp: to_num_def Let_def)

lemma is_double_add [simp]: "is_double (js_add a b)"
  by (induction a b rule: js_add.induct) auto

lemma is_double_mul [simp]: "is_double (js_mul a b)"
  by (induction a b rule: js_mul.induct) auto

lemma is_double_div [simp]: "is_double (js_div a b)"
  by (induction a b rule: js_div.induct) auto

lemma is_double_max: "is_double a \<Longrightarrow> is_double b \<Longrightarrow> is_double (js_max a b)"
  by (simp add: js_max_def)

text \<open>Results below the overflow threshold are finite.\<close>

lemma overflow_bound_large: "2 ^ 60 < overflow_bound"
  unfolding overflow_bound_def by (rule power_strict_increasing) auto

lemma to_num_small:
  assumes "\<bar>q\<bar> \<le> 2 ^ 60"
  shows "to_num q = Fin (fl q)"
proof -
  have d: "fl (2 ^ 60) = 2 ^ 60" using fl_pow2[of 60] by simp
  have "q \<le> 2 ^ 60" "- q \<le> 2 ^ 60" using assms by linarith+
  then have "fl q \<le> 2 ^ 60" "fl (- q) \<le> 2 ^ 60" using d by (blast intro: fl_le_dbl)+
  then show ?thesis
    using overflow_bound_large by (simp add: to_num_def Let_def fl_minus)
qed

lemma to_num_of_int: "\<bar>n\<bar> \<le> 2 ^ 53 \<Longrightarrow> to_num (of_int n) = Fin (of_int n)"
proof -
  assume n: "\<bar>n\<bar> \<le> 2 ^ 53"
  then have "(of_int \<bar>n\<bar> :: rat) \<le> of_int (2 ^ 53)" by (simp only: of_int_le_iff)
  then have "\<bar>of_int n :: rat\<bar> \<le> 2 ^ 60" by simp
  then show ?thesis using n by (simp only: to_num_small fl_of_int)
qed

lemma to_num_zero [simp]: "to_num 0 = Fin 0"
  using to_num_of_int[of 0] by simp

lemma to_num_one [simp]: "to_num 1 = Fin 1"
  using to_num_of_int[of 1] by simp

lemma to_num_numeral [simp]: "numeral k \<le> (2::int) ^ 53 \<Longrightarrow> to_num (numeral k) = Fin (numeral k)"
  using to_num_of_int[of "numeral k"] by simp

lemma to_num_neg_numeral [simp]:
  "numeral k \<le> (2::int) ^ 53 \<Longrightarrow> to_num (- numeral k) = Fin (- numeral k)"
  using to_num_of_int[of "- numeral k"] by simp

lemma to_num_nonneg: "0 \<le> q \<Longrightarrow> to_num q = PInf \<or> (\<exists>r \<ge> 0. to_num q = Fin r)"
  using fl_nonneg[of q] overflow_bound_large by (auto simp: to_num_def Let_def)

lemma to_num_Fin: "to_num q = Fin r \<Longrightarrow> r = fl q"
  by (auto simp: to_num_def Let_def split: if_splits)

lemma to_num_not_NaN [simp]: "to_num q \<noteq> NaN" "NaN \<noteq> to_num q"
  by (auto simp: to_num_def Let_def)

text \<open>A number that is not negative: not \<^verbatim>\<open>NaN\<close> and at least zero.\<close>

fun js_nonneg :: "jsnum \<Rightarrow> bool" where
  "js_nonneg (Fin a) = (0 \<le> a)"
| "js_nonneg PInf = True"
| "js_nonneg a = False"

lemma js_nonneg_to_num: "0 \<le> q \<Longrightarrow> js_nonneg (to_num q)"
  using to_num_nonneg[of q] by auto

lemma js_nonneg_add: "js_nonneg a \<Longrightarrow> js_nonneg b \<Longrightarrow> js_nonneg (js_add a b)"
  by (induction a b rule: js_add.induct) (auto intro: js_nonneg_to_num)

lemma js_nonneg_max0: "a \<noteq> NaN \<Longrightarrow> js_nonneg (js_max (Fin 0) a)"
  by (cases a) (auto simp: js_max_def)

lemma js_max0_nonneg [simp]: "js_nonneg a \<Longrightarrow> js_max (Fin 0) a = a"
  by (cases a) (auto simp: js_max_def)

lemma js_max_Fin [simp]: "js_max (Fin a) (Fin b) = Fin (max a b)"
  by (auto simp: js_max_def max_def)

lemma js_min_Fin [simp]: "js_min (Fin a) (Fin b) = Fin (min a b)"
  by (auto simp: js_min_def min_def)

lemma js_le_Fin [simp]: "js_le (Fin a) (Fin b) \<longleftrightarrow> a \<le> b"
  by (auto simp: js_le_def)

lemma js_sub_Fin [simp]: "js_sub (Fin a) (Fin b) = to_num (a - b)"
  by (simp add: js_sub_def)

section \<open>Evaluation\<close>

text \<open>
  Code equations for evaluating concrete inputs: whole numbers up to \<open>2 ^ 53\<close> are doubles, and the
  length of a binary numeral is read off its digits.
\<close>

definition int_len :: "int \<Rightarrow> int" where
  "int_len a = int (bit_len (nat a))"

lemma int_len_code [code]:
  "int_len 0 = 0"
  "int_len (Int.Pos num.One) = 1"
  "int_len (Int.Pos (num.Bit0 n)) = int_len (Int.Pos n) + 1"
  "int_len (Int.Pos (num.Bit1 n)) = int_len (Int.Pos n) + 1"
proof -
  have d: "numeral (num.Bit0 n) div (2::nat) = numeral n" "numeral (num.Bit1 n) div (2::nat) = numeral n" for n by simp_all
  show "int_len 0 = 0" "int_len (Int.Pos num.One) = 1" by (simp_all add: int_len_def bit_len.simps)
  show "int_len (Int.Pos (num.Bit0 n)) = int_len (Int.Pos n) + 1" "int_len (Int.Pos (num.Bit1 n)) = int_len (Int.Pos n) + 1"
    unfolding int_len_def by (subst bit_len.simps, simp only: d Int.Pos_def nat_numeral, simp)+
qed

lemma ilog2_code [code]:
  "ilog2 q = (case quotient_of q of (a, b) \<Rightarrow>
     (let k = int_len a - int_len b in if 2 powi k \<le> q then k else k - 1))"
  by (simp add: ilog2_def int_len_def Let_def split: prod.splits)

lemma fl_code [code]:
  "fl q = (if q = of_int \<lfloor>q\<rfloor> \<and> \<bar>\<lfloor>q\<rfloor>\<bar> \<le> 9007199254740992 then q
           else of_int (round_even (q / 2 powi ulp_exp q)) * 2 powi ulp_exp q)"
proof (cases "q = of_int \<lfloor>q\<rfloor> \<and> \<bar>\<lfloor>q\<rfloor>\<bar> \<le> 9007199254740992")
  case True
  then show ?thesis using fl_of_int[of "\<lfloor>q\<rfloor>"] by simp
next
  case False
  then have "q \<noteq> 0" by auto
  then show ?thesis by (simp only: fl_def False if_False)
qed

lemma to_num_code [code]:
  "to_num q = (if \<bar>q\<bar> \<le> 1152921504606846976 then Fin (fl q)
     else (let r = fl q in if overflow_bound \<le> r then PInf else if r \<le> - overflow_bound then NInf else Fin r))"
  using to_num_small[of q] by (simp add: to_num_def)

end
