(* ===== verification/Money.thy ===== *)
theory Money
  imports JsNumber
begin

text \<open>
  Rounding of amounts to two decimals, \<^verbatim>\<open>round2dp\<close> of
  \<^verbatim>\<open>payroll/utils/round2dp.ts\<close>, on doubles. \<open>cents k\<close> is the double nearest to \<open>k\<close>
  hundredths. The lemmas show that the function is monotone, that in the range of payable
  amounts its result is a whole number of cents within half a cent of its argument, and that it
  is idempotent and removes the error of additions and subtractions of amounts.
\<close>

definition round2dp :: "jsnum \<Rightarrow> jsnum" where
  "round2dp n = js_div (js_round (js_mul n (Fin 100))) (Fin 100)"

definition cents :: "int \<Rightarrow> jsnum" where
  "cents k = Fin (fl (of_int k / 100))"

section \<open>Whole cents\<close>

lemma fl_err: "\<bar>q\<bar> < 2 ^ n \<Longrightarrow> \<bar>fl q - q\<bar> \<le> 2 ^ n / 2 ^ 54"
  using fl_abs_error[of q "int n"] by (simp add: pow2_diff)

lemma cents_near:
  assumes "\<bar>k\<bar> \<le> 2 ^ 46"
  shows "\<bar>fl (of_int k / 100) - of_int k / 100\<bar> \<le> 1 / 2 ^ 14"
proof -
  have "\<bar>of_int k :: rat\<bar> \<le> of_int (2 ^ 46)" using assms by (simp only: of_int_abs[symmetric] of_int_le_iff)
  then have "\<bar>of_int k / 100 :: rat\<bar> < 2 ^ 40" by (simp add: abs_divide)
  from fl_err[OF this] show ?thesis by simp
qed

lemma round2dp_near:
  assumes "\<bar>q - of_int k / 100\<bar> \<le> 1 / 1000" and "\<bar>k\<bar> \<le> 2 ^ 46"
  shows "round2dp (Fin q) = cents k"
proof -
  have k: "\<bar>of_int k :: rat\<bar> \<le> 2 ^ 46"
    using assms(2) by (metis of_int_abs of_int_le_iff of_int_numeral of_int_power)
  have q100: "\<bar>q * 100 - of_int k\<bar> \<le> 1 / 10" using assms(1) by (simp add: abs_le_iff field_simps)
  then have b: "\<bar>q * 100\<bar> < 2 ^ 47"
    using abs_triangle_ineq2[of "q * 100" "of_int k"] k by simp
  then have m: "js_mul (Fin q) (Fin 100) = Fin (fl (q * 100))" by (simp add: to_num_small)
  have "\<bar>fl (q * 100) - q * 100\<bar> \<le> 1 / 128" using fl_err[OF b] by simp
  then have "\<bar>fl (q * 100) - of_int k\<bar> \<le> 1 / 4" using q100 by linarith
  then have "\<lfloor>fl (q * 100) + 1 / 2\<rfloor> = k" unfolding floor_eq_iff by linarith
  moreover have "\<bar>of_int k / 100 :: rat\<bar> \<le> 2 ^ 60" using k by (simp add: abs_divide)
  ultimately show ?thesis unfolding round2dp_def m cents_def by (simp add: to_num_small)
qed

lemma round2dp_cents: "\<bar>k\<bar> \<le> 2 ^ 46 \<Longrightarrow> round2dp (cents k) = cents k"
  unfolding cents_def[of k] using round2dp_near cents_near[of k]
  by (fastforce simp: cents_def)

text \<open>In the range of amounts every result is a number of cents, at most half a cent away.\<close>

lemma round2dp_range:
  assumes "\<bar>q\<bar> \<le> 2 ^ 39"
  shows "\<exists>k. round2dp (Fin q) = cents k \<and> \<bar>k\<bar> \<le> 2 ^ 46 \<and> \<bar>of_int k - q * 100\<bar> \<le> 1 / 2 + 1 / 128"
proof -
  have b: "\<bar>q * 100\<bar> < 2 ^ 47" using assms by (simp add: abs_mult)
  then have m: "js_mul (Fin q) (Fin 100) = Fin (fl (q * 100))" by (simp add: to_num_small)
  let ?k = "\<lfloor>fl (q * 100) + 1 / 2\<rfloor>"
  have e: "\<bar>fl (q * 100) - q * 100\<bar> \<le> 1 / 128" using fl_err[OF b] by simp
  have d: "\<bar>of_int ?k - fl (q * 100)\<bar> \<le> 1 / 2" by linarith
  have kq: "\<bar>of_int ?k - q * 100\<bar> \<le> 1 / 2 + 1 / 128" using e d by linarith
  have "\<bar>q * 100\<bar> \<le> 2 ^ 39 * 100" using assms by (simp add: abs_mult)
  then have kb: "\<bar>of_int ?k :: rat\<bar> \<le> 2 ^ 46" 
    using kq abs_triangle_ineq2[of "of_int ?k" "q * 100"] by simp
  then have ki: "\<bar>?k\<bar> \<le> 2 ^ 46" by (metis of_int_abs of_int_le_iff of_int_numeral of_int_power)
  have "\<bar>of_int ?k / 100 :: rat\<bar> \<le> 2 ^ 60" using kb by (simp add: abs_divide)
  then have "round2dp (Fin q) = cents ?k" unfolding round2dp_def m cents_def by (simp add: to_num_small)
  then show ?thesis using ki kq by blast
qed

lemma round2dp_idem: "\<bar>q\<bar> \<le> 2 ^ 39 \<Longrightarrow> round2dp (round2dp (Fin q)) = round2dp (Fin q)"
  using round2dp_range[of q] round2dp_cents by auto

lemma cents_mono: "j \<le> k \<Longrightarrow> js_le (cents j) (cents k)"
  by (auto simp: cents_def intro!: fl_mono divide_right_mono)

lemma cents_nonneg: "0 \<le> k \<Longrightarrow> js_nonneg (cents k)"
  by (auto simp: cents_def intro!: fl_nonneg)

lemma cents_hundred: "\<bar>n\<bar> \<le> 2 ^ 53 \<Longrightarrow> cents (100 * n) = num_of_int n"
  by (simp add: cents_def fl_of_int)

section \<open>Monotonicity\<close>

lemma js_le_refl [simp]: "a \<noteq> NaN \<Longrightarrow> js_le a a"
  by (simp add: js_le_def)

lemma js_le_trans: "js_le a b \<Longrightarrow> js_le b c \<Longrightarrow> js_le a c"
  by (cases a; cases b; cases c) (auto simp: js_le_def)

lemma js_le_PInf [simp]: "js_le a PInf \<longleftrightarrow> a \<noteq> NaN"
  by (cases a) (auto simp: js_le_def)

lemma js_le_NInf [simp]: "js_le NInf a \<longleftrightarrow> a \<noteq> NaN"
  by (cases a) (auto simp: js_le_def)

lemma to_num_mono: "a \<le> b \<Longrightarrow> js_le (to_num a) (to_num b)"
  using fl_mono[of a b] overflow_bound_pos by (auto simp: to_num_def Let_def)

lemma js_le_cases:
  assumes "js_le a b"
  obtains "a = NInf" "b \<noteq> NaN" | "b = PInf" "a \<noteq> NaN" | p q where "a = Fin p" "b = Fin q" "p \<le> q"
  using assms by (cases a; cases b) (auto simp: js_le_def)

lemma js_round_mono: "js_le a b \<Longrightarrow> js_le (js_round a) (js_round b)"
  by (erule js_le_cases) (cases a; cases b; simp add: floor_mono)+

lemma js_mul_pos_mono: "0 < c \<Longrightarrow> js_le a b \<Longrightarrow> js_le (js_mul a (Fin c)) (js_mul b (Fin c))"
  by (erule js_le_cases) (cases a; cases b; simp add: to_num_mono)+

lemma js_div_pos_mono: "0 < c \<Longrightarrow> js_le a b \<Longrightarrow> js_le (js_div a (Fin c)) (js_div b (Fin c))"
  by (erule js_le_cases) (cases a; cases b; simp add: to_num_mono divide_right_mono)+

lemma round2dp_mono: "js_le a b \<Longrightarrow> js_le (round2dp a) (round2dp b)"
  unfolding round2dp_def by (intro js_div_pos_mono js_round_mono js_mul_pos_mono) auto

lemma js_nonneg_iff: "js_nonneg a \<longleftrightarrow> js_le (Fin 0) a"
  by (cases a) (auto simp: js_le_def)

lemma round2dp_int: "\<bar>n\<bar> \<le> 2 ^ 39 \<Longrightarrow> round2dp (num_of_int n) = num_of_int n"
  using round2dp_cents[of "100 * n"] cents_hundred[of n] by simp

lemma round2dp_zero [simp]: "round2dp (Fin 0) = Fin 0"
  using round2dp_int[of 0] by simp

lemma round2dp_one [simp]: "round2dp (Fin 1) = Fin 1"
  using round2dp_int[of 1] by simp

lemma round2dp_numeral [simp]:
  "numeral n \<le> (2::int) ^ 39 \<Longrightarrow> round2dp (Fin (numeral n)) = Fin (numeral n)"
  using round2dp_int[of "numeral n"] by simp

lemma round2dp_nonneg: "js_nonneg a \<Longrightarrow> js_nonneg (round2dp a)"
  using round2dp_mono[of "Fin 0" a] by (simp add: js_nonneg_iff)

lemma round2dp_NaN_iff [simp]: "round2dp a = NaN \<longleftrightarrow> a = NaN"
proof (cases a)
  case (Fin q)
  have "js_le a a" using Fin by simp
  from round2dp_mono[OF this] show ?thesis using Fin by (auto simp: js_le_def)
qed (auto simp: round2dp_def)

text \<open>Rounding a difference never exceeds a minuend that is already a number of cents.\<close>

lemma round2dp_sub_le:
  assumes "g = cents k" and "\<bar>k\<bar> \<le> 2 ^ 46" and "js_nonneg d"
  shows "js_le (round2dp (js_max (Fin 0) (js_sub g d))) (js_max (Fin 0) g)"
proof -
  have "js_le (js_sub g d) g"
  proof (cases d)
    case (Fin x)
    let ?g = "fl (of_int k / 100)"
    have "\<bar>of_int k :: rat\<bar> \<le> 2 ^ 46"
      using assms(2) by (metis of_int_abs of_int_le_iff of_int_numeral of_int_power)
    then have "\<bar>?g\<bar> \<le> 2 ^ 60" 
      using cents_near[OF assms(2)] abs_triangle_ineq2[of ?g "of_int k / 100"] by (simp add: abs_divide)
    then have "?g < overflow_bound" using overflow_bound_large by simp
    moreover have "fl (?g - x) \<le> ?g" using assms(3) Fin by (intro fl_rounding.rnd_diff_le) auto
    ultimately show ?thesis unfolding assms(1) cents_def Fin js_sub_Fin
      by (auto simp: to_num_def Let_def)
  qed (use assms in \<open>auto simp: cents_def js_sub_def\<close>)
  then have "js_le (js_max (Fin 0) (js_sub g d)) (js_max (Fin 0) g)"
    by (cases "js_sub g d"; cases g) (auto simp: js_max_def js_le_def)
  from round2dp_mono[OF this] have "js_le (round2dp (js_max (Fin 0) (js_sub g d))) (round2dp (js_max (Fin 0) g))" .
  moreover have "round2dp (js_max (Fin 0) g) = js_max (Fin 0) g"
  proof (cases "0 \<le> k")
    case True
    then have "js_max (Fin 0) g = g" using cents_nonneg[of k] assms(1) by simp
    then show ?thesis using assms round2dp_cents by simp
  next
    case False
    then have "fl (of_int k / 100) \<le> 0" using fl_le_dbl[of "of_int k / 100" 0] by simp
    then show ?thesis by (simp add: assms(1) cents_def max_def)
  qed
  ultimately show ?thesis by simp
qed

section \<open>Sums of amounts\<close>

text \<open>\<^verbatim>\<open>xs.reduce((s, x) => s + x, 0)\<close>.\<close>

definition js_sum :: "jsnum list \<Rightarrow> jsnum" where
  "js_sum xs = fold (\<lambda>x s. js_add s x) xs (Fin 0)"

lemma js_sum_Nil [simp]: "js_sum [] = Fin 0"
  by (simp add: js_sum_def)

lemma js_sum_snoc [simp]: "js_sum (xs @ [x]) = js_add (js_sum xs) x"
  by (simp add: js_sum_def)

text \<open>
  Adding \<open>n\<close> amounts whose total stays below \<open>2 ^ p\<close> makes an error of at most
  \<open>n * 2 ^ p / 2 ^ 53\<close>.
\<close>

lemma js_sum_error:
  assumes "\<forall>k \<in> set ks. 0 \<le> k" and "of_int (sum_list ks) / 100 + 1 \<le> (2 :: rat) ^ p"
    and "of_nat (length ks) * (2 :: rat) ^ p \<le> 2 ^ 43" and "p \<le> 39"
  shows "\<exists>q. js_sum (map cents ks) = Fin q
    \<and> \<bar>q - of_int (sum_list ks) / 100\<bar> \<le> of_nat (length ks) * (2 ^ p / 2 ^ 53)"
  using assms(1-3)
proof (induction ks rule: rev_induct)
  case (snoc k ks)
  define e :: rat where "e = 2 ^ p / 2 ^ 53"
  let ?n = "of_nat (length ks) :: rat"
  have half: "(2 :: rat) ^ p / 2 ^ 54 = e / 2" by (simp add: e_def)
  let ?S = "of_int (sum_list ks) / 100 :: rat" and ?k = "of_int k / 100 :: rat"
  have k: "0 \<le> k" and S: "0 \<le> sum_list ks" using snoc.prems(1) by (auto intro: sum_list_nonneg)
  have Sk: "of_int (sum_list (ks @ [k])) / 100 = ?S + ?k" by (simp add: add_divide_distrib)
  have bound: "?S + ?k + 1 \<le> 2 ^ p" using snoc.prems(2) unfolding Sk .
  have nonneg: "0 \<le> ?k" "0 \<le> ?S" using k S by auto
  have n1: "(?n + 1) * 2 ^ p \<le> 2 ^ 43" using snoc.prems(3) by (simp add: algebra_simps)
  have "?S + 1 \<le> 2 ^ p" using bound nonneg by linarith
  moreover have "?n * 2 ^ p \<le> 2 ^ 43"
  proof -
    have "?n * 2 ^ p \<le> (?n + 1) * 2 ^ p" by (intro mult_right_mono) auto
    then show ?thesis using n1 by linarith
  qed
  ultimately obtain q where q: "js_sum (map cents ks) = Fin q" "\<bar>q - ?S\<bar> \<le> ?n * e"
    using snoc.IH snoc.prems(1) by (auto simp: e_def)
  have c: "\<bar>fl ?k - ?k\<bar> \<le> e / 2" using fl_err[of ?k p] bound nonneg unfolding half by simp
  have "(?n + 1) * e = ((?n + 1) * 2 ^ p) / 2 ^ 53" by (simp add: e_def)
  also have "\<dots> \<le> 2 ^ 43 / 2 ^ 53" using n1 by (rule divide_right_mono) simp
  finally have ne: "(?n + 1) * e \<le> 1 / 2 ^ 10" by simp
  have e: "0 \<le> e" by (simp add: e_def)
  have sum: "(?n + 1) * e = ?n * e + e" by (simp add: distrib_right)
  then have "?n * e + e / 2 \<le> 1 / 2 ^ 10" using ne e by linarith
  then have ne': "?n * e + e / 2 < 1" by (rule le_less_trans) simp
  have two: "1 \<le> (2 :: rat) ^ p" by simp
  have "\<bar>q + fl ?k\<bar> < 2 ^ p" using q(2) c ne' e bound nonneg two unfolding abs_less_iff
    by (intro conjI) linarith+
  moreover have "(2 :: rat) ^ p \<le> 2 ^ 60" using assms(4) by (intro power_increasing) auto
  ultimately have "js_add (Fin q) (cents k) = Fin (fl (q + fl ?k))" "\<bar>fl (q + fl ?k) - (q + fl ?k)\<bar> \<le> e / 2"
    using fl_err[of "q + fl ?k" p] unfolding half by (simp_all add: cents_def to_num_small)
  moreover have "\<bar>fl (q + fl ?k) - (?S + ?k)\<bar> \<le> (?n + 1) * e"
  proof -
    show ?thesis using calculation(2) q(2) c sum by linarith
  qed
  ultimately show ?case using q(1) unfolding Sk e_def[symmetric] by (simp add: add.commute)
qed auto

text \<open>So a rounded sum is exact to the cent, for example for 4096 amounts of up to a billion in total.\<close>

lemma round2dp_js_sum:
  assumes "\<forall>k \<in> set ks. 0 \<le> k" and "of_int (sum_list ks) / 100 + 1 \<le> (2 :: rat) ^ p"
    and "of_nat (length ks) * (2 :: rat) ^ p \<le> 2 ^ 43" and "p \<le> 39"
  shows "round2dp (js_sum (map cents ks)) = cents (sum_list ks)"
proof -
  obtain q where q: "js_sum (map cents ks) = Fin q"
    "\<bar>q - of_int (sum_list ks) / 100\<bar> \<le> of_nat (length ks) * (2 ^ p / 2 ^ 53)"
    using js_sum_error[OF assms] by blast
  have "of_nat (length ks) * ((2 :: rat) ^ p / 2 ^ 53) \<le> 1 / 1000" using assms(3) by (simp add: field_simps)
  then have "\<bar>q - of_int (sum_list ks) / 100\<bar> \<le> 1 / 1000" using q(2) by linarith
  moreover have "(2 :: rat) ^ p \<le> 2 ^ 39" using assms(4) by (intro power_increasing) auto
  then have "of_int (sum_list ks) \<le> (of_int (2 ^ 46) :: rat)" using assms(2) by simp
  then have "\<bar>sum_list ks\<bar> \<le> 2 ^ 46" using assms(1) by (simp only: of_int_le_iff) (simp add: sum_list_nonneg)
  ultimately show ?thesis using round2dp_near q(1) by simp
qed

section \<open>Numbers close to hundredths\<close>

text \<open>\<open>near x k e\<close>: the number \<open>x\<close> is \<open>k\<close> hundredths up to an error of \<open>e\<close>.\<close>

definition near :: "jsnum \<Rightarrow> int \<Rightarrow> rat \<Rightarrow> bool" where
  "near x k e \<longleftrightarrow> (\<exists>q. x = Fin q \<and> \<bar>q - of_int k / 100\<bar> \<le> e)"

lemma of_int_abs_le: "\<bar>k\<bar> \<le> n \<Longrightarrow> \<bar>of_int k :: rat\<bar> \<le> of_int n"
  by (metis of_int_abs of_int_le_iff)

lemma near_cents: "\<bar>k\<bar> \<le> 2 ^ 26 \<Longrightarrow> near (cents k) k (1 / 2 ^ 30)"
proof -
  assume "\<bar>k\<bar> \<le> 2 ^ 26"
  then have "\<bar>of_int k :: rat\<bar> \<le> of_int (2 ^ 26)" by (rule of_int_abs_le)
  then have "\<bar>of_int k / 100 :: rat\<bar> < 2 ^ 24" by (simp add: abs_divide)
  from fl_err[OF this] show ?thesis unfolding near_def cents_def by fastforce
qed

lemma near_int: "near (num_of_int n) (100 * n) 0"
  by (simp add: near_def)

lemma near_add:
  assumes "near x a e" and "near y b f" and "\<bar>a\<bar> \<le> 2 ^ 26" and "\<bar>b\<bar> \<le> 2 ^ 26" and "e \<le> 1" and "f \<le> 1"
  shows "near (js_add x y) (a + b) (e + f + 1 / 2 ^ 30)"
proof -
  obtain q r where q: "x = Fin q" "\<bar>q - of_int a / 100\<bar> \<le> e" and r: "y = Fin r" "\<bar>r - of_int b / 100\<bar> \<le> f"
    using assms(1,2) by (auto simp: near_def)
  have ab: "\<bar>of_int a :: rat\<bar> \<le> 2 ^ 26" "\<bar>of_int b :: rat\<bar> \<le> 2 ^ 26"
    using of_int_abs_le[OF assms(3)] of_int_abs_le[OF assms(4)] by simp_all
  have qr: "\<bar>q + r - of_int (a + b) / 100\<bar> \<le> e + f" using q(2) r(2) by (simp add: add_divide_distrib abs_le_iff)
  have "\<bar>of_int (a + b) / 100 :: rat\<bar> \<le> 2097152" using ab by (simp add: abs_le_iff add_divide_distrib)
  then have "\<bar>q + r\<bar> \<le> 2097154" using qr assms(5,6) by linarith
  then have b: "\<bar>q + r\<bar> < 2 ^ 22" by simp
  have "\<bar>fl (q + r) - (q + r)\<bar> \<le> 1 / 2 ^ 30" using fl_err[OF b] by simp
  then have "\<bar>fl (q + r) - of_int (a + b) / 100\<bar> \<le> e + f + 1 / 2 ^ 30" using qr by linarith
  then show ?thesis using b q(1) r(1) by (simp add: near_def to_num_small)
qed

lemma js_neg_near: "near x a e \<Longrightarrow> near (js_neg x) (- a) e"
  by (auto simp: near_def abs_minus_commute)

lemma near_sub:
  assumes "near x a e" and "near y b f" and "\<bar>a\<bar> \<le> 2 ^ 26" and "\<bar>b\<bar> \<le> 2 ^ 26" and "e \<le> 1" and "f \<le> 1"
  shows "near (js_sub x y) (a - b) (e + f + 1 / 2 ^ 30)"
  using near_add[OF assms(1) js_neg_near[OF assms(2)]] assms(3-) by (simp add: js_sub_def)

lemma near_max0: "near x a e \<Longrightarrow> near (js_max (Fin 0) x) (max 0 a) e"
proof -
  assume "near x a e"
  then obtain q where q: "x = Fin q" "\<bar>q - of_int a / 100\<bar> \<le> e" by (auto simp: near_def)
  have "of_int (max 0 a) = (max 0 (of_int a) :: rat)" by (simp add: of_int_max)
  then show ?thesis using q by (simp add: near_def max_def abs_le_iff)
qed

lemma near_weaken: "near x a e \<Longrightarrow> e \<le> f \<Longrightarrow> near x a f"
  by (auto simp: near_def)

lemma near_neg: "near x a e \<Longrightarrow> e < 1 / 100 \<Longrightarrow> js_lt x (Fin 0) \<Longrightarrow> a \<le> 0"
proof (rule ccontr)
  assume "near x a e" and e: "e < 1 / 100" and lt: "js_lt x (Fin 0)" and "\<not> a \<le> 0"
  then obtain q where q: "x = Fin q" "\<bar>q - of_int a / 100\<bar> \<le> e" by (auto simp: near_def)
  have "1 \<le> a" using \<open>\<not> a \<le> 0\<close> by simp
  then have "(1 :: rat) \<le> of_int a" by simp
  then show False using q e lt by (simp add: abs_le_iff)
qed

lemma near_nonneg: "near x a e \<Longrightarrow> e < 1 / 100 \<Longrightarrow> \<not> js_lt x (Fin 0) \<Longrightarrow> 0 \<le> a"
proof (rule ccontr)
  assume "near x a e" and e: "e < 1 / 100" and lt: "\<not> js_lt x (Fin 0)" and "\<not> 0 \<le> a"
  then obtain q where q: "x = Fin q" "\<bar>q - of_int a / 100\<bar> \<le> e" by (auto simp: near_def)
  have "a \<le> - 1" using \<open>\<not> 0 \<le> a\<close> by simp
  then have "of_int a \<le> (- 1 :: rat)" by (simp only: of_int_le_iff[of _ "-1", simplified])
  then show False using q e lt by (simp add: abs_le_iff)
qed

text \<open>
  A column with two decimals: what it stores for a number, in hundredths. The law says that a number
  within a thousandth of a hundredth is stored as that hundredth, however ties are broken.
\<close>

locale decimal_column =
  fixes dec :: "jsnum \<Rightarrow> int"
  assumes dec_near: "\<bar>q - of_int k / 100\<bar> < 1 / 1000 \<Longrightarrow> dec (Fin q) = k"
begin

lemma dec_of_near: "near x k e \<Longrightarrow> e < 1 / 1000 \<Longrightarrow> dec x = k"
  using dec_near by (auto simp: near_def)

lemma dec_cents: "\<bar>k\<bar> \<le> 2 ^ 26 \<Longrightarrow> dec (cents k) = k"
  by (rule dec_of_near[OF near_cents]) auto

end

definition dec_round :: "jsnum \<Rightarrow> int" where
  "dec_round x = (case x of Fin q \<Rightarrow> \<lfloor>q * 100 + 1 / 2\<rfloor> | _ \<Rightarrow> 0)"

interpretation dec_round: decimal_column dec_round
proof
  fix q :: rat and k :: int
  assume "\<bar>q - of_int k / 100\<bar> < 1 / 1000"
  then have "\<bar>q * 100 - of_int k\<bar> < 1 / 10" by (simp add: abs_less_iff field_simps)
  then show "dec_round (Fin q) = k" unfolding dec_round_def by (simp add: floor_eq_iff abs_less_iff, intro conjI; linarith)
qed

end
