(* ===== verification/Calendar.thy ===== *)
theory Calendar
  imports Prelude
begin

text \<open>
  The UTC part of the language's \<^verbatim>\<open>Date\<close>: an instant is a number of milliseconds since the
  epoch, and the accessors the services use (\<^verbatim>\<open>getUTCDay\<close>, \<^verbatim>\<open>getUTCFullYear\<close>,
  \<^verbatim>\<open>getUTCMonth\<close>, \<^verbatim>\<open>getUTCDate\<close>, \<^verbatim>\<open>Date.UTC\<close>, \<^verbatim>\<open>setUTCHours(0,0,0,0)\<close>) are
  computed from the day number in the proleptic Gregorian calendar. The string
  \<^verbatim>\<open>toISOString().split('T')[0]\<close> is represented by the day number, with which it is in
  bijection. The lemmas show that the year function inverts the day-of-year function, that day
  iteration visits exactly the days of the interval, and that a range splits at a year end.
\<close>

definition msPerDay :: int where
  "msPerDay = 86400000"

definition day_of :: "instant \<Rightarrow> int" where
  "day_of t = t div msPerDay"

definition utc_midnight :: "instant \<Rightarrow> instant" where
  "utc_midnight t = day_of t * msPerDay"

definition getUTCDay :: "instant \<Rightarrow> int" where
  "getUTCDay t = (day_of t + 4) mod 7"

definition day_from_year :: "int \<Rightarrow> int" where
  "day_from_year y =
     365 * (y - 1970) + (y - 1969) div 4 - (y - 1901) div 100 + (y - 1601) div 400"

definition year_of_day :: "int \<Rightarrow> int" where
  "year_of_day d =
     (let y = 1970 + (400 * d) div 146097
      in if day_from_year (y + 1) \<le> d then y + 1
         else if d < day_from_year y then y - 1
         else y)"

definition getUTCFullYear :: "instant \<Rightarrow> int" where
  "getUTCFullYear t = year_of_day (day_of t)"

definition leap_year :: "int \<Rightarrow> bool" where
  "leap_year y = (4 dvd y \<and> (\<not> 100 dvd y \<or> 400 dvd y))"

text \<open>The day of the year on which a month (counted from 0) begins; month 12 is the next year.\<close>

definition month_starts :: "bool \<Rightarrow> int list" where
  "month_starts leap =
     (let l = (if leap then 1 else 0)
      in [0, 31, 59 + l, 90 + l, 120 + l, 151 + l, 181 + l, 212 + l, 243 + l, 273 + l, 304 + l, 334 + l])"

definition day_in_year :: "instant \<Rightarrow> int" where
  "day_in_year t = day_of t - day_from_year (getUTCFullYear t)"

definition getUTCMonth :: "instant \<Rightarrow> int" where
  "getUTCMonth t =
     int (length (filter (\<lambda>s. s \<le> day_in_year t) (month_starts (leap_year (getUTCFullYear t))))) - 1"

definition getUTCDate :: "instant \<Rightarrow> int" where
  "getUTCDate t =
     day_in_year t - month_starts (leap_year (getUTCFullYear t)) ! nat (getUTCMonth t) + 1"

text \<open>
  \<^verbatim>\<open>Date.UTC(y, m, d)\<close> with a month from 0: months outside of 0 to 11 carry into the year.
\<close>

definition date_UTC :: "int \<Rightarrow> int \<Rightarrow> int \<Rightarrow> instant" where
  "date_UTC y m d =
     (let y' = y + m div 12
      in (day_from_year y' + month_starts (leap_year y') ! nat (m mod 12) + d - 1) * msPerDay)"

definition days_in_month :: "int \<Rightarrow> int \<Rightarrow> int" where
  "days_in_month y m = (date_UTC y m 1 - date_UTC y (m - 1) 1) div msPerDay"

section \<open>Iterating over days\<close>

text \<open>
  The loop \<^verbatim>\<open>while (current <= endDate) { ...; current.setUTCDate(current.getUTCDate() + 1) }\<close>:
  the instants it visits.
\<close>

function each_day :: "instant \<Rightarrow> instant \<Rightarrow> instant list" where
  "each_day current endDate =
     (if current \<le> endDate then current # each_day (current + msPerDay) endDate else [])"
  by pat_completeness auto
termination
  by (relation "measure (\<lambda>(c, e). nat (e - c + 1))") (auto simp: msPerDay_def)

declare each_day.simps [simp del]

lemma msPerDay_pos [simp]: "0 < msPerDay" "msPerDay \<noteq> 0"
  by (simp_all add: msPerDay_def)

lemma day_of_add [simp]: "day_of (t + msPerDay) = day_of t + 1"
  by (simp add: day_of_def div_add_self2)

lemma day_of_mult [simp]: "day_of (d * msPerDay) = d"
  by (simp add: day_of_def)

lemma day_of_mono: "s \<le> t \<Longrightarrow> day_of s \<le> day_of t"
  by (simp add: day_of_def zdiv_mono1)

lemma each_day_empty [simp]: "e < c \<Longrightarrow> each_day c e = []"
  by (subst each_day.simps) simp

lemma each_day_step: "c \<le> e \<Longrightarrow> each_day c e = c # each_day (c + msPerDay) e"
  by (subst each_day.simps) simp

lemma each_day_between: "t \<in> set (each_day c e) \<Longrightarrow> c \<le> t \<and> t \<le> e"
proof (induction c e rule: each_day.induct)
  case (1 c e)
  show ?case
  proof (cases "c \<le> e")
    case True
    with "1.prems" have "t = c \<or> t \<in> set (each_day (c + msPerDay) e)" by (simp add: each_day_step)
    then have "t = c \<or> (c + msPerDay \<le> t \<and> t \<le> e)" using "1.IH"[OF True] by blast
    then show ?thesis using True msPerDay_pos(1) by linarith
  next
    case False
    with "1.prems" show ?thesis by simp
  qed
qed

lemma map_day_of_each_day:
  "map day_of (each_day (a * msPerDay) (b * msPerDay)) = [a..b]"
proof (induction "nat (b - a + 1)" arbitrary: a)
  case 0
  then have "b < a" by simp
  then show ?case by (simp add: mult_strict_right_mono)
next
  case (Suc n)
  then have ab: "a \<le> b" by simp
  then have "each_day (a * msPerDay) (b * msPerDay)
      = a * msPerDay # each_day ((a + 1) * msPerDay) (b * msPerDay)"
    by (simp add: each_day_step mult_right_mono distrib_right)
  moreover have "n = nat (b - (a + 1) + 1)" using Suc.hyps(2) by simp
  ultimately show ?case using Suc.hyps(1)[of "a + 1"] ab by (simp add: upto_rec1)
qed

text \<open>A range of days splits at any day in it.\<close>

lemma each_day_append:
  assumes "a \<le> m + 1" and "m \<le> b"
  shows "each_day (a * msPerDay) (b * msPerDay)
       = each_day (a * msPerDay) (m * msPerDay) @ each_day ((m + 1) * msPerDay) (b * msPerDay)"
  using assms
proof (induction "nat (m - a + 1)" arbitrary: a)
  case 0
  then have "a = m + 1" by simp
  then show ?case by (simp add: mult_strict_right_mono)
next
  case (Suc n)
  then have am: "a \<le> m" by simp
  have "n = nat (m - (a + 1) + 1)" using Suc.hyps(2) by simp
  from Suc.hyps(1)[OF this] am Suc.prems(2)
  have IH: "each_day ((a + 1) * msPerDay) (b * msPerDay)
      = each_day ((a + 1) * msPerDay) (m * msPerDay) @ each_day ((m + 1) * msPerDay) (b * msPerDay)"
    by simp
  have step: "each_day (a * msPerDay) (e * msPerDay) = a * msPerDay # each_day ((a + 1) * msPerDay) (e * msPerDay)"
    if "a \<le> e" for e
    using that by (simp add: each_day_step mult_right_mono distrib_right)
  show ?case using step[of b] step[of m] IH am Suc.prems(2) by simp
qed

section \<open>Years\<close>

lemma div_pred:
  fixes y n :: int
  assumes "0 < n"
  shows "y div n = (y - 1) div n + (if n dvd y then 1 else 0)"
proof -
  let ?q = "(y - 1) div n" and ?r = "(y - 1) mod n"
  have y: "y = n * ?q + (?r + 1)" using mult_div_mod_eq[of n "y - 1"] by linarith
  have r: "0 \<le> ?r" "?r < n" using assms by simp_all
  show ?thesis
  proof (cases "?r + 1 = n")
    case True
    then have "y = n * (?q + 1)" using y by (simp add: distrib_left)
    then show ?thesis using assms by (metis dvd_triv_left nonzero_mult_div_cancel_left less_irrefl)
  next
    case False
    then have d: "y div n = ?q" using y r by (intro int_div_pos_eq[where r = "?r + 1"]) auto
    have "y mod n = ?r + 1" using y r False by (intro int_mod_pos_eq[where q = ?q]) auto
    then have "\<not> n dvd y" using r by (simp add: dvd_eq_mod_eq_0)
    then show ?thesis using d by simp
  qed
qed

lemma day_from_year_step: "day_from_year (y + 1) = day_from_year y + (if leap_year y then 366 else 365)"
proof -
  have s4: "(x - 1968) div 4 = x div 4 - 492" for x :: int
    using div_mult_self1[of 4 x "- 492"] by simp
  have s100: "(x - 1900) div 100 = x div 100 - 19" for x :: int
    using div_mult_self1[of 100 x "- 19"] by simp
  have s400: "(x - 1600) div 400 = x div 400 - 4" for x :: int
    using div_mult_self1[of 400 x "- 4"] by simp
  have arg: "y + 1 - 1969 = y - 1968" "y - 1969 = (y - 1) - 1968" "y + 1 - 1901 = y - 1900"
    "y - 1901 = (y - 1) - 1900" "y + 1 - 1601 = y - 1600" "y - 1601 = (y - 1) - 1600" by simp_all
  have f4: "(y + 1 - 1969) div 4 = (y - 1969) div 4 + (if 4 dvd y then 1 else 0)"
    unfolding arg s4 using div_pred[of 4 y] by linarith
  have f100: "(y + 1 - 1901) div 100 = (y - 1901) div 100 + (if 100 dvd y then 1 else 0)"
    unfolding arg s100 using div_pred[of 100 y] by linarith
  have f400: "(y + 1 - 1601) div 400 = (y - 1601) div 400 + (if 400 dvd y then 1 else 0)"
    unfolding arg s400 using div_pred[of 400 y] by linarith
  have "day_from_year (y + 1) = day_from_year y + 365 + (if 4 dvd y then 1 else 0)
      - (if 100 dvd y then 1 else 0) + (if 400 dvd y then 1 else 0)"
    unfolding day_from_year_def f4 f100 f400 by (simp del: if_split)
  moreover have "400 dvd y \<Longrightarrow> 100 dvd y" "100 dvd y \<Longrightarrow> 4 dvd y"
    using dvd_trans[of 100 400 y] dvd_trans[of 4 100 y] by simp_all
  ultimately show ?thesis unfolding leap_year_def
    by (cases "400 dvd y"; cases "100 dvd y"; cases "4 dvd y") simp_all
qed

lemma day_from_year_bounds:
  "146097 * (y - 1970) - 800 \<le> 400 * day_from_year y" "400 * day_from_year y \<le> 146097 * (y - 1970) + 800"
proof -
  have div_le: "n * (x div n) \<le> x \<and> x < n * (x div n) + n" if "0 < n" for x n :: int
    using that mult_div_mod_eq[of n x] pos_mod_bound[of n x] pos_mod_sign[of n x] by linarith
  note b = div_le[of 4 "y - 1969"] div_le[of 100 "y - 1901"] div_le[of 400 "y - 1601"]
  show "146097 * (y - 1970) - 800 \<le> 400 * day_from_year y" using b unfolding day_from_year_def by simp
  show "400 * day_from_year y \<le> 146097 * (y - 1970) + 800" using b unfolding day_from_year_def by simp
qed

lemma year_of_day_correct:
  "day_from_year (year_of_day d) \<le> d" "d < day_from_year (year_of_day d + 1)"
proof -
  define q where "q = (400 * d) div 146097"
  define y where "y = 1970 + q"
  have e: "146097 * (y - 1970) \<le> 400 * d" "400 * d < 146097 * (y - 1970) + 146097"
    unfolding y_def q_def using mult_div_mod_eq[of 146097 "400 * d"] pos_mod_bound[of 146097 "400 * d"]
      pos_mod_sign[of 146097 "400 * d"] by simp_all
  have lo: "day_from_year (y - 1) \<le> d" using day_from_year_bounds(2)[of "y - 1"] e by simp
  have hi: "d < day_from_year (y + 1 + 1)" using day_from_year_bounds(1)[of "y + 1 + 1"] e by simp
  show "day_from_year (year_of_day d) \<le> d" "d < day_from_year (year_of_day d + 1)"
    using lo hi by (auto simp: year_of_day_def y_def[symmetric] q_def[symmetric] Let_def add.assoc)
qed

lemma day_from_year_mono: "y \<le> z \<Longrightarrow> day_from_year y \<le> day_from_year z"
proof (induction "nat (z - y)" arbitrary: z)
  case (Suc n)
  then have "n = nat (z - 1 - y)" "y \<le> z - 1" by auto
  from Suc.hyps(1)[OF this] show ?case using day_from_year_step[of "z - 1"] by simp
qed simp

lemma year_of_day_unique: "day_from_year y \<le> d \<Longrightarrow> d < day_from_year (y + 1) \<Longrightarrow> year_of_day d = y"
  using year_of_day_correct[of d] day_from_year_mono[of "year_of_day d + 1" y]
    day_from_year_mono[of "y + 1" "year_of_day d"] by (smt (verit))

lemma year_of_day_mono: "d \<le> e \<Longrightarrow> year_of_day d \<le> year_of_day e"
  using year_of_day_correct[of d] year_of_day_correct[of e]
    day_from_year_mono[of "year_of_day e + 1" "year_of_day d"] by (smt (verit))

text \<open>\<^verbatim>\<open>new Date(Date.UTC(year, 11, 31))\<close> is the last day of the year.\<close>

lemma date_UTC_december: "date_UTC y 11 31 = (day_from_year (y + 1) - 1) * msPerDay"
  by (simp add: date_UTC_def Let_def month_starts_def day_from_year_step numeral_eq_Suc)

lemma day_of_december [simp]: "day_of (date_UTC y 11 31) = day_from_year (y + 1) - 1"
  by (simp add: date_UTC_december)

lemma length_each_day: "c \<le> e \<Longrightarrow> int (length (each_day c e)) = (e - c) div msPerDay + 1"
proof (induction c e rule: each_day.induct)
  case (1 c e)
  show ?case
  proof (cases "c + msPerDay \<le> e")
    case True
    have "(e - c) div msPerDay = (e - (c + msPerDay)) div msPerDay + 1"
      using div_add_self2[of msPerDay "e - (c + msPerDay)"] by (simp add: algebra_simps)
    then show ?thesis using "1.IH"[OF "1.prems" True] "1.prems" by (simp add: each_day_step)
  next
    case False
    then have "(e - c) div msPerDay = 0" using "1.prems" by (intro div_pos_pos_trivial) auto
    then show ?thesis using False "1.prems" by (simp add: each_day_step)
  qed
qed

lemma length_each_day_le: "int (length (each_day c e)) \<le> max 0 ((e - c) div msPerDay + 1)"
  by (cases "c \<le> e") (simp_all add: length_each_day)

text \<open>From a day to the end of its year there are at most 367 days.\<close>

lemma each_day_to_december:
  "int (length (each_day c (date_UTC (getUTCFullYear c) 11 31))) \<le> 367"
proof -
  have "day_from_year (getUTCFullYear c) \<le> day_of c"
    unfolding getUTCFullYear_def by (rule year_of_day_correct)
  then have "day_from_year (getUTCFullYear c) * msPerDay \<le> c"
    by (simp add: day_of_def msPerDay_def)
  moreover have "date_UTC (getUTCFullYear c) 11 31 = (day_from_year (getUTCFullYear c + 1) - 1) * msPerDay"
    by (simp add: date_UTC_december)
  moreover have "day_from_year (getUTCFullYear c + 1) \<le> day_from_year (getUTCFullYear c) + 366"
    by (simp add: day_from_year_step)
  ultimately have "date_UTC (getUTCFullYear c) 11 31 - c \<le> 366 * msPerDay"
    by (simp add: msPerDay_def)
  then have "(date_UTC (getUTCFullYear c) 11 31 - c) div msPerDay \<le> 366"
    by (simp add: msPerDay_def)
  then show ?thesis using length_each_day_le[of c "date_UTC (getUTCFullYear c) 11 31"] by linarith
qed

end
