(* ===== verification/Working_Days.thy ===== *)
theory Working_Days
  imports Calendar
begin

text \<open>
  \<^verbatim>\<open>payroll/utils/working-days.ts\<close>. The \<^verbatim>\<open>date-fns\<close> functions it calls work in the
  time zone of the server and are parameters: the instants of the local midnights of a month, the
  weekend tests and the length of a month. \<open>datefns_at off\<close> states what the package documents
  for a server whose clock is \<open>off\<close> milliseconds ahead of UTC. The lemmas count the working
  days of a month: with a zero offset they are the weekdays that are not holidays; ahead of UTC
  every holiday is compared with the day after it.
\<close>

record datefns =
  df_eachDayOfMonth :: "int \<Rightarrow> int \<Rightarrow> instant list"
  df_isSunday :: "instant \<Rightarrow> bool"
  df_isSaturday :: "instant \<Rightarrow> bool"
  df_getDaysInMonth :: "int \<Rightarrow> int \<Rightarrow> int"

text \<open>\<^verbatim>\<open>toISOString().split('T')[0]\<close>, as the number of the UTC day.\<close>

definition iso_date :: "instant \<Rightarrow> int" where
  "iso_date t = day_of t"

definition getWorkingDaysInMonth :: "datefns \<Rightarrow> int \<Rightarrow> int \<Rightarrow> instant list \<Rightarrow> nat" where
  "getWorkingDaysInMonth df year month holidays =
     (let allDays = df_eachDayOfMonth df year month;
          holidayDates = map iso_date holidays
      in length (filter (\<lambda>day. \<not> (df_isSunday df day \<or> df_isSaturday df day)
                               \<and> iso_date day \<notin> set holidayDates) allDays))"

definition firstDayOfMonth :: "int \<Rightarrow> int \<Rightarrow> instant" where
  "firstDayOfMonth year month = date_UTC year (month - 1) 1"

definition lastDayOfMonth :: "datefns \<Rightarrow> int \<Rightarrow> int \<Rightarrow> instant" where
  "lastDayOfMonth df year month = date_UTC year (month - 1) (df_getDaysInMonth df year month)"

section \<open>What the package documents\<close>

definition weekday_of_day :: "int \<Rightarrow> int" where
  "weekday_of_day d = (d + 4) mod 7"

definition month_days :: "int \<Rightarrow> int \<Rightarrow> int list" where
  "month_days year month =
     [day_of (date_UTC year (month - 1) 1) .. day_of (date_UTC year (month - 1) 1) + days_in_month year month - 1]"

definition datefns_at :: "int \<Rightarrow> datefns \<Rightarrow> bool" where
  "datefns_at off df \<longleftrightarrow>
     (\<forall>y m. df_eachDayOfMonth df y m = map (\<lambda>d. d * msPerDay - off) (month_days y m)) \<and>
     (\<forall>t. df_isSunday df t \<longleftrightarrow> weekday_of_day (day_of (t + off)) = 0) \<and>
     (\<forall>t. df_isSaturday df t \<longleftrightarrow> weekday_of_day (day_of (t + off)) = 6) \<and>
     (\<forall>y m. df_getDaysInMonth df y m = days_in_month y m)"

definition datefns_of :: "int \<Rightarrow> datefns" where
  "datefns_of off =
     \<lparr>df_eachDayOfMonth = (\<lambda>y m. map (\<lambda>d. d * msPerDay - off) (month_days y m)),
      df_isSunday = (\<lambda>t. weekday_of_day (day_of (t + off)) = 0),
      df_isSaturday = (\<lambda>t. weekday_of_day (day_of (t + off)) = 6),
      df_getDaysInMonth = days_in_month\<rparr>"

lemma datefns_of_at: "datefns_at off (datefns_of off)"
  by (simp add: datefns_at_def datefns_of_def)

definition is_weekday :: "int \<Rightarrow> bool" where
  "is_weekday d = (weekday_of_day d \<noteq> 0 \<and> weekday_of_day d \<noteq> 6)"

section \<open>Counting\<close>

lemma day_of_shift: "day_of (d * msPerDay - off) = d + (- off) div msPerDay"
  by (simp add: day_of_def div_mult_self3 flip: uminus_add_conv_diff)

lemma working_days_shifted:
  assumes "datefns_at off df"
  shows "getWorkingDaysInMonth df y m hols
    = length (filter (\<lambda>d. is_weekday d \<and> d + (- off) div msPerDay \<notin> day_of ` set hols) (month_days y m))"
  using assms
  by (simp add: getWorkingDaysInMonth_def datefns_at_def iso_date_def filter_map o_def
      day_of_shift is_weekday_def conj_commute)

lemma working_days_le: "datefns_at off df \<Longrightarrow> getWorkingDaysInMonth df y m hols \<le> length (month_days y m)"
  by (simp add: working_days_shifted)

lemma working_days_utc:
  assumes "datefns_at 0 df"
  shows "getWorkingDaysInMonth df y m hols
    = card {d \<in> set (month_days y m). is_weekday d \<and> d \<notin> day_of ` set hols}"
proof -
  have "distinct (month_days y m)" by (simp add: month_days_def)
  then have "distinct (filter (\<lambda>d. is_weekday d \<and> d \<notin> day_of ` set hols) (month_days y m))"
    by (rule distinct_filter)
  then show ?thesis
    using working_days_shifted[OF assms] distinct_card[symmetric] by fastforce
qed

lemma working_days_east:
  assumes "datefns_at off df" and "0 < off" and "off \<le> msPerDay"
  shows "getWorkingDaysInMonth df y m hols
    = length (filter (\<lambda>d. is_weekday d \<and> d - 1 \<notin> day_of ` set hols) (month_days y m))"
proof -
  have "(- off) div msPerDay = - 1" using assms(2,3) by (intro int_div_pos_eq[where r = "msPerDay - off"]) auto
  then show ?thesis using working_days_shifted[OF assms(1)] by simp
qed

end
