(* ===== verification/Payroll_Engine.thy ===== *)
theory Payroll_Engine
  imports Money Working_Days "HOL-Library.Multiset"
begin

text \<open>
  The payroll computation: \<^verbatim>\<open>payroll/services/payroll-engine.ts\<close> and the pure variant
  \<^verbatim>\<open>computePayroll\<close> of \<^verbatim>\<open>payroll/utils/compute-payroll.ts\<close>. Amounts are doubles; the
  expression parser \<^verbatim>\<open>expr-eval\<close> is a parameter of type \<open>evaluator\<close>.
  Default values of structure lines reach the engine either as numbers or as the decimal objects
  of the database client, which count as true in a condition even when they are zero
  (\<open>amount_value\<close>). The lemmas show that no amount or net pay is negative, that the net pay
  never exceeds the gross earnings, that the order of the rows does not matter when their sort
  orders differ, and that the two implementations agree.
\<close>

section \<open>Components\<close>

datatype comp_type = EARNING | DEDUCTION | EMPLOYER_CONTRIBUTION

datatype calc_method = FIXED | FORMULA | PERCENT_OF_BASIC

record component =
  cp_id :: id
  cp_code :: string
  cp_name :: string
  cp_type :: comp_type
  cp_calcMethod :: calc_method
  cp_formula :: "string option"
  cp_defaultValue :: "jsnum option"

text \<open>A numeric field that is a plain number, or a decimal object of the database client.\<close>

datatype amount_value = PlainNumber jsnum | DecimalObject jsnum

record structure_line =
  sl_sortOrder :: int
  sl_defaultValue :: amount_value
  sl_component :: component

datatype engine_error = FormulaEvaluationError string string string

text \<open>What parsing and evaluating an expression may do; a throw may carry a message.\<close>

datatype expr_result = ExprThrew "string option" | ExprNumber jsnum | ExprOther

type_synonym eval_context = "string \<rightharpoonup> jsnum"

type_synonym evaluator = "string \<Rightarrow> eval_context \<Rightarrow> expr_result"

section \<open>Formulas\<close>

definition is_word_char :: "char \<Rightarrow> bool" where
  "is_word_char c =
     (let n = (of_char c :: nat)
      in (48 \<le> n \<and> n \<le> 57) \<or> (65 \<le> n \<and> n \<le> 90) \<or> n = 95 \<or> (97 \<le> n \<and> n \<le> 122))"

text \<open>\<^verbatim>\<open>formula.replace(/Math\.(\w+)/g, '$1')\<close>.\<close>

function stripMath :: "string \<Rightarrow> string" where
  "stripMath [] = []"
| "stripMath (c # cs) =
     (let word = takeWhile is_word_char (drop 5 (c # cs))
      in if take 5 (c # cs) = ''Math.'' \<and> word \<noteq> []
         then word @ stripMath (dropWhile is_word_char (drop 5 (c # cs)))
         else c # stripMath cs)"
  by pat_completeness auto
termination
  by (relation "measure length") (auto intro: le_less_trans[OF length_dropWhile_le])

text \<open>\<^verbatim>\<open>{ ...context, Math, min: Math.min, ... }\<close>: the numeric part of the evaluation context.\<close>

definition builtin_names :: "string list" where
  "builtin_names = [''Math'', ''min'', ''max'', ''floor'', ''round'', ''ceil'', ''abs'']"

definition evalCtx :: "eval_context \<Rightarrow> eval_context" where
  "evalCtx ctx = (\<lambda>k. if k \<in> set builtin_names then None else ctx k)"

definition formula_amount ::
    "evaluator \<Rightarrow> eval_context \<Rightarrow> string \<Rightarrow> string option \<Rightarrow> engine_error + jsnum" where
  "formula_amount ev ctx code formula =
     (case formula of
        None \<Rightarrow> Inl (FormulaEvaluationError (''Formula component '' @ code @ '' has no formula'') code [])
      | Some f \<Rightarrow>
          if f = [] then
            Inl (FormulaEvaluationError (''Formula component '' @ code @ '' has no formula'') code [])
          else
            (case ev (stripMath f) (evalCtx ctx) of
               ExprThrew m \<Rightarrow>
                 Inl (FormulaEvaluationError
                   (''Formula evaluation error for '' @ code @ '': ''
                     @ (case m of Some msg \<Rightarrow> msg | None \<Rightarrow> ''Unknown error'')) code f)
             | ExprOther \<Rightarrow>
                 Inl (FormulaEvaluationError
                   (''Formula for '' @ code @ '' did not evaluate to a finite number'') code f)
             | ExprNumber n \<Rightarrow>
                 if js_is_finite n then Inr (round2dp (js_max (Fin 0) n))
                 else Inl (FormulaEvaluationError
                   (''Formula for '' @ code @ '' did not evaluate to a finite number'') code f)))"

section \<open>The engine\<close>

fun amount_or :: "amount_value \<Rightarrow> jsnum \<Rightarrow> jsnum" where
  "amount_or (PlainNumber n) b = js_or n b"
| "amount_or (DecimalObject n) b = n"

text \<open>\<^verbatim>\<open>sc.defaultValue || Number(comp.defaultValue) || 0\<close>.\<close>

definition base_value :: "structure_line \<Rightarrow> jsnum" where
  "base_value sl =
     amount_or (sl_defaultValue sl)
       (js_or (case cp_defaultValue (sl_component sl) of None \<Rightarrow> Fin 0 | Some n \<Rightarrow> n) (Fin 0))"

definition component_amount ::
    "evaluator \<Rightarrow> jsnum \<Rightarrow> jsnum \<Rightarrow> eval_context \<Rightarrow> structure_line \<Rightarrow> engine_error + jsnum" where
  "component_amount ev workingDays presentDays ctx sl =
     (let comp = sl_component sl
      in case cp_calcMethod comp of
           FIXED \<Rightarrow>
             Inr (if js_lt (Fin 0) workingDays
                  then round2dp (js_mul (base_value sl) (js_div presentDays workingDays))
                  else Fin 0)
         | PERCENT_OF_BASIC \<Rightarrow>
             (let base = (case ctx ''BASIC'' of None \<Rightarrow> Fin 0 | Some b \<Rightarrow> b)
              in Inr (round2dp (js_mul base (js_div (base_value sl) (Fin 100)))))
         | FORMULA \<Rightarrow> formula_amount ev ctx (cp_code comp) (cp_formula comp))"

record line =
  ln_componentId :: id
  ln_componentCode :: string
  ln_componentName :: string
  ln_type :: comp_type
  ln_amount :: jsnum

fun run_components ::
    "evaluator \<Rightarrow> jsnum \<Rightarrow> jsnum \<Rightarrow> eval_context \<Rightarrow> structure_line list \<Rightarrow> engine_error + line list" where
  "run_components ev wd pd ctx [] = Inr []"
| "run_components ev wd pd ctx (sl # sls) =
     (case component_amount ev wd pd ctx sl of
        Inl e \<Rightarrow> Inl e
      | Inr a \<Rightarrow>
          (let comp = sl_component sl;
               amount = js_max (Fin 0) a;
               l = \<lparr>ln_componentId = cp_id comp, ln_componentCode = cp_code comp,
                    ln_componentName = cp_name comp, ln_type = cp_type comp, ln_amount = amount\<rparr>
           in case run_components ev wd pd (ctx(cp_code comp \<mapsto> amount)) sls of
                Inl e \<Rightarrow> Inl e
              | Inr ls \<Rightarrow> Inr (l # ls)))"

text \<open>The accumulation loop: gross earnings and total deductions so far.\<close>

fun add_totals :: "line list \<Rightarrow> jsnum \<times> jsnum \<Rightarrow> jsnum \<times> jsnum" where
  "add_totals [] acc = acc"
| "add_totals (c # cs) (gross, ded) =
     add_totals cs
       (case ln_type c of
          EARNING \<Rightarrow> (js_add gross (ln_amount c), ded)
        | DEDUCTION \<Rightarrow> (gross, js_add ded (ln_amount c))
        | EMPLOYER_CONTRIBUTION \<Rightarrow> (gross, ded))"

datatype entry_status = EntryCOMPUTED | EntryHELD | EntryAPPROVED | EntryDISBURSED | EntryREVERSED

record payroll_entry =
  en_cycleId :: id
  en_employeeId :: id
  en_structureId :: id
  en_monthlyCtc :: jsnum
  en_workingDays :: jsnum
  en_presentDays :: jsnum
  en_lopDays :: jsnum
  en_grossEarnings :: jsnum
  en_totalDeductions :: jsnum
  en_netPayable :: jsnum
  en_status :: entry_status
  en_notes :: "string option"

record employee_salary_input =
  si_ctc :: jsnum
  si_structureId :: id
  si_components :: "structure_line list"

record attendance_summary =
  as_presentDays :: jsnum
  as_unpaidLeaveDays :: jsnum

definition lop_days :: "jsnum \<Rightarrow> attendance_summary \<Rightarrow> jsnum" where
  "lop_days workingDays att =
     js_add (js_max (Fin 0) (js_sub workingDays (as_presentDays att))) (as_unpaidLeaveDays att)"

definition pay_days :: "jsnum \<Rightarrow> attendance_summary \<Rightarrow> jsnum" where
  "pay_days workingDays att = js_max (Fin 0) (js_sub workingDays (lop_days workingDays att))"

definition initial_context :: "jsnum \<Rightarrow> jsnum \<Rightarrow> jsnum \<Rightarrow> jsnum \<Rightarrow> eval_context" where
  "initial_context ctc wd pd lop =
     [''MONTHLY_CTC'' \<mapsto> ctc, ''WORKING_DAYS'' \<mapsto> wd, ''PRESENT_DAYS'' \<mapsto> pd, ''LOP_DAYS'' \<mapsto> lop]"

definition computeForEmployee ::
    "evaluator \<Rightarrow> datefns \<Rightarrow> id \<Rightarrow> id \<Rightarrow> int \<Rightarrow> int \<Rightarrow> employee_salary_input \<Rightarrow> attendance_summary
       \<Rightarrow> instant list \<Rightarrow> engine_error + (payroll_entry \<times> line list)" where
  "computeForEmployee ev df employeeId cycleId month year sal att holidays =
     (let monthlyCtc = round2dp (js_div (si_ctc sal) (Fin 12));
          workingDays = num_of_nat (getWorkingDaysInMonth df year month holidays);
          lopDays = lop_days workingDays att;
          presentDays = pay_days workingDays att;
          sorted = sort_key sl_sortOrder (si_components sal);
          ctx = initial_context monthlyCtc workingDays presentDays lopDays
      in case run_components ev workingDays presentDays ctx sorted of
           Inl e \<Rightarrow> Inl e
         | Inr components \<Rightarrow>
             (let (gross, ded) = add_totals components (Fin 0, Fin 0);
                  grossEarnings = round2dp gross;
                  totalDeductions = round2dp ded;
                  netPayable = round2dp (js_max (Fin 0) (js_sub grossEarnings totalDeductions))
              in Inr (\<lparr>en_cycleId = cycleId, en_employeeId = employeeId,
                       en_structureId = si_structureId sal, en_monthlyCtc = monthlyCtc,
                       en_workingDays = workingDays, en_presentDays = presentDays,
                       en_lopDays = lopDays, en_grossEarnings = grossEarnings,
                       en_totalDeductions = totalDeductions, en_netPayable = netPayable,
                       en_status = EntryCOMPUTED, en_notes = None\<rparr>, components)))"

section \<open>The pure variant\<close>

datatype calculation_type = Fixed | Formula | PercentageOfBase

record pure_component =
  pc_code :: string
  pc_type :: comp_type
  pc_calculationType :: calculation_type
  pc_formula :: "string option"
  pc_defaultValue :: jsnum
  pc_sortOrder :: int

record compute_input =
  ci_components :: "pure_component list"
  ci_monthlyCTC :: jsnum
  ci_workingDays :: jsnum
  ci_presentDays :: jsnum
  ci_lopDays :: jsnum

record compute_result =
  cr_grossEarnings :: jsnum
  cr_totalDeductions :: jsnum
  cr_netPayable :: jsnum
  cr_components :: "(string \<times> string \<times> jsnum) list"

fun type_label :: "comp_type \<Rightarrow> string" where
  "type_label EARNING = ''earning''"
| "type_label DEDUCTION = ''deduction''"
| "type_label EMPLOYER_CONTRIBUTION = ''employer_contribution''"

definition pure_amount ::
    "evaluator \<Rightarrow> jsnum \<Rightarrow> jsnum \<Rightarrow> eval_context \<Rightarrow> pure_component \<Rightarrow> engine_error + jsnum" where
  "pure_amount ev workingDays presentDays ctx sc =
     (case pc_calculationType sc of
        Fixed \<Rightarrow>
          (let baseValue = js_or (pc_defaultValue sc) (Fin 0)
           in Inr (if js_lt (Fin 0) workingDays
                   then round2dp (js_mul baseValue (js_div presentDays workingDays))
                   else Fin 0))
      | PercentageOfBase \<Rightarrow>
          (let base = (case ctx ''BASIC'' of None \<Rightarrow> Fin 0 | Some b \<Rightarrow> b);
               pct = js_or (pc_defaultValue sc) (Fin 0)
           in Inr (round2dp (js_mul base (js_div pct (Fin 100)))))
      | Formula \<Rightarrow> formula_amount ev ctx (pc_code sc) (pc_formula sc))"

fun pure_run ::
    "evaluator \<Rightarrow> jsnum \<Rightarrow> jsnum \<Rightarrow> eval_context \<Rightarrow> pure_component list
       \<Rightarrow> engine_error + (string \<times> string \<times> jsnum) list" where
  "pure_run ev wd pd ctx [] = Inr []"
| "pure_run ev wd pd ctx (sc # scs) =
     (case pure_amount ev wd pd ctx sc of
        Inl e \<Rightarrow> Inl e
      | Inr a \<Rightarrow>
          (let amount = js_max (Fin 0) a
           in case pure_run ev wd pd (ctx(pc_code sc \<mapsto> amount)) scs of
                Inl e \<Rightarrow> Inl e
              | Inr ls \<Rightarrow> Inr ((pc_code sc, type_label (pc_type sc), amount) # ls)))"

fun pure_totals :: "(string \<times> string \<times> jsnum) list \<Rightarrow> jsnum \<times> jsnum \<Rightarrow> jsnum \<times> jsnum" where
  "pure_totals [] acc = acc"
| "pure_totals ((code, type, amount) # cs) (gross, ded) =
     pure_totals cs
       (if type = ''earning'' then (js_add gross amount, ded)
        else if type = ''deduction'' then (gross, js_add ded amount)
        else (gross, ded))"

definition computePayroll :: "evaluator \<Rightarrow> compute_input \<Rightarrow> engine_error + compute_result" where
  "computePayroll ev input =
     (let sorted = sort_key pc_sortOrder (ci_components input);
          ctx = initial_context (ci_monthlyCTC input) (ci_workingDays input)
                  (ci_presentDays input) (ci_lopDays input)
      in case pure_run ev (ci_workingDays input) (ci_presentDays input) ctx sorted of
           Inl e \<Rightarrow> Inl e
         | Inr components \<Rightarrow>
             (let (gross, ded) = pure_totals components (Fin 0, Fin 0);
                  grossEarnings = round2dp gross;
                  totalDeductions = round2dp ded
              in Inr \<lparr>cr_grossEarnings = grossEarnings, cr_totalDeductions = totalDeductions,
                      cr_netPayable = round2dp (js_max (Fin 0) (js_sub grossEarnings totalDeductions)),
                      cr_components = components\<rparr>))"

section \<open>Amounts\<close>

lemma js_max0_not_neg [simp]: "\<not> js_lt (js_max (Fin 0) a) (Fin 0)"
  by (cases a) (auto simp: js_max_def)

lemma js_max0_cases: "js_max (Fin 0) a = NaN \<or> js_nonneg (js_max (Fin 0) a)"
  by (cases a) (auto simp: js_max_def)

lemma run_components_amounts:
  "run_components ev wd pd ctx sls = Inr ls \<Longrightarrow> \<forall>l \<in> set ls. \<not> js_lt (ln_amount l) (Fin 0)"
  by (induction sls arbitrary: ctx ls) (auto simp: Let_def split: sum.splits)

lemma run_components_codes:
  "run_components ev wd pd ctx sls = Inr ls \<Longrightarrow>
     map ln_componentCode ls = map (cp_code \<circ> sl_component) sls \<and>
     map ln_type ls = map (cp_type \<circ> sl_component) sls"
  by (induction sls arbitrary: ctx ls) (auto simp: Let_def split: sum.splits)

lemma js_not_neg_iff: "\<not> js_lt a (Fin 0) \<longleftrightarrow> a = NaN \<or> js_nonneg a"
  by (cases a) auto

lemma js_add_NaN_iff: "js_nonneg a \<Longrightarrow> js_nonneg b \<Longrightarrow> js_add a b \<noteq> NaN"
  using js_nonneg_add[of a b] by auto

lemma js_add_NaN_right [simp]: "js_add a NaN = NaN"
  by (cases a) auto

lemma add_totals_not_neg:
  assumes "\<forall>l \<in> set ls. \<not> js_lt (ln_amount l) (Fin 0)"
    and "\<not> js_lt g (Fin 0)" and "\<not> js_lt d (Fin 0)"
    and "add_totals ls (g, d) = (g', d')"
  shows "\<not> js_lt g' (Fin 0) \<and> \<not> js_lt d' (Fin 0)"
  using assms
proof (induction ls arbitrary: g d)
  case (Cons c cs)
  have add: "\<not> js_lt (js_add a (ln_amount c)) (Fin 0)" if "\<not> js_lt a (Fin 0)" for a
    using that Cons.prems(1) js_nonneg_add[of a "ln_amount c"] unfolding js_not_neg_iff by auto
  show ?case
    using Cons.prems Cons.IH[of "js_add g (ln_amount c)" d] Cons.IH[of g "js_add d (ln_amount c)"]
      Cons.IH[of g d] add[of g] add[of d]
    by (cases "ln_type c") auto
qed auto

text \<open>A nonnegative number up to \<open>2 ^ 38\<close> that is a rounded amount is a number of cents.\<close>

lemma round2dp_bounded_cents:
  assumes "js_le (Fin 0) (round2dp s)" and "js_le (round2dp s) (Fin (2 ^ 38))"
  shows "\<exists>k. round2dp s = cents k \<and> \<bar>k\<bar> \<le> 2 ^ 46"
proof (cases s)
  case (Fin q)
  have "q \<le> 2 ^ 39"
  proof (rule ccontr)
    assume "\<not> q \<le> 2 ^ 39"
    then have "js_le (Fin (2 ^ 39)) s" using Fin by simp
    from round2dp_mono[OF this] have "js_le (Fin (2 ^ 39)) (round2dp s)" by simp
    then show False using assms(2) js_le_trans by fastforce
  qed
  moreover have "- (2 ^ 39) \<le> q"
  proof (rule ccontr)
    assume "\<not> - (2 ^ 39) \<le> q"
    then have "js_le s (num_of_int (- (2 ^ 39)))" using Fin by simp
    from round2dp_mono[OF this] have "js_le (round2dp s) (num_of_int (- (2 ^ 39)))"
      using round2dp_int[of "- (2 ^ 39)"] by simp
    then show False using assms(1) js_le_trans by fastforce
  qed
  ultimately have "\<bar>q\<bar> \<le> 2 ^ 39" by (simp add: abs_le_iff)
  then show ?thesis using round2dp_range[of q] Fin by auto
qed (use assms in \<open>auto simp: round2dp_def js_le_def\<close>)

section \<open>The order of the rows\<close>

lemma sort_key_perm:
  assumes "mset xs = mset ys" and "inj_on f (set xs)"
  shows "sort_key f xs = sort_key f ys"
  using assms by (intro sort_key_inj_key_eq) auto

section \<open>The two implementations\<close>

fun to_calculation_type :: "calc_method \<Rightarrow> calculation_type" where
  "to_calculation_type FIXED = Fixed"
| "to_calculation_type FORMULA = Formula"
| "to_calculation_type PERCENT_OF_BASIC = PercentageOfBase"

definition to_pure :: "structure_line \<Rightarrow> pure_component" where
  "to_pure sl =
     \<lparr>pc_code = cp_code (sl_component sl), pc_type = cp_type (sl_component sl),
      pc_calculationType = to_calculation_type (cp_calcMethod (sl_component sl)),
      pc_formula = cp_formula (sl_component sl), pc_defaultValue = base_value sl,
      pc_sortOrder = sl_sortOrder sl\<rparr>"

definition pure_line :: "line \<Rightarrow> string \<times> string \<times> jsnum" where
  "pure_line l = (ln_componentCode l, type_label (ln_type l), ln_amount l)"

lemma insort_key_map: "insort_key f (g x) (map g xs) = map g (insort_key (\<lambda>a. f (g a)) x xs)"
  by (induction xs) auto

lemma sort_key_map: "sort_key f (map g xs) = map g (sort_key (\<lambda>a. f (g a)) xs)"
  by (induction xs) (simp_all add: insort_key_map)

lemma js_or_zero: "a \<noteq> NaN \<Longrightarrow> js_or a (Fin 0) = a"
  by (auto simp: js_or_def js_truthy_def)

lemma pure_amount_eq:
  "base_value sl \<noteq> NaN \<Longrightarrow> pure_amount ev wd pd ctx (to_pure sl) = component_amount ev wd pd ctx sl"
  by (cases "cp_calcMethod (sl_component sl)")
    (simp_all add: pure_amount_def to_pure_def component_amount_def js_or_zero Let_def)

lemma to_pure_fields [simp]:
  "pc_code (to_pure sl) = cp_code (sl_component sl)" "pc_type (to_pure sl) = cp_type (sl_component sl)"
  "pc_sortOrder (to_pure sl) = sl_sortOrder sl"
  by (simp_all add: to_pure_def)

lemma pure_run_eq:
  "\<forall>sl \<in> set sls. base_value sl \<noteq> NaN \<Longrightarrow>
   pure_run ev wd pd ctx (map to_pure sls) = map_sum id (map pure_line) (run_components ev wd pd ctx sls)"
  by (induction sls arbitrary: ctx)
    (auto simp: pure_amount_eq Let_def pure_line_def split: sum.splits)

lemma pure_totals_eq: "pure_totals (map pure_line ls) acc = add_totals ls acc"
  by (induction ls acc rule: add_totals.induct) (auto simp: pure_line_def split: comp_type.split)

section \<open>Days\<close>

lemma pay_days_ints:
  assumes "0 \<le> present" and "present \<le> int wd" and "0 \<le> unpaid" and "unpaid \<le> 2 ^ 50" and "int wd \<le> 2 ^ 50"
  shows "lop_days (num_of_nat wd) \<lparr>as_presentDays = num_of_int present, as_unpaidLeaveDays = num_of_int unpaid\<rparr>
           = num_of_int (int wd - present + unpaid)"
    and "pay_days (num_of_nat wd) \<lparr>as_presentDays = num_of_int present, as_unpaidLeaveDays = num_of_int unpaid\<rparr>
           = num_of_int (max 0 (present - unpaid))"
proof -
  have "to_num (of_nat wd - of_int present) = num_of_int (int wd - present)"
    using to_num_of_int[of "int wd - present"] assms by simp
  moreover have "max 0 (of_int (int wd - present) :: rat) = of_int (int wd - present)"
    using assms by simp
  moreover have "to_num (of_int (int wd - present) + of_int unpaid) = num_of_int (int wd - present + unpaid)"
    using to_num_of_int[of "int wd - present + unpaid"] assms by simp
  ultimately show lop: "lop_days (num_of_nat wd) \<lparr>as_presentDays = num_of_int present, as_unpaidLeaveDays = num_of_int unpaid\<rparr>
      = num_of_int (int wd - present + unpaid)"
    by (simp add: lop_days_def)
  have "to_num (of_nat wd - of_int (int wd - present + unpaid)) = num_of_int (present - unpaid)"
    using to_num_of_int[of "present - unpaid"] assms by simp
  then show "pay_days (num_of_nat wd) \<lparr>as_presentDays = num_of_int present, as_unpaidLeaveDays = num_of_int unpaid\<rparr>
      = num_of_int (max 0 (present - unpaid))"
    unfolding pay_days_def lop by (simp add: of_int_max)
qed

section \<open>Properties\<close>

lemma computeForEmployee_Inr:
  assumes "computeForEmployee ev df emp cyc m y sal att hols = Inr (e, ls)"
  obtains wd pd g d where "wd = num_of_nat (getWorkingDaysInMonth df y m hols)" "pd = pay_days wd att"
    "run_components ev wd pd (initial_context (round2dp (js_div (si_ctc sal) (Fin 12))) wd pd (lop_days wd att))
       (sort_key sl_sortOrder (si_components sal)) = Inr ls"
    "add_totals ls (Fin 0, Fin 0) = (g, d)" "en_grossEarnings e = round2dp g"
    "en_totalDeductions e = round2dp d"
    "en_netPayable e = round2dp (js_max (Fin 0) (js_sub (round2dp g) (round2dp d)))"
    "en_presentDays e = pd" "en_lopDays e = lop_days wd att" "en_status e = EntryCOMPUTED"
  using assms
  by (auto simp: computeForEmployee_def Let_def split: sum.splits prod.splits)

lemma round2dp_not_neg: "\<not> js_lt a (Fin 0) \<Longrightarrow> \<not> js_lt (round2dp a) (Fin 0)"
  using round2dp_nonneg[of a] by (auto simp: js_not_neg_iff)

lemma to_num_half [simp]: "to_num (1 / 2) = Fin (1 / 2)"
proof -
  have "fl (1 / 2) = 1 / 2" using fl_exact[of 1 "- 1"] by (simp add: power_int_minus)
  then show ?thesis using to_num_small[of "1 / 2"] by simp
qed

text \<open>A salary of one earning of 30000 and one deduction of half of it, and a full month.\<close>

definition example_basic :: structure_line where
  "example_basic =
     \<lparr>sl_sortOrder = 1, sl_defaultValue = PlainNumber (Fin 30000),
      sl_component = \<lparr>cp_id = ''c1'', cp_code = ''BASIC'', cp_name = ''Basic'', cp_type = EARNING,
        cp_calcMethod = FIXED, cp_formula = None, cp_defaultValue = None\<rparr>\<rparr>"

definition example_tax :: structure_line where
  "example_tax =
     \<lparr>sl_sortOrder = 2, sl_defaultValue = PlainNumber (Fin 50),
      sl_component = \<lparr>cp_id = ''c2'', cp_code = ''TAX'', cp_name = ''Tax'', cp_type = DEDUCTION,
        cp_calcMethod = PERCENT_OF_BASIC, cp_formula = None, cp_defaultValue = None\<rparr>\<rparr>"

definition example_salary :: employee_salary_input where
  "example_salary = \<lparr>si_ctc = Fin 360000, si_structureId = ''s1'', si_components = [example_tax, example_basic]\<rparr>"

definition example_attendance :: attendance_summary where
  "example_attendance = \<lparr>as_presentDays = Fin 22, as_unpaidLeaveDays = Fin 0\<rparr>"

definition no_evaluator :: evaluator where
  "no_evaluator f ctx = ExprOther"

lemma working_days_jan_2026 [simp]: "getWorkingDaysInMonth (datefns_of 0) 2026 1 [] = 22"
  by code_simp

lemma example_run:
  "\<exists>e. computeForEmployee no_evaluator (datefns_of 0) ''e1'' ''y1'' 1 2026 example_salary example_attendance []
     = Inr (e, [\<lparr>ln_componentId = ''c1'', ln_componentCode = ''BASIC'', ln_componentName = ''Basic'',
                 ln_type = EARNING, ln_amount = Fin 30000\<rparr>,
                \<lparr>ln_componentId = ''c2'', ln_componentCode = ''TAX'', ln_componentName = ''Tax'',
                 ln_type = DEDUCTION, ln_amount = Fin 15000\<rparr>])
     \<and> en_grossEarnings e = Fin 30000 \<and> en_totalDeductions e = Fin 15000 \<and> en_netPayable e = Fin 15000
     \<and> en_presentDays e = Fin 22"
  by (simp add: computeForEmployee_def example_salary_def example_attendance_def example_basic_def
      example_tax_def Let_def component_amount_def base_value_def js_or_def js_truthy_def
      pay_days_def lop_days_def initial_context_def)

lemma engine_not_neg:
  assumes "computeForEmployee ev df emp cyc m y sal att hols = Inr (e, ls)"
  shows "\<forall>l \<in> set ls. \<not> js_lt (ln_amount l) (Fin 0)" "\<not> js_lt (en_grossEarnings e) (Fin 0)"
    "\<not> js_lt (en_totalDeductions e) (Fin 0)" "\<not> js_lt (en_netPayable e) (Fin 0)"
proof -
  from assms obtain wd pd g d ctx where r:
    "run_components ev wd pd ctx (sort_key sl_sortOrder (si_components sal)) = Inr ls"
    "add_totals ls (Fin 0, Fin 0) = (g, d)" "en_grossEarnings e = round2dp g"
    "en_totalDeductions e = round2dp d"
    "en_netPayable e = round2dp (js_max (Fin 0) (js_sub (round2dp g) (round2dp d)))"
    by (elim computeForEmployee_Inr) blast
  from run_components_amounts[OF r(1)] show a: "\<forall>l \<in> set ls. \<not> js_lt (ln_amount l) (Fin 0)" .
  from add_totals_not_neg[OF a _ _ r(2)]
  show "\<not> js_lt (en_grossEarnings e) (Fin 0)" "\<not> js_lt (en_totalDeductions e) (Fin 0)"
    unfolding r(3,4) by (auto intro!: round2dp_not_neg)
  show "\<not> js_lt (en_netPayable e) (Fin 0)" unfolding r(5) by (rule round2dp_not_neg) simp
qed

text \<open>
  C2: The engine never produces a negative amount: when it computes a salary, every component line,
  the gross earnings, the total deductions and the net pay are not below zero, whatever formulas,
  defaults and attendance it was given, and it produces one line per component in sort order.
\<close>

theorem engine_never_negative:
  assumes "computeForEmployee ev df emp cyc m y sal att hols = Inr (e, ls)"
  shows "(\<forall>l \<in> set ls. \<not> js_lt (ln_amount l) (Fin 0)) \<and> \<not> js_lt (en_grossEarnings e) (Fin 0)
    \<and> \<not> js_lt (en_totalDeductions e) (Fin 0) \<and> \<not> js_lt (en_netPayable e) (Fin 0)
    \<and> map ln_componentCode ls = map (\<lambda>sl. cp_code (sl_component sl)) (sort_key sl_sortOrder (si_components sal))"
proof -
  from assms obtain wd pd ctx where
    "run_components ev wd pd ctx (sort_key sl_sortOrder (si_components sal)) = Inr ls"
    by (elim computeForEmployee_Inr) blast
  from run_components_codes[OF this] engine_not_neg[OF assms] show ?thesis by (simp add: o_def)
qed

theorem engine_never_negative_witness:
  "\<exists>e ls. computeForEmployee no_evaluator (datefns_of 0) ''e1'' ''y1'' 1 2026 example_salary example_attendance [] = Inr (e, ls)
     \<and> \<not> js_lt (en_netPayable e) (Fin 0) \<and> map ln_componentCode ls = [''BASIC'', ''TAX'']"
proof -
  obtain e ls where e: "computeForEmployee no_evaluator (datefns_of 0) ''e1'' ''y1'' 1 2026
      example_salary example_attendance [] = Inr (e, ls)" using example_run by blast
  from engine_never_negative[OF e] e show ?thesis
    by (auto simp: example_salary_def example_basic_def example_tax_def)
qed

text \<open>
  C1: The net pay never exceeds the gross earnings: for gross earnings up to \<open>2 ^ 38\<close> and
  deductions that are a number, rounding included.
\<close>

theorem engine_net_le_gross:
  assumes "computeForEmployee ev df emp cyc m y sal att hols = Inr (e, ls)"
    and "js_le (en_grossEarnings e) (Fin (2 ^ 38))" and "en_totalDeductions e \<noteq> NaN"
  shows "js_le (Fin 0) (en_netPayable e) \<and> js_le (en_netPayable e) (en_grossEarnings e)"
proof -
  from assms(1) obtain g d where r: "en_grossEarnings e = round2dp g" "en_totalDeductions e = round2dp d"
    "en_netPayable e = round2dp (js_max (Fin 0) (js_sub (round2dp g) (round2dp d)))"
    by (elim computeForEmployee_Inr) blast
  have gd: "js_nonneg (round2dp g)" "js_nonneg (round2dp d)"
    using engine_not_neg(2,3)[OF assms(1)] assms(2,3) r by (auto simp: js_not_neg_iff js_le_def)
  then obtain k where k: "round2dp g = cents k" "\<bar>k\<bar> \<le> 2 ^ 46"
    using round2dp_bounded_cents[of g] assms(2) r(1) by (auto simp: js_nonneg_iff)
  have le: "js_le (en_netPayable e) (en_grossEarnings e)"
    using round2dp_sub_le[OF k gd(2)] gd(1) unfolding r by simp
  then have "en_netPayable e \<noteq> NaN" by (simp add: js_le_def)
  then show ?thesis
    using le engine_not_neg(4)[OF assms(1)] by (auto simp: js_not_neg_iff js_nonneg_iff)
qed

theorem engine_net_le_gross_witness:
  "\<exists>e ls. computeForEmployee no_evaluator (datefns_of 0) ''e1'' ''y1'' 1 2026 example_salary example_attendance [] = Inr (e, ls)
     \<and> en_grossEarnings e = Fin 30000 \<and> js_le (en_netPayable e) (Fin 30000)"
proof -
  obtain e ls where e: "computeForEmployee no_evaluator (datefns_of 0) ''e1'' ''y1'' 1 2026
      example_salary example_attendance [] = Inr (e, ls)" "en_grossEarnings e = Fin 30000"
    "en_totalDeductions e = Fin 15000" using example_run by blast
  from engine_net_le_gross[OF e(1)] e show ?thesis by auto
qed

text \<open>
  The result does not depend on the order in which the database returns the rows of a salary
  structure, as long as no two of them have the same sort order.
\<close>

theorem engine_row_order:
  assumes "mset (si_components sal) = mset rows" and "inj_on sl_sortOrder (set rows)"
  shows "computeForEmployee ev df emp cyc m y sal att hols
    = computeForEmployee ev df emp cyc m y (sal\<lparr>si_components := rows\<rparr>) att hols"
proof -
  have "set (si_components sal) = set rows" using assms(1) by (metis set_mset_mset)
  then have "sort_key sl_sortOrder (si_components sal) = sort_key sl_sortOrder rows"
    using assms by (intro sort_key_perm) auto
  then show ?thesis by (cases sal) (simp add: computeForEmployee_def Let_def split: sum.split prod.split)
qed

text \<open>
  C7: The pure function \<^verbatim>\<open>computePayroll\<close> and the engine agree: on the same components, days and
  monthly salary they fail with the same error or return the same gross earnings, deductions, net
  pay and component amounts.
\<close>

theorem computePayroll_agrees:
  assumes "\<forall>sl \<in> set (si_components sal). base_value sl \<noteq> NaN"
  shows "computePayroll ev
      \<lparr>ci_components = map to_pure (si_components sal),
       ci_monthlyCTC = round2dp (js_div (si_ctc sal) (Fin 12)),
       ci_workingDays = num_of_nat (getWorkingDaysInMonth df y m hols),
       ci_presentDays = pay_days (num_of_nat (getWorkingDaysInMonth df y m hols)) att,
       ci_lopDays = lop_days (num_of_nat (getWorkingDaysInMonth df y m hols)) att\<rparr>
    = map_sum id (\<lambda>(e, ls). \<lparr>cr_grossEarnings = en_grossEarnings e,
          cr_totalDeductions = en_totalDeductions e, cr_netPayable = en_netPayable e,
          cr_components = map pure_line ls\<rparr>)
        (computeForEmployee ev df emp cyc m y sal att hols)"
proof -
  have "sort_key pc_sortOrder (map to_pure (si_components sal))
      = map to_pure (sort_key sl_sortOrder (si_components sal))"
    using sort_key_map[of pc_sortOrder to_pure] by simp
  then show ?thesis using assms
    by (auto simp: computePayroll_def computeForEmployee_def Let_def pure_run_eq pure_totals_eq
        split: sum.split prod.split)
qed

theorem computePayroll_agrees_witness:
  "\<exists>r. computePayroll no_evaluator
      \<lparr>ci_components = map to_pure [example_tax, example_basic], ci_monthlyCTC = round2dp (js_div (Fin 360000) (Fin 12)),
       ci_workingDays = Fin 22, ci_presentDays = Fin 22, ci_lopDays = Fin 0\<rparr> = Inr r
     \<and> cr_netPayable r = Fin 15000"
proof -
  have b: "\<forall>sl \<in> set (si_components example_salary). base_value sl \<noteq> NaN"
    by (simp add: example_salary_def example_basic_def example_tax_def base_value_def js_or_def js_truthy_def)
  obtain e ls where e: "computeForEmployee no_evaluator (datefns_of 0) ''e1'' ''y1'' 1 2026
      example_salary example_attendance [] = Inr (e, ls)" "en_netPayable e = Fin 15000"
    using example_run by blast
  have c: "si_components example_salary = [example_tax, example_basic]" "si_ctc example_salary = Fin 360000"
    by (simp_all add: example_salary_def)
  have d: "pay_days (Fin 22) example_attendance = Fin 22" "lop_days (Fin 22) example_attendance = Fin 0"
    by (simp_all add: example_attendance_def pay_days_def lop_days_def)
  from computePayroll_agrees[OF b, of no_evaluator "datefns_of 0" 2026 1 "[]" example_attendance "''e1''" "''y1''"]
  show ?thesis using e by (simp add: c d)
qed

text \<open>
  A day of unpaid leave without an attendance record is deducted twice: the engine counts it
  once as an absence and once as unpaid leave, so an employee who worked all other days of the
  month is paid for the working days minus twice the days of leave.
\<close>

lemma unpaid_leave_deducted_twice:
  assumes "computeForEmployee ev df emp cyc m y sal
      \<lparr>as_presentDays = num_of_int (int wd - unpaid), as_unpaidLeaveDays = num_of_int unpaid\<rparr> hols = Inr (e, ls)"
    and "getWorkingDaysInMonth df y m hols = wd" and "0 \<le> unpaid" and "unpaid \<le> int wd" and "int wd \<le> 31"
  shows "en_lopDays e = num_of_int (2 * unpaid) \<and> en_presentDays e = num_of_int (max 0 (int wd - 2 * unpaid))"
  using assms(1)
proof (rule computeForEmployee_Inr)
  fix w p
  assume "w = num_of_nat (getWorkingDaysInMonth df y m hols)"
    "en_presentDays e = p"
    "p = pay_days w \<lparr>as_presentDays = num_of_int (int wd - unpaid), as_unpaidLeaveDays = num_of_int unpaid\<rparr>"
    "en_lopDays e = lop_days w \<lparr>as_presentDays = num_of_int (int wd - unpaid), as_unpaidLeaveDays = num_of_int unpaid\<rparr>"
  then show ?thesis
    using pay_days_ints[of "int wd - unpaid" wd unpaid] assms(2-5) by (simp add: algebra_simps)
qed

text \<open>
  A default of zero on a structure line hides the default of the component: the line comes from
  the database client as a decimal object, which is true in a condition, so the fallback to the
  component's default is never taken and a fixed component pays zero, while the same line with
  the plain number zero pays the component's default.
\<close>

theorem decimal_zero_hides_default:
  assumes "cp_calcMethod (sl_component sl) = FIXED" and "cp_defaultValue (sl_component sl) = Some (num_of_int n)"
    and "n \<noteq> 0" and "\<bar>n\<bar> \<le> 2 ^ 39" and "0 < wd" and "wd \<le> 2 ^ 53"
  shows "component_amount ev (num_of_int wd) (num_of_int wd) ctx (sl\<lparr>sl_defaultValue := DecimalObject (Fin 0)\<rparr>) = Inr (Fin 0)
    \<and> component_amount ev (num_of_int wd) (num_of_int wd) ctx (sl\<lparr>sl_defaultValue := PlainNumber (Fin 0)\<rparr>) = Inr (num_of_int n)"
proof -
  have d: "js_div (num_of_int wd) (num_of_int wd) = Fin 1" using assms(5) by simp
  have "to_num (of_int n) = num_of_int n" using assms(4) by (intro to_num_of_int) simp
  then show ?thesis using assms
    by (simp add: component_amount_def base_value_def js_or_def js_truthy_def round2dp_int Let_def)
qed

end
