(* ===== verification/Formula.thy ===== *)
theory Formula
  imports Payroll_Engine Js_String
begin

text \<open>
  Salary formulas: \<^verbatim>\<open>validateFormula\<close> and \<^verbatim>\<open>evaluateFormula\<close> of
  \<^verbatim>\<open>payroll/utils/formula-validator.ts\<close> and the search for circular references of
  \<^verbatim>\<open>payroll/utils/compute-payroll.ts\<close>.  The mutable \<^verbatim>\<open>visited\<close>
  and \<^verbatim>\<open>stack\<close> sets of the search are threaded through it; its fuel bounds the depth of
  the recursion, and the number of components is enough because every nested call visits a new
  component. The lemmas characterise the accepted formulas and show that the search finds exactly
  the cyclic sets of components.
\<close>

section \<open>Tokens\<close>

definition is_word_start :: "char \<Rightarrow> bool" where
  "is_word_start c = (let n = (of_char c :: nat) in (65 \<le> n \<and> n \<le> 90) \<or> n = 95 \<or> (97 \<le> n \<and> n \<le> 122))"

text \<open>All matches of \<^verbatim>\<open>/[A-Za-z_]\w*/g\<close>.\<close>

function tokens :: "string \<Rightarrow> string list" where
  "tokens [] = []"
| "tokens (c # cs) =
     (if is_word_start c then (c # takeWhile is_word_char cs) # tokens (dropWhile is_word_char cs)
      else tokens cs)"
  by pat_completeness auto
termination
  by (relation "measure length") (auto intro: le_less_trans[OF length_dropWhile_le])

text \<open>\<^verbatim>\<open>/^\d+(\.\d+)?$/\<close>.\<close>

definition is_decimal :: "string \<Rightarrow> bool" where
  "is_decimal s =
     (let rest = dropWhile is_digit s
      in takeWhile is_digit s \<noteq> [] \<and>
         (rest = [] \<or> (hd rest = CHR ''.'' \<and> tl rest \<noteq> [] \<and> list_all is_digit (tl rest))))"

section \<open>Validation\<close>

definition DISALLOWED_KEYWORDS :: "string list" where
  "DISALLOWED_KEYWORDS =
     [''eval'', ''require'', ''import'', ''process'', ''global'', ''window'',
      ''document'', ''__proto__'', ''prototype'', ''constructor'']"

definition ALLOWED_MATH_METHODS :: "string list" where
  "ALLOWED_MATH_METHODS =
     [''Math.min'', ''Math.max'', ''Math.floor'', ''Math.round'', ''Math.ceil'', ''Math.abs'',
      ''Math'', ''min'', ''max'', ''floor'', ''round'', ''ceil'', ''abs'',
      ''PI'', ''E'', ''LN2'', ''LN10'', ''LOG2E'', ''LOG10E'', ''SQRT1_2'', ''SQRT2'']"

definition token_allowed :: "string list \<Rightarrow> string \<Rightarrow> bool" where
  "token_allowed knownCodes token =
     (toUpperCase token \<in> set (map toUpperCase knownCodes) \<or> token \<in> set ALLOWED_MATH_METHODS
      \<or> starts_with ''Math.'' token \<or> is_decimal token)"

text \<open>The numbers among the mocked values; the functions are the evaluator's own.\<close>

definition mock_context :: "string list \<Rightarrow> eval_context" where
  "mock_context knownCodes =
     ((\<lambda>k. if k \<in> set knownCodes then Some (Fin 1000) else None)
        (''MONTHLY_CTC'' \<mapsto> Fin 50000, ''WORKING_DAYS'' \<mapsto> Fin 22, ''PRESENT_DAYS'' \<mapsto> Fin 20, ''LOP_DAYS'' \<mapsto> Fin 2))"

definition validateFormula :: "evaluator \<Rightarrow> string \<Rightarrow> string list \<Rightarrow> app_error + unit" where
  "validateFormula ev formula knownCodes =
     (if formula = [] \<or> list_all is_space formula
      then Inl (BadRequestError ''Formula is required for calculationType=formula'')
      else case List.find (str_includes (toLowerCase formula)) DISALLOWED_KEYWORDS of
        Some kw \<Rightarrow> Inl (BadRequestError (''Formula contains disallowed keyword: \"'' @ kw @ ''\"''))
      | None \<Rightarrow>
          (case List.find (\<lambda>t. \<not> token_allowed knownCodes t) (tokens formula) of
             Some t \<Rightarrow> Inl (BadRequestError (''Formula contains unknown token: \"'' @ t
                         @ ''\". Valid variables: '' @ join_comma knownCodes))
           | None \<Rightarrow>
               (case ev (stripMath formula) (mock_context knownCodes) of
                  ExprThrew m \<Rightarrow> Inl (BadRequestError (''Formula syntax error: ''
                      @ (case m of Some msg \<Rightarrow> msg | None \<Rightarrow> ''Unknown error'')))
                | ExprOther \<Rightarrow> Inl (BadRequestError ''Formula does not evaluate to a finite number'')
                | ExprNumber n \<Rightarrow>
                    if js_is_finite n then Inr ()
                    else Inl (BadRequestError ''Formula does not evaluate to a finite number''))))"

text \<open>\<^verbatim>\<open>evaluateFormula\<close>; \<open>show_result\<close> is the string a result prints as.\<close>

definition evaluateFormula ::
    "evaluator \<Rightarrow> (expr_result \<Rightarrow> string) \<Rightarrow> string \<Rightarrow> eval_context \<Rightarrow> engine_error + jsnum" where
  "evaluateFormula ev show_result formula ctx =
     (let res = ev (stripMath formula) (evalCtx ctx);
          not_finite = Inl (FormulaEvaluationError
            (''Formula did not evaluate to a finite number: '' @ show_result res) [] formula)
      in case res of
           ExprThrew m \<Rightarrow> Inl (FormulaEvaluationError
             (''Formula evaluation error: '' @ (case m of Some msg \<Rightarrow> msg | None \<Rightarrow> ''Unknown error'')) [] formula)
         | ExprOther \<Rightarrow> not_finite
         | ExprNumber n \<Rightarrow> if js_is_finite n then Inr (round2dp (js_max (Fin 0) n)) else not_finite)"

section \<open>Circular references\<close>

type_synonym formula_components = "(string \<times> string option) list"

text \<open>A \<^verbatim>\<open>Map\<close> built from pairs keeps the last value of a repeated key.\<close>

definition formulaMap :: "formula_components \<Rightarrow> string \<rightharpoonup> string option" where
  "formulaMap comps = map_of (rev comps)"

definition getDependencies :: "formula_components \<Rightarrow> string \<Rightarrow> string list" where
  "getDependencies comps code =
     (case formulaMap comps code of
        Some (Some formula) \<Rightarrow>
          (if formula = [] then []
           else first_occurrences (filter (\<lambda>t. t \<in> fst ` set comps) (tokens formula)))
      | _ \<Rightarrow> [])"

fun hasCycle :: "nat \<Rightarrow> (string \<Rightarrow> string list) \<Rightarrow> string \<Rightarrow> string set \<Rightarrow> string set
      \<Rightarrow> (bool \<times> string set \<times> string set) option"
  and dep_loop :: "nat \<Rightarrow> (string \<Rightarrow> string list) \<Rightarrow> string list \<Rightarrow> string set \<Rightarrow> string set
      \<Rightarrow> (bool \<times> string set \<times> string set) option" where
  "hasCycle 0 deps node visited stack = None"
| "hasCycle (Suc n) deps node visited stack =
     (case dep_loop n deps (deps node) (insert node visited) (insert node stack) of
        None \<Rightarrow> None
      | Some (True, v, s) \<Rightarrow> Some (True, v, s)
      | Some (False, v, s) \<Rightarrow> Some (False, v, s - {node}))"
| "dep_loop n deps [] visited stack = Some (False, visited, stack)"
| "dep_loop n deps (dep # ds) visited stack =
     (if dep \<notin> visited then
        (case hasCycle n deps dep visited stack of
           None \<Rightarrow> None
         | Some (True, v, s) \<Rightarrow> Some (True, v, s)
         | Some (False, v, s) \<Rightarrow> dep_loop n deps ds v s)
      else if dep \<in> stack then Some (True, visited, stack)
      else dep_loop n deps ds visited stack)"

fun component_loop :: "nat \<Rightarrow> (string \<Rightarrow> string list) \<Rightarrow> string list \<Rightarrow> (app_error + unit) option" where
  "component_loop n deps [] = Some (Inr ())"
| "component_loop n deps (c # cs) =
     (case hasCycle n deps c {} {} of
        None \<Rightarrow> None
      | Some (True, _) \<Rightarrow>
          Some (Inl (RuntimeError (''Circular dependency detected involving component \"'' @ c @ ''\"'')))
      | Some (False, _) \<Rightarrow> component_loop n deps cs)"

definition detectCircularDependency :: "formula_components \<Rightarrow> (app_error + unit) option" where
  "detectCircularDependency comps =
     component_loop (length comps) (getDependencies comps) (map fst comps)"

section \<open>The search is complete\<close>

definition dep_graph :: "(string \<Rightarrow> string list) \<Rightarrow> (string \<times> string) set" where
  "dep_graph deps = {(a, b). b \<in> set (deps a)}"

text \<open>A set of finished components: closed under references and free of cycles.\<close>

definition settled :: "(string \<Rightarrow> string list) \<Rightarrow> string set \<Rightarrow> bool" where
  "settled deps F \<longleftrightarrow> (\<forall>a \<in> F. set (deps a) \<subseteq> F \<and> (a, a) \<notin> (dep_graph deps)\<^sup>+)"

lemma dep_graph_iff [simp]: "(a, b) \<in> dep_graph deps \<longleftrightarrow> b \<in> set (deps a)"
  by (simp add: dep_graph_def)

lemma settled_reaches: "(a, b) \<in> (dep_graph deps)\<^sup>* \<Longrightarrow> settled deps F \<Longrightarrow> a \<in> F \<Longrightarrow> b \<in> F"
  by (induction rule: rtrancl_induct) (auto simp: settled_def)

lemma settled_insert:
  assumes "settled deps F" and "set (deps a) \<subseteq> F" and "a \<notin> F"
  shows "settled deps (insert a F)"
proof -
  have "(a, a) \<notin> (dep_graph deps)\<^sup>+"
  proof
    assume "(a, a) \<in> (dep_graph deps)\<^sup>+"
    then obtain b where "b \<in> set (deps a)" "(b, a) \<in> (dep_graph deps)\<^sup>*"
      by (auto dest!: tranclD)
    then show False using assms settled_reaches[of b a deps F] by auto
  qed
  then show ?thesis using assms by (auto simp: settled_def)
qed

definition cyclic :: "(string \<Rightarrow> string list) \<Rightarrow> bool" where
  "cyclic deps \<longleftrightarrow> (\<exists>a. (a, a) \<in> (dep_graph deps)\<^sup>+)"

definition search_pre where
  "search_pre deps visited stack node \<longleftrightarrow>
     stack \<subseteq> visited \<and> settled deps (visited - stack) \<and> (\<forall>a \<in> stack. (a, node) \<in> (dep_graph deps)\<^sup>*)"

definition reaches_cycle :: "(string \<Rightarrow> string list) \<Rightarrow> string \<Rightarrow> bool" where
  "reaches_cycle deps c \<longleftrightarrow> (\<exists>a. (c, a) \<in> (dep_graph deps)\<^sup>* \<and> (a, a) \<in> (dep_graph deps)\<^sup>+)"

lemma reaches_cycle_step: "b \<in> set (deps a) \<Longrightarrow> reaches_cycle deps b \<Longrightarrow> reaches_cycle deps a"
  unfolding reaches_cycle_def by (metis converse_rtrancl_into_rtrancl dep_graph_iff)

lemma hasCycle_correct:
  "hasCycle n deps node visited stack = Some (r, v, s) \<Longrightarrow> node \<notin> visited \<Longrightarrow>
     search_pre deps visited stack node \<Longrightarrow>
     (if r then reaches_cycle deps node
      else s = stack \<and> insert node visited \<subseteq> v \<and> node \<notin> stack \<and> settled deps (v - stack))"
  "dep_loop n deps ds visited stack = Some (r, v, s) \<Longrightarrow> node \<in> stack \<Longrightarrow> set ds \<subseteq> set (deps node) \<Longrightarrow>
     search_pre deps visited stack node \<Longrightarrow>
     (if r then reaches_cycle deps node
      else s = stack \<and> visited \<subseteq> v \<and> settled deps (v - stack) \<and> set ds \<subseteq> v - stack)"
proof (induction n deps node visited stack and n deps ds visited stack
    arbitrary: r v s and r v s node rule: hasCycle_dep_loop.induct)
  case (2 n deps node visited stack)
  then obtain v' s' where l: "dep_loop n deps (deps node) (insert node visited) (insert node stack) = Some (r, v', s')"
    "v = v'" "s = (if r then s' else s' - {node})"
    by (auto split: option.splits prod.splits bool.splits)
  have eq: "insert node visited - insert node stack = visited - stack"
    using \<open>node \<notin> visited\<close> by auto
  have pre: "search_pre deps (insert node visited) (insert node stack) node"
    using 2(4) unfolding search_pre_def eq by auto
  show ?case
  proof (cases r)
    case True
    then show ?thesis using 2(1)[OF l(1) _ _ pre] by simp
  next
    case False
    have r: "s' = insert node stack" "insert node visited \<subseteq> v'" "settled deps (v' - insert node stack)"
      "set (deps node) \<subseteq> v' - insert node stack"
      using 2(1)[OF l(1) _ _ pre] False by auto
    have n: "node \<notin> stack" using 2(3,4) by (auto simp: search_pre_def)
    have "v' - stack = insert node (v' - insert node stack)" using r(2) n by auto
    then have "settled deps (v' - stack)" using settled_insert[OF r(3,4)] by simp
    then show ?thesis using False l(2,3) r(1,2) n by auto
  qed
next
  case (4 n deps dep ds visited stack)
  show ?case
  proof (cases "dep \<in> visited")
    case True
    show ?thesis
    proof (cases "dep \<in> stack")
      case True
      have "(dep, node) \<in> (dep_graph deps)\<^sup>*" "(node, dep) \<in> dep_graph deps"
        using 4 True by (auto simp: search_pre_def)
      then have "(node, node) \<in> (dep_graph deps)\<^sup>+" by (rule rtrancl_into_trancl2[rotated])
      then show ?thesis using 4(4) True \<open>dep \<in> visited\<close> by (auto simp: reaches_cycle_def)
    next
      case False
      then show ?thesis using 4(3)[of r v s node] 4(4-) True by (auto simp: search_pre_def split: if_splits)
    qed
  next
    case False
    then obtain r' v' s' where h: "hasCycle n deps dep visited stack = Some (r', v', s')"
      using 4(4) by (auto split: option.splits)
    have pre: "search_pre deps visited stack dep"
      using 4(6,7) unfolding search_pre_def by (auto intro: rtrancl_into_rtrancl)
    have step: "(node, dep) \<in> dep_graph deps" using 4(6) by simp
    note IH = 4(1)[OF False h False pre]
    show ?thesis
    proof (cases r')
      case True
      then have "r" using 4(4) False h by auto
      moreover have "reaches_cycle deps dep" using IH True by simp
      then have "reaches_cycle deps node" using step reaches_cycle_step by simp
      ultimately show ?thesis by simp
    next
      case f: False
      then have i: "s' = stack" "insert dep visited \<subseteq> v'" "settled deps (v' - stack)" "dep \<notin> stack"
        using IH by auto
      have "dep_loop n deps ds v' s' = Some (r, v, s)" using 4(4) False h f by simp
      moreover have "search_pre deps v' s' node" using 4(7) i unfolding search_pre_def by auto
      ultimately show ?thesis
        using 4(2)[of "(r', v', s')" r' "(v', s')" v' s' r v s node] 4(5,6) False h f i by (auto split: if_splits)
    qed
  qed
qed (auto simp: search_pre_def)

section \<open>The fuel is enough\<close>

lemma hasCycle_fuel:
  "finite K \<Longrightarrow> \<forall>a. set (deps a) \<subseteq> K \<Longrightarrow> node \<in> K - visited \<Longrightarrow> card (K - visited) \<le> n \<Longrightarrow>
     \<exists>r v s. hasCycle n deps node visited stack = Some (r, v, s) \<and> visited \<subseteq> v"
  "finite K \<Longrightarrow> \<forall>a. set (deps a) \<subseteq> K \<Longrightarrow> set ds \<subseteq> K \<Longrightarrow> card (K - visited) \<le> n \<Longrightarrow>
     \<exists>r v s. dep_loop n deps ds visited stack = Some (r, v, s) \<and> visited \<subseteq> v"
proof (induction n deps node visited stack and n deps ds visited stack rule: hasCycle_dep_loop.induct)
  case (1 deps node visited stack)
  then show ?case by (metis card_eq_0_iff empty_iff finite_Diff le_zero_eq)
next
  case (2 n deps node visited stack)
  have "K - insert node visited = (K - visited) - {node}" by auto
  then have "card (K - insert node visited) \<le> n"
    using 2(2,4,5) by (simp add: card_Diff_singleton)
  then show ?case using 2(1)[OF 2(2,3)] 2(3) by (auto split: option.splits bool.splits)
next
  case (4 n deps dep ds visited stack)
  show ?case
  proof (cases "dep \<in> visited")
    case True
    then show ?thesis using 4(3) 4(4-) by auto
  next
    case False
    then obtain r v s where h: "hasCycle n deps dep visited stack = Some (r, v, s)" "visited \<subseteq> v"
      using 4(1)[OF False 4(4,5)] 4(6,7) by auto
    have "card (K - v) \<le> card (K - visited)" using h(2) 4(4) by (intro card_mono) auto
    then have "\<not> r \<Longrightarrow> \<exists>r' v' s'. dep_loop n deps ds v s = Some (r', v', s') \<and> v \<subseteq> v'"
      using 4(2)[OF False h(1) refl _ refl 4(4,5)] 4(6,7) by auto
    then show ?thesis using False h by (cases r) (auto dest: order_trans)
  qed
qed auto

lemma hasCycle_iff:
  assumes "finite K" and "\<forall>a. set (deps a) \<subseteq> K" and "c \<in> K" and "card K \<le> n"
  shows "\<exists>v s. hasCycle n deps c {} {} = Some (reaches_cycle deps c, v, s)"
proof -
  obtain r v s where h: "hasCycle n deps c {} {} = Some (r, v, s)"
    using hasCycle_fuel(1)[OF assms(1,2), of c "{}" n "{}"] assms(3,4) by auto
  have "search_pre deps {} {} c" by (simp add: search_pre_def settled_def)
  from hasCycle_correct(1)[OF h _ this]
  have c: "if r then reaches_cycle deps c else s = {} \<and> c \<in> v \<and> settled deps v" by (auto split: if_splits)
  have "\<not> r \<Longrightarrow> \<not> reaches_cycle deps c"
  proof
    assume nr: "\<not> r" and "reaches_cycle deps c"
    then obtain a where "(c, a) \<in> (dep_graph deps)\<^sup>*" "(a, a) \<in> (dep_graph deps)\<^sup>+"
      by (auto simp: reaches_cycle_def)
    then show False using settled_reaches c nr by (auto simp: settled_def)
  qed
  then show ?thesis using h c by (cases r) auto
qed

lemma component_loop_eq:
  assumes "finite K" and "\<forall>a. set (deps a) \<subseteq> K" and "set cs \<subseteq> K" and "card K \<le> n"
  shows "component_loop n deps cs =
    Some (case List.find (reaches_cycle deps) cs of
            None \<Rightarrow> Inr ()
          | Some c \<Rightarrow> Inl (RuntimeError (''Circular dependency detected involving component \"'' @ c @ ''\"'')))"
  using assms(3)
proof (induction cs)
  case (Cons c cs)
  then obtain v s where "hasCycle n deps c {} {} = Some (reaches_cycle deps c, v, s)"
    using hasCycle_iff[OF assms(1,2) _ assms(4), of c] by auto
  then show ?case using Cons by (cases "reaches_cycle deps c") auto
qed simp

lemma getDependencies_known: "set (getDependencies comps c) \<subseteq> fst ` set comps"
  by (auto simp: getDependencies_def split: option.splits if_splits)

lemma getDependencies_unknown: "c \<notin> fst ` set comps \<Longrightarrow> getDependencies comps c = []"
  by (simp add: getDependencies_def formulaMap_def map_of_eq_None_iff[THEN iffD2] split: option.split)

lemma cycle_component: "(a, a) \<in> (dep_graph (getDependencies comps))\<^sup>+ \<Longrightarrow> a \<in> fst ` set comps"
  by (rule ccontr) (auto dest!: tranclD simp: getDependencies_unknown)

lemma detectCircularDependency_eq:
  "detectCircularDependency comps =
    Some (case List.find (reaches_cycle (getDependencies comps)) (map fst comps) of
            None \<Rightarrow> Inr ()
          | Some c \<Rightarrow> Inl (RuntimeError (''Circular dependency detected involving component \"'' @ c @ ''\"'')))"
  unfolding detectCircularDependency_def
  using card_image_le[of "set comps" fst] card_length[of comps] getDependencies_known[of comps]
  by (intro component_loop_eq[of "fst ` set comps"]) (auto intro: order_trans)

section \<open>Names in a formula\<close>

lemma tokens_word:
  "t \<in> set (tokens s) \<Longrightarrow> t \<noteq> [] \<and> is_word_start (hd t) \<and> (\<forall>c \<in> set (tl t). is_word_char c)"
  by (induction s rule: tokens.induct) (auto dest: set_takeWhileD split: if_splits)

lemma tokens_no_math: "t \<in> set (tokens s) \<Longrightarrow> \<not> starts_with ''Math.'' t"
proof
  assume t: "t \<in> set (tokens s)" and "starts_with ''Math.'' t"
  then obtain r where "t = ''Math.'' @ r" by (auto simp: starts_with_iff)
  then show False using tokens_word[OF t] by (auto simp: is_word_char_def)
qed

lemma tokens_no_decimal: "t \<in> set (tokens s) \<Longrightarrow> \<not> is_decimal t"
  using tokens_word[of t s]
  by (cases t) (auto simp: is_decimal_def is_word_start_def is_digit_def Let_def)

section \<open>Properties\<close>

text \<open>
  C3: The search for circular references returns on every list of components (its fuel, the number
  of components, is never used up), and it accepts the list exactly when no component
  refers to itself through a chain of formulas.
\<close>

theorem circular_reference_search:
  "\<exists>r. detectCircularDependency comps = Some r
     \<and> (r = Inr () \<longleftrightarrow> (\<nexists>a. (a, a) \<in> {(a, b). b \<in> set (getDependencies comps a)}\<^sup>+))"
proof -
  have g: "{(a, b). b \<in> set (getDependencies comps a)} = dep_graph (getDependencies comps)"
    by (auto simp: dep_graph_def)
  have "(\<exists>a. (a, a) \<in> (dep_graph (getDependencies comps))\<^sup>+)
      \<longleftrightarrow> (\<exists>c \<in> set (map fst comps). reaches_cycle (getDependencies comps) c)"
  proof
    assume "\<exists>a. (a, a) \<in> (dep_graph (getDependencies comps))\<^sup>+"
    then obtain a where a: "(a, a) \<in> (dep_graph (getDependencies comps))\<^sup>+" ..
    then have "reaches_cycle (getDependencies comps) a" by (auto simp: reaches_cycle_def)
    then show "\<exists>c \<in> set (map fst comps). reaches_cycle (getDependencies comps) c"
      using cycle_component[OF a] by auto
  qed (auto simp: reaches_cycle_def)
  then show ?thesis unfolding g
    by (auto simp: detectCircularDependency_eq find_None_iff find_Some_iff split: option.splits)
qed

theorem circular_reference_search_witness:
  "(\<nexists>a. (a, a) \<in> {(a, b). b \<in> set (getDependencies [(''A'', Some ''B + 1''), (''B'', None)] a)}\<^sup>+)
   \<and> (\<exists>a. (a, a) \<in> {(a, b). b \<in> set (getDependencies [(''A'', Some ''B + 1''), (''B'', Some ''2 * A'')] a)}\<^sup>+)"
proof
  have "detectCircularDependency [(''A'', Some ''B + 1''), (''B'', None)] = Some (Inr ())" by code_simp
  then show "\<nexists>a. (a, a) \<in> {(a, b). b \<in> set (getDependencies [(''A'', Some ''B + 1''), (''B'', None)] a)}\<^sup>+"
    using circular_reference_search[of "[(''A'', Some ''B + 1''), (''B'', None)]"] by simp
  have "detectCircularDependency [(''A'', Some ''B + 1''), (''B'', Some ''2 * A'')] \<noteq> Some (Inr ())" by code_simp
  then show "\<exists>a. (a, a) \<in> {(a, b). b \<in> set (getDependencies [(''A'', Some ''B + 1''), (''B'', Some ''2 * A'')] a)}\<^sup>+"
    using circular_reference_search[of "[(''A'', Some ''B + 1''), (''B'', Some ''2 * A'')]"] by auto
qed

text \<open>
  A formula is accepted exactly when it is not blank, contains none of the forbidden words in
  any case, every name in it is a known component (in any case) or an allowed function or constant,
  and evaluating it on the mocked values gives a finite number.
\<close>

lemma validateFormula_accepts_iff:
  "validateFormula ev formula codes = Inr () \<longleftrightarrow>
     \<not> list_all is_space formula
   \<and> (\<forall>kw \<in> set DISALLOWED_KEYWORDS. \<not> str_includes (toLowerCase formula) kw)
   \<and> (\<forall>t \<in> set (tokens formula). toUpperCase t \<in> toUpperCase ` set codes \<or> t \<in> set ALLOWED_MATH_METHODS)
   \<and> (\<exists>q. ev (stripMath formula) (mock_context codes) = ExprNumber (Fin q))"
proof -
  have "(\<forall>t \<in> set (tokens formula). token_allowed codes t)
      \<longleftrightarrow> (\<forall>t \<in> set (tokens formula). toUpperCase t \<in> toUpperCase ` set codes \<or> t \<in> set ALLOWED_MATH_METHODS)"
    using tokens_no_math[of _ formula] tokens_no_decimal[of _ formula] by (auto simp: token_allowed_def)
  moreover have "js_is_finite n \<longleftrightarrow> (\<exists>q. n = Fin q)" for n by (cases n) auto
  ultimately show ?thesis
    by (auto simp: validateFormula_def find_None_iff2 find_None_iff dest!: list_find_Some
        split: option.splits expr_result.splits)
qed

text \<open>
  The component an error names need not be part of the cycle: here \<^verbatim>\<open>A\<close> only refers to the
  component that refers to itself.
\<close>

lemma circular_error_names_referrer:
  "detectCircularDependency [(''A'', Some ''B''), (''B'', Some ''B'')]
    = Some (Inl (RuntimeError ''Circular dependency detected involving component \"A\"''))"
  by code_simp

end
