(* ===== verification/Staff.thy ===== *)
theory Staff
  imports Prelude
begin

text \<open>
  The row of the \<^verbatim>\<open>employees\<close> table, as \<^verbatim>\<open>libs/prisma/schema.prisma\<close> declares
  it, and the lookups by company and by user that several services share.
\<close>

datatype employee_status = EmpACTIVE | EmpINACTIVE | EmpON_LEAVE | EmpTERMINATED

datatype employment_type = FULL_TIME | PART_TIME | CONTRACT | INTERN

record employee_row =
  em_companyId :: id
  em_employeeNumber :: string
  em_userId :: "id option"
  em_departmentId :: "id option"
  em_managerId :: "id option"
  em_jobTitleId :: "id option"
  em_locationId :: "id option"
  em_payGradeId :: "id option"
  em_employmentType :: employment_type
  em_status :: employee_status
  em_joinedAt :: instant
  em_probationEndsAt :: "instant option"
  em_exitedAt :: "instant option"
  em_lastWorkingDate :: "instant option"
  em_exitReason :: "string option"
  em_workEmail :: string
  em_workPhone :: "string option"
  em_deletedAt :: "instant option"

text \<open>An employee of a company with nothing else set, for concrete runs.\<close>

definition new_employee :: "id \<Rightarrow> id option \<Rightarrow> employee_row" where
  "new_employee company user =
     \<lparr>em_companyId = company, em_employeeNumber = ''E1'', em_userId = user, em_departmentId = None,
      em_managerId = None, em_jobTitleId = None, em_locationId = None, em_payGradeId = None,
      em_employmentType = FULL_TIME, em_status = EmpACTIVE, em_joinedAt = 0, em_probationEndsAt = None,
      em_exitedAt = None, em_lastWorkingDate = None, em_exitReason = None, em_workEmail = ''e@x'',
      em_workPhone = None, em_deletedAt = None\<rparr>"

text \<open>\<^verbatim>\<open>employee.findFirst\<close> by the user of the request.\<close>

definition employee_of_user :: "id \<Rightarrow> id \<Rightarrow> employee_row table \<Rightarrow> (id \<times> employee_row) option" where
  "employee_of_user userId companyId t =
     tbl_find (\<lambda>i e. em_userId e = Some userId \<and> em_companyId e = companyId) t"

end
