(* ===== verification/Audit_Log.thy ===== *)
theory Audit_Log
  imports Prelude JsNumber
begin

text \<open>
  The audit log of \<^verbatim>\<open>modules/audit/audit.service.ts\<close>: JSON values as far as the services put
  them into the log, the entry a caller passes, the row written, and the removal of sensitive
  fields from the new value. The lemmas show that no row ever holds a sensitive top-level key.
\<close>

datatype json =
    JNull
  | JBool bool
  | JNum jsnum
  | JStr string
  | JDate instant
  | JArr "json list"
  | JObj "(string \<times> json) list"

text \<open>The context of an authenticated request, \<^verbatim>\<open>common/context/request-context.ts\<close>.\<close>

record request_context =
  rc_userId :: id
  rc_companyId :: id
  rc_email :: string
  rc_roles :: "string list"
  rc_permissions :: "string list"
  rc_sessionId :: string
  rc_traceId :: string

definition actor_in :: "id \<Rightarrow> id \<Rightarrow> request_context" where
  "actor_in user company =
     \<lparr>rc_userId = user, rc_companyId = company, rc_email = [], rc_roles = [], rc_permissions = [],
      rc_sessionId = [], rc_traceId = []\<rparr>"

lemma actor_in_simps [simp]:
  "rc_userId (actor_in u c) = u" "rc_companyId (actor_in u c) = c" "rc_roles (actor_in u c) = []"
  by (simp_all add: actor_in_def)

record audit_entry =
  ae_actor :: "request_context option"
  ae_companyId :: id
  ae_entityType :: string
  ae_entityId :: "id option"
  ae_action :: string
  ae_oldValue :: json
  ae_newValue :: json

record audit_row =
  ar_companyId :: id
  ar_userId :: "id option"
  ar_action :: string
  ar_resource :: string
  ar_resourceId :: "id option"
  ar_before :: json
  ar_after :: json
  ar_traceId :: "string option"

definition PII_FIELDS :: "string list" where
  "PII_FIELDS = [''base64Signature'', ''passwordHash'', ''otpCode'', ''rawToken'', ''signedUrl'']"

definition stripPii :: "(string \<times> json) list \<Rightarrow> (string \<times> json) list" where
  "stripPii metadata = filter (\<lambda>(key, v). key \<notin> set PII_FIELDS) metadata"

text \<open>\<^verbatim>\<open>newValue\<close> is stripped when it is an object; arrays and scalars pass unchanged.\<close>

fun sanitize :: "json \<Rightarrow> json" where
  "sanitize (JObj kvs) = JObj (stripPii kvs)"
| "sanitize v = v"

definition audit_record :: "audit_entry \<Rightarrow> audit_row list \<Rightarrow> audit_row list" where
  "audit_record e rows = rows @
     [\<lparr>ar_companyId = ae_companyId e,
       ar_userId = map_option rc_userId (ae_actor e),
       ar_action = ae_action e,
       ar_resource = ae_entityType e,
       ar_resourceId = ae_entityId e,
       ar_before = ae_oldValue e,
       ar_after = sanitize (ae_newValue e),
       ar_traceId = (case ae_actor e of None \<Rightarrow> None
                     | Some c \<Rightarrow> if rc_traceId c = [] then None else Some (rc_traceId c))\<rparr>]"

text \<open>The entry most services write: an actor or none, and a new value only.\<close>

definition entry_of ::
    "request_context option \<Rightarrow> id \<Rightarrow> string \<Rightarrow> id \<Rightarrow> string \<Rightarrow> (string \<times> json) list \<Rightarrow> audit_entry" where
  "entry_of actor company etype eid act nv =
     \<lparr>ae_actor = actor, ae_companyId = company, ae_entityType = etype, ae_entityId = Some eid,
      ae_action = act, ae_oldValue = JNull, ae_newValue = JObj nv\<rparr>"

text \<open>
  \<^verbatim>\<open>logAsync\<close> swallows a failure of the insert. The company column holds a UUID that
  refers to a company, so an entry with the empty string for its company is never written.
\<close>

definition logAsync :: "audit_entry \<Rightarrow> audit_row list \<Rightarrow> audit_row list" where
  "logAsync e rows = (if ae_companyId e = [] then rows else audit_record e rows)"

fun top_keys :: "json \<Rightarrow> string list" where
  "top_keys (JObj kvs) = map fst kvs"
| "top_keys v = []"

definition pii_free :: "audit_row \<Rightarrow> bool" where
  "pii_free r = (\<forall>k \<in> set (top_keys (ar_after r)). k \<notin> set PII_FIELDS)"

lemma top_keys_sanitize: "k \<in> set (top_keys (sanitize v)) \<Longrightarrow> k \<notin> set PII_FIELDS"
  by (cases v) (auto simp: stripPii_def)

lemma audit_record_pii_free:
  "\<forall>r \<in> set rows. pii_free r \<Longrightarrow> \<forall>r \<in> set (audit_record e rows). pii_free r"
  by (auto simp: audit_record_def pii_free_def dest: top_keys_sanitize)

lemma length_audit_record [simp]: "length (audit_record e rows) = Suc (length rows)"
  by (simp add: audit_record_def)

lemma audit_record_prefix: "\<exists>r. audit_record e rows = rows @ [r]"
  by (simp add: audit_record_def)

end
