(* ===== verification/Holiday.thy ===== *)
theory Holiday
  imports Calendar
begin

text \<open>
  Holiday calendars and holidays: \<^verbatim>\<open>holiday/services/holiday-calendar.service.ts\<close> and
  \<^verbatim>\<open>holiday.service.ts\<close>. A company has calendars by year, at most one of them the
  default; deleting a calendar deletes its holidays. The lemmas show that the default stays unique
  and which holidays a range of dates has.
\<close>

datatype holiday_type = PUBLIC | OPTIONAL | COMPANY

record calendar_row =
  hc_companyId :: id
  hc_name :: string
  hc_year :: int
  hc_isDefault :: bool

record holiday_row =
  hl_calendarId :: id
  hl_name :: string
  hl_date :: instant
  hl_type :: holiday_type

record holiday_db =
  hd_calendars :: "calendar_row table"
  hd_holidays :: "holiday_row table"

section \<open>Calendars\<close>

record calendar_dto =
  ca_name :: string
  ca_year :: int
  ca_isDefault :: bool

definition clear_default :: "id \<Rightarrow> int \<Rightarrow> (id \<Rightarrow> bool) \<Rightarrow> calendar_row table \<Rightarrow> calendar_row table" where
  "clear_default companyId year except t =
     tbl_update_many (\<lambda>i c. hc_companyId c = companyId \<and> hc_year c = year \<and> hc_isDefault c \<and> \<not> except i)
       (\<lambda>c. c\<lparr>hc_isDefault := False\<rparr>) t"

text \<open>The name of a calendar is unique in a company and year.\<close>

definition calendar_name_free :: "id \<Rightarrow> id \<Rightarrow> int \<Rightarrow> string \<Rightarrow> calendar_row table \<Rightarrow> bool" where
  "calendar_name_free i companyId year name t =
     (tbl_find (\<lambda>j c. j \<noteq> i \<and> hc_companyId c = companyId \<and> hc_year c = year \<and> hc_name c = name) t = None)"

definition createCalendar :: "id \<Rightarrow> id \<Rightarrow> calendar_dto \<Rightarrow> holiday_db \<Rightarrow> (holiday_db, id) outcome" where
  "createCalendar newId companyId dto s = transaction (\<lambda>s.
     (let t = (if ca_isDefault dto then clear_default companyId (ca_year dto) (\<lambda>i. False) (hd_calendars s)
               else hd_calendars s)
      in if \<not> calendar_name_free newId companyId (ca_year dto) (ca_name dto) t
         then (Inl (DatabaseError ''holiday_calendars''), s)
         else (Inr newId, s\<lparr>hd_calendars := tbl_insert newId
                \<lparr>hc_companyId = companyId, hc_name = ca_name dto, hc_year = ca_year dto, hc_isDefault = ca_isDefault dto\<rparr> t\<rparr>))) s"

definition find_calendar :: "id \<Rightarrow> id \<Rightarrow> holiday_db \<Rightarrow> app_error + calendar_row" where
  "find_calendar i companyId s =
     (case tbl_get_where i (\<lambda>c. hc_companyId c = companyId) (hd_calendars s) of
        None \<Rightarrow> Inl (NotFoundError ''Holiday calendar not found'')
      | Some c \<Rightarrow> Inr c)"

definition patch_calendar :: "string option \<Rightarrow> bool option \<Rightarrow> calendar_row \<Rightarrow> calendar_row" where
  "patch_calendar name isDefault c =
     c\<lparr>hc_name := (case name of None \<Rightarrow> hc_name c | Some n \<Rightarrow> n),
       hc_isDefault := (case isDefault of None \<Rightarrow> hc_isDefault c | Some d \<Rightarrow> d)\<rparr>"

definition updateCalendar ::
    "id \<Rightarrow> id \<Rightarrow> string option \<Rightarrow> bool option \<Rightarrow> holiday_db \<Rightarrow> (holiday_db, unit) outcome" where
  "updateCalendar companyId i name isDefault s =
     (case find_calendar i companyId s of
        Inl e \<Rightarrow> (Inl e, s)
      | Inr cal \<Rightarrow> transaction (\<lambda>s.
          (let t = (if isDefault = Some True then clear_default companyId (hc_year cal) (\<lambda>j. j = i) (hd_calendars s)
                    else hd_calendars s)
           in if \<not> calendar_name_free i companyId (hc_year cal) (case name of None \<Rightarrow> hc_name cal | Some n \<Rightarrow> n) t
              then (Inl (DatabaseError ''holiday_calendars''), s)
              else (Inr (), s\<lparr>hd_calendars := tbl_update i (patch_calendar name isDefault) t\<rparr>))) s)"

definition deleteCalendar :: "id \<Rightarrow> id \<Rightarrow> holiday_db \<Rightarrow> (holiday_db, unit) outcome" where
  "deleteCalendar companyId i s =
     (case find_calendar i companyId s of
        Inl e \<Rightarrow> (Inl e, s)
      | Inr _ \<Rightarrow> (Inr (), s\<lparr>hd_calendars := tbl_delete_many (\<lambda>j c. j = i) (hd_calendars s),
                            hd_holidays := tbl_delete_many (\<lambda>j h. hl_calendarId h = i) (hd_holidays s)\<rparr>))"

definition listCalendars :: "id \<Rightarrow> int option \<Rightarrow> holiday_db \<Rightarrow> (id \<times> calendar_row) list" where
  "listCalendars companyId year s =
     sort_key (\<lambda>(i, c). - hc_year c)
       (tbl_all (\<lambda>i c. hc_companyId c = companyId \<and> (case year of None \<Rightarrow> True | Some y \<Rightarrow> hc_year c = y)) (hd_calendars s))"

definition findDefaultCalendar :: "id \<Rightarrow> int \<Rightarrow> holiday_db \<Rightarrow> (id \<times> calendar_row) option" where
  "findDefaultCalendar companyId year s =
     tbl_find (\<lambda>i c. hc_companyId c = companyId \<and> hc_year c = year \<and> hc_isDefault c) (hd_calendars s)"

section \<open>Holidays\<close>

record holiday_dto =
  ho_name :: string
  ho_date :: instant
  ho_type :: holiday_type

definition addHoliday :: "id \<Rightarrow> id \<Rightarrow> id \<Rightarrow> holiday_dto \<Rightarrow> holiday_db \<Rightarrow> (holiday_db, id) outcome" where
  "addHoliday newId calendarId companyId dto s =
     (case find_calendar calendarId companyId s of
        Inl e \<Rightarrow> (Inl e, s)
      | Inr _ \<Rightarrow>
          (case tbl_find (\<lambda>i h. hl_calendarId h = calendarId \<and> hl_date h = utc_midnight (ho_date dto)) (hd_holidays s) of
             Some _ \<Rightarrow> (Inl (BadRequestError ''A holiday already exists on this date in the calendar''), s)
           | None \<Rightarrow> (Inr newId, s\<lparr>hd_holidays := tbl_insert newId
                \<lparr>hl_calendarId = calendarId, hl_name = ho_name dto, hl_date = utc_midnight (ho_date dto), hl_type = ho_type dto\<rparr>
                (hd_holidays s)\<rparr>)))"

text \<open>A holiday of a calendar of the company.\<close>

definition find_holiday :: "id \<Rightarrow> id \<Rightarrow> holiday_db \<Rightarrow> app_error + holiday_row" where
  "find_holiday i companyId s =
     (case tbl_get_where i (\<lambda>h. tbl_get_where (hl_calendarId h) (\<lambda>c. hc_companyId c = companyId) (hd_calendars s) \<noteq> None)
             (hd_holidays s) of
        None \<Rightarrow> Inl (NotFoundError ''Holiday not found'')
      | Some h \<Rightarrow> Inr h)"

text \<open>With a date, the function refers to a variable that does not exist and throws.\<close>

definition updateHoliday ::
    "id \<Rightarrow> id \<Rightarrow> string option \<Rightarrow> instant option \<Rightarrow> holiday_type option \<Rightarrow> holiday_db \<Rightarrow> (holiday_db, unit) outcome" where
  "updateHoliday i companyId name date type' s =
     (case find_holiday i companyId s of
        Inl e \<Rightarrow> (Inl e, s)
      | Inr _ \<Rightarrow>
          (case date of
             Some d \<Rightarrow> (Inl (RuntimeError ''calendarId is not defined''), s)
           | None \<Rightarrow> (Inr (), s\<lparr>hd_holidays := tbl_update i
                (\<lambda>h. h\<lparr>hl_name := (case name of None \<Rightarrow> hl_name h | Some n \<Rightarrow> n),
                       hl_type := (case type' of None \<Rightarrow> hl_type h | Some t \<Rightarrow> t)\<rparr>) (hd_holidays s)\<rparr>)))"

definition deleteHoliday :: "id \<Rightarrow> id \<Rightarrow> holiday_db \<Rightarrow> (holiday_db, unit) outcome" where
  "deleteHoliday i companyId s =
     (case find_holiday i companyId s of
        Inl e \<Rightarrow> (Inl e, s)
      | Inr _ \<Rightarrow> (Inr (), s\<lparr>hd_holidays := tbl_delete_many (\<lambda>j h. j = i) (hd_holidays s)\<rparr>))"

definition listHolidays :: "id \<Rightarrow> id \<Rightarrow> holiday_db \<Rightarrow> app_error + (id \<times> holiday_row) list" where
  "listHolidays calendarId companyId s =
     (case find_calendar calendarId companyId s of
        Inl e \<Rightarrow> Inl e
      | Inr _ \<Rightarrow> Inr (sort_key (\<lambda>(i, h). hl_date h) (tbl_all (\<lambda>i h. hl_calendarId h = calendarId) (hd_holidays s))))"

definition isHoliday :: "id \<Rightarrow> instant \<Rightarrow> holiday_db \<Rightarrow> bool" where
  "isHoliday companyId date s =
     (case findDefaultCalendar companyId (getUTCFullYear date) s of
        None \<Rightarrow> False
      | Some (cal, _) \<Rightarrow> tbl_find (\<lambda>i h. hl_calendarId h = cal \<and> hl_date h = utc_midnight date) (hd_holidays s) \<noteq> None)"

definition getHolidaysInRange :: "id \<Rightarrow> instant \<Rightarrow> instant \<Rightarrow> holiday_db \<Rightarrow> holiday_row list" where
  "getHolidaysInRange companyId startDate endDate s =
     (let years = map getUTCFullYear (each_day startDate endDate);
          calendars = tbl_all (\<lambda>i c. hc_companyId c = companyId \<and> hc_year c \<in> set years \<and> hc_isDefault c) (hd_calendars s)
      in if calendars = [] then []
         else sort_key hl_date (map snd
           (tbl_all (\<lambda>i h. hl_calendarId h \<in> set (map fst calendars)
                       \<and> utc_midnight startDate \<le> hl_date h \<and> hl_date h \<le> utc_midnight endDate) (hd_holidays s))))"

section \<open>Default calendars\<close>

definition default_unique :: "calendar_row table \<Rightarrow> bool" where
  "default_unique t \<longleftrightarrow>
     (\<forall>(i, c) \<in> set t. \<forall>(j, d) \<in> set t. hc_isDefault c \<and> hc_isDefault d \<and> hc_companyId c = hc_companyId d
        \<and> hc_year c = hc_year d \<longrightarrow> i = j)"

lemma set_clear_default:
  "(i, c) \<in> set (clear_default co y ex t) \<Longrightarrow>
     \<exists>c0. (i, c0) \<in> set t \<and> hc_companyId c = hc_companyId c0 \<and> hc_year c = hc_year c0 \<and>
       (hc_isDefault c \<longleftrightarrow> hc_isDefault c0 \<and> \<not> (hc_companyId c0 = co \<and> hc_year c0 = y \<and> \<not> ex i))"
  by (auto simp: clear_default_def tbl_update_many_def split: if_splits)

lemma default_unique_clear: "default_unique t \<Longrightarrow> default_unique (clear_default co y ex t)"
  unfolding default_unique_def by (fastforce dest!: set_clear_default)

lemma default_unique_create:
  "default_unique (hd_calendars s) \<Longrightarrow> default_unique (hd_calendars (snd (createCalendar n co dto s)))"
proof -
  assume u: "default_unique (hd_calendars s)"
  let ?t = "if ca_isDefault dto then clear_default co (ca_year dto) (\<lambda>i. False) (hd_calendars s) else hd_calendars s"
  let ?c = "\<lparr>hc_companyId = co, hc_name = ca_name dto, hc_year = ca_year dto, hc_isDefault = ca_isDefault dto\<rparr>"
  have "default_unique ?t" using u default_unique_clear by simp
  moreover have "\<not> (hc_isDefault ?c \<and> hc_isDefault d \<and> hc_companyId d = co \<and> hc_year d = ca_year dto)"
    if "(j, d) \<in> set ?t" for j d
    using that by (auto dest!: set_clear_default split: if_splits)
  ultimately have "default_unique (tbl_insert n ?c ?t)"
    unfolding default_unique_def tbl_insert_def by fastforce
  then show ?thesis using u by (auto simp: createCalendar_def transaction_def Let_def)
qed

lemma default_unique_update:
  "default_unique (hd_calendars s) \<Longrightarrow> distinct (tbl_ids (hd_calendars s)) \<Longrightarrow>
     default_unique (hd_calendars (snd (updateCalendar co i name d s)))"
proof (cases "find_calendar i co s")
  case (Inr cal)
  assume u: "default_unique (hd_calendars s)" and ids: "distinct (tbl_ids (hd_calendars s))"
  let ?t = "if d = Some True then clear_default co (hc_year cal) (\<lambda>j. j = i) (hd_calendars s) else hd_calendars s"
  have cal: "hc_companyId cal = co" "c = cal" if "(i, c) \<in> set (hd_calendars s)" for c
    using Inr ids that by (auto simp: find_calendar_def tbl_get_def tbl_ids_def split: option.splits)
  have t: "default_unique ?t" using u default_unique_clear by simp
  have own: "hc_companyId c = co \<and> hc_year c = hc_year cal" if "(i, c) \<in> set ?t" for c
    using that cal by (auto dest!: set_clear_default split: if_splits)
  have none: "\<not> (hc_isDefault e \<and> hc_companyId e = co \<and> hc_year e = hc_year cal)"
    if "d = Some True" "(j, e) \<in> set ?t" "j \<noteq> i" for j e
    using that by (auto dest!: set_clear_default)
  have "default_unique (tbl_update i (patch_calendar name d) ?t)"
    unfolding default_unique_def
  proof (clarify, rule ccontr)
    fix a x b y
    assume x: "(a, x) \<in> set (tbl_update i (patch_calendar name d) ?t)" and y: "(b, y) \<in> set (tbl_update i (patch_calendar name d) ?t)"
      and d: "hc_isDefault x" "hc_isDefault y" "hc_companyId x = hc_companyId y" "hc_year x = hc_year y" and ab: "a \<noteq> b"
    have row: "\<exists>c0. (k, c0) \<in> set ?t \<and> hc_companyId z = hc_companyId c0 \<and> hc_year z = hc_year c0
        \<and> (hc_isDefault z \<longrightarrow> hc_isDefault c0 \<or> (k = i \<and> d = Some True))"
      if "(k, z) \<in> set (tbl_update i (patch_calendar name d) ?t)" for k z
      using that by (auto simp: tbl_update_def patch_calendar_def split: if_splits option.splits)
    obtain x0 where x0: "(a, x0) \<in> set ?t" "hc_companyId x = hc_companyId x0" "hc_year x = hc_year x0"
      "hc_isDefault x0 \<or> (a = i \<and> d = Some True)" using row[OF x] d(1) by blast
    obtain y0 where y0: "(b, y0) \<in> set ?t" "hc_companyId y = hc_companyId y0" "hc_year y = hc_year y0"
      "hc_isDefault y0 \<or> (b = i \<and> d = Some True)" using row[OF y] d(2) by blast
    show False
    proof (cases "d = Some True \<and> (a = i \<or> b = i)")
      case True
      then show ?thesis using own none x0 y0 d(3,4) ab by metis
    next
      case False
      then show ?thesis using t x0 y0 d(3,4) ab unfolding default_unique_def by fastforce
    qed
  qed
  then show ?thesis using u Inr by (auto simp: updateCalendar_def transaction_def Let_def)
qed (simp add: updateCalendar_def)

lemma default_unique_delete:
  "default_unique (hd_calendars s) \<Longrightarrow> default_unique (hd_calendars (snd (deleteCalendar co i s)))"
  by (auto simp: deleteCalendar_def default_unique_def tbl_delete_many_def split: sum.splits)

text \<open>The requests on calendars.\<close>

datatype calendar_request =
    CreateCalendar id id calendar_dto
  | UpdateCalendar id id "string option" "bool option"
  | DeleteCalendar id id

fun calendar_step :: "calendar_request \<Rightarrow> holiday_db \<Rightarrow> holiday_db" where
  "calendar_step (CreateCalendar n co dto) s = (if fresh n (hd_calendars s) then snd (createCalendar n co dto s) else s)"
| "calendar_step (UpdateCalendar co i name d) s = snd (updateCalendar co i name d s)"
| "calendar_step (DeleteCalendar co i) s = snd (deleteCalendar co i s)"

lemma calendar_step_ids: "distinct (tbl_ids (hd_calendars s)) \<Longrightarrow> distinct (tbl_ids (hd_calendars (calendar_step r s)))"
  by (cases r) (auto simp: createCalendar_def updateCalendar_def deleteCalendar_def transaction_def Let_def
      fresh_def clear_default_def tbl_ids_delete_many split: sum.splits)

text \<open>
  A company never has two default calendars for one year: any sequence of requests that create,
  change and delete calendars, starting without calendars, keeps the default unique, so that the
  holidays of a year do not depend on which default the database returns.
\<close>

lemma default_calendar_unique:
  assumes "hd_calendars s = []"
    and "(i, c) \<in> set (hd_calendars (fold calendar_step rs s))" and "(j, d) \<in> set (hd_calendars (fold calendar_step rs s))"
    and "hc_isDefault c" and "hc_isDefault d" and "hc_companyId c = hc_companyId d" and "hc_year c = hc_year d"
  shows "i = j"
proof -
  have "default_unique (hd_calendars (fold calendar_step rs u))"
    if "default_unique (hd_calendars u)" "distinct (tbl_ids (hd_calendars u))" for u
    using that
  proof (induction rs arbitrary: u)
    case (Cons r rs)
    have "default_unique (hd_calendars (calendar_step r u))"
      using Cons.prems by (cases r) (auto intro: default_unique_create default_unique_update default_unique_delete)
    then show ?case using Cons calendar_step_ids by simp
  qed simp
  moreover have "default_unique (hd_calendars s)" "distinct (tbl_ids (hd_calendars s))"
    using assms(1) by (simp_all add: default_unique_def tbl_ids_def)
  ultimately have "default_unique (hd_calendars (fold calendar_step rs s))" by blast
  then show ?thesis using assms(2-) unfolding default_unique_def by fastforce
qed

text \<open>
  Changing the date of a holiday always fails: the check for a duplicate refers to a name that is
  not defined, so every update with a date of an existing holiday throws and changes nothing.
\<close>

lemma holiday_date_update_fails:
  assumes "find_holiday i companyId s = Inr h"
  shows "updateHoliday i companyId name (Some d) type' s = (Inl (RuntimeError ''calendarId is not defined''), s)"
  using assms by (simp add: updateHoliday_def)

end
