(* ===== verification/Payroll_Store.thy ===== *)
theory Payroll_Store
  imports Formula Staff Audit_Log Holiday
begin

text \<open>
  The tables of the payroll module, as \<^verbatim>\<open>libs/prisma/schema.prisma\<close> declares them, the two
  job queues and the audit log, in one state. Decimal columns hold the number written to them.
  Date columns hold the UTC midnight of the day written, and a date compared with one is cut to
  its day. Unique constraints and foreign keys that a handler can violate are checked by the
  handler's model; a violation is a \<open>DatabaseError\<close>.
\<close>

datatype salary_status = SalaryDRAFT | SalaryAPPROVED

datatype cycle_status = CycleDRAFT | CyclePROCESSING | CycleCOMPUTED | CycleAPPROVED | CycleDISBURSED | CycleREVERSED

record component_row =
  sc_companyId :: id
  sc_name :: string
  sc_code :: string
  sc_type :: comp_type
  sc_calcMethod :: calc_method
  sc_defaultValue :: "jsnum option"
  sc_formula :: "string option"
  sc_isTaxable :: bool
  sc_isActive :: bool

record structure_row =
  ss_companyId :: id
  ss_name :: string
  ss_description :: "string option"
  ss_isActive :: bool

record structure_component_row =
  st_structureId :: id
  st_componentId :: id
  st_sortOrder :: int
  st_defaultValue :: jsnum

record salary_row =
  es_employeeId :: id
  es_structureId :: id
  es_companyId :: id
  es_ctc :: jsnum
  es_effectiveFrom :: instant
  es_effectiveTo :: "instant option"
  es_status :: salary_status
  es_notes :: "string option"
  es_revisedById :: "id option"
  es_approvedById :: "id option"
  es_approvedAt :: "instant option"

record cycle_row =
  cy_companyId :: id
  cy_month :: int
  cy_year :: int
  cy_status :: cycle_status
  cy_totalGross :: jsnum
  cy_totalDeductions :: jsnum
  cy_totalNet :: jsnum
  cy_employeeCount :: nat
  cy_runAt :: "instant option"
  cy_approvedAt :: "instant option"
  cy_approvedById :: "id option"
  cy_disbursedAt :: "instant option"
  cy_disbursedById :: "id option"
  cy_reversedAt :: "instant option"
  cy_reversedById :: "id option"
  cy_reversalReason :: "string option"
  cy_createdById :: id

record entry_row = payroll_entry +
  er_payslipKey :: "string option"
  er_payslipGeneratedAt :: "instant option"
  er_payslipGenFailed :: bool

record entry_component_row = line +
  ec_entryId :: id

datatype attendance_status = AttPRESENT | AttABSENT | AttLATE | AttHALF_DAY | AttON_LEAVE | AttHOLIDAY

record payslip_row =
  ps_companyId :: id
  ps_employeeId :: id
  ps_cycleId :: "id option"
  ps_entryId :: "id option"
  ps_grossAmount :: jsnum
  ps_netAmount :: jsnum
  ps_taxAmount :: jsnum
  ps_s3Key :: "string option"
  ps_generatedAt :: "instant option"

record attendance_row =
  at_employeeId :: id
  at_date :: instant
  at_status :: attendance_status

record unpaid_leave_row =
  ul_employeeId :: id
  ul_leaveTypeId :: id
  ul_approved :: bool
  ul_startDate :: instant
  ul_endDate :: instant

record pay_leave_type_row =
  pl_companyId :: id
  pl_isPaid :: bool
  pl_isActive :: bool

record bank_detail_row =
  bd_employeeId :: id
  bd_accountHolderName :: string
  bd_accountNumber :: string
  bd_ifscCode :: string
  bd_bankName :: string
  bd_isPrimary :: bool
  bd_isActive :: bool

record run_job =
  rj_cycleId :: id
  rj_companyId :: id
  rj_month :: int
  rj_year :: int
  rj_triggeredByUserId :: id

record payslip_job =
  pj_entryId :: id
  pj_cycleId :: id
  pj_employeeId :: id

record pay_db =
  pd_employees :: "employee_row table"
  pd_components :: "component_row table"
  pd_structures :: "structure_row table"
  pd_lines :: "structure_component_row table"
  pd_salaries :: "salary_row table"
  pd_cycles :: "cycle_row table"
  pd_entries :: "entry_row table"
  pd_entryComponents :: "entry_component_row list"
  pd_payslips :: "payslip_row table"
  pd_attendance :: "attendance_row table"
  pd_leaves :: "unpaid_leave_row table"
  pd_leaveTypes :: "pay_leave_type_row table"
  pd_calendars :: "calendar_row table"
  pd_holidays :: "holiday_row table"
  pd_bankDetails :: "bank_detail_row table"
  pd_runQueue :: "run_job list"
  pd_payslipQueue :: "payslip_job list"
  pd_audit :: "audit_row list"

text \<open>The tables that start empty; concrete runs fill the ones they need.\<close>

definition empty_pay_db :: pay_db where
  "empty_pay_db =
     \<lparr>pd_employees = [], pd_components = [], pd_structures = [], pd_lines = [], pd_salaries = [],
      pd_cycles = [], pd_entries = [], pd_entryComponents = [], pd_payslips = [], pd_attendance = [],
      pd_leaves = [], pd_leaveTypes = [], pd_calendars = [], pd_holidays = [], pd_bankDetails = [],
      pd_runQueue = [], pd_payslipQueue = [], pd_audit = []\<rparr>"

definition pay_audit ::
    "request_context \<Rightarrow> string \<Rightarrow> id \<Rightarrow> string \<Rightarrow> (string \<times> json) list \<Rightarrow> pay_db \<Rightarrow> pay_db" where
  "pay_audit actor etype eid act nv s =
     s\<lparr>pd_audit := audit_record (entry_of (Some actor) (rc_companyId actor) etype eid act nv) (pd_audit s)\<rparr>"

lemma pay_audit_fields [simp]:
  "pd_employees (pay_audit a t i c nv s) = pd_employees s"
  "pd_components (pay_audit a t i c nv s) = pd_components s"
  "pd_structures (pay_audit a t i c nv s) = pd_structures s"
  "pd_lines (pay_audit a t i c nv s) = pd_lines s"
  "pd_salaries (pay_audit a t i c nv s) = pd_salaries s"
  "pd_cycles (pay_audit a t i c nv s) = pd_cycles s"
  "pd_entries (pay_audit a t i c nv s) = pd_entries s"
  "pd_entryComponents (pay_audit a t i c nv s) = pd_entryComponents s"
  "pd_payslips (pay_audit a t i c nv s) = pd_payslips s"
  "pd_runQueue (pay_audit a t i c nv s) = pd_runQueue s"
  "pd_payslipQueue (pay_audit a t i c nv s) = pd_payslipQueue s"
  by (simp_all add: pay_audit_def)

end
