(* ===== verification/Salary.thy ===== *)
theory Salary
  imports Payroll_Store
begin

text \<open>
  Salary components, structures and the salaries of employees:
  \<^verbatim>\<open>payroll/services/salary-component.service.ts\<close>,
  \<^verbatim>\<open>salary-structure.service.ts\<close> and \<^verbatim>\<open>employee-salary.service.ts\<close>. New ids are
  parameters; the ids of the lines of a structure are a function of their position. An optional
  field of a partial update is an option, and a field that may also be set to null is an option of
  an option. The lemmas show which salary is current after a revision, that codes stay unique, and
  what a clone copies.
\<close>

section \<open>Components\<close>

record component_dto =
  cd_name :: string
  cd_code :: string
  cd_type :: comp_type
  cd_calculationType :: calculation_type
  cd_formula :: "string option"
  cd_defaultValue :: "jsnum option"
  cd_isTaxable :: "bool option"

record component_patch =
  cq_name :: "string option"
  cq_code :: "string option"
  cq_type :: "comp_type option"
  cq_calculationType :: "calculation_type option"
  cq_formula :: "string option option"
  cq_defaultValue :: "jsnum option"
  cq_isTaxable :: "bool option"

fun to_calc_method :: "calculation_type \<Rightarrow> calc_method" where
  "to_calc_method Fixed = FIXED"
| "to_calc_method Formula = FORMULA"
| "to_calc_method PercentageOfBase = PERCENT_OF_BASIC"

text \<open>A string that is neither null nor empty, as a condition on it sees it.\<close>

definition truthy_string :: "string option \<Rightarrow> bool" where
  "truthy_string f = (case f of None \<Rightarrow> False | Some s \<Rightarrow> s \<noteq> [])"

definition the_string :: "string option \<Rightarrow> string" where
  "the_string f = (case f of None \<Rightarrow> [] | Some s \<Rightarrow> s)"

definition active_codes :: "id \<Rightarrow> pay_db \<Rightarrow> string list" where
  "active_codes company s = map (sc_code \<circ> snd) (tbl_all (\<lambda>i c. sc_companyId c = company \<and> sc_isActive c) (pd_components s))"

definition component_findOneOrFail :: "id \<Rightarrow> id \<Rightarrow> pay_db \<Rightarrow> app_error + component_row" where
  "component_findOneOrFail i company s =
     (case tbl_get_where i (\<lambda>c. sc_companyId c = company) (pd_components s) of
        None \<Rightarrow> Inl (NotFoundError ''Salary component not found'')
      | Some c \<Rightarrow> Inr c)"

text \<open>The column is limited to 20 characters and the code is unique in a company.\<close>

definition code_stored :: "id \<Rightarrow> id \<Rightarrow> string \<Rightarrow> pay_db \<Rightarrow> bool" where
  "code_stored i company code s =
     (length code \<le> 20 \<and> tbl_find (\<lambda>j c. j \<noteq> i \<and> sc_companyId c = company \<and> sc_code c = code) (pd_components s) = None)"

definition check_component_formula ::
    "evaluator \<Rightarrow> calculation_type \<Rightarrow> string option \<Rightarrow> string list \<Rightarrow> app_error + unit" where
  "check_component_formula ev ctype formula codes =
     (case ctype of
        Fixed \<Rightarrow>
          (if truthy_string formula then Inl (BadRequestError ''Fixed components must not have a formula'') else Inr ())
      | Formula \<Rightarrow>
          (if \<not> truthy_string formula then Inl (BadRequestError ''Formula components require a formula expression'')
           else validateFormula ev (the_string formula) codes)
      | PercentageOfBase \<Rightarrow>
          (if truthy_string formula
           then Inl (BadRequestError ''Percentage-of-base components must not have a formula'') else Inr ()))"

definition component_create ::
    "evaluator \<Rightarrow> id \<Rightarrow> component_dto \<Rightarrow> id \<Rightarrow> pay_db \<Rightarrow> (pay_db, id) outcome" where
  "component_create ev newId dto company s =
     (case tbl_find (\<lambda>i c. sc_companyId c = company \<and> toLowerCase (sc_code c) = toLowerCase (cd_code dto)) (pd_components s) of
        Some _ \<Rightarrow> (Inl (BadRequestError (''Salary component code \"'' @ cd_code dto @ ''\" already exists in this company'')), s)
      | None \<Rightarrow>
          (case check_component_formula ev (cd_calculationType dto) (cd_formula dto) (active_codes company s) of
             Inl e \<Rightarrow> (Inl e, s)
           | Inr _ \<Rightarrow>
               if \<not> code_stored newId company (toUpperCase (cd_code dto)) s
               then (Inl (DatabaseError ''salary_components''), s)
               else (Inr newId,
                 s\<lparr>pd_components := tbl_insert newId
                    \<lparr>sc_companyId = company, sc_name = cd_name dto, sc_code = toUpperCase (cd_code dto),
                     sc_type = cd_type dto, sc_calcMethod = to_calc_method (cd_calculationType dto),
                     sc_defaultValue = Some (case cd_defaultValue dto of None \<Rightarrow> Fin 0 | Some v \<Rightarrow> v),
                     sc_formula = cd_formula dto,
                     sc_isTaxable = (case cd_isTaxable dto of None \<Rightarrow> True | Some b \<Rightarrow> b),
                     sc_isActive = True\<rparr> (pd_components s)\<rparr>)))"

definition or_keep :: "'a option \<Rightarrow> 'a \<Rightarrow> 'a" where
  "or_keep new old = (case new of None \<Rightarrow> old | Some v \<Rightarrow> v)"

definition patch_component :: "component_patch \<Rightarrow> component_row \<Rightarrow> component_row" where
  "patch_component dto c =
     c\<lparr>sc_name := or_keep (cq_name dto) (sc_name c),
       sc_code := or_keep (map_option toUpperCase (cq_code dto)) (sc_code c),
       sc_type := or_keep (cq_type dto) (sc_type c),
       sc_calcMethod := or_keep (map_option to_calc_method (cq_calculationType dto)) (sc_calcMethod c),
       sc_formula := or_keep (cq_formula dto) (sc_formula c),
       sc_defaultValue := or_keep (map_option Some (cq_defaultValue dto)) (sc_defaultValue c),
       sc_isTaxable := or_keep (cq_isTaxable dto) (sc_isTaxable c)\<rparr>"

definition check_component_patch ::
    "evaluator \<Rightarrow> component_patch \<Rightarrow> component_row \<Rightarrow> string list \<Rightarrow> app_error + unit" where
  "check_component_patch ev dto c codes =
     (let calcType = or_keep (cq_calculationType dto) (to_calculation_type (sc_calcMethod c));
          formula = (case cq_formula dto of Some (Some f) \<Rightarrow> Some f | _ \<Rightarrow> sc_formula c)
      in if (cq_formula dto \<noteq> None \<or> cq_calculationType dto \<noteq> None) \<and> calcType = Formula
         then if \<not> truthy_string formula then Inl (BadRequestError ''Formula is required'')
              else validateFormula ev (the_string formula) codes
         else Inr ())"

definition component_update ::
    "evaluator \<Rightarrow> id \<Rightarrow> component_patch \<Rightarrow> id \<Rightarrow> pay_db \<Rightarrow> (pay_db, unit) outcome" where
  "component_update ev i dto company s =
     (case component_findOneOrFail i company s of
        Inl e \<Rightarrow> (Inl e, s)
      | Inr c \<Rightarrow>
          (case check_component_patch ev dto c (active_codes company s) of
             Inl e \<Rightarrow> (Inl e, s)
           | Inr _ \<Rightarrow>
               if \<not> code_stored i company (sc_code (patch_component dto c)) s
               then (Inl (DatabaseError ''salary_components''), s)
               else (Inr (), s\<lparr>pd_components := tbl_update i (patch_component dto) (pd_components s)\<rparr>)))"

definition component_softDelete :: "id \<Rightarrow> id \<Rightarrow> pay_db \<Rightarrow> (pay_db, unit) outcome" where
  "component_softDelete i company s =
     (case component_findOneOrFail i company s of
        Inl e \<Rightarrow> (Inl e, s)
      | Inr c \<Rightarrow>
          (case tbl_find (\<lambda>j l. st_componentId l = i \<and>
                 tbl_get_where (st_structureId l) (\<lambda>r. ss_isActive r \<and> ss_companyId r = company) (pd_structures s) \<noteq> None)
               (pd_lines s) of
             Some _ \<Rightarrow> (Inl (BadRequestError ''Cannot delete: component is used in an active salary structure''), s)
           | None \<Rightarrow> (Inr (), s\<lparr>pd_components := tbl_update i (\<lambda>c. c\<lparr>sc_isActive := False\<rparr>) (pd_components s)\<rparr>)))"

section \<open>Structures\<close>

record line_dto =
  ld_componentId :: id
  ld_sortOrder :: int
  ld_defaultValue :: jsnum

record structure_dto =
  sd_name :: string
  sd_description :: "string option"
  sd_components :: "line_dto list"

record structure_patch =
  sq_name :: "string option"
  sq_description :: "string option option"
  sq_components :: "line_dto list option"

definition insert_lines :: "(nat \<Rightarrow> id) \<Rightarrow> id \<Rightarrow> line_dto list \<Rightarrow> structure_component_row table \<Rightarrow> structure_component_row table" where
  "insert_lines lineId structureId ls t =
     t @ map (\<lambda>(k, l). (lineId k, \<lparr>st_structureId = structureId, st_componentId = ld_componentId l,
                                   st_sortOrder = ld_sortOrder l, st_defaultValue = ld_defaultValue l\<rparr>))
         (enumerate 0 ls)"

fun validate_lines :: "evaluator \<Rightarrow> component_row table \<Rightarrow> string list \<Rightarrow> line_dto list \<Rightarrow> app_error + unit" where
  "validate_lines ev comps codes [] = Inr ()"
| "validate_lines ev comps codes (l # ls) =
     (case map_of comps (ld_componentId l) of
        None \<Rightarrow> Inl (RuntimeError ''Cannot read properties of undefined'')
      | Some c \<Rightarrow>
          if sc_calcMethod c = FORMULA \<and> truthy_string (sc_formula c) then
            (case validateFormula ev (the_string (sc_formula c)) codes of
               Inl e \<Rightarrow> Inl e
             | Inr _ \<Rightarrow> validate_lines ev comps codes ls)
          else validate_lines ev comps codes ls)"

definition structure_create ::
    "evaluator \<Rightarrow> id \<Rightarrow> (nat \<Rightarrow> id) \<Rightarrow> structure_dto \<Rightarrow> id \<Rightarrow> pay_db \<Rightarrow> (pay_db, id) outcome" where
  "structure_create ev newId lineId dto company s =
     (let componentIds = map ld_componentId (sd_components dto);
          components = tbl_all (\<lambda>i c. i \<in> set componentIds \<and> sc_companyId c = company \<and> sc_isActive c) (pd_components s)
      in if length components \<noteq> length componentIds
         then (Inl (BadRequestError ''One or more components are invalid, inactive, or belong to another company''), s)
         else if card (set componentIds) \<noteq> length componentIds
         then (Inl (BadRequestError ''Duplicate component IDs in the list''), s)
         else case validate_lines ev components (map (sc_code \<circ> snd) components) (sd_components dto) of
                Inl e \<Rightarrow> (Inl e, s)
              | Inr _ \<Rightarrow>
                  (Inr newId,
                   s\<lparr>pd_structures := tbl_insert newId
                        \<lparr>ss_companyId = company, ss_name = sd_name dto, ss_description = sd_description dto, ss_isActive = True\<rparr>
                        (pd_structures s),
                     pd_lines := insert_lines lineId newId (sort_key ld_sortOrder (sd_components dto)) (pd_lines s)\<rparr>))"

definition structure_findOneOrFail :: "id \<Rightarrow> id \<Rightarrow> pay_db \<Rightarrow> app_error + structure_row" where
  "structure_findOneOrFail i company s =
     (case tbl_get_where i (\<lambda>r. ss_companyId r = company) (pd_structures s) of
        None \<Rightarrow> Inl (NotFoundError ''Salary structure not found'')
      | Some r \<Rightarrow> Inr r)"

definition structure_in_use :: "id \<Rightarrow> id \<Rightarrow> pay_db \<Rightarrow> bool" where
  "structure_in_use i company s =
     (tbl_find (\<lambda>c r. cy_companyId r = company \<and> cy_status r \<noteq> CycleREVERSED
         \<and> tbl_find (\<lambda>e x. en_cycleId x = c \<and> en_structureId x = i) (pd_entries s) \<noteq> None) (pd_cycles s) \<noteq> None)"

text \<open>Foreign keys and the uniqueness of a component in a structure.\<close>

definition lines_storable :: "line_dto list \<Rightarrow> pay_db \<Rightarrow> bool" where
  "lines_storable ls s =
     (distinct (map ld_componentId ls) \<and> (\<forall>l \<in> set ls. tbl_get (ld_componentId l) (pd_components s) \<noteq> None))"

definition structure_update ::
    "(nat \<Rightarrow> id) \<Rightarrow> id \<Rightarrow> structure_patch \<Rightarrow> id \<Rightarrow> pay_db \<Rightarrow> (pay_db, unit) outcome" where
  "structure_update lineId i dto company s =
     (case structure_findOneOrFail i company s of
        Inl e \<Rightarrow> (Inl e, s)
      | Inr _ \<Rightarrow>
          if structure_in_use i company s
          then (Inl (BadRequestError ''Cannot modify structure: an active payroll cycle references it''), s)
          else transaction (\<lambda>s.
            (let s1 = s\<lparr>pd_structures := tbl_update i
                     (\<lambda>r. r\<lparr>ss_name := or_keep (sq_name dto) (ss_name r),
                            ss_description := or_keep (sq_description dto) (ss_description r)\<rparr>) (pd_structures s)\<rparr>
             in case sq_components dto of
                  None \<Rightarrow> (Inr (), s1)
                | Some ls \<Rightarrow>
                    if \<not> lines_storable ls s1 then (Inl (DatabaseError ''salary_structure_components''), s1)
                    else (Inr (), s1\<lparr>pd_lines := insert_lines lineId i ls
                           (tbl_delete_many (\<lambda>j l. st_structureId l = i) (pd_lines s1))\<rparr>))) s)"

definition structure_softDelete :: "id \<Rightarrow> id \<Rightarrow> pay_db \<Rightarrow> (pay_db, unit) outcome" where
  "structure_softDelete i company s =
     (case structure_findOneOrFail i company s of
        Inl e \<Rightarrow> (Inl e, s)
      | Inr _ \<Rightarrow>
          (case tbl_find (\<lambda>j r. es_structureId r = i \<and> es_effectiveTo r = None) (pd_salaries s) of
             Some _ \<Rightarrow> (Inl (BadRequestError ''Cannot delete: employees are currently assigned to this structure''), s)
           | None \<Rightarrow> (Inr (), s\<lparr>pd_structures := tbl_update i (\<lambda>r. r\<lparr>ss_isActive := False\<rparr>) (pd_structures s)\<rparr>)))"

text \<open>The lines of a structure in sort order, as the include of a query returns them.\<close>

definition structure_lines :: "id \<Rightarrow> structure_component_row table \<Rightarrow> structure_component_row list" where
  "structure_lines i t = sort_key st_sortOrder (map snd (tbl_all (\<lambda>j l. st_structureId l = i) t))"

definition clone_description :: "structure_row \<Rightarrow> string" where
  "clone_description r =
     (if truthy_string (ss_description r)
      then ''Clone of \"'' @ ss_name r @ ''\": '' @ the_string (ss_description r)
      else ''Clone of \"'' @ ss_name r @ ''\"'')"

definition structure_clone ::
    "id \<Rightarrow> (nat \<Rightarrow> id) \<Rightarrow> id \<Rightarrow> string \<Rightarrow> id \<Rightarrow> pay_db \<Rightarrow> (pay_db, id) outcome" where
  "structure_clone newId lineId i newName company s =
     (case structure_findOneOrFail i company s of
        Inl e \<Rightarrow> (Inl e, s)
      | Inr source \<Rightarrow>
          (case tbl_find (\<lambda>j r. ss_companyId r = company \<and> ss_name r = newName \<and> ss_isActive r) (pd_structures s) of
             Some _ \<Rightarrow> (Inl (BadRequestError (''A salary structure named \"'' @ newName @ ''\" already exists'')), s)
           | None \<Rightarrow>
               (Inr newId,
                s\<lparr>pd_structures := tbl_insert newId
                     \<lparr>ss_companyId = company, ss_name = newName, ss_description = Some (clone_description source),
                      ss_isActive = True\<rparr> (pd_structures s),
                  pd_lines := insert_lines lineId newId
                     (map (\<lambda>l. \<lparr>ld_componentId = st_componentId l, ld_sortOrder = st_sortOrder l,
                                ld_defaultValue = st_defaultValue l\<rparr>) (structure_lines i (pd_lines s)))
                     (pd_lines s)\<rparr>)))"

section \<open>Salaries of employees\<close>

record salary_dto =
  sy_employeeId :: id
  sy_structureId :: id
  sy_ctc :: jsnum
  sy_effectiveFrom :: instant
  sy_notes :: "string option"

definition salary_assign ::
    "id \<Rightarrow> salary_dto \<Rightarrow> request_context \<Rightarrow> pay_db \<Rightarrow> (pay_db, id) outcome" where
  "salary_assign newId dto actor s =
     (case tbl_get_where (sy_employeeId dto) (\<lambda>e. em_companyId e = rc_companyId actor) (pd_employees s) of
        None \<Rightarrow> (Inl (NotFoundError ''Employee not found in your company''), s)
      | Some _ \<Rightarrow>
          (case tbl_get_where (sy_structureId dto) (\<lambda>r. ss_companyId r = rc_companyId actor \<and> ss_isActive r) (pd_structures s) of
             None \<Rightarrow> (Inl (NotFoundError ''Salary structure not found or inactive''), s)
           | Some _ \<Rightarrow>
               (let closed = tbl_update_many
                      (\<lambda>i r. es_employeeId r = sy_employeeId dto \<and> es_effectiveTo r = None
                             \<and> es_status r \<in> {SalaryDRAFT, SalaryAPPROVED})
                      (\<lambda>r. r\<lparr>es_effectiveTo := Some (utc_midnight (sy_effectiveFrom dto - msPerDay))\<rparr>) (pd_salaries s);
                    row = \<lparr>es_employeeId = sy_employeeId dto, es_structureId = sy_structureId dto,
                           es_companyId = rc_companyId actor, es_ctc = sy_ctc dto,
                           es_effectiveFrom = utc_midnight (sy_effectiveFrom dto), es_effectiveTo = None,
                           es_status = SalaryDRAFT, es_notes = sy_notes dto, es_revisedById = Some (rc_userId actor),
                           es_approvedById = None, es_approvedAt = None\<rparr>
                in (Inr newId,
                    pay_audit actor ''employee_salary'' newId ''SALARY_ASSIGNED''
                      [(''employeeId'', JStr (sy_employeeId dto)), (''ctc'', JNum (sy_ctc dto)),
                       (''structureId'', JStr (sy_structureId dto)), (''effectiveFrom'', JDate (sy_effectiveFrom dto))]
                      (s\<lparr>pd_salaries := tbl_insert newId row closed\<rparr>)))))"

definition salary_revise ::
    "id \<Rightarrow> id \<Rightarrow> salary_dto \<Rightarrow> request_context \<Rightarrow> pay_db \<Rightarrow> (pay_db, id) outcome" where
  "salary_revise newId employeeId dto actor s =
     (case salary_assign newId (dto\<lparr>sy_employeeId := employeeId\<rparr>) actor s of
        (Inl e, t) \<Rightarrow> (Inl e, t)
      | (Inr i, t) \<Rightarrow>
          (Inr i, pay_audit actor ''employee_salary'' i ''SALARY_REVISION_CREATED''
             [(''employeeId'', JStr employeeId), (''ctc'', JNum (sy_ctc dto)),
              (''effectiveFrom'', JDate (sy_effectiveFrom dto))] t))"

definition salary_approve :: "instant \<Rightarrow> id \<Rightarrow> request_context \<Rightarrow> pay_db \<Rightarrow> (pay_db, unit) outcome" where
  "salary_approve now salaryId actor s =
     (case tbl_get_where salaryId (\<lambda>r. es_companyId r = rc_companyId actor) (pd_salaries s) of
        None \<Rightarrow> (Inl (NotFoundError ''Salary record not found''), s)
      | Some salary \<Rightarrow>
          if es_status salary \<noteq> SalaryDRAFT
          then (Inl (BadRequestError ''Only draft salary records can be approved''), s)
          else (Inr (),
            pay_audit actor ''employee_salary'' salaryId ''SALARY_REVISION_APPROVED''
              [(''employeeId'', JStr (es_employeeId salary)), (''ctc'', JNum (es_ctc salary)),
               (''effectiveFrom'', JDate (es_effectiveFrom salary)), (''structureId'', JStr (es_structureId salary))]
              (s\<lparr>pd_salaries := tbl_update salaryId
                   (\<lambda>r. r\<lparr>es_status := SalaryAPPROVED, es_approvedById := Some (rc_userId actor), es_approvedAt := Some now\<rparr>)
                   (pd_salaries s)\<rparr>)))"

definition salary_covers :: "instant \<Rightarrow> salary_row \<Rightarrow> bool" where
  "salary_covers date r =
     (es_effectiveFrom r \<le> utc_midnight date \<and> es_status r = SalaryAPPROVED \<and>
      (case es_effectiveTo r of None \<Rightarrow> True | Some t \<Rightarrow> utc_midnight date \<le> t))"

definition getCurrentSalary :: "id \<Rightarrow> instant \<Rightarrow> id option \<Rightarrow> pay_db \<Rightarrow> app_error + (id \<times> salary_row)" where
  "getCurrentSalary employeeId date companyId s =
     (case tbl_find (\<lambda>i r. es_employeeId r = employeeId \<and> salary_covers date r \<and>
              (case companyId of None \<Rightarrow> True | Some c \<Rightarrow> es_companyId r = c)) (pd_salaries s) of
        None \<Rightarrow> Inl (NotFoundError ''No approved salary found for the given date'')
      | Some r \<Rightarrow> Inr r)"

text \<open>The salary with its structure, as the payroll engine receives it.\<close>

definition to_component :: "id \<Rightarrow> component_row \<Rightarrow> component" where
  "to_component i c =
     \<lparr>cp_id = i, cp_code = sc_code c, cp_name = sc_name c, cp_type = sc_type c, cp_calcMethod = sc_calcMethod c,
      cp_formula = sc_formula c, cp_defaultValue = sc_defaultValue c\<rparr>"

definition to_line :: "component_row table \<Rightarrow> structure_component_row \<Rightarrow> structure_line option" where
  "to_line comps l =
     map_option (\<lambda>c. \<lparr>sl_sortOrder = st_sortOrder l, sl_defaultValue = DecimalObject (st_defaultValue l),
                       sl_component = to_component (st_componentId l) c\<rparr>) (tbl_get (st_componentId l) comps)"

definition salary_input :: "pay_db \<Rightarrow> salary_row \<Rightarrow> employee_salary_input" where
  "salary_input s r =
     \<lparr>si_ctc = es_ctc r, si_structureId = es_structureId r,
      si_components = List.map_filter (to_line (pd_components s)) (structure_lines (es_structureId r) (pd_lines s))\<rparr>"

definition getSalaryHistory :: "id \<Rightarrow> id \<Rightarrow> pay_db \<Rightarrow> app_error + (id \<times> salary_row) list" where
  "getSalaryHistory employeeId companyId s =
     (case tbl_get_where employeeId (\<lambda>e. em_companyId e = companyId) (pd_employees s) of
        None \<Rightarrow> Inl (NotFoundError ''Employee not found in your company'')
      | Some _ \<Rightarrow> Inr (rev (sort_key (\<lambda>(i, r). es_effectiveFrom r)
            (tbl_all (\<lambda>i r. es_employeeId r = employeeId \<and> es_companyId r = companyId) (pd_salaries s)))))"

section \<open>Which salary is current\<close>

lemma salary_status_all [simp]: "es_status r = SalaryDRAFT \<or> es_status r = SalaryAPPROVED"
  by (cases "es_status r") auto

lemma utc_midnight_mono: "a \<le> b \<Longrightarrow> utc_midnight a \<le> utc_midnight b"
  by (simp add: utc_midnight_def day_of_def msPerDay_def zdiv_mono1)

lemma utc_midnight_day_before: "utc_midnight (a - msPerDay) < utc_midnight a"
  by (simp add: utc_midnight_def day_of_def msPerDay_def)

lemma utc_midnight_idem [simp]: "utc_midnight (utc_midnight a) = utc_midnight a"
  by (simp add: utc_midnight_def day_of_def msPerDay_def)

lemma salary_assign_Inr:
  assumes "salary_assign newId dto actor s = (Inr i, t)"
  obtains row where "i = newId"
    "pd_salaries t = tbl_insert newId row
       (tbl_update_many (\<lambda>i r. es_employeeId r = sy_employeeId dto \<and> es_effectiveTo r = None)
          (\<lambda>r. r\<lparr>es_effectiveTo := Some (utc_midnight (sy_effectiveFrom dto - msPerDay))\<rparr>) (pd_salaries s))"
    "es_employeeId row = sy_employeeId dto" "es_effectiveFrom row = utc_midnight (sy_effectiveFrom dto)"
    "es_effectiveTo row = None" "es_status row = SalaryDRAFT" "es_ctc row = sy_ctc dto"
    "es_structureId row = sy_structureId dto" "es_companyId row = rc_companyId actor"
  using assms by (auto simp: salary_assign_def Let_def split: option.splits)

text \<open>
  After a revision no earlier row of the employee covers a date from its first day on, unless it was closed
  before and covers it still.
\<close>

lemma earlier_rows_closed:
  assumes "\<forall>(i, r) \<in> set t. es_employeeId r = emp \<longrightarrow> es_effectiveTo r = None \<or> \<not> salary_covers d r"
    and "from \<le> d"
    and "(i, r) \<in> set (tbl_update_many (\<lambda>i r. es_employeeId r = emp \<and> es_effectiveTo r = None)
          (\<lambda>r. r\<lparr>es_effectiveTo := Some (utc_midnight (from - msPerDay))\<rparr>) t)"
    and "es_employeeId r = emp"
  shows "\<not> salary_covers d r"
proof -
  have d: "utc_midnight (from - msPerDay) < utc_midnight d"
    using utc_midnight_mono[OF assms(2)] utc_midnight_day_before[of "from"] by linarith
  from assms(3) obtain r0 where r0: "(i, r0) \<in> set t"
    "r = (if es_employeeId r0 = emp \<and> es_effectiveTo r0 = None
          then r0\<lparr>es_effectiveTo := Some (utc_midnight (from - msPerDay))\<rparr> else r0)"
    by (auto simp: tbl_update_many_def)
  then have "es_employeeId r0 = emp" using assms(4) by (auto split: if_splits)
  then show ?thesis using r0 assms(1) d by (auto simp: salary_covers_def)
qed

text \<open>
  C21: A salary revision takes effect: once a new salary is assigned and approved, it is the current
  salary of the employee on every date from its first day on that no salary covers which was closed before
  the assignment. The condition is needed: assigning closes open salaries only, so when a revision is
  dated back into the time of a closed salary, that one is still found there
  (\<open>backdated_revision_hidden\<close> below).
\<close>

theorem revision_takes_effect:
  assumes "salary_assign newId dto actor s = (Inr i, t)"
    and "salary_approve now i actor t = (Inr (), u)"
    and "fresh newId (pd_salaries s)"
    and "\<forall>(j, r) \<in> set (pd_salaries s). es_employeeId r = sy_employeeId dto \<longrightarrow>
      es_effectiveTo r = None \<or> \<not> salary_covers d r"
    and "sy_effectiveFrom dto \<le> d"
  shows "\<exists>r. getCurrentSalary (sy_employeeId dto) d None u = Inr (newId, r)
    \<and> es_ctc r = sy_ctc dto \<and> es_structureId r = sy_structureId dto"
proof -
  let ?closed = "tbl_update_many (\<lambda>i r. es_employeeId r = sy_employeeId dto \<and> es_effectiveTo r = None)
      (\<lambda>r. r\<lparr>es_effectiveTo := Some (utc_midnight (sy_effectiveFrom dto - msPerDay))\<rparr>) (pd_salaries s)"
  let ?f = "\<lambda>r. r\<lparr>es_status := SalaryAPPROVED, es_approvedById := Some (rc_userId actor), es_approvedAt := Some now\<rparr>"
  from assms(1) obtain row where r: "i = newId" "pd_salaries t = tbl_insert newId row ?closed"
    "es_employeeId row = sy_employeeId dto" "es_effectiveFrom row = utc_midnight (sy_effectiveFrom dto)"
    "es_effectiveTo row = None" "es_ctc row = sy_ctc dto" "es_structureId row = sy_structureId dto"
    by (elim salary_assign_Inr) blast
  have "pd_salaries u = tbl_update newId ?f (pd_salaries t)"
    using assms(2) r(1) by (auto simp: salary_approve_def split: option.splits if_splits)
  moreover have "fresh newId ?closed" using assms(3) by (simp add: fresh_def)
  ultimately have u: "pd_salaries u = ?closed @ [(newId, ?f row)]"
    unfolding r(2) tbl_insert_def tbl_update_append by (simp add: tbl_update_fresh) (simp add: tbl_update_def)
  have none: "tbl_find (\<lambda>i r. es_employeeId r = sy_employeeId dto \<and> salary_covers d r \<and> True) ?closed = None"
    using earlier_rows_closed[OF assms(4,5)] by (auto simp: tbl_find_None)
  have "salary_covers d (?f row)"
    using r(4,5) utc_midnight_mono[OF assms(5)] by (simp add: salary_covers_def)
  then show ?thesis
    using none r(3,6,7) by (simp add: getCurrentSalary_def u tbl_find_append tbl_find_single)
qed

definition example_salaries :: pay_db where
  "example_salaries = empty_pay_db
     \<lparr>pd_employees := [(''e1'', new_employee ''co'' (Some ''u1''))],
      pd_structures := [(''s1'', \<lparr>ss_companyId = ''co'', ss_name = ''Std'', ss_description = None, ss_isActive = True\<rparr>)],
      pd_salaries := [(''r1'', \<lparr>es_employeeId = ''e1'', es_structureId = ''s1'', es_companyId = ''co'', es_ctc = Fin 100,
         es_effectiveFrom = 0, es_effectiveTo = None, es_status = SalaryAPPROVED, es_notes = None,
         es_revisedById = None, es_approvedById = None, es_approvedAt = None\<rparr>)]\<rparr>"

definition example_revision :: salary_dto where
  "example_revision = \<lparr>sy_employeeId = ''e1'', sy_structureId = ''s1'', sy_ctc = Fin 200,
     sy_effectiveFrom = 10 * msPerDay, sy_notes = None\<rparr>"

lemma example_revision_steps:
  obtains t u where "salary_assign ''r2'' example_revision (actor_in ''u9'' ''co'') example_salaries = (Inr ''r2'', t)"
    "salary_approve 0 ''r2'' (actor_in ''u9'' ''co'') t = (Inr (), u)"
proof -
  obtain t where t: "salary_assign ''r2'' example_revision (actor_in ''u9'' ''co'') example_salaries = (Inr ''r2'', t)"
    by (simp add: salary_assign_def example_salaries_def example_revision_def tbl_get_where_def tbl_get_def
        new_employee_def Let_def)
  from t obtain row where "pd_salaries t = tbl_insert ''r2'' row (tbl_update_many
      (\<lambda>i r. es_employeeId r = sy_employeeId example_revision \<and> es_effectiveTo r = None)
      (\<lambda>r. r\<lparr>es_effectiveTo := Some (utc_midnight (sy_effectiveFrom example_revision - msPerDay))\<rparr>)
      (pd_salaries example_salaries))" "es_status row = SalaryDRAFT" "es_companyId row = ''co''"
    by (elim salary_assign_Inr) simp
  moreover have "tbl_get ''r2'' (pd_salaries example_salaries) = None"
    by (simp add: example_salaries_def tbl_get_def)
  ultimately have "tbl_get_where ''r2'' (\<lambda>r. es_companyId r = ''co'') (pd_salaries t) = Some row" "es_status row = SalaryDRAFT"
    by (simp_all add: tbl_get_insert)
  then have "\<exists>u. salary_approve 0 ''r2'' (actor_in ''u9'' ''co'') t = (Inr (), u)"
    by (simp add: salary_approve_def del: tbl_get_where_Some)
  then show thesis using t that by blast
qed

theorem revision_takes_effect_witness:
  "\<exists>t u r. salary_assign ''r2'' example_revision (actor_in ''u9'' ''co'') example_salaries = (Inr ''r2'', t)
     \<and> salary_approve 0 ''r2'' (actor_in ''u9'' ''co'') t = (Inr (), u)
     \<and> getCurrentSalary ''e1'' (12 * msPerDay) None u = Inr (''r2'', r) \<and> es_ctc r = Fin 200"
proof -
  obtain t u where s: "salary_assign ''r2'' example_revision (actor_in ''u9'' ''co'') example_salaries = (Inr ''r2'', t)"
    "salary_approve 0 ''r2'' (actor_in ''u9'' ''co'') t = (Inr (), u)" by (rule example_revision_steps)
  have "\<exists>r. getCurrentSalary (sy_employeeId example_revision) (12 * msPerDay) None u = Inr (''r2'', r)
      \<and> es_ctc r = sy_ctc example_revision \<and> es_structureId r = sy_structureId example_revision"
    by (rule revision_takes_effect[OF s])
      (simp_all add: example_salaries_def example_revision_def fresh_def tbl_ids_def msPerDay_def)
  then show ?thesis using s by (auto simp: example_revision_def)
qed

text \<open>
  Three salaries, from day 0, from day 10 and, dated back, from day 5, all approved: on day 7 the first,
  closed by the second, is found and not the third.
\<close>

definition backdated_story :: "pay_db" where
  "backdated_story =
     (let a = actor_in ''u9'' ''co'';
          later = snd (salary_approve 0 ''r2'' a (snd (salary_assign ''r2'' example_revision a example_salaries)))
      in snd (salary_approve 0 ''r3'' a (snd (salary_assign ''r3'' (example_revision\<lparr>sy_effectiveFrom := 5 * msPerDay\<rparr>) a later))))"

lemma backdated_revision_hidden:
  "map (\<lambda>(i, r). (i, es_status r)) (pd_salaries backdated_story)
     = [(''r1'', SalaryAPPROVED), (''r2'', SalaryAPPROVED), (''r3'', SalaryAPPROVED)]
   \<and> map_sum id fst (getCurrentSalary ''e1'' (7 * msPerDay) None backdated_story) = Inr ''r1''
   \<and> map_sum id fst (getCurrentSalary ''e1'' (9 * msPerDay) None backdated_story) = Inr ''r1''
   \<and> map_sum id fst (getCurrentSalary ''e1'' (10 * msPerDay) None backdated_story) = Inr ''r3''"
  by code_simp

text \<open>
  Until it is approved, a revision takes the salary away: the assignment closes the salary in
  force, so from its first day on the employee has no current salary, but for dates that a salary closed earlier covers.
\<close>

lemma revision_gap:
  assumes "salary_assign newId dto actor s = (Inr i, t)"
    and "\<forall>(j, r) \<in> set (pd_salaries s). es_employeeId r = sy_employeeId dto \<longrightarrow>
      es_effectiveTo r = None \<or> \<not> salary_covers d r"
    and "sy_effectiveFrom dto \<le> d"
  shows "getCurrentSalary (sy_employeeId dto) d None t = Inl (NotFoundError ''No approved salary found for the given date'')"
proof -
  from assms(1) obtain row where r: "pd_salaries t = tbl_insert newId row
      (tbl_update_many (\<lambda>i r. es_employeeId r = sy_employeeId dto \<and> es_effectiveTo r = None)
        (\<lambda>r. r\<lparr>es_effectiveTo := Some (utc_midnight (sy_effectiveFrom dto - msPerDay))\<rparr>) (pd_salaries s))"
    "es_status row = SalaryDRAFT"
    by (elim salary_assign_Inr) blast
  have "tbl_find (\<lambda>i r. es_employeeId r = sy_employeeId dto \<and> salary_covers d r \<and> True) (pd_salaries t) = None"
    using earlier_rows_closed[OF assms(2,3)] r by (auto simp: tbl_find_None tbl_insert_def salary_covers_def)
  then show ?thesis by (simp add: getCurrentSalary_def)
qed

section \<open>Structures and codes\<close>

lemma insert_lines_of:
  assumes "\<forall>(j, l) \<in> set t. st_structureId l \<noteq> i"
  shows "map snd (tbl_all (\<lambda>j l. st_structureId l = i) (insert_lines lineId i ls t))
    = map (\<lambda>l. \<lparr>st_structureId = i, st_componentId = ld_componentId l, st_sortOrder = ld_sortOrder l,
               st_defaultValue = ld_defaultValue l\<rparr>) ls"
proof -
  have "tbl_all (\<lambda>j l. st_structureId l = i) t = []" using assms by (auto simp: tbl_all_def filter_empty_conv)
  moreover have "\<And>n. map snd (tbl_all (\<lambda>j l. st_structureId l = i)
      (map (\<lambda>(k, l). (lineId k, \<lparr>st_structureId = i, st_componentId = ld_componentId l,
                                  st_sortOrder = ld_sortOrder l, st_defaultValue = ld_defaultValue l\<rparr>)) (enumerate n ls)))
    = map (\<lambda>l. \<lparr>st_structureId = i, st_componentId = ld_componentId l, st_sortOrder = ld_sortOrder l,
               st_defaultValue = ld_defaultValue l\<rparr>) ls"
    by (induction ls) (auto simp: tbl_all_def)
  ultimately show ?thesis by (simp add: insert_lines_def tbl_all_append)
qed

lemma insert_lines_other:
  "k \<noteq> i \<Longrightarrow> tbl_all (\<lambda>j l. st_structureId l = k) (insert_lines lineId i ls t) = tbl_all (\<lambda>j l. st_structureId l = k) t"
  by (auto simp: insert_lines_def tbl_all_append) (auto simp: tbl_all_def filter_empty_conv)

text \<open>
  Cloning a salary structure copies it: the clone has the components of the source, with the
  same order and default values, and every other structure keeps its lines.
\<close>

theorem clone_copies_lines:
  assumes "structure_clone newId lineId i name company s = (Inr j, t)"
    and "\<forall>(k, l) \<in> set (pd_lines s). st_structureId l \<noteq> newId"
  shows "structure_lines j (pd_lines t) = map (\<lambda>l. l\<lparr>st_structureId := newId\<rparr>) (structure_lines i (pd_lines s))
    \<and> (\<forall>k. k \<noteq> newId \<longrightarrow> structure_lines k (pd_lines t) = structure_lines k (pd_lines s))"
proof -
  let ?src = "structure_lines i (pd_lines s)"
  let ?dto = "map (\<lambda>l. \<lparr>ld_componentId = st_componentId l, ld_sortOrder = st_sortOrder l, ld_defaultValue = st_defaultValue l\<rparr>) ?src"
  from assms(1) have t: "j = newId" "pd_lines t = insert_lines lineId newId ?dto (pd_lines s)"
    by (auto simp: structure_clone_def split: sum.splits option.splits)
  have copy: "map snd (tbl_all (\<lambda>j l. st_structureId l = newId) (pd_lines t))
      = map (\<lambda>l. l\<lparr>st_structureId := newId\<rparr>) ?src"
    unfolding t(2) insert_lines_of[OF assms(2)] by simp
  have "sorted (map st_sortOrder (map (\<lambda>l. l\<lparr>st_structureId := newId\<rparr>) ?src))"
    by (simp add: structure_lines_def o_def)
  then have "structure_lines j (pd_lines t) = map (\<lambda>l. l\<lparr>st_structureId := newId\<rparr>) ?src"
    unfolding t(1) structure_lines_def[of newId "pd_lines t"] copy by (rule sort_key_id_if_sorted)
  moreover have "structure_lines k (pd_lines t) = structure_lines k (pd_lines s)" if "k \<noteq> newId" for k
    unfolding t(2) structure_lines_def insert_lines_other[OF that] ..
  ultimately show ?thesis by blast
qed

text \<open>The codes of the components: stored in upper case, and no two of a company are equal.\<close>

definition codes_unique :: "component_row table \<Rightarrow> bool" where
  "codes_unique t \<longleftrightarrow>
     (\<forall>(i, c) \<in> set t. toUpperCase (sc_code c) = sc_code c \<and>
       (\<forall>(j, d) \<in> set t. sc_companyId c = sc_companyId d \<and> sc_code c = sc_code d \<longrightarrow> i = j))"

lemma codes_unique_insert:
  assumes "codes_unique t" and "toUpperCase (sc_code c) = sc_code c"
    and "tbl_find (\<lambda>j d. j \<noteq> i \<and> sc_companyId d = sc_companyId c \<and> sc_code d = sc_code c) t = None"
  shows "codes_unique (tbl_insert i c t)"
  using assms unfolding codes_unique_def tbl_insert_def tbl_find_None by fastforce

lemma codes_unique_update:
  assumes "codes_unique t"
    and "\<And>c. (i, c) \<in> set t \<Longrightarrow> toUpperCase (sc_code (f c)) = sc_code (f c) \<and>
      (\<forall>(j, d) \<in> set t. j \<noteq> i \<longrightarrow> \<not> (sc_companyId d = sc_companyId (f c) \<and> sc_code d = sc_code (f c)))"
  shows "codes_unique (tbl_update i f t)"
proof -
  have u: "\<exists>x0. (a, x0) \<in> set t \<and> x = (if a = i then f x0 else x0)"
    if "(a, x) \<in> set (tbl_update i f t)" for a x
    using that by (auto simp: tbl_update_def)
  have ok: "toUpperCase (sc_code x) = sc_code x" if "(a, x) \<in> set (tbl_update i f t)" for a x
    using u[OF that] assms by (auto simp: codes_unique_def split: if_splits)
  have "a = b" if x: "(a, x) \<in> set (tbl_update i f t)" and y: "(b, y) \<in> set (tbl_update i f t)"
    and eq: "sc_companyId x = sc_companyId y" "sc_code x = sc_code y" for a b x y
  proof (rule ccontr)
    assume ab: "a \<noteq> b"
    from u[OF x] obtain x0 where x0: "(a, x0) \<in> set t" "x = (if a = i then f x0 else x0)" by blast
    from u[OF y] obtain y0 where y0: "(b, y0) \<in> set t" "y = (if b = i then f y0 else y0)" by blast
    consider "a = i" | "b = i" | "a \<noteq> i" "b \<noteq> i" by blast
    then show False
    proof cases
      case 1 then show ?thesis using assms(2)[of x0] x0 y0 ab eq by auto
    next
      case 2 then show ?thesis using assms(2)[of y0] x0 y0 ab eq by auto
    next
      case 3 then show ?thesis using assms(1) x0 y0 ab eq unfolding codes_unique_def by auto
    qed
  qed
  then show ?thesis using ok unfolding codes_unique_def by blast
qed

lemma codes_unique_update_same:
  assumes "codes_unique t" and "\<And>c. sc_code (f c) = sc_code c \<and> sc_companyId (f c) = sc_companyId c"
  shows "codes_unique (tbl_update i f t)"
proof -
  have "sc_code (if b then f c else c) = sc_code c" "sc_companyId (if b then f c else c) = sc_companyId c" for b c
    using assms(2) by simp_all
  then show ?thesis using assms(1) by (auto simp: codes_unique_def tbl_update_def) fastforce
qed

lemma code_stored_iff:
  "code_stored i company code s \<longleftrightarrow> length code \<le> 20 \<and>
     (\<forall>(j, c) \<in> set (pd_components s). j \<noteq> i \<longrightarrow> \<not> (sc_companyId c = company \<and> sc_code c = code))"
  by (auto simp: code_stored_def tbl_find_None)

lemma toUpperCase_idem [simp]: "toUpperCase (toUpperCase s) = toUpperCase s"
  by (auto simp: toUpperCase_def upper_char_def Let_def)

text \<open>The requests on components, and what one does to the state.\<close>

datatype component_request =
    CreateComponent id component_dto id
  | UpdateComponent id component_patch id
  | DeleteComponent id id

fun component_step :: "evaluator \<Rightarrow> component_request \<Rightarrow> pay_db \<Rightarrow> pay_db" where
  "component_step ev (CreateComponent n dto co) s = snd (component_create ev n dto co s)"
| "component_step ev (UpdateComponent i dto co) s = snd (component_update ev i dto co s)"
| "component_step ev (DeleteComponent i co) s = snd (component_softDelete i co s)"

lemma component_update_cases:
  obtains "snd (component_update ev i dto co s) = s"
  | c where "tbl_get i (pd_components s) = Some c" "sc_companyId c = co"
      "code_stored i co (sc_code (patch_component dto c)) s"
      "pd_components (snd (component_update ev i dto co s)) = tbl_update i (patch_component dto) (pd_components s)"
proof (cases "component_findOneOrFail i co s")
  case (Inr c)
  then have c: "tbl_get i (pd_components s) = Some c" "sc_companyId c = co"
    by (auto simp: component_findOneOrFail_def split: option.splits)
  consider "snd (component_update ev i dto co s) = s"
    | "code_stored i co (sc_code (patch_component dto c)) s"
      "component_update ev i dto co s
        = (Inr (), s\<lparr>pd_components := tbl_update i (patch_component dto) (pd_components s)\<rparr>)"
    by (cases "check_component_patch ev dto c (active_codes co s)";
        cases "code_stored i co (sc_code (patch_component dto c)) s") (auto simp: component_update_def Inr)
  then show thesis using that c by cases auto
qed (use that in \<open>auto simp: component_update_def\<close>)

lemma component_step_codes:
  assumes "codes_unique (pd_components s)" and "distinct (tbl_ids (pd_components s))"
  shows "codes_unique (pd_components (component_step ev r s))"
proof (cases r)
  case (CreateComponent n dto co)
  then show ?thesis using assms(1)
    by (auto simp: component_create_def code_stored_iff tbl_find_None split: option.splits sum.splits
        intro!: codes_unique_insert)
next
  case (UpdateComponent i dto co)
  let ?t = "pd_components s"
  consider "snd (component_update ev i dto co s) = s"
    | c where "tbl_get i ?t = Some c" "sc_companyId c = co" "code_stored i co (sc_code (patch_component dto c)) s"
      "pd_components (snd (component_update ev i dto co s)) = tbl_update i (patch_component dto) ?t"
    by (rule component_update_cases)
  then show ?thesis
  proof cases
    case 2
    have c: "(i, d) \<in> set ?t \<Longrightarrow> d = c" for d
      using assms(2) 2(1) by (simp add: tbl_get_def tbl_ids_def)
    have "(i, c) \<in> set ?t" using 2(1) by (simp add: tbl_get_def map_of_SomeD)
    then have "toUpperCase (sc_code (patch_component dto c)) = sc_code (patch_component dto c)"
      using assms(1) by (auto simp: codes_unique_def patch_component_def or_keep_def split: option.splits)
    moreover have "sc_companyId (patch_component dto c) = co" using 2(2) by (simp add: patch_component_def)
    ultimately have "codes_unique (tbl_update i (patch_component dto) ?t)"
      using 2(3) by (intro codes_unique_update[OF assms(1)]) (auto dest!: c simp: code_stored_iff)
    then show ?thesis using UpdateComponent 2(4) by simp
  qed (use UpdateComponent assms in simp)
next
  case (DeleteComponent i co)
  then show ?thesis using assms(1)
    by (auto simp: component_softDelete_def intro!: codes_unique_update_same split: sum.splits option.splits)
qed

text \<open>The ids that requests bring are new.\<close>

fun request_id_new :: "component_request \<Rightarrow> pay_db \<Rightarrow> bool" where
  "request_id_new (CreateComponent n dto co) s = fresh n (pd_components s)"
| "request_id_new r s = True"

lemma component_step_ids:
  assumes "distinct (tbl_ids (pd_components s))" and "request_id_new r s"
  shows "distinct (tbl_ids (pd_components (component_step ev r s)))"
proof (cases r)
  case (UpdateComponent i dto co)
  then show ?thesis using assms(1) by (auto intro: component_update_cases[of ev i dto co s])
qed (use assms in \<open>auto simp: component_create_def component_softDelete_def fresh_def
       split: option.splits sum.splits\<close>)

fun component_run :: "evaluator \<Rightarrow> component_request list \<Rightarrow> pay_db \<Rightarrow> pay_db" where
  "component_run ev [] s = s"
| "component_run ev (r # rs) s =
     (if request_id_new r s then component_run ev rs (component_step ev r s) else component_run ev rs s)"

lemma component_run_codes:
  "codes_unique (pd_components s) \<Longrightarrow> distinct (tbl_ids (pd_components s)) \<Longrightarrow>
     codes_unique (pd_components (component_run ev rs s))"
  by (induction rs arbitrary: s) (auto simp: component_step_codes component_step_ids)

text \<open>
  Component codes stay unique: after any sequence of create, update and delete requests from an
  empty table, every stored code is in upper case and no two components of a company have codes
  that differ at most in case.
\<close>

lemma component_codes_unique:
  assumes "pd_components s = []" and "(i, c) \<in> set (pd_components (component_run ev rs s))"
    and "(j, d) \<in> set (pd_components (component_run ev rs s))" and "sc_companyId c = sc_companyId d"
    and "toLowerCase (sc_code c) = toLowerCase (sc_code d)"
  shows "i = j \<and> toUpperCase (sc_code c) = sc_code c"
proof -
  have u: "codes_unique (pd_components (component_run ev rs s))"
    using assms(1) by (intro component_run_codes) (simp_all add: codes_unique_def tbl_ids_def)
  then have up: "toUpperCase (sc_code c) = sc_code c" "toUpperCase (sc_code d) = sc_code d"
    using assms(2,3) by (auto simp: codes_unique_def)
  have "toUpperCase (toLowerCase x) = toUpperCase x" for x
    by (auto simp: toUpperCase_def toLowerCase_def upper_char_def lower_char_def Let_def)
  then have "sc_code c = sc_code d" using assms(5) up by metis
  then show ?thesis using u assms(2-4) up by (auto simp: codes_unique_def)
qed

definition example_component :: "string \<Rightarrow> component_dto" where
  "example_component code = \<lparr>cd_name = code, cd_code = code, cd_type = EARNING, cd_calculationType = Fixed,
     cd_formula = None, cd_defaultValue = None, cd_isTaxable = None\<rparr>"

end
