(* ===== verification/Payroll_Cycle.thy ===== *)
theory Payroll_Cycle
  imports Salary
begin

text \<open>
  Payroll cycles: the requests of \<^verbatim>\<open>payroll/services/payroll-cycle.service.ts\<close>, the job
  of \<^verbatim>\<open>payroll/processors/payroll-run.processor.ts\<close> that computes the entries of a
  cycle, and the bank file of \<^verbatim>\<open>payroll/services/bank-file.service.ts\<close>. Each request is
  one step on the tables; the job of a run has a phase that reads and computes and a transaction
  that writes. The lemmas show the life cycle of a payroll cycle over any sequence of steps, when
  a run succeeds, and that the stored totals are exact.
\<close>

section \<open>Requests\<close>

definition get_cycle :: "id \<Rightarrow> request_context \<Rightarrow> pay_db \<Rightarrow> cycle_row option" where
  "get_cycle i actor s = tbl_get_where i (\<lambda>c. cy_companyId c = rc_companyId actor) (pd_cycles s)"

definition createCycle ::
    "instant \<Rightarrow> id \<Rightarrow> int \<Rightarrow> int \<Rightarrow> request_context \<Rightarrow> pay_db \<Rightarrow> (pay_db, id) outcome" where
  "createCycle now newId month year actor s =
     (if \<bar>year - getUTCFullYear now\<bar> > 1
      then (Inl (BadRequestError ''Year must be within one of the current year''), s)
      else case tbl_find (\<lambda>i c. cy_companyId c = rc_companyId actor \<and> cy_month c = month \<and> cy_year c = year) (pd_cycles s) of
             Some _ \<Rightarrow> (Inl (ConflictError ''A payroll cycle already exists for this month/year''), s)
           | None \<Rightarrow>
               (Inr newId,
                pay_audit actor ''payroll_cycle'' newId ''PAYROLL_CYCLE_CREATED''
                  [(''month'', JNum (num_of_int month)), (''year'', JNum (num_of_int year)),
                   (''companyId'', JStr (rc_companyId actor))]
                  (s\<lparr>pd_cycles := tbl_insert newId
                      \<lparr>cy_companyId = rc_companyId actor, cy_month = month, cy_year = year, cy_status = CycleDRAFT,
                       cy_totalGross = Fin 0, cy_totalDeductions = Fin 0, cy_totalNet = Fin 0, cy_employeeCount = 0,
                       cy_runAt = None, cy_approvedAt = None, cy_approvedById = None, cy_disbursedAt = None,
                       cy_disbursedById = None, cy_reversedAt = None, cy_reversedById = None,
                       cy_reversalReason = None, cy_createdById = rc_userId actor\<rparr> (pd_cycles s)\<rparr>)))"

text \<open>
  \<^verbatim>\<open>runCycle\<close> reads the cycle, checks its status and then writes: two phases, between
  which another request may run.
\<close>

definition runCycle_check :: "id \<Rightarrow> request_context \<Rightarrow> pay_db \<Rightarrow> app_error + cycle_row" where
  "runCycle_check i actor s =
     (case get_cycle i actor s of
        None \<Rightarrow> Inl (NotFoundError ''Payroll cycle not found'')
      | Some c \<Rightarrow>
          if cy_status c \<noteq> CycleDRAFT then Inl (BadRequestError ''Only draft cycles can be run'') else Inr c)"

definition runCycle_write :: "instant \<Rightarrow> id \<Rightarrow> request_context \<Rightarrow> cycle_row \<Rightarrow> pay_db \<Rightarrow> pay_db" where
  "runCycle_write now i actor c s =
     pay_audit actor ''payroll_cycle'' i ''PAYROLL_CYCLE_RUN_TRIGGERED''
       [(''month'', JNum (num_of_int (cy_month c))), (''year'', JNum (num_of_int (cy_year c))),
        (''triggeredByUserId'', JStr (rc_userId actor))]
       (s\<lparr>pd_cycles := tbl_update i (\<lambda>c. c\<lparr>cy_status := CyclePROCESSING, cy_runAt := Some now\<rparr>) (pd_cycles s),
          pd_runQueue := pd_runQueue s @
            [\<lparr>rj_cycleId = i, rj_companyId = rc_companyId actor, rj_month = cy_month c, rj_year = cy_year c,
              rj_triggeredByUserId = rc_userId actor\<rparr>]\<rparr>)"

definition runCycle :: "instant \<Rightarrow> id \<Rightarrow> request_context \<Rightarrow> pay_db \<Rightarrow> (pay_db, unit) outcome" where
  "runCycle now i actor s =
     (case runCycle_check i actor s of
        Inl e \<Rightarrow> (Inl e, s)
      | Inr c \<Rightarrow> (Inr (), runCycle_write now i actor c s))"

definition set_entry_status ::
    "id \<Rightarrow> (entry_status \<Rightarrow> bool) \<Rightarrow> entry_status \<Rightarrow> pay_db \<Rightarrow> pay_db" where
  "set_entry_status i P st s =
     s\<lparr>pd_entries := tbl_update_many (\<lambda>j e. en_cycleId e = i \<and> P (en_status e)) (\<lambda>e. e\<lparr>en_status := st\<rparr>) (pd_entries s)\<rparr>"

definition count_json :: "nat \<Rightarrow> json" where
  "count_json n = JNum (num_of_nat n)"

definition approveCycle :: "instant \<Rightarrow> id \<Rightarrow> request_context \<Rightarrow> pay_db \<Rightarrow> (pay_db, unit) outcome" where
  "approveCycle now i actor s =
     (case get_cycle i actor s of
        None \<Rightarrow> (Inl (NotFoundError ''Payroll cycle not found''), s)
      | Some c \<Rightarrow>
          if cy_status c \<noteq> CycleCOMPUTED then (Inl (BadRequestError ''Only computed cycles can be approved''), s)
          else
            (let heldCount = tbl_count (\<lambda>j e. en_cycleId e = i \<and> en_status e = EntryHELD) (pd_entries s)
             in if 0 < heldCount
                then (Inl (BadRequestError (show_nat heldCount @ '' employee(s) have held entries. Review before approving.'')), s)
                else (Inr (),
                  pay_audit actor ''payroll_cycle'' i ''PAYROLL_CYCLE_APPROVED''
                    [(''month'', JNum (num_of_int (cy_month c))), (''year'', JNum (num_of_int (cy_year c))),
                     (''totalNet'', JNum (cy_totalNet c)), (''employeeCount'', count_json (cy_employeeCount c)),
                     (''approvedById'', JStr (rc_userId actor))]
                    (set_entry_status i (\<lambda>st. st = EntryCOMPUTED) EntryAPPROVED
                      (s\<lparr>pd_cycles := tbl_update i (\<lambda>c. c\<lparr>cy_status := CycleAPPROVED, cy_approvedAt := Some now,
                           cy_approvedById := Some (rc_userId actor)\<rparr>) (pd_cycles s)\<rparr>)))))"

definition disburseCycle :: "instant \<Rightarrow> id \<Rightarrow> request_context \<Rightarrow> pay_db \<Rightarrow> (pay_db, unit) outcome" where
  "disburseCycle now i actor s =
     (case get_cycle i actor s of
        None \<Rightarrow> (Inl (NotFoundError ''Payroll cycle not found''), s)
      | Some c \<Rightarrow>
          if cy_status c \<noteq> CycleAPPROVED then (Inl (BadRequestError ''Only approved cycles can be disbursed''), s)
          else
            (let s1 = pay_audit actor ''payroll_cycle'' i ''PAYROLL_CYCLE_DISBURSED''
                    [(''month'', JNum (num_of_int (cy_month c))), (''year'', JNum (num_of_int (cy_year c))),
                     (''totalNet'', JNum (cy_totalNet c)), (''employeeCount'', count_json (cy_employeeCount c)),
                     (''disbursedById'', JStr (rc_userId actor))]
                    (set_entry_status i (\<lambda>st. st = EntryAPPROVED) EntryDISBURSED
                      (s\<lparr>pd_cycles := tbl_update i (\<lambda>c. c\<lparr>cy_status := CycleDISBURSED, cy_disbursedAt := Some now,
                           cy_disbursedById := Some (rc_userId actor)\<rparr>) (pd_cycles s)\<rparr>));
                 entries = tbl_all (\<lambda>j e. en_cycleId e = i \<and> en_status e = EntryDISBURSED) (pd_entries s1)
             in (Inr (), s1\<lparr>pd_payslipQueue := pd_payslipQueue s1 @
                   map (\<lambda>(j, e). \<lparr>pj_entryId = j, pj_cycleId = i, pj_employeeId = en_employeeId e\<rparr>) entries\<rparr>)))"

definition reverseCycle :: "instant \<Rightarrow> id \<Rightarrow> string \<Rightarrow> request_context \<Rightarrow> pay_db \<Rightarrow> (pay_db, unit) outcome" where
  "reverseCycle now i reason actor s =
     (case get_cycle i actor s of
        None \<Rightarrow> (Inl (NotFoundError ''Payroll cycle not found''), s)
      | Some c \<Rightarrow>
          if cy_status c \<notin> {CycleAPPROVED, CycleDISBURSED}
          then (Inl (BadRequestError ''Only approved or disbursed cycles can be reversed''), s)
          else (Inr (),
            pay_audit actor ''payroll_cycle'' i ''PAYROLL_CYCLE_REVERSED''
              [(''month'', JNum (num_of_int (cy_month c))), (''year'', JNum (num_of_int (cy_year c))),
               (''reversedById'', JStr (rc_userId actor)), (''reversalReason'', JStr reason)]
              (set_entry_status i (\<lambda>st. True) EntryREVERSED
                (s\<lparr>pd_cycles := tbl_update i (\<lambda>c. c\<lparr>cy_status := CycleREVERSED, cy_reversedAt := Some now,
                     cy_reversedById := Some (rc_userId actor), cy_reversalReason := Some reason\<rparr>) (pd_cycles s)\<rparr>))))"

record entry_summary =
  sm_total :: nat
  sm_computed :: nat
  sm_held :: nat
  sm_approved :: nat
  sm_disbursed :: nat

definition getCycle :: "id \<Rightarrow> id \<Rightarrow> pay_db \<Rightarrow> app_error + (cycle_row \<times> entry_summary)" where
  "getCycle i companyId s =
     (case tbl_get_where i (\<lambda>c. cy_companyId c = companyId) (pd_cycles s) of
        None \<Rightarrow> Inl (NotFoundError ''Payroll cycle not found'')
      | Some c \<Rightarrow>
          (let entries = map snd (tbl_all (\<lambda>j e. en_cycleId e = i) (pd_entries s));
               with = (\<lambda>st. length (filter (\<lambda>e. en_status e = st) entries))
           in Inr (c, \<lparr>sm_total = length entries, sm_computed = with EntryCOMPUTED, sm_held = with EntryHELD,
                       sm_approved = with EntryAPPROVED, sm_disbursed = with EntryDISBURSED\<rparr>)))"

text \<open>\<^verbatim>\<open>skip\<close> and \<^verbatim>\<open>take\<close> of a page; an ordering by descending year and month.\<close>

definition page_of :: "nat \<Rightarrow> nat \<Rightarrow> 'a list \<Rightarrow> 'a list" where
  "page_of page pageSize xs = take pageSize (drop ((page - 1) * pageSize) xs)"

definition listCycles ::
    "id \<Rightarrow> int option \<Rightarrow> cycle_status option \<Rightarrow> nat \<Rightarrow> nat \<Rightarrow> pay_db \<Rightarrow> (id \<times> cycle_row) list \<times> nat" where
  "listCycles companyId year status page pageSize s =
     (let rows = tbl_all (\<lambda>i c. cy_companyId c = companyId \<and>
                   (case year of None \<Rightarrow> True | Some y \<Rightarrow> y = 0 \<or> cy_year c = y) \<and>
                   (case status of None \<Rightarrow> True | Some st \<Rightarrow> cy_status c = st)) (pd_cycles s);
          sorted = sort_key (\<lambda>(i, c). - cy_year c) (sort_key (\<lambda>(i, c). - cy_month c) rows)
      in (page_of page pageSize sorted, length rows))"

section \<open>The job of a run\<close>

definition attendance_of :: "id \<Rightarrow> attendance_row list \<Rightarrow> jsnum" where
  "attendance_of emp recs =
     fold (\<lambda>r n. if at_employeeId r \<noteq> emp then n
                  else if at_status r \<in> {AttPRESENT, AttLATE, AttON_LEAVE} then js_add n (Fin 1)
                  else if at_status r = AttHALF_DAY then js_add n (Fin (1 / 2)) else n) recs (Fin 0)"

text \<open>\<^verbatim>\<open>Math.max(0, Math.ceil((end - start) / 86400000) + 1)\<close> on instants.\<close>

definition overlap_days :: "instant \<Rightarrow> instant \<Rightarrow> unpaid_leave_row \<Rightarrow> int" where
  "overlap_days startDate endDate l =
     (let overlapStart = (if startDate < ul_startDate l then ul_startDate l else startDate);
          overlapEnd = (if ul_endDate l < endDate then ul_endDate l else endDate)
      in max 0 (- ((overlapStart - overlapEnd) div msPerDay) + 1))"

definition unpaid_days_of :: "id \<Rightarrow> instant \<Rightarrow> instant \<Rightarrow> unpaid_leave_row list \<Rightarrow> jsnum" where
  "unpaid_days_of emp startDate endDate leaves =
     fold (\<lambda>l n. if ul_employeeId l \<noteq> emp then n
                  else js_add n (num_of_int (overlap_days startDate endDate l))) leaves (Fin 0)"

definition held_entry :: "id \<Rightarrow> id \<Rightarrow> string \<Rightarrow> payroll_entry" where
  "held_entry cycleId emp notes =
     \<lparr>en_cycleId = cycleId, en_employeeId = emp, en_structureId = [], en_monthlyCtc = Fin 0,
      en_workingDays = Fin 0, en_presentDays = Fin 0, en_lopDays = Fin 0, en_grossEarnings = Fin 0,
      en_totalDeductions = Fin 0, en_netPayable = Fin 0, en_status = EntryHELD, en_notes = Some notes\<rparr>"

fun engine_message :: "engine_error \<Rightarrow> string" where
  "engine_message (FormulaEvaluationError m code f) = m"

text \<open>One employee: the entry and its component lines.\<close>

definition compute_entry ::
    "evaluator \<Rightarrow> datefns \<Rightarrow> run_job \<Rightarrow> instant list \<Rightarrow> attendance_row list \<Rightarrow> unpaid_leave_row list
       \<Rightarrow> pay_db \<Rightarrow> id \<Rightarrow> payroll_entry \<times> line list" where
  "compute_entry ev df job holidays recs leaves s emp =
     (let startDate = firstDayOfMonth (rj_year job) (rj_month job);
          endDate = lastDayOfMonth df (rj_year job) (rj_month job)
      in case getCurrentSalary emp startDate None s of
           Inl _ \<Rightarrow> (held_entry (rj_cycleId job) emp ''No approved salary for this period'', [])
         | Inr (i, r) \<Rightarrow>
             (case computeForEmployee ev df emp (rj_cycleId job) (rj_month job) (rj_year job) (salary_input s r)
                     \<lparr>as_presentDays = attendance_of emp recs,
                      as_unpaidLeaveDays = unpaid_days_of emp startDate endDate leaves\<rparr> holidays of
                Inl e \<Rightarrow> (held_entry (rj_cycleId job) emp (''Computation error: '' @ engine_message e), [])
              | Inr (entry, lines) \<Rightarrow> (entry, lines)))"

definition run_employees :: "run_job \<Rightarrow> pay_db \<Rightarrow> id list" where
  "run_employees job s =
     map fst (tbl_all (\<lambda>i e. em_companyId e = rj_companyId job \<and> em_status e = EmpACTIVE \<and> em_deletedAt e = None)
       (pd_employees s))"

definition run_holidays :: "datefns \<Rightarrow> run_job \<Rightarrow> pay_db \<Rightarrow> instant list" where
  "run_holidays df job s =
     (let startDate = firstDayOfMonth (rj_year job) (rj_month job);
          endDate = lastDayOfMonth df (rj_year job) (rj_month job)
      in case tbl_find (\<lambda>i c. hc_companyId c = rj_companyId job \<and> hc_isDefault c \<and> hc_year c = rj_year job) (pd_calendars s) of
           None \<Rightarrow> []
         | Some (cal, _) \<Rightarrow>
             map (hl_date \<circ> snd) (tbl_all (\<lambda>i h. hl_calendarId h = cal \<and> startDate \<le> hl_date h \<and> hl_date h \<le> endDate)
               (pd_holidays s)))"

definition compute_entries :: "evaluator \<Rightarrow> datefns \<Rightarrow> run_job \<Rightarrow> pay_db \<Rightarrow> (payroll_entry \<times> line list) list" where
  "compute_entries ev df job s =
     (let employees = run_employees job s;
          startDate = firstDayOfMonth (rj_year job) (rj_month job);
          endDate = lastDayOfMonth df (rj_year job) (rj_month job);
          recs = map snd (tbl_all (\<lambda>i r. at_employeeId r \<in> set employees \<and> startDate \<le> at_date r \<and> at_date r \<le> endDate)
                   (pd_attendance s));
          unpaid = map fst (tbl_all (\<lambda>i t. pl_companyId t = rj_companyId job \<and> \<not> pl_isPaid t \<and> pl_isActive t) (pd_leaveTypes s));
          leaves = map snd (tbl_all (\<lambda>i l. ul_employeeId l \<in> set employees \<and> ul_leaveTypeId l \<in> set unpaid
                     \<and> ul_approved l \<and> ul_startDate l \<le> endDate \<and> startDate \<le> ul_endDate l) (pd_leaves s))
      in map (compute_entry ev df job (run_holidays df job s) recs leaves s) employees)"

text \<open>
  Creating an entry violates a constraint when its structure does not exist or the employee
  already has an entry in the cycle.
\<close>

definition entry_storable :: "payroll_entry \<Rightarrow> pay_db \<Rightarrow> bool" where
  "entry_storable e s =
     (tbl_get (en_structureId e) (pd_structures s) \<noteq> None \<and>
      tbl_find (\<lambda>i x. en_cycleId x = en_cycleId e \<and> en_employeeId x = en_employeeId e) (pd_entries s) = None)"

fun save_entries ::
    "(nat \<Rightarrow> id) \<Rightarrow> nat \<Rightarrow> (payroll_entry \<times> line list) list \<Rightarrow> pay_db \<Rightarrow> (pay_db, unit) outcome" where
  "save_entries newId n [] s = (Inr (), s)"
| "save_entries newId n ((e, ls) # es) s =
     (if \<not> entry_storable e s then (Inl (DatabaseError ''payroll_entries''), s)
      else save_entries newId (Suc n) es
        (s\<lparr>pd_entries := tbl_insert (newId n)
             (payroll_entry.extend e \<lparr>er_payslipKey = None, er_payslipGeneratedAt = None, er_payslipGenFailed = False\<rparr>)
             (pd_entries s),
           pd_entryComponents := pd_entryComponents s @
             map (\<lambda>l. line.extend l \<lparr>ec_entryId = newId n\<rparr>) ls\<rparr>))"

definition cycle_totals :: "payroll_entry list \<Rightarrow> cycle_row \<Rightarrow> cycle_row" where
  "cycle_totals entries c =
     (let computed = filter (\<lambda>e. en_status e = EntryCOMPUTED) entries
      in c\<lparr>cy_status := CycleCOMPUTED,
           cy_totalGross := round2dp (js_sum (map en_grossEarnings computed)),
           cy_totalDeductions := round2dp (js_sum (map en_totalDeductions computed)),
           cy_totalNet := round2dp (js_sum (map en_netPayable computed)),
           cy_employeeCount := length computed + length (filter (\<lambda>e. en_status e = EntryHELD) entries)\<rparr>)"

text \<open>The transaction; when it fails the cycle goes back to draft and the error is thrown on.\<close>

definition save_run ::
    "(nat \<Rightarrow> id) \<Rightarrow> run_job \<Rightarrow> (payroll_entry \<times> line list) list \<Rightarrow> pay_db \<Rightarrow> (pay_db, unit) outcome" where
  "save_run newId job entries s =
     (case transaction (\<lambda>s. case save_entries newId 0 entries s of
              (Inl e, t) \<Rightarrow> (Inl e, t)
            | (Inr _, t) \<Rightarrow> (Inr (), t\<lparr>pd_cycles := tbl_update (rj_cycleId job) (cycle_totals (map fst entries)) (pd_cycles t)\<rparr>)) s of
        (Inr _, t) \<Rightarrow> (Inr (), t)
      | (Inl e, t) \<Rightarrow>
          (Inl e, t\<lparr>pd_cycles := tbl_update (rj_cycleId job) (\<lambda>c. c\<lparr>cy_status := CycleDRAFT\<rparr>) (pd_cycles t)\<rparr>))"

definition processRun ::
    "evaluator \<Rightarrow> datefns \<Rightarrow> (nat \<Rightarrow> id) \<Rightarrow> run_job \<Rightarrow> pay_db \<Rightarrow> (pay_db, unit) outcome" where
  "processRun ev df newId job s =
     (case tbl_get (rj_cycleId job) (pd_cycles s) of
        None \<Rightarrow> (Inr (), s)
      | Some c \<Rightarrow>
          if cy_status c \<noteq> CyclePROCESSING then (Inr (), s)
          else save_run newId job (compute_entries ev df job s) s)"

section \<open>The life cycle\<close>

text \<open>Everything that can happen to the cycles: the requests, and a worker taking a job.\<close>

datatype cycle_event =
    Create instant id int int request_context
  | Run instant id request_context
  | Job evaluator datefns "nat \<Rightarrow> id" run_job
  | Approve instant id request_context
  | Disburse instant id request_context
  | Reverse instant id string request_context

fun cycle_step :: "cycle_event \<Rightarrow> pay_db \<Rightarrow> pay_db" where
  "cycle_step (Create now i m y a) s = snd (createCycle now i m y a s)"
| "cycle_step (Run now i a) s = snd (runCycle now i a s)"
| "cycle_step (Job ev df newId job) s = snd (processRun ev df newId job s)"
| "cycle_step (Approve now i a) s = snd (approveCycle now i a s)"
| "cycle_step (Disburse now i a) s = snd (disburseCycle now i a s)"
| "cycle_step (Reverse now i reason a) s = snd (reverseCycle now i reason a s)"

definition cycle_status_of :: "pay_db \<Rightarrow> id \<Rightarrow> cycle_status option" where
  "cycle_status_of s i = map_option cy_status (tbl_get i (pd_cycles s))"

inductive cycle_edge :: "cycle_status \<Rightarrow> cycle_status \<Rightarrow> bool" where
  "cycle_edge CycleDRAFT CyclePROCESSING"
| "cycle_edge CyclePROCESSING CycleCOMPUTED"
| "cycle_edge CyclePROCESSING CycleDRAFT"
| "cycle_edge CycleCOMPUTED CycleAPPROVED"
| "cycle_edge CycleAPPROVED CycleDISBURSED"
| "cycle_edge CycleAPPROVED CycleREVERSED"
| "cycle_edge CycleDISBURSED CycleREVERSED"

inductive_simps cycle_edge_to [simp]:
  "cycle_edge a CycleDISBURSED" "cycle_edge a CycleAPPROVED" "cycle_edge a CycleCOMPUTED" "cycle_edge a CyclePROCESSING"

inductive_simps cycle_edge_from [simp]: "cycle_edge CycleREVERSED b"

lemma set_entry_status_fields [simp]:
  "pd_cycles (set_entry_status i P st s) = pd_cycles s"
  "pd_structures (set_entry_status i P st s) = pd_structures s"
  by (simp_all add: set_entry_status_def)

lemma save_entries_frame:
  "save_entries newId n es s = (r, t) \<Longrightarrow> pd_cycles t = pd_cycles s \<and> pd_structures t = pd_structures s"
  by (induction newId n es s rule: save_entries.induct) (auto split: if_splits)

lemma save_run_cases:
  obtains t where "save_entries newId 0 entries s = (Inr (), t)"
    "save_run newId job entries s
      = (Inr (), t\<lparr>pd_cycles := tbl_update (rj_cycleId job) (cycle_totals (map fst entries)) (pd_cycles t)\<rparr>)"
  | e t where "save_entries newId 0 entries s = (Inl e, t)"
    "save_run newId job entries s
      = (Inl e, s\<lparr>pd_cycles := tbl_update (rj_cycleId job) (\<lambda>c. c\<lparr>cy_status := CycleDRAFT\<rparr>) (pd_cycles s)\<rparr>)"
proof (cases "save_entries newId 0 entries s")
  case (Pair r t)
  then show thesis using that by (cases r) (auto simp: save_run_def transaction_def)
qed

lemma cycle_totals_status [simp]: "cy_status (cycle_totals es c) = CycleCOMPUTED"
  by (simp add: cycle_totals_def Let_def)

lemma status_after_update:
  "cycle_status_of s i = Some a \<Longrightarrow> pd_cycles t = tbl_update j f (pd_cycles s) \<Longrightarrow>
     cycle_status_of t i = (if i = j then map_option (cy_status \<circ> f) (tbl_get i (pd_cycles s)) else Some a)"
  by (auto simp: cycle_status_of_def)

lemma get_cycle_Some: "get_cycle i a s = Some c \<Longrightarrow> tbl_get i (pd_cycles s) = Some c"
  by (simp add: get_cycle_def)

interpretation cycle: status_machine cycle_status_of cycle_step cycle_edge
proof
  fix s i a e
  assume a: "cycle_status_of s i = Some a"
  then obtain c where c: "tbl_get i (pd_cycles s) = Some c" "cy_status c = a" by (auto simp: cycle_status_of_def)
  show "\<exists>b. cycle_status_of (cycle_step e s) i = Some b \<and> (b = a \<or> cycle_edge a b)"
  proof (cases e)
    case (Create now j m y actor)
    then show ?thesis using c by (auto simp: createCycle_def cycle_status_of_def tbl_get_insert split: option.splits)
  next
    case (Job ev df newId job)
    show ?thesis
    proof (cases "rj_cycleId job = i \<and> a = CyclePROCESSING")
      case True
      then have "processRun ev df newId job s = save_run newId job (compute_entries ev df job s) s"
        using c by (simp add: processRun_def)
      moreover have "\<exists>b. cycle_status_of (snd (save_run newId job (compute_entries ev df job s) s)) i = Some b
          \<and> (b = CycleCOMPUTED \<or> b = CycleDRAFT)"
        by (rule save_run_cases[of newId "compute_entries ev df job s" s job])
          (use c True save_entries_frame in \<open>fastforce simp: cycle_status_of_def\<close>)+
      ultimately show ?thesis using Job True by (auto intro: cycle_edge.intros)
    next
      case False
      have "cycle_status_of (snd (save_run newId job es s)) i = Some a" if "rj_cycleId job \<noteq> i" for es
        by (rule save_run_cases[of newId es s job])
          (use c that save_entries_frame in \<open>fastforce simp: cycle_status_of_def\<close>)+
      then show ?thesis using Job False a c
        by (cases "rj_cycleId job = i") (auto simp: processRun_def split: option.splits)
    qed
  qed (use c in \<open>auto simp: cycle_status_of_def runCycle_def runCycle_check_def runCycle_write_def approveCycle_def
      disburseCycle_def reverseCycle_def Let_def dest!: get_cycle_Some intro: cycle_edge.intros split: option.splits\<close>)
qed

section \<open>Entries\<close>

lemma save_entries_Inr:
  "save_entries newId n es s = (Inr (), t) \<Longrightarrow>
     map (payroll_entry.truncate \<circ> snd) (pd_entries t) = map (payroll_entry.truncate \<circ> snd) (pd_entries s) @ map fst es
   \<and> (\<forall>e \<in> fst ` set es. tbl_get (en_structureId e) (pd_structures s) \<noteq> None)"
proof (induction newId n es s rule: save_entries.induct)
  case (2 newId n e ls es s)
  then show ?case
    by (auto simp: tbl_insert_def payroll_entry.defs entry_storable_def split: if_splits)
qed auto

lemma entry_storable_antimono:
  "\<not> entry_storable e s \<Longrightarrow> pd_structures t = pd_structures s \<Longrightarrow> set (pd_entries s) \<subseteq> set (pd_entries t)
     \<Longrightarrow> \<not> entry_storable e t"
  by (auto simp: entry_storable_def tbl_find_None)

text \<open>One entry that violates a constraint fails the whole transaction.\<close>

lemma save_entries_fail:
  "e \<in> fst ` set es \<Longrightarrow> \<not> entry_storable e s \<Longrightarrow>
     \<exists>t. save_entries newId n es s = (Inl (DatabaseError ''payroll_entries''), t)"
proof (induction newId n es s rule: save_entries.induct)
  case (2 newId n e' ls es s)
  show ?case
  proof (cases "entry_storable e' s")
    case True
    let ?u = "s\<lparr>pd_entries := tbl_insert (newId n)
        (payroll_entry.extend e' \<lparr>er_payslipKey = None, er_payslipGeneratedAt = None, er_payslipGenFailed = False\<rparr>)
        (pd_entries s),
        pd_entryComponents := pd_entryComponents s @ map (\<lambda>l. line.extend l \<lparr>ec_entryId = newId n\<rparr>) ls\<rparr>"
    have "\<not> entry_storable e ?u"
      using 2(3) by (rule entry_storable_antimono) (auto simp: tbl_insert_def)
    moreover have "e \<in> fst ` set es" using 2(2,3) True by auto
    ultimately show ?thesis using 2(1) True by simp
  qed auto
qed auto

lemma held_not_storable: "tbl_get [] (pd_structures s) = None \<Longrightarrow> \<not> entry_storable (held_entry c emp m) s"
  by (simp add: entry_storable_def held_entry_def)

lemma fst_compute_entries:
  "map (en_employeeId \<circ> fst) (compute_entries ev df job s) = run_employees job s"
proof -
  have "en_employeeId (fst (compute_entry ev df job hols recs leaves s emp)) = emp" for hols recs leaves emp
    by (auto simp: compute_entry_def Let_def held_entry_def computeForEmployee_def split: sum.split prod.split)
  then show ?thesis by (simp add: compute_entries_def Let_def o_def)
qed

lemma entry_of_employee:
  assumes "emp \<in> set (run_employees job s)"
  obtains e where "e \<in> fst ` set (compute_entries ev df job s)" "en_employeeId e = emp"
proof -
  have "emp \<in> set (map (en_employeeId \<circ> fst) (compute_entries ev df job s))"
    unfolding fst_compute_entries by (rule assms)
  then show thesis using that by auto
qed

lemma compute_entries_status:
  "e \<in> fst ` set (compute_entries ev df job s) \<Longrightarrow>
     en_cycleId e = rj_cycleId job \<and> (en_status e = EntryCOMPUTED \<or> (en_status e = EntryHELD \<and> en_structureId e = []))"
  by (auto simp: compute_entries_def compute_entry_def Let_def held_entry_def computeForEmployee_def
      split: sum.splits prod.splits)

text \<open>
  C11: One employee without an approved salary blocks the whole run: the entry that would record the
  problem has an empty structure id, which violates a foreign key, so the transaction fails, the
  cycle goes back to draft and no employee of the company gets an entry.
\<close>

theorem missing_salary_blocks_run:
  assumes "tbl_get (rj_cycleId job) (pd_cycles s) = Some c" and "cy_status c = CyclePROCESSING"
    and "emp \<in> set (run_employees job s)"
    and "getCurrentSalary emp (firstDayOfMonth (rj_year job) (rj_month job)) None s = Inl err"
    and "tbl_get [] (pd_structures s) = None"
  shows "processRun ev df newId job s = (Inl (DatabaseError ''payroll_entries''),
    s\<lparr>pd_cycles := tbl_update (rj_cycleId job) (\<lambda>c. c\<lparr>cy_status := CycleDRAFT\<rparr>) (pd_cycles s)\<rparr>)"
proof -
  let ?h = "held_entry (rj_cycleId job) emp ''No approved salary for this period''"
  have "?h \<in> fst ` set (compute_entries ev df job s)"
    using assms(3,4) by (force simp: compute_entries_def compute_entry_def Let_def)
  from save_entries_fail[OF this held_not_storable[OF assms(5)]]
  obtain t where "save_entries newId 0 (compute_entries ev df job s) s = (Inl (DatabaseError ''payroll_entries''), t)"
    by blast
  then show ?thesis using assms(1,2) by (simp add: processRun_def save_run_def transaction_def)
qed

definition example_cycle :: "cycle_status \<Rightarrow> cycle_row" where
  "example_cycle st = \<lparr>cy_companyId = ''co'', cy_month = 1, cy_year = 2026, cy_status = st, cy_totalGross = Fin 0,
     cy_totalDeductions = Fin 0, cy_totalNet = Fin 0, cy_employeeCount = 0, cy_runAt = None, cy_approvedAt = None,
     cy_approvedById = None, cy_disbursedAt = None, cy_disbursedById = None, cy_reversedAt = None,
     cy_reversedById = None, cy_reversalReason = None, cy_createdById = ''u9''\<rparr>"

definition example_job :: run_job where
  "example_job = \<lparr>rj_cycleId = ''y1'', rj_companyId = ''co'', rj_month = 1, rj_year = 2026, rj_triggeredByUserId = ''u9''\<rparr>"

theorem missing_salary_blocks_run_witness:
  "processRun no_evaluator (datefns_of 0) (\<lambda>n. ''new'') example_job
     (empty_pay_db\<lparr>pd_employees := [(''e1'', new_employee ''co'' None)], pd_cycles := [(''y1'', example_cycle CyclePROCESSING)]\<rparr>)
   = (Inl (DatabaseError ''payroll_entries''),
      empty_pay_db\<lparr>pd_employees := [(''e1'', new_employee ''co'' None)], pd_cycles := [(''y1'', example_cycle CycleDRAFT)]\<rparr>)"
proof -
  let ?s = "empty_pay_db\<lparr>pd_employees := [(''e1'', new_employee ''co'' None)], pd_cycles := [(''y1'', example_cycle CyclePROCESSING)]\<rparr>"
  have "processRun no_evaluator (datefns_of 0) (\<lambda>n. ''new'') example_job ?s
      = (Inl (DatabaseError ''payroll_entries''),
         ?s\<lparr>pd_cycles := tbl_update (rj_cycleId example_job) (\<lambda>c. c\<lparr>cy_status := CycleDRAFT\<rparr>) (pd_cycles ?s)\<rparr>)"
    by (rule missing_salary_blocks_run[where c = "example_cycle CyclePROCESSING" and emp = "''e1''"
          and err = "NotFoundError ''No approved salary found for the given date''"])
      (simp_all add: example_job_def example_cycle_def run_employees_def tbl_all_def tbl_get_def new_employee_def
        getCurrentSalary_def empty_pay_db_def tbl_find_def)
  then show ?thesis by (simp add: tbl_update_def example_job_def example_cycle_def)
qed

text \<open>
  The status check of a run does not prevent double runs: two jobs that both read the cycle as
  processing leave it a draft that keeps the entries of the first job, and from then on every run
  of it with the same employees fails.
\<close>

lemma double_run_wrecks_cycle:
  assumes "tbl_get (rj_cycleId job) (pd_cycles s) = Some c" and "cy_status c = CyclePROCESSING"
    and "run_employees job s \<noteq> []"
    and "save_run newId job (compute_entries ev df job s) s = (Inr (), t)"
    and "save_run newId' job (compute_entries ev df job s) t = (r, u)"
  shows "r \<noteq> Inr () \<and> cycle_status_of t (rj_cycleId job) = Some CycleCOMPUTED
    \<and> cycle_status_of u (rj_cycleId job) = Some CycleDRAFT \<and> pd_entries u = pd_entries t
    \<and> (\<forall>ev' df' newId'' v. pd_entries v = pd_entries u \<and> run_employees job v = run_employees job s
        \<and> cycle_status_of v (rj_cycleId job) = Some CyclePROCESSING \<longrightarrow>
        cycle_status_of (snd (processRun ev' df' newId'' job v)) (rj_cycleId job) = Some CycleDRAFT)"
proof -
  let ?es = "compute_entries ev df job s"
  from assms(4) obtain t0 where t0: "save_entries newId 0 ?es s = (Inr (), t0)"
    "t = t0\<lparr>pd_cycles := tbl_update (rj_cycleId job) (cycle_totals (map fst ?es)) (pd_cycles t0)\<rparr>"
    by (rule_tac save_run_cases[of newId ?es s job]) auto
  obtain emp where emp: "emp \<in> set (run_employees job s)" using assms(3) by (cases "run_employees job s") auto
  then obtain e where e: "e \<in> fst ` set ?es" "en_employeeId e = emp" by (rule entry_of_employee)
  have ec: "en_cycleId e = rj_cycleId job" using compute_entries_status[OF e(1)] by simp
  have "payroll_entry.truncate ` snd ` set (pd_entries t) = payroll_entry.truncate ` snd ` set (pd_entries s) \<union> fst ` set ?es"
    using arg_cong[OF conjunct1[OF save_entries_Inr[OF t0(1)]], of set] t0(2) by (simp add: image_comp)
  then have "e \<in> payroll_entry.truncate ` snd ` set (pd_entries t)" using e(1) by blast
  then obtain j x where x: "(j, x) \<in> set (pd_entries t)" "e = payroll_entry.truncate x" by auto
  then have x': "en_employeeId x = emp" "en_cycleId x = rj_cycleId job"
    using e(2) ec by (auto simp: payroll_entry.defs)
  have dup: "\<not> entry_storable e' v"
    if "(j, x) \<in> set (pd_entries v)" "en_employeeId e' = emp" "en_cycleId e' = rj_cycleId job" for e' v
    using that x' by (auto simp: entry_storable_def tbl_find_None)
  obtain t1 where "save_entries newId' 0 ?es t = (Inl (DatabaseError ''payroll_entries''), t1)"
    using save_entries_fail[OF e(1) dup[OF x(1) e(2) ec]] by blast
  then have u: "r = Inl (DatabaseError ''payroll_entries'')"
    "u = t\<lparr>pd_cycles := tbl_update (rj_cycleId job) (\<lambda>c. c\<lparr>cy_status := CycleDRAFT\<rparr>) (pd_cycles t)\<rparr>"
    using assms(5) by (auto simp: save_run_def transaction_def)
  have cyc: "pd_cycles t0 = pd_cycles s" using save_entries_frame[OF t0(1)] by simp
  have "cycle_status_of (snd (processRun ev' df' newId'' job v)) (rj_cycleId job) = Some CycleDRAFT"
    if v: "pd_entries v = pd_entries u" "run_employees job v = run_employees job s"
      "cycle_status_of v (rj_cycleId job) = Some CyclePROCESSING" for ev' df' newId'' v
  proof -
    from v(3) obtain c' where c': "tbl_get (rj_cycleId job) (pd_cycles v) = Some c'" "cy_status c' = CyclePROCESSING"
      by (auto simp: cycle_status_of_def)
    obtain e' where e': "e' \<in> fst ` set (compute_entries ev' df' job v)" "en_employeeId e' = emp"
      using emp v(2) entry_of_employee[of emp job v] by metis
    have "en_cycleId e' = rj_cycleId job" using compute_entries_status[OF e'(1)] by simp
    then have "\<not> entry_storable e' v" using dup e'(2) x(1) v(1) u(2) by simp
    from save_entries_fail[OF e'(1) this] obtain v1 where
      "save_entries newId'' 0 (compute_entries ev' df' job v) v = (Inl (DatabaseError ''payroll_entries''), v1)" by blast
    then show ?thesis using c' by (simp add: processRun_def save_run_def transaction_def cycle_status_of_def)
  qed
  then show ?thesis using u assms(1) t0(2) cyc by (auto simp: cycle_status_of_def)
qed

definition example_payroll :: pay_db where
  "example_payroll = example_salaries\<lparr>pd_cycles := [(''y1'', example_cycle CyclePROCESSING)]\<rparr>"

lemma example_payroll_run:
  "compute_entries no_evaluator (datefns_of 0) example_job example_payroll
    = [(\<lparr>en_cycleId = ''y1'', en_employeeId = ''e1'', en_structureId = ''s1'', en_monthlyCtc = round2dp (js_div (Fin 100) (Fin 12)),
         en_workingDays = Fin 22, en_presentDays = Fin 0, en_lopDays = Fin 22, en_grossEarnings = Fin 0,
         en_totalDeductions = Fin 0, en_netPayable = Fin 0, en_status = EntryCOMPUTED, en_notes = None\<rparr>, [])]"
proof -
  have d: "getCurrentSalary ''e1'' (firstDayOfMonth 2026 1) None example_payroll
      = Inr (''r1'', snd (hd (pd_salaries example_salaries)))" by code_simp
  have e: "run_employees example_job example_payroll = [''e1'']" by code_simp
  have h: "run_holidays (datefns_of 0) example_job example_payroll = []" by code_simp
  have "salary_input example_payroll (snd (hd (pd_salaries example_salaries)))
      = \<lparr>si_ctc = Fin 100, si_structureId = ''s1'', si_components = []\<rparr>" by code_simp
  moreover have "pd_attendance example_payroll = []" "pd_leaves example_payroll = []" "pd_leaveTypes example_payroll = []"
    by code_simp+
  moreover have "rj_cycleId example_job = ''y1''" "rj_month example_job = 1" "rj_year example_job = 2026"
    by (simp_all add: example_job_def)
  ultimately show ?thesis using d
    by (simp add: compute_entries_def e h Let_def compute_entry_def tbl_all_def attendance_of_def unpaid_days_of_def
        computeForEmployee_def pay_days_def lop_days_def)
qed

section \<open>Totals\<close>

lemma run_all_computed:
  assumes "save_entries newId 0 (compute_entries ev df job s) s = (Inr (), t)" and "tbl_get [] (pd_structures s) = None"
    and "e \<in> fst ` set (compute_entries ev df job s)"
  shows "en_status e = EntryCOMPUTED"
  using compute_entries_status[OF assms(3)] conjunct2[OF save_entries_Inr[OF assms(1)]] assms(2,3) by auto

text \<open>
  C8: A run that succeeds computes one entry for every active employee, and the total it stores for
  the cycle is exact to the cent: if the net amounts are whole cents with a total below
  \<open>2 ^ p\<close> and there are at most \<open>2 ^ 43 / 2 ^ p\<close> of them, the rounding errors of the floating point
  additions never reach the stored total.
\<close>

theorem run_totals_exact:
  assumes "tbl_get (rj_cycleId job) (pd_cycles s) = Some c" and "cy_status c = CyclePROCESSING"
    and "processRun ev df newId job s = (Inr (), t)" and "tbl_get [] (pd_structures s) = None"
    and "map (en_netPayable \<circ> fst) (compute_entries ev df job s) = map cents ks"
    and "\<forall>k \<in> set ks. 0 \<le> k" and "of_int (sum_list ks) / 100 + 1 \<le> (2 :: rat) ^ p"
    and "of_nat (length ks) * (2 :: rat) ^ p \<le> 2 ^ 43" and "p \<le> 39"
  shows "\<exists>c'. tbl_get (rj_cycleId job) (pd_cycles t) = Some c' \<and> cy_status c' = CycleCOMPUTED
    \<and> cy_totalNet c' = cents (sum_list ks) \<and> cy_employeeCount c' = length (run_employees job s)
    \<and> map (en_employeeId \<circ> snd) (pd_entries t) = map (en_employeeId \<circ> snd) (pd_entries s) @ run_employees job s"
proof -
  let ?es = "compute_entries ev df job s"
  have "processRun ev df newId job s = save_run newId job ?es s" using assms(1,2) by (simp add: processRun_def)
  then obtain t0 where t0: "save_entries newId 0 ?es s = (Inr (), t0)"
    "t = t0\<lparr>pd_cycles := tbl_update (rj_cycleId job) (cycle_totals (map fst ?es)) (pd_cycles t0)\<rparr>"
    using assms(3) by (rule_tac save_run_cases[of newId ?es s job]) auto
  have all: "filter (\<lambda>e. en_status e = EntryCOMPUTED) (map fst ?es) = map fst ?es"
    "filter (\<lambda>e. en_status e = EntryHELD) (map fst ?es) = []"
    using run_all_computed[OF t0(1) assms(4)] by (auto simp: filter_id_conv filter_empty_conv)
  have net: "map en_netPayable (map fst ?es) = map cents ks" using assms(5) by (simp add: o_def)
  have tot: "cy_totalNet (cycle_totals (map fst ?es) c) = cents (sum_list ks)"
    unfolding cycle_totals_def Let_def all(1) using net round2dp_js_sum[OF assms(6-9)] by simp
  have cnt: "cy_employeeCount (cycle_totals (map fst ?es) c) = length (run_employees job s)"
    unfolding cycle_totals_def Let_def all using arg_cong[OF fst_compute_entries[of ev df job s], of length] by simp
  have "map en_employeeId (map (payroll_entry.truncate \<circ> snd) (pd_entries t0))
      = map en_employeeId (map (payroll_entry.truncate \<circ> snd) (pd_entries s)) @ map en_employeeId (map fst ?es)"
    using save_entries_Inr[OF t0(1)] by simp
  then have "map (en_employeeId \<circ> snd) (pd_entries t0)
      = map (en_employeeId \<circ> snd) (pd_entries s) @ run_employees job s"
    using fst_compute_entries[of ev df job s] by (simp add: o_def payroll_entry.defs)
  then show ?thesis using assms(1) t0(2) save_entries_frame[OF t0(1)] tot cnt by simp
qed

theorem run_totals_exact_witness:
  "\<exists>t c. processRun no_evaluator (datefns_of 0) (\<lambda>n. ''n1'') example_job example_payroll = (Inr (), t)
     \<and> tbl_get ''y1'' (pd_cycles t) = Some c \<and> cy_totalNet c = cents 0 \<and> cy_employeeCount c = 1"
proof -
  have e: "run_employees example_job example_payroll = [''e1'']" by code_simp
  have c: "tbl_get (rj_cycleId example_job) (pd_cycles example_payroll) = Some (example_cycle CyclePROCESSING)"
    "cy_status (example_cycle CyclePROCESSING) = CyclePROCESSING" "tbl_get [] (pd_structures example_payroll) = None"
    by code_simp+
  obtain t where t: "processRun no_evaluator (datefns_of 0) (\<lambda>n. ''n1'') example_job example_payroll = (Inr (), t)"
    using c by (simp add: processRun_def example_payroll_run save_run_def transaction_def entry_storable_def)
      (simp add: example_payroll_def example_salaries_def empty_pay_db_def tbl_find_def tbl_get_def)
  have "map (en_netPayable \<circ> fst) (compute_entries no_evaluator (datefns_of 0) example_job example_payroll) = map cents [0]"
    by (simp add: example_payroll_run cents_def)
  from run_totals_exact[OF c(1,2) t c(3) this, of 5] show ?thesis using t e by (auto simp: example_job_def)
qed

section \<open>Entries and their cycle\<close>

text \<open>The status an entry has in a cycle of a given status; a cycle that is not computed has no entries.\<close>

fun entry_matches :: "cycle_status \<Rightarrow> entry_status \<Rightarrow> bool" where
  "entry_matches CycleCOMPUTED EntryCOMPUTED = True"
| "entry_matches CycleAPPROVED EntryAPPROVED = True"
| "entry_matches CycleDISBURSED EntryDISBURSED = True"
| "entry_matches CycleREVERSED EntryREVERSED = True"
| "entry_matches c e = False"

definition entries_ok :: "pay_db \<Rightarrow> bool" where
  "entries_ok s \<longleftrightarrow> tbl_get [] (pd_structures s) = None \<and>
     (\<forall>e \<in> snd ` set (pd_entries s). \<exists>st. cycle_status_of s (en_cycleId e) = Some st \<and> entry_matches st (en_status e))"

lemma entry_matches_iff [simp]:
  "entry_matches CycleCOMPUTED e \<longleftrightarrow> e = EntryCOMPUTED" "entry_matches CycleAPPROVED e \<longleftrightarrow> e = EntryAPPROVED"
  "entry_matches CycleDISBURSED e \<longleftrightarrow> e = EntryDISBURSED" "entry_matches CycleREVERSED e \<longleftrightarrow> e = EntryREVERSED"
  "\<not> entry_matches CycleDRAFT e" "\<not> entry_matches CyclePROCESSING e"
  by (cases e; simp)+

text \<open>A step that moves one cycle and its entries together.\<close>

lemma entries_ok_move:
  assumes "entries_ok s" and "cycle_status_of s i = Some a"
    and "pd_structures t = pd_structures s" and "pd_cycles t = tbl_update i f (pd_cycles s)" and "\<And>c. cy_status (f c) = b"
    and "pd_entries t = tbl_update_many (\<lambda>j e. en_cycleId e = i \<and> P (en_status e)) (\<lambda>e. e\<lparr>en_status := st\<rparr>) (pd_entries s)"
    and "\<And>x. entry_matches a x \<Longrightarrow> P x \<and> entry_matches b st"
  shows "entries_ok t"
proof -
  have "\<exists>y. cycle_status_of t (en_cycleId e) = Some y \<and> entry_matches y (en_status e)"
    if e: "e \<in> snd ` set (pd_entries t)" for e
  proof -
    from e obtain j e0 where e0: "(j, e0) \<in> set (pd_entries s)"
      "e = (if en_cycleId e0 = i \<and> P (en_status e0) then e0\<lparr>en_status := st\<rparr> else e0)"
      unfolding assms(6) tbl_update_many_def by auto
    then obtain x where x: "cycle_status_of s (en_cycleId e0) = Some x" "entry_matches x (en_status e0)"
      using assms(1) by (fastforce simp: entries_ok_def)
    have "cycle_status_of t (en_cycleId e0) = (if en_cycleId e0 = i then Some b else Some x)"
      using status_after_update[OF x(1) assms(4)] assms(2,5) by (auto simp: cycle_status_of_def)
    then show ?thesis using e0(2) x assms(2) assms(7)[of "en_status e0"] by auto
  qed
  then show ?thesis using assms(1,3) by (auto simp: entries_ok_def)
qed

lemma entries_ok_frame:
  "entries_ok s \<Longrightarrow> pd_structures t = pd_structures s \<Longrightarrow> pd_entries t = pd_entries s \<Longrightarrow>
     (\<And>j. cycle_status_of s j \<noteq> None \<Longrightarrow> cycle_status_of t j = cycle_status_of s j) \<Longrightarrow> entries_ok t"
  unfolding entries_ok_def by (metis option.distinct(1))

lemma entries_ok_status_only:
  assumes "entries_ok s" and "cycle_status_of s i = Some a" and "\<And>x. \<not> entry_matches a x"
    and "pd_structures t = pd_structures s" and "pd_entries t = pd_entries s" and "pd_cycles t = tbl_update i f (pd_cycles s)"
  shows "entries_ok t"
proof -
  have "cycle_status_of t (en_cycleId e) = cycle_status_of s (en_cycleId e)" if "e \<in> snd ` set (pd_entries s)" for e
  proof -
    from that assms(1) obtain x where x: "cycle_status_of s (en_cycleId e) = Some x" "entry_matches x (en_status e)"
      by (auto simp: entries_ok_def)
    then have "en_cycleId e \<noteq> i" using assms(2,3) by auto
    then show ?thesis using status_after_update[OF x(1) assms(6)] x(1) by simp
  qed
  then show ?thesis using assms(1,4,5) by (simp add: entries_ok_def)
qed

lemma entries_ok_job:
  assumes "entries_ok s"
  shows "entries_ok (snd (processRun ev df newId job s))"
proof (cases "cycle_status_of s (rj_cycleId job) = Some CyclePROCESSING")
  case False
  then show ?thesis using assms by (auto simp: processRun_def cycle_status_of_def split: option.splits)
next
  case True
  let ?es = "compute_entries ev df job s" and ?i = "rj_cycleId job"
  have run: "processRun ev df newId job s = save_run newId job ?es s"
    using True by (auto simp: processRun_def cycle_status_of_def)
  show ?thesis
  proof (rule save_run_cases[of newId ?es s job])
    fix e t
    assume "save_run newId job ?es s = (Inl e, s\<lparr>pd_cycles := tbl_update ?i (\<lambda>c. c\<lparr>cy_status := CycleDRAFT\<rparr>) (pd_cycles s)\<rparr>)"
    then show ?thesis unfolding run by (auto intro: entries_ok_status_only[OF assms True])
  next
    fix t
    assume t: "save_entries newId 0 ?es s = (Inr (), t)" "save_run newId job ?es s
        = (Inr (), t\<lparr>pd_cycles := tbl_update ?i (cycle_totals (map fst ?es)) (pd_cycles t)\<rparr>)"
    let ?u = "t\<lparr>pd_cycles := tbl_update ?i (cycle_totals (map fst ?es)) (pd_cycles t)\<rparr>"
    have fr: "pd_cycles t = pd_cycles s" "pd_structures t = pd_structures s" using save_entries_frame[OF t(1)] by auto
    have at_i: "cycle_status_of ?u ?i = Some CycleCOMPUTED"
      using True fr by (auto simp: cycle_status_of_def)
    have at_j: "cycle_status_of ?u j = cycle_status_of s j" if "j \<noteq> ?i" for j
      using that fr by (simp add: cycle_status_of_def)
    have new: "en_cycleId e = ?i \<and> en_status e = EntryCOMPUTED" if "e \<in> fst ` set ?es" for e
      using compute_entries_status[OF that] run_all_computed[OF t(1) _ that] assms by (auto simp: entries_ok_def)
    have "set (map (payroll_entry.truncate \<circ> snd) (pd_entries t))
        = set (map (payroll_entry.truncate \<circ> snd) (pd_entries s) @ map fst ?es)"
      using save_entries_Inr[OF t(1)] by simp
    then have sub: "payroll_entry.truncate e \<in> payroll_entry.truncate ` snd ` set (pd_entries s) \<union> fst ` set ?es"
      if "e \<in> snd ` set (pd_entries t)" for e using that by (auto simp: image_comp)
    have "\<exists>st. cycle_status_of ?u (en_cycleId e) = Some st \<and> entry_matches st (en_status e)"
      if "e \<in> snd ` set (pd_entries t)" for e
    proof -
      have tr: "en_cycleId (payroll_entry.truncate x) = en_cycleId x" "en_status (payroll_entry.truncate x) = en_status x"
        for x :: entry_row by (simp_all add: payroll_entry.defs)
      from sub[OF that] show ?thesis
      proof
        assume "payroll_entry.truncate e \<in> fst ` set ?es"
        then show ?thesis using new[of "payroll_entry.truncate e"] at_i by (simp add: tr)
      next
        assume "payroll_entry.truncate e \<in> payroll_entry.truncate ` snd ` set (pd_entries s)"
        then obtain x where x: "x \<in> snd ` set (pd_entries s)" "payroll_entry.truncate e = payroll_entry.truncate x" by blast
        then have eq: "en_cycleId e = en_cycleId x" "en_status e = en_status x" using tr by metis+
        obtain st where st: "cycle_status_of s (en_cycleId x) = Some st" "entry_matches st (en_status x)"
          using assms x(1) by (auto simp: entries_ok_def)
        then have "en_cycleId x \<noteq> ?i" using True by auto
        then show ?thesis using st at_j eq by simp
      qed
    qed
    then show ?thesis unfolding run t(2) using assms fr by (simp add: entries_ok_def)
  qed
qed

lemma entries_ok_step: "entries_ok s \<Longrightarrow> entries_ok (cycle_step e s)"
proof (cases e)
  case (Create now i m y a)
  assume s: "entries_ok s"
  show ?thesis
    by (rule entries_ok_frame[OF s])
      (auto simp: Create createCycle_def cycle_status_of_def tbl_get_insert split: option.splits)
next
  case (Run now i a)
  assume s: "entries_ok s"
  show ?thesis
  proof (cases "runCycle_check i a s")
    case (Inr c)
    then have "cycle_status_of s i = Some CycleDRAFT"
      by (auto simp: runCycle_check_def cycle_status_of_def dest!: get_cycle_Some split: option.splits if_splits)
    then show ?thesis using Inr Run
      by (auto simp: runCycle_def runCycle_write_def intro!: entries_ok_status_only[OF s])
  qed (use s Run in \<open>simp add: runCycle_def\<close>)
next
  case (Job ev df newId job)
  then show "entries_ok s \<Longrightarrow> ?thesis" by (simp add: entries_ok_job)
next
  case (Approve now i a)
  assume s: "entries_ok s"
  show ?thesis
  proof (cases "\<exists>c. get_cycle i a s = Some c \<and> cy_status c = CycleCOMPUTED
      \<and> tbl_count (\<lambda>j e. en_cycleId e = i \<and> en_status e = EntryHELD) (pd_entries s) = 0")
    case True
    then have "cycle_status_of s i = Some CycleCOMPUTED" by (auto simp: cycle_status_of_def dest!: get_cycle_Some)
    then show ?thesis using True Approve
      by (auto simp: approveCycle_def set_entry_status_def intro!: entries_ok_move[OF s])
  qed (use s Approve in \<open>auto simp: approveCycle_def Let_def split: option.splits\<close>)
next
  case (Disburse now i a)
  assume s: "entries_ok s"
  show ?thesis
  proof (cases "\<exists>c. get_cycle i a s = Some c \<and> cy_status c = CycleAPPROVED")
    case True
    then have "cycle_status_of s i = Some CycleAPPROVED" by (auto simp: cycle_status_of_def dest!: get_cycle_Some)
    then show ?thesis using True Disburse
      by (auto simp: disburseCycle_def Let_def set_entry_status_def intro!: entries_ok_move[OF s])
  qed (use s Disburse in \<open>auto simp: disburseCycle_def split: option.splits\<close>)
next
  case (Reverse now i reason a)
  assume s: "entries_ok s"
  show ?thesis
  proof (cases "\<exists>c. get_cycle i a s = Some c \<and> cy_status c \<in> {CycleAPPROVED, CycleDISBURSED}")
    case True
    then obtain st where "cycle_status_of s i = Some st" by (auto simp: cycle_status_of_def dest!: get_cycle_Some)
    then show ?thesis using True Reverse
      by (auto simp: reverseCycle_def set_entry_status_def intro!: entries_ok_move[OF s])
  qed (use s Reverse in \<open>auto simp: reverseCycle_def split: option.splits\<close>)
qed

text \<open>
  C5: Entries follow their cycle: after any sequence of requests and jobs from a database without
  payroll entries, every entry belongs to a cycle that is computed, approved, disbursed or
  reversed, and has exactly the status of its cycle; in particular no entry is ever held and a
  draft cycle has none.
\<close>

theorem entries_follow_cycle:
  assumes "pd_entries s = []" and "tbl_get [] (pd_structures s) = None"
    and "(j, e) \<in> set (pd_entries (fold cycle_step es s))"
  shows "\<exists>st. cycle_status_of (fold cycle_step es s) (en_cycleId e) = Some st \<and>
    (st, en_status e) \<in> {(CycleCOMPUTED, EntryCOMPUTED), (CycleAPPROVED, EntryAPPROVED),
      (CycleDISBURSED, EntryDISBURSED), (CycleREVERSED, EntryREVERSED)}"
proof -
  have "entries_ok (fold cycle_step es u)" if "entries_ok u" for u
    using that by (induction es arbitrary: u) (auto intro: entries_ok_step)
  moreover have "entries_ok s" using assms(1,2) by (simp add: entries_ok_def)
  ultimately have "entries_ok (fold cycle_step es s)" by blast
  then obtain st where st: "cycle_status_of (fold cycle_step es s) (en_cycleId e) = Some st" "entry_matches st (en_status e)"
    using assms(3) by (fastforce simp: entries_ok_def)
  then show ?thesis by (cases st) auto
qed

section \<open>A cycle from run to disbursement\<close>

lemma example_processed:
  obtains t x c where "processRun no_evaluator (datefns_of 0) (\<lambda>n. ''n1'') example_job example_payroll = (Inr (), t)"
    "pd_entries t = [(''n1'', x)]" "en_cycleId x = ''y1''" "en_status x = EntryCOMPUTED"
    "tbl_get ''y1'' (pd_cycles t) = Some c" "cy_status c = CycleCOMPUTED" "cy_companyId c = ''co''"
proof -
  have c: "tbl_get (rj_cycleId example_job) (pd_cycles example_payroll) = Some (example_cycle CyclePROCESSING)"
    "cy_status (example_cycle CyclePROCESSING) = CyclePROCESSING" "rj_cycleId example_job = ''y1''"
    "tbl_get ''s1'' (pd_structures example_payroll) \<noteq> None" "pd_entries example_payroll = []"
    by code_simp+
  then have "\<exists>t. processRun no_evaluator (datefns_of 0) (\<lambda>n. ''n1'') example_job example_payroll = (Inr (), t)
      \<and> (\<exists>x. pd_entries t = [(''n1'', x)] \<and> en_cycleId x = ''y1'' \<and> en_status x = EntryCOMPUTED)
      \<and> (\<exists>c. tbl_get ''y1'' (pd_cycles t) = Some c \<and> cy_status c = CycleCOMPUTED \<and> cy_companyId c = ''co'')"
    by (auto simp: processRun_def example_payroll_run save_run_def transaction_def entry_storable_def tbl_find_def
        tbl_insert_def payroll_entry.defs cycle_totals_def Let_def example_cycle_def)
  then show thesis using that by blast
qed

theorem entries_follow_cycle_witness:
  "\<exists>e. (''n1'', e) \<in> set (pd_entries (fold cycle_step [Job no_evaluator (datefns_of 0) (\<lambda>n. ''n1'') example_job] example_payroll))
     \<and> (\<exists>st. cycle_status_of (fold cycle_step [Job no_evaluator (datefns_of 0) (\<lambda>n. ''n1'') example_job] example_payroll) (en_cycleId e) = Some st
       \<and> (st, en_status e) \<in> {(CycleCOMPUTED, EntryCOMPUTED), (CycleAPPROVED, EntryAPPROVED),
            (CycleDISBURSED, EntryDISBURSED), (CycleREVERSED, EntryREVERSED)})"
proof -
  let ?es = "[Job no_evaluator (datefns_of 0) (\<lambda>n. ''n1'') example_job]"
  obtain t x where t: "processRun no_evaluator (datefns_of 0) (\<lambda>n. ''n1'') example_job example_payroll = (Inr (), t)"
    "pd_entries t = [(''n1'', x)]" by (rule example_processed)
  then have x: "(''n1'', x) \<in> set (pd_entries (fold cycle_step ?es example_payroll))" by simp
  have "pd_entries example_payroll = []" "tbl_get [] (pd_structures example_payroll) = None" by code_simp+
  from entries_follow_cycle[OF this x] x show ?thesis by blast
qed

text \<open>
  C10: Payroll cycles follow their life cycle: whatever requests and jobs run, a reversed cycle stays
  reversed, and a cycle that starts as a draft or in
  processing and is disbursed at the end was approved at some earlier point, after it
  had been computed.
\<close>

theorem payroll_cycle_life:
  assumes "cycle_status_of s i = Some a" and "a \<in> {CycleDRAFT, CyclePROCESSING}"
    and "cycle_status_of (fold cycle_step es s) i = Some CycleDISBURSED"
  shows "(\<exists>es1 es2 es3. es = es1 @ es2 @ es3 \<and> cycle_status_of (fold cycle_step es1 s) i = Some CycleCOMPUTED
      \<and> cycle_status_of (fold cycle_step (es1 @ es2) s) i = Some CycleAPPROVED)
    \<and> (\<forall>fs u. cycle_status_of u i = Some CycleREVERSED \<longrightarrow> cycle_status_of (fold cycle_step fs u) i = Some CycleREVERSED)"
proof -
  from cycle.visited_before[OF _ assms(1) _ assms(3)] obtain es12 es3 where
    12: "es = es12 @ es3" "cycle_status_of (fold cycle_step es12 s) i = Some CycleAPPROVED" using assms(2) by auto
  from cycle.visited_before[OF _ assms(1) _ 12(2)] obtain es1 es2 where
    "es12 = es1 @ es2" "cycle_status_of (fold cycle_step es1 s) i = Some CycleCOMPUTED" using assms(2) by auto
  then have "es = es1 @ es2 @ es3 \<and> cycle_status_of (fold cycle_step es1 s) i = Some CycleCOMPUTED
      \<and> cycle_status_of (fold cycle_step (es1 @ es2) s) i = Some CycleAPPROVED" using 12 by simp
  moreover have "cycle_status_of (fold cycle_step fs u) i = Some CycleREVERSED"
    if "cycle_status_of u i = Some CycleREVERSED" for fs u
    using cycle.terminal_stays[OF _ that] by simp
  ultimately show ?thesis by blast
qed

theorem payroll_cycle_life_witness:
  "\<exists>es1 es2 es3. [Job no_evaluator (datefns_of 0) (\<lambda>n. ''n1'') example_job, Approve 0 ''y1'' (actor_in ''u9'' ''co''),
        Disburse 0 ''y1'' (actor_in ''u9'' ''co'')] = es1 @ es2 @ es3
     \<and> cycle_status_of (fold cycle_step es1 example_payroll) ''y1'' = Some CycleCOMPUTED
     \<and> cycle_status_of (fold cycle_step (es1 @ es2) example_payroll) ''y1'' = Some CycleAPPROVED"
proof -
  let ?es = "[Job no_evaluator (datefns_of 0) (\<lambda>n. ''n1'') example_job, Approve 0 ''y1'' (actor_in ''u9'' ''co''),
        Disburse 0 ''y1'' (actor_in ''u9'' ''co'')]"
  obtain t x c where t: "processRun no_evaluator (datefns_of 0) (\<lambda>n. ''n1'') example_job example_payroll = (Inr (), t)"
    "pd_entries t = [(''n1'', x)]" "en_status x = EntryCOMPUTED" "tbl_get ''y1'' (pd_cycles t) = Some c"
    "cy_status c = CycleCOMPUTED" "cy_companyId c = ''co''" by (rule example_processed)
  then obtain u c' where u: "approveCycle 0 ''y1'' (actor_in ''u9'' ''co'') t = (Inr (), u)"
    "tbl_get ''y1'' (pd_cycles u) = Some c'" "cy_status c' = CycleAPPROVED" "cy_companyId c' = ''co''"
    by (simp add: approveCycle_def get_cycle_def tbl_get_where_def tbl_count_def tbl_all_def)
  then obtain v where "disburseCycle 0 ''y1'' (actor_in ''u9'' ''co'') u = (Inr (), v)"
    "cycle_status_of v ''y1'' = Some CycleDISBURSED"
    by (simp add: disburseCycle_def get_cycle_def tbl_get_where_def Let_def cycle_status_of_def)
  then have "cycle_status_of (fold cycle_step ?es example_payroll) ''y1'' = Some CycleDISBURSED"
    using t(1) u(1) by simp
  moreover have "cycle_status_of example_payroll ''y1'' = Some CyclePROCESSING" by code_simp
  ultimately show ?thesis using payroll_cycle_life[of example_payroll "''y1''" CyclePROCESSING ?es] by blast
qed

end
