(* ===== verification/Bank_File.thy ===== *)
theory Bank_File
  imports Payroll_Cycle
begin

text \<open>
  What leaves the payroll module: the bank file of
  \<^verbatim>\<open>payroll/services/bank-file.service.ts\<close>, the payslips that
  \<^verbatim>\<open>payroll/processors/payslip-gen.processor.ts\<close> stores, and which payslips
  \<^verbatim>\<open>payroll/services/payslip.service.ts\<close> lists. The layout of the payslip document,
  the rendering and the object store are not modelled; whether rendering succeeds is a parameter.
  The lemmas show that a CSV reader recovers the fields of every row of the bank file.
\<close>

section \<open>Amounts with two decimals\<close>

text \<open>\<^verbatim>\<open>toFixed(2)\<close> below \<open>10 ^ 21\<close>: the nearest number of hundredths, ties away from zero.\<close>

definition fixed2_digits :: "rat \<Rightarrow> string" where
  "fixed2_digits q =
     (let n = nat \<lfloor>q * 100 + 1 / 2\<rfloor>
      in show_nat (n div 100) @ ''.'' @ [digit_char (n mod 100 div 10), digit_char (n mod 10)])"

fun toFixed2 :: "jsnum \<Rightarrow> string" where
  "toFixed2 (Fin q) = (if q < 0 then ''-'' @ fixed2_digits (- q) else fixed2_digits q)"
| "toFixed2 PInf = ''Infinity''"
| "toFixed2 NInf = ''-Infinity''"
| "toFixed2 NaN = ''NaN''"

section \<open>The bank file\<close>

datatype bank_format = Neft | Ach

definition newline :: char where "newline = CHR 0x0A"

definition quote :: char where "quote = CHR 0x22"

definition escapeCsv :: "string \<Rightarrow> string" where
  "escapeCsv value =
     (if CHR '','' \<in> set value \<or> quote \<in> set value \<or> newline \<in> set value
      then [quote] @ replace_char quote [quote, quote] value @ [quote]
      else value)"

record bank_account =
  ba_accountHolderName :: string
  ba_accountNumber :: string
  ba_ifscCode :: string

definition primary_account :: "id \<Rightarrow> pay_db \<Rightarrow> bank_detail_row option" where
  "primary_account emp s =
     map_option snd (tbl_find (\<lambda>i b. bd_employeeId b = emp \<and> bd_isPrimary b \<and> bd_isActive b) (pd_bankDetails s))"

definition remarks :: "cycle_row \<Rightarrow> string" where
  "remarks c = ''Salary '' @ show_int (cy_month c) @ ''/'' @ show_int (cy_year c)"

definition neft_row :: "cycle_row \<Rightarrow> bank_detail_row \<Rightarrow> jsnum \<Rightarrow> string" where
  "neft_row c bank amount =
     join_with '','' [escapeCsv (bd_accountHolderName bank), bd_accountNumber bank, bd_ifscCode bank,
                     toFixed2 amount, escapeCsv (remarks c)]"

definition ach_row :: "string \<Rightarrow> cycle_row \<Rightarrow> bank_detail_row \<Rightarrow> jsnum \<Rightarrow> string" where
  "ach_row today c bank amount =
     join_with ''|'' [bd_accountNumber bank, bd_ifscCode bank, bd_accountHolderName bank,
                     toFixed2 amount, remarks c, today]"

definition payable_entries :: "id \<Rightarrow> pay_db \<Rightarrow> entry_row list" where
  "payable_entries cycleId s =
     map snd (tbl_all (\<lambda>i e. en_cycleId e = cycleId \<and> en_status e \<in> {EntryAPPROVED, EntryDISBURSED}
                        \<and> js_lt (Fin 0) (en_netPayable e)) (pd_entries s))"

text \<open>The payable entries whose employee has an account, with the account.\<close>

definition paid_entries :: "id \<Rightarrow> pay_db \<Rightarrow> (bank_detail_row \<times> jsnum) list" where
  "paid_entries cycleId s =
     List.map_filter (\<lambda>e. map_option (\<lambda>b. (b, en_netPayable e)) (primary_account (en_employeeId e) s))
       (payable_entries cycleId s)"

record bank_file =
  bf_content :: string
  bf_filename :: string

definition exportBankFile ::
    "string \<Rightarrow> id \<Rightarrow> bank_format \<Rightarrow> request_context \<Rightarrow> pay_db \<Rightarrow> (pay_db, bank_file) outcome" where
  "exportBankFile today cycleId format actor s =
     (case get_cycle cycleId actor s of
        None \<Rightarrow> (Inl (NotFoundError ''Payroll cycle not found''), s)
      | Some c \<Rightarrow>
          if cy_status c \<notin> {CycleAPPROVED, CycleDISBURSED}
          then (Inl (BadRequestError ''Cycle must be approved or disbursed to export bank file''), s)
          else if payable_entries cycleId s = []
          then (Inl (BadRequestError ''No payable entries found for this cycle''), s)
          else
            (let paid = paid_entries cycleId s;
                 rows = map (\<lambda>(b, a). case format of Neft \<Rightarrow> neft_row c b a | Ach \<Rightarrow> ach_row today c b a) paid;
                 totalAmount = js_sum (map snd paid);
                 content = join_with [newline]
                   (case format of
                      Neft \<Rightarrow> rows
                    | Ach \<Rightarrow> ''DEST_ACCT_NO|DEST_IFSC|BENE_NAME|AMOUNT|PAYMENT_REF|PAYMENT_DATE'' # rows);
                 filename = ''bank_file_'' @ cycleId @ (case format of Neft \<Rightarrow> ''_neft.csv'' | Ach \<Rightarrow> ''_ach.csv'')
             in (Inr \<lparr>bf_content = content, bf_filename = filename\<rparr>,
                 pay_audit actor ''payroll_cycle'' cycleId ''BANK_FILE_EXPORTED''
                   [(''format'', JStr (case format of Neft \<Rightarrow> ''neft'' | Ach \<Rightarrow> ''ach'')),
                    (''entryCount'', JNum (num_of_nat (length rows))),
                    (''totalAmount'', JNum (round2dp totalAmount)),
                    (''exportedByUserId'', JStr (rc_userId actor))] s)))"

section \<open>Payslips\<close>

definition payslip_key :: "id \<Rightarrow> int \<Rightarrow> int \<Rightarrow> id \<Rightarrow> id \<Rightarrow> string" where
  "payslip_key companyId year month employeeId cycleId =
     ''payslips/'' @ companyId @ ''/'' @ show_int year @ ''/'' @ show_int month @ ''/''
       @ employeeId @ ''_'' @ cycleId @ ''.pdf''"

definition mark_gen_failed :: "id \<Rightarrow> pay_db \<Rightarrow> pay_db" where
  "mark_gen_failed entryId s =
     s\<lparr>pd_entries := tbl_update entryId (\<lambda>e. e\<lparr>er_payslipGenFailed := True\<rparr>) (pd_entries s)\<rparr>"

text \<open>
  The job of one payslip. A failed upload is only logged. \<open>rendered\<close> tells whether the document
  could be rendered.
\<close>

definition processPayslip :: "instant \<Rightarrow> id \<Rightarrow> bool \<Rightarrow> payslip_job \<Rightarrow> pay_db \<Rightarrow> (pay_db, unit) outcome" where
  "processPayslip now newId rendered job s =
     (case tbl_get (pj_entryId job) (pd_entries s) of
        None \<Rightarrow> (Inr (), s)
      | Some e \<Rightarrow>
          (case tbl_get (en_cycleId e) (pd_cycles s) of
             None \<Rightarrow> (Inl (DatabaseError ''payroll_cycles''), mark_gen_failed (pj_entryId job) s)
           | Some c \<Rightarrow>
               if \<not> rendered then (Inl (RuntimeError ''pdfmake''), mark_gen_failed (pj_entryId job) s)
               else
                 (let earnings = filter (\<lambda>l. ln_type l = EARNING \<and> ec_entryId l = pj_entryId job) (pd_entryComponents s);
                      totalEarnings = js_sum (map ln_amount earnings);
                      key = payslip_key (cy_companyId c) (cy_year c) (cy_month c) (pj_employeeId job) (pj_cycleId job)
                  in (Inr (),
                      s\<lparr>pd_payslips := tbl_insert newId
                          \<lparr>ps_companyId = cy_companyId c, ps_employeeId = pj_employeeId job, ps_cycleId = Some (pj_cycleId job),
                           ps_entryId = Some (pj_entryId job), ps_grossAmount = totalEarnings,
                           ps_netAmount = en_netPayable e, ps_taxAmount = Fin 0, ps_s3Key = Some key,
                           ps_generatedAt = Some now\<rparr> (pd_payslips s),
                        pd_entries := tbl_update (pj_entryId job)
                          (\<lambda>e. e\<lparr>er_payslipKey := Some key, er_payslipGeneratedAt := Some now\<rparr>) (pd_entries s)\<rparr>))))"

text \<open>
  Which payslips a listing shows. A request without an administrator role is limited to the
  payslips of the employee record of its user, when there is one. Paging and the download links are
  not modelled, nor is the include of a relation \<^verbatim>\<open>entry\<close> that the schema does not declare.
\<close>

definition is_payslip_admin :: "request_context \<Rightarrow> bool" where
  "is_payslip_admin actor = (''HR_ADMIN'' \<in> set (rc_roles actor) \<or> ''SUPER_ADMIN'' \<in> set (rc_roles actor))"

definition payslip_filter :: "request_context \<Rightarrow> id option \<Rightarrow> pay_db \<Rightarrow> payslip_row \<Rightarrow> bool" where
  "payslip_filter actor employeeId s =
     (let only = (if is_payslip_admin actor then (if truthy_string employeeId then employeeId else None)
                  else map_option fst (employee_of_user (rc_userId actor) (rc_companyId actor) (pd_employees s)))
      in (\<lambda>p. ps_companyId p = rc_companyId actor \<and> (case only of None \<Rightarrow> True | Some e \<Rightarrow> ps_employeeId p = e)))"

definition listPayslips :: "request_context \<Rightarrow> id option \<Rightarrow> pay_db \<Rightarrow> (id \<times> payslip_row) list" where
  "listPayslips actor employeeId s = tbl_all (\<lambda>i. payslip_filter actor employeeId s) (pd_payslips s)"

definition payslip_access :: "request_context \<Rightarrow> id \<Rightarrow> pay_db \<Rightarrow> app_error + payslip_row" where
  "payslip_access actor i s =
     (case tbl_get_where i (\<lambda>p. ps_companyId p = rc_companyId actor) (pd_payslips s) of
        None \<Rightarrow> Inl (NotFoundError ''Payslip not found'')
      | Some p \<Rightarrow>
          if \<not> is_payslip_admin actor \<and>
             (case tbl_get (ps_employeeId p) (pd_employees s) of
                None \<Rightarrow> True | Some e \<Rightarrow> em_userId e \<noteq> Some (rc_userId actor))
          then Inl (ForbiddenError ''Access denied'') else Inr p)"

section \<open>Reading the file back\<close>

text \<open>
  A reader of comma separated rows: a field that starts with a quote runs to the next single quote,
  with doubled quotes standing for one; any other field runs to the next comma.
\<close>

fun quoted_field :: "string \<Rightarrow> string \<times> string" where
  "quoted_field [] = ([], [])"
| "quoted_field [c] = (if c = quote then ([], []) else ([c], []))"
| "quoted_field (c # d # cs) =
     (if c = quote \<and> d = quote then (let (f, r) = quoted_field cs in (quote # f, r))
      else if c = quote then ([], d # cs)
      else (let (f, r) = quoted_field (d # cs) in (c # f, r)))"

lemma quoted_field_length: "length (snd (quoted_field s)) \<le> length s"
  by (induction s rule: quoted_field.induct) (auto split: prod.split)

lemma quoted_rest_shorter: "(f, r) = quoted_field (tl s) \<Longrightarrow> s \<noteq> [] \<Longrightarrow> length r - Suc 0 < length s"
  using quoted_field_length[of "tl s"] by (cases s) (auto dest: arg_cong[where f = "length \<circ> snd"])

lemma plain_rest_shorter: "c \<in> set s \<Longrightarrow> length (dropWhile P s) - Suc 0 < length s"
  using length_dropWhile_le[of P s] by (cases s) (auto simp: less_Suc_eq_le dest: arg_cong[where f = length])

function csv_fields :: "string \<Rightarrow> string list" where
  "csv_fields s =
     (if s \<noteq> [] \<and> hd s = quote then
        (let (f, r) = quoted_field (tl s) in if r = [] then [f] else f # csv_fields (tl r))
      else
        (let r = dropWhile (\<lambda>c. c \<noteq> CHR '','') s
         in if r = [] then [s] else takeWhile (\<lambda>c. c \<noteq> CHR '','') s # csv_fields (tl r)))"
  by auto
termination
  by (relation "measure length") (auto intro: quoted_rest_shorter plain_rest_shorter)

declare csv_fields.simps [simp del]

lemma quoted_field_replace:
  "r = [] \<or> hd r \<noteq> quote \<Longrightarrow> quoted_field (replace_char quote [quote, quote] v @ quote # r) = (v, r)"
proof (induction v)
  case Nil
  then show ?case by (cases r) auto
next
  case (Cons c cs)
  obtain d ds where "replace_char quote [quote, quote] cs @ quote # r = d # ds"
    by (cases "replace_char quote [quote, quote] cs") auto
  then show ?case using Cons by auto
qed

text \<open>A field that the reader sees as one: escaped, or plain without the special characters.\<close>

definition plain :: "string \<Rightarrow> bool" where
  "plain s \<longleftrightarrow> CHR '','' \<notin> set s \<and> quote \<notin> set s \<and> newline \<notin> set s"

lemma escapeCsv_plain: "plain s \<Longrightarrow> escapeCsv s = s"
  by (simp add: escapeCsv_def plain_def)

lemma takeWhile_comma: "CHR '','' \<notin> set v \<Longrightarrow> takeWhile (\<lambda>c. c \<noteq> CHR '','') (v @ CHR '','' # r) = v"
  by (induction v) auto

lemma dropWhile_comma: "CHR '','' \<notin> set v \<Longrightarrow> dropWhile (\<lambda>c. c \<noteq> CHR '','') (v @ CHR '','' # r) = CHR '','' # r"
  by (induction v) auto

lemma csv_fields_last: "csv_fields (escapeCsv v) = [v]"
proof (cases "plain v")
  case True
  then have "dropWhile (\<lambda>c. c \<noteq> CHR '','') v = []" "\<not> (v \<noteq> [] \<and> hd v = quote)"
    by (auto simp: plain_def dropWhile_eq_Nil_conv dest: hd_in_set)
  then show ?thesis using True by (subst csv_fields.simps) (simp add: escapeCsv_plain del: de_Morgan_conj)
next
  case False
  then have "escapeCsv v = quote # (replace_char quote [quote, quote] v @ quote # [])"
    by (auto simp: escapeCsv_def plain_def)
  then show ?thesis using quoted_field_replace[of "[]" v] by (subst csv_fields.simps) simp
qed

lemma csv_fields_cons: "csv_fields (escapeCsv v @ CHR '','' # rest) = v # csv_fields rest"
proof (cases "plain v")
  case True
  then have "CHR '','' \<notin> set v" "\<not> (v @ CHR '','' # rest \<noteq> [] \<and> hd (v @ CHR '','' # rest) = quote)"
    by (auto simp: plain_def hd_append quote_def dest: hd_in_set)
  then show ?thesis using True
    by (subst csv_fields.simps) (simp add: escapeCsv_plain takeWhile_comma dropWhile_comma)
next
  case False
  then have "escapeCsv v @ CHR '','' # rest = quote # (replace_char quote [quote, quote] v @ quote # CHR '','' # rest)"
    by (auto simp: escapeCsv_def plain_def)
  moreover have "quoted_field (replace_char quote [quote, quote] v @ quote # CHR '','' # rest) = (v, CHR '','' # rest)"
    by (rule quoted_field_replace) (simp add: quote_def)
  ultimately show ?thesis by (subst csv_fields.simps) simp
qed

lemma csv_fields_join: "fs \<noteq> [] \<Longrightarrow> csv_fields (join_with '','' (map escapeCsv fs)) = fs"
proof (induction fs)
  case (Cons f fs)
  then show ?case
    by (cases fs) (simp_all add: csv_fields_last csv_fields_cons del: escapeCsv_def)
qed simp

section \<open>Properties\<close>

lemma show_int_chars: "c \<in> set (show_int n) \<Longrightarrow> is_digit c \<or> c = CHR ''-''"
  using show_nat_digits by (auto simp: show_int_def split: if_splits)

lemma digit_not_special: "is_digit c \<Longrightarrow> c \<noteq> CHR '','' \<and> c \<noteq> quote \<and> c \<noteq> newline"
  by (auto simp: is_digit_def quote_def newline_def)

lemma plainI: "\<forall>c \<in> set s. is_digit c \<or> c = CHR ''.'' \<or> c = CHR ''-'' \<Longrightarrow> plain s"
  by (auto simp: plain_def quote_def newline_def is_digit_def)

lemma fixed2_digits_chars: "\<forall>c \<in> set (fixed2_digits q). is_digit c \<or> c = CHR ''.''"
proof -
  have "is_digit (digit_char (n mod 100 div 10))" "is_digit (digit_char (n mod 10))" for n
    by (rule is_digit_digit_char, linarith, rule is_digit_digit_char, simp)
  then show ?thesis using show_nat_digits by (auto simp: fixed2_digits_def Let_def)
qed

lemma plain_toFixed2: "plain (toFixed2 a)"
proof (cases a)
  case (Fin q)
  then show ?thesis using fixed2_digits_chars[of q] fixed2_digits_chars[of "- q"]
    by (cases "q < 0") (auto intro!: plainI)
qed (simp_all add: plain_def quote_def newline_def)

text \<open>
  C25: The bank file is unambiguous: a CSV reader recovers from every row of an NEFT file the name
  of the beneficiary, the account, the bank code, the amount and the remark, whatever commas,
  quotes or line breaks the name contains, if the account number and bank code contain none.
\<close>

theorem neft_row_roundtrip:
  assumes "plain (bd_accountNumber b)" and "plain (bd_ifscCode b)"
  shows "csv_fields (neft_row c b a)
    = [bd_accountHolderName b, bd_accountNumber b, bd_ifscCode b, toFixed2 a, remarks c]"
proof -
  have "neft_row c b a = join_with '','' (map escapeCsv
      [bd_accountHolderName b, bd_accountNumber b, bd_ifscCode b, toFixed2 a, remarks c])"
    using assms plain_toFixed2[of a] by (simp add: neft_row_def escapeCsv_plain)
  then show ?thesis by (simp only: csv_fields_join list.distinct not_False_eq_True)
qed

theorem neft_row_roundtrip_witness:
  "csv_fields (neft_row (example_cycle CycleAPPROVED)
     \<lparr>bd_employeeId = ''e1'', bd_accountHolderName = ''Doe, Jane'', bd_accountNumber = ''123'', bd_ifscCode = ''AB'', bd_bankName = ''X'',
      bd_isPrimary = True, bd_isActive = True\<rparr> (Fin 1500))
   = [''Doe, Jane'', ''123'', ''AB'', toFixed2 (Fin 1500), remarks (example_cycle CycleAPPROVED)]"
  by (subst neft_row_roundtrip) (simp_all add: plain_def quote_def newline_def)

text \<open>
  A request without an administrator role whose user has no employee record lists the payslips
  of every employee of the company; with an employee record it lists only its own.
\<close>

theorem payslip_listing_scope:
  assumes "\<not> is_payslip_admin actor"
  shows "(employee_of_user (rc_userId actor) (rc_companyId actor) (pd_employees s) = None \<longrightarrow>
      listPayslips actor e s = tbl_all (\<lambda>i p. ps_companyId p = rc_companyId actor) (pd_payslips s))
    \<and> (\<forall>i r. employee_of_user (rc_userId actor) (rc_companyId actor) (pd_employees s) = Some (i, r) \<longrightarrow>
      listPayslips actor e s = tbl_all (\<lambda>j p. ps_companyId p = rc_companyId actor \<and> ps_employeeId p = i) (pd_payslips s))"
  using assms by (simp add: listPayslips_def payslip_filter_def Let_def)

end
