(* ===== verification/Iso_Date.thy ===== *)
theory Iso_Date
  imports Calendar Js_String
begin

text \<open>
  \<^verbatim>\<open>Date.prototype.toISOString\<close> and its date part, which the services use as a key and
  in messages, and the hours of a day.
\<close>

definition pad_left :: "nat \<Rightarrow> int \<Rightarrow> string" where
  "pad_left k n = (let t = show_nat (nat n) in replicate (k - length t) CHR ''0'' @ t)"

definition iso_year :: "int \<Rightarrow> string" where
  "iso_year y = (if 0 \<le> y \<and> y \<le> 9999 then pad_left 4 y
                 else if y < 0 then CHR ''-'' # pad_left 6 (- y) else CHR ''+'' # pad_left 6 y)"

text \<open>\<^verbatim>\<open>toISOString().split('T')[0]\<close>.\<close>

definition iso_date :: "instant \<Rightarrow> string" where
  "iso_date t = iso_year (getUTCFullYear t) @ ''-'' @ pad_left 2 (getUTCMonth t + 1) @ ''-'' @ pad_left 2 (getUTCDate t)"

definition time_of_day :: "instant \<Rightarrow> int" where
  "time_of_day t = t mod msPerDay"

definition toISOString :: "instant \<Rightarrow> string" where
  "toISOString t =
     iso_date t @ ''T'' @ pad_left 2 (time_of_day t div 3600000) @ '':'' @ pad_left 2 (time_of_day t div 60000 mod 60) @ '':''
       @ pad_left 2 (time_of_day t div 1000 mod 60) @ ''.'' @ pad_left 3 (time_of_day t mod 1000) @ ''Z''"

text \<open>\<^verbatim>\<open>setUTCHours(h, 0, 0, 0)\<close>.\<close>

definition at_hour :: "int \<Rightarrow> instant \<Rightarrow> instant" where
  "at_hour h t = utc_midnight t + h * 3600000"

lemma iso_date_day: "day_of s = day_of t \<Longrightarrow> iso_date s = iso_date t"
  by (simp add: iso_date_def getUTCFullYear_def getUTCMonth_def getUTCDate_def day_in_year_def)

lemma utc_midnight_le [simp]: "utc_midnight t \<le> t"
  by (simp add: utc_midnight_def day_of_def msPerDay_def)

lemma midnight_of_midnight [simp]: "utc_midnight (utc_midnight t) = utc_midnight t"
  by (simp add: utc_midnight_def)

lemma utc_midnight_end: "t < utc_midnight t + msPerDay"
  unfolding utc_midnight_def day_of_def msPerDay_def by presburger

section \<open>Padded numbers\<close>

text \<open>The number that a string of digits shows; it inverts \<open>show_nat\<close> and padding.\<close>

definition digits_value :: "string \<Rightarrow> nat" where
  "digits_value s = foldl (\<lambda>n c. 10 * n + (of_char c - 48)) 0 s"

lemma of_char_digit [simp]: "d < 10 \<Longrightarrow> (of_char (digit_char d) :: nat) = 48 + d"
  by (simp add: digit_char_def)

lemma digits_value_show_nat [simp]: "digits_value (show_nat n) = n"
proof (induction n rule: show_nat.induct)
  case (1 n)
  show ?case
  proof (cases "n < 10")
    case True
    then show ?thesis by (subst show_nat.simps) (simp add: digits_value_def)
  next
    case False
    then have "digits_value (show_nat (n div 10)) = n div 10" by (rule "1.IH")
    then show ?thesis using False by (subst show_nat.simps) (simp add: digits_value_def)
  qed
qed

lemma digits_value_zeros: "digits_value (replicate k CHR ''0'' @ s) = digits_value s"
  by (induction k) (simp_all add: digits_value_def)

lemma pad_left_inject: "0 \<le> m \<Longrightarrow> 0 \<le> n \<Longrightarrow> pad_left k m = pad_left k n \<Longrightarrow> m = n"
  unfolding pad_left_def Let_def by (metis digits_value_show_nat digits_value_zeros nat_eq_iff2 nat_0_le)

end
