(* ===== verification/Payslip_Document.thy ===== *)
theory Payslip_Document
  imports Bank_File Iso_Date
begin

text \<open>
  The document that \<^verbatim>\<open>payroll/processors/payslip-gen.processor.ts\<close> hands to the PDF library: its
  blocks with their texts; fonts, widths and margins are left out. Texts are bytes of UTF-8. How the
  language writes a number is a parameter. The lemmas show that the printed totals are the sums of the
  printed lines to the cent, and what is printed of an account number.
\<close>

datatype doc_cell = Word string | Styled string string | Labelled string string | Bold string

datatype doc_block = Para string string | Gap | Grid "doc_cell list list"

definition month_names :: "string list" where
  "month_names = [''January'', ''February'', ''March'', ''April'', ''May'', ''June'', ''July'', ''August'', ''September'', ''October'',
     ''November'', ''December'']"

text \<open>\<^verbatim>\<open>new Date(year, month - 1).toLocaleString('en-US', { month: 'long' })\<close>: months past the year wrap.\<close>

definition month_name :: "int \<Rightarrow> string" where
  "month_name month = month_names ! nat ((month - 1) mod 12)"

text \<open>\<^verbatim>\<open>toLocaleDateString('en-IN', { day: '2-digit', month: 'long', year: 'numeric' })\<close>, \<open>off\<close> milliseconds east of UTC.\<close>

definition long_date :: "int \<Rightarrow> instant \<Rightarrow> string" where
  "long_date off t =
     pad_left 2 (getUTCDate (t + off)) @ '' '' @ month_name (getUTCMonth (t + off) + 1) @ '' '' @ show_int (getUTCFullYear (t + off))"

definition rupee :: string where
  "rupee = [CHR 0xE2, CHR 0x82, CHR 0xB9]"

definition bullet :: string where
  "bullet = [CHR 0xE2, CHR 0x97, CHR 0x8F]"

text \<open>\<^verbatim>\<open>s.slice(-4).padStart(s.length, bullet)\<close>.\<close>

definition masked_account :: "string \<Rightarrow> string" where
  "masked_account s = concat (replicate (length s - 4) bullet) @ drop (length s - 4) s"

definition payslip_bank :: "id \<Rightarrow> pay_db \<Rightarrow> bank_detail_row option" where
  "payslip_bank emp s = map_option snd (tbl_find (\<lambda>i b. bd_employeeId b = emp \<and> bd_isPrimary b) (pd_bankDetails s))"

definition lines_of :: "comp_type \<Rightarrow> id \<Rightarrow> pay_db \<Rightarrow> entry_component_row list" where
  "lines_of ty entryId s = filter (\<lambda>l. ln_type l = ty \<and> ec_entryId l = entryId) (pd_entryComponents s)"

text \<open>A table of components with its total.\<close>

definition component_rows :: "string \<Rightarrow> entry_component_row list \<Rightarrow> doc_cell list list" where
  "component_rows total_label ls =
     [[Styled ''Component'' ''tableHeader'', Styled (''Amount ('' @ rupee @ '')'') ''tableHeader'']]
     @ map (\<lambda>l. [Word (ln_componentName l), Word (toFixed2 (ln_amount l))]) ls
     @ [[Styled total_label ''totalRow'', Styled (toFixed2 (js_sum (map ln_amount ls))) ''totalRow'']]"

definition payslip_document ::
    "(jsnum \<Rightarrow> string) \<Rightarrow> int \<Rightarrow> instant \<Rightarrow> payslip_job \<Rightarrow> entry_row \<Rightarrow> cycle_row \<Rightarrow> pay_db \<Rightarrow> doc_block list" where
  "payslip_document num off now job e c s =
     [Para ''PAYSLIP'' ''companyHeader'', Para (month_name (cy_month c) @ '' '' @ show_int (cy_year c)) ''periodHeader'', Gap,
      Grid [[Labelled ''Employee ID: '' (pj_employeeId job), Labelled ''Status: '' ''Active''],
            [Labelled ''Working Days: '' (num (en_workingDays e)), Labelled ''Pay Days: '' (num (en_presentDays e))],
            [Labelled ''LOP Days: '' (num (en_lopDays e)), Word []]],
      Gap, Para ''EARNINGS'' ''sectionHeader'', Grid (component_rows ''Gross Earnings'' (lines_of EARNING (pj_entryId job) s)),
      Gap, Para ''DEDUCTIONS'' ''sectionHeader'', Grid (component_rows ''Total Deductions'' (lines_of DEDUCTION (pj_entryId job) s)),
      Gap, Grid [[Styled ''Net Payable'' ''netPayableLabel'', Styled (rupee @ '' '' @ toFixed2 (en_netPayable e)) ''netPayableAmount'']], Gap]
     @ (case payslip_bank (en_employeeId e) s of
          None \<Rightarrow> []
        | Some b \<Rightarrow>
            [Para ''PAYMENT DETAILS'' ''sectionHeader'',
             Grid [[Bold ''Bank Name'', Word (bd_bankName b)], [Bold ''Account Name'', Word (bd_accountHolderName b)],
                   [Bold ''Account Number'', Word (masked_account (bd_accountNumber b))], [Bold ''IFSC Code'', Word (bd_ifscCode b)]],
             Gap])
     @ [Para ''This is a computer-generated payslip and does not require a signature.'' ''footer'',
        Para (''Generated on: '' @ long_date off now) ''footer'']"

section \<open>The printed sums\<close>

text \<open>An amount of cents as it should be printed.\<close>

definition cents_text :: "int \<Rightarrow> string" where
  "cents_text k = show_nat (nat k div 100) @ ''.'' @ [digit_char (nat k mod 100 div 10), digit_char (nat k mod 10)]"

lemma toFixed2_near:
  assumes "\<bar>q - of_int k / 100\<bar> < 1 / 1000" and "0 \<le> k"
  shows "toFixed2 (Fin q) = (if q < 0 then CHR ''-'' # cents_text 0 else cents_text k)"
proof (cases "q < 0")
  case True
  have "k = 0"
  proof (rule ccontr)
    assume "k \<noteq> 0"
    then have "1 \<le> k" using assms(2) by simp
    then have "(1 :: rat) \<le> of_int k" by simp
    then show False using assms(1) True by (simp add: abs_less_iff)
  qed
  then have "\<lfloor>- q * 100 + 1 / 2\<rfloor> = 0" using assms(1) True by (simp add: floor_eq_iff abs_less_iff)
  then show ?thesis using True by (simp add: fixed2_digits_def cents_text_def Let_def)
next
  case False
  have "\<bar>q * 100 - of_int k\<bar> < 1 / 10" using assms(1) by (simp add: abs_less_iff field_simps)
  then have "\<lfloor>q * 100 + 1 / 2\<rfloor> = k" by (simp add: floor_eq_iff abs_less_iff, intro conjI; linarith)
  then show ?thesis using False by (simp add: fixed2_digits_def cents_text_def Let_def)
qed

lemma toFixed2_cents: "0 \<le> k \<Longrightarrow> k \<le> 2 ^ 46 \<Longrightarrow> toFixed2 (cents k) = cents_text k"
proof -
  assume k: "0 \<le> k" "k \<le> 2 ^ 46"
  then have "\<bar>fl (of_int k / 100) - of_int k / 100\<bar> < 1 / 1000" using cents_near[of k] by simp
  moreover have "\<not> fl (of_int k / 100) < 0" using k fl_nonneg[of "of_int k / 100"] by simp
  ultimately show ?thesis using k toFixed2_near[of "fl (of_int k / 100)" k] by (simp add: cents_def)
qed

lemma toFixed2_sum:
  assumes "\<forall>k \<in> set ks. 0 \<le> k" and "of_int (sum_list ks) / 100 + 1 \<le> (2 :: rat) ^ p"
    and "of_nat (length ks) * (2 :: rat) ^ p \<le> 2 ^ 43" and "p \<le> 39"
  shows "toFixed2 (js_sum (map cents ks)) = cents_text (sum_list ks)"
proof -
  obtain q where q: "js_sum (map cents ks) = Fin q" "\<bar>q - of_int (sum_list ks) / 100\<bar> \<le> of_nat (length ks) * (2 ^ p / 2 ^ 53)"
    using js_sum_error[OF assms] by blast
  have "of_nat (length ks) * (2 ^ p / 2 ^ 53) \<le> (2 ^ 43 / 2 ^ 53 :: rat)"
    using assms(3) by (simp add: field_simps)
  then have near: "\<bar>q - of_int (sum_list ks) / 100\<bar> < 1 / 1000" using q(2) by simp
  have s: "0 \<le> sum_list ks" using assms(1) by (intro sum_list_nonneg) auto
  have "js_nonneg (js_sum (map cents ks))"
    using assms(1) by (induction ks rule: rev_induct) (auto simp: cents_nonneg js_nonneg_add)
  then have "\<not> q < 0" by (simp add: q(1))
  then show ?thesis using toFixed2_near[OF near s] by (simp add: q(1))
qed


text \<open>
  C30: A payslip adds up: when the stored amounts of the lines are cents, as the engine leaves them, each
  line is printed with its exact amount, and the printed gross and deductions are the exact sums of the
  printed lines, although they are added as doubles.
\<close>

theorem payslip_adds_up:
  assumes "map ln_amount (lines_of ty (pj_entryId job) s) = map cents ks" and "\<forall>k \<in> set ks. 0 \<le> k"
    and "of_int (sum_list ks) / 100 + 1 \<le> (2 :: rat) ^ p" and "of_nat (length ks) * (2 :: rat) ^ p \<le> 2 ^ 43" and "p \<le> 39"
  shows "component_rows label (lines_of ty (pj_entryId job) s)
    = [[Styled ''Component'' ''tableHeader'', Styled (''Amount ('' @ rupee @ '')'') ''tableHeader'']]
      @ map (\<lambda>(l, k). [Word (ln_componentName l), Word (cents_text k)]) (zip (lines_of ty (pj_entryId job) s) ks)
      @ [[Styled label ''totalRow'', Styled (cents_text (sum_list ks)) ''totalRow'']]"
proof -
  let ?ls = "lines_of ty (pj_entryId job) s"
  have le: "k \<le> 2 ^ 46" if "k \<in> set ks" for k
  proof -
    have "k \<le> sum_list ks" using that assms(2) by (simp add: member_le_sum_list)
    moreover have "(of_int (sum_list ks) / 100 :: rat) \<le> 2 ^ 39"
      using assms(3) power_increasing[OF assms(5), of "2 :: rat"] by linarith
    then have "(of_int (sum_list ks) :: rat) \<le> of_int (2 ^ 46)" by simp
    then have "sum_list ks \<le> 2 ^ 46" by (simp only: of_int_le_iff)
    ultimately show ?thesis by simp
  qed
  have len: "length ?ls = length ks" using arg_cong[OF assms(1), of length] by simp
  have "ln_amount l = cents k" if "(l, k) \<in> set (zip ?ls ks)" for l k
  proof -
    from that obtain i where i: "i < length ks" "l = ?ls ! i" "k = ks ! i" by (auto simp: in_set_zip len)
    then show ?thesis using arg_cong[OF assms(1), of "\<lambda>xs. xs ! i"] len by simp
  qed
  then have "map (\<lambda>l. [Word (ln_componentName l), Word (toFixed2 (ln_amount l))]) (map fst (zip ?ls ks))
      = map (\<lambda>(l, k). [Word (ln_componentName l), Word (cents_text k)]) (zip ?ls ks)"
    using assms(2) le by (fastforce dest: set_zip_rightD simp: toFixed2_cents)
  moreover have "map fst (zip ?ls ks) = ?ls" using len by simp
  ultimately show ?thesis by (simp add: component_rows_def assms(1) toFixed2_sum[OF assms(2-5)])
qed

text \<open>Of an account number of eight characters or more the payslip shows the last four.\<close>

lemma masked_account_shows: "drop (length (masked_account n) - min 4 (length n)) (masked_account n) = drop (length n - 4) n"
  by (cases "4 \<le> length n") (simp_all add: masked_account_def bullet_def)

text \<open>Nothing writes the bank details: while the table is empty a bank file pays nobody and a payslip names no account.\<close>

lemma no_account_no_payment:
  assumes "pd_bankDetails s = []"
  shows "paid_entries i s = []" and "payslip_bank e s = None"
proof -
  have "primary_account e s = None" for e using assms by (simp add: primary_account_def tbl_find_def)
  then show "paid_entries i s = []" by (simp add: paid_entries_def map_filter_def)
  show "payslip_bank e s = None" using assms by (simp add: payslip_bank_def tbl_find_def)
qed

definition payslip_line :: "string \<Rightarrow> int \<Rightarrow> entry_component_row" where
  "payslip_line name k =
     \<lparr>ln_componentId = name, ln_componentCode = name, ln_componentName = name, ln_type = EARNING, ln_amount = cents k, ec_entryId = ''n''\<rparr>"

theorem payslip_adds_up_witness:
  "component_rows ''Gross Earnings'' (lines_of EARNING (pj_entryId \<lparr>pj_entryId = ''n'', pj_cycleId = ''y'', pj_employeeId = ''e''\<rparr>)
      (example_payroll \<lparr>pd_entryComponents := [payslip_line ''Basic'' 1000010, payslip_line ''HRA'' 20]\<rparr>))
    = [[Styled ''Component'' ''tableHeader'', Styled (''Amount ('' @ rupee @ '')'') ''tableHeader''],
       [Word ''Basic'', Word (cents_text 1000010)], [Word ''HRA'', Word (cents_text 20)],
       [Styled ''Gross Earnings'' ''totalRow'', Styled (cents_text 1000030) ''totalRow'']]"
proof -
  let ?job = "\<lparr>pj_entryId = ''n'', pj_cycleId = ''y'', pj_employeeId = ''e''\<rparr>"
  let ?s = "example_payroll \<lparr>pd_entryComponents := [payslip_line ''Basic'' 1000010, payslip_line ''HRA'' 20]\<rparr>"
  have ls: "lines_of EARNING (pj_entryId ?job) ?s = [payslip_line ''Basic'' 1000010, payslip_line ''HRA'' 20]"
    by (simp add: lines_of_def payslip_line_def)
  then have "map ln_amount (lines_of EARNING (pj_entryId ?job) ?s) = map cents [1000010, 20]" by (simp add: payslip_line_def)
  from payslip_adds_up[OF this, of 20] show ?thesis unfolding ls by (simp add: payslip_line_def)
qed

end
