(* ===== verification/Leave.thy ===== *)
theory Leave
  imports Money Holiday Staff Audit_Log Js_String
begin

text \<open>
  Leave: \<^verbatim>\<open>leave/services/leave-request.service.ts\<close>, \<^verbatim>\<open>leave-accrual.engine.ts\<close>,
  \<^verbatim>\<open>leave-type.service.ts\<close> and \<^verbatim>\<open>leave-calendar.service.ts\<close>. Balances are decimal
  columns with two decimals and are kept in hundredths; a handler reads them as doubles
  (\<open>cents\<close>), computes with doubles and writes the result back through the column
  (\<open>dec\<close>, a parameter that satisfies \<open>decimal_column\<close>). A value of 10000 or more does
  not fit the column. The lemmas show that this arithmetic is exact, and that after any sequence of
  requests, approvals, rejections, cancellations and accrual runs the used days of every balance
  are the days of the approved requests, unless holidays change under leave that spans two years.
\<close>

section \<open>Tables\<close>

datatype accrual_type = MONTHLY | ANNUAL | NONE

datatype leave_status = PENDING | APPROVED | REJECTED | CANCELLED

record leave_type_row =
  lt_companyId :: id
  lt_name :: string
  lt_code :: string
  lt_accrualType :: accrual_type
  lt_accrualAmount :: int
  lt_maxCarryForward :: int
  lt_maxBalance :: int
  lt_isPaid :: bool
  lt_isActive :: bool

record leave_balance_row =
  lb_employeeId :: id
  lb_leaveTypeId :: id
  lb_year :: int
  lb_entitled :: int
  lb_used :: int
  lb_carriedForward :: int
  lb_balance :: int

record leave_request_row =
  lr_companyId :: id
  lr_employeeId :: id
  lr_leaveTypeId :: id
  lr_startDate :: instant
  lr_endDate :: instant
  lr_totalDays :: int
  lr_reason :: "string option"
  lr_status :: leave_status
  lr_reviewedById :: "id option"
  lr_reviewedAt :: "instant option"
  lr_rejectionReason :: "string option"
  lr_cancelledAt :: "instant option"

record accrual_run =
  ac_companyId :: id
  ac_month :: int
  ac_year :: int
  ac_employeesCount :: nat

record leave_db =
  lv_holidays :: holiday_db
  lv_employees :: "employee_row table"
  lv_userNames :: "(string \<times> string) table"
  lv_types :: "leave_type_row table"
  lv_balances :: "leave_balance_row table"
  lv_requests :: "leave_request_row table"
  lv_runs :: "accrual_run list"
  lv_events :: "(string \<times> id) list"
  lv_audit :: "audit_row list"

definition leave_audit :: "id \<Rightarrow> string \<Rightarrow> id option \<Rightarrow> string \<Rightarrow> (string \<times> json) list \<Rightarrow> leave_db \<Rightarrow> leave_db" where
  "leave_audit companyId etype eid act nv s =
     s\<lparr>lv_audit := audit_record \<lparr>ae_actor = None, ae_companyId = companyId, ae_entityType = etype, ae_entityId = eid,
          ae_action = act, ae_oldValue = JNull, ae_newValue = JObj nv\<rparr> (lv_audit s)\<rparr>"

definition emit_leave :: "string \<Rightarrow> id \<Rightarrow> leave_db \<Rightarrow> leave_db" where
  "emit_leave event i s = s\<lparr>lv_events := lv_events s @ [(event, i)]\<rparr>"

text \<open>What a column of six digits with two decimals stores.\<close>

definition to_column :: "(jsnum \<Rightarrow> int) \<Rightarrow> jsnum \<Rightarrow> int option" where
  "to_column dec x = (if \<bar>dec x\<bar> \<le> 999999 then Some (dec x) else None)"

definition find_balance :: "id \<Rightarrow> id \<Rightarrow> int \<Rightarrow> leave_balance_row table \<Rightarrow> (id \<times> leave_balance_row) option" where
  "find_balance employeeId leaveTypeId year t =
     tbl_find (\<lambda>i b. lb_employeeId b = employeeId \<and> lb_leaveTypeId b = leaveTypeId \<and> lb_year b = year) t"

section \<open>Working days\<close>

definition calculateWorkingDays :: "id \<Rightarrow> instant \<Rightarrow> instant \<Rightarrow> leave_db \<Rightarrow> int" where
  "calculateWorkingDays companyId startDate endDate s =
     (let holidayDates = map (day_of \<circ> hl_date) (getHolidaysInRange companyId startDate endDate (lv_holidays s))
      in int (length (filter (\<lambda>current. getUTCDay current \<noteq> 0 \<and> getUTCDay current \<noteq> 6
                                 \<and> day_of current \<notin> set holidayDates) (each_day startDate endDate))))"

definition isAllHolidayOrWeekend :: "id \<Rightarrow> instant \<Rightarrow> instant \<Rightarrow> leave_db \<Rightarrow> bool" where
  "isAllHolidayOrWeekend companyId startDate endDate s =
     (let holidayDates = map (day_of \<circ> hl_date) (getHolidaysInRange companyId startDate endDate (lv_holidays s))
      in list_all (\<lambda>current. \<not> (getUTCDay current \<noteq> 0 \<and> getUTCDay current \<noteq> 6
                                 \<and> day_of current \<notin> set holidayDates)) (each_day startDate endDate))"

section \<open>Requests\<close>

record apply_dto =
  al_leaveTypeId :: id
  al_startDate :: instant
  al_endDate :: instant
  al_reason :: "string option"

definition teamCapacityLimit :: nat where "teamCapacityLimit = 3"

definition balance_below :: "(id \<times> leave_balance_row) option \<Rightarrow> int \<Rightarrow> bool" where
  "balance_below b days = (case b of None \<Rightarrow> True | Some (_, r) \<Rightarrow> js_lt (cents (lb_balance r)) (num_of_int days))"

definition check_balances :: "id \<Rightarrow> id \<Rightarrow> apply_dto \<Rightarrow> int \<Rightarrow> leave_db \<Rightarrow> app_error + unit" where
  "check_balances employeeId companyId dto totalDays s =
     (let startYear = getUTCFullYear (al_startDate dto);
          endYear = getUTCFullYear (al_endDate dto)
      in if startYear = endYear then
           (if balance_below (find_balance employeeId (al_leaveTypeId dto) startYear (lv_balances s)) totalDays
            then Inl (BadRequestError ''Insufficient leave balance'') else Inr ())
         else
           (let endOfStartYear = date_UTC startYear 11 31;
                daysInStartYear = calculateWorkingDays companyId (al_startDate dto) endOfStartYear s;
                daysInEndYear = totalDays - daysInStartYear
            in if balance_below (find_balance employeeId (al_leaveTypeId dto) startYear (lv_balances s)) daysInStartYear
                  \<or> balance_below (find_balance employeeId (al_leaveTypeId dto) endYear (lv_balances s)) daysInEndYear
               then Inl (BadRequestError ''Insufficient leave balance across years'') else Inr ()))"

definition overlapping_count :: "id \<Rightarrow> apply_dto \<Rightarrow> leave_db \<Rightarrow> nat" where
  "overlapping_count departmentId dto s =
     tbl_count (\<lambda>i r. (case tbl_get (lr_employeeId r) (lv_employees s) of
                         None \<Rightarrow> False | Some e \<Rightarrow> em_departmentId e = Some departmentId)
                 \<and> lr_status r \<in> {PENDING, APPROVED}
                 \<and> lr_startDate r \<le> utc_midnight (al_endDate dto) \<and> utc_midnight (al_startDate dto) \<le> lr_endDate r)
       (lv_requests s)"

definition check_capacity :: "id \<Rightarrow> apply_dto \<Rightarrow> leave_db \<Rightarrow> app_error + unit" where
  "check_capacity employeeId dto s =
     (case tbl_get employeeId (lv_employees s) of
        None \<Rightarrow> Inr ()
      | Some e \<Rightarrow>
          (case em_departmentId e of
             None \<Rightarrow> Inr ()
           | Some d \<Rightarrow>
               (let n = overlapping_count d dto s
                in if n \<ge> teamCapacityLimit
                   then Inl (ConflictError (''{\"message\":\"Team capacity limit reached for this period\",\"canOverride\":true,\"overlappingCount\":''
                          @ show_nat n @ '',\"limit\":'' @ show_nat teamCapacityLimit @ ''}''))
                   else Inr ())))"

definition leave_apply :: "instant \<Rightarrow> id \<Rightarrow> id \<Rightarrow> id \<Rightarrow> apply_dto \<Rightarrow> leave_db \<Rightarrow> (leave_db, id) outcome" where
  "leave_apply now newId employeeId companyId dto s =
     (if al_startDate dto < utc_midnight now then (Inl (BadRequestError ''startDate must not be in the past''), s)
      else
        (let totalDays = calculateWorkingDays companyId (al_startDate dto) (al_endDate dto) s
         in if totalDays < 1 then (Inl (BadRequestError ''Leave request must span at least 1 working day''), s)
            else case check_balances employeeId companyId dto totalDays s of
              Inl e \<Rightarrow> (Inl e, s)
            | Inr _ \<Rightarrow>
                if isAllHolidayOrWeekend companyId (al_startDate dto) (al_endDate dto) s
                then (Inl (BadRequestError ''All days in the requested range are holidays or weekends''), s)
                else case check_capacity employeeId dto s of
                  Inl e \<Rightarrow> (Inl e, s)
                | Inr _ \<Rightarrow>
                    if tbl_get employeeId (lv_employees s) = None \<or> tbl_get (al_leaveTypeId dto) (lv_types s) = None
                       \<or> 99999 < totalDays
                    then (Inl (DatabaseError ''leave_requests''), s)
                    else (Inr newId,
                      leave_audit companyId ''leave_request'' (Some newId) ''LEAVE_REQUEST_CREATED''
                        [(''employeeId'', JStr employeeId), (''leaveTypeId'', JStr (al_leaveTypeId dto)),
                         (''startDate'', JDate (al_startDate dto)), (''endDate'', JDate (al_endDate dto)),
                         (''totalDays'', JNum (num_of_int totalDays))]
                        (emit_leave ''leave.requested'' newId
                          (s\<lparr>lv_requests := tbl_insert newId
                             \<lparr>lr_companyId = companyId, lr_employeeId = employeeId, lr_leaveTypeId = al_leaveTypeId dto,
                              lr_startDate = utc_midnight (al_startDate dto), lr_endDate = utc_midnight (al_endDate dto),
                              lr_totalDays = totalDays, lr_reason = al_reason dto, lr_status = PENDING,
                              lr_reviewedById = None, lr_reviewedAt = None, lr_rejectionReason = None,
                              lr_cancelledAt = None\<rparr> (lv_requests s)\<rparr>)))))"

definition write_balance ::
    "(jsnum \<Rightarrow> int) \<Rightarrow> id \<Rightarrow> jsnum \<Rightarrow> jsnum \<Rightarrow> leave_balance_row table \<Rightarrow> app_error + leave_balance_row table" where
  "write_balance dec i newUsed newBalance t =
     (case (to_column dec newUsed, to_column dec newBalance) of
        (Some u, Some b) \<Rightarrow> Inr (tbl_update i (\<lambda>r. r\<lparr>lb_used := u, lb_balance := b\<rparr>) t)
      | _ \<Rightarrow> Inl (DatabaseError ''leave_balances''))"

definition deductBalance ::
    "(jsnum \<Rightarrow> int) \<Rightarrow> id \<Rightarrow> id \<Rightarrow> int \<Rightarrow> int \<Rightarrow> leave_balance_row table \<Rightarrow> app_error + leave_balance_row table" where
  "deductBalance dec employeeId leaveTypeId year days t =
     (case find_balance employeeId leaveTypeId year t of
        None \<Rightarrow> Inl (BadRequestError ''Leave balance not found'')
      | Some (i, b) \<Rightarrow>
          (let newUsed = js_add (cents (lb_used b)) (num_of_int days);
               newBalance = js_sub (js_add (cents (lb_carriedForward b)) (cents (lb_entitled b))) newUsed
           in if js_lt newBalance (Fin 0) then Inl (BadRequestError ''Insufficient leave balance for approval'')
              else write_balance dec i newUsed newBalance t))"

definition restoreBalance ::
    "(jsnum \<Rightarrow> int) \<Rightarrow> id \<Rightarrow> id \<Rightarrow> int \<Rightarrow> int \<Rightarrow> leave_balance_row table \<Rightarrow> app_error + leave_balance_row table" where
  "restoreBalance dec employeeId leaveTypeId year days t =
     (case find_balance employeeId leaveTypeId year t of
        None \<Rightarrow> Inr t
      | Some (i, b) \<Rightarrow>
          (let newUsed = js_max (Fin 0) (js_sub (cents (lb_used b)) (num_of_int days));
               newBalance = js_sub (js_add (cents (lb_carriedForward b)) (cents (lb_entitled b))) newUsed
           in write_balance dec i newUsed newBalance t))"

text \<open>
  The days of a request by year: one part when it lies in one year, otherwise the positive parts of
  the split at the end of the first year.
\<close>

definition year_parts :: "id \<Rightarrow> leave_request_row \<Rightarrow> leave_db \<Rightarrow> (int \<times> int) list" where
  "year_parts companyId r s =
     (let startYear = getUTCFullYear (lr_startDate r);
          endYear = getUTCFullYear (lr_endDate r)
      in if startYear = endYear then [(startYear, lr_totalDays r)]
         else
           (let daysInStart = calculateWorkingDays companyId (lr_startDate r) (date_UTC startYear 11 31) s;
                daysInEnd = lr_totalDays r - daysInStart
            in filter (\<lambda>(y, d). 0 < d) [(startYear, daysInStart), (endYear, daysInEnd)]))"

fun change_balances ::
    "(int \<Rightarrow> int \<Rightarrow> leave_balance_row table \<Rightarrow> app_error + leave_balance_row table) \<Rightarrow> (int \<times> int) list
       \<Rightarrow> leave_balance_row table \<Rightarrow> app_error + leave_balance_row table" where
  "change_balances f [] t = Inr t"
| "change_balances f ((y, d) # parts) t =
     (case f y d t of Inl e \<Rightarrow> Inl e | Inr t' \<Rightarrow> change_balances f parts t')"

definition leave_approve ::
    "(jsnum \<Rightarrow> int) \<Rightarrow> instant \<Rightarrow> id \<Rightarrow> id \<Rightarrow> id \<Rightarrow> leave_db \<Rightarrow> (leave_db, unit) outcome" where
  "leave_approve dec now requestId approverId companyId s =
     (case tbl_get_where requestId (\<lambda>r. lr_companyId r = companyId) (lv_requests s) of
        None \<Rightarrow> (Inl (NotFoundError ''Leave request not found''), s)
      | Some r \<Rightarrow>
          if lr_status r \<noteq> PENDING then (Inl (BadRequestError ''Only pending requests can be approved''), s)
          else if tbl_get_where approverId (\<lambda>e. em_companyId e = companyId) (lv_employees s) = None
          then (Inl (NotFoundError ''Approver not found in company''), s)
          else case change_balances (deductBalance dec (lr_employeeId r) (lr_leaveTypeId r)) (year_parts companyId r s) (lv_balances s) of
            Inl e \<Rightarrow> (Inl e, s)
          | Inr t \<Rightarrow> (Inr (),
              leave_audit companyId ''leave_request'' (Some requestId) ''LEAVE_REQUEST_APPROVED''
                [(''status'', JStr ''APPROVED''), (''approvedById'', JStr approverId)]
                (emit_leave ''leave.approved'' requestId
                  (s\<lparr>lv_requests := tbl_update requestId (\<lambda>r. r\<lparr>lr_status := APPROVED, lr_reviewedById := Some approverId,
                       lr_reviewedAt := Some now\<rparr>) (lv_requests s), lv_balances := t\<rparr>))))"

definition leave_reject :: "instant \<Rightarrow> id \<Rightarrow> id \<Rightarrow> id \<Rightarrow> string \<Rightarrow> leave_db \<Rightarrow> (leave_db, unit) outcome" where
  "leave_reject now requestId approverId companyId reason s =
     (case tbl_get_where requestId (\<lambda>r. lr_companyId r = companyId) (lv_requests s) of
        None \<Rightarrow> (Inl (NotFoundError ''Leave request not found''), s)
      | Some r \<Rightarrow>
          if lr_status r \<noteq> PENDING then (Inl (BadRequestError ''Only pending requests can be rejected''), s)
          else (Inr (),
            leave_audit companyId ''leave_request'' (Some requestId) ''LEAVE_REQUEST_REJECTED''
              [(''status'', JStr ''REJECTED''), (''reason'', JStr reason)]
              (emit_leave ''leave.rejected'' requestId
                (s\<lparr>lv_requests := tbl_update requestId (\<lambda>r. r\<lparr>lr_status := REJECTED, lr_reviewedById := Some approverId,
                     lr_reviewedAt := Some now, lr_rejectionReason := Some reason\<rparr>) (lv_requests s)\<rparr>))))"

definition leave_cancel ::
    "(jsnum \<Rightarrow> int) \<Rightarrow> instant \<Rightarrow> id \<Rightarrow> id \<Rightarrow> id \<Rightarrow> leave_db \<Rightarrow> (leave_db, unit) outcome" where
  "leave_cancel dec now requestId employeeId companyId s =
     (case tbl_get_where requestId (\<lambda>r. lr_companyId r = companyId \<and> lr_employeeId r = employeeId) (lv_requests s) of
        None \<Rightarrow> (Inl (NotFoundError ''Leave request not found''), s)
      | Some r \<Rightarrow>
          if lr_status r \<notin> {PENDING, APPROVED}
          then (Inl (BadRequestError ''Only pending or approved requests can be cancelled''), s)
          else case (if lr_status r = APPROVED
                     then change_balances (restoreBalance dec (lr_employeeId r) (lr_leaveTypeId r)) (year_parts companyId r s) (lv_balances s)
                     else Inr (lv_balances s)) of
            Inl e \<Rightarrow> (Inl e, s)
          | Inr t \<Rightarrow> (Inr (),
              leave_audit companyId ''leave_request'' (Some requestId) ''LEAVE_REQUEST_CANCELLED'' [(''status'', JStr ''CANCELLED'')]
                (emit_leave ''leave.cancelled'' requestId
                  (s\<lparr>lv_requests := tbl_update requestId (\<lambda>r. r\<lparr>lr_status := CANCELLED, lr_cancelledAt := Some now\<rparr>)
                       (lv_requests s), lv_balances := t\<rparr>))))"

section \<open>Accrual\<close>

definition roundHalfUp2 :: "jsnum \<Rightarrow> jsnum" where
  "roundHalfUp2 value = js_div (js_round (js_add (js_mul value (Fin 100)) (Fin (1 / 2 ^ 52)))) (Fin 100)"

text \<open>The credit of a month: pro rata in the month of joining, nothing before it.\<close>

definition accrual_credit :: "instant \<Rightarrow> int \<Rightarrow> int \<Rightarrow> int \<Rightarrow> jsnum option" where
  "accrual_credit hireDate amount month year =
     (let y = getUTCFullYear hireDate; m = getUTCMonth hireDate + 1
      in if y = year \<and> m = month then
           (let daysInMonth = days_in_month year month;
                daysRemaining = daysInMonth - getUTCDate hireDate + 1
            in Some (roundHalfUp2 (js_mul (cents amount) (js_div (num_of_int daysRemaining) (num_of_int daysInMonth)))))
         else if y > year \<or> (y = year \<and> m > month) then None
         else Some (cents amount))"

definition clamp_max :: "int \<Rightarrow> jsnum \<Rightarrow> jsnum" where
  "clamp_max maxBalance b = (if 0 < maxBalance \<and> js_lt (cents maxBalance) b then cents maxBalance else b)"

definition new_balance_row :: "id \<Rightarrow> id \<Rightarrow> int \<Rightarrow> int \<Rightarrow> int \<Rightarrow> int \<Rightarrow> leave_balance_row" where
  "new_balance_row employeeId leaveTypeId year entitled carried balance =
     \<lparr>lb_employeeId = employeeId, lb_leaveTypeId = leaveTypeId, lb_year = year, lb_entitled = entitled, lb_used = 0,
      lb_carriedForward = carried, lb_balance = balance\<rparr>"

definition credit_balance ::
    "(jsnum \<Rightarrow> int) \<Rightarrow> id \<Rightarrow> id \<Rightarrow> id \<Rightarrow> leave_type_row \<Rightarrow> int \<Rightarrow> jsnum \<Rightarrow> leave_balance_row table
       \<Rightarrow> app_error + leave_balance_row table" where
  "credit_balance dec newId employeeId leaveTypeId lt year credit t =
     (case find_balance employeeId leaveTypeId year t of
        Some (i, b) \<Rightarrow>
          (let newEntitled = js_add (cents (lb_entitled b)) credit;
               newBalance = clamp_max (lt_maxBalance lt)
                 (js_sub (js_add (cents (lb_carriedForward b)) newEntitled) (cents (lb_used b)))
           in case (to_column dec newEntitled, to_column dec newBalance) of
                (Some e, Some n) \<Rightarrow> Inr (tbl_update i (\<lambda>r. r\<lparr>lb_entitled := e, lb_balance := n\<rparr>) t)
              | _ \<Rightarrow> Inl (DatabaseError ''leave_balances''))
      | None \<Rightarrow>
          (case (to_column dec credit, to_column dec (clamp_max (lt_maxBalance lt) credit)) of
             (Some e, Some n) \<Rightarrow> Inr (tbl_insert newId (new_balance_row employeeId leaveTypeId year e 0 n) t)
           | _ \<Rightarrow> Inl (DatabaseError ''leave_balances'')))"

definition carry_forward ::
    "(jsnum \<Rightarrow> int) \<Rightarrow> id \<Rightarrow> id \<Rightarrow> id \<Rightarrow> leave_type_row \<Rightarrow> int \<Rightarrow> leave_balance_row table
       \<Rightarrow> app_error + leave_balance_row table" where
  "carry_forward dec newId employeeId leaveTypeId lt year t =
     (case find_balance employeeId leaveTypeId year t of
        None \<Rightarrow> Inr t
      | Some (_, cur) \<Rightarrow>
          (let carryAmount = js_min (cents (lb_balance cur)) (cents (lt_maxCarryForward lt))
           in if js_lt (Fin 0) carryAmount then
                (case find_balance employeeId leaveTypeId (year + 1) t of
                   Some (i, n) \<Rightarrow>
                     (case (to_column dec carryAmount,
                            to_column dec (js_sub (js_add carryAmount (cents (lb_entitled n))) (cents (lb_used n)))) of
                        (Some c, Some b) \<Rightarrow> Inr (tbl_update i (\<lambda>r. r\<lparr>lb_carriedForward := c, lb_balance := b\<rparr>) t)
                      | _ \<Rightarrow> Inl (DatabaseError ''leave_balances''))
                 | None \<Rightarrow>
                     (case to_column dec carryAmount of
                        Some c \<Rightarrow> Inr (tbl_insert newId (new_balance_row employeeId leaveTypeId (year + 1) 0 c c) t)
                      | None \<Rightarrow> Inl (DatabaseError ''leave_balances'')))
              else Inr t))"

definition processAccrual ::
    "(jsnum \<Rightarrow> int) \<Rightarrow> (id \<Rightarrow> id \<Rightarrow> int \<Rightarrow> id) \<Rightarrow> id \<times> employee_row \<Rightarrow> id \<times> leave_type_row \<Rightarrow> int \<Rightarrow> int
       \<Rightarrow> leave_balance_row table \<Rightarrow> app_error + leave_balance_row table" where
  "processAccrual dec newId emp lt month year t =
     (case accrual_credit (em_joinedAt (snd emp)) (lt_accrualAmount (snd lt)) month year of
        None \<Rightarrow> Inr t
      | Some credit \<Rightarrow>
          (case credit_balance dec (newId (fst emp) (fst lt) year) (fst emp) (fst lt) (snd lt) year credit t of
             Inl e \<Rightarrow> Inl e
           | Inr t' \<Rightarrow>
               if month = 12 then carry_forward dec (newId (fst emp) (fst lt) (year + 1)) (fst emp) (fst lt) (snd lt) year t'
               else Inr t'))"

fun accrue_all ::
    "(jsnum \<Rightarrow> int) \<Rightarrow> (id \<Rightarrow> id \<Rightarrow> int \<Rightarrow> id) \<Rightarrow> ((id \<times> employee_row) \<times> (id \<times> leave_type_row)) list \<Rightarrow> int \<Rightarrow> int
       \<Rightarrow> leave_balance_row table \<Rightarrow> app_error + leave_balance_row table" where
  "accrue_all dec newId [] month year t = Inr t"
| "accrue_all dec newId ((emp, lt) # jobs) month year t =
     (case processAccrual dec newId emp lt month year t of
        Inl e \<Rightarrow> Inl e
      | Inr t' \<Rightarrow> accrue_all dec newId jobs month year t')"

text \<open>
  A run for a company. The only error of a single accrual is one of the database, which aborts the
  transaction although the loop catches it, so the run then fails as a whole.
\<close>

definition runForCompany ::
    "(jsnum \<Rightarrow> int) \<Rightarrow> (id \<Rightarrow> id \<Rightarrow> int \<Rightarrow> id) \<Rightarrow> id \<Rightarrow> int \<Rightarrow> int \<Rightarrow> leave_db \<Rightarrow> (leave_db, unit) outcome" where
  "runForCompany dec newId companyId month year s =
     (if \<exists>r \<in> set (lv_runs s). ac_companyId r = companyId \<and> ac_month r = month \<and> ac_year r = year then (Inr (), s)
      else
        (let employees = tbl_all (\<lambda>i e. em_companyId e = companyId \<and> em_status e = EmpACTIVE \<and> em_deletedAt e = None) (lv_employees s);
             leaveTypes = tbl_all (\<lambda>i t. lt_companyId t = companyId \<and> lt_isActive t \<and> lt_accrualType t \<noteq> NONE) (lv_types s)
         in if employees = [] \<or> leaveTypes = [] then (Inr (), s)
            else case accrue_all dec newId (List.product employees leaveTypes) month year (lv_balances s) of
              Inl e \<Rightarrow> (Inl e, s)
            | Inr t \<Rightarrow> (Inr (),
                leave_audit companyId ''leave_balance'' None ''LEAVE_ACCRUAL_RUN''
                  [(''month'', JNum (num_of_int month)), (''year'', JNum (num_of_int year)),
                   (''employeesProcessed'', JNum (num_of_nat (length employees))),
                   (''leaveTypesProcessed'', JNum (num_of_nat (length leaveTypes))), (''errorsCount'', JNum (Fin 0))]
                  (s\<lparr>lv_balances := t, lv_runs := lv_runs s @
                      [\<lparr>ac_companyId = companyId, ac_month = month, ac_year = year, ac_employeesCount = length employees\<rparr>]\<rparr>))))"

section \<open>The arithmetic is exact\<close>

definition row_in_range :: "leave_balance_row \<Rightarrow> bool" where
  "row_in_range b \<longleftrightarrow> \<bar>lb_entitled b\<bar> \<le> 999999 \<and> \<bar>lb_used b\<bar> \<le> 999999 \<and> \<bar>lb_carriedForward b\<bar> \<le> 999999 \<and> \<bar>lb_balance b\<bar> \<le> 999999"

definition in_range :: "leave_balance_row table \<Rightarrow> bool" where
  "in_range t \<longleftrightarrow> (\<forall>(i, b) \<in> set t. row_in_range b)"

lemma find_balance_mem:
  "find_balance e l y t = Some (i, b) \<Longrightarrow> (i, b) \<in> set t \<and> lb_employeeId b = e \<and> lb_leaveTypeId b = l \<and> lb_year b = y"
  by (auto simp: find_balance_def dest!: tbl_find_Some)

lemma to_column_Some: "to_column dec x = Some k \<longleftrightarrow> dec x = k \<and> \<bar>k\<bar> \<le> 999999"
  by (auto simp: to_column_def)

context decimal_column
begin

lemma balance_terms:
  assumes "row_in_range b" and "near newUsed u (1 / 2 ^ 28)" and "\<bar>u\<bar> \<le> 2 ^ 25"
  shows "near (js_sub (js_add (cents (lb_carriedForward b)) (cents (lb_entitled b))) newUsed)
      (lb_carriedForward b + lb_entitled b - u) (1 / 2 ^ 25)"
proof -
  have r: "\<bar>lb_carriedForward b\<bar> \<le> 2 ^ 26" "\<bar>lb_entitled b\<bar> \<le> 2 ^ 26"
    using assms(1) by (auto simp: row_in_range_def)
  have "near (js_add (cents (lb_carriedForward b)) (cents (lb_entitled b))) (lb_carriedForward b + lb_entitled b)
      (1 / 2 ^ 30 + 1 / 2 ^ 30 + 1 / 2 ^ 30)"
    by (rule near_add[OF near_cents[OF r(1)] near_cents[OF r(2)] r]) simp_all
  from near_sub[OF this assms(2)] have
    "near (js_sub (js_add (cents (lb_carriedForward b)) (cents (lb_entitled b))) newUsed)
      (lb_carriedForward b + lb_entitled b - u) (1 / 2 ^ 30 + 1 / 2 ^ 30 + 1 / 2 ^ 30 + 1 / 2 ^ 28 + 1 / 2 ^ 30)"
    using assms(1,3) by (auto simp: row_in_range_def)
  then show ?thesis by (rule near_weaken) simp
qed

lemma deduct_exact:
  assumes "deductBalance dec e l y d t = Inr t'" and "in_range t" and "0 \<le> d" and "d \<le> 99999"
  obtains i b where "find_balance e l y t = Some (i, b)" "0 \<le> lb_carriedForward b + lb_entitled b - (lb_used b + 100 * d)"
    "\<bar>lb_used b + 100 * d\<bar> \<le> 999999" "\<bar>lb_carriedForward b + lb_entitled b - (lb_used b + 100 * d)\<bar> \<le> 999999"
    "t' = tbl_update i (\<lambda>r. r\<lparr>lb_used := lb_used b + 100 * d,
                              lb_balance := lb_carriedForward b + lb_entitled b - (lb_used b + 100 * d)\<rparr>) t"
proof -
  obtain i b where f: "find_balance e l y t = Some (i, b)"
    using assms(1) by (auto simp: deductBalance_def split: option.splits)
  let ?u = "js_add (cents (lb_used b)) (num_of_int d)"
  let ?n = "js_sub (js_add (cents (lb_carriedForward b)) (cents (lb_entitled b))) ?u"
  have b: "row_in_range b" using f assms(2) by (auto simp: in_range_def dest!: find_balance_mem)
  then have "\<bar>lb_used b\<bar> \<le> 2 ^ 26" by (simp add: row_in_range_def)
  from near_add[OF near_cents[OF this] near_int[of d] this] have "near ?u (lb_used b + 100 * d) (1 / 2 ^ 30 + 0 + 1 / 2 ^ 30)"
    using assms(3,4) by simp
  then have u: "near ?u (lb_used b + 100 * d) (1 / 2 ^ 28)" by (rule near_weaken) simp
  have "\<bar>lb_used b + 100 * d\<bar> \<le> 2 ^ 25" using b assms(3,4) by (auto simp: row_in_range_def)
  from balance_terms[OF b u this] have n: "near ?n (lb_carriedForward b + lb_entitled b - (lb_used b + 100 * d)) (1 / 2 ^ 25)" .
  have lt: "\<not> js_lt ?n (Fin 0)" using assms(1) f by (auto simp: deductBalance_def Let_def)
  have "write_balance dec i ?u ?n t = Inr t'" using assms(1) f lt by (simp add: deductBalance_def Let_def)
  then show thesis
    using that[OF f near_nonneg[OF n _ lt]] dec_of_near[OF u] dec_of_near[OF n]
    by (auto simp: write_balance_def to_column_Some split: option.splits)
qed

lemma restore_exact:
  assumes "restoreBalance dec e l y d t = Inr t'" and "in_range t" and "0 \<le> d" and "d \<le> 99999"
    and "find_balance e l y t = Some (i, b)"
  shows "\<bar>max 0 (lb_used b - 100 * d)\<bar> \<le> 999999
    \<and> \<bar>lb_carriedForward b + lb_entitled b - max 0 (lb_used b - 100 * d)\<bar> \<le> 999999
    \<and> t' = tbl_update i (\<lambda>r. r\<lparr>lb_used := max 0 (lb_used b - 100 * d),
                              lb_balance := lb_carriedForward b + lb_entitled b - max 0 (lb_used b - 100 * d)\<rparr>) t"
proof -
  let ?u = "js_max (Fin 0) (js_sub (cents (lb_used b)) (num_of_int d))"
  let ?n = "js_sub (js_add (cents (lb_carriedForward b)) (cents (lb_entitled b))) ?u"
  have b: "row_in_range b" using assms(2,5) by (auto simp: in_range_def dest!: find_balance_mem)
  then have "\<bar>lb_used b\<bar> \<le> 2 ^ 26" by (simp add: row_in_range_def)
  from near_sub[OF near_cents[OF this] near_int[of d] this] have
    "near (js_sub (cents (lb_used b)) (num_of_int d)) (lb_used b - 100 * d) (1 / 2 ^ 30 + 0 + 1 / 2 ^ 30)"
    using assms(3,4) by simp
  from near_max0[OF this] have u: "near ?u (max 0 (lb_used b - 100 * d)) (1 / 2 ^ 28)" by (rule near_weaken) simp
  have "\<bar>max 0 (lb_used b - 100 * d)\<bar> \<le> 2 ^ 25" using b assms(3,4) by (auto simp: row_in_range_def)
  from balance_terms[OF b u this]
  have n: "near ?n (lb_carriedForward b + lb_entitled b - max 0 (lb_used b - 100 * d)) (1 / 2 ^ 25)" .
  have "write_balance dec i ?u ?n t = Inr t'" using assms(1,5) by (simp add: restoreBalance_def Let_def)
  then show ?thesis
    using dec_of_near[OF u] dec_of_near[OF n] by (auto simp: write_balance_def to_column_Some split: option.splits)
qed

end

section \<open>The used days\<close>

definition used_of :: "leave_balance_row table \<Rightarrow> id \<Rightarrow> id \<Rightarrow> int \<Rightarrow> int option" where
  "used_of t e l y = map_option (lb_used \<circ> snd) (find_balance e l y t)"

definition same_key :: "(leave_balance_row \<Rightarrow> leave_balance_row) \<Rightarrow> bool" where
  "same_key f \<longleftrightarrow> (\<forall>b. lb_employeeId (f b) = lb_employeeId b \<and> lb_leaveTypeId (f b) = lb_leaveTypeId b \<and> lb_year (f b) = lb_year b)"

lemma find_balance_update:
  "same_key f \<Longrightarrow> find_balance e l y (tbl_update i f t)
     = map_option (\<lambda>(j, b). (j, if j = i then f b else b)) (find_balance e l y t)"
  by (induction t) (auto simp: find_balance_def tbl_find_def tbl_update_def same_key_def)

lemma distinct_ids_get: "distinct (tbl_ids t) \<Longrightarrow> (i, b) \<in> set t \<Longrightarrow> (i, c) \<in> set t \<Longrightarrow> b = c"
  by (auto simp: tbl_ids_def eq_key_imp_eq_value)

lemma used_of_update:
  assumes "same_key f" and "distinct (tbl_ids t)" and "find_balance e l y t = Some (i, b)"
  shows "used_of (tbl_update i f t) e' l' y' = (if (e', l', y') = (e, l, y) then Some (lb_used (f b)) else used_of t e' l' y')"
proof (cases "find_balance e' l' y' t")
  case (Some p)
  obtain j c where p: "p = (j, c)" by (cases p)
  have c: "(j, c) \<in> set t" "lb_employeeId c = e'" "lb_leaveTypeId c = l'" "lb_year c = y'"
    using find_balance_mem Some p by blast+
  have b: "(i, b) \<in> set t" "lb_employeeId b = e" "lb_leaveTypeId b = l" "lb_year b = y"
    using find_balance_mem assms(3) by blast+
  have "j = i \<Longrightarrow> (e', l', y') = (e, l, y) \<and> c = b" using distinct_ids_get[OF assms(2)] c b by auto
  then show ?thesis using Some p assms(1,3) by (auto simp: used_of_def find_balance_update)
qed (use assms in \<open>auto simp: used_of_def find_balance_update\<close>)

lemma used_of_insert:
  assumes "find_balance e l y t = None" and "lb_employeeId b = e" and "lb_leaveTypeId b = l" and "lb_year b = y"
  shows "used_of (tbl_insert i b t) e' l' y' = (if (e', l', y') = (e, l, y) then Some (lb_used b) else used_of t e' l' y')"
  using assms by (auto simp: used_of_def find_balance_def tbl_insert_def tbl_find_append tbl_find_single split: option.splits)

text \<open>Tables of balances: distinct ids, one row for a key, values that fit the columns.\<close>

definition balances_ok :: "leave_balance_row table \<Rightarrow> bool" where
  "balances_ok t \<longleftrightarrow> distinct (tbl_ids t) \<and> in_range t \<and>
     (\<forall>(i, b) \<in> set t. find_balance (lb_employeeId b) (lb_leaveTypeId b) (lb_year b) t = Some (i, b))"

lemma balances_ok_update:
  assumes "balances_ok t" and "same_key f" and "\<And>b. (i, b) \<in> set t \<Longrightarrow> row_in_range (f b)"
  shows "balances_ok (tbl_update i f t)"
proof -
  have "find_balance (lb_employeeId c) (lb_leaveTypeId c) (lb_year c) (tbl_update i f t) = Some (j, c) \<and> row_in_range c"
    if c: "(j, c) \<in> set (tbl_update i f t)" for j c
  proof -
    from c obtain b where b: "(j, b) \<in> set t" "c = (if j = i then f b else b)" by (auto simp: tbl_update_def)
    then have "find_balance (lb_employeeId b) (lb_leaveTypeId b) (lb_year b) t = Some (j, b)" "row_in_range b"
      using assms(1) by (auto simp: balances_ok_def in_range_def)
    moreover have "lb_employeeId c = lb_employeeId b" "lb_leaveTypeId c = lb_leaveTypeId b" "lb_year c = lb_year b"
      using b(2) assms(2) by (auto simp: same_key_def)
    ultimately show ?thesis using b assms(2,3) by (auto simp: find_balance_update)
  qed
  then show ?thesis using assms(1) unfolding balances_ok_def in_range_def by auto
qed

lemma balances_ok_insert:
  assumes "balances_ok t" and "find_balance (lb_employeeId b) (lb_leaveTypeId b) (lb_year b) t = None"
    and "fresh i t" and "row_in_range b"
  shows "balances_ok (tbl_insert i b t)"
  using assms
  by (auto simp: balances_ok_def in_range_def fresh_def find_balance_def tbl_insert_def[of i b t] tbl_ids_def tbl_find_append
      tbl_find_single split: option.splits prod.splits)

lemma same_key_used: "same_key (\<lambda>r. r\<lparr>lb_used := u, lb_balance := n\<rparr>)"
  "same_key (\<lambda>r. r\<lparr>lb_entitled := u, lb_balance := n\<rparr>)" "same_key (\<lambda>r. r\<lparr>lb_carriedForward := u, lb_balance := n\<rparr>)"
  by (simp_all add: same_key_def)

definition part_days :: "(int \<times> int) list \<Rightarrow> int \<Rightarrow> int" where
  "part_days parts y = sum_list (map snd (filter (\<lambda>(y', d). y' = y) parts))"

lemma part_days_simps [simp]:
  "part_days [] y = 0" "part_days ((y', d) # ps) y = (if y' = y then d else 0) + part_days ps y"
  by (simp_all add: part_days_def)

lemma part_days_nonneg: "\<forall>(y, d) \<in> set ps. 0 \<le> d \<Longrightarrow> 0 \<le> part_days ps y"
  by (induction ps) auto

context decimal_column
begin

lemma deduct_step:
  assumes "deductBalance dec e l y d t = Inr t'" and "balances_ok t" and "0 \<le> d" and "d \<le> 99999"
  shows "balances_ok t' \<and> used_of t e l y \<noteq> None \<and>
    (\<forall>e' l' y'. used_of t' e' l' y' = (if (e', l', y') = (e, l, y) then map_option (\<lambda>u. u + 100 * d) (used_of t e l y) else used_of t e' l' y'))"
proof -
  have r: "in_range t" "distinct (tbl_ids t)" using assms(2) by (auto simp: balances_ok_def)
  from deduct_exact[OF assms(1) r(1) assms(3,4)] obtain i b n where
    f: "find_balance e l y t = Some (i, b)" "\<bar>lb_used b + 100 * d\<bar> \<le> 999999" "\<bar>n\<bar> \<le> 999999"
    "t' = tbl_update i (\<lambda>r. r\<lparr>lb_used := lb_used b + 100 * d, lb_balance := n\<rparr>) t" by metis
  have "balances_ok t'"
    unfolding f(4) using assms(2) r(1) f(2,3)
    by (intro balances_ok_update same_key_used) (auto simp: in_range_def row_in_range_def)
  moreover have "used_of t e l y = Some (lb_used b)" using f(1) by (simp add: used_of_def)
  ultimately show ?thesis using used_of_update[OF same_key_used(1) r(2) f(1)] unfolding f(4) by simp
qed

lemma restore_step:
  assumes "restoreBalance dec e l y d t = Inr t'" and "balances_ok t" and "0 \<le> d" and "d \<le> 99999"
    and "used_of t e l y = Some u" and "100 * d \<le> u"
  shows "balances_ok t' \<and>
    (\<forall>e' l' y'. used_of t' e' l' y' = (if (e', l', y') = (e, l, y) then Some (u - 100 * d) else used_of t e' l' y'))"
proof -
  have r: "in_range t" "distinct (tbl_ids t)" using assms(2) by (auto simp: balances_ok_def)
  from assms(5) obtain i b where f: "find_balance e l y t = Some (i, b)" "lb_used b = u" by (auto simp: used_of_def)
  have m: "max 0 (u - 100 * d) = u - 100 * d" using assms(6) by simp
  from restore_exact[OF assms(1) r(1) assms(3,4) f(1)] obtain n where
    t': "\<bar>u - 100 * d\<bar> \<le> 999999" "\<bar>n\<bar> \<le> 999999" "t' = tbl_update i (\<lambda>r. r\<lparr>lb_used := u - 100 * d, lb_balance := n\<rparr>) t"
    unfolding f(2) m by metis
  have "balances_ok t'"
    unfolding t'(3) using assms(2) r(1) t'(1,2)
    by (intro balances_ok_update same_key_used) (auto simp: in_range_def row_in_range_def)
  then show ?thesis using used_of_update[OF same_key_used(1) r(2) f(1)] unfolding t'(3) by simp
qed

lemma deduct_parts:
  assumes "change_balances (deductBalance dec e l) parts t = Inr t'" and "balances_ok t"
    and "\<forall>(y, d) \<in> set parts. 0 \<le> d \<and> d \<le> 99999"
  shows "balances_ok t' \<and> (\<forall>(y, d) \<in> set parts. used_of t e l y \<noteq> None) \<and>
    (\<forall>e' l' y'. used_of t' e' l' y' =
       (if e' = e \<and> l' = l then map_option (\<lambda>u. u + 100 * part_days parts y') (used_of t e l y') else used_of t e' l' y'))"
  using assms
proof (induction parts arbitrary: t)
  case Nil
  then show ?case by (auto simp: option.map_ident)
next
  case (Cons p parts)
  obtain y d where p: "p = (y, d)" by (cases p)
  from Cons.prems(1) p obtain t1 where t1: "deductBalance dec e l y d t = Inr t1"
    "change_balances (deductBalance dec e l) parts t1 = Inr t'" by (auto split: sum.splits)
  from deduct_step[OF t1(1) Cons.prems(2)] Cons.prems(3) p have s: "balances_ok t1" "used_of t e l y \<noteq> None"
    "\<forall>e' l' y'. used_of t1 e' l' y' = (if (e', l', y') = (e, l, y) then map_option (\<lambda>u. u + 100 * d) (used_of t e l y) else used_of t e' l' y')"
    by auto
  have IH: "balances_ok t'" "\<forall>(y, d) \<in> set parts. used_of t1 e l y \<noteq> None"
    "\<forall>e' l' y'. used_of t' e' l' y' = (if e' = e \<and> l' = l then map_option (\<lambda>u. u + 100 * part_days parts y') (used_of t1 e l y') else used_of t1 e' l' y')"
    using Cons.IH[OF t1(2) s(1)] Cons.prems(3) by auto
  have none: "used_of t1 e l y' = None \<longleftrightarrow> used_of t e l y' = None" for y' using s(2,3) by auto
  have used: "\<forall>(y, d) \<in> set parts. used_of t e l y \<noteq> None" using IH(2) none by blast
  have "used_of t' e' l' y' = (if e' = e \<and> l' = l
      then map_option (\<lambda>u. u + 100 * part_days (p # parts) y') (used_of t e l y') else used_of t e' l' y')" for e' l' y'
    using IH(3) s(3) unfolding p by (auto simp: option.map_comp o_def algebra_simps)
  then show ?case using IH(1) used s(2) p by simp
qed

lemma restore_parts:
  assumes "change_balances (restoreBalance dec e l) parts t = Inr t'" and "balances_ok t"
    and "\<forall>(y, d) \<in> set parts. 0 \<le> d \<and> d \<le> 99999"
    and "\<forall>(y, d) \<in> set parts. \<exists>u. used_of t e l y = Some u \<and> 100 * part_days parts y \<le> u"
  shows "balances_ok t' \<and> (\<forall>e' l' y'. used_of t' e' l' y' =
       (if e' = e \<and> l' = l then map_option (\<lambda>u. u - 100 * part_days parts y') (used_of t e l y') else used_of t e' l' y'))"
  using assms
proof (induction parts arbitrary: t)
  case Nil
  then show ?case by (auto simp: option.map_ident)
next
  case (Cons p parts)
  obtain y d where p: "p = (y, d)" by (cases p)
  from Cons.prems(1) p obtain t1 where t1: "restoreBalance dec e l y d t = Inr t1"
    "change_balances (restoreBalance dec e l) parts t1 = Inr t'" by (auto split: sum.splits)
  from Cons.prems(4) p obtain u where u: "used_of t e l y = Some u" "100 * (d + part_days parts y) \<le> u" by auto
  have nn: "0 \<le> part_days parts y'" for y' using Cons.prems(3) by (intro part_days_nonneg) auto
  from restore_step[OF t1(1) Cons.prems(2) _ _ u(1)] Cons.prems(3) p u(2) nn[of y] have s: "balances_ok t1"
    "\<forall>e' l' y'. used_of t1 e' l' y' = (if (e', l', y') = (e, l, y) then Some (u - 100 * d) else used_of t e' l' y')"
    by auto
  have "\<exists>u'. used_of t1 e l y' = Some u' \<and> 100 * part_days parts y' \<le> u'" if "(y', d') \<in> set parts" for y' d'
  proof (cases "y' = y")
    case True
    then show ?thesis using s(2) u(2) by simp
  next
    case False
    then show ?thesis using Cons.prems(4) that s(2) p by fastforce
  qed
  then have pre: "\<forall>(y', d') \<in> set parts. \<exists>u. used_of t1 e l y' = Some u \<and> 100 * part_days parts y' \<le> u" by blast
  have IH: "balances_ok t'" "\<forall>e' l' y'. used_of t' e' l' y' =
      (if e' = e \<and> l' = l then map_option (\<lambda>u. u - 100 * part_days parts y') (used_of t1 e l y') else used_of t1 e' l' y')"
    using Cons.IH[OF t1(2) s(1) _ pre] Cons.prems(3) by auto
  show ?case unfolding p using IH s u(1) by (auto simp: algebra_simps)
qed

end

section \<open>Accrual keeps the used days\<close>

text \<open>A change that keeps all used days and may add rows without any.\<close>

definition keeps_used :: "leave_balance_row table \<Rightarrow> leave_balance_row table \<Rightarrow> bool" where
  "keeps_used t t' \<longleftrightarrow> balances_ok t' \<and> (\<forall>e l y. used_of t' e l y = used_of t e l y
     \<or> (used_of t e l y = None \<and> used_of t' e l y = Some 0))"

definition grows :: "leave_balance_row table \<Rightarrow> leave_balance_row table \<Rightarrow> bool" where
  "grows t t' \<longleftrightarrow> (\<exists>xs. tbl_ids t' = tbl_ids t @ xs)"

lemma grows_refl [simp]: "grows t t" and grows_update [simp]: "grows t (tbl_update i f t)"
  and grows_insert [simp]: "grows t (tbl_insert i r t)"
  by (simp_all add: grows_def)

lemma grows_trans: "grows t u \<Longrightarrow> grows u v \<Longrightarrow> grows t v"
  unfolding grows_def by auto

lemma grows_distinct: "grows t u \<Longrightarrow> distinct (tbl_ids u) \<Longrightarrow> distinct (tbl_ids t)"
  by (auto simp: grows_def)

lemma keeps_used_refl: "balances_ok t \<Longrightarrow> keeps_used t t"
  by (simp add: keeps_used_def)

lemma keeps_used_trans: "keeps_used t u \<Longrightarrow> keeps_used u v \<Longrightarrow> keeps_used t v"
  unfolding keeps_used_def by (metis option.distinct(1))

lemma keeps_used_update:
  assumes "balances_ok t" and "find_balance e l y t = Some (i, b)" and "same_key f"
    and "\<And>c. lb_used (f c) = lb_used c" and "row_in_range (f b)"
  shows "keeps_used t (tbl_update i f t)"
proof -
  have d: "distinct (tbl_ids t)" using assms(1) by (simp add: balances_ok_def)
  have "c = b" if "(i, c) \<in> set t" for c using distinct_ids_get[OF d that] find_balance_mem[OF assms(2)] by simp
  then have "balances_ok (tbl_update i f t)" using assms(1,3,5) by (intro balances_ok_update) auto
  moreover have "used_of t e l y = Some (lb_used b)" using assms(2) by (simp add: used_of_def)
  ultimately show ?thesis using used_of_update[OF assms(3) d assms(2)] assms(4) by (simp add: keeps_used_def)
qed

lemma keeps_used_insert:
  assumes "balances_ok t" and "find_balance e l y t = None" and "distinct (tbl_ids (tbl_insert i (new_balance_row e l y en c n) t))"
    and "\<bar>en\<bar> \<le> 999999" and "\<bar>c\<bar> \<le> 999999" and "\<bar>n\<bar> \<le> 999999"
  shows "keeps_used t (tbl_insert i (new_balance_row e l y en c n) t)"
proof -
  have "fresh i t" using assms(3) by (simp add: fresh_def)
  then have "balances_ok (tbl_insert i (new_balance_row e l y en c n) t)"
    using assms by (intro balances_ok_insert) (simp_all add: new_balance_row_def row_in_range_def)
  moreover have "used_of t e l y = None" using assms(2) by (simp add: used_of_def)
  ultimately show ?thesis
    using used_of_insert[OF assms(2), of "new_balance_row e l y en c n" i] by (simp add: keeps_used_def new_balance_row_def)
qed

lemma row_of_found: "balances_ok t \<Longrightarrow> find_balance e l y t = Some (i, b) \<Longrightarrow> row_in_range b"
  by (auto simp: balances_ok_def in_range_def dest!: find_balance_mem)

lemma credit_grows: "credit_balance dec n e l lt y c t = Inr t' \<Longrightarrow> grows t t'"
  by (auto simp: credit_balance_def Let_def split: option.splits)

lemma carry_grows: "carry_forward dec n e l lt y t = Inr t' \<Longrightarrow> grows t t'"
  by (auto simp: carry_forward_def Let_def split: option.splits if_splits)

lemma credit_keeps:
  assumes "credit_balance dec n e l lt y c t = Inr t'" and "balances_ok t" and "distinct (tbl_ids t')"
  shows "keeps_used t t'"
proof (cases "find_balance e l y t")
  case None
  then show ?thesis using assms
    by (auto simp: credit_balance_def to_column_Some split: option.splits intro!: keeps_used_insert)
next
  case (Some p)
  then obtain i b where f: "find_balance e l y t = Some (i, b)" by (cases p) auto
  have "row_in_range b" using row_of_found[OF assms(2) f] .
  then show ?thesis using assms f
    by (auto simp: credit_balance_def to_column_Some Let_def row_in_range_def split: option.splits
        intro!: keeps_used_update[OF assms(2) f] same_key_used)
qed

lemma carry_keeps:
  assumes "carry_forward dec n e l lt y t = Inr t'" and "balances_ok t" and "distinct (tbl_ids t')"
  shows "keeps_used t t'"
proof (cases "find_balance e l (y + 1) t")
  case None
  then show ?thesis using assms
    by (auto simp: carry_forward_def to_column_Some Let_def split: option.splits if_splits
        intro!: keeps_used_insert keeps_used_refl)
next
  case (Some p)
  then obtain i b where f: "find_balance e l (y + 1) t = Some (i, b)" by (cases p) auto
  have "row_in_range b" using row_of_found[OF assms(2) f] .
  then show ?thesis using assms f
    by (auto simp: carry_forward_def to_column_Some Let_def row_in_range_def split: option.splits if_splits
        intro!: keeps_used_update[OF assms(2) f] same_key_used keeps_used_refl)
qed

lemma processAccrual_keeps:
  assumes "processAccrual dec n emp lt m y t = Inr t'"
  shows "grows t t'" and "balances_ok t \<Longrightarrow> distinct (tbl_ids t') \<Longrightarrow> keeps_used t t'"
proof -
  have "grows t t' \<and> (balances_ok t \<longrightarrow> distinct (tbl_ids t') \<longrightarrow> keeps_used t t')"
  proof (cases "accrual_credit (em_joinedAt (snd emp)) (lt_accrualAmount (snd lt)) m y")
    case None
    then show ?thesis using assms by (simp add: processAccrual_def keeps_used_refl)
  next
    case (Some c)
    then obtain u where u: "credit_balance dec (n (fst emp) (fst lt) y) (fst emp) (fst lt) (snd lt) y c t = Inr u"
      "if m = 12 then carry_forward dec (n (fst emp) (fst lt) (y + 1)) (fst emp) (fst lt) (snd lt) y u = Inr t' else t' = u"
      using assms by (auto simp: processAccrual_def split: sum.splits if_splits)
    have g: "grows t u" "grows u t'" using credit_grows[OF u(1)] carry_grows u(2) by (auto split: if_splits)
    have "keeps_used t t'" if t: "balances_ok t" "distinct (tbl_ids t')"
    proof -
      have k: "keeps_used t u" using credit_keeps[OF u(1) t(1)] grows_distinct[OF g(2) t(2)] by simp
      then have "balances_ok u" by (simp add: keeps_used_def)
      then have "keeps_used u t'" using u(2) t(2) carry_keeps keeps_used_refl by (cases "m = 12") auto
      then show ?thesis using k keeps_used_trans by blast
    qed
    then show ?thesis using g grows_trans by blast
  qed
  then show "grows t t'" "balances_ok t \<Longrightarrow> distinct (tbl_ids t') \<Longrightarrow> keeps_used t t'" by auto
qed

lemma accrue_all_keeps:
  "accrue_all dec n jobs m y t = Inr t' \<Longrightarrow>
     grows t t' \<and> (balances_ok t \<longrightarrow> distinct (tbl_ids t') \<longrightarrow> keeps_used t t')"
proof (induction jobs arbitrary: t)
  case (Cons j jobs)
  obtain emp lt where j: "j = (emp, lt)" by (cases j)
  from Cons.prems j obtain u where u: "processAccrual dec n emp lt m y t = Inr u" "accrue_all dec n jobs m y u = Inr t'"
    by (auto split: sum.splits)
  have g: "grows t u" "grows u t'" using processAccrual_keeps(1)[OF u(1)] Cons.IH[OF u(2)] by auto
  have "keeps_used t t'" if t: "balances_ok t" "distinct (tbl_ids t')"
  proof -
    have k: "keeps_used t u" using processAccrual_keeps(2)[OF u(1) t(1)] grows_distinct[OF g(2) t(2)] by simp
    moreover have "balances_ok u" using k by (simp add: keeps_used_def)
    ultimately show ?thesis using Cons.IH[OF u(2)] t(2) keeps_used_trans by blast
  qed
  then show ?case using g grows_trans by blast
qed (simp add: keeps_used_refl)

section \<open>Used days are approved days\<close>

definition request_days :: "leave_db \<Rightarrow> id \<Rightarrow> id \<Rightarrow> int \<Rightarrow> leave_request_row \<Rightarrow> int" where
  "request_days s e l y r =
     (if lr_status r = APPROVED \<and> lr_employeeId r = e \<and> lr_leaveTypeId r = l
      then part_days (year_parts (lr_companyId r) r s) y else 0)"

text \<open>The days of a year that approved requests of an employee take from a type of leave.\<close>

definition approved_days :: "leave_db \<Rightarrow> id \<Rightarrow> id \<Rightarrow> int \<Rightarrow> int" where
  "approved_days s e l y = sum_list (map (\<lambda>(i, r). request_days s e l y r) (lv_requests s))"

datatype leave_event =
    Apply instant id id id apply_dto
  | ApproveLeave instant id id id
  | RejectLeave instant id id id string
  | CancelLeave instant id id id
  | Accrue "id \<Rightarrow> id \<Rightarrow> int \<Rightarrow> id" id int int
  | HolidayChange holiday_db
  | MasterData "employee_row table" "(string \<times> string) table" "leave_type_row table"

text \<open>
  The database gives new rows ids that are not in use. The other parts of the program change the
  holidays, the employees, their names and the leave types between two calls; what they write is left open.
\<close>

fun leave_step :: "(jsnum \<Rightarrow> int) \<Rightarrow> leave_event \<Rightarrow> leave_db \<Rightarrow> leave_db" where
  "leave_step dec (Apply now n e co dto) s = (if fresh n (lv_requests s) then snd (leave_apply now n e co dto s) else s)"
| "leave_step dec (ApproveLeave now i a co) s = snd (leave_approve dec now i a co s)"
| "leave_step dec (RejectLeave now i a co reason) s = snd (leave_reject now i a co reason s)"
| "leave_step dec (CancelLeave now i e co) s = snd (leave_cancel dec now i e co s)"
| "leave_step dec (Accrue n co m y) s =
     (let t = snd (runForCompany dec n co m y s) in if distinct (tbl_ids (lv_balances t)) then t else s)"
| "leave_step dec (HolidayChange h) s = s\<lparr>lv_holidays := h\<rparr>"
| "leave_step dec (MasterData es ns ls) s = s\<lparr>lv_employees := es, lv_userNames := ns, lv_types := ls\<rparr>"

text \<open>Events that leave the holidays alone, and applications for days of a single year.\<close>

fun keeps_holidays :: "leave_event \<Rightarrow> bool" where
  "keeps_holidays (HolidayChange h) = False"
| "keeps_holidays _ = True"

fun within_year :: "leave_event \<Rightarrow> bool" where
  "within_year (Apply now n e co dto) \<longleftrightarrow>
     getUTCFullYear (utc_midnight (al_startDate dto)) = getUTCFullYear (utc_midnight (al_endDate dto))"
| "within_year _ = True"

definition one_year :: "leave_db \<Rightarrow> bool" where
  "one_year s \<longleftrightarrow> (\<forall>(i, r) \<in> set (lv_requests s). getUTCFullYear (lr_startDate r) = getUTCFullYear (lr_endDate r))"

definition request_ok :: "leave_request_row \<Rightarrow> bool" where
  "request_ok r \<longleftrightarrow> 1 \<le> lr_totalDays r \<and> lr_totalDays r \<le> 99999"

definition leave_ok :: "leave_db \<Rightarrow> bool" where
  "leave_ok s \<longleftrightarrow> balances_ok (lv_balances s) \<and> distinct (tbl_ids (lv_requests s)) \<and>
     (\<forall>(i, r) \<in> set (lv_requests s). request_ok r) \<and>
     (\<forall>e l y. case used_of (lv_balances s) e l y of
        None \<Rightarrow> approved_days s e l y = 0 | Some u \<Rightarrow> u = 100 * approved_days s e l y)"

lemma year_parts_holidays: "lv_holidays s = lv_holidays t \<Longrightarrow> year_parts c r s = year_parts c r t"
  by (simp add: year_parts_def calculateWorkingDays_def Let_def)

lemma year_parts_status [simp]:
  "year_parts c (r\<lparr>lr_status := st, lr_reviewedById := a, lr_reviewedAt := n\<rparr>) s = year_parts c r s"
  "year_parts c (r\<lparr>lr_status := st, lr_reviewedById := a, lr_reviewedAt := n, lr_rejectionReason := x\<rparr>) s = year_parts c r s"
  "year_parts c (r\<lparr>lr_status := st, lr_cancelledAt := n\<rparr>) s = year_parts c r s"
  by (simp_all add: year_parts_def Let_def)

lemma year_parts_bounds:
  assumes "request_ok r"
  shows "\<forall>(y, d) \<in> set (year_parts c r s). 0 \<le> d \<and> d \<le> 99999"
proof -
  let ?e = "date_UTC (getUTCFullYear (lr_startDate r)) 11 31"
  have "calculateWorkingDays c (lr_startDate r) ?e s \<le> int (length (each_day (lr_startDate r) ?e))"
    unfolding calculateWorkingDays_def Let_def by simp
  then have "calculateWorkingDays c (lr_startDate r) ?e s \<le> 367"
    using each_day_to_december[of "lr_startDate r"] by linarith
  moreover have "0 \<le> calculateWorkingDays c (lr_startDate r) ?e s"
    by (simp add: calculateWorkingDays_def Let_def)
  ultimately show ?thesis using assms by (auto simp: year_parts_def Let_def request_ok_def)
qed

lemma part_days_year_parts_nonneg: "request_ok r \<Longrightarrow> 0 \<le> part_days (year_parts c r s) y"
  using year_parts_bounds[of r c s] by (intro part_days_nonneg) auto

lemma sum_rows_update:
  fixes g :: "'r \<Rightarrow> int"
  assumes "distinct (tbl_ids t)" and "tbl_get i t = Some r"
  shows "sum_list (map (\<lambda>(j, x). g x) (tbl_update i f t)) = sum_list (map (\<lambda>(j, x). g x) t) - g r + g (f r)"
  using assms
proof (induction t)
  case (Cons p t)
  obtain j x where p: "p = (j, x)" by (cases p)
  show ?case
  proof (cases "j = i")
    case True
    then have "fresh i t" using Cons.prems(1) p by (simp add: fresh_def tbl_ids_def)
    then show ?thesis using True Cons.prems(2) p tbl_update_fresh[of i t f]
      by (simp add: tbl_get_def) (simp add: tbl_update_def)
  next
    case False
    then show ?thesis using Cons p by (simp add: tbl_get_def tbl_ids_def) (simp add: tbl_update_def)
  qed
qed (simp add: tbl_get_def)

lemma sum_rows_ge:
  fixes g :: "'r \<Rightarrow> int"
  assumes "\<forall>(j, x) \<in> set t. 0 \<le> g x" and "(i, r) \<in> set t"
  shows "g r \<le> sum_list (map (\<lambda>(j, x). g x) t)"
  using assms
proof (induction t)
  case (Cons p t)
  have "0 \<le> sum_list (map (\<lambda>(j, x). g x) t)" using Cons.prems(1) by (intro sum_list_nonneg) auto
  then show ?case using Cons by auto
qed simp

lemma approved_days_update:
  assumes "leave_ok s" and "tbl_get i (lv_requests s) = Some r"
    and "lv_requests t = tbl_update i f (lv_requests s)" and "lv_holidays t = lv_holidays s"
  shows "approved_days t e l y = approved_days s e l y - request_days s e l y r + request_days s e l y (f r)"
proof -
  have "request_days t e l y = request_days s e l y"
    using year_parts_holidays[OF assms(4)] by (auto simp: request_days_def)
  then show ?thesis
    unfolding approved_days_def assms(3) using sum_rows_update[of "lv_requests s" i r "request_days s e l y" f] assms(1,2)
    by (simp add: leave_ok_def)
qed

lemma request_days_bounds: "request_ok r \<Longrightarrow> 0 \<le> request_days s e l y r"
  by (simp add: request_days_def part_days_year_parts_nonneg)

lemma leave_ok_requests_update:
  assumes "leave_ok s" and "\<And>r. lr_totalDays (f r) = lr_totalDays r"
  shows "distinct (tbl_ids (tbl_update i f (lv_requests s))) \<and> (\<forall>(j, r) \<in> set (tbl_update i f (lv_requests s)). request_ok r)"
proof
  show "distinct (tbl_ids (tbl_update i f (lv_requests s)))"
    using assms(1) by (simp add: leave_ok_def tbl_ids_update)
  show "\<forall>(j, r) \<in> set (tbl_update i f (lv_requests s)). request_ok r"
    using assms by (auto simp: leave_ok_def tbl_update_def request_ok_def)
qed

lemma leave_ok_apply: "leave_ok s \<Longrightarrow> fresh n (lv_requests s) \<Longrightarrow> leave_ok (snd (leave_apply now n e co dto s))"
proof (cases "leave_apply now n e co dto s")
  case (Pair r t)
  assume s: "leave_ok s" "fresh n (lv_requests s)"
  show ?thesis
  proof (cases "t = s")
    case False
    then obtain row where row: "lv_requests t = lv_requests s @ [(n, row)]" "lv_balances t = lv_balances s"
      "lv_holidays t = lv_holidays s" "lr_status row = PENDING" "request_ok row"
      using Pair by (auto simp: leave_apply_def Let_def leave_audit_def emit_leave_def tbl_insert_def request_ok_def
          split: if_splits sum.splits)
    have "request_days t e' l y = request_days s e' l y" for e' l y
      using year_parts_holidays[OF row(3)] by (auto simp: request_days_def)
    then have "approved_days t e' l y = approved_days s e' l y" for e' l y
      using row by (simp add: approved_days_def) (simp add: request_days_def)
    then show ?thesis using s row Pair by (auto simp: leave_ok_def fresh_def tbl_ids_def cong: option.case_cong)
  qed (use s Pair in simp)
qed

context decimal_column
begin

lemma leave_ok_approve: "leave_ok s \<Longrightarrow> leave_ok (snd (leave_approve dec now i a co s))"
proof (cases "leave_approve dec now i a co s")
  case (Pair res t)
  assume s: "leave_ok s"
  show ?thesis
  proof (cases "res = Inr ()")
    case False
    then show ?thesis using s Pair by (auto simp: leave_approve_def split: option.splits if_splits sum.splits)
  next
    case True
    let ?f = "\<lambda>r. r\<lparr>lr_status := APPROVED, lr_reviewedById := Some a, lr_reviewedAt := Some now\<rparr>"
    from True Pair obtain r b where r: "tbl_get i (lv_requests s) = Some r" "lr_companyId r = co" "lr_status r = PENDING"
      "change_balances (deductBalance dec (lr_employeeId r) (lr_leaveTypeId r)) (year_parts co r s) (lv_balances s) = Inr b"
      "lv_requests t = tbl_update i ?f (lv_requests s)" "lv_balances t = b" "lv_holidays t = lv_holidays s"
      by (auto simp: leave_approve_def leave_audit_def emit_leave_def split: option.splits if_splits sum.splits)
    have ok: "request_ok r" using s r(1) by (auto simp: leave_ok_def tbl_get_def dest!: map_of_SomeD)
    have "balances_ok (lv_balances s)" using s by (simp add: leave_ok_def)
    note d = deduct_parts[OF r(4) this year_parts_bounds[OF ok]]
    have new: "approved_days t e l y = approved_days s e l y
        + (if lr_employeeId r = e \<and> lr_leaveTypeId r = l then part_days (year_parts co r s) y else 0)" for e l y
    proof -
      have "request_days s e l y (?f r) = (if lr_employeeId r = e \<and> lr_leaveTypeId r = l then part_days (year_parts co r s) y else 0)"
        using r(2) by (simp add: request_days_def)
      moreover have "request_days s e l y r = 0" using r(3) by (simp add: request_days_def)
      ultimately show ?thesis using approved_days_update[OF s r(1,5,7)] by simp
    qed
    have miss: "part_days (year_parts co r s) y = 0" if "used_of (lv_balances s) (lr_employeeId r) (lr_leaveTypeId r) y = None" for y
    proof -
      have "y \<notin> fst ` set (year_parts co r s)" using d that by auto
      then have "filter (\<lambda>(y', d). y' = y) (year_parts co r s) = []" by (force simp: filter_empty_conv)
      then show ?thesis by (simp add: part_days_def)
    qed
    have bal: "case used_of b e l y of None \<Rightarrow> approved_days t e l y = 0 | Some u \<Rightarrow> u = 100 * approved_days t e l y" for e l y
    proof -
      have "case used_of (lv_balances s) e l y of None \<Rightarrow> approved_days s e l y = 0 | Some u \<Rightarrow> u = 100 * approved_days s e l y"
        using s by (simp add: leave_ok_def)
      then show ?thesis using d miss new[of e l y] by (auto split: option.splits)
    qed
    show ?thesis using d bal leave_ok_requests_update[OF s, of ?f i] Pair r(5,6) by (simp add: leave_ok_def)
  qed
qed

lemma leave_ok_cancel: "leave_ok s \<Longrightarrow> leave_ok (snd (leave_cancel dec now i emp co s))"
proof (cases "leave_cancel dec now i emp co s")
  case (Pair res t)
  assume s: "leave_ok s"
  show ?thesis
  proof (cases "res = Inr ()")
    case False
    then show ?thesis using s Pair by (auto simp: leave_cancel_def split: option.splits if_splits sum.splits)
  next
    case True
    let ?f = "\<lambda>r. r\<lparr>lr_status := CANCELLED, lr_cancelledAt := Some now\<rparr>"
    from True Pair obtain r b where r: "tbl_get i (lv_requests s) = Some r" "lr_companyId r = co" "lr_status r \<in> {PENDING, APPROVED}"
      "(if lr_status r = APPROVED
        then change_balances (restoreBalance dec (lr_employeeId r) (lr_leaveTypeId r)) (year_parts co r s) (lv_balances s)
        else Inr (lv_balances s)) = Inr b"
      "lv_requests t = tbl_update i ?f (lv_requests s)" "lv_balances t = b" "lv_holidays t = lv_holidays s"
      by (auto simp: leave_cancel_def leave_audit_def emit_leave_def split: option.splits if_splits sum.splits)
    have mem: "(i, r) \<in> set (lv_requests s)" using r(1) by (simp add: tbl_get_def map_of_SomeD)
    have oks: "\<forall>(j, x) \<in> set (lv_requests s). request_ok x" using s by (simp add: leave_ok_def)
    have ok: "request_ok r" using mem oks by auto
    have bok: "balances_ok (lv_balances s)" using s by (simp add: leave_ok_def)
    have inv: "case used_of (lv_balances s) e l y of None \<Rightarrow> approved_days s e l y = 0 | Some u \<Rightarrow> u = 100 * approved_days s e l y" for e l y
      using s by (simp add: leave_ok_def)
    have new: "approved_days t e l y = approved_days s e l y - request_days s e l y r" for e l y
      using approved_days_update[OF s r(1,5,7)] by (simp add: request_days_def)
    have le: "request_days s e l y r \<le> approved_days s e l y" for e l y
      unfolding approved_days_def using oks mem request_days_bounds by (intro sum_rows_ge) auto
    have bal: "balances_ok b \<and>
      (\<forall>e l y. case used_of b e l y of None \<Rightarrow> approved_days t e l y = 0 | Some u \<Rightarrow> u = 100 * approved_days t e l y)"
    proof (cases "lr_status r = APPROVED")
      case False
      then have "request_days s e l y r = 0" for e l y by (simp add: request_days_def)
      then show ?thesis using False r(4) bok inv new by (simp cong: option.case_cong)
    next
      case True
      have days: "request_days s (lr_employeeId r) (lr_leaveTypeId r) y r = part_days (year_parts co r s) y" for y
        using True r(2) by (simp add: request_days_def)
      have pre: "\<forall>(y, d) \<in> set (year_parts co r s). \<exists>u. used_of (lv_balances s) (lr_employeeId r) (lr_leaveTypeId r) y = Some u
          \<and> 100 * part_days (year_parts co r s) y \<le> u"
      proof clarify
        fix y d assume yd: "(y, d) \<in> set (year_parts co r s)"
        have pos: "0 < part_days (year_parts co r s) y"
          using yd ok by (auto simp: year_parts_def Let_def request_ok_def split: if_splits)
        then show "\<exists>u. used_of (lv_balances s) (lr_employeeId r) (lr_leaveTypeId r) y = Some u
            \<and> 100 * part_days (year_parts co r s) y \<le> u"
          using inv[of "lr_employeeId r" "lr_leaveTypeId r" y] le[of "lr_employeeId r" "lr_leaveTypeId r" y] days[of y]
          by (auto split: option.splits)
      qed
      have ch: "change_balances (restoreBalance dec (lr_employeeId r) (lr_leaveTypeId r)) (year_parts co r s) (lv_balances s) = Inr b"
        using r(4) True by simp
      note d = restore_parts[OF ch bok year_parts_bounds[OF ok] pre]
      have "case used_of b e l y of None \<Rightarrow> approved_days t e l y = 0 | Some u \<Rightarrow> u = 100 * approved_days t e l y" for e l y
        using d inv[of e l y] le[of e l y] request_days_bounds[OF ok, of s e l y] new[of e l y] days[of y]
        by (cases "e = lr_employeeId r \<and> l = lr_leaveTypeId r") (auto simp: request_days_def split: option.splits)
      then show ?thesis using d by blast
    qed
    show ?thesis using bal leave_ok_requests_update[OF s, of ?f i] Pair r(5,6) by (simp add: leave_ok_def)
  qed
qed

lemma leave_ok_reject: "leave_ok s \<Longrightarrow> leave_ok (snd (leave_reject now i a co reason s))"
proof (cases "leave_reject now i a co reason s")
  case (Pair res t)
  assume s: "leave_ok s"
  show ?thesis
  proof (cases "t = s")
    case False
    let ?f = "\<lambda>r. r\<lparr>lr_status := REJECTED, lr_reviewedById := Some a, lr_reviewedAt := Some now, lr_rejectionReason := Some reason\<rparr>"
    from False Pair obtain r where r: "tbl_get i (lv_requests s) = Some r" "lr_status r = PENDING"
      "lv_requests t = tbl_update i ?f (lv_requests s)" "lv_balances t = lv_balances s" "lv_holidays t = lv_holidays s"
      by (auto simp: leave_reject_def leave_audit_def emit_leave_def split: option.splits if_splits)
    have "approved_days t e l y = approved_days s e l y" for e l y
      using approved_days_update[OF s r(1,3,5)] r(2) by (simp add: request_days_def)
    then show ?thesis using s leave_ok_requests_update[OF s, of ?f i] Pair r(3,4)
      by (auto simp: leave_ok_def cong: option.case_cong)
  qed (use s Pair in simp)
qed

lemma leave_ok_accrue:
  assumes "leave_ok s"
  shows "leave_ok (leave_step dec (Accrue n co m y) s)"
proof (cases "leave_step dec (Accrue n co m y) s = s")
  case False
  define t where "t = leave_step dec (Accrue n co m y) s"
  from False obtain jobs where t: "accrue_all dec n jobs m y (lv_balances s) = Inr (lv_balances t)"
    "lv_requests t = lv_requests s" "lv_holidays t = lv_holidays s" "distinct (tbl_ids (lv_balances t))"
    unfolding t_def
    by (auto simp: Let_def runForCompany_def leave_audit_def split: if_splits sum.splits)
  have "balances_ok (lv_balances s)" using assms by (simp add: leave_ok_def)
  then have k: "keeps_used (lv_balances s) (lv_balances t)" using accrue_all_keeps[OF t(1)] t(4) by simp
  have "request_days t e l y' = request_days s e l y'" for e l y'
    using year_parts_holidays[OF t(3)] by (auto simp: request_days_def)
  then have a: "approved_days t e l y' = approved_days s e l y'" for e l y'
    by (simp add: approved_days_def t(2))
  have "case used_of (lv_balances t) e l y' of None \<Rightarrow> approved_days t e l y' = 0 | Some u \<Rightarrow> u = 100 * approved_days t e l y'" for e l y'
  proof -
    have "case used_of (lv_balances s) e l y' of None \<Rightarrow> approved_days s e l y' = 0 | Some u \<Rightarrow> u = 100 * approved_days s e l y'"
      using assms by (simp add: leave_ok_def)
    moreover have "used_of (lv_balances t) e l y' = used_of (lv_balances s) e l y'
        \<or> (used_of (lv_balances s) e l y' = None \<and> used_of (lv_balances t) e l y' = Some 0)"
      using k by (simp add: keeps_used_def)
    ultimately show ?thesis using a by (auto split: option.splits)
  qed
  then show ?thesis using assms k t(2) unfolding t_def[symmetric] by (simp add: leave_ok_def keeps_used_def)
qed (use assms in simp)

lemma leave_ok_surroundings:
  assumes "leave_ok s" and "lv_balances t = lv_balances s" and "lv_requests t = lv_requests s"
    and "lv_holidays t = lv_holidays s \<or> one_year s"
  shows "leave_ok t"
proof -
  have "request_days t e l y r = request_days s e l y r" if "(i, r) \<in> set (lv_requests s)" for i r e l y
    using assms(4)
  proof
    assume "lv_holidays t = lv_holidays s"
    then show ?thesis using year_parts_holidays[of t s] by (simp add: request_days_def)
  next
    assume "one_year s"
    then show ?thesis using that by (auto simp: one_year_def request_days_def year_parts_def)
  qed
  then have "map (\<lambda>(i, r). request_days t e l y r) (lv_requests s) = map (\<lambda>(i, r). request_days s e l y r) (lv_requests s)" for e l y
    by (intro map_cong) auto
  then have "approved_days t e l y = approved_days s e l y" for e l y by (simp only: approved_days_def assms(3))
  then show ?thesis using assms(1-3) by (simp add: leave_ok_def cong: option.case_cong)
qed

lemma leave_ok_step:
  assumes "leave_ok s" and "keeps_holidays ev \<or> one_year s"
  shows "leave_ok (leave_step dec ev s)"
proof (cases ev)
  case (HolidayChange h)
  then show ?thesis using assms leave_ok_surroundings[of s "leave_step dec ev s"] by simp
next
  case (MasterData es ns ls)
  then show ?thesis using assms leave_ok_surroundings[of s "leave_step dec ev s"] by simp
qed (use assms(1) leave_ok_apply leave_ok_approve leave_ok_reject leave_ok_cancel leave_ok_accrue in auto)

lemma leave_ok_run: "leave_ok s \<Longrightarrow> list_all keeps_holidays evs \<Longrightarrow> leave_ok (fold (leave_step dec) evs s)"
  by (induction evs arbitrary: s) (simp_all add: leave_ok_step)

lemma one_year_step: "one_year s \<Longrightarrow> within_year ev \<Longrightarrow> one_year (leave_step dec ev s)"
proof (cases ev)
  case (Apply now n e co dto)
  assume "one_year s" and "within_year ev"
  then show ?thesis unfolding Apply
    by (auto simp: one_year_def leave_apply_def Let_def leave_audit_def emit_leave_def tbl_insert_def split: sum.splits)
next
  case (ApproveLeave now i a co)
  assume "one_year s"
  then show ?thesis unfolding ApproveLeave
    by (fastforce simp: one_year_def leave_approve_def leave_audit_def emit_leave_def tbl_update_def split: option.splits sum.splits)
next
  case (RejectLeave now i a co why)
  assume "one_year s"
  then show ?thesis unfolding RejectLeave
    by (fastforce simp: one_year_def leave_reject_def leave_audit_def emit_leave_def tbl_update_def split: option.splits)
next
  case (CancelLeave now i e co)
  assume "one_year s"
  then show ?thesis unfolding CancelLeave
    by (fastforce simp: one_year_def leave_cancel_def leave_audit_def emit_leave_def tbl_update_def split: option.splits sum.splits if_splits)
next
  case (Accrue n co m y)
  assume "one_year s"
  then show ?thesis unfolding Accrue
    by (auto simp: one_year_def Let_def runForCompany_def leave_audit_def split: if_splits sum.splits)
qed (auto simp: one_year_def)

lemma leave_ok_year_run:
  "leave_ok s \<Longrightarrow> one_year s \<Longrightarrow> list_all within_year evs \<Longrightarrow> leave_ok (fold (leave_step dec) evs s)"
  by (induction evs arbitrary: s) (simp_all add: leave_ok_step one_year_step)

end

lemma leave_ok_start: "lv_balances s = [] \<Longrightarrow> lv_requests s = [] \<Longrightarrow> leave_ok s"
  by (simp add: leave_ok_def balances_ok_def in_range_def approved_days_def used_of_def find_balance_def tbl_find_def tbl_ids_def)

text \<open>
  C4: Used leave is approved leave. Starting without requests and balances, after any sequence of
  applications, approvals, rejections, cancellations, monthly accrual runs and changes of employees
  and leave types, the used days of every balance row (in hundredths) are the working days that the
  approved requests of that employee and type take from that year: the double arithmetic and the column
  lose nothing, and cancelling gives back exactly what approving took. This holds as long as the
  holidays stay as they are, or, with holidays that change at any time, as long as each application
  stays within one year. With both, it fails: leave over the turn of the year is split by the
  holidays of the moment (\<open>holiday_change_keeps_used_days\<close> below).
\<close>

theorem used_is_approved:
  assumes "decimal_column dec" and "lv_balances s = []" and "lv_requests s = []"
    and "list_all keeps_holidays evs \<or> list_all within_year evs"
    and "(i, b) \<in> set (lv_balances (fold (leave_step dec) evs s))"
  shows "lb_used b = 100 * approved_days (fold (leave_step dec) evs s) (lb_employeeId b) (lb_leaveTypeId b) (lb_year b)"
proof -
  have "one_year s" using assms(3) by (simp add: one_year_def)
  then have ok: "leave_ok (fold (leave_step dec) evs s)"
    using assms(4) decimal_column.leave_ok_run[OF assms(1) leave_ok_start[OF assms(2,3)]]
      decimal_column.leave_ok_year_run[OF assms(1) leave_ok_start[OF assms(2,3)]] by blast
  then have "find_balance (lb_employeeId b) (lb_leaveTypeId b) (lb_year b) (lv_balances (fold (leave_step dec) evs s)) = Some (i, b)"
    using assms(5) by (auto simp: leave_ok_def balances_ok_def)
  then have u: "used_of (lv_balances (fold (leave_step dec) evs s)) (lb_employeeId b) (lb_leaveTypeId b) (lb_year b) = Some (lb_used b)"
    by (simp add: used_of_def)
  have "case used_of (lv_balances (fold (leave_step dec) evs s)) (lb_employeeId b) (lb_leaveTypeId b) (lb_year b) of
      None \<Rightarrow> True | Some u \<Rightarrow> u = 100 * approved_days (fold (leave_step dec) evs s) (lb_employeeId b) (lb_leaveTypeId b) (lb_year b)"
    using ok by (auto simp: leave_ok_def split: option.splits)
  then show ?thesis using u by simp
qed

text \<open>A company with an employee, a monthly leave type of five days and empty tables.\<close>

definition leave_office :: leave_db where
  "leave_office =
     \<lparr>lv_holidays = \<lparr>hd_calendars = [], hd_holidays = []\<rparr>,
      lv_employees = [(''e1'', new_employee ''co'' (Some ''u1''))], lv_userNames = [(''u1'', (''Ann'', ''Lee''))],
      lv_types = [(''l1'', \<lparr>lt_companyId = ''co'', lt_name = ''Annual'', lt_code = ''AL'', lt_accrualType = MONTHLY,
         lt_accrualAmount = 500, lt_maxCarryForward = 500, lt_maxBalance = 800, lt_isPaid = True, lt_isActive = True\<rparr>)],
      lv_balances = [], lv_requests = [], lv_runs = [], lv_events = [], lv_audit = []\<rparr>"

text \<open>Two accrual runs, then a request for Monday and Tuesday the 5th and 6th of January 2026, approved.\<close>

definition leave_day :: "int \<Rightarrow> instant" where "leave_day d = date_UTC 2026 0 d"

definition leave_story :: "leave_event list" where
  "leave_story =
     [Accrue (\<lambda>e l y. ''b'' @ e @ l) ''co'' 1 2026, Accrue (\<lambda>e l y. ''b'' @ e @ l) ''co'' 2 2026,
      Apply (leave_day 1) ''r1'' ''e1'' ''co'' \<lparr>al_leaveTypeId = ''l1'', al_startDate = leave_day 5, al_endDate = leave_day 6, al_reason = None\<rparr>,
      ApproveLeave (leave_day 2) ''r1'' ''e1'' ''co'']"

theorem used_is_approved_witness:
  "\<exists>i b. (i, b) \<in> set (lv_balances (fold (leave_step dec_round) leave_story leave_office)) \<and> lb_used b = 200
     \<and> approved_days (fold (leave_step dec_round) leave_story leave_office) (lb_employeeId b) (lb_leaveTypeId b) (lb_year b) = 2"
proof -
  let ?b = "\<lparr>lb_employeeId = ''e1'', lb_leaveTypeId = ''l1'', lb_year = 2026, lb_entitled = 1000, lb_used = 200,
      lb_carriedForward = 0, lb_balance = 800\<rparr>"
  have m: "(''be1l1'', ?b) \<in> set (lv_balances (fold (leave_step dec_round) leave_story leave_office))" by code_simp
  have e: "lv_balances leave_office = []" "lv_requests leave_office = []" by code_simp+
  have k: "list_all keeps_holidays leave_story" by (simp add: leave_story_def)
  from used_is_approved[OF dec_round.decimal_column_axioms e disjI1[OF k] m]
  show ?thesis using m by (intro exI[of _ "''be1l1''"] exI[of _ ?b]) simp
qed

text \<open>
  Leave from the last day of 2026 to the first of 2027 is approved, then the last day of 2026 becomes a
  holiday, then the leave is cancelled: a used day of 2026 stays although no request is approved.
\<close>

definition year_end_story :: "leave_event list" where
  "year_end_story =
     [Accrue (\<lambda>e l y. ''a'' @ e @ l) ''co'' 11 2026, Accrue (\<lambda>e l y. ''b'' @ e @ l) ''co'' 1 2027,
      Apply (leave_day 1) ''r1'' ''e1'' ''co''
        \<lparr>al_leaveTypeId = ''l1'', al_startDate = leave_day 365, al_endDate = leave_day 366, al_reason = None\<rparr>,
      ApproveLeave (leave_day 2) ''r1'' ''e1'' ''co'',
      HolidayChange \<lparr>hd_calendars = [(''k'', \<lparr>hc_companyId = ''co'', hc_name = ''K'', hc_year = 2026, hc_isDefault = True\<rparr>)],
        hd_holidays = [(''h'', \<lparr>hl_calendarId = ''k'', hl_name = ''H'', hl_date = leave_day 365, hl_type = PUBLIC\<rparr>)]\<rparr>,
      CancelLeave (leave_day 3) ''r1'' ''e1'' ''co'']"

lemma holiday_change_keeps_used_days:
  "map (\<lambda>(i, b). (lb_year b, lb_used b)) (lv_balances (fold (leave_step dec_round) year_end_story leave_office)) = [(2026, 100), (2027, 0)]
   \<and> map (\<lambda>(i, r). lr_status r) (lv_requests (fold (leave_step dec_round) year_end_story leave_office)) = [CANCELLED]"
  by code_simp

section \<open>The life of a request\<close>

definition leave_status_of :: "leave_db \<Rightarrow> id \<Rightarrow> leave_status option" where
  "leave_status_of s i = map_option lr_status (tbl_get i (lv_requests s))"

inductive leave_edge :: "leave_status \<Rightarrow> leave_status \<Rightarrow> bool" where
  "leave_edge PENDING APPROVED"
| "leave_edge PENDING REJECTED"
| "leave_edge PENDING CANCELLED"
| "leave_edge APPROVED CANCELLED"

inductive_simps leave_edge_from [simp]:
  "leave_edge REJECTED b" "leave_edge CANCELLED b" "leave_edge APPROVED b" "leave_edge PENDING b"

lemma leave_status_accrual [simp]: "lv_requests (snd (runForCompany dec n co m y s)) = lv_requests s"
  by (auto simp: runForCompany_def leave_audit_def Let_def split: if_splits sum.splits)

lemma leave_status_step:
  "leave_status_of s i = Some a \<Longrightarrow> \<exists>b. leave_status_of (leave_step dec e s) i = Some b \<and> (b = a \<or> leave_edge a b)"
proof (cases e)
  case (Apply now n emp co dto)
  assume a: "leave_status_of s i = Some a"
  show ?thesis using a unfolding Apply
    by (auto simp: leave_status_of_def leave_apply_def Let_def leave_audit_def emit_leave_def tbl_get_insert
        split: sum.splits)
next
  case (ApproveLeave now j ap co)
  assume a: "leave_status_of s i = Some a"
  show ?thesis using a unfolding ApproveLeave
    by (auto simp: leave_status_of_def leave_approve_def leave_audit_def emit_leave_def split: option.splits sum.splits)
next
  case (RejectLeave now j ap co why)
  assume a: "leave_status_of s i = Some a"
  show ?thesis using a unfolding RejectLeave
    by (auto simp: leave_status_of_def leave_reject_def leave_audit_def emit_leave_def split: option.splits)
next
  case (CancelLeave now j emp co)
  assume a: "leave_status_of s i = Some a"
  show ?thesis using a unfolding CancelLeave
    by (auto simp: leave_status_of_def leave_cancel_def leave_audit_def emit_leave_def split: option.splits sum.splits if_splits)
next
  case (Accrue n co m y)
  assume a: "leave_status_of s i = Some a"
  then show ?thesis unfolding Accrue by (auto simp: leave_status_of_def Let_def)
qed (auto simp: leave_status_of_def)

interpretation leave_life: status_machine leave_status_of "leave_step dec" leave_edge for dec
  by unfold_locales (rule leave_status_step)

text \<open>
  The life of a leave request: once rejected or cancelled it stays so under every sequence of
  events, and one that is approved is later either still approved or cancelled, never pending or
  rejected again.
\<close>

lemma leave_request_life:
  assumes "leave_status_of s i = Some a"
  shows "(a \<in> {REJECTED, CANCELLED} \<longrightarrow> leave_status_of (fold (leave_step dec) evs s) i = Some a)
    \<and> (a = APPROVED \<longrightarrow> leave_status_of (fold (leave_step dec) evs s) i \<in> {Some APPROVED, Some CANCELLED})"
proof (intro conjI impI)
  show "leave_status_of (fold (leave_step dec) evs s) i = Some a" if "a \<in> {REJECTED, CANCELLED}"
    using leave_life.terminal_stays[OF _ assms] that by auto
  show "leave_status_of (fold (leave_step dec) evs s) i \<in> {Some APPROVED, Some CANCELLED}" if "a = APPROVED"
    using leave_life.closed_stays[where A = "{APPROVED, CANCELLED}" and es = evs and dec = dec, OF _ assms] that
    by (auto elim: leave_edge.cases)
qed

section \<open>Approving and cancelling\<close>

lemma approve_single_year:
  assumes "leave_approve dec now i a co s = (Inr (), t)" and "tbl_get i (lv_requests s) = Some r"
    and "getUTCFullYear (lr_startDate r) = getUTCFullYear (lr_endDate r)"
  shows "deductBalance dec (lr_employeeId r) (lr_leaveTypeId r) (getUTCFullYear (lr_endDate r)) (lr_totalDays r) (lv_balances s)
      = Inr (lv_balances t)"
    and "lv_requests t = tbl_update i (\<lambda>r. r\<lparr>lr_status := APPROVED, lr_reviewedById := Some a, lr_reviewedAt := Some now\<rparr>) (lv_requests s)"
  using assms by (auto simp: leave_approve_def leave_audit_def emit_leave_def year_parts_def Let_def split: option.splits if_splits sum.splits)

lemma cancel_single_year:
  assumes "leave_cancel dec now i e co s = (Inr (), t)" and "tbl_get i (lv_requests s) = Some r" and "lr_status r = APPROVED"
    and "getUTCFullYear (lr_startDate r) = getUTCFullYear (lr_endDate r)"
  shows "restoreBalance dec (lr_employeeId r) (lr_leaveTypeId r) (getUTCFullYear (lr_endDate r)) (lr_totalDays r) (lv_balances s)
      = Inr (lv_balances t)"
  using assms by (auto simp: leave_cancel_def leave_audit_def emit_leave_def year_parts_def Let_def split: option.splits if_splits sum.splits)

lemma find_balance_get: "distinct (tbl_ids t) \<Longrightarrow> find_balance e l y t = Some (j, b) \<Longrightarrow> tbl_get j t = Some b"
  by (auto simp: tbl_get_def tbl_ids_def dest!: find_balance_mem)

context decimal_column
begin

lemma deduct_restore:
  assumes "balances_ok t" and "find_balance e l y t = Some (j, b)" and "0 \<le> lb_used b" and "0 \<le> d" and "d \<le> 99999"
    and "deductBalance dec e l y d t = Inr t1" and "restoreBalance dec e l y d t1 = Inr t2"
  shows "find_balance e l y t2 = Some (j, b\<lparr>lb_balance := lb_carriedForward b + lb_entitled b - lb_used b\<rparr>)"
proof -
  have r: "in_range t" using assms(1) by (simp add: balances_ok_def)
  let ?n = "lb_carriedForward b + lb_entitled b - (lb_used b + 100 * d)"
  let ?f = "\<lambda>r. r\<lparr>lb_used := lb_used b + 100 * d, lb_balance := ?n\<rparr>"
  obtain j' b' where "find_balance e l y t = Some (j', b')"
    "t1 = tbl_update j' (\<lambda>r. r\<lparr>lb_used := lb_used b' + 100 * d,
        lb_balance := lb_carriedForward b' + lb_entitled b' - (lb_used b' + 100 * d)\<rparr>) t"
    using deduct_exact[OF assms(6) r assms(4,5)] by metis
  then have t1: "t1 = tbl_update j ?f t" using assms(2) by simp
  have b1: "find_balance e l y t1 = Some (j, ?f b)"
    unfolding t1 using assms(2) by (simp add: find_balance_update same_key_used)
  have "in_range t1" using deduct_step[OF assms(6,1,4,5)] by (simp add: balances_ok_def)
  from restore_exact[OF assms(7) this assms(4,5) b1] obtain n where
    t2: "t2 = tbl_update j (\<lambda>r. r\<lparr>lb_used := lb_used b, lb_balance := n\<rparr>) t1" "n = lb_carriedForward b + lb_entitled b - lb_used b"
    using assms(3) by simp
  show ?thesis unfolding t2(1) using b1 t2(2) by (cases b) (simp add: find_balance_update same_key_used)
qed

end

text \<open>
  Approving a request and cancelling it again gives back the used days but not the balance: the
  row ends with the balance computed afresh from its carried, entitled and used days, so a balance
  that an accrual run had capped at the maximum of the type comes back above that maximum.
\<close>

lemma cancel_recomputes_balance:
  assumes "decimal_column dec" and "balances_ok (lv_balances s)"
    and "tbl_get i (lv_requests s) = Some r" and "request_ok r"
    and "getUTCFullYear (lr_startDate r) = getUTCFullYear (lr_endDate r)"
    and "find_balance (lr_employeeId r) (lr_leaveTypeId r) (getUTCFullYear (lr_endDate r)) (lv_balances s) = Some (j, b)"
    and "0 \<le> lb_used b"
    and "leave_approve dec now i a co s = (Inr (), s1)" and "leave_cancel dec now' i emp co s1 = (Inr (), s2)"
  shows "find_balance (lr_employeeId r) (lr_leaveTypeId r) (getUTCFullYear (lr_endDate r)) (lv_balances s2)
    = Some (j, b\<lparr>lb_balance := lb_carriedForward b + lb_entitled b - lb_used b\<rparr>)"
proof -
  note a = approve_single_year[OF assms(8,3,5)]
  have r1: "tbl_get i (lv_requests s1) = Some (r\<lparr>lr_status := APPROVED, lr_reviewedById := Some a, lr_reviewedAt := Some now\<rparr>)"
    unfolding a(2) using assms(3) by simp
  from cancel_single_year[OF assms(9) r1] assms(5)
  have c: "restoreBalance dec (lr_employeeId r) (lr_leaveTypeId r) (getUTCFullYear (lr_endDate r)) (lr_totalDays r) (lv_balances s1)
      = Inr (lv_balances s2)" by simp
  show ?thesis
    using decimal_column.deduct_restore[OF assms(1,2,6,7) _ _ a(1) c] assms(4) by (simp add: request_ok_def)
qed

text \<open>The same office before the request of the story is approved: eight days, capped from ten.\<close>

end
