(* ===== verification/Leave_Admin.thy ===== *)
theory Leave_Admin
  imports Leave
begin

text \<open>
  The types of leave (\<^verbatim>\<open>leave/services/leave-type.service.ts\<close>), the team calendar
  (\<^verbatim>\<open>leave-calendar.service.ts\<close>) and what a monthly accrual credits. The lemmas show that the
  calendar built day by day lists on each day exactly the requests that cover it, that an accrual outside
  the month of hire and December adds the amount of the type to the hundredth, and that it does not look at the accrual type.
\<close>

section \<open>Types of leave\<close>

record leave_type_dto =
  ld_name :: string
  ld_code :: string
  ld_accrualType :: accrual_type
  ld_accrualAmount :: jsnum
  ld_maxCarryForward :: jsnum
  ld_maxBalance :: jsnum
  ld_isPaid :: bool
  ld_isActive :: bool

record leave_type_patch =
  lp_name :: "string option"
  lp_code :: "string option"
  lp_accrualType :: "accrual_type option"
  lp_accrualAmount :: "jsnum option"
  lp_maxCarryForward :: "jsnum option"
  lp_maxBalance :: "jsnum option"
  lp_isPaid :: "bool option"
  lp_isActive :: "bool option"

text \<open>What a row has to satisfy to be stored: the lengths and digits of the columns, the unique code.\<close>

definition leave_type_fits :: "id \<Rightarrow> leave_type_row \<Rightarrow> leave_type_row table \<Rightarrow> bool" where
  "leave_type_fits i r t \<longleftrightarrow>
     length (lt_name r) \<le> 100 \<and> length (lt_code r) \<le> 20 \<and> \<bar>lt_accrualAmount r\<bar> \<le> 99999
     \<and> \<bar>lt_maxCarryForward r\<bar> \<le> 99999 \<and> \<bar>lt_maxBalance r\<bar> \<le> 99999
     \<and> tbl_find (\<lambda>j q. j \<noteq> i \<and> lt_companyId q = lt_companyId r \<and> lt_code q = lt_code r) t = None"

definition create_leave_type ::
    "(jsnum \<Rightarrow> int) \<Rightarrow> id \<Rightarrow> id \<Rightarrow> leave_type_dto \<Rightarrow> leave_db \<Rightarrow> (leave_db, id) outcome" where
  "create_leave_type dec newId companyId dto s =
     (if tbl_find (\<lambda>i r. lt_companyId r = companyId \<and> lt_code r = ld_code dto) (lv_types s) \<noteq> None
      then (Inl (ConflictError ''Leave type code already exists for this company''), s)
      else
        (let r = \<lparr>lt_companyId = companyId, lt_name = ld_name dto, lt_code = ld_code dto,
                  lt_accrualType = ld_accrualType dto, lt_accrualAmount = dec (ld_accrualAmount dto),
                  lt_maxCarryForward = dec (ld_maxCarryForward dto), lt_maxBalance = dec (ld_maxBalance dto),
                  lt_isPaid = ld_isPaid dto, lt_isActive = ld_isActive dto\<rparr>
         in if leave_type_fits newId r (lv_types s) then (Inr newId, s\<lparr>lv_types := tbl_insert newId r (lv_types s)\<rparr>)
            else (Inl (DatabaseError ''leave_types''), s)))"

definition leave_type_findOneOrFail :: "id \<Rightarrow> id \<Rightarrow> leave_db \<Rightarrow> app_error + leave_type_row" where
  "leave_type_findOneOrFail i companyId s =
     (case tbl_get_where i (\<lambda>r. lt_companyId r = companyId) (lv_types s) of
        None \<Rightarrow> Inl (NotFoundError ''Leave type not found'')
      | Some r \<Rightarrow> Inr r)"

definition patch_or :: "'a option \<Rightarrow> 'a \<Rightarrow> 'a" where
  "patch_or p old = (case p of None \<Rightarrow> old | Some x \<Rightarrow> x)"

definition patch_leave_type :: "(jsnum \<Rightarrow> int) \<Rightarrow> leave_type_patch \<Rightarrow> leave_type_row \<Rightarrow> leave_type_row" where
  "patch_leave_type dec dto r =
     r\<lparr>lt_name := patch_or (lp_name dto) (lt_name r), lt_code := patch_or (lp_code dto) (lt_code r),
       lt_accrualType := patch_or (lp_accrualType dto) (lt_accrualType r),
       lt_accrualAmount := patch_or (map_option dec (lp_accrualAmount dto)) (lt_accrualAmount r),
       lt_maxCarryForward := patch_or (map_option dec (lp_maxCarryForward dto)) (lt_maxCarryForward r),
       lt_maxBalance := patch_or (map_option dec (lp_maxBalance dto)) (lt_maxBalance r),
       lt_isPaid := patch_or (lp_isPaid dto) (lt_isPaid r), lt_isActive := patch_or (lp_isActive dto) (lt_isActive r)\<rparr>"

text \<open>The code is looked up only when it is given, not empty and changes.\<close>

definition update_leave_type ::
    "(jsnum \<Rightarrow> int) \<Rightarrow> id \<Rightarrow> id \<Rightarrow> leave_type_patch \<Rightarrow> leave_db \<Rightarrow> (leave_db, unit) outcome" where
  "update_leave_type dec i companyId dto s =
     (case leave_type_findOneOrFail i companyId s of
        Inl e \<Rightarrow> (Inl e, s)
      | Inr r \<Rightarrow>
          (let taken = (case lp_code dto of
                 None \<Rightarrow> False
               | Some c \<Rightarrow> c \<noteq> [] \<and> c \<noteq> lt_code r
                   \<and> tbl_find (\<lambda>j q. lt_companyId q = companyId \<and> lt_code q = c \<and> j \<noteq> i) (lv_types s) \<noteq> None)
           in if taken then (Inl (ConflictError ''Leave type code already exists for this company''), s)
              else if leave_type_fits i (patch_leave_type dec dto r) (lv_types s)
              then (Inr (), s\<lparr>lv_types := tbl_update i (patch_leave_type dec dto) (lv_types s)\<rparr>)
              else (Inl (DatabaseError ''leave_types''), s)))"

definition soft_delete_leave_type :: "id \<Rightarrow> id \<Rightarrow> leave_db \<Rightarrow> (leave_db, unit) outcome" where
  "soft_delete_leave_type i companyId s =
     (case leave_type_findOneOrFail i companyId s of
        Inl e \<Rightarrow> (Inl e, s)
      | Inr _ \<Rightarrow>
          if 0 < tbl_count (\<lambda>j r. lr_leaveTypeId r = i \<and> lr_status r \<in> {PENDING, APPROVED}) (lv_requests s)
          then (Inl (BadRequestError ''Cannot delete leave type with pending or approved leave requests''), s)
          else (Inr (), s\<lparr>lv_types := tbl_update i (\<lambda>r. r\<lparr>lt_isActive := False\<rparr>) (lv_types s)\<rparr>))"

text \<open>The listing is ordered by code; the order of strings is the one of the database, a parameter.\<close>

definition findAll_leave_types :: "(string \<Rightarrow> 'k::linorder) \<Rightarrow> id \<Rightarrow> leave_db \<Rightarrow> (id \<times> leave_type_row) list" where
  "findAll_leave_types key companyId s =
     sort_key (\<lambda>(i, r). key (lt_code r)) (tbl_all (\<lambda>i r. lt_companyId r = companyId \<and> lt_isActive r) (lv_types s))"

definition findActiveByCompany :: "id \<Rightarrow> leave_db \<Rightarrow> (id \<times> leave_type_row) list" where
  "findActiveByCompany companyId s =
     tbl_all (\<lambda>i r. lt_companyId r = companyId \<and> lt_isActive r \<and> lt_accrualType r \<noteq> NONE) (lv_types s)"

section \<open>The calendar\<close>

record calendar_leave =
  cv_employeeId :: id
  cv_employeeName :: string
  cv_leaveType :: string
  cv_status :: string

record calendar_day =
  cy_isHoliday :: bool
  cy_holidayName :: "string option"
  cy_leaves :: "calendar_leave list"

text \<open>The map of days, keyed by the day; \<^verbatim>\<open>toISOString\<close> names different days differently.\<close>

type_synonym days_map = "(int \<times> calendar_day) list"

definition day_change :: "int \<Rightarrow> (calendar_day \<Rightarrow> calendar_day) \<Rightarrow> days_map \<Rightarrow> days_map" where
  "day_change d f m = map (\<lambda>(e, x). (e, if e = d then f x else x)) m"

definition empty_day :: calendar_day where
  "empty_day = \<lparr>cy_isHoliday = False, cy_holidayName = None, cy_leaves = []\<rparr>"

definition mark_holiday :: "holiday_row \<Rightarrow> days_map \<Rightarrow> days_map" where
  "mark_holiday h = day_change (day_of (hl_date h)) (\<lambda>x. x\<lparr>cy_isHoliday := True, cy_holidayName := Some (hl_name h)\<rparr>)"

text \<open>Requests join their employee and type; the name falls back to the work email.\<close>

definition calendar_entry :: "leave_db \<Rightarrow> leave_request_row \<Rightarrow> calendar_leave" where
  "calendar_entry s r =
     \<lparr>cv_employeeId = lr_employeeId r,
      cv_employeeName = (case tbl_get (lr_employeeId r) (lv_employees s) of
          None \<Rightarrow> []
        | Some e \<Rightarrow> (case Option.bind (em_userId e) (\<lambda>u. tbl_get u (lv_userNames s)) of
              None \<Rightarrow> em_workEmail e
            | Some (f, l) \<Rightarrow> f @ '' '' @ l)),
      cv_leaveType = (case tbl_get (lr_leaveTypeId r) (lv_types s) of None \<Rightarrow> [] | Some t \<Rightarrow> lt_name t),
      cv_status = (if lr_status r = APPROVED then ''approved'' else ''pending'')\<rparr>"

definition add_leave :: "leave_db \<Rightarrow> leave_request_row \<Rightarrow> days_map \<Rightarrow> days_map" where
  "add_leave s r m =
     fold (\<lambda>current. day_change (day_of current) (\<lambda>x. x\<lparr>cy_leaves := cy_leaves x @ [calendar_entry s r]\<rparr>))
       (each_day (lr_startDate r) (lr_endDate r)) m"

definition calendar_requests :: "id \<Rightarrow> instant \<Rightarrow> instant \<Rightarrow> id option \<Rightarrow> leave_db \<Rightarrow> leave_request_row list" where
  "calendar_requests companyId startDate endDate departmentId s =
     sort_key lr_startDate (map snd (tbl_all
       (\<lambda>i r. lr_companyId r = companyId \<and> lr_status r \<in> {APPROVED, PENDING}
          \<and> lr_startDate r \<le> utc_midnight endDate \<and> utc_midnight startDate \<le> lr_endDate r
          \<and> (case departmentId of None \<Rightarrow> True
             | Some d \<Rightarrow> (case tbl_get (lr_employeeId r) (lv_employees s) of
                            None \<Rightarrow> False | Some e \<Rightarrow> em_departmentId e = Some d))) (lv_requests s)))"

definition getCalendar :: "id \<Rightarrow> instant \<Rightarrow> instant \<Rightarrow> id option \<Rightarrow> leave_db \<Rightarrow> days_map" where
  "getCalendar companyId startDate endDate departmentId s =
     (let leaveRequests = calendar_requests companyId startDate endDate departmentId s;
          holidays = getHolidaysInRange companyId startDate endDate (lv_holidays s);
          daysMap = map (\<lambda>current. (day_of current, empty_day)) (each_day startDate endDate)
      in fold (add_leave s) leaveRequests (fold mark_holiday holidays daysMap))"

lemma day_change_map: "day_change d f (map (\<lambda>(e, x). (e, g e x)) m) = map (\<lambda>(e, x). (e, if e = d then f (g e x) else g e x)) m"
  by (induction m) (auto simp: day_change_def)

lemma fold_day_change:
  "fold (\<lambda>c. day_change (day_of c) f) cs m = map (\<lambda>(e, x). (e, (f ^^ count_list (map day_of cs) e) x)) m"
proof (induction cs arbitrary: m)
  case (Cons c cs)
  have "fold (\<lambda>c. day_change (day_of c) f) (c # cs) m
      = map (\<lambda>(e, x). (e, (f ^^ count_list (map day_of cs) e) x)) (day_change (day_of c) f m)"
    using Cons.IH by simp
  also have "\<dots> = map (\<lambda>(e, x). (e, (f ^^ count_list (map day_of (c # cs)) e) x)) m"
    by (auto simp: day_change_def funpow_swap1)
  finally show ?case .
qed (simp add: case_prod_unfold)

lemma count_list_upto: "count_list [a..b] e = (if a \<le> e \<and> e \<le> b then 1 else 0)" for a b e :: int
proof (induction "nat (b - a + 1)" arbitrary: a)
  case (Suc n)
  then have ab: "a \<le> b" and IH: "count_list [a + 1..b] e = (if a + 1 \<le> e \<and> e \<le> b then 1 else 0)" by simp_all
  show ?case unfolding upto_rec1[OF ab] using IH ab by auto
qed simp

lemma date_row_days:
  assumes "u = utc_midnight u" and "v = utc_midnight v"
  shows "map day_of (each_day u v) = [day_of u..day_of v]"
  using map_day_of_each_day[of "day_of u" "day_of v"] assms unfolding utc_midnight_def day_of_def by metis

definition covers :: "int \<Rightarrow> leave_request_row \<Rightarrow> bool" where
  "covers d r \<longleftrightarrow> day_of (lr_startDate r) \<le> d \<and> d \<le> day_of (lr_endDate r)"

text \<open>Dates are stored without a time.\<close>

definition date_columns :: "leave_request_row table \<Rightarrow> bool" where
  "date_columns t = list_all (\<lambda>(i, r). lr_startDate r = utc_midnight (lr_startDate r) \<and> lr_endDate r = utc_midnight (lr_endDate r)) t"

lemma add_leave_map:
  assumes "lr_startDate r = utc_midnight (lr_startDate r)" and "lr_endDate r = utc_midnight (lr_endDate r)"
  shows "add_leave s r m = map (\<lambda>(e, x). (e, if covers e r then x\<lparr>cy_leaves := cy_leaves x @ [calendar_entry s r]\<rparr> else x)) m"
  unfolding add_leave_def fold_day_change date_row_days[OF assms] count_list_upto covers_def
  by (rule map_cong) auto

lemma fold_add_leave:
  assumes "\<forall>r \<in> set rs. lr_startDate r = utc_midnight (lr_startDate r) \<and> lr_endDate r = utc_midnight (lr_endDate r)"
  shows "fold (add_leave s) rs m =
    map (\<lambda>(e, x). (e, x\<lparr>cy_leaves := cy_leaves x @ map (calendar_entry s) (filter (covers e) rs)\<rparr>)) m"
  using assms
proof (induction rs arbitrary: m)
  case (Cons r rs)
  then have r: "lr_startDate r = utc_midnight (lr_startDate r)" "lr_endDate r = utc_midnight (lr_endDate r)" by auto
  have "fold (add_leave s) (r # rs) m
      = map (\<lambda>(e, x). (e, x\<lparr>cy_leaves := cy_leaves x @ map (calendar_entry s) (filter (covers e) rs)\<rparr>)) (add_leave s r m)"
    using Cons by simp
  also have "\<dots> = map (\<lambda>(e, x). (e, x\<lparr>cy_leaves := cy_leaves x @ map (calendar_entry s) (filter (covers e) (r # rs))\<rparr>)) m"
    unfolding add_leave_map[OF r] by (induction m) auto
  finally show ?case .
qed (simp add: case_prod_unfold)

lemma mark_holiday_keys: "map fst (mark_holiday h m) = map fst m"
  by (induction m) (auto simp: mark_holiday_def day_change_def)

lemma mark_holiday_row:
  assumes "(d, x) \<in> set (mark_holiday h m)"
  shows "\<exists>y. (d, y) \<in> set m \<and> cy_leaves x = cy_leaves y \<and> (cy_isHoliday x \<longleftrightarrow> cy_isHoliday y \<or> day_of (hl_date h) = d)"
  using assms by (auto simp: mark_holiday_def day_change_def split: if_splits)

lemma fold_mark_holiday_keys: "map fst (fold mark_holiday hs m) = map fst m"
  by (induction hs arbitrary: m) (simp_all add: mark_holiday_keys)

lemma fold_mark_holiday:
  "(d, x) \<in> set (fold mark_holiday hs m) \<Longrightarrow> \<exists>y. (d, y) \<in> set m \<and> cy_leaves x = cy_leaves y
     \<and> (cy_isHoliday x \<longleftrightarrow> cy_isHoliday y \<or> (\<exists>h \<in> set hs. day_of (hl_date h) = d))"
proof (induction hs arbitrary: m)
  case (Cons h hs)
  from Cons.IH[of "mark_holiday h m"] Cons.prems obtain y where y: "(d, y) \<in> set (mark_holiday h m)" "cy_leaves x = cy_leaves y"
    "cy_isHoliday x \<longleftrightarrow> cy_isHoliday y \<or> (\<exists>h \<in> set hs. day_of (hl_date h) = d)" by auto
  from mark_holiday_row[OF y(1)] y(2,3) show ?case by auto
qed auto

text \<open>
  The calendar is complete and exact: it has one entry for each day of the range, in order; the
  leaves of a day are the entries of exactly the pending and approved requests that cover it, in the
  order of their start, and the day is marked as a holiday exactly when a holiday of the range falls
  on it.
\<close>

lemma calendar_complete:
  assumes "date_columns (lv_requests s)"
  shows "map fst (getCalendar companyId startDate endDate dept s) = map day_of (each_day startDate endDate)
    \<and> (\<forall>(d, x) \<in> set (getCalendar companyId startDate endDate dept s).
         cy_leaves x = map (calendar_entry s) (filter (covers d) (calendar_requests companyId startDate endDate dept s))
         \<and> (cy_isHoliday x \<longleftrightarrow> (\<exists>h \<in> set (getHolidaysInRange companyId startDate endDate (lv_holidays s)). day_of (hl_date h) = d)))"
proof -
  let ?m = "map (\<lambda>current. (day_of current, empty_day)) (each_day startDate endDate)"
  let ?h = "fold mark_holiday (getHolidaysInRange companyId startDate endDate (lv_holidays s)) ?m"
  have "\<forall>r \<in> set (calendar_requests companyId startDate endDate dept s).
      lr_startDate r = utc_midnight (lr_startDate r) \<and> lr_endDate r = utc_midnight (lr_endDate r)"
    using assms by (auto simp: calendar_requests_def tbl_all_def date_columns_def list_all_iff)
  from fold_add_leave[OF this] have c: "getCalendar companyId startDate endDate dept s
      = map (\<lambda>(e, x). (e, x\<lparr>cy_leaves := cy_leaves x
          @ map (calendar_entry s) (filter (covers e) (calendar_requests companyId startDate endDate dept s))\<rparr>)) ?h"
    by (simp add: getCalendar_def Let_def)
  have "map fst (getCalendar companyId startDate endDate dept s) = map fst ?h"
    unfolding c by (simp add: case_prod_unfold)
  moreover have "map fst ?h = map day_of (each_day startDate endDate)" unfolding fold_mark_holiday_keys by simp
  moreover have "cy_leaves x = map (calendar_entry s) (filter (covers d) (calendar_requests companyId startDate endDate dept s))
      \<and> (cy_isHoliday x \<longleftrightarrow> (\<exists>h \<in> set (getHolidaysInRange companyId startDate endDate (lv_holidays s)). day_of (hl_date h) = d))"
    if "(d, x) \<in> set (getCalendar companyId startDate endDate dept s)" for d x
  proof -
    from that obtain y where y: "(d, y) \<in> set ?h" "cy_isHoliday x = cy_isHoliday y"
      "cy_leaves x = cy_leaves y @ map (calendar_entry s) (filter (covers d) (calendar_requests companyId startDate endDate dept s))"
      unfolding c by auto
    from fold_mark_holiday[OF y(1)] show ?thesis unfolding y(2,3) by (auto simp: empty_day_def)
  qed
  ultimately show ?thesis by auto
qed

section \<open>Accrual\<close>

lemma near_less:
  assumes "near x a e" and "near y b f" and "e + f < 1 / 100"
  shows "js_lt x y \<Longrightarrow> a \<le> b" and "\<not> js_lt x y \<Longrightarrow> b \<le> a"
proof -
  obtain q r where q: "x = Fin q" "\<bar>q - of_int a / 100\<bar> \<le> e" and r: "y = Fin r" "\<bar>r - of_int b / 100\<bar> \<le> f"
    using assms(1,2) by (auto simp: near_def)
  show "a \<le> b" if "js_lt x y"
  proof (rule ccontr)
    assume "\<not> a \<le> b"
    then have "of_int b + 1 \<le> (of_int a :: rat)" by (metis int_one_le_iff_zero_less linorder_not_le of_int_1 of_int_add of_int_le_iff zless_imp_add1_zle)
    then show False using that q r assms(3) by (simp add: abs_le_iff)
  qed
  show "b \<le> a" if "\<not> js_lt x y"
  proof (rule ccontr)
    assume "\<not> b \<le> a"
    then have "of_int a + 1 \<le> (of_int b :: rat)" by (metis linorder_not_le of_int_1 of_int_add of_int_le_iff zless_imp_add1_zle)
    then show False using that q r assms(3) by (simp add: abs_le_iff)
  qed
qed

text \<open>The cap of a type in hundredths; zero means no cap.\<close>

definition capped :: "int \<Rightarrow> int \<Rightarrow> int" where
  "capped m b = (if 0 < m then min m b else b)"

context decimal_column
begin

lemma dec_clamp:
  assumes "near x b (1 / 2 ^ 25)" and "\<bar>m\<bar> \<le> 99999"
  shows "dec (clamp_max m x) = capped m b"
proof -
  have m: "near (cents m) m (1 / 2 ^ 30)" using assms(2) by (intro near_cents) simp
  have d: "dec x = b" "dec (cents m) = m" using dec_of_near[OF assms(1)] dec_of_near[OF m] by simp_all
  show ?thesis
  proof (cases "js_lt (cents m) x")
    case True
    then have "m \<le> b" using near_less(1)[OF m assms(1)] by simp
    then show ?thesis using True d by (simp add: clamp_max_def capped_def)
  next
    case False
    then have "b \<le> m" using near_less(2)[OF m assms(1)] by simp
    then show ?thesis using False d by (simp add: clamp_max_def capped_def)
  qed
qed

lemma credit_exact:
  assumes "find_balance e l y t = Some (i, b)" and "row_in_range b" and "\<bar>a\<bar> \<le> 99999" and "\<bar>lt_maxBalance lt\<bar> \<le> 99999"
    and "\<bar>lb_entitled b + a\<bar> \<le> 999999"
    and "\<bar>capped (lt_maxBalance lt) (lb_carriedForward b + (lb_entitled b + a) - lb_used b)\<bar> \<le> 999999"
  shows "credit_balance dec n e l lt y (cents a) t = Inr (tbl_update i (\<lambda>r. r\<lparr>lb_entitled := lb_entitled b + a,
      lb_balance := capped (lt_maxBalance lt) (lb_carriedForward b + (lb_entitled b + a) - lb_used b)\<rparr>) t)"
proof -
  have r: "\<bar>lb_carriedForward b\<bar> \<le> 2 ^ 26" "\<bar>lb_entitled b\<bar> \<le> 2 ^ 26" "\<bar>lb_used b\<bar> \<le> 2 ^ 26"
    "\<bar>a\<bar> \<le> 2 ^ 26" "\<bar>lb_entitled b + a\<bar> \<le> 2 ^ 26" "\<bar>lb_carriedForward b + (lb_entitled b + a)\<bar> \<le> 2 ^ 26"
    using assms(2,3,5) by (auto simp: row_in_range_def)
  let ?e = "js_add (cents (lb_entitled b)) (cents a)"
  have e: "near ?e (lb_entitled b + a) (1 / 2 ^ 30 + 1 / 2 ^ 30 + 1 / 2 ^ 30)"
    by (rule near_add[OF near_cents[OF r(2)] near_cents[OF r(4)] r(2,4)]) simp_all
  then have e': "near ?e (lb_entitled b + a) (1 / 2 ^ 28)" by (rule near_weaken) simp
  have "near (js_add (cents (lb_carriedForward b)) ?e) (lb_carriedForward b + (lb_entitled b + a)) (1 / 2 ^ 30 + 1 / 2 ^ 28 + 1 / 2 ^ 30)"
    by (rule near_add[OF near_cents[OF r(1)] e' r(1,5)]) simp_all
  from near_sub[OF this near_cents[OF r(3)] r(6,3)]
  have "near (js_sub (js_add (cents (lb_carriedForward b)) ?e) (cents (lb_used b)))
      (lb_carriedForward b + (lb_entitled b + a) - lb_used b) (1 / 2 ^ 30 + 1 / 2 ^ 28 + 1 / 2 ^ 30 + 1 / 2 ^ 30 + 1 / 2 ^ 30)"
    by simp
  then have n: "near (js_sub (js_add (cents (lb_carriedForward b)) ?e) (cents (lb_used b)))
      (lb_carriedForward b + (lb_entitled b + a) - lb_used b) (1 / 2 ^ 25)" by (rule near_weaken) simp
  show ?thesis
    using assms(1,5,6) dec_of_near[OF e'] dec_clamp[OF n assms(4)]
    by (simp add: credit_balance_def Let_def to_column_def)
qed

end

lemma credit_of_earlier_hire:
  assumes "getUTCFullYear h < y \<or> (getUTCFullYear h = y \<and> getUTCMonth h + 1 < m)"
  shows "accrual_credit h a m y = Some (cents a)"
  using assms by (auto simp: accrual_credit_def Let_def)

lemma credit_of_later_hire:
  assumes "y < getUTCFullYear h \<or> (getUTCFullYear h = y \<and> m < getUTCMonth h + 1)"
  shows "accrual_credit h a m y = None"
  using assms by (auto simp: accrual_credit_def Let_def)

lemma abs_capped: "\<bar>a\<bar> \<le> 99999 \<Longrightarrow> \<bar>m\<bar> \<le> 99999 \<Longrightarrow> \<bar>capped m a\<bar> \<le> 999999"
  by (auto simp: capped_def)

lemma credit_new_exact:
  assumes "decimal_column dec" and "find_balance e l y t = None" and "\<bar>a\<bar> \<le> 99999" and "\<bar>lt_maxBalance lt\<bar> \<le> 99999"
  shows "credit_balance dec n e l lt y (cents a) t = Inr (tbl_insert n (new_balance_row e l y a 0 (capped (lt_maxBalance lt) a)) t)"
proof -
  have c: "near (cents a) a (1 / 2 ^ 30)" using assms(3) by (intro near_cents) simp
  have "near (cents a) a (1 / 2 ^ 25)" by (rule near_weaken[OF c]) simp
  then have "dec (clamp_max (lt_maxBalance lt) (cents a)) = capped (lt_maxBalance lt) a"
    using decimal_column.dec_clamp[OF assms(1) _ assms(4)] by simp
  moreover have "dec (cents a) = a" using decimal_column.dec_of_near[OF assms(1) c] by simp
  ultimately show ?thesis using assms(2,3) abs_capped[OF assms(3,4)] by (simp add: credit_balance_def to_column_def)
qed

text \<open>
  C32: A monthly accrual of a month other than December is exact, outside the month of hire. Before the
  month of hire nothing changes. For an employee hired earlier, the amount of the type is added to the
  entitled days to the hundredth, and the balance becomes carried plus entitled minus used days, capped
  at the maximum of the type when it has one; without a balance row of the year one is made with the amount
  as its entitled days and the capped amount as its balance. No error of the double arithmetic remains,
  also at the cap, as long as the results fit the columns. In the month of hire the code adds a part of the amount (\<open>accrual_credit\<close>), and in December it
  carries days to the next year; neither is stated here.
\<close>

theorem accrual_month_exact:
  fixes emp :: "id \<times> employee_row" and lt :: "id \<times> leave_type_row"
  assumes "decimal_column dec" and "month \<noteq> 12"
    and "\<bar>lt_accrualAmount (snd lt)\<bar> \<le> 99999" and "\<bar>lt_maxBalance (snd lt)\<bar> \<le> 99999"
  defines "hired \<equiv> em_joinedAt (snd emp)" and "amount \<equiv> lt_accrualAmount (snd lt)" and "cap \<equiv> capped (lt_maxBalance (snd lt))"
  shows "(year < getUTCFullYear hired \<or> (getUTCFullYear hired = year \<and> month < getUTCMonth hired + 1) \<longrightarrow>
      processAccrual dec newId emp lt month year t = Inr t)
    \<and> (getUTCFullYear hired < year \<or> (getUTCFullYear hired = year \<and> getUTCMonth hired + 1 < month) \<longrightarrow>
      (case find_balance (fst emp) (fst lt) year t of
         None \<Rightarrow> processAccrual dec newId emp lt month year t
           = Inr (tbl_insert (newId (fst emp) (fst lt) year) (new_balance_row (fst emp) (fst lt) year amount 0 (cap amount)) t)
       | Some (i, b) \<Rightarrow> row_in_range b \<and> \<bar>lb_entitled b + amount\<bar> \<le> 999999
             \<and> \<bar>cap (lb_carriedForward b + (lb_entitled b + amount) - lb_used b)\<bar> \<le> 999999 \<longrightarrow>
           processAccrual dec newId emp lt month year t
             = Inr (tbl_update i (\<lambda>r. r\<lparr>lb_entitled := lb_entitled b + amount,
                 lb_balance := cap (lb_carriedForward b + (lb_entitled b + amount) - lb_used b)\<rparr>) t)))"
proof (intro conjI impI)
  assume "year < getUTCFullYear hired \<or> (getUTCFullYear hired = year \<and> month < getUTCMonth hired + 1)"
  then show "processAccrual dec newId emp lt month year t = Inr t"
    unfolding hired_def by (simp add: processAccrual_def credit_of_later_hire)
next
  assume "getUTCFullYear hired < year \<or> (getUTCFullYear hired = year \<and> getUTCMonth hired + 1 < month)"
  then have p: "processAccrual dec newId emp lt month year t
      = credit_balance dec (newId (fst emp) (fst lt) year) (fst emp) (fst lt) (snd lt) year (cents amount) t"
    unfolding hired_def amount_def using credit_of_earlier_hire assms(2) by (simp add: processAccrual_def split: sum.split)
  show "case find_balance (fst emp) (fst lt) year t of
         None \<Rightarrow> processAccrual dec newId emp lt month year t
           = Inr (tbl_insert (newId (fst emp) (fst lt) year) (new_balance_row (fst emp) (fst lt) year amount 0 (cap amount)) t)
       | Some (i, b) \<Rightarrow> row_in_range b \<and> \<bar>lb_entitled b + amount\<bar> \<le> 999999
             \<and> \<bar>cap (lb_carriedForward b + (lb_entitled b + amount) - lb_used b)\<bar> \<le> 999999 \<longrightarrow>
           processAccrual dec newId emp lt month year t
             = Inr (tbl_update i (\<lambda>r. r\<lparr>lb_entitled := lb_entitled b + amount,
                 lb_balance := cap (lb_carriedForward b + (lb_entitled b + amount) - lb_used b)\<rparr>) t)"
    unfolding p cap_def amount_def
    using credit_new_exact[OF assms(1) _ assms(3,4)] decimal_column.credit_exact[OF assms(1) _ _ assms(3,4)]
    by (auto split: option.split)
qed

theorem accrual_month_exact_witness:
  "processAccrual dec_round (\<lambda>e l y. ''b1'') (''e1'', new_employee ''co'' None) (hd (lv_types leave_office)) 3 2026
     [(''b1'', \<lparr>lb_employeeId = ''e1'', lb_leaveTypeId = ''l1'', lb_year = 2026, lb_entitled = 333, lb_used = 7,
        lb_carriedForward = 0, lb_balance = 326\<rparr>)]
   = Inr [(''b1'', \<lparr>lb_employeeId = ''e1'', lb_leaveTypeId = ''l1'', lb_year = 2026, lb_entitled = 833, lb_used = 7,
        lb_carriedForward = 0, lb_balance = 800\<rparr>)]"
proof -
  let ?b = "\<lparr>lb_employeeId = ''e1'', lb_leaveTypeId = ''l1'', lb_year = 2026, lb_entitled = 333, lb_used = 7,
      lb_carriedForward = 0, lb_balance = 326\<rparr>"
  have f: "find_balance (fst (''e1'', new_employee ''co'' None)) (fst (hd (lv_types leave_office))) 2026 [(''b1'', ?b)] = Some (''b1'', ?b)"
    by (simp add: find_balance_def tbl_find_def leave_office_def)
  have y: "getUTCFullYear (em_joinedAt (new_employee ''co'' None)) = 1970" by code_simp
  from accrual_month_exact[OF dec_round.decimal_column_axioms, where month = 3 and year = 2026 and lt = "hd (lv_types leave_office)"
      and emp = "(''e1'', new_employee ''co'' None)" and newId = "\<lambda>e l y. ''b1''" and t = "[(''b1'', ?b)]"] y f
  show ?thesis by (simp add: row_in_range_def leave_office_def capped_def tbl_update_def)
qed

definition monthly_type :: "leave_type_row \<Rightarrow> leave_type_row" where
  "monthly_type r = (if lt_accrualType r = ANNUAL then r\<lparr>lt_accrualType := MONTHLY\<rparr> else r)"

lemma monthly_type_fields [simp]:
  "lt_companyId (monthly_type r) = lt_companyId r" "lt_isActive (monthly_type r) = lt_isActive r"
  "lt_accrualAmount (monthly_type r) = lt_accrualAmount r" "lt_maxBalance (monthly_type r) = lt_maxBalance r"
  "lt_maxCarryForward (monthly_type r) = lt_maxCarryForward r" "lt_accrualType (monthly_type r) = NONE \<longleftrightarrow> lt_accrualType r = NONE"
  by (simp_all add: monthly_type_def)

lemma credit_balance_monthly [simp]: "credit_balance dec n e l (monthly_type lt) y c t = credit_balance dec n e l lt y c t"
  unfolding credit_balance_def monthly_type_fields ..

lemma carry_forward_monthly [simp]: "carry_forward dec n e l (monthly_type lt) y t = carry_forward dec n e l lt y t"
  unfolding carry_forward_def monthly_type_fields ..

lemma processAccrual_monthly: "processAccrual dec n emp (i, monthly_type lt) m y t = processAccrual dec n emp (i, lt) m y t"
  unfolding processAccrual_def fst_conv snd_conv monthly_type_fields credit_balance_monthly carry_forward_monthly ..

lemma accrue_all_monthly:
  "accrue_all dec n (map (\<lambda>(emp, i, lt). (emp, i, monthly_type lt)) jobs) m y t = accrue_all dec n jobs m y t"
proof (induction jobs arbitrary: t)
  case (Cons j jobs)
  obtain emp i lt where "j = (emp, i, lt)" by (cases j) auto
  then show ?case using Cons.IH by (auto simp: processAccrual_monthly split: sum.splits)
qed simp

lemma product_map: "List.product xs (map g ys) = map (\<lambda>(x, y). (x, g y)) (List.product xs ys)"
  by (induction xs) auto

text \<open>
  The accrual run does not look at the frequency of a type: turning every annual type into a
  monthly one changes nothing, so an annual type is credited its whole amount every month.
\<close>

theorem accrual_ignores_frequency:
  "lv_balances (snd (runForCompany dec newId companyId month year
       (s\<lparr>lv_types := map (\<lambda>(i, r). (i, monthly_type r)) (lv_types s)\<rparr>)))
   = lv_balances (snd (runForCompany dec newId companyId month year s))"
proof -
  let ?P = "\<lambda>i t. lt_companyId t = companyId \<and> lt_isActive t \<and> lt_accrualType t \<noteq> NONE"
  have types: "tbl_all ?P (map (\<lambda>(i, r). (i, monthly_type r)) (lv_types s)) = map (\<lambda>(i, r). (i, monthly_type r)) (tbl_all ?P (lv_types s))"
    by (induction "lv_types s") (auto simp: tbl_all_def filter_map o_def case_prod_unfold)
  have prod: "List.product es (map (\<lambda>(i, r). (i, monthly_type r)) ts)
      = map (\<lambda>(emp, i, lt). (emp, i, monthly_type lt)) (List.product es ts)" for es :: "(id \<times> employee_row) list" and ts
    by (simp add: product_map case_prod_unfold)
  show ?thesis
    unfolding runForCompany_def Let_def
    by (auto simp: types prod accrue_all_monthly leave_audit_def split: sum.splits)
qed

end
