(* ===== verification/Attendance.thy ===== *)
theory Attendance
  imports Iso_Date Money Holiday Staff Audit_Log
begin

text \<open>
  Attendance: \<^verbatim>\<open>attendance/services/attendance.service.ts\<close>. An employee has one log for a
  day; clocking in creates it, clocking out sets the minutes worked, an administrator may correct it,
  and the exceptions of a range of days are listed page by page. The lemmas show that clocking in is
  idempotent, that a log is unique for its day and its minutes are those between the punches unless it
  was corrected, and that the pages of absences are together exactly the working days without a log.
\<close>

section \<open>Tables\<close>

datatype attendance_source = WEB | MOBILE | BIOMETRIC | MANUAL

datatype attendance_status = AtPRESENT | AtABSENT | AtLATE | AtHALF_DAY | AtON_LEAVE | AtHOLIDAY

fun attendance_status_name :: "attendance_status \<Rightarrow> string" where
  "attendance_status_name AtPRESENT = ''PRESENT''"
| "attendance_status_name AtABSENT = ''ABSENT''"
| "attendance_status_name AtLATE = ''LATE''"
| "attendance_status_name AtHALF_DAY = ''HALF_DAY''"
| "attendance_status_name AtON_LEAVE = ''ON_LEAVE''"
| "attendance_status_name AtHOLIDAY = ''HOLIDAY''"

record attendance_log =
  at_companyId :: id
  at_employeeId :: id
  at_date :: instant
  at_checkInAt :: "instant option"
  at_checkOutAt :: "instant option"
  at_source :: attendance_source
  at_ipAddress :: "string option"
  at_coordinates :: "(jsnum \<times> jsnum) option"
  at_workedMinutes :: "int option"
  at_status :: attendance_status
  at_isCorrected :: bool
  at_correctionReason :: "string option"
  at_correctedById :: "id option"
  at_correctedAt :: "instant option"

record attendance_db =
  as_logs :: "attendance_log table"
  as_employees :: "employee_row table"
  as_userNames :: "(string \<times> string) table"
  as_holidays :: holiday_db
  as_audit :: "audit_row list"

text \<open>\<^verbatim>\<open>findUnique\<close> by employee and date.\<close>

definition find_log :: "id \<Rightarrow> instant \<Rightarrow> attendance_log table \<Rightarrow> (id \<times> attendance_log) option" where
  "find_log employeeId date t = tbl_find (\<lambda>i r. at_employeeId r = employeeId \<and> at_date r = date) t"

section \<open>Clocking in and out\<close>

definition is_late :: "instant \<Rightarrow> bool" where
  "is_late now = (at_hour 9 now < now)"

record clock_in_dto =
  ci_source :: "attendance_source option"
  ci_coordinates :: "(jsnum \<times> jsnum) option"

definition clockIn ::
    "instant \<Rightarrow> id \<Rightarrow> id \<Rightarrow> id \<Rightarrow> clock_in_dto \<Rightarrow> string option \<Rightarrow> attendance_db \<Rightarrow> (attendance_db, attendance_log) outcome" where
  "clockIn now newId employeeId companyId dto ipAddress s =
     (let today = utc_midnight now;
          source = (case ci_source dto of None \<Rightarrow> WEB | Some x \<Rightarrow> x);
          status = (if is_late now then AtLATE else AtPRESENT)
      in case find_log employeeId today (as_logs s) of
           Some (i, r) \<Rightarrow>
             (case at_checkInAt r of
                Some _ \<Rightarrow> (Inr r, s)
              | None \<Rightarrow>
                  (let r' = r\<lparr>at_checkInAt := Some now, at_source := source, at_ipAddress := ipAddress,
                              at_coordinates := (case ci_coordinates dto of None \<Rightarrow> at_coordinates r | Some c \<Rightarrow> Some c),
                              at_status := status\<rparr>
                   in (Inr r', s\<lparr>as_logs := tbl_update i (\<lambda>_. r') (as_logs s)\<rparr>)))
         | None \<Rightarrow>
             if tbl_get employeeId (as_employees s) = None then (Inl (DatabaseError ''attendance_logs''), s)
             else
               (let r = \<lparr>at_companyId = companyId, at_employeeId = employeeId, at_date = today, at_checkInAt = Some now,
                         at_checkOutAt = None, at_source = source, at_ipAddress = ipAddress,
                         at_coordinates = ci_coordinates dto, at_workedMinutes = None, at_status = status,
                         at_isCorrected = False, at_correctionReason = None, at_correctedById = None, at_correctedAt = None\<rparr>
                in (Inr r, s\<lparr>as_logs := tbl_insert newId r (as_logs s)\<rparr>)))"

text \<open>\<^verbatim>\<open>Math.round((b.getTime() - a.getTime()) / 60000)\<close>.\<close>

definition minutes_between :: "instant \<Rightarrow> instant \<Rightarrow> int" where
  "minutes_between a b =
     (case js_round (js_div (num_of_int (b - a)) (Fin 60000)) of Fin q \<Rightarrow> \<lfloor>q\<rfloor> | _ \<Rightarrow> 0)"

definition clockOut :: "instant \<Rightarrow> id \<Rightarrow> id \<Rightarrow> attendance_db \<Rightarrow> (attendance_db, attendance_log) outcome" where
  "clockOut now employeeId companyId s =
     (case find_log employeeId (utc_midnight now) (as_logs s) of
        None \<Rightarrow> (Inl (NotFoundError ''No clock-in found for today. Please clock in first.''), s)
      | Some (i, r) \<Rightarrow>
          if at_checkOutAt r \<noteq> None then (Inl (BadRequestError ''Already clocked out for today''), s)
          else case at_checkInAt r of
            None \<Rightarrow> (Inl (RuntimeError ''Cannot read properties of null (reading getTime)''), s)
          | Some checkInAt \<Rightarrow>
              (let totalMinutes = minutes_between checkInAt now;
                   r' = r\<lparr>at_checkOutAt := Some now, at_workedMinutes := Some totalMinutes,
                          at_status := (if totalMinutes < 240 then AtHALF_DAY else at_status r)\<rparr>
               in (Inr r', s\<lparr>as_logs := tbl_update i (\<lambda>_. r') (as_logs s)\<rparr>)))"

section \<open>Corrections\<close>

record correct_dto =
  cr_clockInAt :: "instant option"
  cr_clockOutAt :: "instant option"
  cr_reason :: string
  cr_status :: "attendance_status option"

definition opt_iso :: "instant option \<Rightarrow> json" where
  "opt_iso t = (case t of None \<Rightarrow> JNull | Some x \<Rightarrow> JStr (toISOString x))"

definition log_json :: "attendance_log \<Rightarrow> json" where
  "log_json r = JObj [(''clockInAt'', opt_iso (at_checkInAt r)), (''clockOutAt'', opt_iso (at_checkOutAt r)),
                      (''status'', JStr (attendance_status_name (at_status r)))]"

text \<open>The minutes and the status a correction writes; \<open>None\<close> leaves the column as it is.\<close>

definition corrected_values :: "correct_dto \<Rightarrow> attendance_status \<Rightarrow> int option \<times> attendance_status option" where
  "corrected_values dto old =
     (case (cr_clockInAt dto, cr_clockOutAt dto) of
        (Some i, Some out) \<Rightarrow>
          (let totalMinutes = minutes_between i out
           in (Some totalMinutes,
               Some (case cr_status dto of
                       Some st \<Rightarrow> st
                     | None \<Rightarrow> if totalMinutes < 240 then AtHALF_DAY else if old = AtLATE then AtLATE else AtPRESENT)))
      | (Some i, None) \<Rightarrow>
          (None, Some (case cr_status dto of Some st \<Rightarrow> st | None \<Rightarrow> if is_late i then AtLATE else AtPRESENT))
      | (None, _) \<Rightarrow> (None, cr_status dto))"

definition keep_or :: "'a option \<Rightarrow> 'a option \<Rightarrow> 'a option" where
  "keep_or new old = (case new of None \<Rightarrow> old | Some x \<Rightarrow> Some x)"

definition correct_log :: "instant \<Rightarrow> id \<Rightarrow> correct_dto \<Rightarrow> attendance_log \<Rightarrow> attendance_log" where
  "correct_log now correctedById dto r =
     (let (minutes, status) = corrected_values dto (at_status r)
      in r\<lparr>at_isCorrected := True, at_correctionReason := Some (cr_reason dto), at_correctedById := Some correctedById,
           at_correctedAt := Some now, at_source := MANUAL,
           at_checkInAt := keep_or (cr_clockInAt dto) (at_checkInAt r),
           at_checkOutAt := keep_or (cr_clockOutAt dto) (at_checkOutAt r),
           at_workedMinutes := keep_or minutes (at_workedMinutes r),
           at_status := (case status of None \<Rightarrow> at_status r | Some st \<Rightarrow> st)\<rparr>)"

definition correctRecord ::
    "instant \<Rightarrow> id \<Rightarrow> id \<Rightarrow> id \<Rightarrow> correct_dto \<Rightarrow> attendance_db \<Rightarrow> (attendance_db, attendance_log) outcome" where
  "correctRecord now recordId companyId correctedById dto s =
     (case tbl_get_where recordId (\<lambda>r. at_companyId r = companyId) (as_logs s) of
        None \<Rightarrow> (Inl (NotFoundError ''Attendance record not found''), s)
      | Some r \<Rightarrow>
          if tbl_get correctedById (as_employees s) = None then (Inl (DatabaseError ''attendance_logs''), s)
          else
            (let r' = correct_log now correctedById dto r
             in (Inr r', s\<lparr>as_logs := tbl_update recordId (\<lambda>_. r') (as_logs s),
                  as_audit := audit_record \<lparr>ae_actor = None, ae_companyId = companyId, ae_entityType = ''attendance_record'',
                    ae_entityId = Some recordId, ae_action = ''ATTENDANCE_CORRECTED'',
                    ae_oldValue = log_json r, ae_newValue = log_json r'\<rparr> (as_audit s)\<rparr>)))"

section \<open>Exceptions\<close>

datatype exception_type = LateType | AbsentType | MissingPunchType

record exceptions_query =
  eq_startDate :: instant
  eq_endDate :: instant
  eq_employeeId :: "id option"
  eq_type :: exception_type
  eq_page :: nat
  eq_pageSize :: nat

record exception_item =
  xi_employeeId :: id
  xi_employeeName :: string
  xi_date :: string
  xi_type :: string
  xi_detail :: string

record exceptions_page =
  xp_items :: "exception_item list"
  xp_total :: nat

definition paginate :: "nat \<Rightarrow> nat \<Rightarrow> 'a list \<Rightarrow> 'a list" where
  "paginate page pageSize xs = take pageSize (drop ((page - 1) * pageSize) xs)"

definition employee_name :: "id \<Rightarrow> attendance_db \<Rightarrow> string" where
  "employee_name i s =
     (case tbl_get i (as_employees s) of
        None \<Rightarrow> []
      | Some e \<Rightarrow> (case Option.bind (em_userId e) (\<lambda>u. tbl_get u (as_userNames s)) of
            None \<Rightarrow> em_workEmail e
          | Some (f, l) \<Rightarrow> f @ '' '' @ l))"

definition iso_or_unknown :: "instant option \<Rightarrow> string" where
  "iso_or_unknown t = (case t of None \<Rightarrow> ''unknown'' | Some x \<Rightarrow> toISOString x)"

text \<open>Logs of a company in the range, and of one employee when the query names one.\<close>

definition in_query :: "id \<Rightarrow> exceptions_query \<Rightarrow> attendance_log \<Rightarrow> bool" where
  "in_query companyId q r \<longleftrightarrow>
     at_companyId r = companyId \<and> utc_midnight (eq_startDate q) \<le> at_date r \<and> at_date r \<le> utc_midnight (eq_endDate q)
     \<and> (case eq_employeeId q of None \<Rightarrow> True | Some e \<Rightarrow> at_employeeId r = e)"

definition late_exceptions :: "id \<Rightarrow> exceptions_query \<Rightarrow> attendance_db \<Rightarrow> exceptions_page" where
  "late_exceptions companyId q s =
     (let rows = map snd (tbl_all (\<lambda>i r. in_query companyId q r \<and> at_status r = AtLATE) (as_logs s))
      in \<lparr>xp_items = map (\<lambda>r. \<lparr>xi_employeeId = at_employeeId r, xi_employeeName = employee_name (at_employeeId r) s,
             xi_date = iso_date (at_date r), xi_type = ''late'',
             xi_detail = ''Clocked in late at '' @ iso_or_unknown (at_checkInAt r)\<rparr>)
           (paginate (eq_page q) (eq_pageSize q) (sort_key (\<lambda>r. - at_date r) rows)),
          xp_total = length rows\<rparr>)"

definition missing_punch_exceptions :: "instant \<Rightarrow> id \<Rightarrow> exceptions_query \<Rightarrow> attendance_db \<Rightarrow> exceptions_page" where
  "missing_punch_exceptions now companyId q s =
     (let rows = map snd (tbl_all (\<lambda>i r. in_query companyId q r \<and> at_date r < utc_midnight now
                   \<and> at_checkInAt r \<noteq> None \<and> at_checkOutAt r = None) (as_logs s))
      in \<lparr>xp_items = map (\<lambda>r. \<lparr>xi_employeeId = at_employeeId r, xi_employeeName = employee_name (at_employeeId r) s,
             xi_date = iso_date (at_date r), xi_type = ''missing_punch'',
             xi_detail = ''Checked in at '' @ iso_or_unknown (at_checkInAt r) @ '' but no check-out recorded''\<rparr>)
           (paginate (eq_page q) (eq_pageSize q) (sort_key (\<lambda>r. - at_date r) rows)),
          xp_total = length rows\<rparr>)"

definition company_holiday_dates :: "id \<Rightarrow> exceptions_query \<Rightarrow> attendance_db \<Rightarrow> int list" where
  "company_holiday_dates companyId q s =
     map (\<lambda>(i, h). day_of (hl_date h))
       (tbl_all (\<lambda>i h. tbl_get_where (hl_calendarId h) (\<lambda>c. hc_companyId c = companyId \<and> hc_isDefault c)
                          (hd_calendars (as_holidays s)) \<noteq> None
                   \<and> utc_midnight (eq_startDate q) \<le> hl_date h \<and> hl_date h \<le> utc_midnight (eq_endDate q))
         (hd_holidays (as_holidays s)))"

definition attendance_working_days :: "id \<Rightarrow> exceptions_query \<Rightarrow> attendance_db \<Rightarrow> instant list" where
  "attendance_working_days companyId q s =
     filter (\<lambda>current. getUTCDay current \<noteq> 0 \<and> getUTCDay current \<noteq> 6 \<and> day_of current \<notin> set (company_holiday_dates companyId q s))
       (each_day (eq_startDate q) (eq_endDate q))"

definition absence_employees :: "id \<Rightarrow> exceptions_query \<Rightarrow> attendance_db \<Rightarrow> id list" where
  "absence_employees companyId q s =
     map fst (tbl_all (\<lambda>i e. em_companyId e = companyId \<and> em_status e = EmpACTIVE \<and> em_deletedAt e = None
                 \<and> (case eq_employeeId q of None \<Rightarrow> True | Some x \<Rightarrow> i = x)) (as_employees s))"

text \<open>The set of keys \<^verbatim>\<open>employeeId_date\<close> of the logs, as pairs; ids hold no underscore.\<close>

definition record_set :: "id \<Rightarrow> exceptions_query \<Rightarrow> attendance_db \<Rightarrow> (id \<times> int) list" where
  "record_set companyId q s =
     map (\<lambda>(i, r). (at_employeeId r, day_of (at_date r))) (tbl_all (\<lambda>i r. in_query companyId q r) (as_logs s))"

definition absent_item :: "attendance_db \<Rightarrow> id \<Rightarrow> instant \<Rightarrow> exception_item" where
  "absent_item s emp day =
     \<lparr>xi_employeeId = emp, xi_employeeName = employee_name emp s, xi_date = iso_date day, xi_type = ''absent'',
      xi_detail = ''No attendance record for working day''\<rparr>"

definition absent_items :: "id \<Rightarrow> exceptions_query \<Rightarrow> attendance_db \<Rightarrow> exception_item list" where
  "absent_items companyId q s =
     concat (map (\<lambda>emp. map (absent_item s emp)
         (filter (\<lambda>day. (emp, day_of day) \<notin> set (record_set companyId q s)) (attendance_working_days companyId q s)))
       (absence_employees companyId q s))"

definition getExceptions :: "instant \<Rightarrow> id \<Rightarrow> exceptions_query \<Rightarrow> attendance_db \<Rightarrow> exceptions_page" where
  "getExceptions now companyId q s =
     (case eq_type q of
        LateType \<Rightarrow> late_exceptions companyId q s
      | MissingPunchType \<Rightarrow> missing_punch_exceptions now companyId q s
      | AbsentType \<Rightarrow>
          (let xs = absent_items companyId q s
           in \<lparr>xp_items = paginate (eq_page q) (eq_pageSize q) xs, xp_total = length xs\<rparr>))"

section \<open>Pages\<close>

lemma pages_prefix: "concat (map (\<lambda>p. paginate p k xs) [1..<Suc n]) = take (n * k) xs"
proof (induction n)
  case (Suc n)
  have "concat (map (\<lambda>p. paginate p k xs) [1..<Suc (Suc n)]) = take (n * k) xs @ paginate (Suc n) k xs"
    using Suc by simp
  also have "\<dots> = take (Suc n * k) xs" by (simp add: paginate_def take_add [symmetric] add.commute)
  finally show ?case .
qed simp

definition absence_page :: "id \<Rightarrow> exceptions_query \<Rightarrow> attendance_db \<Rightarrow> nat \<Rightarrow> exceptions_page" where
  "absence_page companyId q s p = getExceptions 0 companyId (q\<lparr>eq_type := AbsentType, eq_page := p\<rparr>) s"

lemma absent_items_page [simp]:
  "absent_items companyId (q\<lparr>eq_type := t, eq_page := p\<rparr>) s = absent_items companyId q s"
  by (simp add: absent_items_def attendance_working_days_def company_holiday_dates_def absence_employees_def
      record_set_def in_query_def)

lemma absence_page_parts:
  "xp_items (absence_page companyId q s p) = paginate p (eq_pageSize q) (absent_items companyId q s)"
  "xp_total (absence_page companyId q s p) = length (absent_items companyId q s)"
  by (simp_all add: absence_page_def getExceptions_def Let_def)

lemma mem_absent_items:
  "x \<in> set (absent_items companyId q s) \<longleftrightarrow> (\<exists>emp \<in> set (absence_employees companyId q s).
     \<exists>day \<in> set (attendance_working_days companyId q s). (emp, day_of day) \<notin> set (record_set companyId q s) \<and> x = absent_item s emp day)"
  by (auto simp: absent_items_def)

lemma mem_absence_employees:
  "eq_employeeId q = None \<Longrightarrow> emp \<in> set (absence_employees companyId q s) \<longleftrightarrow>
     (\<exists>e. (emp, e) \<in> set (as_employees s) \<and> em_companyId e = companyId \<and> em_status e = EmpACTIVE \<and> em_deletedAt e = None)"
  by (force simp: absence_employees_def tbl_all_def)

lemma mem_record_set:
  "(emp, d) \<in> set (record_set companyId q s) \<longleftrightarrow>
     (\<exists>(i, r) \<in> set (as_logs s). in_query companyId q r \<and> at_employeeId r = emp \<and> day_of (at_date r) = d)"
  by (force simp: record_set_def tbl_all_def)

text \<open>
  The pages of absences partition them: with a positive page size, the items of the pages up to
  the reported total are together, in order and without repetition of a position, the list of all
  absences, and that list has an item for an employee and a day exactly when the employee is active
  in the company, the day is a working day of the range and no log exists for it.
\<close>

lemma absence_pages:
  assumes "0 < eq_pageSize q" and "eq_employeeId q = None"
  shows "concat (map (\<lambda>p. xp_items (absence_page companyId q s p)) [1..<Suc (xp_total (absence_page companyId q s 1))])
      = absent_items companyId q s
    \<and> (x \<in> set (absent_items companyId q s) \<longleftrightarrow>
       (\<exists>emp day e. x = absent_item s emp day \<and> (emp, e) \<in> set (as_employees s) \<and> em_companyId e = companyId
          \<and> em_status e = EmpACTIVE \<and> em_deletedAt e = None \<and> day \<in> set (attendance_working_days companyId q s)
          \<and> \<not> (\<exists>(i, r) \<in> set (as_logs s). in_query companyId q r \<and> at_employeeId r = emp \<and> day_of (at_date r) = day_of day)))"
proof
  let ?xs = "absent_items companyId q s"
  have "length ?xs \<le> length ?xs * eq_pageSize q" using assms(1) by simp
  then show "concat (map (\<lambda>p. xp_items (absence_page companyId q s p)) [1..<Suc (xp_total (absence_page companyId q s 1))]) = ?xs"
    unfolding absence_page_parts pages_prefix by simp
  show "x \<in> set ?xs \<longleftrightarrow> (\<exists>emp day e. x = absent_item s emp day \<and> (emp, e) \<in> set (as_employees s) \<and> em_companyId e = companyId
          \<and> em_status e = EmpACTIVE \<and> em_deletedAt e = None \<and> day \<in> set (attendance_working_days companyId q s)
          \<and> \<not> (\<exists>(i, r) \<in> set (as_logs s). in_query companyId q r \<and> at_employeeId r = emp \<and> day_of (at_date r) = day_of day))"
    unfolding mem_absent_items mem_absence_employees[OF assms(2)] mem_record_set Bex_def by blast
qed

section \<open>Punches\<close>

lemma minutes_between_exact:
  assumes "\<bar>b - a\<bar> \<le> 2 ^ 40"
  shows "minutes_between a b = (b - a + 30000) div 60000"
proof -
  define n where "n = b - a"
  define k where "k = (n + 30000) div 60000"
  let ?q = "of_int n / 60000 :: rat"
  have k: "60000 * k \<le> n + 30000" "n + 30000 + 1 \<le> 60000 * k + 60000" 
    unfolding k_def using div_mult_mod_eq[of "n + 30000" 60000] pos_mod_bound[of 60000 "n + 30000"] pos_mod_sign[of 60000 "n + 30000"]
    by linarith+
  have "\<bar>n\<bar> \<le> 1099511627776" using assms by (simp add: n_def)
  then have kb: "\<bar>k\<bar> \<le> 1099511627776" using k by linarith
  have kq: "of_int k - 1 / 2 \<le> ?q" "?q + 1 / 60000 \<le> of_int k + 1 / 2"
  proof -
    have "(of_int (60000 * k) :: rat) \<le> of_int (n + 30000)" "(of_int (n + 30000 + 1) :: rat) \<le> of_int (60000 * k + 60000)"
      using k by (simp_all only: of_int_le_iff)
    then show "of_int k - 1 / 2 \<le> ?q" "?q + 1 / 60000 \<le> of_int k + 1 / 2" by (simp_all add: field_simps)
  qed
  have nb: "\<bar>of_int n :: rat\<bar> \<le> 2 ^ 40" using of_int_abs_le[OF assms] unfolding n_def by simp
  then have qb: "\<bar>?q\<bar> < 2 ^ 25" by simp
  have err: "\<bar>fl ?q - ?q\<bar> \<le> 1 / 536870912" using fl_err[OF qb] by simp
  have "fl (of_int (2 * k - 1) * 2 powi (- 1)) = of_int (2 * k - 1) * 2 powi (- 1)"
    by (rule fl_exact) (use kb in auto)
  then have "fl (of_int k - 1 / 2) = of_int k - 1 / 2" by (simp add: power_int_minus field_simps)
  then have lo: "of_int k - 1 / 2 \<le> fl ?q" using fl_ge_dbl[OF kq(1)] by simp
  have hi: "fl ?q < of_int k + 1 / 2" using kq(2) err unfolding abs_le_iff by linarith
  have "\<lfloor>fl ?q + 1 / 2\<rfloor> = k" using lo hi by (simp add: floor_eq_iff)
  moreover have "js_div (num_of_int n) (Fin 60000) = Fin (fl ?q)" using qb by (simp add: to_num_small)
  ultimately show ?thesis unfolding minutes_between_def n_def[symmetric] k_def[symmetric] by simp
qed

datatype punch =
    PunchIn instant id id id clock_in_dto "string option"
  | PunchOut instant id id
  | Correct instant id id id correct_dto

fun punch_time :: "punch \<Rightarrow> instant" where
  "punch_time (PunchIn now n e co dto ip) = now"
| "punch_time (PunchOut now e co) = now"
| "punch_time (Correct now i co c dto) = now"

fun punch_step :: "punch \<Rightarrow> attendance_db \<Rightarrow> attendance_db" where
  "punch_step (PunchIn now n e co dto ip) s = (if fresh n (as_logs s) then snd (clockIn now n e co dto ip s) else s)"
| "punch_step (PunchOut now e co) s = snd (clockOut now e co s)"
| "punch_step (Correct now i co c dto) s = snd (correctRecord now i co c dto s)"

text \<open>A log as the punches leave it, by the time \<open>T\<close>; of a corrected one only the arrival is known.\<close>

definition log_ok :: "instant \<Rightarrow> attendance_log \<Rightarrow> bool" where
  "log_ok T r \<longleftrightarrow> (case at_checkInAt r of None \<Rightarrow> False | Some c \<Rightarrow> at_isCorrected r \<or> utc_midnight c = at_date r \<and> c \<le> T \<and>
     (case at_checkOutAt r of None \<Rightarrow> at_status r = (if is_late c then AtLATE else AtPRESENT)
      | Some d \<Rightarrow> c \<le> d \<and> utc_midnight d = at_date r \<and> at_workedMinutes r = Some (minutes_between c d)
          \<and> at_status r = (if minutes_between c d < 240 then AtHALF_DAY else if is_late c then AtLATE else AtPRESENT)))"

definition logs_ok :: "instant \<Rightarrow> attendance_log table \<Rightarrow> bool" where
  "logs_ok T t \<longleftrightarrow> distinct (tbl_ids t) \<and> (\<forall>(i, r) \<in> set t. log_ok T r \<and> find_log (at_employeeId r) (at_date r) t = Some (i, r))"

lemma logs_ok_find:
  assumes "logs_ok T t" and "(i, r) \<in> set t"
  shows "find_log (at_employeeId r) (at_date r) t = Some (i, r)" and "log_ok T r"
  using assms by (auto simp: logs_ok_def)

lemma log_ok_later: "log_ok T r \<Longrightarrow> T \<le> U \<Longrightarrow> log_ok U r"
  by (auto simp: log_ok_def split: option.splits)

lemma find_log_mem: "find_log e d t = Some (i, r) \<Longrightarrow> (i, r) \<in> set t \<and> at_employeeId r = e \<and> at_date r = d"
  by (auto simp: find_log_def dest!: tbl_find_Some)

lemma logs_ok_insert:
  assumes "logs_ok T t" and "find_log (at_employeeId r) (at_date r) t = None" and "fresh n t" and "log_ok T r"
  shows "logs_ok T (tbl_insert n r t)"
  using assms
  by (auto simp: logs_ok_def fresh_def find_log_def tbl_insert_def[of n r t] tbl_ids_def tbl_find_append tbl_find_single
      split: option.splits prod.splits)

lemma find_log_update:
  "(\<And>r. (i, r) \<in> set t \<Longrightarrow> at_employeeId (f r) = at_employeeId r \<and> at_date (f r) = at_date r) \<Longrightarrow>
   find_log e d (tbl_update i f t) = map_option (\<lambda>(j, r). (j, if j = i then f r else r)) (find_log e d t)"
  by (induction t) (auto simp: find_log_def tbl_find_def tbl_update_def)

lemma logs_ok_update:
  assumes "logs_ok T t" and "(i, r) \<in> set t" and "at_employeeId r' = at_employeeId r" and "at_date r' = at_date r" and "log_ok T r'"
  shows "logs_ok T (tbl_update i (\<lambda>_. r') t)"
proof -
  have d: "distinct (map fst t)" using assms(1) by (simp add: logs_ok_def tbl_ids_def)
  have same: "x = r" if "(i, x) \<in> set t" for x using eq_key_imp_eq_value[OF d that assms(2)] .
  have find: "find_log e dt (tbl_update i (\<lambda>_. r') t) = map_option (\<lambda>(j, r). (j, if j = i then r' else r)) (find_log e dt t)" for e dt
    using same assms(3,4) by (intro find_log_update) auto
  have "log_ok T x \<and> find_log (at_employeeId x) (at_date x) (tbl_update i (\<lambda>_. r') t) = Some (j, x)"
    if "(j, x) \<in> set (tbl_update i (\<lambda>_. r') t)" for j x
  proof -
    from that obtain y where y: "(j, y) \<in> set t" "x = (if j = i then r' else y)" by (auto simp: tbl_update_def)
    then have k: "log_ok T y" "find_log (at_employeeId y) (at_date y) t = Some (j, y)" using assms(1) by (auto simp: logs_ok_def)
    show ?thesis
    proof (cases "j = i")
      case True
      then have "y = r" using same y(1) by simp
      then show ?thesis using True y(2) k find assms(3-5) by simp
    next
      case False
      then show ?thesis using y(2) k find by simp
    qed
  qed
  then show ?thesis using assms(1) by (auto simp: logs_ok_def)
qed

lemma punch_step_ok:
  assumes "logs_ok T (as_logs s)" and "T \<le> punch_time p"
  shows "logs_ok (punch_time p) (as_logs (punch_step p s))"
proof -
  have later: "logs_ok (punch_time p) (as_logs s)" using assms log_ok_later by (fastforce simp: logs_ok_def)
  show ?thesis
  proof (cases p)
    case (PunchIn now n e co dto ip)
    show ?thesis
    proof (cases "find_log e (utc_midnight now) (as_logs s)")
      case None
      then show ?thesis using later unfolding PunchIn
        by (auto simp: clockIn_def Let_def log_ok_def split: option.splits intro!: logs_ok_insert)
    next
      case (Some x)
      obtain i r where x: "x = (i, r)" by (cases x)
      then have "at_checkInAt r \<noteq> None" using find_log_mem Some later by (fastforce simp: logs_ok_def log_ok_def split: option.splits)
      then show ?thesis using later Some x unfolding PunchIn by (auto simp: clockIn_def Let_def)
    qed
  next
    case (PunchOut now e co)
    show ?thesis
    proof (cases "find_log e (utc_midnight now) (as_logs s)")
      case (Some x)
      obtain i r where x: "x = (i, r)" by (cases x)
      then have r: "(i, r) \<in> set (as_logs s)" "at_date r = utc_midnight now" using find_log_mem Some by blast+
      then have "log_ok now r" using later PunchOut by (auto simp: logs_ok_def)
      then obtain c where c: "at_checkInAt r = Some c" "at_isCorrected r \<or> utc_midnight c = at_date r \<and> c \<le> now"
        and st: "at_checkOutAt r = None \<Longrightarrow> at_isCorrected r \<or> at_status r = (if is_late c then AtLATE else AtPRESENT)"
        by (auto simp: log_ok_def split: option.splits)
      show ?thesis
      proof (cases "at_checkOutAt r")
        case None
        let ?r = "r\<lparr>at_checkOutAt := Some now, at_workedMinutes := Some (minutes_between c now),
            at_status := (if minutes_between c now < 240 then AtHALF_DAY else at_status r)\<rparr>"
        have ok: "log_ok now ?r" using c r(2) st[OF None] by (auto simp: log_ok_def)
        have "logs_ok now (tbl_update i (\<lambda>_. ?r) (as_logs s))"
          by (rule logs_ok_update[OF _ r(1) _ _ ok]) (use later PunchOut in simp_all)
        then show ?thesis using Some x None c(1) PunchOut by (simp add: clockOut_def Let_def)
      qed (use later Some x PunchOut in \<open>simp add: clockOut_def\<close>)
    qed (use later PunchOut in \<open>simp add: clockOut_def\<close>)
  next
    case (Correct now i co c dto)
    show ?thesis
    proof (cases "tbl_get_where i (\<lambda>r. at_companyId r = co) (as_logs s)")
      case (Some r)
      then have r: "(i, r) \<in> set (as_logs s)" by (auto dest: tbl_get_mem)
      let ?r = "correct_log now c dto r"
      have ok: "log_ok now ?r" using logs_ok_find(2)[OF later r]
        by (auto simp: log_ok_def correct_log_def keep_or_def split: option.splits prod.splits)
      have "logs_ok now (tbl_update i (\<lambda>_. ?r) (as_logs s))"
        by (rule logs_ok_update[OF _ r _ _ ok]) (use later Correct in \<open>simp_all add: correct_log_def split: prod.split\<close>)
      then show ?thesis using Some later Correct by (simp add: correctRecord_def Let_def del: tbl_get_where_Some)
    qed (use later Correct in \<open>simp add: correctRecord_def\<close>)
  qed
qed

lemma punches_ok:
  assumes "logs_ok T (as_logs s)" and "sorted (T # map punch_time ps)"
  shows "\<exists>U. logs_ok U (as_logs (fold punch_step ps s))"
  using assms
proof (induction ps arbitrary: T s)
  case (Cons p ps)
  then have "logs_ok (punch_time p) (as_logs (punch_step p s))" using punch_step_ok by auto
  then show ?case using Cons by auto
qed auto

text \<open>
  C34: The minutes of a day are those between its punches, unless the log was corrected. Starting without logs,
  after any sequence of clocking in, clocking out and corrections in the order of time, an employee has at
  most one log for a day, and it has a time of arrival. If the log was never corrected, the arrival is on that
  day, and once it has a time of departure, its minutes are the time between them rounded to the nearest
  minute, between 0 and 1440, and it counts as half a day exactly below 240. A corrected log may keep
  minutes that are not those between its punches (\<open>one_sided_correction_is_stale\<close> below).
\<close>

theorem punch_minutes:
  assumes "as_logs s = []" and "sorted (map punch_time ps)" and "(i, r) \<in> set (as_logs (fold punch_step ps s))"
  shows "(\<forall>(j, q) \<in> set (as_logs (fold punch_step ps s)). at_employeeId q = at_employeeId r \<and> at_date q = at_date r \<longrightarrow> j = i)
    \<and> (\<exists>c. at_checkInAt r = Some c \<and> (\<not> at_isCorrected r \<longrightarrow> utc_midnight c = at_date r
        \<and> (\<forall>d. at_checkOutAt r = Some d \<longrightarrow>
             (let m = (d - c + 30000) div 60000
              in at_workedMinutes r = Some m \<and> 0 \<le> m \<and> m \<le> 1440 \<and> (at_status r = AtHALF_DAY \<longleftrightarrow> m < 240)))))"
proof -
  have "\<exists>U. logs_ok U (as_logs (fold punch_step ps s))"
  proof (cases ps)
    case (Cons p qs)
    have "logs_ok (punch_time p) (as_logs s)" using assms(1) by (simp add: logs_ok_def tbl_ids_def)
    then show ?thesis using punches_ok[of "punch_time p" s ps] assms(2) Cons by simp
  qed (use assms(1) in \<open>simp add: logs_ok_def tbl_ids_def\<close>)
  then obtain U where ok: "logs_ok U (as_logs (fold punch_step ps s))" ..
  have uniq: "\<forall>(j, q) \<in> set (as_logs (fold punch_step ps s)). at_employeeId q = at_employeeId r \<and> at_date q = at_date r \<longrightarrow> j = i"
  proof clarify
    fix j q assume q: "(j, q) \<in> set (as_logs (fold punch_step ps s))" "at_employeeId q = at_employeeId r" "at_date q = at_date r"
    have "find_log (at_employeeId q) (at_date q) (as_logs (fold punch_step ps s)) = Some (j, q)"
      "find_log (at_employeeId r) (at_date r) (as_logs (fold punch_step ps s)) = Some (i, r)"
      using logs_ok_find(1)[OF ok q(1)] logs_ok_find(1)[OF ok assms(3)] .
    then show "j = i" using q(2,3) by (metis option.inject prod.inject)
  qed
  have "log_ok U r" using logs_ok_find(2)[OF ok assms(3)] .
  then obtain c where c1: "at_checkInAt r = Some c" by (auto simp: log_ok_def split: option.splits)
  have c: "at_checkInAt r = Some c" "\<not> at_isCorrected r \<Longrightarrow> utc_midnight c = at_date r"
    using \<open>log_ok U r\<close> c1 by (auto simp: log_ok_def)
  have out: "c \<le> d \<and> utc_midnight d = at_date r \<and> at_workedMinutes r = Some (minutes_between c d)
      \<and> (at_status r = AtHALF_DAY \<longleftrightarrow> minutes_between c d < 240)"
    if "\<not> at_isCorrected r" "at_checkOutAt r = Some d" for d
    using \<open>log_ok U r\<close> c1 that by (auto simp: log_ok_def)
  have "at_workedMinutes r = Some ((d - c + 30000) div 60000) \<and> 0 \<le> (d - c + 30000) div 60000 \<and> (d - c + 30000) div 60000 \<le> 1440
      \<and> (at_status r = AtHALF_DAY \<longleftrightarrow> (d - c + 30000) div 60000 < 240)" if "\<not> at_isCorrected r" "at_checkOutAt r = Some d" for d
  proof -
    have "d < utc_midnight d + msPerDay" "utc_midnight d \<le> c"
      using utc_midnight_end[of d] utc_midnight_le[of c] c(2)[OF that(1)] conjunct1[OF conjunct2[OF out[OF that]]] by simp_all
    then have b: "0 \<le> d - c" "d - c < 86400000" using out[OF that] by (auto simp: msPerDay_def)
    then have "\<bar>d - c\<bar> \<le> 2 ^ 40" by simp
    note m = minutes_between_exact[OF this]
    have "0 \<le> (d - c + 30000) div 60000" "(d - c + 30000) div 60000 \<le> 1440"
      using b by (simp_all add: pos_imp_zdiv_nonneg_iff)
    then show ?thesis using m out[OF that] by simp
  qed
  then show ?thesis using uniq c by (auto simp: Let_def)
qed

text \<open>An office with one employee and no logs, and instants of Monday the 5th of January 2026.\<close>

definition attendance_office :: attendance_db where
  "attendance_office =
     \<lparr>as_logs = [], as_employees = [(''e1'', new_employee ''co'' (Some ''u1''))], as_userNames = [(''u1'', (''Ann'', ''Lee''))],
      as_holidays = \<lparr>hd_calendars = [], hd_holidays = []\<rparr>, as_audit = []\<rparr>"

definition monday :: "int \<Rightarrow> int \<Rightarrow> instant" where
  "monday h m = date_UTC 2026 0 5 + h * 3600000 + m * 60000"

definition web_punch :: clock_in_dto where
  "web_punch = \<lparr>ci_source = None, ci_coordinates = None\<rparr>"

definition monday_punches :: "punch list" where
  "monday_punches = [PunchIn (monday 9 1) ''a1'' ''e1'' ''co'' web_punch None, PunchOut (monday 12 0 + 30000) ''e1'' ''co'']"

theorem punch_minutes_witness:
  "\<exists>r. (''a1'', r) \<in> set (as_logs (fold punch_step monday_punches attendance_office))
     \<and> at_checkOutAt r = Some (monday 12 0 + 30000) \<and> at_workedMinutes r = Some 180 \<and> at_status r = AtHALF_DAY"
proof -
  have "map fst (as_logs (fold punch_step monday_punches attendance_office)) = [''a1'']"
    "map (at_checkInAt \<circ> snd) (as_logs (fold punch_step monday_punches attendance_office)) = [Some (monday 9 1)]"
    "map (at_checkOutAt \<circ> snd) (as_logs (fold punch_step monday_punches attendance_office)) = [Some (monday 12 0 + 30000)]"
    "map (at_isCorrected \<circ> snd) (as_logs (fold punch_step monday_punches attendance_office)) = [False]"
    by code_simp+
  then obtain r where r: "(''a1'', r) \<in> set (as_logs (fold punch_step monday_punches attendance_office))"
    "at_checkInAt r = Some (monday 9 1)" "at_checkOutAt r = Some (monday 12 0 + 30000)" "\<not> at_isCorrected r" by auto
  have e: "as_logs attendance_office = []" "sorted (map punch_time monday_punches)" by code_simp+
  have "(monday 12 0 + 30000 - monday 9 1 + 30000) div 60000 = 180" by code_simp
  then show ?thesis using punch_minutes[OF e r(1)] r by auto
qed

text \<open>
  Clocking in is idempotent: once an employee has clocked in, every further attempt on the same
  day, whatever its time, source, address and company, changes nothing and returns the log of the first.
\<close>

lemma clock_in_idempotent:
  assumes "clockIn now n e co dto ip s = (Inr r, t)" and "utc_midnight now' = utc_midnight now"
  shows "clockIn now' n' e co' dto' ip' t = (Inr r, t)"
proof (cases "find_log e (utc_midnight now) (as_logs s)")
  case None
  then show ?thesis using assms
    by (auto simp: clockIn_def Let_def find_log_def tbl_insert_def tbl_find_append tbl_find_single split: if_splits)
next
  case (Some x)
  obtain i q where x: "x = (i, q)" by (cases x)
  show ?thesis
  proof (cases "at_checkInAt q")
    case None
    let ?f = "\<lambda>_::attendance_log. r"
    from None assms(1) Some x have t: "as_logs t = tbl_update i ?f (as_logs s)" "at_checkInAt r \<noteq> None"
      and r: "at_employeeId r = at_employeeId q" "at_date r = at_date q"
      by (auto simp: clockIn_def Let_def)
    have q: "at_employeeId q = e" "at_date q = utc_midnight now" using find_log_mem Some x by blast+
    have "find_log e (utc_midnight now) (tbl_update i ?f u) = Some (i, r)"
      if "find_log e (utc_midnight now) u = Some (i, q)" for u
      using that r q by (induction u) (auto simp: find_log_def tbl_find_def tbl_update_def split: if_splits)
    then show ?thesis using Some x t assms(2) by (auto simp: clockIn_def Let_def)
  qed (use assms Some x in \<open>auto simp: clockIn_def Let_def\<close>)
qed

text \<open>
  A correction of one punch leaves stale minutes: it moves the time of departure (or of arrival)
  of a log but not its minutes, and when it gives only a departure not its status either, so a half
  day stays a half day however late the corrected departure is.
\<close>

lemma one_sided_correction_is_stale:
  assumes "tbl_get i (as_logs s) = Some r" and "at_companyId r = co" and "tbl_get admin (as_employees s) \<noteq> None"
    and "cr_clockInAt dto = None \<or> cr_clockOutAt dto = None"
  shows "\<exists>r' t. correctRecord now i co admin dto s = (Inr r', t) \<and> tbl_get i (as_logs t) = Some r'
    \<and> at_workedMinutes r' = at_workedMinutes r
    \<and> at_checkInAt r' = keep_or (cr_clockInAt dto) (at_checkInAt r)
    \<and> at_checkOutAt r' = keep_or (cr_clockOutAt dto) (at_checkOutAt r)
    \<and> (cr_clockInAt dto = None \<and> cr_status dto = None \<longrightarrow> at_status r' = at_status r)"
proof -
  have "correctRecord now i co admin dto s = (Inr (correct_log now admin dto r), snd (correctRecord now i co admin dto s))"
    "tbl_get i (as_logs (snd (correctRecord now i co admin dto s))) = Some (correct_log now admin dto r)"
    using assms(1-3) by (auto simp: correctRecord_def tbl_get_where_def Let_def split: option.splits)
  moreover have "at_workedMinutes (correct_log now admin dto r) = at_workedMinutes r"
    "at_checkInAt (correct_log now admin dto r) = keep_or (cr_clockInAt dto) (at_checkInAt r)"
    "at_checkOutAt (correct_log now admin dto r) = keep_or (cr_clockOutAt dto) (at_checkOutAt r)"
    "cr_clockInAt dto = None \<and> cr_status dto = None \<longrightarrow> at_status (correct_log now admin dto r) = at_status r"
    using assms(4) by (auto simp: correct_log_def corrected_values_def keep_or_def split: option.splits prod.splits)
  ultimately show ?thesis by blast
qed

end
