(* ===== verification/Encryption.thy ===== *)
theory Encryption
  imports Prelude
begin

text \<open>
  \<^verbatim>\<open>encryption/encryption.service.ts\<close>: encryption of single values and masking. The
  cipher (AES-256-GCM of the run-time system, with the key of the configuration) is a parameter with
  two functions; \<open>authentic\<close> states what is documented of it, that a sealed value opens to
  itself. The lemmas show that a value survives encryption and decryption, and what a mask reveals.
\<close>

record encrypted_payload =
  ep_iv :: string
  ep_tag :: string
  ep_ciphertext :: string

record cipher =
  seal :: "string \<Rightarrow> string \<Rightarrow> encrypted_payload"
  unseal :: "encrypted_payload \<Rightarrow> string option"

definition encrypt :: "cipher \<Rightarrow> string \<Rightarrow> string option \<Rightarrow> encrypted_payload option" where
  "encrypt c iv value = (case value of None \<Rightarrow> None | Some v \<Rightarrow> if v = [] then None else Some (seal c iv v))"

definition decrypt :: "cipher \<Rightarrow> encrypted_payload option \<Rightarrow> app_error + string option" where
  "decrypt c payload =
     (case payload of
        None \<Rightarrow> Inr None
      | Some p \<Rightarrow> (case unseal c p of
          None \<Rightarrow> Inl (RuntimeError ''Unsupported state or unable to authenticate data'')
        | Some v \<Rightarrow> Inr (Some v)))"

definition mask :: "nat \<Rightarrow> string option \<Rightarrow> string option" where
  "mask visibleLast value =
     (case value of
        None \<Rightarrow> None
      | Some v \<Rightarrow>
          if v = [] then None
          else if length v \<le> visibleLast then Some (replicate (length v) CHR ''*'')
          else Some (replicate (length v - visibleLast) CHR ''*'' @ drop (length v - visibleLast) v))"

locale authentic =
  fixes c :: cipher
  assumes unseal_seal: "unseal c (seal c iv v) = Some v"
begin

lemma decrypt_encrypt: "decrypt c (encrypt c iv (Some v)) = Inr (if v = [] then None else Some v)"
  by (simp add: decrypt_def encrypt_def unseal_seal)

lemma encrypt_injective: "v \<noteq> [] \<Longrightarrow> encrypt c iv (Some v) = encrypt c iv' (Some w) \<Longrightarrow> v = w"
  using unseal_seal by (auto simp: encrypt_def split: if_splits) (metis option.inject)

end

text \<open>A cipher for evaluation, with the key as the tag and the value reversed as the text.\<close>

definition reversing_cipher :: cipher where
  "reversing_cipher =
     \<lparr>seal = (\<lambda>iv v. \<lparr>ep_iv = iv, ep_tag = ''k'', ep_ciphertext = rev v\<rparr>),
      unseal = (\<lambda>p. if ep_tag p = ''k'' then Some (rev (ep_ciphertext p)) else None)\<rparr>"

interpretation reversing: authentic reversing_cipher
  by unfold_locales (simp add: reversing_cipher_def)

lemma mask_length: "mask k (Some v) = Some w \<Longrightarrow> length w = length v"
  by (auto simp: mask_def split: if_splits)

text \<open>Two values with the same length and the same last characters have the same mask.\<close>

lemma mask_reveals:
  assumes "length v = length w" and "drop (length v - k) v = drop (length w - k) w"
  shows "mask k (Some v) = mask k (Some w)"
  using assms by (auto simp: mask_def)

end
