(* ===== verification/Employees.thy ===== *)
theory Employees
  imports Iso_Date Staff Audit_Log Encryption
begin

text \<open>
  Employees: \<^verbatim>\<open>employees/employees.service.ts\<close> with its repository and the event handlers.
  An employee is hired, changed, promoted, transferred, terminated and removed; each step of the
  career appends a row to the employment history, writes the audit log and emits an event. Addresses,
  emergency contacts and bank accounts hang off an employee. The lemmas show that the history mirrors
  the row, how generated numbers behave, and that account numbers leave the service only masked.
\<close>

section \<open>Tables\<close>

datatype history_event = HIRED | PROMOTED | TRANSFERRED | TERMINATED

record history_row =
  hi_companyId :: id
  hi_employeeId :: id
  hi_eventType :: history_event
  hi_effectiveDate :: instant
  hi_departmentId :: "id option"
  hi_jobTitleId :: "id option"
  hi_payGradeId :: "id option"
  hi_locationId :: "id option"
  hi_managerId :: "id option"
  hi_notes :: "string option"
  hi_createdById :: id

record profile_row =
  pf_nationalId :: "encrypted_payload option"
  pf_passportNumber :: "encrypted_payload option"
  pf_personalEmail :: "string option"
  pf_personalPhone :: "string option"

record reference_row =
  rf_companyId :: id
  rf_deletedAt :: "instant option"

datatype address_type = HOME | MAILING | WORK | OTHER

record address_row =
  ad_employeeId :: id
  ad_type :: address_type
  ad_line1 :: string
  ad_line2 :: "string option"
  ad_city :: string
  ad_state :: "string option"
  ad_postalCode :: "string option"
  ad_country :: string
  ad_isPrimary :: bool
  ad_deletedAt :: "instant option"

record contact_row =
  ec_employeeId :: id
  ec_name :: string
  ec_relationship :: string
  ec_phone :: string
  ec_email :: "string option"
  ec_isPrimary :: bool
  ec_deletedAt :: "instant option"

record account_row =
  ba_employeeId :: id
  ba_accountName :: string
  ba_accountNumber :: "encrypted_payload option"
  ba_routingNumber :: "string option"
  ba_bankName :: string
  ba_bankCode :: "string option"
  ba_currency :: string
  ba_isPrimary :: bool
  ba_deletedAt :: "instant option"

record employees_db =
  ed_employees :: "employee_row table"
  ed_profiles :: "profile_row table"
  ed_history :: "history_row list"
  ed_addresses :: "address_row table"
  ed_contacts :: "contact_row table"
  ed_accounts :: "account_row table"
  ed_departments :: "reference_row table"
  ed_locations :: "reference_row table"
  ed_jobTitles :: "reference_row table"
  ed_payGrades :: "reference_row table"
  ed_events :: "(string \<times> id) list"
  ed_jobs :: "(string \<times> id) list"
  ed_audit :: "audit_row list"

section \<open>Lookups and audit\<close>

text \<open>\<^verbatim>\<open>EmployeeRepository.findById\<close> and \<^verbatim>\<open>getOrThrow\<close>; the key of profiles is the employee.\<close>

definition emp_findById :: "id \<Rightarrow> id \<Rightarrow> employees_db \<Rightarrow> employee_row option" where
  "emp_findById companyId i s = tbl_get_where i (\<lambda>e. em_companyId e = companyId \<and> em_deletedAt e = None) (ed_employees s)"

definition emp_getOrThrow :: "id \<Rightarrow> id \<Rightarrow> employees_db \<Rightarrow> app_error + employee_row" where
  "emp_getOrThrow companyId i s =
     (case emp_findById companyId i s of None \<Rightarrow> Inl (NotFoundError ''Employee not found'') | Some e \<Rightarrow> Inr e)"

fun employee_status_name :: "employee_status \<Rightarrow> string" where
  "employee_status_name EmpACTIVE = ''ACTIVE''"
| "employee_status_name EmpINACTIVE = ''INACTIVE''"
| "employee_status_name EmpON_LEAVE = ''ON_LEAVE''"
| "employee_status_name EmpTERMINATED = ''TERMINATED''"

definition opt_str :: "string option \<Rightarrow> json" where
  "opt_str x = (case x of None \<Rightarrow> JNull | Some v \<Rightarrow> JStr v)"

definition opt_date :: "instant option \<Rightarrow> json" where
  "opt_date x = (case x of None \<Rightarrow> JNull | Some t \<Rightarrow> JDate t)"

definition audit_employee_fields :: "id \<Rightarrow> employee_row \<Rightarrow> (string \<times> json) list" where
  "audit_employee_fields i e =
     [(''id'', JStr i), (''employeeNumber'', JStr (em_employeeNumber e)), (''workEmail'', JStr (em_workEmail e)),
      (''departmentId'', opt_str (em_departmentId e)), (''jobTitleId'', opt_str (em_jobTitleId e)),
      (''payGradeId'', opt_str (em_payGradeId e)), (''locationId'', opt_str (em_locationId e)),
      (''managerId'', opt_str (em_managerId e)), (''status'', JStr (employee_status_name (em_status e))),
      (''deletedAt'', opt_date (em_deletedAt e))]"

definition auditEmployee :: "id \<Rightarrow> employee_row \<Rightarrow> json" where
  "auditEmployee i e = JObj (audit_employee_fields i e)"

definition emp_audit :: "request_context \<Rightarrow> id \<Rightarrow> string \<Rightarrow> json \<Rightarrow> json \<Rightarrow> employees_db \<Rightarrow> employees_db" where
  "emp_audit user i act old new s =
     s\<lparr>ed_audit := audit_record \<lparr>ae_actor = Some user, ae_companyId = rc_companyId user, ae_entityType = ''employee'',
          ae_entityId = Some i, ae_action = act, ae_oldValue = old, ae_newValue = new\<rparr> (ed_audit s)\<rparr>"

text \<open>The handlers registered for the events queue their jobs.\<close>

definition event_jobs :: "string \<Rightarrow> string list" where
  "event_jobs event =
     (if event = ''employee.hired'' then [''welcome_email'', ''onboarding_tasks_stub'']
      else if event = ''employee.terminated'' then [''access_revocation''] else [])"

definition emit_employee :: "string \<Rightarrow> id \<Rightarrow> employees_db \<Rightarrow> employees_db" where
  "emit_employee event i s =
     s\<lparr>ed_events := ed_events s @ [(event, i)], ed_jobs := ed_jobs s @ map (\<lambda>j. (j, i)) (event_jobs event)\<rparr>"

section \<open>Reading\<close>

definition safeDecrypt :: "cipher \<Rightarrow> encrypted_payload option \<Rightarrow> app_error + string option" where
  "safeDecrypt c payload = (case payload of None \<Rightarrow> Inr None | Some p \<Rightarrow> decrypt c (Some p))"

record account_view =
  av_row :: account_row
  av_accountNumber :: "string option"

definition serializeBankAccount :: "cipher \<Rightarrow> account_row \<Rightarrow> app_error + account_view" where
  "serializeBankAccount c r =
     (case safeDecrypt c (ba_accountNumber r) of
        Inl e \<Rightarrow> Inl e
      | Inr v \<Rightarrow> Inr \<lparr>av_row = r\<lparr>ba_accountNumber := None\<rparr>, av_accountNumber = mask 4 v\<rparr>)"

record profile_view =
  pv_nationalId :: "string option"
  pv_passportNumber :: "string option"
  pv_personalEmail :: "string option"
  pv_personalPhone :: "string option"

definition serializeProfile :: "cipher \<Rightarrow> profile_row \<Rightarrow> app_error + profile_view" where
  "serializeProfile c p =
     (case safeDecrypt c (pf_nationalId p) of
        Inl e \<Rightarrow> Inl e
      | Inr n \<Rightarrow> (case safeDecrypt c (pf_passportNumber p) of
          Inl e \<Rightarrow> Inl e
        | Inr q \<Rightarrow> Inr \<lparr>pv_nationalId = mask 4 n, pv_passportNumber = mask 4 q,
                        pv_personalEmail = pf_personalEmail p, pv_personalPhone = pf_personalPhone p\<rparr>))"

fun map_result :: "('a \<Rightarrow> app_error + 'b) \<Rightarrow> 'a list \<Rightarrow> app_error + 'b list" where
  "map_result f [] = Inr []"
| "map_result f (x # xs) =
     (case f x of Inl e \<Rightarrow> Inl e | Inr y \<Rightarrow> (case map_result f xs of Inl e \<Rightarrow> Inl e | Inr ys \<Rightarrow> Inr (y # ys)))"

record employee_view =
  ev_id :: id
  ev_row :: employee_row
  ev_profile :: "profile_view option"
  ev_accounts :: "account_view list"

definition live_accounts :: "id \<Rightarrow> employees_db \<Rightarrow> (id \<times> account_row) list" where
  "live_accounts employeeId s = tbl_all (\<lambda>i a. ba_employeeId a = employeeId \<and> ba_deletedAt a = None) (ed_accounts s)"

definition serializeEmployee :: "cipher \<Rightarrow> id \<Rightarrow> employee_row \<Rightarrow> employees_db \<Rightarrow> app_error + employee_view" where
  "serializeEmployee c i e s =
     (case (case tbl_get i (ed_profiles s) of None \<Rightarrow> Inr None | Some p \<Rightarrow> map_sum id Some (serializeProfile c p)) of
        Inl err \<Rightarrow> Inl err
      | Inr p \<Rightarrow> (case map_result (serializeBankAccount c) (map snd (live_accounts i s)) of
          Inl err \<Rightarrow> Inl err
        | Inr as \<Rightarrow> Inr \<lparr>ev_id = i, ev_row = e, ev_profile = p, ev_accounts = as\<rparr>))"

definition get_employee :: "cipher \<Rightarrow> request_context \<Rightarrow> id \<Rightarrow> employees_db \<Rightarrow> app_error + employee_view" where
  "get_employee c user i s =
     (case emp_getOrThrow (rc_companyId user) i s of Inl e \<Rightarrow> Inl e | Inr r \<Rightarrow> serializeEmployee c i r s)"

section \<open>Hiring\<close>

record employee_dto =
  ew_employeeNumber :: "string option"
  ew_email :: "string option"
  ew_workEmail :: "string option"
  ew_workPhone :: "string option"
  ew_joinedAt :: "instant option"
  ew_employmentType :: "employment_type option"
  ew_status :: "employee_status option"
  ew_departmentId :: "id field"
  ew_managerId :: "id field"
  ew_jobTitleId :: "id field"
  ew_locationId :: "id field"
  ew_payGradeId :: "id field"
  ew_probationEndsAt :: "instant field"
  ew_lastWorkingDate :: "instant field"
  ew_nationalId :: "string field"
  ew_passportNumber :: "string field"
  ew_personalEmail :: "string field"
  ew_personalPhone :: "string field"

definition or_else :: "'a option \<Rightarrow> 'a option \<Rightarrow> 'a option" where
  "or_else x y = (case x of None \<Rightarrow> y | Some v \<Rightarrow> Some v)"

text \<open>\<^verbatim>\<open>dto.x ?? undefined\<close>: the value of a field, if it has one.\<close>

fun field_value :: "'a field \<Rightarrow> 'a option" where
  "field_value Undef = None"
| "field_value Null = None"
| "field_value (Val x) = Some x"

text \<open>The number of a company counts its employees, the removed ones included.\<close>

definition nextEmployeeNumber :: "id \<Rightarrow> employees_db \<Rightarrow> nat" where
  "nextEmployeeNumber companyId s = tbl_count (\<lambda>i e. em_companyId e = companyId) (ed_employees s)"

definition employee_number :: "nat \<Rightarrow> string" where
  "employee_number n = CHR ''T'' # pad_left 5 (int n)"

definition generateEmployeeNumber :: "id \<Rightarrow> employees_db \<Rightarrow> string" where
  "generateEmployeeNumber companyId s = employee_number (nextEmployeeNumber companyId s + 1)"

definition assertEmployeeUnique :: "id \<Rightarrow> string \<Rightarrow> string option \<Rightarrow> employees_db \<Rightarrow> app_error + unit" where
  "assertEmployeeUnique companyId number workEmail s =
     (if tbl_find (\<lambda>i e. em_companyId e = companyId \<and> em_deletedAt e = None \<and>
            (em_employeeNumber e = number \<or> (case workEmail of None \<Rightarrow> False | Some m \<Rightarrow> m \<noteq> [] \<and> same_email (em_workEmail e) m)))
          (ed_employees s) \<noteq> None
      then Inl (ConflictError ''Employee number or email already exists'') else Inr ())"

text \<open>The constraints of the table: references that exist, unique number and email in the company.\<close>

definition ref_ok :: "id option \<Rightarrow> 'r table \<Rightarrow> bool" where
  "ref_ok r t = (case r of None \<Rightarrow> True | Some i \<Rightarrow> tbl_get i t \<noteq> None)"

definition employee_refs_ok :: "employee_row \<Rightarrow> employees_db \<Rightarrow> bool" where
  "employee_refs_ok e s \<longleftrightarrow> ref_ok (em_departmentId e) (ed_departments s) \<and> ref_ok (em_managerId e) (ed_employees s)
     \<and> ref_ok (em_jobTitleId e) (ed_jobTitles s) \<and> ref_ok (em_locationId e) (ed_locations s)
     \<and> ref_ok (em_payGradeId e) (ed_payGrades s)"

definition employee_key_free :: "id \<Rightarrow> employee_row \<Rightarrow> employees_db \<Rightarrow> bool" where
  "employee_key_free i e s \<longleftrightarrow>
     tbl_find (\<lambda>j f. j \<noteq> i \<and> em_companyId f = em_companyId e \<and>
        (em_employeeNumber f = em_employeeNumber e \<or> same_email (em_workEmail f) (em_workEmail e))) (ed_employees s) = None"

text \<open>The two encryptions of a request, each with its own nonce.\<close>

definition profileData :: "cipher \<Rightarrow> string \<Rightarrow> string \<Rightarrow> employee_dto \<Rightarrow> profile_row option" where
  "profileData c iv1 iv2 dto =
     (let nationalId = encrypt c iv1 (field_value (ew_nationalId dto));
          passportNumber = encrypt c iv2 (field_value (ew_passportNumber dto));
          falsy = (\<lambda>f. case field_value f of None \<Rightarrow> True | Some v \<Rightarrow> v = ([] :: string))
      in if nationalId = None \<and> passportNumber = None \<and> falsy (ew_personalEmail dto) \<and> falsy (ew_personalPhone dto)
         then None
         else Some \<lparr>pf_nationalId = nationalId, pf_passportNumber = passportNumber,
                    pf_personalEmail = field_value (ew_personalEmail dto), pf_personalPhone = field_value (ew_personalPhone dto)\<rparr>)"

definition history_of :: "request_context \<Rightarrow> id \<Rightarrow> history_event \<Rightarrow> instant \<Rightarrow> employee_row \<Rightarrow> string option \<Rightarrow> history_row" where
  "history_of user i event effectiveDate e notes =
     \<lparr>hi_companyId = rc_companyId user, hi_employeeId = i, hi_eventType = event, hi_effectiveDate = utc_midnight effectiveDate,
      hi_departmentId = em_departmentId e, hi_jobTitleId = em_jobTitleId e, hi_payGradeId = em_payGradeId e,
      hi_locationId = em_locationId e, hi_managerId = em_managerId e, hi_notes = notes, hi_createdById = rc_userId user\<rparr>"

definition hired_row :: "instant \<Rightarrow> id \<Rightarrow> string \<Rightarrow> employee_dto \<Rightarrow> employee_row" where
  "hired_row now companyId number dto =
     \<lparr>em_companyId = companyId, em_employeeNumber = number, em_userId = None,
      em_departmentId = field_value (ew_departmentId dto), em_managerId = field_value (ew_managerId dto),
      em_jobTitleId = field_value (ew_jobTitleId dto), em_locationId = field_value (ew_locationId dto),
      em_payGradeId = field_value (ew_payGradeId dto),
      em_employmentType = (case ew_employmentType dto of None \<Rightarrow> FULL_TIME | Some t \<Rightarrow> t), em_status = EmpACTIVE,
      em_joinedAt = utc_midnight (case ew_joinedAt dto of None \<Rightarrow> now | Some t \<Rightarrow> t),
      em_probationEndsAt = map_option utc_midnight (field_value (ew_probationEndsAt dto)), em_exitedAt = None,
      em_lastWorkingDate = None, em_exitReason = None,
      em_workEmail = (case or_else (ew_workEmail dto) (ew_email dto) of
          None \<Rightarrow> toLowerCase number @ ''@example.invalid'' | Some m \<Rightarrow> m),
      em_workPhone = ew_workPhone dto, em_deletedAt = None\<rparr>"

definition hireEmployee ::
    "cipher \<Rightarrow> string \<Rightarrow> string \<Rightarrow> instant \<Rightarrow> id \<Rightarrow> request_context \<Rightarrow> employee_dto \<Rightarrow> employees_db
       \<Rightarrow> (employees_db, employee_view) outcome" where
  "hireEmployee c iv1 iv2 now newId user dto s =
     (let companyId = rc_companyId user;
          number = (case ew_employeeNumber dto of None \<Rightarrow> generateEmployeeNumber companyId s | Some n \<Rightarrow> n)
      in case assertEmployeeUnique companyId number (or_else (ew_workEmail dto) (ew_email dto)) s of
           Inl e \<Rightarrow> (Inl e, s)
         | Inr _ \<Rightarrow>
             (let r = hired_row now companyId number dto
              in if \<not> employee_refs_ok r s \<or> \<not> employee_key_free newId r s then (Inl (DatabaseError ''employees''), s)
                 else
                   (let t = emit_employee ''employee.hired'' newId (emp_audit user newId ''EMPLOYEE_HIRED'' JNull (auditEmployee newId r)
                          (s\<lparr>ed_employees := tbl_insert newId r (ed_employees s),
                             ed_profiles := (case profileData c iv1 iv2 dto of None \<Rightarrow> ed_profiles s
                                             | Some p \<Rightarrow> tbl_insert newId p (ed_profiles s)),
                             ed_history := ed_history s @ [history_of user newId HIRED
                                (case ew_joinedAt dto of None \<Rightarrow> now | Some d \<Rightarrow> d) r None]\<rparr>))
                    in (get_employee c user newId t, t))))"

section \<open>Changing\<close>

text \<open>A relation is connected when its id is not empty, and disconnected otherwise.\<close>

definition patch_link :: "id field \<Rightarrow> id option \<Rightarrow> id option" where
  "patch_link f old = (case f of Val x \<Rightarrow> if x = [] then None else Some x | _ \<Rightarrow> patch_field f old)"

definition truthy :: "string option \<Rightarrow> bool" where
  "truthy x = (case x of None \<Rightarrow> False | Some v \<Rightarrow> v \<noteq> [])"

definition toEmployeeUpdateData :: "employee_dto \<Rightarrow> employee_row \<Rightarrow> employee_row" where
  "toEmployeeUpdateData dto e =
     e\<lparr>em_workEmail := (if truthy (ew_workEmail dto) \<or> truthy (ew_email dto)
          then (case or_else (ew_workEmail dto) (ew_email dto) of None \<Rightarrow> em_workEmail e | Some m \<Rightarrow> m) else em_workEmail e),
       em_workPhone := or_else (ew_workPhone dto) (em_workPhone e),
       em_employmentType := (case ew_employmentType dto of None \<Rightarrow> em_employmentType e | Some t \<Rightarrow> t),
       em_status := (case ew_status dto of None \<Rightarrow> em_status e | Some st \<Rightarrow> st),
       em_joinedAt := (case ew_joinedAt dto of None \<Rightarrow> em_joinedAt e | Some t \<Rightarrow> utc_midnight t),
       em_probationEndsAt := map_option utc_midnight (patch_field (ew_probationEndsAt dto) (em_probationEndsAt e)),
       em_lastWorkingDate := map_option utc_midnight (patch_field (ew_lastWorkingDate dto) (em_lastWorkingDate e)),
       em_departmentId := patch_link (ew_departmentId dto) (em_departmentId e),
       em_managerId := patch_link (ew_managerId dto) (em_managerId e),
       em_jobTitleId := patch_link (ew_jobTitleId dto) (em_jobTitleId e),
       em_locationId := patch_link (ew_locationId dto) (em_locationId e),
       em_payGradeId := patch_link (ew_payGradeId dto) (em_payGradeId e)\<rparr>"

text \<open>An encrypted field is written only when there is something to encrypt.\<close>

definition patch_secret :: "cipher \<Rightarrow> string \<Rightarrow> string field \<Rightarrow> encrypted_payload option \<Rightarrow> encrypted_payload option" where
  "patch_secret c iv f old = or_else (encrypt c iv (field_value f)) old"

definition upsertProfile :: "cipher \<Rightarrow> string \<Rightarrow> string \<Rightarrow> id \<Rightarrow> employee_dto \<Rightarrow> profile_row table \<Rightarrow> profile_row table" where
  "upsertProfile c iv1 iv2 employeeId dto t =
     (if ew_nationalId dto = Undef \<and> ew_passportNumber dto = Undef \<and> ew_personalEmail dto = Undef \<and> ew_personalPhone dto = Undef
      then t
      else
        (let patch = (\<lambda>p. p\<lparr>pf_nationalId := patch_secret c iv1 (ew_nationalId dto) (pf_nationalId p),
                             pf_passportNumber := patch_secret c iv2 (ew_passportNumber dto) (pf_passportNumber p),
                             pf_personalEmail := patch_field (ew_personalEmail dto) (pf_personalEmail p),
                             pf_personalPhone := patch_field (ew_personalPhone dto) (pf_personalPhone p)\<rparr>)
         in case tbl_get employeeId t of
              Some _ \<Rightarrow> tbl_update employeeId patch t
            | None \<Rightarrow> tbl_insert employeeId (patch \<lparr>pf_nationalId = None, pf_passportNumber = None,
                         pf_personalEmail = None, pf_personalPhone = None\<rparr>) t))"

definition update_employee ::
    "cipher \<Rightarrow> string \<Rightarrow> string \<Rightarrow> request_context \<Rightarrow> id \<Rightarrow> employee_dto \<Rightarrow> employees_db \<Rightarrow> (employees_db, employee_view) outcome" where
  "update_employee c iv1 iv2 user i dto s =
     (case emp_getOrThrow (rc_companyId user) i s of
        Inl e \<Rightarrow> (Inl e, s)
      | Inr old \<Rightarrow>
          (let r = toEmployeeUpdateData dto old
           in if \<not> employee_refs_ok r s \<or> \<not> employee_key_free i r s then (Inl (DatabaseError ''employees''), s)
              else
                (let t = emp_audit user i ''EMPLOYEE_UPDATED'' (auditEmployee i old) (auditEmployee i r)
                       (s\<lparr>ed_employees := tbl_update i (\<lambda>_. r) (ed_employees s),
                          ed_profiles := upsertProfile c iv1 iv2 i dto (ed_profiles s)\<rparr>)
                 in (get_employee c user i t, t))))"

section \<open>The career\<close>

record promote_dto =
  pr_jobTitleId :: id
  pr_payGradeId :: "id field"
  pr_effectiveDate :: instant
  pr_notes :: "string option"

definition assertJobTitleExists :: "id \<Rightarrow> id \<Rightarrow> employees_db \<Rightarrow> app_error + unit" where
  "assertJobTitleExists companyId jobTitleId s =
     (if tbl_get_where jobTitleId (\<lambda>r. rf_companyId r = companyId \<and> rf_deletedAt r = None) (ed_jobTitles s) = None
      then Inl (ValidationError ''Job title not found'') else Inr ())"

definition assertPayGradeExists :: "id \<Rightarrow> id \<Rightarrow> employees_db \<Rightarrow> app_error + unit" where
  "assertPayGradeExists companyId payGradeId s =
     (if tbl_get_where payGradeId (\<lambda>r. rf_companyId r = companyId \<and> rf_deletedAt r = None) (ed_payGrades s) = None
      then Inl (ValidationError ''Pay grade not found'') else Inr ())"

text \<open>A step of the career: the row, its history, the audit entry and the event.\<close>

definition career_step ::
    "cipher \<Rightarrow> request_context \<Rightarrow> id \<Rightarrow> employee_row \<Rightarrow> employee_row \<Rightarrow> history_row \<Rightarrow> string \<Rightarrow> (string \<times> json) list \<Rightarrow> string
       \<Rightarrow> employees_db \<Rightarrow> (employees_db, employee_view) outcome" where
  "career_step c user i old r h act extra event s =
     (if \<not> employee_refs_ok r s then (Inl (DatabaseError ''employees''), s)
      else
        (let t = emit_employee event i (emp_audit user i act (auditEmployee i old) (JObj (audit_employee_fields i r @ extra))
               (s\<lparr>ed_employees := tbl_update i (\<lambda>_. r) (ed_employees s), ed_history := ed_history s @ [h]\<rparr>))
         in (get_employee c user i t, t)))"

text \<open>The history row of a promotion has the pay grade of the request, not that of the employee.\<close>

definition promoteEmployee ::
    "cipher \<Rightarrow> request_context \<Rightarrow> id \<Rightarrow> promote_dto \<Rightarrow> employees_db \<Rightarrow> (employees_db, employee_view) outcome" where
  "promoteEmployee c user i dto s =
     (case emp_getOrThrow (rc_companyId user) i s of
        Inl e \<Rightarrow> (Inl e, s)
      | Inr old \<Rightarrow>
          (case assertJobTitleExists (rc_companyId user) (pr_jobTitleId dto) s of
             Inl e \<Rightarrow> (Inl e, s)
           | Inr _ \<Rightarrow>
               (case (if truthy (field_value (pr_payGradeId dto))
                      then assertPayGradeExists (rc_companyId user) (the (field_value (pr_payGradeId dto))) s else Inr ()) of
                  Inl e \<Rightarrow> (Inl e, s)
                | Inr _ \<Rightarrow>
                    (let r = old\<lparr>em_jobTitleId := Some (pr_jobTitleId dto),
                                em_payGradeId := or_else (field_value (pr_payGradeId dto)) (em_payGradeId old)\<rparr>
                     in career_step c user i old r
                          ((history_of user i PROMOTED (pr_effectiveDate dto) r (pr_notes dto))
                             \<lparr>hi_payGradeId := field_value (pr_payGradeId dto)\<rparr>)
                          ''EMPLOYEE_PROMOTED'' [(''effectiveDate'', JStr (toISOString (pr_effectiveDate dto)))] ''employee.promoted'' s))))"

record transfer_dto =
  tr_departmentId :: "id field"
  tr_locationId :: "id field"
  tr_managerId :: "id field"
  tr_effectiveDate :: instant
  tr_notes :: "string option"

definition transferEmployee ::
    "cipher \<Rightarrow> request_context \<Rightarrow> id \<Rightarrow> transfer_dto \<Rightarrow> employees_db \<Rightarrow> (employees_db, employee_view) outcome" where
  "transferEmployee c user i dto s =
     (case emp_getOrThrow (rc_companyId user) i s of
        Inl e \<Rightarrow> (Inl e, s)
      | Inr old \<Rightarrow>
          (let r = old\<lparr>em_departmentId := or_else (field_value (tr_departmentId dto)) (em_departmentId old),
                       em_locationId := or_else (field_value (tr_locationId dto)) (em_locationId old),
                       em_managerId := or_else (field_value (tr_managerId dto)) (em_managerId old)\<rparr>
           in career_step c user i old r (history_of user i TRANSFERRED (tr_effectiveDate dto) r (tr_notes dto))
                ''EMPLOYEE_TRANSFERRED'' [] ''employee.transferred'' s))"

record terminate_dto =
  tm_lastWorkingDate :: instant
  tm_exitReason :: "string option"

definition terminateEmployee ::
    "cipher \<Rightarrow> request_context \<Rightarrow> id \<Rightarrow> terminate_dto \<Rightarrow> employees_db \<Rightarrow> (employees_db, employee_view) outcome" where
  "terminateEmployee c user i dto s =
     (case emp_getOrThrow (rc_companyId user) i s of
        Inl e \<Rightarrow> (Inl e, s)
      | Inr old \<Rightarrow>
          if em_status old = EmpTERMINATED then (Inl (ConflictError ''Employee is already terminated''), s)
          else
            (let d = utc_midnight (tm_lastWorkingDate dto);
                 r = old\<lparr>em_status := EmpTERMINATED, em_exitedAt := Some d, em_lastWorkingDate := Some d,
                         em_exitReason := or_else (tm_exitReason dto) (em_exitReason old)\<rparr>
             in career_step c user i old r (history_of user i TERMINATED (tm_lastWorkingDate dto) r (tm_exitReason dto))
                  ''EMPLOYEE_TERMINATED'' [] ''employee.terminated'' s))"

definition remove_employee :: "instant \<Rightarrow> request_context \<Rightarrow> id \<Rightarrow> employees_db \<Rightarrow> (employees_db, unit) outcome" where
  "remove_employee now user i s =
     (case emp_getOrThrow (rc_companyId user) i s of
        Inl e \<Rightarrow> (Inl e, s)
      | Inr old \<Rightarrow>
          (let r = old\<lparr>em_deletedAt := Some now\<rparr>
           in (Inr (), emp_audit user i ''EMPLOYEE_DELETED'' (auditEmployee i old) (auditEmployee i r)
                 (s\<lparr>ed_employees := tbl_update i (\<lambda>_. r) (ed_employees s)\<rparr>))))"

text \<open>Rows are kept in the order of their creation, so the newest first is the reversed list.\<close>

definition employmentHistory :: "request_context \<Rightarrow> id \<Rightarrow> employees_db \<Rightarrow> app_error + history_row list" where
  "employmentHistory user i s =
     (case emp_getOrThrow (rc_companyId user) i s of
        Inl e \<Rightarrow> Inl e
      | Inr _ \<Rightarrow> Inr (sort_key (\<lambda>h. - hi_effectiveDate h)
            (rev (filter (\<lambda>h. hi_companyId h = rc_companyId user \<and> hi_employeeId h = i) (ed_history s)))))"

section \<open>Addresses and contacts\<close>

definition auditSubResource :: "request_context \<Rightarrow> id \<Rightarrow> string \<Rightarrow> json \<Rightarrow> json \<Rightarrow> employees_db \<Rightarrow> employees_db" where
  "auditSubResource user employeeId act old new s = emp_audit user employeeId act old new s"

record address_dto =
  dd_type :: address_type
  dd_line1 :: string
  dd_line2 :: "string field"
  dd_city :: string
  dd_state :: "string field"
  dd_postalCode :: "string field"
  dd_country :: string
  dd_isPrimary :: bool

definition address_json :: "id \<Rightarrow> address_row \<Rightarrow> json" where
  "address_json i r = JObj [(''id'', JStr i), (''employeeId'', JStr (ad_employeeId r)), (''line1'', JStr (ad_line1 r)),
     (''line2'', opt_str (ad_line2 r)), (''city'', JStr (ad_city r)), (''state'', opt_str (ad_state r)),
     (''postalCode'', opt_str (ad_postalCode r)), (''country'', JStr (ad_country r)), (''isPrimary'', JBool (ad_isPrimary r)),
     (''deletedAt'', opt_date (ad_deletedAt r))]"

definition patch_address :: "address_dto \<Rightarrow> address_row \<Rightarrow> address_row" where
  "patch_address dto r =
     r\<lparr>ad_type := dd_type dto, ad_line1 := dd_line1 dto, ad_line2 := patch_field (dd_line2 dto) (ad_line2 r),
       ad_city := dd_city dto, ad_state := patch_field (dd_state dto) (ad_state r),
       ad_postalCode := patch_field (dd_postalCode dto) (ad_postalCode r), ad_country := dd_country dto,
       ad_isPrimary := dd_isPrimary dto\<rparr>"

definition empty_address :: "id \<Rightarrow> address_row" where
  "empty_address employeeId =
     \<lparr>ad_employeeId = employeeId, ad_type = HOME, ad_line1 = [], ad_line2 = None, ad_city = [], ad_state = None,
      ad_postalCode = None, ad_country = [], ad_isPrimary = False, ad_deletedAt = None\<rparr>"

definition getAddressOrThrow :: "id \<Rightarrow> id \<Rightarrow> employees_db \<Rightarrow> app_error + address_row" where
  "getAddressOrThrow employeeId i s =
     (case tbl_get_where i (\<lambda>r. ad_employeeId r = employeeId \<and> ad_deletedAt r = None) (ed_addresses s) of
        None \<Rightarrow> Inl (NotFoundError ''Address not found'') | Some r \<Rightarrow> Inr r)"

definition listAddresses :: "request_context \<Rightarrow> id \<Rightarrow> employees_db \<Rightarrow> app_error + (id \<times> address_row) list" where
  "listAddresses user employeeId s =
     (case emp_getOrThrow (rc_companyId user) employeeId s of
        Inl e \<Rightarrow> Inl e
      | Inr _ \<Rightarrow> Inr (tbl_all (\<lambda>i r. ad_employeeId r = employeeId \<and> ad_deletedAt r = None) (ed_addresses s)))"

definition createAddress ::
    "id \<Rightarrow> request_context \<Rightarrow> id \<Rightarrow> address_dto \<Rightarrow> employees_db \<Rightarrow> (employees_db, id \<times> address_row) outcome" where
  "createAddress newId user employeeId dto s =
     (case emp_getOrThrow (rc_companyId user) employeeId s of
        Inl e \<Rightarrow> (Inl e, s)
      | Inr _ \<Rightarrow>
          (let r = patch_address dto (empty_address employeeId)
           in (Inr (newId, r), auditSubResource user employeeId ''address_create'' JNull (address_json newId r)
                 (s\<lparr>ed_addresses := tbl_insert newId r (ed_addresses s)\<rparr>))))"

definition updateAddress ::
    "request_context \<Rightarrow> id \<Rightarrow> id \<Rightarrow> address_dto \<Rightarrow> employees_db \<Rightarrow> (employees_db, id \<times> address_row) outcome" where
  "updateAddress user employeeId i dto s =
     (case emp_getOrThrow (rc_companyId user) employeeId s of
        Inl e \<Rightarrow> (Inl e, s)
      | Inr _ \<Rightarrow> (case getAddressOrThrow employeeId i s of
          Inl e \<Rightarrow> (Inl e, s)
        | Inr old \<Rightarrow>
            (let r = patch_address dto old
             in (Inr (i, r), auditSubResource user employeeId ''address_update'' (address_json i old) (address_json i r)
                   (s\<lparr>ed_addresses := tbl_update i (\<lambda>_. r) (ed_addresses s)\<rparr>)))))"

definition deleteAddress :: "instant \<Rightarrow> request_context \<Rightarrow> id \<Rightarrow> id \<Rightarrow> employees_db \<Rightarrow> (employees_db, unit) outcome" where
  "deleteAddress now user employeeId i s =
     (case emp_getOrThrow (rc_companyId user) employeeId s of
        Inl e \<Rightarrow> (Inl e, s)
      | Inr _ \<Rightarrow> (case getAddressOrThrow employeeId i s of
          Inl e \<Rightarrow> (Inl e, s)
        | Inr old \<Rightarrow>
            (let r = old\<lparr>ad_deletedAt := Some now\<rparr>
             in (Inr (), auditSubResource user employeeId ''address_delete'' (address_json i old) (address_json i r)
                   (s\<lparr>ed_addresses := tbl_update i (\<lambda>_. r) (ed_addresses s)\<rparr>)))))"

record contact_dto =
  cd_name :: string
  cd_relationship :: string
  cd_phone :: string
  cd_email :: "string field"
  cd_isPrimary :: bool

definition contact_json :: "id \<Rightarrow> contact_row \<Rightarrow> json" where
  "contact_json i r = JObj [(''id'', JStr i), (''employeeId'', JStr (ec_employeeId r)), (''name'', JStr (ec_name r)),
     (''relationship'', JStr (ec_relationship r)), (''phone'', JStr (ec_phone r)), (''email'', opt_str (ec_email r)),
     (''isPrimary'', JBool (ec_isPrimary r)), (''deletedAt'', opt_date (ec_deletedAt r))]"

definition patch_contact :: "contact_dto \<Rightarrow> contact_row \<Rightarrow> contact_row" where
  "patch_contact dto r =
     r\<lparr>ec_name := cd_name dto, ec_relationship := cd_relationship dto, ec_phone := cd_phone dto,
       ec_email := patch_field (cd_email dto) (ec_email r), ec_isPrimary := cd_isPrimary dto\<rparr>"

definition empty_contact :: "id \<Rightarrow> contact_row" where
  "empty_contact employeeId =
     \<lparr>ec_employeeId = employeeId, ec_name = [], ec_relationship = [], ec_phone = [], ec_email = None,
      ec_isPrimary = False, ec_deletedAt = None\<rparr>"

definition getContactOrThrow :: "id \<Rightarrow> id \<Rightarrow> employees_db \<Rightarrow> app_error + contact_row" where
  "getContactOrThrow employeeId i s =
     (case tbl_get_where i (\<lambda>r. ec_employeeId r = employeeId \<and> ec_deletedAt r = None) (ed_contacts s) of
        None \<Rightarrow> Inl (NotFoundError ''Emergency contact not found'') | Some r \<Rightarrow> Inr r)"

text \<open>The listing is ordered by name; the order of strings is the one of the database, a parameter.\<close>

definition listEmergencyContacts ::
    "(string \<Rightarrow> 'k::linorder) \<Rightarrow> request_context \<Rightarrow> id \<Rightarrow> employees_db \<Rightarrow> app_error + (id \<times> contact_row) list" where
  "listEmergencyContacts key user employeeId s =
     (case emp_getOrThrow (rc_companyId user) employeeId s of
        Inl e \<Rightarrow> Inl e
      | Inr _ \<Rightarrow> Inr (sort_key (\<lambda>(i, r). key (ec_name r))
            (tbl_all (\<lambda>i r. ec_employeeId r = employeeId \<and> ec_deletedAt r = None) (ed_contacts s))))"

definition createEmergencyContact ::
    "id \<Rightarrow> request_context \<Rightarrow> id \<Rightarrow> contact_dto \<Rightarrow> employees_db \<Rightarrow> (employees_db, id \<times> contact_row) outcome" where
  "createEmergencyContact newId user employeeId dto s =
     (case emp_getOrThrow (rc_companyId user) employeeId s of
        Inl e \<Rightarrow> (Inl e, s)
      | Inr _ \<Rightarrow>
          (let r = patch_contact dto (empty_contact employeeId)
           in (Inr (newId, r), auditSubResource user employeeId ''emergency_contact_create'' JNull (contact_json newId r)
                 (s\<lparr>ed_contacts := tbl_insert newId r (ed_contacts s)\<rparr>))))"

definition updateEmergencyContact ::
    "request_context \<Rightarrow> id \<Rightarrow> id \<Rightarrow> contact_dto \<Rightarrow> employees_db \<Rightarrow> (employees_db, id \<times> contact_row) outcome" where
  "updateEmergencyContact user employeeId i dto s =
     (case emp_getOrThrow (rc_companyId user) employeeId s of
        Inl e \<Rightarrow> (Inl e, s)
      | Inr _ \<Rightarrow> (case getContactOrThrow employeeId i s of
          Inl e \<Rightarrow> (Inl e, s)
        | Inr old \<Rightarrow>
            (let r = patch_contact dto old
             in (Inr (i, r), auditSubResource user employeeId ''emergency_contact_update'' (contact_json i old) (contact_json i r)
                   (s\<lparr>ed_contacts := tbl_update i (\<lambda>_. r) (ed_contacts s)\<rparr>)))))"

definition deleteEmergencyContact ::
    "instant \<Rightarrow> request_context \<Rightarrow> id \<Rightarrow> id \<Rightarrow> employees_db \<Rightarrow> (employees_db, unit) outcome" where
  "deleteEmergencyContact now user employeeId i s =
     (case emp_getOrThrow (rc_companyId user) employeeId s of
        Inl e \<Rightarrow> (Inl e, s)
      | Inr _ \<Rightarrow> (case getContactOrThrow employeeId i s of
          Inl e \<Rightarrow> (Inl e, s)
        | Inr old \<Rightarrow>
            (let r = old\<lparr>ec_deletedAt := Some now\<rparr>
             in (Inr (), auditSubResource user employeeId ''emergency_contact_delete'' (contact_json i old) (contact_json i r)
                   (s\<lparr>ed_contacts := tbl_update i (\<lambda>_. r) (ed_contacts s)\<rparr>)))))"

section \<open>Bank accounts\<close>

record account_dto =
  bd_accountName :: string
  bd_accountNumber :: string
  bd_routingNumber :: "string field"
  bd_bankName :: string
  bd_bankCode :: "string field"
  bd_currency :: string
  bd_isPrimary :: bool

definition patch_account :: "cipher \<Rightarrow> string \<Rightarrow> account_dto \<Rightarrow> account_row \<Rightarrow> account_row" where
  "patch_account c iv dto r =
     r\<lparr>ba_accountName := bd_accountName dto, ba_accountNumber := encrypt c iv (Some (bd_accountNumber dto)),
       ba_routingNumber := patch_field (bd_routingNumber dto) (ba_routingNumber r), ba_bankName := bd_bankName dto,
       ba_bankCode := patch_field (bd_bankCode dto) (ba_bankCode r), ba_currency := bd_currency dto,
       ba_isPrimary := bd_isPrimary dto\<rparr>"

definition empty_account :: "id \<Rightarrow> account_row" where
  "empty_account employeeId =
     \<lparr>ba_employeeId = employeeId, ba_accountName = [], ba_accountNumber = None, ba_routingNumber = None, ba_bankName = [],
      ba_bankCode = None, ba_currency = [], ba_isPrimary = False, ba_deletedAt = None\<rparr>"

definition auditBank :: "cipher \<Rightarrow> id \<Rightarrow> account_row \<Rightarrow> app_error + json" where
  "auditBank c i r =
     (case serializeBankAccount c r of
        Inl e \<Rightarrow> Inl e
      | Inr v \<Rightarrow> Inr (JObj [(''id'', JStr i), (''accountName'', JStr (ba_accountName r)),
          (''accountNumber'', opt_str (av_accountNumber v)), (''routingNumber'', opt_str (ba_routingNumber r)),
          (''bankName'', JStr (ba_bankName r)), (''currency'', JStr (ba_currency r)),
          (''isPrimary'', JBool (ba_isPrimary r)), (''deletedAt'', opt_date (ba_deletedAt r))]))"

definition getBankAccountOrThrow :: "id \<Rightarrow> id \<Rightarrow> employees_db \<Rightarrow> app_error + account_row" where
  "getBankAccountOrThrow employeeId i s =
     (case tbl_get_where i (\<lambda>r. ba_employeeId r = employeeId \<and> ba_deletedAt r = None) (ed_accounts s) of
        None \<Rightarrow> Inl (NotFoundError ''Bank account not found'') | Some r \<Rightarrow> Inr r)"

definition listBankAccounts :: "cipher \<Rightarrow> request_context \<Rightarrow> id \<Rightarrow> employees_db \<Rightarrow> app_error + account_view list" where
  "listBankAccounts c user employeeId s =
     (case emp_getOrThrow (rc_companyId user) employeeId s of
        Inl e \<Rightarrow> Inl e
      | Inr _ \<Rightarrow> map_result (serializeBankAccount c) (map snd (live_accounts employeeId s)))"

text \<open>The audit of a written account and the answer; the row stays written when they fail.\<close>

definition account_written ::
    "cipher \<Rightarrow> request_context \<Rightarrow> id \<Rightarrow> string \<Rightarrow> app_error + json \<Rightarrow> id \<Rightarrow> account_row \<Rightarrow> employees_db
       \<Rightarrow> (employees_db, account_view) outcome" where
  "account_written c user employeeId act old i r s =
     (case (old, auditBank c i r) of
        (Inr o', Inr n) \<Rightarrow> (serializeBankAccount c r, auditSubResource user employeeId act o' n s)
      | (Inl e, _) \<Rightarrow> (Inl e, s)
      | (_, Inl e) \<Rightarrow> (Inl e, s))"

definition createBankAccount ::
    "cipher \<Rightarrow> string \<Rightarrow> id \<Rightarrow> request_context \<Rightarrow> id \<Rightarrow> account_dto \<Rightarrow> employees_db \<Rightarrow> (employees_db, account_view) outcome" where
  "createBankAccount c iv newId user employeeId dto s =
     (case emp_getOrThrow (rc_companyId user) employeeId s of
        Inl e \<Rightarrow> (Inl e, s)
      | Inr _ \<Rightarrow>
          (let r = patch_account c iv dto (empty_account employeeId)
           in if ba_accountNumber r = None then (Inl (DatabaseError ''bank_accounts''), s)
              else account_written c user employeeId ''bank_account_create'' (Inr JNull) newId r
                     (s\<lparr>ed_accounts := tbl_insert newId r (ed_accounts s)\<rparr>)))"

definition updateBankAccount ::
    "cipher \<Rightarrow> string \<Rightarrow> request_context \<Rightarrow> id \<Rightarrow> id \<Rightarrow> account_dto \<Rightarrow> employees_db \<Rightarrow> (employees_db, account_view) outcome" where
  "updateBankAccount c iv user employeeId i dto s =
     (case emp_getOrThrow (rc_companyId user) employeeId s of
        Inl e \<Rightarrow> (Inl e, s)
      | Inr _ \<Rightarrow> (case getBankAccountOrThrow employeeId i s of
          Inl e \<Rightarrow> (Inl e, s)
        | Inr old \<Rightarrow>
            (let r = patch_account c iv dto old
             in if ba_accountNumber r = None then (Inl (DatabaseError ''bank_accounts''), s)
                else account_written c user employeeId ''bank_account_update'' (auditBank c i old) i r
                       (s\<lparr>ed_accounts := tbl_update i (\<lambda>_. r) (ed_accounts s)\<rparr>))))"

definition deleteBankAccount ::
    "cipher \<Rightarrow> instant \<Rightarrow> request_context \<Rightarrow> id \<Rightarrow> id \<Rightarrow> employees_db \<Rightarrow> (employees_db, unit) outcome" where
  "deleteBankAccount c now user employeeId i s =
     (case emp_getOrThrow (rc_companyId user) employeeId s of
        Inl e \<Rightarrow> (Inl e, s)
      | Inr _ \<Rightarrow> (case getBankAccountOrThrow employeeId i s of
          Inl e \<Rightarrow> (Inl e, s)
        | Inr old \<Rightarrow>
            (let r = old\<lparr>ba_deletedAt := Some now\<rparr>;
                 (res, t) = account_written c user employeeId ''bank_account_delete'' (auditBank c i old) i r
                   (s\<lparr>ed_accounts := tbl_update i (\<lambda>_. r) (ed_accounts s)\<rparr>)
             in (map_sum (\<lambda>e. e) (\<lambda>_. ()) res, t))))"

end
