(* ===== verification/Careers.thy ===== *)
theory Careers
  imports Employees
begin

text \<open>
  Properties of \<open>Employees\<close>: generated numbers are consecutive until a number given by hand
  takes the next one and blocks the company; the newest history row of an employee has the placement
  of its row; and what the service answers, lists and writes to its own audit entries about a bank
  account depends only on the length and the last four characters of its number.
\<close>

section \<open>Generated numbers\<close>

definition company_numbers :: "id \<Rightarrow> employees_db \<Rightarrow> string list" where
  "company_numbers companyId s = map (em_employeeNumber \<circ> snd) (tbl_all (\<lambda>i e. em_companyId e = companyId) (ed_employees s))"

lemma length_company_numbers: "length (company_numbers co s) = nextEmployeeNumber co s"
  by (simp add: company_numbers_def nextEmployeeNumber_def tbl_count_def)

lemma employee_number_inject: "employee_number m = employee_number n \<Longrightarrow> m = n"
  using pad_left_inject[of "int m" "int n" 5] by (simp add: employee_number_def)

record hire_request =
  hq_nonces :: "string \<times> string"
  hq_now :: instant
  hq_id :: id
  hq_user :: request_context
  hq_dto :: employee_dto

definition hire_step :: "cipher \<Rightarrow> hire_request \<Rightarrow> employees_db \<Rightarrow> employees_db" where
  "hire_step c q s = snd (hireEmployee c (fst (hq_nonces q)) (snd (hq_nonces q)) (hq_now q) (hq_id q) (hq_user q) (hq_dto q) s)"

lemma hire_cases:
  obtains "snd (hireEmployee c iv1 iv2 now n user dto s) = s"
  | r where "r = hired_row now (rc_companyId user)
        (case ew_employeeNumber dto of None \<Rightarrow> generateEmployeeNumber (rc_companyId user) s | Some m \<Rightarrow> m) dto"
      "employee_refs_ok r s" "employee_key_free n r s"
      "ed_employees (snd (hireEmployee c iv1 iv2 now n user dto s)) = tbl_insert n r (ed_employees s)"
      "ed_history (snd (hireEmployee c iv1 iv2 now n user dto s))
         = ed_history s @ [history_of user n HIRED (case ew_joinedAt dto of None \<Rightarrow> now | Some d \<Rightarrow> d) r None]"
proof -
  define number where "number = (case ew_employeeNumber dto of None \<Rightarrow> generateEmployeeNumber (rc_companyId user) s | Some m \<Rightarrow> m)"
  define r where "r = hired_row now (rc_companyId user) number dto"
  show thesis
  proof (cases "is_error (assertEmployeeUnique (rc_companyId user) number (or_else (ew_workEmail dto) (ew_email dto)) s)
      \<or> \<not> employee_refs_ok r s \<or> \<not> employee_key_free n r s")
    case True
    then have "snd (hireEmployee c iv1 iv2 now n user dto s) = s"
      unfolding hireEmployee_def Let_def number_def[symmetric] r_def[symmetric] by (auto split: sum.splits)
    then show thesis by (rule that(1))
  next
    case False
    then obtain u where u: "assertEmployeeUnique (rc_companyId user) number (or_else (ew_workEmail dto) (ew_email dto)) s = Inr u"
      by (cases "assertEmployeeUnique (rc_companyId user) number (or_else (ew_workEmail dto) (ew_email dto)) s") auto
    show thesis
    proof (rule that(2))
      show "r = hired_row now (rc_companyId user) (case ew_employeeNumber dto of None \<Rightarrow> generateEmployeeNumber (rc_companyId user) s
          | Some m \<Rightarrow> m) dto" by (simp add: r_def number_def)
      show "employee_refs_ok r s" "employee_key_free n r s" using False by auto
      show "ed_employees (snd (hireEmployee c iv1 iv2 now n user dto s)) = tbl_insert n r (ed_employees s)"
        "ed_history (snd (hireEmployee c iv1 iv2 now n user dto s))
         = ed_history s @ [history_of user n HIRED (case ew_joinedAt dto of None \<Rightarrow> now | Some d \<Rightarrow> d) r None]"
        using False u unfolding hireEmployee_def Let_def number_def[symmetric] r_def[symmetric]
        by (simp_all add: emit_employee_def emp_audit_def)
    qed
  qed
qed

lemma hire_step_numbers:
  assumes "ew_employeeNumber (hq_dto q) = None"
  shows "company_numbers co (hire_step c q s) = company_numbers co s \<or>
    company_numbers co (hire_step c q s) = company_numbers co s @ [generateEmployeeNumber co s]"
  unfolding hire_step_def
  by (rule hire_cases[of c "fst (hq_nonces q)" "snd (hq_nonces q)" "hq_now q" "hq_id q" "hq_user q" "hq_dto q" s])
    (auto simp: company_numbers_def tbl_insert_def tbl_all_append hired_row_def assms tbl_all_def)

text \<open>
  As long as numbers are generated they are consecutive and unique: starting without employees and
  hiring with generated numbers only, whichever requests succeed, the numbers of a company are T00001,
  T00002 and so on in the order of hiring, so that no two of its employees have the same number.
\<close>

lemma generated_numbers_consecutive:
  assumes "ed_employees s = []" and "list_all (\<lambda>q. ew_employeeNumber (hq_dto q) = None) qs"
  shows "company_numbers co (fold (hire_step c) qs s) = map employee_number [1..<Suc (nextEmployeeNumber co (fold (hire_step c) qs s))]
    \<and> distinct (company_numbers co (fold (hire_step c) qs s))"
proof -
  have start: "company_numbers co s = map employee_number [1..<Suc (length (company_numbers co s))]"
    using assms(1) by (simp add: company_numbers_def tbl_all_def)
  have "company_numbers co (fold (hire_step c) qs t) = map employee_number [1..<Suc (length (company_numbers co (fold (hire_step c) qs t)))]"
    if "company_numbers co t = map employee_number [1..<Suc (length (company_numbers co t))]" for t
    using assms(2) that
  proof (induction qs arbitrary: t)
    case (Cons q qs)
    have gen: "generateEmployeeNumber co t = employee_number (Suc (length (company_numbers co t)))"
      by (simp add: generateEmployeeNumber_def length_company_numbers)
    have "company_numbers co (hire_step c q t) = map employee_number [1..<Suc (length (company_numbers co (hire_step c q t)))]"
      using hire_step_numbers[of q co c t] Cons.prems unfolding gen by (auto simp del: upt_Suc) (simp add: upt_Suc_append)
    then show ?case using Cons by simp
  qed simp
  from this[OF start] have n: "company_numbers co (fold (hire_step c) qs s)
      = map employee_number [1..<Suc (nextEmployeeNumber co (fold (hire_step c) qs s))]"
    unfolding length_company_numbers .
  then show ?thesis by (simp add: distinct_map inj_on_def del: upt_Suc) (metis employee_number_inject)
qed

text \<open>
  A number given by hand can block a company: if some employee of it, even a removed one, has the
  number that would be generated next, then hiring without a number fails whatever the rest of the
  request, and changes nothing, so it keeps failing until somebody is hired with a number.
\<close>

lemma taken_number_blocks_hiring:
  assumes "(i, e) \<in> set (ed_employees s)" and "em_companyId e = rc_companyId user"
    and "em_employeeNumber e = generateEmployeeNumber (rc_companyId user) s"
    and "i \<noteq> n" and "ew_employeeNumber dto = None"
  shows "\<exists>err. hireEmployee c iv1 iv2 now n user dto s = (Inl err, s)"
proof -
  let ?r = "hired_row now (rc_companyId user) (generateEmployeeNumber (rc_companyId user) s) dto"
  have "em_companyId ?r = rc_companyId user" "em_employeeNumber ?r = generateEmployeeNumber (rc_companyId user) s"
    by (simp_all add: hired_row_def)
  then have "\<not> employee_key_free n ?r s"
    using assms(1-4) by (auto simp: employee_key_free_def tbl_find_None)
  then show ?thesis using assms(5) by (auto simp: hireEmployee_def Let_def split: sum.splits)
qed

section \<open>The history mirrors the row\<close>

datatype career_event =
    Hire string string instant id request_context employee_dto
  | Promote request_context id promote_dto
  | Transfer request_context id transfer_dto
  | Terminate request_context id terminate_dto
  | Remove instant request_context id

fun career :: "cipher \<Rightarrow> career_event \<Rightarrow> employees_db \<Rightarrow> employees_db" where
  "career c (Hire iv1 iv2 now n user dto) s = (if fresh n (ed_employees s) then snd (hireEmployee c iv1 iv2 now n user dto s) else s)"
| "career c (Promote user i dto) s = snd (promoteEmployee c user i dto s)"
| "career c (Transfer user i dto) s = snd (transferEmployee c user i dto s)"
| "career c (Terminate user i dto) s = snd (terminateEmployee c user i dto s)"
| "career c (Remove now user i) s = snd (remove_employee now user i s)"

definition newest_history :: "id \<Rightarrow> employees_db \<Rightarrow> history_row option" where
  "newest_history i s = List.find (\<lambda>h. hi_employeeId h = i) (rev (ed_history s))"

definition same_placement :: "history_row \<Rightarrow> employee_row \<Rightarrow> bool" where
  "same_placement h e \<longleftrightarrow> hi_departmentId h = em_departmentId e \<and> hi_jobTitleId h = em_jobTitleId e
     \<and> hi_locationId h = em_locationId e \<and> hi_managerId h = em_managerId e"

definition mirrored :: "employees_db \<Rightarrow> bool" where
  "mirrored s \<longleftrightarrow> (\<forall>i e. tbl_get i (ed_employees s) = Some e \<longrightarrow> (\<exists>h. newest_history i s = Some h \<and> same_placement h e))"

lemma newest_history_append:
  "ed_history t = ed_history s @ [h] \<Longrightarrow> newest_history i t = (if hi_employeeId h = i then Some h else newest_history i s)"
  by (simp add: newest_history_def)

lemma mirrored_step:
  assumes "mirrored s" and "ed_history t = ed_history s @ [h]" and "hi_employeeId h = i" and "same_placement h r"
    and "\<And>j. tbl_get j (ed_employees t) = (if j = i then Some r else tbl_get j (ed_employees s))"
  shows "mirrored t"
  using assms by (auto simp: mirrored_def newest_history_append)

lemma mirrored_hire: "mirrored s \<Longrightarrow> fresh n (ed_employees s) \<Longrightarrow> mirrored (snd (hireEmployee c iv1 iv2 now n user dto s))"
proof (rule hire_cases[of c iv1 iv2 now n user dto s])
  fix r
  assume s: "mirrored s" "fresh n (ed_employees s)"
    and t: "ed_employees (snd (hireEmployee c iv1 iv2 now n user dto s)) = tbl_insert n r (ed_employees s)"
      "ed_history (snd (hireEmployee c iv1 iv2 now n user dto s))
         = ed_history s @ [history_of user n HIRED (case ew_joinedAt dto of None \<Rightarrow> now | Some d \<Rightarrow> d) r None]"
  show ?thesis
    by (rule mirrored_step[OF s(1) t(2), of n r])
      (use s(2) in \<open>auto simp: t(1) history_of_def same_placement_def fresh_get tbl_get_insert split: option.splits\<close>)
qed simp

lemma mirrored_career_step:
  assumes "mirrored s" and "hi_employeeId h = i" and "same_placement h r" and "tbl_get i (ed_employees s) \<noteq> None"
  shows "mirrored (snd (career_step c user i old r h act extra event s))"
proof (cases "employee_refs_ok r s")
  case True
  show ?thesis
    by (rule mirrored_step[OF assms(1) _ assms(2,3)])
      (use True assms(4) in \<open>auto simp: career_step_def Let_def emit_employee_def emp_audit_def\<close>)
qed (simp add: career_step_def assms(1))

lemma emp_getOrThrow_Inr: "emp_getOrThrow co i s = Inr e \<Longrightarrow> tbl_get i (ed_employees s) = Some e"
  by (auto simp: emp_getOrThrow_def emp_findById_def split: option.splits)

lemma career_mirrored: "mirrored s \<Longrightarrow> mirrored (career c ev s)"
proof (cases ev)
  case (Hire iv1 iv2 now n user dto)
  then show "mirrored s \<Longrightarrow> ?thesis" using mirrored_hire by simp
next
  case (Promote user i dto)
  assume "mirrored s"
  then show ?thesis unfolding Promote
    by (auto simp: promoteEmployee_def Let_def dest!: emp_getOrThrow_Inr split: sum.splits
        intro!: mirrored_career_step) (auto simp: history_of_def same_placement_def)
next
  case (Transfer user i dto)
  assume "mirrored s"
  then show ?thesis unfolding Transfer
    by (auto simp: transferEmployee_def Let_def dest!: emp_getOrThrow_Inr split: sum.splits
        intro!: mirrored_career_step) (auto simp: history_of_def same_placement_def)
next
  case (Terminate user i dto)
  assume "mirrored s"
  then show ?thesis unfolding Terminate
    by (auto simp: terminateEmployee_def Let_def dest!: emp_getOrThrow_Inr split: sum.splits
        intro!: mirrored_career_step) (auto simp: history_of_def same_placement_def)
next
  case (Remove now user i)
  assume s: "mirrored s"
  show ?thesis
  proof (cases "emp_getOrThrow (rc_companyId user) i s")
    case (Inr old)
    then have get: "tbl_get i (ed_employees s) = Some old" by (rule emp_getOrThrow_Inr)
    have "newest_history j (career c ev s) = newest_history j s" for j
      using Inr Remove by (simp add: remove_employee_def Let_def emp_audit_def newest_history_def)
    moreover have "tbl_get j (ed_employees (career c ev s)) = (if j = i then Some (old\<lparr>em_deletedAt := Some now\<rparr>) else tbl_get j (ed_employees s))" for j
      using Inr Remove get by (simp add: remove_employee_def Let_def emp_audit_def)
    ultimately show ?thesis using s get by (auto simp: mirrored_def same_placement_def)
  qed (use s Remove in \<open>simp add: remove_employee_def\<close>)
qed

text \<open>
  The employment history is faithful: starting without employees, after any sequence of hirings,
  promotions, transfers, terminations and removals, every employee has a history row, and the newest
  one names the department, the job title, the location and the manager that its row has.
\<close>

lemma history_mirrors_row:
  assumes "ed_employees s = []" and "tbl_get i (ed_employees (fold (career c) evs s)) = Some e"
  shows "\<exists>h. newest_history i (fold (career c) evs s) = Some h \<and> same_placement h e"
proof -
  have "mirrored s" using assms(1) by (simp add: mirrored_def tbl_get_def)
  then have "mirrored (fold (career c) evs s)" by (induction evs arbitrary: s) (simp_all add: career_mirrored)
  then show ?thesis using assms(2) by (simp add: mirrored_def)
qed

section \<open>Account numbers\<close>

text \<open>What a reader of the answers and of the audit log learns of a number.\<close>

definition same_tail :: "string \<Rightarrow> string \<Rightarrow> bool" where
  "same_tail v w \<longleftrightarrow> v \<noteq> [] \<and> length v = length w \<and> drop (length v - 4) v = drop (length w - 4) w"

lemma map_result_append:
  "map_result f (xs @ [x]) = (case map_result f xs of Inl e \<Rightarrow> Inl e | Inr ys \<Rightarrow> (case f x of Inl e \<Rightarrow> Inl e | Inr y \<Rightarrow> Inr (ys @ [y])))"
  by (induction xs) (auto split: sum.splits)

lemma patch_account_number:
  "ba_accountName (patch_account c iv dto r) = ba_accountName (patch_account c iv' (dto\<lparr>bd_accountNumber := w\<rparr>) r)"
  "ba_routingNumber (patch_account c iv dto r) = ba_routingNumber (patch_account c iv' (dto\<lparr>bd_accountNumber := w\<rparr>) r)"
  "ba_bankName (patch_account c iv dto r) = ba_bankName (patch_account c iv' (dto\<lparr>bd_accountNumber := w\<rparr>) r)"
  "ba_currency (patch_account c iv dto r) = ba_currency (patch_account c iv' (dto\<lparr>bd_accountNumber := w\<rparr>) r)"
  "ba_isPrimary (patch_account c iv dto r) = ba_isPrimary (patch_account c iv' (dto\<lparr>bd_accountNumber := w\<rparr>) r)"
  "ba_deletedAt (patch_account c iv dto r) = ba_deletedAt (patch_account c iv' (dto\<lparr>bd_accountNumber := w\<rparr>) r)"
  by (simp_all add: patch_account_def)

context authentic
begin

lemma serialize_new_account:
  assumes "bd_accountNumber dto \<noteq> []"
  shows "serializeBankAccount c (patch_account c iv dto r)
    = Inr \<lparr>av_row = (patch_account c iv dto r)\<lparr>ba_accountNumber := None\<rparr>, av_accountNumber = mask 4 (Some (bd_accountNumber dto))\<rparr>"
  using assms by (simp add: serializeBankAccount_def safeDecrypt_def patch_account_def encrypt_def decrypt_def unseal_seal)

lemma serialize_same_tail:
  assumes "same_tail (bd_accountNumber dto) w"
  shows "serializeBankAccount c (patch_account c iv dto r) = serializeBankAccount c (patch_account c iv' (dto\<lparr>bd_accountNumber := w\<rparr>) r)"
proof -
  have "bd_accountNumber dto \<noteq> []" "w \<noteq> []" using assms by (auto simp: same_tail_def)
  moreover have "mask 4 (Some (bd_accountNumber dto)) = mask 4 (Some w)" using assms by (intro mask_reveals) (auto simp: same_tail_def)
  ultimately show ?thesis by (simp add: serialize_new_account) (simp add: patch_account_def)
qed

lemma audit_same_tail:
  assumes "same_tail (bd_accountNumber dto) w"
  shows "auditBank c n (patch_account c iv dto r) = auditBank c n (patch_account c iv' (dto\<lparr>bd_accountNumber := w\<rparr>) r)"
  unfolding auditBank_def serialize_same_tail[OF assms, of iv r iv'] patch_account_number[where dto = dto and w = w and iv = iv and iv' = iv'] ..

lemma views_same_tail:
  assumes "same_tail (bd_accountNumber dto) w"
  shows "map_result (serializeBankAccount c) (xs @ [patch_account c iv dto r])
       = map_result (serializeBankAccount c) (xs @ [patch_account c iv' (dto\<lparr>bd_accountNumber := w\<rparr>) r])"
  unfolding map_result_append serialize_same_tail[OF assms, of iv r iv'] ..

text \<open>Two databases that differ in one new account only.\<close>

lemma create_account_cases:
  assumes "emp_getOrThrow (rc_companyId user) emp s = Inr e" and "bd_accountNumber dto \<noteq> []"
  shows "createBankAccount c iv n user emp dto s =
    (let r = patch_account c iv dto (empty_account emp)
     in case auditBank c n r of
          Inl err \<Rightarrow> (Inl err, s\<lparr>ed_accounts := tbl_insert n r (ed_accounts s)\<rparr>)
        | Inr j \<Rightarrow> (serializeBankAccount c r,
            auditSubResource user emp ''bank_account_create'' JNull j (s\<lparr>ed_accounts := tbl_insert n r (ed_accounts s)\<rparr>)))"
  using assms by (simp add: createBankAccount_def account_written_def Let_def patch_account_def encrypt_def split: sum.splits)

lemma audit_new_account:
  assumes "bd_accountNumber dto \<noteq> []"
  obtains j where "auditBank c n (patch_account c iv dto r) = Inr j"
  using assms by (simp add: auditBank_def serialize_new_account)

lemma create_account_noninterference:
  assumes "same_tail (bd_accountNumber dto) w"
  shows "fst (createBankAccount c iv n user emp dto s) = fst (createBankAccount c iv' n user emp (dto\<lparr>bd_accountNumber := w\<rparr>) s)
    \<and> ed_audit (snd (createBankAccount c iv n user emp dto s)) = ed_audit (snd (createBankAccount c iv' n user emp (dto\<lparr>bd_accountNumber := w\<rparr>) s))
    \<and> listBankAccounts c reader k (snd (createBankAccount c iv n user emp dto s))
        = listBankAccounts c reader k (snd (createBankAccount c iv' n user emp (dto\<lparr>bd_accountNumber := w\<rparr>) s))
    \<and> get_employee c reader k (snd (createBankAccount c iv n user emp dto s))
        = get_employee c reader k (snd (createBankAccount c iv' n user emp (dto\<lparr>bd_accountNumber := w\<rparr>) s))"
proof (cases "emp_getOrThrow (rc_companyId user) emp s")
  case (Inl err)
  then show ?thesis by (simp add: createBankAccount_def)
next
  case (Inr e)
  let ?r = "patch_account c iv dto (empty_account emp)" and ?r' = "patch_account c iv' (dto\<lparr>bd_accountNumber := w\<rparr>) (empty_account emp)"
  have ne: "bd_accountNumber dto \<noteq> []" "bd_accountNumber (dto\<lparr>bd_accountNumber := w\<rparr>) \<noteq> []" using assms by (auto simp: same_tail_def)
  obtain j where j: "auditBank c n ?r = Inr j" using audit_new_account[OF ne(1)] .
  then have j': "auditBank c n ?r' = Inr j" using audit_same_tail[OF assms] by metis
  define t where "t = auditSubResource user emp ''bank_account_create'' JNull j s"
  have t: "snd (createBankAccount c iv n user emp dto s) = t\<lparr>ed_accounts := tbl_insert n ?r (ed_accounts s)\<rparr>"
    "snd (createBankAccount c iv' n user emp (dto\<lparr>bd_accountNumber := w\<rparr>) s) = t\<lparr>ed_accounts := tbl_insert n ?r' (ed_accounts s)\<rparr>"
    "fst (createBankAccount c iv n user emp dto s) = serializeBankAccount c ?r"
    "fst (createBankAccount c iv' n user emp (dto\<lparr>bd_accountNumber := w\<rparr>) s) = serializeBankAccount c ?r'"
    using create_account_cases[OF Inr ne(1)] create_account_cases[OF Inr ne(2)] j j'
    by (simp_all add: t_def auditSubResource_def emp_audit_def Let_def)
  have fields: "ba_employeeId ?r = emp" "ba_deletedAt ?r = None" "ba_employeeId ?r' = emp" "ba_deletedAt ?r' = None"
    by (simp_all add: patch_account_def empty_account_def)
  have live: "map_result (serializeBankAccount c) (map snd (live_accounts k (t\<lparr>ed_accounts := tbl_insert n ?r (ed_accounts s)\<rparr>)))
      = map_result (serializeBankAccount c) (map snd (live_accounts k (t\<lparr>ed_accounts := tbl_insert n ?r' (ed_accounts s)\<rparr>)))"
    using views_same_tail[OF assms] fields
    by (cases "k = emp") (simp_all add: live_accounts_def tbl_insert_def tbl_all_append, simp_all add: tbl_all_def)
  have get: "emp_getOrThrow co k (t\<lparr>ed_accounts := a\<rparr>) = emp_getOrThrow co k t" "ed_profiles (t\<lparr>ed_accounts := a\<rparr>) = ed_profiles t"
    "ed_audit (t\<lparr>ed_accounts := a\<rparr>) = ed_audit t" for co a
    by (simp_all add: emp_getOrThrow_def emp_findById_def)
  show ?thesis
    unfolding t listBankAccounts_def get_employee_def serializeEmployee_def live get
      serialize_same_tail[OF assms, of iv "empty_account emp" iv'] by simp
qed

end

section \<open>Concrete runs\<close>

definition firm :: employees_db where
  "firm = \<lparr>ed_employees = [], ed_profiles = [], ed_history = [], ed_addresses = [], ed_contacts = [], ed_accounts = [],
     ed_departments = [(''d1'', \<lparr>rf_companyId = ''co'', rf_deletedAt = None\<rparr>)], ed_locations = [], ed_jobTitles = [],
     ed_payGrades = [], ed_events = [], ed_jobs = [], ed_audit = []\<rparr>"

definition plain_dto :: employee_dto where
  "plain_dto = \<lparr>ew_employeeNumber = None, ew_email = None, ew_workEmail = None, ew_workPhone = None, ew_joinedAt = None,
     ew_employmentType = None, ew_status = None, ew_departmentId = Undef, ew_managerId = Undef, ew_jobTitleId = Undef,
     ew_locationId = Undef, ew_payGradeId = Undef, ew_probationEndsAt = Undef, ew_lastWorkingDate = Undef,
     ew_nationalId = Undef, ew_passportNumber = Undef, ew_personalEmail = Undef, ew_personalPhone = Undef\<rparr>"

definition hire_plain :: "id \<Rightarrow> hire_request" where
  "hire_plain i = \<lparr>hq_nonces = ([], []), hq_now = 0, hq_id = i, hq_user = actor_in ''u1'' ''co'', hq_dto = plain_dto\<rparr>"

text \<open>The second hire of the company takes the number that the next one would get.\<close>

definition blocked_firm :: employees_db where
  "blocked_firm = firm\<lparr>ed_employees := [(''e1'', (new_employee ''co'' None)\<lparr>em_employeeNumber := ''T00002''\<rparr>)]\<rparr>"

definition firm_story :: "career_event list" where
  "firm_story = [Hire [] [] 0 ''e1'' (actor_in ''u1'' ''co'') plain_dto,
     Transfer (actor_in ''u1'' ''co'') ''e1'' \<lparr>tr_departmentId = Val ''d1'', tr_locationId = Undef, tr_managerId = Val ''e1'',
        tr_effectiveDate = 0, tr_notes = None\<rparr>]"

end
