(* ===== verification/Redis_Store.thy ===== *)
theory Redis_Store
  imports Js_String
begin

text \<open>
  The key-value store behind \<^verbatim>\<open>common/redis/redis.service.ts\<close>: keys are the strings of
  \<^verbatim>\<open>common/redis/redis-keys.ts\<close>, every value is set with a time to live and is gone when
  that has passed. The locale \<open>expiring_store\<close> states what the services rely on, the sweep that
  deletes the keys whose value has some property is verified inside it, and it is interpreted on the
  store.
\<close>

section \<open>The store\<close>

text \<open>An entry: the key, the value and the instant at which it expires.\<close>

type_synonym 'v kv = "(string \<times> 'v \<times> instant) list"

definition kv_get :: "instant \<Rightarrow> string \<Rightarrow> 'v kv \<Rightarrow> 'v option" where
  "kv_get now k s = (case map_of s k of None \<Rightarrow> None | Some (v, until) \<Rightarrow> if now < until then Some v else None)"

definition kv_del :: "string \<Rightarrow> 'v kv \<Rightarrow> 'v kv" where
  "kv_del k s = filter (\<lambda>(j, e). j \<noteq> k) s"

definition kv_set :: "instant \<Rightarrow> string \<Rightarrow> 'v \<Rightarrow> int \<Rightarrow> 'v kv \<Rightarrow> 'v kv" where
  "kv_set now k v ttlSeconds s = (k, v, now + ttlSeconds * 1000) # kv_del k s"

text \<open>\<^verbatim>\<open>keys(pattern)\<close>: the live keys that match.\<close>

definition kv_keys :: "instant \<Rightarrow> (string \<Rightarrow> bool) \<Rightarrow> 'v kv \<Rightarrow> string list" where
  "kv_keys now P s = filter P (map fst (filter (\<lambda>(k, v, until). now < until) s))"

definition kv_del_many :: "string list \<Rightarrow> 'v kv \<Rightarrow> 'v kv" where
  "kv_del_many ks s = fold kv_del ks s"

section \<open>The interface\<close>

locale expiring_store =
  fixes get :: "instant \<Rightarrow> string \<Rightarrow> 's \<Rightarrow> 'v option"
    and put :: "instant \<Rightarrow> string \<Rightarrow> 'v \<Rightarrow> int \<Rightarrow> 's \<Rightarrow> 's"
    and del :: "string \<Rightarrow> 's \<Rightarrow> 's"
    and keys :: "instant \<Rightarrow> (string \<Rightarrow> bool) \<Rightarrow> 's \<Rightarrow> string list"
  assumes get_put:
      "get t j (put now k v ttl s) = (if j = k then if t < now + ttl * 1000 then Some v else None else get t j s)"
    and get_del: "get t j (del k s) = (if j = k then None else get t j s)"
    and get_expired: "get t j s = None \<Longrightarrow> t \<le> u \<Longrightarrow> get u j s = None"
    and get_stable: "get u j s = Some v \<Longrightarrow> t \<le> u \<Longrightarrow> get t j s = Some v"
    and keys_live: "P j \<Longrightarrow> get t j s \<noteq> None \<Longrightarrow> j \<in> set (keys t P s)"
    and keys_match: "j \<in> set (keys t P s) \<Longrightarrow> P j"
begin

text \<open>Look at every listed key and delete those whose value is condemned.\<close>

definition sweep :: "instant \<Rightarrow> ('v \<Rightarrow> bool) \<Rightarrow> string list \<Rightarrow> 's \<Rightarrow> 's" where
  "sweep now Q ks s = fold (\<lambda>k s. case get now k s of None \<Rightarrow> s | Some v \<Rightarrow> if Q v then del k s else s) ks s"

lemma sweep_simps [simp]:
  "sweep now Q [] s = s"
  "sweep now Q (k # ks) s = sweep now Q ks (case get now k s of None \<Rightarrow> s | Some v \<Rightarrow> if Q v then del k s else s)"
  by (simp_all add: sweep_def)

lemma get_sweep:
  "get now j (sweep now Q ks s) =
     (case get now j s of None \<Rightarrow> None | Some v \<Rightarrow> if j \<in> set ks \<and> Q v then None else Some v)"
proof (induction ks arbitrary: s)
  case Nil
  then show ?case by (simp split: option.splits)
next
  case (Cons k ks)
  then show ?case by (cases "get now k s"; cases "j = k") (auto simp: get_del split: option.splits)
qed

lemma get_sweep_other: "j \<notin> set ks \<Longrightarrow> get t j (sweep now Q ks s) = get t j s"
  by (induction ks arbitrary: s) (auto simp: get_del split: option.splits)

lemma sweep_none: "(\<And>k v. k \<in> set ks \<Longrightarrow> get now k s = Some v \<Longrightarrow> \<not> Q v) \<Longrightarrow> sweep now Q ks s = s"
  by (induction ks) (auto split: option.splits)

lemma sweep_shrinks: "get t j (sweep now Q ks s) = Some v \<Longrightarrow> get t j s = Some v"
proof (induction ks arbitrary: s)
  case (Cons k ks)
  then have "get t j (case get now k s of None \<Rightarrow> s | Some v \<Rightarrow> if Q v then del k s else s) = Some v" by simp
  then show ?case by (auto simp: get_del split: option.splits if_splits)
qed simp

text \<open>After sweeping every live key that matches, a matching key holds no condemned value, ever.\<close>

lemma sweep_clears:
  assumes "P j" and "get t j (sweep now Q (keys now P s) s) = Some v" and "now \<le> t"
  shows "\<not> Q v \<and> get now j s = Some v"
proof -
  have "get now j (sweep now Q (keys now P s) s) = Some v" using get_stable assms(2,3) by blast
  then show ?thesis using keys_live[of P j now s] assms(1) by (auto simp: get_sweep split: option.splits if_splits)
qed

lemma get_sweep_keys:
  assumes "P j"
  shows "get now j (sweep now Q (keys now P s) s) = (case get now j s of None \<Rightarrow> None | Some v \<Rightarrow> if Q v then None else Some v)"
  using assms keys_live[of P j now s] by (simp add: get_sweep split: option.splits)

lemma get_sweep_foreign: "\<not> P j \<Longrightarrow> get t j (sweep now Q (keys now P s) s) = get t j s"
  using keys_match[of j now P s] by (intro get_sweep_other) blast

end

lemma kv_get_del: "kv_get t j (kv_del k s) = (if j = k then None else kv_get t j s)"
proof -
  have "map_of (filter (\<lambda>(i, e). i \<noteq> k) s) j = (if j = k then None else map_of s j)"
    by (induction s) auto
  then show ?thesis by (simp add: kv_get_def kv_del_def)
qed

lemma kv_get_set:
  "kv_get t j (kv_set now k v ttl s) = (if j = k then if t < now + ttl * 1000 then Some v else None else kv_get t j s)"
  using kv_get_del[of t j k s] by (simp add: kv_set_def kv_get_def)

interpretation kv: expiring_store kv_get kv_set kv_del kv_keys
proof unfold_locales
  show "j \<in> set (kv_keys t P s)" if "P j" "kv_get t j s \<noteq> None" for P j t and s :: "'v kv"
  proof -
    obtain v until where "map_of s j = Some (v, until)" "t < until"
      using \<open>kv_get t j s \<noteq> None\<close> by (auto simp: kv_get_def split: option.splits if_splits)
    then have "(j, v, until) \<in> set s" by (simp add: map_of_SomeD)
    then show ?thesis using \<open>P j\<close> \<open>t < until\<close> by (force simp: kv_keys_def)
  qed
  show "kv_get u j s = None" if "kv_get t j s = None" "t \<le> u" for t u j and s :: "'v kv"
    using that by (auto simp: kv_get_def split: option.splits if_splits)
  show "kv_get t j s = Some v" if "kv_get u j s = Some v" "t \<le> u" for t u j v and s :: "'v kv"
    using that by (auto simp: kv_get_def split: option.splits if_splits)
qed (simp_all only: kv_get_del kv_get_set, auto simp: kv_keys_def)

lemmas kv_laws [simp] = kv.get_put kv.get_del

lemma kv_get_del_many: "kv_get t j (kv_del_many ks s) = (if j \<in> set ks then None else kv_get t j s)"
  by (induction ks arbitrary: s) (auto simp: kv_del_many_def)

section \<open>The keys\<close>

definition key_refreshToken :: "string \<Rightarrow> string" where "key_refreshToken h = ''auth:refresh:'' @ h"
definition key_passwordResetToken :: "string \<Rightarrow> string" where "key_passwordResetToken h = ''auth:pwd-reset:'' @ h"
definition key_emailOtp :: "id \<Rightarrow> string" where "key_emailOtp u = ''auth:email-otp:'' @ u"
definition key_inviteToken :: "string \<Rightarrow> string" where "key_inviteToken h = ''auth:invite:'' @ h"
definition key_userRoles :: "id \<Rightarrow> string" where "key_userRoles u = ''rbac:user:'' @ u @ '':roles''"

text \<open>The patterns \<^verbatim>\<open>auth:refresh:*\<close> and \<^verbatim>\<open>rbac:user:*:roles\<close>.\<close>

definition is_refresh_key :: "string \<Rightarrow> bool" where "is_refresh_key k = starts_with ''auth:refresh:'' k"

definition is_userRoles_key :: "string \<Rightarrow> bool" where
  "is_userRoles_key k \<longleftrightarrow> starts_with ''rbac:user:'' k \<and> starts_with (rev '':roles'') (rev k) \<and> 16 \<le> length k"

lemma key_inject [simp]:
  "key_refreshToken a = key_refreshToken b \<longleftrightarrow> a = b"
  "key_passwordResetToken a = key_passwordResetToken b \<longleftrightarrow> a = b"
  "key_emailOtp a = key_emailOtp b \<longleftrightarrow> a = b"
  "key_inviteToken a = key_inviteToken b \<longleftrightarrow> a = b"
  "key_userRoles a = key_userRoles b \<longleftrightarrow> a = b"
  by (simp_all add: key_refreshToken_def key_passwordResetToken_def key_emailOtp_def key_inviteToken_def key_userRoles_def)

lemma key_distinct [simp]:
  "key_refreshToken a \<noteq> key_passwordResetToken b" "key_passwordResetToken a \<noteq> key_refreshToken b"
  "key_refreshToken a \<noteq> key_emailOtp b" "key_emailOtp a \<noteq> key_refreshToken b"
  "key_refreshToken a \<noteq> key_inviteToken b" "key_inviteToken a \<noteq> key_refreshToken b"
  "key_refreshToken a \<noteq> key_userRoles b" "key_userRoles a \<noteq> key_refreshToken b"
  "key_passwordResetToken a \<noteq> key_emailOtp b" "key_emailOtp a \<noteq> key_passwordResetToken b"
  "key_passwordResetToken a \<noteq> key_inviteToken b" "key_inviteToken a \<noteq> key_passwordResetToken b"
  "key_passwordResetToken a \<noteq> key_userRoles b" "key_userRoles a \<noteq> key_passwordResetToken b"
  "key_emailOtp a \<noteq> key_inviteToken b" "key_inviteToken a \<noteq> key_emailOtp b"
  "key_emailOtp a \<noteq> key_userRoles b" "key_userRoles a \<noteq> key_emailOtp b"
  "key_inviteToken a \<noteq> key_userRoles b" "key_userRoles a \<noteq> key_inviteToken b"
  by (simp_all add: key_refreshToken_def key_passwordResetToken_def key_emailOtp_def key_inviteToken_def key_userRoles_def)

lemma key_patterns [simp]:
  "is_refresh_key (key_refreshToken h)" "\<not> is_refresh_key (key_passwordResetToken h)" "\<not> is_refresh_key (key_emailOtp h)"
  "\<not> is_refresh_key (key_inviteToken h)" "\<not> is_refresh_key (key_userRoles h)"
  "is_userRoles_key (key_userRoles h)" "\<not> is_userRoles_key (key_refreshToken h)"
  "\<not> is_userRoles_key (key_passwordResetToken h)" "\<not> is_userRoles_key (key_emailOtp h)" "\<not> is_userRoles_key (key_inviteToken h)"
  by (simp_all add: is_refresh_key_def is_userRoles_key_def key_refreshToken_def key_passwordResetToken_def
      key_emailOtp_def key_inviteToken_def key_userRoles_def)

end
