(* ===== verification/Token_Service.thy ===== *)
theory Token_Service
  imports Redis_Store Audit_Log
begin

text \<open>
  Access and refresh tokens: \<^verbatim>\<open>auth/token.service.ts\<close> and \<^verbatim>\<open>auth/auth.types.ts\<close>.
  A refresh token is stored under the hash of its text, with the session it belongs to; rotating it
  replaces it by one of a new session. Signing and hashing come from libraries: they are the
  parameters \<open>jwt\<close> and \<open>sha\<close>, and the random strings and identifiers are arguments. The service is
  shown to implement a finite map of live sessions, and the replay of a rotated token is followed.
\<close>

section \<open>Values in the store\<close>

record refresh_meta =
  rm_userId :: id
  rm_companyId :: id
  rm_email :: string
  rm_roles :: "id list"
  rm_sessionId :: string
  rm_issuedAt :: instant

text \<open>
  The objects that the services write as JSON, one shape for each kind of key, and the bare list of
  permissions that the cache still accepts although nothing writes it any more.
\<close>

datatype redis_value =
    RefreshMeta refresh_meta
  | ResetMeta id "instant option"
  | OtpState string int
  | InviteMeta id
  | PermCache id "string list"
  | PermList "string list"

text \<open>The properties read after \<^verbatim>\<open>JSON.parse\<close>; reading a missing one gives \<^verbatim>\<open>undefined\<close>.\<close>

fun value_sessionId :: "redis_value \<Rightarrow> string option" where
  "value_sessionId (RefreshMeta m) = Some (rm_sessionId m)"
| "value_sessionId v = None"

fun value_userId :: "redis_value \<Rightarrow> id option" where
  "value_userId (RefreshMeta m) = Some (rm_userId m)"
| "value_userId (ResetMeta u t) = Some u"
| "value_userId (InviteMeta u) = Some u"
| "value_userId v = None"

definition value_fits :: "string \<Rightarrow> redis_value \<Rightarrow> bool" where
  "value_fits k v = (case v of
       RefreshMeta m \<Rightarrow> is_refresh_key k
     | ResetMeta u t \<Rightarrow> starts_with ''auth:pwd-reset:'' k
     | OtpState p n \<Rightarrow> starts_with ''auth:email-otp:'' k
     | InviteMeta u \<Rightarrow> starts_with ''auth:invite:'' k
     | PermCache c ps \<Rightarrow> is_userRoles_key k
     | PermList ps \<Rightarrow> False)"

text \<open>Every value has the shape that belongs to its key, so that the casts after parsing are right.\<close>

definition typed_store :: "redis_value kv \<Rightarrow> bool" where
  "typed_store s = list_all (\<lambda>(k, v, e). value_fits k v) s"

lemma typed_del [simp]: "typed_store s \<Longrightarrow> typed_store (kv_del k s)"
  by (auto simp: typed_store_def kv_del_def list_all_iff)

lemma typed_set [simp]: "typed_store s \<Longrightarrow> value_fits k v \<Longrightarrow> typed_store (kv_set now k v ttl s)"
  using typed_del[of s k] by (simp add: typed_store_def kv_set_def)

lemma typed_fold: "typed_store s \<Longrightarrow> (\<And>x s. typed_store s \<Longrightarrow> typed_store (f x s)) \<Longrightarrow> typed_store (fold f xs s)"
  by (induction xs arbitrary: s) auto

lemma typed_get: "typed_store s \<Longrightarrow> kv_get t k s = Some v \<Longrightarrow> value_fits k v"
  unfolding typed_store_def list_all_iff kv_get_def by (force dest: map_of_SomeD split: option.splits if_splits)

lemma value_fits_keys [simp]:
  "value_fits (key_refreshToken h) v \<longleftrightarrow> (\<exists>m. v = RefreshMeta m)"
  "value_fits (key_passwordResetToken h) v \<longleftrightarrow> (\<exists>u t. v = ResetMeta u t)"
  "value_fits (key_emailOtp u) v \<longleftrightarrow> (\<exists>p n. v = OtpState p n)"
  "value_fits (key_inviteToken h) v \<longleftrightarrow> (\<exists>u. v = InviteMeta u)"
  "value_fits (key_userRoles u) v \<longleftrightarrow> (\<exists>c ps. v = PermCache c ps)"
  by (cases v; simp add: value_fits_def key_refreshToken_def key_passwordResetToken_def key_emailOtp_def
      key_inviteToken_def key_userRoles_def is_refresh_key_def is_userRoles_key_def)+

section \<open>Tokens\<close>

record access_payload =
  ap_sub :: id
  ap_companyId :: id
  ap_email :: string
  ap_roles :: "id list"
  ap_sessionId :: string

text \<open>
  The signing library with the keys, issuer and audience of the configuration: sign at an instant,
  and verify at an instant with or without looking at the expiry.
\<close>

record 'tok jwt =
  jw_sign :: "instant \<Rightarrow> access_payload \<Rightarrow> 'tok"
  jw_verify :: "instant \<Rightarrow> bool \<Rightarrow> 'tok \<Rightarrow> access_payload option"

definition signAccessToken :: "'tok jwt \<Rightarrow> instant \<Rightarrow> access_payload \<Rightarrow> 'tok" where
  "signAccessToken j now p = jw_sign j now p"

definition verifyAccessToken :: "'tok jwt \<Rightarrow> instant \<Rightarrow> bool \<Rightarrow> 'tok \<Rightarrow> access_payload option" where
  "verifyAccessToken j now ignoreExpiration token = jw_verify j now ignoreExpiration token"

definition issueRefreshToken ::
    "(string \<Rightarrow> string) \<Rightarrow> instant \<Rightarrow> string \<Rightarrow> refresh_meta \<Rightarrow> redis_value kv \<Rightarrow> string \<times> redis_value kv" where
  "issueRefreshToken sha now raw meta s =
     (raw, kv_set now (key_refreshToken (sha raw)) (RefreshMeta (meta\<lparr>rm_issuedAt := now\<rparr>)) (7 * 24 * 60 * 60) s)"

text \<open>The sweep over all refresh tokens, deleting those whose value is condemned.\<close>

definition revoke_where :: "instant \<Rightarrow> (redis_value \<Rightarrow> bool) \<Rightarrow> redis_value kv \<Rightarrow> redis_value kv" where
  "revoke_where now Q s =
     fold (\<lambda>k s. case kv_get now k s of None \<Rightarrow> s | Some v \<Rightarrow> if Q v then kv_del k s else s)
       (kv_keys now is_refresh_key s) s"

definition revokeSession :: "instant \<Rightarrow> string \<Rightarrow> redis_value kv \<Rightarrow> redis_value kv" where
  "revokeSession now sessionId s = revoke_where now (\<lambda>v. value_sessionId v = Some sessionId) s"

definition revokeUser :: "instant \<Rightarrow> id \<Rightarrow> redis_value kv \<Rightarrow> redis_value kv" where
  "revokeUser now userId s = revoke_where now (\<lambda>v. value_userId v = Some userId) s"

definition rotateRefreshToken ::
    "(string \<Rightarrow> string) \<Rightarrow> 'tok jwt \<Rightarrow> instant \<Rightarrow> string \<Rightarrow> string \<Rightarrow> string \<Rightarrow> string \<Rightarrow> redis_value kv
     \<Rightarrow> (redis_value kv, 'tok \<times> string) outcome" where
  "rotateRefreshToken sha j now newRaw newSessionId rawToken sessionId s =
     (let key = key_refreshToken (sha rawToken)
      in case kv_get now key s of
           None \<Rightarrow> (Inl (UnauthorizedError ''Refresh token invalid or expired''), revokeSession now sessionId s)
         | Some (RefreshMeta meta) \<Rightarrow>
             if rm_sessionId meta \<noteq> sessionId then (Inl (UnauthorizedError ''Session mismatch''), s)
             else (let (refreshToken, s2) = issueRefreshToken sha now newRaw (meta\<lparr>rm_sessionId := newSessionId\<rparr>) (kv_del key s);
                       accessToken = signAccessToken j now
                         \<lparr>ap_sub = rm_userId meta, ap_companyId = rm_companyId meta, ap_email = rm_email meta,
                          ap_roles = rm_roles meta, ap_sessionId = newSessionId\<rparr>
                   in (Inr (accessToken, refreshToken), s2))
         | Some v \<Rightarrow> (Inl (UnauthorizedError ''Session mismatch''), s))"

lemma revoke_where_sweep: "revoke_where now Q s = kv.sweep now Q (kv_keys now is_refresh_key s) s"
  by (simp add: revoke_where_def kv.sweep_def)

lemma typed_revoke_where [simp]: "typed_store s \<Longrightarrow> typed_store (revoke_where now Q s)"
  unfolding revoke_where_def by (rule typed_fold) (auto split: option.splits)

lemma revoke_where_foreign [simp]: "\<not> is_refresh_key k \<Longrightarrow> kv_get t k (revoke_where now Q s) = kv_get t k s"
  by (simp add: revoke_where_sweep kv.get_sweep_foreign)

lemma revoke_where_get:
  "is_refresh_key k \<Longrightarrow> kv_get now k (revoke_where now Q s)
     = (case kv_get now k s of None \<Rightarrow> None | Some v \<Rightarrow> if Q v then None else Some v)"
  by (simp add: revoke_where_sweep kv.get_sweep_keys)

lemma revoke_where_later:
  "is_refresh_key k \<Longrightarrow> kv_get t k (revoke_where now Q s) = Some v \<Longrightarrow> now \<le> t \<Longrightarrow> \<not> Q v \<and> kv_get now k s = Some v"
  unfolding revoke_where_sweep by (rule kv.sweep_clears)

lemma revoke_where_shrinks: "kv_get t k (revoke_where now Q s) = Some v \<Longrightarrow> kv_get t k s = Some v"
  unfolding revoke_where_sweep by (rule kv.sweep_shrinks)

lemma revoke_where_none:
  assumes "\<And>h v. kv_get now (key_refreshToken h) s = Some v \<Longrightarrow> \<not> Q v"
  shows "revoke_where now Q s = s"
  unfolding revoke_where_sweep
proof (rule kv.sweep_none)
  fix k v assume "k \<in> set (kv_keys now is_refresh_key s)" "kv_get now k s = Some v"
  then show "\<not> Q v" using assms kv.keys_match[of k now is_refresh_key s]
    by (auto simp: is_refresh_key_def starts_with_iff key_refreshToken_def simp del: append_Cons append_Nil)
qed

lemmas token_defs = issueRefreshToken_def revokeSession_def revokeUser_def signAccessToken_def Let_def

section \<open>The map of live sessions\<close>

definition live_sessions :: "instant \<Rightarrow> redis_value kv \<Rightarrow> string \<rightharpoonup> refresh_meta" where
  "live_sessions now s h = (case kv_get now (key_refreshToken h) s of Some (RefreshMeta m) \<Rightarrow> Some m | _ \<Rightarrow> None)"

type_synonym session_map = "string \<rightharpoonup> refresh_meta"

text \<open>What the service promises, on maps from token hashes to sessions.\<close>

definition spec_revoke :: "(refresh_meta \<Rightarrow> bool) \<Rightarrow> session_map \<Rightarrow> session_map" where
  "spec_revoke P A h = (case A h of None \<Rightarrow> None | Some m \<Rightarrow> if P m then None else Some m)"

definition spec_rotate :: "string \<Rightarrow> string \<Rightarrow> string \<Rightarrow> string \<Rightarrow> instant \<Rightarrow> session_map \<Rightarrow> bool \<times> session_map" where
  "spec_rotate h sessionId h2 sessionId2 now A =
     (case A h of
        None \<Rightarrow> (False, spec_revoke (\<lambda>m. rm_sessionId m = sessionId) A)
      | Some m \<Rightarrow> if rm_sessionId m \<noteq> sessionId then (False, A)
                  else (True, (A(h := None))(h2 \<mapsto> m\<lparr>rm_sessionId := sessionId2, rm_issuedAt := now\<rparr>)))"

lemma live_typed:
  "typed_store s \<Longrightarrow> kv_get t (key_refreshToken h) s = map_option RefreshMeta (live_sessions t s h)"
  by (auto simp: live_sessions_def dest: typed_get split: option.splits redis_value.splits)

lemma live_issue:
  "t < now + 604800000 \<Longrightarrow>
   live_sessions t (snd (issueRefreshToken sha now raw meta s)) = (live_sessions t s)(sha raw \<mapsto> meta\<lparr>rm_issuedAt := now\<rparr>)"
  by (rule ext) (simp add: live_sessions_def token_defs)

lemma live_del: "live_sessions t (kv_del (key_refreshToken h) s) = (live_sessions t s)(h := None)"
  by (rule ext) (simp add: live_sessions_def)

lemma live_revoke:
  assumes "typed_store s" and "\<And>m. Q (RefreshMeta m) \<longleftrightarrow> P m"
  shows "live_sessions now (revoke_where now Q s) = spec_revoke P (live_sessions now s)"
proof
  fix h
  show "live_sessions now (revoke_where now Q s) h = spec_revoke P (live_sessions now s) h"
    using live_typed[OF assms(1), of now h] assms(2)
    by (cases "live_sessions now s h")
      (simp_all add: live_sessions_def[of now "revoke_where now Q s"] revoke_where_get spec_revoke_def)
qed

lemma live_revokeSession:
  "typed_store s \<Longrightarrow> live_sessions now (revokeSession now sid s) = spec_revoke (\<lambda>m. rm_sessionId m = sid) (live_sessions now s)"
  unfolding revokeSession_def by (rule live_revoke) simp_all

lemma live_revokeUser:
  "typed_store s \<Longrightarrow> live_sessions now (revokeUser now u s) = spec_revoke (\<lambda>m. rm_userId m = u) (live_sessions now s)"
  unfolding revokeUser_def by (rule live_revoke) simp_all

lemma rotate_cases:
  assumes "typed_store s"
  shows "rotateRefreshToken sha j now newRaw sid2 raw sid s =
    (case live_sessions now s (sha raw) of
       None \<Rightarrow> (Inl (UnauthorizedError ''Refresh token invalid or expired''), revokeSession now sid s)
     | Some m \<Rightarrow> if rm_sessionId m \<noteq> sid then (Inl (UnauthorizedError ''Session mismatch''), s)
         else (Inr (signAccessToken j now \<lparr>ap_sub = rm_userId m, ap_companyId = rm_companyId m, ap_email = rm_email m,
                      ap_roles = rm_roles m, ap_sessionId = sid2\<rparr>, newRaw),
               snd (issueRefreshToken sha now newRaw (m\<lparr>rm_sessionId := sid2\<rparr>) (kv_del (key_refreshToken (sha raw)) s))))"
  by (auto simp: rotateRefreshToken_def live_typed[OF assms] issueRefreshToken_def Let_def split: option.splits)

text \<open>
  C20: The token service implements a map of live sessions. On a store whose values have the shapes of
  their keys, issuing a token adds its hash, rotating replaces the hash of the old token by that of the
  new one, in the new session, exactly when the old token is live and of the session named, and otherwise
  revokes that session (unknown token) or changes nothing (wrong session), and revoking a session or a
  user removes exactly their tokens; no operation touches another key.
\<close>

theorem token_store_refines:
  assumes "typed_store s"
  shows "live_sessions now (snd (issueRefreshToken sha now raw meta s)) = (live_sessions now s)(sha raw \<mapsto> meta\<lparr>rm_issuedAt := now\<rparr>)
    \<and> live_sessions now (snd (rotateRefreshToken sha j now newRaw sid2 raw sid s))
        = snd (spec_rotate (sha raw) sid (sha newRaw) sid2 now (live_sessions now s))
    \<and> \<not> is_error (fst (rotateRefreshToken sha j now newRaw sid2 raw sid s))
        = fst (spec_rotate (sha raw) sid (sha newRaw) sid2 now (live_sessions now s))
    \<and> live_sessions now (revokeSession now sid s) = spec_revoke (\<lambda>m. rm_sessionId m = sid) (live_sessions now s)
    \<and> live_sessions now (revokeUser now u s) = spec_revoke (\<lambda>m. rm_userId m = u) (live_sessions now s)
    \<and> (\<not> is_refresh_key k \<longrightarrow>
        kv_get t k (snd (rotateRefreshToken sha j now newRaw sid2 raw sid s)) = kv_get t k s \<and>
        kv_get t k (revokeUser now u s) = kv_get t k s)"
proof -
  have foreign: "key_refreshToken h \<noteq> k" if "\<not> is_refresh_key k" for h using that key_patterns(1) by metis
  have rotate: "live_sessions now (snd (rotateRefreshToken sha j now newRaw sid2 raw sid s))
        = snd (spec_rotate (sha raw) sid (sha newRaw) sid2 now (live_sessions now s))"
    "\<not> is_error (fst (rotateRefreshToken sha j now newRaw sid2 raw sid s))
        = fst (spec_rotate (sha raw) sid (sha newRaw) sid2 now (live_sessions now s))"
    using assms by (simp_all add: rotate_cases spec_rotate_def live_issue live_del live_revokeSession split: option.splits)
  have "kv_get t k (snd (rotateRefreshToken sha j now newRaw sid2 raw sid s)) = kv_get t k s" if "\<not> is_refresh_key k"
    using assms that foreign[OF that, symmetric] by (simp add: rotate_cases token_defs split: option.splits)
  then show ?thesis using assms rotate by (simp add: live_issue live_revokeSession live_revokeUser) (simp add: revokeUser_def)
qed

definition example_meta :: "string \<Rightarrow> refresh_meta" where
  "example_meta session = \<lparr>rm_userId = ''u'', rm_companyId = ''c'', rm_email = ''e'', rm_roles = [], rm_sessionId = session, rm_issuedAt = 0\<rparr>"

definition example_store :: "redis_value kv" where
  "example_store = [(key_refreshToken ''A'', RefreshMeta (example_meta ''s1''), 1000)]"

definition plain_jwt :: "(instant \<times> access_payload) jwt" where
  "plain_jwt = \<lparr>jw_sign = Pair, jw_verify = (\<lambda>t ignoreExp (t0, p). if ignoreExp \<or> t < t0 + 900000 then Some p else None)\<rparr>"

lemma example_store_typed: "typed_store example_store"
  by (simp add: typed_store_def example_store_def)

theorem token_store_refines_witness:
  "snd (spec_rotate (toUpperCase ''a'') ''s1'' (toUpperCase ''b'') ''s2'' 5 (live_sessions 5 example_store))
     = live_sessions 5 (snd (rotateRefreshToken toUpperCase plain_jwt 5 ''b'' ''s2'' ''a'' ''s1'' example_store))"
  using token_store_refines[OF example_store_typed, where now = 5 and sha = toUpperCase and j = plain_jwt and newRaw = "''b''"
      and ?sid2.0 = "''s2''" and raw = "''a''" and sid = "''s1''"] by simp

section \<open>Replay\<close>

text \<open>
  C23: The replay of a refresh token after its rotation is refused but contains nothing. Suppose a token is
  rotated, and only it belonged to its session. Presenting the old token again, with the access token of
  its session, is answered with 401 and leaves the store as it is, because the session that is then revoked
  is the old one: the successor, whoever obtained it, stays live for its whole week.
\<close>

theorem replay_revokes_nothing:
  assumes "typed_store s" and "rotateRefreshToken sha j now newRaw sid2 raw sid s = (Inr r, s1)"
    and "sha newRaw \<noteq> sha raw" and "sid2 \<noteq> sid" and "now \<le> t"
    and "\<And>h m. live_sessions now s h = Some m \<Longrightarrow> rm_sessionId m = sid \<Longrightarrow> h = sha raw"
  shows "rotateRefreshToken sha j t newRaw2 sid3 raw sid s1
      = (Inl (UnauthorizedError ''Refresh token invalid or expired''), s1)
    \<and> (t < now + 604800000 \<longrightarrow> live_sessions t s1 (sha newRaw) \<noteq> None)"
proof -
  obtain m where m: "live_sessions now s (sha raw) = Some m" "rm_sessionId m = sid"
    and s1: "s1 = snd (issueRefreshToken sha now newRaw (m\<lparr>rm_sessionId := sid2\<rparr>) (kv_del (key_refreshToken (sha raw)) s))"
    using assms(2) by (auto simp: rotate_cases[OF assms(1)] split: option.splits if_splits)
  have typed: "typed_store s1" using assms(1) by (simp add: s1 token_defs)
  have gone: "live_sessions t s1 (sha raw) = None" using assms(3) by (simp add: s1 live_sessions_def token_defs)
  have "revokeSession t sid s1 = s1" unfolding revokeSession_def
  proof (rule revoke_where_none)
    fix h v assume v: "kv_get t (key_refreshToken h) s1 = Some v"
    show "value_sessionId v \<noteq> Some sid"
    proof (cases "h = sha newRaw \<or> h = sha raw")
      case True
      then show ?thesis using v assms(4) gone by (auto simp: s1 token_defs split: if_splits)
    next
      case False
      then have "kv_get now (key_refreshToken h) s = Some v"
        using v kv.get_stable[OF _ assms(5)] by (auto simp: s1 token_defs split: if_splits)
      then show ?thesis using False assms(6)[of h] by (cases v) (auto simp: live_sessions_def)
    qed
  qed
  then show ?thesis using gone by (simp add: rotate_cases[OF typed]) (simp add: s1 live_sessions_def token_defs)
qed

theorem replay_revokes_nothing_witness:
  "\<exists>s1. rotateRefreshToken toUpperCase plain_jwt 5 ''b'' ''s2'' ''a'' ''s1'' example_store = (Inr ((5, \<lparr>ap_sub = ''u'',
        ap_companyId = ''c'', ap_email = ''e'', ap_roles = [], ap_sessionId = ''s2''\<rparr>), ''b''), s1)
    \<and> rotateRefreshToken toUpperCase plain_jwt 6 ''d'' ''s3'' ''a'' ''s1'' s1
      = (Inl (UnauthorizedError ''Refresh token invalid or expired''), s1)
    \<and> live_sessions 6 s1 ''B'' \<noteq> None"
proof -
  have up: "toUpperCase ''a'' = ''A''" "toUpperCase ''b'' = ''B''" by code_simp+
  have live: "live_sessions 5 example_store h = (if h = ''A'' then Some (example_meta ''s1'') else None)" for h
    by (simp add: live_sessions_def example_store_def kv_get_def)
  obtain s1 where s1: "rotateRefreshToken toUpperCase plain_jwt 5 ''b'' ''s2'' ''a'' ''s1'' example_store = (Inr ((5, \<lparr>ap_sub = ''u'',
        ap_companyId = ''c'', ap_email = ''e'', ap_roles = [], ap_sessionId = ''s2''\<rparr>), ''b''), s1)"
    by (simp add: rotate_cases[OF example_store_typed] up live example_meta_def signAccessToken_def plain_jwt_def)
  have "rotateRefreshToken toUpperCase plain_jwt 6 ''d'' ''s3'' ''a'' ''s1'' s1
      = (Inl (UnauthorizedError ''Refresh token invalid or expired''), s1)
    \<and> (6 < 5 + (604800000 :: int) \<longrightarrow> live_sessions 6 s1 (toUpperCase ''b'') \<noteq> None)"
    by (rule replay_revokes_nothing[OF example_store_typed s1]) (auto simp: up live split: if_splits)
  then show ?thesis using s1 up by auto
qed

end
