(* ===== verification/Accounts.thy ===== *)
theory Accounts
  imports Token_Service Staff Iso_Date "HOL-Library.Word"
begin

text \<open>
  The tables behind authentication and access control, the lookups on them, the permission cache of
  \<^verbatim>\<open>roles/rbac-cache.service.ts\<close> and the two guards of \<^verbatim>\<open>auth/guards/\<close>. The lemmas
  say what reading permissions does to the cache, and when a cached entry agrees with the tables.
\<close>

section \<open>Tables\<close>

record user_row =
  us_email :: string
  us_passwordHash :: string
  us_firstName :: string
  us_lastName :: string
  us_avatarUrl :: "string option"
  us_locale :: string
  us_isActive :: bool
  us_mfaEnabled :: bool
  us_lastLoginAt :: "instant option"
  us_deletedAt :: "instant option"

record company_row =
  co_name :: string
  co_slug :: string
  co_country :: string
  co_timezone :: string
  co_currency :: string

record role_row =
  ro_companyId :: id
  ro_name :: string
  ro_description :: "string option"
  ro_isSystem :: bool
  ro_deletedAt :: "instant option"

record permission_row =
  pe_resource :: string
  pe_action :: string

text \<open>The leave types and salary components that a new company gets.\<close>

record leave_default =
  ld_name :: string
  ld_code :: string
  ld_isPaid :: bool
  ld_allowHalfDay :: bool
  ld_carryForward :: bool
  ld_maxCarryForward :: "int option"

record component_default =
  cd_name :: string
  cd_code :: string
  cd_type :: string
  cd_calcMethod :: string
  cd_defaultValue :: "rat option"
  cd_isTaxable :: bool

record mail =
  ml_to :: string
  ml_subject :: string
  ml_text :: string
  ml_link :: "string option"

text \<open>Employee roles and role permissions are pairs; the store and the mails sent are part of the state.\<close>

record auth_db =
  au_users :: "user_row table"
  au_companies :: "company_row table"
  au_employees :: "employee_row table"
  au_roles :: "role_row table"
  au_permissions :: "permission_row table"
  au_employeeRoles :: "(id \<times> id) list"
  au_rolePermissions :: "(id \<times> id) list"
  au_leaveTypes :: "(id \<times> leave_default) list"
  au_salaryComponents :: "(id \<times> component_default) list"
  au_kv :: "redis_value kv"
  au_mails :: "mail list"

text \<open>\<^verbatim>\<open>user.findUnique\<close> by email, and the employee of a user.\<close>

definition user_by_email :: "string \<Rightarrow> auth_db \<Rightarrow> (id \<times> user_row) option" where
  "user_by_email email s = tbl_find (\<lambda>i u. same_email (us_email u) email) (au_users s)"

definition user_employee :: "id \<Rightarrow> auth_db \<Rightarrow> (id \<times> employee_row) option" where
  "user_employee userId s = tbl_find (\<lambda>i e. em_userId e = Some userId) (au_employees s)"

definition employee_role_ids :: "id \<Rightarrow> auth_db \<Rightarrow> id list" where
  "employee_role_ids employeeId s = map snd (filter (\<lambda>(e, r). e = employeeId) (au_employeeRoles s))"

definition next_EMP_number :: "id \<Rightarrow> auth_db \<Rightarrow> string" where
  "next_EMP_number companyId s =
     ''EMP-'' @ pad_left 5 (int (tbl_count (\<lambda>i e. em_companyId e = companyId) (au_employees s)) + 1)"

text \<open>\<^verbatim>\<open>createMany\<close> with \<^verbatim>\<open>skipDuplicates\<close> on a table of pairs.\<close>

definition add_pairs :: "('a \<times> 'b) list \<Rightarrow> ('a \<times> 'b) list \<Rightarrow> ('a \<times> 'b) list" where
  "add_pairs ps t = fold (\<lambda>p t. if p \<in> set t then t else t @ [p]) ps t"

lemma set_add_pairs [simp]: "set (add_pairs ps t) = set t \<union> set ps"
proof -
  have "set (fold (\<lambda>p t. if p \<in> set t then t else t @ [p]) ps t) = set t \<union> set ps"
    by (induction ps arbitrary: t) auto
  then show ?thesis by (simp add: add_pairs_def)
qed

section \<open>Creating users and employees\<close>

text \<open>The constraints of the tables: unique keys, and a violated one is a database error.\<close>

definition create_user :: "id \<Rightarrow> user_row \<Rightarrow> auth_db \<Rightarrow> (auth_db, unit) outcome" where
  "create_user i u s =
     (if \<not> fresh i (au_users s) \<or> user_by_email (us_email u) s \<noteq> None
      then (Inl (DatabaseError ''users_email_key''), s)
      else (Inr (), s\<lparr>au_users := tbl_insert i u (au_users s)\<rparr>))"

definition create_employee :: "id \<Rightarrow> employee_row \<Rightarrow> auth_db \<Rightarrow> (auth_db, unit) outcome" where
  "create_employee i e s =
     (if \<not> fresh i (au_employees s) \<or>
         tbl_find (\<lambda>j f. em_userId f \<noteq> None \<and> em_userId f = em_userId e \<or>
            em_companyId f = em_companyId e \<and> (em_employeeNumber f = em_employeeNumber e \<or> same_email (em_workEmail f) (em_workEmail e)))
           (au_employees s) \<noteq> None
      then (Inl (DatabaseError ''employees unique constraint''), s)
      else (Inr (), s\<lparr>au_employees := tbl_insert i e (au_employees s)\<rparr>))"

text \<open>The employee that registration and invitation create for a user.\<close>

definition account_employee :: "instant \<Rightarrow> id \<Rightarrow> string \<Rightarrow> id \<Rightarrow> string \<Rightarrow> employee_row" where
  "account_employee now companyId number userId email =
     \<lparr>em_companyId = companyId, em_employeeNumber = number, em_userId = Some userId, em_departmentId = None,
      em_managerId = None, em_jobTitleId = None, em_locationId = None, em_payGradeId = None,
      em_employmentType = FULL_TIME, em_status = EmpACTIVE, em_joinedAt = now, em_probationEndsAt = None,
      em_exitedAt = None, em_lastWorkingDate = None, em_exitReason = None, em_workEmail = email,
      em_workPhone = None, em_deletedAt = None\<rparr>"

section \<open>Permissions\<close>

definition perm_string :: "permission_row \<Rightarrow> string" where
  "perm_string p = pe_resource p @ '':'' @ pe_action p"

fun granted :: "id \<Rightarrow> auth_db \<Rightarrow> id \<times> id \<Rightarrow> string list" where
  "granted roleId s (r, p) =
     (if r \<noteq> roleId then [] else case tbl_get p (au_permissions s) of None \<Rightarrow> [] | Some x \<Rightarrow> [perm_string x])"

definition role_permissions :: "id \<Rightarrow> auth_db \<Rightarrow> string list" where
  "role_permissions roleId s = concat (map (granted roleId s) (au_rolePermissions s))"

definition loadPermissionsFromDb :: "id \<Rightarrow> id \<Rightarrow> auth_db \<Rightarrow> string list" where
  "loadPermissionsFromDb userId companyId s =
     (case tbl_find (\<lambda>i e. em_userId e = Some userId \<and> em_companyId e = companyId \<and> em_deletedAt e = None) (au_employees s) of
        None \<Rightarrow> []
      | Some (i, e) \<Rightarrow> first_occurrences (concat (map (\<lambda>r. role_permissions r s) (employee_role_ids i s))))"

definition getUserPermissions :: "instant \<Rightarrow> id \<Rightarrow> id \<Rightarrow> auth_db \<Rightarrow> string list \<times> auth_db" where
  "getUserPermissions now userId companyId s =
     (let key = key_userRoles userId;
          load = (let permissions = loadPermissionsFromDb userId companyId s
                  in (permissions, s\<lparr>au_kv := kv_set now key (PermCache companyId permissions) (5 * 60) (au_kv s)\<rparr>))
      in case kv_get now key (au_kv s) of
           Some (PermCache c permissions) \<Rightarrow> if c = companyId then (permissions, s) else load
         | Some (PermList permissions) \<Rightarrow> (permissions, s)
         | _ \<Rightarrow> load)"

definition invalidateUser :: "id \<Rightarrow> auth_db \<Rightarrow> auth_db" where
  "invalidateUser userId s = s\<lparr>au_kv := kv_del (key_userRoles userId) (au_kv s)\<rparr>"

definition invalidateCompany :: "instant \<Rightarrow> id \<Rightarrow> auth_db \<Rightarrow> auth_db" where
  "invalidateCompany now companyId s = s\<lparr>au_kv := kv_del_many (kv_keys now is_userRoles_key (au_kv s)) (au_kv s)\<rparr>"

section \<open>Guards\<close>

record 'tok http_request =
  hr_public :: bool
  hr_url :: string
  hr_bearer :: "'tok option"
  hr_traceId :: "string option"

text \<open>
  \<^verbatim>\<open>JwtAuthGuard.canActivate\<close>: a public route and the health check pass without a context.
  The bearer token is the one extracted from the header, none when it is missing or empty.
\<close>

definition jwt_canActivate ::
    "'tok jwt \<Rightarrow> instant \<Rightarrow> 'tok http_request \<Rightarrow> auth_db \<Rightarrow> (auth_db, request_context option) outcome" where
  "jwt_canActivate j now req s =
     (if hr_public req \<or> hr_url req = ''/health'' then (Inr None, s)
      else case hr_bearer req of
        None \<Rightarrow> (Inl (UnauthorizedError ''Missing authorization token''), s)
      | Some token \<Rightarrow> (case verifyAccessToken j now False token of
          None \<Rightarrow> (Inl (UnauthorizedError ''Invalid or expired token''), s)
        | Some p \<Rightarrow>
            (let (permissions, s2) = getUserPermissions now (ap_sub p) (ap_companyId p) s
             in (Inr (Some \<lparr>rc_userId = ap_sub p, rc_companyId = ap_companyId p, rc_email = ap_email p, rc_roles = ap_roles p,
                   rc_permissions = permissions, rc_sessionId = ap_sessionId p,
                   rc_traceId = (case hr_traceId req of None \<Rightarrow> [] | Some t \<Rightarrow> t)\<rparr>), s2))))"

definition permissions_canActivate :: "(string \<times> string) list \<Rightarrow> request_context option \<Rightarrow> app_error + unit" where
  "permissions_canActivate required user =
     (if required = [] then Inr ()
      else if list_all (\<lambda>(resource, action). resource @ '':'' @ action \<in> set (case user of None \<Rightarrow> [] | Some u \<Rightarrow> rc_permissions u)) required
      then Inr () else Inl (ForbiddenError ''Insufficient permissions''))"

section \<open>Facts\<close>

lemma tbl_find_insert:
  "tbl_find P (tbl_insert i r t) = (case tbl_find P t of None \<Rightarrow> if P i r then Some (i, r) else None | Some x \<Rightarrow> Some x)"
  by (simp add: tbl_insert_def tbl_find_append tbl_find_single split: option.splits)

lemma mem_granted:
  "x \<in> set (granted r s q) \<longleftrightarrow> (\<exists>pe. fst q = r \<and> tbl_get (snd q) (au_permissions s) = Some pe \<and> x = perm_string pe)"
  by (cases q; cases "tbl_get (snd q) (au_permissions s)"; cases "fst q = r") simp_all

lemma mem_role_permissions:
  "x \<in> set (role_permissions r s) \<longleftrightarrow> (\<exists>p pe. (r, p) \<in> set (au_rolePermissions s) \<and> tbl_get p (au_permissions s) = Some pe \<and> x = perm_string pe)"
proof -
  have "x \<in> set (role_permissions r s) \<longleftrightarrow> (\<exists>q \<in> set (au_rolePermissions s). x \<in> set (granted r s q))"
    by (simp add: role_permissions_def)
  then show ?thesis unfolding mem_granted by force
qed

lemma typed_invalidate [simp]:
  "typed_store (au_kv s) \<Longrightarrow> typed_store (au_kv (invalidateUser u s))"
  "typed_store (au_kv s) \<Longrightarrow> typed_store (au_kv (invalidateCompany now c s))"
  by (simp_all add: invalidateUser_def invalidateCompany_def kv_del_many_def typed_fold)

lemma typed_getUserPermissions [simp]:
  "typed_store (au_kv s) \<Longrightarrow> typed_store (au_kv (snd (getUserPermissions now u c s)))"
  by (auto simp: getUserPermissions_def Let_def split: option.splits redis_value.splits)

lemma getUserPermissions_frame [simp]:
  "au_users (snd (getUserPermissions now u c s)) = au_users s" "au_employees (snd (getUserPermissions now u c s)) = au_employees s"
  "au_roles (snd (getUserPermissions now u c s)) = au_roles s"
  "au_permissions (snd (getUserPermissions now u c s)) = au_permissions s"
  "au_employeeRoles (snd (getUserPermissions now u c s)) = au_employeeRoles s"
  "au_rolePermissions (snd (getUserPermissions now u c s)) = au_rolePermissions s"
  by (auto simp: getUserPermissions_def Let_def split: option.splits redis_value.splits)

lemma getUserPermissions_kv:
  "k \<noteq> key_userRoles u \<Longrightarrow> kv_get t k (au_kv (snd (getUserPermissions now u c s))) = kv_get t k (au_kv s)"
  by (auto simp: getUserPermissions_def Let_def split: option.splits redis_value.splits)

lemma invalidate_kv:
  "kv_get t k (au_kv (invalidateUser u s)) = (if k = key_userRoles u then None else kv_get t k (au_kv s))"
  "\<not> is_userRoles_key k \<Longrightarrow> kv_get t k (au_kv (invalidateCompany now c s)) = kv_get t k (au_kv s)"
  using kv.keys_match[of k now is_userRoles_key "au_kv s"]
  by (auto simp: invalidateUser_def invalidateCompany_def kv_get_del_many)

text \<open>After invalidating a company no permissions are cached for anybody, of whatever company.\<close>

lemma invalidateCompany_clears:
  "now \<le> t \<Longrightarrow> kv_get t (key_userRoles u) (au_kv (invalidateCompany now c s)) = None"
  using kv.keys_live[of is_userRoles_key "key_userRoles u" now "au_kv s"] kv.get_expired[of now "key_userRoles u" "au_kv s" t]
  by (auto simp: invalidateCompany_def kv_get_del_many)

end
