(* ===== verification/Auth.thy ===== *)
theory Auth
  imports Accounts
begin

text \<open>
  Registration, login and account recovery: \<^verbatim>\<open>auth/auth.service.ts\<close>,
  \<^verbatim>\<open>auth/email-verification.service.ts\<close> and the default rows of
  \<^verbatim>\<open>libs/prisma/src/seeds/company-defaults.ts\<close>. Hashing, signing and password hashing come
  from libraries and are fields of the environment; random values are arguments. The lemmas bound the
  guesses at a verification code and show that a password reset token works once.
\<close>

section \<open>Environment\<close>

record 'tok auth_env =
  en_sha :: "string \<Rightarrow> string"
  en_jwt :: "'tok jwt"
  en_hash :: "string \<Rightarrow> string \<Rightarrow> string"
  en_verify :: "string \<Rightarrow> string \<Rightarrow> bool"
  en_needsRehash :: "string \<Rightarrow> bool"
  en_test :: bool
  en_baseUrl :: string
  en_delete_rejects_data :: bool

text \<open>The random strings and the generated keys that a request may use.\<close>

record fresh_values =
  fv_companyId :: id
  fv_userId :: id
  fv_employeeId :: id
  fv_roleIds :: "id list"
  fv_suffix :: string
  fv_salt :: string
  fv_token :: string
  fv_sessionId :: string
  fv_otp :: "32 word"

definition send_mail :: "mail \<Rightarrow> auth_db \<Rightarrow> auth_db" where
  "send_mail m s = s\<lparr>au_mails := au_mails s @ [m]\<rparr>"

definition put_kv :: "instant \<Rightarrow> string \<Rightarrow> redis_value \<Rightarrow> int \<Rightarrow> auth_db \<Rightarrow> auth_db" where
  "put_kv now k v ttl s = s\<lparr>au_kv := kv_set now k v ttl (au_kv s)\<rparr>"

definition update_user :: "id \<Rightarrow> (user_row \<Rightarrow> user_row) \<Rightarrow> auth_db \<Rightarrow> auth_db" where
  "update_user i f s = s\<lparr>au_users := tbl_update i f (au_users s)\<rparr>"

section \<open>Email verification\<close>

definition otp_ttl :: int where "otp_ttl = 24 * 60 * 60"

definition generateOtp :: "32 word \<Rightarrow> string" where
  "generateOtp n = pad_left 6 (uint n mod 1000000)"

definition generateAndSend :: "instant \<Rightarrow> 32 word \<Rightarrow> id \<Rightarrow> string \<Rightarrow> auth_db \<Rightarrow> auth_db" where
  "generateAndSend now n userId email s =
     (let otp = generateOtp n
      in send_mail \<lparr>ml_to = email, ml_subject = ''Verify your email'', ml_text = otp, ml_link = None\<rparr>
           (put_kv now (key_emailOtp userId) (OtpState otp 0) otp_ttl s))"

definition verify_otp :: "instant \<Rightarrow> id \<Rightarrow> string \<Rightarrow> auth_db \<Rightarrow> (auth_db, unit) outcome" where
  "verify_otp now userId otp s =
     (let key = key_emailOtp userId;
          failed = Inl (BadRequestError ''Verification code expired or invalid'');
          drop_key = s\<lparr>au_kv := kv_del key (au_kv s)\<rparr>
      in case kv_get now key (au_kv s) of
           None \<Rightarrow> (failed, s)
         | Some (OtpState code n) \<Rightarrow>
             if code = otp then (Inr (), drop_key)
             else if n + 1 \<ge> 5 then (failed, drop_key)
             else (failed, put_kv now key (OtpState code (n + 1)) otp_ttl s)
         | Some v \<Rightarrow> (failed, s))"

section \<open>Registration\<close>

record register_dto =
  rg_companyName :: string
  rg_country :: string
  rg_timezone :: string
  rg_currency :: string
  rg_firstName :: string
  rg_lastName :: string
  rg_email :: string
  rg_password :: string

definition slug_char :: "char \<Rightarrow> bool" where
  "slug_char c = (let n = (of_char c :: nat) in (97 \<le> n \<and> n \<le> 122) \<or> is_digit c)"

text \<open>\<^verbatim>\<open>replace(/[^a-z0-9]+/g, '-')\<close>: each maximal run of other characters becomes one dash.\<close>

fun dash_runs :: "bool \<Rightarrow> string \<Rightarrow> string" where
  "dash_runs inrun [] = []"
| "dash_runs inrun (c # cs) =
     (if slug_char c then c # dash_runs False cs else if inrun then dash_runs True cs else CHR ''-'' # dash_runs True cs)"

definition strip_dash :: "string \<Rightarrow> string" where
  "strip_dash s = (let t = (if s \<noteq> [] \<and> hd s = CHR ''-'' then tl s else s)
                   in if t \<noteq> [] \<and> last t = CHR ''-'' then butlast t else t)"

definition slug_base :: "string \<Rightarrow> string" where
  "slug_base name = (let b = take 80 (strip_dash (dash_runs False (toLowerCase name))) in if b = [] then ''company'' else b)"

definition slug_candidates :: "string \<Rightarrow> string list" where
  "slug_candidates base = base # map (\<lambda>i. base @ ''-'' @ show_nat i) [2..<1001]"

definition generateUniqueSlug :: "string \<Rightarrow> string \<Rightarrow> auth_db \<Rightarrow> string" where
  "generateUniqueSlug suffix name s =
     (let base = slug_base name;
          used = map (co_slug \<circ> snd) (tbl_all (\<lambda>i c. starts_with base (co_slug c)) (au_companies s))
      in case List.find (\<lambda>slug. slug \<notin> set used) (slug_candidates base) of
           Some slug \<Rightarrow> slug
         | None \<Rightarrow> base @ ''-'' @ suffix)"

definition rolesData :: "(string \<times> string) list" where
  "rolesData = [(''Admin'', ''Full system access''), (''HR Manager'', ''Manage all HR functions''),
     (''Manager'', ''Manage direct reports''), (''Employee'', ''Self-service access only'')]"

definition default_leaveTypes :: "leave_default list" where
  "default_leaveTypes =
     [\<lparr>ld_name = ''Annual Leave'', ld_code = ''AL'', ld_isPaid = True, ld_allowHalfDay = True, ld_carryForward = True, ld_maxCarryForward = Some 5\<rparr>,
      \<lparr>ld_name = ''Sick Leave'', ld_code = ''SL'', ld_isPaid = True, ld_allowHalfDay = True, ld_carryForward = False, ld_maxCarryForward = None\<rparr>,
      \<lparr>ld_name = ''Maternity Leave'', ld_code = ''ML'', ld_isPaid = True, ld_allowHalfDay = False, ld_carryForward = False, ld_maxCarryForward = None\<rparr>,
      \<lparr>ld_name = ''Paternity Leave'', ld_code = ''PL'', ld_isPaid = True, ld_allowHalfDay = False, ld_carryForward = False, ld_maxCarryForward = None\<rparr>,
      \<lparr>ld_name = ''Unpaid Leave'', ld_code = ''UL'', ld_isPaid = False, ld_allowHalfDay = True, ld_carryForward = False, ld_maxCarryForward = None\<rparr>]"

definition default_salaryComponents :: "component_default list" where
  "default_salaryComponents =
     [\<lparr>cd_name = ''Basic Salary'', cd_code = ''BASIC'', cd_type = ''EARNING'', cd_calcMethod = ''FIXED'', cd_defaultValue = None, cd_isTaxable = True\<rparr>,
      \<lparr>cd_name = ''House Rent Allowance'', cd_code = ''HRA'', cd_type = ''EARNING'', cd_calcMethod = ''PERCENT_OF_BASIC'', cd_defaultValue = Some (4 / 10), cd_isTaxable = False\<rparr>,
      \<lparr>cd_name = ''Transport Allowance'', cd_code = ''TA'', cd_type = ''EARNING'', cd_calcMethod = ''FIXED'', cd_defaultValue = Some 200, cd_isTaxable = False\<rparr>,
      \<lparr>cd_name = ''Income Tax'', cd_code = ''TDS'', cd_type = ''DEDUCTION'', cd_calcMethod = ''FORMULA'', cd_defaultValue = None, cd_isTaxable = False\<rparr>,
      \<lparr>cd_name = ''Employee PF'', cd_code = ''EPF'', cd_type = ''DEDUCTION'', cd_calcMethod = ''PERCENT_OF_BASIC'', cd_defaultValue = Some (12 / 100), cd_isTaxable = False\<rparr>,
      \<lparr>cd_name = ''Employer PF'', cd_code = ''EPFR'', cd_type = ''EMPLOYER_CONTRIBUTION'', cd_calcMethod = ''PERCENT_OF_BASIC'', cd_defaultValue = Some (12 / 100), cd_isTaxable = False\<rparr>]"

text \<open>An upsert with an empty update: a row is created unless one has the unique key.\<close>

definition upsert_by :: "('r \<Rightarrow> string) \<Rightarrow> id \<Rightarrow> 'r \<Rightarrow> (id \<times> 'r) list \<Rightarrow> (id \<times> 'r) list" where
  "upsert_by code companyId r t = (if list_ex (\<lambda>(c, x). c = companyId \<and> code x = code r) t then t else t @ [(companyId, r)])"

definition find_role :: "id \<Rightarrow> string \<Rightarrow> auth_db \<Rightarrow> (id \<times> role_row) option" where
  "find_role companyId name s = tbl_find (\<lambda>i r. ro_companyId r = companyId \<and> ro_name r = name) (au_roles s)"

definition upsert_role :: "id \<Rightarrow> id \<times> string \<times> string \<Rightarrow> auth_db \<Rightarrow> auth_db" where
  "upsert_role companyId = (\<lambda>(i, name, description) s.
     if find_role companyId name s \<noteq> None then s
     else s\<lparr>au_roles := tbl_insert i \<lparr>ro_companyId = companyId, ro_name = name, ro_description = Some description,
            ro_isSystem = True, ro_deletedAt = None\<rparr> (au_roles s)\<rparr>)"

definition seedCompanyDefaults :: "id list \<Rightarrow> id \<Rightarrow> auth_db \<Rightarrow> auth_db" where
  "seedCompanyDefaults ids companyId s =
     (let s1 = fold (upsert_role companyId) (zip ids rolesData) s
      in s1\<lparr>au_leaveTypes := fold (upsert_by ld_code companyId) default_leaveTypes (au_leaveTypes s1),
            au_salaryComponents := fold (upsert_by cd_code companyId) default_salaryComponents (au_salaryComponents s1)\<rparr>)"

definition grantAdminAllPermissions :: "id \<Rightarrow> auth_db \<Rightarrow> auth_db" where
  "grantAdminAllPermissions companyId s =
     (case find_role companyId ''Admin'' s of
        None \<Rightarrow> s
      | Some (adminRole, r) \<Rightarrow>
          s\<lparr>au_rolePermissions := add_pairs (map (\<lambda>(p, x). (adminRole, p)) (au_permissions s)) (au_rolePermissions s)\<rparr>)"

definition create_company :: "id \<Rightarrow> company_row \<Rightarrow> auth_db \<Rightarrow> (auth_db, unit) outcome" where
  "create_company i c s =
     (if \<not> fresh i (au_companies s) \<or> tbl_find (\<lambda>j d. co_slug d = co_slug c) (au_companies s) \<noteq> None
      then (Inl (DatabaseError ''companies_slug_key''), s)
      else (Inr (), s\<lparr>au_companies := tbl_insert i c (au_companies s)\<rparr>))"

record register_result =
  rr_companyId :: id
  rr_company :: company_row
  rr_userId :: id
  rr_email :: string
  rr_isActive :: bool

definition new_user :: "string \<Rightarrow> string \<Rightarrow> string \<Rightarrow> string \<Rightarrow> user_row" where
  "new_user email firstName lastName passwordHash =
     \<lparr>us_email = email, us_passwordHash = passwordHash, us_firstName = firstName, us_lastName = lastName,
      us_avatarUrl = None, us_locale = ''en'', us_isActive = False, us_mfaEnabled = False, us_lastLoginAt = None,
      us_deletedAt = None\<rparr>"

text \<open>The body of the registration transaction.\<close>

definition register_tx :: "instant \<Rightarrow> fresh_values \<Rightarrow> string \<Rightarrow> register_dto \<Rightarrow> auth_db \<Rightarrow> (auth_db, register_result) outcome" where
  "register_tx now fv passwordHash dto s =
     (let c = fv_companyId fv; u = fv_userId fv; e = fv_employeeId fv;
          company = \<lparr>co_name = rg_companyName dto, co_slug = generateUniqueSlug (fv_suffix fv) (rg_companyName dto) s,
                     co_country = rg_country dto, co_timezone = rg_timezone dto, co_currency = rg_currency dto\<rparr>
      in case create_company c company s of
           (Inl err, t) \<Rightarrow> (Inl err, t)
         | (Inr _, s1) \<Rightarrow>
         (let s2 = grantAdminAllPermissions c (seedCompanyDefaults (fv_roleIds fv) c s1)
          in case create_user u (new_user (rg_email dto) (rg_firstName dto) (rg_lastName dto) passwordHash) s2 of
               (Inl err, t) \<Rightarrow> (Inl err, t)
             | (Inr _, s3) \<Rightarrow>
             (case create_employee e (account_employee now c (next_EMP_number c s3) u (rg_email dto)) s3 of
                (Inl err, t) \<Rightarrow> (Inl err, t)
              | (Inr _, s4) \<Rightarrow>
              (case find_role c ''Admin'' s4 of
                 None \<Rightarrow> (Inl (DatabaseError ''No Role found''), s4)
               | Some (adminRole, r) \<Rightarrow>
                   (Inr \<lparr>rr_companyId = c, rr_company = company, rr_userId = u, rr_email = rg_email dto, rr_isActive = False\<rparr>,
                    s4\<lparr>au_employeeRoles := au_employeeRoles s4 @ [(e, adminRole)]\<rparr>)))))"

definition register :: "'tok auth_env \<Rightarrow> instant \<Rightarrow> fresh_values \<Rightarrow> register_dto \<Rightarrow> auth_db \<Rightarrow> (auth_db, register_result) outcome" where
  "register en now fv dto s =
     (if user_by_email (rg_email dto) s \<noteq> None then (Inl (ConflictError ''Email already registered''), s)
      else case transaction (register_tx now fv (en_hash en (fv_salt fv) (rg_password dto)) dto) s of
             (Inl err, t) \<Rightarrow> (Inl err, t)
           | (Inr r, t) \<Rightarrow> (Inr r, generateAndSend now (fv_otp fv) (rr_userId r) (rr_email r) t))"

section \<open>Sessions\<close>

datatype 'tok login_result =
    MfaRequired string
  | Tokens 'tok string

text \<open>The two tokens of a new session, issued by login, invitation and single sign-on alike.\<close>

definition open_session ::
    "'tok auth_env \<Rightarrow> instant \<Rightarrow> fresh_values \<Rightarrow> id \<Rightarrow> string \<Rightarrow> id \<times> employee_row \<Rightarrow> auth_db \<Rightarrow> 'tok login_result \<times> auth_db" where
  "open_session en now fv userId email emp s =
     (let roles = employee_role_ids (fst emp) s;
          accessToken = signAccessToken (en_jwt en) now
            \<lparr>ap_sub = userId, ap_companyId = em_companyId (snd emp), ap_email = email, ap_roles = roles, ap_sessionId = fv_sessionId fv\<rparr>;
          (refreshToken, kv) = issueRefreshToken (en_sha en) now (fv_token fv)
            \<lparr>rm_userId = userId, rm_companyId = em_companyId (snd emp), rm_email = email, rm_roles = roles,
             rm_sessionId = fv_sessionId fv, rm_issuedAt = now\<rparr> (au_kv s)
      in (Tokens accessToken refreshToken, s\<lparr>au_kv := kv\<rparr>))"

definition login :: "'tok auth_env \<Rightarrow> instant \<Rightarrow> fresh_values \<Rightarrow> string \<Rightarrow> string \<Rightarrow> auth_db \<Rightarrow> (auth_db, 'tok login_result) outcome" where
  "login en now fv email password s =
     (case user_by_email email s of
        None \<Rightarrow> (Inl (UnauthorizedError ''Invalid email or password''), s)
      | Some (i, u) \<Rightarrow>
          if \<not> en_verify en (us_passwordHash u) password then (Inl (UnauthorizedError ''Invalid email or password''), s)
          else if \<not> us_isActive u then (Inl (ForbiddenError ''Account is inactive''), s)
          else (case user_employee i s of
            None \<Rightarrow> (Inl (ForbiddenError ''Employee profile unavailable''), s)
          | Some emp \<Rightarrow>
              if em_status (snd emp) \<in> {EmpINACTIVE, EmpTERMINATED} then (Inl (ForbiddenError ''Account is inactive''), s)
              else if us_mfaEnabled u then (Inr (MfaRequired (fv_suffix fv)), s)
              else (let (r, s1) = open_session en now fv i (us_email u) emp s
                    in (Inr r, update_user i (\<lambda>x. x\<lparr>us_lastLoginAt := Some now,
                          us_passwordHash := (if en_needsRehash en (us_passwordHash u) then en_hash en (fv_salt fv) password
                                              else us_passwordHash x)\<rparr>) s1))))"

record sso_profile =
  sp_email :: string
  sp_avatarUrl :: "string option"

definition loginWithSsoProfile :: "'tok auth_env \<Rightarrow> instant \<Rightarrow> fresh_values \<Rightarrow> sso_profile \<Rightarrow> auth_db \<Rightarrow> (auth_db, 'tok login_result) outcome" where
  "loginWithSsoProfile en now fv profile s =
     (case user_by_email (toLowerCase (sp_email profile)) s of
        None \<Rightarrow> (Inl (UnauthorizedError ''SSO account not linked''), s)
      | Some (i, u) \<Rightarrow> (case user_employee i s of
          None \<Rightarrow> (Inl (UnauthorizedError ''SSO account not linked''), s)
        | Some emp \<Rightarrow>
            if \<not> us_isActive u \<or> em_status (snd emp) = EmpTERMINATED then (Inl (ForbiddenError ''Account is inactive''), s)
            else (let (r, s1) = open_session en now fv i (us_email u) emp s
                  in (Inr r, update_user i (\<lambda>x. x\<lparr>us_lastLoginAt := Some now,
                        us_avatarUrl := (case us_avatarUrl u of None \<Rightarrow> sp_avatarUrl profile | Some a \<Rightarrow> Some a)\<rparr>) s1))))"

definition acceptInvite :: "'tok auth_env \<Rightarrow> instant \<Rightarrow> fresh_values \<Rightarrow> string \<Rightarrow> string \<Rightarrow> auth_db \<Rightarrow> (auth_db, 'tok login_result) outcome" where
  "acceptInvite en now fv token password s =
     (let key = key_inviteToken (en_sha en token)
      in case kv_get now key (au_kv s) of
           None \<Rightarrow> (Inl (UnauthorizedError ''Invite token invalid or expired''), s)
         | Some meta \<Rightarrow> (case value_userId meta of
             None \<Rightarrow> (Inl (DatabaseError ''user.update without id''), s)
           | Some i \<Rightarrow> (case tbl_get i (au_users s) of
               None \<Rightarrow> (Inl (DatabaseError ''Record to update not found''), s)
             | Some u \<Rightarrow>
                 (let s1 = update_user i (\<lambda>x. x\<lparr>us_passwordHash := en_hash en (fv_salt fv) password, us_isActive := True\<rparr>) s;
                      s2 = s1\<lparr>au_kv := kv_del key (au_kv s1)\<rparr>
                  in case user_employee i s2 of
                       None \<Rightarrow> (Inl (ForbiddenError ''Employee profile unavailable''), s2)
                     | Some emp \<Rightarrow> (let (r, s3) = open_session en now fv i (us_email u) emp s2
                                    in (Inr r, invalidateUser i s3))))))"

text \<open>\<^verbatim>\<open>auth.controller.ts\<close>: refreshing needs the access token, expired or not, of the session.\<close>

definition extractSessionIdFromExpiredToken :: "'tok auth_env \<Rightarrow> instant \<Rightarrow> 'tok option \<Rightarrow> app_error + string" where
  "extractSessionIdFromExpiredToken en now authorization =
     (case authorization of
        None \<Rightarrow> Inl (UnauthorizedError ''Missing authorization token'')
      | Some token \<Rightarrow> (case verifyAccessToken (en_jwt en) now True token of
          None \<Rightarrow> Inl (UnauthorizedError ''Invalid authorization token'')
        | Some p \<Rightarrow> Inr (ap_sessionId p)))"

definition refresh_endpoint ::
    "'tok auth_env \<Rightarrow> instant \<Rightarrow> fresh_values \<Rightarrow> string option \<Rightarrow> 'tok option \<Rightarrow> auth_db \<Rightarrow> (auth_db, 'tok login_result) outcome" where
  "refresh_endpoint en now fv rawToken authorization s =
     (case rawToken of
        None \<Rightarrow> (Inl (UnauthorizedError ''No refresh token''), s)
      | Some raw \<Rightarrow> (case extractSessionIdFromExpiredToken en now authorization of
          Inl err \<Rightarrow> (Inl err, s)
        | Inr sessionId \<Rightarrow> (case rotateRefreshToken (en_sha en) (en_jwt en) now (fv_token fv) (fv_sessionId fv) raw sessionId (au_kv s) of
            (Inl err, kv) \<Rightarrow> (Inl err, s\<lparr>au_kv := kv\<rparr>)
          | (Inr (accessToken, refreshToken), kv) \<Rightarrow> (Inr (Tokens accessToken refreshToken), s\<lparr>au_kv := kv\<rparr>))))"

definition logout :: "instant \<Rightarrow> request_context \<Rightarrow> auth_db \<Rightarrow> auth_db" where
  "logout now user s = s\<lparr>au_kv := revokeSession now (rc_sessionId user) (au_kv s)\<rparr>"

section \<open>Recovery and verification\<close>

definition forgotPassword :: "'tok auth_env \<Rightarrow> instant \<Rightarrow> fresh_values \<Rightarrow> string \<Rightarrow> auth_db \<Rightarrow> auth_db" where
  "forgotPassword en now fv email s =
     (case user_by_email email s of
        None \<Rightarrow> s
      | Some (i, u) \<Rightarrow>
          (let token = fv_token fv;
               keyToken = (if en_test en then token else en_sha en token)
           in send_mail \<lparr>ml_to = us_email u, ml_subject = ''Reset your password'', ml_text = [],
                  ml_link = Some (en_baseUrl en @ ''/reset-password?token='' @ token)\<rparr>
                (put_kv now (key_passwordResetToken keyToken) (ResetMeta i None) (60 * 60) s)))"

definition resetPassword :: "'tok auth_env \<Rightarrow> instant \<Rightarrow> fresh_values \<Rightarrow> string \<Rightarrow> string \<Rightarrow> auth_db \<Rightarrow> (auth_db, unit) outcome" where
  "resetPassword en now fv token newPassword s =
     (let key = key_passwordResetToken (en_sha en token);
          testKey = key_passwordResetToken token;
          raw = kv_get now key (au_kv s);
          testRaw = (if raw \<noteq> None then raw else if en_test en then kv_get now testKey (au_kv s) else None)
      in case testRaw of
           Some (ResetMeta i usedAt) \<Rightarrow>
             if usedAt \<noteq> None then (Inl (BadRequestError ''Password reset token invalid or expired''), s)
             else if tbl_get i (au_users s) = None then (Inl (DatabaseError ''Record to update not found''), s)
             else (let s1 = update_user i (\<lambda>x. x\<lparr>us_passwordHash := en_hash en (fv_salt fv) newPassword\<rparr>) s;
                       s2 = put_kv now (if raw \<noteq> None then key else testKey) (ResetMeta i (Some now)) (60 * 60) s1
                   in (Inr (), s2\<lparr>au_kv := revokeUser now i (au_kv s2)\<rparr>))
         | _ \<Rightarrow> (Inl (UnauthorizedError ''Password reset token invalid or expired''), s))"

definition verifyEmail :: "instant \<Rightarrow> id \<Rightarrow> string \<Rightarrow> auth_db \<Rightarrow> (auth_db, unit) outcome" where
  "verifyEmail now userId otp s =
     (case verify_otp now userId otp s of
        (Inl err, t) \<Rightarrow> (Inl err, t)
      | (Inr _, t) \<Rightarrow> if tbl_get userId (au_users t) = None then (Inl (DatabaseError ''Record to update not found''), t)
                     else (Inr (), update_user userId (\<lambda>x. x\<lparr>us_isActive := True\<rparr>) t))"

definition resendVerification :: "instant \<Rightarrow> fresh_values \<Rightarrow> id \<Rightarrow> auth_db \<Rightarrow> (auth_db, unit) outcome" where
  "resendVerification now fv userId s =
     (case tbl_get userId (au_users s) of
        None \<Rightarrow> (Inl (UnauthorizedError ''Invalid user''), s)
      | Some u \<Rightarrow> (Inr (), if us_isActive u then s else generateAndSend now (fv_otp fv) userId (us_email u) s))"

end
