(* ===== verification/Prisma_Scope.thy ===== *)
theory Prisma_Scope
  imports Audit_Log Js_String
begin

text \<open>
  The two client extensions of \<^verbatim>\<open>libs/prisma/src/extensions/\<close> that every tenant-scoped query
  goes through, and their composition in \<^verbatim>\<open>libs/prisma/src/prisma.service.ts\<close>. The database
  library is the parameter \<open>query\<close>, which receives the rewritten arguments. The lemmas show what the
  scope adds to an operation and what it passes on as the caller gave it.
\<close>

section \<open>Arguments of a query\<close>

type_synonym props = "(string \<times> json) list"

text \<open>\<^verbatim>\<open>where\<close>, \<^verbatim>\<open>data\<close>, and the other properties of the argument.\<close>

record query_args =
  qa_where :: "props option"
  qa_data :: "json option"
  qa_other :: props

text \<open>\<^verbatim>\<open>{ ...o, k: v }\<close>.\<close>

definition set_prop :: "string \<Rightarrow> json \<Rightarrow> props \<Rightarrow> props" where
  "set_prop k v obj = (if k \<in> fst ` set obj then map (\<lambda>(j, x). (j, if j = k then v else x)) obj else obj @ [(k, v)])"

definition spread :: "props option \<Rightarrow> props" where
  "spread x = (case x of None \<Rightarrow> [] | Some ps \<Rightarrow> ps)"

text \<open>Spreading a value that is no object gives nothing; of an array the spread has its indices.\<close>

fun spread_json :: "json option \<Rightarrow> props" where
  "spread_json (Some (JObj ps)) = ps"
| "spread_json (Some (JArr xs)) = map (\<lambda>(i, x). (show_nat i, x)) (enumerate 0 xs)"
| "spread_json x = []"

definition with_where :: "string \<Rightarrow> json \<Rightarrow> query_args \<Rightarrow> query_args" where
  "with_where k v a = a\<lparr>qa_where := Some (set_prop k v (spread (qa_where a)))\<rparr>"

section \<open>Soft deletion\<close>

definition SOFT_DELETABLE :: "string list" where
  "SOFT_DELETABLE = [''Company'', ''Employee'', ''User'', ''Department'', ''Role'', ''EmployeeDocument'', ''Project'',
     ''IvrExtension'', ''Voicemail'']"

definition softDelete :: "instant \<Rightarrow> string \<Rightarrow> string \<Rightarrow> query_args \<Rightarrow> query_args" where
  "softDelete now model operation args =
     (if model \<notin> set SOFT_DELETABLE then args
      else if operation \<in> {''delete'', ''deleteMany''} then args\<lparr>qa_data := Some (JObj [(''deletedAt'', JDate now)])\<rparr>
      else if operation \<in> {''findMany'', ''findUnique'', ''findFirst'', ''findUniqueOrThrow'', ''findFirstOrThrow'', ''count''}
        then with_where ''deletedAt'' JNull args
      else args)"

section \<open>Tenant scope\<close>

definition UNSCOPED_MODELS :: "string list" where
  "UNSCOPED_MODELS = [''User'', ''UserSession'', ''RefreshToken'', ''Permission'']"

definition SOFT_DELETE_ONLY_MODELS :: "string list" where "SOFT_DELETE_ONLY_MODELS = [''User'']"

definition SOFT_DELETE_MODELS :: "string list" where
  "SOFT_DELETE_MODELS = [''Company'', ''Department'', ''Employee'', ''EmployeeDocument'', ''Project'', ''Role'', ''User'', ''Voicemail'']"

definition readOps :: "string list" where
  "readOps = [''findMany'', ''findFirst'', ''findFirstOrThrow'', ''findUnique'', ''findUniqueOrThrow'', ''count'', ''aggregate'', ''groupBy'']"

definition writeOps :: "string list" where "writeOps = [''update'', ''updateMany'', ''delete'', ''deleteMany'']"

definition createOps :: "string list" where "createOps = [''create'', ''createMany'', ''upsert'']"

fun add_company :: "id \<Rightarrow> json \<Rightarrow> json" where
  "add_company companyId v = JObj (set_prop ''companyId'' (JStr companyId) (spread_json (Some v)))"

text \<open>The data of \<^verbatim>\<open>createMany\<close>: an array of rows, or an object that wraps one.\<close>

definition scope_many :: "id \<Rightarrow> json option \<Rightarrow> json option" where
  "scope_many companyId dat = (case dat of
       Some (JArr rows) \<Rightarrow> Some (JArr (map (add_company companyId) rows))
     | _ \<Rightarrow> Some (JObj (case map_of (spread_json dat) ''data'' of
           Some (JArr rows) \<Rightarrow> set_prop ''data'' (JArr (map (add_company companyId) rows)) (spread_json dat)
         | _ \<Rightarrow> spread_json dat)))"

definition applyTenantScopeOperation :: "id \<Rightarrow> string \<Rightarrow> string \<Rightarrow> query_args \<Rightarrow> (query_args \<Rightarrow> 'r) \<Rightarrow> 'r" where
  "applyTenantScopeOperation companyId model operation args query =
     (let isUnscoped = (model \<in> set UNSCOPED_MODELS)
      in if operation \<in> set readOps then
           query (if \<not> isUnscoped
                  then (if model \<in> set SOFT_DELETE_MODELS then with_where ''deletedAt'' JNull else id)
                         (with_where ''companyId'' (JStr companyId) args)
                  else if model \<in> set SOFT_DELETE_ONLY_MODELS then with_where ''deletedAt'' JNull args
                  else args)
         else if operation \<in> set writeOps then
           query (if isUnscoped then args else with_where ''companyId'' (JStr companyId) args)
         else if operation \<in> set createOps \<and> \<not> isUnscoped then
           query (if operation = ''create'' \<or> operation = ''upsert''
                  then args\<lparr>qa_data := Some (JObj (set_prop ''companyId'' (JStr companyId) (spread_json (qa_data args))))\<rparr>
                  else args\<lparr>qa_data := scope_many companyId (qa_data args)\<rparr>)
         else query args)"

text \<open>\<^verbatim>\<open>forCompany\<close>: both extensions around the client.\<close>

definition forCompany :: "instant \<Rightarrow> id \<Rightarrow> string \<Rightarrow> string \<Rightarrow> query_args \<Rightarrow> (query_args \<Rightarrow> 'r) \<Rightarrow> 'r" where
  "forCompany now companyId model operation args query =
     applyTenantScopeOperation companyId model operation (softDelete now model operation args) query"

section \<open>What reaches the database\<close>

definition where_prop :: "string \<Rightarrow> query_args \<Rightarrow> json option" where
  "where_prop k a = map_of (spread (qa_where a)) k"

lemma map_of_set_prop: "map_of (set_prop k v obj) j = (if j = k then Some v else map_of obj j)"
proof -
  have "map_of (map (\<lambda>(j, x). (j, if j = k then v else x)) obj) j = (if j = k then map_option (\<lambda>_. v) (map_of obj j) else map_of obj j)"
    by (induction obj) auto
  moreover have "k \<in> fst ` set obj \<longleftrightarrow> map_of obj k \<noteq> None" by (simp add: map_of_eq_None_iff)
  ultimately show ?thesis by (auto simp: set_prop_def map_add_def split: option.splits)
qed

lemma where_prop_with [simp]: "where_prop j (with_where k v a) = (if j = k then Some v else where_prop j a)"
  by (simp add: where_prop_def with_where_def spread_def map_of_set_prop)

lemma where_prop_soft:
  "j \<noteq> ''deletedAt'' \<Longrightarrow> where_prop j (softDelete now model op a) = where_prop j a"
  by (simp add: softDelete_def) (simp add: where_prop_def)

definition data_rows :: "query_args \<Rightarrow> json list" where
  "data_rows a = (case qa_data a of Some (JArr rows) \<Rightarrow> rows | Some v \<Rightarrow> [v] | None \<Rightarrow> [])"

definition row_company :: "json \<Rightarrow> json option" where
  "row_company r = map_of (spread_json (Some r)) ''companyId''"

lemma ops_disjoint:
  "op \<in> set readOps \<Longrightarrow> op \<notin> set writeOps" "op \<in> set createOps \<Longrightarrow> op \<notin> set readOps \<and> op \<notin> set writeOps"
  by (auto simp: readOps_def writeOps_def createOps_def)

text \<open>
  Two operations are not scoped that way: an upsert gets the company in a property that the operation
  does not have, and its condition as the caller wrote it; a deletion of a model with soft deletion keeps
  being a deletion and gets \<^verbatim>\<open>data\<close>, which it does not have either.
\<close>

lemma upsert_is_not_scoped:
  assumes "model \<notin> set UNSCOPED_MODELS"
  shows "\<exists>a. forCompany now c model ''upsert'' args query = query a \<and> qa_where a = qa_where args \<and> qa_other a = qa_other args
    \<and> qa_data a \<noteq> None"
  using assms by (auto simp: forCompany_def applyTenantScopeOperation_def softDelete_def readOps_def writeOps_def createOps_def)

lemma soft_delete_adds_data:
  assumes "model \<in> set SOFT_DELETABLE" and "model \<notin> set UNSCOPED_MODELS"
  shows "\<exists>a. forCompany now c model ''delete'' args query = query a \<and> qa_data a = Some (JObj [(''deletedAt'', JDate now)])"
  using assms by (auto simp: forCompany_def applyTenantScopeOperation_def softDelete_def readOps_def writeOps_def with_where_def)

text \<open>
  C19: What the tenant scope does to a call on a scoped model. A read, update or delete reaches the
  database with the condition that the company is the one of the scope, even if the caller named
  another one, and, for a read of a model with soft deletion, that the row is not deleted; every
  other condition is passed on. Every row that \<^verbatim>\<open>create\<close>, or \<^verbatim>\<open>createMany\<close> of an array, sends has
  the company of the scope, whatever company it named. The rest is not confined: the data of an update is
  passed on as given, so that a company in it moves the row out of the scope; an upsert keeps the condition
  of the caller; an operation outside the three lists is passed on unchanged.
\<close>

theorem tenant_scope_rewrites:
  assumes "model \<notin> set UNSCOPED_MODELS"
  shows "(op \<in> set readOps \<union> set writeOps \<longrightarrow>
      (\<exists>a. forCompany now c model op args query = query a \<and> where_prop ''companyId'' a = Some (JStr c)
        \<and> (op \<in> set readOps \<and> model \<in> set SOFT_DELETE_MODELS \<longrightarrow> where_prop ''deletedAt'' a = Some JNull)
        \<and> (\<forall>j. j \<noteq> ''companyId'' \<and> j \<noteq> ''deletedAt'' \<longrightarrow> where_prop j a = where_prop j args)
        \<and> (op \<in> {''update'', ''updateMany''} \<longrightarrow> qa_data a = qa_data args)))
    \<and> (op = ''create'' \<or> op = ''createMany'' \<and> (\<exists>rows. qa_data args = Some (JArr rows)) \<longrightarrow>
      (\<exists>a. forCompany now c model op args query = query a \<and> (\<forall>r \<in> set (data_rows a). row_company r = Some (JStr c))))
    \<and> (op = ''upsert'' \<longrightarrow> (\<exists>a. forCompany now c model op args query = query a \<and> qa_where a = qa_where args))
    \<and> (op \<notin> set readOps \<union> set writeOps \<union> set createOps \<longrightarrow> forCompany now c model op args query = query args)"
proof (intro conjI impI)
  assume op: "op \<in> set readOps \<union> set writeOps"
  define b where "b = softDelete now model op args"
  define a where "a = (if op \<in> set readOps \<and> model \<in> set SOFT_DELETE_MODELS then with_where ''deletedAt'' JNull else id)
      (with_where ''companyId'' (JStr c) b)"
  have "forCompany now c model op args query = query a"
    using assms op ops_disjoint(1)[of op] by (auto simp: forCompany_def applyTenantScopeOperation_def a_def b_def)
  moreover have "where_prop j a = where_prop j args" if "j \<noteq> ''companyId'' \<and> j \<noteq> ''deletedAt''" for j
    using that by (simp add: a_def b_def where_prop_soft)
  moreover have "qa_data a = qa_data args" if "op \<in> {''update'', ''updateMany''}"
    using that by (auto simp: a_def b_def softDelete_def with_where_def)
  ultimately show "\<exists>a. forCompany now c model op args query = query a \<and> where_prop ''companyId'' a = Some (JStr c)
        \<and> (op \<in> set readOps \<and> model \<in> set SOFT_DELETE_MODELS \<longrightarrow> where_prop ''deletedAt'' a = Some JNull)
        \<and> (\<forall>j. j \<noteq> ''companyId'' \<and> j \<noteq> ''deletedAt'' \<longrightarrow> where_prop j a = where_prop j args)
        \<and> (op \<in> {''update'', ''updateMany''} \<longrightarrow> qa_data a = qa_data args)"
    by (intro exI[of _ a]) (simp add: a_def)
next
  assume op: "op = ''create'' \<or> op = ''createMany'' \<and> (\<exists>rows. qa_data args = Some (JArr rows))"
  then have create: "op \<in> set createOps" "op \<notin> set readOps" "op \<notin> set writeOps"
    by (auto simp: createOps_def readOps_def writeOps_def)
  have soft: "softDelete now model op args = args" using op by (auto simp: softDelete_def)
  show "\<exists>a. forCompany now c model op args query = query a \<and> (\<forall>r \<in> set (data_rows a). row_company r = Some (JStr c))"
  proof (cases "op = ''create''")
    case True
    then show ?thesis using create assms soft
      by (auto simp: forCompany_def applyTenantScopeOperation_def data_rows_def row_company_def map_of_set_prop
          intro!: exI[of _ "args\<lparr>qa_data := Some (JObj (set_prop ''companyId'' (JStr c) (spread_json (qa_data args))))\<rparr>"])
  next
    case False
    then obtain rows where rows: "op = ''createMany''" "qa_data args = Some (JArr rows)" using op by blast
    then show ?thesis using create assms soft
      by (auto simp: forCompany_def applyTenantScopeOperation_def data_rows_def row_company_def map_of_set_prop scope_many_def
          intro!: exI[of _ "args\<lparr>qa_data := Some (JArr (map (add_company c) rows))\<rparr>"])
  qed
next
  assume "op = ''upsert''"
  then show "\<exists>a. forCompany now c model op args query = query a \<and> qa_where a = qa_where args"
    using upsert_is_not_scoped[OF assms] by blast
next
  assume op: "op \<notin> set readOps \<union> set writeOps \<union> set createOps"
  then have "softDelete now model op args = args" by (auto simp: softDelete_def readOps_def writeOps_def)
  then show "forCompany now c model op args query = query args"
    using op by (simp add: forCompany_def applyTenantScopeOperation_def)
qed

theorem tenant_scope_rewrites_witness:
  "\<exists>a. forCompany 0 ''c'' ''Role'' ''findFirst'' \<lparr>qa_where = Some [(''id'', JStr ''r''), (''companyId'', JStr ''other'')], qa_data = None,
       qa_other = []\<rparr> id = a \<and> where_prop ''companyId'' a = Some (JStr ''c'') \<and> where_prop ''id'' a = Some (JStr ''r'')"
  using tenant_scope_rewrites[of "''Role''" "''findFirst''" 0 "''c''"
      "\<lparr>qa_where = Some [(''id'', JStr ''r''), (''companyId'', JStr ''other'')], qa_data = None, qa_other = []\<rparr>" id]
  by (auto simp: UNSCOPED_MODELS_def readOps_def where_prop_def spread_def)

end
