(* ===== verification/Access_Control.thy ===== *)
theory Access_Control
  imports Auth Prisma_Scope "HOL-Library.List_Lexorder" "HOL-Library.Char_ord" "HOL-Library.Product_Lexorder"
begin

text \<open>
  Roles and user administration: \<^verbatim>\<open>roles/roles.service.ts\<close> and
  \<^verbatim>\<open>users/users.service.ts\<close>. Roles are reached through the tenant scope; deleting one is a
  request that the database library refuses when it rejects unknown arguments, because the soft
  deletion extension adds one.
\<close>

section \<open>Roles\<close>

definition scoped_role :: "id \<Rightarrow> id \<Rightarrow> auth_db \<Rightarrow> role_row option" where
  "scoped_role companyId roleId s =
     tbl_get_where roleId (\<lambda>r. ro_companyId r = companyId \<and> ro_deletedAt r = None) (au_roles s)"

definition role_name_taken :: "id \<Rightarrow> id \<Rightarrow> string \<Rightarrow> auth_db \<Rightarrow> bool" where
  "role_name_taken companyId roleId name s \<longleftrightarrow>
     tbl_find (\<lambda>i r. i \<noteq> roleId \<and> ro_companyId r = companyId \<and> ro_name r = name) (au_roles s) \<noteq> None"

definition createRole :: "id \<Rightarrow> id \<Rightarrow> string \<Rightarrow> string option \<Rightarrow> auth_db \<Rightarrow> (auth_db, unit) outcome" where
  "createRole newId companyId name description s =
     (if \<not> fresh newId (au_roles s) \<or> role_name_taken companyId newId name s then (Inl (DatabaseError ''roles_companyId_name_key''), s)
      else (Inr (), s\<lparr>au_roles := tbl_insert newId \<lparr>ro_companyId = companyId, ro_name = name, ro_description = description,
              ro_isSystem = False, ro_deletedAt = None\<rparr> (au_roles s)\<rparr>))"

text \<open>The permissions of each listed role; the order is that of the database.\<close>

definition listRoles :: "id \<Rightarrow> auth_db \<Rightarrow> (id \<times> role_row \<times> string list) list" where
  "listRoles companyId s =
     map (\<lambda>(i, r). (i, r, role_permissions i s))
       (tbl_all (\<lambda>i r. ro_companyId r = companyId \<and> ro_deletedAt r = None) (au_roles s))"

definition getRole :: "id \<Rightarrow> id \<Rightarrow> auth_db \<Rightarrow> app_error + role_row" where
  "getRole companyId roleId s =
     (case scoped_role companyId roleId s of None \<Rightarrow> Inl (NotFoundError ''Role not found'') | Some r \<Rightarrow> Inr r)"

definition updateRole :: "instant \<Rightarrow> id \<Rightarrow> id \<Rightarrow> string option \<Rightarrow> string option \<Rightarrow> auth_db \<Rightarrow> (auth_db, unit) outcome" where
  "updateRole now companyId roleId name description s =
     (case scoped_role companyId roleId s of
        None \<Rightarrow> (Inl (NotFoundError ''Role not found''), s)
      | Some r \<Rightarrow>
          if ro_isSystem r then (Inl (ForbiddenError ''System roles cannot be updated''), s)
          else if (case name of None \<Rightarrow> False | Some n \<Rightarrow> role_name_taken companyId roleId n s)
            then (Inl (DatabaseError ''roles_companyId_name_key''), s)
          else (Inr (), invalidateCompany now companyId
                 (s\<lparr>au_roles := tbl_update roleId (\<lambda>x. x\<lparr>ro_name := (case name of None \<Rightarrow> ro_name x | Some n \<Rightarrow> n),
                      ro_description := (case description of None \<Rightarrow> ro_description x | Some d \<Rightarrow> Some d)\<rparr>) (au_roles s)\<rparr>)))"

text \<open>The arguments of the deletion as they reach the library: with the data of a soft deletion.\<close>

definition delete_role_args :: "instant \<Rightarrow> id \<Rightarrow> id \<Rightarrow> query_args" where
  "delete_role_args now companyId roleId =
     forCompany now companyId ''Role'' ''delete'' \<lparr>qa_where = Some [(''id'', JStr roleId)], qa_data = None, qa_other = []\<rparr> id"

text \<open>A deletion that is carried out removes the row and, by cascade, its permissions and assignments.\<close>

definition remove_role_row :: "id \<Rightarrow> auth_db \<Rightarrow> auth_db" where
  "remove_role_row roleId s =
     s\<lparr>au_roles := tbl_delete_many (\<lambda>i r. i = roleId) (au_roles s),
       au_rolePermissions := filter (\<lambda>(r, p). r \<noteq> roleId) (au_rolePermissions s),
       au_employeeRoles := filter (\<lambda>(e, r). r \<noteq> roleId) (au_employeeRoles s)\<rparr>"

definition assigned_count :: "id \<Rightarrow> auth_db \<Rightarrow> nat" where
  "assigned_count roleId s = length (filter (\<lambda>(e, r). r = roleId) (au_employeeRoles s))"

definition deleteRole :: "'tok auth_env \<Rightarrow> instant \<Rightarrow> id \<Rightarrow> id \<Rightarrow> auth_db \<Rightarrow> (auth_db, unit) outcome" where
  "deleteRole en now companyId roleId s =
     (case scoped_role companyId roleId s of
        None \<Rightarrow> (Inl (NotFoundError ''Role not found''), s)
      | Some r \<Rightarrow>
          if ro_isSystem r then (Inl (ForbiddenError ''System roles cannot be deleted''), s)
          else if assigned_count roleId s > 0
            then (Inl (ConflictError (''Cannot delete role with '' @ show_nat (assigned_count roleId s) @ '' assigned employee(s)'')), s)
          else if en_delete_rejects_data en \<and> qa_data (delete_role_args now companyId roleId) \<noteq> None
            then (Inl (RuntimeError ''Unknown argument data''), s)
          else (Inr (), invalidateCompany now companyId (remove_role_row roleId s)))"

definition listPermissions :: "auth_db \<Rightarrow> permission_row list" where
  "listPermissions s = sort_key (\<lambda>p. (pe_resource p, pe_action p)) (map snd (au_permissions s))"

definition replacePermissions :: "instant \<Rightarrow> id \<Rightarrow> id \<Rightarrow> id list \<Rightarrow> auth_db \<Rightarrow> (auth_db, unit) outcome" where
  "replacePermissions now companyId roleId permissionIds s =
     (case scoped_role companyId roleId s of
        None \<Rightarrow> (Inl (NotFoundError ''Role not found''), s)
      | Some r \<Rightarrow>
          if ro_isSystem r then (Inl (ForbiddenError ''System roles cannot be updated''), s)
          else (let unique = first_occurrences permissionIds
                in if tbl_count (\<lambda>i p. i \<in> set unique) (au_permissions s) \<noteq> length unique
                   then (Inl (NotFoundError ''Permission not found''), s)
                   else (Inr (), invalidateCompany now companyId
                          (s\<lparr>au_rolePermissions := filter (\<lambda>(r, p). r \<noteq> roleId) (au_rolePermissions s) @ map (Pair roleId) unique\<rparr>))))"

section \<open>Users\<close>

record invite_dto =
  iv_email :: string
  iv_firstName :: string
  iv_lastName :: string
  iv_roleIds :: "id list"

definition invite_hash :: string where
  "invite_hash = ''$argon2id$v=19$m=65536,t=3,p=4$inviteinviteinvite$inviteinviteinviteinviteinviteinvite''"

definition invite_mail :: "'tok auth_env \<Rightarrow> string \<Rightarrow> string \<Rightarrow> string \<Rightarrow> string \<Rightarrow> mail" where
  "invite_mail en to_addr subject txt token =
     \<lparr>ml_to = to_addr, ml_subject = subject, ml_text = txt, ml_link = Some (en_baseUrl en @ ''/accept-invite?token='' @ token)\<rparr>"

text \<open>Assigning roles needs them to exist, in whatever company; a missing one breaks the foreign key.\<close>

definition assign_role_rows :: "id \<Rightarrow> id list \<Rightarrow> auth_db \<Rightarrow> (auth_db, unit) outcome" where
  "assign_role_rows employeeId roleIds s =
     (if \<not> list_all (\<lambda>r. \<not> fresh r (au_roles s)) roleIds then (Inl (DatabaseError ''employee_roles_roleId_fkey''), s)
      else (Inr (), s\<lparr>au_employeeRoles := add_pairs (map (Pair employeeId) roleIds) (au_employeeRoles s)\<rparr>))"

definition invite_tx :: "instant \<Rightarrow> fresh_values \<Rightarrow> id \<Rightarrow> invite_dto \<Rightarrow> auth_db \<Rightarrow> (auth_db, unit) outcome" where
  "invite_tx now fv companyId dto s =
     (let u = fv_userId fv; e = fv_employeeId fv
      in case create_user u (new_user (iv_email dto) (iv_firstName dto) (iv_lastName dto) invite_hash) s of
           (Inl err, t) \<Rightarrow> (Inl err, t)
         | (Inr _, s1) \<Rightarrow>
         (case create_employee e (account_employee now companyId (next_EMP_number companyId s1) u (iv_email dto)) s1 of
            (Inl err, t) \<Rightarrow> (Inl err, t)
          | (Inr _, s2) \<Rightarrow> if iv_roleIds dto = [] then (Inr (), s2) else assign_role_rows e (iv_roleIds dto) s2))"

definition inviteUser :: "'tok auth_env \<Rightarrow> instant \<Rightarrow> fresh_values \<Rightarrow> id \<Rightarrow> invite_dto \<Rightarrow> auth_db \<Rightarrow> (auth_db, unit) outcome" where
  "inviteUser en now fv companyId dto s =
     (if (case user_by_email (iv_email dto) s of
            None \<Rightarrow> False
          | Some (i, u) \<Rightarrow> (case user_employee i s of None \<Rightarrow> False | Some (e, r) \<Rightarrow> em_companyId r = companyId))
      then (Inl (ConflictError ''User already exists''), s)
      else case transaction (invite_tx now fv companyId dto) s of
             (Inl err, t) \<Rightarrow> (Inl err, t)
           | (Inr _, t) \<Rightarrow>
               (Inr (), send_mail (invite_mail en (iv_email dto) ''You are invited to HR Platform''
                            ''You have been invited to join HR Platform.'' (fv_token fv))
                  (put_kv now (key_inviteToken (en_sha en (fv_token fv))) (InviteMeta (fv_userId fv)) (72 * 60 * 60) t)))"

definition getUser :: "id \<Rightarrow> id \<Rightarrow> auth_db \<Rightarrow> app_error + user_row \<times> id \<times> employee_row" where
  "getUser companyId i s =
     (case tbl_get_where i (\<lambda>u. us_deletedAt u = None) (au_users s) of
        None \<Rightarrow> Inl (NotFoundError ''User not found'')
      | Some u \<Rightarrow> (case user_employee i s of
          None \<Rightarrow> Inl (NotFoundError ''User not found'')
        | Some (e, r) \<Rightarrow> if em_companyId r = companyId then Inr (u, e, r) else Inl (NotFoundError ''User not found'')))"

record update_user_dto =
  uu_firstName :: "string option"
  uu_lastName :: "string option"
  uu_avatarUrl :: "string option option"
  uu_locale :: "string option"

definition updateUser :: "id \<Rightarrow> id \<Rightarrow> update_user_dto \<Rightarrow> auth_db \<Rightarrow> (auth_db, unit) outcome" where
  "updateUser companyId i dto s =
     (case getUser companyId i s of
        Inl err \<Rightarrow> (Inl err, s)
      | Inr _ \<Rightarrow> (Inr (), update_user i (\<lambda>x. x\<lparr>
            us_firstName := (case uu_firstName dto of None \<Rightarrow> us_firstName x | Some v \<Rightarrow> v),
            us_lastName := (case uu_lastName dto of None \<Rightarrow> us_lastName x | Some v \<Rightarrow> v),
            us_avatarUrl := (case uu_avatarUrl dto of None \<Rightarrow> us_avatarUrl x | Some v \<Rightarrow> v),
            us_locale := (case uu_locale dto of None \<Rightarrow> us_locale x | Some v \<Rightarrow> v)\<rparr>) s))"

definition setActive :: "instant \<Rightarrow> id \<Rightarrow> id \<Rightarrow> bool \<Rightarrow> auth_db \<Rightarrow> (auth_db, unit) outcome" where
  "setActive now companyId i isActive s =
     (case getUser companyId i s of
        Inl err \<Rightarrow> (Inl err, s)
      | Inr _ \<Rightarrow> (let s1 = update_user i (\<lambda>x. x\<lparr>us_isActive := isActive\<rparr>) s
                 in (Inr (), s1\<lparr>au_kv := revokeUser now i (au_kv s1)\<rparr>)))"

definition assignRoles :: "id \<Rightarrow> id \<Rightarrow> id list \<Rightarrow> auth_db \<Rightarrow> (auth_db, unit) outcome" where
  "assignRoles companyId i roleIds s =
     (case getUser companyId i s of
        Inl err \<Rightarrow> (Inl err, s)
      | Inr (u, e, r) \<Rightarrow> (case assign_role_rows e (first_occurrences roleIds) s of
          (Inl err, t) \<Rightarrow> (Inl err, t)
        | (Inr _, t) \<Rightarrow> (Inr (), invalidateUser i t)))"

definition removeRole :: "id \<Rightarrow> id \<Rightarrow> id \<Rightarrow> auth_db \<Rightarrow> (auth_db, unit) outcome" where
  "removeRole companyId i roleId s =
     (case getUser companyId i s of
        Inl err \<Rightarrow> (Inl err, s)
      | Inr (u, e, r) \<Rightarrow>
          if (e, roleId) \<notin> set (au_employeeRoles s) then (Inl (DatabaseError ''Record to delete does not exist''), s)
          else (Inr (), invalidateUser i (s\<lparr>au_employeeRoles := filter (\<lambda>p. p \<noteq> (e, roleId)) (au_employeeRoles s)\<rparr>)))"

definition resendInvite :: "'tok auth_env \<Rightarrow> instant \<Rightarrow> fresh_values \<Rightarrow> id \<Rightarrow> id \<Rightarrow> auth_db \<Rightarrow> (auth_db, unit) outcome" where
  "resendInvite en now fv companyId i s =
     (case getUser companyId i s of
        Inl err \<Rightarrow> (Inl err, s)
      | Inr (u, e, r) \<Rightarrow>
          (Inr (), send_mail (invite_mail en (us_email u) ''Your HR Platform invite'' ''Use this link to accept your invite.'' (fv_token fv))
             (put_kv now (key_inviteToken (en_sha en (fv_token fv))) (InviteMeta i) (72 * 60 * 60) s)))"

text \<open>\<^verbatim>\<open>listUsers\<close>: one page of the users of a company, by last name, with the total.\<close>

record user_query =
  uq_page :: nat
  uq_pageSize :: nat
  uq_search :: string
  uq_isActive :: "bool option"

definition icontains :: "string \<Rightarrow> string \<Rightarrow> bool" where
  "icontains field p = str_includes (toLowerCase field) (toLowerCase p)"

definition user_matches :: "id \<Rightarrow> user_query \<Rightarrow> auth_db \<Rightarrow> id \<Rightarrow> user_row \<Rightarrow> bool" where
  "user_matches companyId q s i u \<longleftrightarrow>
     us_deletedAt u = None \<and>
     (case user_employee i s of None \<Rightarrow> False | Some (e, r) \<Rightarrow> em_companyId r = companyId \<and> em_deletedAt r = None) \<and>
     (case uq_isActive q of None \<Rightarrow> True | Some b \<Rightarrow> us_isActive u = b) \<and>
     (uq_search q = [] \<or> icontains (us_firstName u) (uq_search q) \<or> icontains (us_lastName u) (uq_search q) \<or> icontains (us_email u) (uq_search q))"

definition listUsers :: "id \<Rightarrow> user_query \<Rightarrow> auth_db \<Rightarrow> (id \<times> user_row) list \<times> nat \<times> nat" where
  "listUsers companyId q s =
     (let matching = sort_key (us_lastName \<circ> snd) (tbl_all (user_matches companyId q s) (au_users s));
          total = length matching
      in (take (uq_pageSize q) (drop ((uq_page q - 1) * uq_pageSize q) matching), total,
          (total + uq_pageSize q - 1) div uq_pageSize q))"

end
