(* ===== verification/Auth_Run.thy ===== *)
theory Auth_Run
  imports Access_Control
begin

text \<open>
  The requests of \<^verbatim>\<open>auth.controller.ts\<close>, \<^verbatim>\<open>roles.controller.ts\<close> and
  \<^verbatim>\<open>users.controller.ts\<close> as events, and runs of them: at rising instants, with random
  values nobody has used, and with access tokens that an earlier answer has given out. The locale
  \<open>auth_invariant\<close> is the interface of an invariant of runs; the lemmas at the end say what
  registration and invitation have written when they succeed.
\<close>

section \<open>Events\<close>

datatype auth_action =
    VerifyEmail string
  | ResendVerification
  | Logout
  | ReadOnly "(string \<times> string) list"
  | CreateRole string "string option"
  | UpdateRole id "string option" "string option"
  | DeleteRole id
  | ReplacePermissions id "id list"
  | InviteUser invite_dto
  | UpdateUser id update_user_dto
  | SetActive id bool
  | AssignRoles id "id list"
  | RemoveRole id id
  | ResendInvite id

datatype 'tok auth_event =
    Register register_dto
  | Login string string
  | SsoLogin sso_profile
  | Refresh "string option" "'tok option"
  | ForgotPassword string
  | ResetPassword string string
  | AcceptInvite string string
  | Authorized "'tok http_request" auth_action

text \<open>The permissions that the decorators of the controllers require.\<close>

fun required_permissions :: "auth_action \<Rightarrow> (string \<times> string) list" where
  "required_permissions (VerifyEmail otp) = []"
| "required_permissions ResendVerification = []"
| "required_permissions Logout = []"
| "required_permissions (ReadOnly ps) = ps"
| "required_permissions a = [(''admin'', ''write'')]"

definition no_answer :: "('s, 'a) outcome \<Rightarrow> ('s, 'b option) outcome" where
  "no_answer r = (map_sum id (\<lambda>_. None) (fst r), snd r)"

lemma snd_no_answer [simp]: "snd (no_answer r) = snd r"
  by (simp add: no_answer_def)

fun act :: "'tok auth_env \<Rightarrow> instant \<Rightarrow> fresh_values \<Rightarrow> request_context \<Rightarrow> auth_action \<Rightarrow> auth_db \<Rightarrow> (auth_db, 'tok login_result option) outcome" where
  "act en now fv c (VerifyEmail otp) s = no_answer (verifyEmail now (rc_userId c) otp s)"
| "act en now fv c ResendVerification s = no_answer (resendVerification now fv (rc_userId c) s)"
| "act en now fv c Logout s = (Inr None, logout now c s)"
| "act en now fv c (ReadOnly ps) s = (Inr None, s)"
| "act en now fv c (CreateRole name d) s = no_answer (createRole (fv_companyId fv) (rc_companyId c) name d s)"
| "act en now fv c (UpdateRole r name d) s = no_answer (updateRole now (rc_companyId c) r name d s)"
| "act en now fv c (DeleteRole r) s = no_answer (deleteRole en now (rc_companyId c) r s)"
| "act en now fv c (ReplacePermissions r ps) s = no_answer (replacePermissions now (rc_companyId c) r ps s)"
| "act en now fv c (InviteUser dto) s = no_answer (inviteUser en now fv (rc_companyId c) dto s)"
| "act en now fv c (UpdateUser i dto) s = no_answer (updateUser (rc_companyId c) i dto s)"
| "act en now fv c (SetActive i b) s = no_answer (setActive now (rc_companyId c) i b s)"
| "act en now fv c (AssignRoles i rs) s = no_answer (assignRoles (rc_companyId c) i rs s)"
| "act en now fv c (RemoveRole i r) s = no_answer (removeRole (rc_companyId c) i r s)"
| "act en now fv c (ResendInvite i) s = no_answer (resendInvite en now fv (rc_companyId c) i s)"

definition give :: "('s, 'b) outcome \<Rightarrow> ('s, 'b option) outcome" where
  "give r = (map_sum id Some (fst r), snd r)"

lemma snd_give [simp]: "snd (give r) = snd r"
  by (simp add: give_def)

fun handle :: "'tok auth_env \<Rightarrow> instant \<Rightarrow> fresh_values \<Rightarrow> 'tok auth_event \<Rightarrow> auth_db \<Rightarrow> (auth_db, 'tok login_result option) outcome" where
  "handle en now fv (Register dto) s = no_answer (register en now fv dto s)"
| "handle en now fv (Login email password) s = give (login en now fv email password s)"
| "handle en now fv (SsoLogin profile) s = give (loginWithSsoProfile en now fv profile s)"
| "handle en now fv (Refresh raw auth) s = give (refresh_endpoint en now fv raw auth s)"
| "handle en now fv (ForgotPassword email) s = (Inr None, forgotPassword en now fv email s)"
| "handle en now fv (ResetPassword token password) s = no_answer (resetPassword en now fv token password s)"
| "handle en now fv (AcceptInvite token password) s = give (acceptInvite en now fv token password s)"
| "handle en now fv (Authorized req a) s =
     (case jwt_canActivate (en_jwt en) now req s of
        (Inl err, s1) \<Rightarrow> (Inl err, s1)
      | (Inr None, s1) \<Rightarrow> (Inl (UnauthorizedError ''no context''), s1)
      | (Inr (Some c), s1) \<Rightarrow> (case permissions_canActivate (required_permissions a) (Some c) of
          Inl err \<Rightarrow> (Inl err, s1)
        | Inr _ \<Rightarrow> act en now fv c a s1))"

section \<open>Runs\<close>

text \<open>Generated keys are new: nothing in the tables or in the cache refers to them.\<close>

definition unused :: "fresh_values \<Rightarrow> auth_db \<Rightarrow> bool" where
  "unused fv s \<longleftrightarrow>
     (\<forall>(i, e) \<in> set (au_employees s). em_companyId e \<noteq> fv_companyId fv) \<and>
     (\<forall>(i, r) \<in> set (au_roles s). ro_companyId r \<noteq> fv_companyId fv) \<and>
     (\<forall>(e, r) \<in> set (au_employeeRoles s). e \<noteq> fv_employeeId fv \<and> r \<notin> set (fv_roleIds fv)) \<and>
     (\<forall>t. kv_get t (key_userRoles (fv_userId fv)) (au_kv s) = None)"

fun presented :: "'tok auth_event \<Rightarrow> 'tok set" where
  "presented (Refresh raw auth) = set_option auth"
| "presented (Authorized req a) = set_option (hr_bearer req)"
| "presented e = {}"

text \<open>No presented token is for the user that is being created.\<close>

definition new_to :: "'tok auth_env \<Rightarrow> fresh_values \<Rightarrow> 'tok auth_event \<Rightarrow> bool" where
  "new_to en fv ev \<longleftrightarrow> (\<forall>tok \<in> presented ev. \<forall>n b p. jw_verify (en_jwt en) n b tok = Some p \<longrightarrow> ap_sub p \<noteq> fv_userId fv)"

fun handed_out :: "app_error + 'tok login_result option \<Rightarrow> 'tok set" where
  "handed_out (Inr (Some (Tokens a r))) = {a}"
| "handed_out r = {}"

text \<open>
  The state of a run: the last instant, the tables, and the access tokens handed out so far. \<open>P\<close>
  restricts the random values drawn.
\<close>

inductive auth_run :: "'tok auth_env \<Rightarrow> (fresh_values \<Rightarrow> bool) \<Rightarrow> instant \<Rightarrow> auth_db \<Rightarrow> 'tok set \<Rightarrow> instant \<Rightarrow> auth_db \<Rightarrow> 'tok set \<Rightarrow> bool"
  for en P where
  start: "auth_run en P t s K t s K"
| request: "auth_run en P t s K u v L \<Longrightarrow> u \<le> now \<Longrightarrow> unused fv v \<Longrightarrow> P fv \<Longrightarrow> new_to en fv ev \<Longrightarrow> presented ev \<subseteq> L \<Longrightarrow>
    handle en now fv ev v = (r, w) \<Longrightarrow> auth_run en P t s K now w (L \<union> handed_out r)"

inductive_cases auth_run_cases: "auth_run en P t s K u v L"

lemma auth_run_clock: "auth_run en P t s K u v L \<Longrightarrow> t \<le> u"
  by (induction rule: auth_run.induct) auto

text \<open>The interface of an invariant of the tables: every handler keeps it as the clock advances.\<close>

locale auth_invariant =
  fixes I :: "'tok auth_env \<Rightarrow> (fresh_values \<Rightarrow> bool) \<Rightarrow> instant \<Rightarrow> auth_db \<Rightarrow> bool"
  assumes step: "I en P u s \<Longrightarrow> u \<le> now \<Longrightarrow> unused fv s \<Longrightarrow> P fv \<Longrightarrow> new_to en fv ev \<Longrightarrow> I en P now (snd (handle en now fv ev s))"
begin

lemma run: "auth_run en P t s K u v L \<Longrightarrow> I en P t s \<Longrightarrow> I en P u v"
proof (induction rule: auth_run.induct)
  case (request t s K u v L now fv ev r w)
  from step[OF request.IH[OF request.prems] request.hyps(2-5)] request.hyps(7) show ?case by simp
qed

end

lemmas auth_primitives = send_mail_def put_kv_def update_user_def generateAndSend_def Let_def

lemmas auth_handlers = register_def login_def loginWithSsoProfile_def refresh_endpoint_def forgotPassword_def resetPassword_def
  acceptInvite_def verifyEmail_def resendVerification_def logout_def createRole_def updateRole_def deleteRole_def
  replacePermissions_def inviteUser_def updateUser_def setActive_def assignRoles_def removeRole_def resendInvite_def

lemmas auth_splits = option.splits prod.splits sum.splits if_splits redis_value.splits

section \<open>What registration and invitation write\<close>

lemma kv_seed [simp]: "au_kv (seedCompanyDefaults ids c s) = au_kv s"
proof -
  have "au_kv (fold (upsert_role c) xs t) = au_kv t" for xs t
    by (induction xs arbitrary: t) (auto simp: upsert_role_def)
  then show ?thesis by (simp add: seedCompanyDefaults_def Let_def)
qed

lemma kv_grant [simp]: "au_kv (grantAdminAllPermissions c s) = au_kv s"
  by (simp add: grantAdminAllPermissions_def split: option.splits)

lemma create_user_Inr:
  "create_user i u s = (Inr x, t) \<longleftrightarrow> fresh i (au_users s) \<and> user_by_email (us_email u) s = None
     \<and> t = s\<lparr>au_users := tbl_insert i u (au_users s)\<rparr>"
  unfolding create_user_def by (cases "user_by_email (us_email u) s") auto

lemma create_employee_Inr:
  "create_employee i e s = (Inr x, t) \<Longrightarrow> fresh i (au_employees s) \<and>
     (\<forall>u. em_userId e = Some u \<longrightarrow> user_employee u s = None) \<and> t = s\<lparr>au_employees := tbl_insert i e (au_employees s)\<rparr>"
  by (auto simp: create_employee_def user_employee_def tbl_find_None split: if_splits)

lemma create_company_Inr:
  "create_company i c s = (Inr x, t) \<Longrightarrow> t = s\<lparr>au_companies := tbl_insert i c (au_companies s)\<rparr>"
  by (auto simp: create_company_def split: if_splits)

lemma assign_role_rows_Inr:
  "assign_role_rows e rs s = (Inr x, t) \<longleftrightarrow> list_all (\<lambda>r. \<not> fresh r (au_roles s)) rs
     \<and> t = s\<lparr>au_employeeRoles := add_pairs (map (Pair e) rs) (au_employeeRoles s)\<rparr>"
  by (auto simp: assign_role_rows_def)

lemma seed_frame [simp]:
  "au_users (seedCompanyDefaults ids c s) = au_users s" "au_employees (seedCompanyDefaults ids c s) = au_employees s"
  "au_employeeRoles (seedCompanyDefaults ids c s) = au_employeeRoles s"
  "au_rolePermissions (seedCompanyDefaults ids c s) = au_rolePermissions s"
  "au_permissions (seedCompanyDefaults ids c s) = au_permissions s"
proof -
  have "au_users (fold (upsert_role c) xs t) = au_users t \<and> au_employees (fold (upsert_role c) xs t) = au_employees t
      \<and> au_employeeRoles (fold (upsert_role c) xs t) = au_employeeRoles t
      \<and> au_rolePermissions (fold (upsert_role c) xs t) = au_rolePermissions t
      \<and> au_permissions (fold (upsert_role c) xs t) = au_permissions t" for xs t
    by (induction xs arbitrary: t) (auto simp: upsert_role_def)
  then show "au_users (seedCompanyDefaults ids c s) = au_users s" "au_employees (seedCompanyDefaults ids c s) = au_employees s"
  "au_employeeRoles (seedCompanyDefaults ids c s) = au_employeeRoles s"
  "au_rolePermissions (seedCompanyDefaults ids c s) = au_rolePermissions s"
  "au_permissions (seedCompanyDefaults ids c s) = au_permissions s"
    by (simp_all add: seedCompanyDefaults_def Let_def)
qed

lemma grant_frame [simp]:
  "au_users (grantAdminAllPermissions c s) = au_users s" "au_employees (grantAdminAllPermissions c s) = au_employees s"
  "au_roles (grantAdminAllPermissions c s) = au_roles s"
  "au_employeeRoles (grantAdminAllPermissions c s) = au_employeeRoles s"
  "au_permissions (grantAdminAllPermissions c s) = au_permissions s"
  by (simp_all add: grantAdminAllPermissions_def split: option.splits)

text \<open>The administrator role of a new company is one of the roles just created.\<close>

lemma seeded_admin:
  assumes "\<forall>(i, r) \<in> set (au_roles s). ro_companyId r \<noteq> c" and "find_role c name (seedCompanyDefaults ids c s) = Some (i, r)"
  shows "i \<in> set ids"
proof -
  have roles: "(i, r) \<in> set (au_roles (fold (upsert_role c) xs t)) \<Longrightarrow> (i, r) \<in> set (au_roles t) \<or> i \<in> fst ` set xs" for xs t
    by (induction xs arbitrary: t) (force simp: upsert_role_def tbl_insert_def split: if_splits)+
  have "(i, r) \<in> set (au_roles (fold (upsert_role c) (zip ids rolesData) s))" "ro_companyId r = c"
    using assms(2) by (auto simp: find_role_def seedCompanyDefaults_def Let_def dest: tbl_find_Some)
  then show ?thesis using roles[of "zip ids rolesData" s] assms(1) by (auto dest: set_zip_leftD)
qed

text \<open>What a registration or an invitation has written when it succeeds.\<close>

lemma add_pairs_append: "\<exists>xs. add_pairs ps t = t @ xs \<and> set xs \<subseteq> set ps"
proof -
  have "\<exists>xs. fold (\<lambda>p t. if p \<in> set t then t else t @ [p]) ps t = t @ xs \<and> set xs \<subseteq> set ps"
  proof (induction ps arbitrary: t)
    case (Cons p ps)
    from Cons[of t] Cons[of "t @ [p]"] show ?case by (cases "p \<in> set t") fastforce+
  qed simp
  then show ?thesis by (simp add: add_pairs_def)
qed

lemma grant_permissions:
  assumes "find_role c ''Admin'' s = Some (a, r)"
  obtains xs where "au_rolePermissions (grantAdminAllPermissions c s) = au_rolePermissions s @ xs" "fst ` set xs \<subseteq> {a}"
proof -
  obtain xs where "add_pairs (map (\<lambda>(p, x). (a, p)) (au_permissions s)) (au_rolePermissions s) = au_rolePermissions s @ xs"
    "set xs \<subseteq> set (map (\<lambda>(p, x). (a, p)) (au_permissions s))" using add_pairs_append by blast
  moreover from this(2) have "fst ` set xs \<subseteq> {a}" by auto
  ultimately show thesis using assms that by (simp add: grantAdminAllPermissions_def)
qed

lemma register_tx_Inr:
  assumes "register_tx now fv h dto s = (Inr r, t)" and "\<forall>(i, r) \<in> set (au_roles s). ro_companyId r \<noteq> fv_companyId fv"
  obtains number a xs where
    "rr_companyId r = fv_companyId fv" "rr_userId r = fv_userId fv" "rr_email r = rg_email dto"
    "fresh (fv_userId fv) (au_users s)" "user_by_email (rg_email dto) s = None"
    "au_users t = tbl_insert (fv_userId fv) (new_user (rg_email dto) (rg_firstName dto) (rg_lastName dto) h) (au_users s)"
    "fresh (fv_employeeId fv) (au_employees s)" "user_employee (fv_userId fv) s = None"
    "au_employees t = tbl_insert (fv_employeeId fv) (account_employee now (fv_companyId fv) number (fv_userId fv) (rg_email dto)) (au_employees s)"
    "a \<in> set (fv_roleIds fv)" "au_employeeRoles t = au_employeeRoles s @ [(fv_employeeId fv, a)]"
    "au_rolePermissions t = au_rolePermissions s @ xs" "fst ` set xs \<subseteq> {a}"
    "au_permissions t = au_permissions s" "au_kv t = au_kv s"
proof -
  define c where "c = fv_companyId fv"
  define company where "company = \<lparr>co_name = rg_companyName dto, co_slug = generateUniqueSlug (fv_suffix fv) (rg_companyName dto) s,
    co_country = rg_country dto, co_timezone = rg_timezone dto, co_currency = rg_currency dto\<rparr>"
  obtain x1 s1 where s1: "create_company c company s = (Inr x1, s1)"
    using assms(1) by (auto simp: register_tx_def Let_def c_def company_def split: prod.splits sum.splits)
  define s2 where "s2 = grantAdminAllPermissions c (seedCompanyDefaults (fv_roleIds fv) c s1)"
  define u where "u = new_user (rg_email dto) (rg_firstName dto) (rg_lastName dto) h"
  obtain x3 s3 where s3: "create_user (fv_userId fv) u s2 = (Inr x3, s3)"
    using assms(1) s1 by (auto simp: register_tx_def Let_def c_def company_def s2_def u_def split: prod.splits sum.splits)
  define e where "e = account_employee now c (next_EMP_number c s3) (fv_userId fv) (rg_email dto)"
  obtain x4 s4 where s4: "create_employee (fv_employeeId fv) e s3 = (Inr x4, s4)"
    using assms(1) s1 s3 by (auto simp: register_tx_def Let_def c_def company_def s2_def u_def e_def split: prod.splits sum.splits)
  obtain a ar where a: "find_role c ''Admin'' s4 = Some (a, ar)"
      and t: "t = s4\<lparr>au_employeeRoles := au_employeeRoles s4 @ [(fv_employeeId fv, a)]\<rparr>"
      and r: "r = \<lparr>rr_companyId = c, rr_company = company, rr_userId = fv_userId fv, rr_email = rg_email dto, rr_isActive = False\<rparr>"
    using assms(1) s1 s3 s4
    by (auto simp: register_tx_def Let_def c_def company_def s2_def u_def e_def split: prod.splits sum.splits option.splits)
  note S1 = create_company_Inr[OF s1] and S3 = s3[unfolded create_user_Inr] and S4 = create_employee_Inr[OF s4]
  have find: "find_role c ''Admin'' (seedCompanyDefaults (fv_roleIds fv) c s1) = Some (a, ar)"
    using a S3 S4 by (simp add: find_role_def s2_def)
  obtain xs where xs: "au_rolePermissions s2 = au_rolePermissions (seedCompanyDefaults (fv_roleIds fv) c s1) @ xs" "fst ` set xs \<subseteq> {a}"
    using grant_permissions[OF find] s2_def by metis
  have "a \<in> set (fv_roleIds fv)" using assms(2) S1 by (intro seeded_admin[OF _ find]) (auto simp: c_def)
  then show thesis
    by (rule that[rotated 9]) (use S1 S3 S4 xs in \<open>auto simp: t r u_def e_def c_def s2_def user_by_email_def user_employee_def
        new_user_def account_employee_def\<close>)
qed

lemma invite_tx_Inr:
  assumes "invite_tx now fv c dto s = (Inr r, t)"
  obtains number where
    "fresh (fv_userId fv) (au_users s)" "user_by_email (iv_email dto) s = None"
    "au_users t = tbl_insert (fv_userId fv) (new_user (iv_email dto) (iv_firstName dto) (iv_lastName dto) invite_hash) (au_users s)"
    "fresh (fv_employeeId fv) (au_employees s)" "user_employee (fv_userId fv) s = None"
    "au_employees t = tbl_insert (fv_employeeId fv) (account_employee now c number (fv_userId fv) (iv_email dto)) (au_employees s)"
    "au_employeeRoles t = add_pairs (map (Pair (fv_employeeId fv)) (iv_roleIds dto)) (au_employeeRoles s)"
    "au_rolePermissions t = au_rolePermissions s" "au_permissions t = au_permissions s" "au_kv t = au_kv s"
proof -
  define u where "u = new_user (iv_email dto) (iv_firstName dto) (iv_lastName dto) invite_hash"
  obtain x1 s1 where s1: "create_user (fv_userId fv) u s = (Inr x1, s1)"
    using assms by (auto simp: invite_tx_def Let_def u_def split: prod.splits sum.splits)
  define e where "e = account_employee now c (next_EMP_number c s1) (fv_userId fv) (iv_email dto)"
  obtain x2 s2 where s2: "create_employee (fv_employeeId fv) e s1 = (Inr x2, s2)"
    using assms s1 by (auto simp: invite_tx_def Let_def u_def e_def split: prod.splits sum.splits)
  have t: "t = s2\<lparr>au_employeeRoles := add_pairs (map (Pair (fv_employeeId fv)) (iv_roleIds dto)) (au_employeeRoles s2)\<rparr>"
    using assms s1 s2
    by (auto simp: invite_tx_def Let_def u_def e_def assign_role_rows_Inr add_pairs_def split: if_splits)
  note S1 = s1[unfolded create_user_Inr] and S2 = create_employee_Inr[OF s2]
  show thesis
    by (rule that) (use S1 S2 in \<open>auto simp: t u_def e_def user_by_email_def user_employee_def new_user_def account_employee_def\<close>)
qed

end
