(* ===== verification/Auth_Safety.thy ===== *)
theory Auth_Safety
  imports Auth_Run
begin

text \<open>
  Invariants of runs of authentication requests: values have the shapes of their keys, cached
  permissions agree with the tables, and a password reset token works once. Each is a set of facts
  about what a handler writes under a kind of key, an interpretation of the interface of invariants,
  and the property.
\<close>

section \<open>Keys that a handler leaves alone\<close>

definition keeps :: "string \<Rightarrow> auth_db \<Rightarrow> auth_db \<Rightarrow> bool" where
  "keeps k s t \<longleftrightarrow> (\<forall>n. kv_get n k (au_kv t) = kv_get n k (au_kv s))"

lemma keeps_refl [simp]: "keeps k s s"
  by (simp add: keeps_def)

lemma keeps_same: "au_kv t = au_kv s \<Longrightarrow> keeps k s t"
  by (simp add: keeps_def)

lemma transaction_kv:
  "(\<And>x t. f s = (Inr x, t) \<Longrightarrow> au_kv t = au_kv s) \<Longrightarrow> transaction f s = (r, t) \<Longrightarrow> au_kv t = au_kv s"
  by (auto simp: transaction_def split: prod.splits sum.splits)

lemma register_tx_kv: "transaction (register_tx now fv h dto) s = (r, t) \<Longrightarrow> au_kv t = au_kv s"
proof -
  have "au_kv (snd (register_tx now fv h dto s)) = au_kv s"
    unfolding register_tx_def Let_def
    by (auto simp: create_user_def create_employee_def create_company_def split: prod.splits sum.splits option.splits if_splits)
  then show "transaction (register_tx now fv h dto) s = (r, t) \<Longrightarrow> au_kv t = au_kv s"
    by (elim transaction_kv[rotated]) simp
qed

lemma invite_tx_kv: "transaction (invite_tx now fv c dto) s = (r, t) \<Longrightarrow> au_kv t = au_kv s"
  by (erule transaction_kv[rotated]) (erule invite_tx_Inr)

lemma open_session_eq:
  "open_session en now fv i email emp s =
     (Tokens (signAccessToken (en_jwt en) now \<lparr>ap_sub = i, ap_companyId = em_companyId (snd emp), ap_email = email,
        ap_roles = employee_role_ids (fst emp) s, ap_sessionId = fv_sessionId fv\<rparr>) (fv_token fv),
      s\<lparr>au_kv := kv_set now (key_refreshToken (en_sha en (fv_token fv))) (RefreshMeta \<lparr>rm_userId = i, rm_companyId = em_companyId (snd emp),
        rm_email = email, rm_roles = employee_role_ids (fst emp) s, rm_sessionId = fv_sessionId fv, rm_issuedAt = now\<rparr>) 604800 (au_kv s)\<rparr>)"
  by (simp add: open_session_def Let_def issueRefreshToken_def)

lemma keeps_open [simp]: "\<not> is_refresh_key k \<Longrightarrow> keeps k s (snd (open_session en now fv i email emp s))"
  by (auto simp: open_session_eq keeps_def)

lemma rotate_kv [simp]:
  "\<not> is_refresh_key k \<Longrightarrow> kv_get t k (snd (rotateRefreshToken sha j now newRaw sid2 raw sid s)) = kv_get t k s"
  by (auto simp: rotateRefreshToken_def token_defs split: option.splits redis_value.splits)

lemma keeps_refresh_handlers [simp]:
  assumes "\<not> is_refresh_key k"
  shows "keeps k s (snd (login en now fv email password s))"
    and "keeps k s (snd (loginWithSsoProfile en now fv profile s))"
    and "keeps k s (snd (refresh_endpoint en now fv raw auth s))"
    and "keeps k s (logout now ctx s)"
    and "keeps k s (snd (setActive now c i b s))"
proof -
  have "kv_get n k (snd (rotateRefreshToken sha j now newRaw sid2 raw sid x)) = kv_get n k x" for n sha j newRaw sid2 raw sid x
    using assms by simp
  then have rot: "rotateRefreshToken sha j now newRaw sid2 raw sid x = (r, y) \<Longrightarrow> kv_get n k y = kv_get n k x" for n sha j newRaw sid2 raw sid x r y
    by (metis snd_conv)
  show "keeps k s (snd (login en now fv email password s))" using assms
    by (auto simp: login_def open_session_eq update_user_def Let_def keeps_def split: option.splits)
  show "keeps k s (snd (loginWithSsoProfile en now fv profile s))" using assms
    by (auto simp: loginWithSsoProfile_def open_session_eq update_user_def Let_def keeps_def split: option.splits)
  show "keeps k s (snd (refresh_endpoint en now fv raw auth s))"
    by (auto simp: refresh_endpoint_def keeps_def split: option.splits sum.splits prod.splits dest: rot)
  show "keeps k s (logout now ctx s)" using assms by (simp add: logout_def keeps_def revokeSession_def)
  show "keeps k s (snd (setActive now c i b s))" using assms
    by (auto simp: setActive_def keeps_def revokeUser_def update_user_def Let_def split: sum.splits)
qed

lemma keeps_otp_handlers [simp]:
  assumes "\<And>u. k \<noteq> key_emailOtp u"
  shows "keeps k s (generateAndSend now n i email s)"
    and "keeps k s (snd (verifyEmail now i otp s))"
    and "keeps k s (snd (resendVerification now fv i s))"
    and "keeps k s (snd (register en now fv dto s))"
proof -
  show gen: "keeps k s (generateAndSend now n i email s)" for s now n i email
    using assms by (simp add: keeps_def auth_primitives)
  show "keeps k s (snd (verifyEmail now i otp s))" using assms
    by (auto simp: verifyEmail_def verify_otp_def keeps_def auth_primitives split: option.splits redis_value.splits)
  show "keeps k s (snd (resendVerification now fv i s))" using gen by (auto simp: resendVerification_def split: option.splits)
  show "keeps k s (snd (register en now fv dto s))"
    using gen by (auto simp: register_def keeps_def split: prod.splits sum.splits dest!: register_tx_kv)
qed

lemma keeps_invite_handlers [simp]:
  assumes "\<And>h. k \<noteq> key_inviteToken h"
  shows "keeps k s (snd (inviteUser en now fv c dto s))" and "keeps k s (snd (resendInvite en now fv c i s))"
    and "\<not> is_refresh_key k \<Longrightarrow> \<not> is_userRoles_key k \<Longrightarrow> keeps k s (snd (acceptInvite en now fv token password s))"
proof -
  show "keeps k s (snd (inviteUser en now fv c dto s))" using assms
    by (auto simp: inviteUser_def keeps_def auth_primitives split: prod.splits sum.splits dest!: invite_tx_kv)
  show "keeps k s (snd (resendInvite en now fv c i s))" using assms
    by (auto simp: resendInvite_def keeps_def auth_primitives split: sum.splits)
  assume "\<not> is_refresh_key k" "\<not> is_userRoles_key k"
  then show "keeps k s (snd (acceptInvite en now fv token password s))" using assms
    by (auto simp: acceptInvite_def open_session_eq keeps_def update_user_def Let_def invalidate_kv split: option.splits)
qed

lemma keeps_reset_handlers [simp]:
  assumes "\<And>h. k \<noteq> key_passwordResetToken h"
  shows "keeps k s (forgotPassword en now fv email s)"
    and "\<not> is_refresh_key k \<Longrightarrow> keeps k s (snd (resetPassword en now fv token password s))"
proof -
  show "keeps k s (forgotPassword en now fv email s)" using assms
    by (auto simp: forgotPassword_def keeps_def auth_primitives split: option.splits)
  assume "\<not> is_refresh_key k"
  then show "keeps k s (snd (resetPassword en now fv token password s))" using assms
    unfolding resetPassword_def keeps_def auth_primitives revokeUser_def
    by (auto split: option.splits redis_value.splits)
qed

lemma keeps_role_handlers [simp]:
  shows "keeps k s (snd (createRole i c name d s))"
    and "keeps k s (snd (updateUser c i dto s))"
    and "\<not> is_userRoles_key k \<Longrightarrow> keeps k s (snd (updateRole now c r name' d s))"
    and "\<not> is_userRoles_key k \<Longrightarrow> keeps k s (snd (deleteRole en now c r s))"
    and "\<not> is_userRoles_key k \<Longrightarrow> keeps k s (snd (replacePermissions now c r ps s))"
    and "\<not> is_userRoles_key k \<Longrightarrow> keeps k s (snd (assignRoles c i rs s))"
    and "\<not> is_userRoles_key k \<Longrightarrow> keeps k s (snd (removeRole c i r s))"
    and "\<not> is_userRoles_key k \<Longrightarrow> keeps k s (snd (getUserPermissions now i c s))"
proof -
  show "keeps k s (snd (createRole i c name d s))" by (simp add: createRole_def keeps_def)
  show "keeps k s (snd (updateUser c i dto s))" by (auto simp: updateUser_def update_user_def keeps_def split: sum.splits)
  assume k: "\<not> is_userRoles_key k"
  then have u: "k \<noteq> key_userRoles u" for u by auto
  show "keeps k s (snd (updateRole now c r name' d s))"
    using k by (auto simp: updateRole_def invalidate_kv keeps_def split: option.splits)
  show "keeps k s (snd (deleteRole en now c r s))"
    using k by (auto simp: deleteRole_def remove_role_row_def invalidate_kv keeps_def split: option.splits)
  show "keeps k s (snd (replacePermissions now c r ps s))"
    using k by (auto simp: replacePermissions_def Let_def invalidate_kv keeps_def split: option.splits)
  show "keeps k s (snd (assignRoles c i rs s))"
    using u by (auto simp: assignRoles_def assign_role_rows_def invalidate_kv keeps_def split: sum.splits prod.splits if_splits)
  show "keeps k s (snd (removeRole c i r s))"
    using u by (auto simp: removeRole_def invalidate_kv keeps_def split: sum.splits prod.splits)
  show "keeps k s (snd (getUserPermissions now i c s))"
    using u by (simp add: keeps_def getUserPermissions_kv)
qed

section \<open>Shapes of values\<close>

lemma typed_open: "typed_store (au_kv s) \<Longrightarrow> typed_store (au_kv (snd (open_session en now fv i email emp s)))"
  by (simp add: open_session_eq)

lemma typed_rotate:
  "rotateRefreshToken sha j now newRaw sid2 raw sid x = (r, y) \<Longrightarrow> typed_store x \<Longrightarrow> typed_store y"
  by (auto simp: rotateRefreshToken_def token_defs split: option.splits redis_value.splits if_splits)

lemma typed_gen: "typed_store (au_kv s) \<Longrightarrow> typed_store (au_kv (generateAndSend now n i email s))"
  by (simp add: auth_primitives)

lemma typed_public:
  assumes "typed_store (au_kv s)"
  shows "typed_store (au_kv (snd (register en now fv dto s)))"
    and "typed_store (au_kv (snd (login en now fv email password s)))"
    and "typed_store (au_kv (snd (loginWithSsoProfile en now fv profile s)))"
    and "typed_store (au_kv (snd (refresh_endpoint en now fv raw auth s)))"
    and "typed_store (au_kv (forgotPassword en now fv email s))"
    and "typed_store (au_kv (snd (resetPassword en now fv token password s)))"
    and "typed_store (au_kv (snd (acceptInvite en now fv token password s)))"
proof -
  show "typed_store (au_kv (snd (register en now fv dto s)))" using assms
    by (auto simp: register_def typed_gen split: prod.splits sum.splits dest!: register_tx_kv intro!: typed_gen)
  show "typed_store (au_kv (snd (login en now fv email password s)))" using assms
    by (auto simp: login_def open_session_eq update_user_def Let_def split: option.splits)
  show "typed_store (au_kv (snd (loginWithSsoProfile en now fv profile s)))" using assms
    by (auto simp: loginWithSsoProfile_def open_session_eq update_user_def Let_def split: option.splits)
  show "typed_store (au_kv (snd (refresh_endpoint en now fv raw auth s)))" using assms
    by (auto simp: refresh_endpoint_def split: option.splits sum.splits prod.splits dest: typed_rotate)
  show "typed_store (au_kv (forgotPassword en now fv email s))" using assms
    by (auto simp: forgotPassword_def auth_primitives split: option.splits)
  show "typed_store (au_kv (snd (resetPassword en now fv token password s)))" using assms
    unfolding resetPassword_def auth_primitives revokeUser_def by (auto split: option.splits redis_value.splits)
  show "typed_store (au_kv (snd (acceptInvite en now fv token password s)))" using assms
    by (auto simp: acceptInvite_def open_session_eq update_user_def Let_def split: option.splits)
qed

lemma typed_users:
  assumes "typed_store (au_kv s)"
  shows "typed_store (au_kv (snd (verifyEmail now i otp s)))"
    and "typed_store (au_kv (snd (resendVerification now fv i s)))"
    and "typed_store (au_kv (logout now ctx s))"
    and "typed_store (au_kv (snd (inviteUser en now fv c dto s)))"
    and "typed_store (au_kv (snd (resendInvite en now fv c i s)))"
    and "typed_store (au_kv (snd (setActive now c i b s)))"
    and "typed_store (au_kv (snd (assignRoles c i rs s)))"
    and "typed_store (au_kv (snd (removeRole c i r s)))"
    and "typed_store (au_kv (snd (updateUser c i udto s)))"
proof -
  show "typed_store (au_kv (snd (verifyEmail now i otp s)))" using assms
    by (auto simp: verifyEmail_def verify_otp_def auth_primitives split: option.splits redis_value.splits)
  show "typed_store (au_kv (snd (resendVerification now fv i s)))" using assms
    by (auto simp: resendVerification_def intro!: typed_gen split: option.splits)
  show "typed_store (au_kv (logout now ctx s))" using assms by (simp add: logout_def revokeSession_def)
  show "typed_store (au_kv (snd (inviteUser en now fv c dto s)))" using assms
    by (auto simp: inviteUser_def auth_primitives split: prod.splits sum.splits dest!: invite_tx_kv)
  show "typed_store (au_kv (snd (resendInvite en now fv c i s)))" using assms
    by (auto simp: resendInvite_def auth_primitives split: sum.splits)
  show "typed_store (au_kv (snd (setActive now c i b s)))" using assms
    by (auto simp: setActive_def update_user_def revokeUser_def Let_def split: sum.splits)
  show "typed_store (au_kv (snd (assignRoles c i rs s)))" using assms
    by (auto simp: assignRoles_def assign_role_rows_def split: prod.splits sum.splits if_splits)
  show "typed_store (au_kv (snd (removeRole c i r s)))" using assms
    by (auto simp: removeRole_def split: prod.splits sum.splits)
  show "typed_store (au_kv (snd (updateUser c i udto s)))" using assms
    by (auto simp: updateUser_def update_user_def split: sum.splits)
qed

lemma typed_roles:
  assumes "typed_store (au_kv s)"
  shows "typed_store (au_kv (snd (createRole i c name d s)))"
    and "typed_store (au_kv (snd (updateRole now c r name' d s)))"
    and "typed_store (au_kv (snd (deleteRole en now c r s)))"
    and "typed_store (au_kv (snd (replacePermissions now c r ps s)))"
proof -
  show "typed_store (au_kv (snd (createRole i c name d s)))" using assms by (simp add: createRole_def)
  show "typed_store (au_kv (snd (updateRole now c r name' d s)))" using assms
    unfolding updateRole_def by (simp split: option.split)
  show "typed_store (au_kv (snd (deleteRole en now c r s)))" using assms
    unfolding deleteRole_def by (simp add: remove_role_row_def split: option.split)
  show "typed_store (au_kv (snd (replacePermissions now c r ps s)))" using assms
    unfolding replacePermissions_def by (simp add: Let_def split: option.split)
qed

lemma typed_act: "typed_store (au_kv s) \<Longrightarrow> typed_store (au_kv (snd (act en now fv c a s)))"
  by (cases a) (simp_all only: act.simps snd_no_answer snd_conv typed_users typed_roles)

text \<open>A guarded request either changes at most the permission cache, or its handler starts after that.\<close>

lemma jwt_canActivate_state:
  assumes "jwt_canActivate j now req s = (r, s1)"
  obtains "s1 = s" "r = Inr None \<or> is_error r"
  | token p c where "hr_bearer req = Some token" "jw_verify j now False token = Some p"
      "s1 = snd (getUserPermissions now (ap_sub p) (ap_companyId p) s)"
      "r = Inr (Some c)" "rc_userId c = ap_sub p" "rc_companyId c = ap_companyId p"
      "rc_permissions c = fst (getUserPermissions now (ap_sub p) (ap_companyId p) s)"
proof (cases "hr_public req \<or> hr_url req = ''/health''")
  case True
  then show thesis using assms that(1) by (auto simp: jwt_canActivate_def)
next
  case False
  show thesis
  proof (cases "hr_bearer req")
    case None
    then show thesis using assms False that(1) by (auto simp: jwt_canActivate_def)
  next
    case (Some token)
    show thesis
    proof (cases "jw_verify j now False token")
      case None
      then show thesis using assms False Some that(1) by (auto simp: jwt_canActivate_def verifyAccessToken_def)
    next
      case p: (Some p)
      obtain ps s2 where g: "getUserPermissions now (ap_sub p) (ap_companyId p) s = (ps, s2)" by fastforce
      define c where "c = \<lparr>rc_userId = ap_sub p, rc_companyId = ap_companyId p, rc_email = ap_email p, rc_roles = ap_roles p,
        rc_permissions = ps, rc_sessionId = ap_sessionId p, rc_traceId = (case hr_traceId req of None \<Rightarrow> [] | Some t \<Rightarrow> t)\<rparr>"
      have "r = Inr (Some c)" "s1 = s2"
        using assms False Some p g by (simp_all add: jwt_canActivate_def verifyAccessToken_def c_def)
      then show thesis using that(2)[OF Some p, of c] g by (simp add: c_def)
    qed
  qed
qed

lemma handle_Authorized:
  obtains r s1 where "jwt_canActivate (en_jwt en) now req s = (r, s1)"
    "handle en now fv (Authorized req a) s = (fst (handle en now fv (Authorized req a) s), s1)"
    "handed_out (fst (handle en now fv (Authorized req a) s)) = {}"
  | token p c s1 where "hr_bearer req = Some token" "jw_verify (en_jwt en) now False token = Some p"
      "s1 = snd (getUserPermissions now (ap_sub p) (ap_companyId p) s)"
      "rc_userId c = ap_sub p" "rc_companyId c = ap_companyId p"
      "handle en now fv (Authorized req a) s = act en now fv c a s1"
proof -
  obtain r s1 where j: "jwt_canActivate (en_jwt en) now req s = (r, s1)" by fastforce
  show thesis
  proof (cases rule: jwt_canActivate_state[OF j])
    case 1
    then show thesis using j by (intro that(1)[OF j]) (auto split: sum.splits)
  next
    case (2 token p c)
    show thesis
    proof (cases "permissions_canActivate (required_permissions a) (Some c)")
      case (Inl err)
      then show thesis using 2 j by (intro that(1)[OF j]) auto
    next
      case (Inr u)
      then show thesis using 2 j by (intro that(2)[of token p s1 c]) auto
    qed
  qed
qed

lemma typed_handle: "typed_store (au_kv s) \<Longrightarrow> typed_store (au_kv (snd (handle en now fv ev s)))"
proof (cases ev)
  case (Authorized req a)
  assume typed: "typed_store (au_kv s)"
  show ?thesis unfolding Authorized
  proof (cases rule: handle_Authorized[of en now req s fv a])
    case (1 r s1)
    have "typed_store (au_kv s1)" using 1(1)
      by (rule jwt_canActivate_state) (simp_all add: typed)
    then show "typed_store (au_kv (snd (handle en now fv (Authorized req a) s)))" using 1(2) by (metis snd_conv)
  next
    case (2 token p c s1)
    then show "typed_store (au_kv (snd (handle en now fv (Authorized req a) s)))" using typed by (metis typed_act typed_getUserPermissions)
  qed
qed (simp_all only: handle.simps snd_give snd_no_answer snd_conv typed_public)

text \<open>
  C35: What is parsed has the shape it is cast to. In every run of requests, starting with a store whose
  values have the shapes of their keys, so have all values at the end: under a refresh key there is the
  meta data of a token, under a reset key a user and the time of use, under a code key a code with its
  attempts, under an invitation key a user and under a permission key a company with its permissions, so
  that the unchecked casts after \<^verbatim>\<open>JSON.parse\<close> are right.
\<close>

theorem stored_values_fit:
  assumes "typed_store (au_kv s)" and "auth_run en P t s K u v L" and "kv_get n k (au_kv v) = Some x"
  shows "value_fits k x \<and>
    (\<forall>h. k = key_refreshToken h \<longrightarrow> (\<exists>m. x = RefreshMeta m)) \<and>
    (\<forall>h. k = key_passwordResetToken h \<longrightarrow> (\<exists>i d. x = ResetMeta i d)) \<and>
    (\<forall>i. k = key_emailOtp i \<longrightarrow> (\<exists>p n. x = OtpState p n)) \<and>
    (\<forall>h. k = key_inviteToken h \<longrightarrow> (\<exists>i. x = InviteMeta i)) \<and>
    (\<forall>i. k = key_userRoles i \<longrightarrow> (\<exists>c ps. x = PermCache c ps))"
proof -
  have "typed_store (au_kv v)" using assms(2,1)
    by (induction rule: auth_run.induct) (metis snd_conv typed_handle)+
  then have "value_fits k x" using assms(3) by (rule typed_get)
  then show ?thesis by auto
qed

text \<open>A company with one administrator, for concrete runs.\<close>

definition example_env :: "(instant \<times> access_payload) auth_env" where
  "example_env = \<lparr>en_sha = toUpperCase, en_jwt = plain_jwt, en_hash = (\<lambda>salt p. p), en_verify = (\<lambda>h p. h = p), en_needsRehash = (\<lambda>h. False),
     en_test = False, en_baseUrl = [], en_delete_rejects_data = True\<rparr>"

definition example_db :: auth_db where
  "example_db = \<lparr>au_users = [(''u'', (new_user ''a@x'' ''A'' ''B'' ''pw'')\<lparr>us_isActive := True\<rparr>)], au_companies = [],
     au_employees = [(''e'', new_employee ''c'' (Some ''u''))],
     au_roles = [(''r'', \<lparr>ro_companyId = ''c'', ro_name = ''Ops'', ro_description = None, ro_isSystem = False, ro_deletedAt = None\<rparr>)],
     au_permissions = [(''p'', \<lparr>pe_resource = ''admin'', pe_action = ''write''\<rparr>), (''q'', \<lparr>pe_resource = ''leave'', pe_action = ''read''\<rparr>)],
     au_employeeRoles = [(''e'', ''r'')], au_rolePermissions = [(''r'', ''p''), (''r'', ''q'')], au_leaveTypes = [], au_salaryComponents = [],
     au_kv = [], au_mails = []\<rparr>"

definition example_fresh :: fresh_values where
  "example_fresh = \<lparr>fv_companyId = ''c9'', fv_userId = ''u9'', fv_employeeId = ''e9'', fv_roleIds = [''r9''], fv_suffix = ''s9'', fv_salt = [],
     fv_token = ''t9'', fv_sessionId = ''n9'', fv_otp = 123456\<rparr>"

definition example_payload :: access_payload where
  "example_payload = \<lparr>ap_sub = ''u'', ap_companyId = ''c'', ap_email = ''a@x'', ap_roles = [''r''], ap_sessionId = ''n1''\<rparr>"

lemma example_unused: "unused example_fresh example_db"
  by (simp add: unused_def example_fresh_def example_db_def new_employee_def kv_get_def)

lemma example_typed: "typed_store (au_kv example_db)"
  by (simp add: example_db_def typed_store_def)

lemma run_one:
  assumes "t \<le> now" and "unused fv s" and "P fv" and "new_to en fv ev" and "presented ev \<subseteq> K"
  shows "auth_run en P t s K now (snd (handle en now fv ev s)) (K \<union> handed_out (fst (handle en now fv ev s)))"
  using assms by (intro auth_run.request[where u = t and v = s and L = K and fv = fv, OF auth_run.start]) auto

theorem stored_values_fit_witness:
  "\<exists>v L x. auth_run example_env (\<lambda>f. True) 0 example_db {} 5 v L \<and> kv_get 6 (key_refreshToken ''T9'') (au_kv v) = Some x
     \<and> value_fits (key_refreshToken ''T9'') x"
proof -
  let ?ev = "Login ''a@x'' ''pw'' :: (instant \<times> access_payload) auth_event"
  have run: "auth_run example_env (\<lambda>f. True) 0 example_db {} 5 (snd (handle example_env 5 example_fresh ?ev example_db))
      ({} \<union> handed_out (fst (handle example_env 5 example_fresh ?ev example_db)))"
    by (rule run_one) (simp_all add: example_unused new_to_def)
  have "kv_get 6 (key_refreshToken ''T9'') (au_kv (snd (handle example_env 5 example_fresh ?ev example_db))) \<noteq> None"
    by code_simp
  then show ?thesis using stored_values_fit[OF example_typed run] run by blast
qed

end
