(* ===== verification/Auth_Cache.thy ===== *)
theory Auth_Cache
  imports Auth_Safety
begin

text \<open>
  The permission cache agrees with the tables in every run of authentication, role and user requests:
  each of their handlers that changes what somebody may do drops the entries it makes stale. The removal of
  an employee, a request of another service, does not.
\<close>

section \<open>Agreement\<close>

definition cache_agrees :: "instant \<Rightarrow> auth_db \<Rightarrow> bool" where
  "cache_agrees now s \<longleftrightarrow> distinct (tbl_ids (au_employees s)) \<and>
     (\<forall>t u c ps. now \<le> t \<longrightarrow> kv_get t (key_userRoles u) (au_kv s) = Some (PermCache c ps) \<longrightarrow> ps = loadPermissionsFromDb u c s)"

lemma role_permissions_frame:
  "au_rolePermissions t = au_rolePermissions s \<Longrightarrow> au_permissions t = au_permissions s \<Longrightarrow> role_permissions r t = role_permissions r s"
proof -
  assume "au_rolePermissions t = au_rolePermissions s" "au_permissions t = au_permissions s"
  moreover from this have "granted r t q = granted r s q" for q by (cases q) simp
  ultimately show ?thesis by (simp add: role_permissions_def cong: map_cong)
qed

lemma role_permissions_append:
  assumes "au_rolePermissions t = au_rolePermissions s @ xs" and "fst ` set xs \<subseteq> {a}" and "au_permissions t = au_permissions s" and "r \<noteq> a"
  shows "role_permissions r t = role_permissions r s"
proof -
  have "granted r t q = granted r s q" for q using assms(3) by (cases q) simp
  moreover have "concat (map (granted r s) xs) = []" using assms(2,4) by (induction xs) (auto simp: image_subset_iff)
  ultimately show ?thesis using assms(1) by (simp add: role_permissions_def cong: map_cong)
qed

lemma load_frame:
  assumes "au_employees t = au_employees s" and "au_employeeRoles t = au_employeeRoles s"
    and "au_rolePermissions t = au_rolePermissions s" and "au_permissions t = au_permissions s"
  shows "loadPermissionsFromDb u c t = loadPermissionsFromDb u c s"
  using assms(1,2) role_permissions_frame[OF assms(3,4)]
  by (auto simp: loadPermissionsFromDb_def employee_role_ids_def split: option.split)

lemma agreesI:
  assumes "distinct (tbl_ids (au_employees s))"
    and "\<And>t u c ps. now \<le> t \<Longrightarrow> kv_get t (key_userRoles u) (au_kv s) = Some (PermCache c ps) \<Longrightarrow> loadPermissionsFromDb u c s = ps"
  shows "cache_agrees now s"
  using assms by (auto simp: cache_agrees_def)

lemma agreesD:
  "cache_agrees now s \<Longrightarrow> now \<le> t \<Longrightarrow> kv_get t (key_userRoles u) (au_kv s) = Some (PermCache c ps) \<Longrightarrow> loadPermissionsFromDb u c s = ps"
  by (simp add: cache_agrees_def)

lemma agrees_distinct: "cache_agrees now s \<Longrightarrow> distinct (tbl_ids (au_employees s))"
  by (simp add: cache_agrees_def)

lemma agrees_later: "cache_agrees u s \<Longrightarrow> u \<le> now \<Longrightarrow> cache_agrees now s"
  by (rule agreesI) (blast dest: agrees_distinct agreesD order_trans)+

lemma agrees_frame:
  assumes "cache_agrees now s" and "\<And>u. keeps (key_userRoles u) s t" and "au_employees t = au_employees s"
    and "au_employeeRoles t = au_employeeRoles s" and "au_rolePermissions t = au_rolePermissions s" and "au_permissions t = au_permissions s"
  shows "cache_agrees now t"
proof (rule agreesI)
  show "distinct (tbl_ids (au_employees t))" using agrees_distinct[OF assms(1)] assms(3) by simp
  show "loadPermissionsFromDb u c t = ps" if "now \<le> n" "kv_get n (key_userRoles u) (au_kv t) = Some (PermCache c ps)" for n u c ps
    using agreesD[OF assms(1) that(1), of u c ps] that(2) assms(2)[of u] load_frame[OF assms(3-6)] by (simp add: keeps_def)
qed

lemma agrees_cleared:
  "distinct (tbl_ids (au_employees s)) \<Longrightarrow> cache_agrees now (invalidateCompany now c s)"
  by (auto simp: cache_agrees_def invalidateCompany_clears) (simp add: invalidateCompany_def)

text \<open>Changing the roles of one employee and dropping the entry of its user keeps the agreement.\<close>

lemma agrees_one_user:
  assumes "cache_agrees now s" and "user_employee i s = Some (e, r)" and "au_employees t = au_employees s"
    and "au_rolePermissions t = au_rolePermissions s" and "au_permissions t = au_permissions s" and "au_kv t = au_kv s"
    and "\<And>f. f \<noteq> e \<Longrightarrow> employee_role_ids f t = employee_role_ids f s"
  shows "cache_agrees now (invalidateUser i t)"
proof -
  have distinct: "distinct (map fst (au_employees s))" using assms(1) by (simp add: cache_agrees_def tbl_ids_def)
  have e: "(e, r) \<in> set (au_employees s)" "em_userId r = Some i"
    using assms(2) by (auto simp: user_employee_def dest: tbl_find_Some)
  have load: "loadPermissionsFromDb u c t = loadPermissionsFromDb u c s" if "u \<noteq> i" for u c
  proof -
    let ?P = "\<lambda>j x. em_userId x = Some u \<and> em_companyId x = c \<and> em_deletedAt x = None"
    have rp: "role_permissions q t = role_permissions q s" for q by (rule role_permissions_frame[OF assms(4,5)])
    show ?thesis
    proof (cases "tbl_find ?P (au_employees s)")
      case None
      then show ?thesis by (simp add: loadPermissionsFromDb_def assms(3))
    next
      case (Some fx)
      obtain f x where fx: "fx = (f, x)" by (cases fx)
      have x: "(f, x) \<in> set (au_employees s)" "em_userId x = Some u" using tbl_find_Some[OF Some[unfolded fx]] by auto
      have "f \<noteq> e"
      proof
        assume "f = e"
        then have "x = r" using eq_key_imp_eq_value[OF distinct] x(1) e(1) by metis
        then show False using x(2) e(2) that by simp
      qed
      then show ?thesis using Some by (simp add: loadPermissionsFromDb_def assms(3) assms(7) fx rp)
    qed
  qed
  have load2: "loadPermissionsFromDb u c (invalidateUser i t) = loadPermissionsFromDb u c t" for u c
    by (rule load_frame) (simp_all add: invalidateUser_def)
  show ?thesis
  proof (rule agreesI)
    show "distinct (tbl_ids (au_employees (invalidateUser i t)))"
      using agrees_distinct[OF assms(1)] assms(3) by (simp add: invalidateUser_def)
    show "loadPermissionsFromDb u c (invalidateUser i t) = ps"
      if "now \<le> n" "kv_get n (key_userRoles u) (au_kv (invalidateUser i t)) = Some (PermCache c ps)" for n u c ps
      using that(2) agreesD[OF assms(1) that(1), of u c ps] load[of u c] load2 by (simp add: invalidate_kv assms(6) split: if_splits)
  qed
qed

text \<open>A new employee of a user who has no entry, with roles of its own, disturbs nobody.\<close>

lemma agrees_new_employee:
  assumes "cache_agrees now s" and "fresh e (au_employees s)" and "em_userId r = Some i"
    and "\<And>n. kv_get n (key_userRoles i) (au_kv s) = None" and "\<And>u. keeps (key_userRoles u) s t"
    and "au_employees t = tbl_insert e r (au_employees s)"
    and "\<And>f. f \<noteq> e \<Longrightarrow> employee_role_ids f t = employee_role_ids f s"
    and "\<And>f q. f \<noteq> e \<Longrightarrow> (f, q) \<in> set (au_employeeRoles s) \<Longrightarrow> role_permissions q t = role_permissions q s"
  shows "cache_agrees now t"
proof -
  have load: "loadPermissionsFromDb u c t = loadPermissionsFromDb u c s" if "u \<noteq> i" for u c
  proof -
    let ?P = "\<lambda>j x. em_userId x = Some u \<and> em_companyId x = c \<and> em_deletedAt x = None"
    have find: "tbl_find ?P (au_employees t) = tbl_find ?P (au_employees s)"
      using that assms(3) by (simp add: assms(6) tbl_find_insert split: option.splits)
    have roles: "map (\<lambda>q. role_permissions q t) (employee_role_ids f t) = map (\<lambda>q. role_permissions q s) (employee_role_ids f s)"
      if "f \<noteq> e" for f
      using assms(7,8)[OF that] by (auto simp: employee_role_ids_def)
    show ?thesis
    proof (cases "tbl_find ?P (au_employees s)")
      case None
      then show ?thesis using find by (simp add: loadPermissionsFromDb_def)
    next
      case (Some fx)
      obtain f x where fx: "fx = (f, x)" by (cases fx)
      have "f \<noteq> e" using tbl_find_Some[OF Some[unfolded fx]] assms(2) by (auto simp: fresh_def tbl_ids_def image_iff)
      then show ?thesis using Some find roles[of f] by (simp add: loadPermissionsFromDb_def fx)
    qed
  qed
  have "kv_get n (key_userRoles i) (au_kv t) = None" for n using assms(4,5) by (simp add: keeps_def)
  then have "\<And>u n x. kv_get n (key_userRoles u) (au_kv t) = Some x \<Longrightarrow> u \<noteq> i" by auto
  then show ?thesis using assms(1,2,5) load
    by (auto simp: cache_agrees_def keeps_def assms(6) fresh_def)
qed

section \<open>The handlers\<close>

text \<open>Handlers that leave employees, roles and permissions alone.\<close>

definition same_access :: "auth_db \<Rightarrow> auth_db \<Rightarrow> bool" where
  "same_access s t \<longleftrightarrow> au_employees t = au_employees s \<and> au_employeeRoles t = au_employeeRoles s
     \<and> au_rolePermissions t = au_rolePermissions s \<and> au_permissions t = au_permissions s"

lemma agrees_same: "cache_agrees now s \<Longrightarrow> (\<And>u. keeps (key_userRoles u) s t) \<Longrightarrow> same_access s t \<Longrightarrow> cache_agrees now t"
  by (rule agrees_frame) (simp_all add: same_access_def)

lemma same_access_primitives [simp]:
  "same_access s s" "same_access s (send_mail m t) = same_access s t" "same_access s (put_kv now k v ttl t) = same_access s t"
  "same_access s (update_user i f t) = same_access s t" "same_access s (t\<lparr>au_kv := kv\<rparr>) = same_access s t"
  "same_access s (snd (open_session en now fv i email emp t)) = same_access s t" "same_access s (invalidateUser i t) = same_access s t"
  "same_access s (generateAndSend now n i email t) = same_access s t"
  by (simp_all add: same_access_def auth_primitives open_session_eq invalidateUser_def)

lemma same_access_public:
  "same_access s (snd (login en now fv email password s))"
  "same_access s (snd (loginWithSsoProfile en now fv profile s))"
  "same_access s (snd (refresh_endpoint en now fv raw auth s))"
  "same_access s (forgotPassword en now fv email s)"
  "same_access s (snd (resetPassword en now fv token password s))"
  "same_access s (snd (acceptInvite en now fv token password s))"
proof -
  show "same_access s (snd (login en now fv email password s))"
    by (auto simp: login_def open_session_eq Let_def split: option.splits)
  show "same_access s (snd (loginWithSsoProfile en now fv profile s))"
    by (auto simp: loginWithSsoProfile_def open_session_eq Let_def split: option.splits)
  show "same_access s (snd (refresh_endpoint en now fv raw auth s))"
    by (auto simp: refresh_endpoint_def split: option.splits sum.splits prod.splits)
  show "same_access s (forgotPassword en now fv email s)" by (auto simp: forgotPassword_def Let_def split: option.splits)
  show "same_access s (snd (resetPassword en now fv token password s))"
    unfolding resetPassword_def Let_def by (auto split: option.splits redis_value.splits)
  show "same_access s (snd (acceptInvite en now fv token password s))"
    by (auto simp: acceptInvite_def open_session_eq Let_def split: option.splits)
qed

lemma same_access_users:
  "same_access s (snd (verifyEmail now i otp s))"
  "same_access s (snd (resendVerification now fv i s))"
  "same_access s (logout now ctx s)"
  "same_access s (snd (resendInvite en now fv c i s))"
  "same_access s (snd (setActive now c i b s))"
  "same_access s (snd (updateUser c i dto s))"
  "same_access s (snd (createRole j c name d s))"
proof -
  show "same_access s (snd (verifyEmail now i otp s))"
    unfolding verifyEmail_def verify_otp_def Let_def by (auto split: option.splits redis_value.splits)
  show "same_access s (snd (resendVerification now fv i s))" by (auto simp: resendVerification_def split: option.splits)
  show "same_access s (logout now ctx s)" by (simp add: logout_def)
  show "same_access s (snd (resendInvite en now fv c i s))" by (auto simp: resendInvite_def split: sum.splits)
  show "same_access s (snd (setActive now c i b s))" by (auto simp: setActive_def Let_def split: sum.splits)
  show "same_access s (snd (updateUser c i dto s))" by (auto simp: updateUser_def split: sum.splits)
  show "same_access s (snd (createRole j c name d s))" by (simp add: createRole_def same_access_def)
qed

text \<open>Handlers that change what somebody may do.\<close>

lemma agrees_getUserPermissions:
  assumes "cache_agrees u s" and "u \<le> now"
  shows "cache_agrees now (snd (getUserPermissions now i c s))"
proof -
  have now: "cache_agrees now s" using agrees_later assms by blast
  show ?thesis
  proof (cases "snd (getUserPermissions now i c s) = s")
    case True
    then show ?thesis using now by simp
  next
    case False
    then have eq: "snd (getUserPermissions now i c s)
        = s\<lparr>au_kv := kv_set now (key_userRoles i) (PermCache c (loadPermissionsFromDb i c s)) 300 (au_kv s)\<rparr>"
      by (auto simp: getUserPermissions_def Let_def split: option.splits redis_value.splits)
    have load: "loadPermissionsFromDb v d (s\<lparr>au_kv := kv\<rparr>) = loadPermissionsFromDb v d s" for v d kv by (rule load_frame) simp_all
    show ?thesis unfolding eq
      by (rule agreesI) (use agrees_distinct[OF now] agreesD[OF now] in \<open>auto simp: load split: if_splits\<close>)
  qed
qed

lemma agrees_roles:
  assumes "cache_agrees now s"
  shows "cache_agrees now (snd (updateRole now c r name d s))"
    and "cache_agrees now (snd (deleteRole en now c r s))"
    and "cache_agrees now (snd (replacePermissions now c r ps s))"
proof -
  note cleared = agrees_cleared agrees_distinct[OF assms]
  show "cache_agrees now (snd (updateRole now c r name d s))"
    using assms cleared by (auto simp: updateRole_def split: option.split)
  show "cache_agrees now (snd (deleteRole en now c r s))"
    using assms cleared by (auto simp: deleteRole_def remove_role_row_def split: option.split)
  show "cache_agrees now (snd (replacePermissions now c r ps s))"
    using assms cleared by (auto simp: replacePermissions_def Let_def split: option.split)
qed

lemma getUser_Inr: "getUser c i s = Inr (u, e, r) \<Longrightarrow> user_employee i s = Some (e, r) \<and> em_companyId r = c"
  by (auto simp: getUser_def split: option.splits if_splits)

lemma employee_role_ids_pairs:
  "f \<noteq> e \<Longrightarrow> filter (\<lambda>(g, q). g = f) (add_pairs (map (Pair e) rs) t) = filter (\<lambda>(g, q). g = f) t"
proof -
  assume "f \<noteq> e"
  moreover obtain xs where "add_pairs (map (Pair e) rs) t = t @ xs" "set xs \<subseteq> set (map (Pair e) rs)"
    using add_pairs_append by blast
  ultimately show ?thesis by (auto simp: filter_empty_conv)
qed

lemma agrees_assignRoles:
  assumes "cache_agrees now s"
  shows "cache_agrees now (snd (assignRoles c i rs s))"
proof (cases "getUser c i s")
  case (Inl err)
  then show ?thesis using assms by (simp add: assignRoles_def)
next
  case (Inr x)
  obtain u e r where x: "x = (u, e, r)" by (cases x)
  show ?thesis
  proof (cases "list_all (\<lambda>q. \<not> fresh q (au_roles s)) (first_occurrences rs)")
    case True
    have "cache_agrees now (invalidateUser i (s\<lparr>au_employeeRoles := add_pairs (map (Pair e) (first_occurrences rs)) (au_employeeRoles s)\<rparr>))"
      by (rule agrees_one_user[OF assms])
        (use Inr x getUser_Inr in \<open>auto simp: employee_role_ids_def employee_role_ids_pairs\<close>)
    then show ?thesis using True Inr x by (simp add: assignRoles_def assign_role_rows_def)
  next
    case False
    then show ?thesis using assms Inr x by (simp add: assignRoles_def assign_role_rows_def)
  qed
qed

lemma agrees_removeRole:
  assumes "cache_agrees now s"
  shows "cache_agrees now (snd (removeRole c i q s))"
proof (cases "getUser c i s")
  case (Inl err)
  then show ?thesis using assms by (simp add: removeRole_def)
next
  case (Inr x)
  obtain u e r where x: "x = (u, e, r)" by (cases x)
  have other: "filter (\<lambda>(g, p). g = f) (filter (\<lambda>p. p \<noteq> (e, q)) t) = filter (\<lambda>(g, p). g = f) t" if "f \<noteq> e" for f t
    using that by (induction t) auto
  have "cache_agrees now (invalidateUser i (s\<lparr>au_employeeRoles := filter (\<lambda>p. p \<noteq> (e, q)) (au_employeeRoles s)\<rparr>))"
    by (rule agrees_one_user[OF assms]) (use Inr x getUser_Inr other in \<open>auto simp: employee_role_ids_def\<close>)
  then show ?thesis using assms Inr x by (simp add: removeRole_def)
qed

lemma agrees_inviteUser:
  assumes "cache_agrees now s" and "unused fv s"
  shows "cache_agrees now (snd (inviteUser en now fv c dto s))"
proof (cases "transaction (invite_tx now fv c dto) s")
  case (Pair res t)
  show ?thesis
  proof (cases res)
    case (Inl err)
    then have "t = s" using transaction_error[of "invite_tx now fv c dto" s err] Pair by simp
    then show ?thesis using assms(1) Pair Inl by (simp add: inviteUser_def)
  next
    case (Inr x)
    then have tx: "invite_tx now fv c dto s = (Inr x, t)" using Pair by (simp add: transaction_Inr)
    from tx have "cache_agrees now t"
    proof (rule invite_tx_Inr)
      fix number
      assume "fresh (fv_userId fv) (au_users s)" "user_by_email (iv_email dto) s = None"
        and "au_users t = tbl_insert (fv_userId fv) (new_user (iv_email dto) (iv_firstName dto) (iv_lastName dto) invite_hash) (au_users s)"
        and fr: "fresh (fv_employeeId fv) (au_employees s)" "user_employee (fv_userId fv) s = None"
        and emp: "au_employees t = tbl_insert (fv_employeeId fv) (account_employee now c number (fv_userId fv) (iv_email dto)) (au_employees s)"
        and roles: "au_employeeRoles t = add_pairs (map (Pair (fv_employeeId fv)) (iv_roleIds dto)) (au_employeeRoles s)"
        and perms: "au_rolePermissions t = au_rolePermissions s" "au_permissions t = au_permissions s" "au_kv t = au_kv s"
      show ?thesis
        by (rule agrees_new_employee[OF assms(1) fr(1) _ _ _ emp])
          (use assms(2) role_permissions_frame[OF perms(1,2)] in
            \<open>auto simp: account_employee_def unused_def keeps_def perms(3) employee_role_ids_def roles employee_role_ids_pairs\<close>)
    qed
    then have "cache_agrees now (send_mail m (put_kv now (key_inviteToken h) v ttl t))" for m h v ttl
      by (rule agrees_same, simp add: keeps_def auth_primitives, simp)
    then show ?thesis using assms(1) Pair Inr by (simp add: inviteUser_def)
  qed
qed

lemma agrees_register:
  assumes "cache_agrees now s" and "unused fv s"
  shows "cache_agrees now (snd (register en now fv dto s))"
proof (cases "transaction (register_tx now fv (en_hash en (fv_salt fv) (rg_password dto)) dto) s")
  case (Pair res t)
  show ?thesis
  proof (cases res)
    case (Inl err)
    then have "t = s" using transaction_error[of "register_tx now fv (en_hash en (fv_salt fv) (rg_password dto)) dto" s err] Pair by simp
    then show ?thesis using assms(1) Pair Inl by (simp add: register_def)
  next
    case (Inr x)
    then have tx: "register_tx now fv (en_hash en (fv_salt fv) (rg_password dto)) dto s = (Inr x, t)"
      using Pair by (simp add: transaction_Inr)
    have company: "\<forall>(i, r) \<in> set (au_roles s). ro_companyId r \<noteq> fv_companyId fv" using assms(2) by (simp add: unused_def)
    from tx company have "cache_agrees now t"
    proof (rule register_tx_Inr)
      fix number a xs
      assume fr: "fresh (fv_employeeId fv) (au_employees s)"
        and emp: "au_employees t = tbl_insert (fv_employeeId fv) (account_employee now (fv_companyId fv) number (fv_userId fv) (rg_email dto)) (au_employees s)"
        and a: "a \<in> set (fv_roleIds fv)" "au_employeeRoles t = au_employeeRoles s @ [(fv_employeeId fv, a)]"
        and perms: "au_rolePermissions t = au_rolePermissions s @ xs" "fst ` set xs \<subseteq> {a}" "au_permissions t = au_permissions s" "au_kv t = au_kv s"
      have "role_permissions q t = role_permissions q s" if "(f, q) \<in> set (au_employeeRoles s)" for f q
        using that assms(2) a(1) by (intro role_permissions_append[OF perms(1-3)]) (auto simp: unused_def)
      then show ?thesis
        by (intro agrees_new_employee[OF assms(1) fr _ _ _ emp])
          (use assms(2) in \<open>auto simp: account_employee_def unused_def keeps_def perms(4) employee_role_ids_def a(2)\<close>)
    qed
    then have "cache_agrees now (generateAndSend now n i email t)" for n i email
      by (rule agrees_same) simp_all
    then show ?thesis using assms(1) Pair Inr by (simp add: register_def)
  qed
qed

lemma agrees_act:
  assumes "cache_agrees now s" and "unused fv s" and "typed_store (au_kv s)"
  shows "cache_agrees now (snd (act en now fv c a s))"
proof (cases a)
  case (InviteUser dto)
  then show ?thesis using agrees_inviteUser assms by simp
qed (use assms in \<open>simp_all add: agrees_same same_access_users agrees_roles agrees_assignRoles agrees_removeRole\<close>)

lemma agrees_accept:
  assumes "cache_agrees now s"
  shows "cache_agrees now (snd (acceptInvite en now fv token password s))"
proof (rule agreesI)
  note same = same_access_public(6)[of s en now fv token password]
  show "distinct (tbl_ids (au_employees (snd (acceptInvite en now fv token password s))))"
    using same agrees_distinct[OF assms] by (simp add: same_access_def)
  have kept: "kv_get n (key_userRoles u) (au_kv (snd (acceptInvite en now fv token password s))) = Some x
      \<Longrightarrow> kv_get n (key_userRoles u) (au_kv s) = Some x" for n u x
    by (auto simp: acceptInvite_def open_session_eq update_user_def Let_def invalidate_kv split: option.splits if_splits)
  show "loadPermissionsFromDb u c (snd (acceptInvite en now fv token password s)) = ps"
    if "now \<le> n" "kv_get n (key_userRoles u) (au_kv (snd (acceptInvite en now fv token password s))) = Some (PermCache c ps)" for n u c ps
    using agreesD[OF assms that(1) kept[OF that(2)]] load_frame[of "snd (acceptInvite en now fv token password s)" s] same
    by (simp add: same_access_def)
qed

lemma unused_guard:
  assumes "unused fv s" and "i \<noteq> fv_userId fv"
  shows "unused fv (snd (getUserPermissions now i c s))"
  using assms by (auto simp: unused_def getUserPermissions_kv)

definition cache_invariant :: "'tok auth_env \<Rightarrow> (fresh_values \<Rightarrow> bool) \<Rightarrow> instant \<Rightarrow> auth_db \<Rightarrow> bool" where
  "cache_invariant en P now s \<longleftrightarrow> typed_store (au_kv s) \<and> cache_agrees now s"

lemma agrees_guard:
  assumes "cache_agrees u s" and "u \<le> now" and "jwt_canActivate j now req s = (r, s1)"
  shows "cache_agrees now s1"
  using assms(3)
proof (rule jwt_canActivate_state)
  show "s1 = s \<Longrightarrow> cache_agrees now s1" using agrees_later[OF assms(1,2)] by simp
qed (use agrees_getUserPermissions[OF assms(1,2)] in auto)

interpretation cache: auth_invariant cache_invariant
proof (unfold_locales, unfold cache_invariant_def, elim conjE, intro conjI)
  fix en :: "'tok auth_env" and P u s now fv ev
  assume typed: "typed_store (au_kv s)" and agrees: "cache_agrees u s" and "u \<le> now" and unused: "unused fv s" and new: "new_to en fv ev"
  show "typed_store (au_kv (snd (handle en now fv ev s)))" using typed by (rule typed_handle)
  have now: "cache_agrees now s" using agrees_later agrees \<open>u \<le> now\<close> by blast
  show "cache_agrees now (snd (handle en now fv ev s))"
  proof (cases ev)
    case (Authorized req a)
    show ?thesis unfolding Authorized
    proof (cases rule: handle_Authorized[of en now req s fv a])
      case (1 r s1)
      then show "cache_agrees now (snd (handle en now fv (Authorized req a) s))"
        using agrees_guard[OF agrees \<open>u \<le> now\<close> 1(1)] by (metis snd_conv)
    next
      case (2 token p c s1)
      have "ap_sub p \<noteq> fv_userId fv" using new 2(1,2) by (auto simp: new_to_def Authorized)
      then have "unused fv s1" using unused_guard[OF unused] 2(3) by simp
      moreover have "cache_agrees now s1" using agrees_getUserPermissions[OF agrees \<open>u \<le> now\<close>] 2(3) by simp
      ultimately show "cache_agrees now (snd (handle en now fv (Authorized req a) s))"
        using agrees_act typed 2(3,6) by (metis typed_getUserPermissions)
    qed
  qed (use now unused in \<open>simp_all add: agrees_same same_access_public agrees_register agrees_accept\<close>)
qed

lemma getUserPermissions_load:
  assumes "typed_store (au_kv s)" and "cache_agrees t s" and "t \<le> now"
  shows "fst (getUserPermissions now i c s) = loadPermissionsFromDb i c s"
  using agreesD[OF assms(2,3)] typed_get[OF assms(1), of now "key_userRoles i"]
  by (auto simp: getUserPermissions_def Let_def split: option.splits redis_value.splits)

text \<open>
  The removal of an employee, \<^verbatim>\<open>softDelete\<close> of the employees' repository: it marks the row, which takes the
  permissions of its user away in the tables, and drops no entry of the cache.
\<close>

definition softDelete_employee :: "instant \<Rightarrow> id \<Rightarrow> auth_db \<Rightarrow> auth_db" where
  "softDelete_employee now e s = s\<lparr>au_employees := tbl_update e (\<lambda>r. r\<lparr>em_deletedAt := Some now\<rparr>) (au_employees s)\<rparr>"

lemma getUserPermissions_cached:
  "kv_get now (key_userRoles i) (au_kv s) = Some (PermCache c ps) \<Longrightarrow> fst (getUserPermissions now i c s) = ps"
  by (simp add: getUserPermissions_def Let_def)

text \<open>
  C33: The permission cache is invalidated by the requests of its own three controllers, but not by the
  removal of an employee. After every run of authentication, role and user administration requests that starts
  with agreement (say, with an empty cache), the permissions a guard reads for a user, cached or not, are
  exactly those the tables give at that moment: creating, changing and deleting roles, replacing their
  permissions, assigning and removing roles, inviting and registering each invalidate what they change. If
  then an employee is removed, who is part of another service and not of the runs, a cached entry keeps its
  permissions: as long as it lives (five minutes at most) the guard reads what the tables gave before the removal.
\<close>

theorem permissions_fresh_but_for_removal:
  assumes "typed_store (au_kv s)" and "cache_agrees t s" and "auth_run en P t s K u v L" and "u \<le> now"
  shows "fst (getUserPermissions now i c v) = loadPermissionsFromDb i c v
    \<and> (case kv_get now (key_userRoles i) (au_kv v) of
         Some (PermCache d ps) \<Rightarrow> fst (getUserPermissions now i d (softDelete_employee w e v)) = loadPermissionsFromDb i d v
       | _ \<Rightarrow> True)"
proof -
  have "cache_invariant en P u v"
    by (rule cache.run[OF assms(3)]) (simp add: cache_invariant_def assms(1,2))
  then have inv: "typed_store (au_kv v)" "cache_agrees u v" by (simp_all add: cache_invariant_def)
  have "fst (getUserPermissions now i d (softDelete_employee w e v)) = loadPermissionsFromDb i d v"
    if "kv_get now (key_userRoles i) (au_kv v) = Some (PermCache d ps)" for d ps
    using that getUserPermissions_cached[of now i "softDelete_employee w e v" d ps] agreesD[OF inv(2) assms(4) that]
    by (simp add: softDelete_employee_def)
  then show ?thesis using getUserPermissions_load[OF inv assms(4)] by (auto split: option.split redis_value.split)
qed

text \<open>A role is changed, the guard reads the permissions of its user, then the employee of that user is removed.\<close>

definition change_role :: "(instant \<times> access_payload) auth_event" where
  "change_role = Authorized \<lparr>hr_public = False, hr_url = ''/roles'', hr_bearer = Some (0, example_payload), hr_traceId = None\<rparr>
    (ReplacePermissions ''r'' [''p''])"

definition read_roles :: "(instant \<times> access_payload) auth_event" where
  "read_roles = Authorized \<lparr>hr_public = False, hr_url = ''/roles'', hr_bearer = Some (0, example_payload), hr_traceId = None\<rparr>
    (ReplacePermissions ''no such role'' [])"

definition changed_db :: auth_db where "changed_db = snd (handle example_env 5 example_fresh change_role example_db)"

definition cached_db :: auth_db where "cached_db = snd (handle example_env 6 example_fresh read_roles changed_db)"

theorem permissions_fresh_but_for_removal_witness:
  "fst (getUserPermissions 20 ''u'' ''c'' cached_db) = [''admin:write'']
   \<and> fst (getUserPermissions 20 ''u'' ''c'' (softDelete_employee 7 ''e'' cached_db)) = [''admin:write'']
   \<and> loadPermissionsFromDb ''u'' ''c'' (softDelete_employee 7 ''e'' cached_db) = []"
proof -
  have new: "new_to example_env example_fresh change_role" "new_to example_env example_fresh read_roles"
    by (simp_all add: new_to_def change_role_def read_roles_def example_env_def plain_jwt_def example_payload_def example_fresh_def)
  have first: "auth_run example_env (\<lambda>f. True) 0 example_db {(0, example_payload)} 5 changed_db
      ({(0, example_payload)} \<union> handed_out (fst (handle example_env 5 example_fresh change_role example_db)))"
    unfolding changed_db_def by (rule run_one) (use example_unused new(1) in \<open>simp_all add: change_role_def\<close>)
  have "au_kv changed_db = []" by code_simp
  moreover have "list_all (\<lambda>(i, e). em_companyId e \<noteq> ''c9'') (au_employees changed_db)
      \<and> list_all (\<lambda>(i, r). ro_companyId r \<noteq> ''c9'') (au_roles changed_db) \<and> au_employeeRoles changed_db = [(''e'', ''r'')]" by code_simp
  ultimately have "unused example_fresh changed_db"
    by (simp add: unused_def example_fresh_def list_all_iff kv_get_def)
  then obtain L where run: "auth_run example_env (\<lambda>f. True) 0 example_db {(0, example_payload)} 6 cached_db L"
    using auth_run.request[OF first, of 6 example_fresh read_roles "fst (handle example_env 6 example_fresh read_roles changed_db)" cached_db] new(2)
    by (auto simp: cached_db_def read_roles_def)
  have agrees: "cache_agrees 0 example_db"
    by (simp add: cache_agrees_def example_db_def tbl_ids_def kv_get_def)
  have "loadPermissionsFromDb ''u'' ''c'' cached_db = [''admin:write'']" by code_simp
  moreover have "kv_get 20 (key_userRoles ''u'') (au_kv cached_db) = Some (PermCache ''c'' [''admin:write''])" by code_simp
  moreover have "loadPermissionsFromDb ''u'' ''c'' (softDelete_employee 7 ''e'' cached_db) = []" by code_simp
  ultimately show ?thesis
    using permissions_fresh_but_for_removal[OF example_typed agrees run, of 20 "''u''" "''c''" 7 "''e''"] by auto
qed

end
