(* ===== verification/Auth_Recovery.thy ===== *)
theory Auth_Recovery
  imports Auth_Safety
begin

text \<open>
  Properties of account recovery: a password reset token works once, whatever requests follow, and ends
  the sessions of its user; and at most five guesses are judged against a verification code.
\<close>

section \<open>Password reset tokens\<close>

definition spent :: "string \<Rightarrow> instant \<Rightarrow> auth_db \<Rightarrow> bool" where
  "spent h now s \<longleftrightarrow> (\<forall>n x. now \<le> n \<longrightarrow> kv_get n (key_passwordResetToken h) (au_kv s) = Some x \<longrightarrow> (\<exists>i d. x = ResetMeta i (Some d)))"

definition spent_invariant :: "string \<Rightarrow> 'tok auth_env \<Rightarrow> (fresh_values \<Rightarrow> bool) \<Rightarrow> instant \<Rightarrow> auth_db \<Rightarrow> bool" where
  "spent_invariant h en P now s \<longleftrightarrow> \<not> en_test en \<and> (\<forall>fv. P fv \<longrightarrow> en_sha en (fv_token fv) \<noteq> h) \<and> spent h now s"

lemma spentD: "spent h now s \<Longrightarrow> now \<le> n \<Longrightarrow> kv_get n (key_passwordResetToken h) (au_kv s) = Some x \<Longrightarrow> \<exists>i d. x = ResetMeta i (Some d)"
  by (simp add: spent_def)

lemma spent_keeps: "spent h u s \<Longrightarrow> u \<le> now \<Longrightarrow> keeps (key_passwordResetToken h) s t \<Longrightarrow> spent h now t"
  unfolding spent_def keeps_def by (metis order_trans)

lemma spent_forgot:
  assumes "spent h u s" and "u \<le> now" and "\<not> en_test en" and "en_sha en (fv_token fv) \<noteq> h"
  shows "spent h now (forgotPassword en now fv email s)"
  by (rule spent_keeps[OF assms(1,2)])
    (use assms(3,4) in \<open>auto simp: keeps_def forgotPassword_def auth_primitives split: option.splits\<close>)

text \<open>The state a successful reset leaves.\<close>

lemma resetPassword_Inr:
  assumes "resetPassword en now fv token password s = (Inr x, t)" and "\<not> en_test en"
  obtains i where "kv_get now (key_passwordResetToken (en_sha en token)) (au_kv s) = Some (ResetMeta i None)"
    "au_kv t = revokeUser now i (kv_set now (key_passwordResetToken (en_sha en token)) (ResetMeta i (Some now)) 3600 (au_kv s))"
proof -
  from assms obtain i where "kv_get now (key_passwordResetToken (en_sha en token)) (au_kv s) = Some (ResetMeta i None)"
    by (auto simp: resetPassword_def Let_def split: option.splits redis_value.splits if_splits)
  then show thesis using assms
    by (intro that[of i]) (auto simp: resetPassword_def auth_primitives split: if_splits)
qed

lemma spent_reset:
  assumes "spent h u s" and "u \<le> now" and "\<not> en_test en"
  shows "spent h now (snd (resetPassword en now fv token password s))"
proof (cases "resetPassword en now fv token password s")
  case (Pair r t)
  show ?thesis
  proof (cases r)
    case (Inl err)
    then have "t = s" using Pair assms(3) by (auto simp: resetPassword_def Let_def split: option.splits redis_value.splits if_splits)
    then show ?thesis using Pair spent_keeps[OF assms(1,2)] by simp
  next
    case (Inr x)
    then obtain i where "au_kv t = revokeUser now i (kv_set now (key_passwordResetToken (en_sha en token)) (ResetMeta i (Some now)) 3600 (au_kv s))"
      using resetPassword_Inr[of en now fv token password s x t] Pair assms(3) by metis
    then have "kv_get n (key_passwordResetToken h) (au_kv t) = Some y \<Longrightarrow> (\<exists>i d. y = ResetMeta i (Some d)) \<or>
        kv_get n (key_passwordResetToken h) (au_kv s) = Some y" for n y
      by (auto simp: revokeUser_def split: if_splits)
    then show ?thesis using Pair spentD[OF assms(1)] assms(2) unfolding spent_def by (metis order_trans snd_conv)
  qed
qed

lemma keeps_act: "keeps (key_passwordResetToken h) s (snd (act en now fv c a s))"
  by (cases a) simp_all

lemma keeps_handle:
  assumes "\<And>email. ev \<noteq> ForgotPassword email" and "\<And>token password. ev \<noteq> ResetPassword token password"
  shows "keeps (key_passwordResetToken h) s (snd (handle en now fv ev s))"
proof (cases ev)
  case (Authorized req a)
  show ?thesis unfolding Authorized
  proof (cases rule: handle_Authorized[of en now req s fv a])
    case (1 r s1)
    from 1(1) have "keeps (key_passwordResetToken h) s s1" by (rule jwt_canActivate_state) simp_all
    then show "keeps (key_passwordResetToken h) s (snd (handle en now fv (Authorized req a) s))" using 1(2) by (metis snd_conv)
  next
    case (2 token p c s1)
    have "keeps (key_passwordResetToken h) s s1" using 2(3) by simp
    then show "keeps (key_passwordResetToken h) s (snd (handle en now fv (Authorized req a) s))"
      using 2(6) keeps_act[of h s1 en now fv c a] by (simp add: keeps_def)
  qed
qed (use assms in simp_all)

interpretation spent_token: auth_invariant "spent_invariant h" for h
proof (unfold_locales, unfold spent_invariant_def, elim conjE, intro conjI)
  fix en :: "'tok auth_env" and P u s now and fv :: fresh_values and ev :: "'tok auth_event"
  assume env: "\<not> en_test en" "\<forall>fv. P fv \<longrightarrow> en_sha en (fv_token fv) \<noteq> h" and h: "spent h u s" and "u \<le> now" and "P fv"
  show "\<not> en_test en" "\<forall>fv. P fv \<longrightarrow> en_sha en (fv_token fv) \<noteq> h" using env by auto
  have token: "en_sha en (fv_token fv) \<noteq> h" using env(2) \<open>P fv\<close> by blast
  consider email where "ev = ForgotPassword email" | tk password where "ev = ResetPassword tk password"
    | "\<And>email. ev \<noteq> ForgotPassword email" "\<And>token password. ev \<noteq> ResetPassword token password" by (cases ev) auto
  then show "spent h now (snd (handle en now fv ev s))"
  proof cases
    case 1
    then show ?thesis using spent_forgot[OF h \<open>u \<le> now\<close> env(1) token] by simp
  next
    case 2
    then show ?thesis using spent_reset[OF h \<open>u \<le> now\<close> env(1)] by simp
  next
    case 3
    then show ?thesis by (intro spent_keeps[OF h \<open>u \<le> now\<close>] keeps_handle)
  qed
qed

text \<open>
  C31: A password reset token works once. After a successful reset, in production, no refresh token of
  the user is live any more; and whatever requests follow, at whatever instants, as long as no new reset token
  with the same hash is drawn, presenting the token again is refused and changes nothing, also after the hour
  for which its use is remembered.
\<close>

theorem reset_token_works_once:
  assumes "\<not> en_test en" and "resetPassword en now fv token password s = (Inr (), s1)"
    and "auth_run en P now s1 K u v L" and "\<And>f. P f \<Longrightarrow> en_sha en (fv_token f) \<noteq> en_sha en token" and "u \<le> n"
  shows "(\<exists>err. resetPassword en n fv2 token password2 v = (Inl err, v)) \<and>
    (\<exists>i. kv_get now (key_passwordResetToken (en_sha en token)) (au_kv s) = Some (ResetMeta i None) \<and>
      (\<forall>t h m. now \<le> t \<and> live_sessions t (au_kv s1) h = Some m \<longrightarrow> rm_userId m \<noteq> i))"
proof
  obtain i where i: "kv_get now (key_passwordResetToken (en_sha en token)) (au_kv s) = Some (ResetMeta i None)"
    and kv: "au_kv s1 = revokeUser now i (kv_set now (key_passwordResetToken (en_sha en token)) (ResetMeta i (Some now)) 3600 (au_kv s))"
    using resetPassword_Inr[OF assms(2,1)] by metis
  have "spent (en_sha en token) now s1" by (auto simp: spent_def kv revokeUser_def split: if_splits)
  then have "spent_invariant (en_sha en token) en P now s1" using assms(1,4) by (simp add: spent_invariant_def)
  then have "spent_invariant (en_sha en token) en P u v" by (rule spent_token.run[OF assms(3)])
  then have gone: "kv_get n (key_passwordResetToken (en_sha en token)) (au_kv v) = Some x \<Longrightarrow> \<exists>j d. x = ResetMeta j (Some d)" for x
    using assms(5) by (auto simp: spent_invariant_def dest: spentD)
  show "\<exists>err. resetPassword en n fv2 token password2 v = (Inl err, v)"
  proof (cases "kv_get n (key_passwordResetToken (en_sha en token)) (au_kv v)")
    case None
    then show ?thesis using assms(1) by (simp add: resetPassword_def Let_def)
  next
    case (Some x)
    then obtain j d where "x = ResetMeta j (Some d)" using gone by blast
    then show ?thesis using Some by (simp add: resetPassword_def Let_def)
  qed
  have "rm_userId m \<noteq> i" if "now \<le> t" "live_sessions t (au_kv s1) h = Some m" for t h m
  proof -
    have "kv_get t (key_refreshToken h) (au_kv s1) = Some (RefreshMeta m)"
      using that(2) by (auto simp: live_sessions_def split: option.splits redis_value.splits)
    then show ?thesis
      using revoke_where_later[of "key_refreshToken h" t now "\<lambda>v. value_userId v = Some i" _ "RefreshMeta m"] that(1)
      unfolding kv revokeUser_def by fastforce
  qed
  then show "\<exists>i. kv_get now (key_passwordResetToken (en_sha en token)) (au_kv s) = Some (ResetMeta i None) \<and>
      (\<forall>t h m. now \<le> t \<and> live_sessions t (au_kv s1) h = Some m \<longrightarrow> rm_userId m \<noteq> i)" using i by blast
qed

definition reset_db :: auth_db where
  "reset_db = forgotPassword example_env 0 (example_fresh\<lparr>fv_token := ''abc''\<rparr>) ''a@x'' example_db"

theorem reset_token_works_once_witness:
  "\<exists>s1 v L err. resetPassword example_env 5 example_fresh ''abc'' ''new'' reset_db = (Inr (), s1)
     \<and> auth_run example_env (\<lambda>f. fv_token f = ''t9'') 5 s1 {} 9 v L
     \<and> resetPassword example_env 10 example_fresh ''abc'' ''newer'' v = (Inl err, v)"
proof -
  define s1 where "s1 = snd (resetPassword example_env 5 example_fresh ''abc'' ''new'' reset_db)"
  have "\<not> is_error (fst (resetPassword example_env 5 example_fresh ''abc'' ''new'' reset_db))" by code_simp
  then have reset: "resetPassword example_env 5 example_fresh ''abc'' ''new'' reset_db = (Inr (), s1)"
    unfolding s1_def by (cases "resetPassword example_env 5 example_fresh ''abc'' ''new'' reset_db") (auto simp: is_error_def split: sum.splits)
  have "keeps (key_userRoles ''u9'') example_db reset_db" "keeps (key_userRoles ''u9'') reset_db s1"
    unfolding reset_db_def s1_def by simp_all
  then have "kv_get t (key_userRoles ''u9'') (au_kv s1) = None" for t
    using example_unused by (simp add: keeps_def unused_def example_fresh_def)
  moreover have "au_employees s1 = au_employees example_db" "au_roles s1 = au_roles example_db"
    "au_employeeRoles s1 = au_employeeRoles example_db" unfolding s1_def by code_simp+
  ultimately have unused: "unused example_fresh s1"
    using example_unused by (simp add: unused_def) (simp add: example_fresh_def)
  let ?ev = "Login ''a@x'' ''new'' :: (instant \<times> access_payload) auth_event"
  let ?v = "snd (handle example_env 9 example_fresh ?ev s1)"
  have run: "auth_run example_env (\<lambda>f. fv_token f = ''t9'') 5 s1 {} 9 ?v ({} \<union> handed_out (fst (handle example_env 9 example_fresh ?ev s1)))"
  proof (rule run_one)
    show "(5 :: instant) \<le> 9" by simp
    show "unused example_fresh s1" by (rule unused)
    show "fv_token example_fresh = ''t9''" by (simp add: example_fresh_def)
    show "new_to example_env example_fresh ?ev" by (simp add: new_to_def)
    show "presented ?ev \<subseteq> {}" by simp
  qed
  have test: "\<not> en_test example_env" by (simp add: example_env_def)
  have "en_sha example_env = toUpperCase" by (simp add: example_env_def)
  moreover have "toUpperCase ''t9'' = ''T9''" "toUpperCase ''abc'' = ''ABC''" by code_simp+
  ultimately have sha: "en_sha example_env (fv_token f) \<noteq> en_sha example_env ''abc''" if "fv_token f = ''t9''" for f :: fresh_values
    using that by simp
  have "\<exists>err. resetPassword example_env 10 example_fresh ''abc'' ''newer'' ?v = (Inl err, ?v)"
    using reset_token_works_once[OF test reset run sha, of 10 example_fresh "''newer''"] by simp
  then show ?thesis using reset run by blast
qed

section \<open>Verification codes\<close>

text \<open>The answers to a sequence of guesses at the code of a user, each at its instant.\<close>

fun guesses :: "id \<Rightarrow> (instant \<times> string) list \<Rightarrow> auth_db \<Rightarrow> (app_error + unit) list" where
  "guesses i [] s = []"
| "guesses i ((now, otp) # gs) s = (let (r, t) = verify_otp now i otp s in r # guesses i gs t)"

definition otp_after :: "string \<Rightarrow> int \<Rightarrow> id \<Rightarrow> auth_db \<Rightarrow> bool" where
  "otp_after code n i s \<longleftrightarrow> (\<forall>t x. kv_get t (key_emailOtp i) (au_kv s) = Some x \<longrightarrow> x = OtpState code n)"

lemma guesses_none:
  assumes "\<And>t. t \<in> fst ` set gs \<Longrightarrow> kv_get t (key_emailOtp i) (au_kv s) = None" and "k < length (guesses i gs s)"
  shows "is_error (guesses i gs s ! k)"
  using assms by (induction gs arbitrary: k) (auto simp: verify_otp_def Let_def nth_Cons split: nat.splits)

lemma verify_cases:
  assumes "otp_after code n i s"
  obtains "kv_get now (key_emailOtp i) (au_kv s) = None" "verify_otp now i otp s = (Inl (BadRequestError ''Verification code expired or invalid''), s)"
  | "otp = code" "verify_otp now i otp s = (Inr (), s\<lparr>au_kv := kv_del (key_emailOtp i) (au_kv s)\<rparr>)"
  | "n + 1 \<ge> 5" "verify_otp now i otp s
      = (Inl (BadRequestError ''Verification code expired or invalid''), s\<lparr>au_kv := kv_del (key_emailOtp i) (au_kv s)\<rparr>)"
  | "n + 1 < 5" "fst (verify_otp now i otp s) = Inl (BadRequestError ''Verification code expired or invalid'')"
      "otp_after code (n + 1) i (snd (verify_otp now i otp s))"
proof (cases "kv_get now (key_emailOtp i) (au_kv s)")
  case None
  then show thesis using that(1) by (simp add: verify_otp_def)
next
  case (Some x)
  then have x: "x = OtpState code n" using assms by (simp add: otp_after_def)
  consider "otp = code" | "otp \<noteq> code" "n + 1 \<ge> 5" | "otp \<noteq> code" "n + 1 < 5" by linarith
  then show thesis
  proof cases
    case 1
    then show thesis using that(2) Some x by (simp add: verify_otp_def Let_def)
  next
    case 2
    then show thesis using that(3) Some x by (simp add: verify_otp_def Let_def)
  next
    case 3
    have eq: "verify_otp now i otp s = (Inl (BadRequestError ''Verification code expired or invalid''),
        put_kv now (key_emailOtp i) (OtpState code (n + 1)) otp_ttl s)"
      using 3 Some by (simp add: verify_otp_def Let_def x)
    have "otp_after code (n + 1) i (put_kv now (key_emailOtp i) (OtpState code (n + 1)) otp_ttl s)"
      by (simp add: otp_after_def put_kv_def)
    then show thesis using that(4) 3(2) by (simp add: eq)
  qed
qed

lemma guesses_after:
  assumes "otp_after code n i s" and "sorted (map fst gs)" and "j < length (guesses i gs s)" and "guesses i gs s ! j = Inr ()"
  shows "(j = 0 \<or> int j + n < 5) \<and> snd (gs ! j) = code \<and>
    (\<forall>k < length (guesses i gs s). k \<noteq> j \<longrightarrow> is_error (guesses i gs s ! k))"
  using assms
proof (induction gs arbitrary: n s j)
  case (Cons g gs)
  obtain now otp where g: "g = (now, otp)" by (cases g)
  define t where "t = snd (verify_otp now i otp s)"
  have answers: "guesses i (g # gs) s = fst (verify_otp now i otp s) # guesses i gs t" by (simp add: g t_def split: prod.split)
  have gone: "is_error (guesses i gs t ! k)"
    if "\<And>n. now \<le> n \<Longrightarrow> kv_get n (key_emailOtp i) (au_kv t) = None" "k < length (guesses i gs t)" for k
    using Cons.prems(2) that by (intro guesses_none) (auto simp: g)
  have first: "j = 0 \<and> (\<forall>k < length (guesses i (g # gs) s). k \<noteq> 0 \<longrightarrow> is_error (guesses i (g # gs) s ! k))"
    if dead: "\<And>n. now \<le> n \<Longrightarrow> kv_get n (key_emailOtp i) (au_kv t) = None"
  proof -
    have tail: "is_error (guesses i (g # gs) s ! Suc k)" if "Suc k < length (guesses i (g # gs) s)" for k
      using gone[OF dead, of k] that by (simp add: answers)
    then have "j = 0" using Cons.prems(3,4) is_error_simps(2)[of "()"] by (cases j) (auto simp del: guesses.simps is_error_simps, metis)
    then show ?thesis using tail by (metis not0_implies_Suc)
  qed
  show ?case
  proof (cases rule: verify_cases[OF Cons.prems(1), of now otp])
    case 1
    then have "now \<le> m \<Longrightarrow> kv_get m (key_emailOtp i) (au_kv t) = None" for m
      using kv.get_expired[of now "key_emailOtp i" "au_kv s" m] by (simp add: t_def)
    then show ?thesis using first 1(2) Cons.prems(4) unfolding answers by auto
  next
    case 2
    then have "kv_get m (key_emailOtp i) (au_kv t) = None" for m by (simp add: t_def)
    then show ?thesis using first 2(1) by (simp add: g)
  next
    case 3
    then have "kv_get m (key_emailOtp i) (au_kv t) = None" for m by (simp add: t_def)
    then show ?thesis using first 3(2) Cons.prems(4) unfolding answers by auto
  next
    case 4
    then obtain j' where j: "j = Suc j'" using Cons.prems(4) unfolding answers by (cases j) auto
    have IH: "(j' = 0 \<or> int j' + (n + 1) < 5) \<and> snd (gs ! j') = code \<and>
      (\<forall>k < length (guesses i gs t). k \<noteq> j' \<longrightarrow> is_error (guesses i gs t ! k))"
      using Cons.prems(2-4) 4(3) by (intro Cons.IH) (auto simp: j answers t_def)
    then show ?thesis using 4(1,2) unfolding answers j by (auto simp: nth_Cons split: nat.splits)
  qed
qed simp

text \<open>
  A verification code stands five guesses. After a code has been generated and sent, whatever is
  guessed afterwards and however often, until a new one is sent: only one of the first five guesses can be
  accepted, the accepted guess is the code, and every other guess, before or after it, is refused.
\<close>

lemma code_stands_five_guesses:
  assumes "sorted (map fst gs)" and "j < length gs"
    and "guesses i gs (generateAndSend now w i email s) ! j = Inr ()"
  shows "j < 5 \<and> snd (gs ! j) = generateOtp w \<and>
    (\<forall>k < length gs. k \<noteq> j \<longrightarrow> is_error (guesses i gs (generateAndSend now w i email s) ! k))"
proof -
  have len: "length (guesses i gs t) = length gs" for t
    by (induction gs arbitrary: t) (auto split: prod.split)
  have "otp_after (generateOtp w) 0 i (generateAndSend now w i email s)"
    by (auto simp: otp_after_def auth_primitives split: if_splits)
  from guesses_after[OF this assms(1) _ assms(3)] assms(2) show ?thesis by (auto simp: len)
qed

end
