(* ===== verification/Auth_Lockout.thy ===== *)
theory Auth_Lockout
  imports Auth_Safety
begin

text \<open>
  A company that has just registered is locked out. Its only user is inactive until the address is
  verified, logging in needs an active user, and verifying the address needs an access token. The
  invariant follows the users of the company, the invitations and refresh tokens in the store and the
  access tokens handed out through every request of the three controllers.
\<close>

section \<open>The invariant\<close>

lemma mem_tbl_update: "(j, x) \<in> set (tbl_update i f t) \<longleftrightarrow> (\<exists>y. (j, y) \<in> set t \<and> x = (if j = i then f y else y))"
  by (force simp: tbl_update_def)

definition of_company :: "id \<Rightarrow> auth_db \<Rightarrow> id \<Rightarrow> bool" where
  "of_company c s i \<longleftrightarrow> (case user_employee i s of None \<Rightarrow> False | Some (e, r) \<Rightarrow> em_companyId r = c)"

text \<open>Verifying gives back what was signed.\<close>

definition faithful :: "'tok jwt \<Rightarrow> bool" where
  "faithful j \<longleftrightarrow> (\<forall>t p n b q. jw_verify j n b (jw_sign j t p) = Some q \<longrightarrow> q = p)"

definition outside :: "id \<Rightarrow> auth_db \<Rightarrow> id \<Rightarrow> id \<Rightarrow> bool" where
  "outside c s company i \<longleftrightarrow> company \<noteq> c \<and> \<not> of_company c s i"

definition locked :: "'tok auth_env \<Rightarrow> id \<Rightarrow> id \<Rightarrow> auth_db \<Rightarrow> 'tok set \<Rightarrow> bool" where
  "locked en c w s K \<longleftrightarrow>
     (\<forall>i x. of_company c s i \<longrightarrow> (i, x) \<in> set (au_users s) \<longrightarrow> \<not> us_isActive x) \<and>
     (\<forall>n h v i. kv_get n (key_inviteToken h) (au_kv s) = Some v \<longrightarrow> value_userId v = Some i \<longrightarrow> \<not> of_company c s i) \<and>
     (\<forall>n h m. kv_get n (key_refreshToken h) (au_kv s) = Some (RefreshMeta m) \<longrightarrow> outside c s (rm_companyId m) (rm_userId m)) \<and>
     (\<forall>tok \<in> K. \<forall>n b p. jw_verify (en_jwt en) n b tok = Some p \<longrightarrow> outside c s (ap_companyId p) (ap_sub p)) \<and>
     of_company c s w"

lemma lockedD:
  assumes "locked en c w s K"
  shows "of_company c s i \<Longrightarrow> (i, x) \<in> set (au_users s) \<Longrightarrow> \<not> us_isActive x"
    and "kv_get n (key_inviteToken h) (au_kv s) = Some v \<Longrightarrow> value_userId v = Some i \<Longrightarrow> \<not> of_company c s i"
    and "kv_get n (key_refreshToken h) (au_kv s) = Some (RefreshMeta m) \<Longrightarrow> outside c s (rm_companyId m) (rm_userId m)"
    and "tok \<in> K \<Longrightarrow> jw_verify (en_jwt en) n b tok = Some p \<Longrightarrow> outside c s (ap_companyId p) (ap_sub p)"
    and "of_company c s w"
  using assms unfolding locked_def by blast+

lemma of_company_employee: "of_company c s i \<Longrightarrow> \<exists>(e, r) \<in> set (au_employees s). em_companyId r = c"
  by (auto simp: of_company_def user_employee_def dest: tbl_find_Some split: option.splits)

text \<open>How a request may change the state without opening the lock.\<close>

lemma locked_step:
  assumes "locked en c w s K" and "\<And>i. of_company c t i = of_company c s i"
    and "\<And>i x. of_company c s i \<Longrightarrow> (i, x) \<in> set (au_users t) \<Longrightarrow> us_isActive x \<Longrightarrow>
      \<exists>y. (i, y) \<in> set (au_users s) \<and> us_isActive y"
    and "\<And>n h v. kv_get n (key_inviteToken h) (au_kv t) = Some v \<Longrightarrow>
      kv_get n (key_inviteToken h) (au_kv s) = Some v \<or> (\<forall>i. value_userId v = Some i \<longrightarrow> \<not> of_company c s i)"
    and "\<And>n h m. kv_get n (key_refreshToken h) (au_kv t) = Some (RefreshMeta m) \<Longrightarrow>
      kv_get n (key_refreshToken h) (au_kv s) = Some (RefreshMeta m) \<or> outside c s (rm_companyId m) (rm_userId m)"
    and "\<And>tok n b p. tok \<in> M \<Longrightarrow> jw_verify (en_jwt en) n b tok = Some p \<Longrightarrow> outside c s (ap_companyId p) (ap_sub p)"
  shows "locked en c w t (K \<union> M)"
proof -
  have out: "outside c t k i = outside c s k i" for k i by (simp add: outside_def assms(2))
  show ?thesis unfolding locked_def out assms(2)
  proof (intro conjI allI impI ballI)
    show "\<not> us_isActive x" if "of_company c s i" "(i, x) \<in> set (au_users t)" for i x
      using that assms(3) lockedD(1)[OF assms(1)] by blast
    show "\<not> of_company c s i" if "kv_get n (key_inviteToken h) (au_kv t) = Some v" "value_userId v = Some i" for n h v i
      using that assms(4) lockedD(2)[OF assms(1)] by blast
    show "outside c s (rm_companyId m) (rm_userId m)" if "kv_get n (key_refreshToken h) (au_kv t) = Some (RefreshMeta m)" for n h m
      using that assms(5) lockedD(3)[OF assms(1)] by blast
    show "outside c s (ap_companyId p) (ap_sub p)" if "tok \<in> K \<union> M" "jw_verify (en_jwt en) n b tok = Some p" for tok n b p
      using that assms(6) lockedD(4)[OF assms(1)] by blast
    show "of_company c s w" by (rule lockedD(5)[OF assms(1)])
  qed
qed

section \<open>Quiet requests\<close>

text \<open>A quiet request activates nobody, invites nobody, issues nothing and leaves employees alone.\<close>

definition quiet :: "auth_db \<Rightarrow> auth_db \<Rightarrow> bool" where
  "quiet s t \<longleftrightarrow> au_employees t = au_employees s \<and>
     (\<forall>i x. (i, x) \<in> set (au_users t) \<longrightarrow> us_isActive x \<longrightarrow> (\<exists>y. (i, y) \<in> set (au_users s) \<and> us_isActive y)) \<and>
     (\<forall>n h v. kv_get n (key_inviteToken h) (au_kv t) = Some v \<longrightarrow> kv_get n (key_inviteToken h) (au_kv s) = Some v) \<and>
     (\<forall>n h v. kv_get n (key_refreshToken h) (au_kv t) = Some v \<longrightarrow> kv_get n (key_refreshToken h) (au_kv s) = Some v)"

lemma quiet_refl [simp]: "quiet s s"
  by (auto simp: quiet_def)

lemma of_company_employees: "au_employees t = au_employees s \<Longrightarrow> of_company c t i = of_company c s i"
  by (simp add: of_company_def user_employee_def)

lemma locked_quiet: "locked en c w s K \<Longrightarrow> quiet s t \<Longrightarrow> locked en c w t K"
  using locked_step[of en c w s K t "{}"] of_company_employees[of t s c] unfolding quiet_def by fastforce

lemma quietI:
  assumes "au_employees t = au_employees s" and "au_users t = au_users s"
    and "\<And>h. keeps (key_inviteToken h) s t" and "\<And>h. keeps (key_refreshToken h) s t"
  shows "quiet s t"
  using assms by (auto simp: quiet_def keeps_def)

lemma role_handlers_frame [simp]:
  "au_employees (snd (createRole i k name d s)) = au_employees s" "au_users (snd (createRole i k name d s)) = au_users s"
  "au_employees (snd (updateRole now k r name' d s)) = au_employees s" "au_users (snd (updateRole now k r name' d s)) = au_users s"
  "au_employees (snd (deleteRole en now k r s)) = au_employees s" "au_users (snd (deleteRole en now k r s)) = au_users s"
  "au_employees (snd (replacePermissions now k r ps s)) = au_employees s" "au_users (snd (replacePermissions now k r ps s)) = au_users s"
  "au_employees (snd (assignRoles k i rs s)) = au_employees s" "au_users (snd (assignRoles k i rs s)) = au_users s"
  "au_employees (snd (removeRole k i r s)) = au_employees s" "au_users (snd (removeRole k i r s)) = au_users s"
proof -
  show "au_employees (snd (createRole i k name d s)) = au_employees s" "au_users (snd (createRole i k name d s)) = au_users s"
    by (simp_all add: createRole_def)
  show "au_employees (snd (updateRole now k r name' d s)) = au_employees s" "au_users (snd (updateRole now k r name' d s)) = au_users s"
    by (simp_all add: updateRole_def invalidateCompany_def split: option.split)
  show "au_employees (snd (deleteRole en now k r s)) = au_employees s" "au_users (snd (deleteRole en now k r s)) = au_users s"
    by (simp_all add: deleteRole_def remove_role_row_def invalidateCompany_def split: option.split)
  show "au_employees (snd (replacePermissions now k r ps s)) = au_employees s" "au_users (snd (replacePermissions now k r ps s)) = au_users s"
    by (simp_all add: replacePermissions_def Let_def invalidateCompany_def split: option.split)
  show "au_employees (snd (assignRoles k i rs s)) = au_employees s" "au_users (snd (assignRoles k i rs s)) = au_users s"
    by (auto simp: assignRoles_def assign_role_rows_def invalidateUser_def split: sum.split prod.split)
  show "au_employees (snd (removeRole k i r s)) = au_employees s" "au_users (snd (removeRole k i r s)) = au_users s"
    by (auto simp: removeRole_def invalidateUser_def split: sum.split prod.split)
qed

lemma quiet_roles:
  "quiet s (snd (createRole i k name d s))"
  "quiet s (snd (updateRole now k r name' d s))"
  "quiet s (snd (deleteRole en now k r s))"
  "quiet s (snd (replacePermissions now k r ps s))"
  "quiet s (snd (assignRoles k i rs s))"
  "quiet s (snd (removeRole k i r s))"
  "quiet s (snd (getUserPermissions now i k s))"
  by (rule quietI; simp)+

text \<open>Writes to a user that do not activate it.\<close>

lemma quiet_update:
  assumes "\<And>x. us_isActive (f x) \<Longrightarrow> us_isActive x" and "au_employees t = au_employees s" and "au_users t = tbl_update i f (au_users s)"
    and "\<And>n h. kv_get n (key_inviteToken h) (au_kv t) = kv_get n (key_inviteToken h) (au_kv s)"
    and "\<And>n h v. kv_get n (key_refreshToken h) (au_kv t) = Some v \<Longrightarrow> kv_get n (key_refreshToken h) (au_kv s) = Some v"
  shows "quiet s t"
  unfolding quiet_def using assms by (auto simp: mem_tbl_update split: if_splits)

lemma quiet_resetPassword: "quiet s (snd (resetPassword en now fv token password s))"
proof (cases "snd (resetPassword en now fv token password s) = s")
  case False
  then obtain i k where t: "snd (resetPassword en now fv token password s) =
      (s\<lparr>au_users := tbl_update i (\<lambda>x. x\<lparr>us_passwordHash := en_hash en (fv_salt fv) password\<rparr>) (au_users s),
         au_kv := revokeUser now i (kv_set now (key_passwordResetToken k) (ResetMeta i (Some now)) 3600 (au_kv s))\<rparr>)"
    unfolding resetPassword_def auth_primitives
    by (auto split: option.splits redis_value.splits if_splits)
  show ?thesis unfolding t
    by (rule quiet_update[where i = i and f = "\<lambda>x. x\<lparr>us_passwordHash := en_hash en (fv_salt fv) password\<rparr>"])
      (auto simp: revokeUser_def dest: revoke_where_shrinks)
qed simp

lemma quiet_updateUser: "quiet s (snd (updateUser k i dto s))"
proof (cases "getUser k i s")
  case (Inr x)
  then show ?thesis unfolding updateUser_def update_user_def by (auto simp: quiet_def mem_tbl_update split: if_splits)
qed (simp add: updateUser_def)

lemma quiet_forgotPassword: "quiet s (forgotPassword en now fv email s)"
  by (rule quietI) (auto simp: forgotPassword_def keeps_def auth_primitives split: option.split)

lemma quiet_generate: "quiet s (generateAndSend now n i email s)"
  by (rule quietI) (simp_all add: keeps_def auth_primitives)

lemma quiet_resendVerification: "quiet s (snd (resendVerification now fv i s))"
  by (auto simp: resendVerification_def quiet_generate split: option.split)

lemma quiet_logout: "quiet s (logout now ctx s)"
  by (auto simp: quiet_def logout_def revokeSession_def dest: revoke_where_shrinks)

lemma quiet_trans: "quiet s t \<Longrightarrow> quiet t u \<Longrightarrow> quiet s u"
  unfolding quiet_def by metis

section \<open>Requests that activate, invite or issue\<close>

lemma not_active_outside:
  "locked en c w s K \<Longrightarrow> (i, u) \<in> set (au_users s) \<Longrightarrow> us_isActive u \<Longrightarrow> \<not> of_company c s i"
  using lockedD(1) by blast

lemma of_company_outside: "user_employee i s = Some emp \<Longrightarrow> \<not> of_company c s i \<Longrightarrow> outside c s (em_companyId (snd emp)) i"
  by (cases emp) (simp add: outside_def of_company_def)

lemma user_by_email_mem: "user_by_email email s = Some (i, u) \<Longrightarrow> (i, u) \<in> set (au_users s)"
  by (auto simp: user_by_email_def dest: tbl_find_Some)

text \<open>Opening a session for a user outside the company, after a write that does not activate.\<close>

lemma locked_session:
  assumes "locked en c w s K" and "faithful (en_jwt en)" and "\<not> of_company c s i" and "user_employee i s = Some emp"
    and "open_session en now fv i email emp s2 = (r, s1)" and "au_kv s2 = au_kv s"
    and "au_employees t = au_employees s" and "au_kv t = au_kv s1"
    and "\<And>j x. (j, x) \<in> set (au_users t) \<Longrightarrow> us_isActive x \<Longrightarrow> j = i \<or> (\<exists>y. (j, y) \<in> set (au_users s) \<and> us_isActive y)"
  shows "locked en c w t (K \<union> handed_out (Inr (Some r)))"
proof (rule locked_step[OF assms(1)])
  note out = of_company_outside[OF assms(4,3)]
  show "of_company c t j = of_company c s j" for j by (rule of_company_employees[OF assms(7)])
  show "\<exists>y. (j, y) \<in> set (au_users s) \<and> us_isActive y"
    if "of_company c s j" "(j, x) \<in> set (au_users t)" "us_isActive x" for j x
    using that assms(9) assms(3) by blast
  show "kv_get n (key_inviteToken h) (au_kv s) = Some v \<or> (\<forall>i. value_userId v = Some i \<longrightarrow> \<not> of_company c s i)"
    if "kv_get n (key_inviteToken h) (au_kv t) = Some v" for n h v
    using that assms(5,6,8) by (auto simp: open_session_eq)
  show "kv_get n (key_refreshToken h) (au_kv s) = Some (RefreshMeta m) \<or> outside c s (rm_companyId m) (rm_userId m)"
    if "kv_get n (key_refreshToken h) (au_kv t) = Some (RefreshMeta m)" for n h m
    using that assms(5,6,8) out by (auto simp: open_session_eq split: if_splits)
  show "outside c s (ap_companyId p) (ap_sub p)"
    if "tok \<in> handed_out (Inr (Some r))" "jw_verify (en_jwt en) n b tok = Some p" for tok n b p
  proof -
    define q where "q = \<lparr>ap_sub = i, ap_companyId = em_companyId (snd emp), ap_email = email,
      ap_roles = employee_role_ids (fst emp) s2, ap_sessionId = fv_sessionId fv\<rparr>"
    have "tok = jw_sign (en_jwt en) now q" using that(1) assms(5) by (auto simp: open_session_eq signAccessToken_def q_def)
    then have "p = q" using assms(2) that(2) unfolding faithful_def by metis
    then show ?thesis using out by (simp add: q_def)
  qed
qed

lemma locked_login:
  assumes "locked en c w s K" and "faithful (en_jwt en)" and "login en now fv email password s = (r, t)"
  shows "locked en c w t (K \<union> handed_out (map_sum id Some r))"
proof (cases "t = s \<and> handed_out (map_sum id Some r) = {}")
  case False
  then obtain i u emp r2 s1 where f: "user_by_email email s = Some (i, u)" "us_isActive u" "user_employee i s = Some emp"
    "open_session en now fv i (us_email u) emp s = (r2, s1)" "r = Inr r2"
    "t = update_user i (\<lambda>x. x\<lparr>us_lastLoginAt := Some now, us_passwordHash := (if en_needsRehash en (us_passwordHash u)
        then en_hash en (fv_salt fv) password else us_passwordHash x)\<rparr>) s1"
    using assms(3) by (auto simp: login_def split: option.splits if_splits prod.splits)
  have out: "\<not> of_company c s i" using not_active_outside[OF assms(1) user_by_email_mem[OF f(1)] f(2)] .
  have "au_users s1 = au_users s" "au_employees s1 = au_employees s" using f(4) by (auto simp: open_session_eq)
  then have "locked en c w t (K \<union> handed_out (Inr (Some r2)))"
    by (intro locked_session[OF assms(1,2) out f(3,4)])
      (auto simp: f(6) update_user_def mem_tbl_update split: if_splits)
  then show ?thesis by (simp add: f(5))
qed (use assms(1) in simp)

lemma locked_sso:
  assumes "locked en c w s K" and "faithful (en_jwt en)" and "loginWithSsoProfile en now fv profile s = (r, t)"
  shows "locked en c w t (K \<union> handed_out (map_sum id Some r))"
proof (cases "t = s \<and> handed_out (map_sum id Some r) = {}")
  case False
  then obtain i u emp r2 s1 where f: "user_by_email (toLowerCase (sp_email profile)) s = Some (i, u)" "us_isActive u"
    "user_employee i s = Some emp" "open_session en now fv i (us_email u) emp s = (r2, s1)" "r = Inr r2"
    "t = update_user i (\<lambda>x. x\<lparr>us_lastLoginAt := Some now,
       us_avatarUrl := (case us_avatarUrl u of None \<Rightarrow> sp_avatarUrl profile | Some a \<Rightarrow> Some a)\<rparr>) s1"
    using assms(3) by (auto simp: loginWithSsoProfile_def split: option.splits if_splits prod.splits)
  have out: "\<not> of_company c s i" using not_active_outside[OF assms(1) user_by_email_mem[OF f(1)] f(2)] .
  have "au_users s1 = au_users s" "au_employees s1 = au_employees s" using f(4) by (auto simp: open_session_eq)
  then have "locked en c w t (K \<union> handed_out (Inr (Some r2)))"
    by (intro locked_session[OF assms(1,2) out f(3,4)])
      (auto simp: f(6) update_user_def mem_tbl_update split: if_splits)
  then show ?thesis by (simp add: f(5))
qed (use assms(1) in simp)

lemma locked_acceptInvite:
  assumes "locked en c w s K" and "faithful (en_jwt en)" and "acceptInvite en now fv token password s = (r, t)"
  shows "locked en c w t (K \<union> handed_out (map_sum id Some r))"
proof (cases "t = s \<and> handed_out (map_sum id Some r) = {}")
  case False
  let ?key = "key_inviteToken (en_sha en token)"
  let ?f = "\<lambda>x. x\<lparr>us_passwordHash := en_hash en (fv_salt fv) password, us_isActive := True\<rparr>"
  obtain meta i u where f: "kv_get now ?key (au_kv s) = Some meta" "value_userId meta = Some i" "tbl_get i (au_users s) = Some u"
    using assms(3) False by (auto simp: acceptInvite_def Let_def split: option.splits)
  define s2 where "s2 = (update_user i ?f s)\<lparr>au_kv := kv_del ?key (au_kv s)\<rparr>"
  have out: "\<not> of_company c s i" using lockedD(2)[OF assms(1) f(1,2)] .
  have s2: "au_employees s2 = au_employees s" "user_employee i s2 = user_employee i s"
    by (simp_all add: s2_def update_user_def user_employee_def)
  have "locked en c w s2 (K \<union> {})"
    by (rule locked_step[OF assms(1)])
      (use out in \<open>auto simp: s2_def of_company_def user_employee_def update_user_def mem_tbl_update split: if_splits\<close>)
  then have locked2: "locked en c w s2 K" by simp
  have out2: "\<not> of_company c s2 i" using out of_company_employees[OF s2(1)] by simp
  show ?thesis
  proof (cases "user_employee i s2")
    case None
    then have "t = s2" "is_error r" using assms(3) f by (auto simp: acceptInvite_def Let_def s2_def update_user_def)
    then show ?thesis using locked2 by (cases r) auto
  next
    case (Some emp)
    obtain r2 s3 where o: "open_session en now fv i (us_email u) emp s2 = (r2, s3)" by fastforce
    have t: "r = Inr r2" "t = invalidateUser i s3"
      using assms(3) f Some o by (auto simp: acceptInvite_def Let_def s2_def update_user_def)
    have locked3: "locked en c w s3 (K \<union> handed_out (Inr (Some r2)))"
      by (rule locked_session[OF locked2 assms(2) out2 Some o]) (use o in \<open>auto simp: open_session_eq\<close>)
    have "quiet s3 t" by (rule quietI) (simp_all add: t(2) invalidateUser_def keeps_def)
    then show ?thesis using locked_quiet[OF locked3] t(1) by simp
  qed
qed (use assms(1) in simp)

lemma locked_refresh:
  assumes "locked en c w s K" and "faithful (en_jwt en)" and "refresh_endpoint en now fv raw auth s = (r, t)"
  shows "locked en c w t (K \<union> handed_out (map_sum id Some r))"
proof (cases "raw = None \<or> is_error (extractSessionIdFromExpiredToken en now auth)")
  case True
  then have "t = s" "is_error r" using assms(3) by (auto simp: refresh_endpoint_def split: option.splits sum.splits)
  then show ?thesis using assms(1) by (cases r) auto
next
  case False
  then obtain w sid where w: "raw = Some w" "extractSessionIdFromExpiredToken en now auth = Inr sid"
    by (cases "extractSessionIdFromExpiredToken en now auth") auto
  obtain q kv where rot: "rotateRefreshToken (en_sha en) (en_jwt en) now (fv_token fv) (fv_sessionId fv) w sid (au_kv s) = (q, kv)" by fastforce
  have foreign: "kv_get n k kv = kv_get n k (au_kv s)" if "\<not> is_refresh_key k" for n k
    using rotate_kv[OF that] rot by (metis snd_conv)
  consider "is_error q" "kv = au_kv s \<or> kv = revokeSession now sid (au_kv s)"
    | m where "q = Inr (signAccessToken (en_jwt en) now \<lparr>ap_sub = rm_userId m, ap_companyId = rm_companyId m, ap_email = rm_email m,
          ap_roles = rm_roles m, ap_sessionId = fv_sessionId fv\<rparr>, fv_token fv)"
        "kv_get now (key_refreshToken (en_sha en w)) (au_kv s) = Some (RefreshMeta m)"
        "kv = kv_set now (key_refreshToken (en_sha en (fv_token fv))) (RefreshMeta (m\<lparr>rm_sessionId := fv_sessionId fv, rm_issuedAt := now\<rparr>))
          604800 (kv_del (key_refreshToken (en_sha en w)) (au_kv s))"
    using rot unfolding rotateRefreshToken_def token_defs
    by (auto split: option.splits redis_value.splits if_splits)
  then show ?thesis
  proof cases
    case 1
    have shrinks: "kv_get n k kv = Some v \<Longrightarrow> kv_get n k (au_kv s) = Some v" for n k v
      using 1(2) by (auto simp: revokeSession_def dest: revoke_where_shrinks)
    have "quiet s t"
      using 1(1) w rot assms(3) shrinks by (auto simp: refresh_endpoint_def quiet_def split: sum.splits prod.splits)
    moreover have "handed_out (map_sum id Some r) = {}"
      using 1(1) w rot assms(3) by (cases q) (auto simp: refresh_endpoint_def)
    ultimately show ?thesis using locked_quiet[OF assms(1)] by simp
  next
    case (2 m)
    let ?p = "\<lparr>ap_sub = rm_userId m, ap_companyId = rm_companyId m, ap_email = rm_email m, ap_roles = rm_roles m, ap_sessionId = fv_sessionId fv\<rparr>"
    have t: "t = s\<lparr>au_kv := kv\<rparr>" "r = Inr (Tokens (jw_sign (en_jwt en) now ?p) (fv_token fv))"
      using assms(3) w rot 2(1) by (auto simp: refresh_endpoint_def signAccessToken_def)
    have out: "outside c s (rm_companyId m) (rm_userId m)" using lockedD(3)[OF assms(1) 2(2)] .
    show ?thesis
    proof (rule locked_step[OF assms(1)])
      show "of_company c t j = of_company c s j" for j by (rule of_company_employees) (simp add: t(1))
      show "outside c s (ap_companyId p) (ap_sub p)"
        if "tok \<in> handed_out (map_sum id Some r)" "jw_verify (en_jwt en) n b tok = Some p" for tok n b p
      proof -
        have "tok = jw_sign (en_jwt en) now ?p" using that(1) by (simp add: t(2))
        then have "p = ?p" using assms(2) that(2) unfolding faithful_def by metis
        then show ?thesis using out by simp
      qed
    qed (use out in \<open>auto simp: t(1) 2(3) split: if_splits\<close>)
  qed
qed

lemma locked_verifyEmail:
  assumes "locked en c w s K" and "\<not> of_company c s i"
  shows "locked en c w (snd (verifyEmail now i otp s)) K"
proof -
  have otp: "quiet s (snd (verify_otp now i otp s))"
    by (rule quietI) (auto simp: verify_otp_def keeps_def auth_primitives split: option.splits redis_value.splits)
  have "snd (verifyEmail now i otp s) = snd (verify_otp now i otp s) \<or>
      snd (verifyEmail now i otp s) = update_user i (\<lambda>x. x\<lparr>us_isActive := True\<rparr>) (snd (verify_otp now i otp s))"
    by (auto simp: verifyEmail_def split: prod.splits sum.splits)
  then show ?thesis
  proof
    assume "snd (verifyEmail now i otp s) = snd (verify_otp now i otp s)"
    then show ?thesis using locked_quiet[OF assms(1) otp] by simp
  next
    assume t: "snd (verifyEmail now i otp s) = update_user i (\<lambda>x. x\<lparr>us_isActive := True\<rparr>) (snd (verify_otp now i otp s))"
    have "locked en c w (update_user i (\<lambda>x. x\<lparr>us_isActive := True\<rparr>) (snd (verify_otp now i otp s))) (K \<union> {})"
    proof (rule locked_step[OF assms(1)])
      show "of_company c (update_user i (\<lambda>x. x\<lparr>us_isActive := True\<rparr>) (snd (verify_otp now i otp s))) j = of_company c s j" for j
        using otp by (intro of_company_employees) (simp add: update_user_def quiet_def)
    qed (use otp assms(2) in \<open>auto simp: update_user_def mem_tbl_update quiet_def split: if_splits\<close>)
    then show ?thesis by (simp add: t)
  qed
qed

lemma locked_setActive:
  assumes "locked en c w s K" and "k \<noteq> c"
  shows "locked en c w (snd (setActive now k i b s)) K"
proof (cases "getUser k i s")
  case (Inr x)
  obtain u e r where x: "x = (u, e, r)" by (cases x)
  then have "\<not> of_company c s i" using Inr assms(2) by (auto simp: of_company_def getUser_def split: option.splits if_splits)
  then have "locked en c w (snd (setActive now k i b s)) (K \<union> {})"
    by (intro locked_step[OF assms(1)])
      (auto simp: setActive_def Inr x update_user_def revokeUser_def mem_tbl_update of_company_def user_employee_def
         split: if_splits dest: revoke_where_shrinks)
  then show ?thesis by simp
qed (simp add: setActive_def assms(1))

lemma locked_resendInvite:
  assumes "locked en c w s K" and "k \<noteq> c"
  shows "locked en c w (snd (resendInvite en now fv k i s)) K"
proof (cases "getUser k i s")
  case (Inr x)
  obtain u e r where x: "x = (u, e, r)" by (cases x)
  then have "\<not> of_company c s i" using Inr assms(2) by (auto simp: of_company_def getUser_def split: option.splits if_splits)
  then have "locked en c w (snd (resendInvite en now fv k i s)) (K \<union> {})"
    by (intro locked_step[OF assms(1)])
      (auto simp: resendInvite_def Inr x auth_primitives of_company_def user_employee_def split: if_splits)
  then show ?thesis by simp
qed (simp add: resendInvite_def assms(1))

text \<open>A user created in another company, inactive, with or without an invitation.\<close>

lemma of_company_insert:
  assumes "au_employees t = tbl_insert e r (au_employees s)" and "em_userId r = Some u" and "user_employee u s = None" and "em_companyId r \<noteq> c"
  shows "of_company c t i = of_company c s i" and "\<not> of_company c s u"
proof -
  have "user_employee i t = (case user_employee i s of None \<Rightarrow> if u = i then Some (e, r) else None | Some x \<Rightarrow> Some x)"
    using assms(1,2) by (simp add: user_employee_def tbl_find_insert)
  then show "of_company c t i = of_company c s i" using assms(3,4) by (auto simp: of_company_def split: option.splits)
  show "\<not> of_company c s u" using assms(3) by (simp add: of_company_def)
qed

lemma locked_new_user:
  assumes "locked en c w s K" and "au_employees t = tbl_insert e r (au_employees s)" and "em_userId r = Some u"
    and "user_employee u s = None" and "em_companyId r \<noteq> c" and "au_users t = tbl_insert u x (au_users s)" and "\<not> us_isActive x"
    and "\<And>n h v. kv_get n (key_inviteToken h) (au_kv t) = Some v \<Longrightarrow> kv_get n (key_inviteToken h) (au_kv s) = Some v \<or> v = InviteMeta u"
    and "\<And>n h. kv_get n (key_refreshToken h) (au_kv t) = kv_get n (key_refreshToken h) (au_kv s)"
  shows "locked en c w t K"
proof -
  note same = of_company_insert[OF assms(2-5)]
  have "locked en c w t (K \<union> {})"
    by (rule locked_step[OF assms(1)])
      (use assms(6-9) same in \<open>auto simp: tbl_insert_def assms(2)\<close>, fastforce+)
  then show ?thesis by simp
qed

lemma locked_inviteUser:
  assumes "locked en c w s K" and "k \<noteq> c"
  shows "locked en c w (snd (inviteUser en now fv k dto s)) K"
proof (cases "transaction (invite_tx now fv k dto) s")
  case (Pair res t)
  show ?thesis
  proof (cases res)
    case (Inl err)
    then have "t = s" using transaction_error[of "invite_tx now fv k dto" s err] Pair by simp
    then show ?thesis using assms(1) Pair Inl by (simp add: inviteUser_def)
  next
    case (Inr x)
    then have tx: "invite_tx now fv k dto s = (Inr x, t)" using Pair by (simp add: transaction_Inr)
    define t2 where "t2 = send_mail (invite_mail en (iv_email dto) ''You are invited to HR Platform''
                            ''You have been invited to join HR Platform.'' (fv_token fv))
                  (put_kv now (key_inviteToken (en_sha en (fv_token fv))) (InviteMeta (fv_userId fv)) (72 * 60 * 60) t)"
    from tx have "locked en c w t2 K"
    proof (rule invite_tx_Inr)
      fix number
      assume emp: "au_employees t = tbl_insert (fv_employeeId fv) (account_employee now k number (fv_userId fv) (iv_email dto)) (au_employees s)"
        and new: "user_employee (fv_userId fv) s = None"
        and users: "au_users t = tbl_insert (fv_userId fv) (new_user (iv_email dto) (iv_firstName dto) (iv_lastName dto) invite_hash) (au_users s)"
        and kv: "au_kv t = au_kv s"
      show ?thesis
        by (rule locked_new_user[OF assms(1) _ _ new, of t2 "fv_employeeId fv" "account_employee now k number (fv_userId fv) (iv_email dto)"])
          (use emp users kv assms(2) in \<open>auto simp: t2_def auth_primitives account_employee_def new_user_def split: if_splits\<close>)
    qed
    then show ?thesis using assms(1) Pair Inr by (simp add: inviteUser_def t2_def)
  qed
qed

lemma register_cases:
  assumes "unused fv s"
  obtains err where "register en now fv dto s = (Inl err, s)"
  | r t number where "register en now fv dto s = (Inr r, generateAndSend now (fv_otp fv) (fv_userId fv) (rg_email dto) t)"
      "rr_companyId r = fv_companyId fv" "rr_userId r = fv_userId fv" "user_employee (fv_userId fv) s = None"
      "au_employees t = tbl_insert (fv_employeeId fv) (account_employee now (fv_companyId fv) number (fv_userId fv) (rg_email dto)) (au_employees s)"
      "au_users t = tbl_insert (fv_userId fv) (new_user (rg_email dto) (rg_firstName dto) (rg_lastName dto) (en_hash en (fv_salt fv) (rg_password dto))) (au_users s)"
      "fresh (fv_userId fv) (au_users s)" "au_kv t = au_kv s"
proof (cases "user_by_email (rg_email dto) s")
  case (Some x)
  then show thesis using that(1) by (simp add: register_def)
next
  case None
  show thesis
  proof (cases "transaction (register_tx now fv (en_hash en (fv_salt fv) (rg_password dto)) dto) s")
    case (Pair res t)
    show thesis
    proof (cases res)
      case (Inl err)
      then have "t = s" using transaction_error[of "register_tx now fv (en_hash en (fv_salt fv) (rg_password dto)) dto" s err] Pair by simp
      then show thesis using that(1) None Pair Inl by (simp add: register_def)
    next
      case (Inr r)
      then have tx: "register_tx now fv (en_hash en (fv_salt fv) (rg_password dto)) dto s = (Inr r, t)" using Pair by (simp add: transaction_Inr)
      have company: "\<forall>(i, r) \<in> set (au_roles s). ro_companyId r \<noteq> fv_companyId fv" using assms by (simp add: unused_def)
      from tx company show thesis
      proof (rule register_tx_Inr)
        fix number a xs
        assume 1: "rr_companyId r = fv_companyId fv" "rr_userId r = fv_userId fv" "rr_email r = rg_email dto"
          and 2: "fresh (fv_userId fv) (au_users s)" "user_employee (fv_userId fv) s = None"
            "au_employees t = tbl_insert (fv_employeeId fv) (account_employee now (fv_companyId fv) number (fv_userId fv) (rg_email dto)) (au_employees s)"
            "au_users t = tbl_insert (fv_userId fv) (new_user (rg_email dto) (rg_firstName dto) (rg_lastName dto) (en_hash en (fv_salt fv) (rg_password dto))) (au_users s)"
            "au_kv t = au_kv s"
        show thesis
          by (rule that(2)[of r t number]) (use 1 2 None Pair Inr in \<open>simp_all add: register_def\<close>)
      qed
    qed
  qed
qed

lemma locked_register:
  assumes "locked en c w s K" and "unused fv s"
  shows "locked en c w (snd (register en now fv dto s)) K"
proof (cases rule: register_cases[OF assms(2), of en now dto])
  case (1 err)
  then show ?thesis using assms(1) by simp
next
  case (2 r t number)
  have "fv_companyId fv \<noteq> c" using of_company_employee[OF lockedD(5)[OF assms(1)]] assms(2) by (auto simp: unused_def)
  then have "locked en c w t K"
    by (intro locked_new_user[OF assms(1) 2(5) _ 2(4) _ 2(6)]) (auto simp: account_employee_def new_user_def 2(8))
  then show ?thesis using locked_quiet[OF _ quiet_generate] by (simp add: 2(1))
qed

section \<open>Every request\<close>

lemma locked_act:
  assumes "locked en c w s K" and "outside c s (rc_companyId ctx) (rc_userId ctx)"
  shows "locked en c w (snd (act en now fv ctx a s)) K"
proof -
  have out: "rc_companyId ctx \<noteq> c" "\<not> of_company c s (rc_userId ctx)" using assms(2) by (simp_all add: outside_def)
  show ?thesis
    by (cases a) (simp_all only: act.simps snd_no_answer snd_conv locked_verifyEmail[OF assms(1) out(2)] locked_setActive[OF assms(1) out(1)]
      locked_resendInvite[OF assms(1) out(1)] locked_inviteUser[OF assms(1) out(1)] assms(1)
      locked_quiet[OF assms(1) quiet_resendVerification] locked_quiet[OF assms(1) quiet_logout]
      locked_quiet[OF assms(1) quiet_roles(1)] locked_quiet[OF assms(1) quiet_roles(2)] locked_quiet[OF assms(1) quiet_roles(3)]
      locked_quiet[OF assms(1) quiet_roles(4)] locked_quiet[OF assms(1) quiet_roles(5)] locked_quiet[OF assms(1) quiet_roles(6)]
      locked_quiet[OF assms(1) quiet_updateUser])
qed

lemma handed_out_no_answer [simp]: "handed_out (fst (no_answer r)) = {}"
  by (cases "fst r") (simp_all add: no_answer_def)

lemma handed_out_act [simp]: "handed_out (fst (act en now fv ctx a s)) = {}"
  by (cases a) simp_all

lemma locked_Authorized:
  assumes "locked en c w s K" and "presented (Authorized req a) \<subseteq> K"
  shows "locked en c w (snd (handle en now fv (Authorized req a) s)) (K \<union> handed_out (fst (handle en now fv (Authorized req a) s)))"
proof (cases rule: handle_Authorized[of en now req s fv a])
  case (1 r s1)
  from 1(1) have "quiet s s1" by (rule jwt_canActivate_state) (simp_all add: quiet_roles)
  then show ?thesis using locked_quiet[OF assms(1)] 1(2,3) by (metis snd_conv sup_bot_right)
next
  case (2 token p ctx s1)
  have s1: "locked en c w s1 K" using locked_quiet[OF assms(1) quiet_roles(7)] 2(3) by simp
  have "outside c s (ap_companyId p) (ap_sub p)" using lockedD(4)[OF assms(1)] assms(2) 2(1,2) by auto
  then have "outside c s1 (rc_companyId ctx) (rc_userId ctx)"
    using 2(3-5) of_company_employees[of s1 s] by (simp add: outside_def)
  then have "locked en c w (snd (act en now fv ctx a s1)) K" by (rule locked_act[OF s1])
  then show ?thesis by (simp only: 2(6) handed_out_act sup_bot_right)
qed

lemma locked_handle:
  assumes "locked en c w s K" and "faithful (en_jwt en)" and "unused fv s" and "presented ev \<subseteq> K"
    and "handle en now fv ev s = (r, t)"
  shows "locked en c w t (K \<union> handed_out r)"
proof -
  have t: "t = snd (handle en now fv ev s)" "r = fst (handle en now fv ev s)" by (simp_all add: assms(5))
  show ?thesis
  proof (cases ev)
    case (Register dto)
    then show ?thesis using locked_register[OF assms(1,3)] by (simp add: t)
  next
    case (Login email password)
    show ?thesis unfolding t Login using locked_login[OF assms(1,2) surjective_pairing] by (simp add: give_def)
  next
    case (SsoLogin profile)
    show ?thesis unfolding t SsoLogin using locked_sso[OF assms(1,2) surjective_pairing] by (simp add: give_def)
  next
    case (Refresh raw auth)
    show ?thesis unfolding t Refresh using locked_refresh[OF assms(1,2) surjective_pairing] by (simp add: give_def)
  next
    case (ForgotPassword email)
    then show ?thesis using locked_quiet[OF assms(1) quiet_forgotPassword] by (simp add: t)
  next
    case (ResetPassword token password)
    then show ?thesis using locked_quiet[OF assms(1) quiet_resetPassword] by (simp add: t)
  next
    case (AcceptInvite token password)
    show ?thesis unfolding t AcceptInvite using locked_acceptInvite[OF assms(1,2) surjective_pairing] by (simp add: give_def)
  next
    case (Authorized req a)
    show ?thesis using locked_Authorized[OF assms(1)] assms(4) unfolding t Authorized .
  qed
qed

lemma account_user: "em_userId (account_employee now c n u email) = Some u"
  by (simp add: account_employee_def)

text \<open>Nothing issued so far names the company or the user that a registration creates.\<close>

definition unknown :: "'tok auth_env \<Rightarrow> fresh_values \<Rightarrow> auth_db \<Rightarrow> 'tok set \<Rightarrow> bool" where
  "unknown en fv s K \<longleftrightarrow>
     (\<forall>n h v. kv_get n (key_inviteToken h) (au_kv s) = Some v \<longrightarrow> value_userId v \<noteq> Some (fv_userId fv)) \<and>
     (\<forall>n h m. kv_get n (key_refreshToken h) (au_kv s) = Some (RefreshMeta m) \<longrightarrow> rm_companyId m \<noteq> fv_companyId fv \<and> rm_userId m \<noteq> fv_userId fv) \<and>
     (\<forall>tok \<in> K. \<forall>n b p. jw_verify (en_jwt en) n b tok = Some p \<longrightarrow> ap_companyId p \<noteq> fv_companyId fv \<and> ap_sub p \<noteq> fv_userId fv)"

lemma registered_locked:
  assumes "unused fv s" and "unknown en fv s K" and "register en now fv dto s = (Inr r, s1)"
  shows "locked en (rr_companyId r) (rr_userId r) s1 K"
proof (cases rule: register_cases[OF assms(1), of en now dto])
  case (1 err)
  then show ?thesis using assms(3) by simp
next
  case (2 r' t number)
  let ?c = "fv_companyId fv" let ?u = "fv_userId fv"
  have r: "r' = r" "s1 = generateAndSend now (fv_otp fv) ?u (rg_email dto) t" using 2(1) assms(3) by simp_all
  have none: "user_employee i s = Some (e, x) \<Longrightarrow> em_companyId x \<noteq> ?c" for i e x
    using assms(1) by (auto simp: unused_def user_employee_def dest!: tbl_find_Some)
  have "user_employee i t = (case user_employee i s of None \<Rightarrow> if ?u = i
      then Some (fv_employeeId fv, account_employee now ?c number ?u (rg_email dto)) else None | Some x \<Rightarrow> Some x)" for i
    using account_user[of now ?c number ?u "rg_email dto"] by (simp add: user_employee_def 2(5) tbl_find_insert)
  then have of: "of_company ?c t i \<longleftrightarrow> i = ?u" for i
    using none 2(4) by (auto simp: of_company_def account_employee_def split: option.splits)
  have "locked en ?c ?u t K" unfolding locked_def outside_def of
    using assms(2) 2(7) by (auto simp: unknown_def 2(6,8) 2(5) tbl_insert_def new_user_def fresh_def tbl_ids_def account_employee_def image_iff)
  then have "locked en ?c ?u s1 K" using locked_quiet[OF _ quiet_generate] by (simp add: r(2))
  then show ?thesis using 2(2,3) r(1) by simp
qed

text \<open>
  C22: Whoever registers is locked out for good. If verifying a token gives back what was signed, then
  after a successful registration, whatever requests follow, by anybody, to the endpoints of authentication,
  roles and users (the right verification code included), the registered user is never active and no access
  token for the new company is ever handed out: verifying the address needs a token, a token needs an active
  user, and an invitation needs a token of the company.
\<close>

theorem registration_locks_out:
  assumes "faithful (en_jwt en)" and "unused fv s" and "unknown en fv s K"
    and "register en now fv dto s = (Inr r, s1)" and "auth_run en P now s1 K u v L"
  shows "(\<forall>x. (rr_userId r, x) \<in> set (au_users v) \<longrightarrow> \<not> us_isActive x) \<and>
    (\<forall>tok \<in> L. \<forall>n b p. jw_verify (en_jwt en) n b tok = Some p \<longrightarrow> ap_companyId p \<noteq> rr_companyId r \<and> ap_sub p \<noteq> rr_userId r)"
proof -
  note start = registered_locked[OF assms(2-4)]
  have "locked en (rr_companyId r) (rr_userId r) v L"
    using assms(5) start
  proof (induction rule: auth_run.induct)
    case (request t s K u v L now fv ev q w)
    show ?case
      by (rule locked_handle[OF request.IH[OF request.prems] assms(1) request.hyps(3) request.hyps(6,7)])
  qed
  note D = lockedD[OF this]
  show ?thesis using D(1)[OF D(5)] D(4,5) unfolding outside_def by metis
qed

definition empty_db :: auth_db where
  "empty_db = \<lparr>au_users = [], au_companies = [], au_employees = [], au_roles = [], au_permissions = [], au_employeeRoles = [],
     au_rolePermissions = [], au_leaveTypes = [], au_salaryComponents = [], au_kv = [], au_mails = []\<rparr>"

definition example_registration :: register_dto where
  "example_registration = \<lparr>rg_companyName = ''Acme'', rg_country = ''BD'', rg_timezone = ''UTC'', rg_currency = ''BDT'',
     rg_firstName = ''A'', rg_lastName = ''B'', rg_email = ''a@x'', rg_password = ''pw''\<rparr>"

lemmas register_eval = register_tx_def Let_def example_fresh_def example_registration_def create_company_def create_user_def
  create_employee_def empty_db_def fresh_def tbl_ids_def tbl_find_def user_by_email_def tbl_insert_def find_role_def
  seedCompanyDefaults_def rolesData_def upsert_role_def grantAdminAllPermissions_def

theorem registration_locks_out_witness:
  "\<exists>r s1 v L. register example_env 0 example_fresh example_registration empty_db = (Inr r, s1)
     \<and> auth_run example_env (\<lambda>f. True) 0 s1 {} 5 v L \<and> au_users v \<noteq> []
     \<and> (\<forall>x. (rr_userId r, x) \<in> set (au_users v) \<longrightarrow> \<not> us_isActive x)"
proof -
  define company where "company = \<lparr>co_name = ''Acme'', co_slug = generateUniqueSlug ''s9'' ''Acme'' empty_db, co_country = ''BD'',
    co_timezone = ''UTC'', co_currency = ''BDT''\<rparr>"
  define r where "r = \<lparr>rr_companyId = ''c9'', rr_company = company, rr_userId = ''u9'', rr_email = ''a@x'', rr_isActive = False\<rparr>"
  define t where "t = snd (register_tx 0 example_fresh ''pw'' example_registration empty_db)"
  have tx: "register_tx 0 example_fresh ''pw'' example_registration empty_db = (Inr r, t)"
    by (simp add: t_def r_def company_def register_eval)
  define s1 where "s1 = generateAndSend 0 123456 ''u9'' ''a@x'' t"
  have reg: "register example_env 0 example_fresh example_registration empty_db = (Inr r, s1)"
    using tx by (simp add: register_def transaction_def s1_def example_env_def example_registration_def r_def
        user_by_email_def tbl_find_def empty_db_def example_fresh_def)
  have start: "unused example_fresh empty_db" "unknown example_env example_fresh empty_db {}"
    by (simp_all add: unused_def unknown_def empty_db_def kv_get_def)
  have jwt: "faithful (en_jwt example_env)" by (auto simp: faithful_def example_env_def plain_jwt_def)
  define f2 where "f2 = \<lparr>fv_companyId = ''c8'', fv_userId = ''u8'', fv_employeeId = ''e8'', fv_roleIds = [''r8''], fv_suffix = ''s8'', fv_salt = [],
     fv_token = ''t8'', fv_sessionId = ''n8'', fv_otp = 0\<rparr>"
  have "(\<forall>(i, e) \<in> set (au_employees t). em_companyId e \<noteq> ''c8'') \<and> (\<forall>(i, x) \<in> set (au_roles t). ro_companyId x \<noteq> ''c8'')
      \<and> (\<forall>(e, q) \<in> set (au_employeeRoles t). e \<noteq> ''e8'' \<and> q \<noteq> ''r8'') \<and> au_kv t = [] \<and> au_users t \<noteq> []"
    by (simp add: t_def register_eval account_employee_def)
  then have f2: "unused f2 s1" "au_users s1 \<noteq> []"
    by (auto simp: unused_def f2_def s1_def auth_primitives) (simp add: kv_get_def)
  let ?ev = "Login ''a@x'' ''pw'' :: (instant \<times> access_payload) auth_event"
  let ?v = "snd (handle example_env 5 f2 ?ev s1)"
  have run: "auth_run example_env (\<lambda>f. True) 0 s1 {} 5 ?v ({} \<union> handed_out (fst (handle example_env 5 f2 ?ev s1)))"
    by (rule run_one) (simp_all add: new_to_def f2)
  have "set (au_users ?v) \<noteq> {}"
    using f2(2) by (auto simp: give_def login_def open_session_eq update_user_def tbl_update_def split: option.splits if_splits)
  then have "au_users ?v \<noteq> []" by simp
  then show ?thesis using registration_locks_out[OF jwt start reg run] reg run by blast
qed

end
