(* ===== verification/Request_Audit.thy ===== *)
theory Request_Audit
  imports Audit_Log Js_String
begin

text \<open>
  The interceptor of \<^verbatim>\<open>auth/interceptors/audit.interceptor.ts\<close>, which is installed for all
  routes and writes the body of every changing request of a logged-in user to the audit log, after
  replacing the values of sensitive fields. The lemmas follow a value down a path of the body.
\<close>

section \<open>Sanitizing\<close>

definition SENSITIVE_FIELDS :: "string list" where
  "SENSITIVE_FIELDS = [''password'', ''passwordHash'', ''newPassword'', ''currentPassword'', ''token'', ''secret'', ''otp'']"

fun sanitizeAuditPayload :: "nat \<Rightarrow> json \<Rightarrow> json" where
  "sanitizeAuditPayload depth (JArr xs) =
     (if depth > 5 then JArr xs else JArr (map (sanitizeAuditPayload (depth + 1)) xs))"
| "sanitizeAuditPayload depth (JObj kvs) =
     (if depth > 5 then JObj kvs
      else JObj (map (\<lambda>(key, v). (key, if key \<in> set SENSITIVE_FIELDS then JStr ''[REDACTED]'' else sanitizeAuditPayload (depth + 1) v)) kvs))"
| "sanitizeAuditPayload depth v = v"

section \<open>The interceptor\<close>

definition AUDITED_METHODS :: "string list" where "AUDITED_METHODS = [''POST'', ''PATCH'', ''PUT'', ''DELETE'']"

definition methodToAction :: "string \<Rightarrow> string" where
  "methodToAction m = (if m = ''POST'' then ''create'' else if m = ''PATCH'' then ''update'' else if m = ''PUT'' then ''replace''
     else if m = ''DELETE'' then ''delete'' else ''mutate'')"

definition json_prop :: "string \<Rightarrow> json \<Rightarrow> json option" where
  "json_prop k v = (case v of JObj kvs \<Rightarrow> map_of kvs k | _ \<Rightarrow> None)"

text \<open>\<^verbatim>\<open>a ?? b\<close>: null and undefined fall through.\<close>

definition nullish :: "json option \<Rightarrow> bool" where "nullish v \<longleftrightarrow> v = None \<or> v = Some JNull"

definition extractResourceId :: "json \<Rightarrow> string option" where
  "extractResourceId value =
     (let i = json_prop ''id'' value;
          j = (case json_prop ''data'' value of None \<Rightarrow> None | Some d \<Rightarrow> json_prop ''id'' d)
      in case (if nullish i then j else i) of Some (JStr s) \<Rightarrow> Some s | _ \<Rightarrow> None)"

fun split_on :: "char \<Rightarrow> string \<Rightarrow> string list" where
  "split_on c [] = [[]]"
| "split_on c (d # ds) = (if d = c then [] # split_on c ds else (case split_on c ds of [] \<Rightarrow> [[d]] | w # ws \<Rightarrow> (d # w) # ws))"

text \<open>A request as the interceptor sees it, with what its handler answers or throws.\<close>

record audited_request =
  rq_method :: string
  rq_url :: string
  rq_body :: json
  rq_user :: "request_context option"

definition nth_part :: "nat \<Rightarrow> string list \<Rightarrow> string option" where
  "nth_part n ws = (if n < length ws then Some (ws ! n) else None)"

definition audited_row :: "audited_request \<Rightarrow> request_context \<Rightarrow> string option \<Rightarrow> string \<Rightarrow> audit_row" where
  "audited_row rq user resourceId suffix =
     (let parts = split_on (CHR ''/'') (rq_url rq);
          resource = (case nth_part 3 parts of None \<Rightarrow> ''unknown'' | Some r \<Rightarrow> r)
      in \<lparr>ar_companyId = rc_companyId user, ar_userId = Some (rc_userId user),
          ar_action = resource @ ''.'' @ methodToAction (rq_method rq) @ suffix,
          ar_resource = resource, ar_resourceId = resourceId, ar_before = JNull,
          ar_after = sanitizeAuditPayload 0 (rq_body rq), ar_traceId = Some (rc_traceId user)\<rparr>)"

definition writeAuditLog :: "audit_row \<Rightarrow> audit_row list \<Rightarrow> audit_row list" where
  "writeAuditLog r rows = (if ar_companyId r = [] then rows else rows @ [r])"

definition intercept :: "audited_request \<Rightarrow> (app_error + json) \<Rightarrow> audit_row list \<Rightarrow> audit_row list" where
  "intercept rq answer rows =
     (if rq_method rq \<notin> set AUDITED_METHODS then rows
      else case rq_user rq of
        None \<Rightarrow> rows
      | Some user \<Rightarrow>
          (let resourceId = nth_part 4 (split_on (CHR ''/'') (rq_url rq))
           in case answer of
                Inr value \<Rightarrow> writeAuditLog (audited_row rq user
                    (case resourceId of None \<Rightarrow> extractResourceId value | Some i \<Rightarrow> Some i) []) rows
              | Inl err \<Rightarrow> writeAuditLog (audited_row rq user resourceId ''.failed'') rows))"

section \<open>Following a value\<close>

datatype path_step = Key string | Index nat

fun value_at :: "path_step list \<Rightarrow> json \<Rightarrow> json option" where
  "value_at [] v = Some v"
| "value_at (Key k # ps) (JObj kvs) = (case map_of kvs k of None \<Rightarrow> None | Some v \<Rightarrow> value_at ps v)"
| "value_at (Index n # ps) (JArr xs) = (if n < length xs then value_at ps (xs ! n) else None)"
| "value_at ps v = None"

definition sensitive_step :: "path_step \<Rightarrow> bool" where
  "sensitive_step p = (case p of Key k \<Rightarrow> k \<in> set SENSITIVE_FIELDS | Index n \<Rightarrow> False)"

fun is_scalar :: "json \<Rightarrow> bool" where
  "is_scalar (JArr xs) = False"
| "is_scalar (JObj kvs) = False"
| "is_scalar v = True"

lemma map_of_redact:
  "map_of (map (\<lambda>(key, v). (key, if key \<in> S then r else f v)) kvs) k = map_option (\<lambda>v. if k \<in> S then r else f v) (map_of kvs k)"
  by (induction kvs) auto

lemma sanitize_scalar [simp]: "is_scalar v \<Longrightarrow> sanitizeAuditPayload d v = v"
  by (cases v) simp_all

lemma sanitize_deep [simp]: "d > 5 \<Longrightarrow> sanitizeAuditPayload d v = v"
  by (cases v) simp_all

lemma value_at_insensitive:
  "value_at ps v = Some x \<Longrightarrow> is_scalar x \<Longrightarrow> list_all (\<lambda>p. \<not> sensitive_step p) ps \<Longrightarrow>
   value_at ps (sanitizeAuditPayload d v) = Some x"
proof (induction ps v arbitrary: d rule: value_at.induct)
  case (2 k ps kvs)
  then show ?case by (auto simp: sensitive_step_def map_of_redact split: option.splits)
qed (auto split: if_splits)

lemma value_at_sensitive:
  "value_at (ps @ [Key k]) (sanitizeAuditPayload d v) = Some x \<Longrightarrow> k \<in> set SENSITIVE_FIELDS \<Longrightarrow> d + length ps \<le> 5 \<Longrightarrow>
   x = JStr ''[REDACTED]''"
proof (induction ps arbitrary: d v)
  case Nil
  then show ?case by (cases v) (auto simp: map_of_redact split: option.splits)
next
  case (Cons p ps)
  show ?case
  proof (cases v)
    case (JArr xs)
    then show ?thesis using Cons.prems Cons.IH[of "Suc d"] by (cases p) (auto split: if_splits)
  next
    case (JObj kvs)
    then show ?thesis using Cons.prems Cons.IH[of "Suc d"]
      by (cases p) (auto simp: map_of_redact split: option.splits if_splits, cases ps, auto)
  qed (use Cons.prems in \<open>cases p; auto\<close>)+
qed

text \<open>
  What the audit log keeps of a request body. In the row written for a changing request of a user
  of a company, whether its handler succeeds or fails, the value of a sensitive field lying at most five
  levels down is replaced, whatever it was; and every scalar reached through other fields is logged as it
  is, whatever its field is called: an account number or a national identifier in the body of a request is
  stored in the log in the clear.
\<close>

lemma audit_log_keeps_other_fields:
  assumes "rq_method rq \<in> set AUDITED_METHODS" and "rq_user rq = Some user" and "rc_companyId user \<noteq> []"
  shows "\<exists>row. intercept rq answer rows = rows @ [row] \<and>
    (\<forall>ps k x. k \<in> set SENSITIVE_FIELDS \<and> length ps \<le> 5 \<and> value_at (ps @ [Key k]) (ar_after row) = Some x \<longrightarrow> x = JStr ''[REDACTED]'') \<and>
    (\<forall>ps x. list_all (\<lambda>p. \<not> sensitive_step p) ps \<and> value_at ps (rq_body rq) = Some x \<and> is_scalar x \<longrightarrow> value_at ps (ar_after row) = Some x)"
proof -
  have row: "\<exists>i suffix. intercept rq answer rows = rows @ [audited_row rq user i suffix]"
    using assms by (auto simp: intercept_def writeAuditLog_def audited_row_def Let_def split: sum.split)
  have after: "ar_after (audited_row rq user i suffix) = sanitizeAuditPayload 0 (rq_body rq)" for i suffix
    by (simp add: audited_row_def Let_def)
  from row obtain i suffix where "intercept rq answer rows = rows @ [audited_row rq user i suffix]" by blast
  then show ?thesis
    using value_at_sensitive[of _ _ 0 "rq_body rq"] value_at_insensitive[of _ "rq_body rq" _ 0]
    by (intro exI[of _ "audited_row rq user i suffix"]) (auto simp: after)
qed

definition account_request :: audited_request where
  "account_request = \<lparr>rq_method = ''POST'', rq_url = ''/api/v1/employees/e1/bank-accounts'',
     rq_body = JObj [(''accountNumber'', JStr ''123456789''), (''otp'', JStr ''000000'')], rq_user = Some (actor_in ''u'' ''c'')\<rparr>"

end
