(* ===== verification/Surveys.thy ===== *)
theory Surveys
  imports Js_String JsNumber "HOL-Library.Multiset"
begin

text \<open>
  Surveys, \<^verbatim>\<open>survey/services/survey.service.ts\<close>: building, launching, submitting and the
  aggregated results. The lemmas show that an employee submits once, that these tables do not tell
  who sent which answers, and which results are withheld.
\<close>

section \<open>Tables\<close>

datatype survey_status = SurveyDRAFT | LAUNCHED | SurveyCLOSED

datatype question_type = LIKERT_5 | SINGLE_CHOICE | MULTI_CHOICE | FREE_TEXT

datatype assignment_status = AssignPENDING | AssignCOMPLETED

text \<open>The values of a JSON column.\<close>

datatype answer =
    AnsNull
  | AnsBool bool
  | AnsNum jsnum
  | AnsStr string
  | AnsArr "answer list"
  | AnsObj "(string \<times> answer) list"

record survey_row =
  sv_companyId :: id
  sv_title :: string
  sv_description :: "string option"
  sv_status :: survey_status
  sv_launchedAt :: "instant option"
  sv_closesAt :: "instant option"
  sv_createdBy :: id

record question_row =
  sq_surveyId :: id
  sq_orderIndex :: int
  sq_prompt :: string
  sq_type :: question_type
  sq_options :: "string list option"
  sq_required :: bool

record survey_response_row =
  sp_surveyId :: id
  sp_questionId :: id
  sp_answer :: answer
  sp_token :: string

text \<open>Assignments by their key, the survey and the employee.\<close>

record survey_db =
  vd_surveys :: "survey_row table"
  vd_questions :: "question_row table"
  vd_assignments :: "((id \<times> id) \<times> assignment_status) list"
  vd_responses :: "survey_response_row table"

section \<open>Building\<close>

record question_dto =
  qd_prompt :: string
  qd_type :: question_type
  qd_options :: "string list option"
  qd_required :: "bool option"
  qd_orderIndex :: "int option"

record survey_dto =
  vt_companyId :: id
  vt_title :: string
  vt_description :: "string option"
  vt_questions :: "question_dto list"
  vt_createdBy :: id
  vt_closesAt :: "instant option"

definition new_question :: "id \<Rightarrow> int \<Rightarrow> question_dto \<Rightarrow> question_row" where
  "new_question surveyId order q =
     \<lparr>sq_surveyId = surveyId, sq_orderIndex = order, sq_prompt = qd_prompt q, sq_type = qd_type q,
      sq_options = qd_options q, sq_required = (case qd_required q of None \<Rightarrow> False | Some b \<Rightarrow> b)\<rparr>"

definition createSurvey :: "id \<Rightarrow> id list \<Rightarrow> survey_dto \<Rightarrow> survey_db \<Rightarrow> (survey_db, id) outcome" where
  "createSurvey newId questionIds dto s =
     (if \<not> fresh newId (vd_surveys s) then (Inl (DatabaseError ''surveys_pkey''), s)
      else case insert_all questionIds
             (map (\<lambda>(i, q). new_question newId (case qd_orderIndex q of None \<Rightarrow> int i | Some k \<Rightarrow> k) q) (enumerate 0 (vt_questions dto)))
             (vd_questions s) of
        None \<Rightarrow> (Inl (DatabaseError ''survey_questions_pkey''), s)
      | Some qs \<Rightarrow> (Inr newId, s\<lparr>vd_questions := qs, vd_surveys := tbl_insert newId
             \<lparr>sv_companyId = vt_companyId dto, sv_title = vt_title dto, sv_description = vt_description dto, sv_status = SurveyDRAFT,
              sv_launchedAt = None, sv_closesAt = vt_closesAt dto, sv_createdBy = vt_createdBy dto\<rparr> (vd_surveys s)\<rparr>))"

definition addQuestion :: "id \<Rightarrow> id \<Rightarrow> question_dto \<Rightarrow> survey_db \<Rightarrow> (survey_db, id) outcome" where
  "addQuestion newId surveyId dto s =
     (case tbl_get surveyId (vd_surveys s) of
        None \<Rightarrow> (Inl (NotFoundError ''Survey not found''), s)
      | Some v \<Rightarrow>
          (if sv_status v \<noteq> SurveyDRAFT then (Inl (BadRequestError ''Can only modify DRAFT surveys''), s)
           else if \<not> fresh newId (vd_questions s) then (Inl (DatabaseError ''survey_questions_pkey''), s)
           else (Inr newId, s\<lparr>vd_questions := tbl_insert newId
                  (new_question surveyId (int (tbl_count (\<lambda>i q. sq_surveyId q = surveyId) (vd_questions s)) + 1) dto) (vd_questions s)\<rparr>)))"

text \<open>Neither the status of the survey nor the survey of a question is looked at.\<close>

fun set_order :: "int \<Rightarrow> id list \<Rightarrow> question_row table \<Rightarrow> question_row table option" where
  "set_order n [] t = Some t"
| "set_order n (q # qs) t =
     (if fresh q t then None else set_order (n + 1) qs (tbl_update q (\<lambda>r. r\<lparr>sq_orderIndex := n\<rparr>) t))"

definition reorderQuestions :: "id \<Rightarrow> id list \<Rightarrow> survey_db \<Rightarrow> (survey_db, unit) outcome" where
  "reorderQuestions surveyId orderedQuestionIds s =
     (if fresh surveyId (vd_surveys s) then (Inl (NotFoundError ''Survey not found''), s)
      else case set_order 1 orderedQuestionIds (vd_questions s) of
        None \<Rightarrow> (Inl (DatabaseError ''Record to update not found''), s)
      | Some qs \<Rightarrow> (Inr (), s\<lparr>vd_questions := qs\<rparr>))"

definition questions_of :: "id \<Rightarrow> survey_db \<Rightarrow> (id \<times> question_row) list" where
  "questions_of surveyId s = sort_key (\<lambda>(i, q). sq_orderIndex q) (tbl_all (\<lambda>i q. sq_surveyId q = surveyId) (vd_questions s))"

definition getSurvey :: "id \<Rightarrow> survey_db \<Rightarrow> app_error + survey_row \<times> (id \<times> question_row) list" where
  "getSurvey i s =
     (case tbl_get i (vd_surveys s) of None \<Rightarrow> Inl (NotFoundError ''Survey not found'') | Some v \<Rightarrow> Inr (v, questions_of i s))"

section \<open>Launching and submitting\<close>

fun assign_all :: "id \<Rightarrow> id list \<Rightarrow> ((id \<times> id) \<times> assignment_status) list \<Rightarrow> ((id \<times> id) \<times> assignment_status) list option" where
  "assign_all v [] a = Some a"
| "assign_all v (e # es) a =
     (if (v, e) \<in> set (map fst a) then None else assign_all v es (a @ [((v, e), AssignPENDING)]))"

definition launch :: "instant \<Rightarrow> id \<Rightarrow> id list \<Rightarrow> survey_db \<Rightarrow> (survey_db, unit) outcome" where
  "launch now surveyId employeeIds s =
     (case tbl_get surveyId (vd_surveys s) of
        None \<Rightarrow> (Inl (NotFoundError ''Survey not found''), s)
      | Some v \<Rightarrow>
          (if sv_status v \<noteq> SurveyDRAFT then (Inl (BadRequestError ''Only DRAFT surveys can be launched''), s)
           else case assign_all surveyId employeeIds (vd_assignments s) of
             None \<Rightarrow> (Inl (DatabaseError ''survey_assignments_surveyId_employeeId_key''), s)
           | Some a \<Rightarrow> (Inr (), s\<lparr>vd_surveys := tbl_update surveyId (\<lambda>r. r\<lparr>sv_status := LAUNCHED, sv_launchedAt := Some now\<rparr>) (vd_surveys s),
                                  vd_assignments := a\<rparr>)))"

definition complete_assignment :: "(id \<times> id) \<Rightarrow> ((id \<times> id) \<times> assignment_status) list \<Rightarrow> ((id \<times> id) \<times> assignment_status) list" where
  "complete_assignment key a = map (\<lambda>(k, x). (k, if k = key then AssignCOMPLETED else x)) a"

definition accepting :: "id \<Rightarrow> survey_db \<Rightarrow> bool" where
  "accepting surveyId s = (case tbl_get surveyId (vd_surveys s) of None \<Rightarrow> False | Some v \<Rightarrow> sv_status v = LAUNCHED)"

text \<open>
  The answers name any question. \<open>token\<close> is the random UUID of the submission, \<open>ids\<close> those of the rows.
\<close>

definition submitResponse ::
    "id list \<Rightarrow> string \<Rightarrow> id \<Rightarrow> id \<Rightarrow> (id \<times> answer) list \<Rightarrow> survey_db \<Rightarrow> (survey_db, unit) outcome" where
  "submitResponse ids token surveyId employeeId answers s =
     (case map_of (vd_assignments s) (surveyId, employeeId) of
        None \<Rightarrow> (Inl (NotFoundError ''Assignment not found''), s)
      | Some AssignCOMPLETED \<Rightarrow> (Inl (BadRequestError ''Already submitted''), s)
      | Some AssignPENDING \<Rightarrow>
          (if \<not> accepting surveyId s then (Inl (BadRequestError ''Survey is not accepting responses''), s)
           else case insert_all ids (map (\<lambda>(q, a). \<lparr>sp_surveyId = surveyId, sp_questionId = q, sp_answer = a, sp_token = token\<rparr>) answers)
                       (vd_responses s) of
             None \<Rightarrow> (Inl (DatabaseError ''survey_responses_pkey''), s)
           | Some rs \<Rightarrow> (Inr (), s\<lparr>vd_responses := rs,
                 vd_assignments := complete_assignment (surveyId, employeeId) (vd_assignments s)\<rparr>)))"

section \<open>Results\<close>

text \<open>
  \<^verbatim>\<open>String(v)\<close> of a JSON value; \<open>num\<close> writes a number.
\<close>

fun answer_text :: "(jsnum \<Rightarrow> string) \<Rightarrow> answer \<Rightarrow> string" where
  "answer_text num AnsNull = ''null''"
| "answer_text num (AnsBool b) = (if b then ''true'' else ''false'')"
| "answer_text num (AnsNum n) = num n"
| "answer_text num (AnsStr s) = s"
| "answer_text num (AnsArr xs) = join_with '','' (map (\<lambda>x. if x = AnsNull then [] else answer_text num x) xs)"
| "answer_text num (AnsObj kvs) = ''[object Object]''"

text \<open>\<^verbatim>\<open>String(r.answer?.value ?? r.answer)\<close>.\<close>

fun answer_key :: "(jsnum \<Rightarrow> string) \<Rightarrow> answer \<Rightarrow> string" where
  "answer_key num (AnsObj kvs) =
     (case map_of kvs ''value'' of None \<Rightarrow> answer_text num (AnsObj kvs)
      | Some v \<Rightarrow> if v = AnsNull then answer_text num (AnsObj kvs) else answer_text num v)"
| "answer_key num a = answer_text num a"

text \<open>\<^verbatim>\<open>distribution[key] = (distribution[key] ?? 0) + 1\<close>, on keys a plain object does not inherit.\<close>

fun count_in :: "string \<Rightarrow> (string \<times> int) list \<Rightarrow> (string \<times> int) list" where
  "count_in k [] = [(k, 1)]"
| "count_in k ((j, n) # d) = (if j = k then (j, n + 1) # d else (j, n) # count_in k d)"

datatype aggregated = NoAggregate | Distribution "(string \<times> int) list" | AnswerCount int

record question_result =
  qr_questionId :: id
  qr_prompt :: string
  qr_totalResponses :: int
  qr_aggregated :: aggregated

definition question_summary :: "(jsnum \<Rightarrow> string) \<Rightarrow> int \<Rightarrow> survey_db \<Rightarrow> id \<times> question_row \<Rightarrow> question_result" where
  "question_summary num minN s iq =
     (case iq of (i, q) \<Rightarrow>
       (let responses = tbl_all (\<lambda>j r. sp_questionId r = i) (vd_responses s); n = int (length responses)
        in \<lparr>qr_questionId = i, qr_prompt = sq_prompt q, qr_totalResponses = n,
            qr_aggregated =
              (if n < minN then NoAggregate
               else if sq_type q \<in> {LIKERT_5, SINGLE_CHOICE}
               then Distribution (fold count_in (map (\<lambda>(j, r). answer_key num (sp_answer r)) responses) [])
               else AnswerCount n)\<rparr>))"

definition getAggregateResults :: "(jsnum \<Rightarrow> string) \<Rightarrow> id \<Rightarrow> int \<Rightarrow> survey_db \<Rightarrow> app_error + string \<times> question_result list" where
  "getAggregateResults num surveyId minN s =
     (case tbl_get surveyId (vd_surveys s) of
        None \<Rightarrow> Inl (NotFoundError ''Survey not found'')
      | Some v \<Rightarrow>
          (if sv_status v \<noteq> SurveyCLOSED then Inl (BadRequestError ''Survey must be closed to view results'')
           else Inr (sv_title v, map (question_summary num minN s) (questions_of surveyId s))))"

section \<open>Runs\<close>

datatype survey_call =
    CreateSurvey id "id list" survey_dto
  | AddQuestion id id question_dto
  | ReorderQuestions id "id list"
  | Launch instant id "id list"
  | Submit "id list" string id id "(id \<times> answer) list"

fun survey_step :: "survey_call \<Rightarrow> survey_db \<Rightarrow> survey_db" where
  "survey_step (CreateSurvey i qs dto) s = snd (createSurvey i qs dto s)"
| "survey_step (AddQuestion i v dto) s = snd (addQuestion i v dto s)"
| "survey_step (ReorderQuestions v qs) s = snd (reorderQuestions v qs s)"
| "survey_step (Launch now v es) s = snd (launch now v es s)"
| "survey_step (Submit ids tok v e ans) s = snd (submitResponse ids tok v e ans s)"

text \<open>The accepted submissions of an employee to a survey in a run.\<close>

fun accepted :: "id \<Rightarrow> id \<Rightarrow> survey_call \<Rightarrow> survey_db \<Rightarrow> nat" where
  "accepted v e (Submit ids tok w f ans) s =
     (if w = v \<and> f = e \<and> \<not> is_error (fst (submitResponse ids tok w f ans s)) then 1 else 0)"
| "accepted v e c s = 0"

fun submissions :: "id \<Rightarrow> id \<Rightarrow> survey_call list \<Rightarrow> survey_db \<Rightarrow> nat" where
  "submissions v e [] s = 0"
| "submissions v e (c # cs) s = accepted v e c s + submissions v e cs (survey_step c s)"

text \<open>The employees of a list submit in turn, each one form; one refusal refuses all.\<close>

type_synonym survey_form = "id list \<times> string \<times> (id \<times> answer) list"

fun submit_all :: "id \<Rightarrow> id list \<Rightarrow> survey_form list \<Rightarrow> survey_db \<Rightarrow> survey_db option" where
  "submit_all v (e # es) ((ids, tok, ans) # fs) s =
     (case submitResponse ids tok v e ans s of (Inl x, _) \<Rightarrow> None | (Inr _, t) \<Rightarrow> submit_all v es fs t)"
| "submit_all v es fs s = Some s"


section \<open>One submission of an employee\<close>

lemma map_of_complete:
  "map_of (complete_assignment key a) k = (case map_of a k of None \<Rightarrow> None | Some x \<Rightarrow> Some (if k = key then AssignCOMPLETED else x))"
  by (induction a) (auto simp: complete_assignment_def)

lemma assign_all_map_of:
  "assign_all v es a = Some b \<Longrightarrow> map_of b k = (case map_of a k of Some x \<Rightarrow> Some x | None \<Rightarrow> map_of b k)
     \<and> (map_of a k = None \<longrightarrow> map_of b k \<noteq> Some AssignCOMPLETED)"
proof (induction v es a rule: assign_all.induct)
  case (2 v e es a)
  from "2.prems" have new: "(v, e) \<notin> set (map fst a)" and rest: "assign_all v es (a @ [((v, e), AssignPENDING)]) = Some b"
    by (auto split: if_splits)
  then show ?case using "2.IH"[OF new rest] by (cases "map_of a k") (auto simp: map_add_def split: option.splits if_splits)
qed (auto split: option.splits)

text \<open>What a call does to one assignment.\<close>

lemma survey_step_assignment:
  "(if accepted v e c s = 1 then map_of (vd_assignments s) (v, e) = Some AssignPENDING
        \<and> map_of (vd_assignments (survey_step c s)) (v, e) = Some AssignCOMPLETED
    else (map_of (vd_assignments (survey_step c s)) (v, e) = Some AssignCOMPLETED \<longleftrightarrow> map_of (vd_assignments s) (v, e) = Some AssignCOMPLETED))
   \<and> accepted v e c s \<le> 1"
proof (cases c)
  case (Launch now w es)
  show ?thesis
  proof (cases "assign_all w es (vd_assignments s)")
    case None
    then show ?thesis by (simp add: Launch launch_def split: option.splits)
  next
    case (Some b)
    have "vd_assignments (snd (launch now w es s)) \<in> {vd_assignments s, b}" using Some by (simp add: launch_def split: option.splits)
    moreover have "map_of b (v, e) = Some AssignCOMPLETED \<longleftrightarrow> map_of (vd_assignments s) (v, e) = Some AssignCOMPLETED"
      using assign_all_map_of[OF Some, of "(v, e)"] by (cases "map_of (vd_assignments s) (v, e)") auto
    ultimately show ?thesis by (auto simp: Launch)
  qed
next
  case (Submit ids tok w f ans)
  then show ?thesis by (simp add: submitResponse_def map_of_complete split: option.splits assignment_status.splits) auto
qed (simp_all add: createSurvey_def addQuestion_def reorderQuestions_def split: option.splits)

lemma submissions_completed:
  "submissions v e calls s + (if map_of (vd_assignments s) (v, e) = Some AssignCOMPLETED then 1 else 0)
     = (if map_of (vd_assignments (fold survey_step calls s)) (v, e) = Some AssignCOMPLETED then 1 else 0)"
proof (induction calls arbitrary: s)
  case (Cons c calls)
  show ?case using Cons.IH[of "survey_step c s"] survey_step_assignment[of v e c s]
    by (cases "accepted v e c s = 1") (auto split: if_splits)
qed simp

text \<open>
  An employee submits a survey at most once: in any run of calls from a state without assignments, the
  number of accepted submissions of an employee to a survey is one when the assignment is completed, and zero
  when it is not.
\<close>

lemma survey_submitted_once:
  assumes "vd_assignments s = []"
  shows "submissions v e calls s =
    (if map_of (vd_assignments (fold survey_step calls s)) (v, e) = Some AssignCOMPLETED then 1 else 0)"
  using submissions_completed[of v e calls s] assms by simp

section \<open>Anonymity\<close>

fun insert_forms :: "id \<Rightarrow> survey_form list \<Rightarrow> survey_response_row table \<Rightarrow> survey_response_row table option" where
  "insert_forms v [] t = Some t"
| "insert_forms v ((ids, tok, ans) # fs) t =
     (case insert_all ids (map (\<lambda>(q, a). \<lparr>sp_surveyId = v, sp_questionId = q, sp_answer = a, sp_token = tok\<rparr>) ans) t of
        None \<Rightarrow> None | Some u \<Rightarrow> insert_forms v fs u)"

definition complete_all :: "id \<Rightarrow> id set \<Rightarrow> ((id \<times> id) \<times> assignment_status) list \<Rightarrow> ((id \<times> id) \<times> assignment_status) list" where
  "complete_all v es a = map (\<lambda>(k, x). (k, if fst k = v \<and> snd k \<in> es then AssignCOMPLETED else x)) a"

lemma complete_all_insert: "complete_all v es (complete_assignment (v, e) a) = complete_all v (insert e es) a"
  by (auto simp: complete_all_def complete_assignment_def)

text \<open>What a batch of submissions leaves depends on the forms in order and on the set of the employees.\<close>

lemma submit_all_eq:
  assumes "length es = length fs"
  shows "submit_all v es fs s =
    (if es = [] then Some s
     else if accepting v s \<and> distinct es
       \<and> (\<forall>e \<in> set es. map_of (vd_assignments s) (v, e) = Some AssignPENDING)
     then map_option (\<lambda>r. s\<lparr>vd_responses := r, vd_assignments := complete_all v (set es) (vd_assignments s)\<rparr>)
            (insert_forms v fs (vd_responses s))
     else None)"
  using assms
proof (induction es arbitrary: fs s)
  case (Cons e es)
  obtain ids tok ans gs where fs: "fs = (ids, tok, ans) # gs" "length es = length gs"
    using Cons.prems by (cases fs) auto
  let ?ins = "insert_all ids (map (\<lambda>(q, a). \<lparr>sp_surveyId = v, sp_questionId = q, sp_answer = a, sp_token = tok\<rparr>) ans) (vd_responses s)"
  show ?case
  proof (cases "map_of (vd_assignments s) (v, e) = Some AssignPENDING \<and> accepting v s")
    case False
    then show ?thesis unfolding fs by (auto simp: submitResponse_def split: option.splits assignment_status.splits)
  next
    case True
    show ?thesis
    proof (cases ?ins)
      case None
      then show ?thesis unfolding fs using True by (simp add: submitResponse_def)
    next
      case (Some u)
      let ?t = "s\<lparr>vd_responses := u, vd_assignments := complete_assignment (v, e) (vd_assignments s)\<rparr>"
      have open2: "accepting v ?t \<longleftrightarrow> accepting v s" by (simp add: accepting_def)
      have step: "submit_all v (e # es) fs s = submit_all v es gs ?t"
        unfolding fs using True Some by (simp add: submitResponse_def)
      have pend: "map_of (complete_assignment (v, e) (vd_assignments s)) (v, x) = Some AssignPENDING
          \<longleftrightarrow> x \<noteq> e \<and> map_of (vd_assignments s) (v, x) = Some AssignPENDING" for x
        by (auto simp: map_of_complete split: option.splits if_splits)
      have all: "(\<forall>x \<in> set es. map_of (complete_assignment (v, e) (vd_assignments s)) (v, x) = Some AssignPENDING)
          \<longleftrightarrow> e \<notin> set es \<and> (\<forall>x \<in> set es. map_of (vd_assignments s) (v, x) = Some AssignPENDING)"
        unfolding pend by blast
      have one: "complete_assignment (v, e) (vd_assignments s) = complete_all v {e} (vd_assignments s)"
        using complete_all_insert[of v "{}" e "vd_assignments s"] by (simp add: complete_all_def)
      show ?thesis
      proof (cases "es = []")
        case True2: True
        then show ?thesis unfolding step using True Some fs one by simp
      next
        case False
        show ?thesis unfolding step Cons.IH[OF fs(2)] using True Some False all open2
          by (simp add: fs complete_all_insert option.map_comp comp_def) blast?
      qed
    qed
  qed
qed simp

text \<open>
  The tables of the module do not tell who sent which form: when a group of employees hands in a batch of forms,
  exchanging the forms between them leaves the same tables, error or not. The audit log is another matter,
  see \<open>Logged_Requests\<close>.
\<close>

lemma exchanged_forms_same_tables:
  assumes "mset es = mset es'" and "length es = length forms"
  shows "submit_all v es forms s = submit_all v es' forms s"
proof -
  have "set es = set es'" "length es = length es'" "distinct es = distinct es'" "es = [] \<longleftrightarrow> es' = []"
    using assms(1) mset_eq_setD mset_eq_length mset_eq_imp_distinct_iff by blast+ (metis assms(1) mset_zero_iff)
  then show ?thesis using assms(2) by (simp add: submit_all_eq)
qed

section \<open>Withheld results\<close>

lemma sum_count_in: "sum_list (map snd (count_in k d)) = sum_list (map snd d) + 1"
  by (induction k d rule: count_in.induct) auto

lemma sum_counts: "sum_list (map snd (fold count_in ks d)) = sum_list (map snd d) + int (length ks)"
  by (induction ks arbitrary: d) (simp_all add: sum_count_in)

text \<open>
  The results of a closed survey hold one entry for each question, with the number of its answers; below
  the least number of answers nothing else is told, and from it on the counts of the different answers of a
  choice add up to all of them.
\<close>

lemma small_results_withheld:
  assumes "getAggregateResults num v minN s = Inr (title, results)"
  shows "map qr_questionId results = map fst (questions_of v s)
    \<and> (\<forall>r \<in> set results. qr_totalResponses r = int (tbl_count (\<lambda>j p. sp_questionId p = qr_questionId r) (vd_responses s))
        \<and> (qr_totalResponses r < minN \<longleftrightarrow> qr_aggregated r = NoAggregate)
        \<and> (\<forall>d. qr_aggregated r = Distribution d \<longrightarrow> sum_list (map snd d) = qr_totalResponses r))"
proof -
  have "results = map (question_summary num minN s) (questions_of v s)"
    using assms by (auto simp: getAggregateResults_def split: option.splits if_splits)
  then show ?thesis by (auto simp: question_summary_def Let_def tbl_count_def sum_counts split: if_splits)
qed

text \<open>Nothing closes a survey, so that no results are ever shown.\<close>

lemma survey_step_open:
  assumes "\<forall>(i, r) \<in> set (vd_surveys s). sv_status r \<noteq> SurveyCLOSED"
  shows "\<forall>(i, r) \<in> set (vd_surveys (survey_step c s)). sv_status r \<noteq> SurveyCLOSED"
proof (cases c)
  case (Launch now v es)
  have "vd_surveys (survey_step c s) \<in> {vd_surveys s, tbl_update v (\<lambda>r. r\<lparr>sv_status := LAUNCHED, sv_launchedAt := Some now\<rparr>) (vd_surveys s)}"
    by (simp add: Launch launch_def split: option.splits)
  then show ?thesis using assms by (auto simp: set_tbl_update split: if_splits)
next
  case (CreateSurvey i qs dto)
  then show ?thesis using assms by (auto simp: createSurvey_def tbl_insert_def split: option.splits)
next
  case (Submit ids tok v e ans)
  have "vd_surveys (survey_step c s) = vd_surveys s" by (simp add: Submit submitResponse_def split: option.splits assignment_status.splits)
  then show ?thesis using assms by simp
qed (use assms in \<open>simp_all add: addQuestion_def reorderQuestions_def split: option.splits\<close>)

lemma results_never_shown:
  assumes "\<forall>(i, r) \<in> set (vd_surveys s). sv_status r \<noteq> SurveyCLOSED"
  shows "is_error (getAggregateResults num v minN (fold survey_step calls s))"
proof -
  have "\<forall>(i, r) \<in> set (vd_surveys (fold survey_step calls s)). sv_status r \<noteq> SurveyCLOSED"
    using assms
  proof (induction calls arbitrary: s)
    case (Cons c calls)
    then show ?case using Cons.IH[OF survey_step_open[OF Cons.prems]] by simp
  qed simp
  then have "tbl_get v (vd_surveys (fold survey_step calls s)) = Some r \<Longrightarrow> sv_status r \<noteq> SurveyCLOSED" for r
    using tbl_get_mem by fastforce
  then show ?thesis by (simp add: getAggregateResults_def split: option.splits)
qed

definition survey_office :: survey_db where
  "survey_office = \<lparr>vd_surveys = [(''v'', \<lparr>sv_companyId = ''co'', sv_title = ''Pulse'', sv_description = None, sv_status = SurveyDRAFT,
     sv_launchedAt = None, sv_closesAt = None, sv_createdBy = ''u''\<rparr>)],
     vd_questions = [(''q'', \<lparr>sq_surveyId = ''v'', sq_orderIndex = 1, sq_prompt = ''Well?'', sq_type = LIKERT_5, sq_options = None, sq_required = True\<rparr>)],
     vd_assignments = [], vd_responses = []\<rparr>"

definition survey_story :: "survey_call list" where
  "survey_story = [Launch 1 ''v'' [''a'', ''b''], Submit [''r1''] ''t1'' ''v'' ''a'' [(''q'', AnsNum (Fin 4))],
     Submit [''r2''] ''t2'' ''v'' ''a'' [(''q'', AnsNum (Fin 5))]]"

end
