(* ===== verification/Logged_Requests.thy ===== *)
theory Logged_Requests
  imports Careers Surveys Request_Audit
begin

text \<open>
  Two routes with the audit interceptor around them (\<^verbatim>\<open>apps/api/src/interceptors/interceptors.bootstrap.ts\<close>
  installs it for all): the one that creates a bank account, \<^verbatim>\<open>employees/employees.controller.ts\<close>, and
  the one that submits a survey, \<^verbatim>\<open>survey/survey.controller.ts\<close>. The services hide the account number and
  the sender of a form from what they answer and store; the rows of the interceptor hold both. The rows that
  the interceptor adds to the audit log are kept in a list of their own beside the tables of the module.
\<close>

section \<open>The routes\<close>

text \<open>
  What a handler gives is answered as JSON; \<open>enc\<close> is the serialization of the framework. The body is
  what the client sent, \<open>dto\<close> what the controller passes on.
\<close>

definition post_account ::
    "(account_view \<Rightarrow> json) \<Rightarrow> cipher \<Rightarrow> string \<Rightarrow> id \<Rightarrow> request_context \<Rightarrow> id \<Rightarrow> json \<Rightarrow> account_dto
       \<Rightarrow> employees_db \<times> audit_row list \<Rightarrow> (employees_db \<times> audit_row list, account_view) outcome" where
  "post_account enc c iv newId user emp body dto st =
     (case createBankAccount c iv newId user emp dto (fst st) of
        (r, s) \<Rightarrow> (r, s, intercept \<lparr>rq_method = ''POST'', rq_url = ''/api/v1/employees/'' @ emp @ ''/bank-accounts'',
                            rq_body = body, rq_user = Some user\<rparr> (map_sum id enc r) (snd st)))"

fun answer_json :: "answer \<Rightarrow> json" where
  "answer_json AnsNull = JNull"
| "answer_json (AnsBool b) = JBool b"
| "answer_json (AnsNum n) = JNum n"
| "answer_json (AnsStr s) = JStr s"
| "answer_json (AnsArr xs) = JArr (map answer_json xs)"
| "answer_json (AnsObj kvs) = JObj (map (\<lambda>(k, a). (k, answer_json a)) kvs)"

definition response_body :: "id \<Rightarrow> (id \<times> answer) list \<Rightarrow> json" where
  "response_body employeeId answers =
     JObj [(''employeeId'', JStr employeeId),
           (''answers'', JArr (map (\<lambda>(q, a). JObj [(''questionId'', JStr q), (''answer'', answer_json a)]) answers))]"

definition post_response ::
    "request_context \<Rightarrow> id \<Rightarrow> id \<Rightarrow> survey_form \<Rightarrow> survey_db \<times> audit_row list \<Rightarrow> (survey_db \<times> audit_row list, unit) outcome" where
  "post_response user v e form st =
     (case form of (ids, tok, ans) \<Rightarrow>
        (case submitResponse ids tok v e ans (fst st) of
           (r, s) \<Rightarrow> (r, s, intercept \<lparr>rq_method = ''POST'', rq_url = ''/api/v1/surveys/'' @ v @ ''/responses'',
                               rq_body = response_body e ans, rq_user = Some user\<rparr> (map_sum id (\<lambda>_. JNull) r) (snd st))))"

text \<open>A batch of forms, the first one for the first employee and so on, each sent by the user \<open>who e\<close>.\<close>

fun post_responses ::
    "(id \<Rightarrow> request_context) \<Rightarrow> id \<Rightarrow> id list \<Rightarrow> survey_form list \<Rightarrow> survey_db \<times> audit_row list
       \<Rightarrow> (survey_db \<times> audit_row list) option" where
  "post_responses who v (e # es) (f # fs) st =
     (case post_response (who e) v e f st of (Inl x, _) \<Rightarrow> None | (Inr _, st') \<Rightarrow> post_responses who v es fs st')"
| "post_responses who v es fs st = Some st"

section \<open>What the interceptor adds\<close>

lemma intercept_post:
  assumes "rq_method rq = ''POST''" and "rq_user rq = Some user" and "rc_companyId user \<noteq> []"
  shows "\<exists>row. intercept rq answer rows = rows @ [row] \<and> ar_userId row = Some (rc_userId user)
    \<and> ar_after row = sanitizeAuditPayload 0 (rq_body rq)"
  using assms by (auto simp: intercept_def AUDITED_METHODS_def writeAuditLog_def audited_row_def Let_def split: sum.split)

lemma sanitize_response_body:
  "value_at [Key ''employeeId''] (sanitizeAuditPayload 0 (response_body e ans)) = Some (JStr e)"
  "value_at [Key ''answers''] (sanitizeAuditPayload 0 (response_body e ans))
     = Some (JArr (map (\<lambda>(q, a). JObj [(''questionId'', JStr q), (''answer'', sanitizeAuditPayload 3 (answer_json a))]) ans))"
  by (auto simp: response_body_def SENSITIVE_FIELDS_def numeral_3_eq_3)

section \<open>Bank accounts\<close>

text \<open>
  C13: Outside the row of the interceptor an account number shows its length and its last four characters
  only. Two requests that create the same account with two numbers of the same length and the same last four
  characters get the same answer and leave the same audit entries of the service; afterwards every
  listing of accounts and every view of an employee, by any reader, is the same, although the numbers, and the
  nonces of their encryption, differ. The row that the interceptor adds to the audit log, however, holds the
  whole number as it was sent.
\<close>

theorem account_number_only_in_request_row:
  assumes "authentic c" and "same_tail (bd_accountNumber dto) w" and "rc_companyId user \<noteq> []"
    and "value_at [Key ''accountNumber''] body = Some (JStr (bd_accountNumber dto))"
    and "post_account enc c iv n user emp body dto (s, kept) = (r, t, kept1)"
    and "post_account enc c iv' n user emp body' (dto\<lparr>bd_accountNumber := w\<rparr>) (s, kept) = (r', t', kept2)"
  shows "r = r' \<and> ed_audit t = ed_audit t'
    \<and> listBankAccounts c reader k t = listBankAccounts c reader k t'
    \<and> get_employee c reader k t = get_employee c reader k t'
    \<and> (\<exists>row. kept1 = kept @ [row] \<and> value_at [Key ''accountNumber''] (ar_after row) = Some (JStr (bd_accountNumber dto)))"
proof -
  let ?rq = "\<lparr>rq_method = ''POST'', rq_url = ''/api/v1/employees/'' @ emp @ ''/bank-accounts'', rq_body = body, rq_user = Some user\<rparr>"
  have run: "createBankAccount c iv n user emp dto s = (r, t)"
    "createBankAccount c iv' n user emp (dto\<lparr>bd_accountNumber := w\<rparr>) s = (r', t')"
    "kept1 = intercept ?rq (map_sum id enc r) kept"
    using assms(5,6) by (auto simp: post_account_def split: prod.splits)
  have "list_all (\<lambda>p. \<not> sensitive_step p) [Key ''accountNumber'']" by (simp add: sensitive_step_def SENSITIVE_FIELDS_def)
  then have "value_at [Key ''accountNumber''] (sanitizeAuditPayload 0 body) = Some (JStr (bd_accountNumber dto))"
    using value_at_insensitive[OF assms(4)] by simp
  moreover obtain row where "kept1 = kept @ [row]" "ar_after row = sanitizeAuditPayload 0 body"
    using intercept_post[of ?rq user] assms(3) run(3) by fastforce
  ultimately show ?thesis
    using authentic.create_account_noninterference[OF assms(1,2), of iv n user emp s iv' reader k] run(1,2) by auto
qed

definition account_form :: "string \<Rightarrow> account_dto" where
  "account_form number = \<lparr>bd_accountName = ''A'', bd_accountNumber = number, bd_routingNumber = Undef, bd_bankName = ''B'',
     bd_bankCode = Undef, bd_currency = ''USD'', bd_isPrimary = True\<rparr>"

definition sent_account :: "string \<Rightarrow> string \<Rightarrow> (employees_db \<times> audit_row list, account_view) outcome" where
  "sent_account iv number = post_account (\<lambda>_. JNull) reversing_cipher iv ''b1'' (actor_in ''u1'' ''co'') ''e1''
     (JObj [(''accountNumber'', JStr number)]) (account_form number) (blocked_firm, [])"

theorem account_number_only_in_request_row_witness:
  "(\<exists>v. fst (sent_account ''i1'' ''11112222'') = Inr v \<and> fst (sent_account ''i2'' ''99992222'') = Inr v)
   \<and> (\<exists>row. snd (snd (sent_account ''i1'' ''11112222'')) = [row]
        \<and> value_at [Key ''accountNumber''] (ar_after row) = Some (JStr ''11112222''))"
proof -
  let ?u = "actor_in ''u1'' ''co''" and ?d = "account_form ''11112222''"
  have d: "same_tail (bd_accountNumber ?d) ''99992222''" "rc_companyId ?u \<noteq> []" "bd_accountNumber ?d = ''11112222''"
    "?d\<lparr>bd_accountNumber := ''99992222''\<rparr> = account_form ''99992222''"
    by (simp_all add: same_tail_def account_form_def actor_in_def)
  have "value_at [Key ''accountNumber''] (JObj [(''accountNumber'', JStr ''11112222'')]) = Some (JStr (bd_accountNumber ?d))"
    using d(3) by simp
  moreover obtain r t k where a: "sent_account ''i1'' ''11112222'' = (r, t, k)" by (metis prod_cases3)
  moreover obtain r' t' k' where b: "sent_account ''i2'' ''99992222'' = (r', t', k')" by (metis prod_cases3)
  ultimately have "r = r' \<and> (\<exists>row. k = [] @ [row] \<and> value_at [Key ''accountNumber''] (ar_after row) = Some (JStr (bd_accountNumber ?d)))"
    unfolding sent_account_def d(4)[symmetric] using account_number_only_in_request_row[OF reversing.authentic_axioms d(1,2)] by blast
  moreover have "\<not> isl (fst (sent_account ''i1'' ''11112222''))" by code_simp
  ultimately show ?thesis using a b d(3) by (cases r) auto
qed

section \<open>Surveys\<close>

lemma post_responses_tables: "map_option fst (post_responses who v es fs st) = submit_all v es fs (fst st)"
  by (induction who v es fs st rule: post_responses.induct) (auto simp: post_response_def split: sum.splits prod.splits)

lemma post_responses_log:
  assumes "length es = length fs" and "\<forall>e \<in> set es. rc_companyId (who e) \<noteq> []"
    and "post_responses who v es fs st = Some st'"
  shows "\<exists>rows. snd st' = snd st @ rows \<and>
    list_all2 (\<lambda>(e, ids, tok, ans) row. ar_userId row = Some (rc_userId (who e)) \<and> ar_after row = sanitizeAuditPayload 0 (response_body e ans))
      (zip es fs) rows"
  using assms
proof (induction who v es fs st rule: post_responses.induct)
  case (1 who v e es f fs st)
  obtain ids tok ans where f: "f = (ids, tok, ans)" by (cases f)
  from "1.prems"(3) obtain u where u: "post_response (who e) v e f st = (Inr (), u)" "post_responses who v es fs u = Some st'"
    by (auto split: sum.splits prod.splits)
  let ?rq = "\<lparr>rq_method = ''POST'', rq_url = ''/api/v1/surveys/'' @ v @ ''/responses'', rq_body = response_body e ans, rq_user = Some (who e)\<rparr>"
  have "\<exists>a. snd u = intercept ?rq a (snd st)" using u(1) f by (auto simp: post_response_def split: prod.splits)
  then obtain row where row: "snd u = snd st @ [row]" "ar_userId row = Some (rc_userId (who e))"
    "ar_after row = sanitizeAuditPayload 0 (response_body e ans)"
    using intercept_post[of ?rq "who e"] "1.prems"(2) by fastforce
  from "1.IH"[OF u(1)[symmetric]] "1.prems" u(2) obtain rows where rows: "snd st' = snd u @ rows"
    "list_all2 (\<lambda>(e, ids, tok, ans) row. ar_userId row = Some (rc_userId (who e)) \<and> ar_after row = sanitizeAuditPayload 0 (response_body e ans))
      (zip es fs) rows" by auto
  show ?case using row rows f by (intro exI[of _ "row # rows"]) simp
qed auto

text \<open>
  C28: The survey tables are anonymous, the audit log is not. When a group of employees hands in a batch of
  forms, exchanging the forms between them leaves the same tables of surveys, questions, assignments and
  responses, or fails likewise. But the interceptor adds a row to the audit log for every form,
  with the user who sent it and the employee and the answers it names.
\<close>

theorem survey_anonymous_in_tables_only:
  assumes "mset es = mset es'" and "length es = length forms" and "\<forall>e \<in> set es. rc_companyId (who e) \<noteq> []"
  shows "map_option fst (post_responses who v es forms (s, kept)) = map_option fst (post_responses who v es' forms (s, kept))
    \<and> (case post_responses who v es forms (s, kept) of None \<Rightarrow> True
       | Some (t, kept') \<Rightarrow> \<exists>rows. kept' = kept @ rows \<and>
           list_all2 (\<lambda>(e, ids, tok, ans) row. ar_userId row = Some (rc_userId (who e))
               \<and> value_at [Key ''employeeId''] (ar_after row) = Some (JStr e)
               \<and> value_at [Key ''answers''] (ar_after row)
                   = Some (JArr (map (\<lambda>(q, a). JObj [(''questionId'', JStr q), (''answer'', sanitizeAuditPayload 3 (answer_json a))]) ans)))
             (zip es forms) rows)"
proof (intro conjI)
  show "map_option fst (post_responses who v es forms (s, kept)) = map_option fst (post_responses who v es' forms (s, kept))"
    using exchanged_forms_same_tables[OF assms(1,2), of v s] by (simp only: post_responses_tables fst_conv)
next
  show "case post_responses who v es forms (s, kept) of None \<Rightarrow> True
       | Some (t, kept') \<Rightarrow> \<exists>rows. kept' = kept @ rows \<and>
           list_all2 (\<lambda>(e, ids, tok, ans) row. ar_userId row = Some (rc_userId (who e))
               \<and> value_at [Key ''employeeId''] (ar_after row) = Some (JStr e)
               \<and> value_at [Key ''answers''] (ar_after row)
                   = Some (JArr (map (\<lambda>(q, a). JObj [(''questionId'', JStr q), (''answer'', sanitizeAuditPayload 3 (answer_json a))]) ans)))
             (zip es forms) rows"
  proof (cases "post_responses who v es forms (s, kept)")
    case (Some st)
    obtain t kept' where st: "st = (t, kept')" by (cases st)
    obtain rows where rows: "kept' = kept @ rows"
      "list_all2 (\<lambda>(e, ids, tok, ans) row. ar_userId row = Some (rc_userId (who e)) \<and> ar_after row = sanitizeAuditPayload 0 (response_body e ans))
        (zip es forms) rows"
      using post_responses_log[OF assms(2,3) Some] st by auto
    show ?thesis unfolding Some st option.case prod.case
    proof (intro exI conjI)
      show "kept' = kept @ rows" by (rule rows(1))
      show "list_all2 (\<lambda>(e, ids, tok, ans) row. ar_userId row = Some (rc_userId (who e))
               \<and> value_at [Key ''employeeId''] (ar_after row) = Some (JStr e)
               \<and> value_at [Key ''answers''] (ar_after row)
                   = Some (JArr (map (\<lambda>(q, a). JObj [(''questionId'', JStr q), (''answer'', sanitizeAuditPayload 3 (answer_json a))]) ans)))
             (zip es forms) rows"
        using rows(2) by (rule list_all2_mono) (auto simp: sanitize_response_body simp del: value_at.simps)
    qed
  qed simp
qed

definition pulse_forms :: "survey_form list" where
  "pulse_forms = [([''r1''], ''t1'', [(''q'', AnsStr ''no'')]), ([''r2''], ''t2'', [(''q'', AnsStr ''yes'')])]"

definition pulse_batch :: "id list \<Rightarrow> (survey_db \<times> audit_row list) option" where
  "pulse_batch es = post_responses (\<lambda>e. actor_in (''user-'' @ e) ''co'') ''v'' es pulse_forms
     (survey_step (Launch 1 ''v'' [''a'', ''b'']) survey_office, [])"

theorem survey_anonymous_in_tables_only_witness:
  "pulse_batch [''a'', ''b''] \<noteq> None
   \<and> map_option fst (pulse_batch [''a'', ''b'']) = map_option fst (pulse_batch [''b'', ''a''])
   \<and> map_option (\<lambda>st. map (\<lambda>row. value_at [Key ''employeeId''] (ar_after row)) (snd st)) (pulse_batch [''b'', ''a''])
       = Some [Some (JStr ''b''), Some (JStr ''a'')]"
proof -
  have "pulse_batch [''a'', ''b''] \<noteq> None" by code_simp
  moreover have "map_option (\<lambda>st. map (\<lambda>row. value_at [Key ''employeeId''] (ar_after row)) (snd st)) (pulse_batch [''b'', ''a''])
       = Some [Some (JStr ''b''), Some (JStr ''a'')]" by code_simp
  moreover have "mset [''a'', ''b''] = mset [''b'', ''a'']" "length [''a'', ''b''] = length pulse_forms"
    "\<forall>e \<in> set [''a'', ''b'']. rc_companyId (actor_in (''user-'' @ e) ''co'') \<noteq> []"
    by (simp_all add: pulse_forms_def actor_in_def)
  note survey_anonymous_in_tables_only[OF this, of "''v''" "survey_step (Launch 1 ''v'' [''a'', ''b'']) survey_office" "[]"]
  ultimately show ?thesis unfolding pulse_batch_def by blast
qed

end
