(* ===== verification/Org.thy ===== *)
theory Org
  imports Employees
begin

text \<open>
  The organisation: \<^verbatim>\<open>org/org.service.ts\<close>. Locations, departments, job titles and pay grades are
  rows of a company with the same five operations; departments form a hierarchy, which an update may
  not close into a cycle, and the employees form the organisation chart. The recursive queries are
  partial functions: \<open>None\<close> is a query that never ends.
\<close>

section \<open>Tables\<close>

record location_row =
  lc_companyId :: id
  lc_name :: string
  lc_code :: string
  lc_address :: "json option"
  lc_timezone :: "string option"
  lc_isActive :: bool
  lc_deletedAt :: "instant option"

record department_row =
  dp_companyId :: id
  dp_parentId :: "id option"
  dp_name :: string
  dp_code :: string
  dp_costCenter :: "string option"
  dp_headId :: "id option"
  dp_isActive :: bool
  dp_deletedAt :: "instant option"

record job_title_row =
  jt_companyId :: id
  jt_title :: string
  jt_code :: "string option"
  jt_level :: "int option"
  jt_isActive :: bool
  jt_deletedAt :: "instant option"

record pay_grade_row =
  pg_companyId :: id
  pg_name :: string
  pg_code :: string
  pg_minSalary :: "jsnum option"
  pg_maxSalary :: "jsnum option"
  pg_currency :: string
  pg_isActive :: bool
  pg_deletedAt :: "instant option"

record org_db =
  od_locations :: "location_row table"
  od_departments :: "department_row table"
  od_jobTitles :: "job_title_row table"
  od_payGrades :: "pay_grade_row table"
  od_employees :: "employee_row table"

section \<open>Requests\<close>

text \<open>The bodies after the schema has filled in the defaults.\<close>

record location_dto =
  ld_name :: string
  ld_code :: string
  ld_address :: "json field"
  ld_timezone :: "string field"
  ld_isActive :: bool

record department_dto =
  nd_name :: string
  nd_code :: string
  nd_parentId :: "id field"
  nd_costCenter :: "string field"
  nd_headId :: "id field"
  nd_isActive :: bool

record job_title_dto =
  jd_title :: string
  jd_code :: "string field"
  jd_level :: "int field"
  jd_isActive :: bool

record pay_grade_dto =
  gd_name :: string
  gd_code :: string
  gd_minSalary :: "jsnum field"
  gd_maxSalary :: "jsnum field"
  gd_currency :: string
  gd_isActive :: bool

text \<open>\<^verbatim>\<open>isActive: z.boolean().default(true)\<close> and \<^verbatim>\<open>currency\<close>.\<close>

definition isActive_default :: "bool option \<Rightarrow> bool" where
  "isActive_default b = (case b of None \<Rightarrow> True | Some x \<Rightarrow> x)"

definition currency_default :: "string option \<Rightarrow> string" where
  "currency_default c = (case c of None \<Rightarrow> ''USD'' | Some x \<Rightarrow> x)"

section \<open>Locations\<close>

definition locationRow :: "id \<Rightarrow> location_dto \<Rightarrow> location_row" where
  "locationRow companyId dto =
     \<lparr>lc_companyId = companyId, lc_name = ld_name dto, lc_code = ld_code dto, lc_address = patch_field (ld_address dto) None,
      lc_timezone = patch_field (ld_timezone dto) None, lc_isActive = ld_isActive dto, lc_deletedAt = None\<rparr>"

definition patch_location :: "location_dto \<Rightarrow> location_row \<Rightarrow> location_row" where
  "patch_location dto r =
     r\<lparr>lc_name := ld_name dto, lc_code := ld_code dto, lc_address := patch_field (ld_address dto) (lc_address r),
       lc_timezone := patch_field (ld_timezone dto) (lc_timezone r), lc_isActive := ld_isActive dto\<rparr>"

definition listLocations :: "request_context \<Rightarrow> org_db \<Rightarrow> (id \<times> location_row) list" where
  "listLocations user s = tbl_all (\<lambda>i r. lc_companyId r = rc_companyId user \<and> lc_deletedAt r = None) (od_locations s)"

definition getLocation :: "request_context \<Rightarrow> id \<Rightarrow> org_db \<Rightarrow> app_error + location_row" where
  "getLocation user i s =
     (case tbl_get_where i (\<lambda>r. lc_companyId r = rc_companyId user \<and> lc_deletedAt r = None) (od_locations s) of
        None \<Rightarrow> Inl (NotFoundError ''Location not found'') | Some r \<Rightarrow> Inr r)"

text \<open>The unique index on company and code also counts the rows that were removed.\<close>

definition location_code_taken :: "id \<Rightarrow> string \<Rightarrow> id \<Rightarrow> org_db \<Rightarrow> bool" where
  "location_code_taken companyId code except s =
     (tbl_find (\<lambda>i r. i \<noteq> except \<and> lc_companyId r = companyId \<and> lc_code r = code) (od_locations s) \<noteq> None)"

definition createLocation :: "id \<Rightarrow> request_context \<Rightarrow> location_dto \<Rightarrow> org_db \<Rightarrow> (org_db, id) outcome" where
  "createLocation newId user dto s =
     (if \<not> fresh newId (od_locations s) \<or> location_code_taken (rc_companyId user) (ld_code dto) newId s
      then (Inl (DatabaseError ''locations_companyId_code_key''), s)
      else (Inr newId, s\<lparr>od_locations := tbl_insert newId (locationRow (rc_companyId user) dto) (od_locations s)\<rparr>))"

definition updateLocation :: "request_context \<Rightarrow> id \<Rightarrow> location_dto \<Rightarrow> org_db \<Rightarrow> (org_db, unit) outcome" where
  "updateLocation user i dto s =
     (case getLocation user i s of
        Inl e \<Rightarrow> (Inl e, s)
      | Inr r \<Rightarrow>
          (if location_code_taken (lc_companyId r) (ld_code dto) i s
           then (Inl (DatabaseError ''locations_companyId_code_key''), s)
           else (Inr (), s\<lparr>od_locations := tbl_update i (patch_location dto) (od_locations s)\<rparr>)))"

definition deleteLocation :: "request_context \<Rightarrow> instant \<Rightarrow> id \<Rightarrow> org_db \<Rightarrow> (org_db, id) outcome" where
  "deleteLocation user now i s =
     (case getLocation user i s of
        Inl e \<Rightarrow> (Inl e, s)
      | Inr r \<Rightarrow> (Inr i, s\<lparr>od_locations := tbl_update i (\<lambda>r. r\<lparr>lc_deletedAt := Some now\<rparr>) (od_locations s)\<rparr>))"

section \<open>Job titles\<close>

definition jobTitleRow :: "id \<Rightarrow> job_title_dto \<Rightarrow> job_title_row" where
  "jobTitleRow companyId dto =
     \<lparr>jt_companyId = companyId, jt_title = jd_title dto, jt_code = patch_field (jd_code dto) None,
      jt_level = patch_field (jd_level dto) None, jt_isActive = jd_isActive dto, jt_deletedAt = None\<rparr>"

definition patch_job_title :: "job_title_dto \<Rightarrow> job_title_row \<Rightarrow> job_title_row" where
  "patch_job_title dto r =
     r\<lparr>jt_title := jd_title dto, jt_code := patch_field (jd_code dto) (jt_code r),
       jt_level := patch_field (jd_level dto) (jt_level r), jt_isActive := jd_isActive dto\<rparr>"

definition listJobTitles :: "request_context \<Rightarrow> org_db \<Rightarrow> (id \<times> job_title_row) list" where
  "listJobTitles user s = tbl_all (\<lambda>i r. jt_companyId r = rc_companyId user \<and> jt_deletedAt r = None) (od_jobTitles s)"

definition getJobTitle :: "request_context \<Rightarrow> id \<Rightarrow> org_db \<Rightarrow> app_error + job_title_row" where
  "getJobTitle user i s =
     (case tbl_get_where i (\<lambda>r. jt_companyId r = rc_companyId user \<and> jt_deletedAt r = None) (od_jobTitles s) of
        None \<Rightarrow> Inl (NotFoundError ''Job title not found'') | Some r \<Rightarrow> Inr r)"

text \<open>Title and code are each unique in a company; a missing code does not count.\<close>

definition job_title_taken :: "id \<Rightarrow> job_title_row \<Rightarrow> id \<Rightarrow> org_db \<Rightarrow> bool" where
  "job_title_taken companyId new except s =
     (tbl_find (\<lambda>i r. i \<noteq> except \<and> jt_companyId r = companyId
        \<and> (jt_title r = jt_title new \<or> jt_code r \<noteq> None \<and> jt_code r = jt_code new)) (od_jobTitles s) \<noteq> None)"

definition createJobTitle :: "id \<Rightarrow> request_context \<Rightarrow> job_title_dto \<Rightarrow> org_db \<Rightarrow> (org_db, id) outcome" where
  "createJobTitle newId user dto s =
     (if \<not> fresh newId (od_jobTitles s) \<or> job_title_taken (rc_companyId user) (jobTitleRow (rc_companyId user) dto) newId s
      then (Inl (DatabaseError ''job_titles_companyId_key''), s)
      else (Inr newId, s\<lparr>od_jobTitles := tbl_insert newId (jobTitleRow (rc_companyId user) dto) (od_jobTitles s)\<rparr>))"

definition updateJobTitle :: "request_context \<Rightarrow> id \<Rightarrow> job_title_dto \<Rightarrow> org_db \<Rightarrow> (org_db, unit) outcome" where
  "updateJobTitle user i dto s =
     (case getJobTitle user i s of
        Inl e \<Rightarrow> (Inl e, s)
      | Inr r \<Rightarrow>
          (if job_title_taken (jt_companyId r) (patch_job_title dto r) i s
           then (Inl (DatabaseError ''job_titles_companyId_key''), s)
           else (Inr (), s\<lparr>od_jobTitles := tbl_update i (patch_job_title dto) (od_jobTitles s)\<rparr>)))"

definition deleteJobTitle :: "request_context \<Rightarrow> instant \<Rightarrow> id \<Rightarrow> org_db \<Rightarrow> (org_db, id) outcome" where
  "deleteJobTitle user now i s =
     (case getJobTitle user i s of
        Inl e \<Rightarrow> (Inl e, s)
      | Inr r \<Rightarrow> (Inr i, s\<lparr>od_jobTitles := tbl_update i (\<lambda>r. r\<lparr>jt_deletedAt := Some now\<rparr>) (od_jobTitles s)\<rparr>))"

section \<open>Pay grades\<close>

definition payGradeRow :: "id \<Rightarrow> pay_grade_dto \<Rightarrow> pay_grade_row" where
  "payGradeRow companyId dto =
     \<lparr>pg_companyId = companyId, pg_name = gd_name dto, pg_code = gd_code dto, pg_minSalary = patch_field (gd_minSalary dto) None,
      pg_maxSalary = patch_field (gd_maxSalary dto) None, pg_currency = gd_currency dto, pg_isActive = gd_isActive dto,
      pg_deletedAt = None\<rparr>"

definition patch_pay_grade :: "pay_grade_dto \<Rightarrow> pay_grade_row \<Rightarrow> pay_grade_row" where
  "patch_pay_grade dto r =
     r\<lparr>pg_name := gd_name dto, pg_code := gd_code dto, pg_minSalary := patch_field (gd_minSalary dto) (pg_minSalary r),
       pg_maxSalary := patch_field (gd_maxSalary dto) (pg_maxSalary r), pg_currency := gd_currency dto,
       pg_isActive := gd_isActive dto\<rparr>"

definition listPayGrades :: "request_context \<Rightarrow> org_db \<Rightarrow> (id \<times> pay_grade_row) list" where
  "listPayGrades user s = tbl_all (\<lambda>i r. pg_companyId r = rc_companyId user \<and> pg_deletedAt r = None) (od_payGrades s)"

definition getPayGrade :: "request_context \<Rightarrow> id \<Rightarrow> org_db \<Rightarrow> app_error + pay_grade_row" where
  "getPayGrade user i s =
     (case tbl_get_where i (\<lambda>r. pg_companyId r = rc_companyId user \<and> pg_deletedAt r = None) (od_payGrades s) of
        None \<Rightarrow> Inl (NotFoundError ''Pay grade not found'') | Some r \<Rightarrow> Inr r)"

definition pay_grade_code_taken :: "id \<Rightarrow> string \<Rightarrow> id \<Rightarrow> org_db \<Rightarrow> bool" where
  "pay_grade_code_taken companyId code except s =
     (tbl_find (\<lambda>i r. i \<noteq> except \<and> pg_companyId r = companyId \<and> pg_code r = code) (od_payGrades s) \<noteq> None)"

definition createPayGrade :: "id \<Rightarrow> request_context \<Rightarrow> pay_grade_dto \<Rightarrow> org_db \<Rightarrow> (org_db, id) outcome" where
  "createPayGrade newId user dto s =
     (if \<not> fresh newId (od_payGrades s) \<or> pay_grade_code_taken (rc_companyId user) (gd_code dto) newId s
      then (Inl (DatabaseError ''pay_grades_companyId_code_key''), s)
      else (Inr newId, s\<lparr>od_payGrades := tbl_insert newId (payGradeRow (rc_companyId user) dto) (od_payGrades s)\<rparr>))"

definition updatePayGrade :: "request_context \<Rightarrow> id \<Rightarrow> pay_grade_dto \<Rightarrow> org_db \<Rightarrow> (org_db, unit) outcome" where
  "updatePayGrade user i dto s =
     (case getPayGrade user i s of
        Inl e \<Rightarrow> (Inl e, s)
      | Inr r \<Rightarrow>
          (if pay_grade_code_taken (pg_companyId r) (gd_code dto) i s
           then (Inl (DatabaseError ''pay_grades_companyId_code_key''), s)
           else (Inr (), s\<lparr>od_payGrades := tbl_update i (patch_pay_grade dto) (od_payGrades s)\<rparr>)))"

definition deletePayGrade :: "request_context \<Rightarrow> instant \<Rightarrow> id \<Rightarrow> org_db \<Rightarrow> (org_db, id) outcome" where
  "deletePayGrade user now i s =
     (case getPayGrade user i s of
        Inl e \<Rightarrow> (Inl e, s)
      | Inr r \<Rightarrow> (Inr i, s\<lparr>od_payGrades := tbl_update i (\<lambda>r. r\<lparr>pg_deletedAt := Some now\<rparr>) (od_payGrades s)\<rparr>))"

section \<open>Departments\<close>

definition departmentRow :: "id \<Rightarrow> department_dto \<Rightarrow> department_row" where
  "departmentRow companyId dto =
     \<lparr>dp_companyId = companyId, dp_parentId = patch_field (nd_parentId dto) None, dp_name = nd_name dto, dp_code = nd_code dto,
      dp_costCenter = patch_field (nd_costCenter dto) None, dp_headId = patch_field (nd_headId dto) None,
      dp_isActive = nd_isActive dto, dp_deletedAt = None\<rparr>"

definition patch_department :: "department_dto \<Rightarrow> department_row \<Rightarrow> department_row" where
  "patch_department dto r =
     r\<lparr>dp_name := nd_name dto, dp_code := nd_code dto, dp_parentId := patch_field (nd_parentId dto) (dp_parentId r),
       dp_costCenter := patch_field (nd_costCenter dto) (dp_costCenter r),
       dp_headId := patch_field (nd_headId dto) (dp_headId r), dp_isActive := nd_isActive dto\<rparr>"

definition listDepartments :: "request_context \<Rightarrow> org_db \<Rightarrow> (id \<times> department_row) list" where
  "listDepartments user s = tbl_all (\<lambda>i r. dp_companyId r = rc_companyId user \<and> dp_deletedAt r = None) (od_departments s)"

text \<open>\<^verbatim>\<open>children: { where: { deletedAt: null } }\<close>.\<close>

definition live_children :: "id \<Rightarrow> org_db \<Rightarrow> (id \<times> department_row) list" where
  "live_children i s = tbl_all (\<lambda>j r. dp_parentId r = Some i \<and> dp_deletedAt r = None) (od_departments s)"

definition getDepartment :: "request_context \<Rightarrow> id \<Rightarrow> org_db \<Rightarrow> app_error + department_row \<times> (id \<times> department_row) list" where
  "getDepartment user i s =
     (case tbl_get_where i (\<lambda>r. dp_companyId r = rc_companyId user \<and> dp_deletedAt r = None) (od_departments s) of
        None \<Rightarrow> Inl (NotFoundError ''Department not found'') | Some r \<Rightarrow> Inr (r, live_children i s))"

definition department_code_taken :: "id \<Rightarrow> string \<Rightarrow> id \<Rightarrow> org_db \<Rightarrow> bool" where
  "department_code_taken companyId code except s =
     (tbl_find (\<lambda>i r. i \<noteq> except \<and> dp_companyId r = companyId \<and> dp_code r = code) (od_departments s) \<noteq> None)"

text \<open>\<^verbatim>\<open>headId\<close> and \<^verbatim>\<open>parentId\<close> are foreign keys.\<close>

definition department_links_exist :: "department_dto \<Rightarrow> org_db \<Rightarrow> bool" where
  "department_links_exist dto s \<longleftrightarrow>
     (case nd_parentId dto of Val p \<Rightarrow> tbl_get p (od_departments s) \<noteq> None | _ \<Rightarrow> True)
     \<and> (case nd_headId dto of Val h \<Rightarrow> tbl_get h (od_employees s) \<noteq> None | _ \<Rightarrow> True)"

definition createDepartment :: "id \<Rightarrow> request_context \<Rightarrow> department_dto \<Rightarrow> org_db \<Rightarrow> (org_db, id) outcome" where
  "createDepartment newId user dto s =
     (case (case nd_parentId dto of Val p \<Rightarrow> map_sum id (\<lambda>_. ()) (getDepartment user p s) | _ \<Rightarrow> Inr ()) of
        Inl e \<Rightarrow> (Inl e, s)
      | Inr _ \<Rightarrow>
          (if \<not> department_links_exist dto s then (Inl (DatabaseError ''departments_fkey''), s)
           else if \<not> fresh newId (od_departments s) \<or> department_code_taken (rc_companyId user) (nd_code dto) newId s
           then (Inl (DatabaseError ''departments_companyId_code_key''), s)
           else (Inr newId, s\<lparr>od_departments := tbl_insert newId (departmentRow (rc_companyId user) dto) (od_departments s)\<rparr>)))"

text \<open>
  The recursive query \<open>ancestors\<close>: the first row has the given id and company, each further row is
  the parent of the one before, of any company and removed or not. \<^verbatim>\<open>UNION ALL\<close> drops no
  duplicates, so a cycle keeps it going.
\<close>

partial_function (option) parent_chain :: "department_row table \<Rightarrow> id \<Rightarrow> id list option" where
  [code]: "parent_chain t i =
     (case tbl_get i t of
        None \<Rightarrow> Some []
      | Some d \<Rightarrow> (case dp_parentId d of
          None \<Rightarrow> Some [i]
        | Some p \<Rightarrow> Option.bind (parent_chain t p) (\<lambda>rest. Some (i # rest))))"

definition department_ancestors :: "id \<Rightarrow> id \<Rightarrow> department_row table \<Rightarrow> id list option" where
  "department_ancestors companyId p t =
     (case tbl_get_where p (\<lambda>d. dp_companyId d = companyId) t of None \<Rightarrow> Some [] | Some d \<Rightarrow> parent_chain t p)"

definition assertNoDepartmentCycle :: "id \<Rightarrow> id \<Rightarrow> id \<Rightarrow> org_db \<Rightarrow> (app_error + unit) option" where
  "assertNoDepartmentCycle companyId i p s =
     (if i = p then Some (Inl (ConflictError ''Department cannot be its own parent''))
      else (case department_ancestors companyId p (od_departments s) of
              None \<Rightarrow> None
            | Some as \<Rightarrow> Some (if i \<in> set as then Inl (ConflictError ''Circular department hierarchy is not allowed'') else Inr ())))"

definition updateDepartment :: "request_context \<Rightarrow> id \<Rightarrow> department_dto \<Rightarrow> org_db \<Rightarrow> (org_db, unit) outcome option" where
  "updateDepartment user i dto s =
     (case getDepartment user i s of
        Inl e \<Rightarrow> Some (Inl e, s)
      | Inr (r, cs) \<Rightarrow>
          (case (case nd_parentId dto of Val p \<Rightarrow> assertNoDepartmentCycle (rc_companyId user) i p s | _ \<Rightarrow> Some (Inr ())) of
             None \<Rightarrow> None
           | Some (Inl e) \<Rightarrow> Some (Inl e, s)
           | Some (Inr _) \<Rightarrow>
               Some (if \<not> department_links_exist dto s then (Inl (DatabaseError ''departments_fkey''), s)
                     else if department_code_taken (dp_companyId r) (nd_code dto) i s
                     then (Inl (DatabaseError ''departments_companyId_code_key''), s)
                     else (Inr (), s\<lparr>od_departments := tbl_update i (patch_department dto) (od_departments s)\<rparr>))))"

definition deleteDepartment :: "request_context \<Rightarrow> instant \<Rightarrow> id \<Rightarrow> org_db \<Rightarrow> (org_db, id) outcome" where
  "deleteDepartment user now i s =
     (case getDepartment user i s of
        Inl e \<Rightarrow> (Inl e, s)
      | Inr (r, cs) \<Rightarrow>
          (if cs \<noteq> [] then (Inl (ConflictError ''Cannot delete department with child departments''), s)
           else (Inr i, s\<lparr>od_departments := tbl_update i (\<lambda>r. r\<lparr>dp_deletedAt := Some now\<rparr>) (od_departments s)\<rparr>)))"

end
