(* ===== verification/Org_Tree.thy ===== *)
theory Org_Tree
  imports Org
begin

text \<open>
  The hierarchy of departments under any sequence of creations, updates and removals: the check of
  an update keeps it free of cycles as long as every parent named is of the caller's company, so the
  recursive query always ends; a parent of another company is not seen by the check.
\<close>

section \<open>Chains of parents\<close>

definition parent_rel :: "department_row table \<Rightarrow> (id \<times> id) set" where
  "parent_rel t = {(i, p). \<exists>d. tbl_get i t = Some d \<and> dp_parentId d = Some p}"

lemma parent_relI: "tbl_get i t = Some d \<Longrightarrow> dp_parentId d = Some p \<Longrightarrow> (i, p) \<in> parent_rel t"
  by (simp add: parent_rel_def)

lemma single_valued_parent: "(i, p) \<in> parent_rel t \<Longrightarrow> (i, q) \<in> parent_rel t \<Longrightarrow> p = q"
  by (auto simp: parent_rel_def)

lemma finite_parent_rel: "finite (parent_rel t)"
proof -
  have "parent_rel t \<subseteq> (\<lambda>(i, d). (i, the (dp_parentId d))) ` set t"
    by (force simp: parent_rel_def tbl_get_def dest: map_of_SomeD)
  then show ?thesis by (rule finite_subset) simp
qed

lemma parent_chain_step: "(i, p) \<in> parent_rel t \<Longrightarrow> parent_chain t i = Option.bind (parent_chain t p) (\<lambda>c. Some (i # c))"
  by (subst parent_chain.simps) (auto simp: parent_rel_def)

lemma parent_chain_end:
  "i \<notin> Domain (parent_rel t) \<Longrightarrow> parent_chain t i = Some (if tbl_get i t = None then [] else [i])"
  by (subst parent_chain.simps) (auto simp: parent_rel_def Domain_iff split: option.splits)

lemma above_step:
  assumes p: "(i, p) \<in> parent_rel t"
  shows "(i, j) \<in> (parent_rel t)\<^sup>* \<longleftrightarrow> j = i \<or> (p, j) \<in> (parent_rel t)\<^sup>*"
proof
  assume "(i, j) \<in> (parent_rel t)\<^sup>*"
  then show "j = i \<or> (p, j) \<in> (parent_rel t)\<^sup>*"
    by (cases rule: converse_rtranclE) (auto dest: single_valued_parent[OF p])
qed (use p in \<open>auto intro: converse_rtrancl_into_rtrancl\<close>)

text \<open>Without a cycle the query ends, and its rows are the departments above.\<close>

lemma parent_chain_total:
  assumes "acyclic (parent_rel t)"
  shows "\<exists>c. parent_chain t i = Some c \<and> distinct c
    \<and> set c = {j. (i, j) \<in> (parent_rel t)\<^sup>* \<and> tbl_get j t \<noteq> None}"
  using finite_acyclic_wf_converse[OF finite_parent_rel assms]
proof (induction i rule: wf_induct_rule)
  case (less i)
  show ?case
  proof (cases "i \<in> Domain (parent_rel t)")
    case True
    then obtain p where p: "(i, p) \<in> parent_rel t" by blast
    then obtain c where c: "parent_chain t p = Some c" "distinct c"
        "set c = {j. (p, j) \<in> (parent_rel t)\<^sup>* \<and> tbl_get j t \<noteq> None}"
      using less by blast
    have up: "(i, j) \<in> (parent_rel t)\<^sup>* \<longleftrightarrow> j = i \<or> (p, j) \<in> (parent_rel t)\<^sup>*" for j
      using above_step[OF p] .
    have "(p, i) \<notin> (parent_rel t)\<^sup>*" using p assms by (auto simp: acyclic_def dest: rtrancl_into_trancl2)
    then have "i \<notin> set c" by (simp add: c(3))
    moreover have "tbl_get i t \<noteq> None" using p by (auto simp: parent_rel_def)
    ultimately show ?thesis by (simp add: parent_chain_step[OF p] c up) blast
  next
    case False
    then have "(i, j) \<in> (parent_rel t)\<^sup>* \<longleftrightarrow> j = i" for j by (auto elim: converse_rtranclE)
    then show ?thesis using parent_chain_end[OF False] by auto
  qed
qed

text \<open>On a cycle it never ends: each row of a result would have a shorter result above it.\<close>

lemma parent_chain_shrinks:
  "(i, j) \<in> (parent_rel t)\<^sup>+ \<Longrightarrow> parent_chain t i = Some c \<Longrightarrow> \<exists>d. parent_chain t j = Some d \<and> length d < length c"
proof (induction j rule: trancl_induct)
  case (base p)
  then show ?case by (auto simp: parent_chain_step bind_eq_Some_conv)
next
  case (step j k)
  then obtain d where "parent_chain t j = Some d" "length d < length c" by blast
  then show ?case using parent_chain_step[OF step.hyps(2)] by (auto simp: bind_eq_Some_conv)
qed

lemma parent_chain_cycle: "(i, i) \<in> (parent_rel t)\<^sup>+ \<Longrightarrow> parent_chain t i = None"
  using parent_chain_shrinks[of i i t] by (cases "parent_chain t i") auto

lemma parent_chain_into_cycle: "(i, p) \<in> parent_rel t \<Longrightarrow> parent_chain t p = None \<Longrightarrow> parent_chain t i = None"
  by (simp add: parent_chain_step)

section \<open>Calls\<close>

datatype department_call =
    CreateDepartment id request_context department_dto
  | UpdateDepartment request_context id department_dto
  | DeleteDepartment request_context instant id

text \<open>A call that does not return leaves no next state.\<close>

fun department_step :: "department_call \<Rightarrow> org_db \<Rightarrow> org_db option" where
  "department_step (CreateDepartment n user dto) s = Some (snd (createDepartment n user dto s))"
| "department_step (UpdateDepartment user i dto) s = map_option snd (updateDepartment user i dto s)"
| "department_step (DeleteDepartment user now i) s = Some (snd (deleteDepartment user now i s))"

fun department_run :: "department_call list \<Rightarrow> org_db \<Rightarrow> org_db option" where
  "department_run [] s = Some s"
| "department_run (c # cs) s = Option.bind (department_step c s) (department_run cs)"

text \<open>\<open>owner\<close> gives every identifier of a department its company; a call keeps to it.\<close>

fun keeps_to_company :: "(id \<Rightarrow> id) \<Rightarrow> department_call \<Rightarrow> bool" where
  "keeps_to_company owner (CreateDepartment n user dto) = (owner n = rc_companyId user)"
| "keeps_to_company owner (UpdateDepartment user i dto) =
     (case nd_parentId dto of Val p \<Rightarrow> owner p = rc_companyId user | _ \<Rightarrow> True)"
| "keeps_to_company owner (DeleteDepartment user now i) = True"

definition hierarchy_ok :: "(id \<Rightarrow> id) \<Rightarrow> org_db \<Rightarrow> bool" where
  "hierarchy_ok owner s \<longleftrightarrow> acyclic (parent_rel (od_departments s))
     \<and> (\<forall>i d. tbl_get i (od_departments s) = Some d \<longrightarrow> dp_companyId d = owner i)
     \<and> (\<forall>(i, p) \<in> parent_rel (od_departments s). tbl_get p (od_departments s) \<noteq> None)"

lemma parent_rel_insert:
  "fresh n t \<Longrightarrow> parent_rel (tbl_insert n d t) = parent_rel t \<union> (case dp_parentId d of None \<Rightarrow> {} | Some p \<Rightarrow> {(n, p)})"
  by (auto simp: parent_rel_def tbl_get_insert fresh_get split: option.splits if_splits)

lemma parent_rel_delete: "parent_rel (tbl_update i (\<lambda>r. r\<lparr>dp_deletedAt := x\<rparr>) t) = parent_rel t"
  by (auto simp: parent_rel_def split: if_splits)

lemma parent_rel_update:
  "tbl_get i t = Some d \<Longrightarrow> parent_rel (tbl_update i (patch_department dto) t)
     = {(j, p). (j, p) \<in> parent_rel t \<and> j \<noteq> i} \<union> (case patch_field (nd_parentId dto) (dp_parentId d) of None \<Rightarrow> {} | Some p \<Rightarrow> {(i, p)})"
  by (auto simp: parent_rel_def patch_department_def split: option.splits if_splits)

text \<open>The first parent of a new department exists, so nothing above it leads back to the new one.\<close>

lemma create_keeps_hierarchy:
  assumes ok: "hierarchy_ok owner s" and c: "owner n = rc_companyId user"
  shows "hierarchy_ok owner (snd (createDepartment n user dto s))"
proof (cases "fst (createDepartment n user dto s)")
  case (Inl e)
  then have "snd (createDepartment n user dto s) = s"
    by (auto simp: createDepartment_def split: sum.splits if_splits)
  then show ?thesis using ok by simp
next
  case (Inr m)
  let ?t = "od_departments s"
  let ?d = "departmentRow (rc_companyId user) dto"
  from Inr have f: "fresh n ?t" and links: "department_links_exist dto s"
    and s': "od_departments (snd (createDepartment n user dto s)) = tbl_insert n ?d ?t"
    by (auto simp: createDepartment_def split: sum.splits if_splits)
  have par: "tbl_get p ?t \<noteq> None \<and> p \<noteq> n" if "dp_parentId ?d = Some p" for p
    using that links f by (cases "nd_parentId dto") (auto simp: department_links_exist_def departmentRow_def fresh_get)
  have nr: "n \<notin> Range (parent_rel ?t)" using ok f by (auto simp: hierarchy_ok_def fresh_get)
  have "acyclic (parent_rel (tbl_insert n ?d ?t))"
  proof (cases "dp_parentId ?d")
    case (Some p)
    have "(p, n) \<notin> (parent_rel ?t)\<^sup>*" using nr par[OF Some] by (auto elim: rtranclE)
    then show ?thesis using ok Some by (simp add: parent_rel_insert[OF f] hierarchy_ok_def acyclic_insert)
  qed (use ok in \<open>simp add: parent_rel_insert[OF f] hierarchy_ok_def\<close>)
  moreover have "tbl_get p (tbl_insert n ?d ?t) \<noteq> None" if "(i, p) \<in> parent_rel (tbl_insert n ?d ?t)" for i p
    using that ok par by (auto simp: parent_rel_insert[OF f] hierarchy_ok_def tbl_get_insert split: option.splits)
  moreover have "dp_companyId d = owner i" if "tbl_get i (tbl_insert n ?d ?t) = Some d" for i d
    using that ok c by (auto simp: hierarchy_ok_def tbl_get_insert departmentRow_def split: option.splits if_splits)
  ultimately show ?thesis unfolding hierarchy_ok_def s' by blast
qed

lemma delete_keeps_hierarchy:
  "hierarchy_ok owner s \<Longrightarrow> hierarchy_ok owner (snd (deleteDepartment user now i s))"
  by (auto simp: deleteDepartment_def hierarchy_ok_def parent_rel_delete split: sum.splits if_splits)

text \<open>With a parent of the caller's company the check sees every department above it.\<close>

lemma ancestors_of_own:
  assumes "hierarchy_ok owner s" and "owner p = companyId"
  shows "\<exists>as. department_ancestors companyId p (od_departments s) = Some as
    \<and> set as = {j. (p, j) \<in> (parent_rel (od_departments s))\<^sup>* \<and> tbl_get j (od_departments s) \<noteq> None}"
proof (cases "tbl_get p (od_departments s)")
  case None
  then have "p \<notin> Domain (parent_rel (od_departments s))" by (auto simp: parent_rel_def)
  then have "(p, j) \<in> (parent_rel (od_departments s))\<^sup>* \<longleftrightarrow> j = p" for j by (auto elim: converse_rtranclE)
  then show ?thesis using None by (auto simp: department_ancestors_def tbl_get_where_def)
next
  case (Some d)
  then have "dp_companyId d = companyId" using assms by (simp add: hierarchy_ok_def)
  then show ?thesis
    using Some parent_chain_total[of "od_departments s" p] assms(1)
    by (auto simp: department_ancestors_def tbl_get_where_def hierarchy_ok_def)
qed

lemma update_keeps_hierarchy:
  assumes ok: "hierarchy_ok owner s"
    and own: "case nd_parentId dto of Val p \<Rightarrow> owner p = rc_companyId user | _ \<Rightarrow> True"
  shows "\<exists>r s'. updateDepartment user i dto s = Some (r, s') \<and> hierarchy_ok owner s'"
proof -
  let ?t = "od_departments s" and ?c = "rc_companyId user"
  let ?check = "case nd_parentId dto of Val p \<Rightarrow> assertNoDepartmentCycle ?c i p s | _ \<Rightarrow> Some (Inr ())"
  have ends: "?check \<noteq> None"
  proof (cases "nd_parentId dto")
    case (Val p)
    then show ?thesis using ancestors_of_own[OF ok, of p ?c] own by (auto simp: assertNoDepartmentCycle_def)
  qed simp_all
  show ?thesis
  proof (cases "\<exists>s'. updateDepartment user i dto s = Some (Inr (), s')")
    case False
    then have "\<exists>e. updateDepartment user i dto s = Some (Inl e, s)"
      using ends by (auto simp: updateDepartment_def split: sum.splits option.splits if_splits)
    then show ?thesis using ok by blast
  next
    case True
    then obtain d cs where g: "getDepartment user i s = Inr (d, cs)" and check: "?check = Some (Inr ())"
      and links: "department_links_exist dto s"
      and u: "updateDepartment user i dto s = Some (Inr (), s\<lparr>od_departments := tbl_update i (patch_department dto) ?t\<rparr>)"
      by (auto simp: updateDepartment_def split: sum.splits option.splits if_splits)
    from g have d: "tbl_get i ?t = Some d" by (auto simp: getDepartment_def split: option.splits)
    let ?par = "patch_field (nd_parentId dto) (dp_parentId d)"
    let ?old = "{(j, p). (j, p) \<in> parent_rel ?t \<and> j \<noteq> i}"
    have par: "(p, i) \<notin> ?old\<^sup>* \<and> tbl_get p ?t \<noteq> None" if q: "?par = Some p" for p
    proof (cases "nd_parentId dto")
      case (Val q)
      with q check have "assertNoDepartmentCycle ?c i p s = Some (Inr ())" by simp
      then have "(p, i) \<notin> (parent_rel ?t)\<^sup>*"
        using ancestors_of_own[OF ok, of p ?c] own Val q d by (auto simp: assertNoDepartmentCycle_def split: if_splits)
      moreover have "?old\<^sup>* \<subseteq> (parent_rel ?t)\<^sup>*" by (rule rtrancl_mono) auto
      ultimately show ?thesis using links Val q by (auto simp: department_links_exist_def)
    next
      case Undef
      with q d have "(i, p) \<in> parent_rel ?t" by (auto simp: parent_rel_def)
      moreover have "?old\<^sup>* \<subseteq> (parent_rel ?t)\<^sup>*" by (rule rtrancl_mono) auto
      ultimately show ?thesis
        using ok unfolding hierarchy_ok_def acyclic_def by (blast dest: rtrancl_into_trancl2)
    qed (use q in simp)
    have "acyclic ?old" using ok by (auto simp: hierarchy_ok_def intro: acyclic_subset)
    then have "acyclic (parent_rel (tbl_update i (patch_department dto) ?t))"
      using par by (cases ?par) (simp_all add: parent_rel_update[OF d] acyclic_insert)
    moreover have "tbl_get p ?t \<noteq> None" if "(j, p) \<in> parent_rel (tbl_update i (patch_department dto) ?t)" for j p
      using that par ok by (auto simp: parent_rel_update[OF d] hierarchy_ok_def split: option.splits)
    ultimately have "hierarchy_ok owner (s\<lparr>od_departments := tbl_update i (patch_department dto) ?t\<rparr>)"
      using ok d by (auto simp: hierarchy_ok_def patch_department_def split: if_splits)
    then show ?thesis using u by blast
  qed
qed

lemma step_keeps_hierarchy:
  "hierarchy_ok owner s \<Longrightarrow> keeps_to_company owner c \<Longrightarrow> \<exists>s'. department_step c s = Some s' \<and> hierarchy_ok owner s'"
proof (cases c)
  case (UpdateDepartment user i dto)
  moreover assume "hierarchy_ok owner s" "keeps_to_company owner c"
  ultimately show ?thesis using update_keeps_hierarchy[where owner = owner and s = s and dto = dto and user = user and i = i] by auto
qed (auto simp: create_keeps_hierarchy delete_keeps_hierarchy)

lemma run_keeps_hierarchy:
  "hierarchy_ok owner s \<Longrightarrow> list_all (keeps_to_company owner) cs \<Longrightarrow> \<exists>s'. department_run cs s = Some s' \<and> hierarchy_ok owner s'"
proof (induction cs arbitrary: s)
  case (Cons c cs)
  then obtain s1 where "department_step c s = Some s1" "hierarchy_ok owner s1"
    using step_keeps_hierarchy[of owner s c] by auto
  then show ?case using Cons by auto
qed simp

section \<open>The hierarchy\<close>

definition no_departments :: "org_db \<Rightarrow> bool" where
  "no_departments s \<longleftrightarrow> od_departments s = []"

definition walk_ends :: "id \<Rightarrow> org_db \<Rightarrow> bool" where
  "walk_ends i s = (case parent_chain (od_departments s) i of None \<Rightarrow> False | Some c \<Rightarrow> distinct c)"

text \<open>
  C9: Starting without departments, any sequence of creations, updates and removals by users of any
  companies, in which every update names a parent of the caller's own company, runs to its end: no
  update hangs in its recursive query. In the state it leaves no department is above itself, and the
  walk up from any department ends without meeting one twice.
\<close>

theorem department_walk_ends:
  assumes "no_departments s" and "list_all (keeps_to_company owner) calls"
  shows "\<exists>t. department_run calls s = Some t \<and> acyclic (parent_rel (od_departments t)) \<and> (\<forall>i. walk_ends i t)"
proof -
  have "hierarchy_ok owner s"
    using assms(1) by (auto simp: hierarchy_ok_def no_departments_def parent_rel_def tbl_get_def acyclic_def)
  then obtain t where t: "department_run calls s = Some t" "hierarchy_ok owner t"
    using run_keeps_hierarchy assms(2) by blast
  then have ac: "acyclic (parent_rel (od_departments t))" by (simp add: hierarchy_ok_def)
  have "walk_ends i t" for i
    using parent_chain_total[OF ac, of i] by (auto simp: walk_ends_def)
  then show ?thesis using t(1) ac by blast
qed

definition plain_department :: "string \<Rightarrow> id field \<Rightarrow> department_dto" where
  "plain_department code parent =
     \<lparr>nd_name = code, nd_code = code, nd_parentId = parent, nd_costCenter = Undef, nd_headId = Undef, nd_isActive = True\<rparr>"

definition empty_org :: org_db where
  "empty_org = \<lparr>od_locations = [], od_departments = [], od_jobTitles = [], od_payGrades = [], od_employees = []\<rparr>"

definition two_departments :: "department_call list" where
  "two_departments =
     [CreateDepartment ''a'' (actor_in ''u'' ''co'') (plain_department ''A'' Undef),
      CreateDepartment ''b'' (actor_in ''u'' ''co'') (plain_department ''B'' (Val ''a'')),
      UpdateDepartment (actor_in ''u'' ''co'') ''a'' (plain_department ''A'' (Val ''b''))]"

theorem department_walk_ends_witness:
  "\<exists>t. department_run two_departments empty_org = Some t \<and> acyclic (parent_rel (od_departments t)) \<and> (\<forall>i. walk_ends i t)"
  by (rule department_walk_ends[where owner = "\<lambda>_. ''co''"])
     (simp_all add: no_departments_def empty_org_def two_departments_def plain_department_def actor_in_def)

lemma department_ancestors_own:
  "tbl_get p t = Some d \<Longrightarrow> dp_companyId d = c \<Longrightarrow> department_ancestors c p t = parent_chain t p"
  by (simp add: department_ancestors_def tbl_get_where_def)

lemma update_to_foreign:
  assumes g: "getDepartment user i s = Inr (d, cs)" and p: "tbl_get p (od_departments s) = Some e"
    and co: "dp_companyId e \<noteq> rc_companyId user" and free: "\<not> department_code_taken (rc_companyId user) code i s"
  shows "updateDepartment user i (plain_department code (Val p)) s
    = Some (Inr (), s\<lparr>od_departments := tbl_update i (patch_department (plain_department code (Val p))) (od_departments s)\<rparr>)"
proof -
  from g have d: "tbl_get i (od_departments s) = Some d" "dp_companyId d = rc_companyId user"
    by (auto simp: getDepartment_def split: option.splits)
  then have "i \<noteq> p" using p co by auto
  then have "assertNoDepartmentCycle (rc_companyId user) i p s = Some (Inr ())"
    using p co by (simp add: assertNoDepartmentCycle_def department_ancestors_def tbl_get_where_def)
  then show ?thesis
    using g d free p by (simp add: updateDepartment_def plain_department_def department_links_exist_def)
qed

lemma code_taken_elsewhere:
  assumes "distinct (tbl_ids (od_departments s))" and "tbl_get a (od_departments s) = Some d" and "dp_companyId d \<noteq> company"
    and "\<not> department_code_taken company code b s"
  shows "\<not> department_code_taken company code b (s\<lparr>od_departments := tbl_update a (patch_department dto) (od_departments s)\<rparr>)"
proof -
  have "r = d" if "(a, r) \<in> set (od_departments s)" for r
    using that assms(1,2) by (auto simp: tbl_ids_def tbl_get_def)
  then show ?thesis
    using assms(3,4) unfolding department_code_taken_def
    by (auto simp: tbl_find_None tbl_update_def patch_department_def split: if_splits)
qed

lemma getDepartment_Inr:
  "getDepartment user i s = Inr (d, cs) \<longleftrightarrow>
     tbl_get i (od_departments s) = Some d \<and> dp_companyId d = rc_companyId user \<and> dp_deletedAt d = None \<and> cs = live_children i s"
  by (auto simp: getDepartment_def tbl_get_where_None split: option.splits)

text \<open>
  The check does not see a parent of another company. Two live departments of two
  companies, can be put under each other, each by a user of its own company; afterwards every update
  that puts any department of the first company under its own one never returns.
\<close>

lemma foreign_parent_cycle:
  assumes "distinct (tbl_ids (od_departments s))"
    and "getDepartment ua a s = Inr (da, csa)" and "getDepartment ub b s = Inr (db, csb)"
    and "rc_companyId ua \<noteq> rc_companyId ub"
    and "\<not> department_code_taken (rc_companyId ua) code_a a s" and "\<not> department_code_taken (rc_companyId ub) code_b b s"
    and "getDepartment ua x s = Inr (dx, csx)" and "x \<noteq> a" and "nd_parentId dto = Val a"
  shows "\<exists>t. department_run [UpdateDepartment ua a (plain_department code_a (Val b)),
      UpdateDepartment ub b (plain_department code_b (Val a))] s = Some t \<and> updateDepartment ua x dto t = None"
proof -
  let ?f = "patch_department (plain_department code_a (Val b))" and ?g = "patch_department (plain_department code_b (Val a))"
  let ?t1 = "tbl_update a ?f (od_departments s)"
  let ?s1 = "s\<lparr>od_departments := ?t1\<rparr>"
  let ?t2 = "tbl_update b ?g ?t1"
  let ?s2 = "s\<lparr>od_departments := ?t2\<rparr>"
  note rows = assms(2,3,7)[unfolded getDepartment_Inr]
  have ab: "a \<noteq> b" "x \<noteq> b" using rows assms(4) by auto
  have u1: "updateDepartment ua a (plain_department code_a (Val b)) s = Some (Inr (), ?s1)"
    using update_to_foreign[OF assms(2)] rows assms(4,5) by metis
  have free: "\<not> department_code_taken (rc_companyId ub) code_b b ?s1"
    using code_taken_elsewhere[OF assms(1)] rows assms(4,6) by metis
  have g1: "getDepartment ub b ?s1 = Inr (db, live_children b ?s1)" and a1: "tbl_get a ?t1 = Some (?f da)"
    using rows ab by (simp_all add: getDepartment_Inr)
  have "dp_companyId (?f da) \<noteq> rc_companyId ub" using rows assms(4) by (simp add: patch_department_def)
  from update_to_foreign[OF g1 _ this free] a1
  have u2: "updateDepartment ub b (plain_department code_b (Val a)) ?s1 = Some (Inr (), ?s2)" by simp
  have "(a, b) \<in> parent_rel ?t2" "(b, a) \<in> parent_rel ?t2"
    using rows ab by (auto intro!: parent_relI simp: patch_department_def plain_department_def)
  then have "parent_chain ?t2 a = None" by (intro parent_chain_cycle) auto
  moreover have "department_ancestors (rc_companyId ua) a ?t2 = parent_chain ?t2 a"
    using rows ab by (intro department_ancestors_own[of _ _ "?f da"]) (simp_all add: patch_department_def)
  ultimately have "assertNoDepartmentCycle (rc_companyId ua) x a ?s2 = None"
    using assms(8) by (simp add: assertNoDepartmentCycle_def)
  moreover have "getDepartment ua x ?s2 = Inr (dx, live_children x ?s2)"
    using rows ab assms(8) by (simp add: getDepartment_Inr)
  ultimately have "updateDepartment ua x dto ?s2 = None" using assms(9) by (simp add: updateDepartment_def)
  then show ?thesis using u1 u2 by auto
qed

definition two_companies :: org_db where
  "two_companies = empty_org\<lparr>od_departments :=
     [(''a'', departmentRow ''co'' (plain_department ''A'' Undef)), (''x'', departmentRow ''co'' (plain_department ''X'' Undef)),
      (''b'', departmentRow ''other'' (plain_department ''B'' Undef))]\<rparr>"

lemma two_companies_rows:
  "getDepartment (actor_in ''u'' ''co'') ''a'' two_companies = Inr (departmentRow ''co'' (plain_department ''A'' Undef), [])"
  "getDepartment (actor_in ''u'' ''co'') ''x'' two_companies = Inr (departmentRow ''co'' (plain_department ''X'' Undef), [])"
  "getDepartment (actor_in ''v'' ''other'') ''b'' two_companies = Inr (departmentRow ''other'' (plain_department ''B'' Undef), [])"
  by (simp_all add: two_companies_def empty_org_def getDepartment_def tbl_get_where_def tbl_get_def departmentRow_def
      plain_department_def actor_in_def live_children_def tbl_all_def)

end
