(* ===== verification/Org_Chart.thy ===== *)
theory Org_Chart
  imports Org
begin

text \<open>
  The organisation chart: \<^verbatim>\<open>orgChart\<close>, \<^verbatim>\<open>buildOrgTree\<close> and \<^verbatim>\<open>stripDepth\<close> of
  \<^verbatim>\<open>org/org.service.ts\<close>. The recursive query starts with the employees without a manager and adds
  the direct reports of the rows it has; the rows become a tree. \<open>None\<close> stands for a query or a
  recursion that does not end. The lemmas show that neither happens, and which employees the chart has.
\<close>

section \<open>The query\<close>

record chart_row =
  cr_id :: id
  cr_name :: string
  cr_managerId :: "id option"
  cr_jobTitle :: "string option"
  cr_department :: "string option"
  cr_depth :: nat

definition charted :: "id \<Rightarrow> employee_row \<Rightarrow> bool" where
  "charted company e \<longleftrightarrow> em_companyId e = company \<and> em_deletedAt e = None"

text \<open>A row with its left joins.\<close>

definition chart_row_of :: "org_db \<Rightarrow> nat \<Rightarrow> id \<times> employee_row \<Rightarrow> chart_row" where
  "chart_row_of s depth = (\<lambda>(i, e).
     \<lparr>cr_id = i, cr_name = em_employeeNumber e, cr_managerId = em_managerId e,
      cr_jobTitle = map_option jt_title (Option.bind (em_jobTitleId e) (\<lambda>j. tbl_get j (od_jobTitles s))),
      cr_department = map_option dp_name (Option.bind (em_departmentId e) (\<lambda>d. tbl_get d (od_departments s))),
      cr_depth = depth\<rparr>)"

definition chart_roots :: "id \<Rightarrow> org_db \<Rightarrow> chart_row list" where
  "chart_roots company s =
     map (chart_row_of s 0) (tbl_all (\<lambda>i e. charted company e \<and> em_managerId e = None) (od_employees s))"

definition reports_of :: "id \<Rightarrow> org_db \<Rightarrow> chart_row \<Rightarrow> chart_row list" where
  "reports_of company s r =
     map (chart_row_of s (Suc (cr_depth r)))
       (tbl_all (\<lambda>i e. charted company e \<and> em_managerId e = Some (cr_id r)) (od_employees s))"

definition chart_next :: "id \<Rightarrow> org_db \<Rightarrow> chart_row list \<Rightarrow> chart_row list" where
  "chart_next company s rows = concat (map (reports_of company s) rows)"

partial_function (option) reporting_tree :: "id \<Rightarrow> org_db \<Rightarrow> chart_row list \<Rightarrow> chart_row list option" where
  [code]: "reporting_tree company s rows =
     (if rows = [] then Some []
      else Option.bind (reporting_tree company s (chart_next company s rows)) (\<lambda>rest. Some (rows @ rest)))"

text \<open>\<^verbatim>\<open>ORDER BY depth ASC, name ASC\<close>; \<open>collate\<close> is the place of a name in the database's order.\<close>

definition order_rows :: "(string \<Rightarrow> nat) \<Rightarrow> chart_row list \<Rightarrow> chart_row list" where
  "order_rows collate rows = sort_key cr_depth (sort_key (\<lambda>r. collate (cr_name r)) rows)"

section \<open>The tree\<close>

datatype org_tree = OrgNode chart_row "org_tree list"

text \<open>The nodes are one object each; \<open>children\<close> holds the identifiers of the nodes pushed into one.\<close>

record org_nodes =
  on_byId :: "(id \<times> chart_row) list"
  on_children :: "id \<Rightarrow> id list"
  on_roots :: "id list"

definition index_rows :: "chart_row list \<Rightarrow> (id \<times> chart_row) list" where
  "index_rows rows = foldl (\<lambda>m r. AList.update (cr_id r) r m) [] rows"

definition place_node :: "id \<times> chart_row \<Rightarrow> org_nodes \<Rightarrow> org_nodes" where
  "place_node = (\<lambda>(i, r) n.
     (case cr_managerId r of
        Some m \<Rightarrow>
          (if m \<noteq> [] \<and> map_of (on_byId n) m \<noteq> None
           then n\<lparr>on_children := (on_children n)(m := on_children n m @ [i])\<rparr>
           else n\<lparr>on_roots := on_roots n @ [i]\<rparr>)
      | None \<Rightarrow> n\<lparr>on_roots := on_roots n @ [i]\<rparr>))"

definition link_nodes :: "chart_row list \<Rightarrow> org_nodes" where
  "link_nodes rows =
     fold place_node (index_rows rows) \<lparr>on_byId = index_rows rows, on_children = (\<lambda>_. []), on_roots = []\<rparr>"

text \<open>\<^verbatim>\<open>nodes.map(stripDepth)\<close>, node by node, each with its children first.\<close>

partial_function (option) stripDepth :: "org_nodes \<Rightarrow> id list \<Rightarrow> org_tree list option" where
  [code]: "stripDepth n is =
     (case is of
        [] \<Rightarrow> Some []
      | i # rest \<Rightarrow>
          Option.bind (stripDepth n (on_children n i)) (\<lambda>cs.
            Option.bind (stripDepth n rest) (\<lambda>ts.
              Some (OrgNode (the (map_of (on_byId n) i)) cs # ts))))"

definition buildOrgTree :: "chart_row list \<Rightarrow> org_tree list option" where
  "buildOrgTree rows = (let n = link_nodes rows in stripDepth n (on_roots n))"

definition orgChart :: "(string \<Rightarrow> nat) \<Rightarrow> request_context \<Rightarrow> org_db \<Rightarrow> org_tree list option" where
  "orgChart collate user s =
     Option.bind (reporting_tree (rc_companyId user) s (chart_roots (rc_companyId user) s))
       (\<lambda>rows. buildOrgTree (order_rows collate rows))"

fun tree_ids :: "org_tree \<Rightarrow> id list" where
  "tree_ids (OrgNode r ts) = cr_id r # concat (map tree_ids ts)"

definition forest_ids :: "org_tree list \<Rightarrow> id list" where
  "forest_ids ts = concat (map tree_ids ts)"

section \<open>Levels\<close>

text \<open>The employee \<open>i\<close> of the company is \<open>n\<close> steps below one without manager.\<close>

inductive at_level :: "id \<Rightarrow> employee_row table \<Rightarrow> nat \<Rightarrow> id \<Rightarrow> bool" for company t where
  top: "tbl_get i t = Some e \<Longrightarrow> charted company e \<Longrightarrow> em_managerId e = None \<Longrightarrow> at_level company t 0 i"
| below: "at_level company t n m \<Longrightarrow> tbl_get i t = Some e \<Longrightarrow> charted company e \<Longrightarrow> em_managerId e = Some m \<Longrightarrow>
    at_level company t (Suc n) i"

inductive_simps at_level_0: "at_level company t 0 i"
inductive_simps at_level_Suc: "at_level company t (Suc n) i"

lemma at_level_unique: "at_level company t n i \<Longrightarrow> at_level company t k i \<Longrightarrow> n = k"
proof (induction arbitrary: k rule: at_level.induct)
  case (top i e)
  from top.prems top.hyps show ?case by (cases rule: at_level.cases) auto
next
  case (below n m i e)
  from below.prems below.hyps show ?case by (cases rule: at_level.cases) (auto dest: below.IH)
qed

lemma at_level_row: "at_level company t n i \<Longrightarrow> tbl_get i t \<noteq> None"
  by (cases rule: at_level.cases) auto

lemma at_level_below: "at_level company t (k + n) i \<Longrightarrow> \<exists>j. at_level company t n j"
proof (induction k arbitrary: i)
  case (Suc k)
  then show ?case by (auto simp: at_level_Suc)
qed auto

text \<open>No level has more steps than the table has rows: each of the levels above it has an employee of its own.\<close>

lemma at_level_bound: "at_level company t n i \<Longrightarrow> n < length t"
proof -
  assume n: "at_level company t n i"
  have "\<exists>j. at_level company t k j" if "k \<le> n" for k
    using at_level_below[of company t "n - k" k i] n that by simp
  then obtain f where f: "\<And>k. k \<le> n \<Longrightarrow> at_level company t k (f k)" by metis
  have "inj_on f {..n}" by (rule inj_onI) (metis atMost_iff at_level_unique f)
  moreover have "f ` {..n} \<subseteq> set (tbl_ids t)"
    using f at_level_row by (fastforce simp: tbl_ids_def tbl_get_def map_of_eq_None_iff)
  ultimately have "card {..n} \<le> card (set (tbl_ids t))" by (intro card_inj_on_le) auto
  also have "\<dots> \<le> length t" using card_length[of "tbl_ids t"] by (simp add: tbl_ids_def)
  finally show ?thesis by simp
qed

lemma distinct_map_fst_filter: "distinct (map fst t) \<Longrightarrow> distinct (map fst (filter P t))"
  by (induction t) auto

lemma mem_tbl_iff: "distinct (tbl_ids t) \<Longrightarrow> (i, e) \<in> set t \<longleftrightarrow> tbl_get i t = Some e"
  by (simp add: tbl_ids_def tbl_get_def)

definition level :: "id \<Rightarrow> org_db \<Rightarrow> nat \<Rightarrow> chart_row list" where
  "level company s n = (chart_next company s ^^ n) (chart_roots company s)"

lemma cr_id_row [simp]: "cr_id (chart_row_of s d x) = fst x" "cr_depth (chart_row_of s d x) = d"
    "cr_managerId (chart_row_of s d x) = em_managerId (snd x)"
  by (simp_all add: chart_row_of_def split: prod.splits)

text \<open>The rows of a level: each employee at it once, with its manager.\<close>

lemma level_rows:
  assumes "distinct (tbl_ids (od_employees s))"
  shows "distinct (map cr_id (level company s n))
    \<and> (\<forall>r \<in> set (level company s n). at_level company (od_employees s) n (cr_id r) \<and> cr_depth r = n
        \<and> (\<exists>e. tbl_get (cr_id r) (od_employees s) = Some e \<and> cr_managerId r = em_managerId e))
    \<and> (\<forall>i. at_level company (od_employees s) n i \<longrightarrow> i \<in> cr_id ` set (level company s n))"
proof (induction n)
  case 0
  then show ?case
    using assms distinct_map_fst_filter[of "od_employees s"]
    by (auto simp: level_def chart_roots_def tbl_all_def at_level_0 mem_tbl_iff tbl_ids_def[symmetric] image_iff o_def
        split: prod.splits)
next
  case (Suc n)
  let ?t = "od_employees s" and ?L = "level company s n"
  have next_level: "level company s (Suc n) = concat (map (reports_of company s) ?L)"
    by (simp add: level_def chart_next_def)
  have ids: "map cr_id (reports_of company s r) = map fst (tbl_all (\<lambda>i e. charted company e \<and> em_managerId e = Some (cr_id r)) ?t)"
    for r by (simp add: reports_of_def o_def)
  have mem: "x \<in> set (reports_of company s r) \<longleftrightarrow> (\<exists>i e. x = chart_row_of s (Suc (cr_depth r)) (i, e)
      \<and> tbl_get i ?t = Some e \<and> charted company e \<and> em_managerId e = Some (cr_id r))" for x r
    using assms by (auto simp: reports_of_def tbl_all_def mem_tbl_iff) blast
  have d1: "distinct (map cr_id (reports_of company s r))" for r
    unfolding ids tbl_all_def using assms by (intro distinct_map_fst_filter) (simp add: tbl_ids_def)
  have "distinct (map cr_id (concat (map (reports_of company s) rs)))" if "distinct (map cr_id rs)" for rs
    using that
  proof (induction rs)
    case (Cons r rs)
    have "cr_id x \<noteq> cr_id y" if "x \<in> set (reports_of company s r)" "y \<in> set (reports_of company s q)" "q \<in> set rs" for x y q
      using that Cons.prems by (auto simp: mem)
    then show ?case using Cons d1 by (fastforce simp: map_concat)
  qed simp
  then have "distinct (map cr_id (level company s (Suc n)))" using Suc next_level by simp
  moreover have "at_level company ?t (Suc n) (cr_id x) \<and> cr_depth x = Suc n
      \<and> (\<exists>e. tbl_get (cr_id x) ?t = Some e \<and> cr_managerId x = em_managerId e)" if "x \<in> set (level company s (Suc n))" for x
    using that Suc by (auto simp: next_level mem at_level_Suc)
  moreover have "i \<in> cr_id ` set (level company s (Suc n))" if "at_level company ?t (Suc n) i" for i
  proof -
    from that obtain m e where m: "at_level company ?t n m" "tbl_get i ?t = Some e" "charted company e" "em_managerId e = Some m"
      by (auto simp: at_level_Suc)
    then obtain r where r: "r \<in> set ?L" "cr_id r = m" using Suc by blast
    then have "chart_row_of s (Suc (cr_depth r)) (i, e) \<in> set (level company s (Suc n))"
      using m mem by (auto simp: next_level)
    then show ?thesis by force
  qed
  ultimately show ?case by blast
qed

lemma reporting_levels:
  assumes "(chart_next company s ^^ k) rows = []"
  shows "reporting_tree company s rows = Some (concat (map (\<lambda>n. (chart_next company s ^^ n) rows) [0..<k]))"
  using assms
proof (induction k arbitrary: rows)
  case 0
  then show ?case by (subst reporting_tree.simps) simp
next
  case (Suc k)
  show ?case
  proof (cases "rows = []")
    case True
    have "(chart_next company s ^^ n) [] = []" for n by (induction n) (simp_all add: chart_next_def)
    then show ?thesis using True by (subst reporting_tree.simps) simp
  next
    case False
    have "(chart_next company s ^^ k) (chart_next company s rows) = []"
      using Suc.prems by (simp add: funpow_swap1)
    from Suc.IH[OF this] show ?thesis
      using False by (subst reporting_tree.simps) (simp add: upt_conv_Cons map_Suc_upt[symmetric] o_def funpow_swap1 del: upt_Suc)
  qed
qed

text \<open>The rows of the query: every employee below one without manager, once.\<close>

lemma reporting_rows:
  assumes "distinct (tbl_ids (od_employees s))"
  shows "\<exists>rows. reporting_tree company s (chart_roots company s) = Some rows \<and> distinct (map cr_id rows)
    \<and> cr_id ` set rows = {i. \<exists>n. at_level company (od_employees s) n i}
    \<and> (\<forall>r \<in> set rows. at_level company (od_employees s) (cr_depth r) (cr_id r)
        \<and> (\<exists>e. tbl_get (cr_id r) (od_employees s) = Some e \<and> cr_managerId r = em_managerId e))"
proof -
  let ?t = "od_employees s" and ?k = "length (od_employees s)"
  let ?rows = "\<lambda>k. concat (map (level company s) [0..<k])"
  note rows = level_rows[OF assms, of company]
  have "level company s ?k = []"
  proof (rule ccontr)
    assume "level company s ?k \<noteq> []"
    then obtain r where "r \<in> set (level company s ?k)" by (cases "level company s ?k") auto
    with rows[of ?k] have "at_level company ?t ?k (cr_id r)" by blast
    then show False using at_level_bound by blast
  qed
  then have run: "reporting_tree company s (chart_roots company s) = Some (?rows ?k)"
    using reporting_levels[of ?k company s "chart_roots company s"]
    by (simp add: level_def[abs_def])
  have mem: "r \<in> set (?rows k) \<longleftrightarrow> (\<exists>n < k. r \<in> set (level company s n))" for k r by auto
  have "distinct (map cr_id (?rows k))" for k
  proof (induction k)
    case (Suc k)
    have "cr_id x \<noteq> cr_id y" if "x \<in> set (?rows k)" "y \<in> set (level company s k)" for x y
    proof -
      from that(1) obtain n where n: "n < k" "x \<in> set (level company s n)" using mem by blast
      then have "at_level company ?t n (cr_id x)" "at_level company ?t k (cr_id y)"
        using rows[of n] rows[of k] that(2) by blast+
      then show ?thesis using at_level_unique n(1) by fastforce
    qed
    then have "cr_id ` set (?rows k) \<inter> cr_id ` set (level company s k) = {}" by blast
    moreover have "?rows (Suc k) = ?rows k @ level company s k" by simp
    ultimately show ?case using Suc rows[of k] by (simp only: map_append distinct_append set_map)
  qed simp
  moreover have "cr_id ` set (?rows ?k) = {i. \<exists>n. at_level company ?t n i}"
  proof (intro set_eqI iffI)
    fix i assume "i \<in> cr_id ` set (?rows ?k)"
    then obtain n r where "r \<in> set (level company s n)" "i = cr_id r" using mem by blast
    then show "i \<in> {i. \<exists>n. at_level company ?t n i}" using rows[of n] by blast
  next
    fix i assume "i \<in> {i. \<exists>n. at_level company ?t n i}"
    then obtain n where n: "at_level company ?t n i" by blast
    then obtain r where "r \<in> set (level company s n)" "i = cr_id r" using rows[of n] by blast
    then show "i \<in> cr_id ` set (?rows ?k)" using mem[of r ?k] at_level_bound[OF n] by blast
  qed
  moreover have "at_level company ?t (cr_depth r) (cr_id r)
        \<and> (\<exists>e. tbl_get (cr_id r) ?t = Some e \<and> cr_managerId r = em_managerId e)" if "r \<in> set (?rows ?k)" for r
  proof -
    from that obtain n where "r \<in> set (level company s n)" using mem by blast
    then have "at_level company ?t n (cr_id r) \<and> cr_depth r = n
        \<and> (\<exists>e. tbl_get (cr_id r) ?t = Some e \<and> cr_managerId r = em_managerId e)" using rows[of n] by blast
    then show ?thesis by simp
  qed
  ultimately show ?thesis using run by blast
qed

section \<open>Linking the nodes\<close>

lemma update_new_key: "k \<notin> fst ` set m \<Longrightarrow> AList.update k v m = m @ [(k, v)]"
  by (induction m) auto

lemma index_rows_distinct: "distinct (map cr_id rows) \<Longrightarrow> index_rows rows = map (\<lambda>r. (cr_id r, r)) rows"
proof (induction rows rule: rev_induct)
  case (snoc r rows)
  then have "cr_id r \<notin> fst ` set (index_rows rows)" by (simp add: image_image)
  then show ?case using snoc by (simp add: index_rows_def update_new_key)
qed (simp add: index_rows_def)

lemma place_nodes:
  assumes "\<forall>r \<in> set rs. \<forall>m. cr_managerId r = Some m \<longrightarrow> m \<noteq> [] \<and> map_of (on_byId n) m \<noteq> None"
  shows "fold place_node (map (\<lambda>r. (cr_id r, r)) rs) n
    = n\<lparr>on_children := (\<lambda>i. on_children n i @ map cr_id (filter (\<lambda>r. cr_managerId r = Some i) rs)),
        on_roots := on_roots n @ map cr_id (filter (\<lambda>r. cr_managerId r = None) rs)\<rparr>"
  using assms
proof (induction rs arbitrary: n)
  case (Cons r rs)
  have byId: "on_byId (place_node (cr_id r, r) n) = on_byId n"
    by (simp add: place_node_def split: option.splits)
  have "fold place_node (map (\<lambda>r. (cr_id r, r)) (r # rs)) n
      = fold place_node (map (\<lambda>r. (cr_id r, r)) rs) (place_node (cr_id r, r) n)" by simp
  also have "\<dots> = (place_node (cr_id r, r) n)\<lparr>
        on_children := (\<lambda>i. on_children (place_node (cr_id r, r) n) i @ map cr_id (filter (\<lambda>r. cr_managerId r = Some i) rs)),
        on_roots := on_roots (place_node (cr_id r, r) n) @ map cr_id (filter (\<lambda>r. cr_managerId r = None) rs)\<rparr>"
    by (rule Cons.IH) (use Cons.prems in \<open>simp add: byId\<close>)
  also have "\<dots> = n\<lparr>on_children := (\<lambda>i. on_children n i @ map cr_id (filter (\<lambda>r. cr_managerId r = Some i) (r # rs))),
        on_roots := on_roots n @ map cr_id (filter (\<lambda>r. cr_managerId r = None) (r # rs))\<rparr>"
    using Cons.prems by (cases "cr_managerId r") (auto simp: place_node_def fun_eq_iff)
  finally show ?case .
qed simp

lemma link_nodes_rows:
  assumes "distinct (map cr_id rows)" and "[] \<notin> cr_id ` set rows"
    and "\<forall>r \<in> set rows. \<forall>m. cr_managerId r = Some m \<longrightarrow> m \<in> cr_id ` set rows"
  shows "link_nodes rows = \<lparr>on_byId = map (\<lambda>r. (cr_id r, r)) rows,
    on_children = (\<lambda>i. map cr_id (filter (\<lambda>r. cr_managerId r = Some i) rows)),
    on_roots = map cr_id (filter (\<lambda>r. cr_managerId r = None) rows)\<rparr>"
proof -
  have "\<forall>r \<in> set rows. \<forall>m. cr_managerId r = Some m \<longrightarrow> m \<noteq> [] \<and> map_of (map (\<lambda>r. (cr_id r, r)) rows) m \<noteq> None"
    using assms(2,3) by (fastforce simp: map_of_eq_None_iff image_image)
  then show ?thesis
    unfolding link_nodes_def index_rows_distinct[OF assms(1)] by (subst place_nodes) simp_all
qed

section \<open>Walking the tree\<close>

fun node_row :: "org_tree \<Rightarrow> chart_row" where
  "node_row (OrgNode r ts) = r"

text \<open>Under every node stand its direct reports, in the order of their names.\<close>

fun chart_shape :: "(string \<Rightarrow> nat) \<Rightarrow> org_tree \<Rightarrow> bool" where
  "chart_shape collate (OrgNode r ts) \<longleftrightarrow>
     sorted (map (\<lambda>t. collate (cr_name (node_row t))) ts)
     \<and> list_all (\<lambda>t. cr_managerId (node_row t) = Some (cr_id r) \<and> chart_shape collate t) ts"

definition reports_to :: "id \<Rightarrow> employee_row table \<Rightarrow> (id \<times> id) set" where
  "reports_to company t = {(j, m). \<exists>e. tbl_get j t = Some e \<and> charted company e \<and> em_managerId e = Some m}"

lemma at_level_report: "at_level company t n m \<Longrightarrow> (j, m) \<in> reports_to company t \<Longrightarrow> at_level company t (Suc n) j"
  by (auto simp: reports_to_def at_level_Suc)

lemma at_level_reports: "(j, i) \<in> (reports_to company t)\<^sup>* \<Longrightarrow> at_level company t n i \<Longrightarrow> \<exists>m \<ge> n. at_level company t m j \<and> (m = n \<longrightarrow> j = i)"
proof (induction rule: converse_rtrancl_induct)
  case (step j k)
  then obtain m where m: "m \<ge> n" "at_level company t m k" by blast
  with step.hyps(1) have "at_level company t (Suc m) j" by (intro at_level_report)
  with m(1) show ?case by (intro exI[of _ "Suc m"]) simp
qed auto

text \<open>The trees of two employees at one level have nobody in common.\<close>

lemma trees_disjoint:
  assumes "at_level company t n i" "at_level company t n k"
    and "(j, i) \<in> (reports_to company t)\<^sup>*" "(j, k) \<in> (reports_to company t)\<^sup>*"
  shows "i = k"
proof -
  have "single_valued (reports_to company t)" by (auto simp: single_valued_def reports_to_def)
  from single_valued_confluent[OF this assms(3,4)]
  have "(i, k) \<in> (reports_to company t)\<^sup>* \<or> (k, i) \<in> (reports_to company t)\<^sup>*" .
  moreover have "x = y" if "(x, y) \<in> (reports_to company t)\<^sup>*" "at_level company t n x" "at_level company t n y" for x y
    using at_level_reports[OF that(1,3)] at_level_unique[OF that(2)] by blast
  ultimately show ?thesis using assms(1,2) by blast
qed

lemma tree_of_reports:
  "(j, i) \<in> (reports_to company t)\<^sup>* \<longleftrightarrow> j = i \<or> (\<exists>c. (c, i) \<in> reports_to company t \<and> (j, c) \<in> (reports_to company t)\<^sup>*)"
  by (auto elim: rtranclE intro: rtrancl_into_rtrancl)

lemma not_below_report:
  assumes "at_level company t n i" and "(c, i) \<in> reports_to company t"
  shows "(i, c) \<notin> (reports_to company t)\<^sup>*"
proof
  assume "(i, c) \<in> (reports_to company t)\<^sup>*"
  from at_level_reports[OF this at_level_report[OF assms]] obtain m where "m \<ge> Suc n" "at_level company t m i" by blast
  then show False using at_level_unique[OF assms(1), of m] by simp
qed

text \<open>
  The recursion over the nodes ends, level by level from the bottom. Its trees hold the employees
  below the given ones, each once, in the shape of the chart.
\<close>

definition linked :: "(string \<Rightarrow> nat) \<Rightarrow> id \<Rightarrow> employee_row table \<Rightarrow> org_nodes \<Rightarrow> (id \<Rightarrow> chart_row) \<Rightarrow> bool" where
  "linked collate company t n row \<longleftrightarrow>
     (\<forall>k i. at_level company t k i \<longrightarrow>
        map_of (on_byId n) i = Some (row i) \<and> cr_id (row i) = i
        \<and> distinct (on_children n i) \<and> set (on_children n i) = {j. (j, i) \<in> reports_to company t}
        \<and> sorted (map (\<lambda>j. collate (cr_name (row j))) (on_children n i))
        \<and> (\<forall>j \<in> set (on_children n i). cr_managerId (row j) = Some i))"

lemma linkedD:
  assumes "linked collate company t n row" and "at_level company t k i"
  shows "map_of (on_byId n) i = Some (row i)" "cr_id (row i) = i" "distinct (on_children n i)"
    "set (on_children n i) = {j. (j, i) \<in> reports_to company t}"
    "sorted (map (\<lambda>j. collate (cr_name (row j))) (on_children n i))"
    "\<forall>j \<in> set (on_children n i). cr_managerId (row j) = Some i"
  using assms unfolding linked_def by blast+

lemma stripDepth_trees:
  assumes linked: "linked collate company t n row"
  shows "\<forall>i \<in> set is. at_level company t k i \<Longrightarrow> k + d = length t \<Longrightarrow> distinct is \<Longrightarrow>
    \<exists>ts. stripDepth n is = Some ts \<and> map node_row ts = map row is
      \<and> set (forest_ids ts) = {j. \<exists>i \<in> set is. (j, i) \<in> (reports_to company t)\<^sup>*}
      \<and> distinct (forest_ids ts) \<and> list_all (chart_shape collate) ts"
proof (induction d arbitrary: k "is")
  case 0
  then have "is = []" using at_level_bound[of company t k] by (cases "is") auto
  then show ?case by (subst stripDepth.simps) (simp add: forest_ids_def)
next
  case (Suc d)
  from Suc.prems(1,3) show ?case
  proof (induction "is")
    case Nil
    then show ?case by (subst stripDepth.simps) (simp add: forest_ids_def)
  next
    case (Cons i rest)
    then have i: "at_level company t k i" by simp
    note l = linkedD[OF linked i]
    have "\<forall>j \<in> set (on_children n i). at_level company t (Suc k) j"
      using at_level_report[OF i] l(4) by blast
    from Suc.IH[OF this _ l(3)] Suc.prems(2) obtain cs where cs: "stripDepth n (on_children n i) = Some cs"
      "map node_row cs = map row (on_children n i)"
      "set (forest_ids cs) = {j. \<exists>i \<in> set (on_children n i). (j, i) \<in> (reports_to company t)\<^sup>*}"
      "distinct (forest_ids cs)" "list_all (chart_shape collate) cs" by auto
    from Cons obtain ts where ts: "stripDepth n rest = Some ts" "map node_row ts = map row rest"
      "set (forest_ids ts) = {j. \<exists>i \<in> set rest. (j, i) \<in> (reports_to company t)\<^sup>*}"
      "distinct (forest_ids ts)" "list_all (chart_shape collate) ts" by auto
    let ?x = "OrgNode (row i) cs"
    have run: "stripDepth n (i # rest) = Some (?x # ts)"
      using cs(1) ts(1) l(1) by (subst stripDepth.simps) simp
    have mine: "set (tree_ids ?x) = {j. (j, i) \<in> (reports_to company t)\<^sup>*}"
      using cs(3) l(2,4) by (subst tree_of_reports) (auto simp: forest_ids_def)
    have "i \<notin> set (forest_ids cs)"
      using not_below_report[OF i] cs(3) l(4) by blast
    then have "distinct (tree_ids ?x)" using cs(4) l(2) by (simp add: forest_ids_def)
    moreover have "set (tree_ids ?x) \<inter> set (forest_ids ts) = {}"
    proof (rule ccontr)
      assume "set (tree_ids ?x) \<inter> set (forest_ids ts) \<noteq> {}"
      then obtain j k' where j: "(j, i) \<in> (reports_to company t)\<^sup>*" "k' \<in> set rest" "(j, k') \<in> (reports_to company t)\<^sup>*"
        using mine ts(3) by blast
      then have "i = k'" using trees_disjoint[OF i _ j(1,3)] Cons.prems(1) by simp
      then show False using j(2) Cons.prems(2) by simp
    qed
    ultimately have "distinct (forest_ids (?x # ts))" using ts(4) by (simp add: forest_ids_def)
    moreover have "set (forest_ids (?x # ts)) = {j. \<exists>a \<in> set (i # rest). (j, a) \<in> (reports_to company t)\<^sup>*}"
      using mine ts(3) by (auto simp: forest_ids_def)
    moreover have "chart_shape collate ?x"
    proof -
      have "map (\<lambda>t. collate (cr_name (node_row t))) cs = map (\<lambda>j. collate (cr_name (row j))) (on_children n i)"
        using arg_cong[OF cs(2), of "map (\<lambda>r. collate (cr_name r))"] by (simp add: o_def)
      moreover have "\<forall>t \<in> set cs. cr_managerId (node_row t) = Some i"
      proof
        fix t assume "t \<in> set cs"
        then have "node_row t \<in> set (map row (on_children n i))" unfolding cs(2)[symmetric] by simp
        then show "cr_managerId (node_row t) = Some i" using l(6) by auto
      qed
      ultimately show ?thesis using l(2,5) cs(5) by (simp add: list_all_iff)
    qed
    ultimately show ?case using run ts(2,5) by auto
  qed
qed

section \<open>The chart\<close>

lemma set_order_rows [simp]: "set (order_rows collate rows) = set rows"
  by (simp add: order_rows_def)

lemma order_rows_distinct: "distinct (map cr_id (order_rows collate rows)) = distinct (map cr_id rows)"
  by (simp add: order_rows_def distinct_map)

text \<open>Rows of one depth are in the order of their names.\<close>

lemma order_rows_level:
  assumes "\<forall>r \<in> set rows. P r \<longrightarrow> cr_depth r = d"
  shows "sorted (map (\<lambda>r. collate (cr_name r)) (filter P (order_rows collate rows)))"
proof -
  let ?named = "sort_key (\<lambda>r. collate (cr_name r)) rows"
  have "filter P (order_rows collate rows) = filter P (filter (\<lambda>r. cr_depth r = d) (order_rows collate rows))"
    using assms by (auto simp: filter_filter intro!: filter_cong)
  also have "\<dots> = filter P (filter (\<lambda>r. cr_depth r = d) ?named)"
    unfolding order_rows_def by (simp only: sort_key_stable)
  finally show ?thesis by (simp add: filter_filter sorted_filter[where f = "\<lambda>r. collate (cr_name r)"])
qed

lemma top_above: "at_level company t n i \<Longrightarrow> \<exists>r. at_level company t 0 r \<and> (i, r) \<in> (reports_to company t)\<^sup>*"
proof (induction rule: at_level.induct)
  case (below n m i e)
  then have "(i, m) \<in> reports_to company t" by (auto simp: reports_to_def)
  then show ?case using below.IH by (blast intro: converse_rtrancl_into_rtrancl)
qed (auto intro: at_level.top)

lemma charted_rows:
  assumes "cr_id ` set R = {i. \<exists>n. at_level company t n i}"
    and "\<forall>r \<in> set R. at_level company t (cr_depth r) (cr_id r) \<and> (\<exists>e. tbl_get (cr_id r) t = Some e \<and> cr_managerId r = em_managerId e)"
    and "at_level company t k i"
  shows "cr_id ` set (filter (\<lambda>r. cr_managerId r = Some i) R) = {j. (j, i) \<in> reports_to company t}"
    and "\<forall>r \<in> set R. cr_managerId r = Some i \<longrightarrow> cr_depth r = Suc k"
proof -
  have down: "(cr_id r, i) \<in> reports_to company t" if "r \<in> set R" "cr_managerId r = Some i" for r
  proof -
    from assms(2) that obtain e where e: "tbl_get (cr_id r) t = Some e" "em_managerId e = Some i"
      and l: "at_level company t (cr_depth r) (cr_id r)" by auto
    from l e(1) have "charted company e" by (cases rule: at_level.cases) auto
    then show ?thesis using e by (auto simp: reports_to_def)
  qed
  show "\<forall>r \<in> set R. cr_managerId r = Some i \<longrightarrow> cr_depth r = Suc k"
    using at_level_report[OF assms(3) down] assms(2) at_level_unique by blast
  have "j \<in> cr_id ` set (filter (\<lambda>r. cr_managerId r = Some i) R)" if j: "(j, i) \<in> reports_to company t" for j
  proof -
    from at_level_report[OF assms(3) j] assms(1) obtain r where r: "r \<in> set R" "j = cr_id r" by blast
    then have "cr_managerId r = Some i" using assms(2) j by (auto simp: reports_to_def)
    then show ?thesis using r by simp
  qed
  then show "cr_id ` set (filter (\<lambda>r. cr_managerId r = Some i) R) = {j. (j, i) \<in> reports_to company t}"
    using down by auto
qed

lemma charted_roots:
  assumes "cr_id ` set R = {i. \<exists>n. at_level company t n i}"
    and "\<forall>r \<in> set R. at_level company t (cr_depth r) (cr_id r) \<and> (\<exists>e. tbl_get (cr_id r) t = Some e \<and> cr_managerId r = em_managerId e)"
  shows "i \<in> cr_id ` {r \<in> set R. cr_managerId r = None} \<longleftrightarrow> at_level company t 0 i"
proof
  assume "i \<in> cr_id ` {r \<in> set R. cr_managerId r = None}"
  then obtain e d where "tbl_get i t = Some e" "em_managerId e = None" and l: "at_level company t d i"
    using assms(2) by fastforce
  with l show "at_level company t 0 i" by (cases rule: at_level.cases) (auto intro: at_level.top)
next
  assume l: "at_level company t 0 i"
  then have "i \<in> cr_id ` set R" unfolding assms(1) by blast
  then obtain r where r: "r \<in> set R" "i = cr_id r" by blast
  then obtain e where "tbl_get i t = Some e" "cr_managerId r = em_managerId e" using assms(2) by blast
  with l have "cr_managerId r = None" by (simp add: at_level_0)
  then show "i \<in> cr_id ` {r \<in> set R. cr_managerId r = None}" using r by blast
qed

lemma linked_rows:
  assumes "distinct (map cr_id rows)"
    and "cr_id ` set rows = {i. \<exists>n. at_level company t n i}"
    and "\<forall>r \<in> set rows. at_level company t (cr_depth r) (cr_id r) \<and> (\<exists>e. tbl_get (cr_id r) t = Some e \<and> cr_managerId r = em_managerId e)"
    and n: "on_byId n = map (\<lambda>r. (cr_id r, r)) (order_rows collate rows)"
      "on_children n = (\<lambda>i. map cr_id (filter (\<lambda>r. cr_managerId r = Some i) (order_rows collate rows)))"
  shows "linked collate company t n (\<lambda>i. the (map_of (on_byId n) i))"
proof -
  let ?R = "order_rows collate rows" and ?row = "\<lambda>i. the (map_of (on_byId n) i)"
  have d: "distinct (map cr_id ?R)" using assms(1) by (simp add: order_rows_distinct)
  have get: "map_of (on_byId n) (cr_id r) = Some r" if "r \<in> set ?R" for r
    unfolding n using that d by (intro map_of_is_SomeI) (auto simp: o_def)
  have row: "?row (cr_id r) = r" if "r \<in> set ?R" for r using get[OF that] by simp
  show ?thesis unfolding linked_def
  proof (intro allI impI)
    fix k i assume i: "at_level company t k i"
    then have "i \<in> cr_id ` set rows" unfolding assms(2) by blast
    then obtain r where r: "r \<in> set ?R" "cr_id r = i" by auto
    note c = charted_rows[of ?R company t, unfolded set_order_rows, OF assms(2,3) i]
    let ?C = "filter (\<lambda>r. cr_managerId r = Some i) ?R"
    have "map (\<lambda>j. collate (cr_name (?row j))) (on_children n i) = map (\<lambda>r. collate (cr_name r)) ?C"
      using row by (simp add: n(2))
    then have "sorted (map (\<lambda>j. collate (cr_name (?row j))) (on_children n i))"
      using order_rows_level[OF c(2)] by simp
    moreover have "distinct (on_children n i)" using d by (simp add: n(2) distinct_map_filter)
    moreover have "set (on_children n i) = {j. (j, i) \<in> reports_to company t}" using c(1) by (simp add: n(2))
    moreover have "\<forall>j \<in> set (on_children n i). cr_managerId (?row j) = Some i" using row by (auto simp: n(2))
    ultimately show "map_of (on_byId n) i = Some (?row i) \<and> cr_id (?row i) = i
        \<and> distinct (on_children n i) \<and> set (on_children n i) = {j. (j, i) \<in> reports_to company t}
        \<and> sorted (map (\<lambda>j. collate (cr_name (?row j))) (on_children n i))
        \<and> (\<forall>j \<in> set (on_children n i). cr_managerId (?row j) = Some i)"
      using get[OF r(1)] r(2) by auto
  qed
qed

text \<open>
  C12: The organisation chart is always produced, whatever managers the employees name: the recursive
  query and the recursion over the tree end. Exactly the employees who have a chain of managers, all of the
  company and not removed, up to one without manager are in it, each once; under each stand its direct
  reports in the order of their numbers. So an employee whose chain of managers leads to a removed one
  or into a cycle is missing from the chart, with everybody below.
\<close>

theorem org_chart_complete:
  assumes "distinct (tbl_ids (od_employees s))" and "tbl_get [] (od_employees s) = None"
  shows "\<exists>forest. orgChart collate user s = Some forest \<and> distinct (forest_ids forest)
    \<and> set (forest_ids forest) = {i. \<exists>n. at_level (rc_companyId user) (od_employees s) n i}
    \<and> list_all (\<lambda>t. cr_managerId (node_row t) = None \<and> chart_shape collate t) forest"
proof -
  let ?c = "rc_companyId user" and ?t = "od_employees s"
  obtain rows where run: "reporting_tree ?c s (chart_roots ?c s) = Some rows" and d: "distinct (map cr_id rows)"
    and ids: "cr_id ` set rows = {i. \<exists>n. at_level ?c ?t n i}"
    and rows: "\<forall>r \<in> set rows. at_level ?c ?t (cr_depth r) (cr_id r)
        \<and> (\<exists>e. tbl_get (cr_id r) ?t = Some e \<and> cr_managerId r = em_managerId e)"
    using reporting_rows[OF assms(1), of ?c] by blast
  let ?R = "order_rows collate rows"
  let ?n = "link_nodes ?R"
  let ?roots = "filter (\<lambda>r. cr_managerId r = None) ?R"
  have managers: "\<forall>r \<in> set ?R. \<forall>m. cr_managerId r = Some m \<longrightarrow> m \<in> cr_id ` set ?R"
  proof (intro ballI allI impI)
    fix r m assume "r \<in> set ?R" "cr_managerId r = Some m"
    then obtain e k where e: "tbl_get (cr_id r) ?t = Some e" "em_managerId e = Some m" and k: "at_level ?c ?t k (cr_id r)"
      using rows by fastforce
    from k e have "\<exists>k. at_level ?c ?t k m" by (cases rule: at_level.cases) auto
    then show "m \<in> cr_id ` set ?R" using ids by simp
  qed
  have "[] \<notin> cr_id ` set ?R"
  proof
    assume "[] \<in> cr_id ` set ?R"
    then obtain n where "at_level ?c ?t n []" unfolding set_order_rows ids by blast
    then show False using at_level_row assms(2) by blast
  qed
  from link_nodes_rows[OF _ this managers] d
  have n: "on_byId ?n = map (\<lambda>r. (cr_id r, r)) ?R" "on_roots ?n = map cr_id ?roots"
    "on_children ?n = (\<lambda>i. map cr_id (filter (\<lambda>r. cr_managerId r = Some i) ?R))"
    by (simp_all add: order_rows_distinct)
  note linked = linked_rows[OF d ids rows n(1,3)]
  have top: "i \<in> set (on_roots ?n) \<longleftrightarrow> at_level ?c ?t 0 i" for i
    using charted_roots[OF ids rows] by (simp add: n(2))
  have "distinct (on_roots ?n)" using d by (simp add: n(2) distinct_map_filter order_rows_distinct)
  then obtain ts where ts: "stripDepth ?n (on_roots ?n) = Some ts"
    "map node_row ts = map (\<lambda>i. the (map_of (on_byId ?n) i)) (on_roots ?n)"
    "set (forest_ids ts) = {j. \<exists>i \<in> set (on_roots ?n). (j, i) \<in> (reports_to ?c ?t)\<^sup>*}"
    "distinct (forest_ids ts)" "list_all (chart_shape collate) ts"
    using stripDepth_trees[OF linked, of "on_roots ?n" 0 "length ?t"] top by auto
  have "set (forest_ids ts) = {i. \<exists>n. at_level ?c ?t n i}"
  proof -
    have "j \<in> set (forest_ids ts) \<longleftrightarrow> (\<exists>n. at_level ?c ?t n j)" for j
      unfolding ts(3) using top top_above[of ?c ?t _ j] at_level_reports[of j _ ?c ?t 0] by blast
    then show ?thesis by blast
  qed
  moreover have "cr_managerId (node_row t) = None" if "t \<in> set ts" for t
  proof -
    have "map_of (on_byId ?n) (cr_id r) = Some r" if "r \<in> set ?roots" for r
      unfolding n using that d by (intro map_of_is_SomeI) (auto simp: o_def order_rows_distinct)
    then have "map node_row ts = ?roots" unfolding ts(2) n(2) map_map by (intro map_idI) simp
    then have "node_row t \<in> set ?roots" using that by (metis image_eqI list.set_map)
    then show ?thesis by simp
  qed
  ultimately show ?thesis
    using run ts by (auto simp: orgChart_def buildOrgTree_def Let_def list_all_iff)
qed

definition five_employees :: org_db where
  "five_employees =
     \<lparr>od_locations = [], od_departments = [], od_jobTitles = [], od_payGrades = [],
      od_employees =
        [(''b'', (new_employee ''co'' None)\<lparr>em_employeeNumber := ''E3'', em_managerId := Some ''a''\<rparr>),
         (''a'', new_employee ''co'' None),
         (''c'', (new_employee ''co'' None)\<lparr>em_employeeNumber := ''E2'', em_managerId := Some ''a''\<rparr>),
         (''d'', (new_employee ''co'' None)\<lparr>em_managerId := Some ''e''\<rparr>),
         (''e'', (new_employee ''co'' None)\<lparr>em_managerId := Some ''d''\<rparr>)]\<rparr>"

theorem org_chart_complete_witness:
  "\<exists>forest. orgChart length (actor_in ''u'' ''co'') five_employees = Some forest \<and> distinct (forest_ids forest)
    \<and> set (forest_ids forest) = {i. \<exists>n. at_level ''co'' (od_employees five_employees) n i}
    \<and> list_all (\<lambda>t. cr_managerId (node_row t) = None \<and> chart_shape length t) forest"
  using org_chart_complete[of five_employees length "actor_in ''u'' ''co''"]
  by (simp add: five_employees_def tbl_ids_def tbl_get_def)

end
