(* ===== verification/Recruitment.thy ===== *)
theory Recruitment
  imports Audit_Log Js_String Money
begin

text \<open>
  Recruitment, first part: the tables and the services of \<^verbatim>\<open>recruitment/services\<close> for job
  requisitions, candidates and applications, with the public form of
  \<^verbatim>\<open>careers.controller.ts\<close>. Interviews and offers follow in their own theories.
\<close>

section \<open>Tables\<close>

datatype requisition_status = ReqDRAFT | ReqPENDING | ReqOPEN | ReqON_HOLD | ReqCLOSED | ReqCANCELLED

datatype location_type = ONSITE | REMOTE | HYBRID

datatype position_type = PosFULL_TIME | PosPART_TIME | PosCONTRACT | PosINTERN

record requisition_row =
  rq_title :: string
  rq_departmentId :: "id option"
  rq_requestedById :: id
  rq_approvedById :: "id option"
  rq_status :: requisition_status
  rq_employmentType :: position_type
  rq_locationType :: location_type
  rq_headcountApproved :: int
  rq_headcountFilled :: int
  rq_jobDescription :: "string option"
  rq_requirements :: "string option"
  rq_salaryRangeMin :: "jsnum option"
  rq_salaryRangeMax :: "jsnum option"
  rq_publicSlug :: "string option"
  rq_publishedAt :: "instant option"
  rq_closedAt :: "instant option"
  rq_createdAt :: instant

datatype candidate_source = CAREERS_PAGE | REFERRAL | AGENCY | MANUAL | IMPORT

record candidate_row =
  cn_email :: string
  cn_phone :: "string option"
  cn_fullName :: string
  cn_resumeS3Key :: "string option"
  cn_profileData :: "json option"
  cn_source :: candidate_source
  cn_referredByEmployeeId :: "id option"
  cn_createdAt :: instant

datatype application_stage = APPLIED | SCREENING | INTERVIEW | OFFER | StageHIRED | StageREJECTED | StageWITHDRAWN

record application_row =
  ap_candidateId :: id
  ap_requisitionId :: id
  ap_stage :: application_stage
  ap_score :: "jsnum option"
  ap_rejectionReason :: "string option"
  ap_rejectedById :: "id option"
  ap_lastStageChangeAt :: "instant option"
  ap_createdAt :: instant

datatype panel_status = PanelSCHEDULED | PanelCOMPLETED | PanelCANCELLED | PanelNO_SHOW

datatype interview_mode = ModeONSITE | VIDEO | PHONE

record panel_row =
  pn_applicationId :: id
  pn_scheduledAt :: instant
  pn_durationMinutes :: int
  pn_mode :: interview_mode
  pn_locationOrLink :: "string option"
  pn_status :: panel_status
  pn_createdById :: id

datatype panelist_role = LEAD | PANELIST

record panelist_row =
  pl_panelId :: id
  pl_employeeId :: id
  pl_role :: panelist_role

datatype recommendation = STRONG_YES | YES | NO | STRONG_NO

record scorecard_row =
  sc_panelId :: id
  sc_employeeId :: id
  sc_recommendation :: recommendation
  sc_technical :: "jsnum option"
  sc_communication :: "jsnum option"
  sc_cultureFit :: "jsnum option"
  sc_notes :: "string option"
  sc_submittedAt :: "instant option"

datatype offer_status = OfferDRAFT | OfferSENT | OfferACCEPTED | OfferDECLINED | OfferRESCINDED | OfferEXPIRED

record offer_row =
  of_applicationId :: id
  of_status :: offer_status
  of_baseSalary :: jsnum
  of_bonus :: "jsnum option"
  of_equityValue :: "jsnum option"
  of_currency :: string
  of_startDate :: instant
  of_expiresAt :: "instant option"
  of_letterKey :: "string option"
  of_sentAt :: "instant option"
  of_respondedAt :: "instant option"
  of_declineReason :: "string option"
  of_createdById :: id

text \<open>\<open>rd_expiryJobs\<close> holds the delayed jobs of the expiry queue with their delay.\<close>

record recruitment_db =
  rd_requisitions :: "requisition_row table"
  rd_candidates :: "candidate_row table"
  rd_applications :: "application_row table"
  rd_panels :: "panel_row table"
  rd_panelists :: "panelist_row list"
  rd_scorecards :: "scorecard_row list"
  rd_offers :: "offer_row table"
  rd_expiryJobs :: "(id \<times> int) list"
  rd_resumeJobs :: "(id \<times> string) list"
  rd_events :: "(string \<times> id) list"
  rd_audit :: "audit_row list"

definition emit_recruitment :: "string \<Rightarrow> id \<Rightarrow> recruitment_db \<Rightarrow> recruitment_db" where
  "emit_recruitment event i s = s\<lparr>rd_events := rd_events s @ [(event, i)]\<rparr>"

text \<open>The services of this module log without a company: \<^verbatim>\<open>companyId: ''\<close>.\<close>

definition recruitment_audit :: "string \<Rightarrow> id \<Rightarrow> string \<Rightarrow> json \<Rightarrow> recruitment_db \<Rightarrow> recruitment_db" where
  "recruitment_audit etype i act nv s =
     s\<lparr>rd_audit := logAsync \<lparr>ae_actor = None, ae_companyId = [], ae_entityType = etype, ae_entityId = Some i,
          ae_action = act, ae_oldValue = JNull, ae_newValue = nv\<rparr> (rd_audit s)\<rparr>"

section \<open>Requisitions\<close>

record requisition_dto =
  rn_title :: string
  rn_departmentId :: "id option"
  rn_employmentType :: position_type
  rn_locationType :: location_type
  rn_headcountApproved :: int
  rn_jobDescription :: "string option"
  rn_requirements :: "string option"
  rn_salaryRangeMin :: "jsnum option"
  rn_salaryRangeMax :: "jsnum option"

definition requisition_row_of :: "id \<Rightarrow> instant \<Rightarrow> requisition_dto \<Rightarrow> requisition_row" where
  "requisition_row_of requestedById now dto =
     \<lparr>rq_title = rn_title dto, rq_departmentId = rn_departmentId dto, rq_requestedById = requestedById,
      rq_approvedById = None, rq_status = ReqDRAFT, rq_employmentType = rn_employmentType dto,
      rq_locationType = rn_locationType dto, rq_headcountApproved = rn_headcountApproved dto, rq_headcountFilled = 0,
      rq_jobDescription = rn_jobDescription dto, rq_requirements = rn_requirements dto,
      rq_salaryRangeMin = rn_salaryRangeMin dto, rq_salaryRangeMax = rn_salaryRangeMax dto,
      rq_publicSlug = None, rq_publishedAt = None, rq_closedAt = None, rq_createdAt = now\<rparr>"

definition createRequisition :: "id \<Rightarrow> id \<Rightarrow> instant \<Rightarrow> requisition_dto \<Rightarrow> recruitment_db \<Rightarrow> (recruitment_db, id) outcome" where
  "createRequisition newId requestedById now dto s =
     (if \<not> fresh newId (rd_requisitions s) then (Inl (DatabaseError ''job_requisitions_pkey''), s)
      else (Inr newId, s\<lparr>rd_requisitions := tbl_insert newId (requisition_row_of requestedById now dto) (rd_requisitions s)\<rparr>))"

definition findRequisition :: "id \<Rightarrow> recruitment_db \<Rightarrow> app_error + requisition_row" where
  "findRequisition i s =
     (case tbl_get i (rd_requisitions s) of None \<Rightarrow> Inl (NotFoundError ''Requisition not found'') | Some r \<Rightarrow> Inr r)"

text \<open>A status change guarded by the current status.\<close>

definition requisition_move ::
    "id \<Rightarrow> (requisition_row \<Rightarrow> app_error option) \<Rightarrow> (requisition_row \<Rightarrow> requisition_row) \<Rightarrow> recruitment_db \<Rightarrow> (recruitment_db, unit) outcome" where
  "requisition_move i guard change s =
     (case findRequisition i s of
        Inl e \<Rightarrow> (Inl e, s)
      | Inr r \<Rightarrow> (case guard r of
          Some e \<Rightarrow> (Inl e, s)
        | None \<Rightarrow> (Inr (), s\<lparr>rd_requisitions := tbl_update i change (rd_requisitions s)\<rparr>)))"

definition submitForApproval :: "id \<Rightarrow> recruitment_db \<Rightarrow> (recruitment_db, unit) outcome" where
  "submitForApproval i =
     requisition_move i
       (\<lambda>r. if rq_status r \<noteq> ReqDRAFT then Some (BadRequestError ''Only draft requisitions can be submitted'') else None)
       (\<lambda>r. r\<lparr>rq_status := ReqPENDING\<rparr>)"

text \<open>
  The replacement of \<^verbatim>\<open>/[^a-z0-9]+/g\<close> turns each run of other characters into one dash;
  that of \<^verbatim>\<open>/(^-|-$)/g\<close> drops a dash at either end.
\<close>

definition slug_char :: "char \<Rightarrow> bool" where
  "slug_char c = (let n = (of_char c :: nat) in 97 \<le> n \<and> n \<le> 122 \<or> 48 \<le> n \<and> n \<le> 57)"

fun dash_runs :: "bool \<Rightarrow> string \<Rightarrow> string" where
  "dash_runs inRun [] = []"
| "dash_runs inRun (c # cs) =
     (if slug_char c then c # dash_runs False cs
      else if inRun then dash_runs True cs else CHR ''-'' # dash_runs True cs)"

definition drop_dash :: "string \<Rightarrow> string" where
  "drop_dash s = (case s of [] \<Rightarrow> [] | c # cs \<Rightarrow> if c = CHR ''-'' then cs else s)"

definition requisition_slug :: "string \<Rightarrow> string \<Rightarrow> string" where
  "requisition_slug suffix title =
     rev (drop_dash (rev (drop_dash (dash_runs False (toLowerCase title))))) @ ''-'' @ suffix"

definition approveRequisition ::
    "string \<Rightarrow> id \<Rightarrow> id \<Rightarrow> bool \<Rightarrow> instant \<Rightarrow> recruitment_db \<Rightarrow> (recruitment_db, unit) outcome" where
  "approveRequisition suffix i approverId publish now s =
     (case findRequisition i s of
        Inl e \<Rightarrow> (Inl e, s)
      | Inr r \<Rightarrow>
          (if rq_status r \<noteq> ReqPENDING then (Inl (BadRequestError ''Only pending requisitions can be approved''), s)
           else (let slug = requisition_slug suffix (rq_title r) in
             if publish \<and> tbl_find (\<lambda>j q. rq_publicSlug q = Some slug) (rd_requisitions s) \<noteq> None
             then (Inl (DatabaseError ''job_requisitions_publicSlug_key''), s)
             else (Inr (), recruitment_audit ''job_requisition'' i ''REQUISITION_APPROVED'' JNull
                    (emit_recruitment ''requisition.approved'' i
                      (s\<lparr>rd_requisitions := tbl_update i (\<lambda>r. r\<lparr>rq_status := ReqOPEN, rq_approvedById := Some approverId,
                           rq_publicSlug := (if publish then Some slug else None),
                           rq_publishedAt := (if publish then Some now else None)\<rparr>) (rd_requisitions s)\<rparr>))))))"

definition holdRequisition :: "id \<Rightarrow> recruitment_db \<Rightarrow> (recruitment_db, unit) outcome" where
  "holdRequisition i =
     requisition_move i
       (\<lambda>r. if rq_status r \<noteq> ReqOPEN then Some (BadRequestError ''Only open requisitions can be put on hold'') else None)
       (\<lambda>r. r\<lparr>rq_status := ReqON_HOLD\<rparr>)"

definition closeRequisition :: "id \<Rightarrow> bool \<Rightarrow> instant \<Rightarrow> recruitment_db \<Rightarrow> (recruitment_db, unit) outcome" where
  "closeRequisition i force now =
     requisition_move i
       (\<lambda>r. if rq_status r \<notin> {ReqOPEN, ReqON_HOLD} then Some (BadRequestError ''Cannot close this requisition'')
            else if rq_headcountFilled r < rq_headcountApproved r \<and> \<not> force
            then Some (BadRequestError ''Requisition has unfilled headcount. Use force=true to override.'') else None)
       (\<lambda>r. r\<lparr>rq_status := ReqCLOSED, rq_closedAt := Some now\<rparr>)"

definition cancelRequisition :: "id \<Rightarrow> recruitment_db \<Rightarrow> (recruitment_db, unit) outcome" where
  "cancelRequisition i =
     requisition_move i
       (\<lambda>r. if rq_status r = ReqCLOSED then Some (BadRequestError ''Cannot cancel a closed requisition'') else None)
       (\<lambda>r. r\<lparr>rq_status := ReqCANCELLED\<rparr>)"

text \<open>\<^verbatim>\<open>incrementHeadcountFilled\<close>; the row read back is the one just written.\<close>

definition fill_place :: "instant \<Rightarrow> requisition_row \<Rightarrow> requisition_row" where
  "fill_place now r =
     (let u = r\<lparr>rq_headcountFilled := rq_headcountFilled r + 1\<rparr> in
      if rq_headcountFilled u \<ge> rq_headcountApproved u then u\<lparr>rq_status := ReqCLOSED, rq_closedAt := Some now\<rparr> else u)"

definition incrementHeadcountFilled :: "id \<Rightarrow> instant \<Rightarrow> recruitment_db \<Rightarrow> (recruitment_db, unit) outcome" where
  "incrementHeadcountFilled i now s =
     (case tbl_get i (rd_requisitions s) of
        None \<Rightarrow> (Inl (DatabaseError ''Record to update not found''), s)
      | Some r \<Rightarrow> (Inr (), s\<lparr>rd_requisitions := tbl_update i (fill_place now) (rd_requisitions s)\<rparr>))"

definition findAllRequisitions :: "requisition_status option \<Rightarrow> recruitment_db \<Rightarrow> (id \<times> requisition_row) list" where
  "findAllRequisitions status s =
     sort_key (\<lambda>(i, r). - rq_createdAt r)
       (tbl_all (\<lambda>i r. case status of None \<Rightarrow> True | Some st \<Rightarrow> rq_status r = st) (rd_requisitions s))"

text \<open>Pages start at 1; \<^verbatim>\<open>publishedAt\<close> is set together with the slug.\<close>

definition page_of :: "nat \<Rightarrow> nat \<Rightarrow> 'a list \<Rightarrow> 'a list" where
  "page_of page limit xs = take limit (drop ((page - 1) * limit) xs)"

definition findOpenForCareers :: "nat \<Rightarrow> nat \<Rightarrow> recruitment_db \<Rightarrow> (id \<times> requisition_row) list" where
  "findOpenForCareers page limit s =
     page_of page limit
       (sort_key (\<lambda>(i, r). case rq_publishedAt r of None \<Rightarrow> 0 | Some t \<Rightarrow> - t)
         (tbl_all (\<lambda>i r. rq_status r = ReqOPEN \<and> rq_publicSlug r \<noteq> None) (rd_requisitions s)))"

definition findBySlug :: "string \<Rightarrow> recruitment_db \<Rightarrow> app_error + id \<times> requisition_row" where
  "findBySlug slug s =
     (case tbl_find (\<lambda>i r. rq_publicSlug r = Some slug \<and> rq_status r = ReqOPEN) (rd_requisitions s) of
        None \<Rightarrow> Inl (NotFoundError ''Job not found'') | Some x \<Rightarrow> Inr x)"

section \<open>Candidates\<close>

record public_apply_dto =
  pa_fullName :: string
  pa_email :: string
  pa_phone :: "string option"

definition candidate_by_email :: "string \<Rightarrow> recruitment_db \<Rightarrow> (id \<times> candidate_row) option" where
  "candidate_by_email email s = tbl_find (\<lambda>i c. same_email (cn_email c) email) (rd_candidates s)"

definition nonempty_str :: "string option \<Rightarrow> bool" where
  "nonempty_str x = (x \<noteq> None \<and> x \<noteq> Some [])"

definition findOrCreateByEmail ::
    "id \<Rightarrow> instant \<Rightarrow> public_apply_dto \<Rightarrow> string option \<Rightarrow> recruitment_db \<Rightarrow> (recruitment_db, id \<times> bool) outcome" where
  "findOrCreateByEmail newId now dto resume s =
     (case candidate_by_email (toLowerCase (pa_email dto)) s of
        Some (i, c) \<Rightarrow>
          (Inr (i, False),
           if nonempty_str (pa_phone dto) \<or> nonempty_str resume
           then s\<lparr>rd_candidates := tbl_update i (\<lambda>c. c\<lparr>
                  cn_phone := (if nonempty_str (pa_phone dto) then pa_phone dto else cn_phone c),
                  cn_resumeS3Key := (if nonempty_str resume then resume else cn_resumeS3Key c)\<rparr>) (rd_candidates s)\<rparr>
           else s)
      | None \<Rightarrow>
          (if \<not> fresh newId (rd_candidates s) then (Inl (DatabaseError ''candidates_pkey''), s)
           else (Inr (newId, True),
                 s\<lparr>rd_candidates := tbl_insert newId
                    \<lparr>cn_email = toLowerCase (pa_email dto), cn_phone = pa_phone dto, cn_fullName = pa_fullName dto,
                     cn_resumeS3Key = resume, cn_profileData = None, cn_source = CAREERS_PAGE,
                     cn_referredByEmployeeId = None, cn_createdAt = now\<rparr> (rd_candidates s)\<rparr>)))"

record candidate_dto =
  cd_fullName :: string
  cd_email :: string
  cd_phone :: "string option"
  cd_source :: candidate_source
  cd_referredByEmployeeId :: "id option"

definition createCandidate :: "id \<Rightarrow> instant \<Rightarrow> candidate_dto \<Rightarrow> recruitment_db \<Rightarrow> (recruitment_db, id) outcome" where
  "createCandidate newId now dto s =
     (if candidate_by_email (toLowerCase (cd_email dto)) s \<noteq> None
      then (Inl (ConflictError ''Candidate with this email already exists''), s)
      else if \<not> fresh newId (rd_candidates s) then (Inl (DatabaseError ''candidates_pkey''), s)
      else (Inr newId,
            s\<lparr>rd_candidates := tbl_insert newId
               \<lparr>cn_email = toLowerCase (cd_email dto), cn_phone = cd_phone dto, cn_fullName = cd_fullName dto,
                cn_resumeS3Key = None, cn_profileData = None, cn_source = cd_source dto,
                cn_referredByEmployeeId = cd_referredByEmployeeId dto, cn_createdAt = now\<rparr> (rd_candidates s)\<rparr>))"

record candidate_patch =
  ck_fullName :: "string option"
  ck_phone :: "string option"
  ck_profileData :: "json option"

definition updateCandidate :: "id \<Rightarrow> candidate_patch \<Rightarrow> recruitment_db \<Rightarrow> (recruitment_db, unit) outcome" where
  "updateCandidate i dto s =
     (if tbl_get i (rd_candidates s) = None then (Inl (DatabaseError ''Record to update not found''), s)
      else (Inr (), s\<lparr>rd_candidates := tbl_update i (\<lambda>c. c\<lparr>
              cn_fullName := (case ck_fullName dto of None \<Rightarrow> cn_fullName c | Some n \<Rightarrow> n),
              cn_phone := (case ck_phone dto of None \<Rightarrow> cn_phone c | Some p \<Rightarrow> Some p),
              cn_profileData := (case ck_profileData dto of None \<Rightarrow> cn_profileData c | Some p \<Rightarrow> Some p)\<rparr>)
              (rd_candidates s)\<rparr>))"

definition findAllCandidates :: "nat \<Rightarrow> nat \<Rightarrow> recruitment_db \<Rightarrow> (id \<times> candidate_row) list" where
  "findAllCandidates page limit s = page_of page limit (sort_key (\<lambda>(i, c). - cn_createdAt c) (rd_candidates s))"

text \<open>The worker of the resume queue stores a fixed profile; a failure is swallowed.\<close>

definition mock_profile :: "instant \<Rightarrow> json" where
  "mock_profile now =
     JObj [(''skills'', JArr [JStr ''JavaScript'', JStr ''TypeScript'', JStr ''Node.js'']),
           (''experienceYears'', JNum (Fin 5)), (''education'', JStr (''Bachelor'' @ CHR 0x27 # ''s Degree'')), (''parsedAt'', JDate now)]"

definition parseResumeStub :: "id \<Rightarrow> instant \<Rightarrow> recruitment_db \<Rightarrow> recruitment_db" where
  "parseResumeStub i now s =
     s\<lparr>rd_candidates := tbl_update i (\<lambda>c. c\<lparr>cn_profileData := Some (mock_profile now)\<rparr>) (rd_candidates s)\<rparr>"

section \<open>Applications\<close>

fun valid_transitions :: "application_stage \<Rightarrow> application_stage list" where
  "valid_transitions APPLIED = [SCREENING, StageREJECTED, StageWITHDRAWN]"
| "valid_transitions SCREENING = [INTERVIEW, StageREJECTED, StageWITHDRAWN]"
| "valid_transitions INTERVIEW = [OFFER, StageREJECTED, StageWITHDRAWN]"
| "valid_transitions OFFER = [StageHIRED, StageREJECTED, StageWITHDRAWN]"
| "valid_transitions StageHIRED = []"
| "valid_transitions StageREJECTED = []"
| "valid_transitions StageWITHDRAWN = []"

fun stage_name :: "application_stage \<Rightarrow> string" where
  "stage_name APPLIED = ''APPLIED''"
| "stage_name SCREENING = ''SCREENING''"
| "stage_name INTERVIEW = ''INTERVIEW''"
| "stage_name OFFER = ''OFFER''"
| "stage_name StageHIRED = ''HIRED''"
| "stage_name StageREJECTED = ''REJECTED''"
| "stage_name StageWITHDRAWN = ''WITHDRAWN''"

definition findApplication :: "id \<Rightarrow> recruitment_db \<Rightarrow> app_error + application_row" where
  "findApplication i s =
     (case tbl_get i (rd_applications s) of None \<Rightarrow> Inl (NotFoundError ''Application not found'') | Some a \<Rightarrow> Inr a)"

definition set_stage :: "application_stage \<Rightarrow> instant \<Rightarrow> application_row \<Rightarrow> application_row" where
  "set_stage st now a = a\<lparr>ap_stage := st, ap_lastStageChangeAt := Some now\<rparr>"

definition moveStage :: "id \<Rightarrow> application_stage \<Rightarrow> instant \<Rightarrow> recruitment_db \<Rightarrow> (recruitment_db, unit) outcome" where
  "moveStage i target now s =
     (case findApplication i s of
        Inl e \<Rightarrow> (Inl e, s)
      | Inr a \<Rightarrow>
          (if target \<notin> set (valid_transitions (ap_stage a))
           then (Inl (BadRequestError (''Cannot move from '' @ stage_name (ap_stage a) @ '' to '' @ stage_name target)), s)
           else if target = StageHIRED then (Inl (BadRequestError ''Cannot directly set HIRED stage - use offer acceptance flow''), s)
           else (Inr (), recruitment_audit ''application'' i ''APPLICATION_STAGE_MOVED''
                   (JObj (stripPii [(''priorStage'', JStr (stage_name (ap_stage a))), (''newStage'', JStr (stage_name target))]))
                   (emit_recruitment ''application.stage_changed'' i
                     (s\<lparr>rd_applications := tbl_update i (set_stage target now) (rd_applications s)\<rparr>)))))"

definition rejectApplication :: "id \<Rightarrow> string \<Rightarrow> id \<Rightarrow> instant \<Rightarrow> recruitment_db \<Rightarrow> (recruitment_db, unit) outcome" where
  "rejectApplication i reason actorId now s =
     (case findApplication i s of
        Inl e \<Rightarrow> (Inl e, s)
      | Inr a \<Rightarrow>
          (if ap_stage a \<in> {StageHIRED, StageREJECTED} then (Inl (BadRequestError ''Application already closed''), s)
           else (Inr (), recruitment_audit ''application'' i ''APPLICATION_REJECTED'' (JObj (stripPii [(''reason'', JStr reason)]))
                   (emit_recruitment ''application.rejected'' i
                     (s\<lparr>rd_applications := tbl_update i (\<lambda>a. (set_stage StageREJECTED now a)\<lparr>ap_rejectionReason := Some reason,
                          ap_rejectedById := Some actorId\<rparr>) (rd_applications s)\<rparr>)))))"

text \<open>A \<^verbatim>\<open>Decimal\<close> read from the database is an object, so a score of 0 counts.\<close>

definition card_scores :: "scorecard_row \<Rightarrow> jsnum list" where
  "card_scores c = List.map_filter id [sc_technical c, sc_communication c, sc_cultureFit c]"

definition application_scores :: "id \<Rightarrow> recruitment_db \<Rightarrow> jsnum list" where
  "application_scores i s =
     concat (map card_scores (filter (\<lambda>c. case tbl_get (sc_panelId c) (rd_panels s) of
        None \<Rightarrow> False | Some p \<Rightarrow> pn_applicationId p = i) (rd_scorecards s)))"

definition average :: "jsnum list \<Rightarrow> jsnum option" where
  "average xs = (if xs = [] then None else Some (round2dp (js_div (foldl js_add (Fin 0) xs) (num_of_int (int (length xs))))))"

definition updateScore :: "id \<Rightarrow> recruitment_db \<Rightarrow> (recruitment_db, unit) outcome" where
  "updateScore i s =
     (if tbl_get i (rd_applications s) = None then (Inl (DatabaseError ''Record to update not found''), s)
      else (Inr (), s\<lparr>rd_applications := tbl_update i (\<lambda>a. a\<lparr>ap_score := average (application_scores i s)\<rparr>) (rd_applications s)\<rparr>))"

definition findAllApplications ::
    "id option \<Rightarrow> application_stage option \<Rightarrow> nat \<Rightarrow> nat \<Rightarrow> recruitment_db \<Rightarrow> (id \<times> application_row) list" where
  "findAllApplications requisitionId stage page limit s =
     page_of page limit (sort_key (\<lambda>(i, a). - ap_createdAt a)
       (tbl_all (\<lambda>i a. (case requisitionId of None \<Rightarrow> True | Some r \<Rightarrow> ap_requisitionId a = r)
          \<and> (case stage of None \<Rightarrow> True | Some st \<Rightarrow> ap_stage a = st)) (rd_applications s)))"

definition hireApplication :: "id \<Rightarrow> instant \<Rightarrow> recruitment_db \<Rightarrow> (recruitment_db, unit) outcome" where
  "hireApplication i now s =
     (if tbl_get i (rd_applications s) = None then (Inl (DatabaseError ''Record to update not found''), s)
      else (Inr (), s\<lparr>rd_applications := tbl_update i (set_stage StageHIRED now) (rd_applications s)\<rparr>))"

text \<open>
  The public form: a candidate applies once to a requisition. What the candidate's row got before a
  second application fails stays. \<open>resume\<close> is the key of the uploaded file, if any.
\<close>

definition apply_public ::
    "id \<Rightarrow> id \<Rightarrow> instant \<Rightarrow> string \<Rightarrow> public_apply_dto \<Rightarrow> string option \<Rightarrow> recruitment_db \<Rightarrow> (recruitment_db, id) outcome" where
  "apply_public newCandidate newId now slug dto resume s =
     (case findBySlug slug s of
        Inl e \<Rightarrow> (Inl e, s)
      | Inr (reqId, r) \<Rightarrow>
          (case findOrCreateByEmail newCandidate now dto resume s of
             (Inl e, s1) \<Rightarrow> (Inl e, s1)
           | (Inr (candidateId, isNew), s1) \<Rightarrow>
               (if \<not> fresh newId (rd_applications s1)
                   \<or> tbl_find (\<lambda>i a. ap_candidateId a = candidateId \<and> ap_requisitionId a = reqId) (rd_applications s1) \<noteq> None
                then (Inl (DatabaseError ''applications_candidateId_requisitionId_key''), s1)
                else (Inr newId, recruitment_audit ''application'' newId ''APPLICATION_SUBMITTED''
                        (JObj (stripPii [(''requisitionId'', JStr reqId), (''applicationId'', JStr newId)]))
                        (emit_recruitment ''application.created'' newId
                          (s1\<lparr>rd_applications := tbl_insert newId
                               \<lparr>ap_candidateId = candidateId, ap_requisitionId = reqId, ap_stage = APPLIED, ap_score = None,
                                ap_rejectionReason = None, ap_rejectedById = None, ap_lastStageChangeAt = None, ap_createdAt = now\<rparr>
                               (rd_applications s1),
                              rd_resumeJobs := rd_resumeJobs s1
                                @ (case resume of None \<Rightarrow> [] | Some key \<Rightarrow> if key = [] then [] else [(candidateId, key)])\<rparr>))))))"

end
