(* ===== verification/Interviews.thy ===== *)
theory Interviews
  imports Recruitment
begin

text \<open>
  Recruitment, second part: interview panels and scorecards, \<^verbatim>\<open>interview.service.ts\<close>. The lemmas
  bound the weighted score of a scorecard.
\<close>

section \<open>Weighted score\<close>

text \<open>\<^verbatim>\<open>computeOverallScore\<close>: each score given adds its part and its weight.\<close>

definition weigh :: "jsnum option \<Rightarrow> jsnum \<Rightarrow> jsnum \<times> jsnum \<Rightarrow> jsnum \<times> jsnum" where
  "weigh score weight = (\<lambda>(weighted, total).
     (case score of
        None \<Rightarrow> (weighted, total)
      | Some x \<Rightarrow> (js_add weighted (js_mul x weight), js_add total weight)))"

definition computeOverallScore :: "jsnum option \<Rightarrow> jsnum option \<Rightarrow> jsnum option \<Rightarrow> jsnum option" where
  "computeOverallScore technical communication cultureFit =
     (if technical = None \<and> communication = None \<and> cultureFit = None then None
      else (let (weighted, total) =
              weigh cultureFit (Fin (1 / 4)) (weigh communication (Fin (1 / 4)) (weigh technical (Fin (1 / 2)) (Fin 0, Fin 0)))
            in if js_lt (Fin 0) total then Some (round2dp (js_div weighted total)) else None))"

text \<open>Quarters of small integers are doubles.\<close>

lemma to_num_quarter:
  assumes "\<bar>k\<bar> \<le> 2 ^ 40"
  shows "to_num (of_int k / 4) = Fin (of_int k / 4)"
proof -
  have "fl (of_int k * 2 powi (- 2)) = of_int k * 2 powi (- 2)"
    by (rule fl_exact) (use assms in auto)
  then have "fl (of_int k / 4) = of_int k / 4" by (simp add: power_int_minus)
  moreover have "\<bar>of_int k / 4 :: rat\<bar> \<le> 2 ^ 60"
  proof -
    have "(of_int \<bar>k\<bar> :: rat) \<le> of_int (2 ^ 40)" using assms by (simp only: of_int_le_iff)
    then show ?thesis by simp
  qed
  ultimately show ?thesis by (simp add: to_num_small)
qed

lemma js_le_between:
  assumes "js_le (Fin a) x" and "js_le x (Fin b)"
  obtains p where "x = Fin p" "a \<le> p" "p \<le> b"
  using assms by (cases x) (auto simp: js_le_def)

text \<open>The sums so far: \<open>k\<close> quarters of weight, and a weighted sum between \<open>m\<close> and \<open>n\<close> times that weight.\<close>

definition weighed :: "int \<Rightarrow> int \<Rightarrow> int \<Rightarrow> jsnum \<times> jsnum \<Rightarrow> bool" where
  "weighed m n k x \<longleftrightarrow> snd x = Fin (of_int k / 4)
     \<and> js_le (Fin (of_int (m * k) / 4)) (fst x) \<and> js_le (fst x) (Fin (of_int (n * k) / 4))"

lemma small_product: "0 \<le> m \<Longrightarrow> m \<le> 100 \<Longrightarrow> 0 \<le> k \<Longrightarrow> k \<le> 8 \<Longrightarrow> \<bar>m * k\<bar> \<le> (2::int) ^ 40"
  using mult_mono[of m 100 k 8] by simp

lemma weigh_Some:
  assumes "weighed m n k x" and "0 \<le> m" "m \<le> n" "n \<le> 100" and "0 \<le> k" "k \<le> 4" and "j \<in> {1, 2}"
    and q: "js_le (num_of_int m) q" "js_le q (num_of_int n)"
  shows "weighed m n (k + j) (weigh (Some q) (Fin (of_int j / 4)) x)"
proof -
  obtain w where x: "x = (w, Fin (of_int k / 4))" using assms(1) by (cases x) (simp add: weighed_def)
  from assms(1) obtain p where p: "w = Fin p" "of_int (m * k) / 4 \<le> p" "p \<le> of_int (n * k) / 4"
    unfolding x weighed_def by (auto elim: js_le_between)
  obtain r where r: "q = Fin r" "of_int m \<le> r" "r \<le> of_int n" using q by (rule js_le_between)
  have j: "1 \<le> j" "j \<le> 2" using assms(7) by auto
  have ex: "to_num (of_int (a * b) / 4) = Fin (of_int (a * b) / 4)" if "0 \<le> a" "a \<le> 100" "0 \<le> b" "b \<le> 8" for a b
    using to_num_quarter[OF small_product[OF that]] .
  have "js_le (to_num (of_int (m * j) / 4)) (to_num (r * (of_int j / 4)))"
    using r(2) j by (intro to_num_mono) (simp add: mult_right_mono divide_right_mono)
  moreover have "js_le (to_num (r * (of_int j / 4))) (to_num (of_int (n * j) / 4))"
    using r(3) j by (intro to_num_mono) (simp add: mult_right_mono divide_right_mono)
  ultimately obtain y where y: "to_num (r * (of_int j / 4)) = Fin y" "of_int (m * j) / 4 \<le> y" "y \<le> of_int (n * j) / 4"
    using ex[of m j] ex[of n j] assms(2-4) j by (auto elim: js_le_between)
  have "js_le (to_num (of_int (m * (k + j)) / 4)) (to_num (p + y))" "js_le (to_num (p + y)) (to_num (of_int (n * (k + j)) / 4))"
    using p(2,3) y(2,3) by (auto intro!: to_num_mono simp: ring_distribs add_divide_distrib)
  moreover have "to_num (of_int k / 4 + of_int j / 4) = Fin (of_int (k + j) / 4)"
    using to_num_quarter[of "k + j"] assms(5,6) j by (simp add: add_divide_distrib)
  ultimately show ?thesis
    using ex[of m "k + j"] ex[of n "k + j"] assms(2-6) j y(1) by (simp add: weighed_def weigh_def x p(1) r(1))
qed

lemma weigh_None [simp]: "weigh None w x = x"
  by (simp add: weigh_def split: prod.splits)

definition scores_between :: "int \<Rightarrow> int \<Rightarrow> jsnum option \<Rightarrow> bool" where
  "scores_between m n score = (case score of None \<Rightarrow> True | Some q \<Rightarrow> js_le (num_of_int m) q \<and> js_le q (num_of_int n))"

lemma weigh_keeps:
  assumes "weighed m n k x" and "0 \<le> m" "m \<le> n" "n \<le> 100" and "0 \<le> k" "k \<le> 4" and "j \<in> {1, 2}" and "scores_between m n score"
  shows "weighed m n (if score = None then k else k + j) (weigh score (Fin (of_int j / 4)) x)"
  using assms weigh_Some[OF assms(1-7)] by (cases score) (auto simp: scores_between_def)

lemma weighed_quotient:
  assumes "weighed m n k x" and "0 < k" "k \<le> 4" and "0 \<le> m" "m \<le> n" "n \<le> 100"
  shows "js_le (num_of_int m) (js_div (fst x) (snd x)) \<and> js_le (js_div (fst x) (snd x)) (num_of_int n)"
proof -
  have k: "(0::rat) < of_int k / 4" using assms(2) by simp
  have ex: "js_div (Fin (of_int (a * k) / 4)) (Fin (of_int k / 4)) = num_of_int a" if "\<bar>a\<bar> \<le> 100" for a
    using k to_num_of_int[of a] that by simp
  from assms(1) have x: "snd x = Fin (of_int k / 4)" "js_le (Fin (of_int (m * k) / 4)) (fst x)" "js_le (fst x) (Fin (of_int (n * k) / 4))"
    by (simp_all only: weighed_def)
  have em: "js_div (Fin (of_int (m * k) / 4)) (Fin (of_int k / 4)) = num_of_int m"
    and en: "js_div (Fin (of_int (n * k) / 4)) (Fin (of_int k / 4)) = num_of_int n"
    by (rule ex; use assms in simp)+
  show ?thesis unfolding x(1)
    using js_div_pos_mono[OF k x(2), unfolded em] js_div_pos_mono[OF k x(3), unfolded en] by blast
qed

text \<open>
  The overall score of a scorecard exists as soon as one score is given, and lies between any whole
  bounds of the scores given: the missing scores neither lower nor raise it, and rounding, to doubles and to
  two decimals, never leaves the bounds. With scores from 0 to 5 it is from 0 to 5.
\<close>

lemma overall_score_between:
  assumes "scores_between m n technical" "scores_between m n communication" "scores_between m n cultureFit"
    and "0 \<le> m" "m \<le> n" "n \<le> 100" and "technical \<noteq> None \<or> communication \<noteq> None \<or> cultureFit \<noteq> None"
  shows "\<exists>r. computeOverallScore technical communication cultureFit = Some r \<and> js_le (num_of_int m) r \<and> js_le r (num_of_int n)"
proof -
  let ?x = "weigh cultureFit (Fin (1 / 4)) (weigh communication (Fin (1 / 4)) (weigh technical (Fin (1 / 2)) (Fin 0, Fin 0)))"
  define k0 where "k0 = (if technical = None then 0 else (2::int))"
  define k where "k = (if communication = None then k0 else k0 + 1)"
  have k0: "0 \<le> k0" "k0 \<le> 4" and k: "k \<in> {0..3}" "0 < k \<longleftrightarrow> technical \<noteq> None \<or> communication \<noteq> None"
    by (auto simp: k0_def k_def)
  have "weighed m n 0 (Fin 0, Fin 0)" by (simp add: weighed_def)
  from weigh_keeps[OF this assms(4-6), of 2 technical] assms(1)
  have "weighed m n k0 (weigh technical (Fin (1 / 2)) (Fin 0, Fin 0))" by (cases technical) (simp_all add: k0_def)
  from weigh_keeps[OF this assms(4-6) k0, of 1 communication] assms(2)
  have w: "weighed m n k (weigh communication (Fin (1 / 4)) (weigh technical (Fin (1 / 2)) (Fin 0, Fin 0)))"
    by (simp add: k_def)
  from weigh_keeps[OF w assms(4-6), of 1 cultureFit] k(1) assms(3)
  have x: "weighed m n (if cultureFit = None then k else k + 1) ?x" by simp
  have pos: "0 < (if cultureFit = None then k else k + 1)" "(if cultureFit = None then k else k + 1) \<le> 4" using k assms(7) by auto
  note q = weighed_quotient[OF x pos assms(4-6)]
  have lt: "js_lt (Fin 0) (snd ?x)" using x pos(1) by (simp add: weighed_def)
  have out: "computeOverallScore technical communication cultureFit = Some (round2dp (js_div (fst ?x) (snd ?x)))"
    using lt assms(7) by (auto simp: computeOverallScore_def Let_def split: prod.splits)
  have whole: "round2dp (num_of_int a) = num_of_int a" if "0 \<le> a" "a \<le> 100" for a
    using round2dp_int[of a] that by simp
  have "js_le (round2dp (num_of_int m)) (round2dp (js_div (fst ?x) (snd ?x)))"
    "js_le (round2dp (js_div (fst ?x) (snd ?x))) (round2dp (num_of_int n))" using q by (auto intro: round2dp_mono)
  then show ?thesis using out whole[of m] whole[of n] assms(4-6) by simp
qed

section \<open>Panels\<close>

record panel_dto =
  pd_scheduledAt :: instant
  pd_durationMinutes :: int
  pd_mode :: interview_mode
  pd_locationOrLink :: "string option"
  pd_panelistEmployeeIds :: "id list"
  pd_leadEmployeeId :: id
  pd_autoAdvanceStage :: bool

text \<open>The rows are created one by one; a second row for one employee violates the unique index.\<close>

fun create_panelists :: "id \<Rightarrow> (id \<Rightarrow> panelist_role) \<Rightarrow> id list \<Rightarrow> recruitment_db \<Rightarrow> (recruitment_db, unit) outcome" where
  "create_panelists panelId role [] s = (Inr (), s)"
| "create_panelists panelId role (e # es) s =
     (if \<exists>p \<in> set (rd_panelists s). pl_panelId p = panelId \<and> pl_employeeId p = e
      then (Inl (DatabaseError ''interview_panelists_interviewPanelId_employeeId_key''), s)
      else create_panelists panelId role es
             (s\<lparr>rd_panelists := rd_panelists s @ [\<lparr>pl_panelId = panelId, pl_employeeId = e, pl_role = role e\<rparr>]\<rparr>))"

definition panel_row_of :: "id \<Rightarrow> id \<Rightarrow> panel_dto \<Rightarrow> panel_row" where
  "panel_row_of applicationId createdById dto =
     \<lparr>pn_applicationId = applicationId, pn_scheduledAt = pd_scheduledAt dto, pn_durationMinutes = pd_durationMinutes dto,
      pn_mode = pd_mode dto, pn_locationOrLink = pd_locationOrLink dto, pn_status = PanelSCHEDULED, pn_createdById = createdById\<rparr>"

text \<open>The stage is advanced before the panel is checked, and each write stands by itself.\<close>

definition advance_for_panel :: "id \<Rightarrow> bool \<Rightarrow> instant \<Rightarrow> recruitment_db \<Rightarrow> (recruitment_db, unit) outcome" where
  "advance_for_panel applicationId autoAdvance now s =
     (case findApplication applicationId s of
        Inl e \<Rightarrow> (Inl e, s)
      | Inr a \<Rightarrow>
          (if autoAdvance \<and> ap_stage a = SCREENING
           then (Inr (), s\<lparr>rd_applications := tbl_update applicationId (set_stage INTERVIEW now) (rd_applications s)\<rparr>)
           else if ap_stage a \<noteq> INTERVIEW then (Inl (BadRequestError ''Application must be in INTERVIEW stage''), s)
           else (Inr (), s)))"

definition schedulePanel ::
    "id \<Rightarrow> id \<Rightarrow> panel_dto \<Rightarrow> id \<Rightarrow> instant \<Rightarrow> recruitment_db \<Rightarrow> (recruitment_db, id) outcome" where
  "schedulePanel newId applicationId dto createdById now s =
     (case advance_for_panel applicationId (pd_autoAdvanceStage dto) now s of
        (Inl e, s1) \<Rightarrow> (Inl e, s1)
      | (Inr _, s1) \<Rightarrow>
          (if pd_leadEmployeeId dto \<notin> set (pd_panelistEmployeeIds dto)
           then (Inl (BadRequestError ''Lead must be in panelist list''), s1)
           else if \<not> fresh newId (rd_panels s1) then (Inl (DatabaseError ''interview_panels_pkey''), s1)
           else
             (case create_panelists newId (\<lambda>e. if e = pd_leadEmployeeId dto then LEAD else PANELIST) (pd_panelistEmployeeIds dto)
                     (s1\<lparr>rd_panels := tbl_insert newId (panel_row_of applicationId createdById dto) (rd_panels s1)\<rparr>) of
                (Inl e, s2) \<Rightarrow> (Inl e, s2)
              | (Inr _, s2) \<Rightarrow> (Inr newId, recruitment_audit ''interview_panel'' newId ''INTERVIEW_SCHEDULED'' JNull
                                        (emit_recruitment ''interview.scheduled'' newId s2)))))"

definition findPanel :: "id \<Rightarrow> recruitment_db \<Rightarrow> app_error + panel_row" where
  "findPanel i s = (case tbl_get i (rd_panels s) of None \<Rightarrow> Inl (NotFoundError ''Panel not found'') | Some p \<Rightarrow> Inr p)"

definition assignPanelists :: "id \<Rightarrow> id list \<Rightarrow> recruitment_db \<Rightarrow> (recruitment_db, unit) outcome" where
  "assignPanelists panelId employeeIds s =
     (case findPanel panelId s of
        Inl e \<Rightarrow> (Inl e, s)
      | Inr p \<Rightarrow>
          (if pn_status p = PanelCOMPLETED then (Inl (BadRequestError ''Cannot modify completed panel''), s)
           else create_panelists panelId (\<lambda>e. PANELIST) employeeIds
                  (s\<lparr>rd_panelists := filter (\<lambda>q. pl_panelId q \<noteq> panelId) (rd_panelists s)\<rparr>)))"

record scorecard_dto =
  sd_recommendation :: recommendation
  sd_technicalScore :: "jsnum option"
  sd_communicationScore :: "jsnum option"
  sd_cultureFitScore :: "jsnum option"
  sd_notes :: "string option"

text \<open>\<open>dec\<close> is the rounding of the database to the one decimal of a score column.\<close>

definition scorecard_of :: "(jsnum \<Rightarrow> jsnum) \<Rightarrow> id \<Rightarrow> id \<Rightarrow> instant \<Rightarrow> scorecard_dto \<Rightarrow> scorecard_row" where
  "scorecard_of dec panelId employeeId now dto =
     \<lparr>sc_panelId = panelId, sc_employeeId = employeeId, sc_recommendation = sd_recommendation dto,
      sc_technical = map_option dec (sd_technicalScore dto), sc_communication = map_option dec (sd_communicationScore dto),
      sc_cultureFit = map_option dec (sd_cultureFitScore dto), sc_notes = sd_notes dto, sc_submittedAt = Some now\<rparr>"

text \<open>An update leaves the columns of the fields that are left out.\<close>

definition patch_scorecard :: "scorecard_row \<Rightarrow> scorecard_row \<Rightarrow> scorecard_row" where
  "patch_scorecard new old =
     new\<lparr>sc_technical := (if sc_technical new = None then sc_technical old else sc_technical new),
         sc_communication := (if sc_communication new = None then sc_communication old else sc_communication new),
         sc_cultureFit := (if sc_cultureFit new = None then sc_cultureFit old else sc_cultureFit new),
         sc_notes := (if sc_notes new = None then sc_notes old else sc_notes new)\<rparr>"

definition same_card :: "scorecard_row \<Rightarrow> scorecard_row \<Rightarrow> bool" where
  "same_card a b \<longleftrightarrow> sc_panelId a = sc_panelId b \<and> sc_employeeId a = sc_employeeId b"

definition upsert_scorecard :: "scorecard_row \<Rightarrow> scorecard_row list \<Rightarrow> scorecard_row list" where
  "upsert_scorecard c cs =
     (if \<exists>d \<in> set cs. same_card c d then map (\<lambda>d. if same_card c d then patch_scorecard c d else d) cs else cs @ [c])"

definition submitted_count :: "id \<Rightarrow> scorecard_row list \<Rightarrow> nat" where
  "submitted_count panelId cs = length (filter (\<lambda>c. sc_panelId c = panelId \<and> sc_submittedAt c \<noteq> None) cs)"

definition panelists_of :: "id \<Rightarrow> recruitment_db \<Rightarrow> panelist_row list" where
  "panelists_of panelId s = filter (\<lambda>p. pl_panelId p = panelId) (rd_panelists s)"

definition submitScorecard ::
    "(jsnum \<Rightarrow> jsnum) \<Rightarrow> id \<Rightarrow> id \<Rightarrow> scorecard_dto \<Rightarrow> instant \<Rightarrow> recruitment_db \<Rightarrow> (recruitment_db, unit) outcome" where
  "submitScorecard dec panelId employeeId dto now s =
     (case findPanel panelId s of
        Inl e \<Rightarrow> (Inl e, s)
      | Inr p \<Rightarrow>
          (if employeeId \<notin> pl_employeeId ` set (panelists_of panelId s)
           then (Inl (ForbiddenError ''You are not assigned to this panel''), s)
           else (let s1 = s\<lparr>rd_scorecards := upsert_scorecard (scorecard_of dec panelId employeeId now dto) (rd_scorecards s)\<rparr>;
                     s2 = (if submitted_count panelId (rd_scorecards s1) \<ge> length (panelists_of panelId s)
                           then s1\<lparr>rd_panels := tbl_update panelId (\<lambda>p. p\<lparr>pn_status := PanelCOMPLETED\<rparr>) (rd_panels s1)\<rparr> else s1)
                 in (Inr (), emit_recruitment ''interview.scorecard_submitted'' panelId s2))))"

definition cancelPanel :: "id \<Rightarrow> string \<Rightarrow> recruitment_db \<Rightarrow> (recruitment_db, unit) outcome" where
  "cancelPanel panelId reason s =
     (case findPanel panelId s of
        Inl e \<Rightarrow> (Inl e, s)
      | Inr p \<Rightarrow>
          (if pn_status p = PanelCOMPLETED then (Inl (BadRequestError ''Cannot cancel completed panel''), s)
           else (Inr (), emit_recruitment ''interview.cancelled'' panelId
                   (s\<lparr>rd_panels := tbl_update panelId (\<lambda>p. p\<lparr>pn_status := PanelCANCELLED\<rparr>) (rd_panels s)\<rparr>))))"

definition findPanelsByApplication :: "id \<Rightarrow> recruitment_db \<Rightarrow> (id \<times> panel_row) list" where
  "findPanelsByApplication applicationId s =
     sort_key (\<lambda>(i, p). - pn_scheduledAt p) (tbl_all (\<lambda>i p. pn_applicationId p = applicationId) (rd_panels s))"

end
