(* ===== verification/Hiring.thy ===== *)
theory Hiring
  imports Offers
begin

text \<open>
  What the recruitment services keep over any run: the filled places of a requisition are its hired
  applications, which are those with an accepted offer; a filled requisition is closed; the stages of
  an application only move along the edges of the services; nothing is ever audited.
\<close>

section \<open>Counting rows\<close>

lemma tbl_count_cons: "tbl_count P ((i, r) # t) = (if P i r then 1 else 0) + tbl_count P t"
  by (simp add: tbl_count_def tbl_all_def)

lemma tbl_count_insert: "tbl_count P (tbl_insert i r t) = tbl_count P t + (if P i r then 1 else 0)"
  by (simp add: tbl_count_def tbl_all_def tbl_insert_def)

lemma tbl_count_update_same:
  "\<forall>r. (i, r) \<in> set t \<longrightarrow> P i (f r) = P i r \<Longrightarrow> tbl_count P (tbl_update i f t) = tbl_count P t"
proof (induction t)
  case (Cons x t)
  then show ?case by (cases x) (auto simp: tbl_count_cons tbl_update_def)
qed (simp add: tbl_update_def)

lemma tbl_count_update_new:
  assumes "distinct (tbl_ids t)" and "tbl_get i t = Some r" and "\<not> P i r" and "P i (f r)"
  shows "tbl_count P (tbl_update i f t) = tbl_count P t + 1"
  using assms(1,2)
proof (induction t)
  case (Cons x t)
  show ?case
  proof (cases "fst x = i")
    case True
    then have r: "x = (i, r)" using Cons.prems(2) by (cases x) (simp add: tbl_get_def)
    then have "fresh i t" using Cons.prems(1) by (simp add: fresh_def tbl_ids_def)
    then have "tbl_update i f (x # t) = (i, f r) # t"
      using r tbl_update_fresh[of i t f] by (simp add: tbl_update_def)
    then show ?thesis using r assms(3,4) by (simp add: tbl_count_cons)
  next
    case False
    then have "tbl_get i t = Some r" using Cons.prems(2) by (cases x) (simp add: tbl_get_def)
    with Cons have "tbl_count P (tbl_update i f t) = tbl_count P t + 1" by (simp add: tbl_ids_def)
    then show ?thesis using False by (cases x) (simp add: tbl_update_def tbl_count_cons)
  qed
qed (simp add: tbl_get_def)

lemma fresh_insert [simp]: "fresh j (tbl_insert i r t) \<longleftrightarrow> j \<noteq> i \<and> fresh j t"
  by (auto simp: fresh_def)

lemma fresh_update [simp]: "fresh j (tbl_update i f t) = fresh j t"
  by (simp add: fresh_def)

lemma tbl_get_fresh: "tbl_get i t = Some r \<Longrightarrow> \<not> fresh i t"
  by (simp add: fresh_get)

lemma tbl_get_new: "fresh i t \<Longrightarrow> tbl_get j (tbl_insert i r t) = (if j = i then Some r else tbl_get j t)"
  by (auto simp: tbl_get_insert fresh_get split: option.splits)

section \<open>The invariant\<close>

definition hired_of :: "id \<Rightarrow> application_row table \<Rightarrow> nat" where
  "hired_of r A = tbl_count (\<lambda>i a. ap_requisitionId a = r \<and> ap_stage a = StageHIRED) A"

definition accepted :: "id \<Rightarrow> offer_row table \<Rightarrow> bool" where
  "accepted a F \<longleftrightarrow> (\<exists>i f. tbl_get i F = Some f \<and> of_applicationId f = a \<and> of_status f = OfferACCEPTED)"

definition offers_ok :: "application_row table \<Rightarrow> offer_row table \<Rightarrow> bool" where
  "offers_ok A F \<longleftrightarrow> (\<forall>i f. tbl_get i F = Some f \<longrightarrow> \<not> fresh (of_applicationId f) A)
     \<and> (\<forall>i j f g. tbl_get i F = Some f \<longrightarrow> tbl_get j F = Some g \<longrightarrow> of_applicationId f = of_applicationId g \<longrightarrow> i = j)
     \<and> (\<forall>a x. tbl_get a A = Some x \<longrightarrow> (ap_stage x = StageHIRED \<longleftrightarrow> accepted a F))"

definition requisition_ok :: "id \<Rightarrow> application_row table \<Rightarrow> requisition_row \<Rightarrow> bool" where
  "requisition_ok r A q \<longleftrightarrow> rq_headcountFilled q = int (hired_of r A)
     \<and> (rq_headcountApproved q \<le> rq_headcountFilled q \<longrightarrow> rq_status q = ReqCLOSED)"

definition places_ok :: "requisition_row table \<Rightarrow> application_row table \<Rightarrow> offer_row table \<Rightarrow> bool" where
  "places_ok R A F \<longleftrightarrow> distinct (tbl_ids A) \<and> offers_ok A F
     \<and> (\<forall>a x. tbl_get a A = Some x \<longrightarrow> \<not> fresh (ap_requisitionId x) R)
     \<and> (\<forall>r q. tbl_get r R = Some q \<longrightarrow> requisition_ok r A q)"

definition hiring_ok :: "recruitment_db \<Rightarrow> bool" where
  "hiring_ok s = places_ok (rd_requisitions s) (rd_applications s) (rd_offers s)"

lemma hiring_ok_frame:
  "hiring_ok s \<Longrightarrow> rd_requisitions t = rd_requisitions s \<Longrightarrow> rd_applications t = rd_applications s \<Longrightarrow> rd_offers t = rd_offers s
     \<Longrightarrow> hiring_ok t"
  by (simp add: hiring_ok_def)

text \<open>A requisition may change its status as long as a closed one stays closed.\<close>

lemma places_requisition:
  assumes ok: "places_ok R A F"
    and same: "\<And>q. rq_headcountFilled (change q) = rq_headcountFilled q \<and> rq_headcountApproved (change q) = rq_headcountApproved q"
    and closed: "\<And>q. tbl_get i R = Some q \<Longrightarrow> rq_status q \<noteq> ReqCLOSED \<or> rq_status (change q) = ReqCLOSED"
  shows "places_ok (tbl_update i change R) A F"
proof -
  have "requisition_ok i A (change q)" if "tbl_get i R = Some q" for q
  proof -
    from ok that have "requisition_ok i A q" by (simp add: places_ok_def)
    then show ?thesis using closed[OF that] by (auto simp: requisition_ok_def same)
  qed
  then show ?thesis using ok by (auto simp: places_ok_def split: if_splits)
qed

lemma places_new_requisition:
  assumes "places_ok R A F" and "fresh n R" and "rq_headcountFilled q = 0" and "1 \<le> rq_headcountApproved q"
  shows "places_ok (tbl_insert n q R) A F"
proof -
  have "hired_of n A = 0"
  proof -
    have "ap_requisitionId x \<noteq> n" if "(a, x) \<in> set A" for a x
    proof -
      from that assms(1) have "tbl_get a A = Some x" by (simp add: places_ok_def tbl_ids_def tbl_get_def)
      then have "\<not> fresh (ap_requisitionId x) R" using assms(1) by (simp add: places_ok_def)
      then show ?thesis using assms(2) by auto
    qed
    then show ?thesis by (auto simp: hired_of_def tbl_count_zero)
  qed
  then have "requisition_ok n A q" using assms(3,4) by (simp add: requisition_ok_def)
  then show ?thesis
    using assms(1,2) by (auto simp: places_ok_def tbl_get_new)
qed

text \<open>An application may change as long as being hired does not.\<close>

lemma places_application:
  assumes ok: "places_ok R A F"
    and same: "\<And>x. ap_requisitionId (g x) = ap_requisitionId x"
    and stage: "\<And>x. tbl_get a A = Some x \<Longrightarrow> (ap_stage (g x) = StageHIRED) = (ap_stage x = StageHIRED)"
  shows "places_ok R (tbl_update a g A) F"
proof -
  have row: "tbl_get a A = Some x" if "(a, x) \<in> set A" for x
    using that ok by (simp add: places_ok_def tbl_ids_def tbl_get_def)
  have "hired_of r (tbl_update a g A) = hired_of r A" for r
    unfolding hired_of_def by (rule tbl_count_update_same) (use row stage same in auto)
  then have "requisition_ok r (tbl_update a g A) q = requisition_ok r A q" for r q by (simp add: requisition_ok_def)
  then show ?thesis
    using ok stage by (auto simp: places_ok_def offers_ok_def same split: if_splits)
qed

lemma places_new_application:
  assumes "places_ok R A F" and "fresh n A" and "ap_stage x \<noteq> StageHIRED" and "\<not> fresh (ap_requisitionId x) R"
  shows "places_ok R (tbl_insert n x A) F"
proof -
  have "hired_of r (tbl_insert n x A) = hired_of r A" for r
    using assms(3) by (simp add: hired_of_def tbl_count_insert)
  then have "requisition_ok r (tbl_insert n x A) q = requisition_ok r A q" for r q by (simp add: requisition_ok_def)
  moreover have "\<not> accepted n F"
  proof
    assume "accepted n F"
    then obtain i f where "tbl_get i F = Some f" "of_applicationId f = n" by (auto simp: accepted_def)
    then have "\<not> fresh n A" using assms(1) by (auto simp: places_ok_def offers_ok_def)
    then show False using assms(2) by simp
  qed
  moreover have "distinct (tbl_ids (tbl_insert n x A))" using assms(1,2) by (auto simp: places_ok_def fresh_def)
  ultimately show ?thesis
    using assms by (auto simp: places_ok_def offers_ok_def tbl_get_new)
qed

lemma accepted_update:
  assumes "\<And>f. of_applicationId (g f) = of_applicationId f"
    and "\<And>f. tbl_get i F = Some f \<Longrightarrow> (of_status (g f) = OfferACCEPTED) = (of_status f = OfferACCEPTED)"
  shows "accepted a (tbl_update i g F) = accepted a F"
proof -
  have "(\<exists>f. tbl_get j (tbl_update i g F) = Some f \<and> of_applicationId f = a \<and> of_status f = OfferACCEPTED)
      \<longleftrightarrow> (\<exists>f. tbl_get j F = Some f \<and> of_applicationId f = a \<and> of_status f = OfferACCEPTED)" for j
    using assms by (cases "j = i"; cases "tbl_get j F") auto
  then show ?thesis unfolding accepted_def by blast
qed

lemma places_offer:
  assumes ok: "places_ok R A F"
    and same: "\<And>f. of_applicationId (g f) = of_applicationId f"
    and status: "\<And>f. tbl_get i F = Some f \<Longrightarrow> (of_status (g f) = OfferACCEPTED) = (of_status f = OfferACCEPTED)"
  shows "places_ok R A (tbl_update i g F)"
proof -
  have "accepted a (tbl_update i g F) = accepted a F" for a using accepted_update[OF same status] .
  then have "offers_ok A (tbl_update i g F)"
    using ok unfolding places_ok_def offers_ok_def by (auto simp: same)
  then show ?thesis using ok by (simp add: places_ok_def)
qed

lemma places_new_offer:
  assumes "places_ok R A F" and "fresh n F" and "of_status f \<noteq> OfferACCEPTED"
    and "\<not> fresh (of_applicationId f) A" and "tbl_find (\<lambda>i g. of_applicationId g = of_applicationId f) F = None"
  shows "places_ok R A (tbl_insert n f F)"
proof -
  have "tbl_get n F = None" using assms(2) by (simp add: fresh_get)
  then have "(\<exists>g. tbl_get j (tbl_insert n f F) = Some g \<and> of_applicationId g = a \<and> of_status g = OfferACCEPTED)
      \<longleftrightarrow> (\<exists>g. tbl_get j F = Some g \<and> of_applicationId g = a \<and> of_status g = OfferACCEPTED)" for a j
    using assms(2,3) by (cases "j = n") (auto simp: tbl_get_new)
  then have "accepted a (tbl_insert n f F) = accepted a F" for a unfolding accepted_def by blast
  moreover have "of_applicationId g \<noteq> of_applicationId f" if "tbl_get i F = Some g" for i g
    using assms(5) that by (fastforce simp: tbl_find_None tbl_get_def dest: map_of_SomeD)
  ultimately have "offers_ok A (tbl_insert n f F)"
    using assms(1,2,4) unfolding places_ok_def offers_ok_def
    by (simp add: tbl_get_new) metis
  then show ?thesis using assms(1) by (simp add: places_ok_def)
qed

lemma accepted_mark:
  assumes f: "tbl_get i F = Some f" and sent: "of_status f = OfferSENT"
  shows "accepted b (tbl_update i (\<lambda>f. f\<lparr>of_status := OfferACCEPTED, of_respondedAt := x\<rparr>) F)
    \<longleftrightarrow> b = of_applicationId f \<or> accepted b F"
proof
  assume "accepted b (tbl_update i (\<lambda>f. f\<lparr>of_status := OfferACCEPTED, of_respondedAt := x\<rparr>) F)"
  then show "b = of_applicationId f \<or> accepted b F" using f by (auto simp: accepted_def split: if_splits)
next
  assume "b = of_applicationId f \<or> accepted b F"
  then show "accepted b (tbl_update i (\<lambda>f. f\<lparr>of_status := OfferACCEPTED, of_respondedAt := x\<rparr>) F)"
  proof
    assume "b = of_applicationId f"
    then show ?thesis using f unfolding accepted_def by (intro exI[of _ i]) simp
  next
    assume "accepted b F"
    then obtain j g where j: "tbl_get j F = Some g" "of_applicationId g = b" "of_status g = OfferACCEPTED"
      by (auto simp: accepted_def)
    then have "j \<noteq> i" using f sent by auto
    then show ?thesis using j unfolding accepted_def by (intro exI[of _ j] exI[of _ g]) simp
  qed
qed

text \<open>Accepting an offer hires its application, which no other offer has hired, and fills one place.\<close>

lemma places_accept:
  assumes ok: "places_ok R A F" and f: "tbl_get i F = Some f" and sent: "of_status f = OfferSENT"
    and a: "tbl_get (of_applicationId f) A = Some a"
  shows "places_ok (tbl_update (ap_requisitionId a) (fill_place now) R) (tbl_update (of_applicationId f) (set_stage StageHIRED now) A)
    (tbl_update i (\<lambda>f. f\<lparr>of_status := OfferACCEPTED, of_respondedAt := Some now\<rparr>) F)"
proof -
  let ?a = "of_applicationId f" and ?r = "ap_requisitionId a"
  let ?A = "tbl_update ?a (set_stage StageHIRED now) A" and ?F = "tbl_update i (\<lambda>f. f\<lparr>of_status := OfferACCEPTED, of_respondedAt := Some now\<rparr>) F"
  from ok have uniq: "\<And>j g. tbl_get j F = Some g \<Longrightarrow> of_applicationId g = ?a \<Longrightarrow> j = i"
    using f unfolding places_ok_def offers_ok_def by blast
  have "\<not> accepted ?a F" using uniq f sent by (auto simp: accepted_def)
  then have not_hired: "ap_stage a \<noteq> StageHIRED" using ok a by (auto simp: places_ok_def offers_ok_def)
  have acc: "accepted b ?F \<longleftrightarrow> b = ?a \<or> accepted b F" for b
    using accepted_mark[OF f sent] by blast
  have "offers_ok ?A ?F"
    using ok f a unfolding places_ok_def offers_ok_def acc by (auto simp: set_stage_def split: if_splits)
  moreover have hired: "hired_of r ?A = hired_of r A + (if r = ?r then 1 else 0)" for r
  proof (cases "r = ?r")
    case True
    then show ?thesis using ok a not_hired
      by (subst hired_of_def, subst tbl_count_update_new[of A ?a a]) (auto simp: hired_of_def places_ok_def set_stage_def)
  next
    case False
    have "tbl_get ?a A = Some x" if "(?a, x) \<in> set A" for x
      using that ok by (simp add: places_ok_def tbl_ids_def tbl_get_def)
    then show ?thesis using False a by (auto simp: hired_of_def set_stage_def intro!: tbl_count_update_same)
  qed
  have "requisition_ok r ?A q" if "tbl_get r (tbl_update ?r (fill_place now) R) = Some q" for r q
  proof (cases "r = ?r")
    case True
    with that obtain p where p: "tbl_get r R = Some p" "q = fill_place now p" by auto
    then have "requisition_ok r A p" using ok by (simp add: places_ok_def)
    then show ?thesis using p(2) True by (auto simp: requisition_ok_def hired fill_place_def Let_def)
  next
    case False
    then show ?thesis using that ok by (simp add: places_ok_def requisition_ok_def hired)
  qed
  ultimately show ?thesis using ok by (auto simp: places_ok_def set_stage_def split: if_splits)
qed

section \<open>Every call keeps it\<close>

lemma audit_frame [simp]:
  "rd_requisitions (recruitment_audit e i a v s) = rd_requisitions s"
  "rd_applications (recruitment_audit e i a v s) = rd_applications s"
  "rd_offers (recruitment_audit e i a v s) = rd_offers s"
  "rd_panels (recruitment_audit e i a v s) = rd_panels s"
  "rd_audit (recruitment_audit e i a v s) = rd_audit s"
  by (simp_all add: recruitment_audit_def logAsync_def)

lemma emit_frame [simp]:
  "rd_requisitions (emit_recruitment e i s) = rd_requisitions s" "rd_applications (emit_recruitment e i s) = rd_applications s"
  "rd_offers (emit_recruitment e i s) = rd_offers s" "rd_panels (emit_recruitment e i s) = rd_panels s"
  "rd_audit (emit_recruitment e i s) = rd_audit s"
  by (simp_all add: emit_recruitment_def)

lemma offer_audit_frame [simp]:
  "rd_requisitions (offer_audit i a s) = rd_requisitions s" "rd_applications (offer_audit i a s) = rd_applications s"
  "rd_offers (offer_audit i a s) = rd_offers s" "rd_audit (offer_audit i a s) = rd_audit s"
  by (simp_all add: offer_audit_def)

lemma create_panelists_frame [simp]:
  "rd_requisitions (snd (create_panelists p role es s)) = rd_requisitions s"
  "rd_applications (snd (create_panelists p role es s)) = rd_applications s"
  "rd_offers (snd (create_panelists p role es s)) = rd_offers s"
  "rd_audit (snd (create_panelists p role es s)) = rd_audit s"
  by (induction p role es s rule: create_panelists.induct) simp_all

lemma create_panelists_pair:
  "create_panelists p role es s = (r, t) \<Longrightarrow> rd_requisitions t = rd_requisitions s \<and> rd_applications t = rd_applications s
     \<and> rd_offers t = rd_offers s \<and> rd_audit t = rd_audit s"
  using create_panelists_frame[of p role es s] by simp

text \<open>A call that guards a status change of a requisition.\<close>

lemma hiring_move:
  assumes ok: "hiring_ok s"
    and same: "\<And>q. rq_headcountFilled (change q) = rq_headcountFilled q \<and> rq_headcountApproved (change q) = rq_headcountApproved q"
    and closed: "\<And>q. guard q = None \<Longrightarrow> rq_status q \<noteq> ReqCLOSED \<or> rq_status (change q) = ReqCLOSED"
  shows "hiring_ok (snd (requisition_move i guard change s))"
proof (cases "\<exists>q. tbl_get i (rd_requisitions s) = Some q \<and> guard q = None")
  case True
  then have "places_ok (tbl_update i change (rd_requisitions s)) (rd_applications s) (rd_offers s)"
    using ok same closed by (intro places_requisition) (auto simp: hiring_ok_def)
  then show ?thesis using True by (auto simp: hiring_ok_def requisition_move_def findRequisition_def)
next
  case False
  then have "snd (requisition_move i guard change s) = s"
    by (auto simp: requisition_move_def findRequisition_def split: option.splits)
  then show ?thesis using ok by simp
qed

lemma hiring_requisitions:
  assumes "hiring_ok s"
  shows "hiring_ok (snd (submitForApproval i s))" "hiring_ok (snd (holdRequisition i s))"
    "hiring_ok (snd (closeRequisition i force now s))" "hiring_ok (snd (cancelRequisition i s))"
  unfolding submitForApproval_def holdRequisition_def closeRequisition_def cancelRequisition_def
  by (rule hiring_move[OF assms]; force split: if_splits)+

lemma hiring_approve:
  assumes ok: "hiring_ok s"
  shows "hiring_ok (snd (approveRequisition suffix i u publish now s))"
proof (cases "fst (approveRequisition suffix i u publish now s)")
  case (Inl e)
  then have "snd (approveRequisition suffix i u publish now s) = s"
    by (auto simp: approveRequisition_def Let_def split: sum.splits if_splits)
  then show ?thesis using ok by simp
next
  case (Inr x)
  then obtain q where q: "tbl_get i (rd_requisitions s) = Some q" "rq_status q = ReqPENDING"
    by (auto simp: approveRequisition_def findRequisition_def split: option.splits if_splits)
  have "places_ok (tbl_update i (\<lambda>r. r\<lparr>rq_status := ReqOPEN, rq_approvedById := Some u, rq_publicSlug := sl, rq_publishedAt := pa\<rparr>)
      (rd_requisitions s)) (rd_applications s) (rd_offers s)" for sl pa
    using ok q by (intro places_requisition) (auto simp: hiring_ok_def)
  then show ?thesis
    using Inr by (auto simp: approveRequisition_def hiring_ok_def Let_def split: sum.splits if_splits)
qed

lemma hiring_create_requisition:
  "hiring_ok s \<Longrightarrow> 1 \<le> rn_headcountApproved dto \<Longrightarrow> hiring_ok (snd (createRequisition n u now dto s))"
  by (auto simp: createRequisition_def hiring_ok_def requisition_row_of_def intro!: places_new_requisition)

lemma hiring_candidates:
  assumes "hiring_ok s"
  shows "hiring_ok (snd (createCandidate n now cd s))" "hiring_ok (snd (updateCandidate i p s))" "hiring_ok (parseResumeStub i now s)"
    "hiring_ok (snd (findOrCreateByEmail n now pa resume s))"
  using assms by (auto simp: createCandidate_def updateCandidate_def parseResumeStub_def findOrCreateByEmail_def hiring_ok_def
      split: option.splits)

lemma findBySlug_row: "findBySlug slug s = Inr (i, r) \<Longrightarrow> (i, r) \<in> set (rd_requisitions s)"
  by (auto simp: findBySlug_def split: option.splits dest: tbl_find_Some)

lemma mem_not_fresh: "(i, r) \<in> set t \<Longrightarrow> \<not> fresh i t"
  by (force simp: fresh_def tbl_ids_def)

lemma hiring_apply:
  assumes ok: "hiring_ok s"
  shows "hiring_ok (snd (apply_public nc n now slug dto resume s))"
proof (cases "findBySlug slug s")
  case (Inl e)
  then show ?thesis using ok by (simp add: apply_public_def)
next
  case (Inr x)
  then obtain reqId r where x: "findBySlug slug s = Inr (reqId, r)" by (cases x) auto
  obtain res s1 where s1: "findOrCreateByEmail nc now dto resume s = (res, s1)" by (cases "findOrCreateByEmail nc now dto resume s")
  then have ok1: "hiring_ok s1" using hiring_candidates(4)[OF ok, of nc now dto resume] by simp
  have req: "\<not> fresh reqId (rd_requisitions s1)"
    using mem_not_fresh[OF findBySlug_row[OF x]] s1 by (auto simp: findOrCreateByEmail_def split: option.splits if_splits)
  have "hiring_ok (snd (apply_public nc n now slug dto resume s))" if "res = Inr (c, b)" for c b
    using that x s1 ok1 req by (auto simp: apply_public_def hiring_ok_def intro!: places_new_application)
  then show ?thesis using x s1 ok1 by (cases res) (auto simp: apply_public_def)
qed

text \<open>Calls that change an application that is not hired.\<close>

lemma hiring_stage:
  assumes "hiring_ok s" and "\<And>x. ap_requisitionId (g x) = ap_requisitionId x"
    and "\<And>x. tbl_get a (rd_applications s) = Some x \<Longrightarrow> (ap_stage (g x) = StageHIRED) = (ap_stage x = StageHIRED)"
    and "rd_requisitions t = rd_requisitions s" and "rd_applications t = tbl_update a g (rd_applications s)" and "rd_offers t = rd_offers s"
  shows "hiring_ok t"
  using places_application[of "rd_requisitions s" "rd_applications s" "rd_offers s" g a] assms by (simp add: hiring_ok_def)

lemma hired_is_terminal: "target \<in> set (valid_transitions st) \<Longrightarrow> st \<noteq> StageHIRED"
  by (cases st) auto

lemma hiring_moveStage: "hiring_ok s \<Longrightarrow> hiring_ok (snd (moveStage i target now s))"
  by (auto simp: moveStage_def findApplication_def set_stage_def split: option.splits
      elim!: hiring_stage[where a = i and g = "set_stage target now"] dest: hired_is_terminal)

lemma hiring_reject: "hiring_ok s \<Longrightarrow> hiring_ok (snd (rejectApplication i reason u now s))"
  by (auto simp: rejectApplication_def findApplication_def set_stage_def split: option.splits
      elim!: hiring_stage[where a = i and g = "\<lambda>a. (set_stage StageREJECTED now a)\<lparr>ap_rejectionReason := Some reason, ap_rejectedById := Some u\<rparr>"])

lemma hiring_updateScore: "hiring_ok s \<Longrightarrow> hiring_ok (snd (updateScore i s))"
  by (auto simp: updateScore_def elim!: hiring_stage[where a = i and g = "\<lambda>a. a\<lparr>ap_score := average (application_scores i s)\<rparr>"])

lemma hiring_advance: "hiring_ok s \<Longrightarrow> hiring_ok (snd (advance_for_panel i auto now s))"
  by (auto simp: advance_for_panel_def findApplication_def set_stage_def split: option.splits
      elim!: hiring_stage[where a = i and g = "set_stage INTERVIEW now"])

lemma hiring_schedulePanel:
  assumes "hiring_ok s"
  shows "hiring_ok (snd (schedulePanel n i dto u now s))"
proof -
  obtain r s1 where s1: "advance_for_panel i (pd_autoAdvanceStage dto) now s = (r, s1)"
    by (cases "advance_for_panel i (pd_autoAdvanceStage dto) now s")
  then have "hiring_ok s1" using hiring_advance[OF assms, of i "pd_autoAdvanceStage dto" now] by simp
  then show ?thesis
    by (auto simp: schedulePanel_def s1 hiring_ok_def split: sum.splits prod.splits dest: create_panelists_pair)
qed

lemma hiring_panels:
  assumes "hiring_ok s"
  shows "hiring_ok (snd (assignPanelists i es s))" "hiring_ok (snd (submitScorecard dec i e dto now s))"
    "hiring_ok (snd (cancelPanel i reason s))"
  using assms by (auto simp: assignPanelists_def submitScorecard_def cancelPanel_def hiring_ok_def Let_def split: sum.splits)

lemma hiring_createOffer:
  assumes "hiring_ok s"
  shows "hiring_ok (snd (createOffer n a dto u now s))"
proof (cases "findApplication a s")
  case (Inl e)
  then show ?thesis using assms by (simp add: createOffer_def)
next
  case (Inr x)
  let ?m = "if ap_stage x \<noteq> OFFER then moveStage a OFFER now s else (Inr (), s)"
  obtain r s1 where s1: "?m = (r, s1)" by (cases ?m)
  have ok: "hiring_ok s1"
    using s1 hiring_moveStage[OF assms, of a OFFER now] assms by (auto split: if_splits)
  have "\<not> fresh a (rd_applications s)" using Inr by (auto simp: findApplication_def fresh_get split: option.splits)
  then have a: "\<not> fresh a (rd_applications s1)"
    using s1 by (auto simp: moveStage_def split: if_splits sum.splits)
  have "places_ok (rd_requisitions s1) (rd_applications s1) (tbl_insert n (offer_row_of a u dto) (rd_offers s1))"
    if "fresh n (rd_offers s1)" "tbl_find (\<lambda>i f. of_applicationId f = a) (rd_offers s1) = None"
    using ok that a by (intro places_new_offer) (auto simp: hiring_ok_def offer_row_of_def)
  then show ?thesis using Inr s1 ok
    by (cases "tbl_find (\<lambda>i f. of_applicationId f = a) (rd_offers s1)") (auto simp: createOffer_def hiring_ok_def split: sum.splits)
qed

lemma hiring_offer:
  assumes "hiring_ok s" and "\<And>f. of_applicationId (g f) = of_applicationId f"
    and "\<And>f. tbl_get i (rd_offers s) = Some f \<Longrightarrow> (of_status (g f) = OfferACCEPTED) = (of_status f = OfferACCEPTED)"
    and "rd_requisitions t = rd_requisitions s" and "rd_applications t = rd_applications s" and "rd_offers t = tbl_update i g (rd_offers s)"
  shows "hiring_ok t"
  using places_offer[of "rd_requisitions s" "rd_applications s" "rd_offers s" g i] assms by (simp add: hiring_ok_def)

lemma hiring_send: "hiring_ok s \<Longrightarrow> hiring_ok (snd (sendOffer i now s))"
  by (auto simp: sendOffer_def findOffer_def split: option.splits
      elim!: hiring_offer[where i = i and g = "\<lambda>f. f\<lparr>of_status := OfferSENT, of_sentAt := Some now, of_letterKey := Some (''offers/'' @ i @ ''/letter.pdf'')\<rparr>"])

lemma hiring_rescind: "hiring_ok s \<Longrightarrow> hiring_ok (snd (rescindOffer i reason now s))"
  by (auto simp: rescindOffer_def findOffer_def split: option.splits
      elim!: hiring_offer[where i = i and g = "\<lambda>f. f\<lparr>of_status := OfferRESCINDED, of_declineReason := Some reason, of_respondedAt := Some now\<rparr>"])

lemma hiring_expire: "hiring_ok s \<Longrightarrow> hiring_ok (expire_offer i s)"
  by (auto simp: expire_offer_def split: option.splits
      elim!: hiring_offer[where i = i and g = "\<lambda>f. f\<lparr>of_status := OfferEXPIRED\<rparr>"])

text \<open>The outcome of \<open>acceptOffer\<close> on an offer that is sent and has not expired.\<close>

definition not_expired :: "instant \<Rightarrow> offer_row \<Rightarrow> bool" where
  "not_expired now f = (case of_expiresAt f of None \<Rightarrow> True | Some t \<Rightarrow> now \<le> t)"

lemma acceptOffer_sent:
  assumes "tbl_get i (rd_offers s) = Some f" and "of_status f = OfferSENT" and "not_expired now f"
    and "tbl_get (of_applicationId f) (rd_applications s) = Some a" and "tbl_get (ap_requisitionId a) (rd_requisitions s) = Some q"
  shows "fst (acceptOffer i now s) = Inr ()"
    "rd_requisitions (snd (acceptOffer i now s)) = tbl_update (ap_requisitionId a) (fill_place now) (rd_requisitions s)"
    "rd_applications (snd (acceptOffer i now s)) = tbl_update (of_applicationId f) (set_stage StageHIRED now) (rd_applications s)"
    "rd_offers (snd (acceptOffer i now s)) = tbl_update i (\<lambda>f. f\<lparr>of_status := OfferACCEPTED, of_respondedAt := Some now\<rparr>) (rd_offers s)"
  using assms by (auto simp: acceptOffer_def transaction_def accept_tx_def findOffer_def hireApplication_def
      incrementHeadcountFilled_def not_expired_def split: option.splits)

lemma acceptOffer_error:
  assumes "fst (acceptOffer i now s) = Inl e"
  shows "snd (acceptOffer i now s) = s"
  using assms by (auto simp: acceptOffer_def transaction_def split: sum.splits prod.splits)

lemma acceptOffer_Inr:
  assumes "fst (acceptOffer i now s) = Inr x"
  shows "\<exists>f a q. tbl_get i (rd_offers s) = Some f \<and> of_status f = OfferSENT \<and> not_expired now f
    \<and> tbl_get (of_applicationId f) (rd_applications s) = Some a \<and> tbl_get (ap_requisitionId a) (rd_requisitions s) = Some q"
  using assms by (auto simp: acceptOffer_def transaction_def accept_tx_def findOffer_def hireApplication_def
      incrementHeadcountFilled_def not_expired_def split: option.splits if_splits)

lemma hiring_accept:
  assumes "hiring_ok s"
  shows "hiring_ok (snd (acceptOffer i now s))"
proof (cases "fst (acceptOffer i now s)")
  case (Inl e)
  then show ?thesis using acceptOffer_error assms by metis
next
  case (Inr x)
  from acceptOffer_Inr[OF Inr] obtain f a q where *: "tbl_get i (rd_offers s) = Some f" "of_status f = OfferSENT" "not_expired now f"
    "tbl_get (of_applicationId f) (rd_applications s) = Some a" "tbl_get (ap_requisitionId a) (rd_requisitions s) = Some q" by blast
  show ?thesis
    using places_accept[OF assms[unfolded hiring_ok_def] *(1,2,4), of now]
    unfolding hiring_ok_def acceptOffer_sent(2-4)[OF *] .
qed

lemma hiring_decline:
  assumes ok: "hiring_ok s"
  shows "hiring_ok (snd (declineOffer i reason now s))"
proof (cases "\<exists>f. tbl_get i (rd_offers s) = Some f \<and> of_status f = OfferSENT \<and> tbl_get (of_applicationId f) (rd_applications s) \<noteq> None")
  case False
  then have "snd (declineOffer i reason now s) = s"
    by (auto simp: declineOffer_def transaction_def decline_tx_def findOffer_def split: option.splits)
  then show ?thesis using ok by simp
next
  case True
  then obtain f x where f: "tbl_get i (rd_offers s) = Some f" "of_status f = OfferSENT"
    and x: "tbl_get (of_applicationId f) (rd_applications s) = Some x" by auto
  have "j = i" if "tbl_get j (rd_offers s) = Some g" "of_applicationId g = of_applicationId f" for j g
    using that ok f unfolding hiring_ok_def places_ok_def offers_ok_def by blast
  then have "\<not> accepted (of_applicationId f) (rd_offers s)" using f by (auto simp: accepted_def)
  then have "ap_stage x \<noteq> StageHIRED" using ok x by (auto simp: hiring_ok_def places_ok_def offers_ok_def)
  then have "places_ok (rd_requisitions s) (tbl_update (of_applicationId f) (\<lambda>a. a\<lparr>ap_stage := StageREJECTED,
      ap_rejectionReason := Some (''Offer declined: '' @ reason)\<rparr>) (rd_applications s)) (rd_offers s)"
    using ok x by (intro places_application) (auto simp: hiring_ok_def)
  from places_offer[OF this, of "\<lambda>f. f\<lparr>of_status := OfferDECLINED, of_declineReason := Some reason, of_respondedAt := Some now\<rparr>" i] f
  show ?thesis using x by (simp add: declineOffer_def transaction_def decline_tx_def findOffer_def hiring_ok_def)
qed

lemmas hiring_calls = hiring_create_requisition hiring_requisitions hiring_approve hiring_candidates hiring_apply hiring_moveStage
  hiring_reject hiring_updateScore hiring_schedulePanel hiring_panels hiring_createOffer hiring_send hiring_rescind hiring_expire
  hiring_accept hiring_decline

text \<open>The schema of the request asks for at least one place.\<close>

fun valid_call :: "recruitment_call \<Rightarrow> bool" where
  "valid_call (CreateRequisition n u now dto) = (1 \<le> rn_headcountApproved dto)"
| "valid_call c = True"

lemma hiring_step: "hiring_ok s \<Longrightarrow> valid_call c \<Longrightarrow> hiring_ok (recruitment_step dec c s)"
  by (cases c) (simp_all add: hiring_calls)

lemma hiring_run: "hiring_ok s \<Longrightarrow> list_all valid_call cs \<Longrightarrow> hiring_ok (recruitment_run dec cs s)"
  by (induction cs arbitrary: s) (simp_all add: recruitment_run_def hiring_step)

section \<open>The life of an offer\<close>

fun offer_edge :: "offer_status \<Rightarrow> offer_status \<Rightarrow> bool" where
  "offer_edge OfferDRAFT st = (st \<in> {OfferSENT, OfferRESCINDED})"
| "offer_edge OfferSENT st = (st \<in> {OfferACCEPTED, OfferDECLINED, OfferEXPIRED, OfferRESCINDED})"
| "offer_edge st st' = False"

definition offer_status_of :: "recruitment_db \<Rightarrow> id \<Rightarrow> (id \<times> offer_status) option" where
  "offer_status_of s i = map_option (\<lambda>f. (of_applicationId f, of_status f)) (tbl_get i (rd_offers s))"

definition offer_move :: "id \<times> offer_status \<Rightarrow> id \<times> offer_status \<Rightarrow> bool" where
  "offer_move x y \<longleftrightarrow> fst x = fst y \<and> (offer_edge (snd x) (snd y) \<or> snd x = OfferRESCINDED \<and> snd y = OfferRESCINDED)"

text \<open>Calls that leave the offers alone, and the audit table.\<close>

lemma requisition_frame [simp]:
  "rd_offers (snd (requisition_move i guard change s)) = rd_offers s"
  "rd_audit (snd (requisition_move i guard change s)) = rd_audit s"
  by (auto simp: requisition_move_def split: sum.splits option.splits)

lemma requisitions_frame [simp]:
  "rd_offers (snd (createRequisition n u now rdto s)) = rd_offers s" "rd_audit (snd (createRequisition n u now rdto s)) = rd_audit s"
  "rd_offers (snd (submitForApproval i s)) = rd_offers s" "rd_audit (snd (submitForApproval i s)) = rd_audit s"
  "rd_offers (snd (approveRequisition suffix i u publish now s)) = rd_offers s"
  "rd_audit (snd (approveRequisition suffix i u publish now s)) = rd_audit s"
  "rd_offers (snd (holdRequisition i s)) = rd_offers s" "rd_audit (snd (holdRequisition i s)) = rd_audit s"
  "rd_offers (snd (closeRequisition i force now s)) = rd_offers s" "rd_audit (snd (closeRequisition i force now s)) = rd_audit s"
  "rd_offers (snd (cancelRequisition i s)) = rd_offers s" "rd_audit (snd (cancelRequisition i s)) = rd_audit s"
  by (auto simp: createRequisition_def submitForApproval_def approveRequisition_def holdRequisition_def closeRequisition_def
      cancelRequisition_def Let_def split: sum.splits)

lemma candidates_frame [simp]:
  "rd_offers (snd (createCandidate n now cdto s)) = rd_offers s" "rd_audit (snd (createCandidate n now cdto s)) = rd_audit s"
  "rd_offers (snd (updateCandidate i cp s)) = rd_offers s" "rd_audit (snd (updateCandidate i cp s)) = rd_audit s"
  "rd_offers (parseResumeStub i now s) = rd_offers s" "rd_audit (parseResumeStub i now s) = rd_audit s"
  "rd_offers (snd (findOrCreateByEmail n now pa resume s)) = rd_offers s"
  "rd_audit (snd (findOrCreateByEmail n now pa resume s)) = rd_audit s"
  by (auto simp: createCandidate_def updateCandidate_def parseResumeStub_def findOrCreateByEmail_def split: option.splits)

lemma findOrCreate_pair:
  "findOrCreateByEmail n now pa resume s = (r, t) \<Longrightarrow> rd_offers t = rd_offers s \<and> rd_audit t = rd_audit s"
  using candidates_frame(7,8)[of n now pa resume s] by simp

lemma applications_frame [simp]:
  "rd_offers (snd (apply_public nc n now slug pa resume s)) = rd_offers s"
  "rd_audit (snd (apply_public nc n now slug pa resume s)) = rd_audit s"
  "rd_offers (snd (moveStage i st now s)) = rd_offers s" "rd_audit (snd (moveStage i st now s)) = rd_audit s"
  "rd_offers (snd (rejectApplication i reason u now s)) = rd_offers s" "rd_audit (snd (rejectApplication i reason u now s)) = rd_audit s"
  "rd_offers (snd (updateScore i s)) = rd_offers s" "rd_audit (snd (updateScore i s)) = rd_audit s"
  by (auto simp: apply_public_def moveStage_def rejectApplication_def updateScore_def split: sum.splits prod.splits dest: findOrCreate_pair)

lemma moveStage_pair: "moveStage i st now s = (r, t) \<Longrightarrow> rd_offers t = rd_offers s \<and> rd_audit t = rd_audit s"
  using applications_frame(3,4)[of i st now s] by simp

lemma advance_pair: "advance_for_panel i auto now s = (r, t) \<Longrightarrow> rd_offers t = rd_offers s \<and> rd_audit t = rd_audit s"
  by (auto simp: advance_for_panel_def split: sum.splits if_splits)

lemma panels_frame [simp]:
  "rd_offers (snd (schedulePanel n i pdto u now s)) = rd_offers s" "rd_audit (snd (schedulePanel n i pdto u now s)) = rd_audit s"
  "rd_offers (snd (assignPanelists i es s)) = rd_offers s" "rd_audit (snd (assignPanelists i es s)) = rd_audit s"
  "rd_offers (snd (submitScorecard dec i e sdto now s)) = rd_offers s" "rd_audit (snd (submitScorecard dec i e sdto now s)) = rd_audit s"
  "rd_offers (snd (cancelPanel i reason s)) = rd_offers s" "rd_audit (snd (cancelPanel i reason s)) = rd_audit s"
  by (auto simp: schedulePanel_def assignPanelists_def submitScorecard_def cancelPanel_def Let_def
      split: sum.splits prod.splits dest!: create_panelists_pair advance_pair)

lemma accept_tx_audit: "accept_tx i now s = (r, t) \<Longrightarrow> rd_audit t = rd_audit s"
  by (auto simp: accept_tx_def hireApplication_def incrementHeadcountFilled_def split: sum.splits option.splits if_splits)

lemma offers_audit [simp]:
  "rd_audit (snd (createOffer n i odto u now s)) = rd_audit s" "rd_audit (snd (sendOffer i now s)) = rd_audit s"
  "rd_audit (snd (acceptOffer i now s)) = rd_audit s" "rd_audit (snd (declineOffer i reason now s)) = rd_audit s"
  "rd_audit (snd (rescindOffer i reason now s)) = rd_audit s" "rd_audit (expire_offer i s) = rd_audit s"
  by (auto simp: createOffer_def sendOffer_def acceptOffer_def declineOffer_def decline_tx_def rescindOffer_def expire_offer_def
      transaction_def split: sum.splits prod.splits option.splits if_splits dest!: moveStage_pair accept_tx_audit)

lemma audit_step: "rd_audit (recruitment_step dec c s) = rd_audit s"
  by (cases c) simp_all

lemma offer_status_updated:
  assumes "rd_offers t = tbl_update i g (rd_offers s)" and "offer_status_of s j = Some x"
    and "\<And>f. tbl_get i (rd_offers s) = Some f \<Longrightarrow> offer_move (of_applicationId f, of_status f) (of_applicationId (g f), of_status (g f))"
  shows "\<exists>y. offer_status_of t j = Some y \<and> (y = x \<or> offer_move x y)"
  using assms by (cases "j = i") (auto simp: offer_status_of_def)

lemma offer_step_create:
  "offer_status_of s j = Some x \<Longrightarrow> offer_status_of (snd (createOffer n a dto u now s)) j = Some x"
  by (auto simp: createOffer_def offer_status_of_def tbl_get_insert split: sum.splits prod.splits if_splits dest!: moveStage_pair)

lemma offer_step_send:
  assumes "offer_status_of s j = Some x"
  shows "\<exists>y. offer_status_of (snd (sendOffer i now s)) j = Some y \<and> (y = x \<or> offer_move x y)"
proof (cases "\<exists>f. tbl_get i (rd_offers s) = Some f \<and> of_status f = OfferDRAFT")
  case True
  then show ?thesis
    by (intro offer_status_updated[OF _ assms]) (auto simp: sendOffer_def findOffer_def offer_move_def)
next
  case False
  then have "snd (sendOffer i now s) = s" by (auto simp: sendOffer_def findOffer_def split: option.splits)
  then show ?thesis using assms by simp
qed

lemma offer_step_rescind:
  assumes "offer_status_of s j = Some x"
  shows "\<exists>y. offer_status_of (snd (rescindOffer i reason now s)) j = Some y \<and> (y = x \<or> offer_move x y)"
proof (cases "\<exists>f. tbl_get i (rd_offers s) = Some f \<and> of_status f \<notin> {OfferACCEPTED, OfferDECLINED, OfferEXPIRED}")
  case True
  then obtain f where f: "tbl_get i (rd_offers s) = Some f" "of_status f \<notin> {OfferACCEPTED, OfferDECLINED, OfferEXPIRED}" by blast
  then show ?thesis
    by (intro offer_status_updated[OF _ assms]) (cases "of_status f"; auto simp: rescindOffer_def findOffer_def offer_move_def)+
next
  case False
  then have "snd (rescindOffer i reason now s) = s" by (auto simp: rescindOffer_def findOffer_def split: option.splits)
  then show ?thesis using assms by simp
qed

lemma offer_step_expire:
  assumes "offer_status_of s j = Some x"
  shows "\<exists>y. offer_status_of (expire_offer i s) j = Some y \<and> (y = x \<or> offer_move x y)"
proof (cases "\<exists>f. tbl_get i (rd_offers s) = Some f \<and> of_status f = OfferSENT")
  case True
  then show ?thesis
    by (intro offer_status_updated[OF _ assms]) (auto simp: expire_offer_def offer_move_def)
next
  case False
  then have "expire_offer i s = s" by (auto simp: expire_offer_def split: option.splits)
  then show ?thesis using assms by simp
qed

lemma offer_step_accept:
  assumes "offer_status_of s j = Some x"
  shows "\<exists>y. offer_status_of (snd (acceptOffer i now s)) j = Some y \<and> (y = x \<or> offer_move x y)"
proof (cases "fst (acceptOffer i now s)")
  case (Inl e)
  then show ?thesis using acceptOffer_error assms by metis
next
  case (Inr u)
  from acceptOffer_Inr[OF Inr] obtain f a q where *: "tbl_get i (rd_offers s) = Some f" "of_status f = OfferSENT" "not_expired now f"
    "tbl_get (of_applicationId f) (rd_applications s) = Some a" "tbl_get (ap_requisitionId a) (rd_requisitions s) = Some q" by blast
  from acceptOffer_sent(4)[OF *] show ?thesis
    by (rule offer_status_updated[OF _ assms]) (use * in \<open>auto simp: offer_move_def\<close>)
qed

lemma offer_step_decline:
  assumes "offer_status_of s j = Some x"
  shows "\<exists>y. offer_status_of (snd (declineOffer i reason now s)) j = Some y \<and> (y = x \<or> offer_move x y)"
proof (cases "\<exists>f. tbl_get i (rd_offers s) = Some f \<and> of_status f = OfferSENT \<and> tbl_get (of_applicationId f) (rd_applications s) \<noteq> None")
  case True
  then show ?thesis
    by (intro offer_status_updated[OF _ assms]) (auto simp: declineOffer_def transaction_def decline_tx_def findOffer_def offer_move_def)
next
  case False
  then have "snd (declineOffer i reason now s) = s"
    by (auto simp: declineOffer_def transaction_def decline_tx_def findOffer_def split: option.splits)
  then show ?thesis using assms by simp
qed

interpretation offer_life: status_machine offer_status_of "recruitment_step dec" offer_move for dec
proof
  fix s i a and c :: recruitment_call
  assume a: "offer_status_of s i = Some a"
  have keep: "\<exists>b. offer_status_of (recruitment_step dec c s) i = Some b \<and> (b = a \<or> offer_move a b)"
    if "rd_offers (recruitment_step dec c s) = rd_offers s"
    using a that unfolding offer_status_of_def by auto
  show "\<exists>b. offer_status_of (recruitment_step dec c s) i = Some b \<and> (b = a \<or> offer_move a b)"
  proof (cases c)
    case (CreateOffer n i dto u now)
    then show ?thesis using offer_step_create[OF a] by simp
  next
    case (SendOffer i now)
    then show ?thesis using offer_step_send[OF a] by simp
  next
    case (AcceptOffer i now)
    then show ?thesis using offer_step_accept[OF a] by simp
  next
    case (DeclineOffer i reason now)
    then show ?thesis using offer_step_decline[OF a] by simp
  next
    case (RescindOffer i reason now)
    then show ?thesis using offer_step_rescind[OF a] by simp
  next
    case (ExpireOffer i)
    then show ?thesis using offer_step_expire[OF a] by simp
  qed (rule keep, simp)+
qed

lemma resolved_offer_stays:
  assumes "offer_status_of s i = Some (a, st)" and "st \<in> {OfferACCEPTED, OfferDECLINED, OfferEXPIRED}"
  shows "offer_status_of (recruitment_run dec cs s) i = Some (a, st)"
proof -
  have "\<not> offer_move (a, st) y" for y using assms(2) by (auto simp: offer_move_def)
  from offer_life.terminal_stays[OF this assms(1)] show ?thesis by (simp add: recruitment_run_def)
qed

lemma accepted_status: "accepted a (rd_offers s) \<longleftrightarrow> (\<exists>i. offer_status_of s i = Some (a, OfferACCEPTED))"
  by (auto simp: accepted_def offer_status_of_def)

section \<open>Hiring\<close>

definition no_recruitment :: "recruitment_db \<Rightarrow> bool" where
  "no_recruitment s \<longleftrightarrow> rd_requisitions s = [] \<and> rd_applications s = [] \<and> rd_offers s = []"

lemma no_recruitment_ok: "no_recruitment s \<Longrightarrow> hiring_ok s"
  by (simp add: no_recruitment_def hiring_ok_def places_ok_def offers_ok_def tbl_ids_def tbl_get_def)

text \<open>
  C6: After any sequence of calls of the recruitment services, starting from empty tables, the filled
  places of every requisition are exactly its applications in the stage HIRED, and those are the ones with
  an accepted offer. A requisition with all its places filled is closed.
\<close>

theorem headcount_is_hired:
  assumes "no_recruitment s" and "list_all valid_call calls" and "t = recruitment_run dec calls s"
    and "tbl_get r (rd_requisitions t) = Some q"
  shows "rq_headcountFilled q = int (tbl_count (\<lambda>a x. ap_requisitionId x = r \<and> ap_stage x = StageHIRED) (rd_applications t))
    \<and> (\<forall>a x. tbl_get a (rd_applications t) = Some x \<longrightarrow> (ap_stage x = StageHIRED \<longleftrightarrow> accepted a (rd_offers t)))
    \<and> (rq_headcountApproved q \<le> rq_headcountFilled q \<longrightarrow> rq_status q = ReqCLOSED)"
proof -
  have "hiring_ok t" using hiring_run[OF no_recruitment_ok[OF assms(1)] assms(2)] assms(3) by simp
  then show ?thesis using assms(4) by (simp add: hiring_ok_def places_ok_def offers_ok_def requisition_ok_def hired_of_def)
qed

text \<open>
  Who is hired stays hired: an application in the stage HIRED is in it after any further calls, and the
  rejection and the moves of stages do not touch it.
\<close>

lemma hired_for_good:
  assumes "no_recruitment s" and "list_all valid_call (calls @ later)"
    and "tbl_get a (rd_applications (recruitment_run dec calls s)) = Some x" and "ap_stage x = StageHIRED"
    and "tbl_get a (rd_applications (recruitment_run dec (calls @ later) s)) = Some y"
  shows "ap_stage y = StageHIRED"
proof -
  let ?t = "recruitment_run dec calls s" and ?u = "recruitment_run dec (calls @ later) s"
  have u: "?u = recruitment_run dec later ?t" by (simp add: recruitment_run_def)
  have "hiring_ok ?t" "hiring_ok ?u" using hiring_run[OF no_recruitment_ok[OF assms(1)]] assms(2) by simp_all
  then have "accepted a (rd_offers ?t)" and y: "ap_stage y = StageHIRED \<longleftrightarrow> accepted a (rd_offers ?u)"
    using assms(3-5) by (auto simp: hiring_ok_def places_ok_def offers_ok_def)
  then obtain i where "offer_status_of ?t i = Some (a, OfferACCEPTED)" by (auto simp: accepted_status)
  from resolved_offer_stays[OF this, of dec later] have "accepted a (rd_offers ?u)" by (auto simp: accepted_status u)
  then show ?thesis using y by simp
qed

text \<open>
  An offer that was sent and has not expired can be accepted whatever became of its application and its
  requisition: the application is hired even when it was rejected or withdrawn, the filled places grow even
  past the approved ones, and a requisition that is closed or cancelled counts on, ending as closed once
  the approved places are filled.
\<close>

lemma sent_offer_always_hires:
  assumes "tbl_get i (rd_offers s) = Some f" and "of_status f = OfferSENT" and "not_expired now f"
    and "tbl_get (of_applicationId f) (rd_applications s) = Some a" and "tbl_get (ap_requisitionId a) (rd_requisitions s) = Some q"
  shows "fst (acceptOffer i now s) = Inr ()
    \<and> map_option ap_stage (tbl_get (of_applicationId f) (rd_applications (snd (acceptOffer i now s)))) = Some StageHIRED
    \<and> (\<exists>p. tbl_get (ap_requisitionId a) (rd_requisitions (snd (acceptOffer i now s))) = Some p
         \<and> rq_headcountFilled p = rq_headcountFilled q + 1
         \<and> rq_status p = (if rq_headcountApproved q \<le> rq_headcountFilled q + 1 then ReqCLOSED else rq_status q))"
  using acceptOffer_sent[OF assms] assms(4,5) by (simp add: set_stage_def fill_place_def Let_def)

text \<open>
  No call of the recruitment services leaves a trace in the audit log: their entries name no company,
  the insert of such an entry fails, and the failure is swallowed.
\<close>

lemma recruitment_is_not_audited:
  "rd_audit (recruitment_run dec calls s) = rd_audit s"
  by (induction calls arbitrary: s) (simp_all add: recruitment_run_def audit_step)

section \<open>Concrete runs\<close>

definition empty_recruitment :: recruitment_db where
  "empty_recruitment =
     \<lparr>rd_requisitions = [], rd_candidates = [], rd_applications = [], rd_panels = [], rd_panelists = [], rd_scorecards = [],
      rd_offers = [], rd_expiryJobs = [], rd_resumeJobs = [], rd_events = [], rd_audit = []\<rparr>"

definition one_place :: requisition_dto where
  "one_place = \<lparr>rn_title = ''Dev'', rn_departmentId = None, rn_employmentType = PosFULL_TIME, rn_locationType = REMOTE,
     rn_headcountApproved = 1, rn_jobDescription = None, rn_requirements = None, rn_salaryRangeMin = None, rn_salaryRangeMax = None\<rparr>"

definition plain_offer :: offer_dto where
  "plain_offer = \<lparr>od_baseSalary = Fin 10, od_bonus = None, od_equityValue = None, od_currency = ''BDT'', od_startDate = 0, od_expiresAt = None\<rparr>"

definition applicant :: "string \<Rightarrow> public_apply_dto" where
  "applicant email = \<lparr>pa_fullName = ''A'', pa_email = email, pa_phone = None\<rparr>"

definition pipeline :: "id \<Rightarrow> recruitment_call list" where
  "pipeline a = [MoveStage a SCREENING 2, MoveStage a INTERVIEW 3]"

definition hiring_example :: "recruitment_call list" where
  "hiring_example =
     [CreateRequisition ''r'' ''u'' 0 one_place, SubmitRequisition ''r'', ApproveRequisition ''x'' ''r'' ''u'' True 1,
      ApplyPublic ''c1'' ''a1'' 1 ''dev-x'' (applicant ''a@x'') None, ApplyPublic ''c2'' ''a2'' 1 ''dev-x'' (applicant ''b@x'') None]
     @ pipeline ''a1'' @ pipeline ''a2''
     @ [CreateOffer ''o1'' ''a1'' plain_offer ''u'' 4, CreateOffer ''o2'' ''a2'' plain_offer ''u'' 4,
        SendOffer ''o1'' 5, SendOffer ''o2'' 5, AcceptOffer ''o1'' 6]"

lemma hiring_example_rows:
  "map_option (\<lambda>q. (rq_status q, rq_headcountFilled q, rq_headcountApproved q))
     (tbl_get ''r'' (rd_requisitions (recruitment_run id hiring_example empty_recruitment))) = Some (ReqCLOSED, 1, 1)"
  "map_option (\<lambda>x. (ap_stage x, ap_requisitionId x))
     (tbl_get ''a1'' (rd_applications (recruitment_run id hiring_example empty_recruitment))) = Some (StageHIRED, ''r'')"
  "map_option (\<lambda>x. (ap_stage x, ap_requisitionId x))
     (tbl_get ''a2'' (rd_applications (recruitment_run id hiring_example empty_recruitment))) = Some (OFFER, ''r'')"
  "map_option (\<lambda>f. (of_status f, of_applicationId f, of_expiresAt f))
     (tbl_get ''o2'' (rd_offers (recruitment_run id hiring_example empty_recruitment))) = Some (OfferSENT, ''a2'', None)"
  by code_simp+

lemma example_empty: "no_recruitment empty_recruitment"
  by (simp add: no_recruitment_def empty_recruitment_def)

lemma example_valid: "list_all valid_call hiring_example"
  by (simp add: hiring_example_def pipeline_def one_place_def)

theorem headcount_is_hired_witness:
  "\<exists>q. tbl_get ''r'' (rd_requisitions (recruitment_run id hiring_example empty_recruitment)) = Some q
    \<and> rq_headcountFilled q = 1 \<and> rq_status q = ReqCLOSED
    \<and> tbl_count (\<lambda>a x. ap_requisitionId x = ''r'' \<and> ap_stage x = StageHIRED)
        (rd_applications (recruitment_run id hiring_example empty_recruitment)) = 1"
proof -
  obtain q where q: "tbl_get ''r'' (rd_requisitions (recruitment_run id hiring_example empty_recruitment)) = Some q"
    "rq_headcountFilled q = 1" "rq_status q = ReqCLOSED"
    using hiring_example_rows(1) by auto
  from headcount_is_hired[OF example_empty example_valid refl q(1)] q show ?thesis by auto
qed

end
