(* ===== verification/Equity.thy ===== *)
theory Equity
  imports Calendar
begin

text \<open>
  Compensation: the vesting schedule of \<^verbatim>\<open>compensation/domain/compensation-math.ts\<close>, the equity
  grants of \<^verbatim>\<open>equity-grant.service.ts\<close> with the vesting cron, and its listings. Units are integers of an integer column, on which the
  divisions of doubles are exact enough for \<^verbatim>\<open>Math.floor\<close> and \<^verbatim>\<open>Math.ceil\<close>.
\<close>

section \<open>The vesting schedule\<close>

datatype vesting_frequency = MONTHLY | QUARTERLY

text \<open>
  \<^verbatim>\<open>d.setMonth(d.getMonth() + n)\<close> in a time zone \<open>off\<close> milliseconds east of UTC: a day past the end
  of the month runs into the next one.
\<close>

definition add_months :: "int \<Rightarrow> instant \<Rightarrow> int \<Rightarrow> instant" where
  "add_months off t n =
     (let l = t + off
      in date_UTC (getUTCFullYear l) (getUTCMonth l + n) (getUTCDate l) + l mod msPerDay - off)"

record vest_event =
  ve_date :: int
  ve_units :: int

record vesting_state =
  vs_events :: "vest_event list"
  vs_cliffAdded :: bool
  vs_beforeCliff :: int
  vs_remainder :: int

text \<open>One period of the loop; the date of an event is its day.\<close>

definition vest_step :: "int \<Rightarrow> int \<Rightarrow> int \<Rightarrow> int \<Rightarrow> (int \<Rightarrow> int) \<Rightarrow> int \<Rightarrow> vesting_state \<Rightarrow> vesting_state" where
  "vest_step perPeriod totalPeriods periodMonths cliffMonths date p st =
     (let months = p * periodMonths;
          units = perPeriod + (if p = totalPeriods then vs_remainder st else 0);
          left = (if p = totalPeriods then 0 else vs_remainder st)
      in if months < cliffMonths then st\<lparr>vs_beforeCliff := vs_beforeCliff st + units\<rparr>
         else if \<not> vs_cliffAdded st
         then st\<lparr>vs_events := vs_events st @ [\<lparr>ve_date = date months, ve_units = vs_beforeCliff st + units\<rparr>],
                 vs_cliffAdded := True, vs_beforeCliff := 0, vs_remainder := left\<rparr>
         else st\<lparr>vs_events := (if units > 0 then vs_events st @ [\<lparr>ve_date = date months, ve_units = units\<rparr>] else vs_events st),
                 vs_remainder := left\<rparr>)"

fun period_months :: "vesting_frequency \<Rightarrow> int" where
  "period_months MONTHLY = 1"
| "period_months QUARTERLY = 3"

definition total_periods :: "vesting_frequency \<Rightarrow> int \<Rightarrow> int" where
  "total_periods frequency durationMonths = - ((- durationMonths) div period_months frequency)"

definition vesting_loop :: "int \<Rightarrow> int \<Rightarrow> int \<Rightarrow> int \<Rightarrow> (int \<Rightarrow> int) \<Rightarrow> vesting_state" where
  "vesting_loop totalUnits totalPeriods periodMonths cliffMonths date =
     (let perPeriod = totalUnits div totalPeriods
      in fold (vest_step perPeriod totalPeriods periodMonths cliffMonths date) [1..totalPeriods]
           \<lparr>vs_events = [], vs_cliffAdded = False, vs_beforeCliff = 0, vs_remainder = totalUnits - perPeriod * totalPeriods\<rparr>)"

definition computeVestingSchedule :: "int \<Rightarrow> int \<Rightarrow> int \<Rightarrow> int \<Rightarrow> vesting_frequency \<Rightarrow> instant \<Rightarrow> vest_event list" where
  "computeVestingSchedule off totalUnits cliffMonths durationMonths frequency start =
     vs_events (vesting_loop totalUnits (total_periods frequency durationMonths) (period_months frequency) cliffMonths
       (\<lambda>n. day_of (add_months off start n)))"

definition vested_sum :: "vest_event list \<Rightarrow> int" where
  "vested_sum es = sum_list (map ve_units es)"

lemma vested_sum_simps [simp]:
  "vested_sum [] = 0" "vested_sum (e # es) = ve_units e + vested_sum es" "vested_sum (es @ fs) = vested_sum es + vested_sum fs"
  by (simp_all add: vested_sum_def)

text \<open>After \<open>k\<close> periods everything is either vested or waits for the cliff.\<close>

definition vesting_inv :: "int \<Rightarrow> int \<Rightarrow> int \<Rightarrow> int \<Rightarrow> int \<Rightarrow> vesting_state \<Rightarrow> bool" where
  "vesting_inv u n m c k st \<longleftrightarrow>
     vested_sum (vs_events st) + vs_beforeCliff st = u div n * k + (if k = n then u - u div n * n else 0)
     \<and> (k < n \<longrightarrow> vs_remainder st = u - u div n * n)
     \<and> (vs_cliffAdded st \<longleftrightarrow> c \<le> k * m \<and> 0 < k) \<and> (vs_cliffAdded st \<longrightarrow> vs_beforeCliff st = 0)
     \<and> (\<not> vs_cliffAdded st \<longrightarrow> vs_events st = [])
     \<and> (\<forall>e \<in> set (vs_events st). 0 \<le> ve_units e) \<and> 0 \<le> vs_beforeCliff st"

lemma vesting_step_inv:
  assumes inv: "vesting_inv u n m c k st" and "0 \<le> k" "k < n" "0 < m" "0 \<le> u"
  shows "vesting_inv u n m c (k + 1) (vest_step (u div n) n m c date (k + 1) st)"
proof -
  let ?r = "u - u div n * n"
  have r: "0 \<le> ?r" "0 \<le> u div n" "vs_remainder st = ?r"
    using assms by (simp_all add: minus_div_mult_eq_mod pos_imp_zdiv_nonneg_iff vesting_inv_def)
  have mono: "k * m < (k + 1) * m" using assms(4) by simp
  consider "(k + 1) * m < c" | "c \<le> (k + 1) * m" "\<not> vs_cliffAdded st" | "c \<le> (k + 1) * m" "vs_cliffAdded st" by linarith
  then show ?thesis
  proof cases
    case 1
    then have "\<not> vs_cliffAdded st" using inv mono unfolding vesting_inv_def by linarith
    then show ?thesis using 1 inv r assms(2,3)
      by (auto simp: vesting_inv_def vest_step_def Let_def algebra_simps)
  next
    case 2
    then show ?thesis using inv r assms(2,3)
      by (auto simp: vesting_inv_def vest_step_def Let_def algebra_simps)
  next
    case 3
    then show ?thesis using inv r assms(2,3)
      by (auto simp: vesting_inv_def vest_step_def Let_def algebra_simps)
  qed
qed

lemma vesting_loop_inv:
  assumes "0 < n" "0 < m" "0 \<le> u"
  shows "vesting_inv u n m c n (vesting_loop u n m c date)"
proof -
  let ?s = "\<lparr>vs_events = [], vs_cliffAdded = False, vs_beforeCliff = 0, vs_remainder = u - u div n * n\<rparr>"
  have "int k \<le> n \<Longrightarrow> vesting_inv u n m c (int k) (fold (vest_step (u div n) n m c date) [1..int k] ?s)" for k
  proof (induction k)
    case 0
    then show ?case using assms by (simp add: vesting_inv_def vested_sum_def)
  next
    case (Suc k)
    have "[1..int (Suc k)] = [1..int k] @ [int k + 1]" using upto_rec2[of 1 "int k + 1"] by (simp add: add.commute)
    then show ?case using Suc vesting_step_inv[OF Suc.IH, of date] assms by (simp add: add.commute)
  qed
  from this[of "nat n"] assms(1) show ?thesis by (simp add: vesting_loop_def Let_def)
qed

text \<open>An event falls on the end of a period that is not before the cliff.\<close>

lemma vesting_dates:
  "e \<in> set (vs_events (fold (vest_step u n m c date) ps st)) \<Longrightarrow>
     e \<in> set (vs_events st) \<or> (\<exists>p \<in> set ps. c \<le> p * m \<and> ve_date e = date (p * m))"
proof (induction ps arbitrary: st)
  case (Cons p ps)
  from Cons.IH[of "vest_step u n m c date p st"] Cons.prems
  have "e \<in> set (vs_events (vest_step u n m c date p st)) \<or> (\<exists>q \<in> set ps. c \<le> q * m \<and> ve_date e = date (q * m))" by simp
  moreover have "e \<in> set (vs_events (vest_step u n m c date p st)) \<Longrightarrow> e \<in> set (vs_events st) \<or> c \<le> p * m \<and> ve_date e = date (p * m)"
    by (auto simp: vest_step_def Let_def split: if_splits)
  ultimately show ?case by auto
qed simp

lemma total_periods_pos: "0 < durationMonths \<Longrightarrow> 0 < total_periods f durationMonths"
  by (cases f) (auto simp: total_periods_def)

text \<open>
  C15: A vesting schedule gives out exactly the units of the grant, in events that are not negative,
  each on the end of a period that is not before the cliff, provided the cliff is at or before the last
  period. With a later cliff the schedule is empty and the grant is never vested.
\<close>

theorem vesting_schedule_exact:
  assumes "0 < durationMonths" and "0 \<le> totalUnits"
    and "es = computeVestingSchedule off totalUnits cliffMonths durationMonths frequency start"
    and "lastMonth = total_periods frequency durationMonths * period_months frequency"
  shows "(cliffMonths \<le> lastMonth \<longrightarrow> vested_sum es = totalUnits) \<and> (lastMonth < cliffMonths \<longrightarrow> es = [])
    \<and> (\<forall>e \<in> set es. 0 \<le> ve_units e \<and> (\<exists>p. p * period_months frequency \<in> {cliffMonths..lastMonth}
          \<and> ve_date e = day_of (add_months off start (p * period_months frequency))))"
proof -
  let ?n = "total_periods frequency durationMonths" and ?m = "period_months frequency"
  have m: "0 < ?m" by (cases frequency) simp_all
  have dates: "\<exists>p. p * ?m \<in> {cliffMonths..lastMonth} \<and> ve_date e = day_of (add_months off start (p * ?m))" if e: "e \<in> set es" for e
  proof -
    from e obtain p where "p \<in> {1..?n}" "cliffMonths \<le> p * ?m" "ve_date e = day_of (add_months off start (p * ?m))"
      using vesting_dates[of e _ _ _ _ _ "[1..?n]"] unfolding assms(3) computeVestingSchedule_def vesting_loop_def Let_def by fastforce
    then show ?thesis using m assms(4) by (auto intro!: exI[of _ p])
  qed
  from vesting_loop_inv[OF total_periods_pos[OF assms(1)] m assms(2), of frequency cliffMonths "\<lambda>n. day_of (add_months off start n)"]
  have "(cliffMonths \<le> lastMonth \<longrightarrow> vested_sum es = totalUnits) \<and> (lastMonth < cliffMonths \<longrightarrow> es = [])
      \<and> (\<forall>e \<in> set es. 0 \<le> ve_units e)"
    using total_periods_pos[OF assms(1), of frequency] assms(3,4)
    by (auto simp: vesting_inv_def computeVestingSchedule_def)
  then show ?thesis using dates by blast
qed

theorem vesting_schedule_exact_witness:
  "vested_sum (computeVestingSchedule 0 1000 12 48 MONTHLY 0) = 1000"
  using vesting_schedule_exact[of 48 1000 "computeVestingSchedule 0 1000 12 48 MONTHLY 0" 0 12 MONTHLY 0 48]
  by (simp add: total_periods_def)

section \<open>Equity grants\<close>

datatype instrument_type = ISO | NSO | RSU

datatype grant_status = GrantACTIVE | GrantFULLY_VESTED | GrantCANCELLED

datatype vesting_event_status = VestPENDING | VestPROCESSED | VestSKIPPED

record grant_row =
  eg_employeeId :: id
  eg_instrumentType :: instrument_type
  eg_totalUnits :: int
  eg_vestedUnits :: int
  eg_strikePrice :: "int option"
  eg_grantDate :: instant
  eg_vestingStartDate :: instant
  eg_cliffMonths :: int
  eg_vestingDurationMonths :: int
  eg_vestingFrequency :: vesting_frequency
  eg_status :: grant_status

record vesting_row =
  vv_grantId :: id
  vv_date :: int
  vv_units :: int
  vv_status :: vesting_event_status
  vv_processedAt :: "instant option"

record equity_db =
  eq_grants :: "grant_row table"
  eq_events :: "vesting_row table"
  eq_emitted :: "(string \<times> id) list"

record grant_dto =
  gt_employeeId :: id
  gt_instrumentType :: instrument_type
  gt_totalUnits :: int
  gt_strikePrice :: "int option"
  gt_grantDate :: instant
  gt_vestingStartDate :: instant
  gt_cliffMonths :: int
  gt_vestingDurationMonths :: int
  gt_vestingFrequency :: vesting_frequency

definition grant_row_of :: "grant_dto \<Rightarrow> grant_row" where
  "grant_row_of dto =
     \<lparr>eg_employeeId = gt_employeeId dto, eg_instrumentType = gt_instrumentType dto, eg_totalUnits = gt_totalUnits dto,
      eg_vestedUnits = 0, eg_strikePrice = gt_strikePrice dto, eg_grantDate = utc_midnight (gt_grantDate dto),
      eg_vestingStartDate = utc_midnight (gt_vestingStartDate dto), eg_cliffMonths = gt_cliffMonths dto,
      eg_vestingDurationMonths = gt_vestingDurationMonths dto, eg_vestingFrequency = gt_vestingFrequency dto,
      eg_status = GrantACTIVE\<rparr>"

text \<open>Grant and day of an event are unique together; \<open>ids\<close> are the identifiers drawn for the rows.\<close>

fun create_events :: "id \<Rightarrow> id list \<Rightarrow> vest_event list \<Rightarrow> equity_db \<Rightarrow> (equity_db, unit) outcome" where
  "create_events g ids [] s = (Inr (), s)"
| "create_events g [] (e # es) s = (Inl (DatabaseError ''vesting_events_pkey''), s)"
| "create_events g (i # ids) (e # es) s =
     (if \<not> fresh i (eq_events s) \<or> tbl_find (\<lambda>j v. vv_grantId v = g \<and> vv_date v = ve_date e) (eq_events s) \<noteq> None
      then (Inl (DatabaseError ''vesting_events_equityGrantId_vestDate_key''), s)
      else create_events g ids es (s\<lparr>eq_events := tbl_insert i
             \<lparr>vv_grantId = g, vv_date = ve_date e, vv_units = ve_units e, vv_status = VestPENDING, vv_processedAt = None\<rparr> (eq_events s)\<rparr>))"

definition createGrant :: "int \<Rightarrow> id \<Rightarrow> id list \<Rightarrow> grant_dto \<Rightarrow> equity_db \<Rightarrow> (equity_db, id) outcome" where
  "createGrant off newId ids dto s =
     (let schedule = computeVestingSchedule off (gt_totalUnits dto) (gt_cliffMonths dto) (gt_vestingDurationMonths dto)
                       (gt_vestingFrequency dto) (gt_vestingStartDate dto)
      in transaction (\<lambda>s.
           if \<not> fresh newId (eq_grants s) then (Inl (DatabaseError ''equity_grants_pkey''), s)
           else (case create_events newId ids schedule (s\<lparr>eq_grants := tbl_insert newId (grant_row_of dto) (eq_grants s)\<rparr>) of
                   (Inl e, s1) \<Rightarrow> (Inl e, s1) | (Inr _, s1) \<Rightarrow> (Inr newId, s1))) s)"

definition cancelGrant :: "id \<Rightarrow> equity_db \<Rightarrow> (equity_db, unit) outcome" where
  "cancelGrant i s =
     (case tbl_get i (eq_grants s) of
        None \<Rightarrow> (Inl (NotFoundError ''Grant not found''), s)
      | Some g \<Rightarrow>
          (if eg_status g = GrantCANCELLED then (Inl (NotFoundError ''Grant already cancelled''), s)
           else (Inr (), s\<lparr>eq_events := tbl_update_many (\<lambda>j v. vv_grantId v = i \<and> vv_status v = VestPENDING)
                              (\<lambda>v. v\<lparr>vv_status := VestSKIPPED\<rparr>) (eq_events s),
                           eq_grants := tbl_update i (\<lambda>g. g\<lparr>eg_status := GrantCANCELLED\<rparr>) (eq_grants s)\<rparr>)))"

definition grant_events :: "id \<Rightarrow> equity_db \<Rightarrow> (id \<times> vesting_row) list" where
  "grant_events i s = sort_key (\<lambda>(j, v). vv_date v) (tbl_all (\<lambda>j v. vv_grantId v = i) (eq_events s))"

definition getGrant :: "id \<Rightarrow> equity_db \<Rightarrow> app_error + grant_row \<times> (id \<times> vesting_row) list" where
  "getGrant i s =
     (case tbl_get i (eq_grants s) of None \<Rightarrow> Inl (NotFoundError ''Grant not found'') | Some g \<Rightarrow> Inr (g, grant_events i s))"

definition getEmployeeGrants :: "id \<Rightarrow> equity_db \<Rightarrow> ((id \<times> grant_row) \<times> (id \<times> vesting_row) list) list" where
  "getEmployeeGrants employeeId s =
     map (\<lambda>(i, g). ((i, g), grant_events i s))
       (sort_key (\<lambda>(i, g). - eg_grantDate g) (tbl_all (\<lambda>i g. eg_employeeId g = employeeId) (eq_grants s)))"

section \<open>The vesting cron\<close>

text \<open>The due events with their grants, all read before the first is processed.\<close>

definition due_events :: "instant \<Rightarrow> equity_db \<Rightarrow> (id \<times> vesting_row \<times> grant_row) list" where
  "due_events now s =
     List.map_filter (\<lambda>(i, v). map_option (\<lambda>g. (i, v, g)) (tbl_get (vv_grantId v) (eq_grants s)))
       (tbl_all (\<lambda>i v. vv_status v = VestPENDING \<and> vv_date v \<le> day_of now) (eq_events s))"

definition vest_grant :: "int \<Rightarrow> int \<Rightarrow> grant_row \<Rightarrow> grant_row" where
  "vest_grant newVested allUnits g =
     g\<lparr>eg_vestedUnits := newVested, eg_status := (if newVested \<ge> allUnits then GrantFULLY_VESTED else eg_status g)\<rparr>"

definition process_event :: "instant \<Rightarrow> id \<times> vesting_row \<times> grant_row \<Rightarrow> equity_db \<Rightarrow> equity_db" where
  "process_event now = (\<lambda>(i, v, g) s.
     s\<lparr>eq_events := tbl_update i (\<lambda>v. v\<lparr>vv_status := VestPROCESSED, vv_processedAt := Some now\<rparr>) (eq_events s),
       eq_grants := tbl_update (vv_grantId v) (vest_grant (eg_vestedUnits g + vv_units v) (eg_totalUnits g)) (eq_grants s),
       eq_emitted := eq_emitted s @ [(''vesting.event_processed'', i)]\<rparr>)"

definition processDueVestingEvents :: "instant \<Rightarrow> equity_db \<Rightarrow> equity_db" where
  "processDueVestingEvents now s = fold (process_event now) (due_events now s) s"

lemma process_event_grants:
  "eq_grants (process_event now (j, v, h) s)
     = tbl_update (vv_grantId v) (vest_grant (eg_vestedUnits h + vv_units v) (eg_totalUnits h)) (eq_grants s)"
  by (simp add: process_event_def)

lemma vest_grant_units [simp]: "eg_vestedUnits (vest_grant n u g) = n"
  by (simp add: vest_grant_def)

lemma fold_process_vested:
  "tbl_get i (eq_grants s) = Some g \<Longrightarrow>
   map_option eg_vestedUnits (tbl_get i (eq_grants (fold (process_event now) es s)))
     = Some (case filter (\<lambda>(j, v, h). vv_grantId v = i) es of
               [] \<Rightarrow> eg_vestedUnits g
             | x # xs \<Rightarrow> (case last (x # xs) of (j, v, h) \<Rightarrow> eg_vestedUnits h + vv_units v))"
proof (induction es rule: rev_induct)
  case (snoc e es)
  obtain j v h where e: "e = (j, v, h)" by (cases e)
  from snoc have IH: "map_option eg_vestedUnits (tbl_get i (eq_grants (fold (process_event now) es s)))
     = Some (case filter (\<lambda>(j, v, h). vv_grantId v = i) es of [] \<Rightarrow> eg_vestedUnits g
             | x # xs \<Rightarrow> (case last (x # xs) of (j, v, h) \<Rightarrow> eg_vestedUnits h + vv_units v))" by blast
  show ?case
  proof (cases "vv_grantId v = i")
    case True
    have "tbl_get i (eq_grants (fold (process_event now) es s)) \<noteq> None" using IH by auto
    then show ?thesis using True
      by (cases "filter (\<lambda>(j, v, h). vv_grantId v = i) es") (auto simp: e process_event_grants)
  next
    case False
    then show ?thesis using IH by (simp add: e process_event_grants)
  qed
qed simp

lemma due_event_grant:
  assumes "(j, v, h) \<in> set (due_events now s)"
  shows "tbl_get (vv_grantId v) (eq_grants s) = Some h"
  using assms by (auto simp: due_events_def map_filter_def split: option.splits)

text \<open>
  A run of the vesting cron counts at most one event per grant: whatever number of events of a grant are
  due, its vested units grow by the units of the last of them alone, since each is added to the units
  the grant had before the run; with exactly one due event the count is right. All due events become
  processed, so the units of the others are never vested.
\<close>

lemma vesting_counts_last_event:
  assumes "tbl_get i (eq_grants s) = Some g"
    and "due = filter (\<lambda>(j, v, h). vv_grantId v = i) (due_events now s)"
  shows "map_option eg_vestedUnits (tbl_get i (eq_grants (processDueVestingEvents now s)))
    = Some (eg_vestedUnits g + (if due = [] then 0 else vv_units (fst (snd (last due)))))"
proof (cases due)
  case Nil
  then show ?thesis using fold_process_vested[OF assms(1), of now "due_events now s"] assms(2)
    by (simp add: processDueVestingEvents_def)
next
  case (Cons x xs)
  obtain j v h where l: "last due = (j, v, h)" by (cases "last due")
  have "(j, v, h) \<in> set due" using Cons l last_in_set[of due] by simp
  then have "(j, v, h) \<in> set (due_events now s)" "vv_grantId v = i" using assms(2) by auto
  then have "h = g" using due_event_grant assms(1) by fastforce
  then have "(case due of [] \<Rightarrow> eg_vestedUnits g | x # xs \<Rightarrow> (case last (x # xs) of (j, v, h) \<Rightarrow> eg_vestedUnits h + vv_units v))
      = eg_vestedUnits g + vv_units (fst (snd (last due)))"
    using Cons l by simp
  then show ?thesis using fold_process_vested[OF assms(1), of now "due_events now s"] Cons
    unfolding processDueVestingEvents_def assms(2)[symmetric] by simp
qed

definition late_vesting :: equity_db where
  "late_vesting =
     \<lparr>eq_grants = [(''g'', grant_row_of \<lparr>gt_employeeId = ''e'', gt_instrumentType = RSU, gt_totalUnits = 40, gt_strikePrice = None,
        gt_grantDate = 0, gt_vestingStartDate = 0, gt_cliffMonths = 0, gt_vestingDurationMonths = 4, gt_vestingFrequency = MONTHLY\<rparr>)],
      eq_events = map (\<lambda>(i, d). (i, \<lparr>vv_grantId = ''g'', vv_date = d, vv_units = 10, vv_status = VestPENDING, vv_processedAt = None\<rparr>))
        [(''v1'', 31), (''v2'', 59), (''v3'', 90), (''v4'', 120)],
      eq_emitted = []\<rparr>"

end
