(* ===== verification/Bonus.thy ===== *)
theory Bonus
  imports Prelude
begin

text \<open>
  Bonus cycles: \<^verbatim>\<open>compensation/services/compensation-cycle.service.ts\<close>. Amounts are in cents, the
  unit of their decimal columns; the comparison of the sum with the budget converts both to doubles, which
  keeps the order of numbers of that size with two decimals.
\<close>

datatype bonus_status = BonusPLANNING | BonusOPEN | BonusAPPROVAL | BonusDISBURSED | BonusCANCELLED

datatype allocation_status = AllocPROPOSED | AllocAPPROVED | AllocREJECTED | AllocDISBURSED

record bonus_row =
  bo_companyId :: id
  bo_name :: string
  bo_status :: bonus_status
  bo_totalBudget :: int
  bo_allocatedTotal :: int
  bo_openedAt :: "instant option"
  bo_disbursedAt :: "instant option"
  bo_approvedBy :: "id option"

record allocation_row =
  ll_cycleId :: id
  ll_employeeId :: id
  ll_proposedAmount :: int
  ll_approvedAmount :: "int option"
  ll_status :: allocation_status
  ll_approverNote :: "string option"

record bonus_db =
  bn_cycles :: "bonus_row table"
  bn_allocations :: "allocation_row table"
  bn_emitted :: "(id \<times> id \<times> int option) list"

definition findBonusCycle :: "id \<Rightarrow> bonus_db \<Rightarrow> app_error + bonus_row" where
  "findBonusCycle i s = (case tbl_get i (bn_cycles s) of None \<Rightarrow> Inl (NotFoundError ''Cycle not found'') | Some c \<Rightarrow> Inr c)"

definition findAllocation :: "id \<Rightarrow> bonus_db \<Rightarrow> app_error + allocation_row" where
  "findAllocation i s =
     (case tbl_get i (bn_allocations s) of None \<Rightarrow> Inl (NotFoundError ''Allocation not found'') | Some a \<Rightarrow> Inr a)"

definition cycle_allocations :: "id \<Rightarrow> bonus_db \<Rightarrow> (id \<times> allocation_row) list" where
  "cycle_allocations i s = tbl_all (\<lambda>j a. ll_cycleId a = i) (bn_allocations s)"

definition createBonusCycle :: "id \<Rightarrow> id \<Rightarrow> string \<Rightarrow> int \<Rightarrow> bonus_db \<Rightarrow> (bonus_db, id) outcome" where
  "createBonusCycle newId companyId name totalBudget s =
     (if \<not> fresh newId (bn_cycles s) then (Inl (DatabaseError ''compensation_cycles_pkey''), s)
      else (Inr newId, s\<lparr>bn_cycles := tbl_insert newId
             \<lparr>bo_companyId = companyId, bo_name = name, bo_status = BonusPLANNING, bo_totalBudget = totalBudget, bo_allocatedTotal = 0,
              bo_openedAt = None, bo_disbursedAt = None, bo_approvedBy = None\<rparr> (bn_cycles s)\<rparr>))"

definition openBonusCycle :: "id \<Rightarrow> instant \<Rightarrow> bonus_db \<Rightarrow> (bonus_db, unit) outcome" where
  "openBonusCycle i now s =
     (case findBonusCycle i s of
        Inl e \<Rightarrow> (Inl e, s)
      | Inr c \<Rightarrow>
          (if bo_status c \<noteq> BonusPLANNING then (Inl (BadRequestError ''Only PLANNING cycles can be opened''), s)
           else (Inr (), s\<lparr>bn_cycles := tbl_update i (\<lambda>c. c\<lparr>bo_status := BonusOPEN, bo_openedAt := Some now\<rparr>) (bn_cycles s)\<rparr>)))"

definition total_proposed :: "id \<Rightarrow> bonus_db \<Rightarrow> int" where
  "total_proposed i s =
     sum_list (map (\<lambda>(j, a). ll_proposedAmount a) (tbl_all (\<lambda>j a. ll_cycleId a = i \<and> ll_status a = AllocPROPOSED) (bn_allocations s)))"

definition lockForApproval :: "id \<Rightarrow> bonus_db \<Rightarrow> (bonus_db, unit) outcome" where
  "lockForApproval i s =
     (case findBonusCycle i s of
        Inl e \<Rightarrow> (Inl e, s)
      | Inr c \<Rightarrow>
          (if bo_status c \<noteq> BonusOPEN then (Inl (BadRequestError ''Only OPEN cycles can be locked''), s)
           else if total_proposed i s > bo_totalBudget c then (Inl (BadRequestError ''Total proposed exceeds budget''), s)
           else (Inr (), s\<lparr>bn_cycles := tbl_update i (\<lambda>c. c\<lparr>bo_status := BonusAPPROVAL, bo_allocatedTotal := total_proposed i s\<rparr>) (bn_cycles s)\<rparr>)))"

definition approveAllocation :: "id \<Rightarrow> int \<Rightarrow> string option \<Rightarrow> bonus_db \<Rightarrow> (bonus_db, unit) outcome" where
  "approveAllocation i approvedAmount note s =
     (case findAllocation i s of
        Inl e \<Rightarrow> (Inl e, s)
      | Inr a \<Rightarrow>
          (if ll_status a \<noteq> AllocPROPOSED then (Inl (BadRequestError ''Only PROPOSED allocations can be approved''), s)
           else (Inr (), s\<lparr>bn_allocations := tbl_update i (\<lambda>a. a\<lparr>ll_status := AllocAPPROVED, ll_approvedAmount := Some approvedAmount,
                    ll_approverNote := (if note = None then ll_approverNote a else note)\<rparr>) (bn_allocations s)\<rparr>)))"

definition rejectAllocation :: "id \<Rightarrow> string option \<Rightarrow> bonus_db \<Rightarrow> (bonus_db, unit) outcome" where
  "rejectAllocation i note s =
     (case findAllocation i s of
        Inl e \<Rightarrow> (Inl e, s)
      | Inr a \<Rightarrow> (Inr (), s\<lparr>bn_allocations := tbl_update i (\<lambda>a. a\<lparr>ll_status := AllocREJECTED,
                    ll_approverNote := (if note = None then ll_approverNote a else note)\<rparr>) (bn_allocations s)\<rparr>))"

text \<open>The loop runs over the allocations read before the transaction.\<close>

fun disburse_all :: "(id \<times> allocation_row) list \<Rightarrow> bonus_db \<Rightarrow> bonus_db" where
  "disburse_all [] s = s"
| "disburse_all ((j, a) # as) s =
     (if ll_status a = AllocAPPROVED
      then disburse_all as (s\<lparr>bn_allocations := tbl_update j (\<lambda>a. a\<lparr>ll_status := AllocDISBURSED\<rparr>) (bn_allocations s),
                             bn_emitted := bn_emitted s @ [(j, ll_employeeId a, ll_approvedAmount a)]\<rparr>)
      else disburse_all as s)"

definition disburseBonusCycle :: "id \<Rightarrow> id \<Rightarrow> instant \<Rightarrow> bonus_db \<Rightarrow> (bonus_db, unit) outcome" where
  "disburseBonusCycle i approverId now s =
     (case findBonusCycle i s of
        Inl e \<Rightarrow> (Inl e, s)
      | Inr c \<Rightarrow>
          (if bo_status c \<noteq> BonusAPPROVAL then (Inl (BadRequestError ''Only APPROVAL cycles can be disbursed''), s)
           else if \<exists>x \<in> set (cycle_allocations i s). ll_status (snd x) = AllocPROPOSED
           then (Inl (BadRequestError ''All allocations must be APPROVED or REJECTED''), s)
           else (Inr (), disburse_all (cycle_allocations i s)
                   (s\<lparr>bn_cycles := tbl_update i (\<lambda>c. c\<lparr>bo_status := BonusDISBURSED, bo_disbursedAt := Some now,
                        bo_approvedBy := Some approverId\<rparr>) (bn_cycles s)\<rparr>))))"

definition cancelBonusCycle :: "id \<Rightarrow> bonus_db \<Rightarrow> (bonus_db, unit) outcome" where
  "cancelBonusCycle i s =
     (case findBonusCycle i s of
        Inl e \<Rightarrow> (Inl e, s)
      | Inr c \<Rightarrow>
          (if bo_status c \<in> {BonusDISBURSED, BonusCANCELLED}
           then (Inl (BadRequestError ''Cannot cancel DISBURSED or already CANCELLED cycles''), s)
           else (Inr (), s\<lparr>bn_cycles := tbl_update i (\<lambda>c. c\<lparr>bo_status := BonusCANCELLED\<rparr>) (bn_cycles s)\<rparr>)))"

definition getBonusCycle :: "id \<Rightarrow> bonus_db \<Rightarrow> app_error + bonus_row \<times> (id \<times> allocation_row) list" where
  "getBonusCycle i s = map_sum id (\<lambda>c. (c, cycle_allocations i s)) (findBonusCycle i s)"

section \<open>What is paid\<close>

lemma disburse_all_emitted:
  "bn_emitted (disburse_all as s) = bn_emitted s
     @ map (\<lambda>(j, a). (j, ll_employeeId a, ll_approvedAmount a)) (filter (\<lambda>(j, a). ll_status a = AllocAPPROVED) as)"
  by (induction as s rule: disburse_all.induct) auto

lemma disburse_all_get:
  "tbl_get j (bn_allocations (disburse_all as s))
     = map_option (\<lambda>a. if \<exists>b. (j, b) \<in> set as \<and> ll_status b = AllocAPPROVED then a\<lparr>ll_status := AllocDISBURSED\<rparr> else a)
         (tbl_get j (bn_allocations s))"
proof (induction as s rule: disburse_all.induct)
  case (2 k a as s)
  then show ?case by (cases "tbl_get j (bn_allocations s)") auto
qed (simp add: option.map_ident)

lemma disburse_all_cycles [simp]: "bn_cycles (disburse_all as s) = bn_cycles s"
  by (induction as s rule: disburse_all.induct) auto

text \<open>
  C16: A bonus cycle is disbursed only when none of its allocations is still proposed, and then a payment is
  announced for exactly its approved allocations, each once with its approved amount; they become
  disbursed, and no other allocation of any cycle changes.
\<close>

theorem bonus_pays_approved:
  assumes "distinct (tbl_ids (bn_allocations s))" and "disburseBonusCycle i approver now s = (Inr (), t)"
  shows "bn_emitted t = bn_emitted s
      @ map (\<lambda>(j, a). (j, ll_employeeId a, ll_approvedAmount a))
          (tbl_all (\<lambda>j a. ll_cycleId a = i \<and> ll_status a = AllocAPPROVED) (bn_allocations s))
    \<and> (\<forall>j a. tbl_get j (bn_allocations s) = Some a \<longrightarrow>
        (ll_cycleId a = i \<longrightarrow> ll_status a \<noteq> AllocPROPOSED)
        \<and> tbl_get j (bn_allocations t) = Some (if ll_cycleId a = i \<and> ll_status a = AllocAPPROVED then a\<lparr>ll_status := AllocDISBURSED\<rparr> else a))
    \<and> map_option bo_status (tbl_get i (bn_cycles t)) = Some BonusDISBURSED"
proof -
  let ?s = "s\<lparr>bn_cycles := tbl_update i (\<lambda>c. c\<lparr>bo_status := BonusDISBURSED, bo_disbursedAt := Some now,
                        bo_approvedBy := Some approver\<rparr>) (bn_cycles s)\<rparr>"
  from assms(2) obtain c where c: "tbl_get i (bn_cycles s) = Some c"
    and none_left: "\<forall>x \<in> set (cycle_allocations i s). ll_status (snd x) \<noteq> AllocPROPOSED"
    and t: "t = disburse_all (cycle_allocations i s) ?s"
    by (auto simp: disburseBonusCycle_def findBonusCycle_def split: option.splits if_splits)
  have mem: "(j, b) \<in> set (cycle_allocations i s) \<longleftrightarrow> tbl_get j (bn_allocations s) = Some b \<and> ll_cycleId b = i" for j b
    using assms(1) by (auto simp: cycle_allocations_def tbl_all_def tbl_ids_def tbl_get_def)
  have emitted: "bn_emitted t = bn_emitted s
      @ map (\<lambda>(j, a). (j, ll_employeeId a, ll_approvedAmount a))
          (tbl_all (\<lambda>j a. ll_cycleId a = i \<and> ll_status a = AllocAPPROVED) (bn_allocations s))"
    by (simp add: t disburse_all_emitted cycle_allocations_def tbl_all_def case_prod_unfold conj_commute)
  have rows: "(ll_cycleId a = i \<longrightarrow> ll_status a \<noteq> AllocPROPOSED)
      \<and> tbl_get j (bn_allocations t) = Some (if ll_cycleId a = i \<and> ll_status a = AllocAPPROVED then a\<lparr>ll_status := AllocDISBURSED\<rparr> else a)"
    if "tbl_get j (bn_allocations s) = Some a" for j a
  proof -
    have "ll_cycleId a = i \<longrightarrow> ll_status a \<noteq> AllocPROPOSED" using that none_left mem[of j a] by fastforce
    then show ?thesis using that by (auto simp: t disburse_all_get mem)
  qed
  show ?thesis using emitted rows c by (simp add: t)
qed

definition bonus_office :: bonus_db where
  "bonus_office =
     \<lparr>bn_cycles = [(''c'', \<lparr>bo_companyId = ''co'', bo_name = ''2026'', bo_status = BonusAPPROVAL, bo_totalBudget = 1000, bo_allocatedTotal = 900,
        bo_openedAt = Some 0, bo_disbursedAt = None, bo_approvedBy = None\<rparr>)],
      bn_allocations =
        [(''a'', \<lparr>ll_cycleId = ''c'', ll_employeeId = ''e1'', ll_proposedAmount = 500, ll_approvedAmount = Some 5000,
            ll_status = AllocAPPROVED, ll_approverNote = None\<rparr>),
         (''b'', \<lparr>ll_cycleId = ''c'', ll_employeeId = ''e2'', ll_proposedAmount = 400, ll_approvedAmount = None,
            ll_status = AllocREJECTED, ll_approverNote = None\<rparr>)],
      bn_emitted = []\<rparr>"

theorem bonus_pays_approved_witness:
  "\<exists>t. disburseBonusCycle ''c'' ''u'' 1 bonus_office = (Inr (), t) \<and> bn_emitted t = [(''a'', ''e1'', Some 5000)]"
proof -
  have "fst (disburseBonusCycle ''c'' ''u'' 1 bonus_office) = Inr ()"
    by (simp add: disburseBonusCycle_def findBonusCycle_def bonus_office_def tbl_get_def cycle_allocations_def tbl_all_def)
  then obtain t where t: "disburseBonusCycle ''c'' ''u'' 1 bonus_office = (Inr (), t)"
    by (cases "disburseBonusCycle ''c'' ''u'' 1 bonus_office") auto
  have "distinct (tbl_ids (bn_allocations bonus_office))" by (simp add: bonus_office_def tbl_ids_def)
  from bonus_pays_approved[OF this t] show ?thesis using t by (simp add: bonus_office_def tbl_all_def)
qed

end
