(* ===== verification/Documents.thy ===== *)
theory Documents
  imports Staff Audit_Log Js_String
begin

text \<open>
  Documents of employees, \<^verbatim>\<open>documents/documents.service.ts\<close>, with the tables that signatures and
  policies share. The stream, its hash and the object store are one parameter: the error of the upload or the
  size and hash of what was stored. The lemmas show that the uploads of one file are numbered without gaps.
\<close>

section \<open>Tables\<close>

record document_row =
  dc_companyId :: id
  dc_employeeId :: id
  dc_name :: string
  dc_category :: string
  dc_mimeType :: string
  dc_fileSize :: int
  dc_s3Key :: "string option"
  dc_sha256Hash :: "string option"
  dc_version :: int
  dc_description :: "string option"
  dc_uploadedById :: id
  dc_createdAt :: instant
  dc_deletedAt :: "instant option"

datatype esign_status = EsignPENDING | EsignSIGNED | EsignDECLINED | EsignEXPIRED

record esign_row =
  es_companyId :: id
  es_documentId :: id
  es_requestedBy :: id
  es_signerEmployeeId :: id
  es_status :: esign_status
  es_base64Signature :: "string option"
  es_documentSha256AtSign :: "string option"
  es_declineReason :: "string option"
  es_expiresAt :: instant
  es_signedAt :: "instant option"
  es_declinedAt :: "instant option"
  es_createdAt :: instant

datatype policy_status = PolicyDRAFT | PolicyPUBLISHED | PolicyARCHIVED

record policy_row =
  po_companyId :: id
  po_title :: string
  po_content :: string
  po_category :: string
  po_status :: policy_status
  po_createdBy :: id
  po_publishedBy :: "id option"
  po_publishedAt :: "instant option"
  po_version :: int
  po_updatedAt :: instant

record acknowledgement_row =
  ak_policyId :: id
  ak_employeeId :: id
  ak_companyId :: id
  ak_acknowledgedAt :: instant

record docs_db =
  dd_documents :: "document_row table"
  dd_requests :: "esign_row table"
  dd_policies :: "policy_row table"
  dd_acknowledgements :: "acknowledgement_row table"
  dd_employees :: "employee_row table"
  dd_events :: "(string \<times> id) list"
  dd_audit :: "audit_row list"

definition emit_docs :: "string \<Rightarrow> id \<Rightarrow> docs_db \<Rightarrow> docs_db" where
  "emit_docs event i s = s\<lparr>dd_events := dd_events s @ [(event, i)]\<rparr>"

definition docs_audit :: "request_context option \<Rightarrow> id \<Rightarrow> string \<Rightarrow> id \<Rightarrow> string \<Rightarrow> (string \<times> json) list \<Rightarrow> docs_db \<Rightarrow> docs_db" where
  "docs_audit actor company etype i act nv s =
     s\<lparr>dd_audit := audit_record (entry_of actor company etype i act nv) (dd_audit s)\<rparr>"

section \<open>Uploading\<close>

record upload_dto =
  up_category :: string
  up_description :: "string option"

text \<open>\<^verbatim>\<open>extname\<close>: from the last dot of the last part on; a name that begins with its only dot has none.\<close>

definition extname :: "string \<Rightarrow> string" where
  "extname name =
     (let base = rev (takeWhile (\<lambda>c. c \<noteq> CHR ''/'') (rev name));
          stem = takeWhile (\<lambda>c. c \<noteq> CHR ''.'') (rev base)
      in if length stem + 1 < length base then CHR ''.'' # rev stem else [])"

text \<open>The newest earlier upload of the file by its version, whether removed or not.\<close>

definition same_file :: "id \<Rightarrow> id \<Rightarrow> string \<Rightarrow> string \<Rightarrow> document_row \<Rightarrow> bool" where
  "same_file company employeeId category name d \<longleftrightarrow>
     dc_employeeId d = employeeId \<and> dc_category d = category \<and> dc_name d = name \<and> dc_companyId d = company"

definition next_version :: "id \<Rightarrow> id \<Rightarrow> string \<Rightarrow> string \<Rightarrow> docs_db \<Rightarrow> int" where
  "next_version company employeeId category name s =
     (case sort_key (\<lambda>(i, d). - dc_version d) (tbl_all (\<lambda>i d. same_file company employeeId category name d) (dd_documents s)) of
        [] \<Rightarrow> 1 | (i, d) # _ \<Rightarrow> dc_version d + 1)"

definition document_key :: "id \<Rightarrow> string \<Rightarrow> string \<Rightarrow> int \<Rightarrow> string \<Rightarrow> string" where
  "document_key employeeId category uuid version filename =
     (let ext = toLowerCase (extname filename)
      in ''documents/'' @ employeeId @ ''/'' @ toLowerCase category @ ''/'' @ uuid @ ''-v'' @ show_int version
         @ (if ext = [] then ''.bin'' else ext))"

definition uploadDocument ::
    "id \<Rightarrow> string \<Rightarrow> instant \<Rightarrow> id \<Rightarrow> string \<Rightarrow> string \<Rightarrow> app_error + int \<times> string \<Rightarrow> upload_dto \<Rightarrow> request_context
      \<Rightarrow> docs_db \<Rightarrow> (docs_db, id) outcome" where
  "uploadDocument newId uuid now employeeId filename mimetype stored dto user s =
     (let version = next_version (rc_companyId user) employeeId (up_category dto) filename s
      in case stored of
           Inl e \<Rightarrow> (Inl e, s)
         | Inr (fileSize, sha) \<Rightarrow>
             (if \<not> fresh newId (dd_documents s) \<or> tbl_get employeeId (dd_employees s) = None
              then (Inl (DatabaseError ''employee_documents''), s)
              else (Inr newId,
                emit_docs ''hr.document.uploaded'' newId
                  (docs_audit (Some user) (rc_companyId user) ''employee_document'' newId ''DOCUMENT_UPLOADED''
                     [(''employeeId'', JStr employeeId), (''category'', JStr (up_category dto)), (''version'', JNum (num_of_int version)),
                      (''sha256Hash'', JStr sha), (''fileSize'', JNum (num_of_int fileSize))]
                     (s\<lparr>dd_documents := tbl_insert newId
                         \<lparr>dc_companyId = rc_companyId user, dc_employeeId = employeeId, dc_name = filename, dc_category = up_category dto,
                          dc_mimeType = mimetype, dc_fileSize = fileSize,
                          dc_s3Key = Some (document_key employeeId (up_category dto) uuid version filename),
                          dc_sha256Hash = Some sha, dc_version = version, dc_description = up_description dto,
                          dc_uploadedById = rc_userId user, dc_createdAt = now, dc_deletedAt = None\<rparr> (dd_documents s)\<rparr>)))))"

section \<open>Reading\<close>

text \<open>\<open>signed_url\<close> is the object store's link for a key.\<close>

definition getSignedUrl :: "(string \<Rightarrow> string) \<Rightarrow> id \<Rightarrow> request_context \<Rightarrow> docs_db \<Rightarrow> (docs_db, string) outcome" where
  "getSignedUrl signed_url documentId user s =
     (case tbl_get documentId (dd_documents s) of
        None \<Rightarrow> (Inl (NotFoundError ''Document not found''), s)
      | Some d \<Rightarrow>
          (if dc_companyId d \<noteq> rc_companyId user then (Inl (NotFoundError ''Document not found''), s)
           else
             (let isOwner = (dc_employeeId d = rc_userId user);
                  isManager = (case tbl_get (dc_employeeId d) (dd_employees s) of
                     None \<Rightarrow> False | Some e \<Rightarrow> em_managerId e = Some (rc_userId user));
                  isHrAdmin = (''admin:read'' \<in> set (rc_permissions user))
              in if \<not> isOwner \<and> \<not> isManager \<and> \<not> isHrAdmin
                 then (Inl (ForbiddenError ''You do not have permission to access this document''), s)
                 else (case dc_s3Key d of
                     None \<Rightarrow> (Inl (NotFoundError ''Document file not found in storage''), s)
                   | Some key \<Rightarrow>
                       (if key = [] then (Inl (NotFoundError ''Document file not found in storage''), s)
                        else (Inr (signed_url key),
                              docs_audit (Some user) (rc_companyId user) ''employee_document'' documentId ''DOCUMENT_SIGNED_URL_GENERATED''
                                [(''documentId'', JStr documentId), (''requesterId'', JStr (rc_userId user))] s))))))"

record document_view =
  dv_id :: id
  dv_employeeId :: id
  dv_category :: string
  dv_originalName :: string
  dv_mimeType :: string
  dv_sizeBytes :: int
  dv_version :: int
  dv_sha256Hash :: "string option"
  dv_description :: "string option"
  dv_uploadedBy :: id
  dv_createdAt :: instant

definition toResponseDto :: "id \<times> document_row \<Rightarrow> document_view" where
  "toResponseDto = (\<lambda>(i, d).
     \<lparr>dv_id = i, dv_employeeId = dc_employeeId d, dv_category = dc_category d, dv_originalName = dc_name d,
      dv_mimeType = dc_mimeType d, dv_sizeBytes = dc_fileSize d, dv_version = dc_version d, dv_sha256Hash = dc_sha256Hash d,
      dv_description = dc_description d, dv_uploadedBy = dc_uploadedById d, dv_createdAt = dc_createdAt d\<rparr>)"

definition listDocuments :: "id \<Rightarrow> id \<Rightarrow> string option \<Rightarrow> docs_db \<Rightarrow> document_view list" where
  "listDocuments employeeId companyId category s =
     map toResponseDto (sort_key (\<lambda>(i, d). - dc_createdAt d)
       (tbl_all (\<lambda>i d. dc_employeeId d = employeeId \<and> dc_companyId d = companyId \<and> dc_deletedAt d = None
          \<and> (case category of None \<Rightarrow> True | Some c \<Rightarrow> c = [] \<or> dc_category d = c)) (dd_documents s)))"

section \<open>Versions\<close>

definition versions_of :: "id \<Rightarrow> id \<Rightarrow> string \<Rightarrow> string \<Rightarrow> docs_db \<Rightarrow> int list" where
  "versions_of company employeeId category name s =
     map (\<lambda>(i, d). dc_version d) (tbl_all (\<lambda>i d. same_file company employeeId category name d) (dd_documents s))"

lemma hd_sort_neg:
  assumes "map f xs = [1..int (length xs)]" and "xs \<noteq> []"
  shows "f (hd (sort_key (\<lambda>x. - f x) xs)) = int (length xs)"
proof -
  let ?ys = "sort_key (\<lambda>x. - f x) xs"
  have ne: "?ys \<noteq> []" using assms(2) by (metis set_empty set_sort)
  have "f ` set ?ys = set [1..int (length xs)]" unfolding assms(1)[symmetric] by simp
  moreover have "f x \<le> f (hd ?ys)" if "x \<in> set ?ys" for x
    using that sorted_sort_key[of "\<lambda>x. - f x" xs] ne by (cases ?ys) auto
  moreover have "f (hd ?ys) \<in> f ` set ?ys" using hd_in_set[OF ne] by (rule imageI)
  moreover have "int (length xs) \<in> set [1..int (length xs)]" using assms(2) by (simp add: Suc_leI)
  ultimately show ?thesis by (metis (no_types, lifting) atLeastAtMost_iff imageE order_antisym set_upto)
qed

lemma next_version_numbers:
  assumes "versions_of c e cat n s = [1..int k]"
  shows "next_version c e cat n s = int k + 1"
proof -
  let ?xs = "tbl_all (\<lambda>i d. same_file c e cat n d) (dd_documents s)"
  have l: "length ?xs = k" using arg_cong[OF assms, of length] by (simp add: versions_of_def)
  show ?thesis
  proof (cases "?xs = []")
    case True
    then show ?thesis using l by (simp add: next_version_def)
  next
    case False
    have "(\<lambda>x. dc_version (snd x)) (hd (sort_key (\<lambda>x. - dc_version (snd x)) ?xs)) = int (length ?xs)"
      by (rule hd_sort_neg[OF _ False]) (use assms l in \<open>simp add: versions_of_def case_prod_unfold\<close>)
    moreover have "sort_key (\<lambda>x. - dc_version (snd x)) ?xs \<noteq> []" using False by (metis set_empty set_sort)
    ultimately show ?thesis using l
      by (auto simp: next_version_def case_prod_unfold split: list.splits)
  qed
qed

datatype upload_call = Upload id string instant id string string "app_error + int \<times> string" upload_dto request_context

fun upload_step :: "upload_call \<Rightarrow> docs_db \<Rightarrow> docs_db" where
  "upload_step (Upload n uuid now e name mime stored dto user) s = snd (uploadDocument n uuid now e name mime stored dto user s)"

lemma upload_versions:
  assumes "versions_of c e cat n s = [1..int k]"
  shows "\<exists>k'. versions_of c e cat n (upload_step u s) = [1..int k']"
proof (cases u)
  case (Upload i uuid now emp name mime stored dto user)
  show ?thesis
  proof (cases "dd_documents (upload_step u s) = dd_documents s")
    case True
    then show ?thesis using assms by (auto simp: versions_of_def)
  next
    case False
    let ?v = "next_version (rc_companyId user) emp (up_category dto) name s"
    obtain d where d: "dd_documents (upload_step u s) = dd_documents s @ [(i, d)]"
      and row: "dc_companyId d = rc_companyId user" "dc_employeeId d = emp" "dc_category d = up_category dto" "dc_name d = name" "dc_version d = ?v"
      using False by (auto simp: Upload uploadDocument_def Let_def emit_docs_def docs_audit_def tbl_insert_def split: sum.splits if_splits)
    show ?thesis
    proof (cases "same_file c e cat n d")
      case True
      then have "?v = int k + 1" using next_version_numbers[OF assms] row by (simp add: same_file_def)
      then have "versions_of c e cat n (upload_step u s) = [1..int k] @ [int k + 1]"
        using assms True row(5) by (simp add: versions_of_def d tbl_all_append) (simp add: tbl_all_def)
      then have "versions_of c e cat n (upload_step u s) = [1..int (Suc k)]"
        using upto_rec2[of 1 "int k + 1"] by (simp add: add.commute)
      then show ?thesis by blast
    next
      case False
      then have "versions_of c e cat n (upload_step u s) = [1..int k]"
        using assms by (simp add: versions_of_def d tbl_all_append) (simp add: tbl_all_def)
      then show ?thesis by blast
    qed
  qed
qed

text \<open>
  The uploads of one file name of an employee in a category are numbered 1, 2, 3 and so on without a gap
  or a repetition, through any sequence of uploads of any files, failed ones included, made one after the other.
\<close>

lemma upload_versions_consecutive:
  assumes "dd_documents s = []"
  shows "\<exists>k. versions_of company employee category name (fold upload_step uploads s) = [1..int k]"
proof -
  have init: "versions_of company employee category name s = [1..int 0]" using assms by (simp add: versions_of_def tbl_all_def)
  have "\<exists>k. versions_of company employee category name (fold upload_step us t) = [1..int k]"
    if "versions_of company employee category name t = [1..int k]" for us t k
    using that
  proof (induction us arbitrary: t k)
    case (Cons u us)
    then show ?case using upload_versions[OF Cons.prems, of u] by auto
  qed auto
  then show ?thesis using init .
qed

definition docs_office :: docs_db where
  "docs_office =
     \<lparr>dd_documents = [], dd_requests = [], dd_policies = [], dd_acknowledgements = [],
      dd_employees = [(''e1'', new_employee ''co'' (Some ''u1''))], dd_events = [], dd_audit = []\<rparr>"

end
