(* ===== verification/Esign.thy ===== *)
theory Esign
  imports Documents
begin

text \<open>
  Electronic signatures, \<^verbatim>\<open>esign/esign.service.ts\<close>: requests to an employee to sign a document, the
  signer's answer, and the hourly job that expires old requests in batches until none is left. The job is a
  partial function; the lemmas show that it ends.
\<close>

section \<open>Requests\<close>

record esign_dto =
  ed_documentId :: id
  ed_signerEmployeeId :: id

text \<open>\<open>expiryDays\<close> comes from the configuration, 7 by default; days have their full length.\<close>

definition createEsignRequest ::
    "int \<Rightarrow> id \<Rightarrow> instant \<Rightarrow> esign_dto \<Rightarrow> request_context \<Rightarrow> docs_db \<Rightarrow> (docs_db, id) outcome" where
  "createEsignRequest expiryDays newId now dto user s =
     (case tbl_get_where (ed_documentId dto) (\<lambda>d. dc_companyId d = rc_companyId user) (dd_documents s) of
        None \<Rightarrow> (Inl (NotFoundError ''Document not found''), s)
      | Some d \<Rightarrow>
          (if tbl_find (\<lambda>i r. es_documentId r = ed_documentId dto \<and> es_signerEmployeeId r = ed_signerEmployeeId dto
                 \<and> es_status r = EsignPENDING) (dd_requests s) \<noteq> None
           then (Inl (ConflictError ''A pending e-signature request already exists for this document and signer''), s)
           else if \<not> fresh newId (dd_requests s) \<or> tbl_get (ed_signerEmployeeId dto) (dd_employees s) = None
           then (Inl (DatabaseError ''esign_requests''), s)
           else (let expiresAt = now + expiryDays * 86400000 in
             (Inr newId, emit_docs ''hr.esign.request_created'' newId
                (docs_audit (Some user) (rc_companyId user) ''esign_request'' newId ''ESIGN_REQUEST_CREATED''
                   [(''documentId'', JStr (ed_documentId dto)), (''signerEmployeeId'', JStr (ed_signerEmployeeId dto)),
                    (''expiresAt'', JDate expiresAt)]
                   (s\<lparr>dd_requests := tbl_insert newId
                       \<lparr>es_companyId = rc_companyId user, es_documentId = ed_documentId dto, es_requestedBy = rc_userId user,
                        es_signerEmployeeId = ed_signerEmployeeId dto, es_status = EsignPENDING, es_base64Signature = None,
                        es_documentSha256AtSign = None, es_declineReason = None, es_expiresAt = expiresAt, es_signedAt = None,
                        es_declinedAt = None, es_createdAt = now\<rparr> (dd_requests s)\<rparr>))))))"

definition getEsignRequest :: "id \<Rightarrow> id \<Rightarrow> docs_db \<Rightarrow> app_error + esign_row" where
  "getEsignRequest i companyId s =
     (case tbl_get_where i (\<lambda>r. es_companyId r = companyId) (dd_requests s) of
        None \<Rightarrow> Inl (NotFoundError ''E-signature request not found'') | Some r \<Rightarrow> Inr r)"

definition listEsignRequests :: "id \<Rightarrow> id option \<Rightarrow> esign_status option \<Rightarrow> docs_db \<Rightarrow> (id \<times> esign_row) list" where
  "listEsignRequests companyId documentId status s =
     sort_key (\<lambda>(i, r). - es_createdAt r)
       (tbl_all (\<lambda>i r. es_companyId r = companyId
          \<and> (case documentId of None \<Rightarrow> True | Some d \<Rightarrow> d = [] \<or> es_documentId r = d)
          \<and> (case status of None \<Rightarrow> True | Some st \<Rightarrow> es_status r = st)) (dd_requests s))"

section \<open>The signer's answer\<close>

fun esign_status_name :: "esign_status \<Rightarrow> string" where
  "esign_status_name EsignPENDING = ''PENDING''"
| "esign_status_name EsignSIGNED = ''SIGNED''"
| "esign_status_name EsignDECLINED = ''DECLINED''"
| "esign_status_name EsignEXPIRED = ''EXPIRED''"

definition set_request :: "id \<Rightarrow> (esign_row \<Rightarrow> esign_row) \<Rightarrow> docs_db \<Rightarrow> docs_db" where
  "set_request i f s = s\<lparr>dd_requests := tbl_update i f (dd_requests s)\<rparr>"

text \<open>The guards that signing and declining share.\<close>

definition answer_guard :: "string \<Rightarrow> id \<Rightarrow> id \<Rightarrow> docs_db \<Rightarrow> app_error + esign_row" where
  "answer_guard verb requestId signerId s =
     (case tbl_get requestId (dd_requests s) of
        None \<Rightarrow> Inl (NotFoundError ''E-signature request not found'')
      | Some r \<Rightarrow>
          (if es_signerEmployeeId r \<noteq> signerId
           then Inl (ForbiddenError (''Only the designated signer can '' @ verb @ '' this document''))
           else if es_status r \<noteq> EsignPENDING
           then Inl (BadRequestError (''Cannot '' @ verb @ '' a request with status: '' @ esign_status_name (es_status r)))
           else Inr r))"

definition signDocument :: "instant \<Rightarrow> id \<Rightarrow> id \<Rightarrow> string \<Rightarrow> docs_db \<Rightarrow> (docs_db, unit) outcome" where
  "signDocument now requestId signerId signature s =
     (case answer_guard ''sign'' requestId signerId s of
        Inl e \<Rightarrow> (Inl e, s)
      | Inr r \<Rightarrow>
          (if now > es_expiresAt r
           then (Inl (GoneError ''E-signature request has expired''),
                 docs_audit None (es_companyId r) ''esign_request'' requestId ''ESIGN_REQUEST_EXPIRED'' []
                   (set_request requestId (\<lambda>r. r\<lparr>es_status := EsignEXPIRED\<rparr>) s))
           else (let sha = Option.bind (tbl_get (es_documentId r) (dd_documents s)) dc_sha256Hash in
             (Inr (), emit_docs ''hr.esign.signed'' requestId
                (docs_audit None (es_companyId r) ''esign_request'' requestId ''ESIGN_DOCUMENT_SIGNED''
                   [(''requestId'', JStr requestId), (''documentId'', JStr (es_documentId r)), (''signerEmployeeId'', JStr signerId),
                    (''documentSha256AtSign'', case sha of None \<Rightarrow> JNull | Some h \<Rightarrow> JStr h)]
                   (set_request requestId (\<lambda>r. r\<lparr>es_status := EsignSIGNED, es_base64Signature := Some signature,
                      es_documentSha256AtSign := sha, es_signedAt := Some now\<rparr>) s))))))"

definition declineRequest :: "instant \<Rightarrow> id \<Rightarrow> id \<Rightarrow> string option \<Rightarrow> docs_db \<Rightarrow> (docs_db, unit) outcome" where
  "declineRequest now requestId signerId reason s =
     (case answer_guard ''decline'' requestId signerId s of
        Inl e \<Rightarrow> (Inl e, s)
      | Inr r \<Rightarrow>
          (if now > es_expiresAt r
           then (Inl (GoneError ''E-signature request has expired''), set_request requestId (\<lambda>r. r\<lparr>es_status := EsignEXPIRED\<rparr>) s)
           else (Inr (), emit_docs ''hr.esign.declined'' requestId
                  (docs_audit None (es_companyId r) ''esign_request'' requestId ''ESIGN_REQUEST_DECLINED''
                     [(''requestId'', JStr requestId), (''signerEmployeeId'', JStr signerId),
                      (''reason'', case reason of None \<Rightarrow> JNull | Some x \<Rightarrow> JStr x)]
                     (set_request requestId (\<lambda>r. r\<lparr>es_status := EsignDECLINED, es_declineReason := reason, es_declinedAt := Some now\<rparr>) s)))))"

section \<open>The expiry job\<close>

definition stale_requests :: "instant \<Rightarrow> docs_db \<Rightarrow> (id \<times> esign_row) list" where
  "stale_requests now s = take 50 (tbl_all (\<lambda>i r. es_status r = EsignPENDING \<and> es_expiresAt r < now) (dd_requests s))"

definition expire_request :: "id \<times> esign_row \<Rightarrow> docs_db \<Rightarrow> docs_db" where
  "expire_request = (\<lambda>(i, r) s.
     emit_docs ''hr.esign.expired'' i
       (docs_audit None (es_companyId r) ''esign_request'' i ''ESIGN_REQUEST_EXPIRED''
          [(''requestId'', JStr i), (''documentId'', JStr (es_documentId r)), (''signerEmployeeId'', JStr (es_signerEmployeeId r))]
          (set_request i (\<lambda>r. r\<lparr>es_status := EsignEXPIRED\<rparr>) s)))"

text \<open>\<open>clock k\<close> is the time at which the \<open>k\<close>th batch is read.\<close>

partial_function (option) expireStaleRequests :: "(nat \<Rightarrow> instant) \<Rightarrow> nat \<Rightarrow> docs_db \<Rightarrow> docs_db option" where
  [code]: "expireStaleRequests clock k s =
     (if stale_requests (clock k) s = [] then Some s
      else expireStaleRequests clock (Suc k) (fold expire_request (stale_requests (clock k) s) s))"

definition pending_count :: "docs_db \<Rightarrow> nat" where
  "pending_count s = tbl_count (\<lambda>i r. es_status r = EsignPENDING) (dd_requests s)"

lemma expire_request_rows:
  "dd_requests (expire_request (i, r) s) = tbl_update i (\<lambda>r. r\<lparr>es_status := EsignEXPIRED\<rparr>) (dd_requests s)"
  by (simp add: expire_request_def emit_docs_def docs_audit_def set_request_def)

lemma expire_fold_get:
  "tbl_get j (dd_requests (fold expire_request xs s))
     = map_option (\<lambda>r. if j \<in> fst ` set xs then r\<lparr>es_status := EsignEXPIRED\<rparr> else r) (tbl_get j (dd_requests s))"
proof (induction xs arbitrary: s)
  case (Cons x xs)
  then show ?case by (cases x; cases "tbl_get j (dd_requests s)") (auto simp: expire_request_rows)
qed (simp add: option.map_ident)

lemma expire_fold_ids: "tbl_ids (dd_requests (fold expire_request xs s)) = tbl_ids (dd_requests s)"
  by (induction xs arbitrary: s) (auto simp: expire_request_rows split: prod.splits)

lemma count_as_card:
  assumes "distinct (tbl_ids t)"
  shows "tbl_count P t = card {i. \<exists>r. tbl_get i t = Some r \<and> P i r}"
proof -
  have "tbl_count P t = length (map fst (filter (\<lambda>(i, r). P i r) t))" by (simp add: tbl_count_def tbl_all_def)
  also have "\<dots> = card (set (map fst (filter (\<lambda>(i, r). P i r) t)))"
    using assms by (intro distinct_card[symmetric]) (simp add: tbl_ids_def distinct_map_filter)
  also have "set (map fst (filter (\<lambda>(i, r). P i r) t)) = {i. \<exists>r. tbl_get i t = Some r \<and> P i r}"
    using assms by (force simp: tbl_ids_def tbl_get_def)
  finally show ?thesis .
qed

lemma stale_row:
  assumes "distinct (tbl_ids (dd_requests s))" and "(i, r) \<in> set (stale_requests now s)"
  shows "tbl_get i (dd_requests s) = Some r \<and> es_status r = EsignPENDING \<and> es_expiresAt r < now"
  using assms by (auto simp: stale_requests_def tbl_all_def tbl_ids_def tbl_get_def dest: in_set_takeD)

text \<open>Each batch takes its requests out of the pending ones.\<close>

lemma expire_batch_less:
  assumes d: "distinct (tbl_ids (dd_requests s))" and "stale_requests now s \<noteq> []"
  shows "pending_count (fold expire_request (stale_requests now s) s) < pending_count s"
proof -
  let ?xs = "stale_requests now s"
  let ?t = "fold expire_request ?xs s"
  let ?P = "\<lambda>t. {i. \<exists>r. tbl_get i (dd_requests t) = Some r \<and> es_status r = EsignPENDING}"
  obtain i r where i: "(i, r) \<in> set ?xs" using assms(2) by (cases ?xs) auto
  have "?P ?t \<subseteq> ?P s" by (auto simp: expire_fold_get split: if_splits)
  moreover have "i \<in> ?P s" "i \<notin> ?P ?t" using stale_row[OF d i] i by (auto simp: expire_fold_get rev_image_eqI)
  moreover have "finite (?P s)"
  proof (rule finite_subset)
    show "?P s \<subseteq> set (tbl_ids (dd_requests s))" by (force simp: tbl_ids_def tbl_get_def dest: map_of_SomeD)
  qed simp
  ultimately have "card (?P ?t) < card (?P s)" by (intro psubset_card_mono) auto
  then show ?thesis using d by (simp add: pending_count_def count_as_card expire_fold_ids)
qed

text \<open>What a run of the job does to one row.\<close>

definition expired_from :: "docs_db \<Rightarrow> docs_db \<Rightarrow> bool" where
  "expired_from s t \<longleftrightarrow> (\<forall>i. tbl_get i (dd_requests t) = tbl_get i (dd_requests s)
     \<or> (\<exists>r. tbl_get i (dd_requests s) = Some r \<and> es_status r = EsignPENDING
          \<and> tbl_get i (dd_requests t) = Some (r\<lparr>es_status := EsignEXPIRED\<rparr>)))"

lemma expired_from_batch:
  assumes "distinct (tbl_ids (dd_requests s))"
  shows "expired_from s (fold expire_request (stale_requests now s) s)"
proof -
  have "tbl_get i (dd_requests (fold expire_request (stale_requests now s) s)) = tbl_get i (dd_requests s)
     \<or> (\<exists>r. tbl_get i (dd_requests s) = Some r \<and> es_status r = EsignPENDING
          \<and> tbl_get i (dd_requests (fold expire_request (stale_requests now s) s)) = Some (r\<lparr>es_status := EsignEXPIRED\<rparr>))" for i
  proof (cases "i \<in> fst ` set (stale_requests now s)")
    case True
    then obtain r where "(i, r) \<in> set (stale_requests now s)" by auto
    from stale_row[OF assms this] True show ?thesis by (simp add: expire_fold_get)
  next
    case False
    then show ?thesis by (cases "tbl_get i (dd_requests s)") (simp_all add: expire_fold_get)
  qed
  then show ?thesis unfolding expired_from_def by blast
qed

lemma expired_from_trans:
  assumes "expired_from s t" and "expired_from t u"
  shows "expired_from s u"
  unfolding expired_from_def
proof
  fix i
  from assms(1) have a: "tbl_get i (dd_requests t) = tbl_get i (dd_requests s)
     \<or> (\<exists>r. tbl_get i (dd_requests s) = Some r \<and> es_status r = EsignPENDING
          \<and> tbl_get i (dd_requests t) = Some (r\<lparr>es_status := EsignEXPIRED\<rparr>))" unfolding expired_from_def by blast
  from assms(2) have b: "tbl_get i (dd_requests u) = tbl_get i (dd_requests t)
     \<or> (\<exists>r. tbl_get i (dd_requests t) = Some r \<and> es_status r = EsignPENDING
          \<and> tbl_get i (dd_requests u) = Some (r\<lparr>es_status := EsignEXPIRED\<rparr>))" unfolding expired_from_def by blast
  from a b show "tbl_get i (dd_requests u) = tbl_get i (dd_requests s)
     \<or> (\<exists>r. tbl_get i (dd_requests s) = Some r \<and> es_status r = EsignPENDING
          \<and> tbl_get i (dd_requests u) = Some (r\<lparr>es_status := EsignEXPIRED\<rparr>))"
    by (cases "tbl_get i (dd_requests s)"; cases "tbl_get i (dd_requests t)") auto
qed

lemma no_stale_rows:
  assumes "stale_requests now s = []" and "tbl_get i (dd_requests s) = Some r" and "es_status r = EsignPENDING"
  shows "now \<le> es_expiresAt r"
proof -
  have "(i, r) \<in> set (dd_requests s)" using assms(2) by (simp add: tbl_get_def map_of_SomeD)
  moreover have "tbl_all (\<lambda>i r. es_status r = EsignPENDING \<and> es_expiresAt r < now) (dd_requests s) = []"
    using assms(1) by (simp add: stale_requests_def)
  ultimately show ?thesis using assms(3) by (fastforce simp: tbl_all_def filter_empty_conv)
qed

text \<open>
  C18: The hourly job that expires signature requests always ends, whatever the clock does between its batches.
  It only moves pending requests to expired; all others stay as they are, and at the end no request is
  pending whose time was over when the last batch was read.
\<close>

theorem expiry_job_ends:
  assumes "distinct (tbl_ids (dd_requests s))"
  shows "\<exists>t n. expireStaleRequests clock k s = Some t \<and> expired_from s t
    \<and> (\<forall>i r. tbl_get i (dd_requests t) = Some r \<longrightarrow> es_status r = EsignPENDING \<longrightarrow> clock (k + n) \<le> es_expiresAt r)"
  using assms
proof (induction "pending_count s" arbitrary: s k rule: less_induct)
  case less
  show ?case
  proof (cases "stale_requests (clock k) s = []")
    case True
    have "expired_from s s" by (simp add: expired_from_def)
    moreover have "expireStaleRequests clock k s = Some s" using True by (subst expireStaleRequests.simps) simp
    moreover have "clock (k + 0) \<le> es_expiresAt r" if "tbl_get i (dd_requests s) = Some r" "es_status r = EsignPENDING" for i r
      using no_stale_rows[OF True that] by simp
    ultimately show ?thesis by blast
  next
    case False
    let ?u = "fold expire_request (stale_requests (clock k) s) s"
    from less.hyps[OF expire_batch_less[OF less.prems False], of "Suc k"] less.prems
    obtain t n where t: "expireStaleRequests clock (Suc k) ?u = Some t" "expired_from ?u t"
      "\<forall>i r. tbl_get i (dd_requests t) = Some r \<longrightarrow> es_status r = EsignPENDING \<longrightarrow> clock (Suc k + n) \<le> es_expiresAt r"
      by (auto simp: expire_fold_ids)
    have "expireStaleRequests clock k s = Some t" using False t(1) by (subst expireStaleRequests.simps) simp
    moreover have "expired_from s t" using expired_from_trans[OF expired_from_batch[OF less.prems] t(2)] .
    ultimately show ?thesis using t(3) by (intro exI[of _ t] exI[of _ "Suc n"]) simp
  qed
qed

definition old_request :: "instant \<Rightarrow> esign_row" where
  "old_request t =
     \<lparr>es_companyId = ''co'', es_documentId = ''d1'', es_requestedBy = ''u'', es_signerEmployeeId = ''e1'', es_status = EsignPENDING,
      es_base64Signature = None, es_documentSha256AtSign = None, es_declineReason = None, es_expiresAt = t, es_signedAt = None,
      es_declinedAt = None, es_createdAt = 0\<rparr>"

definition esign_office :: docs_db where
  "esign_office = docs_office\<lparr>dd_requests := [(''r1'', old_request 5), (''r2'', old_request 15)]\<rparr>"

theorem expiry_job_ends_witness:
  "\<exists>t n. expireStaleRequests (\<lambda>k. 10) 0 esign_office = Some t \<and> expired_from esign_office t
    \<and> (\<forall>i r. tbl_get i (dd_requests t) = Some r \<longrightarrow> es_status r = EsignPENDING \<longrightarrow> 10 \<le> es_expiresAt r)"
  using expiry_job_ends[of esign_office "\<lambda>k. 10" 0] by (simp add: esign_office_def tbl_ids_def)

end
