(* ===== verification/Policies.thy ===== *)
theory Policies
  imports Esign
begin

text \<open>
  Company policies and their acknowledgement, \<^verbatim>\<open>policy/policy.service.ts\<close>. The last theorem spans
  the services that take the identifier of a user for that of an employee.
\<close>

record policy_dto =
  py_title :: string
  py_content :: string
  py_category :: string

record policy_patch =
  pp_title :: "string option"
  pp_content :: "string option"
  pp_category :: "string option"

definition policy_getOrThrow :: "id \<Rightarrow> id \<Rightarrow> docs_db \<Rightarrow> app_error + policy_row" where
  "policy_getOrThrow i companyId s =
     (case tbl_get_where i (\<lambda>p. po_companyId p = companyId) (dd_policies s) of
        None \<Rightarrow> Inl (NotFoundError ''Policy not found'') | Some p \<Rightarrow> Inr p)"

definition createPolicy :: "id \<Rightarrow> instant \<Rightarrow> policy_dto \<Rightarrow> request_context \<Rightarrow> docs_db \<Rightarrow> (docs_db, id) outcome" where
  "createPolicy newId now dto user s =
     (if \<not> fresh newId (dd_policies s) then (Inl (DatabaseError ''policies_pkey''), s)
      else (Inr newId, docs_audit (Some user) (rc_companyId user) ''policy'' newId ''POLICY_CREATED''
              [(''policyId'', JStr newId), (''title'', JStr (py_title dto)), (''category'', JStr (py_category dto))]
              (s\<lparr>dd_policies := tbl_insert newId
                  \<lparr>po_companyId = rc_companyId user, po_title = py_title dto, po_content = py_content dto, po_category = py_category dto,
                   po_status = PolicyDRAFT, po_createdBy = rc_userId user, po_publishedBy = None, po_publishedAt = None,
                   po_version = 1, po_updatedAt = now\<rparr> (dd_policies s)\<rparr>)))"

text \<open>\<^verbatim>\<open>dto.title ? { title: dto.title } : {}\<close>: a missing or empty text keeps the old one.\<close>

definition truthy_or :: "string option \<Rightarrow> string \<Rightarrow> string" where
  "truthy_or x old = (case x of None \<Rightarrow> old | Some v \<Rightarrow> if v = [] then old else v)"

definition changed_fields :: "policy_patch \<Rightarrow> policy_row \<Rightarrow> string list" where
  "changed_fields dto p =
     (if truthy_or (pp_title dto) (po_title p) \<noteq> po_title p then [''title''] else [])
     @ (if truthy_or (pp_content dto) (po_content p) \<noteq> po_content p then [''content''] else [])
     @ (if truthy_or (pp_category dto) (po_category p) \<noteq> po_category p then [''category''] else [])"

definition updatePolicy :: "id \<Rightarrow> instant \<Rightarrow> policy_patch \<Rightarrow> request_context \<Rightarrow> docs_db \<Rightarrow> (docs_db, unit) outcome" where
  "updatePolicy i now dto user s =
     (case policy_getOrThrow i (rc_companyId user) s of
        Inl e \<Rightarrow> (Inl e, s)
      | Inr p \<Rightarrow>
          (if po_status p \<noteq> PolicyDRAFT then (Inl (BadRequestError ''Only draft policies can be updated''), s)
           else (Inr (), docs_audit (Some user) (rc_companyId user) ''policy'' i ''POLICY_UPDATED''
                   [(''policyId'', JStr i), (''changedFields'', JArr (map JStr (changed_fields dto p))),
                    (''newVersion'', JNum (num_of_int (po_version p + 1)))]
                   (s\<lparr>dd_policies := tbl_update i (\<lambda>q. q\<lparr>po_title := truthy_or (pp_title dto) (po_title q),
                        po_content := truthy_or (pp_content dto) (po_content q), po_category := truthy_or (pp_category dto) (po_category q),
                        po_version := po_version p + 1, po_updatedAt := now\<rparr>) (dd_policies s)\<rparr>))))"

definition publishPolicy :: "id \<Rightarrow> instant \<Rightarrow> request_context \<Rightarrow> docs_db \<Rightarrow> (docs_db, unit) outcome" where
  "publishPolicy i now user s =
     (case policy_getOrThrow i (rc_companyId user) s of
        Inl e \<Rightarrow> (Inl e, s)
      | Inr p \<Rightarrow>
          (if po_status p \<noteq> PolicyDRAFT then (Inl (BadRequestError ''Only draft policies can be published''), s)
           else (Inr (), emit_docs ''hr.policy.published'' i
                  (docs_audit (Some user) (rc_companyId user) ''policy'' i ''POLICY_PUBLISHED''
                     [(''policyId'', JStr i), (''version'', JNum (num_of_int (po_version p))), (''publishedBy'', JStr (rc_userId user))]
                     (s\<lparr>dd_policies := tbl_update i (\<lambda>q. q\<lparr>po_status := PolicyPUBLISHED, po_publishedBy := Some (rc_userId user),
                          po_publishedAt := Some now, po_updatedAt := now\<rparr>) (dd_policies s)\<rparr>)))))"

definition archivePolicy :: "id \<Rightarrow> instant \<Rightarrow> request_context \<Rightarrow> docs_db \<Rightarrow> (docs_db, unit) outcome" where
  "archivePolicy i now user s =
     (case policy_getOrThrow i (rc_companyId user) s of
        Inl e \<Rightarrow> (Inl e, s)
      | Inr p \<Rightarrow>
          (if po_status p \<noteq> PolicyPUBLISHED then (Inl (BadRequestError ''Only published policies can be archived''), s)
           else (Inr (), docs_audit (Some user) (rc_companyId user) ''policy'' i ''POLICY_ARCHIVED'' [(''policyId'', JStr i)]
                  (s\<lparr>dd_policies := tbl_update i (\<lambda>q. q\<lparr>po_status := PolicyARCHIVED, po_updatedAt := now\<rparr>) (dd_policies s)\<rparr>))))"

text \<open>\<^verbatim>\<open>employeeId\<close> of an acknowledgement refers to the table of employees.\<close>

definition find_acknowledgement :: "id \<Rightarrow> id \<Rightarrow> docs_db \<Rightarrow> (id \<times> acknowledgement_row) option" where
  "find_acknowledgement policyId employeeId s =
     tbl_find (\<lambda>i a. ak_policyId a = policyId \<and> ak_employeeId a = employeeId) (dd_acknowledgements s)"

definition acknowledgePolicy :: "id \<Rightarrow> instant \<Rightarrow> id \<Rightarrow> request_context \<Rightarrow> docs_db \<Rightarrow> (docs_db, id) outcome" where
  "acknowledgePolicy newId now policyId user s =
     (case policy_getOrThrow policyId (rc_companyId user) s of
        Inl e \<Rightarrow> (Inl e, s)
      | Inr p \<Rightarrow>
          (if po_status p \<noteq> PolicyPUBLISHED then (Inl (BadRequestError ''Only published policies can be acknowledged''), s)
           else (case find_acknowledgement policyId (rc_userId user) s of
               Some (i, a) \<Rightarrow> (Inr i, s)
             | None \<Rightarrow>
                 (if \<not> fresh newId (dd_acknowledgements s) \<or> tbl_get (rc_userId user) (dd_employees s) = None
                  then (Inl (DatabaseError ''policy_acknowledgements_employeeId_fkey''), s)
                  else (Inr newId, docs_audit (Some user) (rc_companyId user) ''policy_acknowledgement'' newId ''POLICY_ACKNOWLEDGED''
                          [(''policyId'', JStr policyId), (''employeeId'', JStr (rc_userId user))]
                          (s\<lparr>dd_acknowledgements := tbl_insert newId
                              \<lparr>ak_policyId = policyId, ak_employeeId = rc_userId user, ak_companyId = rc_companyId user,
                               ak_acknowledgedAt = now\<rparr> (dd_acknowledgements s)\<rparr>))))))"

definition listPolicies :: "id \<Rightarrow> policy_status option \<Rightarrow> bool \<Rightarrow> docs_db \<Rightarrow> (id \<times> policy_row) list" where
  "listPolicies companyId status isAdmin s =
     sort_key (\<lambda>(i, p). - po_updatedAt p)
       (tbl_all (\<lambda>i p. po_companyId p = companyId
          \<and> (case status of Some st \<Rightarrow> po_status p = st | None \<Rightarrow> isAdmin \<or> po_status p = PolicyPUBLISHED)) (dd_policies s))"

definition listAcknowledgements :: "id \<Rightarrow> id \<Rightarrow> docs_db \<Rightarrow> app_error + (id \<times> instant) list" where
  "listAcknowledgements policyId companyId s =
     (case policy_getOrThrow policyId companyId s of
        Inl e \<Rightarrow> Inl e
      | Inr p \<Rightarrow> Inr (map (\<lambda>(i, a). (ak_employeeId a, ak_acknowledgedAt a))
          (sort_key (\<lambda>(i, a). - ak_acknowledgedAt a)
            (tbl_all (\<lambda>i a. ak_policyId a = policyId \<and> ak_companyId a = companyId) (dd_acknowledgements s)))))"

definition getMandatoryAcknowledgementCount :: "id \<Rightarrow> id \<Rightarrow> docs_db \<Rightarrow> app_error + int \<times> int \<times> int" where
  "getMandatoryAcknowledgementCount policyId companyId s =
     (case policy_getOrThrow policyId companyId s of
        Inl e \<Rightarrow> Inl e
      | Inr p \<Rightarrow>
          (let acknowledged = int (tbl_count (\<lambda>i a. ak_policyId a = policyId \<and> ak_companyId a = companyId) (dd_acknowledgements s));
               total = int (tbl_count (\<lambda>i e. em_companyId e = companyId \<and> em_status e = EmpACTIVE) (dd_employees s))
           in Inr (acknowledged, total - acknowledged, total)))"

section \<open>Users are not employees\<close>

text \<open>The foreign keys of the tables: signers and those who acknowledged are employees.\<close>

definition employee_links :: "docs_db \<Rightarrow> bool" where
  "employee_links s \<longleftrightarrow>
     (\<forall>i r. tbl_get i (dd_requests s) = Some r \<longrightarrow> tbl_get (es_signerEmployeeId r) (dd_employees s) \<noteq> None)
     \<and> (\<forall>(i, a) \<in> set (dd_acknowledgements s). tbl_get (ak_employeeId a) (dd_employees s) \<noteq> None)"

text \<open>
  Signing, declining and acknowledging pass the identifier of the user where that of the employee is
  meant. As long as the user's identifier is not also that of an employee (both are random), no request can
  be signed or declined and no policy acknowledged by anybody: every attempt fails and changes nothing.
\<close>

lemma users_cannot_sign_or_acknowledge:
  assumes "employee_links s" and "tbl_get (rc_userId user) (dd_employees s) = None"
  shows "(\<exists>e. signDocument now i (rc_userId user) signature s = (Inl e, s))
    \<and> (\<exists>e. declineRequest now i (rc_userId user) reason s = (Inl e, s))
    \<and> (\<exists>e. acknowledgePolicy newId now p user s = (Inl e, s))"
proof -
  have "es_signerEmployeeId r \<noteq> rc_userId user" if "tbl_get i (dd_requests s) = Some r" for r
    using assms that unfolding employee_links_def by metis
  then have guard: "\<exists>e. answer_guard verb i (rc_userId user) s = Inl e" for verb
    by (auto simp: answer_guard_def split: option.splits)
  have "ak_employeeId a \<noteq> rc_userId user" if "(j, a) \<in> set (dd_acknowledgements s)" for j a
    using assms that unfolding employee_links_def by fastforce
  then have none: "find_acknowledgement p (rc_userId user) s = None"
    by (auto simp: find_acknowledgement_def tbl_find_None)
  have "\<exists>e. signDocument now i (rc_userId user) signature s = (Inl e, s)"
    using guard[of "''sign''"] by (auto simp: signDocument_def)
  moreover have "\<exists>e. declineRequest now i (rc_userId user) reason s = (Inl e, s)"
    using guard[of "''decline''"] by (auto simp: declineRequest_def)
  moreover have "\<exists>e. acknowledgePolicy newId now p user s = (Inl e, s)"
    using none assms(2) by (auto simp: acknowledgePolicy_def split: sum.splits)
  ultimately show ?thesis by blast
qed

end
