(* ===== verification/Offboarding.thy ===== *)
theory Offboarding
  imports Js_String Audit_Log Calendar
begin

text \<open>
  Leaving the company: \<^verbatim>\<open>offboarding/services\<close> with the controller's listing. An exit request is
  approved with a checklist made from a template and can be finalised once the checklist is done and the
  exit interview held; the lemmas show that the last never happens.
\<close>

section \<open>Tables\<close>

datatype exit_reason = RESIGNATION | TERMINATION | RETIREMENT | END_OF_CONTRACT

datatype exit_status = ExSUBMITTED | ExPENDING_MANAGER | ExAPPROVED | ExREJECTED | ExINTERVIEW | ExCHECKLIST | ExCOMPLETED | ExCANCELLED

datatype checklist_status = TaskPENDING | TaskIN_PROGRESS | TaskCOMPLETED | TaskSKIPPED

datatype checklist_category = CatIT | CatFINANCE | CatHR | CatFACILITIES | CatMANAGER

record exit_row =
  ex_companyId :: id
  ex_employeeId :: id
  ex_reasonType :: exit_reason
  ex_reasonNotes :: "string option"
  ex_requestedLastWorkingDay :: instant
  ex_approvedLastWorkingDay :: "instant option"
  ex_status :: exit_status
  ex_submittedById :: id
  ex_approvedById :: "id option"
  ex_approvedAt :: "instant option"
  ex_rejectionReason :: "string option"
  ex_createdAt :: instant

record checklist_row =
  ck_exitRequestId :: id
  ck_taskName :: string
  ck_category :: checklist_category
  ck_status :: checklist_status
  ck_completedById :: "id option"
  ck_completedAt :: "instant option"
  ck_notes :: "string option"
  ck_sortOrder :: int

text \<open>One interview per request; nothing in the program writes this table.\<close>

record interview_row =
  xi_exitRequestId :: id
  xi_isCompleted :: bool

record exit_db =
  xd_exits :: "exit_row table"
  xd_tasks :: "checklist_row table"
  xd_interviews :: "interview_row table"
  xd_events :: "(string \<times> id) list"
  xd_audit :: "audit_row list"

fun exit_transitions :: "exit_status \<Rightarrow> exit_status list" where
  "exit_transitions ExSUBMITTED = [ExPENDING_MANAGER, ExAPPROVED, ExCANCELLED]"
| "exit_transitions ExPENDING_MANAGER = [ExAPPROVED, ExREJECTED, ExCANCELLED]"
| "exit_transitions ExAPPROVED = [ExINTERVIEW, ExCHECKLIST, ExCANCELLED]"
| "exit_transitions ExINTERVIEW = [ExCHECKLIST]"
| "exit_transitions ExCHECKLIST = [ExCOMPLETED]"
| "exit_transitions ExREJECTED = []"
| "exit_transitions ExCANCELLED = []"
| "exit_transitions ExCOMPLETED = []"

text \<open>The template of a resignation also serves the reasons without one of their own.\<close>

fun checklist_template :: "exit_reason \<Rightarrow> (string \<times> checklist_category \<times> int) list" where
  "checklist_template TERMINATION =
     [(''Revoke System Access'', CatIT, 1), (''Collect Assets'', CatIT, 2), (''Final Payroll'', CatFINANCE, 3),
      (''Return Badge'', CatFACILITIES, 4)]"
| "checklist_template RETIREMENT =
     [(''Knowledge Transfer'', CatMANAGER, 1), (''Revoke System Access'', CatIT, 2), (''Final Payroll'', CatFINANCE, 3),
      (''Exit Documents'', CatHR, 4)]"
| "checklist_template reason =
     [(''Knowledge Transfer'', CatMANAGER, 1), (''Revoke System Access'', CatIT, 2), (''Collect Assets'', CatIT, 3),
      (''Final Payroll Processing'', CatFINANCE, 4), (''Benefits COBRA Notification'', CatFINANCE, 5),
      (''Exit Documents'', CatHR, 6), (''Return Badge'', CatFACILITIES, 7), (''Clear Locker'', CatFACILITIES, 8)]"

definition exit_log :: "id \<Rightarrow> string \<Rightarrow> id \<Rightarrow> string \<Rightarrow> (string \<times> json) list \<Rightarrow> exit_db \<Rightarrow> exit_db" where
  "exit_log company etype i act nv s = s\<lparr>xd_audit := logAsync (entry_of None company etype i act nv) (xd_audit s)\<rparr>"

definition emit_exit :: "string \<Rightarrow> id \<Rightarrow> exit_db \<Rightarrow> exit_db" where
  "emit_exit event i s = s\<lparr>xd_events := xd_events s @ [(event, i)]\<rparr>"

definition set_exit :: "id \<Rightarrow> (exit_row \<Rightarrow> exit_row) \<Rightarrow> exit_db \<Rightarrow> exit_db" where
  "set_exit i f s = s\<lparr>xd_exits := tbl_update i f (xd_exits s)\<rparr>"

section \<open>Exit requests\<close>

record exit_dto =
  et_companyId :: id
  et_employeeId :: id
  et_reasonType :: exit_reason
  et_reasonNotes :: "string option"
  et_requestedLastWorkingDay :: instant
  et_submittedById :: id

definition submitExit :: "id \<Rightarrow> instant \<Rightarrow> exit_dto \<Rightarrow> exit_db \<Rightarrow> (exit_db, id) outcome" where
  "submitExit newId now dto s =
     (if et_requestedLastWorkingDay dto < now then (Inl (BadRequestError ''Last working day must be in the future''), s)
      else if \<not> fresh newId (xd_exits s) then (Inl (DatabaseError ''exit_requests_pkey''), s)
      else (Inr newId, s\<lparr>xd_exits := tbl_insert newId
             \<lparr>ex_companyId = et_companyId dto, ex_employeeId = et_employeeId dto, ex_reasonType = et_reasonType dto,
              ex_reasonNotes = et_reasonNotes dto, ex_requestedLastWorkingDay = utc_midnight (et_requestedLastWorkingDay dto),
              ex_approvedLastWorkingDay = None, ex_status = (if et_reasonType dto = RESIGNATION then ExPENDING_MANAGER else ExSUBMITTED),
              ex_submittedById = et_submittedById dto, ex_approvedById = None, ex_approvedAt = None, ex_rejectionReason = None,
              ex_createdAt = now\<rparr> (xd_exits s)\<rparr>))"

text \<open>The lookup and \<^verbatim>\<open>assertTransition\<close>.\<close>

definition exit_for :: "exit_status \<Rightarrow> id \<Rightarrow> exit_db \<Rightarrow> app_error + exit_row" where
  "exit_for target i s =
     (case tbl_get i (xd_exits s) of
        None \<Rightarrow> Inl (NotFoundError ''Exit request not found'')
      | Some x \<Rightarrow> (if target \<in> set (exit_transitions (ex_status x)) then Inr x else Inl (BadRequestError ''Cannot transition'')))"

fun create_checklist :: "id \<Rightarrow> id list \<Rightarrow> (string \<times> checklist_category \<times> int) list \<Rightarrow> exit_db \<Rightarrow> (exit_db, unit) outcome" where
  "create_checklist exitId ids [] s = (Inr (), s)"
| "create_checklist exitId [] (t # ts) s = (Inl (DatabaseError ''offboarding_checklist_tasks_pkey''), s)"
| "create_checklist exitId (i # ids) ((name, category, order) # ts) s =
     (if \<not> fresh i (xd_tasks s) then (Inl (DatabaseError ''offboarding_checklist_tasks_pkey''), s)
      else create_checklist exitId ids ts (s\<lparr>xd_tasks := tbl_insert i
             \<lparr>ck_exitRequestId = exitId, ck_taskName = name, ck_category = category, ck_status = TaskPENDING, ck_completedById = None,
              ck_completedAt = None, ck_notes = None, ck_sortOrder = order\<rparr> (xd_tasks s)\<rparr>))"

definition approveExit :: "id list \<Rightarrow> instant \<Rightarrow> id \<Rightarrow> id \<Rightarrow> instant option \<Rightarrow> exit_db \<Rightarrow> (exit_db, unit) outcome" where
  "approveExit ids now i approverId lastDay s =
     (case exit_for ExAPPROVED i s of
        Inl e \<Rightarrow> (Inl e, s)
      | Inr x \<Rightarrow>
          (case transaction (\<lambda>s. create_checklist i ids (checklist_template (ex_reasonType x))
                  (set_exit i (\<lambda>x. x\<lparr>ex_status := ExAPPROVED, ex_approvedById := Some approverId, ex_approvedAt := Some now,
                     ex_approvedLastWorkingDay := Some (case lastDay of None \<Rightarrow> ex_requestedLastWorkingDay x | Some d \<Rightarrow> utc_midnight d)\<rparr>) s)) s of
             (Inl e, s1) \<Rightarrow> (Inl e, s1)
           | (Inr _, s1) \<Rightarrow>
               (Inr (), exit_log (ex_companyId x) ''ExitRequest'' i ''EXIT_REQUEST_APPROVED'' [(''approvedById'', JStr approverId)]
                 (emit_exit ''employee.exit_approved'' i s1))))"

definition rejectExit :: "id \<Rightarrow> string \<Rightarrow> exit_db \<Rightarrow> (exit_db, unit) outcome" where
  "rejectExit i reason s =
     (case exit_for ExREJECTED i s of
        Inl e \<Rightarrow> (Inl e, s)
      | Inr x \<Rightarrow> (Inr (), set_exit i (\<lambda>x. x\<lparr>ex_status := ExREJECTED, ex_rejectionReason := Some reason\<rparr>) s))"

definition cancelExit :: "id \<Rightarrow> exit_db \<Rightarrow> (exit_db, unit) outcome" where
  "cancelExit i s =
     (case exit_for ExCANCELLED i s of
        Inl e \<Rightarrow> (Inl e, s) | Inr x \<Rightarrow> (Inr (), set_exit i (\<lambda>x. x\<lparr>ex_status := ExCANCELLED\<rparr>) s))"

definition tasks_of_exit :: "id \<Rightarrow> exit_db \<Rightarrow> (id \<times> checklist_row) list" where
  "tasks_of_exit i s = tbl_all (\<lambda>j t. ck_exitRequestId t = i) (xd_tasks s)"

definition interview_of :: "id \<Rightarrow> exit_db \<Rightarrow> (id \<times> interview_row) option" where
  "interview_of i s = tbl_find (\<lambda>j v. xi_exitRequestId v = i) (xd_interviews s)"

text \<open>\<^verbatim>\<open>exit.interview?.isCompleted ?? false\<close>; the status of the request is only compared with \<open>ExCOMPLETED\<close>.\<close>

definition finalizeExit :: "id \<Rightarrow> exit_db \<Rightarrow> (exit_db, unit) outcome" where
  "finalizeExit i s =
     (case tbl_get i (xd_exits s) of
        None \<Rightarrow> (Inl (NotFoundError ''Exit request not found''), s)
      | Some x \<Rightarrow>
          (if ex_status x = ExCOMPLETED then (Inr (), s)
           else if (\<forall>t \<in> set (tasks_of_exit i s). ck_status (snd t) \<in> {TaskCOMPLETED, TaskSKIPPED})
                \<and> (case interview_of i s of None \<Rightarrow> False | Some (j, v) \<Rightarrow> xi_isCompleted v)
           then (Inr (), exit_log (ex_companyId x) ''ExitRequest'' i ''EMPLOYEE_TERMINATED'' [(''employeeId'', JStr (ex_employeeId x))]
                   (emit_exit ''employee.terminated'' i (set_exit i (\<lambda>x. x\<lparr>ex_status := ExCOMPLETED\<rparr>) s)))
           else (Inl (BadRequestError ''All checklist tasks must be done and interview completed''), s)))"

definition getExit :: "id \<Rightarrow> exit_db \<Rightarrow> app_error + exit_row \<times> (id \<times> checklist_row) list \<times> (id \<times> interview_row) option" where
  "getExit i s =
     (case tbl_get i (xd_exits s) of
        None \<Rightarrow> Inl (NotFoundError ''Exit request not found'') | Some x \<Rightarrow> Inr (x, tasks_of_exit i s, interview_of i s))"

text \<open>\<^verbatim>\<open>where: { companyId }\<close> with an undefined company filters nothing.\<close>

definition listExits :: "id option \<Rightarrow> exit_db \<Rightarrow> (id \<times> exit_row) list" where
  "listExits companyId s =
     sort_key (\<lambda>(i, x). - ex_createdAt x)
       (tbl_all (\<lambda>i x. case companyId of None \<Rightarrow> True | Some c \<Rightarrow> ex_companyId x = c) (xd_exits s))"

text \<open>The route has no parameter of that name, so the controller passes \<^verbatim>\<open>undefined\<close>.\<close>

definition exit_requests_route :: "request_context \<Rightarrow> exit_db \<Rightarrow> (id \<times> exit_row) list" where
  "exit_requests_route user = listExits None"

section \<open>The checklist\<close>

definition maybeTransitionExitStatus :: "id \<Rightarrow> exit_db \<Rightarrow> exit_db" where
  "maybeTransitionExitStatus exitId s =
     (case tbl_get exitId (xd_exits s) of
        None \<Rightarrow> s
      | Some x \<Rightarrow>
          (if ex_status x \<in> {ExAPPROVED, ExINTERVIEW} \<and> (\<exists>t \<in> set (tasks_of_exit exitId s). ck_status (snd t) \<noteq> TaskPENDING)
           then set_exit exitId (\<lambda>x. x\<lparr>ex_status := ExCHECKLIST\<rparr>) s else s))"

definition set_task :: "id \<Rightarrow> (checklist_row \<Rightarrow> checklist_row) \<Rightarrow> exit_db \<Rightarrow> exit_db" where
  "set_task i f s = s\<lparr>xd_tasks := tbl_update i f (xd_tasks s)\<rparr>"

definition completeChecklistTask :: "id \<Rightarrow> id \<Rightarrow> string option \<Rightarrow> instant \<Rightarrow> exit_db \<Rightarrow> (exit_db, unit) outcome" where
  "completeChecklistTask i completedById notes now s =
     (case tbl_get i (xd_tasks s) of
        None \<Rightarrow> (Inl (NotFoundError ''Checklist task not found''), s)
      | Some t \<Rightarrow>
          (if ck_status t = TaskCOMPLETED then (Inl (BadRequestError ''Task already completed''), s)
           else (Inr (), maybeTransitionExitStatus (ck_exitRequestId t)
                  (exit_log [] ''OffboardingChecklistTask'' i ''CHECKLIST_TASK_COMPLETED'' [(''completedById'', JStr completedById)]
                    (set_task i (\<lambda>t. t\<lparr>ck_status := TaskCOMPLETED, ck_completedById := Some completedById, ck_completedAt := Some now,
                       ck_notes := (if notes = None then ck_notes t else notes)\<rparr>) s)))))"

definition skipChecklistTask :: "id \<Rightarrow> id \<Rightarrow> string option \<Rightarrow> instant \<Rightarrow> exit_db \<Rightarrow> (exit_db, unit) outcome" where
  "skipChecklistTask i skippedById reason now s =
     (if (case reason of None \<Rightarrow> True | Some r \<Rightarrow> trim r = []) then (Inl (BadRequestError ''Skip reason is required''), s)
      else (case tbl_get i (xd_tasks s) of
        None \<Rightarrow> (Inl (NotFoundError ''Checklist task not found''), s)
      | Some t \<Rightarrow>
          (Inr (), maybeTransitionExitStatus (ck_exitRequestId t)
             (exit_log [] ''OffboardingChecklistTask'' i ''CHECKLIST_TASK_COMPLETED''
                [(''completedById'', JStr skippedById), (''skipped'', JBool True)]
                (set_task i (\<lambda>t. t\<lparr>ck_status := TaskSKIPPED, ck_completedById := Some skippedById, ck_completedAt := Some now,
                   ck_notes := reason\<rparr>) s)))))"

definition getChecklist :: "id \<Rightarrow> exit_db \<Rightarrow> (id \<times> checklist_row) list" where
  "getChecklist exitId s = sort_key (\<lambda>(i, t). ck_sortOrder t) (tasks_of_exit exitId s)"

section \<open>Runs\<close>

datatype exit_call =
    SubmitExit id instant exit_dto
  | ApproveExit "id list" instant id id "instant option"
  | RejectExit id string
  | CancelExit id
  | FinalizeExit id
  | CompleteChecklistTask id id "string option" instant
  | SkipChecklistTask id id "string option" instant

fun exit_step :: "exit_call \<Rightarrow> exit_db \<Rightarrow> exit_db" where
  "exit_step (SubmitExit n now dto) s = snd (submitExit n now dto s)"
| "exit_step (ApproveExit ids now i u d) s = snd (approveExit ids now i u d s)"
| "exit_step (RejectExit i reason) s = snd (rejectExit i reason s)"
| "exit_step (CancelExit i) s = snd (cancelExit i s)"
| "exit_step (FinalizeExit i) s = snd (finalizeExit i s)"
| "exit_step (CompleteChecklistTask i u notes now) s = snd (completeChecklistTask i u notes now s)"
| "exit_step (SkipChecklistTask i u reason now) s = snd (skipChecklistTask i u reason now s)"

definition no_exit_done :: "exit_db \<Rightarrow> bool" where
  "no_exit_done s \<longleftrightarrow> xd_interviews s = [] \<and> (\<forall>i x. tbl_get i (xd_exits s) = Some x \<longrightarrow> ex_status x \<noteq> ExCOMPLETED)
     \<and> ''employee.terminated'' \<notin> fst ` set (xd_events s)"

lemma exit_frames [simp]:
  "xd_exits (exit_log c e i a v s) = xd_exits s" "xd_interviews (exit_log c e i a v s) = xd_interviews s"
  "xd_events (exit_log c e i a v s) = xd_events s"
  "xd_exits (emit_exit ev i s) = xd_exits s" "xd_interviews (emit_exit ev i s) = xd_interviews s"
  "xd_events (emit_exit ev i s) = xd_events s @ [(ev, i)]"
  "xd_exits (set_task i g s) = xd_exits s" "xd_interviews (set_task i g s) = xd_interviews s" "xd_events (set_task i g s) = xd_events s"
  "xd_exits (set_exit i f s) = tbl_update i f (xd_exits s)" "xd_interviews (set_exit i f s) = xd_interviews s"
  "xd_events (set_exit i f s) = xd_events s"
  by (simp_all add: exit_log_def emit_exit_def set_task_def set_exit_def)

lemma create_checklist_frame:
  "create_checklist e ids ts s = (r, t) \<Longrightarrow> xd_exits t = xd_exits s \<and> xd_interviews t = xd_interviews s \<and> xd_events t = xd_events s"
  by (induction e ids ts s rule: create_checklist.induct) (auto split: if_splits)

lemma no_exit_done_set:
  "no_exit_done s \<Longrightarrow> (\<And>x. ex_status (f x) \<noteq> ExCOMPLETED) \<Longrightarrow> xd_exits t = tbl_update i f (xd_exits s)
     \<Longrightarrow> xd_interviews t = xd_interviews s \<Longrightarrow> ''employee.terminated'' \<notin> fst ` set (xd_events t) \<Longrightarrow> no_exit_done t"
  by (auto simp: no_exit_done_def split: if_splits)

lemma no_exit_done_same:
  "no_exit_done s \<Longrightarrow> xd_exits t = xd_exits s \<Longrightarrow> xd_interviews t = xd_interviews s \<Longrightarrow> xd_events t = xd_events s \<Longrightarrow> no_exit_done t"
  by (simp add: no_exit_done_def)

lemma no_exit_done_maybe: "no_exit_done s \<Longrightarrow> no_exit_done (maybeTransitionExitStatus i s)"
  by (auto simp: maybeTransitionExitStatus_def no_exit_done_def split: option.splits if_splits)

lemma no_exit_done_approve:
  assumes "no_exit_done s"
  shows "no_exit_done (snd (approveExit ids now i u d s))"
proof (cases "exit_for ExAPPROVED i s")
  case (Inr x)
  let ?f = "\<lambda>x. x\<lparr>ex_status := ExAPPROVED, ex_approvedById := Some u, ex_approvedAt := Some now,
                     ex_approvedLastWorkingDay := Some (case d of None \<Rightarrow> ex_requestedLastWorkingDay x | Some d \<Rightarrow> utc_midnight d)\<rparr>"
  obtain r t where t: "create_checklist i ids (checklist_template (ex_reasonType x)) (set_exit i ?f s) = (r, t)"
    by (cases "create_checklist i ids (checklist_template (ex_reasonType x)) (set_exit i ?f s)")
  note f = create_checklist_frame[OF t]
  show ?thesis
  proof (cases r)
    case (Inl e)
    then show ?thesis using assms Inr t by (simp add: approveExit_def transaction_def)
  next
    case r: (Inr y)
    have "no_exit_done (snd (approveExit ids now i u d s))"
      by (rule no_exit_done_set[OF assms, of ?f _ i]) (use Inr t r f assms in \<open>auto simp: approveExit_def transaction_def no_exit_done_def\<close>)
    then show ?thesis .
  qed
qed (use assms in \<open>simp add: approveExit_def\<close>)

lemma no_exit_done_step: "no_exit_done s \<Longrightarrow> no_exit_done (exit_step c s)"
proof (cases c)
  case (ApproveExit ids now i u d)
  then show "no_exit_done s \<Longrightarrow> ?thesis" by (simp add: no_exit_done_approve)
next
  case (SubmitExit n now dto)
  then show "no_exit_done s \<Longrightarrow> ?thesis"
    by (auto simp: submitExit_def no_exit_done_def tbl_get_insert split: option.splits if_splits)
next
  case (FinalizeExit i)
  then show "no_exit_done s \<Longrightarrow> ?thesis"
    by (auto simp: finalizeExit_def no_exit_done_def interview_of_def tbl_find_def split: option.splits)
next
  case (CompleteChecklistTask i u n1 now)
  then show "no_exit_done s \<Longrightarrow> ?thesis"
    by (auto simp: completeChecklistTask_def split: option.splits intro!: no_exit_done_maybe elim!: no_exit_done_same)
next
  case (SkipChecklistTask i u reason now)
  then show "no_exit_done s \<Longrightarrow> ?thesis"
    by (auto simp: skipChecklistTask_def split: option.splits intro!: no_exit_done_maybe elim!: no_exit_done_same)
qed (auto simp: rejectExit_def cancelExit_def no_exit_done_def split: sum.splits if_splits)

text \<open>
  C29: Nobody ever leaves: since the program never creates an exit interview, after any sequence of calls that
  starts without interviews no exit request is completed, no employee's termination is announced, and
  finalising fails for every request.
\<close>

theorem no_exit_completes:
  assumes "xd_exits s = []" and "xd_interviews s = []" and "xd_events s = []" and "t = fold exit_step calls s"
  shows "(\<forall>i x. tbl_get i (xd_exits t) = Some x \<longrightarrow> ex_status x \<noteq> ExCOMPLETED)
    \<and> ''employee.terminated'' \<notin> fst ` set (xd_events t) \<and> (\<forall>i. \<exists>e. finalizeExit i t = (Inl e, t))"
proof -
  have "no_exit_done s" using assms by (simp add: no_exit_done_def tbl_get_def)
  then have "no_exit_done t" unfolding assms(4)
    by (induction calls arbitrary: s) (simp_all add: no_exit_done_step)
  then show ?thesis
    by (auto simp: no_exit_done_def finalizeExit_def interview_of_def tbl_find_def split: option.splits)
qed

definition exit_story :: "exit_call list" where
  "exit_story =
     [SubmitExit ''x1'' 0 \<lparr>et_companyId = ''co'', et_employeeId = ''e1'', et_reasonType = TERMINATION, et_reasonNotes = None,
        et_requestedLastWorkingDay = 9, et_submittedById = ''u''\<rparr>,
      ApproveExit [''t1'', ''t2'', ''t3'', ''t4''] 1 ''x1'' ''u'' None,
      CompleteChecklistTask ''t1'' ''u'' None 2, CompleteChecklistTask ''t2'' ''u'' None 2, CompleteChecklistTask ''t3'' ''u'' None 2,
      CompleteChecklistTask ''t4'' ''u'' None 2]"

definition exit_office :: exit_db where
  "exit_office = \<lparr>xd_exits = [], xd_tasks = [], xd_interviews = [], xd_events = [], xd_audit = []\<rparr>"

theorem no_exit_completes_witness:
  "map_option ex_status (tbl_get ''x1'' (xd_exits (fold exit_step exit_story exit_office))) = Some ExCHECKLIST
    \<and> (\<exists>e. finalizeExit ''x1'' (fold exit_step exit_story exit_office) = (Inl e, fold exit_step exit_story exit_office))"
proof -
  have "map_option ex_status (tbl_get ''x1'' (xd_exits (fold exit_step exit_story exit_office))) = Some ExCHECKLIST" by code_simp
  then show ?thesis using no_exit_completes[OF _ _ _ refl, of exit_office exit_story] by (simp add: exit_office_def)
qed

end
