(* ===== verification/Onboarding.thy ===== *)
theory Onboarding
  imports Js_String Audit_Log Calendar
begin

text \<open>
  Taking up a job: \<^verbatim>\<open>onboarding/services\<close> and the reminder worker. Templates have tasks with an
  offset in days; assigning an active template to an employee makes an instance of each task, and
  the onboarding is complete when its last open task is completed.
\<close>

section \<open>Tables\<close>

datatype template_status = TemplateDRAFT | TemplateACTIVE | TemplateARCHIVED

datatype task_category = PAPERWORK | IT_SETUP | TRAINING | COMPLIANCE | TEAM_INTRO | OTHER

datatype assignee_role = RoleEMPLOYEE | RoleMANAGER | RoleHR | RoleIT

datatype onboarding_status = OnbIN_PROGRESS | OnbCOMPLETED | OnbCANCELLED

datatype instance_status = InstPENDING | InstIN_PROGRESS | InstCOMPLETED | InstSKIPPED

record template_row =
  ot_name :: string
  ot_role :: "string option"
  ot_description :: "string option"
  ot_status :: template_status
  ot_createdBy :: id
  ot_createdAt :: instant

record template_task_row =
  tk_templateId :: id
  tk_title :: string
  tk_description :: "string option"
  tk_category :: task_category
  tk_dueDayOffset :: int
  tk_assigneeRole :: assignee_role
  tk_sortOrder :: int

record onboarding_row =
  ob_employeeId :: id
  ob_templateId :: id
  ob_hireDate :: instant
  ob_status :: onboarding_status
  ob_assignedBy :: id
  ob_completedAt :: "instant option"
  ob_createdAt :: instant

record instance_row =
  oi_onboardingId :: id
  oi_templateTaskId :: id
  oi_title :: string
  oi_description :: "string option"
  oi_category :: task_category
  oi_assigneeRole :: assignee_role
  oi_dueDate :: instant
  oi_status :: instance_status
  oi_completedBy :: "id option"
  oi_completedAt :: "instant option"

record onboarding_db =
  od_templates :: "template_row table"
  od_tasks :: "template_task_row table"
  od_onboardings :: "onboarding_row table"
  od_instances :: "instance_row table"
  od_events :: "(string \<times> id) list"
  od_audit :: "audit_row list"

section \<open>Templates\<close>

record template_dto =
  te_name :: string
  te_role :: "string option"
  te_description :: "string option"
  te_createdBy :: id

record template_patch =
  tp_name :: "string option"
  tp_role :: "string option"
  tp_description :: "string option"

record task_dto =
  ta_title :: string
  ta_description :: "string option"
  ta_category :: task_category
  ta_dueDayOffset :: int
  ta_assigneeRole :: assignee_role

definition createTemplate :: "id \<Rightarrow> instant \<Rightarrow> template_dto \<Rightarrow> onboarding_db \<Rightarrow> (onboarding_db, id) outcome" where
  "createTemplate newId now dto s =
     (if \<not> fresh newId (od_templates s) then (Inl (DatabaseError ''onboarding_templates_pkey''), s)
      else (Inr newId, s\<lparr>od_templates := tbl_insert newId
             \<lparr>ot_name = te_name dto, ot_role = te_role dto, ot_description = te_description dto, ot_status = TemplateDRAFT,
              ot_createdBy = te_createdBy dto, ot_createdAt = now\<rparr> (od_templates s)\<rparr>))"

text \<open>The lookup of a template that may still be edited.\<close>

definition editable_template :: "id \<Rightarrow> onboarding_db \<Rightarrow> app_error + template_row" where
  "editable_template i s =
     (case tbl_get i (od_templates s) of
        None \<Rightarrow> Inl (NotFoundError ''Template not found'')
      | Some t \<Rightarrow> (if ot_status t = TemplateARCHIVED then Inl (BadRequestError ''Cannot edit archived template'') else Inr t))"

definition updateTemplate :: "id \<Rightarrow> template_patch \<Rightarrow> onboarding_db \<Rightarrow> (onboarding_db, unit) outcome" where
  "updateTemplate i dto s =
     (case editable_template i s of
        Inl e \<Rightarrow> (Inl e, s)
      | Inr t \<Rightarrow> (Inr (), s\<lparr>od_templates := tbl_update i (\<lambda>t. t\<lparr>
             ot_name := (case tp_name dto of None \<Rightarrow> ot_name t | Some n \<Rightarrow> n),
             ot_role := (if tp_role dto = None then ot_role t else tp_role dto),
             ot_description := (if tp_description dto = None then ot_description t else tp_description dto)\<rparr>) (od_templates s)\<rparr>))"

definition archiveTemplate :: "id \<Rightarrow> onboarding_db \<Rightarrow> (onboarding_db, unit) outcome" where
  "archiveTemplate i s =
     (if fresh i (od_templates s) then (Inl (DatabaseError ''Record to update not found.''), s)
      else (Inr (), s\<lparr>od_templates := tbl_update i (\<lambda>t. t\<lparr>ot_status := TemplateARCHIVED\<rparr>) (od_templates s)\<rparr>))"

definition addTask :: "id \<Rightarrow> id \<Rightarrow> task_dto \<Rightarrow> onboarding_db \<Rightarrow> (onboarding_db, id) outcome" where
  "addTask newId templateId dto s =
     (case editable_template templateId s of
        Inl e \<Rightarrow> (Inl e, s)
      | Inr t \<Rightarrow>
          (if ta_dueDayOffset dto < 0 then (Inl (BadRequestError ''dueDayOffset must be >= 0''), s)
           else if \<not> fresh newId (od_tasks s) then (Inl (DatabaseError ''onboarding_template_tasks_pkey''), s)
           else (Inr newId, s\<lparr>od_tasks := tbl_insert newId
                  \<lparr>tk_templateId = templateId, tk_title = ta_title dto, tk_description = ta_description dto,
                   tk_category = ta_category dto, tk_dueDayOffset = ta_dueDayOffset dto, tk_assigneeRole = ta_assigneeRole dto,
                   tk_sortOrder = 0\<rparr> (od_tasks s)\<rparr>)))"

definition removeTask :: "id \<Rightarrow> onboarding_db \<Rightarrow> (onboarding_db, unit) outcome" where
  "removeTask i s =
     (if fresh i (od_tasks s) then (Inl (DatabaseError ''Record to delete does not exist.''), s)
      else (Inr (), s\<lparr>od_tasks := tbl_delete_many (\<lambda>j r. j = i) (od_tasks s)\<rparr>))"

text \<open>One update after the other, without a transaction; the tasks may belong to any template.\<close>

fun reorder_from :: "int \<Rightarrow> id list \<Rightarrow> onboarding_db \<Rightarrow> (onboarding_db, unit) outcome" where
  "reorder_from n [] s = (Inr (), s)"
| "reorder_from n (i # is) s =
     (if fresh i (od_tasks s) then (Inl (DatabaseError ''Record to update not found.''), s)
      else reorder_from (n + 1) is (s\<lparr>od_tasks := tbl_update i (\<lambda>t. t\<lparr>tk_sortOrder := n\<rparr>) (od_tasks s)\<rparr>))"

definition reorderTasks :: "id \<Rightarrow> id list \<Rightarrow> onboarding_db \<Rightarrow> (onboarding_db, unit) outcome" where
  "reorderTasks templateId orderedTaskIds s = reorder_from 0 orderedTaskIds s"

definition tasks_of_template :: "id \<Rightarrow> onboarding_db \<Rightarrow> (id \<times> template_task_row) list" where
  "tasks_of_template i s = tbl_all (\<lambda>j t. tk_templateId t = i) (od_tasks s)"

definition findTemplate :: "id \<Rightarrow> onboarding_db \<Rightarrow> app_error + template_row \<times> (id \<times> template_task_row) list" where
  "findTemplate i s =
     (case tbl_get i (od_templates s) of
        None \<Rightarrow> Inl (NotFoundError ''Template not found'')
      | Some t \<Rightarrow> Inr (t, sort_key (\<lambda>(j, k). tk_sortOrder k) (tasks_of_template i s)))"

definition findAllTemplates :: "onboarding_db \<Rightarrow> (id \<times> template_row) list" where
  "findAllTemplates s = sort_key (\<lambda>(i, t). - ot_createdAt t) (od_templates s)"

section \<open>Assignments\<close>

text \<open>Both dates are columns of days.\<close>

definition instance_of :: "id \<Rightarrow> instant \<Rightarrow> id \<times> template_task_row \<Rightarrow> instance_row" where
  "instance_of onboardingId hireDate = (\<lambda>(i, t).
     \<lparr>oi_onboardingId = onboardingId, oi_templateTaskId = i, oi_title = tk_title t, oi_description = tk_description t,
      oi_category = tk_category t, oi_assigneeRole = tk_assigneeRole t,
      oi_dueDate = utc_midnight (hireDate + tk_dueDayOffset t * 86400000), oi_status = InstPENDING,
      oi_completedBy = None, oi_completedAt = None\<rparr>)"

definition assigned_already :: "id \<Rightarrow> id \<Rightarrow> instant \<Rightarrow> onboarding_db \<Rightarrow> bool" where
  "assigned_already employeeId templateId hireDate s \<longleftrightarrow>
     tbl_find (\<lambda>i o'. ob_employeeId o' = employeeId \<and> ob_templateId o' = templateId \<and> ob_hireDate o' = utc_midnight hireDate)
       (od_onboardings s) \<noteq> None"

definition emit_onboarding :: "string \<Rightarrow> id \<Rightarrow> onboarding_db \<Rightarrow> onboarding_db" where
  "emit_onboarding event i s = s\<lparr>od_events := od_events s @ [(event, i)]\<rparr>"

definition assignTemplateToEmployee ::
    "id \<Rightarrow> id list \<Rightarrow> instant \<Rightarrow> id \<Rightarrow> id \<Rightarrow> instant \<Rightarrow> id \<Rightarrow> onboarding_db \<Rightarrow> (onboarding_db, id) outcome" where
  "assignTemplateToEmployee newId ids now employeeId templateId hireDate assignedBy s =
     (case tbl_get templateId (od_templates s) of
        None \<Rightarrow> (Inl (NotFoundError ''Template not found''), s)
      | Some t \<Rightarrow>
          (if ot_status t \<noteq> TemplateACTIVE then (Inl (BadRequestError ''Template must be active''), s)
           else if assigned_already employeeId templateId hireDate s
           then (Inl (ConflictError ''Employee already assigned this template for this hire date''), s)
           else if \<not> fresh newId (od_onboardings s) then (Inl (DatabaseError ''employee_onboardings_pkey''), s)
           else (case insert_all ids (map (instance_of newId hireDate) (tasks_of_template templateId s)) (od_instances s) of
                   None \<Rightarrow> (Inl (DatabaseError ''onboarding_task_instances_pkey''), s)
                 | Some is \<Rightarrow>
                     (Inr newId, emit_onboarding ''onboarding.assigned'' employeeId
                        (s\<lparr>od_onboardings := tbl_insert newId
                             \<lparr>ob_employeeId = employeeId, ob_templateId = templateId, ob_hireDate = utc_midnight hireDate,
                              ob_status = OnbIN_PROGRESS, ob_assignedBy = assignedBy, ob_completedAt = None, ob_createdAt = now\<rparr>
                             (od_onboardings s),
                           od_instances := is,
                           od_audit := logAsync (entry_of None [] ''employee_onboarding'' newId ''ONBOARDING_ASSIGNED''
                             [(''employeeId'', JStr employeeId), (''templateId'', JStr templateId),
                              (''taskCount'', JNum (num_of_int (int (length (tasks_of_template templateId s)))))]) (od_audit s)\<rparr>)))))"

definition is_open :: "instance_row \<Rightarrow> bool" where
  "is_open t \<longleftrightarrow> oi_status t = InstPENDING \<or> oi_status t = InstIN_PROGRESS"

text \<open>The transaction of \<open>completeTask\<close>: the task, and the onboarding when no open task is left.\<close>

definition complete_tx :: "id \<Rightarrow> id \<Rightarrow> instant \<Rightarrow> id \<Rightarrow> onboarding_db \<Rightarrow> (onboarding_db, unit) outcome" where
  "complete_tx taskId completedBy now onboardingId s =
     (let is = tbl_update taskId (\<lambda>t. t\<lparr>oi_status := InstCOMPLETED, oi_completedBy := Some completedBy, oi_completedAt := Some now\<rparr>)
                 (od_instances s)
      in if tbl_count (\<lambda>i t. oi_onboardingId t = onboardingId \<and> is_open t) is \<noteq> 0 then (Inr (), s\<lparr>od_instances := is\<rparr>)
         else if fresh onboardingId (od_onboardings s) then (Inl (DatabaseError ''Record to update not found.''), s)
         else (Inr (), emit_onboarding ''onboarding.completed'' onboardingId
                 (s\<lparr>od_instances := is,
                    od_onboardings := tbl_update onboardingId (\<lambda>x. x\<lparr>ob_status := OnbCOMPLETED, ob_completedAt := Some now\<rparr>)
                      (od_onboardings s)\<rparr>)))"

definition completeOnboardingTask :: "id \<Rightarrow> id \<Rightarrow> instant \<Rightarrow> onboarding_db \<Rightarrow> (onboarding_db, unit) outcome" where
  "completeOnboardingTask taskId completedBy now s =
     (case tbl_get taskId (od_instances s) of
        None \<Rightarrow> (Inl (NotFoundError ''Task not found''), s)
      | Some t \<Rightarrow>
          (if \<not> is_open t then (Inl (BadRequestError ''Task already completed or skipped''), s)
           else transaction (complete_tx taskId completedBy now (oi_onboardingId t)) s))"

definition cancelOnboarding :: "id \<Rightarrow> onboarding_db \<Rightarrow> (onboarding_db, unit) outcome" where
  "cancelOnboarding i s =
     (case tbl_get i (od_onboardings s) of
        None \<Rightarrow> (Inl (NotFoundError ''Onboarding not found''), s)
      | Some x \<Rightarrow>
          (Inr (), s\<lparr>od_onboardings := tbl_update i (\<lambda>x. x\<lparr>ob_status := OnbCANCELLED\<rparr>) (od_onboardings s),
                     od_instances := tbl_update_many (\<lambda>j t. oi_onboardingId t = i \<and> is_open t) (\<lambda>t. t\<lparr>oi_status := InstSKIPPED\<rparr>)
                       (od_instances s)\<rparr>))"

definition instances_of :: "id \<Rightarrow> onboarding_db \<Rightarrow> (id \<times> instance_row) list" where
  "instances_of i s = tbl_all (\<lambda>j t. oi_onboardingId t = i) (od_instances s)"

definition onboardings_of :: "id \<Rightarrow> onboarding_db \<Rightarrow> ((id \<times> onboarding_row) \<times> (id \<times> instance_row) list) list" where
  "onboardings_of employeeId s =
     map (\<lambda>(i, x). ((i, x), instances_of i s))
       (sort_key (\<lambda>(i, x). - ob_createdAt x) (tbl_all (\<lambda>i x. ob_employeeId x = employeeId) (od_onboardings s)))"

text \<open>The reminder worker only counts; \<open>off\<close> is the offset of the server's zone.\<close>

definition overdue_tasks :: "int \<Rightarrow> instant \<Rightarrow> onboarding_db \<Rightarrow> (id \<times> instance_row) list" where
  "overdue_tasks off now s =
     (let today = utc_midnight (now + off) - off in tbl_all (\<lambda>i t. oi_dueDate t \<le> today \<and> is_open t) (od_instances s))"

section \<open>An onboarding is complete when its tasks are\<close>

datatype onboarding_call =
    AssignTemplate id "id list" instant id id instant id
  | CompleteOnboardingTask id id instant
  | CancelOnboarding id
  | CreateTemplate id instant template_dto
  | UpdateTemplate id template_patch
  | ArchiveTemplate id
  | AddTask id id task_dto
  | RemoveTask id
  | ReorderTasks id "id list"

fun onboarding_step :: "onboarding_call \<Rightarrow> onboarding_db \<Rightarrow> onboarding_db" where
  "onboarding_step (AssignTemplate n ids now e t h u) s = snd (assignTemplateToEmployee n ids now e t h u s)"
| "onboarding_step (CompleteOnboardingTask i u now) s = snd (completeOnboardingTask i u now s)"
| "onboarding_step (CancelOnboarding i) s = snd (cancelOnboarding i s)"
| "onboarding_step (CreateTemplate n now dto) s = snd (createTemplate n now dto s)"
| "onboarding_step (UpdateTemplate i dto) s = snd (updateTemplate i dto s)"
| "onboarding_step (ArchiveTemplate i) s = snd (archiveTemplate i s)"
| "onboarding_step (AddTask n i dto) s = snd (addTask n i dto s)"
| "onboarding_step (RemoveTask i) s = snd (removeTask i s)"
| "onboarding_step (ReorderTasks i is) s = snd (reorderTasks i is s)"

definition open_tasks :: "id \<Rightarrow> onboarding_db \<Rightarrow> (id \<times> instance_row) list" where
  "open_tasks i s = filter (\<lambda>(j, t). is_open t) (instances_of i s)"

definition progress_ok :: "onboarding_db \<Rightarrow> id \<Rightarrow> onboarding_status \<Rightarrow> bool" where
  "progress_ok s i st \<longleftrightarrow>
     (case st of
        OnbIN_PROGRESS \<Rightarrow> instances_of i s = [] \<or> open_tasks i s \<noteq> []
      | OnbCOMPLETED \<Rightarrow> instances_of i s \<noteq> [] \<and> open_tasks i s = []
      | OnbCANCELLED \<Rightarrow> open_tasks i s = [])"

definition onboarding_inv :: "onboarding_db \<Rightarrow> bool" where
  "onboarding_inv s \<longleftrightarrow>
     distinct (tbl_ids (od_instances s))
     \<and> (\<forall>(j, t) \<in> set (od_instances s). \<not> fresh (oi_onboardingId t) (od_onboardings s))
     \<and> (\<forall>i x. tbl_get i (od_onboardings s) = Some x \<longrightarrow> progress_ok s i (ob_status x))"

lemma has_instances: "instances_of i s \<noteq> [] \<longleftrightarrow> (\<exists>(j, t) \<in> set (od_instances s). oi_onboardingId t = i)"
  by (auto simp: instances_of_def tbl_all_def filter_empty_conv)

lemma has_open_tasks: "open_tasks i s \<noteq> [] \<longleftrightarrow> (\<exists>(j, t) \<in> set (od_instances s). oi_onboardingId t = i \<and> is_open t)"
  by (auto simp: open_tasks_def instances_of_def tbl_all_def filter_empty_conv)

text \<open>The progress of an onboarding depends on its own instances only.\<close>

lemma progress_ok_cong:
  assumes "(\<exists>(j, t) \<in> set (od_instances s). oi_onboardingId t = i) = (\<exists>(j, t) \<in> set (od_instances u). oi_onboardingId t = i)"
    and "(\<exists>(j, t) \<in> set (od_instances s). oi_onboardingId t = i \<and> is_open t)
      = (\<exists>(j, t) \<in> set (od_instances u). oi_onboardingId t = i \<and> is_open t)"
  shows "progress_ok s i st = progress_ok u i st"
proof -
  have "(instances_of i s = []) = (instances_of i u = [])" using has_instances[of i s] has_instances[of i u] assms(1) by blast
  moreover have "(open_tasks i s = []) = (open_tasks i u = [])" using has_open_tasks[of i s] has_open_tasks[of i u] assms(2) by blast
  ultimately show ?thesis by (cases st) (simp_all add: progress_ok_def)
qed

lemma onboarding_inv_assign:
  assumes inv: "onboarding_inv s"
  shows "onboarding_inv (snd (assignTemplateToEmployee n ids now e tid h u s))"
proof (cases "assignTemplateToEmployee n ids now e tid h u s")
  case (Pair r s')
  show ?thesis
  proof (cases r)
    case (Inr m)
    let ?ts = "map (instance_of n h) (tasks_of_template tid s)"
    let ?x0 = "\<lparr>ob_employeeId = e, ob_templateId = tid, ob_hireDate = utc_midnight h, ob_status = OnbIN_PROGRESS,
      ob_assignedBy = u, ob_completedAt = None, ob_createdAt = now\<rparr>"
    from Pair Inr obtain new_is where n: "fresh n (od_onboardings s)" and "insert_all ids ?ts (od_instances s) = Some new_is"
      and s': "od_instances s' = new_is" "od_onboardings s' = tbl_insert n ?x0 (od_onboardings s)"
      by (auto simp: assignTemplateToEmployee_def emit_onboarding_def split: option.splits if_splits)
    with insert_all_Some[of ids ?ts "od_instances s" new_is] inv
    have is_eq: "new_is = od_instances s @ zip ids ?ts" and len: "length ?ts \<le> length ids" and dist: "distinct (tbl_ids new_is)"
      by (auto simp: onboarding_inv_def)
    have new: "oi_onboardingId t = n \<and> is_open t" if "(j, t) \<in> set (zip ids ?ts)" for j t
      using set_zip_rightD[OF that] by (auto simp: instance_of_def is_open_def)
    have old: "oi_onboardingId t \<noteq> n" if "(j, t) \<in> set (od_instances s)" for j t
      using inv n that by (auto simp: onboarding_inv_def)
    have "progress_ok s' i (ob_status x)" if x: "tbl_get i (od_onboardings s') = Some x" for i x
    proof (cases "i = n")
      case True
      then have "ob_status x = OnbIN_PROGRESS" using x n s' by (auto simp: tbl_get_insert fresh_get)
      moreover have "instances_of i s' = [] \<or> open_tasks i s' \<noteq> []"
      proof (cases "instances_of i s' = []")
        case False
        then obtain j t where jt: "(j, t) \<in> set new_is" "oi_onboardingId t = n"
          using has_instances[of i s'] True unfolding s'(1) by blast
        then have "(j, t) \<in> set (zip ids ?ts)" using old unfolding is_eq by auto
        then show ?thesis using jt new has_open_tasks[of i s'] True unfolding s'(1) by blast
      qed simp
      ultimately show ?thesis by (simp add: progress_ok_def)
    next
      case False
      then have "progress_ok s i (ob_status x)" using x inv s' by (auto simp: tbl_get_insert onboarding_inv_def split: option.splits if_splits)
      then show ?thesis using progress_ok_cong[of s i s'] new False unfolding s'(1) is_eq by fastforce
    qed
    moreover have "\<not> fresh (oi_onboardingId t) (od_onboardings s')" if "(j, t) \<in> set (od_instances s')" for j t
    proof (cases "(j, t) \<in> set (od_instances s)")
      case True
      then show ?thesis using inv s' by (auto simp: onboarding_inv_def fresh_def)
    next
      case False
      then show ?thesis using that new[of j t] s' is_eq by (auto simp: fresh_def)
    qed
    ultimately show ?thesis using Pair dist s' unfolding onboarding_inv_def by auto
  next
    case (Inl e)
    then have "s' = s" using Pair by (auto simp: assignTemplateToEmployee_def split: option.splits if_splits)
    then show ?thesis using Pair inv by simp
  qed
qed

text \<open>An instance is moved to a closed status: what the onboardings of others have open stays.\<close>

lemma closing_frame:
  assumes "distinct (tbl_ids ts)" and "tbl_get k ts = Some t0" and "oi_onboardingId t0 = o'" and "i \<noteq> o'"
    and "\<And>t. oi_onboardingId (f t) = oi_onboardingId t" 
  shows "(\<exists>(j, t) \<in> set (tbl_update k f ts). oi_onboardingId t = i \<and> P t) = (\<exists>(j, t) \<in> set ts. oi_onboardingId t = i \<and> P t)"
proof -
  have k: "(k, t) \<in> set ts \<Longrightarrow> t = t0" for t
    using assms(1,2) by (auto simp: tbl_get_def tbl_ids_def)
  show ?thesis using k assms(3-5) by (fastforce simp: set_tbl_update)
qed

lemma onboarding_inv_complete:
  assumes inv: "onboarding_inv s"
  shows "onboarding_inv (snd (completeOnboardingTask k u now s))"
proof (cases "\<exists>t0. tbl_get k (od_instances s) = Some t0 \<and> is_open t0")
  case True
  then obtain t0 where t0: "tbl_get k (od_instances s) = Some t0" "is_open t0" by blast
  let ?o = "oi_onboardingId t0"
  let ?f = "\<lambda>t. t\<lparr>oi_status := InstCOMPLETED, oi_completedBy := Some u, oi_completedAt := Some now\<rparr>"
  let ?is = "tbl_update k ?f (od_instances s)" and ?s' = "snd (completeOnboardingTask k u now s)"
  have o: "\<not> fresh ?o (od_onboardings s)" using inv tbl_get_mem[OF t0(1)] by (auto simp: onboarding_inv_def)
  then obtain x0 where x0: "tbl_get ?o (od_onboardings s) = Some x0" by (auto simp: fresh_get)
  have "(k, t0) \<in> set (od_instances s)" by (rule tbl_get_mem[OF t0(1)])
  then have "open_tasks ?o s \<noteq> []" using t0(2) has_open_tasks[of ?o s] by force
  moreover have "progress_ok s ?o (ob_status x0)" using inv x0 by (simp add: onboarding_inv_def)
  ultimately have st: "ob_status x0 = OnbIN_PROGRESS" by (cases "ob_status x0") (simp_all add: progress_ok_def)
  have is_eq: "od_instances ?s' = ?is" using t0 o
    by (auto simp: completeOnboardingTask_def transaction_def complete_tx_def emit_onboarding_def Let_def)
  have onb: "od_onboardings ?s' = (if (\<exists>(j, t) \<in> set ?is. oi_onboardingId t = ?o \<and> is_open t) then od_onboardings s
      else tbl_update ?o (\<lambda>x. x\<lparr>ob_status := OnbCOMPLETED, ob_completedAt := Some now\<rparr>) (od_onboardings s))"
    using t0 o by (auto simp: completeOnboardingTask_def transaction_def complete_tx_def emit_onboarding_def Let_def tbl_count_zero)
  have mine: "(k, ?f t0) \<in> set ?is" using tbl_get_mem[OF t0(1)] by (force simp: set_tbl_update)
  have "progress_ok ?s' i (ob_status x)" if x: "tbl_get i (od_onboardings ?s') = Some x" for i x
  proof (cases "i = ?o")
    case True
    have some: "instances_of i ?s' \<noteq> []" using bexI[OF _ mine, of "\<lambda>(j, t). oi_onboardingId t = i"] True unfolding has_instances is_eq by simp
    show ?thesis
    proof (cases "open_tasks i ?s' = []")
      case True
      then have "ob_status x = OnbCOMPLETED" using x onb x0 \<open>i = ?o\<close> has_open_tasks[of i ?s'] unfolding is_eq by (auto split: if_splits)
      then show ?thesis using some True by (simp add: progress_ok_def)
    next
      case False
      then have "ob_status x = OnbIN_PROGRESS" using x onb x0 st \<open>i = ?o\<close> has_open_tasks[of i ?s'] unfolding is_eq by (auto split: if_splits)
      then show ?thesis using False by (simp add: progress_ok_def)
    qed
  next
    case False
    have "tbl_get i (od_onboardings s) = Some x" using x onb False by (auto split: if_splits)
    then have "progress_ok s i (ob_status x)" using inv by (simp add: onboarding_inv_def)
    moreover have "progress_ok s i (ob_status x) = progress_ok ?s' i (ob_status x)"
    proof (rule progress_ok_cong)
      note fr = closing_frame[of "od_instances s" k t0 ?o i ?f, OF _ t0(1) refl False]
      show "(\<exists>(j, t) \<in> set (od_instances s). oi_onboardingId t = i) = (\<exists>(j, t) \<in> set (od_instances ?s'). oi_onboardingId t = i)"
        using fr[of "\<lambda>t. True"] inv unfolding is_eq by (simp add: onboarding_inv_def)
      show "(\<exists>(j, t) \<in> set (od_instances s). oi_onboardingId t = i \<and> is_open t)
          = (\<exists>(j, t) \<in> set (od_instances ?s'). oi_onboardingId t = i \<and> is_open t)"
        using fr[of is_open] inv unfolding is_eq by (simp add: onboarding_inv_def)
    qed
    ultimately show ?thesis by simp
  qed
  moreover have "\<not> fresh (oi_onboardingId t) (od_onboardings ?s')" if j: "(j, t) \<in> set ?is" for j t
  proof -
    obtain t1 where "(j, t1) \<in> set (od_instances s)" "oi_onboardingId t1 = oi_onboardingId t"
      using j by (auto simp: set_tbl_update split: if_splits)
    then have "\<not> fresh (oi_onboardingId t) (od_onboardings s)" using inv by (auto simp: onboarding_inv_def)
    moreover have "tbl_ids (od_onboardings ?s') = tbl_ids (od_onboardings s)" unfolding onb by simp
    ultimately show ?thesis by (simp add: fresh_def)
  qed
  ultimately show ?thesis using inv is_eq unfolding onboarding_inv_def by auto
next
  case False
  then have "snd (completeOnboardingTask k u now s) = s"
    by (auto simp: completeOnboardingTask_def split: option.splits)
  then show ?thesis using inv by simp
qed

lemma onboarding_inv_cancel:
  assumes inv: "onboarding_inv s"
  shows "onboarding_inv (snd (cancelOnboarding o' s))"
proof (cases "tbl_get o' (od_onboardings s)")
  case (Some x0)
  let ?s' = "snd (cancelOnboarding o' s)"
  let ?is = "tbl_update_many (\<lambda>j t. oi_onboardingId t = o' \<and> is_open t) (\<lambda>t. t\<lparr>oi_status := InstSKIPPED\<rparr>) (od_instances s)"
  have is_eq: "od_instances ?s' = ?is" and onb: "od_onboardings ?s' = tbl_update o' (\<lambda>x. x\<lparr>ob_status := OnbCANCELLED\<rparr>) (od_onboardings s)"
    using Some by (auto simp: cancelOnboarding_def)
  have before: "\<exists>t1. (j, t1) \<in> set (od_instances s) \<and> oi_onboardingId t1 = oi_onboardingId t
      \<and> (oi_onboardingId t = o' \<and> \<not> is_open t \<or> t = t1)" if "(j, t) \<in> set ?is" for j t
    using that by (auto simp: set_tbl_update_many is_open_def split: if_splits)
  have others: "(j, t) \<in> set ?is \<longleftrightarrow> (j, t) \<in> set (od_instances s)" if "oi_onboardingId t \<noteq> o'" for j t
  proof
    show "(j, t) \<in> set ?is \<Longrightarrow> (j, t) \<in> set (od_instances s)" using before[of j t] that by blast
    show "(j, t) \<in> set (od_instances s) \<Longrightarrow> (j, t) \<in> set ?is" using that unfolding set_tbl_update_many
      by (intro exI[of _ j] exI[of _ t]) simp
  qed
  have "progress_ok ?s' i (ob_status x)" if x: "tbl_get i (od_onboardings ?s') = Some x" for i x
  proof (cases "i = o'")
    case True
    have "\<not> is_open t" if jt: "(j, t) \<in> set ?is" "oi_onboardingId t = o'" for j t
    proof -
      from jt(1) obtain t1 where "t = (if oi_onboardingId t1 = o' \<and> is_open t1 then t1\<lparr>oi_status := InstSKIPPED\<rparr> else t1)"
        unfolding set_tbl_update_many by blast
      then show ?thesis using jt(2) by (auto simp: is_open_def split: if_splits)
    qed
    then have "open_tasks i ?s' = []" using has_open_tasks[of i ?s'] True unfolding is_eq by blast
    moreover have "ob_status x = OnbCANCELLED" using x True Some unfolding onb by auto
    ultimately show ?thesis by (simp add: progress_ok_def)
  next
    case False
    have "progress_ok s i (ob_status x)" using x False inv unfolding onb by (simp add: onboarding_inv_def)
    moreover have "progress_ok s i (ob_status x) = progress_ok ?s' i (ob_status x)"
      by (rule progress_ok_cong; unfold is_eq; use others False in blast)
    ultimately show ?thesis by simp
  qed
  moreover have "\<not> fresh (oi_onboardingId t) (od_onboardings ?s')" if j: "(j, t) \<in> set ?is" for j t
  proof -
    obtain t1 where "(j, t1) \<in> set (od_instances s)" "oi_onboardingId t1 = oi_onboardingId t" using before[OF j] by blast
    then have "\<not> fresh (oi_onboardingId t) (od_onboardings s)" using inv by (auto simp: onboarding_inv_def)
    then show ?thesis unfolding onb by (simp add: fresh_def)
  qed
  ultimately show ?thesis using inv is_eq unfolding onboarding_inv_def by auto
qed (use inv in \<open>simp add: cancelOnboarding_def\<close>)

text \<open>The operations on templates leave onboardings and their tasks alone.\<close>

lemma onboarding_inv_same:
  "od_onboardings u = od_onboardings s \<Longrightarrow> od_instances u = od_instances s \<Longrightarrow> onboarding_inv s \<Longrightarrow> onboarding_inv u"
  using progress_ok_cong[of s _ u] unfolding onboarding_inv_def by simp

lemma reorder_frame:
  "reorder_from n is s = (r, u) \<Longrightarrow> od_onboardings u = od_onboardings s \<and> od_instances u = od_instances s \<and> od_templates u = od_templates s"
  by (induction n "is" s rule: reorder_from.induct) (auto split: if_splits)

lemma template_frame:
  assumes "\<And>n ids now e t h u. c \<noteq> AssignTemplate n ids now e t h u" "\<And>i u now. c \<noteq> CompleteOnboardingTask i u now"
    "\<And>i. c \<noteq> CancelOnboarding i"
  shows "od_onboardings (onboarding_step c s) = od_onboardings s \<and> od_instances (onboarding_step c s) = od_instances s"
proof (cases c)
  case (ReorderTasks i "is")
  then show ?thesis using reorder_frame[of 0 "is" s] by (cases "reorder_from 0 is s") (simp add: reorderTasks_def)
qed (use assms in \<open>auto simp: createTemplate_def updateTemplate_def archiveTemplate_def addTask_def removeTask_def split: sum.splits\<close>)

lemma onboarding_inv_step: "onboarding_inv s \<Longrightarrow> onboarding_inv (onboarding_step c s)"
proof (cases c)
  case (AssignTemplate n ids now e t h u)
  then show "onboarding_inv s \<Longrightarrow> ?thesis" by (simp add: onboarding_inv_assign)
next
  case (CompleteOnboardingTask i u now)
  then show "onboarding_inv s \<Longrightarrow> ?thesis" by (simp add: onboarding_inv_complete)
next
  case (CancelOnboarding i)
  then show "onboarding_inv s \<Longrightarrow> ?thesis" by (simp add: onboarding_inv_cancel)
qed (use template_frame[of c s] onboarding_inv_same[of "onboarding_step c s" s] in auto)

text \<open>
  C14: Whatever the calls on templates and onboardings, starting without onboardings: an onboarding that is
  complete has tasks and none of them is open, one in progress has an open task unless its template had
  none, and a cancelled one has no open task.
\<close>

theorem onboarding_follows_tasks:
  assumes "od_onboardings s = []" and "od_instances s = []" and "t = fold onboarding_step calls s"
    and "tbl_get i (od_onboardings t) = Some x"
  shows "(ob_status x = OnbCOMPLETED \<longrightarrow> instances_of i t \<noteq> [] \<and> open_tasks i t = [])
    \<and> (ob_status x = OnbIN_PROGRESS \<longrightarrow> instances_of i t = [] \<or> open_tasks i t \<noteq> [])
    \<and> (ob_status x = OnbCANCELLED \<longrightarrow> open_tasks i t = [])"
proof -
  have "onboarding_inv s" using assms(1,2) by (simp add: onboarding_inv_def tbl_ids_def tbl_get_def)
  then have "onboarding_inv t" unfolding assms(3)
    by (induction calls arbitrary: s) (simp_all add: onboarding_inv_step)
  then have "progress_ok t i (ob_status x)" using assms(4) by (simp add: onboarding_inv_def)
  then show ?thesis by (cases "ob_status x") (simp_all add: progress_ok_def)
qed

definition joiners :: onboarding_db where
  "joiners =
     \<lparr>od_templates = [(''t'', \<lparr>ot_name = ''Engineer'', ot_role = None, ot_description = None, ot_status = TemplateACTIVE,
        ot_createdBy = ''u'', ot_createdAt = 0\<rparr>)],
      od_tasks = [], od_onboardings = [], od_instances = [], od_events = [], od_audit = []\<rparr>"

definition joining :: "onboarding_call list" where
  "joining =
     [AddTask ''k1'' ''t'' \<lparr>ta_title = ''Badge'', ta_description = None, ta_category = PAPERWORK, ta_dueDayOffset = 1, ta_assigneeRole = RoleHR\<rparr>,
      AddTask ''k2'' ''t'' \<lparr>ta_title = ''Laptop'', ta_description = None, ta_category = IT_SETUP, ta_dueDayOffset = 0, ta_assigneeRole = RoleIT\<rparr>,
      AssignTemplate ''o1'' [''i1'', ''i2''] 5 ''e1'' ''t'' 86400000 ''u'',
      CompleteOnboardingTask ''i1'' ''u'' 6, CompleteOnboardingTask ''i2'' ''u'' 7]"

theorem onboarding_follows_tasks_witness:
  "\<exists>x. tbl_get ''o1'' (od_onboardings (fold onboarding_step joining joiners)) = Some x \<and> ob_status x = OnbCOMPLETED
     \<and> open_tasks ''o1'' (fold onboarding_step joining joiners) = []"
proof -
  have "map_option ob_status (tbl_get ''o1'' (od_onboardings (fold onboarding_step joining joiners))) = Some OnbCOMPLETED" by code_simp
  then obtain x where x: "tbl_get ''o1'' (od_onboardings (fold onboarding_step joining joiners)) = Some x" "ob_status x = OnbCOMPLETED"
    by auto
  show ?thesis using onboarding_follows_tasks[OF _ _ refl x(1)] x by (simp add: joiners_def)
qed

text \<open>No operation makes a template active, so without an active one from elsewhere nothing is ever assigned.\<close>

definition none_active :: "onboarding_db \<Rightarrow> bool" where
  "none_active s \<longleftrightarrow> (\<forall>i t. tbl_get i (od_templates s) = Some t \<longrightarrow> ot_status t \<noteq> TemplateACTIVE)"

lemma none_active_step:
  assumes "none_active s"
  shows "none_active (onboarding_step c s)"
proof (cases c)
  case (ReorderTasks i "is")
  then show ?thesis using reorder_frame[of 0 "is" s] assms by (cases "reorder_from 0 is s") (simp add: reorderTasks_def none_active_def)
next
  case (CompleteOnboardingTask i u now)
  then show ?thesis using assms
    by (auto simp: completeOnboardingTask_def transaction_def complete_tx_def emit_onboarding_def none_active_def Let_def split: option.splits)
qed (use assms in \<open>auto simp: none_active_def assignTemplateToEmployee_def cancelOnboarding_def createTemplate_def updateTemplate_def
  archiveTemplate_def addTask_def removeTask_def editable_template_def emit_onboarding_def tbl_get_insert split: option.splits if_splits sum.splits\<close>)

lemma nothing_assigned:
  assumes "none_active s"
  shows "\<exists>e. assignTemplateToEmployee n ids now e' tid h u (fold onboarding_step calls s) = (Inl e, fold onboarding_step calls s)"
proof -
  have "none_active (fold onboarding_step calls s)"
    using assms by (induction calls arbitrary: s) (simp_all add: none_active_step)
  then show ?thesis by (auto simp: none_active_def assignTemplateToEmployee_def split: option.splits)
qed

end
