(* ===== verification/Notifications.thy ===== *)
theory Notifications
  imports Js_String Documents
begin

text \<open>
  Notifications: \<^verbatim>\<open>notifications.service.ts\<close>, the mail dispatch
  (\<^verbatim>\<open>processors/email-dispatch.processor.ts\<close> with \<^verbatim>\<open>common/mail/mail.service.ts\<close>) and the
  handlers of \<^verbatim>\<open>notification-event-handlers.ts\<close>. The mail transport is a parameter, the outcome of
  each attempt by its number; identifiers come from a supply. Handlers run after the request that emitted
  the event; the mails of a batch, which the program sends concurrently, are sent in order here.
\<close>

section \<open>Tables\<close>

datatype notification_type =
    NtLEAVE_REQUESTED | NtLEAVE_APPROVED | NtLEAVE_REJECTED | NtPAYSLIP_READY | NtPOLICY_PUBLISHED | NtESIGN_REQUEST

datatype notification_channel = IN_APP | EMAIL

record notification_row =
  nt_companyId :: id
  nt_userId :: id
  nt_type :: notification_type
  nt_title :: string
  nt_body :: string
  nt_metadata :: "(string \<times> string) list"
  nt_isRead :: bool
  nt_readAt :: "instant option"
  nt_channel :: notification_channel
  nt_emailSent :: bool
  nt_emailSentAt :: "instant option"
  nt_createdAt :: instant

record mail =
  ml_to :: string
  ml_subject :: string
  ml_html :: string
  ml_text :: string

record notify_db =
  nf_rows :: "notification_row table"
  nf_drawn :: nat
  nf_attempts :: "mail list"
  nf_delivered :: "mail list"
  nf_employees :: "employee_row table"
  nf_documents :: "document_row table"

section \<open>The inbox\<close>

definition inbox :: "id \<Rightarrow> id \<Rightarrow> notify_db \<Rightarrow> (id \<times> notification_row) list" where
  "inbox userId companyId s = tbl_all (\<lambda>i n. nt_userId n = userId \<and> nt_companyId n = companyId) (nf_rows s)"

text \<open>A page of the newest notifications, with the counts of all and of the unread ones.\<close>

definition listNotifications :: "id \<Rightarrow> id \<Rightarrow> nat \<Rightarrow> nat \<Rightarrow> notify_db \<Rightarrow> (id \<times> notification_row) list \<times> nat \<times> nat" where
  "listNotifications userId companyId page limit s =
     (take limit (drop ((page - 1) * limit) (sort_key (\<lambda>(i, n). - nt_createdAt n) (inbox userId companyId s))),
      length (inbox userId companyId s),
      length (filter (\<lambda>(i, n). \<not> nt_isRead n) (inbox userId companyId s)))"

definition markRead :: "id \<Rightarrow> id \<Rightarrow> instant \<Rightarrow> notify_db \<Rightarrow> (notify_db, unit) outcome" where
  "markRead i userId now s =
     (case tbl_get i (nf_rows s) of
        None \<Rightarrow> (Inl (NotFoundError ''Notification not found''), s)
      | Some n \<Rightarrow>
          (if nt_userId n \<noteq> userId then (Inl (ForbiddenError ''You can only mark your own notifications as read''), s)
           else (Inr (), s\<lparr>nf_rows := tbl_update i (\<lambda>n. n\<lparr>nt_isRead := True, nt_readAt := Some now\<rparr>) (nf_rows s)\<rparr>)))"

definition markAllRead :: "id \<Rightarrow> id \<Rightarrow> instant \<Rightarrow> notify_db \<Rightarrow> nat \<times> notify_db" where
  "markAllRead userId companyId now s =
     (let unread = (\<lambda>i n. nt_userId n = userId \<and> nt_companyId n = companyId \<and> \<not> nt_isRead n)
      in (tbl_count unread (nf_rows s),
          s\<lparr>nf_rows := tbl_update_many unread (\<lambda>n. n\<lparr>nt_isRead := True, nt_readAt := Some now\<rparr>) (nf_rows s)\<rparr>))"

text \<open>A title has at most 200 characters; every attempt draws a new identifier.\<close>

definition createNotification :: "(nat \<Rightarrow> id) \<Rightarrow> notification_row \<Rightarrow> notify_db \<Rightarrow> (notify_db, id) outcome" where
  "createNotification uuid row s =
     (let i = uuid (nf_drawn s); s1 = s\<lparr>nf_drawn := nf_drawn s + 1\<rparr>
      in if length (nt_title row) > 200 then (Inl (DatabaseError ''value too long for type character varying(200)''), s1)
         else if \<not> fresh i (nf_rows s) then (Inl (DatabaseError ''notifications_pkey''), s1)
         else (Inr i, s1\<lparr>nf_rows := tbl_insert i row (nf_rows s)\<rparr>))"

section \<open>Mail\<close>

text \<open>\<^verbatim>\<open>html.replace(/<[^>]+>/g, '')\<close>.\<close>

function strip_tags :: "string \<Rightarrow> string" where
  "strip_tags s =
     (case s of
        [] \<Rightarrow> []
      | c # cs \<Rightarrow>
          (let name = takeWhile (\<lambda>c. c \<noteq> CHR ''>'') cs; rest = dropWhile (\<lambda>c. c \<noteq> CHR ''>'') cs
           in if c = CHR ''<'' \<and> name \<noteq> [] \<and> rest \<noteq> [] then strip_tags (tl rest) else c # strip_tags cs))"
  by pat_completeness auto
termination
proof (relation "measure length")
  show "(tl rest, s) \<in> measure length"
    if "s = c # cs" "rest = dropWhile (\<lambda>c. c \<noteq> CHR ''>'') cs" for s c cs rest
    using that length_dropWhile_le[of "\<lambda>c. c \<noteq> CHR ''>''" cs] by simp
qed auto

text \<open>
  \<^verbatim>\<open>MailService.send\<close> catches the error of the transport, so it always returns; \<open>deliver n\<close> is the
  outcome of the \<open>n\<close>th attempt.
\<close>

definition sendMail :: "(nat \<Rightarrow> bool) \<Rightarrow> string \<Rightarrow> string \<Rightarrow> string \<Rightarrow> notify_db \<Rightarrow> notify_db" where
  "sendMail deliver to subject html s =
     (let m = \<lparr>ml_to = to, ml_subject = subject, ml_html = html, ml_text = strip_tags html\<rparr>
      in s\<lparr>nf_attempts := nf_attempts s @ [m],
           nf_delivered := (if deliver (length (nf_attempts s)) then nf_delivered s @ [m] else nf_delivered s)\<rparr>)"

text \<open>\<^verbatim>\<open>renderTemplate\<close> without a button.\<close>

definition renderTemplate :: "string \<Rightarrow> string \<Rightarrow> string" where
  "renderTemplate title body =
     ''<!DOCTYPE html><html><body style=\"font-family:Inter,sans-serif;background:#f9fafb;margin:0;padding:32px\">''
     @ ''<div style=\"max-width:480px;margin:0 auto;background:white;border-radius:8px;padding:32px;border:1px solid #e5e7eb\">''
     @ ''<h2 style=\"color:#111827;margin-top:0\">'' @ title @ ''</h2><div style=\"color:#374151;line-height:1.6\">'' @ body
     @ ''</div><p style=\"color:#9ca3af;font-size:12px;margin-top:32px\">This email was sent by HR Platform. ''
     @ ''If you did not expect it, you can safely ignore it.</p></div></body></html>''"

section \<open>Templates\<close>

fun required_vars :: "string \<Rightarrow> string list option" where
  "required_vars name =
     (if name = ''leave_requested'' then Some [''employeeName'', ''leaveType'', ''startDate'', ''endDate'']
      else if name = ''leave_approved'' then Some [''leaveType'', ''startDate'', ''endDate'', ''approverName'', ''decision'']
      else if name = ''payslip_ready'' then Some [''period'']
      else if name = ''policy_published'' then Some [''policyTitle'', ''category'']
      else if name = ''esign_request'' then Some [''documentName'', ''expiresAt'']
      else None)"

text \<open>The data of a template; an absent entry is \<^verbatim>\<open>undefined\<close>.\<close>

type_synonym template_data = "(string \<times> string) list"

definition datum :: "template_data \<Rightarrow> string \<Rightarrow> string" where
  "datum d k = (case map_of d k of None \<Rightarrow> ''undefined'' | Some v \<Rightarrow> v)"

definition strong :: "string \<Rightarrow> string" where
  "strong s = ''<strong>'' @ s @ ''</strong>''"

text \<open>Subject and body of a mail.\<close>

definition mail_template :: "string \<Rightarrow> (template_data \<Rightarrow> string \<times> string) option" where
  "mail_template name =
     (if name = ''leave_requested'' then Some (\<lambda>d.
        (datum d ''employeeName'' @ '' has requested leave'',
         ''<p>'' @ strong (datum d ''employeeName'') @ '' has requested '' @ strong (datum d ''leaveType'') @ '' leave from ''
         @ strong (datum d ''startDate'') @ '' to '' @ strong (datum d ''endDate'')
         @ ''.</p><p>Please review and approve or reject the request.</p>''))
      else if name = ''leave_approved'' then Some (\<lambda>d.
        (let decision = (case map_of d ''decision'' of None \<Rightarrow> ''approved'' | Some v \<Rightarrow> v)
         in (''Your '' @ datum d ''leaveType'' @ '' leave has been '' @ decision,
             ''<p>Your '' @ strong (datum d ''leaveType'') @ '' leave from '' @ strong (datum d ''startDate'') @ '' to ''
             @ strong (datum d ''endDate'') @ '' has been '' @ strong decision @ '' by '' @ strong (datum d ''approverName'') @ ''.</p>'')))
      else if name = ''payslip_ready'' then Some (\<lambda>d.
        (''Your payslip for '' @ datum d ''period'' @ '' is ready'',
         ''<p>Your payslip for '' @ strong (datum d ''period'') @ '' is ready. Please log in to view it.</p>''))
      else if name = ''policy_published'' then Some (\<lambda>d.
        (''New policy published: '' @ datum d ''policyTitle'',
         ''<p>A new policy '' @ strong (datum d ''policyTitle'') @ '' (category: '' @ strong (datum d ''category'')
         @ '') has been published. Please review and acknowledge it.</p>''))
      else if name = ''esign_request'' then Some (\<lambda>d.
        (''Document pending your signature: '' @ datum d ''documentName'',
         ''<p>You have a document pending your signature: '' @ strong (datum d ''documentName'') @ ''. This request expires on ''
         @ strong (datum d ''expiresAt'') @ ''.</p>''))
      else None)"

definition missing_vars :: "string \<Rightarrow> template_data \<Rightarrow> string list" where
  "missing_vars name d = (case required_vars name of None \<Rightarrow> [] | Some vs \<Rightarrow> filter (\<lambda>v. map_of d v = None) vs)"

text \<open>
  \<^verbatim>\<open>AppConfigService.get\<close> knows only the groups of the configuration: any other key, such as the
  flag of a template, is \<^verbatim>\<open>undefined\<close>.
\<close>

definition CONFIG_KEYS :: "string list" where
  "CONFIG_KEYS = [''app'', ''db'', ''redis'', ''minio'', ''jwt'', ''cookie'', ''encryption'', ''mail'', ''sso'', ''log'', ''otel'']"

definition config_get :: "string \<Rightarrow> string option" where
  "config_get key = (if key \<in> set CONFIG_KEYS then Some ''[object Object]'' else None)"

definition template_enabled :: "string \<Rightarrow> bool" where
  "template_enabled name \<longleftrightarrow> config_get (''NOTIFICATIONS_'' @ toUpperCase name @ ''_ENABLED'') \<noteq> Some ''false''"

section \<open>Dispatch\<close>

record email_job =
  jb_recipientId :: id
  jb_recipientEmail :: string
  jb_templateName :: string
  jb_templateData :: template_data
  jb_type :: notification_type
  jb_title :: string
  jb_body :: string
  jb_metadata :: "(string \<times> string) list"
  jb_companyId :: id

definition notice_of :: "notification_channel \<Rightarrow> bool \<Rightarrow> instant \<Rightarrow> email_job \<Rightarrow> notification_row" where
  "notice_of channel sent now job =
     \<lparr>nt_companyId = jb_companyId job, nt_userId = jb_recipientId job, nt_type = jb_type job, nt_title = jb_title job,
      nt_body = jb_body job, nt_metadata = jb_metadata job, nt_isRead = False, nt_readAt = None, nt_channel = channel,
      nt_emailSent = sent, nt_emailSentAt = (if sent then Some now else None), nt_createdAt = now\<rparr>"

definition dispatch :: "(nat \<Rightarrow> id) \<Rightarrow> (nat \<Rightarrow> bool) \<Rightarrow> instant \<Rightarrow> email_job \<Rightarrow> notify_db \<Rightarrow> (notify_db, unit) outcome" where
  "dispatch uuid deliver now job s =
     (case mail_template (jb_templateName job) of
        None \<Rightarrow> (Inl (RuntimeError (''Unknown email template: '' @ jb_templateName job)), s)
      | Some render \<Rightarrow>
          (let missing = missing_vars (jb_templateName job) (jb_templateData job)
           in if missing \<noteq> [] then
                (case createNotification uuid (notice_of EMAIL False now job) s of
                   (Inl e, s1) \<Rightarrow> (Inl e, s1)
                 | (Inr _, s1) \<Rightarrow> (Inl (RuntimeError (''Missing template variables: '' @ join_comma missing)), s1))
              else if \<not> template_enabled (jb_templateName job) then
                (case createNotification uuid
                        (notice_of IN_APP False now (job\<lparr>jb_metadata := jb_metadata job @ [(''skippedReason'', ''template_disabled'')]\<rparr>)) s of
                   (Inl e, s1) \<Rightarrow> (Inl e, s1) | (Inr _, s1) \<Rightarrow> (Inr (), s1))
              else
                (let (subject, body) = render (jb_templateData job);
                     s1 = sendMail deliver (jb_recipientEmail job) subject (renderTemplate subject body) s
                 in case createNotification uuid (notice_of EMAIL True now job) s1 of
                      (Inr _, s2) \<Rightarrow> (Inr (), s2)
                    | (Inl err, s2) \<Rightarrow>
                        (case createNotification uuid (notice_of EMAIL False now job) s2 of
                           (Inl e, s3) \<Rightarrow> (Inl e, s3) | (Inr _, s3) \<Rightarrow> (Inl err, s3)))))"

section \<open>Handlers\<close>

text \<open>A handler logs the error of its job and returns.\<close>

definition recipient_id :: "id \<Rightarrow> employee_row \<Rightarrow> id" where
  "recipient_id i e = (case em_userId e of None \<Rightarrow> i | Some u \<Rightarrow> u)"

definition send_to :: "(nat \<Rightarrow> id) \<Rightarrow> (nat \<Rightarrow> bool) \<Rightarrow> instant \<Rightarrow> (id \<Rightarrow> string \<Rightarrow> email_job) \<Rightarrow> id \<times> employee_row \<Rightarrow> notify_db \<Rightarrow> notify_db" where
  "send_to uuid deliver now job = (\<lambda>(i, e) s.
     if em_workEmail e = [] then s else snd (dispatch uuid deliver now (job (recipient_id i e) (em_workEmail e)) s))"

definition send_to_employee ::
    "(nat \<Rightarrow> id) \<Rightarrow> (nat \<Rightarrow> bool) \<Rightarrow> instant \<Rightarrow> (id \<Rightarrow> string \<Rightarrow> email_job) \<Rightarrow> id \<Rightarrow> notify_db \<Rightarrow> notify_db" where
  "send_to_employee uuid deliver now job i s =
     (case tbl_get i (nf_employees s) of None \<Rightarrow> s | Some e \<Rightarrow> send_to uuid deliver now job (i, e) s)"

record leave_requested_payload =
  lq_leaveRequestId :: id
  lq_managerId :: id
  lq_leaveType :: string
  lq_startDate :: string
  lq_endDate :: string
  lq_employeeName :: string
  lq_companyId :: id

definition leave_requested_job :: "leave_requested_payload \<Rightarrow> id \<Rightarrow> string \<Rightarrow> email_job" where
  "leave_requested_job p recipient email =
     \<lparr>jb_recipientId = recipient, jb_recipientEmail = email, jb_templateName = ''leave_requested'',
      jb_templateData = [(''employeeName'', lq_employeeName p), (''leaveType'', lq_leaveType p), (''startDate'', lq_startDate p),
        (''endDate'', lq_endDate p)],
      jb_type = NtLEAVE_REQUESTED, jb_title = lq_employeeName p @ '' requested leave'',
      jb_body = lq_leaveType p @ '' leave from '' @ lq_startDate p @ '' to '' @ lq_endDate p @ '' awaiting your approval.'',
      jb_metadata = [(''leaveRequestId'', lq_leaveRequestId p)], jb_companyId = lq_companyId p\<rparr>"

definition handleLeaveRequested :: "(nat \<Rightarrow> id) \<Rightarrow> (nat \<Rightarrow> bool) \<Rightarrow> instant \<Rightarrow> leave_requested_payload \<Rightarrow> notify_db \<Rightarrow> notify_db" where
  "handleLeaveRequested uuid deliver now p s = send_to_employee uuid deliver now (leave_requested_job p) (lq_managerId p) s"

record leave_decision_payload =
  lc_leaveRequestId :: id
  lc_employeeId :: id
  lc_leaveType :: string
  lc_startDate :: string
  lc_endDate :: string
  lc_approverName :: string
  lc_companyId :: id

text \<open>Both decisions use the template \<^verbatim>\<open>leave_approved\<close>.\<close>

definition leave_decision_job :: "bool \<Rightarrow> leave_decision_payload \<Rightarrow> id \<Rightarrow> string \<Rightarrow> email_job" where
  "leave_decision_job approved p recipient email =
     \<lparr>jb_recipientId = recipient, jb_recipientEmail = email, jb_templateName = ''leave_approved'',
      jb_templateData = [(''leaveType'', lc_leaveType p), (''startDate'', lc_startDate p), (''endDate'', lc_endDate p),
        (''approverName'', lc_approverName p), (''decision'', if approved then ''APPROVED'' else ''REJECTED'')],
      jb_type = (if approved then NtLEAVE_APPROVED else NtLEAVE_REJECTED),
      jb_title = (if approved then ''Leave Approved'' else ''Leave Rejected''),
      jb_body = ''Your '' @ lc_leaveType p @ '' leave from '' @ lc_startDate p @ '' to '' @ lc_endDate p @ '' has been ''
        @ (if approved then ''approved'' else ''rejected'') @ '' by '' @ lc_approverName p @ ''.'',
      jb_metadata = [(''leaveRequestId'', lc_leaveRequestId p)], jb_companyId = lc_companyId p\<rparr>"

definition handleLeaveDecision :: "(nat \<Rightarrow> id) \<Rightarrow> (nat \<Rightarrow> bool) \<Rightarrow> instant \<Rightarrow> bool \<Rightarrow> leave_decision_payload \<Rightarrow> notify_db \<Rightarrow> notify_db" where
  "handleLeaveDecision uuid deliver now approved p s =
     send_to_employee uuid deliver now (leave_decision_job approved p) (lc_employeeId p) s"

record payslip_payload =
  py_payslipId :: id
  py_employeeId :: id
  py_period :: string
  py_companyId :: id

definition payslip_notice_job :: "payslip_payload \<Rightarrow> id \<Rightarrow> string \<Rightarrow> email_job" where
  "payslip_notice_job p recipient email =
     \<lparr>jb_recipientId = recipient, jb_recipientEmail = email, jb_templateName = ''payslip_ready'',
      jb_templateData = [(''period'', py_period p)], jb_type = NtPAYSLIP_READY, jb_title = ''Payslip Ready'',
      jb_body = ''Your payslip for '' @ py_period p @ '' is ready. Login to view.'',
      jb_metadata = [(''payslipId'', py_payslipId p)], jb_companyId = py_companyId p\<rparr>"

definition handlePayslipReady :: "(nat \<Rightarrow> id) \<Rightarrow> (nat \<Rightarrow> bool) \<Rightarrow> instant \<Rightarrow> payslip_payload \<Rightarrow> notify_db \<Rightarrow> notify_db" where
  "handlePayslipReady uuid deliver now p s = send_to_employee uuid deliver now (payslip_notice_job p) (py_employeeId p) s"

record policy_payload =
  pp_policyId :: id
  pp_policyTitle :: string
  pp_category :: string
  pp_companyId :: id

definition policy_job :: "policy_payload \<Rightarrow> id \<Rightarrow> string \<Rightarrow> email_job" where
  "policy_job p recipient email =
     \<lparr>jb_recipientId = recipient, jb_recipientEmail = email, jb_templateName = ''policy_published'',
      jb_templateData = [(''policyTitle'', pp_policyTitle p), (''category'', pp_category p)],
      jb_type = NtPOLICY_PUBLISHED, jb_title = ''New Policy: '' @ pp_policyTitle p,
      jb_body = ''A new policy \"'' @ pp_policyTitle p @ ''\" (category: '' @ pp_category p
        @ '') has been published. Please review and acknowledge.'',
      jb_metadata = [(''policyId'', pp_policyId p)], jb_companyId = pp_companyId p\<rparr>"

text \<open>Batches of 25; a failed job of a batch does not stop the others.\<close>

function batches :: "nat \<Rightarrow> 'a list \<Rightarrow> 'a list list" where
  "batches n xs = (if n = 0 \<or> xs = [] then [] else take n xs # batches n (drop n xs))"
  by pat_completeness auto
termination by (relation "measure (\<lambda>(n, xs). length xs)") auto

declare strip_tags.simps [simp del] batches.simps [simp del]

definition active_employees :: "id \<Rightarrow> notify_db \<Rightarrow> (id \<times> employee_row) list" where
  "active_employees companyId s = tbl_all (\<lambda>i e. em_companyId e = companyId \<and> em_status e = EmpACTIVE) (nf_employees s)"

definition handlePolicyPublished :: "(nat \<Rightarrow> id) \<Rightarrow> (nat \<Rightarrow> bool) \<Rightarrow> instant \<Rightarrow> policy_payload \<Rightarrow> notify_db \<Rightarrow> notify_db" where
  "handlePolicyPublished uuid deliver now p s =
     fold (fold (send_to uuid deliver now (policy_job p))) (batches 25 (active_employees (pp_companyId p) s)) s"

record esign_payload =
  ey_esignRequestId :: id
  ey_signerEmployeeId :: id
  ey_documentId :: id
  ey_expiresAt :: string
  ey_companyId :: id

definition document_name :: "id \<Rightarrow> notify_db \<Rightarrow> string" where
  "document_name i s = (case tbl_get i (nf_documents s) of None \<Rightarrow> ''Document'' | Some d \<Rightarrow> dc_name d)"

definition esign_job :: "string \<Rightarrow> esign_payload \<Rightarrow> id \<Rightarrow> string \<Rightarrow> email_job" where
  "esign_job name p recipient email =
     \<lparr>jb_recipientId = recipient, jb_recipientEmail = email, jb_templateName = ''esign_request'',
      jb_templateData = [(''documentName'', name), (''expiresAt'', ey_expiresAt p)],
      jb_type = NtESIGN_REQUEST, jb_title = ''Document Pending Your Signature'',
      jb_body = ''You have a document pending your signature: '' @ name @ ''. This request expires on '' @ ey_expiresAt p @ ''.'',
      jb_metadata = [(''esignRequestId'', ey_esignRequestId p)], jb_companyId = ey_companyId p\<rparr>"

definition handleEsignRequest :: "(nat \<Rightarrow> id) \<Rightarrow> (nat \<Rightarrow> bool) \<Rightarrow> instant \<Rightarrow> esign_payload \<Rightarrow> notify_db \<Rightarrow> notify_db" where
  "handleEsignRequest uuid deliver now p s =
     send_to_employee uuid deliver now (esign_job (document_name (ey_documentId p) s) p) (ey_signerEmployeeId p) s"

section \<open>Everybody hears of a policy\<close>

lemma template_always_enabled [simp]: "template_enabled name"
  by (simp add: template_enabled_def config_get_def)

text \<open>The identifiers still to be drawn are not in the table.\<close>

definition fresh_supply :: "(nat \<Rightarrow> id) \<Rightarrow> notify_db \<Rightarrow> bool" where
  "fresh_supply uuid s \<longleftrightarrow> inj uuid \<and> (\<forall>n \<ge> nf_drawn s. fresh (uuid n) (nf_rows s))"

lemma create_ok:
  assumes "fresh_supply uuid s" and "length (nt_title row) \<le> 200"
  shows "createNotification uuid row s
    = (Inr (uuid (nf_drawn s)), s\<lparr>nf_drawn := nf_drawn s + 1, nf_rows := tbl_insert (uuid (nf_drawn s)) row (nf_rows s)\<rparr>)"
  using assms by (simp add: createNotification_def fresh_supply_def Let_def)

lemma create_too_long:
  "200 < length (nt_title row) \<Longrightarrow> createNotification uuid row s
    = (Inl (DatabaseError ''value too long for type character varying(200)''), s\<lparr>nf_drawn := nf_drawn s + 1\<rparr>)"
  by (simp add: createNotification_def Let_def)

text \<open>
  A complete job sends its mail and leaves a notification marked as sent, unless its title does not fit:
  then the mail is sent all the same and no notification is left.
\<close>

lemma dispatch_complete:
  assumes "fresh_supply uuid s" and "mail_template (jb_templateName job) = Some render"
    and "missing_vars (jb_templateName job) (jb_templateData job) = []" and "t = snd (dispatch uuid deliver now job s)"
  shows "map snd (nf_rows t) = map snd (nf_rows s) @ (if length (jb_title job) \<le> 200 then [notice_of EMAIL True now job] else [])
    \<and> map ml_to (nf_attempts t) = map ml_to (nf_attempts s) @ [jb_recipientEmail job]
    \<and> nf_employees t = nf_employees s \<and> fresh_supply uuid t"
proof -
  obtain subject body where r: "render (jb_templateData job) = (subject, body)" by (cases "render (jb_templateData job)")
  let ?s1 = "sendMail deliver (jb_recipientEmail job) subject (renderTemplate subject body) s"
  have f1: "nf_rows ?s1 = nf_rows s" "nf_drawn ?s1 = nf_drawn s" "nf_employees ?s1 = nf_employees s"
    "map ml_to (nf_attempts ?s1) = map ml_to (nf_attempts s) @ [jb_recipientEmail job]"
    by (simp_all add: sendMail_def Let_def)
  have s1: "fresh_supply uuid ?s1" using assms(1) f1 by (simp add: fresh_supply_def)
  show ?thesis
  proof (cases "length (jb_title job) \<le> 200")
    case True
    then have len: "length (nt_title (notice_of EMAIL True now job)) \<le> 200" by (simp add: notice_of_def)
    show ?thesis using assms(1,2,3) True f1 r
      by (auto simp: assms(4) dispatch_def create_ok[OF s1 len] fresh_supply_def tbl_insert_def fresh_def tbl_ids_def
          dest: injD)
  next
    case False
    then have len: "200 < length (nt_title (notice_of EMAIL sent now job))" for sent by (simp add: notice_of_def)
    show ?thesis using assms(1,2,3) False f1 r
      by (auto simp: assms(4) dispatch_def create_too_long[OF len] fresh_supply_def)
  qed
qed

lemma concat_batches: "0 < n \<Longrightarrow> concat (batches n xs) = xs"
  by (induction n xs rule: batches.induct) (subst batches.simps, auto)

lemma fold_fold_concat: "fold (fold f) xss s = fold f (concat xss) s"
  by (induction xss arbitrary: s) simp_all

lemma policy_job_complete:
  "mail_template (jb_templateName (policy_job p r m)) \<noteq> None" "missing_vars (jb_templateName (policy_job p r m)) (jb_templateData (policy_job p r m)) = []"
  by (simp_all add: policy_job_def mail_template_def missing_vars_def)

definition reached :: "id \<times> employee_row \<Rightarrow> bool" where
  "reached = (\<lambda>(i, e). em_workEmail e \<noteq> [])"

definition policy_notice :: "instant \<Rightarrow> policy_payload \<Rightarrow> id \<times> employee_row \<Rightarrow> notification_row" where
  "policy_notice now p = (\<lambda>(i, e). notice_of EMAIL True now (policy_job p (recipient_id i e) (em_workEmail e)))"

lemma send_policy_all:
  assumes "fresh_supply uuid s" and "t = fold (send_to uuid deliver now (policy_job p)) es s"
  shows "map snd (nf_rows t) = map snd (nf_rows s) @ (if length (pp_policyTitle p) \<le> 188 then map (policy_notice now p) (filter reached es) else [])
    \<and> map ml_to (nf_attempts t) = map ml_to (nf_attempts s) @ map (em_workEmail \<circ> snd) (filter reached es)"
  using assms
proof (induction es arbitrary: s t)
  case (Cons x es)
  obtain i e where x: "x = (i, e)" by (cases x)
  let ?job = "policy_job p (recipient_id i e) (em_workEmail e)" and ?u = "send_to uuid deliver now (policy_job p) x s"
  have title: "length (jb_title ?job) \<le> 200 \<longleftrightarrow> length (pp_policyTitle p) \<le> 188" by (simp add: policy_job_def)
  show ?case
  proof (cases "em_workEmail e = []")
    case True
    then have "?u = s" by (simp add: x send_to_def)
    then show ?thesis using Cons.IH[OF Cons.prems(1), of t] Cons.prems(2) True by (simp add: x reached_def)
  next
    case False
    then have u: "?u = snd (dispatch uuid deliver now ?job s)" by (simp add: x send_to_def)
    obtain render where "mail_template (jb_templateName ?job) = Some render" using policy_job_complete(1) by blast
    from dispatch_complete[OF Cons.prems(1) this policy_job_complete(2) u]
    have step: "map snd (nf_rows ?u) = map snd (nf_rows s) @ (if length (pp_policyTitle p) \<le> 188 then [notice_of EMAIL True now ?job] else [])"
      "map ml_to (nf_attempts ?u) = map ml_to (nf_attempts s) @ [em_workEmail e]" "fresh_supply uuid ?u"
      unfolding title by (simp_all add: policy_job_def)
    from Cons.IH[OF step(3), of t] Cons.prems(2) step(1,2) False
    show ?thesis by (auto simp: x reached_def policy_notice_def)
  qed
qed simp

text \<open>
  C27: When a policy is published, every active employee of the company with a work address gets one mail and
  one notification, whatever the size of the company, and the notification says that the mail was sent even
  where the transport delivered none. A title of more than 188 characters, which a policy may have, leaves no
  notification for anybody, only the mails.
\<close>

theorem policy_reaches_active_employees:
  assumes "fresh_supply uuid s" and "t = handlePolicyPublished uuid deliver now p s"
    and "es = filter reached (active_employees (pp_companyId p) s)"
  shows "map snd (nf_rows t) = map snd (nf_rows s) @ (if length (pp_policyTitle p) \<le> 188 then map (policy_notice now p) es else [])
    \<and> map ml_to (nf_attempts t) = map ml_to (nf_attempts s) @ map (em_workEmail \<circ> snd) es"
  using send_policy_all[OF assms(1), of t deliver now p "active_employees (pp_companyId p) s"]
  unfolding assms(2,3) handlePolicyPublished_def fold_fold_concat by (simp add: concat_batches)

definition notify_office :: notify_db where
  "notify_office =
     \<lparr>nf_rows = [], nf_drawn = 0, nf_attempts = [], nf_delivered = [],
      nf_employees = [(''e1'', new_employee ''co'' (Some ''u1'')), (''e2'', (new_employee ''co'' None)\<lparr>em_workEmail := []\<rparr>),
        (''e3'', new_employee ''co'' None)],
      nf_documents = []\<rparr>"

theorem policy_reaches_active_employees_witness:
  "map (\<lambda>n. (nt_userId n, nt_emailSent n)) (map snd (nf_rows (handlePolicyPublished (\<lambda>n. replicate n CHR ''x'') (\<lambda>n. False) 5
      \<lparr>pp_policyId = ''p'', pp_policyTitle = ''Leave'', pp_category = ''HR'', pp_companyId = ''co''\<rparr> notify_office)))
    = [(''u1'', True), (''e3'', True)]"
proof -
  have inj: "inj (\<lambda>n. replicate n CHR ''x'')" by (rule injI) (metis length_replicate)
  have f: "fresh_supply (\<lambda>n. replicate n CHR ''x'') notify_office"
    using inj by (simp add: fresh_supply_def notify_office_def fresh_def tbl_ids_def)
  show ?thesis
    unfolding conjunct1[OF policy_reaches_active_employees[OF f refl refl]]
    by (simp add: notify_office_def active_employees_def tbl_all_def reached_def new_employee_def policy_notice_def notice_of_def
        policy_job_def recipient_id_def)
qed

end
