(* ===== verification/Notification_Wiring.thy ===== *)
theory Notification_Wiring
  imports Notifications Leave Policies
begin

text \<open>
  Which events of the services reach the handlers: the names that \<^verbatim>\<open>registerHandlers\<close> of
  \<^verbatim>\<open>notification-event-handlers.ts\<close> listens to against those that the leave, policy and
  e-signature services emit.
\<close>

definition HANDLED_EVENTS :: "string list" where
  "HANDLED_EVENTS = [''hr.leave.requested'', ''hr.leave.approved'', ''hr.leave.rejected'', ''hr.payslip.ready'',
     ''hr.policy.published'', ''hr.esign.request_created'']"

definition leave_names :: "string set" where
  "leave_names = {''leave.requested'', ''leave.approved'', ''leave.rejected'', ''leave.cancelled''}"

lemma names_apart: "leave_names \<inter> set HANDLED_EVENTS = {}"
  by (simp add: leave_names_def HANDLED_EVENTS_def)

lemma leave_emits:
  assumes "fst ` set (lv_events s) \<subseteq> leave_names"
  shows "fst ` set (lv_events (leave_step dec ev s)) \<subseteq> leave_names"
proof (cases ev)
  case (Apply now n e co dto)
  then show ?thesis using assms
    by (auto simp: leave_apply_def Let_def leave_audit_def emit_leave_def leave_names_def split: option.splits if_splits sum.splits)
next
  case (ApproveLeave now i a co)
  then show ?thesis using assms
    by (auto simp: leave_approve_def leave_audit_def emit_leave_def leave_names_def split: option.splits if_splits sum.splits)
next
  case (RejectLeave now i a co reason)
  then show ?thesis using assms
    by (auto simp: leave_reject_def leave_audit_def emit_leave_def leave_names_def split: option.splits if_splits)
next
  case (CancelLeave now i e co)
  then show ?thesis using assms
    by (auto simp: leave_cancel_def leave_audit_def emit_leave_def leave_names_def split: option.splits if_splits sum.splits)
next
  case (Accrue n co m y)
  then show ?thesis using assms by (auto simp: runForCompany_def leave_audit_def Let_def split: if_splits sum.splits)
qed (use assms in simp_all)

text \<open>
  Nobody is notified of a leave request or of its outcome: no sequence of calls of the leave services emits
  an event that a notification handler listens to, while publishing a policy and asking for a signature each
  emit one that is handled.
\<close>

lemma leave_events_unheard:
  assumes "lv_events s = []" and "publishPolicy p now user d = (Inr (), d1)"
    and "createEsignRequest days newId now dto user d = (Inr r, d2)"
  shows "(\<forall>(name, i) \<in> set (lv_events (fold (leave_step dec) calls s)). name \<notin> set HANDLED_EVENTS)
    \<and> (\<exists>name \<in> set HANDLED_EVENTS. dd_events d1 = dd_events d @ [(name, p)])
    \<and> (\<exists>name \<in> set HANDLED_EVENTS. dd_events d2 = dd_events d @ [(name, newId)])"
proof -
  have "fst ` set (lv_events (fold (leave_step dec) calls s)) \<subseteq> leave_names" if "fst ` set (lv_events s) \<subseteq> leave_names" for s
    using that by (induction calls arbitrary: s) (simp_all add: leave_emits)
  then have "fst ` set (lv_events (fold (leave_step dec) calls s)) \<subseteq> leave_names" using assms(1) by simp
  then have "\<forall>(name, i) \<in> set (lv_events (fold (leave_step dec) calls s)). name \<notin> set HANDLED_EVENTS"
    using names_apart by (fastforce simp: image_subset_iff)
  moreover have "dd_events d1 = dd_events d @ [(''hr.policy.published'', p)]"
    using assms(2) by (auto simp: publishPolicy_def emit_docs_def docs_audit_def split: sum.splits if_splits)
  moreover have "dd_events d2 = dd_events d @ [(''hr.esign.request_created'', newId)]"
    using assms(3) by (auto simp: createEsignRequest_def emit_docs_def docs_audit_def Let_def split: option.splits if_splits)
  ultimately show ?thesis by (simp add: HANDLED_EVENTS_def)
qed

definition wiring_office :: docs_db where
  "wiring_office =
     \<lparr>dd_documents = [(''d'', \<lparr>dc_companyId = ''co'', dc_employeeId = ''e1'', dc_name = ''a.pdf'', dc_category = ''OTHER'',
        dc_mimeType = ''application/pdf'', dc_fileSize = 1, dc_s3Key = None, dc_sha256Hash = None, dc_version = 1,
        dc_description = None, dc_uploadedById = ''u'', dc_createdAt = 0, dc_deletedAt = None\<rparr>)],
      dd_requests = [],
      dd_policies = [(''p'', \<lparr>po_companyId = ''co'', po_title = ''T'', po_content = ''c'', po_category = ''HR'',
        po_status = PolicyDRAFT, po_createdBy = ''u'', po_publishedBy = None, po_publishedAt = None, po_version = 1, po_updatedAt = 0\<rparr>)],
      dd_acknowledgements = [], dd_employees = [(''e1'', new_employee ''co'' (Some ''u1''))], dd_events = [], dd_audit = []\<rparr>"

end
