(* ===== verification/Skills.thy ===== *)
theory Skills
  imports Js_String Audit_Log Calendar "HOL-Library.List_Lexorder" "HOL-Library.Char_ord"
begin

text \<open>
  The skill taxonomy and the skills of employees: \<^verbatim>\<open>skills/services\<close>. An employee assesses the own
  level, a manager confirms it or disputes it.
\<close>

section \<open>Tables\<close>

datatype skill_status = SkillACTIVE | SkillDEPRECATED

datatype validation_status = ValPENDING | ValVALIDATED | ValDISPUTED

record skill_row =
  sk_companyId :: id
  sk_name :: string
  sk_category :: "string option"
  sk_parentSkillId :: "id option"
  sk_status :: skill_status

record employee_skill_row =
  ek_employeeId :: id
  ek_skillId :: id
  ek_selfLevel :: int
  ek_managerLevel :: "int option"
  ek_status :: validation_status
  ek_validatedById :: "id option"
  ek_validatedAt :: "instant option"

record skills_db =
  sd_skills :: "skill_row table"
  sd_levels :: "employee_skill_row table"
  sd_events :: "(string \<times> id) list"

section \<open>The taxonomy\<close>

record skill_dto =
  sl_companyId :: id
  sl_name :: string
  sl_category :: "string option"
  sl_parentSkillId :: "id option"

definition createSkill :: "id \<Rightarrow> skill_dto \<Rightarrow> skills_db \<Rightarrow> (skills_db, id) outcome" where
  "createSkill newId dto s =
     (if \<not> fresh newId (sd_skills s) then (Inl (DatabaseError ''skill_taxonomies_pkey''), s)
      else (Inr newId, s\<lparr>sd_skills := tbl_insert newId
             \<lparr>sk_companyId = sl_companyId dto, sk_name = sl_name dto, sk_category = sl_category dto,
              sk_parentSkillId = sl_parentSkillId dto, sk_status = SkillACTIVE\<rparr> (sd_skills s)\<rparr>))"

definition updateSkill :: "id \<Rightarrow> string option \<Rightarrow> string option \<Rightarrow> skills_db \<Rightarrow> (skills_db, unit) outcome" where
  "updateSkill i name category s =
     (if fresh i (sd_skills s) then (Inl (NotFoundError ''Skill not found''), s)
      else (Inr (), s\<lparr>sd_skills := tbl_update i (\<lambda>r. r\<lparr>sk_name := (case name of None \<Rightarrow> sk_name r | Some n \<Rightarrow> n),
             sk_category := (if category = None then sk_category r else category)\<rparr>) (sd_skills s)\<rparr>))"

definition deprecateSkill :: "id \<Rightarrow> skills_db \<Rightarrow> (skills_db, unit) outcome" where
  "deprecateSkill i s =
     (case tbl_get i (sd_skills s) of
        None \<Rightarrow> (Inl (NotFoundError ''Skill not found''), s)
      | Some r \<Rightarrow>
          (if sk_status r = SkillDEPRECATED then (Inl (BadRequestError ''Skill already deprecated''), s)
           else (Inr (), s\<lparr>sd_skills := tbl_update i (\<lambda>r. r\<lparr>sk_status := SkillDEPRECATED\<rparr>) (sd_skills s)\<rparr>)))"

definition listSkills :: "id option \<Rightarrow> string option \<Rightarrow> skill_status option \<Rightarrow> skills_db \<Rightarrow> (id \<times> skill_row) list" where
  "listSkills company category status s =
     sort_key (\<lambda>(i, r). sk_name r)
       (tbl_all (\<lambda>i r. (company = None \<or> company = Some (sk_companyId r)) \<and> (category = None \<or> category = sk_category r)
          \<and> sk_status r = (case status of None \<Rightarrow> SkillACTIVE | Some x \<Rightarrow> x)) (sd_skills s))"

definition getSkill :: "id \<Rightarrow> skills_db \<Rightarrow> app_error + skill_row" where
  "getSkill i s = (case tbl_get i (sd_skills s) of None \<Rightarrow> Inl (NotFoundError ''Skill not found'') | Some r \<Rightarrow> Inr r)"

section \<open>Levels\<close>

definition find_level :: "id \<Rightarrow> id \<Rightarrow> skills_db \<Rightarrow> (id \<times> employee_skill_row) option" where
  "find_level employeeId skillId s = tbl_find (\<lambda>i r. ek_employeeId r = employeeId \<and> ek_skillId r = skillId) (sd_levels s)"

text \<open>A changed level resets a validation; a dispute stays as it is.\<close>

definition selfAssess :: "id \<Rightarrow> id \<Rightarrow> id \<Rightarrow> int \<Rightarrow> skills_db \<Rightarrow> (skills_db, id) outcome" where
  "selfAssess newId employeeId skillId level s =
     (case tbl_get_where skillId (\<lambda>r. sk_status r = SkillACTIVE) (sd_skills s) of
        None \<Rightarrow> (Inl (NotFoundError ''Skill not found or not active''), s)
      | Some _ \<Rightarrow>
          (case find_level employeeId skillId s of
             None \<Rightarrow>
               (if \<not> fresh newId (sd_levels s) then (Inl (DatabaseError ''employee_skills_pkey''), s)
                else (Inr newId, s\<lparr>sd_levels := tbl_insert newId
                       \<lparr>ek_employeeId = employeeId, ek_skillId = skillId, ek_selfLevel = level, ek_managerLevel = None,
                        ek_status = ValPENDING, ek_validatedById = None, ek_validatedAt = None\<rparr> (sd_levels s)\<rparr>))
           | Some (i, r) \<Rightarrow>
               (if ek_status r = ValVALIDATED \<and> ek_selfLevel r \<noteq> level
                then (Inr i, s\<lparr>sd_levels := tbl_update i (\<lambda>r. r\<lparr>ek_selfLevel := level, ek_managerLevel := None,
                       ek_status := ValPENDING, ek_validatedById := None, ek_validatedAt := None\<rparr>) (sd_levels s)\<rparr>)
                else (Inr i, s\<lparr>sd_levels := tbl_update i (\<lambda>r. r\<lparr>ek_selfLevel := level\<rparr>) (sd_levels s)\<rparr>))))"

definition managerValidate :: "instant \<Rightarrow> id \<Rightarrow> int \<Rightarrow> id \<Rightarrow> int \<Rightarrow> skills_db \<Rightarrow> (skills_db, unit) outcome" where
  "managerValidate now i validatedLevel actorId disputeThreshold s =
     (case tbl_get i (sd_levels s) of
        None \<Rightarrow> (Inl (NotFoundError ''Employee skill not found''), s)
      | Some r \<Rightarrow>
          (let status = (if \<bar>validatedLevel - ek_selfLevel r\<bar> > disputeThreshold then ValDISPUTED else ValVALIDATED)
           in (Inr (), s\<lparr>sd_levels := tbl_update i (\<lambda>r. r\<lparr>ek_managerLevel := Some validatedLevel, ek_status := status,
                           ek_validatedById := Some actorId, ek_validatedAt := Some now\<rparr>) (sd_levels s),
                         sd_events := (if status = ValDISPUTED then sd_events s @ [(''skill.disputed'', i)] else sd_events s)\<rparr>)))"

text \<open>Only the category narrows the matrix: company and department of the filter are not used.\<close>

definition getSkillsMatrix :: "id option \<Rightarrow> id option \<Rightarrow> string option \<Rightarrow> skills_db \<Rightarrow> (id \<times> skill_row) list \<times> (id \<times> employee_skill_row) list" where
  "getSkillsMatrix company department category s =
     (let skills = tbl_all (\<lambda>i r. (category = None \<or> category = Some [] \<or> category = sk_category r) \<and> sk_status r = SkillACTIVE) (sd_skills s)
      in (skills, sort_key (\<lambda>(i, r). ek_employeeId r) (tbl_all (\<lambda>i r. ek_skillId r \<in> set (map fst skills)) (sd_levels s))))"

text \<open>The missing levels by employee and skill, from the validated level or else the own one.\<close>

definition actual_level :: "employee_skill_row \<Rightarrow> int" where
  "actual_level r = (case ek_managerLevel r of None \<Rightarrow> ek_selfLevel r | Some l \<Rightarrow> l)"

definition getGapAnalysis :: "id option \<Rightarrow> (id \<times> int) list \<Rightarrow> skills_db \<Rightarrow> app_error + (id \<times> id \<times> int) list" where
  "getGapAnalysis targetRoleId required s =
     (if targetRoleId \<noteq> None \<and> targetRoleId \<noteq> Some []
      then Inl (BadRequestError ''Role-based skill requirements not yet implemented'')
      else Inr (map (\<lambda>(i, r). (ek_employeeId r, ek_skillId r, (case map_of required (ek_skillId r) of None \<Rightarrow> 0 | Some n \<Rightarrow> n) - actual_level r))
       (tbl_all (\<lambda>i r. ek_skillId r \<in> set (map fst required)) (sd_levels s))))"

definition levels_of :: "id \<Rightarrow> skills_db \<Rightarrow> (id \<times> employee_skill_row) list" where
  "levels_of employeeId s = tbl_all (\<lambda>i r. ek_employeeId r = employeeId) (sd_levels s)"

section \<open>What a validated level says\<close>

datatype skill_call =
    SelfAssess id id id int
  | ManagerValidate instant id int id int
  | CreateSkill id skill_dto
  | UpdateSkill id "string option" "string option"
  | DeprecateSkill id

fun skill_step :: "skill_call \<Rightarrow> skills_db \<Rightarrow> skills_db" where
  "skill_step (SelfAssess n e k l) s = snd (selfAssess n e k l s)"
| "skill_step (ManagerValidate now i l u d) s = snd (managerValidate now i l u d s)"
| "skill_step (CreateSkill n dto) s = snd (createSkill n dto s)"
| "skill_step (UpdateSkill i n c) s = snd (updateSkill i n c s)"
| "skill_step (DeprecateSkill i) s = snd (deprecateSkill i s)"

definition threshold_at_most :: "int \<Rightarrow> skill_call \<Rightarrow> bool" where
  "threshold_at_most d c \<longleftrightarrow> (case c of ManagerValidate now i l u t \<Rightarrow> t \<le> d | _ \<Rightarrow> True)"

definition level_ok :: "int \<Rightarrow> employee_skill_row \<Rightarrow> bool" where
  "level_ok d r \<longleftrightarrow>
     (ek_status r = ValVALIDATED \<longrightarrow> (\<exists>l. ek_managerLevel r = Some l \<and> \<bar>l - ek_selfLevel r\<bar> \<le> d))
     \<and> (ek_status r = ValPENDING \<longrightarrow> ek_managerLevel r = None)"

definition levels_ok :: "int \<Rightarrow> skills_db \<Rightarrow> bool" where
  "levels_ok d s \<longleftrightarrow> (\<forall>(i, r) \<in> set (sd_levels s). level_ok d r)
     \<and> distinct (tbl_ids (sd_levels s))
     \<and> (\<forall>(i, r) \<in> set (sd_levels s). \<forall>(j, q) \<in> set (sd_levels s).
          ek_employeeId r = ek_employeeId q \<and> ek_skillId r = ek_skillId q \<longrightarrow> i = j)"

lemma levels_ok_update:
  assumes "levels_ok d s" and "\<And>r. tbl_get i (sd_levels s) = Some r \<Longrightarrow> level_ok d (f r)"
    and "\<And>r. ek_employeeId (f r) = ek_employeeId r \<and> ek_skillId (f r) = ek_skillId r"
    and "sd_levels t = tbl_update i f (sd_levels s)"
  shows "levels_ok d t"
proof -
  have prior: "\<exists>r. (j, r) \<in> set (sd_levels s) \<and> q = (if j = i then f r else r)" if "(j, q) \<in> set (sd_levels t)" for j q
    using that unfolding assms(4) set_tbl_update by auto
  have get: "(j, r) \<in> set (sd_levels s) \<Longrightarrow> tbl_get j (sd_levels s) = Some r" for j r
    using assms(1) by (auto simp: levels_ok_def tbl_get_def tbl_ids_def)
  have "level_ok d q" if "(j, q) \<in> set (sd_levels t)" for j q
    using prior[OF that] get assms(1,2) by (auto simp: levels_ok_def split: if_splits)
  moreover have "j = k" if jq: "(j, q) \<in> set (sd_levels t)" "(k, p) \<in> set (sd_levels t)" "ek_employeeId q = ek_employeeId p" "ek_skillId q = ek_skillId p" for j q k p
  proof -
    obtain q0 p0 where "(j, q0) \<in> set (sd_levels s)" "ek_employeeId q0 = ek_employeeId q" "ek_skillId q0 = ek_skillId q"
      "(k, p0) \<in> set (sd_levels s)" "ek_employeeId p0 = ek_employeeId p" "ek_skillId p0 = ek_skillId p"
      using prior[OF jq(1)] prior[OF jq(2)] assms(3) by (metis (full_types))
    then show ?thesis using assms(1) jq(3,4) unfolding levels_ok_def by fastforce
  qed
  ultimately show ?thesis using assms(1,4) unfolding levels_ok_def by fastforce
qed

lemma levels_ok_step:
  assumes "levels_ok d s" and "threshold_at_most d c"
  shows "levels_ok d (skill_step c s)"
proof (cases c)
  case (SelfAssess n e k l)
  let ?t = "snd (selfAssess n e k l s)"
  show ?thesis
  proof (cases "find_level e k s")
    case None
    then have other: "(j, q) \<in> set (sd_levels s) \<Longrightarrow> ek_employeeId q = e \<Longrightarrow> ek_skillId q \<noteq> k" for j q
      by (auto simp: find_level_def tbl_find_None)
    show ?thesis
    proof (cases "sd_levels ?t = sd_levels s")
      case True
      then show ?thesis using assms(1) by (simp add: SelfAssess levels_ok_def)
    next
      case False
      then obtain r where t: "sd_levels ?t = sd_levels s @ [(n, r)]" "fresh n (sd_levels s)" "level_ok d r"
        "ek_employeeId r = e" "ek_skillId r = k"
        using None by (auto simp: selfAssess_def tbl_insert_def level_ok_def split: option.splits if_splits)
      show ?thesis unfolding SelfAssess skill_step.simps levels_ok_def t(1)
        using assms(1) t(2-5) other by (fastforce simp: levels_ok_def fresh_def tbl_ids_def)
    qed
  next
    case (Some ir)
    then obtain i r where ir: "ir = (i, r)" "(i, r) \<in> set (sd_levels s)" by (cases ir) (auto simp: find_level_def dest: tbl_find_Some)
    then have get: "tbl_get i (sd_levels s) = Some r" using assms(1) by (auto simp: levels_ok_def tbl_get_def tbl_ids_def)
    have r: "level_ok d r" using assms(1) ir by (auto simp: levels_ok_def)
    let ?reset = "\<lambda>r. r\<lparr>ek_selfLevel := l, ek_managerLevel := None, ek_status := ValPENDING, ek_validatedById := None, ek_validatedAt := None\<rparr>"
    consider "?t = s" | "sd_levels ?t = tbl_update i ?reset (sd_levels s)"
      | "sd_levels ?t = tbl_update i (\<lambda>r. r\<lparr>ek_selfLevel := l\<rparr>) (sd_levels s)" "\<not> (ek_status r = ValVALIDATED \<and> ek_selfLevel r \<noteq> l)"
      using Some ir
      by (cases "tbl_get_where k (\<lambda>r. sk_status r = SkillACTIVE) (sd_skills s)"; cases "ek_status r = ValVALIDATED \<and> ek_selfLevel r \<noteq> l")
        (simp_all add: selfAssess_def)
    then show ?thesis
    proof cases
      case 1
      then show ?thesis using assms(1) by (simp add: SelfAssess)
    next
      case 2
      then show ?thesis unfolding SelfAssess skill_step.simps by (rule levels_ok_update[OF assms(1), rotated 2]) (auto simp: level_ok_def)
    next
      case 3
      show ?thesis unfolding SelfAssess skill_step.simps
        by (rule levels_ok_update[OF assms(1) _ _ 3(1)]) (use get r 3(2) in \<open>auto simp: level_ok_def\<close>)
    qed
  qed
next
  case (ManagerValidate now i l u t)
  show ?thesis
  proof (cases "tbl_get i (sd_levels s)")
    case (Some r)
    show ?thesis unfolding ManagerValidate skill_step.simps
      by (rule levels_ok_update[OF assms(1), where i = i and f = "\<lambda>x. x\<lparr>ek_managerLevel := Some l,
            ek_status := (if \<bar>l - ek_selfLevel r\<bar> > t then ValDISPUTED else ValVALIDATED), ek_validatedById := Some u, ek_validatedAt := Some now\<rparr>"])
        (use Some assms(2) in \<open>auto simp: managerValidate_def Let_def level_ok_def threshold_at_most_def ManagerValidate\<close>)
  qed (use assms(1) in \<open>simp add: ManagerValidate managerValidate_def\<close>)
qed (use assms(1) in \<open>auto simp: levels_ok_def createSkill_def updateSkill_def deprecateSkill_def split: option.splits if_splits\<close>)

text \<open>
  A level marked as validated is always one the manager confirmed within the dispute threshold of the
  employee's present own level, and an employee has one level per skill, through any sequence of
  assessments, validations and changes of the taxonomy.
\<close>

lemma validated_level_is_confirmed:
  assumes "sd_levels s = []" and "t = fold skill_step calls s" and "\<forall>c \<in> set calls. threshold_at_most d c"
  shows "(\<forall>(i, r) \<in> set (sd_levels t). ek_status r = ValVALIDATED \<longrightarrow> (\<exists>l. ek_managerLevel r = Some l \<and> \<bar>l - ek_selfLevel r\<bar> \<le> d))
    \<and> (\<forall>(i, r) \<in> set (sd_levels t). \<forall>(j, q) \<in> set (sd_levels t).
          ek_employeeId r = ek_employeeId q \<and> ek_skillId r = ek_skillId q \<longrightarrow> i = j)"
proof -
  have "levels_ok d s" using assms(1) by (simp add: levels_ok_def tbl_ids_def)
  then have "levels_ok d t" using assms(3) unfolding assms(2)
    by (induction calls arbitrary: s) (simp_all add: levels_ok_step)
  then show ?thesis by (auto simp: levels_ok_def level_ok_def)
qed

definition skill_office :: skills_db where
  "skill_office = \<lparr>sd_skills = [(''k'', \<lparr>sk_companyId = ''co'', sk_name = ''SQL'', sk_category = None, sk_parentSkillId = None,
     sk_status = SkillACTIVE\<rparr>)], sd_levels = [], sd_events = []\<rparr>"

end
