(* ===== verification/Learning.thy ===== *)
theory Learning
  imports Skills
begin

text \<open>
  Learning: \<^verbatim>\<open>lms/services\<close> and \<^verbatim>\<open>lms/processors\<close>. Courses with their skills,
  enrolments and their progress, learning paths whose courses are locked one behind the other, and the
  assignment of a course to many employees.
\<close>

section \<open>Tables\<close>

datatype course_format = SELF_PACED | INSTRUCTOR_LED | EXTERNAL_LINK

datatype course_status = CourseDRAFT | CoursePUBLISHED | CourseARCHIVED

datatype enrollment_status = NOT_STARTED | EnrIN_PROGRESS | EnrCOMPLETED | EnrEXPIRED

datatype path_status = PathDRAFT | PathPUBLISHED | PathARCHIVED

datatype scope_type = ScopeDEPARTMENT | ScopeROLE | ScopeEMPLOYEE | ScopeORG_WIDE

record course_row =
  co_companyId :: id
  co_title :: string
  co_description :: "string option"
  co_thumbnailKey :: "string option"
  co_format :: course_format
  co_externalUrl :: "string option"
  co_durationMinutes :: int
  co_status :: course_status
  co_isMandatory :: bool
  co_createdById :: id
  co_createdAt :: instant

record enrollment_row =
  en_courseId :: id
  en_employeeId :: id
  en_status :: enrollment_status
  en_progress :: int
  en_startedAt :: "instant option"
  en_completedAt :: "instant option"
  en_certificateKey :: "string option"
  en_assignmentId :: "id option"
  en_createdAt :: instant

record path_row =
  lp_companyId :: id
  lp_title :: string
  lp_description :: "string option"
  lp_status :: path_status
  lp_createdById :: id

record path_course_row =
  pc_pathId :: id
  pc_courseId :: id
  pc_sequenceOrder :: int
  pc_isLocked :: bool

record assignment_row =
  as_companyId :: id
  as_targetId :: id
  as_scopeType :: scope_type
  as_deadlineAt :: instant
  as_isMandatory :: bool
  as_reminderDays :: "int list"
  as_assignedById :: id

text \<open>The tags of a course are pairs of course and skill, unique together.\<close>

record lms_db =
  lm_courses :: "course_row table"
  lm_tags :: "(id \<times> id) list"
  lm_skills :: "skill_row table"
  lm_enrollments :: "enrollment_row table"
  lm_paths :: "path_row table"
  lm_pathCourses :: "path_course_row table"
  lm_assignments :: "assignment_row table"
  lm_events :: "(string \<times> id) list"
  lm_audit :: "audit_row list"

section \<open>Courses\<close>

record course_dto =
  cd_companyId :: id
  cd_title :: string
  cd_description :: "string option"
  cd_format :: course_format
  cd_externalUrl :: "string option"
  cd_durationMinutes :: int
  cd_isMandatory :: bool
  cd_skillIds :: "id list"
  cd_thumbnailKey :: "string option"
  cd_createdById :: id

text \<open>The number of active skills among the given ones against the length of the list.\<close>

definition skills_active :: "id list \<Rightarrow> lms_db \<Rightarrow> bool" where
  "skills_active ids s \<longleftrightarrow> tbl_count (\<lambda>i r. i \<in> set ids \<and> sk_status r = SkillACTIVE) (lm_skills s) = length ids"

definition createCourse :: "id \<Rightarrow> instant \<Rightarrow> course_dto \<Rightarrow> lms_db \<Rightarrow> (lms_db, id) outcome" where
  "createCourse newId now dto s =
     (if cd_skillIds dto \<noteq> [] \<and> \<not> skills_active (cd_skillIds dto) s
      then (Inl (BadRequestError ''One or more skills not found or not ACTIVE''), s)
      else if \<not> fresh newId (lm_courses s) \<or> \<not> distinct (cd_skillIds dto) then (Inl (DatabaseError ''courses''), s)
      else (Inr newId, s\<lparr>lm_courses := tbl_insert newId
             \<lparr>co_companyId = cd_companyId dto, co_title = cd_title dto, co_description = cd_description dto,
              co_thumbnailKey = cd_thumbnailKey dto, co_format = cd_format dto, co_externalUrl = cd_externalUrl dto,
              co_durationMinutes = cd_durationMinutes dto, co_status = CourseDRAFT, co_isMandatory = cd_isMandatory dto,
              co_createdById = cd_createdById dto, co_createdAt = now\<rparr> (lm_courses s),
             lm_tags := lm_tags s @ map (Pair newId) (cd_skillIds dto)\<rparr>))"

record course_patch =
  cp_title :: "string option"
  cp_description :: "string option"
  cp_format :: "course_format option"
  cp_externalUrl :: "string option"
  cp_durationMinutes :: "int option"
  cp_isMandatory :: "bool option"
  cp_status :: "course_status option"
  cp_thumbnailKey :: "string option"

fun course_transitions :: "course_status \<Rightarrow> course_status list" where
  "course_transitions CourseDRAFT = [CoursePUBLISHED]"
| "course_transitions CoursePUBLISHED = [CourseARCHIVED]"
| "course_transitions CourseARCHIVED = [CourseDRAFT]"

definition keep_or :: "'a \<Rightarrow> 'a option \<Rightarrow> 'a" where
  "keep_or old new = (case new of None \<Rightarrow> old | Some x \<Rightarrow> x)"

definition keep_some :: "'a option \<Rightarrow> 'a option \<Rightarrow> 'a option" where
  "keep_some old new = (if new = None then old else new)"

definition updateCourse :: "id \<Rightarrow> course_patch \<Rightarrow> lms_db \<Rightarrow> (lms_db, unit) outcome" where
  "updateCourse i dto s =
     (case tbl_get i (lm_courses s) of
        None \<Rightarrow> (Inl (NotFoundError ''Course not found''), s)
      | Some c \<Rightarrow>
          (if (case cp_status dto of None \<Rightarrow> False | Some st \<Rightarrow> st \<noteq> co_status c \<and> st \<notin> set (course_transitions (co_status c)))
           then (Inl (BadRequestError ''Cannot transition''), s)
           else (Inr (), s\<lparr>lm_courses := tbl_update i (\<lambda>c. c\<lparr>co_title := keep_or (co_title c) (cp_title dto),
                  co_description := keep_some (co_description c) (cp_description dto), co_format := keep_or (co_format c) (cp_format dto),
                  co_externalUrl := keep_some (co_externalUrl c) (cp_externalUrl dto),
                  co_durationMinutes := keep_or (co_durationMinutes c) (cp_durationMinutes dto),
                  co_isMandatory := keep_or (co_isMandatory c) (cp_isMandatory dto), co_status := keep_or (co_status c) (cp_status dto),
                  co_thumbnailKey := keep_some (co_thumbnailKey c) (cp_thumbnailKey dto)\<rparr>) (lm_courses s)\<rparr>)))"

definition uploadThumbnail :: "id \<Rightarrow> string \<Rightarrow> lms_db \<Rightarrow> (lms_db, unit) outcome" where
  "uploadThumbnail i key s =
     (if fresh i (lm_courses s) then (Inl (NotFoundError ''Course not found''), s)
      else (Inr (), s\<lparr>lm_courses := tbl_update i (\<lambda>c. c\<lparr>co_thumbnailKey := Some key\<rparr>) (lm_courses s)\<rparr>))"

definition tagSkills :: "id \<Rightarrow> id list \<Rightarrow> lms_db \<Rightarrow> (lms_db, unit) outcome" where
  "tagSkills courseId skillIds s =
     (if fresh courseId (lm_courses s) then (Inl (NotFoundError ''Course not found''), s)
      else if \<not> skills_active skillIds s then (Inl (BadRequestError ''One or more skills not found or not ACTIVE''), s)
      else if \<not> distinct skillIds then (Inl (DatabaseError ''course_skill_tags_courseId_skillId_key''), s)
      else (Inr (), s\<lparr>lm_tags := filter (\<lambda>(c, k). c \<noteq> courseId) (lm_tags s) @ map (Pair courseId) skillIds\<rparr>))"

definition listCourses :: "id option \<Rightarrow> course_status option \<Rightarrow> course_format option \<Rightarrow> lms_db \<Rightarrow> (id \<times> course_row) list" where
  "listCourses company status format s =
     sort_key (\<lambda>(i, c). - co_createdAt c)
       (tbl_all (\<lambda>i c. (company = None \<or> company = Some (co_companyId c)) \<and> (status = None \<or> status = Some (co_status c))
          \<and> (format = None \<or> format = Some (co_format c))) (lm_courses s))"

definition getCourse :: "id \<Rightarrow> lms_db \<Rightarrow> app_error + course_row \<times> id list" where
  "getCourse i s =
     (case tbl_get i (lm_courses s) of
        None \<Rightarrow> Inl (NotFoundError ''Course not found'')
      | Some c \<Rightarrow> Inr (c, map snd (filter (\<lambda>(c, k). c = i) (lm_tags s))))"

section \<open>Progress\<close>

datatype enrollment_action = UPDATE_PROGRESS "int option" | COMPLETE | EXPIRE

text \<open>The last component says that the start is set to now.\<close>

fun computeEnrollmentTransition :: "enrollment_status \<Rightarrow> int \<Rightarrow> enrollment_action \<Rightarrow> (enrollment_status \<times> int \<times> bool) option" where
  "computeEnrollmentTransition status progress action =
     (if status = EnrCOMPLETED \<or> status = EnrEXPIRED then None
      else (case action of
              UPDATE_PROGRESS given \<Rightarrow>
                (let p = (case given of None \<Rightarrow> progress | Some p \<Rightarrow> p)
                 in if p < progress then None
                    else if p = 100 then Some (EnrCOMPLETED, 100, False)
                    else Some (if status = NOT_STARTED then EnrIN_PROGRESS else status, p, status = NOT_STARTED))
            | COMPLETE \<Rightarrow> Some (EnrCOMPLETED, 100, False)
            | EXPIRE \<Rightarrow> Some (EnrEXPIRED, progress, False)))"

definition find_enrollment :: "id \<Rightarrow> id \<Rightarrow> enrollment_row table \<Rightarrow> (id \<times> enrollment_row) option" where
  "find_enrollment courseId employeeId t = tbl_find (\<lambda>i e. en_courseId e = courseId \<and> en_employeeId e = employeeId) t"

definition new_enrollment :: "instant \<Rightarrow> id \<Rightarrow> id \<Rightarrow> id option \<Rightarrow> enrollment_row" where
  "new_enrollment now courseId employeeId assignmentId =
     \<lparr>en_courseId = courseId, en_employeeId = employeeId, en_status = NOT_STARTED, en_progress = 0, en_startedAt = None,
      en_completedAt = None, en_certificateKey = None, en_assignmentId = assignmentId, en_createdAt = now\<rparr>"

text \<open>Whether the courses before a place of its path are completed; only the first place of the course counts.\<close>

definition prerequisites_met :: "id \<Rightarrow> id \<Rightarrow> lms_db \<Rightarrow> bool" where
  "prerequisites_met courseId employeeId s \<longleftrightarrow>
     (case tbl_find (\<lambda>i p. pc_courseId p = courseId) (lm_pathCourses s) of
        None \<Rightarrow> True
      | Some (i, p) \<Rightarrow>
          pc_isLocked p \<and> 1 < pc_sequenceOrder p \<longrightarrow>
            (\<forall>(j, q) \<in> set (tbl_all (\<lambda>j q. pc_pathId q = pc_pathId p \<and> pc_sequenceOrder q < pc_sequenceOrder p) (lm_pathCourses s)).
               (case find_enrollment (pc_courseId q) employeeId (lm_enrollments s) of
                  None \<Rightarrow> False | Some (k, e) \<Rightarrow> en_status e = EnrCOMPLETED)))"

definition enroll :: "id \<Rightarrow> instant \<Rightarrow> id \<Rightarrow> id \<Rightarrow> id option \<Rightarrow> lms_db \<Rightarrow> (lms_db, id) outcome" where
  "enroll newId now courseId employeeId assignmentId s =
     (if find_enrollment courseId employeeId (lm_enrollments s) \<noteq> None then (Inl (ConflictError ''Already enrolled''), s)
      else if \<not> prerequisites_met courseId employeeId s
      then (Inl (BadRequestError ''Prerequisite courses must be completed first''), s)
      else if \<not> fresh newId (lm_enrollments s) \<or> fresh courseId (lm_courses s)
              \<or> (case assignmentId of None \<Rightarrow> False | Some a \<Rightarrow> fresh a (lm_assignments s))
      then (Inl (DatabaseError ''course_enrollments''), s)
      else (Inr newId, s\<lparr>lm_enrollments := tbl_insert newId (new_enrollment now courseId employeeId assignmentId) (lm_enrollments s)\<rparr>))"

definition updateProgress :: "id \<Rightarrow> int \<Rightarrow> instant \<Rightarrow> lms_db \<Rightarrow> (lms_db, unit) outcome" where
  "updateProgress i percent now s =
     (case tbl_get i (lm_enrollments s) of
        None \<Rightarrow> (Inl (NotFoundError ''Enrollment not found''), s)
      | Some e \<Rightarrow>
          (case computeEnrollmentTransition (en_status e) (en_progress e) (UPDATE_PROGRESS (Some percent)) of
             None \<Rightarrow> (Inl (BadRequestError ''Progress must be monotonic and enrollment must be active''), s)
           | Some (status, p, start) \<Rightarrow>
               (Inr (), s\<lparr>lm_enrollments := tbl_update i (\<lambda>e. e\<lparr>en_status := status, en_progress := p,
                  en_startedAt := (if start then Some now else en_startedAt e)\<rparr>) (lm_enrollments s)\<rparr>)))"

definition completeCourse :: "id \<Rightarrow> instant \<Rightarrow> lms_db \<Rightarrow> (lms_db, unit) outcome" where
  "completeCourse i now s =
     (case tbl_get i (lm_enrollments s) of
        None \<Rightarrow> (Inl (NotFoundError ''Enrollment not found''), s)
      | Some e \<Rightarrow>
          (if en_status e = EnrCOMPLETED then (Inl (BadRequestError ''Already completed''), s)
           else (Inr (), s\<lparr>lm_enrollments := tbl_update i (\<lambda>e. e\<lparr>en_status := EnrCOMPLETED, en_progress := 100,
                             en_completedAt := Some now\<rparr>) (lm_enrollments s),
                           lm_events := lm_events s @ [(''course.completed'', i)]\<rparr>)))"

definition getCertificateDownloadUrl :: "id \<Rightarrow> lms_db \<Rightarrow> app_error + string" where
  "getCertificateDownloadUrl i s =
     (case tbl_get i (lm_enrollments s) of
        None \<Rightarrow> Inl (NotFoundError ''Enrollment not found'')
      | Some e \<Rightarrow>
          (case en_certificateKey e of
             None \<Rightarrow> Inl (NotFoundError ''Certificate not yet generated'')
           | Some k \<Rightarrow> (if k = [] then Inl (NotFoundError ''Certificate not yet generated'') else Inr k)))"

definition enrollments_of :: "id \<Rightarrow> lms_db \<Rightarrow> (id \<times> enrollment_row) list" where
  "enrollments_of employeeId s =
     sort_key (\<lambda>(i, e). - en_createdAt e) (tbl_all (\<lambda>i e. en_employeeId e = employeeId) (lm_enrollments s))"

text \<open>The certificate worker.\<close>

definition process_certificate :: "id \<Rightarrow> lms_db \<Rightarrow> lms_db" where
  "process_certificate i s =
     (case tbl_get i (lm_enrollments s) of
        None \<Rightarrow> s
      | Some e \<Rightarrow>
          (if en_certificateKey e \<noteq> None \<and> en_certificateKey e \<noteq> Some [] then s
           else s\<lparr>lm_enrollments := tbl_update i (\<lambda>e. e\<lparr>en_certificateKey := Some (''certificates/'' @ i @ ''.pdf'')\<rparr>) (lm_enrollments s)\<rparr>))"

section \<open>Learning paths\<close>

definition createPath :: "id \<Rightarrow> id \<Rightarrow> string \<Rightarrow> string option \<Rightarrow> id \<Rightarrow> lms_db \<Rightarrow> (lms_db, id) outcome" where
  "createPath newId companyId title description createdById s =
     (if \<not> fresh newId (lm_paths s) then (Inl (DatabaseError ''learning_paths_pkey''), s)
      else (Inr newId, s\<lparr>lm_paths := tbl_insert newId
             \<lparr>lp_companyId = companyId, lp_title = title, lp_description = description, lp_status = PathDRAFT,
              lp_createdById = createdById\<rparr> (lm_paths s)\<rparr>))"

definition updatePath :: "id \<Rightarrow> string option \<Rightarrow> string option \<Rightarrow> lms_db \<Rightarrow> (lms_db, unit) outcome" where
  "updatePath i title description s =
     (if fresh i (lm_paths s) then (Inl (NotFoundError ''Learning path not found''), s)
      else (Inr (), s\<lparr>lm_paths := tbl_update i (\<lambda>p. p\<lparr>lp_title := keep_or (lp_title p) title,
             lp_description := keep_some (lp_description p) description\<rparr>) (lm_paths s)\<rparr>))"

definition path_courses :: "id \<Rightarrow> path_course_row table \<Rightarrow> (id \<times> path_course_row) list" where
  "path_courses i t = tbl_all (\<lambda>j p. pc_pathId p = i) t"

definition publishPath :: "id \<Rightarrow> lms_db \<Rightarrow> (lms_db, unit) outcome" where
  "publishPath i s =
     (if fresh i (lm_paths s) then (Inl (NotFoundError ''Learning path not found''), s)
      else if path_courses i (lm_pathCourses s) = [] then (Inl (BadRequestError ''Must have at least one course to publish''), s)
      else (Inr (), s\<lparr>lm_paths := tbl_update i (\<lambda>p. p\<lparr>lp_status := PathPUBLISHED\<rparr>) (lm_paths s)\<rparr>))"

text \<open>A position is used once in a path; every statement checks it.\<close>

definition positions_unique :: "id \<Rightarrow> path_course_row table \<Rightarrow> bool" where
  "positions_unique i t \<longleftrightarrow> distinct (map (\<lambda>(j, p). pc_sequenceOrder p) (path_courses i t))"

definition addCourseToSequence :: "id \<Rightarrow> id \<Rightarrow> id \<Rightarrow> int \<Rightarrow> lms_db \<Rightarrow> (lms_db, id) outcome" where
  "addCourseToSequence newId pathId courseId order s =
     (if fresh pathId (lm_paths s) then (Inl (NotFoundError ''Learning path not found''), s)
      else if fresh courseId (lm_courses s) then (Inl (NotFoundError ''Course not found''), s)
      else (let t = tbl_insert newId \<lparr>pc_pathId = pathId, pc_courseId = courseId, pc_sequenceOrder = order, pc_isLocked = True\<rparr> (lm_pathCourses s)
            in if \<not> fresh newId (lm_pathCourses s) \<or> \<not> positions_unique pathId t
               then (Inl (DatabaseError ''learning_path_courses_learningPathId_sequenceOrder_key''), s)
               else (Inr newId, s\<lparr>lm_pathCourses := t\<rparr>)))"

fun reorder_courses :: "id \<Rightarrow> int \<Rightarrow> id list \<Rightarrow> path_course_row table \<Rightarrow> path_course_row table option" where
  "reorder_courses path n [] t = Some t"
| "reorder_courses path n (c # cs) t =
     (let t' = tbl_update_many (\<lambda>i p. pc_pathId p = path \<and> pc_courseId p = c) (\<lambda>p. p\<lparr>pc_sequenceOrder := n\<rparr>) t
      in if positions_unique path t' then reorder_courses path (n + 1) cs t' else None)"

definition reorderSequence :: "id \<Rightarrow> id list \<Rightarrow> lms_db \<Rightarrow> (lms_db, unit) outcome" where
  "reorderSequence pathId orderedCourseIds s =
     (if fresh pathId (lm_paths s) then (Inl (NotFoundError ''Learning path not found''), s)
      else case reorder_courses pathId 1 orderedCourseIds (lm_pathCourses s) of
             None \<Rightarrow> (Inl (DatabaseError ''learning_path_courses_learningPathId_sequenceOrder_key''), s)
           | Some t \<Rightarrow> (Inr (), s\<lparr>lm_pathCourses := t\<rparr>))"

definition removeCourseFromSequence :: "id \<Rightarrow> id \<Rightarrow> bool \<Rightarrow> lms_db \<Rightarrow> (lms_db, unit) outcome" where
  "removeCourseFromSequence pathId courseId force s =
     (if fresh pathId (lm_paths s) then (Inl (NotFoundError ''Learning path not found''), s)
      else if \<not> force \<and> tbl_count (\<lambda>i e. en_courseId e = courseId \<and> en_status e \<in> {NOT_STARTED, EnrIN_PROGRESS}) (lm_enrollments s) > 0
      then (Inl (BadRequestError ''Active enrollments exist''), s)
      else (Inr (), s\<lparr>lm_pathCourses := tbl_delete_many (\<lambda>i p. pc_pathId p = pathId \<and> pc_courseId p = courseId) (lm_pathCourses s)\<rparr>))"

definition getPath :: "id \<Rightarrow> lms_db \<Rightarrow> app_error + path_row \<times> (id \<times> path_course_row) list" where
  "getPath i s =
     (case tbl_get i (lm_paths s) of
        None \<Rightarrow> Inl (NotFoundError ''Learning path not found'')
      | Some p \<Rightarrow> Inr (p, sort_key (\<lambda>(j, c). pc_sequenceOrder c) (path_courses i (lm_pathCourses s))))"

definition listPaths :: "id \<Rightarrow> lms_db \<Rightarrow> ((id \<times> path_row) \<times> (id \<times> path_course_row) list) list" where
  "listPaths companyId s =
     map (\<lambda>(i, p). ((i, p), sort_key (\<lambda>(j, c). pc_sequenceOrder c) (path_courses i (lm_pathCourses s))))
       (tbl_all (\<lambda>i p. lp_companyId p = companyId) (lm_paths s))"

section \<open>Assignments\<close>

record assign_dto =
  ag_companyId :: id
  ag_targetId :: id
  ag_scopeType :: scope_type
  ag_employeeIds :: "id list option"
  ag_deadlineAt :: instant
  ag_isMandatory :: bool
  ag_reminderDays :: "int list"
  ag_assignedById :: id

definition resolveEmployeeIds :: "scope_type \<Rightarrow> id list option \<Rightarrow> id list" where
  "resolveEmployeeIds scope ids = (if scope = ScopeORG_WIDE then [] else case ids of None \<Rightarrow> [] | Some xs \<Rightarrow> xs)"

text \<open>\<open>eid\<close> draws the identifier of an employee's enrolment.\<close>

fun assign_batch :: "(id \<Rightarrow> id) \<Rightarrow> instant \<Rightarrow> id \<Rightarrow> id \<Rightarrow> id list \<Rightarrow> lms_db \<Rightarrow> (lms_db, nat) outcome" where
  "assign_batch eid now course a [] s = (Inr 0, s)"
| "assign_batch eid now course a (e # es) s =
     (if find_enrollment course e (lm_enrollments s) \<noteq> None then assign_batch eid now course a es s
      else if \<not> fresh (eid e) (lm_enrollments s) \<or> fresh course (lm_courses s) then (Inl (DatabaseError ''course_enrollments''), s)
      else (case assign_batch eid now course a es
                   (s\<lparr>lm_enrollments := tbl_insert (eid e) (new_enrollment now course e (Some a)) (lm_enrollments s)\<rparr>) of
              (Inl err, t) \<Rightarrow> (Inl err, t) | (Inr n, t) \<Rightarrow> (Inr (n + 1), t)))"

definition assign_tx :: "(id \<Rightarrow> id) \<Rightarrow> instant \<Rightarrow> id \<Rightarrow> assign_dto \<Rightarrow> id list \<Rightarrow> lms_db \<Rightarrow> (lms_db, nat) outcome" where
  "assign_tx eid now a dto batch s =
     (if \<not> fresh a (lm_assignments s) then (Inl (DatabaseError ''training_assignments_pkey''), s)
      else (case assign_batch eid now (ag_targetId dto) a batch
                   (s\<lparr>lm_assignments := tbl_insert a \<lparr>as_companyId = ag_companyId dto, as_targetId = ag_targetId dto,
                      as_scopeType = ag_scopeType dto, as_deadlineAt = ag_deadlineAt dto, as_isMandatory = ag_isMandatory dto,
                      as_reminderDays = ag_reminderDays dto, as_assignedById = ag_assignedById dto\<rparr> (lm_assignments s)\<rparr>) of
              (Inl err, t) \<Rightarrow> (Inl err, t)
            | (Inr n, t) \<Rightarrow> (Inr n, t\<lparr>lm_events := lm_events t @ [(''training.assigned'', a)]\<rparr>)))"

text \<open>Batches of 500, each with an assignment of its own and in a transaction of its own.\<close>

function assign_batches :: "(id \<Rightarrow> id) \<Rightarrow> instant \<Rightarrow> id list \<Rightarrow> assign_dto \<Rightarrow> id list \<Rightarrow> lms_db \<Rightarrow> (lms_db, nat) outcome" where
  "assign_batches eid now as dto xs s =
     (if xs = [] then (Inr 0, s)
      else (case as of
              [] \<Rightarrow> (Inl (DatabaseError ''training_assignments_pkey''), s)
            | a # as' \<Rightarrow>
                (case transaction (assign_tx eid now a dto (take 500 xs)) s of
                   (Inl err, t) \<Rightarrow> (Inl err, t)
                 | (Inr n, t) \<Rightarrow>
                     (case assign_batches eid now as' dto (drop 500 xs) t of
                        (Inl err, u) \<Rightarrow> (Inl err, u) | (Inr m, u) \<Rightarrow> (Inr (n + m), u)))))"
  by pat_completeness auto
termination by (relation "measure (\<lambda>(eid, now, as, dto, xs, s). length xs)") auto

declare assign_batches.simps [simp del]

definition bulkAssign :: "(id \<Rightarrow> id) \<Rightarrow> instant \<Rightarrow> id list \<Rightarrow> assign_dto \<Rightarrow> lms_db \<Rightarrow> (lms_db, nat) outcome" where
  "bulkAssign eid now as dto s =
     (case assign_batches eid now as dto (resolveEmployeeIds (ag_scopeType dto) (ag_employeeIds dto)) s of
        (Inl err, t) \<Rightarrow> (Inl err, t)
      | (Inr n, t) \<Rightarrow>
          (Inr n, if ag_isMandatory dto
                  then t\<lparr>lm_audit := logAsync (entry_of None (ag_companyId dto) ''TrainingAssignment'' (ag_targetId dto)
                           ''MANDATORY_TRAINING_ASSIGNED'' [(''targetId'', JStr (ag_targetId dto)), (''deadlineAt'', JDate (ag_deadlineAt dto)),
                             (''affectedEmployeeCount'', JNum (num_of_int (int n)))]) (lm_audit t)\<rparr>
                  else t))"

definition scheduleDeadlineReminders :: "id \<Rightarrow> lms_db \<Rightarrow> (lms_db, unit) outcome" where
  "scheduleDeadlineReminders i s =
     (case tbl_get i (lm_assignments s) of
        None \<Rightarrow> (Inl (NotFoundError ''Assignment not found''), s)
      | Some a \<Rightarrow> (Inr (), s\<lparr>lm_events := lm_events s @ map (\<lambda>d. (''training.deadline_reminder_scheduled'', i)) (as_reminderDays a)\<rparr>))"

text \<open>Completed, pending and overdue; the last repeats the second.\<close>

definition getComplianceStatus :: "id \<Rightarrow> lms_db \<Rightarrow> app_error + nat \<times> nat \<times> nat" where
  "getComplianceStatus i s =
     (if fresh i (lm_assignments s) then Inl (NotFoundError ''Assignment not found'')
      else (let waiting = tbl_count (\<lambda>j e. en_assignmentId e = Some i \<and> en_status e \<in> {NOT_STARTED, EnrIN_PROGRESS}) (lm_enrollments s)
            in Inr (tbl_count (\<lambda>j e. en_assignmentId e = Some i \<and> en_status e = EnrCOMPLETED) (lm_enrollments s), waiting, waiting)))"

text \<open>The reminder worker: those of the given employees who are enrolled and not done.\<close>

definition processDelayedReminder :: "id \<Rightarrow> id list \<Rightarrow> lms_db \<Rightarrow> lms_db" where
  "processDelayedReminder assignmentId employeeIds s =
     (let due = filter (\<lambda>emp. case tbl_find (\<lambda>i e. en_assignmentId e = Some assignmentId \<and> en_employeeId e = emp) (lm_enrollments s) of
                     None \<Rightarrow> False | Some (i, e) \<Rightarrow> en_status e \<noteq> EnrCOMPLETED) employeeIds
      in s\<lparr>lm_events := lm_events s @ map (Pair ''training.deadline_reminder.sent'') due\<rparr>)"

section \<open>Reordering a path\<close>

text \<open>The position of a course of a path.\<close>

definition position :: "id \<Rightarrow> path_course_row table \<Rightarrow> id \<Rightarrow> int" where
  "position path t c =
     (case tbl_find (\<lambda>i p. pc_pathId p = path \<and> pc_courseId p = c) t of None \<Rightarrow> 0 | Some (i, p) \<Rightarrow> pc_sequenceOrder p)"

text \<open>The courses of the path are different, and so are their positions and the keys of the rows.\<close>

definition path_ok :: "id \<Rightarrow> path_course_row table \<Rightarrow> bool" where
  "path_ok path t \<longleftrightarrow> distinct (tbl_ids t) \<and> positions_unique path t
     \<and> (\<forall>(i, p) \<in> set t. \<forall>(j, q) \<in> set t. pc_pathId p = path \<and> pc_pathId q = path \<and> pc_courseId p = pc_courseId q \<longrightarrow> i = j)"

definition in_path :: "id \<Rightarrow> path_course_row table \<Rightarrow> id \<Rightarrow> bool" where
  "in_path path t c \<longleftrightarrow> (\<exists>(i, p) \<in> set t. pc_pathId p = path \<and> pc_courseId p = c)"

lemma position_row:
  assumes "path_ok path t" and "(i, p) \<in> set t" "pc_pathId p = path" "pc_courseId p = c"
  shows "position path t c = pc_sequenceOrder p"
proof -
  obtain j q where jq: "tbl_find (\<lambda>i p. pc_pathId p = path \<and> pc_courseId p = c) t = Some (j, q)"
    using assms(2-4) by (cases "tbl_find (\<lambda>i p. pc_pathId p = path \<and> pc_courseId p = c) t") (auto simp: tbl_find_None)
  from tbl_find_Some[OF jq] have q: "(j, q) \<in> set t" "pc_pathId q = path" "pc_courseId q = c" by auto
  then have "i = j" using assms unfolding path_ok_def by fastforce
  then have "p = q" using q(1) assms(1,2) unfolding path_ok_def tbl_ids_def by (metis eq_key_imp_eq_value)
  then show ?thesis using jq by (simp add: position_def)
qed

lemma update_many_same: "(\<And>i r. (i, r) \<in> set t \<Longrightarrow> P i r \<Longrightarrow> f r = r) \<Longrightarrow> tbl_update_many P f t = t"
  unfolding tbl_update_many_def by (rule map_idI) auto

lemma positions_unique_inj:
  assumes "positions_unique path t" "(i, p) \<in> set t" "(j, q) \<in> set t" "pc_pathId p = path" "pc_pathId q = path"
    and "pc_sequenceOrder p = pc_sequenceOrder q"
  shows "i = j"
  using assms unfolding positions_unique_def path_courses_def tbl_all_def distinct_map inj_on_def by fastforce

text \<open>One step: the course must stand at its place already, for every other place of the rest is taken.\<close>

lemma reorder_step:
  assumes ok: "path_ok path t" and c: "in_path path t c"
    and taken: "position path t c \<noteq> n \<Longrightarrow> \<exists>d. d \<noteq> c \<and> in_path path t d \<and> position path t d = n"
  shows "reorder_courses path n (c # cs) t = (if position path t c = n then reorder_courses path (n + 1) cs t else None)"
proof -
  let ?P = "\<lambda>i p. pc_pathId p = path \<and> pc_courseId p = c" and ?f = "\<lambda>p. p\<lparr>pc_sequenceOrder := n\<rparr>"
  let ?t = "tbl_update_many ?P ?f t"
  show ?thesis
  proof (cases "position path t c = n")
    case True
    have "?t = t" by (rule update_many_same) (use position_row[OF ok] True in auto)
    then show ?thesis using True ok by (simp add: path_ok_def Let_def)
  next
    case False
    then obtain d where d: "d \<noteq> c" "in_path path t d" "position path t d = n" using taken by blast
    then obtain j q where q: "(j, q) \<in> set t" "pc_pathId q = path" "pc_courseId q = d" unfolding in_path_def by auto
    then have "pc_sequenceOrder q = n" using position_row[OF ok] d by auto
    obtain i p where p: "(i, p) \<in> set t" "pc_pathId p = path" "pc_courseId p = c" using c unfolding in_path_def by auto
    have "(i, ?f p) \<in> set ?t" unfolding set_tbl_update_many by (intro exI[of _ i] exI[of _ p]) (simp add: p)
    moreover have "(j, q) \<in> set ?t" unfolding set_tbl_update_many by (intro exI[of _ j] exI[of _ q]) (simp add: q d)
    moreover have "i \<noteq> j"
    proof
      assume "i = j"
      then have "p = q" using p(1) q(1) ok unfolding path_ok_def tbl_ids_def by (metis eq_key_imp_eq_value)
      then show False using p(3) q(3) d(1) by simp
    qed
    ultimately have "\<not> positions_unique path ?t"
      using positions_unique_inj[of path ?t i "?f p" j q] p q \<open>pc_sequenceOrder q = n\<close> by auto
    then show ?thesis using False by (simp add: Let_def)
  qed
qed

lemma reorder_rest:
  assumes "path_ok path t" and "distinct cs" and "\<forall>c \<in> set cs. in_path path t c"
    and "position path t ` set cs = {n..<n + int (length cs)}"
  shows "reorder_courses path n cs t = (if map (position path t) cs = [n..n + int (length cs) - 1] then Some t else None)"
  using assms
proof (induction cs arbitrary: n)
  case (Cons c cs)
  have upto: "[n..n + int (length (c # cs)) - 1] = n # [n + 1..n + int (length (c # cs)) - 1]" by (simp add: upto_rec1)
  have taken: "\<exists>d. d \<noteq> c \<and> in_path path t d \<and> position path t d = n" if "position path t c \<noteq> n"
  proof -
    have "n \<in> position path t ` set (c # cs)" using Cons.prems(4) by simp
    then obtain d where "d \<in> set (c # cs)" "position path t d = n" by auto
    then show ?thesis using that Cons.prems(3) by auto
  qed
  note step = reorder_step[OF Cons.prems(1) _ taken, of cs]
  show ?case
  proof (cases "position path t c = n")
    case True
    have "inj_on (position path t) (set (c # cs))"
      by (rule eq_card_imp_inj_on) (use Cons.prems(2,4) in \<open>simp_all add: distinct_card\<close>)
    then have "position path t ` set cs = position path t ` set (c # cs) - {n}"
      using Cons.prems(2) True by (auto simp: inj_on_def)
    also have "\<dots> = {n + 1..<n + 1 + int (length cs)}" using Cons.prems(4) by auto
    finally have "reorder_courses path (n + 1) cs t
        = (if map (position path t) cs = [n + 1..n + 1 + int (length cs) - 1] then Some t else None)"
      using Cons.prems(1-3) by (intro Cons.IH) auto
    then show ?thesis using step True Cons.prems(3) unfolding upto by (simp add: algebra_simps)
  next
    case False
    then show ?thesis using step Cons.prems(3) unfolding upto by simp
  qed
qed simp

text \<open>
  A learning path cannot be reordered: when its courses stand at the positions 1 to n, giving them in any
  other order fails on the unique position of the first course that moves, and the only order that is
  accepted is the present one, which changes nothing.
\<close>

lemma learning_path_order_is_fixed:
  assumes "path_ok path (lm_pathCourses s)" and "\<not> fresh path (lm_paths s)" and "distinct cs"
    and "\<forall>c \<in> set cs. in_path path (lm_pathCourses s) c"
    and "position path (lm_pathCourses s) ` set cs = {1..int (length cs)}"
  shows "snd (reorderSequence path cs s) = s
    \<and> (fst (reorderSequence path cs s) = Inr () \<longleftrightarrow> map (position path (lm_pathCourses s)) cs = [1..int (length cs)])"
proof -
  have "position path (lm_pathCourses s) ` set cs = {1..<1 + int (length cs)}" using assms(5) by auto
  from reorder_rest[OF assms(1,3,4) this] show ?thesis using assms(2) by (simp add: reorderSequence_def)
qed

definition two_course_path :: lms_db where
  "two_course_path =
     \<lparr>lm_courses = [], lm_tags = [], lm_skills = [], lm_enrollments = [],
      lm_paths = [(''p'', \<lparr>lp_companyId = ''co'', lp_title = ''Start'', lp_description = None, lp_status = PathDRAFT, lp_createdById = ''u''\<rparr>)],
      lm_pathCourses = [(''x'', \<lparr>pc_pathId = ''p'', pc_courseId = ''c1'', pc_sequenceOrder = 1, pc_isLocked = True\<rparr>),
        (''y'', \<lparr>pc_pathId = ''p'', pc_courseId = ''c2'', pc_sequenceOrder = 2, pc_isLocked = True\<rparr>)],
      lm_assignments = [], lm_events = [], lm_audit = []\<rparr>"

section \<open>Assigning a course\<close>

definition enrolled :: "id \<Rightarrow> lms_db \<Rightarrow> id set" where
  "enrolled course s = {e. find_enrollment course e (lm_enrollments s) \<noteq> None}"

text \<open>The step from \<open>s\<close> to \<open>t\<close> enrols exactly those of \<open>es\<close> who are not yet.\<close>

definition enrols :: "id \<Rightarrow> id list \<Rightarrow> nat \<Rightarrow> lms_db \<Rightarrow> lms_db \<Rightarrow> bool" where
  "enrols course es n s t \<longleftrightarrow>
     (\<exists>new. lm_enrollments t = lm_enrollments s @ new \<and> length new = n \<and> distinct (map (\<lambda>(i, e). en_employeeId e) new)
        \<and> set (map (\<lambda>(i, e). en_employeeId e) new) = set es - enrolled course s
        \<and> (\<forall>(i, e) \<in> set new. en_courseId e = course \<and> en_status e = NOT_STARTED))"

lemma enrolled_mem: "x \<in> enrolled course s \<longleftrightarrow> (\<exists>i e. (i, e) \<in> set (lm_enrollments s) \<and> en_courseId e = course \<and> en_employeeId e = x)"
  by (force simp: enrolled_def find_enrollment_def tbl_find_None)

lemma enrolled_append:
  "lm_enrollments t = lm_enrollments s @ new \<Longrightarrow> \<forall>(i, e) \<in> set new. en_courseId e = course
    \<Longrightarrow> enrolled course t = enrolled course s \<union> set (map (\<lambda>(i, e). en_employeeId e) new)"
proof -
  assume t: "lm_enrollments t = lm_enrollments s @ new" and c: "\<forall>(i, e) \<in> set new. en_courseId e = course"
  have "x \<in> set (map (\<lambda>(i, e). en_employeeId e) new) \<longleftrightarrow> (\<exists>i e. (i, e) \<in> set new \<and> en_employeeId e = x)" for x by force
  then show ?thesis using c unfolding set_eq_iff Un_iff enrolled_mem t set_append by blast
qed

lemma enrols_append:
  assumes "enrols course es n s t" and "enrols course fs m t u"
  shows "enrols course (es @ fs) (n + m) s u"
proof -
  from assms(1) obtain new where new: "lm_enrollments t = lm_enrollments s @ new" "length new = n"
    "distinct (map (\<lambda>(i, e). en_employeeId e) new)" "set (map (\<lambda>(i, e). en_employeeId e) new) = set es - enrolled course s"
    "\<forall>(i, e) \<in> set new. en_courseId e = course \<and> en_status e = NOT_STARTED" unfolding enrols_def by blast
  from assms(2) obtain add where add: "lm_enrollments u = lm_enrollments t @ add" "length add = m"
    "distinct (map (\<lambda>(i, e). en_employeeId e) add)" "set (map (\<lambda>(i, e). en_employeeId e) add) = set fs - enrolled course t"
    "\<forall>(i, e) \<in> set add. en_courseId e = course \<and> en_status e = NOT_STARTED" unfolding enrols_def by blast
  have "\<forall>(i, e) \<in> set new. en_courseId e = course" using new(5) by auto
  then have t: "enrolled course t = enrolled course s \<union> (set es - enrolled course s)"
    using enrolled_append[OF new(1)] new(4) by simp
  show ?thesis unfolding enrols_def
    by (rule exI[of _ "new @ add"]) (use new add t in \<open>auto simp: Int_def\<close>)
qed

lemma enrols_frame: "enrols course es n s t \<Longrightarrow> lm_enrollments t' = lm_enrollments t \<Longrightarrow> lm_enrollments s' = lm_enrollments s \<Longrightarrow> enrols course es n s' t'"
  by (simp add: enrols_def enrolled_def)

lemma assign_batch_enrols: "assign_batch eid now course a es s = (Inr n, t) \<Longrightarrow> enrols course es n s t"
proof (induction es arbitrary: s n t)
  case Nil
  then show ?case by (simp add: enrols_def)
next
  case (Cons e es)
  show ?case
  proof (cases "find_enrollment course e (lm_enrollments s) = None")
    case False
    then have "enrols course es n s t" using Cons by simp
    moreover have "e \<in> enrolled course s" using False by (simp add: enrolled_def)
    ultimately show ?thesis by (simp add: enrols_def insert_Diff_if)
  next
    case True
    let ?s = "s\<lparr>lm_enrollments := tbl_insert (eid e) (new_enrollment now course e (Some a)) (lm_enrollments s)\<rparr>"
    from True Cons.prems obtain m where m: "assign_batch eid now course a es ?s = (Inr m, t)" "n = 1 + m"
      by (auto split: if_splits prod.splits sum.splits)
    have "enrols course [e] 1 s ?s" unfolding enrols_def
      using True by (intro exI[of _ "[(eid e, new_enrollment now course e (Some a))]"])
        (auto simp: tbl_insert_def new_enrollment_def enrolled_def)
    from enrols_append[OF this Cons.IH[OF m(1)]] m(2) show ?thesis by simp
  qed
qed

lemma assign_batches_enrol:
  "assign_batches eid now as dto xs s = (Inr n, t) \<Longrightarrow> enrols (ag_targetId dto) xs n s t"
proof (induction eid now "as" dto xs s arbitrary: n t rule: assign_batches.induct)
  case (1 eid now as' dto xs s)
  show ?case
  proof (cases "xs = []")
    case True
    then show ?thesis using 1(2) by (simp add: assign_batches.simps enrols_def)
  next
    case False
    then obtain a rest where as': "as' = a # rest" using 1(2) by (cases as') (auto simp: assign_batches.simps)
    from 1(2) have eq: "(case transaction (assign_tx eid now a dto (take 500 xs)) s of
        (Inl err, u) \<Rightarrow> (Inl err, u)
      | (Inr k, u) \<Rightarrow> (case assign_batches eid now rest dto (drop 500 xs) u of
          (Inl err, v) \<Rightarrow> (Inl err, v) | (Inr m, v) \<Rightarrow> (Inr (k + m), v))) = (Inr n, t)"
      using False unfolding as' by (simp add: assign_batches.simps[of eid now "a # rest" dto xs s])
    then obtain k u where k: "transaction (assign_tx eid now a dto (take 500 xs)) s = (Inr k, u)"
      by (auto split: prod.splits sum.splits)
    then obtain m where m: "assign_batches eid now rest dto (drop 500 xs) u = (Inr m, t)" "n = k + m"
      using eq by (auto split: prod.splits sum.splits)
    have "enrols (ag_targetId dto) (drop 500 xs) m u t" using 1(1)[OF False as' k[symmetric] refl m(1)] by simp
    moreover have "enrols (ag_targetId dto) (take 500 xs) k s u"
      using k by (auto simp: transaction_Inr assign_tx_def split: if_splits prod.splits sum.splits
          dest!: assign_batch_enrols intro: enrols_frame)
    ultimately show ?thesis using enrols_append m(2) by fastforce
  qed
qed

text \<open>
  C26: Assigning a course to employees enrols exactly those of them who are not enrolled yet, each once however
  often the list names them and however it is cut into batches; the reported count is their number, and the
  enrolments there were stay as they are.
\<close>

theorem bulk_assign_enrols_the_rest:
  assumes "bulkAssign eid now as dto s = (Inr n, t)"
    and "ids = resolveEmployeeIds (ag_scopeType dto) (ag_employeeIds dto)"
  shows "n = card (set ids - enrolled (ag_targetId dto) s) \<and> enrolled (ag_targetId dto) t = enrolled (ag_targetId dto) s \<union> set ids
    \<and> (\<exists>new. lm_enrollments t = lm_enrollments s @ new \<and> distinct (map (\<lambda>(i, e). en_employeeId e) new))"
proof -
  obtain u where "assign_batches eid now as dto ids s = (Inr n, u)" "lm_enrollments t = lm_enrollments u"
    using assms by (auto simp: bulkAssign_def split: prod.splits sum.splits if_splits)
  then have "enrols (ag_targetId dto) ids n s t" using assign_batches_enrol enrols_frame by blast
  then obtain new where new: "lm_enrollments t = lm_enrollments s @ new" "length new = n" "distinct (map (\<lambda>(i, e). en_employeeId e) new)"
    "set (map (\<lambda>(i, e). en_employeeId e) new) = set ids - enrolled (ag_targetId dto) s"
    "\<forall>(i, e) \<in> set new. en_courseId e = ag_targetId dto" unfolding enrols_def by blast
  have "n = card (set ids - enrolled (ag_targetId dto) s)"
    using distinct_card[OF new(3)] new(2,4) by simp
  moreover have "enrolled (ag_targetId dto) t = enrolled (ag_targetId dto) s \<union> set ids"
    using enrolled_append[OF new(1,5)] new(4) by auto
  ultimately show ?thesis using new by blast
qed

definition academy :: lms_db where
  "academy = two_course_path\<lparr>lm_courses := [(''c1'', \<lparr>co_companyId = ''co'', co_title = ''Safety'', co_description = None, co_thumbnailKey = None,
     co_format = SELF_PACED, co_externalUrl = None, co_durationMinutes = 30, co_status = CoursePUBLISHED, co_isMandatory = True,
     co_createdById = ''u'', co_createdAt = 0\<rparr>)]\<rparr>"

definition safety_for_all :: assign_dto where
  "safety_for_all = \<lparr>ag_companyId = ''co'', ag_targetId = ''c1'', ag_scopeType = ScopeEMPLOYEE,
     ag_employeeIds = Some [''e1'', ''e2'', ''e1''], ag_deadlineAt = 9, ag_isMandatory = False, ag_reminderDays = [7], ag_assignedById = ''u''\<rparr>"

theorem bulk_assign_enrols_the_rest_witness:
  "fst (bulkAssign (Cons CHR ''n'') 1 [''a''] safety_for_all academy) = Inr 2
    \<and> enrolled ''c1'' (snd (bulkAssign (Cons CHR ''n'') 1 [''a''] safety_for_all academy)) = {''e1'', ''e2''}"
proof -
  let ?r = "bulkAssign (Cons CHR ''n'') 1 [''a''] safety_for_all academy"
  have ids: "resolveEmployeeIds (ag_scopeType safety_for_all) (ag_employeeIds safety_for_all) = [''e1'', ''e2'', ''e1'']"
    by (simp add: safety_for_all_def resolveEmployeeIds_def)
  let ?eid = "Cons CHR ''n''"
  have tx: "\<exists>u. transaction (assign_tx ?eid 1 ''a'' safety_for_all [''e1'', ''e2'', ''e1'']) academy = (Inr 2, u)"
    by (simp add: transaction_def assign_tx_def safety_for_all_def academy_def two_course_path_def fresh_def tbl_ids_def
        find_enrollment_def tbl_find_def tbl_insert_def new_enrollment_def)
  then obtain u where u: "transaction (assign_tx ?eid 1 ''a'' safety_for_all [''e1'', ''e2'', ''e1'']) academy = (Inr 2, u)" by blast
  have "assign_batches ?eid 1 [''a''] safety_for_all [''e1'', ''e2'', ''e1''] academy = (Inr 2, u)"
    using u by (simp add: assign_batches.simps[of ?eid 1 "[''a'']"] assign_batches.simps[of ?eid 1 "[]" _ "[]"])
  then have f: "fst ?r = Inr 2" unfolding bulkAssign_def ids by (simp add: safety_for_all_def)
  then have r: "?r = (Inr 2, snd ?r)" by (cases ?r) simp
  have "enrolled ''c1'' academy = {}" by (simp add: enrolled_def academy_def two_course_path_def find_enrollment_def tbl_find_def)
  moreover have "ag_targetId safety_for_all = ''c1''" by (simp add: safety_for_all_def)
  ultimately show ?thesis using f conjunct1[OF conjunct2[OF bulk_assign_enrols_the_rest[OF r refl]]] unfolding ids by (simp add: insert_commute)
qed

end
