(* ===== verification/Certifications.thy ===== *)
theory Certifications
  imports Audit_Log Equity
begin

text \<open>
  Certifications: the registry and the certifications of employees of
  \<^verbatim>\<open>certification/services\<close>, and the daily expiry check of
  \<^verbatim>\<open>certification/processors\<close>. Dates are those of date columns, midnight in UTC. The main lemma
  follows one certification through a run of the check on every day.
\<close>

section \<open>Tables\<close>

datatype cert_status = UNVERIFIED | VERIFIED | CertEXPIRED | REVOKED

record certification_row =
  ct_companyId :: id
  ct_name :: string
  ct_issuingBody :: "string option"
  ct_validityMonths :: "int option"
  ct_mandatory :: bool
  ct_skillIds :: "id list"

record employee_cert_row =
  ec_employeeId :: id
  ec_certificationId :: id
  ec_credentialNumber :: "string option"
  ec_issuedDate :: instant
  ec_expiryDate :: "instant option"
  ec_evidenceKey :: "string option"
  ec_status :: cert_status
  ec_verifiedById :: "id option"
  ec_verifiedAt :: "instant option"

datatype cert_event =
    CertVerified id id id
  | CertExpired id id id instant
  | CertWarning id id id int

record cert_db =
  cd_skills :: "id list"
  cd_certs :: "certification_row table"
  cd_held :: "employee_cert_row table"
  cd_events :: "cert_event list"
  cd_audit :: "audit_row list"

section \<open>The registry\<close>

record cert_dto =
  co_companyId :: id
  co_name :: string
  co_issuingBody :: "string option"
  co_validityMonths :: "int option"
  co_mandatory :: "bool option"
  co_skillIds :: "id list"

text \<open>The tags are unique in their certification and refer to skills.\<close>

definition createCertification :: "id \<Rightarrow> cert_dto \<Rightarrow> cert_db \<Rightarrow> (cert_db, id) outcome" where
  "createCertification newId dto s =
     (if \<not> fresh newId (cd_certs s) then (Inl (DatabaseError ''certifications_pkey''), s)
      else if \<not> distinct (co_skillIds dto) then (Inl (DatabaseError ''certification_skill_tags unique''), s)
      else if \<not> set (co_skillIds dto) \<subseteq> set (cd_skills s) then (Inl (DatabaseError ''certification_skill_tags_skillId_fkey''), s)
      else (Inr newId, s\<lparr>cd_certs := tbl_insert newId
             \<lparr>ct_companyId = co_companyId dto, ct_name = co_name dto, ct_issuingBody = co_issuingBody dto,
              ct_validityMonths = co_validityMonths dto,
              ct_mandatory = (case co_mandatory dto of None \<Rightarrow> False | Some b \<Rightarrow> b), ct_skillIds = co_skillIds dto\<rparr> (cd_certs s)\<rparr>))"

record cert_patch =
  cp_name :: "string option"
  cp_issuingBody :: "string option"
  cp_validityMonths :: "int option"
  cp_mandatory :: "bool option"

definition updateCertification :: "id \<Rightarrow> cert_patch \<Rightarrow> cert_db \<Rightarrow> (cert_db, unit) outcome" where
  "updateCertification i dto s =
     (if fresh i (cd_certs s) then (Inl (NotFoundError ''Certification not found''), s)
      else (Inr (), s\<lparr>cd_certs := tbl_update i (\<lambda>r. r
             \<lparr>ct_name := (case cp_name dto of None \<Rightarrow> ct_name r | Some n \<Rightarrow> n),
              ct_issuingBody := (case cp_issuingBody dto of None \<Rightarrow> ct_issuingBody r | Some b \<Rightarrow> Some b),
              ct_validityMonths := (case cp_validityMonths dto of None \<Rightarrow> ct_validityMonths r | Some m \<Rightarrow> Some m),
              ct_mandatory := (case cp_mandatory dto of None \<Rightarrow> ct_mandatory r | Some b \<Rightarrow> b)\<rparr>) (cd_certs s)\<rparr>))"

definition listCertifications :: "id \<Rightarrow> cert_db \<Rightarrow> (id \<times> certification_row) list" where
  "listCertifications company s = tbl_all (\<lambda>i r. ct_companyId r = company) (cd_certs s)"

definition getCertification :: "id \<Rightarrow> cert_db \<Rightarrow> app_error + certification_row" where
  "getCertification i s = (case tbl_get i (cd_certs s) of None \<Rightarrow> Inl (NotFoundError ''Certification not found'') | Some r \<Rightarrow> Inr r)"

section \<open>Certifications of employees\<close>

record held_dto =
  hd_certificationId :: id
  hd_credentialNumber :: "string option"
  hd_issuedDate :: instant
  hd_evidenceKey :: "string option"

text \<open>A validity of no months, or of zero, is no expiry. \<open>off\<close> is the offset of the time zone.\<close>

definition expiry_of :: "int \<Rightarrow> instant \<Rightarrow> int option \<Rightarrow> instant option" where
  "expiry_of off issued months =
     (case months of None \<Rightarrow> None | Some m \<Rightarrow> if m = 0 then None else Some (add_months off issued m))"

definition recordCertification :: "int \<Rightarrow> id \<Rightarrow> id \<Rightarrow> held_dto \<Rightarrow> cert_db \<Rightarrow> (cert_db, id) outcome" where
  "recordCertification off newId employeeId dto s =
     (case tbl_get (hd_certificationId dto) (cd_certs s) of
        None \<Rightarrow> (Inl (NotFoundError ''Certification not found''), s)
      | Some cert \<Rightarrow>
          (if \<not> fresh newId (cd_held s) then (Inl (DatabaseError ''employee_certifications_pkey''), s)
           else (Inr newId, s\<lparr>cd_held := tbl_insert newId
                  \<lparr>ec_employeeId = employeeId, ec_certificationId = hd_certificationId dto,
                   ec_credentialNumber = hd_credentialNumber dto, ec_issuedDate = utc_midnight (hd_issuedDate dto),
                   ec_expiryDate = map_option utc_midnight (expiry_of off (hd_issuedDate dto) (ct_validityMonths cert)),
                   ec_evidenceKey = hd_evidenceKey dto, ec_status = UNVERIFIED, ec_verifiedById = None,
                   ec_verifiedAt = None\<rparr> (cd_held s)\<rparr>)))"

text \<open>Both a revoked and an expired certification can be verified.\<close>

definition verifyCertification :: "instant \<Rightarrow> id \<Rightarrow> id \<Rightarrow> cert_db \<Rightarrow> (cert_db, unit) outcome" where
  "verifyCertification now i actorId s =
     (case tbl_get i (cd_held s) of
        None \<Rightarrow> (Inl (NotFoundError ''Employee certification not found''), s)
      | Some ec \<Rightarrow>
          (if ec_status ec = VERIFIED then (Inl (BadRequestError ''Already verified''), s)
           else (Inr (), s\<lparr>
             cd_held := tbl_update i (\<lambda>r. r\<lparr>ec_status := VERIFIED, ec_verifiedById := Some actorId, ec_verifiedAt := Some now\<rparr>) (cd_held s),
             cd_events := cd_events s @ [CertVerified i (ec_certificationId ec) (ec_employeeId ec)],
             cd_audit := logAsync (entry_of None [] ''EmployeeCertification'' i ''CERTIFICATION_VERIFIED''
               [(''certificationId'', JStr (ec_certificationId ec)), (''employeeId'', JStr (ec_employeeId ec)), (''verifiedById'', JStr actorId)]) (cd_audit s)\<rparr>)))"

definition revokeCertification :: "id \<Rightarrow> id \<Rightarrow> string \<Rightarrow> cert_db \<Rightarrow> (cert_db, unit) outcome" where
  "revokeCertification i actorId reason s =
     (if fresh i (cd_held s) then (Inl (NotFoundError ''Employee certification not found''), s)
      else (Inr (), s\<lparr>cd_held := tbl_update i (\<lambda>r. r\<lparr>ec_status := REVOKED\<rparr>) (cd_held s)\<rparr>))"

definition certifications_of :: "id \<Rightarrow> cert_db \<Rightarrow> (id \<times> employee_cert_row \<times> certification_row option) list" where
  "certifications_of employeeId s =
     map (\<lambda>(i, r). (i, r, tbl_get (ec_certificationId r) (cd_certs s)))
       (sort_key (\<lambda>(i, r). - ec_issuedDate r) (tbl_all (\<lambda>i r. ec_employeeId r = employeeId) (cd_held s)))"

definition find_certification :: "id \<Rightarrow> cert_db \<Rightarrow> app_error + employee_cert_row" where
  "find_certification i s =
     (case tbl_get i (cd_held s) of None \<Rightarrow> Inl (NotFoundError ''Employee certification not found'') | Some r \<Rightarrow> Inr r)"

section \<open>The daily check\<close>

definition expiring :: "instant \<Rightarrow> employee_cert_row \<Rightarrow> bool" where
  "expiring today r = (case ec_expiryDate r of None \<Rightarrow> False
     | Some e \<Rightarrow> e \<le> today + 30 * msPerDay \<and> ec_status r \<noteq> CertEXPIRED)"

text \<open>\<^verbatim>\<open>Math.ceil\<close> of the days; the difference of two instants is small enough for exact doubles.\<close>

definition days_until :: "instant \<Rightarrow> instant \<Rightarrow> int" where
  "days_until today e = - ((today - e) div msPerDay)"

definition check_one :: "instant \<Rightarrow> id \<times> employee_cert_row \<Rightarrow> cert_db \<Rightarrow> cert_db" where
  "check_one today ir s =
     (case ir of (i, ec) \<Rightarrow>
        case ec_expiryDate ec of None \<Rightarrow> s
        | Some e \<Rightarrow>
            (if e \<le> today
             then s\<lparr>cd_held := tbl_update i (\<lambda>r. r\<lparr>ec_status := CertEXPIRED\<rparr>) (cd_held s),
                    cd_events := cd_events s @ [CertExpired i (ec_certificationId ec) (ec_employeeId ec) e],
                    cd_audit := logAsync (entry_of None [] ''EmployeeCertification'' i ''CERTIFICATION_EXPIRED''
                      [(''certificationId'', JStr (ec_certificationId ec)), (''employeeId'', JStr (ec_employeeId ec)),
                       (''expiryDate'', JDate e)]) (cd_audit s)\<rparr>
             else if days_until today e \<in> {30, 14, 7}
             then s\<lparr>cd_events := cd_events s @ [CertWarning i (ec_certificationId ec) (ec_employeeId ec) (days_until today e)]\<rparr>
             else s))"

definition processDailyExpiryCheck :: "instant \<Rightarrow> cert_db \<Rightarrow> cert_db" where
  "processDailyExpiryCheck today s = fold (check_one today) (tbl_all (\<lambda>i r. expiring today r) (cd_held s)) s"

text \<open>The check on \<open>n\<close> days in a row, each at the time of day of the first.\<close>

definition daily_checks :: "instant \<Rightarrow> nat \<Rightarrow> cert_db \<Rightarrow> cert_db" where
  "daily_checks t0 n s = fold (\<lambda>k. processDailyExpiryCheck (t0 + int k * msPerDay)) [0..<n] s"

fun event_cert :: "cert_event \<Rightarrow> id" where
  "event_cert (CertVerified i c e) = i"
| "event_cert (CertExpired i c e d) = i"
| "event_cert (CertWarning i c e n) = i"

definition cert_news :: "id \<Rightarrow> cert_db \<Rightarrow> cert_event list" where
  "cert_news i s = filter (\<lambda>e. event_cert e = i) (cd_events s)"

text \<open>What one check does about one certification.\<close>

definition check_news :: "instant \<Rightarrow> id \<Rightarrow> employee_cert_row \<Rightarrow> cert_event list" where
  "check_news today i ec =
     (case ec_expiryDate ec of None \<Rightarrow> []
      | Some e \<Rightarrow> if e \<le> today then [CertExpired i (ec_certificationId ec) (ec_employeeId ec) e]
          else if days_until today e \<in> {30, 14, 7} then [CertWarning i (ec_certificationId ec) (ec_employeeId ec) (days_until today e)]
          else [])"

definition check_row :: "instant \<Rightarrow> employee_cert_row \<Rightarrow> employee_cert_row" where
  "check_row today ec =
     (case ec_expiryDate ec of None \<Rightarrow> ec | Some e \<Rightarrow> if e \<le> today then ec\<lparr>ec_status := CertEXPIRED\<rparr> else ec)"

lemma check_one_facts:
  "cert_news i (check_one today (j, r) s) = cert_news i s @ (if j = i then check_news today i r else [])"
  "tbl_get i (cd_held (check_one today (j, r) s)) =
     (if j = i \<and> (\<exists>e. ec_expiryDate r = Some e \<and> e \<le> today) then map_option (\<lambda>x. x\<lparr>ec_status := CertEXPIRED\<rparr>) (tbl_get i (cd_held s))
      else tbl_get i (cd_held s))"
  "tbl_ids (cd_held (check_one today (j, r) s)) = tbl_ids (cd_held s)"
  by (auto simp: check_one_def cert_news_def check_news_def split: option.splits)

lemma check_fold:
  assumes "distinct (map fst rs)"
  shows "cert_news i (fold (check_one today) rs s) = cert_news i s @ (case map_of rs i of None \<Rightarrow> [] | Some r \<Rightarrow> check_news today i r)
    \<and> tbl_get i (cd_held (fold (check_one today) rs s)) =
      (case map_of rs i of None \<Rightarrow> tbl_get i (cd_held s)
       | Some r \<Rightarrow> if \<exists>e. ec_expiryDate r = Some e \<and> e \<le> today then map_option (\<lambda>x. x\<lparr>ec_status := CertEXPIRED\<rparr>) (tbl_get i (cd_held s))
           else tbl_get i (cd_held s))
    \<and> tbl_ids (cd_held (fold (check_one today) rs s)) = tbl_ids (cd_held s)"
  using assms
proof (induction rs arbitrary: s)
  case (Cons a rs)
  obtain j r where a: "a = (j, r)" by (cases a)
  have none: "j = i \<Longrightarrow> map_of rs i = None" using Cons.prems a by (auto simp: map_of_eq_None_iff)
  have IH: "distinct (map fst rs)" using Cons.prems by simp
  show ?case using Cons.IH[OF IH, of "check_one today (j, r) s"] none a by (cases "j = i"; cases "map_of rs i") (simp_all add: check_one_facts, auto)
qed simp

lemma map_of_tbl_all:
  "distinct (tbl_ids t) \<Longrightarrow> map_of (tbl_all P t) i = (case tbl_get i t of None \<Rightarrow> None | Some r \<Rightarrow> if P i r then Some r else None)"
  by (induction t) (auto simp: tbl_all_def tbl_ids_def tbl_get_def map_of_eq_None_iff split: option.splits)

lemma daily_check_one:
  assumes "distinct (tbl_ids (cd_held s))" and "tbl_get i (cd_held s) = Some r"
  shows "cert_news i (processDailyExpiryCheck today s) = cert_news i s @ (if expiring today r then check_news today i r else [])"
    and "tbl_get i (cd_held (processDailyExpiryCheck today s)) = Some (if expiring today r then check_row today r else r)"
    and "distinct (tbl_ids (cd_held (processDailyExpiryCheck today s)))"
proof -
  have d: "distinct (map fst (tbl_all (\<lambda>i r. expiring today r) (cd_held s)))"
    using assms(1) unfolding tbl_ids_def tbl_all_def by (metis distinct_map_filter)
  show "cert_news i (processDailyExpiryCheck today s) = cert_news i s @ (if expiring today r then check_news today i r else [])"
    and "tbl_get i (cd_held (processDailyExpiryCheck today s)) = Some (if expiring today r then check_row today r else r)"
    and "distinct (tbl_ids (cd_held (processDailyExpiryCheck today s)))"
    unfolding processDailyExpiryCheck_def using check_fold[OF d, of i today s] assms
    by (auto simp: map_of_tbl_all check_row_def split: option.splits)
qed

text \<open>On day \<open>k\<close> there are \<open>D - k\<close> days left.\<close>

lemma days_on:
  assumes "D = days_until t0 e"
  shows "days_until (t0 + k * msPerDay) e = D - k" and "e \<le> t0 + k * msPerDay \<longleftrightarrow> D \<le> k"
    and "e \<le> t0 + k * msPerDay + w * msPerDay \<longleftrightarrow> D - k \<le> w"
proof -
  have m: "t0 + k * msPerDay - e = (t0 - e) + k * msPerDay" by simp
  show u: "days_until (t0 + k * msPerDay) e = D - k"
    unfolding assms days_until_def m by (subst div_mult_self1) (simp_all add: msPerDay_def)
  have le: "e \<le> t \<longleftrightarrow> days_until t e \<le> 0" for t
    unfolding days_until_def using pos_imp_zdiv_nonneg_iff[of msPerDay "t - e"] by (simp add: msPerDay_def)
  show "e \<le> t0 + k * msPerDay \<longleftrightarrow> D \<le> k" using le[of "t0 + k * msPerDay"] u by simp
  have m2: "t0 + k * msPerDay + w * msPerDay - e = (t0 - e) + (k + w) * msPerDay" by (simp add: algebra_simps)
  have "days_until (t0 + k * msPerDay + w * msPerDay) e = D - k - w"
    unfolding assms days_until_def m2 by (subst div_mult_self1) (simp_all add: msPerDay_def)
  then show "e \<le> t0 + k * msPerDay + w * msPerDay \<longleftrightarrow> D - k \<le> w" using le[of "t0 + k * msPerDay + w * msPerDay"] by simp
qed

lemma daily_checks_news:
  assumes "distinct (tbl_ids (cd_held s))" and "tbl_get i (cd_held s) = Some r"
    and "ec_expiryDate r = Some e" and "ec_status r \<noteq> CertEXPIRED" and "30 < days_until t0 e"
  defines "D \<equiv> days_until t0 e"
  shows "distinct (tbl_ids (cd_held (daily_checks t0 n s)))
    \<and> tbl_get i (cd_held (daily_checks t0 n s)) = Some (if int n \<le> D then r else r\<lparr>ec_status := CertEXPIRED\<rparr>)
    \<and> cert_news i (daily_checks t0 n s) = cert_news i s
        @ map (CertWarning i (ec_certificationId r) (ec_employeeId r)) (filter (\<lambda>w. D - int n < w) [30, 14, 7])
        @ (if int n \<le> D then [] else [CertExpired i (ec_certificationId r) (ec_employeeId r) e])"
proof (induction n)
  case 0
  then show ?case using assms by (simp add: daily_checks_def)
next
  case (Suc n)
  let ?t = "daily_checks t0 n s" and ?today = "t0 + int n * msPerDay"
  let ?q = "if int n \<le> D then r else r\<lparr>ec_status := CertEXPIRED\<rparr>"
  have step: "daily_checks t0 (Suc n) s = processDailyExpiryCheck ?today ?t" by (simp add: daily_checks_def)
  have D: "D = days_until t0 e" by (simp add: D_def)
  note day = days_on[OF D, of "int n"]
  have q: "ec_expiryDate ?q = Some e" "ec_certificationId ?q = ec_certificationId r" "ec_employeeId ?q = ec_employeeId r"
    using assms(3) by simp_all
  have ex: "expiring ?today ?q \<longleftrightarrow> int n \<le> D \<and> D - int n \<le> 30"
    using assms(3,4) day(3) by (simp add: expiring_def)
  have news: "check_news ?today i ?q = (if D \<le> int n then [CertExpired i (ec_certificationId r) (ec_employeeId r) e]
      else if D - int n \<in> {30, 14, 7} then [CertWarning i (ec_certificationId r) (ec_employeeId r) (D - int n)] else [])"
    by (simp only: check_news_def q day(1,2) option.case)
  have row: "check_row ?today ?q = (if D \<le> int n then r\<lparr>ec_status := CertEXPIRED\<rparr> else r)"
    using assms(3) day(2) by (simp add: check_row_def)
  note one = daily_check_one[of ?t i ?q ?today]
  consider "int n > D" | "int n = D" | "int n < D" "D - int n \<le> 30" | "30 < D - int n" by linarith
  then show ?case
  proof cases
    case 1
    then show ?thesis unfolding step using Suc one ex news row by simp
  next
    case 2
    then show ?thesis unfolding step using Suc one ex news row by simp
  next
    case 3
    then show ?thesis unfolding step using Suc one ex news row by auto
  next
    case 4
    then show ?thesis unfolding step using Suc one ex news row by simp
  qed
qed

text \<open>
  C36: The check, run on every day at the same time of day from more than thirty days before the
  expiry on while nothing else changes the certification, sends exactly these events about it: the warning of \<open>w\<close> days, for each \<open>w\<close>
  of 30, 14 and 7, once, on the first day whose check finds at most \<open>w\<close> days left to the expiry, and
  the report of the expiry once, on the first day whose check does not come before it. That check marks
  the certification as expired, and no check before it touches its row. The days are stated in
  milliseconds, without the rounded number of days that the code computes; that they are 30, 14 and 7
  and not those of the documents is the finding on the schema reference.
\<close>

theorem expiry_is_announced:
  assumes "distinct (tbl_ids (cd_held s))" and "tbl_get i (cd_held s) = Some r"
    and "ec_expiryDate r = Some e" and "ec_status r \<noteq> CertEXPIRED" and "t0 + 30 * msPerDay < e"
  shows "tbl_get i (cd_held (daily_checks t0 (n + 1) s)) = Some (if e \<le> t0 + int n * msPerDay then r\<lparr>ec_status := CertEXPIRED\<rparr> else r)
    \<and> cert_news i (daily_checks t0 (n + 1) s) = cert_news i s
        @ map (CertWarning i (ec_certificationId r) (ec_employeeId r))
            (filter (\<lambda>w. e \<le> t0 + int n * msPerDay + w * msPerDay) [30, 14, 7])
        @ (if e \<le> t0 + int n * msPerDay then [CertExpired i (ec_certificationId r) (ec_employeeId r) e] else [])"
proof -
  let ?D = "days_until t0 e"
  note day = days_on[OF refl[of "days_until t0 e"]]
  have big: "30 < ?D" using assms(5) day(2)[of 30] by simp
  have "(?D - int (n + 1) < w) = (e \<le> t0 + int n * msPerDay + w * msPerDay)" for w
    using day(3)[of "int n" w] by auto
  then have f: "filter (\<lambda>w. ?D - int (n + 1) < w) ws = filter (\<lambda>w. e \<le> t0 + int n * msPerDay + w * msPerDay) ws" for ws
    by simp
  have c: "(if int (n + 1) \<le> ?D then x else y) = (if e \<le> t0 + int n * msPerDay then y else x)" for x y :: employee_cert_row
    using day(2)[of "int n"] by auto
  have c': "(if int (n + 1) \<le> ?D then x else y) = (if e \<le> t0 + int n * msPerDay then y else x)" for x y :: "cert_event list"
    using day(2)[of "int n"] by auto
  show ?thesis using daily_checks_news[OF assms(1-4) big, of "n + 1"] unfolding f c c' by blast
qed

definition cert_office :: cert_db where
  "cert_office = \<lparr>cd_skills = [], cd_certs = [(''c'', \<lparr>ct_companyId = ''co'', ct_name = ''First aid'', ct_issuingBody = None,
     ct_validityMonths = Some 12, ct_mandatory = True, ct_skillIds = []\<rparr>)], cd_held = [], cd_events = [], cd_audit = []\<rparr>"

definition cert_held :: employee_cert_row where
  "cert_held = \<lparr>ec_employeeId = ''e'', ec_certificationId = ''c'', ec_credentialNumber = None, ec_issuedDate = 0,
     ec_expiryDate = Some (365 * msPerDay), ec_evidenceKey = None, ec_status = VERIFIED, ec_verifiedById = Some ''m'',
     ec_verifiedAt = Some 5\<rparr>"

theorem expiry_is_announced_witness:
  "cert_news ''h'' (daily_checks (330 * msPerDay + 7) 37 (cert_office\<lparr>cd_held := [(''h'', cert_held)]\<rparr>))
     = [CertWarning ''h'' ''c'' ''e'' 30, CertWarning ''h'' ''c'' ''e'' 14, CertWarning ''h'' ''c'' ''e'' 7,
        CertExpired ''h'' ''c'' ''e'' (365 * msPerDay)]"
proof -
  let ?s = "cert_office\<lparr>cd_held := [(''h'', cert_held)]\<rparr>"
  have "cert_news ''h'' ?s = []" by (simp add: cert_news_def cert_office_def)
  moreover have "ec_certificationId cert_held = ''c''" "ec_employeeId cert_held = ''e''" "ec_expiryDate cert_held = Some (365 * msPerDay)"
    "ec_status cert_held \<noteq> CertEXPIRED" by (simp_all add: cert_held_def)
  moreover have "330 * msPerDay + 7 + 30 * msPerDay < 365 * msPerDay" "365 * msPerDay \<le> 330 * msPerDay + 7 + int 36 * msPerDay"
    by (simp_all add: msPerDay_def)
  ultimately show ?thesis
    using expiry_is_announced[of ?s "''h''" cert_held "365 * msPerDay" "330 * msPerDay + 7" 36]
    by (simp add: tbl_ids_def tbl_get_def)
qed

end
