(* ===== verification/Performance.thy ===== *)
theory Performance
  imports Audit_Log Calendar Staff
begin

text \<open>
  Performance management: \<^verbatim>\<open>performance/services\<close> (goals, meetings, improvement plans, review
  cycles, reviews), the deadline worker and \<^verbatim>\<open>feedback/services\<close>. Values of goals are in the unit
  of their decimal columns. The lemmas show that an employee has one active improvement plan, and how the
  rating of a review comes about.
\<close>

section \<open>Tables\<close>

datatype goal_type = OBJECTIVE | KEY_RESULT

datatype goal_status = GoalNOT_STARTED | GoalON_TRACK | GoalAT_RISK | GoalCOMPLETED | GoalCANCELLED

datatype review_status = ReviewPENDING | ReviewIN_PROGRESS | ReviewSUBMITTED

datatype respondent_role = RespSELF | RespMANAGER

datatype review_cycle_status = CycleDRAFT | CycleACTIVE | CycleCLOSED

datatype pip_status = PipACTIVE | PipCLOSED

datatype pip_outcome = SUCCESSFUL | EXTENDED | PipTERMINATED | RESIGNED

datatype visibility = PRIVATE_TO_RECIPIENT | SHARED_WITH_MANAGER | PUBLIC_TO_TEAM

record goal_row =
  go_employeeId :: id
  go_parentGoalId :: "id option"
  go_cycleId :: "id option"
  go_title :: string
  go_description :: "string option"
  go_goalType :: goal_type
  go_targetValue :: "int option"
  go_currentValue :: "int option"
  go_unit :: "string option"
  go_status :: goal_status
  go_dueDate :: "instant option"
  go_createdAt :: instant

record goal_checkin_row =
  gc_goalId :: id
  gc_postedBy :: id
  gc_progressNote :: string
  gc_statusAtCheckIn :: goal_status
  gc_valueAtCheckIn :: "int option"
  gc_createdAt :: instant

record meeting_row =
  mt_managerId :: id
  mt_employeeId :: id
  mt_meetingDate :: instant
  mt_notes :: "string option"

record action_item_row =
  ai_meetingId :: id
  ai_description :: string
  ai_ownerId :: id
  ai_dueDate :: "instant option"
  ai_status :: string
  ai_completedAt :: "instant option"

record review_cycle_row =
  rc_name :: string
  rc_status :: review_cycle_status
  rc_selfReviewDeadline :: instant
  rc_managerReviewDeadline :: instant
  rc_startDate :: instant
  rc_endDate :: instant
  rc_activatedAt :: "instant option"
  rc_activatedBy :: "id option"
  rc_closedAt :: "instant option"
  rc_closedBy :: "id option"
  rc_createdAt :: instant

record review_row =
  ri_cycleId :: id
  ri_employeeId :: id
  ri_managerId :: id
  ri_selfReviewStatus :: review_status
  ri_managerReviewStatus :: review_status
  ri_overallRating :: "string option"
  ri_acknowledged :: bool
  ri_acknowledgedAt :: "instant option"

record review_response_row =
  rr_reviewId :: id
  rr_role :: respondent_role
  rr_sectionKey :: string
  rr_json :: json
  rr_submittedAt :: "instant option"

record override_row =
  ov_reviewId :: id
  ov_originalRating :: string
  ov_overriddenRating :: string
  ov_overriddenBy :: id
  ov_justification :: string

record pip_row =
  pi_employeeId :: id
  pi_managerId :: id
  pi_initiatedBy :: id
  pi_reason :: string
  pi_goals :: string
  pi_startDate :: instant
  pi_endDate :: instant
  pi_status :: pip_status
  pi_outcome :: "pip_outcome option"
  pi_outcomeNotes :: "string option"
  pi_closedAt :: "instant option"
  pi_closedBy :: "id option"
  pi_createdAt :: instant

record feedback_row =
  fb_givenBy :: id
  fb_receivedBy :: id
  fb_message :: string
  fb_visibility :: visibility
  fb_category :: string
  fb_relatedGoalId :: "id option"
  fb_createdAt :: instant

record perf_db =
  pd_employees :: "employee_row table"
  pd_goals :: "goal_row table"
  pd_goalCheckIns :: "goal_checkin_row table"
  pd_meetings :: "meeting_row table"
  pd_items :: "action_item_row table"
  pd_cycles :: "review_cycle_row table"
  pd_reviews :: "review_row table"
  pd_responses :: "review_response_row table"
  pd_overrides :: "override_row table"
  pd_pips :: "pip_row table"
  pd_feedback :: "feedback_row table"
  pd_events :: "(string \<times> id) list"
  pd_audit :: "audit_row list"

text \<open>The audit entries of these services carry no company.\<close>

definition perf_log :: "string \<Rightarrow> id \<Rightarrow> string \<Rightarrow> (string \<times> json) list \<Rightarrow> perf_db \<Rightarrow> perf_db" where
  "perf_log etype i act nv s = s\<lparr>pd_audit := logAsync (entry_of None [] etype i act nv) (pd_audit s)\<rparr>"

lemma perf_log_nothing [simp]: "perf_log etype i act nv s = s"
  by (simp add: perf_log_def logAsync_def entry_of_def)

section \<open>Goals\<close>

record goal_dto =
  gd_employeeId :: id
  gd_title :: string
  gd_parentGoalId :: "id option"
  gd_cycleId :: "id option"
  gd_description :: "string option"
  gd_goalType :: "goal_type option"
  gd_targetValue :: "int option"
  gd_unit :: "string option"
  gd_dueDate :: "instant option"

text \<open>The walk looks at \<open>n\<close> goals, from the parent upwards; the new goal itself is not on it.\<close>

fun cyclic_goal :: "nat \<Rightarrow> id \<Rightarrow> goal_row \<Rightarrow> goal_row table \<Rightarrow> bool" where
  "cyclic_goal 0 p current t = False"
| "cyclic_goal (Suc n) p current t =
     (if go_parentGoalId current = Some p then True
      else case go_parentGoalId current of None \<Rightarrow> False
        | Some q \<Rightarrow> (case tbl_get q t of None \<Rightarrow> False | Some next_goal \<Rightarrow> cyclic_goal n p next_goal t))"

definition createGoal :: "id \<Rightarrow> instant \<Rightarrow> goal_dto \<Rightarrow> perf_db \<Rightarrow> (perf_db, id) outcome" where
  "createGoal newId now dto s =
     (let make = (if \<not> fresh newId (pd_goals s) then (Inl (DatabaseError ''performance_goals_pkey''), s)
            else (Inr newId, s\<lparr>pd_goals := tbl_insert newId
              \<lparr>go_employeeId = gd_employeeId dto, go_parentGoalId = gd_parentGoalId dto, go_cycleId = gd_cycleId dto,
               go_title = gd_title dto, go_description = gd_description dto,
               go_goalType = (case gd_goalType dto of None \<Rightarrow> OBJECTIVE | Some g \<Rightarrow> g), go_targetValue = gd_targetValue dto,
               go_currentValue = None, go_unit = gd_unit dto, go_status = GoalNOT_STARTED,
               go_dueDate = map_option utc_midnight (gd_dueDate dto), go_createdAt = now\<rparr> (pd_goals s)\<rparr>))
      in case gd_parentGoalId dto of None \<Rightarrow> make
         | Some p \<Rightarrow>
             (case tbl_get p (pd_goals s) of
                None \<Rightarrow> (Inl (NotFoundError ''Parent goal not found''), s)
              | Some parent \<Rightarrow>
                  (if cyclic_goal 5 p parent (pd_goals s) then (Inl (BadRequestError ''Cyclic goal reference''), s) else make)))"

definition updateGoal :: "id \<Rightarrow> string option \<Rightarrow> goal_status option \<Rightarrow> int option \<Rightarrow> string option \<Rightarrow> perf_db \<Rightarrow> (perf_db, unit) outcome" where
  "updateGoal i title status currentValue description s =
     (if fresh i (pd_goals s) then (Inl (NotFoundError ''Goal not found''), s)
      else (Inr (), s\<lparr>pd_goals := tbl_update i (\<lambda>g. g
             \<lparr>go_title := (case title of None \<Rightarrow> go_title g | Some x \<Rightarrow> x), go_status := (case status of None \<Rightarrow> go_status g | Some x \<Rightarrow> x),
              go_currentValue := (if currentValue = None then go_currentValue g else currentValue),
              go_description := (if description = None then go_description g else description)\<rparr>) (pd_goals s)\<rparr>))"

text \<open>One transaction: an unknown goal undoes the check-in.\<close>

definition postCheckIn ::
    "id \<Rightarrow> instant \<Rightarrow> id \<Rightarrow> id \<Rightarrow> string \<Rightarrow> int option \<Rightarrow> goal_status option \<Rightarrow> perf_db \<Rightarrow> (perf_db, id) outcome" where
  "postCheckIn newId now goalId postedBy note val status s =
     (if fresh goalId (pd_goals s) then (Inl (DatabaseError ''goal_check_ins_goalId_fkey''), s)
      else if \<not> fresh newId (pd_goalCheckIns s) then (Inl (DatabaseError ''goal_check_ins_pkey''), s)
      else (Inr newId, s\<lparr>
        pd_goalCheckIns := tbl_insert newId \<lparr>gc_goalId = goalId, gc_postedBy = postedBy, gc_progressNote = note,
          gc_statusAtCheckIn = (case status of None \<Rightarrow> GoalON_TRACK | Some x \<Rightarrow> x), gc_valueAtCheckIn = val, gc_createdAt = now\<rparr> (pd_goalCheckIns s),
        pd_goals := tbl_update goalId (\<lambda>g. g\<lparr>go_currentValue := (if val = None then go_currentValue g else val)\<rparr>) (pd_goals s),
        pd_events := pd_events s @ [(''goal.checked_in'', goalId)]\<rparr>))"

text \<open>Each goal with its children and its five latest check-ins.\<close>

definition getOkrTree :: "id \<Rightarrow> id option \<Rightarrow> perf_db \<Rightarrow> (id \<times> goal_row \<times> id list \<times> id list) list" where
  "getOkrTree employeeId cycleId s =
     map (\<lambda>(i, g). (i, g, map fst (tbl_all (\<lambda>j c. go_parentGoalId c = Some i) (pd_goals s)),
            take 5 (map fst (sort_key (\<lambda>(j, c). - gc_createdAt c) (tbl_all (\<lambda>j c. gc_goalId c = i) (pd_goalCheckIns s))))))
       (sort_key (\<lambda>(i, g). - go_createdAt g)
         (tbl_all (\<lambda>i g. go_employeeId g = employeeId \<and> (cycleId = None \<or> cycleId = Some [] \<or> go_cycleId g = cycleId)) (pd_goals s)))"

definition find_goal :: "id \<Rightarrow> perf_db \<Rightarrow> app_error + goal_row" where
  "find_goal i s = (case tbl_get i (pd_goals s) of None \<Rightarrow> Inl (NotFoundError ''Goal not found'') | Some g \<Rightarrow> Inr g)"

section \<open>Meetings\<close>

record item_dto =
  it_description :: string
  it_ownerId :: id
  it_dueDate :: "instant option"

definition new_item :: "id \<Rightarrow> item_dto \<Rightarrow> action_item_row" where
  "new_item meetingId dto =
     \<lparr>ai_meetingId = meetingId, ai_description = it_description dto, ai_ownerId = it_ownerId dto,
      ai_dueDate = map_option utc_midnight (it_dueDate dto), ai_status = ''open'', ai_completedAt = None\<rparr>"

definition addActionItem :: "id \<Rightarrow> id \<Rightarrow> item_dto \<Rightarrow> perf_db \<Rightarrow> (perf_db, id) outcome" where
  "addActionItem newId meetingId dto s =
     (if fresh meetingId (pd_meetings s) then (Inl (DatabaseError ''meeting_action_items_meetingId_fkey''), s)
      else if \<not> fresh newId (pd_items s) then (Inl (DatabaseError ''meeting_action_items_pkey''), s)
      else (Inr newId, s\<lparr>pd_items := tbl_insert newId (new_item meetingId dto) (pd_items s)\<rparr>))"

text \<open>The meeting and its items are written one by one, outside a transaction.\<close>

fun add_items :: "id \<Rightarrow> id list \<Rightarrow> item_dto list \<Rightarrow> perf_db \<Rightarrow> (perf_db, id) outcome" where
  "add_items m ids [] s = (Inr m, s)"
| "add_items m [] (x # xs) s = (Inl (DatabaseError ''meeting_action_items_pkey''), s)"
| "add_items m (i # ids) (x # xs) s =
     (case addActionItem i m x s of (Inl e, t) \<Rightarrow> (Inl e, t) | (Inr _, t) \<Rightarrow> add_items m ids xs t)"

definition createMeeting ::
    "id \<Rightarrow> id list \<Rightarrow> id \<Rightarrow> id \<Rightarrow> instant \<Rightarrow> string option \<Rightarrow> item_dto list \<Rightarrow> perf_db \<Rightarrow> (perf_db, id) outcome" where
  "createMeeting newId itemIds managerId employeeId date meeting_notes items s =
     (if \<not> fresh newId (pd_meetings s) then (Inl (DatabaseError ''one_on_one_meetings_pkey''), s)
      else add_items newId itemIds items (s\<lparr>pd_meetings := tbl_insert newId
             \<lparr>mt_managerId = managerId, mt_employeeId = employeeId, mt_meetingDate = utc_midnight date, mt_notes = meeting_notes\<rparr> (pd_meetings s)\<rparr>))"

definition completeActionItem :: "instant \<Rightarrow> id \<Rightarrow> perf_db \<Rightarrow> (perf_db, unit) outcome" where
  "completeActionItem now i s =
     (if fresh i (pd_items s) then (Inl (DatabaseError ''Record to update not found''), s)
      else (Inr (), s\<lparr>pd_items := tbl_update i (\<lambda>r. r\<lparr>ai_status := ''completed'', ai_completedAt := Some now\<rparr>) (pd_items s)\<rparr>))"

definition find_meeting :: "id \<Rightarrow> perf_db \<Rightarrow> app_error + meeting_row \<times> (id \<times> action_item_row) list" where
  "find_meeting i s =
     (case tbl_get i (pd_meetings s) of None \<Rightarrow> Inl (NotFoundError ''Meeting not found'')
      | Some m \<Rightarrow> Inr (m, tbl_all (\<lambda>j r. ai_meetingId r = i) (pd_items s)))"

section \<open>Improvement plans\<close>

record pip_dto =
  pt_employeeId :: id
  pt_managerId :: id
  pt_reason :: string
  pt_goals :: string
  pt_startDate :: instant
  pt_endDate :: instant

definition active_pip :: "id \<Rightarrow> perf_db \<Rightarrow> (id \<times> pip_row) option" where
  "active_pip employeeId s = tbl_find (\<lambda>i p. pi_employeeId p = employeeId \<and> pi_status p = PipACTIVE) (pd_pips s)"

definition initiatePip :: "id \<Rightarrow> instant \<Rightarrow> pip_dto \<Rightarrow> id \<Rightarrow> perf_db \<Rightarrow> (perf_db, id) outcome" where
  "initiatePip newId now dto initiatedBy s =
     (if active_pip (pt_employeeId dto) s \<noteq> None then (Inl (BadRequestError ''Employee already has an active PIP''), s)
      else if \<not> fresh newId (pd_pips s) then (Inl (DatabaseError ''performance_improvement_plans_pkey''), s)
      else (Inr newId, perf_log ''performance_improvement_plan'' newId ''PIP_INITIATED''
             [(''employeeId'', JStr (pt_employeeId dto)), (''managerId'', JStr (pt_managerId dto)),
              (''startDate'', JDate (pt_startDate dto)), (''endDate'', JDate (pt_endDate dto))]
             (s\<lparr>pd_pips := tbl_insert newId
                 \<lparr>pi_employeeId = pt_employeeId dto, pi_managerId = pt_managerId dto, pi_initiatedBy = initiatedBy, pi_reason = pt_reason dto,
                  pi_goals = pt_goals dto, pi_startDate = utc_midnight (pt_startDate dto), pi_endDate = utc_midnight (pt_endDate dto),
                  pi_status = PipACTIVE, pi_outcome = None, pi_outcomeNotes = None, pi_closedAt = None, pi_closedBy = None,
                  pi_createdAt = now\<rparr> (pd_pips s),
               pd_events := pd_events s @ [(''pip.initiated'', newId)]\<rparr>)))"

text \<open>The row of a check-in names no plan, which its table requires.\<close>

definition addPipCheckIn :: "id \<Rightarrow> perf_db \<Rightarrow> (perf_db, unit) outcome" where
  "addPipCheckIn pipId s =
     (case tbl_get pipId (pd_pips s) of
        None \<Rightarrow> (Inl (NotFoundError ''PIP not found''), s)
      | Some p \<Rightarrow>
          (if pi_status p \<noteq> PipACTIVE then (Inl (BadRequestError ''PIP is not active''), s)
           else (Inl (RuntimeError ''Argument pip is missing''), s)))"

fun outcome_name :: "pip_outcome \<Rightarrow> string" where
  "outcome_name SUCCESSFUL = ''SUCCESSFUL''"
| "outcome_name EXTENDED = ''EXTENDED''"
| "outcome_name PipTERMINATED = ''TERMINATED''"
| "outcome_name RESIGNED = ''RESIGNED''"

definition closePip :: "instant \<Rightarrow> id \<Rightarrow> pip_outcome \<Rightarrow> string option \<Rightarrow> id \<Rightarrow> perf_db \<Rightarrow> (perf_db, unit) outcome" where
  "closePip now pipId outcome outcomeNotes closedBy s =
     (case tbl_get pipId (pd_pips s) of
        None \<Rightarrow> (Inl (NotFoundError ''PIP not found''), s)
      | Some p \<Rightarrow>
          (if pi_status p \<noteq> PipACTIVE then (Inl (BadRequestError ''PIP is not active''), s)
           else (Inr (), perf_log ''performance_improvement_plan'' pipId ''PIP_CLOSED''
                  [(''pipId'', JStr pipId), (''outcome'', JStr (outcome_name outcome))]
                  (s\<lparr>pd_pips := tbl_update pipId (\<lambda>r. r\<lparr>pi_status := PipCLOSED, pi_outcome := Some outcome,
                        pi_outcomeNotes := (if outcomeNotes = None then pi_outcomeNotes r else outcomeNotes),
                        pi_closedAt := Some now, pi_closedBy := Some closedBy\<rparr>) (pd_pips s),
                     pd_events := pd_events s @ [(''pip.closed'', pipId)]\<rparr>))))"

definition find_pip :: "id \<Rightarrow> perf_db \<Rightarrow> app_error + pip_row" where
  "find_pip i s = (case tbl_get i (pd_pips s) of None \<Rightarrow> Inl (NotFoundError ''PIP not found'') | Some p \<Rightarrow> Inr p)"

definition pips_of :: "id \<Rightarrow> perf_db \<Rightarrow> (id \<times> pip_row) list" where
  "pips_of employeeId s = sort_key (\<lambda>(i, p). - pi_createdAt p) (tbl_all (\<lambda>i p. pi_employeeId p = employeeId) (pd_pips s))"

section \<open>Review cycles\<close>

record cycle_dto =
  ce_name :: string
  ce_selfReviewDeadline :: instant
  ce_managerReviewDeadline :: instant
  ce_startDate :: instant
  ce_endDate :: instant

definition createReviewCycle :: "id \<Rightarrow> instant \<Rightarrow> cycle_dto \<Rightarrow> perf_db \<Rightarrow> (perf_db, id) outcome" where
  "createReviewCycle newId now dto s =
     (if \<not> fresh newId (pd_cycles s) then (Inl (DatabaseError ''review_cycles_pkey''), s)
      else (Inr newId, s\<lparr>pd_cycles := tbl_insert newId
             \<lparr>rc_name = ce_name dto, rc_status = CycleDRAFT, rc_selfReviewDeadline = utc_midnight (ce_selfReviewDeadline dto),
              rc_managerReviewDeadline = utc_midnight (ce_managerReviewDeadline dto), rc_startDate = utc_midnight (ce_startDate dto),
              rc_endDate = utc_midnight (ce_endDate dto), rc_activatedAt = None, rc_activatedBy = None, rc_closedAt = None,
              rc_closedBy = None, rc_createdAt = now\<rparr> (pd_cycles s)\<rparr>))"

definition new_review :: "id \<Rightarrow> id \<Rightarrow> id \<Rightarrow> review_row" where
  "new_review cycleId employeeId managerId =
     \<lparr>ri_cycleId = cycleId, ri_employeeId = employeeId, ri_managerId = managerId, ri_selfReviewStatus = ReviewPENDING,
      ri_managerReviewStatus = ReviewPENDING, ri_overallRating = None, ri_acknowledged = False, ri_acknowledgedAt = None\<rparr>"

text \<open>A review is unique in its cycle and employee.\<close>

fun fan_out :: "id list \<Rightarrow> id \<Rightarrow> id \<Rightarrow> (id \<times> employee_row) list \<Rightarrow> review_row table \<Rightarrow> review_row table option" where
  "fan_out ids cycle by_user [] t = Some t"
| "fan_out [] cycle by_user (e # es) t = None"
| "fan_out (i # ids) cycle by_user ((e, r) # es) t =
     (if \<not> fresh i t \<or> tbl_find (\<lambda>j q. ri_cycleId q = cycle \<and> ri_employeeId q = e) t \<noteq> None then None
      else fan_out ids cycle by_user es
             (tbl_insert i (new_review cycle e (case em_managerId r of None \<Rightarrow> by_user | Some m \<Rightarrow> m)) t))"

text \<open>The active employees of all companies.\<close>

definition activateCycle :: "id list \<Rightarrow> instant \<Rightarrow> id \<Rightarrow> id \<Rightarrow> perf_db \<Rightarrow> (perf_db, nat) outcome" where
  "activateCycle ids now cycleId activatedBy s =
     (case tbl_get cycleId (pd_cycles s) of
        None \<Rightarrow> (Inl (NotFoundError ''Cycle not found''), s)
      | Some c \<Rightarrow>
          (if rc_status c \<noteq> CycleDRAFT then (Inl (BadRequestError ''Only draft cycles can be activated''), s)
           else let employees = tbl_all (\<lambda>i e. em_status e = EmpACTIVE) (pd_employees s)
             in case fan_out ids cycleId activatedBy employees (pd_reviews s) of
                  None \<Rightarrow> (Inl (DatabaseError ''review_instances''), s)
                | Some rs \<Rightarrow> (Inr (length employees),
                    perf_log ''review_cycle'' cycleId ''REVIEW_CYCLE_ACTIVATED''
                      [(''cycleId'', JStr cycleId), (''employeeCount'', JNum (Fin (of_nat (length employees))))]
                      (s\<lparr>pd_cycles := tbl_update cycleId (\<lambda>r. r\<lparr>rc_status := CycleACTIVE, rc_activatedAt := Some now,
                            rc_activatedBy := Some activatedBy\<rparr>) (pd_cycles s),
                         pd_reviews := rs, pd_events := pd_events s @ [(''review_cycle.activated'', cycleId)]\<rparr>))))"

definition closeCycle :: "instant \<Rightarrow> id \<Rightarrow> id \<Rightarrow> perf_db \<Rightarrow> (perf_db, unit) outcome" where
  "closeCycle now cycleId closedBy s =
     (case tbl_get cycleId (pd_cycles s) of
        None \<Rightarrow> (Inl (NotFoundError ''Cycle not found''), s)
      | Some c \<Rightarrow>
          (if rc_status c \<noteq> CycleACTIVE then (Inl (BadRequestError ''Only active cycles can be closed''), s)
           else (Inr (), perf_log ''review_cycle'' cycleId ''REVIEW_CYCLE_CLOSED'' [(''cycleId'', JStr cycleId)]
                  (s\<lparr>pd_cycles := tbl_update cycleId (\<lambda>r. r\<lparr>rc_status := CycleCLOSED, rc_closedAt := Some now,
                        rc_closedBy := Some closedBy\<rparr>) (pd_cycles s),
                     pd_events := pd_events s @ [(''review_cycle.closed'', cycleId)]\<rparr>))))"

definition all_cycles :: "perf_db \<Rightarrow> (id \<times> review_cycle_row) list" where
  "all_cycles s = sort_key (\<lambda>(i, c). - rc_createdAt c) (pd_cycles s)"

definition find_cycle :: "id \<Rightarrow> perf_db \<Rightarrow> app_error + review_cycle_row" where
  "find_cycle i s = (case tbl_get i (pd_cycles s) of None \<Rightarrow> Inl (NotFoundError ''Cycle not found'') | Some c \<Rightarrow> Inr c)"

text \<open>The worker only logs how many cycles are late.\<close>

definition late_cycles :: "instant \<Rightarrow> perf_db \<Rightarrow> nat" where
  "late_cycles today s =
     tbl_count (\<lambda>i c. rc_status c = CycleACTIVE \<and> (rc_selfReviewDeadline c \<le> today \<or> rc_managerReviewDeadline c \<le> today)) (pd_cycles s)"


section \<open>Reviews\<close>

fun review_status_name :: "review_status \<Rightarrow> string" where
  "review_status_name ReviewPENDING = ''PENDING''"
| "review_status_name ReviewIN_PROGRESS = ''IN_PROGRESS''"
| "review_status_name ReviewSUBMITTED = ''SUBMITTED''"

fun role_status :: "respondent_role \<Rightarrow> review_row \<Rightarrow> review_status" where
  "role_status RespSELF r = ri_selfReviewStatus r"
| "role_status RespMANAGER r = ri_managerReviewStatus r"

fun set_role_status :: "respondent_role \<Rightarrow> review_status \<Rightarrow> review_row \<Rightarrow> review_row" where
  "set_role_status RespSELF x r = r\<lparr>ri_selfReviewStatus := x\<rparr>"
| "set_role_status RespMANAGER x r = r\<lparr>ri_managerReviewStatus := x\<rparr>"

definition upsert_response :: "id \<Rightarrow> id \<Rightarrow> respondent_role \<Rightarrow> string \<Rightarrow> json \<Rightarrow> review_response_row table \<Rightarrow> review_response_row table" where
  "upsert_response newId i role key js t =
     (case tbl_find (\<lambda>j r. rr_reviewId r = i \<and> rr_role r = role \<and> rr_sectionKey r = key) t of
        Some (j, r) \<Rightarrow> tbl_update j (\<lambda>r. r\<lparr>rr_json := js\<rparr>) t
      | None \<Rightarrow> tbl_insert newId \<lparr>rr_reviewId = i, rr_role = role, rr_sectionKey = key, rr_json = js, rr_submittedAt = None\<rparr> t)"

text \<open>The status compared with is none of the enumeration.\<close>

definition saveResponse :: "id \<Rightarrow> id \<Rightarrow> respondent_role \<Rightarrow> string \<Rightarrow> json \<Rightarrow> perf_db \<Rightarrow> (perf_db, unit) outcome" where
  "saveResponse newId reviewId role sectionKey js s =
     (case tbl_get reviewId (pd_reviews s) of
        None \<Rightarrow> (Inl (NotFoundError ''Review not found''), s)
      | Some r \<Rightarrow>
          (Inr (), s\<lparr>pd_responses := upsert_response newId reviewId role sectionKey js (pd_responses s),
             pd_reviews := (if review_status_name (role_status role r) = ''NOT_STARTED''
                            then tbl_update reviewId (set_role_status role ReviewIN_PROGRESS) (pd_reviews s) else pd_reviews s)\<rparr>))"

definition role_responses :: "id \<Rightarrow> respondent_role \<Rightarrow> perf_db \<Rightarrow> (id \<times> review_response_row) list" where
  "role_responses reviewId role s = tbl_all (\<lambda>j x. rr_reviewId x = reviewId \<and> rr_role x = role) (pd_responses s)"

definition submitReview :: "instant \<Rightarrow> id \<Rightarrow> respondent_role \<Rightarrow> perf_db \<Rightarrow> (perf_db, unit) outcome" where
  "submitReview now reviewId role s =
     (case tbl_get reviewId (pd_reviews s) of
        None \<Rightarrow> (Inl (NotFoundError ''Review not found''), s)
      | Some r \<Rightarrow>
          (let own = role_responses reviewId role s
           in if own = [] then (Inl (BadRequestError ''No responses to submit''), s)
              else if role_status role r = ReviewSUBMITTED then (Inl (BadRequestError ''Already submitted''), s)
              else (Inr (), s\<lparr>pd_reviews := tbl_update reviewId (set_role_status role ReviewSUBMITTED) (pd_reviews s),
                     pd_responses := tbl_update_many (\<lambda>j x. j \<in> set (map fst own)) (\<lambda>x. x\<lparr>rr_submittedAt := Some now\<rparr>) (pd_responses s)\<rparr>)))"

definition applyCalibrationOverride :: "id \<Rightarrow> id \<Rightarrow> string \<Rightarrow> string \<Rightarrow> id \<Rightarrow> perf_db \<Rightarrow> (perf_db, unit) outcome" where
  "applyCalibrationOverride newId reviewId overriddenRating justification overriddenBy s =
     (case tbl_get reviewId (pd_reviews s) of
        None \<Rightarrow> (Inl (NotFoundError ''Review not found''), s)
      | Some r \<Rightarrow>
          (if ri_selfReviewStatus r \<noteq> ReviewSUBMITTED \<or> ri_managerReviewStatus r \<noteq> ReviewSUBMITTED
           then (Inl (BadRequestError ''Both reviews must be submitted first''), s)
           else if \<not> fresh newId (pd_overrides s) then (Inl (DatabaseError ''calibration_overrides_pkey''), s)
           else (Inr (), perf_log ''performance_review'' reviewId ''CALIBRATION_OVERRIDE_APPLIED''
                  [(''reviewInstanceId'', JStr reviewId),
                   (''originalRating'', case ri_overallRating r of None \<Rightarrow> JNull | Some x \<Rightarrow> JStr x), (''overriddenRating'', JStr overriddenRating)]
                  (s\<lparr>pd_overrides := tbl_insert newId
                      \<lparr>ov_reviewId = reviewId, ov_originalRating = (case ri_overallRating r of None \<Rightarrow> ''N/A'' | Some x \<Rightarrow> x),
                       ov_overriddenRating = overriddenRating, ov_overriddenBy = overriddenBy, ov_justification = justification\<rparr> (pd_overrides s),
                     pd_reviews := tbl_update reviewId (\<lambda>r. r\<lparr>ri_overallRating := Some overriddenRating\<rparr>) (pd_reviews s)\<rparr>))))"

text \<open>An empty rating is no rating.\<close>

definition acknowledgeReview :: "instant \<Rightarrow> id \<Rightarrow> perf_db \<Rightarrow> (perf_db, unit) outcome" where
  "acknowledgeReview now reviewId s =
     (case tbl_get reviewId (pd_reviews s) of
        None \<Rightarrow> (Inl (NotFoundError ''Review not found''), s)
      | Some r \<Rightarrow>
          (if ri_overallRating r = None \<or> ri_overallRating r = Some []
           then (Inl (BadRequestError ''Rating must be finalized before acknowledgment''), s)
           else (Inr (), s\<lparr>pd_reviews := tbl_update reviewId (\<lambda>r. r\<lparr>ri_acknowledged := True, ri_acknowledgedAt := Some now\<rparr>) (pd_reviews s)\<rparr>)))"

definition reviews_of_cycle :: "id \<Rightarrow> perf_db \<Rightarrow> (id \<times> review_row) list" where
  "reviews_of_cycle cycleId s = tbl_all (\<lambda>i r. ri_cycleId r = cycleId) (pd_reviews s)"

definition find_review :: "id \<Rightarrow> perf_db \<Rightarrow> app_error + review_row \<times> (id \<times> review_response_row) list" where
  "find_review i s =
     (case tbl_get i (pd_reviews s) of None \<Rightarrow> Inl (NotFoundError ''Review not found'')
      | Some r \<Rightarrow> Inr (r, tbl_all (\<lambda>j x. rr_reviewId x = i) (pd_responses s)))"

section \<open>Feedback\<close>

definition giveFeedback ::
    "id \<Rightarrow> instant \<Rightarrow> id \<Rightarrow> id \<Rightarrow> string \<Rightarrow> visibility option \<Rightarrow> string option \<Rightarrow> id option \<Rightarrow> perf_db \<Rightarrow> (perf_db, id) outcome" where
  "giveFeedback newId now givenBy receivedBy message vis category goalId s =
     (if \<not> fresh newId (pd_feedback s) then (Inl (DatabaseError ''feedbacks_pkey''), s)
      else if (case goalId of None \<Rightarrow> False | Some g \<Rightarrow> fresh g (pd_goals s)) then (Inl (DatabaseError ''feedbacks_relatedGoalId_fkey''), s)
      else (Inr newId, s\<lparr>pd_feedback := tbl_insert newId
             \<lparr>fb_givenBy = givenBy, fb_receivedBy = receivedBy, fb_message = message,
              fb_visibility = (case vis of None \<Rightarrow> PRIVATE_TO_RECIPIENT | Some x \<Rightarrow> x),
              fb_category = (case category of None \<Rightarrow> ''GENERAL'' | Some x \<Rightarrow> x), fb_relatedGoalId = goalId,
              fb_createdAt = now\<rparr> (pd_feedback s)\<rparr>))"

text \<open>Pages are counted from one.\<close>

definition feedback_page :: "(feedback_row \<Rightarrow> bool) \<Rightarrow> nat \<Rightarrow> nat \<Rightarrow> perf_db \<Rightarrow> (id \<times> feedback_row) list" where
  "feedback_page P page limit s =
     take limit (drop ((page - 1) * limit) (sort_key (\<lambda>(i, f). - fb_createdAt f) (tbl_all (\<lambda>i f. P f) (pd_feedback s))))"

definition listReceived :: "id \<Rightarrow> nat \<Rightarrow> nat \<Rightarrow> perf_db \<Rightarrow> (id \<times> feedback_row) list" where
  "listReceived employeeId = feedback_page (\<lambda>f. fb_receivedBy f = employeeId)"

definition listGiven :: "id \<Rightarrow> nat \<Rightarrow> nat \<Rightarrow> perf_db \<Rightarrow> (id \<times> feedback_row) list" where
  "listGiven employeeId = feedback_page (\<lambda>f. fb_givenBy f = employeeId)"

section \<open>Runs\<close>

datatype perf_call =
    CreateGoal id instant goal_dto
  | UpdateGoal id "string option" "goal_status option" "int option" "string option"
  | PostCheckIn id instant id id string "int option" "goal_status option"
  | CreateMeeting id "id list" id id instant "string option" "item_dto list"
  | AddActionItem id id item_dto
  | CompleteActionItem instant id
  | InitiatePip id instant pip_dto id
  | AddPipCheckIn id
  | ClosePip instant id pip_outcome "string option" id
  | CreateReviewCycle id instant cycle_dto
  | ActivateCycle "id list" instant id id
  | CloseCycle instant id id
  | SaveResponse id id respondent_role string json
  | SubmitReview instant id respondent_role
  | CalibrationOverride id id string string id
  | AcknowledgeReview instant id
  | GiveFeedback id instant id id string "visibility option" "string option" "id option"

fun perf_step :: "perf_call \<Rightarrow> perf_db \<Rightarrow> perf_db" where
  "perf_step (CreateGoal i now dto) s = snd (createGoal i now dto s)"
| "perf_step (UpdateGoal i a b c d) s = snd (updateGoal i a b c d s)"
| "perf_step (PostCheckIn i now g p n v st) s = snd (postCheckIn i now g p n v st s)"
| "perf_step (CreateMeeting i ids m e d n xs) s = snd (createMeeting i ids m e d n xs s)"
| "perf_step (AddActionItem i m x) s = snd (addActionItem i m x s)"
| "perf_step (CompleteActionItem now i) s = snd (completeActionItem now i s)"
| "perf_step (InitiatePip i now dto u) s = snd (initiatePip i now dto u s)"
| "perf_step (AddPipCheckIn i) s = snd (addPipCheckIn i s)"
| "perf_step (ClosePip now i out n u) s = snd (closePip now i out n u s)"
| "perf_step (CreateReviewCycle i now dto) s = snd (createReviewCycle i now dto s)"
| "perf_step (ActivateCycle ids now i u) s = snd (activateCycle ids now i u s)"
| "perf_step (CloseCycle now i u) s = snd (closeCycle now i u s)"
| "perf_step (SaveResponse n i role k js) s = snd (saveResponse n i role k js s)"
| "perf_step (SubmitReview now i role) s = snd (submitReview now i role s)"
| "perf_step (CalibrationOverride n i x j u) s = snd (applyCalibrationOverride n i x j u s)"
| "perf_step (AcknowledgeReview now i) s = snd (acknowledgeReview now i s)"
| "perf_step (GiveFeedback i now a b m v c g) s = snd (giveFeedback i now a b m v c g s)"

text \<open>The calls outside reviews and plans leave both alone.\<close>

lemma add_items_frame:
  "pd_pips (snd (add_items m ids xs s)) = pd_pips s" "pd_reviews (snd (add_items m ids xs s)) = pd_reviews s"
  "pd_overrides (snd (add_items m ids xs s)) = pd_overrides s"
  by (induction m ids xs s rule: add_items.induct) (auto simp: addActionItem_def split: if_splits sum.splits prod.splits)

section \<open>One active plan\<close>

definition one_active_pip :: "perf_db \<Rightarrow> bool" where
  "one_active_pip s \<longleftrightarrow> distinct (tbl_ids (pd_pips s)) \<and>
     (\<forall>(i, p) \<in> set (pd_pips s). \<forall>(j, q) \<in> set (pd_pips s).
        pi_status p = PipACTIVE \<and> pi_status q = PipACTIVE \<and> pi_employeeId p = pi_employeeId q \<longrightarrow> i = j)"

fun plan_call :: "perf_call \<Rightarrow> bool" where
  "plan_call (InitiatePip i now dto u) = True"
| "plan_call (ClosePip now i out n u) = True"
| "plan_call c = False"

fun review_call :: "perf_call \<Rightarrow> bool" where
  "review_call (ActivateCycle ids now i u) = True"
| "review_call (SaveResponse n i role k js) = True"
| "review_call (SubmitReview now i role) = True"
| "review_call (CalibrationOverride n i x j u) = True"
| "review_call (AcknowledgeReview now i) = True"
| "review_call c = False"

lemma pips_frame:
  "\<not> plan_call c \<Longrightarrow> pd_pips (perf_step c s) = pd_pips s"
  by (cases c) (auto simp: createGoal_def updateGoal_def postCheckIn_def createMeeting_def add_items_frame addActionItem_def
      completeActionItem_def addPipCheckIn_def createReviewCycle_def activateCycle_def closeCycle_def saveResponse_def submitReview_def
      applyCalibrationOverride_def acknowledgeReview_def giveFeedback_def Let_def split: option.splits)

lemma one_active_pip_step:
  assumes "one_active_pip s"
  shows "one_active_pip (perf_step c s)"
proof (cases "plan_call c")
  case False
  then have "pd_pips (perf_step c s) = pd_pips s" by (rule pips_frame)
  then show ?thesis using assms by (simp add: one_active_pip_def)
next
  case True
  then consider (initiate) i now dto u where "c = InitiatePip i now dto u" | (close) now i out n u where "c = ClosePip now i out n u"
    by (cases c) auto
  then show ?thesis
  proof cases
    case c: initiate
    show ?thesis
    proof (cases "pd_pips (perf_step c s) = pd_pips s")
      case True
      then show ?thesis using assms by (simp add: one_active_pip_def)
    next
      case False
      then have none: "active_pip (pt_employeeId dto) s = None" by (cases "active_pip (pt_employeeId dto) s") (simp_all add: c initiatePip_def)
      with False obtain p where p: "pd_pips (perf_step c s) = pd_pips s @ [(i, p)]" "fresh i (pd_pips s)" "pi_employeeId p = pt_employeeId dto"
        by (auto simp: c initiatePip_def tbl_insert_def split: if_splits)
      have "(j, q) \<in> set (pd_pips s) \<Longrightarrow> pi_status q = PipACTIVE \<Longrightarrow> pi_employeeId q \<noteq> pt_employeeId dto" for j q
        using none by (auto simp: active_pip_def tbl_find_None)
      then show ?thesis using assms p unfolding one_active_pip_def p(1) by (fastforce simp: fresh_def tbl_ids_def)
    qed
  next
    case c: close
    obtain f where f: "pd_pips (perf_step c s) = pd_pips s \<or> pd_pips (perf_step c s) = tbl_update i f (pd_pips s)" "\<And>p. pi_status (f p) \<noteq> PipACTIVE"
    proof
      let ?f = "\<lambda>r. r\<lparr>pi_status := PipCLOSED, pi_outcome := Some out, pi_outcomeNotes := (if n = None then pi_outcomeNotes r else n),
                        pi_closedAt := Some now, pi_closedBy := Some u\<rparr>"
      show "pd_pips (perf_step c s) = pd_pips s \<or> pd_pips (perf_step c s) = tbl_update i ?f (pd_pips s)"
        by (simp add: c closePip_def split: option.splits)
      show "pi_status (?f p) \<noteq> PipACTIVE" for p by simp
    qed
    from f(1) show ?thesis
    proof
      assume "pd_pips (perf_step c s) = pd_pips s"
      then show ?thesis using assms by (simp add: one_active_pip_def)
    next
      assume "pd_pips (perf_step c s) = tbl_update i f (pd_pips s)"
      then show ?thesis using assms f(2) unfolding one_active_pip_def by (fastforce simp: set_tbl_update split: if_splits)
    qed
  qed
qed

text \<open>
  An employee has at most one active improvement plan: through any sequence of calls of the
  performance services, whatever the plans' managers and the employee's earlier, closed plans.
\<close>

lemma one_active_plan:
  assumes "pd_pips s = []"
  shows "length (filter (\<lambda>(i, p). pi_employeeId p = e \<and> pi_status p = PipACTIVE) (pd_pips (fold perf_step calls s))) \<le> 1"
proof -
  have "one_active_pip s" using assms by (simp add: one_active_pip_def tbl_ids_def)
  then have inv: "one_active_pip (fold perf_step calls s)" by (rule fold_keeps) (rule one_active_pip_step)
  let ?t = "pd_pips (fold perf_step calls s)" and ?F = "\<lambda>(i, p). pi_employeeId p = e \<and> pi_status p = PipACTIVE"
  have d: "distinct (map fst (filter ?F ?t))" using conjunct1[OF inv[unfolded one_active_pip_def tbl_ids_def]] by (rule distinct_map_filter)
  have same: "fst a = fst b" if "a \<in> set (filter ?F ?t)" "b \<in> set (filter ?F ?t)" for a b
  proof -
    from that have "a \<in> set ?t" "b \<in> set ?t" "?F a" "?F b" by auto
    moreover obtain i p where a: "a = (i, p)" by (cases a)
    moreover obtain j q where b: "b = (j, q)" by (cases b)
    moreover have "\<forall>(j, q) \<in> set ?t. pi_status p = PipACTIVE \<and> pi_status q = PipACTIVE \<and> pi_employeeId p = pi_employeeId q \<longrightarrow> i = j"
      using inv calculation(1) a unfolding one_active_pip_def by blast
    ultimately show ?thesis by fastforce
  qed
  show ?thesis
  proof (cases "filter ?F ?t")
    case (Cons a xs)
    show ?thesis
    proof (cases xs)
      case (Cons b ys)
      then have "filter ?F ?t = a # b # ys" using \<open>filter ?F ?t = a # xs\<close> by simp
      then show ?thesis using d same[of a b] by simp
    qed (use \<open>filter ?F ?t = a # xs\<close> in simp)
  qed simp
qed

section \<open>The rating of a review\<close>

text \<open>Each override starts from the rating the one before left.\<close>

fun chain_from :: "string \<Rightarrow> override_row list \<Rightarrow> bool" where
  "chain_from x [] = True"
| "chain_from x (v # vs) = (ov_originalRating v = x \<and> chain_from (ov_overriddenRating v) vs)"

fun chain_end :: "string \<Rightarrow> override_row list \<Rightarrow> string" where
  "chain_end x [] = x"
| "chain_end x (v # vs) = chain_end (ov_overriddenRating v) vs"

lemma chain_append:
  "chain_from x (vs @ [v]) \<longleftrightarrow> chain_from x vs \<and> ov_originalRating v = chain_end x vs"
  "chain_end x (vs @ [v]) = ov_overriddenRating v"
  by (induction vs arbitrary: x) auto

definition overrides_of :: "id \<Rightarrow> perf_db \<Rightarrow> override_row list" where
  "overrides_of i s = map snd (filter (\<lambda>(j, v). ov_reviewId v = i) (pd_overrides s))"

definition rating_ok :: "id \<Rightarrow> perf_db \<Rightarrow> bool" where
  "rating_ok i s \<longleftrightarrow> chain_from ''N/A'' (overrides_of i s) \<and>
     (case tbl_get i (pd_reviews s) of None \<Rightarrow> overrides_of i s = []
      | Some r \<Rightarrow> ri_overallRating r = (if overrides_of i s = [] then None else Some (chain_end ''N/A'' (overrides_of i s)))
          \<and> (overrides_of i s \<noteq> [] \<longrightarrow> ri_selfReviewStatus r = ReviewSUBMITTED \<and> ri_managerReviewStatus r = ReviewSUBMITTED))"

lemma ratings_frame:
  "\<not> review_call c
    \<Longrightarrow> pd_reviews (perf_step c s) = pd_reviews s \<and> pd_overrides (perf_step c s) = pd_overrides s"
  by (cases c) (auto simp: createGoal_def updateGoal_def postCheckIn_def createMeeting_def add_items_frame addActionItem_def
      completeActionItem_def initiatePip_def closePip_def addPipCheckIn_def createReviewCycle_def closeCycle_def giveFeedback_def Let_def split: option.splits)

lemma fan_out_get:
  "fan_out ids c u es t = Some t' \<Longrightarrow>
     tbl_get i t' = (case tbl_get i t of Some r \<Rightarrow> Some r | None \<Rightarrow> tbl_get i t')
     \<and> (tbl_get i t = None \<longrightarrow> (case tbl_get i t' of None \<Rightarrow> True | Some r \<Rightarrow> ri_overallRating r = None))"
proof (induction ids c u es t rule: fan_out.induct)
  case (3 j ids c u e r es t)
  let ?row = "new_review c e (case em_managerId r of None \<Rightarrow> u | Some m \<Rightarrow> m)"
  from "3.prems" have "fresh j t" and no: "\<not> (\<not> fresh j t \<or> tbl_find (\<lambda>j q. ri_cycleId q = c \<and> ri_employeeId q = e) t \<noteq> None)"
    and rest: "fan_out ids c u es (tbl_insert j ?row t) = Some t'"
    by (simp_all split: if_splits)
  then show ?case using "3.IH"[OF no rest] by (auto simp: tbl_get_insert new_review_def fresh_get split: option.splits if_splits)
qed (auto split: option.splits)

lemma set_role_status_simps [simp]:
  "ri_overallRating (set_role_status role x r) = ri_overallRating r"
  "ri_selfReviewStatus r = ReviewSUBMITTED \<Longrightarrow> ri_selfReviewStatus (set_role_status role ReviewSUBMITTED r) = ReviewSUBMITTED"
  "ri_managerReviewStatus r = ReviewSUBMITTED \<Longrightarrow> ri_managerReviewStatus (set_role_status role ReviewSUBMITTED r) = ReviewSUBMITTED"
  by (cases role; simp)+

lemma never_not_started [simp]: "review_status_name x \<noteq> ''NOT_STARTED''"
  by (cases x) simp_all

lemma rating_ok_update:
  assumes "rating_ok i s" and "pd_overrides t = pd_overrides s" and "pd_reviews t = tbl_update k f (pd_reviews s)"
    and "\<And>r. ri_overallRating (f r) = ri_overallRating r"
    and "\<And>r. ri_selfReviewStatus r = ReviewSUBMITTED \<Longrightarrow> ri_selfReviewStatus (f r) = ReviewSUBMITTED"
    and "\<And>r. ri_managerReviewStatus r = ReviewSUBMITTED \<Longrightarrow> ri_managerReviewStatus (f r) = ReviewSUBMITTED"
  shows "rating_ok i t"
proof -
  have "overrides_of i t = overrides_of i s" using assms(2) by (simp add: overrides_of_def)
  then show ?thesis using assms(1,3-6) by (cases "tbl_get i (pd_reviews s)") (auto simp: rating_ok_def)
qed

lemma rating_ok_same: "rating_ok i s \<Longrightarrow> pd_overrides t = pd_overrides s \<Longrightarrow> pd_reviews t = pd_reviews s \<Longrightarrow> rating_ok i t"
  by (simp only: rating_ok_def overrides_of_def)

lemma rating_ok_override:
  assumes "rating_ok i s"
  shows "rating_ok i (snd (applyCalibrationOverride n k x j u s))"
proof (cases "is_error (fst (applyCalibrationOverride n k x j u s))")
  case True
  then have "snd (applyCalibrationOverride n k x j u s) = s" by (auto simp: applyCalibrationOverride_def split: option.splits if_splits)
  then show ?thesis using assms by simp
next
  case False
  then obtain r where r: "tbl_get k (pd_reviews s) = Some r" "ri_selfReviewStatus r = ReviewSUBMITTED" "ri_managerReviewStatus r = ReviewSUBMITTED"
    "fresh n (pd_overrides s)" by (auto simp: applyCalibrationOverride_def split: option.splits if_splits)
  let ?v = "\<lparr>ov_reviewId = k, ov_originalRating = (case ri_overallRating r of None \<Rightarrow> ''N/A'' | Some x \<Rightarrow> x),
              ov_overriddenRating = x, ov_overriddenBy = u, ov_justification = j\<rparr>"
  let ?t = "snd (applyCalibrationOverride n k x j u s)"
  have t: "pd_overrides ?t = pd_overrides s @ [(n, ?v)]" "pd_reviews ?t = tbl_update k (\<lambda>r. r\<lparr>ri_overallRating := Some x\<rparr>) (pd_reviews s)"
    using r by (simp_all add: applyCalibrationOverride_def tbl_insert_def)
  have vs: "overrides_of i ?t = overrides_of i s @ (if k = i then [?v] else [])" by (simp add: overrides_of_def t)
  show ?thesis
  proof (cases "k = i")
    case True
    have "ri_overallRating r = (if overrides_of i s = [] then None else Some (chain_end ''N/A'' (overrides_of i s)))" "chain_from ''N/A'' (overrides_of i s)"
      using assms r(1) True by (simp_all add: rating_ok_def)
    then show ?thesis using r True unfolding rating_ok_def vs t by (simp add: chain_append)
  next
    case False
    then have "overrides_of i ?t = overrides_of i s" using vs by simp
    then show ?thesis using assms False unfolding rating_ok_def t by (cases "tbl_get i (pd_reviews s)") simp_all
  qed
qed

lemma rating_ok_step:
  assumes "rating_ok i s"
  shows "rating_ok i (perf_step c s)"
proof (cases c)
  case (ActivateCycle ids now k u)
  let ?es = "tbl_all (\<lambda>i e. em_status e = EmpACTIVE) (pd_employees s)"
  have o: "pd_overrides (perf_step c s) = pd_overrides s" by (simp add: ActivateCycle activateCycle_def Let_def split: option.splits)
  then have vs: "overrides_of i (perf_step c s) = overrides_of i s" by (simp add: overrides_of_def)
  have "pd_reviews (perf_step c s) = pd_reviews s \<or> fan_out ids k u ?es (pd_reviews s) = Some (pd_reviews (perf_step c s))"
    by (simp add: ActivateCycle activateCycle_def Let_def split: option.splits)
  then show ?thesis
  proof
    assume "fan_out ids k u ?es (pd_reviews s) = Some (pd_reviews (perf_step c s))"
    from fan_out_get[OF this, of i] show ?thesis using assms vs
      by (cases "tbl_get i (pd_reviews s)"; cases "tbl_get i (pd_reviews (perf_step c s))") (auto simp: rating_ok_def)
  qed (use assms o rating_ok_same in blast)
next
  case (SaveResponse n k role key js)
  then show ?thesis by (intro rating_ok_same[OF assms]) (simp_all add: saveResponse_def split: option.splits)
next
  case (SubmitReview now k role)
  have "snd (submitReview now k role s) = s \<or> pd_reviews (snd (submitReview now k role s)) = tbl_update k (set_role_status role ReviewSUBMITTED) (pd_reviews s)
      \<and> pd_overrides (snd (submitReview now k role s)) = pd_overrides s"
    by (simp add: submitReview_def Let_def split: option.splits)
  then show ?thesis
  proof
    assume "pd_reviews (snd (submitReview now k role s)) = tbl_update k (set_role_status role ReviewSUBMITTED) (pd_reviews s)
      \<and> pd_overrides (snd (submitReview now k role s)) = pd_overrides s"
    then show ?thesis using rating_ok_update[OF assms, of "perf_step c s" k "set_role_status role ReviewSUBMITTED"] by (simp add: SubmitReview)
  qed (use assms in \<open>simp add: SubmitReview\<close>)
next
  case (CalibrationOverride n k x j u)
  then show ?thesis using rating_ok_override[OF assms] by simp
next
  case (AcknowledgeReview now k)
  have "snd (acknowledgeReview now k s) = s \<or> pd_reviews (snd (acknowledgeReview now k s)) = tbl_update k (\<lambda>r. r\<lparr>ri_acknowledged := True, ri_acknowledgedAt := Some now\<rparr>) (pd_reviews s)
      \<and> pd_overrides (snd (acknowledgeReview now k s)) = pd_overrides s"
    by (simp add: acknowledgeReview_def Let_def split: option.splits)
  then show ?thesis
  proof
    assume "pd_reviews (snd (acknowledgeReview now k s)) = tbl_update k (\<lambda>r. r\<lparr>ri_acknowledged := True, ri_acknowledgedAt := Some now\<rparr>) (pd_reviews s)
      \<and> pd_overrides (snd (acknowledgeReview now k s)) = pd_overrides s"
    then show ?thesis using rating_ok_update[OF assms, of "perf_step c s" k "\<lambda>r. r\<lparr>ri_acknowledged := True, ri_acknowledgedAt := Some now\<rparr>"] by (simp add: AcknowledgeReview)
  qed (use assms in \<open>simp add: AcknowledgeReview\<close>)
qed (use ratings_frame[of c s] rating_ok_same[OF assms] in \<open>simp_all add: review_call.simps del: perf_step.simps\<close>)

text \<open>
  C37: The rating of a review is what its calibration history says: the overrides form a chain that starts
  without a rating, each one beginning where the one before ended, the review carries the rating of the last
  one, none while there is none, and a review with a rating was submitted by the employee and by the manager.
\<close>

theorem rating_follows_overrides:
  assumes "pd_reviews s = []" and "pd_overrides s = []"
    and "tbl_get i (pd_reviews (fold perf_step calls s)) = Some r"
  shows "let vs = overrides_of i (fold perf_step calls s)
    in chain_from ''N/A'' vs \<and> ri_overallRating r = (if vs = [] then None else Some (chain_end ''N/A'' vs))
      \<and> (vs \<noteq> [] \<longrightarrow> ri_selfReviewStatus r = ReviewSUBMITTED \<and> ri_managerReviewStatus r = ReviewSUBMITTED)"
proof -
  have "rating_ok i s" using assms(1,2) by (simp add: rating_ok_def overrides_of_def tbl_get_def)
  then have "rating_ok i (fold perf_step calls s)" by (rule fold_keeps) (rule rating_ok_step)
  then show ?thesis using assms(3) by (simp add: rating_ok_def Let_def)
qed

definition perf_office :: perf_db where
  "perf_office = \<lparr>pd_employees = [(''e'', new_employee ''co'' None)], pd_goals = [], pd_goalCheckIns = [], pd_meetings = [],
     pd_items = [], pd_cycles = [], pd_reviews = [], pd_responses = [], pd_overrides = [], pd_pips = [], pd_feedback = [],
     pd_events = [], pd_audit = []\<rparr>"

definition perf_story :: "perf_call list" where
  "perf_story =
    [InitiatePip ''p1'' 1 \<lparr>pt_employeeId = ''e'', pt_managerId = ''m'', pt_reason = ''r'', pt_goals = ''g'', pt_startDate = 0, pt_endDate = 1\<rparr> ''m'',
     ClosePip 2 ''p1'' SUCCESSFUL None ''m'',
     InitiatePip ''p2'' 3 \<lparr>pt_employeeId = ''e'', pt_managerId = ''m'', pt_reason = ''r'', pt_goals = ''g'', pt_startDate = 0, pt_endDate = 1\<rparr> ''m'',
     CreateReviewCycle ''c'' 1 \<lparr>ce_name = ''Y'', ce_selfReviewDeadline = 9, ce_managerReviewDeadline = 9, ce_startDate = 0, ce_endDate = 9\<rparr>,
     ActivateCycle [''r''] 2 ''c'' ''m'', SaveResponse ''x1'' ''r'' RespSELF ''k'' (JStr ''a''), SubmitReview 3 ''r'' RespSELF,
     SaveResponse ''x2'' ''r'' RespMANAGER ''k'' (JStr ''b''), SubmitReview 4 ''r'' RespMANAGER,
     CalibrationOverride ''o1'' ''r'' ''B'' ''peers'' ''h'', CalibrationOverride ''o2'' ''r'' ''A'' ''again'' ''h'']"

theorem rating_follows_overrides_witness:
  "map_option ri_overallRating (tbl_get ''r'' (pd_reviews (fold perf_step perf_story perf_office))) = Some (Some ''A'')
    \<and> chain_from ''N/A'' (overrides_of ''r'' (fold perf_step perf_story perf_office))"
proof -
  have run: "map_option ri_overallRating (tbl_get ''r'' (pd_reviews (fold perf_step perf_story perf_office))) = Some (Some ''A'')" by code_simp
  then obtain r where "tbl_get ''r'' (pd_reviews (fold perf_step perf_story perf_office)) = Some r" by auto
  moreover have "pd_reviews perf_office = []" "pd_overrides perf_office = []" by (simp_all add: perf_office_def)
  ultimately have "chain_from ''N/A'' (overrides_of ''r'' (fold perf_step perf_story perf_office))"
    using rating_follows_overrides unfolding Let_def by blast
  then show ?thesis using run by blast
qed

end
