(* ===== verification/Report_Queries.thy ===== *)
theory Report_Queries
  imports Staff Calendar Money "HOL-Library.List_Lexorder" "HOL-Library.Char_ord" "HOL-Library.Product_Lexorder"
begin

text \<open>
  The report queries of \<^verbatim>\<open>reports/services/report-query.service.ts\<close>. A query text is described by
  the rows it selects and by what the database checks before it runs it: the columns it names, its
  placeholders and the literals it compares enumerations with. The collation of the database, as a sort
  key, and its schema are parameters; \<open>repo_schema\<close> is the schema of \<^verbatim>\<open>libs/prisma/schema.prisma\<close>.
  Amounts are in hundredths.
\<close>

section \<open>Tables read\<close>

record payroll_figures =
  pf_cycleId :: id
  pf_employeeId :: id
  pf_gross :: int
  pf_deductions :: int
  pf_net :: int
  pf_createdAt :: instant

record balance_figures =
  bf_employeeId :: id
  bf_leaveTypeId :: id
  bf_year :: int
  bf_entitled :: int
  bf_used :: int
  bf_balance :: int

record leave_type_names =
  tn_name :: string
  tn_code :: string

record log_figures =
  lf_employeeId :: id
  lf_date :: instant
  lf_status :: string

record report_tables =
  rb_employees :: "employee_row table"
  rb_departments :: "string table"
  rb_users :: "(string \<times> string) table"
  rb_titles :: "string table"
  rb_entries :: "payroll_figures table"
  rb_balances :: "balance_figures table"
  rb_types :: "leave_type_names table"
  rb_logs :: "log_figures table"

datatype report_cell = CNull | CText string | CInt int | CDecimal rat | CNum jsnum | CDate instant

type_synonym report_row = "(string \<times> report_cell) list"

datatype report_key = HEADCOUNT | ATTRITION | PAYROLL_SUMMARY | LEAVE_UTILIZATION | ATTENDANCE_SUMMARY | NEW_HIRES | EXITS

text \<open>The values of the enumeration in the code.\<close>

fun report_key_value :: "report_key \<Rightarrow> string" where
  "report_key_value HEADCOUNT = ''headcount''"
| "report_key_value ATTRITION = ''attrition''"
| "report_key_value PAYROLL_SUMMARY = ''payroll_summary''"
| "report_key_value LEAVE_UTILIZATION = ''leave_utilization''"
| "report_key_value ATTENDANCE_SUMMARY = ''attendance_summary''"
| "report_key_value NEW_HIRES = ''new_hires''"
| "report_key_value EXITS = ''exits''"

definition all_report_keys :: "report_key list" where
  "all_report_keys = [HEADCOUNT, ATTRITION, PAYROLL_SUMMARY, LEAVE_UTILIZATION, ATTENDANCE_SUMMARY, NEW_HIRES, EXITS]"

text \<open>The dates as instants and, cast to \<^verbatim>\<open>date\<close>, as midnight of the day they name.\<close>

record report_query =
  rp_reportKey :: string
  rp_startAt :: instant
  rp_startDate :: instant
  rp_endAt :: instant
  rp_endDate :: instant
  rp_departmentId :: "id option"
  rp_leaveType :: "string option"

section \<open>What the database checks\<close>

record sql_statement =
  sq_columns :: "(string \<times> string) list"
  sq_placeholders :: "nat list"
  sq_parameters :: nat
  sq_literals :: "(string \<times> string) list"

record sql_schema =
  sc_columns :: "(string \<times> string) list"
  sc_literals :: "(string \<times> string) list"

text \<open>Every parameter is used, and every placeholder has a parameter.\<close>

definition sql_accepts :: "sql_schema \<Rightarrow> sql_statement \<Rightarrow> bool" where
  "sql_accepts sch q \<longleftrightarrow>
     set (sq_columns q) \<subseteq> set (sc_columns sch) \<and> set (sq_placeholders q) = {1..sq_parameters q}
     \<and> set (sq_literals q) \<subseteq> set (sc_literals sch)"

definition query_raw :: "sql_schema \<Rightarrow> sql_statement \<Rightarrow> report_row list \<Rightarrow> app_error + report_row list" where
  "query_raw sch q rows = (if sql_accepts sch q then Inr rows else Inl (DatabaseError ''Raw query failed''))"

definition repo_schema :: sql_schema where
  "repo_schema =
     \<lparr>sc_columns =
        map (Pair ''employees'') [''id'', ''companyId'', ''employeeNumber'', ''userId'', ''departmentId'', ''managerId'', ''jobTitleId'',
          ''locationId'', ''payGradeId'', ''employmentType'', ''status'', ''joinedAt'', ''probationEndsAt'', ''exitedAt'', ''lastWorkingDate'',
          ''exitReason'', ''workEmail'', ''workPhone'', ''createdAt'', ''updatedAt'', ''deletedAt'']
        @ map (Pair ''departments'') [''id'', ''companyId'', ''parentId'', ''name'', ''code'', ''costCenter'', ''headId'', ''isActive'',
          ''createdAt'', ''updatedAt'', ''deletedAt'']
        @ map (Pair ''users'') [''id'', ''email'', ''passwordHash'', ''firstName'', ''lastName'', ''avatarUrl'', ''locale'', ''isActive'',
          ''mfaSecret'', ''mfaEnabled'', ''lastLoginAt'', ''createdAt'', ''updatedAt'', ''deletedAt'']
        @ map (Pair ''job_titles'') [''id'', ''companyId'', ''title'', ''code'', ''level'', ''isActive'', ''createdAt'', ''updatedAt'', ''deletedAt'']
        @ map (Pair ''payroll_entries'') [''id'', ''cycleId'', ''employeeId'', ''structureId'', ''monthlyCtc'', ''workingDays'', ''presentDays'',
          ''lopDays'', ''grossEarnings'', ''totalDeductions'', ''netPayable'', ''status'', ''notes'', ''payslipKey'', ''payslipGeneratedAt'',
          ''payslipGenFailed'', ''createdAt'', ''updatedAt'']
        @ map (Pair ''leave_balances'') [''id'', ''employeeId'', ''leaveTypeId'', ''year'', ''entitled'', ''used'', ''carriedForward'', ''balance'', ''updatedAt'']
        @ map (Pair ''leave_types'') [''id'', ''companyId'', ''name'', ''code'', ''accrualType'', ''accrualAmount'', ''maxCarryForward'', ''maxBalance'',
          ''isPaid'', ''isActive'', ''createdAt'', ''updatedAt'']
        @ map (Pair ''attendance_logs'') [''id'', ''companyId'', ''employeeId'', ''date'', ''checkInAt'', ''checkOutAt'', ''source'', ''ipAddress'',
          ''coordinates'', ''workedMinutes'', ''overtimeMinutes'', ''status'', ''checkInLat'', ''checkInLng'', ''checkOutLat'', ''checkOutLng'',
          ''deviceId'', ''notes'', ''isCorrected'', ''correctionReason'', ''correctedById'', ''correctedAt'', ''createdAt'', ''updatedAt''],
      sc_literals =
        map (Pair ''EmployeeStatus'') [''ACTIVE'', ''INACTIVE'', ''ON_LEAVE'', ''TERMINATED'']
        @ map (Pair ''AttendanceStatus'') [''PRESENT'', ''ABSENT'', ''LATE'', ''HALF_DAY'', ''ON_LEAVE'', ''HOLIDAY'']\<rparr>"

section \<open>Relational operators\<close>

definition text_cell :: "string option \<Rightarrow> report_cell" where
  "text_cell x = (case x of None \<Rightarrow> CNull | Some s \<Rightarrow> CText s)"

definition date_cell :: "instant option \<Rightarrow> report_cell" where
  "date_cell x = (case x of None \<Rightarrow> CNull | Some t \<Rightarrow> CDate t)"

text \<open>Ascending order puts the nulls at the end.\<close>

definition nulls_last :: "(string \<Rightarrow> string) \<Rightarrow> string option \<Rightarrow> nat \<times> string" where
  "nulls_last collate x = (case x of None \<Rightarrow> (1, []) | Some s \<Rightarrow> (0, collate s))"

definition group_by :: "('a \<Rightarrow> 'k) \<Rightarrow> 'a list \<Rightarrow> ('k \<times> 'a list) list" where
  "group_by key xs = map (\<lambda>k. (k, filter (\<lambda>x. key x = k) xs)) (remdups (map key xs))"

definition full_outer_join :: "('a \<Rightarrow> 'b \<Rightarrow> bool) \<Rightarrow> 'a list \<Rightarrow> 'b list \<Rightarrow> ('a option \<times> 'b option) list" where
  "full_outer_join on xs ys =
     concat (map (\<lambda>x. if filter (on x) ys = [] then [(Some x, None)] else map (\<lambda>y. (Some x, Some y)) (filter (on x) ys)) xs)
     @ map (\<lambda>y. (None, Some y)) (filter (\<lambda>y. \<not> list_ex (\<lambda>x. on x y) xs) ys)"

text \<open>\<^verbatim>\<open>=\<close> on names: a null equals nothing.\<close>

definition sql_eq :: "string option \<Rightarrow> string option \<Rightarrow> bool" where
  "sql_eq a b = (a \<noteq> None \<and> a = b)"

definition dept_name :: "report_tables \<Rightarrow> employee_row \<Rightarrow> string option" where
  "dept_name db e = (case em_departmentId e of None \<Rightarrow> None | Some d \<Rightarrow> tbl_get d (rb_departments db))"

definition in_department :: "report_query \<Rightarrow> employee_row \<Rightarrow> bool" where
  "in_department q e = (rp_departmentId q = None \<or> em_departmentId e = rp_departmentId q)"

definition user_name :: "report_tables \<Rightarrow> employee_row \<Rightarrow> (string \<times> string) option" where
  "user_name db e = (case em_userId e of None \<Rightarrow> None | Some u \<Rightarrow> tbl_get u (rb_users db))"

definition full_name :: "string \<times> string \<Rightarrow> string" where
  "full_name n = fst n @ '' '' @ snd n"

fun employment_rank :: "employment_type \<Rightarrow> nat" where
  "employment_rank FULL_TIME = 0"
| "employment_rank PART_TIME = 1"
| "employment_rank CONTRACT = 2"
| "employment_rank INTERN = 3"

fun employment_text :: "employment_type \<Rightarrow> string" where
  "employment_text FULL_TIME = ''FULL_TIME''"
| "employment_text PART_TIME = ''PART_TIME''"
| "employment_text CONTRACT = ''CONTRACT''"
| "employment_text INTERN = ''INTERN''"

section \<open>Headcount and attrition\<close>

text \<open>The parameters are passed as one array, which is a single parameter.\<close>

definition headcount_sql :: "report_query \<Rightarrow> sql_statement" where
  "headcount_sql q =
     \<lparr>sq_columns = [(''departments'', ''id''), (''departments'', ''name''), (''employees'', ''id''), (''employees'', ''employment_type''),
        (''employees'', ''department_id''), (''employees'', ''status''), (''employees'', ''joined_at''), (''employees'', ''exited_at'')],
      sq_placeholders = (if rp_departmentId q = None then [2, 1] else [2, 1, 3]), sq_parameters = 1,
      sq_literals = [(''EmployeeStatus'', ''ACTIVE'')]\<rparr>"

definition headcount :: "(string \<Rightarrow> string) \<Rightarrow> sql_schema \<Rightarrow> report_query \<Rightarrow> report_tables \<Rightarrow> app_error + report_row list" where
  "headcount collate sch q db =
     (let rows = filter (\<lambda>e. em_status e = EmpACTIVE \<and> em_joinedAt e \<le> rp_endDate q
                    \<and> (case em_exitedAt e of None \<Rightarrow> True | Some x \<Rightarrow> rp_startDate q < x) \<and> in_department q e) (map snd (rb_employees db));
          groups = sort_key (\<lambda>((d, t), es). (nulls_last collate d, employment_rank t))
                     (group_by (\<lambda>e. (dept_name db e, em_employmentType e)) rows)
      in query_raw sch (headcount_sql q)
           (map (\<lambda>((d, t), es). [(''department'', text_cell d), (''employment_type'', CText (employment_text t)),
                   (''active_count'', CInt (int (length es)))]) groups))"

definition attrition_sql :: "report_query \<Rightarrow> sql_statement" where
  "attrition_sql q =
     \<lparr>sq_columns = [(''departments'', ''id''), (''departments'', ''name''), (''employees'', ''id''), (''employees'', ''department_id''),
        (''employees'', ''joined_at''), (''employees'', ''exited_at'')],
      sq_placeholders = (if rp_departmentId q = None then [1, 2] else [1, 2, 3]), sq_parameters = 1, sq_literals = []\<rparr>"

text \<open>The employees of a day, who joined until it and did not leave until it.\<close>

definition present_on :: "instant \<Rightarrow> employee_row \<Rightarrow> bool" where
  "present_on d e \<longleftrightarrow> em_joinedAt e \<le> d \<and> (case em_exitedAt e of None \<Rightarrow> True | Some x \<Rightarrow> d < x)"

definition count_by_department :: "report_tables \<Rightarrow> (employee_row \<Rightarrow> bool) \<Rightarrow> (string option \<times> int) list" where
  "count_by_department db P =
     map (\<lambda>(d, es). (d, int (length es))) (group_by (dept_name db) (filter P (map snd (rb_employees db))))"

definition round4 :: "rat \<Rightarrow> rat" where
  "round4 x = of_int \<lfloor>x * 10000 + 1 / 2\<rfloor> / 10000"

text \<open>The department of a row that only the closing count has is missing.\<close>

definition attrition :: "(string \<Rightarrow> string) \<Rightarrow> sql_schema \<Rightarrow> report_query \<Rightarrow> report_tables \<Rightarrow> app_error + report_row list" where
  "attrition collate sch q db =
     (let opening = count_by_department db (\<lambda>e. present_on (rp_startDate q) e \<and> in_department q e);
          closing = count_by_department db (\<lambda>e. present_on (rp_endDate q) e \<and> in_department q e);
          exits = count_by_department db (\<lambda>e. (case em_exitedAt e of None \<Rightarrow> False | Some x \<Rightarrow> rp_startDate q \<le> x \<and> x \<le> rp_endDate q) \<and> in_department q e);
          name = (\<lambda>x. case x of None \<Rightarrow> None | Some (d, n) \<Rightarrow> d);
          number = (\<lambda>x. case x of None \<Rightarrow> 0 | Some (d, n) \<Rightarrow> n);
          coalesce = (\<lambda>a b. case a of None \<Rightarrow> b | Some x \<Rightarrow> Some x);
          joined = full_outer_join (\<lambda>oc e. sql_eq (coalesce (name (fst oc)) (name (snd oc))) (fst e))
                     (full_outer_join (\<lambda>o1 c. sql_eq (fst o1) (fst c)) opening closing) exits;
          row = (\<lambda>(oc, e). let o1 = (case oc of None \<Rightarrow> None | Some p \<Rightarrow> fst p); c = (case oc of None \<Rightarrow> None | Some p \<Rightarrow> snd p)
                  in (coalesce (name o1) (name e), number o1, number c, number e));
          rows = sort_key (\<lambda>(d, a, b, n). nulls_last collate d) (map row joined)
      in query_raw sch (attrition_sql q)
           (map (\<lambda>(d, a, b, n). [(''department'', text_cell d), (''opening_headcount'', CInt a), (''closing_headcount'', CInt b), (''exits'', CInt n),
                   (''attrition_rate'', CDecimal (round4 (if a + b > 0 then of_int n / (of_int (a + b) / 2) else 0)))]) rows))"

section \<open>Payroll, leave, attendance\<close>

definition payroll_summary_sql :: "report_query \<Rightarrow> sql_statement" where
  "payroll_summary_sql q =
     (let placeholders = (if rp_departmentId q = None then [1, 2] else [3, 1, 2])
      in \<lparr>sq_columns = [(''departments'', ''id''), (''departments'', ''name''), (''payroll_entries'', ''cycle_id''), (''payroll_entries'', ''gross_earnings''),
            (''payroll_entries'', ''total_deductions''), (''payroll_entries'', ''net_payable''), (''payroll_entries'', ''employee_id''),
            (''payroll_entries'', ''created_at''), (''employees'', ''id''), (''employees'', ''department_id'')],
          sq_placeholders = placeholders, sq_parameters = length placeholders, sq_literals = []\<rparr>)"

definition payrollSummary :: "(string \<Rightarrow> string) \<Rightarrow> sql_schema \<Rightarrow> report_query \<Rightarrow> report_tables \<Rightarrow> app_error + report_row list" where
  "payrollSummary collate sch q db =
     (let joined = [(dept_name db e, p). (i, p) \<leftarrow> rb_entries db, rp_startAt q \<le> pf_createdAt p \<and> pf_createdAt p \<le> rp_endAt q,
                      e \<leftarrow> (case tbl_get (pf_employeeId p) (rb_employees db) of None \<Rightarrow> [] | Some e \<Rightarrow> [e]), in_department q e];
          groups = sort_key (\<lambda>((d, c), ps). (nulls_last collate d, c)) (group_by (\<lambda>(d, p). (d, pf_cycleId p)) joined);
          total = (\<lambda>f ps. CNum (round2dp (cents (sum_list (map (\<lambda>(d, p). f p) ps)))))
      in query_raw sch (payroll_summary_sql q)
           (map (\<lambda>((d, c), ps). [(''department'', text_cell d), (''payroll_period'', CText c), (''total_gross'', total pf_gross ps),
                   (''total_deductions'', total pf_deductions ps), (''total_net'', total pf_net ps),
                   (''employee_count'', CInt (int (length (remdups (map (\<lambda>(d, p). pf_employeeId p) ps)))))]) groups))"

text \<open>The start date is passed and not used, which leaves its parameter without a type.\<close>

definition leave_utilization_sql :: "report_query \<Rightarrow> sql_statement" where
  "leave_utilization_sql q =
     (let placeholders = (if rp_departmentId q = None then [] else [3])
            @ (if rp_leaveType q = None then [] else if rp_departmentId q = None then [3] else [4]) @ [2]
      in \<lparr>sq_columns = [(''leave_types'', ''id''), (''leave_types'', ''name''), (''leave_types'', ''code''), (''departments'', ''id''), (''departments'', ''name''),
            (''employees'', ''id''), (''employees'', ''user_id''), (''employees'', ''department_id''), (''users'', ''id''), (''users'', ''first_name''),
            (''users'', ''last_name''), (''leave_balances'', ''employee_id''), (''leave_balances'', ''leave_type_id''), (''leave_balances'', ''year''),
            (''leave_balances'', ''entitled''), (''leave_balances'', ''used''), (''leave_balances'', ''balance'')],
          sq_placeholders = placeholders, sq_parameters = length placeholders + 1, sq_literals = []\<rparr>)"

definition leaveUtilization :: "(string \<Rightarrow> string) \<Rightarrow> sql_schema \<Rightarrow> report_query \<Rightarrow> report_tables \<Rightarrow> app_error + report_row list" where
  "leaveUtilization collate sch q db =
     (let joined = [(t, dept_name db e, bf_employeeId b, n, b). (i, b) \<leftarrow> rb_balances db, bf_year b = getUTCFullYear (rp_endDate q),
                      e \<leftarrow> (case tbl_get (bf_employeeId b) (rb_employees db) of None \<Rightarrow> [] | Some e \<Rightarrow> [e]), in_department q e,
                      n \<leftarrow> (case user_name db e of None \<Rightarrow> [] | Some n \<Rightarrow> [n]),
                      t \<leftarrow> (case tbl_get (bf_leaveTypeId b) (rb_types db) of None \<Rightarrow> [] | Some t \<Rightarrow> [t]),
                      rp_leaveType q = None \<or> rp_leaveType q = Some (tn_code t)];
          rows = sort_key (\<lambda>(t, d, i, n, b). (if rp_leaveType q = None then collate (tn_name t) else [], nulls_last collate d,
                     collate (fst n), collate (snd n))) joined
      in query_raw sch (leave_utilization_sql q)
           (map (\<lambda>(t, d, i, n, b). [(''leave_type'', CText (tn_name t)), (''department'', text_cell d), (''employee_id'', CText i),
                   (''employee_name'', CText (full_name n)), (''days_entitled'', CDecimal (of_int (bf_entitled b) / 100)),
                   (''days_taken'', CDecimal (of_int (bf_used b) / 100)), (''days_remaining'', CDecimal (of_int (bf_balance b) / 100))]) rows))"

definition attendance_sql :: "report_query \<Rightarrow> sql_statement" where
  "attendance_sql q =
     (let placeholders = (if rp_departmentId q = None then [1, 2] else [1, 2, 3])
      in \<lparr>sq_columns = [(''departments'', ''id''), (''departments'', ''name''), (''employees'', ''id''), (''employees'', ''user_id''), (''employees'', ''department_id''),
            (''users'', ''id''), (''users'', ''first_name''), (''users'', ''last_name''), (''attendance_logs'', ''employee_id''), (''attendance_logs'', ''date''),
            (''attendance_logs'', ''status'')],
          sq_placeholders = placeholders, sq_parameters = length placeholders,
          sq_literals = map (Pair ''AttendanceStatus'') [''PRESENT'', ''ABSENT'', ''LATE'', ''WFH'']\<rparr>)"

definition attendanceSummary :: "(string \<Rightarrow> string) \<Rightarrow> sql_schema \<Rightarrow> report_query \<Rightarrow> report_tables \<Rightarrow> app_error + report_row list" where
  "attendanceSummary collate sch q db =
     (let joined = [((dept_name db e, lf_employeeId l, n), lf_status l). (i, l) \<leftarrow> rb_logs db, rp_startDate q \<le> lf_date l \<and> lf_date l \<le> rp_endDate q,
                      e \<leftarrow> (case tbl_get (lf_employeeId l) (rb_employees db) of None \<Rightarrow> [] | Some e \<Rightarrow> [e]), in_department q e,
                      n \<leftarrow> (case user_name db e of None \<Rightarrow> [] | Some n \<Rightarrow> [n])];
          groups = sort_key (\<lambda>((d, i, n), ls). (nulls_last collate d, collate (fst n), collate (snd n))) (group_by fst joined);
          days = (\<lambda>st ls. CInt (int (length (filter (\<lambda>(k, x). x = st) ls))))
      in query_raw sch (attendance_sql q)
           (map (\<lambda>((d, i, n), ls). [(''department'', text_cell d), (''employee_id'', CText i), (''employee_name'', CText (full_name n)),
                   (''present_days'', days ''PRESENT'' ls), (''absent_days'', days ''ABSENT'' ls), (''late_days'', days ''LATE'' ls),
                   (''wfh_days'', days ''WFH'' ls)]) groups))"

section \<open>Hires and exits\<close>

definition movements_sql :: "report_query \<Rightarrow> (string \<times> string) list \<Rightarrow> sql_statement" where
  "movements_sql q columns =
     (let placeholders = (if rp_departmentId q = None then [1, 2] else [1, 2, 3])
      in \<lparr>sq_columns = [(''departments'', ''id''), (''departments'', ''name''), (''employees'', ''id''), (''employees'', ''user_id''), (''employees'', ''department_id''),
            (''users'', ''id''), (''users'', ''first_name''), (''users'', ''last_name'')] @ columns,
          sq_placeholders = placeholders, sq_parameters = length placeholders, sq_literals = []\<rparr>)"

text \<open>The employees with a user whose date lies in the range, by department and latest first.\<close>

definition movements :: "(string \<Rightarrow> string) \<Rightarrow> (employee_row \<Rightarrow> instant option) \<Rightarrow> report_query \<Rightarrow> report_tables \<Rightarrow>
    (string option \<times> id \<times> (string \<times> string) \<times> employee_row) list" where
  "movements collate date q db =
     sort_key (\<lambda>(d, i, n, e). (nulls_last collate d, - (case date e of None \<Rightarrow> 0 | Some t \<Rightarrow> t)))
       [(dept_name db e, i, n, e). (i, e) \<leftarrow> rb_employees db,
          (case date e of None \<Rightarrow> False | Some t \<Rightarrow> rp_startDate q \<le> t \<and> t \<le> rp_endDate q) \<and> in_department q e,
          n \<leftarrow> (case user_name db e of None \<Rightarrow> [] | Some n \<Rightarrow> [n])]"

definition newHires :: "(string \<Rightarrow> string) \<Rightarrow> sql_schema \<Rightarrow> report_query \<Rightarrow> report_tables \<Rightarrow> app_error + report_row list" where
  "newHires collate sch q db =
     query_raw sch (movements_sql q [(''employees'', ''employment_type''), (''employees'', ''joined_at''), (''employees'', ''job_title_id''),
         (''job_titles'', ''id''), (''job_titles'', ''title'')])
       (map (\<lambda>(d, i, n, e). [(''department'', text_cell d), (''employee_id'', CText i), (''employee_name'', CText (full_name n)),
               (''employment_type'', CText (employment_text (em_employmentType e))), (''joining_date'', CDate (em_joinedAt e)),
               (''job_title'', text_cell (case em_jobTitleId e of None \<Rightarrow> None | Some j \<Rightarrow> tbl_get j (rb_titles db)))])
         (movements collate (\<lambda>e. Some (em_joinedAt e)) q db))"

definition exits :: "(string \<Rightarrow> string) \<Rightarrow> sql_schema \<Rightarrow> report_query \<Rightarrow> report_tables \<Rightarrow> app_error + report_row list" where
  "exits collate sch q db =
     query_raw sch (movements_sql q [(''employees'', ''exit_reason''), (''employees'', ''exited_at''), (''employees'', ''last_working_date'')])
       (map (\<lambda>(d, i, n, e). [(''department'', text_cell d), (''employee_id'', CText i), (''employee_name'', CText (full_name n)),
               (''exit_reason'', text_cell (em_exitReason e)), (''exit_date'', date_cell (em_exitedAt e)),
               (''last_working_date'', date_cell (em_lastWorkingDate e))])
         (movements collate em_exitedAt q db))"

section \<open>The report\<close>

record report_result =
  rs_reportKey :: string
  rs_rows :: "report_row list"
  rs_totalRows :: nat

definition report_rows :: "(string \<Rightarrow> string) \<Rightarrow> sql_schema \<Rightarrow> report_query \<Rightarrow> report_key \<Rightarrow> report_tables \<Rightarrow> app_error + report_row list" where
  "report_rows collate sch q key db =
     (case key of HEADCOUNT \<Rightarrow> headcount collate sch q db | ATTRITION \<Rightarrow> attrition collate sch q db
      | PAYROLL_SUMMARY \<Rightarrow> payrollSummary collate sch q db | LEAVE_UTILIZATION \<Rightarrow> leaveUtilization collate sch q db
      | ATTENDANCE_SUMMARY \<Rightarrow> attendanceSummary collate sch q db | NEW_HIRES \<Rightarrow> newHires collate sch q db
      | EXITS \<Rightarrow> exits collate sch q db)"

definition run_report :: "(string \<Rightarrow> string) \<Rightarrow> sql_schema \<Rightarrow> report_query \<Rightarrow> report_tables \<Rightarrow> app_error + report_result" where
  "run_report collate sch q db =
     (case List.find (\<lambda>k. report_key_value k = rp_reportKey q) all_report_keys of
        None \<Rightarrow> Inl (BadRequestError (''Invalid report key: '' @ rp_reportKey q))
      | Some key \<Rightarrow>
          (if rp_startAt q > rp_endAt q then Inl (BadRequestError ''startDate must be before or equal to endDate'')
           else case report_rows collate sch q key db of
             Inl e \<Rightarrow> Inl e
           | Inr rows \<Rightarrow> Inr \<lparr>rs_reportKey = rp_reportKey q, rs_rows = take 500 rows, rs_totalRows = length rows\<rparr>))"

section \<open>What comes of it\<close>

lemma query_raw_error: "\<not> sql_accepts sch q \<Longrightarrow> is_error (query_raw sch q rows)"
  by (simp add: query_raw_def)

text \<open>No schema at all accepts headcount, attrition or leave utilization, whose parameters do not match the text.\<close>

lemma parameters_mismatch:
  "\<not> sql_accepts sch (headcount_sql q)" "\<not> sql_accepts sch (attrition_sql q)" "\<not> sql_accepts sch (leave_utilization_sql q)"
proof -
  show "\<not> sql_accepts sch (headcount_sql q)" "\<not> sql_accepts sch (attrition_sql q)"
    by (auto simp: sql_accepts_def headcount_sql_def attrition_sql_def)
  have "(1 :: nat) \<notin> set (sq_placeholders (leave_utilization_sql q))" by (simp add: leave_utilization_sql_def Let_def)
  moreover have "(1 :: nat) \<in> {1..sq_parameters (leave_utilization_sql q)}" by (simp add: leave_utilization_sql_def Let_def)
  ultimately show "\<not> sql_accepts sch (leave_utilization_sql q)" unfolding sql_accepts_def by blast
qed

lemma column_missing: "(t, c) \<in> set (sq_columns q) \<Longrightarrow> (t, c) \<notin> set (sc_columns sch) \<Longrightarrow> \<not> sql_accepts sch q"
  by (auto simp: sql_accepts_def)

lemma no_department_id: "(''employees'', ''department_id'') \<notin> set (sc_columns repo_schema)"
  by (simp add: repo_schema_def)

text \<open>
  No report can be produced: for every key, range and filter, whatever the tables hold, the request
  ends in an error, since the texts name columns that the schema of the program spells differently.
\<close>

lemma no_report_runs: "is_error (run_report collate repo_schema q db)"
proof -
  have "\<not> sql_accepts repo_schema (payroll_summary_sql q)" "\<not> sql_accepts repo_schema (attendance_sql q)"
    "\<not> sql_accepts repo_schema (movements_sql q cs)" for cs
    by (rule column_missing[OF _ no_department_id]; simp add: payroll_summary_sql_def attendance_sql_def movements_sql_def Let_def)+
  note bad = this parameters_mismatch
  have "is_error (report_rows collate repo_schema q key db)" for key
    by (cases key) (simp_all add: report_rows_def headcount_def attrition_def payrollSummary_def leaveUtilization_def attendanceSummary_def
        newHires_def exits_def Let_def query_raw_error bad)
  then have "report_rows collate repo_schema q key db \<noteq> Inr rows" for key rows by (metis is_error_simps(2))
  then show ?thesis by (simp add: run_report_def split: option.splits sum.splits)
qed

end
