(* ===== verification/Reports.thy ===== *)
theory Reports
  imports Report_Queries Audit_Log Iso_Date
begin

text \<open>
  Saved reports, their schedules and their export: \<^verbatim>\<open>reports/services/saved-report.service.ts\<close>,
  \<^verbatim>\<open>report-schedule.service.ts\<close> and the two workers of \<^verbatim>\<open>reports/workers\<close>. The queue is the
  list of the jobs added; the files that the workbook and PDF libraries write are represented by the table
  they are given. The lemmas show that nothing can be saved or exported and that no schedule fires.
\<close>

section \<open>Tables\<close>

text \<open>The formats of the database; the request names them by the value of the enumeration in the code.\<close>

datatype export_format = XLSX | PDF

fun format_value :: "export_format \<Rightarrow> string" where
  "format_value XLSX = ''xlsx''"
| "format_value PDF = ''pdf''"

fun db_format_name :: "export_format \<Rightarrow> string" where
  "db_format_name XLSX = ''XLSX''"
| "db_format_name PDF = ''PDF''"

fun db_report_key :: "report_key \<Rightarrow> string" where
  "db_report_key HEADCOUNT = ''HEADCOUNT''"
| "db_report_key ATTRITION = ''ATTRITION''"
| "db_report_key PAYROLL_SUMMARY = ''PAYROLL_SUMMARY''"
| "db_report_key LEAVE_UTILIZATION = ''LEAVE_UTILIZATION''"
| "db_report_key ATTENDANCE_SUMMARY = ''ATTENDANCE_SUMMARY''"
| "db_report_key NEW_HIRES = ''NEW_HIRES''"
| "db_report_key EXITS = ''EXITS''"

record saved_report_row =
  sr_name :: string
  sr_reportKey :: report_key
  sr_parameters :: report_query
  sr_createdById :: id
  sr_createdAt :: instant

record schedule_row =
  sh_savedReportId :: id
  sh_cronExpression :: string
  sh_format :: export_format
  sh_recipientId :: "id option"
  sh_isActive :: bool
  sh_lastRunAt :: "instant option"
  sh_nextRunAt :: "instant option"
  sh_createdAt :: instant

record export_job =
  ej_savedReportId :: id
  ej_format :: string
  ej_recipientId :: "id option"
  ej_triggeredAt :: instant

datatype fill = Shaded | Plain

datatype report_file =
    Workbook "string list" "report_row list"
  | EmptyPdf
  | PdfTable "string list" "(string \<times> fill) list list"

record report_notice =
  re_userId :: id
  re_title :: string
  re_body :: string
  re_companyId :: id

record reports_db =
  rd_saved :: "saved_report_row table"
  rd_schedules :: "schedule_row table"
  rd_queue :: "export_job list"
  rd_objects :: "(string \<times> report_file) list"
  rd_notices :: "report_notice list"
  rd_tables :: report_tables
  rd_audit :: "audit_row list"

text \<open>The audit entries of these services carry no company.\<close>

definition report_log :: "string \<Rightarrow> id \<Rightarrow> string \<Rightarrow> (string \<times> json) list \<Rightarrow> reports_db \<Rightarrow> reports_db" where
  "report_log etype i act nv s = s\<lparr>rd_audit := logAsync (entry_of None [] etype i act (stripPii nv)) (rd_audit s)\<rparr>"

lemma report_log_nothing [simp]: "report_log etype i act nv s = s"
  by (simp add: report_log_def logAsync_def entry_of_def)

section \<open>Saved reports\<close>

text \<open>
  The client of the database takes a value of an enumeration by the name it has in the schema.
\<close>

definition prisma_report_key :: "string \<Rightarrow> report_key option" where
  "prisma_report_key v = List.find (\<lambda>k. db_report_key k = v) all_report_keys"

definition prisma_format :: "string \<Rightarrow> export_format option" where
  "prisma_format v = List.find (\<lambda>f. db_format_name f = v) [XLSX, PDF]"

definition saveReport :: "id \<Rightarrow> instant \<Rightarrow> string \<Rightarrow> report_key \<Rightarrow> report_query \<Rightarrow> id \<Rightarrow> reports_db \<Rightarrow> (reports_db, id) outcome" where
  "saveReport newId now name key parameters actorId s =
     (case prisma_report_key (report_key_value key) of
        None \<Rightarrow> (Inl (RuntimeError ''Invalid value for argument reportKey''), s)
      | Some k \<Rightarrow>
          (if \<not> fresh newId (rd_saved s) then (Inl (DatabaseError ''saved_reports_pkey''), s)
           else (Inr newId, report_log ''saved_report'' newId ''REPORT_DEFINITION_SAVED''
                  [(''name'', JStr name), (''reportKey'', JStr (report_key_value key))]
                  (s\<lparr>rd_saved := tbl_insert newId \<lparr>sr_name = name, sr_reportKey = k, sr_parameters = parameters,
                      sr_createdById = actorId, sr_createdAt = now\<rparr> (rd_saved s)\<rparr>))))"

definition list_saved :: "id \<Rightarrow> reports_db \<Rightarrow> (id \<times> saved_report_row) list" where
  "list_saved actorId s = sort_key (\<lambda>(i, r). - sr_createdAt r) (tbl_all (\<lambda>i r. sr_createdById r = actorId) (rd_saved s))"

definition findOneOrFail :: "id \<Rightarrow> id \<Rightarrow> reports_db \<Rightarrow> app_error + saved_report_row" where
  "findOneOrFail i actorId s =
     (case tbl_get i (rd_saved s) of
        None \<Rightarrow> Inl (NotFoundError ''Saved report not found'')
      | Some r \<Rightarrow> if sr_createdById r \<noteq> actorId then Inl (ForbiddenError ''You can only access your own saved reports'') else Inr r)"

definition delete_saved :: "id \<Rightarrow> id \<Rightarrow> reports_db \<Rightarrow> (reports_db, unit) outcome" where
  "delete_saved i actorId s =
     (case findOneOrFail i actorId s of
        Inl e \<Rightarrow> (Inl e, s)
      | Inr r \<Rightarrow> (Inr (), s\<lparr>rd_schedules := tbl_delete_many (\<lambda>j h. sh_savedReportId h = i) (rd_schedules s),
                             rd_saved := tbl_delete_many (\<lambda>j x. j = i) (rd_saved s)\<rparr>))"

definition triggerExport :: "instant \<Rightarrow> id \<Rightarrow> id \<Rightarrow> export_format \<Rightarrow> id option \<Rightarrow> reports_db \<Rightarrow> (reports_db, string) outcome" where
  "triggerExport now savedReportId actorId format recipientId s =
     (case findOneOrFail savedReportId actorId s of
        Inl e \<Rightarrow> (Inl e, s)
      | Inr r \<Rightarrow>
          (let jobId = show_nat (length (rd_queue s) + 1)
           in (Inr jobId, report_log ''saved_report'' savedReportId ''REPORT_EXPORT_TRIGGERED''
                 [(''format'', JStr (format_value format)), (''jobId'', JStr jobId)]
                 (s\<lparr>rd_queue := rd_queue s @ [\<lparr>ej_savedReportId = savedReportId, ej_format = format_value format,
                      ej_recipientId = Some (case recipientId of None \<Rightarrow> actorId | Some x \<Rightarrow> x), ej_triggeredAt = now\<rparr>]\<rparr>))))"

section \<open>Schedules\<close>

text \<open>The cron pattern: five fields between single spaces, a star or a number without leading zeros.\<close>

definition cron_field :: "nat \<Rightarrow> nat \<Rightarrow> string \<Rightarrow> bool" where
  "cron_field lo hi s \<longleftrightarrow> s = ''*'' \<or> s \<in> set (map show_nat [lo..<hi + 1])"

fun spaces_split :: "string \<Rightarrow> string list" where
  "spaces_split [] = [[]]"
| "spaces_split (c # cs) =
     (if c = CHR '' '' then [] # spaces_split cs else case spaces_split cs of [] \<Rightarrow> [[c]] | w # ws \<Rightarrow> (c # w) # ws)"

definition is_cron :: "string \<Rightarrow> bool" where
  "is_cron s =
     (case spaces_split s of
        [mi, ho, da, mo, wd] \<Rightarrow> cron_field 0 59 mi \<and> cron_field 0 23 ho \<and> cron_field 1 31 da \<and> cron_field 1 12 mo \<and> cron_field 0 6 wd
      | _ \<Rightarrow> False)"

definition createSchedule ::
    "id \<Rightarrow> instant \<Rightarrow> id \<Rightarrow> string \<Rightarrow> export_format \<Rightarrow> id option \<Rightarrow> id \<Rightarrow> reports_db \<Rightarrow> (reports_db, id) outcome" where
  "createSchedule newId now savedReportId cron format recipientId actorId s =
     (if \<not> is_cron cron then (Inl (BadRequestError ''Invalid cron expression''), s)
      else case prisma_format (format_value format) of
        None \<Rightarrow> (Inl (RuntimeError ''Invalid value for argument format''), s)
      | Some f \<Rightarrow>
          (if fresh savedReportId (rd_saved s) then (Inl (DatabaseError ''report_schedules_savedReportId_fkey''), s)
           else if \<not> fresh newId (rd_schedules s) then (Inl (DatabaseError ''report_schedules_pkey''), s)
           else (Inr newId, s\<lparr>rd_schedules := tbl_insert newId
                  \<lparr>sh_savedReportId = savedReportId, sh_cronExpression = cron, sh_format = f, sh_recipientId = recipientId, sh_isActive = True,
                   sh_lastRunAt = None, sh_nextRunAt = None, sh_createdAt = now\<rparr> (rd_schedules s)\<rparr>)))"

definition list_schedules :: "id \<Rightarrow> reports_db \<Rightarrow> (id \<times> schedule_row) list" where
  "list_schedules actorId s =
     sort_key (\<lambda>(i, h). - sh_createdAt h)
       (tbl_all (\<lambda>i h. case tbl_get (sh_savedReportId h) (rd_saved s) of None \<Rightarrow> False | Some r \<Rightarrow> sr_createdById r = actorId) (rd_schedules s))"

text \<open>The owner of the report is loaded and not compared with the caller.\<close>

definition toggleActive :: "id \<Rightarrow> id \<Rightarrow> reports_db \<Rightarrow> (reports_db, unit) outcome" where
  "toggleActive i actorId s =
     (case tbl_get i (rd_schedules s) of
        None \<Rightarrow> (Inl (BadRequestError ''Schedule not found''), s)
      | Some h \<Rightarrow> (Inr (), s\<lparr>rd_schedules := tbl_update i (\<lambda>r. r\<lparr>sh_isActive := \<not> sh_isActive h\<rparr>) (rd_schedules s)\<rparr>))"

definition enqueueBySchedule :: "instant \<Rightarrow> id \<Rightarrow> reports_db \<Rightarrow> reports_db" where
  "enqueueBySchedule now i s =
     (case tbl_get i (rd_schedules s) of
        None \<Rightarrow> s
      | Some h \<Rightarrow>
          (if \<not> sh_isActive h then s
           else report_log ''report_schedule'' i ''REPORT_SCHEDULE_TRIGGERED'' [(''savedReportId'', JStr (sh_savedReportId h))]
             (s\<lparr>rd_queue := rd_queue s @ [\<lparr>ej_savedReportId = sh_savedReportId h, ej_format = db_format_name (sh_format h),
                   ej_recipientId = sh_recipientId h, ej_triggeredAt = now\<rparr>],
                rd_schedules := tbl_update i (\<lambda>r. r\<lparr>sh_lastRunAt := Some now, sh_nextRunAt := Some (now + 60 * 60 * 1000)\<rparr>) (rd_schedules s)\<rparr>)))"

definition findDueSchedules :: "instant \<Rightarrow> reports_db \<Rightarrow> (id \<times> schedule_row) list" where
  "findDueSchedules now s =
     tbl_all (\<lambda>i h. sh_isActive h \<and> (case sh_nextRunAt h of None \<Rightarrow> False | Some t \<Rightarrow> t \<le> now)) (rd_schedules s)"

definition tick :: "instant \<Rightarrow> reports_db \<Rightarrow> reports_db" where
  "tick now s = fold (enqueueBySchedule now) (map fst (findDueSchedules now s)) s"

section \<open>Export\<close>

definition row_headers :: "report_row list \<Rightarrow> string list" where
  "row_headers rows = (case rows of [] \<Rightarrow> [] | r # rs \<Rightarrow> map fst r)"

definition formatXlsx :: "report_row list \<Rightarrow> report_file" where
  "formatXlsx rows = Workbook (row_headers rows) rows"

text \<open>\<^verbatim>\<open>String(row[h] ?? '')\<close>; \<open>show\<close> writes the values that are not texts.\<close>

definition cell_string :: "(report_cell \<Rightarrow> string) \<Rightarrow> report_cell option \<Rightarrow> string" where
  "cell_string show_value c = (case c of None \<Rightarrow> [] | Some CNull \<Rightarrow> [] | Some (CText s) \<Rightarrow> s | Some v \<Rightarrow> show_value v)"

definition formatPdf :: "(report_cell \<Rightarrow> string) \<Rightarrow> report_row list \<Rightarrow> report_file" where
  "formatPdf show_value rows =
     (if rows = [] then EmptyPdf
      else PdfTable (row_headers rows)
        (map (\<lambda>(k, row). map (\<lambda>h. (cell_string show_value (map_of row h), if even k then Shaded else Plain)) (row_headers rows)) (enumerate 0 rows)))"

definition formatReport :: "(report_cell \<Rightarrow> string) \<Rightarrow> report_row list \<Rightarrow> string \<Rightarrow> report_file" where
  "formatReport show_value rows format = (if format = format_value XLSX then formatXlsx rows else formatPdf show_value rows)"

definition export_timestamp :: "instant \<Rightarrow> string" where
  "export_timestamp now = take 19 (replace_char CHR '':'' ''-'' (replace_char CHR ''.'' ''-'' (toISOString now)))"

text \<open>
  A failed notification, such as one without a company, does not fail the export.
\<close>

definition notify_ready :: "id option \<Rightarrow> saved_report_row \<Rightarrow> reports_db \<Rightarrow> reports_db" where
  "notify_ready recipientId r s =
     (case recipientId of
        None \<Rightarrow> s
      | Some u \<Rightarrow>
          (case tbl_find (\<lambda>i e. em_userId e = Some (sr_createdById r)) (rb_employees (rd_tables s)) of
             None \<Rightarrow> s
           | Some (i, e) \<Rightarrow>
               s\<lparr>rd_notices := rd_notices s @ [\<lparr>re_userId = u, re_title = ''Your report is ready'',
                   re_body = ''Report \"'' @ sr_name r @ ''\" export is complete.'', re_companyId = em_companyId e\<rparr>]\<rparr>))"

definition export_handle ::
    "(string \<Rightarrow> string) \<Rightarrow> sql_schema \<Rightarrow> (report_cell \<Rightarrow> string) \<Rightarrow> instant \<Rightarrow> export_job \<Rightarrow> reports_db \<Rightarrow> (reports_db, unit) outcome" where
  "export_handle collate sch show_value now job s =
     (let i = ej_savedReportId job
      in case tbl_get i (rd_saved s) of
           None \<Rightarrow> (Inl (RuntimeError (''Saved report '' @ i @ '' not found'')), s)
         | Some r \<Rightarrow>
             (case run_report collate sch ((sr_parameters r)\<lparr>rp_reportKey := db_report_key (sr_reportKey r)\<rparr>) (rd_tables s) of
                Inl e \<Rightarrow> (Inl e, s)
              | Inr result \<Rightarrow>
                  (let key = ''reports/'' @ i @ ''/'' @ export_timestamp now @ (if ej_format job = format_value XLSX then ''.xlsx'' else ''.pdf'')
                   in (Inr (), report_log ''saved_report'' i ''REPORT_EXPORT_COMPLETED''
                        [(''savedReportId'', JStr i), (''format'', JStr (ej_format job)), (''s3Key'', JStr key),
                         (''rowCount'', JNum (Fin (of_nat (rs_totalRows result))))]
                        (notify_ready (ej_recipientId job) r
                          (s\<lparr>rd_objects := rd_objects s @ [(key, formatReport show_value (rs_rows result) (ej_format job))]\<rparr>))))))"

section \<open>What comes of it\<close>

text \<open>
  The table of a PDF is rectangular: a cell for each header in each row.
\<close>

lemma pdf_rectangular:
  assumes "formatPdf show_value rows = PdfTable headers body"
  shows "length body = length rows \<and> (\<forall>row \<in> set body. length row = length headers)"
  using assms by (auto simp: formatPdf_def enumerate_eq_zip split: if_splits)

lemma key_names_apart: "prisma_report_key (report_key_value key) = None"
  by (cases key) (simp_all add: prisma_report_key_def all_report_keys_def)

lemma format_names_apart: "prisma_format (format_value f) = None"
  by (cases f) (simp_all add: prisma_format_def)

lemma nothing_is_saved: "is_error (fst (saveReport n now name key ps u s)) \<and> snd (saveReport n now name key ps u s) = s"
  by (simp add: saveReport_def key_names_apart)

lemma nothing_is_scheduled: "is_error (fst (createSchedule n now i cron f r u s)) \<and> snd (createSchedule n now i cron f r u s) = s"
  by (simp add: createSchedule_def format_names_apart)

text \<open>The worker asks for the key by its name in the schema, which the query does not know.\<close>

lemma nothing_is_exported: "is_error (fst (export_handle collate sch show_value now job s)) \<and> snd (export_handle collate sch show_value now job s) = s"
proof -
  have "List.find (\<lambda>k. report_key_value k = db_report_key key) all_report_keys = None" for key
    by (cases key) (simp_all add: all_report_keys_def)
  then show ?thesis by (simp add: export_handle_def run_report_def Let_def split: option.splits)
qed

datatype report_call =
    SaveReport id instant string report_key report_query id
  | DeleteReport id id
  | TriggerExport instant id id export_format "id option"
  | CreateSchedule id instant id string export_format "id option" id
  | ToggleSchedule id id
  | Tick instant

fun report_step :: "report_call \<Rightarrow> reports_db \<Rightarrow> reports_db" where
  "report_step (SaveReport n now name key ps u) s = snd (saveReport n now name key ps u s)"
| "report_step (DeleteReport i u) s = snd (delete_saved i u s)"
| "report_step (TriggerExport now i u f r) s = snd (triggerExport now i u f r s)"
| "report_step (CreateSchedule n now i cron f r u) s = snd (createSchedule n now i cron f r u s)"
| "report_step (ToggleSchedule i u) s = snd (toggleActive i u s)"
| "report_step (Tick now) s = tick now s"

text \<open>The exports asked for in a run and accepted.\<close>

fun exports_asked :: "report_call list \<Rightarrow> reports_db \<Rightarrow> nat" where
  "exports_asked [] s = 0"
| "exports_asked (c # cs) s =
     (case c of TriggerExport now i u f r \<Rightarrow> if is_error (fst (triggerExport now i u f r s)) then 0 else 1 | _ \<Rightarrow> 0)
     + exports_asked cs (report_step c s)"

definition unplanned :: "reports_db \<Rightarrow> bool" where
  "unplanned s \<longleftrightarrow> (\<forall>(i, h) \<in> set (rd_schedules s). sh_nextRunAt h = None)"

lemma tick_unplanned: "unplanned s \<Longrightarrow> tick now s = s"
proof -
  assume "unplanned s"
  then have "findDueSchedules now s = []" by (fastforce simp: findDueSchedules_def tbl_all_def unplanned_def filter_empty_conv)
  then show ?thesis by (simp add: tick_def)
qed

lemma unplanned_step:
  assumes "unplanned s"
  shows "unplanned (report_step c s)"
proof (cases c)
  case (DeleteReport i u)
  then show ?thesis using assms by (auto simp: delete_saved_def unplanned_def tbl_delete_many_def split: sum.splits)
next
  case (TriggerExport now i u f r)
  then show ?thesis using assms by (simp add: triggerExport_def unplanned_def Let_def split: sum.splits)
next
  case (ToggleSchedule i u)
  have "rd_schedules (report_step c s) = rd_schedules s \<or> (\<exists>b. rd_schedules (report_step c s) = tbl_update i (\<lambda>r. r\<lparr>sh_isActive := b\<rparr>) (rd_schedules s))"
    by (auto simp: ToggleSchedule toggleActive_def split: option.splits)
  then show ?thesis using assms unfolding unplanned_def by (fastforce simp: set_tbl_update split: if_splits)
qed (use assms in \<open>simp_all add: nothing_is_saved nothing_is_scheduled tick_unplanned\<close>)

text \<open>
  No schedule ever fires: in any run of calls and ticks of the dispatcher that starts without a planned
  date, the jobs added to the export queue are exactly the exports that users asked for.
\<close>

lemma schedules_never_fire:
  assumes "\<forall>(i, h) \<in> set (rd_schedules s). sh_nextRunAt h = None"
  shows "length (rd_queue (fold report_step calls s)) = length (rd_queue s) + exports_asked calls s"
proof -
  have "unplanned s" using assms by (simp add: unplanned_def)
  then show ?thesis
  proof (induction calls arbitrary: s)
    case (Cons c calls)
    have "length (rd_queue (report_step c s)) = length (rd_queue s) + exports_asked [c] s"
      by (cases c) (simp_all add: nothing_is_saved nothing_is_scheduled tick_unplanned[OF Cons.prems] delete_saved_def toggleActive_def
          triggerExport_def Let_def split: sum.splits option.splits)
    then show ?case using Cons.IH[OF unplanned_step[OF Cons.prems]] by simp
  qed simp
qed

definition report_office :: reports_db where
  "report_office = \<lparr>rd_saved = [(''r'', \<lparr>sr_name = ''Heads'', sr_reportKey = HEADCOUNT,
        sr_parameters = \<lparr>rp_reportKey = [], rp_startAt = 0, rp_startDate = 0, rp_endAt = 1, rp_endDate = 0, rp_departmentId = None, rp_leaveType = None\<rparr>,
        sr_createdById = ''u'', sr_createdAt = 0\<rparr>)],
     rd_schedules = [(''h'', \<lparr>sh_savedReportId = ''r'', sh_cronExpression = ''0 8 * * 1'', sh_format = PDF, sh_recipientId = None, sh_isActive = True,
        sh_lastRunAt = None, sh_nextRunAt = None, sh_createdAt = 0\<rparr>)],
     rd_queue = [], rd_objects = [], rd_notices = [],
     rd_tables = \<lparr>rb_employees = [], rb_departments = [], rb_users = [], rb_titles = [], rb_entries = [], rb_balances = [], rb_types = [], rb_logs = []\<rparr>,
     rd_audit = []\<rparr>"

end
