(* ===== verification/Mss.thy ===== *)
theory Mss
  imports Report_Queries Iso_Date
begin

text \<open>
  Manager self service, \<^verbatim>\<open>mss/mss.service.ts\<close> with the roles its controller passes: the summary of
  an employee and the leave requests of a team. The lemmas show whom a caller who is not an administrator
  can see.
\<close>

section \<open>Tables\<close>

record leave_figures =
  lq_employeeId :: id
  lq_leaveTypeId :: id
  lq_startDate :: instant
  lq_endDate :: instant
  lq_totalDays :: int
  lq_status :: string
  lq_createdAt :: instant

record mss_db =
  ms_tables :: report_tables
  ms_leaves :: "leave_figures table"

text \<open>\<^verbatim>\<open>user.roles.includes('Admin') ? 'Admin' : 'Manager'\<close>.\<close>

definition actor_role :: "string list \<Rightarrow> string" where
  "actor_role roles = (if ''Admin'' \<in> set roles then ''Admin'' else ''Manager'')"

definition HR_ADMIN_ROLE :: string where
  "HR_ADMIN_ROLE = ''Admin''"

section \<open>Access\<close>

definition getDirectReportIds :: "id \<Rightarrow> mss_db \<Rightarrow> id list" where
  "getDirectReportIds managerId s = map fst (tbl_all (\<lambda>i e. em_managerId e = Some managerId) (rb_employees (ms_tables s)))"

definition assertManagerAccess :: "id \<Rightarrow> string \<Rightarrow> id \<Rightarrow> mss_db \<Rightarrow> app_error + unit" where
  "assertManagerAccess actorId actorRole target s =
     (if actorRole = HR_ADMIN_ROLE then Inr ()
      else if tbl_get_where target (\<lambda>e. em_managerId e = Some actorId) (rb_employees (ms_tables s)) = None
      then Inl (ForbiddenError ''You can only view employees in your direct reporting line'') else Inr ())"

section \<open>The summary of an employee\<close>

definition display_name :: "report_tables \<Rightarrow> employee_row \<Rightarrow> string" where
  "display_name db e = trim (case user_name db e of None \<Rightarrow> '' '' | Some n \<Rightarrow> fst n @ '' '' @ snd n)"

text \<open>
  The first and the last day of the month of \<open>now\<close> in a time zone \<open>off\<close> milliseconds east of UTC; a date
  column cuts them to their days in UTC.
\<close>

definition month_start :: "int \<Rightarrow> instant \<Rightarrow> instant" where
  "month_start off now = date_UTC (getUTCFullYear (now + off)) (getUTCMonth (now + off)) 1 - off"

definition month_end :: "int \<Rightarrow> instant \<Rightarrow> instant" where
  "month_end off now = date_UTC (getUTCFullYear (now + off)) (getUTCMonth (now + off) + 1) 0 - off"

definition getAttendanceSummary :: "id \<Rightarrow> instant \<Rightarrow> instant \<Rightarrow> mss_db \<Rightarrow> nat \<times> nat \<times> nat" where
  "getAttendanceSummary employeeId monthStart monthEnd s =
     (let logs = tbl_all (\<lambda>i l. lf_employeeId l = employeeId \<and> utc_midnight monthStart \<le> lf_date l \<and> lf_date l \<le> utc_midnight monthEnd)
                   (rb_logs (ms_tables s));
          days = (\<lambda>st. length (filter (\<lambda>(i, l). lf_status l = st) logs))
      in (days ''PRESENT'', days ''ABSENT'', days ''LATE''))"

record balance_view =
  bv_leaveType :: string
  bv_entitled :: jsnum
  bv_taken :: jsnum
  bv_remaining :: jsnum

definition getLeaveBalances :: "int \<Rightarrow> instant \<Rightarrow> id \<Rightarrow> mss_db \<Rightarrow> balance_view list" where
  "getLeaveBalances off now employeeId s =
     [\<lparr>bv_leaveType = tn_name t, bv_entitled = cents (bf_entitled b), bv_taken = cents (bf_used b), bv_remaining = cents (bf_balance b)\<rparr>.
        (i, b) \<leftarrow> rb_balances (ms_tables s), bf_employeeId b = employeeId \<and> bf_year b = getUTCFullYear (now + off),
        t \<leftarrow> (case tbl_get (bf_leaveTypeId b) (rb_types (ms_tables s)) of None \<Rightarrow> [] | Some t \<Rightarrow> [t])]"

definition getLastPayrollNetPay :: "id \<Rightarrow> mss_db \<Rightarrow> jsnum option" where
  "getLastPayrollNetPay employeeId s =
     (case sort_key (\<lambda>(i, p). - pf_createdAt p) (tbl_all (\<lambda>i p. pf_employeeId p = employeeId) (rb_entries (ms_tables s))) of
        [] \<Rightarrow> None | (i, p) # ps \<Rightarrow> Some (cents (pf_net p)))"

record summary_view =
  sm_employeeId :: id
  sm_name :: string
  sm_jobTitle :: string
  sm_department :: string
  sm_attendance :: "nat \<times> nat \<times> nat"
  sm_currentMonthPeriod :: string
  sm_leaveBalances :: "balance_view list"
  sm_pendingLeaveRequests :: nat
  sm_lastPayrollNetPay :: "jsnum option"

definition getEmployeeSummary :: "int \<Rightarrow> instant \<Rightarrow> id \<Rightarrow> id \<Rightarrow> string \<Rightarrow> mss_db \<Rightarrow> app_error + summary_view" where
  "getEmployeeSummary off now employeeId actorId actorRole s =
     (case assertManagerAccess actorId actorRole employeeId s of
        Inl e \<Rightarrow> Inl e
      | Inr _ \<Rightarrow>
          (case tbl_get employeeId (rb_employees (ms_tables s)) of
             None \<Rightarrow> Inl (NotFoundError ''Employee not found'')
           | Some e \<Rightarrow> Inr
               \<lparr>sm_employeeId = employeeId, sm_name = display_name (ms_tables s) e,
                sm_jobTitle = (case em_jobTitleId e of None \<Rightarrow> [] | Some j \<Rightarrow> (case tbl_get j (rb_titles (ms_tables s)) of None \<Rightarrow> [] | Some t \<Rightarrow> t)),
                sm_department = (case dept_name (ms_tables s) e of None \<Rightarrow> [] | Some d \<Rightarrow> d),
                sm_attendance = getAttendanceSummary employeeId (month_start off now) (month_end off now) s,
                sm_currentMonthPeriod = show_int (getUTCFullYear (now + off)) @ ''-'' @ pad_left 2 (getUTCMonth (now + off) + 1),
                sm_leaveBalances = getLeaveBalances off now employeeId s,
                sm_pendingLeaveRequests = tbl_count (\<lambda>i l. lq_employeeId l = employeeId \<and> lq_status l = ''PENDING'') (ms_leaves s),
                sm_lastPayrollNetPay = (if actorRole = HR_ADMIN_ROLE then map_option round2dp (getLastPayrollNetPay employeeId s) else None)\<rparr>))"

section \<open>The requests of a team\<close>

record team_query =
  tq_status :: "string option"
  tq_startDate :: "instant option"
  tq_endDate :: "instant option"
  tq_page :: nat
  tq_limit :: nat

record team_request =
  tr_id :: id
  tr_employeeId :: id
  tr_employeeName :: string
  tr_leaveType :: string
  tr_startDate :: string
  tr_endDate :: string
  tr_days :: jsnum
  tr_status :: string
  tr_appliedAt :: string

text \<open>\<^verbatim>\<open>'none'\<close> stands for an empty team.\<close>

definition team_where :: "id \<Rightarrow> string \<Rightarrow> team_query \<Rightarrow> mss_db \<Rightarrow> leave_figures \<Rightarrow> bool" where
  "team_where actorId actorRole q s l \<longleftrightarrow>
     (actorRole = HR_ADMIN_ROLE \<or>
        lq_employeeId l \<in> set (if getDirectReportIds actorId s = [] then [''none''] else getDirectReportIds actorId s))
     \<and> (case tq_status q of None \<Rightarrow> True | Some x \<Rightarrow> x = [] \<or> lq_status l = x)
     \<and> (case tq_startDate q of None \<Rightarrow> True | Some d \<Rightarrow> utc_midnight d \<le> lq_startDate l)
     \<and> (case tq_endDate q of None \<Rightarrow> True | Some d \<Rightarrow> lq_endDate l \<le> utc_midnight d)"

definition team_view :: "mss_db \<Rightarrow> id \<times> leave_figures \<Rightarrow> team_request" where
  "team_view s il =
     (case il of (i, l) \<Rightarrow>
       \<lparr>tr_id = i, tr_employeeId = lq_employeeId l,
        tr_employeeName = (case tbl_get (lq_employeeId l) (rb_employees (ms_tables s)) of None \<Rightarrow> [] | Some e \<Rightarrow> display_name (ms_tables s) e),
        tr_leaveType = (case tbl_get (lq_leaveTypeId l) (rb_types (ms_tables s)) of None \<Rightarrow> [] | Some t \<Rightarrow> tn_name t),
        tr_startDate = iso_date (lq_startDate l), tr_endDate = iso_date (lq_endDate l), tr_days = cents (lq_totalDays l),
        tr_status = lq_status l, tr_appliedAt = toISOString (lq_createdAt l)\<rparr>)"

definition getTeamLeaveRequests :: "id \<Rightarrow> string \<Rightarrow> team_query \<Rightarrow> mss_db \<Rightarrow> team_request list \<times> nat" where
  "getTeamLeaveRequests actorId actorRole q s =
     (let P = team_where actorId actorRole q s
      in (map (team_view s) (take (tq_limit q) (drop ((tq_page q - 1) * tq_limit q)
            (sort_key (\<lambda>(i, l). - lq_createdAt l) (tbl_all (\<lambda>i l. P l) (ms_leaves s))))),
          tbl_count (\<lambda>i l. P l) (ms_leaves s)))"

section \<open>Who is seen\<close>

lemma summary_of_report:
  assumes "getEmployeeSummary off now i a role s = Inr v" and "role \<noteq> HR_ADMIN_ROLE"
  shows "(\<exists>e. tbl_get i (rb_employees (ms_tables s)) = Some e \<and> em_managerId e = Some a) \<and> sm_lastPayrollNetPay v = None"
  using assms by (auto simp: getEmployeeSummary_def assertManagerAccess_def tbl_get_where_def split: option.splits sum.splits if_splits)

lemma team_of_report:
  assumes "role \<noteq> HR_ADMIN_ROLE" and "''none'' \<notin> set (tbl_ids (rb_employees (ms_tables s)))"
    and "\<forall>(i, l) \<in> set (ms_leaves s). lq_employeeId l \<in> set (tbl_ids (rb_employees (ms_tables s)))"
    and "r \<in> set (fst (getTeamLeaveRequests a role q s))"
  shows "tr_employeeId r \<in> set (getDirectReportIds a s)"
proof -
  obtain i l where il: "(i, l) \<in> set (ms_leaves s)" "team_where a role q s l" "r = team_view s (i, l)"
    using assms(4) by (auto simp: getTeamLeaveRequests_def Let_def tbl_all_def dest!: in_set_takeD in_set_dropD)
  have "lq_employeeId l \<noteq> ''none''" using il(1) assms(2,3) by fastforce
  then show ?thesis using il(2,3) assms(1) by (auto simp: team_where_def team_view_def split: if_splits)
qed

text \<open>
  A manager sees the own team and nobody else, and no pay: without the administrator role every summary
  that is answered is of an employee whose manager is the caller and carries no net pay, and every leave
  request listed is of a direct report.
\<close>

lemma managers_see_their_team:
  assumes "role \<noteq> HR_ADMIN_ROLE" and "''none'' \<notin> set (tbl_ids (rb_employees (ms_tables s)))"
    and "\<forall>(i, l) \<in> set (ms_leaves s). lq_employeeId l \<in> set (tbl_ids (rb_employees (ms_tables s)))"
  shows "(\<forall>v. getEmployeeSummary off now i a role s = Inr v \<longrightarrow>
      (\<exists>e. tbl_get i (rb_employees (ms_tables s)) = Some e \<and> em_managerId e = Some a) \<and> sm_lastPayrollNetPay v = None)
    \<and> (\<forall>r \<in> set (fst (getTeamLeaveRequests a role q s)). tr_employeeId r \<in> set (getDirectReportIds a s))"
  using summary_of_report[OF _ assms(1)] team_of_report[OF assms] by blast

text \<open>
  The caller is named by the user, a manager by the employee: when no user identifier is that of a manager,
  nobody but an administrator sees anything.
\<close>

lemma users_are_no_managers:
  assumes "role \<noteq> HR_ADMIN_ROLE" and "\<forall>(j, e) \<in> set (rb_employees (ms_tables s)). em_managerId e \<noteq> Some u"
  shows "is_error (getEmployeeSummary off now i u role s) \<and> getDirectReportIds u s = []"
proof -
  have "getDirectReportIds u s = []" using assms(2) by (fastforce simp: getDirectReportIds_def tbl_all_def filter_empty_conv)
  moreover have "assertManagerAccess u role i s = Inl (ForbiddenError ''You can only view employees in your direct reporting line'')"
    using assms by (fastforce simp: assertManagerAccess_def tbl_get_where_def split: option.splits dest: tbl_get_mem)
  ultimately show ?thesis by (simp add: getEmployeeSummary_def)
qed

definition mss_office :: mss_db where
  "mss_office = \<lparr>ms_tables = \<lparr>rb_employees = [(''e'', (new_employee ''co'' None)\<lparr>em_managerId := Some ''m''\<rparr>), (''f'', new_employee ''co'' None)],
       rb_departments = [], rb_users = [], rb_titles = [], rb_entries = [], rb_balances = [], rb_types = [], rb_logs = []\<rparr>,
     ms_leaves = [(''l'', \<lparr>lq_employeeId = ''e'', lq_leaveTypeId = ''t'', lq_startDate = 0, lq_endDate = 0, lq_totalDays = 100,
       lq_status = ''PENDING'', lq_createdAt = 0\<rparr>),
      (''k'', \<lparr>lq_employeeId = ''f'', lq_leaveTypeId = ''t'', lq_startDate = 0, lq_endDate = 0, lq_totalDays = 100,
       lq_status = ''PENDING'', lq_createdAt = 0\<rparr>)]\<rparr>"

end
