(* ===== verification/Csv_Reader.thy ===== *)
theory Csv_Reader
  imports Bank_File
begin

text \<open>
  The reader of CSV files of \<^verbatim>\<open>bulk-import/bulk-import.service.ts\<close>: lines, fields, and records of a
  file. The lemmas show that it reads back every file whose cells hold no line break, with whatever
  commas and quotes, when the writer quotes as the bank file does; it trims the cells and drops blank lines.
\<close>

definition cr :: char where "cr = CHR 0x0D"

text \<open>\<^verbatim>\<open>csv.split(/\r?\n/)\<close>.\<close>

fun split_lines :: "string \<Rightarrow> string list" where
  "split_lines [] = [[]]"
| "split_lines [c] = (if c = newline then [[], []] else [[c]])"
| "split_lines (c # d # cs) =
     (if c = newline then [] # split_lines (d # cs)
      else if c = cr \<and> d = newline then [] # split_lines cs
      else (case split_lines (d # cs) of [] \<Rightarrow> [[c]] | l # ls \<Rightarrow> (c # l) # ls))"

text \<open>The loop of \<^verbatim>\<open>parseCsvLine\<close>: the field read so far and whether the reader is inside quotes.\<close>

function csv_scan :: "string \<Rightarrow> bool \<Rightarrow> string \<Rightarrow> string list" where
  "csv_scan current quoted [] = [current]"
| "csv_scan current quoted (c # cs) =
     (if c = quote \<and> quoted \<and> cs \<noteq> [] \<and> hd cs = quote then csv_scan (current @ [quote]) quoted (tl cs)
      else if c = quote then csv_scan current (\<not> quoted) cs
      else if c = CHR '','' \<and> \<not> quoted then current # csv_scan [] quoted cs
      else csv_scan (current @ [c]) quoted cs)"
  by pat_completeness auto
termination by (relation "measure (\<lambda>(current, quoted, s). length s)") auto

definition parseCsvLine :: "string \<Rightarrow> string list" where
  "parseCsvLine line = csv_scan [] False line"

type_synonym csv_record = "(string \<times> string) list"

text \<open>\<^verbatim>\<open>Object.fromEntries(headers.map((header, i) => [header, values[i]?.trim() ?? '']))\<close>.\<close>

definition csv_record_of :: "string list \<Rightarrow> string list \<Rightarrow> csv_record" where
  "csv_record_of headers values =
     map (\<lambda>i. (headers ! i, if i < length values then trim (values ! i) else [])) [0..<length headers]"

definition parseCsv :: "string \<Rightarrow> (nat \<times> csv_record) list" where
  "parseCsv csv =
     (case filter (\<lambda>l. trim l \<noteq> []) (split_lines csv) of
        [] \<Rightarrow> []
      | h # ls \<Rightarrow> enumerate 2 (map (\<lambda>l. csv_record_of (map trim (parseCsvLine h)) (parseCsvLine l)) ls))"

text \<open>A property of the record; the last of several columns with one name counts, and a missing one reads as empty.\<close>

definition csv_value :: "string \<Rightarrow> csv_record \<Rightarrow> string" where
  "csv_value key r = (case map_of (rev r) key of None \<Rightarrow> [] | Some v \<Rightarrow> v)"

lemma map_fst_csv_record [simp]: "map fst (csv_record_of hs vs) = hs"
  by (simp add: csv_record_of_def comp_def map_nth)

lemma length_parseCsv: "length (parseCsv csv) = length (filter (\<lambda>l. trim l \<noteq> []) (split_lines csv)) - 1"
  by (auto simp: parseCsv_def split: list.splits)

section \<open>Fields\<close>

lemma csv_scan_plain:
  "quote \<notin> set v \<Longrightarrow> CHR '','' \<notin> set v \<Longrightarrow> csv_scan cur False (v @ rest) = csv_scan (cur @ v) False rest"
  by (induction v arbitrary: cur) auto

lemma csv_scan_quoted:
  assumes "rest = [] \<or> hd rest \<noteq> quote"
  shows "csv_scan cur True (replace_char quote [quote, quote] v @ quote # rest) = csv_scan (cur @ v) False rest"
proof (induction v arbitrary: cur)
  case Nil
  then show ?case using assms by (cases rest) auto
next
  case (Cons c cs)
  have "\<exists>d ds. replace_char quote [quote, quote] cs @ quote # rest = d # ds"
    by (cases "replace_char quote [quote, quote] cs") auto
  then show ?case using Cons[of "cur @ [c]"] by (cases "c = quote") auto
qed

lemma csv_scan_field:
  assumes "rest = [] \<or> hd rest \<noteq> quote"
  shows "csv_scan [] False (escapeCsv v @ rest) = csv_scan v False rest"
proof (cases "plain v")
  case True
  then show ?thesis using csv_scan_plain[of v "[]" rest] by (simp add: escapeCsv_plain) (simp add: plain_def)
next
  case False
  then have e: "escapeCsv v = quote # (replace_char quote [quote, quote] v @ [quote])"
    by (auto simp: escapeCsv_def plain_def)
  have "csv_scan [] False (quote # (replace_char quote [quote, quote] v @ quote # rest))
      = csv_scan [] True (replace_char quote [quote, quote] v @ quote # rest)" by simp
  then show ?thesis using csv_scan_quoted[OF assms, of "[]" v] by (simp add: e)
qed

lemma comma_not_quote [simp]: "CHR '','' \<noteq> quote"
  by (simp add: quote_def)

lemma parse_escaped_line: "fs \<noteq> [] \<Longrightarrow> parseCsvLine (join_with '','' (map escapeCsv fs)) = fs"
proof (induction fs)
  case (Cons f fs)
  show ?case
  proof (cases fs)
    case Nil
    then show ?thesis using csv_scan_field[of "[]" f] by (simp add: parseCsvLine_def)
  next
    case (Cons g gs)
    then show ?thesis
      using Cons.IH csv_scan_field[of "CHR '','' # join_with '','' (map escapeCsv fs)" f] by (simp add: parseCsvLine_def)
  qed
qed simp

section \<open>Lines\<close>

definition one_line :: "string \<Rightarrow> bool" where
  "one_line l \<longleftrightarrow> newline \<notin> set l \<and> cr \<notin> set l"

lemma split_one_line: "one_line l \<Longrightarrow> split_lines l = [l]"
  by (induction l rule: split_lines.induct) (auto simp: one_line_def)

lemma split_first_line: "one_line l \<Longrightarrow> split_lines (l @ newline # r) = l # split_lines r"
proof (induction l)
  case Nil
  then show ?case by (cases r) auto
next
  case (Cons c cs)
  obtain d ds where d: "cs @ newline # r = d # ds" by (cases cs) auto
  have "c \<noteq> newline" "c \<noteq> cr" "one_line cs" using Cons.prems by (auto simp: one_line_def)
  then show ?case using Cons.IH by (simp add: d)
qed

lemma split_joined_lines: "ls \<noteq> [] \<Longrightarrow> list_all one_line ls \<Longrightarrow> split_lines (join_with [newline] ls) = ls"
proof (induction ls)
  case (Cons l ls)
  then show ?case by (cases ls) (auto simp: split_one_line split_first_line)
qed simp

lemma one_line_escape: "one_line v \<Longrightarrow> one_line (escapeCsv v)"
proof -
  have "c \<in> set (replace_char quote [quote, quote] v) \<Longrightarrow> c \<in> set v \<or> c = quote" for c
    by (induction v) (auto split: if_splits)
  moreover assume "one_line v"
  moreover have "newline \<noteq> quote" "cr \<noteq> quote" by (simp_all add: newline_def cr_def quote_def)
  ultimately show ?thesis by (auto simp: one_line_def escapeCsv_def)
qed

lemma one_line_join: "list_all one_line fs \<Longrightarrow> one_line (join_with '','' fs)"
proof (induction fs)
  case (Cons f fs)
  have "newline \<noteq> CHR '',''" "cr \<noteq> CHR '',''" by (simp_all add: newline_def cr_def)
  then show ?case using Cons by (cases fs) (auto simp: one_line_def)
qed (simp add: one_line_def)

section \<open>Files\<close>

definition csv_line :: "string list \<Rightarrow> string" where
  "csv_line fs = join_with '','' (map escapeCsv fs)"

definition csv_file :: "string list \<Rightarrow> string list list \<Rightarrow> string" where
  "csv_file headers rows = join_with [newline] (map csv_line (headers # rows))"

text \<open>A row whose line is not blank; the reader drops the others.\<close>

definition printed :: "string list \<Rightarrow> bool" where
  "printed fs \<longleftrightarrow> trim (csv_line fs) \<noteq> []"

lemma one_line_csv_line: "list_all one_line fs \<Longrightarrow> one_line (csv_line fs)"
  unfolding csv_line_def by (rule one_line_join) (auto simp: list_all_iff one_line_escape)

lemma parse_printed: "printed fs \<Longrightarrow> parseCsvLine (csv_line fs) = fs"
proof -
  assume "printed fs"
  then have "fs \<noteq> []" by (auto simp: printed_def csv_line_def trim_def)
  then show ?thesis by (simp add: csv_line_def parse_escaped_line)
qed

lemma csv_record_zip: "length vs = length hs \<Longrightarrow> csv_record_of hs vs = zip hs (map trim vs)"
  by (rule nth_equalityI) (simp_all add: csv_record_of_def)

lemma file_roundtrip:
  assumes "list_all (list_all one_line) (hs # rows)" and "printed hs" and "list_all (\<lambda>r. length r = length hs) rows"
  shows "parseCsv (csv_file hs rows) = enumerate 2 (map (\<lambda>r. zip (map trim hs) (map trim r)) (filter printed rows))"
proof -
  have "list_all one_line (map csv_line (hs # rows))" using assms(1) by (auto simp: list_all_iff intro!: one_line_csv_line)
  then have lines: "split_lines (csv_file hs rows) = csv_line hs # map csv_line rows"
    using split_joined_lines[of "map csv_line (hs # rows)"] by (simp add: csv_file_def)
  have "filter (\<lambda>l. trim l \<noteq> []) (csv_line hs # map csv_line rows) = csv_line hs # map csv_line (filter printed rows)"
    using assms(2) by (simp add: filter_map comp_def printed_def[abs_def])
  moreover have "map (\<lambda>l. csv_record_of (map trim hs) (parseCsvLine l)) (map csv_line (filter printed rows))
      = map (\<lambda>r. zip (map trim hs) (map trim r)) (filter printed rows)"
    using assms(3) by (auto simp: list_all_iff parse_printed csv_record_zip)
  ultimately show ?thesis unfolding parseCsv_def lines using parse_printed[OF assms(2)]
    by (simp del: filter.simps map_map map_eq_conv list.map_comp)
qed

end
