(* ===== verification/Bulk_Import.thy ===== *)
theory Bulk_Import
  imports Csv_Reader Careers
begin

text \<open>
  The import of employees, \<^verbatim>\<open>bulk-import/bulk-import.service.ts\<close>: a request stores a job, the job reads
  the file and hires row by row through the service of employees. How the language reads a date is a
  parameter. The lemmas show what the counts of a job mean.
\<close>

section \<open>Jobs\<close>

datatype import_status = ImportPENDING | ImportPROCESSING | ImportCOMPLETED | ImportFAILED

record import_job =
  ij_companyId :: id
  ij_type :: string
  ij_status :: import_status
  ij_totalRows :: nat
  ij_successfulRows :: nat
  ij_failedRows :: nat
  ij_errors :: "(nat \<times> string list) list"
  ij_createdById :: id
  ij_createdAt :: instant
  ij_startedAt :: "instant option"
  ij_completedAt :: "instant option"

text \<open>The calls that \<^verbatim>\<open>setImmediate\<close> has put off are part of the state.\<close>

record import_db =
  bi_jobs :: "import_job table"
  bi_staff :: employees_db
  bi_pending :: "(request_context \<times> id \<times> string) list"

record import_env =
  im_cipher :: cipher
  im_nonces :: "nat \<Rightarrow> string \<times> string"
  im_now :: "nat \<Rightarrow> instant"
  im_newId :: "nat \<Rightarrow> id"
  im_parseDate :: "string \<Rightarrow> instant option"

definition createEmployeeImportJob :: "id \<Rightarrow> instant \<Rightarrow> request_context \<Rightarrow> string \<Rightarrow> import_db \<Rightarrow> (import_db, id \<times> import_job) outcome" where
  "createEmployeeImportJob newId now user csv s =
     (let job = \<lparr>ij_companyId = rc_companyId user, ij_type = ''EMPLOYEES'', ij_status = ImportPENDING, ij_totalRows = 0,
            ij_successfulRows = 0, ij_failedRows = 0, ij_errors = [], ij_createdById = rc_userId user, ij_createdAt = now,
            ij_startedAt = None, ij_completedAt = None\<rparr>
      in (Inr (newId, job), s\<lparr>bi_jobs := tbl_insert newId job (bi_jobs s), bi_pending := bi_pending s @ [(user, newId, csv)]\<rparr>))"

definition getJob :: "request_context \<Rightarrow> id \<Rightarrow> import_db \<Rightarrow> app_error + import_job" where
  "getJob user jobId s =
     (case tbl_get_where jobId (\<lambda>j. ij_companyId j = rc_companyId user) (bi_jobs s) of
        None \<Rightarrow> Inl (DatabaseError ''No BulkImportJob found'') | Some j \<Rightarrow> Inr j)"

section \<open>Rows\<close>

text \<open>\<^verbatim>\<open>/^[^\s@]+@[^\s@]+\.[^\s@]+$/.test(s)\<close>.\<close>

definition email_shaped :: "string \<Rightarrow> bool" where
  "email_shaped s =
     (let local_part = takeWhile (\<lambda>c. c \<noteq> CHR ''@'') s; domain = tl (dropWhile (\<lambda>c. c \<noteq> CHR ''@'') s)
      in list_all (\<lambda>c. \<not> is_space c) s \<and> local_part \<noteq> [] \<and> CHR ''@'' \<in> set s \<and> CHR ''@'' \<notin> set domain
         \<and> CHR ''.'' \<in> set (butlast (tl domain)))"

definition validateRow :: "id \<Rightarrow> csv_record \<Rightarrow> employees_db \<Rightarrow> string list" where
  "validateRow companyId row s =
     (let number = csv_value ''employeeNumber'' row; mail = csv_value ''workEmail'' row
      in (if number = [] then [''employeeNumber is required''] else [])
         @ (if mail = [] then [''workEmail is required''] else [])
         @ (if mail \<noteq> [] \<and> \<not> email_shaped mail then [''workEmail must be a valid email''] else [])
         @ (if csv_value ''joinedAt'' row = [] then [''joinedAt is required''] else [])
         @ (if (number \<noteq> [] \<or> mail \<noteq> [])
               \<and> tbl_find (\<lambda>i e. em_companyId e = companyId \<and> em_deletedAt e = None \<and>
                     (number \<noteq> [] \<and> em_employeeNumber e = number \<or> mail \<noteq> [] \<and> same_email (em_workEmail e) mail)) (ed_employees s) \<noteq> None
            then [''employeeNumber or workEmail already exists''] else []))"

definition employment_type_of :: "string \<Rightarrow> employment_type option" where
  "employment_type_of s =
     (if s = [] \<or> s = ''FULL_TIME'' then Some FULL_TIME else if s = ''PART_TIME'' then Some PART_TIME
      else if s = ''CONTRACT'' then Some CONTRACT else if s = ''INTERN'' then Some INTERN else None)"

definition or_undefined :: "string \<Rightarrow> string field" where
  "or_undefined s = (if s = [] then Undef else Val s)"

text \<open>\<open>None\<close> when a value is one that the database client refuses: a date that is none, or a type of employment that does not exist.\<close>

definition rowToEmployee :: "(string \<Rightarrow> instant option) \<Rightarrow> csv_record \<Rightarrow> employee_dto option" where
  "rowToEmployee parse row =
     (case (parse (csv_value ''joinedAt'' row), employment_type_of (csv_value ''employmentType'' row)) of
        (Some d, Some ty) \<Rightarrow> Some
          \<lparr>ew_employeeNumber = Some (csv_value ''employeeNumber'' row), ew_email = None,
           ew_workEmail = Some (csv_value ''workEmail'' row),
           ew_workPhone = (if csv_value ''workPhone'' row = [] then None else Some (csv_value ''workPhone'' row)),
           ew_joinedAt = Some d, ew_employmentType = Some ty, ew_status = None,
           ew_departmentId = or_undefined (csv_value ''departmentId'' row), ew_managerId = or_undefined (csv_value ''managerId'' row),
           ew_jobTitleId = or_undefined (csv_value ''jobTitleId'' row), ew_locationId = or_undefined (csv_value ''locationId'' row),
           ew_payGradeId = or_undefined (csv_value ''payGradeId'' row), ew_probationEndsAt = Undef, ew_lastWorkingDate = Undef,
           ew_nationalId = Undef, ew_passportNumber = Undef, ew_personalEmail = Undef, ew_personalPhone = Undef\<rparr>
      | _ \<Rightarrow> None)"

text \<open>The text of an exception; that of the database is not reproduced.\<close>

fun error_message :: "app_error \<Rightarrow> string" where
  "error_message (NotFoundError m) = m"
| "error_message (ValidationError m) = m"
| "error_message (BadRequestError m) = m"
| "error_message (ConflictError m) = m"
| "error_message (ForbiddenError m) = m"
| "error_message (UnauthorizedError m) = m"
| "error_message (InternalError m) = m"
| "error_message (DatabaseError m) = m"
| "error_message (RuntimeError m) = m"
| "error_message (GoneError m) = m"

text \<open>One row: its errors, none when somebody was hired. The client refuses a value after the check for duplicates.\<close>

definition import_row :: "import_env \<Rightarrow> request_context \<Rightarrow> nat \<Rightarrow> csv_record \<Rightarrow> employees_db \<Rightarrow> string list \<times> employees_db" where
  "import_row env user k row s =
     (if validateRow (rc_companyId user) row s \<noteq> [] then (validateRow (rc_companyId user) row s, s)
      else
        (case (case rowToEmployee (im_parseDate env) row of
                 None \<Rightarrow>
                   (case assertEmployeeUnique (rc_companyId user) (csv_value ''employeeNumber'' row) (Some (csv_value ''workEmail'' row)) s of
                      Inl e \<Rightarrow> (Inl e, s) | Inr _ \<Rightarrow> (Inl (DatabaseError ''employees''), s))
               | Some dto \<Rightarrow>
                   hireEmployee (im_cipher env) (fst (im_nonces env k)) (snd (im_nonces env k)) (im_now env (Suc k)) (im_newId env k) user dto s) of
           (Inl e, t) \<Rightarrow> ([error_message e], t)
         | (Inr v, t) \<Rightarrow> ([], t)))"

text \<open>The loop: the errors by row number, the number of rows hired, and the state.\<close>

fun import_rows :: "import_env \<Rightarrow> request_context \<Rightarrow> nat \<Rightarrow> (nat \<times> csv_record) list \<Rightarrow> employees_db
    \<Rightarrow> (nat \<times> string list) list \<times> nat \<times> employees_db" where
  "import_rows env user k [] s = ([], 0, s)"
| "import_rows env user k ((n, row) # rows) s =
     (case import_row env user k row s of
        (es, t) \<Rightarrow> (case import_rows env user (Suc k) rows t of
          (failed, ok, u) \<Rightarrow> if es = [] then (failed, Suc ok, u) else ((n, es) # failed, ok, u)))"

definition processEmployeeImport :: "import_env \<Rightarrow> request_context \<Rightarrow> id \<Rightarrow> string \<Rightarrow> import_db \<Rightarrow> import_db" where
  "processEmployeeImport env user jobId csv s =
     (if tbl_get jobId (bi_jobs s) = None then s
      else
        (let started = tbl_update jobId (\<lambda>j. j\<lparr>ij_status := ImportPROCESSING, ij_startedAt := Some (im_now env 0)\<rparr>) (bi_jobs s);
             rows = parseCsv csv
         in (case import_rows env user 0 rows (bi_staff s) of
               (failed, ok, staff) \<Rightarrow>
                 s\<lparr>bi_staff := staff,
                   bi_jobs := tbl_update jobId (\<lambda>j. j\<lparr>ij_status := ImportCOMPLETED, ij_totalRows := length rows, ij_successfulRows := ok,
                       ij_failedRows := length failed, ij_errors := failed,
                       ij_completedAt := Some (im_now env (Suc (length rows)))\<rparr>) started\<rparr>)))"

section \<open>Addresses\<close>

lemma email_shaped_iff:
  "email_shaped s \<longleftrightarrow> (\<exists>a b c. s = a @ ''@'' @ b @ ''.'' @ c \<and> a \<noteq> [] \<and> b \<noteq> [] \<and> c \<noteq> []
     \<and> list_all (\<lambda>x. \<not> is_space x \<and> x \<noteq> CHR ''@'') (a @ b @ c))" (is "?l \<longleftrightarrow> ?r")
proof
  assume e: ?l
  let ?a = "takeWhile (\<lambda>c. c \<noteq> CHR ''@'') s" and ?d = "tl (dropWhile (\<lambda>c. c \<noteq> CHR ''@'') s)"
  have at: "CHR ''@'' \<in> set s" "CHR ''.'' \<in> set (butlast (tl ?d))" "CHR ''@'' \<notin> set ?d" "?a \<noteq> []" "list_all (\<lambda>c. \<not> is_space c) s"
    using e by (simp_all add: email_shaped_def Let_def)
  then have "dropWhile (\<lambda>c. c \<noteq> CHR ''@'') s = CHR ''@'' # ?d"
    using hd_dropWhile[of "\<lambda>c. c \<noteq> CHR ''@''" s] by (cases "dropWhile (\<lambda>c. c \<noteq> CHR ''@'') s") (auto simp: dropWhile_eq_Nil_conv)
  then have s: "s = ?a @ ''@'' @ ?d" using takeWhile_dropWhile_id[of "\<lambda>c. c \<noteq> CHR ''@''" s] by simp
  obtain x xs where x: "?d = x # xs" using at(2) by (cases ?d) auto
  obtain ys zs where y: "butlast xs = ys @ CHR ''.'' # zs" using at(2) unfolding x by (auto dest: split_list)
  then have "xs \<noteq> []" by auto
  then have d: "?d = (x # ys) @ ''.'' @ (zs @ [last xs])" using x y append_butlast_last_id[of xs] by simp
  have a: "CHR ''@'' \<notin> set ?a" by (auto dest: set_takeWhileD)
  have sub: "set ?a \<union> set ?d \<subseteq> set s" using arg_cong[OF s, of set] by auto
  have "list_all (\<lambda>x. \<not> is_space x \<and> x \<noteq> CHR ''@'') (?a @ ?d)"
    using a sub at(3,5) unfolding list_all_iff by (metis Un_iff set_append subsetD)
  then have "list_all (\<lambda>x. \<not> is_space x \<and> x \<noteq> CHR ''@'') (?a @ (x # ys) @ (zs @ [last xs]))"
    unfolding d by (simp add: list_all_append)
  moreover have "s = ?a @ ''@'' @ (x # ys) @ ''.'' @ (zs @ [last xs])" using s unfolding d by simp
  ultimately show ?r using at(4) by blast
next
  assume ?r
  then obtain a b c where s: "s = a @ ''@'' @ b @ ''.'' @ c" "a \<noteq> []" "b \<noteq> []" "c \<noteq> []"
    and ok: "list_all (\<lambda>x. \<not> is_space x \<and> x \<noteq> CHR ''@'') (a @ b @ c)" by blast
  have "takeWhile (\<lambda>c. c \<noteq> CHR ''@'') s = a" "tl (dropWhile (\<lambda>c. c \<noteq> CHR ''@'') s) = b @ ''.'' @ c"
    using ok by (auto simp: s(1) list_all_iff takeWhile_append dropWhile_append)
  moreover have "butlast (tl (b @ ''.'' @ c)) = tl b @ ''.'' @ butlast c" using s(3,4) by (cases b) (auto simp: butlast_append)
  moreover have "\<not> is_space CHR ''@''" "\<not> is_space CHR ''.''" by (simp_all add: is_space_def)
  moreover have "CHR ''@'' \<notin> set b" "CHR ''@'' \<notin> set c" using ok by (auto simp: list_all_iff)
  ultimately show ?l using ok s by (simp add: email_shaped_def Let_def list_all_iff)
qed

section \<open>What an import does\<close>

text \<open>The identifiers from the \<open>k\<close>-th on are new to the tables of employees.\<close>

definition ids_ahead :: "import_env \<Rightarrow> nat \<Rightarrow> employees_db \<Rightarrow> bool" where
  "ids_ahead env k s \<longleftrightarrow> (\<forall>j \<ge> k. fresh (im_newId env j) (ed_employees s) \<and> tbl_get (im_newId env j) (ed_profiles s) = None
     \<and> live_accounts (im_newId env j) s = [])"

text \<open>What one row may do: nothing, with errors, or add an employee of the company with its number.\<close>

lemma import_row_cases:
  assumes "ids_ahead env k s"
  obtains "fst (import_row env user k row s) \<noteq> []" "snd (import_row env user k row s) = s"
  | r where "fst (import_row env user k row s) = []" "em_employeeNumber r = csv_value ''employeeNumber'' row"
      "em_companyId r = rc_companyId user"
      "ed_employees (snd (import_row env user k row s)) = ed_employees s @ [(im_newId env k, r)]"
      "ed_profiles (snd (import_row env user k row s)) = ed_profiles s"
      "ed_accounts (snd (import_row env user k row s)) = ed_accounts s"
proof (cases "rowToEmployee (im_parseDate env) row")
  case None
  then have "fst (import_row env user k row s) \<noteq> [] \<and> snd (import_row env user k row s) = s"
    by (auto simp: import_row_def split: sum.splits)
  then show thesis using that(1) by blast
next
  case (Some dto)
  let ?n = "im_newId env k" and ?co = "rc_companyId user" and ?num = "csv_value ''employeeNumber'' row"
  define r where "r = hired_row (im_now env (Suc k)) ?co ?num dto"
  have dto: "ew_employeeNumber dto = Some ?num" "profileData c i1 i2 dto = None" for c i1 i2
    using Some by (auto simp: rowToEmployee_def profileData_def encrypt_def Let_def split: option.splits)
  show thesis
  proof (cases "validateRow ?co row s \<noteq> [] \<or> is_error (assertEmployeeUnique ?co ?num (or_else (ew_workEmail dto) (ew_email dto)) s)
      \<or> \<not> employee_refs_ok r s \<or> \<not> employee_key_free ?n r s")
    case True
    then have "fst (import_row env user k row s) \<noteq> [] \<and> snd (import_row env user k row s) = s"
      unfolding import_row_def hireEmployee_def Let_def Some dto option.case r_def[symmetric]
      by (auto split: sum.splits)
    then show thesis using that(1) by blast
  next
    case False
    then obtain u where u: "assertEmployeeUnique ?co ?num (or_else (ew_workEmail dto) (ew_email dto)) s = Inr u"
      by (cases "assertEmployeeUnique ?co ?num (or_else (ew_workEmail dto) (ew_email dto)) s") auto
    have f: "fresh ?n (ed_employees s)" "tbl_get ?n (ed_profiles s) = None" "live_accounts ?n s = []"
      using assms by (auto simp: ids_ahead_def)
    have r: "em_companyId r = ?co" "em_deletedAt r = None" "em_employeeNumber r = ?num" by (simp_all add: r_def hired_row_def)
    define h where "h = hireEmployee (im_cipher env) (fst (im_nonces env k)) (snd (im_nonces env k)) (im_now env (Suc k)) ?n user dto s"
    have row: "import_row env user k row s = (case h of (Inl e, t) \<Rightarrow> ([error_message e], t) | (Inr v, t) \<Rightarrow> ([], t))"
      using False by (simp add: import_row_def Some h_def)
    have t: "ed_employees (snd h) = tbl_insert ?n r (ed_employees s)" "ed_profiles (snd h) = ed_profiles s"
        "ed_accounts (snd h) = ed_accounts s" "fst h = get_employee (im_cipher env) user ?n (snd h)"
      using False u unfolding h_def hireEmployee_def Let_def dto option.case r_def[symmetric]
      by (simp_all add: emit_employee_def emp_audit_def)
    have "\<exists>v. fst h = Inr v"
      using t f r by (simp add: get_employee_def emp_getOrThrow_def emp_findById_def tbl_get_where_def tbl_get_insert fresh_get
        serializeEmployee_def live_accounts_def)
    then have "import_row env user k row s = ([], snd h)" unfolding row by (cases h) auto
    then show thesis using that(2)[of r] t r by (simp add: tbl_insert_def)
  qed
qed

lemma ids_ahead_Suc:
  assumes "ids_ahead env k s" and "inj (im_newId env)" and "ed_employees t = ed_employees s @ [(im_newId env k, r)]"
    and "ed_profiles t = ed_profiles s" and "ed_accounts t = ed_accounts s"
  shows "ids_ahead env (Suc k) t"
  using assms by (auto simp: ids_ahead_def fresh_def tbl_ids_def live_accounts_def dest: injD)

lemma ids_ahead_later: "ids_ahead env k s \<Longrightarrow> ids_ahead env (Suc k) s"
  by (simp add: ids_ahead_def)

text \<open>The rows that are not among the failed ones.\<close>

definition hired_rows :: "(nat \<times> string list) list \<Rightarrow> (nat \<times> csv_record) list \<Rightarrow> (nat \<times> csv_record) list" where
  "hired_rows failed rows = filter (\<lambda>r. fst r \<notin> fst ` set failed) rows"

text \<open>The employees added by the rows \<open>rows\<close>, one for each, in their order.\<close>

definition hired_as :: "request_context \<Rightarrow> (nat \<times> csv_record) list \<Rightarrow> employee_row table \<Rightarrow> bool" where
  "hired_as user rows added \<longleftrightarrow>
     map (em_employeeNumber \<circ> snd) added = map (csv_value ''employeeNumber'' \<circ> snd) rows
     \<and> list_all (\<lambda>a. em_companyId (snd a) = rc_companyId user) added"

lemma failed_are_rows: "import_rows env user k rows s = (failed, ok, t) \<Longrightarrow> fst ` set failed \<subseteq> fst ` set rows"
proof (induction rows arbitrary: k s failed ok)
  case (Cons r rows)
  obtain n row where r: "r = (n, row)" by (cases r)
  obtain es u where one: "import_row env user k row s = (es, u)" by (cases "import_row env user k row s")
  obtain failed' ok' t' where rest: "import_rows env user (Suc k) rows u = (failed', ok', t')"
    by (cases "import_rows env user (Suc k) rows u")
  have "t' = t" "fst ` set failed \<subseteq> insert n (fst ` set failed')"
    using Cons.prems by (auto simp: r one rest split: if_splits)
  then show ?case using Cons.IH[of "Suc k" u failed' ok'] rest by (auto simp: r)
qed simp

lemma import_rows_hires:
  assumes "import_rows env user k rows s = (failed, ok, t)" and "ids_ahead env k s" and "inj (im_newId env)"
    and "distinct (map fst rows)"
  shows "length rows = ok + length failed
    \<and> (\<exists>added. ed_employees t = ed_employees s @ added \<and> length added = ok \<and> hired_as user (hired_rows failed rows) added)"
  using assms
proof (induction env user k rows s arbitrary: failed ok t rule: import_rows.induct)
  case (1 env user k s)
  then show ?case by (simp add: hired_as_def hired_rows_def)
next
  case (2 env user k n row rows s)
  obtain es u where one: "import_row env user k row s = (es, u)" by (cases "import_row env user k row s")
  obtain failed' ok' where rest: "import_rows env user (Suc k) rows u = (failed', ok', t)"
    and res: "(failed, ok) = (if es = [] then (failed', Suc ok') else ((n, es) # failed', ok'))"
    using "2.prems"(1) by (auto simp: one split: prod.splits if_splits)
  have n: "n \<notin> fst ` set rows" "distinct (map fst rows)" using "2.prems"(4) by auto
  then have n': "n \<notin> fst ` set failed'" using failed_are_rows[OF rest] by blast
  note IH = "2.IH"[OF one[symmetric] rest]
  show ?case
  proof (rule import_row_cases[OF "2.prems"(2), of user row])
    assume c: "fst (import_row env user k row s) \<noteq> []" "snd (import_row env user k row s) = s"
    have "hired_rows failed ((n, row) # rows) = hired_rows failed' rows"
      using c n res by (auto simp: hired_rows_def one intro!: filter_cong)
    moreover have "ids_ahead env (Suc k) u" using c "2.prems"(2) by (simp add: one ids_ahead_later)
    moreover have "failed = (n, es) # failed'" "ok = ok'" "u = s" using c res by (simp_all add: one)
    ultimately show ?thesis using IH "2.prems"(3) n(2) by simp
  next
    fix r
    assume c: "fst (import_row env user k row s) = []" "em_employeeNumber r = csv_value ''employeeNumber'' row"
      "em_companyId r = rc_companyId user"
      "ed_employees (snd (import_row env user k row s)) = ed_employees s @ [(im_newId env k, r)]"
      "ed_profiles (snd (import_row env user k row s)) = ed_profiles s"
      "ed_accounts (snd (import_row env user k row s)) = ed_accounts s"
    have "ids_ahead env (Suc k) u" using ids_ahead_Suc[OF "2.prems"(2,3)] c by (simp add: one)
    then obtain added where a: "length rows = ok' + length failed'" "ed_employees t = ed_employees u @ added" "length added = ok'"
        "hired_as user (hired_rows failed' rows) added"
      using IH "2.prems"(3) n(2) by blast
    have f: "failed = failed'" "ok = Suc ok'" using c(1) res by (simp_all add: one)
    have "hired_rows failed ((n, row) # rows) = (n, row) # hired_rows failed' rows" using n' by (simp add: hired_rows_def f)
    then have "hired_as user (hired_rows failed ((n, row) # rows)) ((im_newId env k, r) # added)"
      using a(4) c(2,3) by (simp add: hired_as_def)
    moreover have "ed_employees t = ed_employees s @ (im_newId env k, r) # added" using a(2) c(4) by (simp add: one)
    moreover have "length ((im_newId env k, r) # added) = ok" using a(3) f by simp
    moreover have "length ((n, row) # rows) = ok + length failed" using a(1) f by simp
    ultimately show ?thesis by blast
  qed
qed

text \<open>
  C24: The counts of an import are true. When a job has run it is completed, its total is the number of
  records of the file and splits into the rows hired and the rows with errors, and the employees added are
  exactly one for each row without an error, in the order of the file, with its number and in the company of
  the caller.
\<close>

theorem import_counts_are_true:
  assumes "tbl_get jobId (bi_jobs s) = Some j" and "ids_ahead env 0 (bi_staff s)" and "inj (im_newId env)"
  shows "\<exists>job added. tbl_get jobId (bi_jobs (processEmployeeImport env user jobId csv s)) = Some job
    \<and> ij_status job = ImportCOMPLETED \<and> ij_totalRows job = length (parseCsv csv)
    \<and> ij_totalRows job = ij_successfulRows job + ij_failedRows job \<and> ij_failedRows job = length (ij_errors job)
    \<and> ed_employees (bi_staff (processEmployeeImport env user jobId csv s)) = ed_employees (bi_staff s) @ added
    \<and> length added = ij_successfulRows job \<and> hired_as user (hired_rows (ij_errors job) (parseCsv csv)) added"
proof -
  obtain failed ok t where r: "import_rows env user 0 (parseCsv csv) (bi_staff s) = (failed, ok, t)"
    by (cases "import_rows env user 0 (parseCsv csv) (bi_staff s)")
  have "distinct (map fst (parseCsv csv))" by (simp add: parseCsv_def split: list.splits)
  from import_rows_hires[OF r assms(2,3) this] obtain added where a: "length (parseCsv csv) = ok + length failed"
      "ed_employees t = ed_employees (bi_staff s) @ added" "length added = ok" "hired_as user (hired_rows failed (parseCsv csv)) added"
    by blast
  show ?thesis
    using a assms(1) by (auto simp: processEmployeeImport_def Let_def r intro!: exI[of _ added])
qed

text \<open>
  C38: Files survive: a file written with the quoting of the bank file, whatever commas and quotes its cells
  hold, is read back record by record, with space at the ends of cells and column names removed, provided
  that no cell has a line break, the header is not blank and every row has as many cells as the header. A row
  that prints as a blank line is dropped, and the numbers count the remaining rows from 2, so that from it on
  they are not those of the lines.
\<close>

theorem csv_file_roundtrip:
  assumes "list_all (list_all one_line) (hs # rows)" and "printed hs" and "list_all (\<lambda>r. length r = length hs) rows"
  shows "parseCsv (csv_file hs rows) = enumerate 2 (map (\<lambda>r. zip (map trim hs) (map trim r)) (filter printed rows))"
  using assms by (rule file_roundtrip)

text \<open>A blank line is not counted: the error of the line after it is reported one line too early.\<close>

lemma blank_lines_shift_numbers:
  "map fst (parseCsv (''a'' @ [newline] @ [newline] @ ''x'')) = [2]"
  by code_simp

text \<open>A cell with a line break, which the format allows inside quotes, is cut in two records.\<close>

lemma quoted_line_break_splits: "length (parseCsv (csv_file [''a''] [[''x'' @ [newline] @ ''y'']])) = 2"
  by code_simp

section \<open>Concrete runs\<close>

definition import_office :: import_db where
  "import_office = \<lparr>bi_jobs = [(''j'', \<lparr>ij_companyId = ''co'', ij_type = ''EMPLOYEES'', ij_status = ImportPENDING, ij_totalRows = 0,
     ij_successfulRows = 0, ij_failedRows = 0, ij_errors = [], ij_createdById = ''u1'', ij_createdAt = 0, ij_startedAt = None,
     ij_completedAt = None\<rparr>)], bi_staff = firm, bi_pending = []\<rparr>"

definition import_setting :: import_env where
  "import_setting = \<lparr>im_cipher = reversing_cipher, im_nonces = (\<lambda>k. ([], [])), im_now = int, im_newId = (\<lambda>k. replicate (Suc k) CHR ''i''),
     im_parseDate = (\<lambda>s. if s = ''2024-01-01'' then Some 1704067200000 else None)\<rparr>"

definition two_rows :: string where
  "two_rows = csv_file [''employeeNumber'', ''workEmail'', ''joinedAt'']
     [[''E1'', ''a@b.c'', ''2024-01-01''], [''E1'', ''d@b.c'', ''2024-01-01'']]"

theorem import_counts_are_true_witness:
  "\<exists>job added. tbl_get ''j'' (bi_jobs (processEmployeeImport import_setting (actor_in ''u1'' ''co'') ''j'' two_rows import_office)) = Some job
    \<and> ij_totalRows job = 2 \<and> ij_successfulRows job = 1 \<and> length added = 1
    \<and> ed_employees (bi_staff (processEmployeeImport import_setting (actor_in ''u1'' ''co'') ''j'' two_rows import_office)) = added"
proof -
  have ids: "ids_ahead import_setting 0 (bi_staff import_office)"
    by (simp add: ids_ahead_def import_office_def firm_def fresh_def tbl_ids_def tbl_get_def live_accounts_def tbl_all_def)
  have inj: "inj (im_newId import_setting)" by (auto simp: inj_def import_setting_def dest: arg_cong[where f = length])
  obtain j where j: "tbl_get ''j'' (bi_jobs import_office) = Some j" by (simp add: import_office_def tbl_get_def)
  have "length (parseCsv two_rows) = 2" by code_simp
  moreover have "map_option ij_successfulRows
      (tbl_get ''j'' (bi_jobs (processEmployeeImport import_setting (actor_in ''u1'' ''co'') ''j'' two_rows import_office))) = Some 1"
    by code_simp
  moreover have "ed_employees (bi_staff import_office) = []" by (simp add: import_office_def firm_def)
  ultimately show ?thesis
    using import_counts_are_true[OF j ids inj, of "actor_in ''u1'' ''co''" two_rows] by auto
qed

theorem csv_file_roundtrip_witness:
  "parseCsv (csv_file [''a'', ''b''] [[''x,y'', ''p'' @ [quote] @ ''q''], ['' '', ''z '']])
    = [(2, [(''a'', ''x,y''), (''b'', ''p'' @ [quote] @ ''q'')]), (3, [(''a'', []), (''b'', ''z'')])]
   \<and> parseCsv (csv_file [''a''] [[''v''], [[]], [''w'']]) = [(2, [(''a'', ''v'')]), (3, [(''a'', ''w'')])]"
proof -
  let ?r = "[[''x,y'', ''p'' @ [quote] @ ''q''], ['' '', ''z '']]" and ?q = "[[''v''], [[]], [''w'']]"
  have one: "list_all (list_all one_line) ([''a'', ''b''] # ?r)" "list_all (list_all one_line) ([''a''] # ?q)" by code_simp+
  have head: "printed [''a'', ''b'']" "printed [''a'']" by code_simp+
  have "filter printed ?r = ?r" "filter printed ?q = [[''v''], [''w'']]" by code_simp+
  moreover have "trim '' '' = []" "trim ''z '' = ''z''" "trim ''x,y'' = ''x,y''" "trim (''p'' @ [quote] @ ''q'') = ''p'' @ [quote] @ ''q''"
    "trim ''a'' = ''a''" "trim ''b'' = ''b''" "trim ''v'' = ''v''" "trim ''w'' = ''w''" by code_simp+
  ultimately show ?thesis
    using csv_file_roundtrip[OF one(1) head(1)] csv_file_roundtrip[OF one(2) head(2)] by (simp add: enumerate_simps)
qed

end
