(* ===== verification/Integrations.thy ===== *)
theory Integrations
  imports Iso_Date Audit_Log
begin

text \<open>
  Integrations, \<^verbatim>\<open>integrations/services\<close>: keys of the programming interface, webhooks with the
  deliveries that events fan out to, and the connection to Slack. The parser of addresses, hashes, signatures
  and the encoding of the state parameter are those of the run-time system and are parameters. The lemmas
  show that a revoked key stays dead, which addresses the blocklist refuses, and when a webhook is given up.
\<close>

section \<open>Tables\<close>

datatype key_status = KeyACTIVE | KeyREVOKED

record api_key_row =
  ak_companyId :: id
  ak_name :: string
  ak_keyPrefix :: string
  ak_keyHash :: string
  ak_scopes :: "string list"
  ak_status :: key_status
  ak_createdByUserId :: id
  ak_lastUsedAt :: "instant option"
  ak_expiresAt :: "instant option"
  ak_revokedAt :: "instant option"
  ak_revokedByUserId :: "id option"
  ak_createdAt :: instant

datatype hook_status = HookACTIVE | HookINACTIVE

record webhook_row =
  wh_companyId :: id
  wh_url :: string
  wh_events :: "string list"
  wh_signingSecret :: string
  wh_status :: hook_status
  wh_consecutiveFailures :: nat
  wh_deactivatedAt :: "instant option"
  wh_lastSuccessAt :: "instant option"
  wh_createdByUserId :: id
  wh_createdAt :: instant

record delivery_row =
  dv_webhookId :: id
  dv_eventType :: string
  dv_eventId :: id
  dv_payload :: json
  dv_status :: string
  dv_attemptCount :: nat
  dv_createdAt :: instant

datatype slack_status = SlackACTIVE | SlackDISCONNECTED

record slack_mapping =
  sm_eventType :: string
  sm_channelId :: string
  sm_channelName :: string

record slack_row =
  sk_companyId :: id
  sk_slackTeamId :: string
  sk_slackTeamName :: string
  sk_encryptedAccessToken :: string
  sk_channelMappings :: "slack_mapping list"
  sk_status :: slack_status
  sk_connectedByUserId :: id
  sk_connectedAt :: instant
  sk_disconnectedAt :: "instant option"

record links_db =
  ik_keys :: "api_key_row table"
  ik_hooks :: "webhook_row table"
  ik_deliveries :: "delivery_row table"
  ik_slack :: "slack_row table"
  ik_events :: "(string \<times> id) list"
  ik_audit :: "audit_row list"

definition link_log :: "id \<Rightarrow> string \<Rightarrow> id \<Rightarrow> string \<Rightarrow> (string \<times> json) list \<Rightarrow> links_db \<Rightarrow> links_db" where
  "link_log company etype i act nv s = s\<lparr>ik_audit := logAsync (entry_of None company etype i act nv) (ik_audit s)\<rparr>"

section \<open>Keys of the programming interface\<close>

record key_dto =
  kd_name :: string
  kd_scopes :: "string list"
  kd_expiresAt :: "instant option"

text \<open>\<open>random\<close> is the text of the random bytes; the hash of a key is unique in the table.\<close>

definition raw_key :: "string \<Rightarrow> string" where
  "raw_key random = ''hrp_live_'' @ random"

definition createKey :: "(string \<Rightarrow> string) \<Rightarrow> id \<Rightarrow> string \<Rightarrow> instant \<Rightarrow> id \<Rightarrow> key_dto \<Rightarrow> id \<Rightarrow> links_db \<Rightarrow> (links_db, id \<times> string) outcome" where
  "createKey sha newId random now companyId dto actorId s =
     (let rawKey = raw_key random
      in if tbl_find (\<lambda>i k. ak_keyHash k = sha rawKey) (ik_keys s) \<noteq> None \<or> \<not> fresh newId (ik_keys s)
         then (Inl (DatabaseError ''api_keys''), s)
         else (Inr (newId, rawKey),
           link_log companyId ''ApiKey'' newId ''API_KEY_CREATED'' [(''name'', JStr (kd_name dto)), (''scopes'', JArr (map JStr (kd_scopes dto)))]
             (s\<lparr>ik_keys := tbl_insert newId
                  \<lparr>ak_companyId = companyId, ak_name = kd_name dto, ak_keyPrefix = take 12 rawKey, ak_keyHash = sha rawKey,
                   ak_scopes = kd_scopes dto, ak_status = KeyACTIVE, ak_createdByUserId = actorId, ak_lastUsedAt = None,
                   ak_expiresAt = kd_expiresAt dto, ak_revokedAt = None, ak_revokedByUserId = None, ak_createdAt = now\<rparr> (ik_keys s),
                ik_events := ik_events s @ [(''apikey.created'', newId)]\<rparr>)))"

definition listKeys :: "id \<Rightarrow> links_db \<Rightarrow> (id \<times> api_key_row) list" where
  "listKeys companyId s = sort_key (\<lambda>(i, k). - ak_createdAt k) (tbl_all (\<lambda>i k. ak_companyId k = companyId) (ik_keys s))"

definition revokeKey :: "instant \<Rightarrow> id \<Rightarrow> id \<Rightarrow> id \<Rightarrow> links_db \<Rightarrow> (links_db, unit) outcome" where
  "revokeKey now companyId keyId actorId s =
     (case tbl_get keyId (ik_keys s) of
        None \<Rightarrow> (Inl (NotFoundError ''API key not found''), s)
      | Some k \<Rightarrow>
          if ak_companyId k \<noteq> companyId then (Inl (NotFoundError ''API key not found''), s)
          else if ak_status k = KeyREVOKED then (Inl (BadRequestError ''Key already revoked''), s)
          else (Inr (), link_log companyId ''ApiKey'' keyId ''API_KEY_REVOKED'' [(''revokedBy'', JStr actorId)]
            (s\<lparr>ik_keys := tbl_update keyId (\<lambda>k. k\<lparr>ak_status := KeyREVOKED, ak_revokedAt := Some now, ak_revokedByUserId := Some actorId\<rparr>) (ik_keys s),
               ik_events := ik_events s @ [(''apikey.revoked'', keyId)]\<rparr>)))"

definition validateKey :: "(string \<Rightarrow> string) \<Rightarrow> instant \<Rightarrow> string \<Rightarrow> links_db \<Rightarrow> (id \<times> string list) option \<times> links_db" where
  "validateKey sha now rawKey s =
     (case tbl_find (\<lambda>i k. ak_keyPrefix k = take 12 rawKey \<and> ak_status k = KeyACTIVE \<and> ak_keyHash k = sha rawKey) (ik_keys s) of
        None \<Rightarrow> (None, s)
      | Some (i, k) \<Rightarrow>
          if (case ak_expiresAt k of None \<Rightarrow> False | Some t \<Rightarrow> t < now) then (None, s)
          else (Some (ak_companyId k, ak_scopes k), s\<lparr>ik_keys := tbl_update i (\<lambda>k. k\<lparr>ak_lastUsedAt := Some now\<rparr>) (ik_keys s)\<rparr>))"

section \<open>Webhooks\<close>

definition SSRF_BLOCKLIST :: "string list" where
  "SSRF_BLOCKLIST = [''localhost'', ''127.0.0.1'', ''0.0.0.0'', ''169.254.169.254'', ''10.'', ''172.16.'', ''172.17.'', ''172.18.'', ''172.19.'',
     ''172.20.'', ''172.21.'', ''172.22.'', ''172.23.'', ''172.24.'', ''172.25.'', ''172.26.'', ''172.27.'', ''172.28.'', ''172.29.'', ''172.30.'',
     ''172.31.'', ''192.168.'']"

text \<open>\<open>url\<close> is the parser of addresses: the protocol and the name of the host, or an exception.\<close>

definition host_allowed :: "string \<Rightarrow> bool" where
  "host_allowed hostname \<longleftrightarrow>
     \<not> list_ex (\<lambda>blocked. hostname = blocked \<or> starts_with blocked hostname) SSRF_BLOCKLIST
     \<and> hostname \<noteq> ''[::1]'' \<and> hostname \<noteq> ''::1''"

definition isSsrfSafe :: "(string \<Rightarrow> (string \<times> string) option) \<Rightarrow> string \<Rightarrow> bool" where
  "isSsrfSafe url s =
     (case url s of None \<Rightarrow> False | Some (protocol, host) \<Rightarrow> protocol = ''https:'' \<and> host_allowed (toLowerCase host))"

definition register_hook :: "(string \<Rightarrow> (string \<times> string) option) \<Rightarrow> id \<Rightarrow> string \<Rightarrow> instant \<Rightarrow> id \<Rightarrow> string \<Rightarrow> string list \<Rightarrow> id
    \<Rightarrow> links_db \<Rightarrow> (links_db, id \<times> string) outcome" where
  "register_hook url newId secret now companyId address events actorId s =
     (if \<not> isSsrfSafe url address then (Inl (BadRequestError ''URL fails SSRF validation''), s)
      else if \<not> fresh newId (ik_hooks s) then (Inl (DatabaseError ''webhooks''), s)
      else (Inr (newId, secret),
        link_log companyId ''Webhook'' newId ''WEBHOOK_REGISTERED'' [(''url'', JStr address), (''events'', JArr (map JStr events))]
          (s\<lparr>ik_hooks := tbl_insert newId
               \<lparr>wh_companyId = companyId, wh_url = address, wh_events = events, wh_signingSecret = secret, wh_status = HookACTIVE,
                wh_consecutiveFailures = 0, wh_deactivatedAt = None, wh_lastSuccessAt = None, wh_createdByUserId = actorId,
                wh_createdAt = now\<rparr> (ik_hooks s)\<rparr>)))"

definition hook_of_company :: "id \<Rightarrow> id \<Rightarrow> links_db \<Rightarrow> app_error + webhook_row" where
  "hook_of_company companyId i s =
     (case tbl_get i (ik_hooks s) of
        None \<Rightarrow> Inl (NotFoundError ''Webhook not found'')
      | Some h \<Rightarrow> if wh_companyId h \<noteq> companyId then Inl (NotFoundError ''Webhook not found'') else Inr h)"

definition update_hook :: "(string \<Rightarrow> (string \<times> string) option) \<Rightarrow> id \<Rightarrow> id \<Rightarrow> string option \<Rightarrow> string list option \<Rightarrow> links_db
    \<Rightarrow> (links_db, unit) outcome" where
  "update_hook url companyId i address events s =
     (case hook_of_company companyId i s of
        Inl e \<Rightarrow> (Inl e, s)
      | Inr h \<Rightarrow>
          (let given = (case address of None \<Rightarrow> False | Some a \<Rightarrow> a \<noteq> [])
           in if given \<and> \<not> isSsrfSafe url (the address) then (Inl (BadRequestError ''URL fails SSRF validation''), s)
              else (Inr (), s\<lparr>ik_hooks := tbl_update i (\<lambda>h. h\<lparr>wh_url := (if given then the address else wh_url h),
                     wh_events := (case events of None \<Rightarrow> wh_events h | Some es \<Rightarrow> es)\<rparr>) (ik_hooks s)\<rparr>)))"

definition testPing :: "(string \<Rightarrow> (string \<times> string) option) \<Rightarrow> id \<Rightarrow> id \<Rightarrow> links_db \<Rightarrow> app_error + string" where
  "testPing url companyId i s =
     (case hook_of_company companyId i s of
        Inl e \<Rightarrow> Inl e
      | Inr h \<Rightarrow> if \<not> isSsrfSafe url (wh_url h) then Inl (BadRequestError ''URL fails SSRF re-validation'') else Inr ''Test ping sent'')"

definition rotateSecret :: "string \<Rightarrow> id \<Rightarrow> id \<Rightarrow> links_db \<Rightarrow> (links_db, string) outcome" where
  "rotateSecret secret companyId i s =
     (case hook_of_company companyId i s of
        Inl e \<Rightarrow> (Inl e, s)
      | Inr h \<Rightarrow> (Inr secret, s\<lparr>ik_hooks := tbl_update i (\<lambda>h. h\<lparr>wh_signingSecret := secret\<rparr>) (ik_hooks s)\<rparr>))"

definition deactivateOnFailureThreshold :: "instant \<Rightarrow> id \<Rightarrow> links_db \<Rightarrow> links_db" where
  "deactivateOnFailureThreshold now i s =
     (case tbl_get i (ik_hooks s) of
        None \<Rightarrow> s
      | Some h \<Rightarrow>
          (let newFailures = wh_consecutiveFailures h + 1
           in if 10 \<le> newFailures
              then s\<lparr>ik_hooks := tbl_update i (\<lambda>h. h\<lparr>wh_status := HookINACTIVE, wh_deactivatedAt := Some now,
                       wh_consecutiveFailures := newFailures\<rparr>) (ik_hooks s),
                     ik_events := ik_events s @ [(''webhook.deactivated'', i)]\<rparr>
              else s\<lparr>ik_hooks := tbl_update i (\<lambda>h. h\<lparr>wh_consecutiveFailures := newFailures\<rparr>) (ik_hooks s)\<rparr>))"

definition resetFailureCount :: "instant \<Rightarrow> id \<Rightarrow> links_db \<Rightarrow> (links_db, unit) outcome" where
  "resetFailureCount now i s =
     (if tbl_get i (ik_hooks s) = None then (Inl (DatabaseError ''webhooks''), s)
      else (Inr (), s\<lparr>ik_hooks := tbl_update i (\<lambda>h. h\<lparr>wh_consecutiveFailures := 0, wh_lastSuccessAt := Some now\<rparr>) (ik_hooks s)\<rparr>))"

text \<open>\<open>hmac\<close> is the keyed hash of the run-time system.\<close>

definition signPayload :: "(string \<Rightarrow> string \<Rightarrow> string) \<Rightarrow> instant \<Rightarrow> id \<Rightarrow> string \<Rightarrow> links_db \<Rightarrow> app_error + (string \<times> string)" where
  "signPayload hmac now i payload s =
     (case tbl_get i (ik_hooks s) of
        None \<Rightarrow> Inl (NotFoundError ''Webhook not found'')
      | Some h \<Rightarrow> (let timestamp = show_int (now div 1000) in Inr (hmac (wh_signingSecret h) (timestamp @ ''.'' @ payload), timestamp)))"

definition listDeliveries :: "id \<Rightarrow> nat \<Rightarrow> nat \<Rightarrow> links_db \<Rightarrow> (id \<times> delivery_row) list" where
  "listDeliveries i page limit s =
     take limit (drop ((page - 1) * limit) (sort_key (\<lambda>(j, d). - dv_createdAt d) (tbl_all (\<lambda>j d. dv_webhookId d = i) (ik_deliveries s))))"

section \<open>Deliveries\<close>

definition WEBHOOK_EVENT_TYPES :: "string list" where
  "WEBHOOK_EVENT_TYPES = [''employee.created'', ''employee.terminated'', ''payroll.disbursed'', ''leave.approved'', ''review.completed'']"

text \<open>
  A query with an undefined company has no condition on it. \<open>None\<close> stands for undefined, which the database
  client refuses for the identifier of the event; a webhook has one delivery for an event identifier.
\<close>

definition endpoints :: "string \<Rightarrow> id option \<Rightarrow> links_db \<Rightarrow> id list" where
  "endpoints eventType companyId s =
     map fst (tbl_all (\<lambda>i h. (case companyId of None \<Rightarrow> True | Some c \<Rightarrow> wh_companyId h = c) \<and> wh_status h = HookACTIVE
        \<and> eventType \<in> set (wh_events h)) (ik_hooks s))"

fun deliver :: "(nat \<Rightarrow> id) \<Rightarrow> instant \<Rightarrow> string \<Rightarrow> id option \<Rightarrow> json \<Rightarrow> id list \<Rightarrow> links_db \<Rightarrow> (links_db, unit) outcome" where
  "deliver ids now eventType eventId payload [] s = (Inr (), s)"
| "deliver ids now eventType eventId payload (h # hs) s =
     (case eventId of
        None \<Rightarrow> (Inl (DatabaseError ''webhook_deliveries''), s)
      | Some e \<Rightarrow>
          if tbl_find (\<lambda>i d. dv_webhookId d = h \<and> dv_eventId d = e) (ik_deliveries s) \<noteq> None
          then (Inl (DatabaseError ''webhook_deliveries''), s)
          else deliver (\<lambda>k. ids (Suc k)) now eventType eventId payload hs
                 (s\<lparr>ik_deliveries := tbl_insert (ids 0)
                      \<lparr>dv_webhookId = h, dv_eventType = eventType, dv_eventId = e, dv_payload = payload, dv_status = ''PENDING'',
                       dv_attemptCount = 0, dv_createdAt = now\<rparr> (ik_deliveries s)\<rparr>))"

definition fanOut :: "(nat \<Rightarrow> id) \<Rightarrow> instant \<Rightarrow> string \<Rightarrow> id option \<Rightarrow> id option \<Rightarrow> json \<Rightarrow> links_db \<Rightarrow> (links_db, unit) outcome" where
  "fanOut ids now eventType eventId companyId payload s =
     deliver ids now eventType eventId payload (endpoints eventType companyId s) s"

section \<open>Slack\<close>

text \<open>What the state parameter holds; a missing property is undefined, and nothing is later than an undefined time.\<close>

record slack_state =
  st_companyId :: "id option"
  st_userId :: "id option"
  st_exp :: "instant option"

definition getAuthUrl :: "(slack_state \<Rightarrow> string) \<Rightarrow> string option \<Rightarrow> string option \<Rightarrow> instant \<Rightarrow> id \<Rightarrow> id \<Rightarrow> string" where
  "getAuthUrl encode client redirect now companyId userId =
     ''https://slack.com/oauth/v2/authorize?client_id='' @ (case client of None \<Rightarrow> ''slack-client-id-placeholder'' | Some c \<Rightarrow> c)
       @ ''&scope='' @ ''chat:write,channels:read''
       @ ''&redirect_uri='' @ (case redirect of None \<Rightarrow> ''https://example.com/api/v1/integrations/slack/callback'' | Some r \<Rightarrow> r)
       @ ''&state='' @ encode \<lparr>st_companyId = Some companyId, st_userId = Some userId, st_exp = Some (now + 600000)\<rparr>"

definition slack_of :: "id \<Rightarrow> links_db \<Rightarrow> (id \<times> slack_row) option" where
  "slack_of companyId s = tbl_find (\<lambda>i r. sk_companyId r = companyId) (ik_slack s)"

definition handleOAuthCallback :: "(string \<Rightarrow> slack_state option) \<Rightarrow> id \<Rightarrow> instant \<Rightarrow> string \<Rightarrow> links_db \<Rightarrow> (links_db, string) outcome" where
  "handleOAuthCallback decode newId now state s =
     (case decode state of
        None \<Rightarrow> (Inl (BadRequestError ''Invalid state''), s)
      | Some d \<Rightarrow>
          if (case st_exp d of None \<Rightarrow> False | Some x \<Rightarrow> x < now) then (Inl (BadRequestError ''State expired''), s)
          else
            (case (st_companyId d, st_userId d) of
               (Some c, Some u) \<Rightarrow>
                 (case slack_of c s of
                    Some (i, r) \<Rightarrow> (Inr ''Workspace'',
                      link_log c ''SlackIntegration'' i ''SLACK_CONNECTED'' [(''slackTeamName'', JStr ''Workspace'')]
                        (s\<lparr>ik_slack := tbl_update i (\<lambda>r. r\<lparr>sk_slackTeamId := ''T-team-id'', sk_slackTeamName := ''Workspace'',
                             sk_encryptedAccessToken := ''slack-token-placeholder'', sk_connectedByUserId := u, sk_connectedAt := now,
                             sk_status := SlackACTIVE\<rparr>) (ik_slack s)\<rparr>))
                  | None \<Rightarrow> (Inr ''Workspace'',
                      link_log c ''SlackIntegration'' newId ''SLACK_CONNECTED'' [(''slackTeamName'', JStr ''Workspace'')]
                        (s\<lparr>ik_slack := tbl_insert newId \<lparr>sk_companyId = c, sk_slackTeamId = ''T-team-id'', sk_slackTeamName = ''Workspace'',
                             sk_encryptedAccessToken = ''slack-token-placeholder'', sk_channelMappings = [], sk_status = SlackACTIVE,
                             sk_connectedByUserId = u, sk_connectedAt = now, sk_disconnectedAt = None\<rparr> (ik_slack s)\<rparr>)))
             | (Some c, None) \<Rightarrow>
                 (case slack_of c s of
                    None \<Rightarrow> (Inl (DatabaseError ''slack_integrations''), s)
                  | Some (i, r) \<Rightarrow> (Inr ''Workspace'',
                      link_log c ''SlackIntegration'' i ''SLACK_CONNECTED'' [(''slackTeamName'', JStr ''Workspace'')]
                        (s\<lparr>ik_slack := tbl_update i (\<lambda>r. r\<lparr>sk_slackTeamId := ''T-team-id'', sk_slackTeamName := ''Workspace'',
                             sk_encryptedAccessToken := ''slack-token-placeholder'', sk_connectedAt := now,
                             sk_status := SlackACTIVE\<rparr>) (ik_slack s)\<rparr>)))
             | (None, _) \<Rightarrow> (Inl (DatabaseError ''slack_integrations''), s)))"

definition updateChannelMappings :: "id \<Rightarrow> slack_mapping list \<Rightarrow> links_db \<Rightarrow> (links_db, unit) outcome" where
  "updateChannelMappings companyId mappings s =
     (case slack_of companyId s of
        None \<Rightarrow> (Inl (NotFoundError ''Slack integration not found''), s)
      | Some (i, r) \<Rightarrow> (Inr (), s\<lparr>ik_slack := tbl_update i (\<lambda>r. r\<lparr>sk_channelMappings := mappings\<rparr>) (ik_slack s)\<rparr>))"

definition disconnect_slack :: "instant \<Rightarrow> id \<Rightarrow> id \<Rightarrow> links_db \<Rightarrow> (links_db, unit) outcome" where
  "disconnect_slack now companyId actorId s =
     (case slack_of companyId s of
        None \<Rightarrow> (Inl (NotFoundError ''Slack integration not found''), s)
      | Some (i, r) \<Rightarrow> (Inr (),
          link_log companyId ''SlackIntegration'' i ''SLACK_DISCONNECTED'' [(''disconnectedBy'', JStr actorId)]
            (s\<lparr>ik_slack := tbl_update i (\<lambda>r. r\<lparr>sk_status := SlackDISCONNECTED, sk_disconnectedAt := Some now,
                 sk_encryptedAccessToken := ''tombstone''\<rparr>) (ik_slack s)\<rparr>)))"

definition slack_getStatus :: "id \<Rightarrow> links_db \<Rightarrow> bool \<times> (string \<times> slack_mapping list \<times> instant) option" where
  "slack_getStatus companyId s =
     (case slack_of companyId s of
        None \<Rightarrow> (False, None)
      | Some (i, r) \<Rightarrow> (sk_status r = SlackACTIVE, Some (sk_slackTeamName r, sk_channelMappings r, sk_connectedAt r)))"

text \<open>The channel a notification would go to; the message itself is not sent.\<close>

definition sendApprovalNotification :: "id \<Rightarrow> string \<Rightarrow> links_db \<Rightarrow> slack_mapping option" where
  "sendApprovalNotification companyId eventType s =
     (case slack_of companyId s of
        None \<Rightarrow> None
      | Some (i, r) \<Rightarrow> if sk_status r \<noteq> SlackACTIVE then None else List.find (\<lambda>m. sm_eventType m = eventType) (sk_channelMappings r))"

section \<open>Runs\<close>

datatype link_call =
    CreateKey id string instant id key_dto id
  | RevokeKey instant id id id
  | ValidateKey instant string
  | RegisterHook id string instant id string "string list" id
  | UpdateHook id id "string option" "string list option"
  | RotateSecret string id id
  | HookFailed instant id
  | HookSucceeded instant id
  | FanOut "nat \<Rightarrow> id" instant string "id option" "id option" json
  | SlackCallback id instant string
  | SlackMappings id "slack_mapping list"
  | SlackDisconnect instant id id

record link_world =
  lw_sha :: "string \<Rightarrow> string"
  lw_url :: "string \<Rightarrow> (string \<times> string) option"
  lw_decode :: "string \<Rightarrow> slack_state option"

fun link_step :: "link_world \<Rightarrow> link_call \<Rightarrow> links_db \<Rightarrow> links_db" where
  "link_step w (CreateKey i r now c dto a) s = snd (createKey (lw_sha w) i r now c dto a s)"
| "link_step w (RevokeKey now c i a) s = snd (revokeKey now c i a s)"
| "link_step w (ValidateKey now raw) s = snd (validateKey (lw_sha w) now raw s)"
| "link_step w (RegisterHook i sec now c u es a) s = snd (register_hook (lw_url w) i sec now c u es a s)"
| "link_step w (UpdateHook c i u es) s = snd (update_hook (lw_url w) c i u es s)"
| "link_step w (RotateSecret sec c i) s = snd (rotateSecret sec c i s)"
| "link_step w (HookFailed now i) s = deactivateOnFailureThreshold now i s"
| "link_step w (HookSucceeded now i) s = snd (resetFailureCount now i s)"
| "link_step w (FanOut ids now ty e c p) s = snd (fanOut ids now ty e c p s)"
| "link_step w (SlackCallback i now st) s = snd (handleOAuthCallback (lw_decode w) i now st s)"
| "link_step w (SlackMappings c ms) s = snd (updateChannelMappings c ms s)"
| "link_step w (SlackDisconnect now c a) s = snd (disconnect_slack now c a s)"

lemma link_log_simps [simp]:
  "ik_keys (link_log c e i a nv s) = ik_keys s" "ik_hooks (link_log c e i a nv s) = ik_hooks s"
  "ik_deliveries (link_log c e i a nv s) = ik_deliveries s" "ik_slack (link_log c e i a nv s) = ik_slack s"
  "ik_events (link_log c e i a nv s) = ik_events s"
  by (simp_all add: link_log_def)

lemma deliver_keeps [simp]:
  "ik_keys (snd (deliver ids now ty e p hs s)) = ik_keys s" "ik_hooks (snd (deliver ids now ty e p hs s)) = ik_hooks s"
  "ik_slack (snd (deliver ids now ty e p hs s)) = ik_slack s"
  by (induction ids now ty e p hs s rule: deliver.induct) (auto split: option.splits)

lemmas slack_defs = handleOAuthCallback_def updateChannelMappings_def disconnect_slack_def

lemma slack_keeps [simp]:
  "ik_keys (snd (handleOAuthCallback d n now st s)) = ik_keys s" "ik_hooks (snd (handleOAuthCallback d n now st s)) = ik_hooks s"
  "ik_keys (snd (updateChannelMappings c ms s)) = ik_keys s" "ik_hooks (snd (updateChannelMappings c ms s)) = ik_hooks s"
  "ik_keys (snd (disconnect_slack now c a s)) = ik_keys s" "ik_hooks (snd (disconnect_slack now c a s)) = ik_hooks s"
  by (simp_all add: slack_defs split: option.splits prod.splits)

lemmas hook_defs = register_hook_def update_hook_def rotateSecret_def deactivateOnFailureThreshold_def resetFailureCount_def

lemma hook_keeps_keys [simp]:
  "ik_keys (snd (register_hook u n sec now c a es x s)) = ik_keys s" "ik_keys (snd (update_hook u c i ad ev s)) = ik_keys s"
  "ik_keys (snd (rotateSecret sec c i s)) = ik_keys s" "ik_keys (deactivateOnFailureThreshold now i s) = ik_keys s"
  "ik_keys (snd (resetFailureCount now i s)) = ik_keys s" "ik_keys (snd (fanOut ids now ty e co p s)) = ik_keys s"
  by (simp_all add: hook_defs fanOut_def Let_def split: option.splits sum.splits)

section \<open>A revoked key stays dead\<close>

definition key_status_of :: "links_db \<Rightarrow> id \<Rightarrow> (key_status \<times> string) option" where
  "key_status_of s i = map_option (\<lambda>k. (ak_status k, ak_keyHash k)) (tbl_get i (ik_keys s))"

inductive key_edge :: "key_status \<times> string \<Rightarrow> key_status \<times> string \<Rightarrow> bool" where
  revoke: "key_edge (KeyACTIVE, h) (KeyREVOKED, h)"

inductive_simps key_edge_from [simp]: "key_edge (KeyREVOKED, h) b" "key_edge (KeyACTIVE, h) b"

lemma key_status_step:
  "key_status_of s i = Some a \<Longrightarrow> \<exists>b. key_status_of (link_step w call s) i = Some b \<and> (b = a \<or> key_edge a b)"
proof (cases call)
  case (RevokeKey now c j x)
  assume "key_status_of s i = Some a"
  then show ?thesis
    by (auto simp: RevokeKey revokeKey_def key_status_of_def split: option.splits intro: key_edge.intros)
      (metis key_edge.intros key_status.exhaust)+
qed (auto simp: createKey_def validateKey_def key_status_of_def Let_def tbl_get_insert split: option.splits prod.splits)

interpretation key_life: status_machine key_status_of "link_step w" key_edge for w
  by unfold_locales (rule key_status_step)

lemma key_hashes_distinct:
  assumes "distinct (map (ak_keyHash \<circ> snd) (ik_keys s))" and "distinct (tbl_ids (ik_keys s))"
  shows "distinct (map (ak_keyHash \<circ> snd) (ik_keys (link_step w call s))) \<and> distinct (tbl_ids (ik_keys (link_step w call s)))"
proof -
  have up: "map (ak_keyHash \<circ> snd) (tbl_update i f t) = map (ak_keyHash \<circ> snd) t" if "\<And>k. ak_keyHash (f k) = ak_keyHash k" for i f t
    using that by (induction t) (auto simp: tbl_update_def)
  show ?thesis
  proof (cases call)
    case (CreateKey n r now c dto a)
    then show ?thesis using assms
      by (auto simp: createKey_def Let_def tbl_insert_def tbl_find_None fresh_def tbl_ids_def)
  next
    case (RevokeKey now c j x)
    then show ?thesis using assms by (simp add: revokeKey_def up split: option.splits)
  next
    case (ValidateKey now raw)
    then show ?thesis using assms by (simp add: validateKey_def up split: option.splits prod.splits)
  qed (use assms in simp_all)
qed

lemma hashes_distinct_run:
  assumes "distinct (map (ak_keyHash \<circ> snd) (ik_keys s)) \<and> distinct (tbl_ids (ik_keys s))"
  shows "distinct (map (ak_keyHash \<circ> snd) (ik_keys (fold (link_step w) calls s))) \<and> distinct (tbl_ids (ik_keys (fold (link_step w) calls s)))"
  using assms by (rule fold_keeps) (elim conjE, rule key_hashes_distinct)

lemma distinct_map_same: "distinct (map f xs) \<Longrightarrow> x \<in> set xs \<Longrightarrow> y \<in> set xs \<Longrightarrow> f x = f y \<Longrightarrow> x = y"
  by (simp add: distinct_map inj_on_def)

lemma revoked_not_valid:
  assumes "distinct (map (ak_keyHash \<circ> snd) (ik_keys s))" and "key_status_of s i = Some (KeyREVOKED, sha raw)"
  shows "fst (validateKey sha now raw s) = None"
proof -
  obtain k where k: "(i, k) \<in> set (ik_keys s)" "ak_status k = KeyREVOKED" "ak_keyHash k = sha raw"
    using assms(2) by (auto simp: key_status_of_def dest: tbl_get_mem)
  have "ak_keyHash l \<noteq> sha raw" if "(j, l) \<in> set (ik_keys s)" "ak_status l = KeyACTIVE" for j l
    using distinct_map_same[OF assms(1) k(1) that(1)] that(2) k(2,3) by auto
  then have "tbl_find (\<lambda>i k. ak_keyPrefix k = take 12 raw \<and> ak_status k = KeyACTIVE \<and> ak_keyHash k = sha raw) (ik_keys s) = None"
    by (auto simp: tbl_find_None)
  then show ?thesis by (simp add: validateKey_def)
qed

text \<open>
  C17: A revoked key stays dead: after it was revoked, whatever requests, events and answers of webhooks follow,
  the text of the key is never accepted again, also when other keys are created.
\<close>

theorem revoked_key_stays_dead:
  assumes "distinct (map (ak_keyHash \<circ> snd) (ik_keys s))" and "distinct (tbl_ids (ik_keys s))"
    and "fst (revokeKey t company i actor s) = Inr ()" and "map_option ak_keyHash (tbl_get i (ik_keys s)) = Some (lw_sha w raw)"
  shows "fst (validateKey (lw_sha w) now raw (fold (link_step w) calls (snd (revokeKey t company i actor s)))) = None"
proof -
  let ?r = "snd (revokeKey t company i actor s)"
  have "key_status_of ?r i = Some (KeyREVOKED, lw_sha w raw)"
    using assms(3,4) by (auto simp: revokeKey_def key_status_of_def split: option.splits if_splits)
  then have "key_status_of (fold (link_step w) calls ?r) i = Some (KeyREVOKED, lw_sha w raw)"
    by (rule key_life.terminal_stays[rotated]) simp
  moreover have "distinct (map (ak_keyHash \<circ> snd) (ik_keys ?r)) \<and> distinct (tbl_ids (ik_keys ?r))"
    using key_hashes_distinct[OF assms(1,2), of w "RevokeKey t company i actor"] by simp
  ultimately show ?thesis using revoked_not_valid hashes_distinct_run by blast
qed

text \<open>A new key is accepted with the company and the scopes it was made for, until it expires.\<close>

lemma created_key_valid:
  assumes "createKey sha newId random t company dto actor s = (Inr r, u)" and "case kd_expiresAt dto of None \<Rightarrow> True | Some x \<Rightarrow> now \<le> x"
  shows "fst (validateKey sha now (snd r) u) = Some (company, kd_scopes dto)"
proof -
  have "tbl_find (\<lambda>i k. ak_keyHash k = sha (raw_key random)) (ik_keys s) = None"
    using assms(1) by (cases "tbl_find (\<lambda>i k. ak_keyHash k = sha (raw_key random)) (ik_keys s)") (auto simp: createKey_def Let_def)
  then have "tbl_find (\<lambda>i k. P i k \<and> ak_keyHash k = sha (raw_key random)) (ik_keys s) = None" for P
    by (auto simp: tbl_find_None)
  then have "tbl_find (\<lambda>i k. ak_keyPrefix k = take 12 (raw_key random) \<and> ak_status k = KeyACTIVE \<and> ak_keyHash k = sha (raw_key random))
      (ik_keys s) = None" by (simp only: conj_assoc[symmetric])
  then show ?thesis using assms
    by (auto simp: createKey_def validateKey_def Let_def tbl_insert_def tbl_find_append tbl_find_single split: if_splits option.splits)
qed

section \<open>Failing webhooks\<close>

text \<open>The failures since the last success.\<close>

definition streak :: "bool list \<Rightarrow> nat" where
  "streak failures = length (takeWhile id (rev failures))"

definition hook_outcomes :: "id \<Rightarrow> bool list \<Rightarrow> links_db \<Rightarrow> links_db" where
  "hook_outcomes i failures s =
     fold (\<lambda>failed s. if failed then deactivateOnFailureThreshold 0 i s else snd (resetFailureCount 0 i s)) failures s"

text \<open>Ten failures in a row have happened.\<close>

definition ten_in_a_row :: "bool list \<Rightarrow> bool" where
  "ten_in_a_row os \<longleftrightarrow> (\<exists>ys zs. os = ys @ zs \<and> 10 \<le> streak ys)"

lemma streak_snoc [simp]: "streak (xs @ [x]) = (if x then Suc (streak xs) else 0)" "streak [] = 0"
  by (simp_all add: streak_def)

lemma ten_in_a_row_Nil [simp]: "\<not> ten_in_a_row []"
  by (simp add: ten_in_a_row_def)

lemma ten_in_a_row_snoc: "ten_in_a_row (xs @ [x]) \<longleftrightarrow> ten_in_a_row xs \<or> 10 \<le> streak (xs @ [x])"
proof
  assume "ten_in_a_row (xs @ [x])"
  then obtain ys zs where y: "xs @ [x] = ys @ zs" "10 \<le> streak ys" unfolding ten_in_a_row_def by blast
  show "ten_in_a_row xs \<or> 10 \<le> streak (xs @ [x])"
  proof (cases zs rule: rev_cases)
    case Nil
    then show ?thesis using y by simp
  next
    case (snoc us u)
    then have "xs = ys @ us" using y(1) by simp
    then show ?thesis using y(2) unfolding ten_in_a_row_def by blast
  qed
next
  assume "ten_in_a_row xs \<or> 10 \<le> streak (xs @ [x])"
  then show "ten_in_a_row (xs @ [x])"
  proof
    assume "ten_in_a_row xs"
    then obtain ys zs where "xs @ [x] = ys @ (zs @ [x])" "10 \<le> streak ys" unfolding ten_in_a_row_def by auto
    then show ?thesis unfolding ten_in_a_row_def by blast
  next
    assume "10 \<le> streak (xs @ [x])"
    then show ?thesis unfolding ten_in_a_row_def by (metis append_Nil2)
  qed
qed

lemma hook_failures:
  assumes "tbl_get i (ik_hooks s) = Some h" and "wh_status h = HookACTIVE" and "wh_consecutiveFailures h = 0"
  shows "\<exists>g. tbl_get i (ik_hooks (hook_outcomes i os s)) = Some g \<and> wh_consecutiveFailures g = streak os
    \<and> (wh_status g = HookINACTIVE \<longleftrightarrow> ten_in_a_row os)"
proof (induction os rule: rev_induct)
  case Nil
  then show ?case using assms by (simp add: hook_outcomes_def)
next
  case (snoc x xs)
  then obtain g where g: "tbl_get i (ik_hooks (hook_outcomes i xs s)) = Some g" "wh_consecutiveFailures g = streak xs"
      "wh_status g = HookINACTIVE \<longleftrightarrow> ten_in_a_row xs" by blast
  have "hook_outcomes i (xs @ [x]) s = (if x then deactivateOnFailureThreshold 0 i (hook_outcomes i xs s)
      else snd (resetFailureCount 0 i (hook_outcomes i xs s)))" by (simp add: hook_outcomes_def)
  then show ?case using g
    by (auto simp: deactivateOnFailureThreshold_def resetFailureCount_def Let_def ten_in_a_row_snoc)
qed

text \<open>
  A webhook is given up exactly when ten deliveries in a row have failed; nothing brings it back.
\<close>

lemma webhook_given_up:
  assumes "tbl_get i (ik_hooks s) = Some h" and "wh_status h = HookACTIVE" and "wh_consecutiveFailures h = 0"
  shows "map_option wh_status (tbl_get i (ik_hooks (hook_outcomes i os s))) = Some HookINACTIVE \<longleftrightarrow> ten_in_a_row os"
  using hook_failures[OF assms, of os] by auto

section \<open>Deliveries of an event\<close>

text \<open>Without an identifier of the event nothing is delivered and the listener fails, if anybody subscribes.\<close>

lemma no_identifier_no_delivery:
  "fanOut ids now ty None co p s = (if endpoints ty co s = [] then Inr () else Inl (DatabaseError ''webhook_deliveries''), s)"
  by (cases "endpoints ty co s") (simp_all add: fanOut_def)

text \<open>Without a company the event goes to the subscribers of all of them.\<close>

lemma unnamed_company_reaches_all:
  "(i, h) \<in> set (ik_hooks s) \<Longrightarrow> wh_status h = HookACTIVE \<Longrightarrow> ty \<in> set (wh_events h) \<Longrightarrow> i \<in> set (endpoints ty None s)"
  by (force simp: endpoints_def tbl_all_def image_iff)

text \<open>A second event about the same thing is not delivered to a webhook that got the first one, nor to those after it.\<close>

lemma second_event_lost:
  assumes "endpoints ty co s = h # hs" and "\<exists>d \<in> snd ` set (ik_deliveries s). dv_webhookId d = h \<and> dv_eventId d = e"
  shows "fanOut ids now ty (Some e) co p s = (Inl (DatabaseError ''webhook_deliveries''), s)"
proof -
  obtain j d where "(j, d) \<in> set (ik_deliveries s)" "dv_webhookId d = h" "dv_eventId d = e" using assms(2) by auto
  then have "tbl_find (\<lambda>i d. dv_webhookId d = h \<and> dv_eventId d = e) (ik_deliveries s) \<noteq> None"
    unfolding tbl_find_None by blast
  then show ?thesis using assms(1) by (simp add: fanOut_def)
qed

section \<open>The blocklist on addresses\<close>

definition quad :: "nat \<Rightarrow> nat \<Rightarrow> nat \<Rightarrow> nat \<Rightarrow> string" where
  "quad a b c d = show_nat a @ ''.'' @ show_nat b @ ''.'' @ show_nat c @ ''.'' @ show_nat d"

lemma show_nat_inject [simp]: "show_nat m = show_nat n \<longleftrightarrow> m = n"
  using digits_value_show_nat by metis

lemma no_dot: "CHR ''.'' \<notin> set (show_nat n)"
  using show_nat_digits[of n] by (auto simp: is_digit_def)

lemma starts_with_dot:
  "CHR ''.'' \<notin> set p \<Longrightarrow> CHR ''.'' \<notin> set q \<Longrightarrow> starts_with (p @ CHR ''.'' # r) (q @ CHR ''.'' # t) \<longleftrightarrow> p = q \<and> starts_with r t"
proof (induction p arbitrary: q)
  case Nil
  then show ?case by (cases q) auto
next
  case (Cons x p)
  then show ?case by (cases q) auto
qed

lemma starts_with_number [simp]:
  "starts_with (show_nat m @ CHR ''.'' # r) (show_nat n @ CHR ''.'' # t) \<longleftrightarrow> m = n \<and> starts_with r t"
  by (simp add: starts_with_dot no_dot)

text \<open>The numbers of the list are written out by \<open>show_nat\<close>.\<close>

lemma blocklist_numbers:
  "SSRF_BLOCKLIST =
     [''localhost'', show_nat 127 @ CHR ''.'' # show_nat 0 @ CHR ''.'' # show_nat 0 @ CHR ''.'' # ''1'',
      show_nat 0 @ CHR ''.'' # show_nat 0 @ CHR ''.'' # show_nat 0 @ CHR ''.'' # ''0'',
      show_nat 169 @ CHR ''.'' # show_nat 254 @ CHR ''.'' # show_nat 169 @ CHR ''.'' # ''254'', show_nat 10 @ ''.'']
     @ map (\<lambda>b. show_nat 172 @ CHR ''.'' # show_nat b @ ''.'') [16..<32] @ [show_nat 192 @ CHR ''.'' # show_nat 168 @ ''.'']"
  by code_simp

lemma digit_char_inject [simp]: "x < 10 \<Longrightarrow> y < 10 \<Longrightarrow> digit_char x = digit_char y \<longleftrightarrow> x = y"
  by (metis add_left_cancel of_char_digit)

lemma digit_literals: "CHR ''0'' = digit_char 0" "CHR ''2'' = digit_char 2" "CHR ''5'' = digit_char 5" "CHR ''4'' = digit_char 4"
  by code_simp+

lemma show_nat_small: "n < 10 \<Longrightarrow> show_nat n = [digit_char n]"
  by (subst show_nat.simps) simp

lemma show_nat_large: "\<not> n < 10 \<Longrightarrow> show_nat n = show_nat (n div 10) @ [digit_char (n mod 10)]"
  by (subst show_nat.simps) simp

lemma last_number: "d \<le> 255 \<Longrightarrow> (starts_with ''0'' (show_nat d) \<longleftrightarrow> d = 0) \<and> (starts_with ''254'' (show_nat d) \<longleftrightarrow> d = 254)"
proof -
  assume d: "d \<le> 255"
  consider "d < 10" | "\<not> d < 10" "d < 100" | "\<not> d < 10" "\<not> d < 100" by linarith
  then show ?thesis
  proof cases
    case 1
    then show ?thesis by (auto simp: show_nat_small digit_literals)
  next
    case 2
    then have "show_nat d = [digit_char (d div 10), digit_char (d mod 10)]" "d div 10 < 10" "d div 10 \<noteq> 0"
      by (simp_all add: show_nat_large show_nat_small)
    then show ?thesis using 2 by (simp add: digit_literals)
  next
    case 3
    have e: "d div 10 div 10 = d div 100" by (simp add: div_mult2_eq[symmetric])
    have small: "d div 10 div 10 < 10" "\<not> d div 10 < 10" using d 3 by linarith+
    have "show_nat d = [digit_char (d div 100), digit_char (d div 10 mod 10), digit_char (d mod 10)]"
      unfolding show_nat_large[OF 3(1)] show_nat_large[OF small(2)] by (simp add: show_nat_small[OF small(1)[unfolded e]] e)
    moreover have "d div 100 < 10" "d div 100 \<noteq> 0" using d 3 by linarith+
    moreover have "d = 254 \<longleftrightarrow> d div 100 = 2 \<and> d div 10 mod 10 = 5 \<and> d mod 10 = 4"
    proof -
      have "d = d div 10 * 10 + d mod 10" "d div 10 = d div 10 div 10 * 10 + d div 10 mod 10" by simp_all
      then show ?thesis unfolding e by (auto; linarith)
    qed
    moreover have "d \<noteq> 0" using 3 by linarith
    ultimately show ?thesis by (simp add: digit_literals)
  qed
qed

lemma quad_is_no_name: "\<not> starts_with ''localhost'' (quad a b c d)" "quad a b c d \<noteq> ''::1''" "quad a b c d \<noteq> ''[::1]''"
proof -
  obtain x xs where "show_nat a = x # xs" "is_digit x" using show_nat_digits[of a] show_nat_not_Nil[of a] by (cases "show_nat a") auto
  then show "\<not> starts_with ''localhost'' (quad a b c d)" "quad a b c d \<noteq> ''::1''" "quad a b c d \<noteq> ''[::1]''"
    by (auto simp: quad_def is_digit_def)
qed

lemma quad_lower [simp]: "toLowerCase (quad a b c d) = quad a b c d"
proof -
  have l: "lower_char x = x" if "is_digit x \<or> x = CHR ''.''" for x
    using that by (auto simp: lower_char_def is_digit_def Let_def)
  have "\<forall>x \<in> set (quad a b c d). is_digit x \<or> x = CHR ''.''" using show_nat_digits by (auto simp: quad_def)
  then show ?thesis unfolding toLowerCase_def using l by (intro map_idI) blast
qed

text \<open>The addresses of four numbers that the list refuses.\<close>

definition refused_quad :: "nat \<Rightarrow> nat \<Rightarrow> nat \<Rightarrow> nat \<Rightarrow> bool" where
  "refused_quad a b c d \<longleftrightarrow> a = 10 \<or> (a = 172 \<and> 16 \<le> b \<and> b \<le> 31) \<or> (a = 192 \<and> b = 168)
     \<or> (a, b, c, d) = (0, 0, 0, 0) \<or> (a, b, c, d) = (169, 254, 169, 254) \<or> (a, b, c) = (127, 0, 0) \<and> starts_with ''1'' (show_nat d)"

lemma host_allowed_quad: "d \<le> 255 \<Longrightarrow> host_allowed (quad a b c d) \<longleftrightarrow> \<not> refused_quad a b c d"
proof -
  assume d: "d \<le> 255"
  have eq: "hostname = blocked \<or> starts_with blocked hostname \<longleftrightarrow> starts_with blocked hostname" for hostname blocked
    by (auto simp: starts_with_iff)
  have q: "quad a b c d = show_nat a @ CHR ''.'' # show_nat b @ CHR ''.'' # show_nat c @ CHR ''.'' # show_nat d"
    by (simp add: quad_def)
  have "starts_with (show_nat 172 @ CHR ''.'' # show_nat n @ ''.'') (quad a b c d) \<longleftrightarrow> 172 = a \<and> n = b" for n
    by (simp add: q)
  then have "list_ex (\<lambda>p. starts_with p (quad a b c d)) (map (\<lambda>b. show_nat 172 @ CHR ''.'' # show_nat b @ ''.'') [16..<32])
      \<longleftrightarrow> (\<exists>n. n \<in> {16..<32} \<and> 172 = a \<and> n = b)"
    by (auto simp only: list_ex_iff set_map set_upt)
  then have block: "list_ex (\<lambda>p. starts_with p (quad a b c d)) (map (\<lambda>b. show_nat 172 @ CHR ''.'' # show_nat b @ ''.'') [16..<32])
      \<longleftrightarrow> a = 172 \<and> 16 \<le> b \<and> b \<le> 31"
    by (simp only: atLeastLessThan_iff) (rule iffI; clarsimp)
  have "list_ex (\<lambda>p. starts_with p (quad a b c d)) SSRF_BLOCKLIST \<longleftrightarrow> refused_quad a b c d"
    unfolding blocklist_numbers list_ex_append block using quad_is_no_name(1)[of a b c d] last_number[OF d]
    by (auto simp: refused_quad_def q)
  then show ?thesis unfolding host_allowed_def eq using quad_is_no_name by simp
qed

text \<open>
  C39: The blocklist of webhook addresses, which compares prefixes of texts, on numeric addresses: an address
  over the secure protocol is refused exactly if it lies in one of the three private ranges, is the unspecified
  or the metadata address, or is a loopback address 127.0.0.x whose last number starts with 1.
\<close>

theorem blocklist_on_addresses:
  assumes "url s = Some (''https:'', quad a b c d)" and "d \<le> 255"
  shows "isSsrfSafe url s \<longleftrightarrow> \<not> refused_quad a b c d"
  using host_allowed_quad[OF assms(2)] by (simp add: isSsrfSafe_def assms(1))

text \<open>
  Addresses that lead inside and pass: other loopback addresses, other addresses of the link, and addresses of
  version 6; and a public name that is refused.
\<close>

lemma blocklist_gaps:
  "host_allowed (quad 127 0 0 2) \<and> host_allowed (quad 169 254 1 1) \<and> host_allowed ''[fd00::1]'' \<and> host_allowed ''[::ffff:a00:1]''
    \<and> \<not> host_allowed ''10.example.com''"
  by code_simp

section \<open>Concrete runs\<close>

definition link_office :: links_db where
  "link_office = \<lparr>ik_keys = [(''k'', \<lparr>ak_companyId = ''co'', ak_name = ''n'', ak_keyPrefix = ''hrp_live_abc'', ak_keyHash = ''hrp_live_abcd'',
     ak_scopes = [''read''], ak_status = KeyACTIVE, ak_createdByUserId = ''u'', ak_lastUsedAt = None, ak_expiresAt = None,
     ak_revokedAt = None, ak_revokedByUserId = None, ak_createdAt = 0\<rparr>)], ik_hooks = [], ik_deliveries = [], ik_slack = [],
     ik_events = [], ik_audit = []\<rparr>"

definition plain_world :: link_world where
  "plain_world = \<lparr>lw_sha = id, lw_url = (\<lambda>s. Some (''https:'', s)), lw_decode = (\<lambda>s. None)\<rparr>"

theorem revoked_key_stays_dead_witness:
  "fst (validateKey id 0 ''hrp_live_abcd'' link_office) = Some (''co'', [''read''])
    \<and> fst (validateKey id 9 ''hrp_live_abcd'' (fold (link_step plain_world)
        [CreateKey ''m'' ''xyz'' 2 ''co'' \<lparr>kd_name = ''n'', kd_scopes = [], kd_expiresAt = None\<rparr> ''u'']
        (snd (revokeKey 1 ''co'' ''k'' ''u'' link_office)))) = None"
proof
  show "fst (validateKey id 0 ''hrp_live_abcd'' link_office) = Some (''co'', [''read''])" by code_simp
  have "distinct (map (ak_keyHash \<circ> snd) (ik_keys link_office))" "distinct (tbl_ids (ik_keys link_office))"
    "fst (revokeKey 1 ''co'' ''k'' ''u'' link_office) = Inr ()"
    "map_option ak_keyHash (tbl_get ''k'' (ik_keys link_office)) = Some (lw_sha plain_world ''hrp_live_abcd'')"
    by code_simp+
  from revoked_key_stays_dead[OF this, where now = 9 and calls = "[CreateKey ''m'' ''xyz'' 2 ''co'' \<lparr>kd_name = ''n'', kd_scopes = [], kd_expiresAt = None\<rparr> ''u'']"] show "fst (validateKey id 9 ''hrp_live_abcd'' (fold (link_step plain_world)
        [CreateKey ''m'' ''xyz'' 2 ''co'' \<lparr>kd_name = ''n'', kd_scopes = [], kd_expiresAt = None\<rparr> ''u'']
        (snd (revokeKey 1 ''co'' ''k'' ''u'' link_office)))) = None"
    by (simp add: plain_world_def)
qed

theorem blocklist_on_addresses_witness: "\<not> isSsrfSafe (lw_url plain_world) (quad 172 20 0 9) \<and> isSsrfSafe (lw_url plain_world) (quad 172 32 0 9)"
proof -
  have "lw_url plain_world (quad a b c d) = Some (''https:'', quad a b c d)" for a b c d by (simp add: plain_world_def)
  then show ?thesis by (subst (1 2) blocklist_on_addresses) (auto simp: refused_quad_def)
qed

end
