(* ===== verification/Benefits.thy ===== *)
theory Benefits
  imports Payslip_Document
begin

text \<open>
  Benefit plans, \<^verbatim>\<open>benefits/services/benefit-plan.service.ts\<close>, and the amounts as texts of
  \<^verbatim>\<open>compensation/domain/compensation-math.ts\<close> with the instalment that recovers an advance. Reading a
  decimal text is written out, so that the lemmas can follow a text of cents through a computation with
  doubles and back.
\<close>

section \<open>Reading a number\<close>

text \<open>The exponent after the digits, zero when it is malformed.\<close>

definition exponent_of :: "string \<Rightarrow> int" where
  "exponent_of s =
     (case s of
        [] \<Rightarrow> 0
      | c # r \<Rightarrow>
          if c = CHR ''e'' \<or> c = CHR ''E''
          then (let t = (if r \<noteq> [] \<and> hd r \<in> {CHR ''+'', CHR ''-''} then tl r else r); ds = takeWhile is_digit t
                in if ds = [] then 0 else (if hd r = CHR ''-'' then - int (digits_value ds) else int (digits_value ds)))
          else 0)"

definition unsigned_number :: "string \<Rightarrow> jsnum" where
  "unsigned_number s =
     (if starts_with ''Infinity'' s then PInf
      else
        (let whole = takeWhile is_digit s; r = dropWhile is_digit s;
             point = (r \<noteq> [] \<and> hd r = CHR ''.'');
             fraction = (if point then takeWhile is_digit (tl r) else []);
             rest = (if point then dropWhile is_digit (tl r) else r)
         in if whole = [] \<and> fraction = [] then NaN
            else to_num (of_nat (digits_value (whole @ fraction)) * 10 powi (exponent_of rest - int (length fraction)))))"

text \<open>\<^verbatim>\<open>parseFloat(s)\<close>.\<close>

definition parseFloat :: "string \<Rightarrow> jsnum" where
  "parseFloat s =
     (let t = dropWhile is_space s
      in if t \<noteq> [] \<and> hd t = CHR ''-'' then js_neg (unsigned_number (tl t))
         else if t \<noteq> [] \<and> hd t = CHR ''+'' then unsigned_number (tl t)
         else unsigned_number t)"

section \<open>Amounts as texts\<close>

definition money_text :: "jsnum \<Rightarrow> string" where
  "money_text num = toFixed2 (js_div (js_round (js_mul num (Fin 100))) (Fin 100))"

record advance_amounts =
  aa_outstandingBalance :: string
  aa_installmentAmount :: string

record recovery =
  rv_amountToRecover :: string
  rv_remainingAfter :: string

definition computeRecoveryInstallment :: "advance_amounts \<Rightarrow> recovery" where
  "computeRecoveryInstallment a =
     (let balance = parseFloat (aa_outstandingBalance a); installment = parseFloat (aa_installmentAmount a);
          toRecover = js_min installment balance
      in \<lparr>rv_amountToRecover = money_text toRecover, rv_remainingAfter = money_text (js_sub balance toRecover)\<rparr>)"

section \<open>Plans\<close>

datatype plan_status = PlanDRAFT | PlanACTIVE | PlanARCHIVED

text \<open>A contribution as it is handed to its decimal column.\<close>

datatype contribution = AsText string | AsNumber jsnum

record benefit_plan =
  bp_companyId :: id
  bp_name :: string
  bp_type :: string
  bp_status :: plan_status
  bp_employerContribution :: contribution
  bp_employeeContribution :: contribution
  bp_providerName :: string
  bp_eligibilityRules :: "json option"
  bp_coverageTiers :: "json option"
  bp_providerDocumentS3Key :: "string option"

record plan_dto =
  pn_companyId :: id
  pn_name :: string
  pn_type :: string
  pn_employerContribution :: jsnum
  pn_employeeContribution :: jsnum
  pn_providerName :: string
  pn_eligibilityRules :: "json option"
  pn_coverageTiers :: "json option"
  pn_providerDocumentS3Key :: "string option"

definition PLAN_TYPES :: "string list" where
  "PLAN_TYPES = [''HEALTH'', ''DENTAL'', ''VISION'', ''LIFE'', ''RETIREMENT'', ''WELLNESS'', ''OTHER'']"

definition create_plan :: "id \<Rightarrow> plan_dto \<Rightarrow> benefit_plan table \<Rightarrow> (benefit_plan table, id) outcome" where
  "create_plan newId dto t =
     (if pn_type dto \<notin> set PLAN_TYPES \<or> \<not> fresh newId t then (Inl (DatabaseError ''benefit_plans''), t)
      else (Inr newId, tbl_insert newId
        \<lparr>bp_companyId = pn_companyId dto, bp_name = pn_name dto, bp_type = pn_type dto, bp_status = PlanDRAFT,
         bp_employerContribution = AsText (money_text (pn_employerContribution dto)),
         bp_employeeContribution = AsText (money_text (pn_employeeContribution dto)),
         bp_providerName = pn_providerName dto, bp_eligibilityRules = pn_eligibilityRules dto,
         bp_coverageTiers = pn_coverageTiers dto, bp_providerDocumentS3Key = pn_providerDocumentS3Key dto\<rparr> t))"

text \<open>The body of an update is written as it comes: any columns, as a function on the row.\<close>

definition update_plan :: "id \<Rightarrow> (benefit_plan \<Rightarrow> benefit_plan) \<Rightarrow> benefit_plan table \<Rightarrow> (benefit_plan table, unit) outcome" where
  "update_plan i body t =
     (if tbl_get i t = None then (Inl (NotFoundError ''Benefit plan not found''), t) else (Inr (), tbl_update i body t))"

definition archive_plan :: "id \<Rightarrow> benefit_plan table \<Rightarrow> (benefit_plan table, unit) outcome" where
  "archive_plan i t =
     (if tbl_get i t = None then (Inl (NotFoundError ''Benefit plan not found''), t)
      else (Inr (), tbl_update i (\<lambda>p. p\<lparr>bp_status := PlanARCHIVED\<rparr>) t))"

definition listActive_plans :: "id \<Rightarrow> benefit_plan table \<Rightarrow> (id \<times> benefit_plan) list" where
  "listActive_plans companyId t = tbl_all (\<lambda>i p. bp_companyId p = companyId \<and> bp_status p = PlanACTIVE) t"

definition getById_plan :: "id \<Rightarrow> benefit_plan table \<Rightarrow> app_error + benefit_plan" where
  "getById_plan i t = (case tbl_get i t of None \<Rightarrow> Inl (NotFoundError ''Benefit plan not found'') | Some p \<Rightarrow> Inr p)"

section \<open>Texts of cents\<close>

lemma money_text_round: "money_text x = toFixed2 (round2dp x)"
  by (simp add: money_text_def round2dp_def)

lemma digits_value_append: "digits_value (s @ [c]) = 10 * digits_value s + (of_char c - 48)"
  by (simp add: digits_value_def)

lemma digit_parts: "n div 100 * 100 + n mod 100 div 10 * 10 + n mod 10 = (n :: nat)"
proof -
  have "n mod 100 mod 10 = n mod 10" by (simp add: mod_mod_cancel)
  moreover have "n = n div 100 * 100 + n mod 100" "n mod 100 = n mod 100 div 10 * 10 + n mod 100 mod 10" by simp_all
  ultimately show ?thesis by linarith
qed

lemma parse_cents:
  assumes "0 \<le> k" and "k \<le> 2 ^ 46"
  shows "parseFloat (cents_text k) = cents k"
proof -
  let ?n = "nat k"
  let ?w = "show_nat (?n div 100)" and ?f = "[digit_char (?n mod 100 div 10), digit_char (?n mod 10)]"
  have f: "is_digit (digit_char (?n mod 100 div 10))" "is_digit (digit_char (?n mod 10))"
    by (rule is_digit_digit_char, linarith, rule is_digit_digit_char, simp)
  have dot: "\<not> is_digit CHR ''.''" by (simp add: is_digit_def)
  have tw: "takeWhile is_digit (?w @ CHR ''.'' # r) = ?w" "dropWhile is_digit (?w @ CHR ''.'' # r) = CHR ''.'' # r" for r
    using show_nat_digits dot by (simp_all add: takeWhile_append dropWhile_append)
  obtain x xs where w: "?w = x # xs" by (cases ?w) auto
  then have x: "is_digit x" using show_nat_digits[of "?n div 100"] by simp
  then have "\<not> is_space x" "x \<noteq> CHR ''-''" "x \<noteq> CHR ''+''" "x \<noteq> CHR ''I''" by (auto simp: is_digit_def is_space_def Let_def)
  then have p: "parseFloat (cents_text k) = unsigned_number (cents_text k)" "\<not> starts_with ''Infinity'' (cents_text k)"
    by (simp_all add: parseFloat_def cents_text_def w)
  have "digits_value (?w @ ?f) = ?n div 100 * 100 + ?n mod 100 div 10 * 10 + ?n mod 10"
  proof -
    have d: "?n mod 100 div 10 < 10" "?n mod 10 < 10" by linarith+
    have "digits_value ((?w @ [digit_char (?n mod 100 div 10)]) @ [digit_char (?n mod 10)])
        = 10 * (10 * (?n div 100) + ?n mod 100 div 10) + ?n mod 10"
      unfolding digits_value_append digits_value_show_nat of_char_digit[OF d(1)] of_char_digit[OF d(2)] by (simp only: add_diff_cancel_left')
    then show ?thesis by (simp only: append_assoc append_Cons append_Nil) (simp add: algebra_simps)
  qed
  then have v: "digits_value (?w @ ?f) = ?n" by (simp only: digit_parts)
  have "unsigned_number (cents_text k) = to_num (of_nat (digits_value (?w @ ?f)) * 10 powi (- 2))"
    using p(2) f by (simp add: unsigned_number_def cents_text_def tw exponent_of_def)
  also have "\<dots> = to_num (of_int k / 100)" unfolding v using assms(1) by (simp add: power_int_def of_nat_nat power2_eq_square)
  also have "\<dots> = cents k"
  proof -
    have "of_int k \<le> (of_int (2 ^ 46) :: rat)" using assms(2) by (simp only: of_int_le_iff)
    then show ?thesis using assms(1) by (simp add: cents_def to_num_small)
  qed
  finally show ?thesis by (simp add: p(1))
qed

lemma cents_min: "js_min (cents i) (cents j) = cents (min i j)"
proof (cases "i \<le> j")
  case True
  then show ?thesis using cents_mono[OF True] by (auto simp: js_min_def cents_def js_le_def min_def)
next
  case False
  then show ?thesis using cents_mono[of j i] by (auto simp: js_min_def cents_def js_le_def min_def)
qed

lemma abs_close: "\<bar>p - d\<bar> \<le> e \<Longrightarrow> \<bar>d\<bar> \<le> f \<Longrightarrow> \<bar>p\<bar> \<le> e + f" for p :: rat
  by linarith

lemma abs_triangle: "\<bar>p - q\<bar> \<le> e \<Longrightarrow> \<bar>q - r\<bar> \<le> f \<Longrightarrow> \<bar>p - r\<bar> \<le> e + f" for p :: rat
  by linarith

lemma round2dp_difference:
  assumes "0 \<le> m" and "m \<le> b" and "b \<le> 2 ^ 46"
  shows "round2dp (js_sub (cents b) (cents m)) = cents (b - m)"
proof -
  let ?x = "fl (of_int b / 100)" and ?y = "fl (of_int m / 100)"
  have near: "\<bar>?x - of_int b / 100\<bar> \<le> 1 / 2 ^ 14" "\<bar>?y - of_int m / 100\<bar> \<le> 1 / 2 ^ 14"
    by (rule cents_near, use assms in simp)+
  have "(of_int (b - m) :: rat) \<le> of_int (2 ^ 46)" "(0 :: rat) \<le> of_int (b - m)" using assms by (simp_all only: of_int_le_iff of_int_0_le_iff)
  then have d: "\<bar>of_int (b - m) / 100 :: rat\<bar> \<le> 2 ^ 46 / 100" by simp
  have diff: "\<bar>?x - ?y - of_int (b - m) / 100\<bar> \<le> 1 / 2 ^ 13"
  proof -
    have "?x - ?y - of_int (b - m) / 100 = (?x - of_int b / 100) - (?y - of_int m / 100)" by (simp add: diff_divide_distrib)
    then have "\<bar>?x - ?y - of_int (b - m) / 100\<bar> \<le> \<bar>?x - of_int b / 100\<bar> + \<bar>?y - of_int m / 100\<bar>"
      by (simp only: abs_triangle_ineq4)
    also have "\<dots> \<le> 1 / 2 ^ 14 + 1 / 2 ^ 14" by (rule add_mono[OF near])
    finally show ?thesis by simp
  qed
  have "\<bar>?x - ?y\<bar> \<le> 1 / 2 ^ 13 + 2 ^ 46 / 100" by (rule abs_close[OF diff d])
  then have small: "\<bar>?x - ?y\<bar> < 2 ^ 40" by (rule order.strict_trans1) simp
  have "\<bar>fl (?x - ?y) - (?x - ?y)\<bar> \<le> 2 ^ 40 / 2 ^ 54" by (rule fl_err[OF small])
  from abs_triangle[OF this diff] have "\<bar>fl (?x - ?y) - of_int (b - m) / 100\<bar> \<le> 1 / 1000" by (rule order_trans) simp
  moreover have "js_sub (cents b) (cents m) = Fin (fl (?x - ?y))"
  proof -
    have "\<bar>?x - ?y\<bar> \<le> 2 ^ 60" using less_imp_le[OF small] by (rule order_trans) simp
    then show ?thesis by (simp add: cents_def js_sub_def to_num_small)
  qed
  ultimately show ?thesis using assms by (simp add: round2dp_near)
qed

text \<open>
  The recovery of an advance is exact: for amounts that are texts of cents, as their columns hold them, the
  instalment is the smaller of the instalment agreed and the balance, and what remains is the exact difference,
  never negative, although both are computed in doubles and printed again.
\<close>

lemma recovery_is_exact:
  assumes "0 \<le> b" and "0 \<le> i" and "b \<le> 2 ^ 46" and "i \<le> 2 ^ 46"
  shows "computeRecoveryInstallment \<lparr>aa_outstandingBalance = cents_text b, aa_installmentAmount = cents_text i\<rparr>
    = \<lparr>rv_amountToRecover = cents_text (min i b), rv_remainingAfter = cents_text (b - min i b)\<rparr>"
proof -
  have m: "0 \<le> min i b" "min i b \<le> b" "min i b \<le> 2 ^ 46" using assms by simp_all
  then have "money_text (cents (min i b)) = cents_text (min i b)"
    by (simp add: money_text_round round2dp_cents toFixed2_cents)
  moreover have "money_text (js_sub (cents b) (cents (min i b))) = cents_text (b - min i b)"
    using assms m by (simp add: money_text_round round2dp_difference toFixed2_cents)
  ultimately show ?thesis using assms by (simp add: computeRecoveryInstallment_def parse_cents cents_min Let_def)
qed

text \<open>A new plan is a draft, and only the body of an update can make it active: until then it is not listed.\<close>

lemma new_plans_unlisted:
  assumes "create_plan n dto t = (Inr i, u)" shows "listActive_plans c u = listActive_plans c t"
  using assms by (auto simp: create_plan_def listActive_plans_def tbl_insert_def tbl_all_def split: if_splits)

end
