(* ===== verification/Admin_Desk.thy ===== *)
theory Admin_Desk
  imports Attendance Leave_Admin "HOL-Library.Multiset"
begin

text \<open>
  The desk of an administrator: \<^verbatim>\<open>company/company.service.ts\<close>,
  \<^verbatim>\<open>compliance/audit-log-query.service.ts\<close> and the monthly job of
  \<^verbatim>\<open>scheduler/scheduler.service.ts\<close>. The lemmas show that the pages of the audit log partition what a
  filter selects, and that the monthly job credits a company once.
\<close>

section \<open>The company\<close>

record tenant_row =
  tn_companyName :: string
  tn_logoUrl :: "string option"
  tn_timezone :: string
  tn_currency :: string
  tn_fiscalYearStart :: nat
  tn_isActive :: bool
  tn_deletedAt :: "instant option"

record tenant_dto =
  td_name :: "string option"
  td_logoUrl :: "string option"
  td_timezone :: "string option"
  td_currency :: "string option"
  td_fiscalYearStart :: "nat option"

record setting_row =
  sg_companyId :: id
  sg_key :: string
  sg_value :: json

record desk_db =
  dk_companies :: "tenant_row table"
  dk_settings :: "setting_row table"
  dk_leave :: leave_db

definition getCompany :: "id \<Rightarrow> desk_db \<Rightarrow> app_error + tenant_row" where
  "getCompany companyId s =
     (case tbl_get_where companyId (\<lambda>c. tn_deletedAt c = None) (dk_companies s) of
        None \<Rightarrow> Inl (NotFoundError ''Company not found'') | Some c \<Rightarrow> Inr c)"

definition given :: "'a option \<Rightarrow> 'a \<Rightarrow> 'a" where
  "given new old = (case new of None \<Rightarrow> old | Some x \<Rightarrow> x)"

definition updateCompany :: "id \<Rightarrow> tenant_dto \<Rightarrow> desk_db \<Rightarrow> (desk_db, unit) outcome" where
  "updateCompany companyId dto s =
     (if tbl_get companyId (dk_companies s) = None then (Inl (DatabaseError ''companies''), s)
      else (Inr (), s\<lparr>dk_companies := tbl_update companyId (\<lambda>c. c\<lparr>tn_companyName := given (td_name dto) (tn_companyName c),
               tn_logoUrl := (case td_logoUrl dto of None \<Rightarrow> tn_logoUrl c | Some u \<Rightarrow> Some u),
               tn_timezone := given (td_timezone dto) (tn_timezone c), tn_currency := given (td_currency dto) (tn_currency c),
               tn_fiscalYearStart := given (td_fiscalYearStart dto) (tn_fiscalYearStart c)\<rparr>) (dk_companies s)\<rparr>))"

text \<open>\<open>rank\<close> is the collation of the database, as a sort key.\<close>

definition getSettings :: "(string \<Rightarrow> nat) \<Rightarrow> id \<Rightarrow> desk_db \<Rightarrow> (id \<times> setting_row) list" where
  "getSettings rank companyId s = sort_key (\<lambda>(i, g). rank (sg_key g)) (tbl_all (\<lambda>i g. sg_companyId g = companyId) (dk_settings s))"

definition upsertSetting :: "id \<Rightarrow> id \<Rightarrow> string \<Rightarrow> json \<Rightarrow> desk_db \<Rightarrow> (desk_db, id) outcome" where
  "upsertSetting newId companyId key val s =
     (case tbl_find (\<lambda>i g. sg_companyId g = companyId \<and> sg_key g = key) (dk_settings s) of
        Some (i, g) \<Rightarrow> (Inr i, s\<lparr>dk_settings := tbl_update i (\<lambda>g. g\<lparr>sg_value := val\<rparr>) (dk_settings s)\<rparr>)
      | None \<Rightarrow>
          if tbl_get companyId (dk_companies s) = None \<or> \<not> fresh newId (dk_settings s) then (Inl (DatabaseError ''company_settings''), s)
          else (Inr newId, s\<lparr>dk_settings := tbl_insert newId \<lparr>sg_companyId = companyId, sg_key = key, sg_value = val\<rparr> (dk_settings s)\<rparr>))"

record company_stats =
  cs_headcount :: nat
  cs_activeEmployees :: nat
  cs_pendingRequests :: nat

definition getStats :: "id \<Rightarrow> desk_db \<Rightarrow> company_stats" where
  "getStats companyId s =
     (let staff = lv_employees (dk_leave s); live = (\<lambda>e. em_companyId e = companyId \<and> em_deletedAt e = None)
      in \<lparr>cs_headcount = tbl_count (\<lambda>i e. live e) staff,
          cs_activeEmployees = tbl_count (\<lambda>i e. live e \<and> em_status e = EmpACTIVE) staff,
          cs_pendingRequests = tbl_count (\<lambda>i r. lr_companyId r = companyId \<and> lr_status r = PENDING) (lv_requests (dk_leave s))\<rparr>)"

section \<open>The monthly job\<close>

text \<open>One company: its accrual, counted as processed or failed.\<close>

definition accrue_company :: "(jsnum \<Rightarrow> int) \<Rightarrow> (id \<Rightarrow> id \<Rightarrow> int \<Rightarrow> id) \<Rightarrow> int \<Rightarrow> int \<Rightarrow> id \<Rightarrow> (nat \<times> nat) \<times> leave_db \<Rightarrow> (nat \<times> nat) \<times> leave_db" where
  "accrue_company dec newId month year companyId acc =
     (case acc of ((processed, failed), s) \<Rightarrow>
       (case runForCompany dec newId companyId month year s of
          (Inr _, t) \<Rightarrow> ((Suc processed, failed), t)
        | (Inl _, t) \<Rightarrow> ((processed, Suc failed), t)))"

definition accruing_companies :: "desk_db \<Rightarrow> id list" where
  "accruing_companies s = map fst (tbl_all (\<lambda>i c. tn_isActive c \<and> tn_deletedAt c = None) (dk_companies s))"

definition handleMonthlyLeaveAccrual :: "(jsnum \<Rightarrow> int) \<Rightarrow> (id \<Rightarrow> id \<Rightarrow> int \<Rightarrow> id) \<Rightarrow> instant \<Rightarrow> desk_db \<Rightarrow> (nat \<times> nat) \<times> desk_db" where
  "handleMonthlyLeaveAccrual dec newId now s =
     (case fold (accrue_company dec newId (getUTCMonth now + 1) (getUTCFullYear now)) (accruing_companies s) ((0, 0), dk_leave s) of
        (counts, t) \<Rightarrow> (counts, s\<lparr>dk_leave := t\<rparr>))"

section \<open>The audit log\<close>

text \<open>A stored row has the instant and the address of the request beside what the services write.\<close>

record stored_audit = audit_row +
  sa_ipAddress :: "string option"
  sa_createdAt :: instant

record audit_filter =
  af_actorId :: "id option"
  af_resourceType :: "string option"
  af_action :: "string option"
  af_dateFrom :: "instant option"
  af_dateTo :: "instant option"
  af_page :: "nat option"
  af_limit :: "nat option"

text \<open>An empty text is no filter.\<close>

definition text_filter :: "string option \<Rightarrow> string option \<Rightarrow> bool" where
  "text_filter wanted x \<longleftrightarrow> (case wanted of None \<Rightarrow> True | Some w \<Rightarrow> w = [] \<or> x = Some w)"

definition audit_where :: "audit_filter \<Rightarrow> id \<Rightarrow> stored_audit \<Rightarrow> bool" where
  "audit_where f companyId r \<longleftrightarrow>
     ar_companyId r = companyId \<and> text_filter (af_actorId f) (ar_userId r) \<and> text_filter (af_resourceType f) (Some (ar_resource r))
     \<and> text_filter (af_action f) (Some (ar_action r))
     \<and> (case af_dateFrom f of None \<Rightarrow> True | Some t \<Rightarrow> t \<le> sa_createdAt r)
     \<and> (case af_dateTo f of None \<Rightarrow> True | Some t \<Rightarrow> sa_createdAt r \<le> t)"

record audit_view =
  wv_id :: id
  wv_actorId :: "id option"
  wv_actorName :: "string option"
  wv_action :: string
  wv_resourceType :: string
  wv_resourceId :: "id option"
  wv_metadata :: json
  wv_ipAddress :: "string option"
  wv_createdAt :: instant

definition audit_view_of :: "(string \<times> string) table \<Rightarrow> id \<times> stored_audit \<Rightarrow> audit_view" where
  "audit_view_of users il =
     (case il of (i, r) \<Rightarrow>
       \<lparr>wv_id = i, wv_actorId = ar_userId r,
        wv_actorName = (case ar_userId r of None \<Rightarrow> None
          | Some u \<Rightarrow> map_option (\<lambda>(a, b). trim (a @ '' '' @ b)) (tbl_get u users)),
        wv_action = ar_action r, wv_resourceType = ar_resource r, wv_resourceId = ar_resourceId r, wv_metadata = ar_after r,
        wv_ipAddress = sa_ipAddress r, wv_createdAt = sa_createdAt r\<rparr>)"

record audit_page =
  ap_data :: "audit_view list"
  ap_total :: nat
  ap_page :: nat
  ap_limit :: nat

definition audit_selected :: "audit_filter \<Rightarrow> id \<Rightarrow> stored_audit table \<Rightarrow> (id \<times> stored_audit) list" where
  "audit_selected f companyId t = sort_key (\<lambda>(i, r). - sa_createdAt r) (tbl_all (\<lambda>i r. audit_where f companyId r) t)"

definition audit_query :: "(string \<times> string) table \<Rightarrow> audit_filter \<Rightarrow> id \<Rightarrow> stored_audit table \<Rightarrow> audit_page" where
  "audit_query users f companyId t =
     (let page = given (af_page f) 1; limit = given (af_limit f) 20; skip = (page - 1) * limit
      in \<lparr>ap_data = map (audit_view_of users) (take limit (drop skip (audit_selected f companyId t))),
          ap_total = tbl_count (\<lambda>i r. audit_where f companyId r) t, ap_page = page, ap_limit = limit\<rparr>)"

section \<open>Pages\<close>

lemma audit_page_data:
  "ap_data (audit_query users (f\<lparr>af_page := Some p, af_limit := Some k\<rparr>) c t) = map (audit_view_of users) (paginate p k (audit_selected f c t))"
  "ap_total (audit_query users (f\<lparr>af_page := Some p, af_limit := Some k\<rparr>) c t) = length (audit_selected f c t)"
proof -
  have "audit_where (f\<lparr>af_page := Some p, af_limit := Some k\<rparr>) c = audit_where f c" by (rule ext) (simp add: audit_where_def)
  then show "ap_data (audit_query users (f\<lparr>af_page := Some p, af_limit := Some k\<rparr>) c t) = map (audit_view_of users) (paginate p k (audit_selected f c t))"
    "ap_total (audit_query users (f\<lparr>af_page := Some p, af_limit := Some k\<rparr>) c t) = length (audit_selected f c t)"
    by (simp_all add: audit_query_def audit_selected_def given_def Let_def paginate_def tbl_count_def)
qed

text \<open>
  Nothing is lost between the pages of the audit log: with a positive page size, the pages up to the total
  are together the rows that the filter selects, each once and the newest first, and the rows selected are those of
  the caller's company that satisfy the filter.
\<close>

lemma audit_pages_complete:
  assumes "0 < k"
  shows "concat (map (\<lambda>p. ap_data (audit_query users (f\<lparr>af_page := Some p, af_limit := Some k\<rparr>) c t)) [1..<Suc (length (audit_selected f c t))])
      = map (audit_view_of users) (audit_selected f c t)
    \<and> sorted (map (\<lambda>v. - wv_createdAt v) (map (audit_view_of users) (audit_selected f c t)))
    \<and> mset (audit_selected f c t) = mset (filter (\<lambda>(i, r). audit_where f c r) t)
    \<and> ap_total (audit_query users (f\<lparr>af_page := Some p, af_limit := Some k\<rparr>) c t) = length (filter (\<lambda>(i, r). audit_where f c r) t)"
proof -
  let ?xs = "audit_selected f c t"
  have "length ?xs \<le> length ?xs * k" using assms by simp
  then have pages: "concat (map (\<lambda>p. paginate p k ?xs) [1..<Suc (length ?xs)]) = ?xs"
    using pages_prefix[of k ?xs "length ?xs"] by (simp only: take_all)
  have "concat (map (\<lambda>p. map (audit_view_of users) (paginate p k ?xs)) [1..<Suc (length ?xs)])
      = map (audit_view_of users) (concat (map (\<lambda>p. paginate p k ?xs) [1..<Suc (length ?xs)]))"
    by (simp only: map_concat map_map comp_def)
  then have "concat (map (\<lambda>p. map (audit_view_of users) (paginate p k ?xs)) [1..<Suc (length ?xs)]) = map (audit_view_of users) ?xs"
    by (simp only: pages)
  moreover have "map (\<lambda>v. - wv_createdAt v) (map (audit_view_of users) ?xs) = map (\<lambda>(i, r). - sa_createdAt r) ?xs"
    by (auto simp: audit_view_of_def)
  then have "sorted (map (\<lambda>v. - wv_createdAt v) (map (audit_view_of users) ?xs))"
    by (simp only: audit_selected_def sorted_sort_key)
  moreover have "mset ?xs = mset (filter (\<lambda>(i, r). audit_where f c r) t)" by (simp add: audit_selected_def tbl_all_def)
  moreover from this have "length ?xs = length (filter (\<lambda>(i, r). audit_where f c r) t)" by (rule mset_eq_length)
  ultimately show ?thesis unfolding audit_page_data by simp
qed

section \<open>Once a month\<close>

definition credited :: "id \<Rightarrow> int \<Rightarrow> int \<Rightarrow> leave_db \<Rightarrow> bool" where
  "credited c month year s \<longleftrightarrow> (\<exists>r \<in> set (lv_runs s). ac_companyId r = c \<and> ac_month r = month \<and> ac_year r = year)"

text \<open>A company has nothing left to credit: it was credited, or nobody or nothing of it accrues.\<close>

definition settled :: "id \<Rightarrow> int \<Rightarrow> int \<Rightarrow> leave_db \<Rightarrow> bool" where
  "settled c month year s \<longleftrightarrow> credited c month year s
     \<or> tbl_all (\<lambda>i e. em_companyId e = c \<and> em_status e = EmpACTIVE \<and> em_deletedAt e = None) (lv_employees s) = []
     \<or> tbl_all (\<lambda>i t. lt_companyId t = c \<and> lt_isActive t \<and> lt_accrualType t \<noteq> NONE) (lv_types s) = []"

lemma run_settled: "settled c m y s \<Longrightarrow> runForCompany dec n c m y s = (Inr (), s)"
  by (auto simp: settled_def credited_def runForCompany_def Let_def)

lemma run_settles: "runForCompany dec n c m y s = (Inr x, t) \<Longrightarrow> settled c m y t"
  by (auto simp: settled_def credited_def runForCompany_def Let_def leave_audit_def split: if_splits sum.splits)

lemma run_keeps_settled: "settled b m y s \<Longrightarrow> settled b m y (snd (runForCompany dec n c m y s))"
  by (auto simp: settled_def credited_def runForCompany_def Let_def leave_audit_def split: sum.splits)

lemma fold_failures_grow:
  "snd (fst acc) \<le> snd (fst (fold (accrue_company dec n m y) cs acc))"
proof (induction cs arbitrary: acc)
  case (Cons c cs)
  have "snd (fst acc) \<le> snd (fst (accrue_company dec n m y c acc))" by (auto simp: accrue_company_def split: prod.splits sum.splits)
  then show ?case using Cons[of "accrue_company dec n m y c acc"] by simp
qed simp

lemma job_settles:
  assumes "snd (fst (fold (accrue_company dec n m y) cs acc)) = snd (fst acc)"
  shows "(\<forall>c \<in> set cs. settled c m y (snd (fold (accrue_company dec n m y) cs acc)))
    \<and> (\<forall>b. settled b m y (snd acc) \<longrightarrow> settled b m y (snd (fold (accrue_company dec n m y) cs acc)))"
  using assms
proof (induction cs arbitrary: acc)
  case (Cons c cs)
  let ?next = "accrue_company dec n m y c acc"
  obtain r t where run: "runForCompany dec n c m y (snd acc) = (r, t)" by (cases "runForCompany dec n c m y (snd acc)")
  have nx: "snd ?next = t" "snd (fst ?next) = (if is_error r then Suc (snd (fst acc)) else snd (fst acc))"
    using run by (auto simp: accrue_company_def split: prod.splits sum.splits)
  have "snd (fst ?next) \<le> snd (fst (fold (accrue_company dec n m y) cs ?next))" by (rule fold_failures_grow)
  then have ok: "\<not> is_error r" "snd (fst (fold (accrue_company dec n m y) cs ?next)) = snd (fst ?next)"
    using Cons.prems nx(2) by (auto split: if_splits)
  then obtain x where "r = Inr x" by (cases r) auto
  then have "settled c m y t" using run run_settles by blast
  moreover have "settled b m y t" if "settled b m y (snd acc)" for b using run_keeps_settled[OF that, of dec n c] run by simp
  ultimately show ?case using Cons.IH[OF ok(2)] nx(1) by simp
qed simp

lemma settled_job:
  assumes "\<forall>c \<in> set cs. settled c m y s"
  shows "fold (accrue_company dec n m y) cs ((p, f), s) = ((p + length cs, f), s)"
  using assms by (induction cs arbitrary: p) (auto simp: accrue_company_def run_settled)

text \<open>
  C40: Leave is credited once a month: when the monthly job has run without a failure, running it again in the
  same month, on the same companies, processes all of them and changes nothing.
\<close>

theorem accrual_job_idempotent:
  assumes "handleMonthlyLeaveAccrual dec n now s = ((p, 0), t)"
    and "getUTCMonth later = getUTCMonth now" and "getUTCFullYear later = getUTCFullYear now"
  shows "handleMonthlyLeaveAccrual dec n later t = ((length (accruing_companies s), 0), t)"
proof -
  let ?m = "getUTCMonth now + 1" and ?y = "getUTCFullYear now"
  obtain u where u: "fold (accrue_company dec n ?m ?y) (accruing_companies s) ((0, 0), dk_leave s) = ((p, 0), u)" "t = s\<lparr>dk_leave := u\<rparr>"
    using assms(1) by (auto simp: handleMonthlyLeaveAccrual_def split: prod.splits)
  have "\<forall>c \<in> set (accruing_companies s). settled c ?m ?y u"
    using job_settles[of dec n ?m ?y "accruing_companies s" "((0, 0), dk_leave s)"] by (simp add: u(1))
  then show ?thesis
    using settled_job[of "accruing_companies s" ?m ?y u dec n 0 0] assms(2,3)
    by (simp add: handleMonthlyLeaveAccrual_def u(2) accruing_companies_def)
qed

section \<open>Concrete runs\<close>

definition desk_office :: desk_db where
  "desk_office = \<lparr>dk_companies = [(''co'', \<lparr>tn_companyName = ''Co'', tn_logoUrl = None, tn_timezone = ''UTC'', tn_currency = ''USD'',
     tn_fiscalYearStart = 1, tn_isActive = True, tn_deletedAt = None\<rparr>)], dk_settings = [], dk_leave = leave_office\<rparr>"

theorem accrual_job_idempotent_witness:
  "\<exists>t. handleMonthlyLeaveAccrual dec_round (\<lambda>e l y. ''b'' @ e @ l) (leave_day 1) desk_office = ((1, 0), t)
     \<and> map (lb_balance \<circ> snd) (lv_balances (dk_leave t)) = [500]
     \<and> handleMonthlyLeaveAccrual dec_round (\<lambda>e l y. ''b'' @ e @ l) (leave_day 20) t = ((1, 0), t)"
proof -
  let ?n = "\<lambda>e l y. ''b'' @ e @ l"
  obtain cs t where r: "handleMonthlyLeaveAccrual dec_round ?n (leave_day 1) desk_office = (cs, t)"
    by (cases "handleMonthlyLeaveAccrual dec_round ?n (leave_day 1) desk_office")
  have "fst (handleMonthlyLeaveAccrual dec_round ?n (leave_day 1) desk_office) = (1, 0)" by code_simp
  then have cs: "cs = (1, 0)" unfolding r by (simp only: fst_conv)
  have "map (lb_balance \<circ> snd) (lv_balances (dk_leave (snd (handleMonthlyLeaveAccrual dec_round ?n (leave_day 1) desk_office)))) = [500]"
    by code_simp
  then have b: "map (lb_balance \<circ> snd) (lv_balances (dk_leave t)) = [500]" unfolding r by (simp only: snd_conv)
  have "getUTCMonth (leave_day 20) = getUTCMonth (leave_day 1)" "getUTCFullYear (leave_day 20) = getUTCFullYear (leave_day 1)"
    by code_simp+
  moreover have companies: "length (accruing_companies desk_office) = 1" by code_simp
  ultimately have again: "handleMonthlyLeaveAccrual dec_round ?n (leave_day 20) t = ((1, 0), t)"
    using accrual_job_idempotent[OF r[unfolded cs], of "leave_day 20"] by (simp only:)
  show ?thesis by (rule exI[of _ t], intro conjI) (fact r[unfolded cs], fact b, fact again)
qed

definition log_row :: "string \<Rightarrow> instant \<Rightarrow> stored_audit" where
  "log_row act t = \<lparr>ar_companyId = ''co'', ar_userId = None, ar_action = act, ar_resource = ''x'', ar_resourceId = None, ar_before = JNull,
     ar_after = JNull, ar_traceId = None, sa_ipAddress = None, sa_createdAt = t\<rparr>"

definition no_filter :: audit_filter where
  "no_filter = \<lparr>af_actorId = None, af_resourceType = None, af_action = None, af_dateFrom = None, af_dateTo = None, af_page = None, af_limit = None\<rparr>"

end
