(* ===== verification/Analytics.thy ===== *)
theory Analytics
  imports Staff Iso_Date Audit_Log Money
begin

text \<open>
  Analytics: the score of \<^verbatim>\<open>analytics/domain/attrition-risk.ts\<close> with its service, the dashboards of
  \<^verbatim>\<open>dashboard.service.ts\<close>, and the reports that users build, \<^verbatim>\<open>report-builder.service.ts\<close>. Money
  is in hundredths, as its columns hold it. The lemmas show that an employee has one latest score, which scores
  occur, and which columns a report can show.
\<close>

section \<open>The score\<close>

datatype risk_band = LOW | MEDIUM | HIGH | CRITICAL

record signal_input =
  si_tenureMonths :: int
  si_lastReviewRating :: "jsnum option"
  si_absenceCountLast90d :: int

record breakdown =
  bk_input :: signal_input
  bk_tenureSignal :: int
  bk_reviewSignal :: int
  bk_absenceSignal :: int
  bk_totalScore :: int
  bk_riskBand :: risk_band

definition TENURE_THRESHOLD_MONTHS :: int where "TENURE_THRESHOLD_MONTHS = 6"
definition TENURE_SIGNAL_WEIGHT :: int where "TENURE_SIGNAL_WEIGHT = 30"
definition REVIEW_THRESHOLD :: jsnum where "REVIEW_THRESHOLD = Fin 3"
definition REVIEW_SIGNAL_WEIGHT :: int where "REVIEW_SIGNAL_WEIGHT = 35"
definition ABSENCE_THRESHOLD :: int where "ABSENCE_THRESHOLD = 5"
definition ABSENCE_SIGNAL_WEIGHT :: int where "ABSENCE_SIGNAL_WEIGHT = 35"

definition risk_band_of :: "int \<Rightarrow> risk_band" where
  "risk_band_of totalScore =
     (if 75 \<le> totalScore then CRITICAL else if 50 \<le> totalScore then HIGH else if 25 \<le> totalScore then MEDIUM else LOW)"

definition computeAttritionRisk :: "signal_input \<Rightarrow> breakdown" where
  "computeAttritionRisk input =
     (let tenureSignal = (if si_tenureMonths input < TENURE_THRESHOLD_MONTHS then TENURE_SIGNAL_WEIGHT else 0);
          reviewSignal = (case si_lastReviewRating input of None \<Rightarrow> 0 | Some r \<Rightarrow> if js_lt r REVIEW_THRESHOLD then REVIEW_SIGNAL_WEIGHT else 0);
          absenceSignal = (if ABSENCE_THRESHOLD < si_absenceCountLast90d input then ABSENCE_SIGNAL_WEIGHT else 0);
          totalScore = min 100 (max 0 (tenureSignal + reviewSignal + absenceSignal))
      in \<lparr>bk_input = input, bk_tenureSignal = tenureSignal, bk_reviewSignal = reviewSignal, bk_absenceSignal = absenceSignal,
          bk_totalScore = totalScore, bk_riskBand = risk_band_of totalScore\<rparr>)"

record score_row =
  rs_employeeId :: id
  rs_riskScore :: int
  rs_riskBand :: risk_band
  rs_signals :: breakdown
  rs_computedAt :: instant
  rs_isLatest :: bool

record score_db =
  sd_employees :: "employee_row table"
  sd_scores :: "score_row table"
  sd_audit :: "audit_row list"

text \<open>Local years and months, \<open>off\<close> milliseconds east of UTC.\<close>

definition computeTenureMonths :: "int \<Rightarrow> instant \<Rightarrow> instant \<Rightarrow> int" where
  "computeTenureMonths off now joinedAt =
     (getUTCFullYear (now + off) - getUTCFullYear (joinedAt + off)) * 12 + (getUTCMonth (now + off) - getUTCMonth (joinedAt + off))"

text \<open>The transaction for one employee.\<close>

definition score_employee :: "id \<Rightarrow> instant \<Rightarrow> id \<Rightarrow> breakdown \<Rightarrow> score_row table \<Rightarrow> score_row table" where
  "score_employee newId now emp b t =
     tbl_insert newId \<lparr>rs_employeeId = emp, rs_riskScore = bk_totalScore b, rs_riskBand = bk_riskBand b, rs_signals = b,
         rs_computedAt = now, rs_isLatest = True\<rparr>
       (tbl_update_many (\<lambda>i r. rs_employeeId r = emp \<and> rs_isLatest r) (\<lambda>r. r\<lparr>rs_isLatest := False\<rparr>) t)"

definition recomputeAllActive :: "(id \<Rightarrow> id) \<Rightarrow> int \<Rightarrow> instant \<Rightarrow> score_db \<Rightarrow> (score_db, nat) outcome" where
  "recomputeAllActive newId off now s =
     (let employees = tbl_all (\<lambda>i e. em_status e = EmpACTIVE \<and> em_deletedAt e = None) (sd_employees s);
          scores = fold (\<lambda>(i, e) t. score_employee (newId i) now i
                     (computeAttritionRisk \<lparr>si_tenureMonths = computeTenureMonths off now (em_joinedAt e), si_lastReviewRating = None,
                        si_absenceCountLast90d = 0\<rparr>) t) employees (sd_scores s)
      in (Inr (length employees),
          s\<lparr>sd_scores := scores,
            sd_audit := logAsync (entry_of None [] ''AttritionRiskScore'' ''batch'' ''ATTRITION_RISK_RECOMPUTED''
              [(''employeesProcessed'', JNum (num_of_nat (length employees)))]) (sd_audit s)\<rparr>))"

definition getLatestForEmployee :: "id \<Rightarrow> score_db \<Rightarrow> (id \<times> score_row) option" where
  "getLatestForEmployee emp s =
     (case sort_key (\<lambda>(i, r). - rs_computedAt r) (tbl_all (\<lambda>i r. rs_employeeId r = emp \<and> rs_isLatest r) (sd_scores s)) of
        [] \<Rightarrow> None | x # xs \<Rightarrow> Some x)"

section \<open>Dashboards\<close>

text \<open>\<^verbatim>\<open>counts[k] = (counts[k] ?? 0) + 1\<close>.\<close>

fun bump :: "'k \<Rightarrow> ('k \<times> nat) list \<Rightarrow> ('k \<times> nat) list" where
  "bump k [] = [(k, 1)]"
| "bump k ((j, n) # cs) = (if j = k then (j, Suc n) # cs else (j, n) # bump k cs)"

record demographics =
  dg_totalEmployees :: nat
  dg_byDepartment :: "(string \<times> nat) list"
  dg_byType :: "(employment_type \<times> nat) list"
  dg_byTenure :: "(string \<times> nat) list"

text \<open>Years of 365.25 days.\<close>

definition years_since :: "instant \<Rightarrow> instant \<Rightarrow> jsnum" where
  "years_since now joinedAt = js_div (num_of_int (now - joinedAt)) (js_mul (Fin (1461 / 4)) (Fin 86400000))"

definition tenure_band :: "jsnum \<Rightarrow> string" where
  "tenure_band years =
     (if js_lt years (Fin 1) then ''0-1yr'' else if js_lt years (Fin 3) then ''1-3yr'' else if js_lt years (Fin 5) then ''3-5yr'' else ''5yr+'')"

definition department_label :: "string table \<Rightarrow> employee_row \<Rightarrow> string" where
  "department_label departments e =
     (case em_departmentId e of None \<Rightarrow> ''Unassigned''
      | Some d \<Rightarrow> (case tbl_get d departments of None \<Rightarrow> ''Unassigned'' | Some n \<Rightarrow> n))"

definition getDemographics :: "string table \<Rightarrow> instant \<Rightarrow> id \<Rightarrow> employee_row table \<Rightarrow> demographics" where
  "getDemographics departments now companyId t =
     (let es = map snd (tbl_all (\<lambda>i e. em_companyId e = companyId \<and> em_status e = EmpACTIVE \<and> em_deletedAt e = None) t)
      in \<lparr>dg_totalEmployees = length es,
          dg_byDepartment = fold bump (map (department_label departments) es) [],
          dg_byType = fold bump (map em_employmentType es) [],
          dg_byTenure = fold bump (map (\<lambda>e. tenure_band (years_since now (em_joinedAt e))) es)
             [(''0-1yr'', 0), (''1-3yr'', 0), (''3-5yr'', 0), (''5yr+'', 0)]\<rparr>)"

record run_figures =
  rf_companyId :: id
  rf_totalGross :: int
  rf_totalNet :: int
  rf_totalTax :: int
  rf_processedAt :: "instant option"

text \<open>\<^verbatim>\<open>setMonth(getMonth() - months)\<close>: a day that the month does not have runs into the next one.\<close>

definition months_before :: "int \<Rightarrow> int \<Rightarrow> instant \<Rightarrow> instant" where
  "months_before off months now =
     (let l = now + off in date_UTC (getUTCFullYear l) (getUTCMonth l - months) (getUTCDate l) + time_of_day l - off)"

definition getTrends :: "int \<Rightarrow> instant \<Rightarrow> id \<Rightarrow> int \<Rightarrow> run_figures table \<Rightarrow> (string \<times> jsnum \<times> jsnum \<times> jsnum) list" where
  "getTrends off now companyId months t =
     map (\<lambda>(p, r). (take 7 (toISOString p), cents (rf_totalGross r), cents (rf_totalNet r), cents (rf_totalTax r)))
       (sort_key fst [(p, r). (i, r) \<leftarrow> t, rf_companyId r = companyId, p \<leftarrow> (case rf_processedAt r of None \<Rightarrow> [] | Some p \<Rightarrow> [p]),
          months_before off months now \<le> p])"

record liability_balance =
  lq_employee :: id
  lq_leaveType :: string
  lq_isPaid :: bool
  lq_balance :: int

record salary_figures =
  sy_employeeId :: id
  sy_ctc :: int
  sy_effectiveFrom :: instant
  sy_approved :: bool

record liability_item =
  li_employeeId :: id
  li_leaveType :: string
  li_unusedDays :: jsnum
  li_dailyRate :: jsnum
  li_liability :: jsnum

definition annual_salary :: "id \<Rightarrow> salary_figures table \<Rightarrow> jsnum" where
  "annual_salary emp salaries =
     (case sort_key (\<lambda>(i, y). - sy_effectiveFrom y) (tbl_all (\<lambda>i y. sy_employeeId y = emp \<and> sy_approved y) salaries) of
        [] \<Rightarrow> Fin 0 | (i, y) # ys \<Rightarrow> cents (sy_ctc y))"

definition liability_of :: "salary_figures table \<Rightarrow> liability_balance \<Rightarrow> liability_item option" where
  "liability_of salaries b =
     (let unusedDays = cents (lq_balance b); dailyRate = js_div (annual_salary (lq_employee b) salaries) (Fin 260)
      in if \<not> lq_isPaid b \<or> js_le unusedDays (Fin 0) then None
         else Some \<lparr>li_employeeId = lq_employee b, li_leaveType = lq_leaveType b, li_unusedDays = unusedDays,
                    li_dailyRate = round2dp dailyRate, li_liability = round2dp (js_mul unusedDays dailyRate)\<rparr>)"

text \<open>The balances are those of the active employees of the company, joined with their leave types.\<close>

definition getLiability :: "id \<Rightarrow> employee_row table \<Rightarrow> salary_figures table \<Rightarrow> liability_balance table \<Rightarrow> jsnum \<times> liability_item list" where
  "getLiability companyId employees salaries balances =
     (let items = List.map_filter (liability_of salaries)
            (map snd (tbl_all (\<lambda>i b. (case tbl_get (lq_employee b) employees of
                 None \<Rightarrow> False | Some e \<Rightarrow> em_companyId e = companyId \<and> em_status e = EmpACTIVE)) balances))
      in (round2dp (js_sum (map li_liability items)), items))"

section \<open>Counts\<close>

definition or_zero :: "nat option \<Rightarrow> nat" where
  "or_zero x = (case x of None \<Rightarrow> 0 | Some n \<Rightarrow> n)"

lemma bump_lookup: "or_zero (map_of (bump k cs) j) = or_zero (map_of cs j) + (if j = k then 1 else 0)"
  by (induction k cs rule: bump.induct) (auto simp: or_zero_def)

text \<open>The count of a key is the number of its occurrences, and the counts add up to the number of employees.\<close>

lemma counts_exact: "or_zero (map_of (fold bump ks cs) j) = or_zero (map_of cs j) + count_list ks j"
  by (induction ks arbitrary: cs) (simp_all add: bump_lookup)

lemma bump_total: "sum_list (map snd (bump k cs)) = Suc (sum_list (map snd cs))"
  by (induction k cs rule: bump.induct) auto

lemma counts_total: "sum_list (map snd (fold bump ks cs)) = sum_list (map snd cs) + length ks"
  by (induction ks arbitrary: cs) (simp_all add: bump_total)

lemma demographics_add_up:
  "sum_list (map snd (dg_byDepartment (getDemographics ds now c t))) = dg_totalEmployees (getDemographics ds now c t)
    \<and> sum_list (map snd (dg_byType (getDemographics ds now c t))) = dg_totalEmployees (getDemographics ds now c t)
    \<and> sum_list (map snd (dg_byTenure (getDemographics ds now c t))) = dg_totalEmployees (getDemographics ds now c t)"
  by (simp add: getDemographics_def Let_def counts_total)

section \<open>Reports that users build\<close>

definition MAX_REPORT_ROW_LIMIT :: int where "MAX_REPORT_ROW_LIMIT = 5000"

definition FIELD_WHITELIST :: "(string \<times> string list) list" where
  "FIELD_WHITELIST =
     [(''EMPLOYEE'', [''id'', ''fullName'', ''department'', ''employmentType'', ''hireDate'', ''status'', ''workEmail'']),
      (''PAYROLL'', [''employeeId'', ''period'', ''grossPay'', ''netPay'', ''deductions'', ''taxAmount'']),
      (''LEAVE'', [''employeeId'', ''leaveType'', ''daysTaken'', ''balance'', ''startDate'', ''endDate'']),
      (''ATTENDANCE'', [''employeeId'', ''date'', ''status'', ''hoursWorked'', ''checkInAt'', ''checkOutAt'']),
      (''ATTRITION_RISK'', [''employeeId'', ''riskScore'', ''riskBand'', ''computedAt''])]"

definition RBAC_RESTRICTED_FIELDS :: "(string \<times> string list) list" where
  "RBAC_RESTRICTED_FIELDS = [(''PAYROLL'', [''grossPay'', ''netPay'', ''deductions'', ''taxAmount''])]"

record report_def =
  rd_fields :: "string list option"
  rd_columns :: "string list option"
  rd_filters :: "string list option"
  rd_limit :: "int option"

record custom_report =
  cr_companyId :: id
  cr_name :: string
  cr_description :: "string option"
  cr_entityType :: string
  cr_definition :: report_def
  cr_createdById :: id
  cr_isShared :: bool
  cr_createdAt :: instant

record report_run =
  rr_savedReportId :: id
  rr_executedById :: id
  rr_rowCount :: nat
  rr_executionMs :: int
  rr_status :: string
  rr_failureReason :: "string option"

record builder_db =
  br_reports :: "custom_report table"
  br_runs :: "report_run table"
  br_audit :: "audit_row list"

definition listed :: "'a list option \<Rightarrow> 'a list" where
  "listed x = (case x of None \<Rightarrow> [] | Some xs \<Rightarrow> xs)"

definition in_quotes :: "string \<Rightarrow> string" where
  "in_quotes s = [CHR 0x27] @ s @ [CHR 0x27]"

text \<open>The checks of the three lists in their order: the first name that is not allowed is the error.\<close>

definition check_report :: "string \<Rightarrow> string list \<Rightarrow> report_def \<Rightarrow> app_error option" where
  "check_report entityType whitelist d =
     (case List.find (\<lambda>f. f \<notin> set whitelist) (listed (rd_fields d)) of
        Some f \<Rightarrow> Some (BadRequestError (''Field '' @ in_quotes f @ '' not allowed for entity type '' @ in_quotes entityType))
      | None \<Rightarrow>
         (case List.find (\<lambda>f. f \<notin> set whitelist) (listed (rd_columns d)) of
            Some f \<Rightarrow> Some (BadRequestError (''Column '' @ in_quotes f @ '' not allowed''))
          | None \<Rightarrow>
             (case List.find (\<lambda>f. f \<notin> set whitelist) (listed (rd_filters d)) of
                Some f \<Rightarrow> Some (BadRequestError (''Filter field '' @ in_quotes f @ '' not allowed''))
              | None \<Rightarrow>
                 (case rd_limit d of
                    Some l \<Rightarrow> if MAX_REPORT_ROW_LIMIT < l then Some (BadRequestError ''Limit exceeds maximum of 5000'') else None
                  | None \<Rightarrow> None))))"

definition create_custom :: "id \<Rightarrow> instant \<Rightarrow> id \<Rightarrow> string \<Rightarrow> string option \<Rightarrow> string \<Rightarrow> report_def \<Rightarrow> id \<Rightarrow> bool option \<Rightarrow> builder_db
    \<Rightarrow> (builder_db, id) outcome" where
  "create_custom newId now companyId name description entityType d createdById isShared s =
     (case map_of FIELD_WHITELIST entityType of
        None \<Rightarrow> (Inl (BadRequestError (''Unknown entity type: '' @ entityType)), s)
      | Some whitelist \<Rightarrow>
          (case check_report entityType whitelist d of
             Some e \<Rightarrow> (Inl e, s)
           | None \<Rightarrow> (Inr newId, s\<lparr>br_reports := tbl_insert newId
               \<lparr>cr_companyId = companyId, cr_name = name, cr_description = description, cr_entityType = entityType, cr_definition = d,
                cr_createdById = createdById, cr_isShared = (case isShared of None \<Rightarrow> False | Some b \<Rightarrow> b), cr_createdAt = now\<rparr>
               (br_reports s)\<rparr>)))"

record run_view =
  rw_columns :: "string list"
  rw_limit :: int
  rw_rowCount :: nat
  rw_executionMs :: int
  rw_status :: string

definition effective_columns :: "string \<Rightarrow> string list \<Rightarrow> string list \<Rightarrow> string list \<Rightarrow> string list" where
  "effective_columns entityType whitelist userRoles cols =
     filter (\<lambda>c. \<not> (c \<in> set (listed (map_of RBAC_RESTRICTED_FIELDS entityType)) \<and> ''payroll_admin'' \<notin> set userRoles) \<and> c \<in> set whitelist) cols"

definition run_custom :: "id \<Rightarrow> int \<Rightarrow> id \<Rightarrow> id \<Rightarrow> string list \<Rightarrow> builder_db \<Rightarrow> (builder_db, run_view) outcome" where
  "run_custom newId executionMs i executedById userRoles s =
     (case tbl_get i (br_reports s) of
        None \<Rightarrow> (Inl (NotFoundError ''Report not found''), s)
      | Some r \<Rightarrow>
          (case map_of FIELD_WHITELIST (cr_entityType r) of
             None \<Rightarrow> (Inl (BadRequestError (''Unknown entity type: '' @ cr_entityType r)), s)
           | Some whitelist \<Rightarrow>
               (case List.find (\<lambda>f. f \<notin> set whitelist) (listed (rd_fields (cr_definition r))) of
                  Some f \<Rightarrow> (Inl (BadRequestError (''Field '' @ in_quotes f @ '' no longer allowed'')), s)
                | None \<Rightarrow>
                    (case (case rd_columns (cr_definition r) of None \<Rightarrow> rd_fields (cr_definition r) | Some cs \<Rightarrow> Some cs) of
                       None \<Rightarrow> (Inl (RuntimeError ''Cannot read properties of undefined''), s)
                     | Some cols \<Rightarrow>
                         (Inr \<lparr>rw_columns = effective_columns (cr_entityType r) whitelist userRoles cols,
                               rw_limit = min (case rd_limit (cr_definition r) of None \<Rightarrow> MAX_REPORT_ROW_LIMIT | Some l \<Rightarrow> l) MAX_REPORT_ROW_LIMIT,
                               rw_rowCount = 0, rw_executionMs = executionMs, rw_status = ''SUCCESS''\<rparr>,
                          s\<lparr>br_runs := tbl_insert newId \<lparr>rr_savedReportId = i, rr_executedById = executedById, rr_rowCount = 0,
                                rr_executionMs = executionMs, rr_status = ''SUCCESS'', rr_failureReason = None\<rparr> (br_runs s),
                            br_audit := logAsync (entry_of None [] ''CustomSavedReport'' i ''REPORT_RUN''
                              [(''executedById'', JStr executedById), (''rowCount'', JNum (Fin 0)),
                               (''executionMs'', JNum (num_of_int executionMs)), (''status'', JStr ''SUCCESS'')]) (br_audit s)\<rparr>)))))"

definition list_custom :: "id \<Rightarrow> builder_db \<Rightarrow> (id \<times> custom_report) list" where
  "list_custom companyId s = sort_key (\<lambda>(i, r). - cr_createdAt r) (tbl_all (\<lambda>i r. cr_companyId r = companyId) (br_reports s))"

text \<open>The body of an update is written as it comes, without the checks of the creation.\<close>

definition update_custom :: "id \<Rightarrow> (custom_report \<Rightarrow> custom_report) \<Rightarrow> builder_db \<Rightarrow> (builder_db, unit) outcome" where
  "update_custom i body s =
     (if tbl_get i (br_reports s) = None then (Inl (NotFoundError ''Report not found''), s)
      else (Inr (), s\<lparr>br_reports := tbl_update i body (br_reports s)\<rparr>))"

text \<open>A report that has run cannot be deleted: its runs refer to it.\<close>

definition delete_custom :: "id \<Rightarrow> builder_db \<Rightarrow> (builder_db, unit) outcome" where
  "delete_custom i s =
     (if tbl_get i (br_reports s) = None then (Inl (NotFoundError ''Report not found''), s)
      else if tbl_find (\<lambda>j r. rr_savedReportId r = i) (br_runs s) \<noteq> None then (Inl (DatabaseError ''report_runs''), s)
      else (Inr (), s\<lparr>br_reports := tbl_delete_many (\<lambda>j r. j = i) (br_reports s)\<rparr>))"

section \<open>Latest scores\<close>

definition latest_of :: "id \<Rightarrow> score_row table \<Rightarrow> (id \<times> score_row) list" where
  "latest_of emp t = tbl_all (\<lambda>i r. rs_employeeId r = emp \<and> rs_isLatest r) t"

lemma latest_after_score:
  "latest_of b (score_employee n now a k t) =
     (if b = a then [(n, \<lparr>rs_employeeId = a, rs_riskScore = bk_totalScore k, rs_riskBand = bk_riskBand k, rs_signals = k,
         rs_computedAt = now, rs_isLatest = True\<rparr>)] else latest_of b t)"
proof -
  have "latest_of b (tbl_update_many (\<lambda>i r. rs_employeeId r = a \<and> rs_isLatest r) (\<lambda>r. r\<lparr>rs_isLatest := False\<rparr>) t)
      = (if b = a then [] else latest_of b t)"
    by (induction t) (auto simp: latest_of_def tbl_all_def tbl_update_many_def split: if_splits)
  then show ?thesis by (simp add: latest_of_def score_employee_def tbl_insert_def tbl_all_append) (simp add: tbl_all_def)
qed

lemma latest_after_fold:
  "distinct (map fst es) \<Longrightarrow> latest_of b (fold (\<lambda>(i, e) t. score_employee (f i) now i (k e) t) es t) =
     (case map_of es b of None \<Rightarrow> latest_of b t
      | Some e \<Rightarrow> [(f b, \<lparr>rs_employeeId = b, rs_riskScore = bk_totalScore (k e), rs_riskBand = bk_riskBand (k e), rs_signals = k e,
          rs_computedAt = now, rs_isLatest = True\<rparr>)])"
proof (induction es arbitrary: t)
  case (Cons e es)
  obtain i r where e: "e = (i, r)" by (cases e)
  have "map_of es i = None" using Cons.prems by (simp add: e map_of_eq_None_iff)
  then show ?case using Cons by (auto simp: e latest_after_score split: option.splits)
qed simp

lemma map_of_filtered:
  "distinct (map fst t) \<Longrightarrow> map_of (filter (\<lambda>(i, r). P i r) t) k = (case map_of t k of None \<Rightarrow> None | Some r \<Rightarrow> if P k r then Some r else None)"
proof (induction t)
  case (Cons x t)
  then have "map_of (filter (\<lambda>(i, r). P i r) t) (fst x) = None" by (auto simp: map_of_eq_None_iff)
  then show ?case using Cons by (cases x) auto
qed simp

text \<open>
  An active employee has after a run exactly one latest score, that of the run; and since the rating and the
  absences are not looked up, it is 30 for less than six months of service and 0 otherwise.
\<close>

lemma one_latest_score:
  assumes "recomputeAllActive newId off now s = (Inr n, t)" and "distinct (tbl_ids (sd_employees s))"
    and "tbl_get b (sd_employees s) = Some e" and "em_status e = EmpACTIVE" and "em_deletedAt e = None"
  shows "\<exists>r. latest_of b (sd_scores t) = [(newId b, r)] \<and> rs_computedAt r = now
    \<and> rs_riskScore r = (if computeTenureMonths off now (em_joinedAt e) < 6 then 30 else 0)
    \<and> rs_riskBand r = (if computeTenureMonths off now (em_joinedAt e) < 6 then MEDIUM else LOW)"
proof -
  let ?es = "tbl_all (\<lambda>i e. em_status e = EmpACTIVE \<and> em_deletedAt e = None) (sd_employees s)"
  let ?k = "\<lambda>e. computeAttritionRisk \<lparr>si_tenureMonths = computeTenureMonths off now (em_joinedAt e), si_lastReviewRating = None,
      si_absenceCountLast90d = 0\<rparr>"
  have d: "distinct (map fst ?es)" using assms(2) by (auto simp: tbl_all_def tbl_ids_def distinct_map inj_on_def)
  have "map_of ?es b = Some e" using assms(2-5) by (simp add: tbl_all_def tbl_ids_def tbl_get_def map_of_filtered)
  moreover have "sd_scores t = fold (\<lambda>(i, e) t. score_employee (newId i) now i (?k e) t) ?es (sd_scores s)"
    using assms(1) by (auto simp: recomputeAllActive_def Let_def)
  ultimately have "latest_of b (sd_scores t) = [(newId b, \<lparr>rs_employeeId = b, rs_riskScore = bk_totalScore (?k e), rs_riskBand = bk_riskBand (?k e),
      rs_signals = ?k e, rs_computedAt = now, rs_isLatest = True\<rparr>)]"
    using latest_after_fold[OF d, of b newId now ?k "sd_scores s"] by simp
  then show ?thesis
    by (simp add: computeAttritionRisk_def risk_band_of_def TENURE_THRESHOLD_MONTHS_def TENURE_SIGNAL_WEIGHT_def ABSENCE_THRESHOLD_def Let_def)
qed

section \<open>What a report shows\<close>

text \<open>
  A report shows only columns of its kind, and no pay to others than payroll administrators: whatever the
  stored definition says, also after an update that nobody checked, the columns of a run are on the list of the
  kind of the report, the restricted ones only with the role, and the limit is at most 5000.
\<close>

lemma report_columns_are_safe:
  assumes "run_custom newId ms i user roles s = (Inr v, t)"
  shows "\<exists>r whitelist. tbl_get i (br_reports s) = Some r \<and> map_of FIELD_WHITELIST (cr_entityType r) = Some whitelist
    \<and> set (rw_columns v) \<subseteq> set whitelist
    \<and> (''payroll_admin'' \<in> set roles \<or> cr_entityType r \<noteq> ''PAYROLL''
         \<or> set (rw_columns v) \<inter> {''grossPay'', ''netPay'', ''deductions'', ''taxAmount''} = {})
    \<and> rw_limit v \<le> 5000"
proof -
  obtain r whitelist cols where r: "tbl_get i (br_reports s) = Some r" "map_of FIELD_WHITELIST (cr_entityType r) = Some whitelist"
    "rw_columns v = effective_columns (cr_entityType r) whitelist roles cols" "rw_limit v \<le> MAX_REPORT_ROW_LIMIT"
    using assms by (auto simp: run_custom_def split: option.splits)
  have "set (rw_columns v) \<subseteq> set whitelist" by (auto simp: r(3) effective_columns_def)
  moreover have "set (rw_columns v) \<inter> {''grossPay'', ''netPay'', ''deductions'', ''taxAmount''} = {}"
    if "''payroll_admin'' \<notin> set roles" "cr_entityType r = ''PAYROLL''"
    using that by (auto simp: r(3) effective_columns_def RBAC_RESTRICTED_FIELDS_def listed_def)
  ultimately show ?thesis using r(1,2,4) unfolding MAX_REPORT_ROW_LIMIT_def by blast
qed

end
