(* ===== verification/Spec2Isabelle.thy ===== *)
theory Spec2Isabelle
  imports Payslip_Document Leave_Admin Attendance Careers Auth_Cache Auth_Recovery Auth_Lockout Request_Audit Logged_Requests
    Org_Tree Org_Chart Hiring Equity Bonus Policies Offboarding Onboarding Notification_Wiring Skills Learning
    Certifications Surveys Performance Reports Mss Bulk_Import Integrations Benefits
    Admin_Desk Analytics
begin

text \<open>
  Verification of the HR backend.

  The program is a monorepo: a NestJS backend (\<^verbatim>\<open>apps/api\<close>), a process that bootstraps its queue
  workers (\<^verbatim>\<open>apps/worker\<close>), a web client (\<^verbatim>\<open>apps/web\<close>), the database client with its extensions
  (\<^verbatim>\<open>libs/prisma\<close>) and shared errors and types (\<^verbatim>\<open>libs/shared\<close>). The development models the backend's
  services. A request passes the guards and the audit interceptor, a controller parses its body and calls a
  service; the service reads and writes the tables of one PostgreSQL database through the scoped client, keeps
  tokens and cached permissions in Redis, puts jobs on BullMQ queues and emits events. Workers and handlers of
  events do the rest later. The paths below are relative to \<^verbatim>\<open>apps/api/src/modules/\<close> unless they start
  with \<^verbatim>\<open>apps\<close> or \<^verbatim>\<open>libs\<close>.

  \<^bold>\<open>How the program is represented.\<close> A table is an association list from identifiers to rows
  (\<open>Prelude\<close>), a row a record with the columns the services use, an enumeration of the schema a datatype.
  A service is a function from its arguments and the state of its module, a record of tables, queues, audit
  rows and emitted events, to the new state and a result \<open>app_error + 'a\<close>; every early return and every
  exception is a branch of it. New identifiers and random values are arguments or come from a supply \<open>nat
  \<Rightarrow> id\<close>; the clock is the argument \<open>now\<close>, and the offset of the server's time zone
  is an argument wherever local time is used. Handlers run one after another: the interleaving of two requests
  inside a handler is not modelled, except that the payroll job is split into the phase that reads and the
  transaction that writes. When an exception leaves a handler, the writes before it remain unless they are in
  a transaction; the models keep them likewise.

  \<^bold>\<open>Numbers.\<close> The \<^verbatim>\<open>number\<close> type is modelled as IEEE 754 doubles over the rationals (\<open>JsNumber\<close>), so
  the rounding of amounts is proved and not assumed. Decimal columns are kept in hundredths where a module
  only stores them, and as doubles where it computes; the rounding of a column when it is written is the
  parameter of the locale \<open>decimal_column\<close>. Dates are milliseconds since the epoch with the calendar computed
  (\<open>Calendar\<close>, \<open>Iso_Date\<close>). Strings are ASCII except where a text says otherwise (\<open>Js_String\<close>).

  \<^bold>\<open>Theories.\<close>
  \<^item> Foundations: \<open>Prelude\<close> (errors of \<^verbatim>\<open>libs/shared/src/errors\<close>, outcomes, tables; the locales
    \<open>table_store\<close> and \<open>status_machine\<close>), \<open>JsNumber\<close> (locale \<open>rounding\<close>), \<open>Money\<close>
    (\<^verbatim>\<open>payroll/utils/round2dp.ts\<close>), \<open>Calendar\<close>, \<open>Iso_Date\<close>, \<open>Js_String\<close>, \<open>Staff\<close> (the row of
    an employee), \<open>Audit_Log\<close> (\<^verbatim>\<open>audit/audit.service.ts\<close>), \<open>Encryption\<close>, \<open>Prisma_Scope\<close> (the
    tenant scope and the soft deletion of \<^verbatim>\<open>libs/prisma\<close>), \<open>Redis_Store\<close> (\<^verbatim>\<open>apps/api/src/common/redis\<close>; locale
    \<open>expiring_store\<close>).
  \<^item> Payroll, \<^verbatim>\<open>payroll/\<close>: \<open>Working_Days\<close>, \<open>Payroll_Engine\<close> (the computation of one employee, in
    both implementations), \<open>Formula\<close> (validation, evaluation and the search for circular references),
    \<open>Payroll_Store\<close> (tables and queues), \<open>Salary\<close> (components, structures, salaries),
    \<open>Payroll_Cycle\<close> (requests on cycles, the job of a run, the life cycle), \<open>Bank_File\<close> (bank file and
    payslips), \<open>Payslip_Document\<close> (the document of a payslip).
  \<^item> Import, \<^verbatim>\<open>bulk-import/\<close>: \<open>Csv_Reader\<close> (the reader of CSV files, against the writer of
    \<open>Bank_File\<close>), \<open>Bulk_Import\<close> (the job that hires row by row through \<open>Employees\<close>).
  \<^item> Time: \<open>Holiday\<close>, \<open>Leave\<close> (requests, approvals, accrual, balances), \<open>Leave_Admin\<close> (types, team
    calendar, accrual of a month), \<open>Attendance\<close>.
  \<^item> Access: \<open>Token_Service\<close>, \<open>Accounts\<close> (users, roles, the guards and the permission cache),
    \<open>Auth\<close> (registration, login, recovery), \<open>Access_Control\<close> (roles and users), \<open>Auth_Run\<close> (the
    events of the three controllers and runs of them; locale \<open>auth_invariant\<close>), and the properties of runs in
    \<open>Auth_Safety\<close>, \<open>Auth_Cache\<close>, \<open>Auth_Recovery\<close>, \<open>Auth_Lockout\<close>; \<open>Request_Audit\<close> (the audit
    interceptor) and \<open>Logged_Requests\<close> (the routes of bank accounts and survey forms with the interceptor
    around them).
  \<^item> Organisation and people: \<open>Org\<close>, \<open>Org_Tree\<close>, \<open>Org_Chart\<close> (departments, locations, the chart),
    \<open>Employees\<close> and \<open>Careers\<close> (the service and its history), \<open>Documents\<close>, \<open>Esign\<close>, \<open>Policies\<close>,
    \<open>Onboarding\<close>, \<open>Offboarding\<close>, \<open>Performance\<close> (goals, meetings, improvement plans, review cycles,
    feedback), \<open>Skills\<close>, \<open>Learning\<close>, \<open>Certifications\<close>, \<open>Surveys\<close>, \<open>Mss\<close> (manager self service).
  \<^item> Recruitment: \<open>Recruitment\<close>, \<open>Interviews\<close>, \<open>Offers\<close>, and \<open>Hiring\<close> over runs of all of them.
  \<^item> Compensation: \<open>Equity\<close> (vesting schedules and the cron that vests), \<open>Bonus\<close> (bonus cycles),
    \<open>Benefits\<close> (benefit plans, amounts as texts, recovery of advances).
  \<^item> \<open>Integrations\<close>, \<^verbatim>\<open>integrations/\<close>: keys of the programming interface, webhooks and their
    deliveries, the connection to Slack.
  \<^item> Messages: \<open>Notifications\<close> (preferences, the mail worker, the handlers of events),
    \<open>Notification_Wiring\<close> (which emitted events have a handler).
  \<^item> Administration: \<open>Admin_Desk\<close> (the company and its settings, the pages of the audit log, the monthly
    accrual of all companies), \<open>Analytics\<close> (attrition score, dashboards, reports that users build).
  \<^item> Reports: \<open>Report_Queries\<close> (the SQL of each report against the schema), \<open>Reports\<close> (saved reports,
    schedules, export).

  \<^bold>\<open>What the lemmas show.\<close> Invariants over every sequence of requests: the used days of a leave balance are
  those of its approved requests (while no holiday changes, or when leave stays within a year), payroll
  entries follow the status of their cycle, the filled places of a requisition are its hired applications,
  onboarding follows its tasks, the versions of a document have no gaps, the permission cache agrees with the
  tables after the requests of its three controllers (the removal of an employee leaves it stale), the minutes
  of an attendance log that was never corrected are those between its punches. Functional facts: what a payroll run stores and prints
  to the cent, the vesting schedule, which days a holiday calendar and an absence list have, which employees
  the chart and a policy reach. Equivalences: the search for circular references with the acyclicity of a
  relation, the two payroll implementations with each other, the survey tables under an exchange
  of the senders of forms. Refinement: the token service implements a finite map of sessions. Termination: recursive queries,
  the hourly expiry job. Safety: what the tenant scope adds to a call and what it passes on
  as given, where an account number is hidden and that the log of requests keeps it, as it keeps the senders of
  survey forms (\<open>Logged_Requests\<close>), single use of reset tokens. A number of theorems state that the code does not do what it means to; the
  manifest lists them as findings.

  \<^bold>\<open>Recursion and bounds.\<close> Loops over lists are structural or have a measure: the days of a range, the tokens
  and fields of a text, the batches of the mail and assignment jobs. The search of \<open>Formula\<close> carries fuel:
  the number of components is enough, because each nested call marks a new one
  (\<open>circular_reference_search\<close>). Three loops may run on and are partial functions: the recursive query of
  departments (\<open>parent_chain\<close>), the recursive query and the recursion over the chart (\<open>reporting_tree\<close>,
  \<open>stripDepth\<close>) and the expiry job (\<open>expireStaleRequests\<close>); theorems show that they end, on the states
  that runs can reach. Bounds of hypotheses such as \<open>2 ^ 46\<close> cents are those under which doubles keep two
  decimals; a payroll of that size is far beyond the columns of the schema.

  \<^bold>\<open>Parameters.\<close> Code that is not in the repository is an argument: the parser of formulas
  (\<open>evaluator\<close>), the functions of \<^verbatim>\<open>date-fns\<close> (\<open>datefns_at\<close> states what is documented), hashes, signatures and the
  cipher, the mail transport, the object store (the outcome of an upload), the collation of the database,
  the text of a number, and the database client behind the tenant scope. Hypotheses about them are named and
  each has an instance in a witness.
\<close>

text \<open>
  \<^bold>\<open>Not modelled.\<close> The web client is user interface. Controllers and the schemas of their bodies only parse
  and delegate; a handler takes the values the schema accepts, and a bound or default that matters is a
  hypothesis or part of the model. The bootstrap of the processes, their configuration, logging, telemetry,
  health checks and API documentation change no state of the program. The clients of the object store, the
  mail server and the queue are wrappers of libraries. The layout and rendering of documents is the business
  of the PDF and workbook libraries; the models stop at the tables and texts they are given. Test helpers,
  factories and seeds of demonstration data are not part of the program.
\<close>

end
